(* ===== verification/PyResult.thy ===== *)
theory PyResult
  imports Main
begin

section \<open>Results, raised errors and keyed rows\<close>

text \<open>
  The prelude of the development: what a Python call of this repository can end
  with (a value or a raised exception), sequencing of such calls, and the keyed rows
  that stand for the SQLite tables of the paper plane. The named collection
  \<open>result_simps\<close> holds the rules that take a successful sequence of calls apart.
\<close>

named_theorems result_simps

subsection \<open>Raised errors\<close>

text \<open>
  One constructor per exception class the modelled code raises; the string is the
  canonical code the class carries. \<open>DecimalInvalid\<close>, \<open>DecimalDivByZero\<close> and the other
  nullary constructors are exceptions of the language and its standard library.
\<close>

datatype py_error =
    PaperPlaneError string
  | TradingRuntimePolicyError string
  | PumpEventDecodeError string
  | PumpEventContractError string
  | PumpSwapDecodeError string
  | PumpSwapContractError string
  | PumpSwapProjectionError string
  | ValidationError string
  | PyUnicodeEncodeError
  | DecimalInvalid
  | DecimalDivByZero
  | PyValueError
  | PyTypeError
  | PyKeyError
  | PyAssertionError
  | SqliteIntegrityError
  | SqliteReadonlyError
  | ClockSleepRequiredError string
  | PyOverflowError
  | PyRecursionError
  | PyAttributeError
  | ObservationScheduleStoreError string

type_synonym 'a res = "py_error + 'a"

text \<open>Sequencing: the second call runs only when the first one returned.\<close>

definition bindR :: "'a res \<Rightarrow> ('a \<Rightarrow> 'b res) \<Rightarrow> 'b res" where
  "bindR m f = (case m of Inl e \<Rightarrow> Inl e | Inr x \<Rightarrow> f x)"

lemma bindR_simps [simp]:
  "bindR (Inl e) f = Inl e"
  "bindR (Inr x) f = f x"
  by (simp_all add: bindR_def)

lemma bindR_eq_Inr [result_simps]:
  "bindR m f = Inr y \<longleftrightarrow> (\<exists>x. m = Inr x \<and> f x = Inr y)"
  by (cases m) auto

lemma bindR_pair_eq_Inr:
  "bindR m (\<lambda>(x, y). f x y) = Inr z \<longleftrightarrow> (\<exists>x y. m = Inr (x, y) \<and> f x y = Inr z)"
  by (cases m) auto

lemma bindR_eq_Inl:
  "bindR m f = Inl e \<longleftrightarrow> m = Inl e \<or> (\<exists>x. m = Inr x \<and> f x = Inl e)"
  by (cases m) auto

lemma bindR_assoc: "bindR (bindR m f) g = bindR m (\<lambda>x. bindR (f x) g)"
  by (cases m) auto

lemma bindR_cong [fundef_cong]:
  "m = m' \<Longrightarrow> (\<And>x. m' = Inr x \<Longrightarrow> f x = f' x) \<Longrightarrow> bindR m f = bindR m' f'"
  by (cases m') auto

text \<open>Whether a call returned.\<close>

definition returned :: "'a res \<Rightarrow> bool" where
  "returned r = (case r of Inl e \<Rightarrow> False | Inr x \<Rightarrow> True)"

lemma returned_iff: "returned r \<longleftrightarrow> (\<exists>x. r = Inr x)"
  by (cases r) (simp_all add: returned_def)

text \<open>\<open>if not ok: raise e\<close>.\<close>

definition guardR :: "bool \<Rightarrow> py_error \<Rightarrow> unit res" where
  "guardR ok e = (if ok then Inr () else Inl e)"

lemma guardR_simps [simp]:
  "guardR True e = Inr ()"
  "guardR False e = Inl e"
  by (simp_all add: guardR_def)

lemma guardR_eq_Inr [result_simps]: "guardR ok e = Inr u \<longleftrightarrow> ok"
  by (simp add: guardR_def)

lemma guardR_eq_Inl: "guardR ok e = Inl e' \<longleftrightarrow> \<not> ok \<and> e' = e"
  by (auto simp: guardR_def)

lemma if_Inl_eq_Inr [result_simps]:
  "(if c then Inl e else m) = Inr y \<longleftrightarrow> \<not> c \<and> m = Inr y"
  "(if c then m else Inl e) = Inr y \<longleftrightarrow> c \<and> m = Inr y"
  by auto

lemma case_option_Inl_eq_Inr [result_simps]:
  "(case a of None \<Rightarrow> Inl e | Some x \<Rightarrow> f x) = Inr y \<longleftrightarrow> (\<exists>x. a = Some x \<and> f x = Inr y)"
  by (cases a) auto

text \<open>Evaluating a list of calls from left to right, the first error winning.\<close>

fun mapR :: "('a \<Rightarrow> 'b res) \<Rightarrow> 'a list \<Rightarrow> 'b list res" where
  "mapR f [] = Inr []"
| "mapR f (x # xs) = bindR (f x) (\<lambda>y. bindR (mapR f xs) (\<lambda>ys. Inr (y # ys)))"

lemma mapR_length: "mapR f xs = Inr ys \<Longrightarrow> length ys = length xs"
  by (induction xs arbitrary: ys) (auto simp: bindR_eq_Inr)

lemma mapR_all_Inr: "(\<And>x. x \<in> set xs \<Longrightarrow> f x = Inr (g x)) \<Longrightarrow> mapR f xs = Inr (map g xs)"
  by (induction xs) auto

subsection \<open>Keyed rows\<close>

text \<open>
  A table with a primary key: the rows in insertion (rowid) order. \<open>SELECT ... WHERE key = ?\<close>
  reads the row, \<open>UPDATE ... WHERE key = ?\<close> rewrites it and keeps its place.
\<close>

fun rows_get :: "('r \<Rightarrow> 'k) \<Rightarrow> 'k \<Rightarrow> 'r list \<Rightarrow> 'r option" where
  "rows_get key k [] = None"
| "rows_get key k (r # rs) = (if key r = k then Some r else rows_get key k rs)"

definition rows_upd :: "('r \<Rightarrow> 'k) \<Rightarrow> 'k \<Rightarrow> ('r \<Rightarrow> 'r) \<Rightarrow> 'r list \<Rightarrow> 'r list" where
  "rows_upd key k f rs = map (\<lambda>r. if key r = k then f r else r) rs"

lemma rows_get_Some:
  "rows_get key k rs = Some r \<Longrightarrow> r \<in> set rs \<and> key r = k"
proof (induction rs)
  case (Cons a rs)
  show ?case
  proof (cases "key a = k")
    case True
    with Cons.prems have "a = r" by simp
    with True show ?thesis by simp
  next
    case False
    with Cons.prems have "rows_get key k rs = Some r" by simp
    from Cons.IH [OF this] have "r \<in> set rs" and "key r = k" by blast+
    then show ?thesis by (metis list.set_intros(2))
  qed
qed simp

lemma rows_get_key: "rows_get key k rs = Some r \<Longrightarrow> key r = k"
  by (blast dest: rows_get_Some)

lemma rows_get_None: "rows_get key k rs = None \<longleftrightarrow> k \<notin> key ` set rs"
  by (induction rs) auto

lemma rows_get_append:
  "rows_get key k (rs @ rs') = (case rows_get key k rs of None \<Rightarrow> rows_get key k rs' | Some r \<Rightarrow> Some r)"
  by (induction rs) (simp_all split: option.split)

lemma rows_get_ins:
  assumes "rows_get key (key r) rs = None"
  shows "rows_get key k (rs @ [r]) = (if k = key r then Some r else rows_get key k rs)"
proof (cases "k = key r")
  case True
  then show ?thesis using assms by (simp add: rows_get_append)
next
  case False
  then have "rows_get key k [r] = None" by auto
  with False show ?thesis unfolding rows_get_append by (simp split: option.split)
qed

lemma rows_get_upd:
  assumes "\<And>r. key (f r) = key r"
  shows "rows_get key k (rows_upd key k' f rs) =
    (if k = k' then map_option f (rows_get key k rs) else rows_get key k rs)"
proof (induction rs)
  case (Cons a rs)
  then show ?case
    by (cases "key a = k"; cases "key a = k'"; cases "k = k'") (simp_all add: rows_upd_def assms)
qed (simp add: rows_upd_def)

lemma rows_upd_keys:
  assumes "\<And>r. key (f r) = key r"
  shows "map key (rows_upd key k f rs) = map key rs"
  by (simp add: rows_upd_def assms)

lemma rows_upd_absent: "k \<notin> key ` set rs \<Longrightarrow> rows_upd key k f rs = rs"
  unfolding rows_upd_def by (induction rs) auto

lemma rows_upd_id: "(\<And>r. r \<in> set rs \<Longrightarrow> key r = k \<Longrightarrow> f r = r) \<Longrightarrow> rows_upd key k f rs = rs"
  unfolding rows_upd_def by (induction rs) auto

text \<open>
  The interface the operations of the store are proved over: reading after a rewrite and
  after an insertion of a fresh row, for any table of the store.
\<close>

locale row_table =
  fixes get :: "'k \<Rightarrow> 's \<Rightarrow> 'r option"
    and upd :: "'k \<Rightarrow> ('r \<Rightarrow> 'r) \<Rightarrow> 's \<Rightarrow> 's"
    and ins :: "'r \<Rightarrow> 's \<Rightarrow> 's"
    and key :: "'r \<Rightarrow> 'k"
  assumes get_upd: "(\<And>r. key (f r) = key r) \<Longrightarrow>
      get k (upd k' f s) = (if k = k' then map_option f (get k s) else get k s)"
    and get_ins: "get (key r) s = None \<Longrightarrow>
      get k (ins r s) = (if k = key r then Some r else get k s)"
    and get_key: "get k s = Some r \<Longrightarrow> key r = k"
begin

lemma get_upd_same:
  "(\<And>r. key (f r) = key r) \<Longrightarrow> get k s = Some r \<Longrightarrow> get k (upd k f s) = Some (f r)"
  by (simp add: get_upd)

lemma get_upd_other:
  "(\<And>r. key (f r) = key r) \<Longrightarrow> k \<noteq> k' \<Longrightarrow> get k (upd k' f s) = get k s"
  by (simp add: get_upd)

lemma get_upd_None:
  "(\<And>r. key (f r) = key r) \<Longrightarrow> get k (upd k' f s) = None \<longleftrightarrow> get k s = None"
  by (simp add: get_upd)

lemma get_upd_upd:
  assumes "\<And>r. key (f r) = key r" and "\<And>r. key (g r) = key r"
  shows "get k' (upd k g (upd k f s)) = get k' (upd k (g \<circ> f) s)"
proof -
  have "\<And>r. key ((g \<circ> f) r) = key r" using assms by simp
  then show ?thesis using assms by (simp add: get_upd option.map_comp)
qed

lemma get_ins_old:
  "get (key r) s = None \<Longrightarrow> get k s = Some r' \<Longrightarrow> get k (ins r s) = Some r'"
  by (auto simp: get_ins)

end

end
