(* ===== verification/PyDecimal.thy ===== *)
theory PyDecimal
  imports Complex_Main PyResult
begin

section \<open>The standard library's Decimal\<close>

text \<open>
  What the code uses of Python's \<open>decimal\<close>: numbers as sign, coefficient and exponent,
  infinities and NaNs, the default context (28 significant digits, ROUND_HALF_EVEN) for
  \<open>+\<close>, \<open>-\<close>, \<open>*\<close>, \<open>/\<close>, \<open>quantize(..., ROUND_HALF_UP)\<close>, comparison, \<open>Decimal(str)\<close> and
  \<open>format(x, 'f')\<close>. The context's exponent limits (999999 and -999999) are not modelled:
  every amount of the program is far inside them; the diagnostic digits and the sign of a NaN
  are dropped, and text is ASCII.
\<close>

datatype decimal = Fin bool nat int | Infinity bool | NaN bool

text \<open>\<open>NaN True\<close> is the signalling NaN. A decimal operation raises or returns.\<close>

subsection \<open>Digits\<close>

fun num_digits :: "nat \<Rightarrow> nat" where
  "num_digits n = (if n < 10 then 1 else Suc (num_digits (n div 10)))"

declare num_digits.simps [simp del]

definition dec_prec :: nat where
  "dec_prec = 28"

lemma num_digits_pos: "0 < num_digits n"
  by (subst num_digits.simps) simp

lemma num_digits_le: "0 < k \<Longrightarrow> num_digits n \<le> k \<longleftrightarrow> n < 10 ^ k"
proof (induction n arbitrary: k rule: num_digits.induct)
  case (1 n)
  obtain j where k: "k = Suc j" using "1.prems" by (cases k) auto
  show ?case
  proof (cases "n < 10")
    case True
    have "(10::nat) ^ 1 \<le> 10 ^ k" using k by (intro power_increasing) auto
    with True have "n < 10 ^ k" by simp
    with True show ?thesis using k by (subst num_digits.simps) simp
  next
    case False
    note big = this
    show ?thesis
    proof (cases "j = 0")
      case True
      with big k show ?thesis
        using num_digits_pos [of "n div 10"] by (subst num_digits.simps) auto
    next
      case False
      then have "num_digits (n div 10) \<le> j \<longleftrightarrow> n div 10 < 10 ^ j"
        using "1.IH" big by simp
      also have "\<dots> \<longleftrightarrow> n < 10 ^ k"
        using k by (simp add: div_less_iff_less_mult mult.commute)
      finally show ?thesis using big k by (subst num_digits.simps) simp
    qed
  qed
qed

lemma num_digits_mono: "m \<le> n \<Longrightarrow> num_digits m \<le> num_digits n"
  using num_digits_le [of "num_digits n" n] num_digits_le [of "num_digits n" m] num_digits_pos
  by force

lemma num_digits_lower: "10 \<le> n \<Longrightarrow> 10 ^ (num_digits n - 1) \<le> n"
proof -
  assume n: "10 \<le> n"
  then have "1 < num_digits n"
    using num_digits_pos [of "n div 10"] by (subst num_digits.simps) simp
  then show ?thesis using num_digits_le [of "num_digits n - 1" n] by force
qed

subsection \<open>Rounding\<close>

definition drop_half_even :: "nat \<Rightarrow> nat \<Rightarrow> nat" where
  "drop_half_even c k =
     (let m = 10 ^ k; q = c div m; r = c mod m
      in if m < 2 * r \<or> (2 * r = m \<and> odd q) then q + 1 else q)"

definition drop_half_up :: "nat \<Rightarrow> nat \<Rightarrow> nat" where
  "drop_half_up c k =
     (let m = 10 ^ k in if m \<le> 2 * (c mod m) then c div m + 1 else c div m)"

text \<open>Rounding a result to the context's precision.\<close>

definition fix_prec :: "bool \<Rightarrow> nat \<Rightarrow> int \<Rightarrow> decimal" where
  "fix_prec s c e =
     (if num_digits c \<le> dec_prec then Fin s c e
      else let k = num_digits c - dec_prec; c' = drop_half_even c k
           in if dec_prec < num_digits c' then Fin s (c' div 10) (e + int k + 1)
              else Fin s c' (e + int k))"

lemma fix_prec_exact: "c < 10 ^ 28 \<Longrightarrow> fix_prec s c e = Fin s c e"
  by (simp add: fix_prec_def dec_prec_def num_digits_le)

subsection \<open>Arithmetic\<close>

definition signed :: "bool \<Rightarrow> nat \<Rightarrow> int" where
  "signed s c = (if s then - int c else int c)"

definition scaled :: "bool \<Rightarrow> nat \<Rightarrow> int \<Rightarrow> int \<Rightarrow> int" where
  "scaled s c e e0 = signed s c * 10 ^ nat (e - e0)"

fun dec_neg :: "decimal \<Rightarrow> decimal" where
  "dec_neg (Fin s c e) = Fin (\<not> s) c e"
| "dec_neg (Infinity s) = Infinity (\<not> s)"
| "dec_neg (NaN g) = NaN g"

fun dec_is_finite :: "decimal \<Rightarrow> bool" where
  "dec_is_finite (Fin s c e) = True"
| "dec_is_finite _ = False"

fun dec_add :: "decimal \<Rightarrow> decimal \<Rightarrow> decimal res" where
  "dec_add (NaN g) y = (if g \<or> y = NaN True then Inl DecimalInvalid else Inr (NaN False))"
| "dec_add x (NaN g) = (if g then Inl DecimalInvalid else Inr (NaN False))"
| "dec_add (Infinity s) (Infinity t) = (if s = t then Inr (Infinity s) else Inl DecimalInvalid)"
| "dec_add (Infinity s) (Fin _ _ _) = Inr (Infinity s)"
| "dec_add (Fin _ _ _) (Infinity s) = Inr (Infinity s)"
| "dec_add (Fin s c e) (Fin s' c' e') =
     (let e0 = min e e'; v = scaled s c e e0 + scaled s' c' e' e0
      in Inr (fix_prec (if v = 0 then s \<and> s' else v < 0) (nat \<bar>v\<bar>) e0))"

definition dec_sub :: "decimal \<Rightarrow> decimal \<Rightarrow> decimal res" where
  "dec_sub x y = dec_add x (dec_neg y)"

fun dec_mul :: "decimal \<Rightarrow> decimal \<Rightarrow> decimal res" where
  "dec_mul (NaN g) y = (if g \<or> y = NaN True then Inl DecimalInvalid else Inr (NaN False))"
| "dec_mul x (NaN g) = (if g then Inl DecimalInvalid else Inr (NaN False))"
| "dec_mul (Infinity s) (Infinity t) = Inr (Infinity (s \<noteq> t))"
| "dec_mul (Infinity s) (Fin t c e) = (if c = 0 then Inl DecimalInvalid else Inr (Infinity (s \<noteq> t)))"
| "dec_mul (Fin t c e) (Infinity s) = (if c = 0 then Inl DecimalInvalid else Inr (Infinity (s \<noteq> t)))"
| "dec_mul (Fin s c e) (Fin s' c' e') = Inr (fix_prec (s \<noteq> s') (c * c') (e + e'))"

text \<open>
  Division: a quotient with at least 29 digits, its last digit marked when the division left a
  remainder; an exact quotient loses trailing zeros down to the ideal exponent.
\<close>

function strip_zeros :: "nat \<Rightarrow> int \<Rightarrow> int \<Rightarrow> nat \<times> int" where
  "strip_zeros c e ideal =
     (if e < ideal \<and> c mod 10 = 0 then strip_zeros (c div 10) (e + 1) ideal else (c, e))"
  by pat_completeness auto
termination
  by (relation "measure (\<lambda>(c, e, ideal). nat (ideal - e))") auto

declare strip_zeros.simps [simp del]

definition dec_div_fin :: "bool \<Rightarrow> nat \<Rightarrow> int \<Rightarrow> nat \<Rightarrow> int \<Rightarrow> decimal" where
  "dec_div_fin s c e c' e' =
     (let shift = int (num_digits c') - int (num_digits c) + int dec_prec + 1;
          ex = e - e' - shift;
          n = (if 0 \<le> shift then c * 10 ^ nat shift else c);
          d = (if 0 \<le> shift then c' else c' * 10 ^ nat (- shift));
          q = n div d
      in if n mod d \<noteq> 0 then fix_prec s (if q mod 5 = 0 then q + 1 else q) ex
         else let (q', ex') = strip_zeros q ex (e - e') in fix_prec s q' ex')"

fun dec_div :: "decimal \<Rightarrow> decimal \<Rightarrow> decimal res" where
  "dec_div (NaN g) y = (if g \<or> y = NaN True then Inl DecimalInvalid else Inr (NaN False))"
| "dec_div x (NaN g) = (if g then Inl DecimalInvalid else Inr (NaN False))"
| "dec_div (Infinity s) (Infinity t) = Inl DecimalInvalid"
| "dec_div (Infinity s) (Fin t c e) = Inr (Infinity (s \<noteq> t))"
| "dec_div (Fin t c e) (Infinity s) = Inr (Fin (s \<noteq> t) 0 (- 1000026))"
| "dec_div (Fin s c e) (Fin s' c' e') =
     (if c' = 0 then (if c = 0 then Inl DecimalInvalid else Inl DecimalDivByZero)
      else if c = 0 then Inr (Fin (s \<noteq> s') 0 (e - e'))
      else Inr (dec_div_fin (s \<noteq> s') c e c' e'))"

text \<open>\<open>x.quantize(Decimal((0, (1,), q)), rounding=ROUND_HALF_UP)\<close>.\<close>

fun dec_quantize :: "int \<Rightarrow> decimal \<Rightarrow> decimal res" where
  "dec_quantize q (NaN g) = (if g then Inl DecimalInvalid else Inr (NaN False))"
| "dec_quantize q (Infinity s) = Inl DecimalInvalid"
| "dec_quantize q (Fin s c e) =
     (if c = 0 then Inr (Fin s 0 q)
      else if int dec_prec < e + int (num_digits c) - q then Inl DecimalInvalid
      else let c' = (if q \<le> e then c * 10 ^ nat (e - q) else drop_half_up c (nat (q - e)))
           in if dec_prec < num_digits c' then Inl DecimalInvalid else Inr (Fin s c' q))"

subsection \<open>Comparison\<close>

text \<open>
  \<open>==\<close> does not raise on a quiet NaN and is False there; \<open><\<close> raises on any NaN.
\<close>

fun dec_eq :: "decimal \<Rightarrow> decimal \<Rightarrow> bool" where
  "dec_eq (Fin s c e) (Fin s' c' e') =
     (let e0 = min e e' in scaled s c e e0 = scaled s' c' e' e0)"
| "dec_eq (Infinity s) (Infinity t) = (s = t)"
| "dec_eq _ _ = False"

text \<open>\<open>==\<close> as it runs: it raises on a signalling NaN.\<close>

definition py_dec_eq :: "decimal \<Rightarrow> decimal \<Rightarrow> bool res" where
  "py_dec_eq x y = (if x = NaN True \<or> y = NaN True then Inl DecimalInvalid else Inr (dec_eq x y))"

lemma py_dec_eq_finite [simp]:
  "dec_is_finite x \<Longrightarrow> dec_is_finite y \<Longrightarrow> py_dec_eq x y = Inr (dec_eq x y)"
  by (cases x; cases y) (simp_all add: py_dec_eq_def)

fun dec_less :: "decimal \<Rightarrow> decimal \<Rightarrow> bool" where
  "dec_less (Fin s c e) (Fin s' c' e') =
     (let e0 = min e e' in scaled s c e e0 < scaled s' c' e' e0)"
| "dec_less (Infinity s) (Infinity t) = (s \<and> \<not> t)"
| "dec_less (Infinity s) (Fin _ _ _) = s"
| "dec_less (Fin _ _ _) (Infinity t) = (\<not> t)"
| "dec_less _ _ = False"

definition dec_lt :: "decimal \<Rightarrow> decimal \<Rightarrow> bool res" where
  "dec_lt x y = (if (\<exists>g\<in>{True, False}. x = NaN g \<or> y = NaN g) then Inl DecimalInvalid
                 else Inr (dec_less x y))"

definition dec_zero :: decimal where
  "dec_zero = Fin False 0 0"

definition dec_of_int :: "int \<Rightarrow> decimal" where
  "dec_of_int i = Fin (i < 0) (nat \<bar>i\<bar>) 0"


text \<open>\<open><=\<close>, as \<open><\<close>, raises on any NaN.\<close>

definition dec_le :: "decimal \<Rightarrow> decimal \<Rightarrow> bool res" where
  "dec_le x y = (if (\<exists>g\<in>{True, False}. x = NaN g \<or> y = NaN g) then Inl DecimalInvalid
                 else Inr (dec_less x y \<or> dec_eq x y))"

subsection \<open>The value of a number\<close>

fun dval :: "decimal \<Rightarrow> rat" where
  "dval (Fin s c e) = of_int (signed s c) * 10 powi e"
| "dval _ = 0"

fun dexp :: "decimal \<Rightarrow> int" where
  "dexp (Fin s c e) = e"
| "dexp _ = 0"

lemma dec_is_finite_cases:
  assumes "dec_is_finite x" obtains s c e where "x = Fin s c e"
  using assms by (cases x) auto

lemma ten_powi_pos: "0 < (10::rat) powi e"
  by (simp add: power_int_def)

lemma ten_powi_split: "e0 \<le> e \<Longrightarrow> (10::rat) powi e = 10 ^ nat (e - e0) * 10 powi e0"
proof -
  assume "e0 \<le> e"
  then have "e = int (nat (e - e0)) + e0" by simp
  moreover have "(10::rat) powi (int n + e0) = 10 ^ n * 10 powi e0" for n
    by (subst power_int_add) auto
  ultimately show ?thesis by metis
qed

lemma scaled_dval: "e0 \<le> e \<Longrightarrow> of_int (scaled s c e e0) * 10 powi e0 = dval (Fin s c e)"
  by (simp add: scaled_def ten_powi_split [of e0 e] mult.assoc)

lemma dval_dec_neg [simp]: "dval (dec_neg x) = - dval x"
  by (cases x) (auto simp: signed_def)

lemma dexp_dec_neg [simp]: "dexp (dec_neg x) = dexp x"
  by (cases x) auto

lemma finite_dec_neg [simp]: "dec_is_finite (dec_neg x) = dec_is_finite x"
  by (cases x) auto

lemma signed_nat_abs: "v \<noteq> 0 \<Longrightarrow> signed (v < 0) (nat \<bar>v\<bar>) = v"
  by (auto simp: signed_def)

lemma coeff_small:
  assumes "\<bar>of_int (signed s c) * 10 powi e\<bar> < (10::rat) powi (28 - k)" and "- k \<le> e"
  shows "c < 10 ^ 28"
proof -
  have "\<bar>of_int (signed s c) * 10 powi e\<bar> < (10::rat) powi (28 - k)" by (rule assms(1))
  also have "\<dots> \<le> (10::rat) powi (28 + e)"
    using assms(2) by (intro power_int_increasing) auto
  also have "\<dots> = 10 ^ 28 * 10 powi e" by (subst power_int_add) auto
  finally have "\<bar>of_int (signed s c) * 10 powi e\<bar> < (10::rat) ^ 28 * 10 powi e" .
  moreover have "\<bar>of_int (signed s c) * 10 powi e\<bar> = of_nat c * (10::rat) powi e"
    by (simp add: signed_def abs_mult)
  ultimately have "of_nat c * 10 powi e < (10::rat) ^ 28 * 10 powi e" by simp
  then have "of_nat c < (10::rat) ^ 28" using ten_powi_pos [of e] by simp
  then show "c < 10 ^ 28" by (metis of_nat_less_iff of_nat_numeral of_nat_power)
qed

lemma fix_prec_exact_val:
  assumes "\<bar>of_int (signed s c) * 10 powi e\<bar> < (10::rat) powi (28 - k)" and "- k \<le> e"
  shows "fix_prec s c e = Fin s c e"
  using coeff_small [OF assms] by (rule fix_prec_exact)

text \<open>
  Sums and products are exact as long as the operands have at most \<open>k\<close> decimals and the result
  stays below \<open>10 ^ (28 - k)\<close>: rounding to the context's 28 digits cannot happen.
\<close>

lemma dec_add_exact:
  assumes "dec_is_finite x" and "dec_is_finite y" and "- k \<le> dexp x" and "- k \<le> dexp y"
    and "\<bar>dval x + dval y\<bar> < 10 powi (28 - k)"
  obtains z where "dec_add x y = Inr z" and "dec_is_finite z" and "dval z = dval x + dval y"
    and "dexp z = min (dexp x) (dexp y)"
proof -
  obtain s c e where x: "x = Fin s c e" using assms(1) by (rule dec_is_finite_cases)
  obtain s' c' e' where y: "y = Fin s' c' e'" using assms(2) by (rule dec_is_finite_cases)
  let ?e0 = "min e e'"
  define v where "v = scaled s c e ?e0 + scaled s' c' e' ?e0"
  have val: "of_int v * 10 powi ?e0 = dval x + dval y"
    by (simp add: v_def x y distrib_right scaled_dval del: dval.simps)
  have sg: "signed (if v = 0 then b else v < 0) (nat \<bar>v\<bar>) = v" for b
    by (cases "v = 0") (auto simp: signed_def)
  define z where "z = Fin (if v = 0 then s \<and> s' else v < 0) (nat \<bar>v\<bar>) ?e0"
  have "fix_prec (if v = 0 then s \<and> s' else v < 0) (nat \<bar>v\<bar>) ?e0 = z"
    unfolding z_def using assms(3-5) val
    by (intro fix_prec_exact_val [where k = k]) (simp_all only: sg val, simp_all add: x y)
  then have "dec_add x y = Inr z" unfolding x y v_def by (simp only: dec_add.simps Let_def)
  moreover have "dval z = dval x + dval y" unfolding z_def dval.simps sg val ..
  ultimately show thesis using that by (simp add: z_def x y)
qed

lemma dec_sub_exact:
  assumes "dec_is_finite x" and "dec_is_finite y" and "- k \<le> dexp x" and "- k \<le> dexp y"
    and "\<bar>dval x - dval y\<bar> < 10 powi (28 - k)"
  obtains z where "dec_sub x y = Inr z" and "dec_is_finite z" and "dval z = dval x - dval y"
    and "dexp z = min (dexp x) (dexp y)"
  using dec_add_exact [of x "dec_neg y" k] assms unfolding dec_sub_def by auto

lemma dec_mul_exact:
  assumes "dec_is_finite x" and "dec_is_finite y" and "- k \<le> dexp x + dexp y"
    and "\<bar>dval x * dval y\<bar> < 10 powi (28 - k)"
  obtains z where "dec_mul x y = Inr z" and "dec_is_finite z" and "dval z = dval x * dval y"
    and "dexp z = dexp x + dexp y"
proof -
  obtain s c e where x: "x = Fin s c e" using assms(1) by (rule dec_is_finite_cases)
  obtain s' c' e' where y: "y = Fin s' c' e'" using assms(2) by (rule dec_is_finite_cases)
  have pw: "(10::rat) powi (e + e') = 10 powi e * 10 powi e'" by (subst power_int_add) auto
  have sg: "signed (s \<noteq> s') (c * c') = signed s c * signed s' c'" by (auto simp: signed_def)
  have val: "of_int (signed (s \<noteq> s') (c * c')) * 10 powi (e + e') = dval x * dval y"
    unfolding sg pw x y by simp
  have "fix_prec (s \<noteq> s') (c * c') (e + e') = Fin (s \<noteq> s') (c * c') (e + e')"
    using assms(3,4) by (intro fix_prec_exact_val [where k = k]) (simp_all only: val, simp add: x y)
  then have "dec_mul x y = Inr (Fin (s \<noteq> s') (c * c') (e + e'))" by (simp add: x y)
  moreover have "dval (Fin (s \<noteq> s') (c * c') (e + e')) = dval x * dval y" using val by simp
  ultimately show thesis using that by (simp add: x y)
qed

lemma scaled_less_iff:
  assumes "e0 \<le> e" and "e0 \<le> e'"
  shows "scaled s c e e0 < scaled s' c' e' e0 \<longleftrightarrow> dval (Fin s c e) < dval (Fin s' c' e')"
  using scaled_dval [OF assms(1), of s c] scaled_dval [OF assms(2), of s' c'] ten_powi_pos [of e0]
  by (metis mult_less_cancel_right_pos of_int_less_iff)

lemma scaled_eq_iff:
  assumes "e0 \<le> e" and "e0 \<le> e'"
  shows "scaled s c e e0 = scaled s' c' e' e0 \<longleftrightarrow> dval (Fin s c e) = dval (Fin s' c' e')"
  using scaled_dval [OF assms(1), of s c] scaled_dval [OF assms(2), of s' c'] ten_powi_pos [of e0]
  by (metis less_irrefl mult_cancel_right of_int_eq_iff)

lemma dec_less_dval:
  "dec_is_finite x \<Longrightarrow> dec_is_finite y \<Longrightarrow> dec_less x y \<longleftrightarrow> dval x < dval y"
  by (cases x; cases y) (auto simp: Let_def scaled_less_iff simp del: dval.simps)

lemma dec_eq_dval:
  "dec_is_finite x \<Longrightarrow> dec_is_finite y \<Longrightarrow> dec_eq x y \<longleftrightarrow> dval x = dval y"
  by (cases x; cases y) (auto simp: Let_def scaled_eq_iff simp del: dval.simps)

lemma dec_lt_dval:
  "dec_is_finite x \<Longrightarrow> dec_is_finite y \<Longrightarrow> dec_lt x y = Inr (dval x < dval y)"
  using dec_less_dval [of x y] by (cases x; cases y) (simp_all add: dec_lt_def del: dval.simps)

lemma dec_le_dval:
  "dec_is_finite x \<Longrightarrow> dec_is_finite y \<Longrightarrow> dec_le x y = Inr (dval x \<le> dval y)"
  using dec_less_dval [of x y] dec_eq_dval [of x y]
  by (cases x; cases y) (auto simp add: dec_le_def simp del: dval.simps)

subsection \<open>Finite operands give finite results\<close>

lemma fix_prec_finite [simp]: "dec_is_finite (fix_prec s c e)"
  by (simp add: fix_prec_def Let_def)

lemma dec_add_finite:
  "dec_add x y = Inr z \<Longrightarrow> dec_is_finite x \<Longrightarrow> dec_is_finite y \<Longrightarrow> dec_is_finite z"
  by (cases x; cases y) (auto simp: Let_def)

lemma dec_sub_finite:
  "dec_sub x y = Inr z \<Longrightarrow> dec_is_finite x \<Longrightarrow> dec_is_finite y \<Longrightarrow> dec_is_finite z"
  by (simp add: dec_sub_def dec_add_finite)

lemma dec_mul_finite:
  "dec_mul x y = Inr z \<Longrightarrow> dec_is_finite x \<Longrightarrow> dec_is_finite y \<Longrightarrow> dec_is_finite z"
  by (cases x; cases y) auto

lemma dec_div_finite:
  "dec_div x y = Inr z \<Longrightarrow> dec_is_finite x \<Longrightarrow> dec_is_finite y \<Longrightarrow> dec_is_finite z"
  by (cases x; cases y) (auto simp: dec_div_fin_def Let_def split: if_splits prod.splits)

subsection \<open>What quantize does to the value\<close>

lemma drop_half_up_bound:
  "2 * \<bar>int (drop_half_up c k) * 10 ^ k - int c\<bar> \<le> 10 ^ k"
proof -
  let ?m = "10 ^ k :: nat"
  have c: "int c = int (c div ?m) * int ?m + int (c mod ?m)"
    by (metis div_mult_mod_eq of_nat_add of_nat_mult)
  have r: "c mod ?m < ?m" by simp
  show ?thesis
  proof (cases "?m \<le> 2 * (c mod ?m)")
    case True
    then have "int (drop_half_up c k) * 10 ^ k - int c = int ?m - int (c mod ?m)"
      using c by (simp add: drop_half_up_def Let_def algebra_simps)
    moreover have "int ?m \<le> 2 * int (c mod ?m)" using True by linarith
    moreover have "int (c mod ?m) < int ?m" using r by linarith
    ultimately show ?thesis by simp
  next
    case False
    then have "int (drop_half_up c k) * 10 ^ k - int c = - int (c mod ?m)"
      using c by (simp add: drop_half_up_def Let_def algebra_simps)
    moreover have "2 * int (c mod ?m) < int ?m" using False by linarith
    ultimately show ?thesis by simp
  qed
qed

lemma dval_scale: "dval (Fin s (c * 10 ^ nat (e - q)) q) = dval (Fin s c e)" if "q \<le> e"
  using ten_powi_split [OF that] by (simp add: signed_def)

lemma dec_quantize_value:
  assumes "dec_quantize q x = Inr y" and "dec_is_finite x"
  shows "dec_is_finite y" and "dexp y = q" and "2 * \<bar>dval y - dval x\<bar> \<le> 10 powi q"
    and "q \<le> dexp x \<Longrightarrow> dval y = dval x"
proof -
  obtain s c e where x: "x = Fin s c e" using assms(2) by (rule dec_is_finite_cases)
  have main: "dec_is_finite y \<and> dexp y = q \<and> 2 * \<bar>dval y - dval x\<bar> \<le> 10 powi q
      \<and> (q \<le> dexp x \<longrightarrow> dval y = dval x)"
  proof (cases "c = 0")
    case True
    then show ?thesis using assms(1) ten_powi_pos [of q] by (auto simp: x signed_def)
  next
    case c: False
    show ?thesis
    proof (cases "q \<le> e")
      case True
      then have "y = Fin s (c * 10 ^ nat (e - q)) q"
        using assms(1) c by (auto simp: x Let_def split: if_splits)
      then show ?thesis using dval_scale [OF True] ten_powi_pos [of q]
        by (simp only: x dec_is_finite.simps dexp.simps) simp
    next
      case False
      define k where "k = nat (q - e)"
      have y: "y = Fin s (drop_half_up c k) q"
        using assms(1) c False by (auto simp: x k_def Let_def split: if_splits)
      have p: "(10::rat) powi q = 10 ^ k * 10 powi e"
        using ten_powi_split [of e q] False by (simp add: k_def)
      have "dval y - dval x = (of_int (signed s (drop_half_up c k)) * 10 ^ k - of_int (signed s c)) * 10 powi e"
        by (simp add: x y p algebra_simps)
      also have "\<dots> = (if s then - 1 else 1) * of_int (int (drop_half_up c k) * 10 ^ k - int c) * 10 powi e"
        by (cases s) (simp_all add: signed_def)
      also have "\<bar>\<dots>\<bar> = of_int \<bar>int (drop_half_up c k) * 10 ^ k - int c\<bar> * (10::rat) powi e"
        by (simp add: abs_mult)
      finally have "2 * \<bar>dval y - dval x\<bar>
          = of_int (2 * \<bar>int (drop_half_up c k) * 10 ^ k - int c\<bar>) * (10::rat) powi e" by simp
      also have "\<dots> \<le> of_int (10 ^ k) * (10::rat) powi e"
        using drop_half_up_bound [of c k] ten_powi_pos [of e]
        by (intro mult_right_mono) (simp_all only: of_int_le_iff less_imp_le)
      finally show ?thesis using False by (simp add: y x p)
    qed
  qed
  then show "dec_is_finite y" and "dexp y = q" and "2 * \<bar>dval y - dval x\<bar> \<le> 10 powi q"
    and "q \<le> dexp x \<Longrightarrow> dval y = dval x" by blast+
qed

text \<open>Quantizing an amount that already is on the grid, small enough for the context.\<close>

lemma dec_quantize_defined:
  assumes "dec_is_finite x" and "q \<le> dexp x" and "\<bar>dval x\<bar> < 10 powi (28 + q)"
  obtains y where "dec_quantize q x = Inr y" and "dec_is_finite y" and "dexp y = q" and "dval y = dval x"
proof -
  obtain s c e where x: "x = Fin s c e" using assms(1) by (rule dec_is_finite_cases)
  have e: "q \<le> e" using assms(2) x by simp
  show thesis
  proof (cases "c = 0")
    case True
    then show thesis using that [of "Fin s 0 q"] by (simp add: x signed_def)
  next
    case False
    define n where "n = nat (e - q)"
    have "\<bar>dval x\<bar> = \<bar>dval (Fin s (c * 10 ^ n) q)\<bar>" by (simp only: x n_def dval_scale [OF e])
    also have "\<dots> = of_nat (c * 10 ^ n) * (10::rat) powi q"
      by (simp add: signed_def abs_mult)
    finally have "\<bar>dval x\<bar> = of_nat (c * 10 ^ n) * (10::rat) powi q" .
    moreover have "(10::rat) powi (28 + q) = 10 ^ 28 * 10 powi q" by (subst power_int_add) auto
    ultimately have "of_nat (c * 10 ^ n) < (10::rat) ^ 28"
      using assms(3) ten_powi_pos [of q] by simp
    then have small: "c * 10 ^ n < 10 ^ 28" by (metis of_nat_less_iff of_nat_numeral of_nat_power)
    have "num_digits c + n \<le> 28"
    proof (cases "10 \<le> c")
      case True
      show ?thesis
      proof (rule ccontr)
        assume "\<not> ?thesis"
        then have "28 \<le> num_digits c - 1 + n" using num_digits_pos [of c] by linarith
        then have "(10::nat) ^ 28 \<le> 10 ^ (num_digits c - 1 + n)" by (intro power_increasing) auto
        also have "\<dots> \<le> c * 10 ^ n" using num_digits_lower [OF True] by (simp add: power_add)
        finally show False using small by simp
      qed
    next
      case c10: False
      then have "num_digits c = 1" by (subst num_digits.simps) simp
      moreover have "n < 28"
      proof (rule ccontr)
        assume "\<not> n < 28"
        then have "(10::nat) ^ 28 \<le> 10 ^ n" by (intro power_increasing) auto
        also have "\<dots> \<le> c * 10 ^ n" using False by simp
        finally show False using small by simp
      qed
      ultimately show ?thesis by simp
    qed
    then have "\<not> int dec_prec < e + int (num_digits c) - q" using e by (simp add: dec_prec_def n_def)
    moreover have "\<not> dec_prec < num_digits (c * 10 ^ n)"
      using small num_digits_le [of 28 "c * 10 ^ n"] by (simp add: dec_prec_def)
    ultimately have "dec_quantize q x = Inr (Fin s (c * 10 ^ n) q)"
      using False e by (simp add: x n_def Let_def)
    then show thesis using that [of "Fin s (c * 10 ^ n) q"] dval_scale [OF e, of s c] by (simp add: x n_def)
  qed
qed

subsection \<open>Division by a power of ten is exact\<close>

lemma strip_zeros_spec:
  assumes "strip_zeros c e ideal = (c', e')"
  shows "e \<le> e'" and "e \<le> ideal \<Longrightarrow> e' \<le> ideal" and "c = c' * 10 ^ nat (e' - e)"
    and "e' < ideal \<Longrightarrow> c' mod 10 \<noteq> 0"
proof -
  have "e \<le> e' \<and> (e \<le> ideal \<longrightarrow> e' \<le> ideal) \<and> c = c' * 10 ^ nat (e' - e) \<and> (e' < ideal \<longrightarrow> c' mod 10 \<noteq> 0)"
    using assms
  proof (induction c e ideal rule: strip_zeros.induct)
    case (1 c e ideal)
    show ?case
    proof (cases "e < ideal \<and> c mod 10 = 0")
      case True
      then have st: "strip_zeros (c div 10) (e + 1) ideal = (c', e')"
        using "1.prems" by (subst (asm) strip_zeros.simps) simp
      note ih = "1.IH" [OF True st]
      have "e + 1 \<le> e'" using ih by blast
      then have "nat (e' - e) = Suc (nat (e' - (e + 1)))" by linarith
      moreover have "c = c div 10 * 10" using True by auto
      ultimately have "c = c' * 10 ^ nat (e' - e)" using ih by (metis mult.assoc mult.commute power_Suc)
      then show ?thesis using ih True by auto
    next
      case False
      then show ?thesis using "1.prems" by (subst (asm) strip_zeros.simps) auto
    qed
  qed
  then show "e \<le> e'" and "e \<le> ideal \<Longrightarrow> e' \<le> ideal" and "c = c' * 10 ^ nat (e' - e)"
    and "e' < ideal \<Longrightarrow> c' mod 10 \<noteq> 0" by blast+
qed

lemma num_digits_pow10: "num_digits (10 ^ j) = Suc j"
proof (induction j)
  case 0
  show ?case by (subst num_digits.simps) simp
next
  case (Suc j)
  have "num_digits (10 ^ Suc j) = Suc (num_digits (10 ^ Suc j div 10))"
    by (subst num_digits.simps) simp
  then show ?case using Suc by simp
qed

lemma dec_div_pow10:
  assumes "c < 10 ^ 28" and "0 < c" and "j \<le> 4"
  obtains c' e' where "dec_div_fin s c e (10 ^ j) 0 = Fin s c' e'" and "e - int j \<le> e'"
    and "dval (Fin s c' e') = dval (Fin s c e) / 10 ^ j"
proof -
  define shift where "shift = Suc j + 29 - num_digits c"
  have dc: "num_digits c \<le> 28" using num_digits_le [of 28 c] assms(1) by simp
  have sh: "int (num_digits (10 ^ j)) - int (num_digits c) + int dec_prec + 1 = int shift"
    using dc by (simp add: num_digits_pow10 dec_prec_def shift_def)
  have js: "j \<le> shift" using dc by (simp add: shift_def)
  define q where "q = c * 10 ^ (shift - j)"
  have n: "c * 10 ^ shift = q * 10 ^ j" using js by (simp add: q_def mult.assoc flip: power_add)
  obtain c' e' where st: "strip_zeros q (e - int shift) e = (c', e')" by fastforce
  note sp = strip_zeros_spec [OF st]
  have ee: "e' \<le> e" using sp(2) by simp
  have lower: "e - int j \<le> e'"
  proof (rule ccontr)
    assume "\<not> ?thesis"
    then have lt: "e' < e - int j" by simp
    then have nz: "c' mod 10 \<noteq> 0" using sp(4) by simp
    define a where "a = nat (e' - (e - int shift))"
    have a: "a < shift - j" using lt js sp(1) by (simp add: a_def)
    have "c' * 10 ^ a = c * 10 ^ (shift - j)" using sp(3) by (simp add: a_def q_def)
    also have "\<dots> = (c * 10 ^ (shift - j - a)) * 10 ^ a" using a by (simp add: mult.assoc flip: power_add)
    finally have "c' = c * 10 ^ (shift - j - a)" by simp
    moreover have "shift - j - a = Suc (shift - j - a - 1)" using a by simp
    ultimately have "c' = c * 10 ^ (shift - j - a - 1) * 10" by (metis mult.assoc mult.commute power_Suc)
    with nz show False by simp
  qed
  have "c' * 10 ^ nat (e' - (e - int shift)) = c * 10 ^ (shift - j)" using sp(3) by (simp add: q_def)
  moreover have "shift - j \<le> nat (e' - (e - int shift))" using lower js by simp
  ultimately have "c' * 10 ^ (shift - j) \<le> c * 10 ^ (shift - j)"
    by (metis mult_le_mono2 one_le_numeral power_increasing)
  then have c': "c' < 10 ^ 28" using assms(1) by simp
  have "dec_div_fin s c e (10 ^ j) 0 = fix_prec s c' e'"
    unfolding dec_div_fin_def Let_def sh using n st by simp
  then have 1: "dec_div_fin s c e (10 ^ j) 0 = Fin s c' e'" using fix_prec_exact [OF c'] by simp
  have "dval (Fin s q (e - int shift)) = dval (Fin s c' e')"
    using dval_scale [OF sp(1), of s c'] sp(3) by simp
  moreover have "(10::rat) powi e = 10 ^ shift * 10 powi (e - int shift)"
    using ten_powi_split [of "e - int shift" e] by simp
  moreover have "(10::rat) ^ shift = 10 ^ (shift - j) * 10 ^ j" using js by (simp flip: power_add)
  ultimately have "dval (Fin s c' e') = dval (Fin s c e) / 10 ^ j"
    by (cases s) (simp_all add: q_def signed_def)
  then show thesis using that 1 lower by blast
qed

text \<open>The division behind every fee: by ten thousand.\<close>

lemma dec_div_ten_thousand:
  assumes "dec_is_finite x" and "- k \<le> dexp x" and "\<bar>dval x\<bar> < 10 powi (28 - k)"
  obtains z where "dec_div x (Fin False 10000 0) = Inr z" and "dec_is_finite z" and "dexp x - 4 \<le> dexp z"
    and "dval z = dval x / 10000"
proof -
  obtain s c e where x: "x = Fin s c e" using assms(1) by (rule dec_is_finite_cases)
  show thesis
  proof (cases "c = 0")
    case True
    then show thesis using that [of "Fin s 0 e"] by (simp add: x signed_def)
  next
    case False
    have "c < 10 ^ 28" using coeff_small [of s c e k] assms(2,3) by (simp add: x)
    then obtain c' e' where "dec_div_fin s c e (10 ^ 4) 0 = Fin s c' e'" and "e - int 4 \<le> e'"
      and "dval (Fin s c' e') = dval (Fin s c e) / 10 ^ 4"
      using False by (elim dec_div_pow10 [where j = 4 and c = c and s = s and e = e]) auto
    then show thesis using that [of "Fin s c' e'"] False by (simp add: x)
  qed
qed

subsection \<open>Bounds that hold whatever the rounding\<close>

lemma drop_half_even_le: "10 ^ k \<le> c \<Longrightarrow> drop_half_even c k * 10 ^ k \<le> 2 * c"
proof -
  assume k: "10 ^ k \<le> c"
  have "drop_half_even c k * 10 ^ k \<le> (c div 10 ^ k + 1) * 10 ^ k"
    by (simp add: drop_half_even_def Let_def)
  also have "\<dots> = c div 10 ^ k * 10 ^ k + 10 ^ k" by simp
  also have "\<dots> \<le> c + c" by (intro add_mono k) simp
  finally show ?thesis by simp
qed

lemma abs_dval_Fin: "\<bar>dval (Fin s c e)\<bar> = of_nat c * 10 powi e"
  by (simp add: signed_def abs_mult)

lemma fix_prec_le: "\<bar>dval (fix_prec s c e)\<bar> \<le> 2 * (of_nat c * 10 powi e)"
proof (cases "num_digits c \<le> dec_prec")
  case True
  then show ?thesis by (simp add: fix_prec_def abs_dval_Fin del: dval.simps)
next
  case False
  define k where "k = num_digits c - dec_prec"
  define c' where "c' = drop_half_even c k"
  have "10 \<le> c"
  proof (rule ccontr)
    assume "\<not> 10 \<le> c"
    then have "num_digits c = 1" by (subst num_digits.simps) simp
    then show False using False by (simp add: dec_prec_def)
  qed
  then have "10 ^ (num_digits c - 1) \<le> c" by (rule num_digits_lower)
  moreover have "(10::nat) ^ k \<le> 10 ^ (num_digits c - 1)"
    using False by (intro power_increasing) (auto simp: k_def dec_prec_def)
  ultimately have "10 ^ k \<le> c" by (rule le_trans [rotated])
  then have le: "c' * 10 ^ k \<le> 2 * c" unfolding c'_def by (rule drop_half_even_le)
  have p: "(10::rat) powi (e + int k) = 10 ^ k * 10 powi e" by (subst power_int_add) auto
  have p1: "(10::rat) powi (e + int k + 1) = 10 * (10 ^ k * 10 powi e)"
    unfolding p [symmetric] by (subst power_int_add) auto
  have b: "of_nat n * (10 ^ k * (10::rat) powi e) \<le> 2 * (of_nat c * 10 powi e)" if "n \<le> c'" for n
  proof -
    have "n * 10 ^ k \<le> 2 * c" using that le by (meson le_trans mult_le_mono1)
    then have "of_nat (n * 10 ^ k) \<le> (of_nat (2 * c) :: rat)" by (simp only: of_nat_le_iff)
    then have "of_nat n * 10 ^ k * (10::rat) powi e \<le> 2 * of_nat c * 10 powi e"
      using ten_powi_pos [of e] by (intro mult_right_mono) auto
    then show ?thesis by (simp only: mult.assoc)
  qed
  have "of_nat (c' div 10) * (10::rat) = of_nat (c' div 10 * 10)" by simp
  then have "of_nat (c' div 10) * (10 * (10 ^ k * 10 powi e)) \<le> 2 * (of_nat c * (10::rat) powi e)"
    using b [of "c' div 10 * 10"] by (simp add: mult.assoc)
  then show ?thesis using False b [of c'] p p1
    by (simp add: fix_prec_def Let_def abs_dval_Fin k_def [symmetric] c'_def [symmetric] del: dval.simps)
qed

lemma dec_add_le:
  assumes "dec_add x y = Inr z" and "dec_is_finite x" and "dec_is_finite y"
  shows "\<bar>dval z\<bar> \<le> 2 * \<bar>dval x + dval y\<bar>"
proof -
  obtain s c e where x: "x = Fin s c e" using assms(2) by (rule dec_is_finite_cases)
  obtain s' c' e' where y: "y = Fin s' c' e'" using assms(3) by (rule dec_is_finite_cases)
  let ?e0 = "min e e'"
  define v where "v = scaled s c e ?e0 + scaled s' c' e' ?e0"
  have val: "of_int v * 10 powi ?e0 = dval x + dval y"
    by (simp add: v_def x y distrib_right scaled_dval del: dval.simps)
  have "z = fix_prec (if v = 0 then s \<and> s' else v < 0) (nat \<bar>v\<bar>) ?e0"
    using assms(1) unfolding x y v_def by (simp only: dec_add.simps Let_def sum.inject)
  then have "\<bar>dval z\<bar> \<le> 2 * (of_nat (nat \<bar>v\<bar>) * 10 powi ?e0)" by (simp only: fix_prec_le)
  also have "of_nat (nat \<bar>v\<bar>) * (10::rat) powi ?e0 = \<bar>of_int v * 10 powi ?e0\<bar>"
    by (simp add: abs_mult)
  finally show ?thesis unfolding val .
qed

lemma dec_sub_le:
  "dec_sub x y = Inr z \<Longrightarrow> dec_is_finite x \<Longrightarrow> dec_is_finite y \<Longrightarrow> \<bar>dval z\<bar> \<le> 2 * \<bar>dval x - dval y\<bar>"
  using dec_add_le [of x "dec_neg y" z] by (simp add: dec_sub_def)

lemma dec_mul_le:
  assumes "dec_mul x y = Inr z" and "dec_is_finite x" and "dec_is_finite y"
  shows "\<bar>dval z\<bar> \<le> 2 * \<bar>dval x * dval y\<bar>"
proof -
  obtain s c e where x: "x = Fin s c e" using assms(2) by (rule dec_is_finite_cases)
  obtain s' c' e' where y: "y = Fin s' c' e'" using assms(3) by (rule dec_is_finite_cases)
  have "(10::rat) powi (e + e') = 10 powi e * 10 powi e'" by (subst power_int_add) auto
  then have "\<bar>dval x * dval y\<bar> = of_nat (c * c') * 10 powi (e + e')"
    unfolding abs_mult x y abs_dval_Fin by simp
  then show ?thesis using assms(1) fix_prec_le [of "s \<noteq> s'" "c * c'" "e + e'"] by (simp add: x y)
qed

lemma dec_div_le:
  assumes "dec_div x y = Inr z" and "dec_is_finite x" and "dec_is_finite y" and "dval y \<noteq> 0"
  shows "\<bar>dval z\<bar> \<le> 4 * (\<bar>dval x\<bar> / \<bar>dval y\<bar>)"
proof -
  obtain s c e where x: "x = Fin s c e" using assms(2) by (rule dec_is_finite_cases)
  obtain s' c' e' where y: "y = Fin s' c' e'" using assms(3) by (rule dec_is_finite_cases)
  have c': "c' \<noteq> 0"
  proof
    assume "c' = 0"
    then have "dval y = 0" by (cases s') (simp_all add: y signed_def)
    then show False using assms(4) by simp
  qed
  show ?thesis
  proof (cases "c = 0")
    case True
    then have "z = Fin (s \<noteq> s') 0 (e - e')" using assms(1) c' by (auto simp: x y)
    then show ?thesis by (simp add: signed_def)
  next
    case c: False
    define shift where "shift = int (num_digits c') - int (num_digits c) + int dec_prec + 1"
    define n where "n = (if 0 \<le> shift then c * 10 ^ nat shift else c)"
    define d where "d = (if 0 \<le> shift then c' else c' * 10 ^ nat (- shift))"
    define ex where "ex = e - e' - shift"
    define q where "q = n div d"
    have d0: "0 < d" using c' by (simp add: d_def)
    have ratio: "of_nat n / of_nat d = (of_nat c / of_nat c') * (10::rat) powi shift"
      using c' by (auto simp: n_def d_def power_int_def field_simps)
    have quot: "\<bar>dval x\<bar> / \<bar>dval y\<bar> = of_nat n / of_nat d * 10 powi ex"
    proof -
      have "\<bar>dval x\<bar> / \<bar>dval y\<bar> = (of_nat c / of_nat c') * (10 powi e / 10 powi e')"
        unfolding x y abs_dval_Fin by simp
      also have "(10::rat) powi e / 10 powi e' = 10 powi shift * 10 powi ex"
        by (simp add: ex_def flip: power_int_diff power_int_add)
      finally show ?thesis using ratio by simp
    qed
    have qle: "of_nat q \<le> (of_nat n / of_nat d :: rat)"
    proof -
      have "q * d \<le> n" by (simp add: q_def)
      then have "of_nat q * of_nat d \<le> (of_nat n :: rat)" by (metis of_nat_le_iff of_nat_mult)
      then show ?thesis using d0 by (simp add: field_simps)
    qed
    have n_ge: "d \<le> n"
    proof -
      have lo: "10 ^ (num_digits m - 1) \<le> m" if "m \<noteq> 0" for m :: nat
        using num_digits_lower [of m] that by (cases "10 \<le> m") (auto simp: num_digits.simps [of m])
      have hi: "c' < 10 ^ num_digits c'" using num_digits_le [of "num_digits c'" c'] num_digits_pos by simp
      have dp: "0 < num_digits c" "0 < num_digits c'" by (rule num_digits_pos)+
      show ?thesis
      proof (cases "0 \<le> shift")
        case True
        have "num_digits c' \<le> num_digits c - 1 + nat shift"
          using True dp by (simp add: shift_def dec_prec_def)
        then have "(10::nat) ^ num_digits c' \<le> 10 ^ (num_digits c - 1 + nat shift)"
          by (intro power_increasing) auto
        also have "\<dots> \<le> c * 10 ^ nat shift" using lo [OF c] by (simp add: power_add)
        finally show ?thesis using hi True by (simp add: n_def d_def)
      next
        case False
        have "num_digits c' + nat (- shift) \<le> num_digits c - 1"
          using False dp by (simp add: shift_def dec_prec_def)
        then have "(10::nat) ^ (num_digits c' + nat (- shift)) \<le> 10 ^ (num_digits c - 1)"
          by (intro power_increasing) auto
        moreover have "c' * 10 ^ nat (- shift) \<le> 10 ^ (num_digits c' + nat (- shift))"
          using hi by (simp add: power_add)
        ultimately have "c' * 10 ^ nat (- shift) \<le> c" using lo [OF c] by (meson le_trans)
        then show ?thesis using False by (simp add: n_def d_def)
      qed
    qed
    then have q1: "1 \<le> q" using d0 by (simp add: q_def div_greater_zero_iff Suc_le_eq)
    have z: "z = dec_div_fin (s \<noteq> s') c e c' e'" using assms(1) c c' by (simp add: x y)
    have "\<bar>dval z\<bar> \<le> 2 * (of_nat (q + 1) * 10 powi ex)"
    proof (cases "n mod d \<noteq> 0")
      case True
      then have "z = fix_prec (s \<noteq> s') (if q mod 5 = 0 then q + 1 else q) ex"
        unfolding z dec_div_fin_def Let_def shift_def [symmetric] n_def [symmetric] d_def [symmetric]
          ex_def [symmetric] q_def [symmetric] by simp
      then have "\<bar>dval z\<bar> \<le> 2 * (of_nat (if q mod 5 = 0 then q + 1 else q) * 10 powi ex)"
        using fix_prec_le by simp
      also have "\<dots> \<le> 2 * (of_nat (q + 1) * 10 powi ex)"
        using ten_powi_pos [of ex] by (intro mult_left_mono mult_right_mono) auto
      finally show ?thesis .
    next
      case False
      obtain q' ex' where st: "strip_zeros q ex (e - e') = (q', ex')" by fastforce
      then have "z = fix_prec (s \<noteq> s') q' ex'"
        unfolding z dec_div_fin_def Let_def shift_def [symmetric] n_def [symmetric] d_def [symmetric]
          ex_def [symmetric] q_def [symmetric] using False by simp
      then have "\<bar>dval z\<bar> \<le> 2 * (of_nat q' * 10 powi ex')" using fix_prec_le by simp
      also have "of_nat q' * 10 powi ex' = of_nat q * (10::rat) powi ex"
        using ten_powi_split [OF strip_zeros_spec(1) [OF st]] strip_zeros_spec(3) [OF st] by simp
      also have "2 * (of_nat q * (10::rat) powi ex) \<le> 2 * (of_nat (q + 1) * 10 powi ex)"
        using ten_powi_pos [of ex] by (intro mult_left_mono mult_right_mono) auto
      finally show ?thesis .
    qed
    also have "\<dots> \<le> 2 * (2 * of_nat q * 10 powi ex)"
      using q1 ten_powi_pos [of ex] by (intro mult_left_mono mult_right_mono) auto
    also have "\<dots> \<le> 2 * (2 * (of_nat n / of_nat d) * 10 powi ex)"
      using qle ten_powi_pos [of ex] by (intro mult_left_mono mult_right_mono) auto
    finally show ?thesis using quot by (simp add: mult.assoc)
  qed
qed

end
