(* ===== verification/PyDecimalText.thy ===== *)
theory PyDecimalText
  imports PyDecimal
begin

section \<open>Decimals as text\<close>

text \<open>
  The paper plane stores every amount as text: \<open>Decimal(str)\<close> reads it back and
  \<open>format(x, 'f')\<close> writes it. Both are modelled on ASCII strings, and reading what was
  written gives the number of the same value (\<open>dec_text_roundtrip\<close>).
\<close>

subsection \<open>Digits as characters\<close>

definition is_digit :: "char \<Rightarrow> bool" where
  "is_digit c = (48 \<le> (of_char c :: nat) \<and> (of_char c :: nat) \<le> 57)"

definition digit_val :: "char \<Rightarrow> nat" where
  "digit_val c = of_char c - 48"

definition digit_char :: "nat \<Rightarrow> char" where
  "digit_char d = ''0123456789'' ! d"

definition digits_val :: "string \<Rightarrow> nat" where
  "digits_val s = foldl (\<lambda>v c. 10 * v + digit_val c) 0 s"

fun digits_of :: "nat \<Rightarrow> string" where
  "digits_of n = (if n < 10 then [digit_char n] else digits_of (n div 10) @ [digit_char (n mod 10)])"

declare digits_of.simps [simp del]

lemma less_ten_cases:
  "d < (10::nat) \<Longrightarrow> d \<in> {0, 1, 2, 3, 4, 5, 6, 7, 8, 9}"
  by auto

lemma is_digit_char: "d < 10 \<Longrightarrow> is_digit (digit_char d)"
  using less_ten_cases [of d] by (auto simp: is_digit_def digit_char_def)

lemma digit_val_char: "d < 10 \<Longrightarrow> digit_val (digit_char d) = d"
  using less_ten_cases [of d] by (auto simp: digit_val_def digit_char_def)

lemma digits_val_append: "digits_val (s @ [c]) = 10 * digits_val s + digit_val c"
  by (simp add: digits_val_def)

lemma digits_of_digits: "\<forall>c\<in>set (digits_of n). is_digit c"
proof (induction n rule: digits_of.induct)
  case (1 n)
  then show ?case by (subst digits_of.simps) (auto simp: is_digit_char)
qed

lemma digits_of_val: "digits_val (digits_of n) = n"
proof (induction n rule: digits_of.induct)
  case (1 n)
  then show ?case
    by (subst digits_of.simps) (auto simp: digits_val_append digit_val_char digits_val_def)
qed

lemma digits_of_not_Nil: "digits_of n \<noteq> []"
  by (subst digits_of.simps) auto

lemma foldl_zeros:
  "foldl (\<lambda>v c. 10 * v + digit_val c) 0 (replicate k (CHR ''0'') @ s)
   = foldl (\<lambda>v c. 10 * v + digit_val c) 0 s"
  by (induction k) (auto simp: digit_val_def)

lemma digits_val_zeros: "digits_val (replicate k (CHR ''0'') @ s) = digits_val s"
  unfolding digits_val_def by (rule foldl_zeros)

subsection \<open>Decimal(str)\<close>

definition is_space :: "char \<Rightarrow> bool" where
  "is_space c = ((of_char c :: nat) \<in> {9, 10, 11, 12, 13, 28, 29, 30, 31, 32})"

definition py_strip :: "string \<Rightarrow> string" where
  "py_strip s = rev (dropWhile is_space (rev (dropWhile is_space s)))"

definition lower_char :: "char \<Rightarrow> char" where
  "lower_char c = (let n = (of_char c :: nat) in if 65 \<le> n \<and> n \<le> 90 then char_of (n + 32) else c)"

definition split_sign :: "string \<Rightarrow> bool \<times> string" where
  "split_sign s = (case s of [] \<Rightarrow> (False, [])
     | c # r \<Rightarrow> if c = CHR ''-'' then (True, r) else if c = CHR ''+'' then (False, r) else (False, s))"

definition parse_exponent :: "string \<Rightarrow> int option" where
  "parse_exponent s = (case s of [] \<Rightarrow> Some 0
     | c # r \<Rightarrow>
       (let (neg, ds) = split_sign r
        in if lower_char c = CHR ''e'' \<and> ds \<noteq> [] \<and> list_all is_digit ds
           then Some (if neg then - int (digits_val ds) else int (digits_val ds)) else None))"

definition parse_number :: "bool \<Rightarrow> string \<Rightarrow> decimal res" where
  "parse_number neg t =
     (let ip = takeWhile is_digit t; r = dropWhile is_digit t;
          (fp, r2) = (case r of [] \<Rightarrow> ([], [])
            | c # r' \<Rightarrow> if c = CHR ''.'' then (takeWhile is_digit r', dropWhile is_digit r') else ([], r))
      in if ip = [] \<and> fp = [] then Inl DecimalInvalid
         else case parse_exponent r2 of None \<Rightarrow> Inl DecimalInvalid
              | Some x \<Rightarrow> Inr (Fin neg (digits_val (ip @ fp)) (x - int (length fp))))"

definition dec_of_string :: "string \<Rightarrow> decimal res" where
  "dec_of_string s =
     (let (neg, t) = split_sign (filter (\<lambda>c. c \<noteq> CHR ''_'') (py_strip s)); u = map lower_char t
      in if u = ''inf'' \<or> u = ''infinity'' then Inr (Infinity neg)
         else if take 3 u = ''nan'' \<and> list_all is_digit (drop 3 u) then Inr (NaN False)
         else if take 4 u = ''snan'' \<and> list_all is_digit (drop 4 u) then Inr (NaN True)
         else parse_number neg t)"

subsection \<open>format(x, 'f')\<close>

definition pad_digits :: "nat \<Rightarrow> string \<Rightarrow> string" where
  "pad_digits k ds = replicate (Suc k - length ds) (CHR ''0'') @ ds"

definition sign_text :: "bool \<Rightarrow> string" where
  "sign_text s = (if s then ''-'' else [])"

definition point_text :: "nat \<Rightarrow> string \<Rightarrow> string" where
  "point_text k ds = (if k = 0 then ds
     else take (length ds - k) ds @ CHR ''.'' # drop (length ds - k) ds)"

fun dec_text :: "decimal \<Rightarrow> string" where
  "dec_text (Fin s c e) =
     (if 0 \<le> e then sign_text s @ digits_of (c * 10 ^ nat e)
      else sign_text s @ point_text (nat (- e)) (pad_digits (nat (- e)) (digits_of c)))"
| "dec_text (Infinity s) = sign_text s @ ''Infinity''"
| "dec_text (NaN g) = (if g then ''sNaN'' else ''NaN'')"

text \<open>The number a formatted one is read back as: no positive exponent is left.\<close>

fun dec_plain :: "decimal \<Rightarrow> decimal" where
  "dec_plain (Fin s c e) = (if 0 \<le> e then Fin s (c * 10 ^ nat e) 0 else Fin s c e)"
| "dec_plain x = x"

lemma dec_plain_finite: "dec_is_finite (dec_plain x) = dec_is_finite x"
  by (cases x) auto

lemma dval_dec_plain: "dval (dec_plain x) = dval x"
proof (cases x)
  case (Fin s c e)
  have "0 \<le> e \<Longrightarrow> (10::rat) powi e = 10 ^ nat e"
    by (simp add: power_int_def)
  then show ?thesis using Fin by (auto simp: signed_def)
qed auto

lemma dexp_dec_plain: "dexp (dec_plain x) = min 0 (dexp x)"
  by (cases x) auto

subsection \<open>Reading what was written\<close>

definition num_char :: "char \<Rightarrow> bool" where
  "num_char c = (is_digit c \<or> c = CHR ''.'')"

lemma num_char_facts:
  assumes "num_char c"
  shows "\<not> is_space c" and "c \<noteq> CHR ''_''" and "c \<noteq> CHR ''-''" and "c \<noteq> CHR ''+''"
    and "lower_char c = c" and "c \<noteq> CHR ''i''" and "c \<noteq> CHR ''n''" and "c \<noteq> CHR ''s''"
  using assms by (auto simp: num_char_def is_digit_def is_space_def lower_char_def)

lemma py_strip_id:
  assumes "s \<noteq> []" and "\<not> is_space (hd s)" and "\<not> is_space (last s)"
  shows "py_strip s = s"
proof -
  have "dropWhile is_space s = s" using assms(1,2) by (cases s) auto
  moreover have "dropWhile is_space (rev s) = rev s"
    using assms(1,3) by (cases s rule: rev_cases) auto
  ultimately show ?thesis by (simp add: py_strip_def)
qed

lemma dec_of_string_num:
  assumes t: "t \<noteq> []" "list_all num_char t"
  shows "dec_of_string (sign_text s @ t) = parse_number s t"
proof -
  obtain c r where cr: "t = c # r" using t(1) by (cases t) auto
  have c: "num_char c" using t cr by simp
  have "last t \<in> set t" using t(1) by simp
  then have "num_char (last t)" using t(2) by (simp add: list_all_iff)
  then have "\<not> is_space (last (sign_text s @ t))" using t(1) by (simp add: num_char_facts)
  moreover have "\<not> is_space (hd (sign_text s @ t))"
    using num_char_facts(1) [OF c] cr by (cases s) (simp_all add: sign_text_def is_space_def)
  ultimately have 1: "py_strip (sign_text s @ t) = sign_text s @ t"
    using t(1) by (intro py_strip_id) auto
  have 2: "filter (\<lambda>c. c \<noteq> CHR ''_'') (sign_text s @ t) = sign_text s @ t"
    using t(2) by (cases s) (auto simp: sign_text_def list_all_iff num_char_facts intro!: filter_True)
  have 3: "split_sign (sign_text s @ t) = (s, t)"
    using c cr by (cases s) (simp_all add: sign_text_def split_sign_def num_char_facts)
  have 4: "map lower_char t = t"
    using t(2) by (simp add: list_all_iff num_char_facts map_idI)
  show ?thesis unfolding dec_of_string_def Let_def 1 2 3
    using c cr by (auto simp: 4 num_char_facts)
qed

lemma parse_number_plain:
  assumes "ds \<noteq> []" and "list_all is_digit ds"
  shows "parse_number s ds = Inr (Fin s (digits_val ds) 0)"
  using assms
  by (simp add: parse_number_def list_all_iff takeWhile_eq_all_conv [THEN iffD2]
      dropWhile_eq_Nil_conv [THEN iffD2] parse_exponent_def)

lemma parse_number_point:
  assumes "ip \<noteq> []" and "list_all is_digit ip" and "list_all is_digit fp"
  shows "parse_number s (ip @ CHR ''.'' # fp) = Inr (Fin s (digits_val (ip @ fp)) (- int (length fp)))"
proof -
  have nd: "\<not> is_digit (CHR ''.'')" by (simp add: is_digit_def)
  have 1: "takeWhile is_digit (ip @ CHR ''.'' # fp) = ip"
    using assms(2) nd by (simp add: takeWhile_append2 list_all_iff)
  have 2: "dropWhile is_digit (ip @ CHR ''.'' # fp) = CHR ''.'' # fp"
    using assms(2) nd by (simp add: dropWhile_append2 list_all_iff)
  have 3: "takeWhile is_digit fp = fp"
    using assms(3) by (simp add: list_all_iff takeWhile_eq_all_conv)
  have 4: "dropWhile is_digit fp = []" using assms(3) by (simp add: list_all_iff)
  show ?thesis
    unfolding parse_number_def Let_def 1 2 list.case using assms(1)
    by (simp only: 3 4 if_True) (simp add: parse_exponent_def)
qed

lemma digit_num_char: "list_all is_digit ds \<Longrightarrow> list_all num_char ds"
  by (auto simp: list_all_iff num_char_def)

theorem dec_text_fin:
  "dec_is_finite x \<Longrightarrow> dec_of_string (dec_text x) = Inr (dec_plain x)"
proof -
  assume "dec_is_finite x"
  then obtain s c e where x: "x = Fin s c e" by (rule dec_is_finite_cases)
  have dig: "list_all is_digit (digits_of n)" for n
    using digits_of_digits by (simp add: list_all_iff)
  show ?thesis
  proof (cases "0 \<le> e")
    case True
    then show ?thesis
      using dec_of_string_num [of "digits_of (c * 10 ^ nat e)" s] dig digit_num_char
      by (simp add: x digits_of_not_Nil parse_number_plain digits_of_val)
  next
    case False
    define k where "k = nat (- e)"
    define ds where "ds = pad_digits k (digits_of c)"
    have k: "k \<noteq> 0" and ke: "- int k = e" using False by (simp_all add: k_def)
    have ds: "list_all is_digit ds"
      using dig by (auto simp: ds_def pad_digits_def list_all_iff is_digit_def)
    have len: "k < length ds" by (simp add: ds_def pad_digits_def)
    define ip where "ip = take (length ds - k) ds"
    define fp where "fp = drop (length ds - k) ds"
    have ip: "ip \<noteq> []" "list_all is_digit ip" and fp: "list_all is_digit fp" "length fp = k"
      using ds len by (auto simp: ip_def fp_def list_all_iff dest: in_set_takeD in_set_dropD)
    have t: "point_text k ds = ip @ CHR ''.'' # fp" using k by (simp add: point_text_def ip_def fp_def)
    have nc: "list_all num_char (ip @ CHR ''.'' # fp)"
      using ip fp digit_num_char by (simp add: num_char_def)
    have "ip @ fp = ds" unfolding ip_def fp_def by (rule append_take_drop_id)
    then have val: "digits_val (ip @ fp) = c"
      by (simp only: ds_def pad_digits_def digits_val_zeros digits_of_val)
    have "dec_text x = sign_text s @ point_text k ds" using False by (simp add: x k_def ds_def)
    then show ?thesis
      using dec_of_string_num [OF _ nc, of s] parse_number_point [OF ip fp(1), of s] fp(2) val False ke
      by (simp add: x t)
  qed
qed

text \<open>What every amount column of the store relies on.\<close>

lemma dec_text_roundtrip:
  assumes "dec_is_finite x"
  obtains y where "dec_of_string (dec_text x) = Inr y" and "dec_is_finite y" and "dval y = dval x"
    and "dexp y = min 0 (dexp x)"
  using dec_text_fin [OF assms] assms by (auto simp: dec_plain_finite dval_dec_plain dexp_dec_plain)

lemma dec_text_not_Nil [simp]: "dec_text x \<noteq> []"
  by (cases x) (auto simp: sign_text_def digits_of_not_Nil point_text_def pad_digits_def)

text \<open>The rules that evaluate decimal arithmetic on concrete numbers.\<close>

named_theorems dec_eval

lemmas [dec_eval] =
  dec_of_string_def py_strip_def is_space_def split_sign_def lower_char_def parse_number_def
  parse_exponent_def is_digit_def digits_val_def digit_val_def Let_def dec_prec_def fix_prec_def
  num_digits.simps signed_def scaled_def drop_half_up_def drop_half_even_def dec_of_int_def
  dec_div_fin_def strip_zeros.simps digits_of.simps digit_char_def point_text_def pad_digits_def
  sign_text_def dec_sub_def dec_lt_def dec_le_def dec_zero_def py_dec_eq_def

end
