(* ===== verification/PyJson.thy ===== *)
theory PyJson
  imports PyDecimalText "HOL-Library.Finite_Map"
begin

section \<open>JSON values and dictionaries\<close>

text \<open>
  Event payloads, policies and observations are dictionaries the code writes with
  \<open>json.dumps(..., sort_keys=True)\<close> and reads back with \<open>json.loads\<close>. A dictionary is a finite
  map, so that two dictionaries are equal when they have the same items whatever the order they
  were built in, as in Python; \<open>{**a, "k": v}\<close> is \<open>fmupd\<close> and \<open>d.get(k)\<close> is \<open>jget\<close>.
  A fractional number is kept as its text.
\<close>

datatype jval =
    JNull
  | JBool bool
  | JInt int
  | JFloat string
  | JStr string
  | JArr "jval list"
  | JObj "(string, jval) fmap"

type_synonym dict = "(string, jval) fmap"

text \<open>Python's truth value of a JSON value.\<close>

fun jtruthy :: "jval \<Rightarrow> bool" where
  "jtruthy JNull = False"
| "jtruthy (JBool b) = b"
| "jtruthy (JInt i) = (i \<noteq> 0)"
| "jtruthy (JFloat t) = (case dec_of_string t of Inl e \<Rightarrow> True | Inr x \<Rightarrow> \<not> dec_eq x dec_zero)"
| "jtruthy (JStr t) = (t \<noteq> [])"
| "jtruthy (JArr xs) = (xs \<noteq> [])"
| "jtruthy (JObj d) = (d \<noteq> fmempty)"

text \<open>\<open>d.get(k)\<close>, with None for an absent key.\<close>

definition jget :: "dict \<Rightarrow> string \<Rightarrow> jval" where
  "jget d k = (case fmlookup d k of None \<Rightarrow> JNull | Some v \<Rightarrow> v)"

text \<open>\<open>value not in {None, ""}\<close>.\<close>

definition jpresent :: "jval \<Rightarrow> bool" where
  "jpresent v = (v \<noteq> JNull \<and> v \<noteq> JStr [])"

text \<open>\<open>a or b\<close>.\<close>

definition jor :: "jval \<Rightarrow> jval \<Rightarrow> jval" where
  "jor a b = (if jtruthy a then a else b)"

definition jtext :: "string option \<Rightarrow> jval" where
  "jtext t = (case t of None \<Rightarrow> JNull | Some x \<Rightarrow> JStr x)"

definition jint :: "int option \<Rightarrow> jval" where
  "jint t = (case t of None \<Rightarrow> JNull | Some x \<Rightarrow> JInt x)"

text \<open>\<open>{**d, k1: v1, ...}\<close>: later keys win.\<close>

definition dict_with :: "dict \<Rightarrow> (string \<times> jval) list \<Rightarrow> dict" where
  "dict_with d kvs = foldl (\<lambda>m (k, v). fmupd k v m) d kvs"

abbreviation dict_of :: "(string \<times> jval) list \<Rightarrow> dict" where
  "dict_of \<equiv> dict_with fmempty"

lemma dict_with_simps [simp]:
  "dict_with d [] = d"
  "dict_with d ((k, v) # kvs) = dict_with (fmupd k v d) kvs"
  by (simp_all add: dict_with_def)

lemma jget_upd [simp]: "jget (fmupd k v d) k' = (if k = k' then v else jget d k')"
  by (simp add: jget_def)

lemma jget_empty [simp]: "jget fmempty k = JNull"
  by (simp add: jget_def)

text \<open>A dictionary literal is a function of its entries read at any key.\<close>

lemma dict_with_lookup:
  "fmlookup (dict_with d kvs) k = (case map_of (rev kvs) k of None \<Rightarrow> fmlookup d k | Some v \<Rightarrow> Some v)"
  by (induction kvs arbitrary: d) (auto simp: map_add_def split: option.splits)

text \<open>Text columns: \<open>value not in {None, ""}\<close>, which is also the truth value of the text.\<close>

definition present :: "string option \<Rightarrow> bool" where
  "present t = (t \<noteq> None \<and> t \<noteq> Some [])"

lemma present_simps [simp]:
  "\<not> present None"
  "present (Some t) \<longleftrightarrow> t \<noteq> []"
  by (simp_all add: present_def)

lemma present_Some: "present t \<Longrightarrow> \<exists>x. t = Some x \<and> x \<noteq> []"
  by (cases t) (auto simp: present_def)

text \<open>\<open>COALESCE(a, b)\<close>.\<close>

definition coalesce :: "'a option \<Rightarrow> 'a option \<Rightarrow> 'a option" where
  "coalesce a b = (case a of None \<Rightarrow> b | Some x \<Rightarrow> Some x)"

lemma coalesce_simps [simp]:
  "coalesce None b = b"
  "coalesce (Some x) b = Some x"
  by (simp_all add: coalesce_def)

lemma coalesce_None: "coalesce a None = a"
  by (cases a) auto

end
