(* ===== verification/PaperStore.thy ===== *)
theory PaperStore
  imports PyJson
begin

section \<open>The paper plane's store\<close>

text \<open>
  The SQLite database of \<open>factory/paper_plane.py\<close>: its tables as lists of rows in rowid order,
  the position life cycle (\<open>POSITION_STATES\<close>, \<open>TRANSITIONS\<close>), and the store's reading and writing
  primitives. \<open>immediate_write\<close> is the transaction: an operation returns the new store or
  raises, and then the caller still holds the old one (ROLLBACK). The wall clock and \<open>uuid4\<close>
  are supplies read in order of the calls.
\<close>

subsection \<open>Position states\<close>

datatype pstate =
    WATCHED | SIGNALLED | INTENT_CREATED | ATTEMPTING | OPEN | PARTIAL | UNKNOWN
  | EXIT_REQUIRED | EXITING | CLOSED | UNRESOLVED | RECONCILED | CANCELLED

fun state_name :: "pstate \<Rightarrow> string" where
  "state_name WATCHED = ''WATCHED''"
| "state_name SIGNALLED = ''SIGNALLED''"
| "state_name INTENT_CREATED = ''INTENT_CREATED''"
| "state_name ATTEMPTING = ''ATTEMPTING''"
| "state_name OPEN = ''OPEN''"
| "state_name PARTIAL = ''PARTIAL''"
| "state_name UNKNOWN = ''UNKNOWN''"
| "state_name EXIT_REQUIRED = ''EXIT_REQUIRED''"
| "state_name EXITING = ''EXITING''"
| "state_name CLOSED = ''CLOSED''"
| "state_name UNRESOLVED = ''UNRESOLVED''"
| "state_name RECONCILED = ''RECONCILED''"
| "state_name CANCELLED = ''CANCELLED''"

fun TRANSITIONS :: "pstate \<Rightarrow> pstate list" where
  "TRANSITIONS WATCHED = [SIGNALLED, CANCELLED]"
| "TRANSITIONS SIGNALLED = [INTENT_CREATED, CANCELLED]"
| "TRANSITIONS INTENT_CREATED = [ATTEMPTING, CANCELLED]"
| "TRANSITIONS ATTEMPTING = [OPEN, PARTIAL, UNKNOWN, UNRESOLVED, CANCELLED]"
| "TRANSITIONS OPEN = [EXIT_REQUIRED, EXITING]"
| "TRANSITIONS PARTIAL = [EXIT_REQUIRED, EXITING]"
| "TRANSITIONS UNKNOWN = [OPEN, PARTIAL, CANCELLED, EXIT_REQUIRED, EXITING, UNRESOLVED, RECONCILED]"
| "TRANSITIONS EXIT_REQUIRED = [EXITING, CANCELLED]"
| "TRANSITIONS EXITING = [CLOSED, UNRESOLVED]"
| "TRANSITIONS CLOSED = [RECONCILED]"
| "TRANSITIONS UNRESOLVED = [RECONCILED]"
| "TRANSITIONS RECONCILED = []"
| "TRANSITIONS CANCELLED = []"

definition PRE_ATTEMPT_STATES :: "pstate list" where
  "PRE_ATTEMPT_STATES = [WATCHED, SIGNALLED, INTENT_CREATED]"

definition CLOSING_STATES :: "pstate list" where
  "CLOSING_STATES = [CLOSED, RECONCILED, CANCELLED]"

definition OPEN_RISK_STATES :: "pstate list" where
  "OPEN_RISK_STATES = [WATCHED, SIGNALLED, INTENT_CREATED, ATTEMPTING, OPEN, PARTIAL, UNKNOWN]"

definition DEFINITIVE_NON_FILL_REASONS :: "string list" where
  "DEFINITIVE_NON_FILL_REASONS = [''REJECTED_BEFORE_SEND'', ''DROPPED_OR_EXPIRED_NOT_PROCESSED'']"

definition CANCEL_REASONS :: "string list" where
  "CANCEL_REASONS =
     [''OPERATOR_CANCEL'', ''OPERATOR_CLOSE_ALL'', ''OPERATOR_STOP'', ''ENTRIES_PAUSED'',
      ''NEW_ENTRIES_DISABLED'', ''RUNTIME_POLICY_INVALID'', ''BOT_DRAINING'', ''BOT_STOPPED'',
      ''SIGNAL_EXPIRED'', ''OPERATING_SAFETY_VETO''] @ DEFINITIVE_NON_FILL_REASONS"

definition SIGNAL_KINDS :: "string list" where
  "SIGNAL_KINDS = [''NO_SIGNAL'', ''NO_ROUTE'', ''QUOTE_UNAVAILABLE'', ''UNKNOWN'', ''SIMULATED_FILL'',
     ''SHADOW_EXECUTABLE'', ''REAL_FILL'']"

definition FORBIDDEN_SIGNAL_KINDS :: "string list" where
  "FORBIDDEN_SIGNAL_KINDS = [''REAL_FILL'']"

subsection \<open>Rows\<close>

text \<open>
  A REAL column holds \<open>float(Decimal)\<close>: the number it was made from, before rounding to a
  double. No decision of the code reads these legacy columns.
\<close>

datatype real_cell = FloatOf decimal

record position =
  p_id :: string
  p_bot :: string
  p_mint :: string
  p_state :: pstate
  p_signal_kind :: "string option"
  p_entered_notional_usd :: "real_cell option"
  p_exit_notional_usd :: "real_cell option"
  p_opened_at :: "string option"
  p_closed_at :: "string option"
  p_signal_decision_id :: "string option"
  p_activation_epoch_id :: "string option"
  p_strategy_id :: "string option"
  p_strategy_version_label :: "string option"
  p_exit_decision_id :: "string option"
  p_reason_code :: "string option"
  p_entry_price_dec :: "string option"
  p_exit_price_dec :: "string option"
  p_qty_dec :: "string option"
  p_fee_bps :: "int option"
  p_entry_fee_usd_dec :: "string option"
  p_exit_fee_usd_dec :: "string option"
  p_entered_notional_usd_dec :: "string option"
  p_exit_notional_usd_dec :: "string option"
  p_realized_gross_pnl_usd_dec :: "string option"
  p_realized_net_pnl_usd_dec :: "string option"
  p_pnl_evidence_class :: "string option"
  p_mark_price_dec :: "string option"
  p_mark_as_of :: "string option"
  p_unrealized_gross_pnl_usd_dec :: "string option"
  p_unrealized_net_pnl_usd_dec :: "string option"
  p_unrealized_evidence_class :: "string option"
  p_admitted_entry_notional_usd_dec :: "string option"
  p_strategy_requested_notional_usd_dec :: "string option"
  p_runtime_policy_mode :: "string option"
  p_runtime_policy_revision :: "int option"
  p_runtime_policy_sha256 :: "string option"
  p_cancel_reason_code :: "string option"
  p_admitted_fee_bps :: "int option"
  p_signal_decision_sha256 :: "string option"
  p_strategy_spec_sha256 :: "string option"
  p_exit_reason_code :: "string option"
  p_ordinary_operating :: "int option"
  p_ordinary_envelope_sha256 :: "string option"
  p_entry_fee_semantics :: "string option"
  p_remaining_qty_dec :: "string option"
  p_remaining_cost_basis_usd_dec :: "string option"
  p_remaining_entry_fee_usd_dec :: "string option"

record bot =
  b_id :: string
  b_strategy_id :: string
  b_strategy_version :: string
  b_mode :: string
  b_status :: string
  b_started_at :: string
  b_stopped_at :: "string option"
  b_activation_epoch_id :: "string option"
  b_runtime_schema_version :: "string option"
  b_entries_paused :: bool
  b_strategy_spec_sha256 :: "string option"

text \<open>\<open>e_payload\<close> is what \<open>json.loads\<close> makes of the column, None for text it refuses.\<close>

record event =
  e_id :: string
  e_type :: string
  e_bot :: "string option"
  e_position :: "string option"
  e_created_at :: string
  e_payload :: "jval option"

record command =
  c_key :: string
  c_type :: string
  c_created_at :: string
  c_request :: dict
  c_result :: dict

record policy_row =
  r_mode :: string
  r_revision :: int
  r_created_at :: string
  r_reason :: string
  r_policy :: "dict option"
  r_sha256 :: string
  r_previous_sha256 :: string

record mark_row =
  m_id :: string
  m_position :: string
  m_price_dec :: "string option"
  m_as_of :: string
  m_evidence_class :: string
  m_created_at :: string

record store =
  st_readonly :: bool
  st_bots :: "bot list"
  st_positions :: "position list"
  st_events :: "event list"
  st_commands :: "command list"
  st_policies :: "policy_row list"
  st_marks :: "mark_row list"
  st_wall :: "nat \<Rightarrow> string"
  st_hex :: "nat \<Rightarrow> string"
  st_calls :: nat

subsection \<open>Clock, identifiers and transactions\<close>

definition now_of :: "store \<Rightarrow> string" where
  "now_of s = st_wall s (st_calls s)"

definition tick :: "store \<Rightarrow> store" where
  "tick s = s\<lparr>st_calls := Suc (st_calls s)\<rparr>"

definition upper_char :: "char \<Rightarrow> char" where
  "upper_char c = (let n = (of_char c :: nat) in if 97 \<le> n \<and> n \<le> 122 then char_of (n - 32) else c)"

text \<open>\<open>uuid4().hex[:n].upper()\<close>.\<close>

definition hex_of :: "nat \<Rightarrow> store \<Rightarrow> string" where
  "hex_of n s = map upper_char (take n (st_hex s (st_calls s)))"

definition immediate_write :: "(store \<Rightarrow> 'a res) \<Rightarrow> store \<Rightarrow> 'a res" where
  "immediate_write body s =
     (if st_readonly s then Inl (PaperPlaneError ''READONLY_STORE'') else body s)"

lemma immediate_write_eq_Inr [result_simps]:
  "immediate_write body s = Inr y \<longleftrightarrow> \<not> st_readonly s \<and> body s = Inr y"
  by (simp add: immediate_write_def)

subsection \<open>Reading and writing rows\<close>

definition get_position :: "string \<Rightarrow> store \<Rightarrow> position option" where
  "get_position pid s = rows_get p_id pid (st_positions s)"

definition upd_position :: "string \<Rightarrow> (position \<Rightarrow> position) \<Rightarrow> store \<Rightarrow> store" where
  "upd_position pid f s = s\<lparr>st_positions := rows_upd p_id pid f (st_positions s)\<rparr>"

definition ins_position :: "position \<Rightarrow> store \<Rightarrow> store" where
  "ins_position r s = s\<lparr>st_positions := st_positions s @ [r]\<rparr>"

definition get_bot :: "string \<Rightarrow> store \<Rightarrow> bot option" where
  "get_bot bid s = rows_get b_id bid (st_bots s)"

definition upd_bot :: "string \<Rightarrow> (bot \<Rightarrow> bot) \<Rightarrow> store \<Rightarrow> store" where
  "upd_bot bid f s = s\<lparr>st_bots := rows_upd b_id bid f (st_bots s)\<rparr>"

definition ins_bot :: "bot \<Rightarrow> store \<Rightarrow> store" where
  "ins_bot r s = s\<lparr>st_bots := st_bots s @ [r]\<rparr>"

definition find_event :: "string \<Rightarrow> store \<Rightarrow> event option" where
  "find_event eid s = rows_get e_id eid (st_events s)"

interpretation pos: row_table get_position upd_position ins_position p_id
proof unfold_locales
  fix f :: "position \<Rightarrow> position" and k k' s
  assume "\<And>r. p_id (f r) = p_id r"
  then show "get_position k (upd_position k' f s) =
      (if k = k' then map_option f (get_position k s) else get_position k s)"
    by (simp add: get_position_def upd_position_def rows_get_upd)
next
  fix r :: position and k s
  assume "get_position (p_id r) s = None"
  then show "get_position k (ins_position r s) = (if k = p_id r then Some r else get_position k s)"
    by (simp add: get_position_def ins_position_def rows_get_ins)
next
  fix k s r
  assume "get_position k s = Some r"
  then show "p_id r = k" unfolding get_position_def by (rule rows_get_key)
qed

interpretation bots: row_table get_bot upd_bot ins_bot b_id
proof unfold_locales
  fix f :: "bot \<Rightarrow> bot" and k k' s
  assume "\<And>r. b_id (f r) = b_id r"
  then show "get_bot k (upd_bot k' f s) = (if k = k' then map_option f (get_bot k s) else get_bot k s)"
    by (simp add: get_bot_def upd_bot_def rows_get_upd)
next
  fix r :: bot and k s
  assume "get_bot (b_id r) s = None"
  then show "get_bot k (ins_bot r s) = (if k = b_id r then Some r else get_bot k s)"
    by (simp add: get_bot_def ins_bot_def rows_get_ins)
next
  fix k s r
  assume "get_bot k s = Some r"
  then show "b_id r = k" unfolding get_bot_def by (rule rows_get_key)
qed

text \<open>\<open>get_execution_event\<close>: a payload that is not JSON is reported, never guessed.\<close>

definition get_execution_event :: "string \<Rightarrow> store \<Rightarrow> event option res" where
  "get_execution_event eid s = (case find_event eid s of None \<Rightarrow> Inr None
     | Some e \<Rightarrow> (case e_payload e of None \<Rightarrow> Inl (PaperPlaneError ''EXECUTION_EVENT_CORRUPT'')
         | Some p \<Rightarrow> Inr (Some e)))"

text \<open>
  \<open>append_execution_event\<close>: \<open>event_id or "EVT-..."\<close>, \<open>created_at or _now()\<close>, and the primary key.
\<close>

definition append_execution_event ::
  "string \<Rightarrow> string option \<Rightarrow> string option \<Rightarrow> dict \<Rightarrow> string option \<Rightarrow> string option \<Rightarrow> store
   \<Rightarrow> (string \<times> store) res" where
  "append_execution_event etype bid pid payload event_id created_at s =
     (let (eid, s1) = (case event_id of Some (c # t) \<Rightarrow> (c # t, s) | _ \<Rightarrow> (''EVT-'' @ hex_of 16 s, tick s));
          (stamp, s2) = (case created_at of Some (c # t) \<Rightarrow> (c # t, s1) | _ \<Rightarrow> (now_of s1, tick s1))
      in if st_readonly s then Inl SqliteReadonlyError
         else if find_event eid s \<noteq> None then Inl SqliteIntegrityError
         else Inr (eid, s2\<lparr>st_events := st_events s2 @
           [\<lparr>e_id = eid, e_type = etype, e_bot = bid, e_position = pid, e_created_at = stamp,
             e_payload = Some (JObj payload)\<rparr>]\<rparr>))"

definition filtered_execution_events :: "string option \<Rightarrow> string list option \<Rightarrow> store \<Rightarrow> event list" where
  "filtered_execution_events etype pids s =
     (if pids = Some [] then []
      else map (\<lambda>e. case e_payload e of None \<Rightarrow> e\<lparr>e_payload := Some (JObj fmempty)\<rparr> | Some p \<Rightarrow> e)
        (filter (\<lambda>e. (case etype of None \<Rightarrow> True | Some t \<Rightarrow> e_type e = t)
                   \<and> (case pids of None \<Rightarrow> True | Some ps \<Rightarrow> e_position e \<in> Some ` set ps)) (st_events s)))"

subsection \<open>transition\<close>

definition set_state :: "pstate \<Rightarrow> string \<Rightarrow> position \<Rightarrow> position" where
  "set_state to_state now r = r\<lparr>p_state := to_state,
     p_closed_at := (if to_state \<in> set CLOSING_STATES then Some now else p_closed_at r)\<rparr>"

text \<open>
  The UPDATE is a compare-and-set on the state that was read; \<open>rowcount\<close> is the number of rows it
  changed.
\<close>

definition transition :: "string \<Rightarrow> pstate \<Rightarrow> store \<Rightarrow> (position \<times> store) res" where
  "transition pid to_state = immediate_write (\<lambda>s.
     case get_position pid s of None \<Rightarrow> Inl (PaperPlaneError ''POSITION_NOT_FOUND'')
     | Some row \<Rightarrow>
       (let current = p_state row
        in if to_state \<notin> set (TRANSITIONS current)
           then Inl (PaperPlaneError (''ILLEGAL_TRANSITION:'' @ state_name current @ ''->'' @ state_name to_state))
           else
             let s1 = (if to_state \<in> set CLOSING_STATES then tick s else s);
                 s2 = upd_position pid (\<lambda>r. if p_state r = current then set_state to_state (now_of s) r else r) s1;
                 rowcount = length (filter (\<lambda>r. p_id r = pid \<and> p_state r = current) (st_positions s))
             in if rowcount \<noteq> 1
                then Inl (PaperPlaneError (''STALE_STATE:'' @ state_name current @ ''->'' @ state_name to_state))
                else (case get_position pid s2 of None \<Rightarrow> Inl PyAssertionError
                      | Some updated \<Rightarrow> Inr (updated, s2))))"

end
