(* ===== verification/PaperAdvance.thy ===== *)
theory PaperAdvance
  imports PaperStore "HOL-Library.Sublist"
begin

section \<open>What every operation of the store keeps\<close>

text \<open>
  The contract of the paper plane's operations, as an interface. \<open>store_advance s s'\<close> says how
  a store may move: a position keeps its identity and follows the life cycle, what was admitted
  and the price of an entry are written once, the event log and the other logs only grow, bots
  keep their mode, and primary keys stay unique. The locale \<open>plane_operation\<close> states this law of
  an operation and derives what a client may rely on.
\<close>

subsection \<open>The life cycle\<close>

text \<open>
  Besides \<open>TRANSITIONS\<close>, a quantity leg writes the state itself: a part sold leaves the position in
  EXIT_REQUIRED, the last part sold reconciles it.
\<close>

definition LEG_STATES :: "pstate list" where
  "LEG_STATES = [OPEN, PARTIAL, EXIT_REQUIRED, EXITING, UNRESOLVED]"

inductive life_edge :: "pstate \<Rightarrow> pstate \<Rightarrow> bool" where
  by_transition: "t \<in> set (TRANSITIONS s) \<Longrightarrow> life_edge s t"
| by_leg: "s \<in> set LEG_STATES \<Longrightarrow> t \<in> {EXIT_REQUIRED, RECONCILED} \<Longrightarrow> life_edge s t"

inductive_cases life_edge_cases: "life_edge s t"
inductive_simps life_edge_simps: "life_edge s t"

abbreviation life :: "pstate \<Rightarrow> pstate \<Rightarrow> bool" where
  "life \<equiv> life_edge\<^sup>*\<^sup>*"

text \<open>Stages of the life cycle, never decreasing along an edge except for a part sold.\<close>

fun stage :: "pstate \<Rightarrow> nat" where
  "stage WATCHED = 0"
| "stage SIGNALLED = 1"
| "stage INTENT_CREATED = 2"
| "stage ATTEMPTING = 3"
| "stage UNKNOWN = 4"
| "stage OPEN = 5"
| "stage PARTIAL = 5"
| "stage EXIT_REQUIRED = 6"
| "stage EXITING = 6"
| "stage UNRESOLVED = 6"
| "stage CLOSED = 7"
| "stage RECONCILED = 8"
| "stage CANCELLED = 8"

lemma life_edge_stage:
  assumes "life_edge s t" shows "stage s < stage t \<or> (stage s = 6 \<and> stage t = 6) \<or> (s = UNKNOWN \<and> t = UNRESOLVED)"
  using assms
proof cases
  case by_transition then show ?thesis by (cases s) auto
next
  case by_leg then show ?thesis by (auto simp: LEG_STATES_def)
qed

lemma life_stage_mono: "life s t \<Longrightarrow> stage s \<le> stage t"
  by (induction rule: rtranclp_induct) (auto dest!: life_edge_stage)

lemma settled_no_edge: "s \<in> {RECONCILED, CANCELLED} \<Longrightarrow> \<not> life_edge s t"
  by (auto simp: life_edge_simps LEG_STATES_def)

lemma life_settled: "life s t \<Longrightarrow> s \<in> {RECONCILED, CANCELLED} \<Longrightarrow> t = s"
  by (erule converse_rtranclpE) (use settled_no_edge in blast)+

lemma life_closed: "life CLOSED t \<Longrightarrow> t \<in> {CLOSED, RECONCILED}"
proof -
  assume "life CLOSED t"
  then show ?thesis
  proof (cases rule: converse_rtranclpE)
    case (step u)
    then have "u = RECONCILED" by (auto simp: life_edge_simps LEG_STATES_def)
    then show ?thesis using step(2) life_settled [of RECONCILED t] by simp
  qed simp
qed

subsection \<open>How rows and stores move\<close>

definition kept :: "'a option \<Rightarrow> 'a option \<Rightarrow> bool" where
  "kept a b = (a = None \<or> b = a)"

lemma kept_refl [simp, intro]: "kept a a" by (simp add: kept_def)
lemma kept_None [simp, intro]: "kept None b" by (simp add: kept_def)
lemma kept_coalesce [simp, intro]: "kept a (coalesce a b)" by (cases a) (simp_all add: kept_def)
lemma kept_trans: "kept a b \<Longrightarrow> kept b c \<Longrightarrow> kept a c" by (auto simp: kept_def)

definition kept_text :: "string option \<Rightarrow> string option \<Rightarrow> bool" where
  "kept_text a b = (present a \<longrightarrow> b = a)"

lemma kept_text_refl [simp, intro]: "kept_text a a" by (simp add: kept_text_def)
lemma kept_text_absent [simp, intro]: "\<not> present a \<Longrightarrow> kept_text a b" by (simp add: kept_text_def)
lemma kept_text_trans: "kept_text a b \<Longrightarrow> kept_text b c \<Longrightarrow> kept_text a c"
  by (auto simp: kept_text_def)

definition same_identity :: "position \<Rightarrow> position \<Rightarrow> bool" where
  "same_identity r r' = (p_id r' = p_id r \<and> p_bot r' = p_bot r \<and> p_mint r' = p_mint r
     \<and> p_opened_at r' = p_opened_at r \<and> p_signal_decision_id r' = p_signal_decision_id r
     \<and> p_activation_epoch_id r' = p_activation_epoch_id r \<and> p_strategy_id r' = p_strategy_id r
     \<and> p_strategy_version_label r' = p_strategy_version_label r \<and> p_reason_code r' = p_reason_code r
     \<and> p_signal_decision_sha256 r' = p_signal_decision_sha256 r
     \<and> p_strategy_spec_sha256 r' = p_strategy_spec_sha256 r)"

definition admission_kept :: "position \<Rightarrow> position \<Rightarrow> bool" where
  "admission_kept r r' =
     (kept (p_admitted_entry_notional_usd_dec r) (p_admitted_entry_notional_usd_dec r')
      \<and> kept (p_strategy_requested_notional_usd_dec r) (p_strategy_requested_notional_usd_dec r')
      \<and> kept (p_runtime_policy_mode r) (p_runtime_policy_mode r')
      \<and> kept (p_runtime_policy_revision r) (p_runtime_policy_revision r')
      \<and> kept (p_runtime_policy_sha256 r) (p_runtime_policy_sha256 r')
      \<and> kept (p_admitted_fee_bps r) (p_admitted_fee_bps r'))"

definition row_advance :: "position \<Rightarrow> position \<Rightarrow> bool" where
  "row_advance r r' = (same_identity r r' \<and> life (p_state r) (p_state r') \<and> admission_kept r r'
     \<and> kept_text (p_entry_price_dec r) (p_entry_price_dec r'))"

lemma row_advance_refl [simp, intro]: "row_advance r r"
  by (simp add: row_advance_def same_identity_def admission_kept_def)

lemma same_identity_trans: "same_identity a b \<Longrightarrow> same_identity b c \<Longrightarrow> same_identity a c"
  by (simp add: same_identity_def)

lemma admission_kept_trans: "admission_kept a b \<Longrightarrow> admission_kept b c \<Longrightarrow> admission_kept a c"
  unfolding admission_kept_def by (blast intro: kept_trans)

lemma row_advance_trans [trans]: "row_advance a b \<Longrightarrow> row_advance b c \<Longrightarrow> row_advance a c"
  unfolding row_advance_def
  by (blast intro: same_identity_trans admission_kept_trans kept_text_trans rtranclp_trans)

lemma row_advance_set_state: "life (p_state r) t \<Longrightarrow> row_advance r (set_state t now r)"
  by (simp add: row_advance_def set_state_def same_identity_def admission_kept_def)

definition bot_advance :: "bot \<Rightarrow> bot \<Rightarrow> bool" where
  "bot_advance b b' = (b_id b' = b_id b \<and> b_mode b' = b_mode b \<and> b_strategy_id b' = b_strategy_id b
     \<and> b_strategy_version b' = b_strategy_version b \<and> b_started_at b' = b_started_at b)"

definition store_wf :: "store \<Rightarrow> bool" where
  "store_wf s = (distinct (map p_id (st_positions s)) \<and> distinct (map b_id (st_bots s))
     \<and> distinct (map e_id (st_events s)) \<and> distinct (map c_key (st_commands s)))"

definition tables_of :: "store \<Rightarrow> bot list \<times> position list \<times> event list \<times> command list \<times> policy_row list \<times> mark_row list" where
  "tables_of s = (st_bots s, st_positions s, st_events s, st_commands s, st_policies s, st_marks s)"

definition store_advance :: "store \<Rightarrow> store \<Rightarrow> bool" where
  "store_advance s s' =
     ((\<forall>pid r. get_position pid s = Some r \<longrightarrow> (\<exists>r'. get_position pid s' = Some r' \<and> row_advance r r'))
      \<and> (\<forall>bid b. get_bot bid s = Some b \<longrightarrow> (\<exists>b'. get_bot bid s' = Some b' \<and> bot_advance b b'))
      \<and> prefix (st_events s) (st_events s') \<and> prefix (st_commands s) (st_commands s')
      \<and> prefix (st_policies s) (st_policies s') \<and> prefix (st_marks s) (st_marks s')
      \<and> (store_wf s \<longrightarrow> store_wf s')
      \<and> st_readonly s' = st_readonly s \<and> (st_readonly s \<longrightarrow> tables_of s' = tables_of s))"

lemma store_advance_refl [simp, intro]: "store_advance s s"
  by (auto simp: store_advance_def bot_advance_def)

lemma bot_advance_trans: "bot_advance a b \<Longrightarrow> bot_advance b c \<Longrightarrow> bot_advance a c"
  by (simp add: bot_advance_def)

lemma store_advance_position:
  assumes "store_advance s s'" and "get_position pid s = Some r"
  obtains r' where "get_position pid s' = Some r'" and "row_advance r r'"
  using assms unfolding store_advance_def by blast

lemma store_advance_bot:
  assumes "store_advance s s'" and "get_bot bid s = Some b"
  obtains b' where "get_bot bid s' = Some b'" and "bot_advance b b'"
  using assms unfolding store_advance_def by blast

lemma store_advance_trans [trans]:
  assumes "store_advance a b" and "store_advance b c"
  shows "store_advance a c"
proof -
  have "\<exists>r'. get_position pid c = Some r' \<and> row_advance r r'" if "get_position pid a = Some r" for pid r
    using assms that by (meson store_advance_position row_advance_trans)
  moreover have "\<exists>b'. get_bot bid c = Some b' \<and> bot_advance b0 b'" if "get_bot bid a = Some b0" for bid b0
    using assms that by (meson store_advance_bot bot_advance_trans)
  moreover have "prefix (st_events a) (st_events c)" and "prefix (st_commands a) (st_commands c)"
    and "prefix (st_policies a) (st_policies c)" and "prefix (st_marks a) (st_marks c)"
    using assms unfolding store_advance_def by (meson prefix_order.trans)+
  moreover have "store_wf a \<longrightarrow> store_wf c" and "st_readonly c = st_readonly a"
    and "st_readonly a \<longrightarrow> tables_of c = tables_of a"
    using assms unfolding store_advance_def by metis+
  ultimately show ?thesis unfolding store_advance_def by blast
qed

subsection \<open>Rules for the primitives\<close>

named_theorems advance_intros

lemma get_position_tick [simp]: "get_position pid (tick s) = get_position pid s"
  by (simp add: get_position_def tick_def)

lemma tick_fields [simp]:
  "st_positions (tick s) = st_positions s" "st_events (tick s) = st_events s"
  "st_bots (tick s) = st_bots s" "st_commands (tick s) = st_commands s"
  "st_policies (tick s) = st_policies s" "st_marks (tick s) = st_marks s"
  "st_readonly (tick s) = st_readonly s" "get_bot bid (tick s) = get_bot bid s"
  by (simp_all add: tick_def get_bot_def)

lemma upd_position_fields [simp]:
  "st_events (upd_position pid f s) = st_events s" "st_bots (upd_position pid f s) = st_bots s"
  "st_commands (upd_position pid f s) = st_commands s" "st_policies (upd_position pid f s) = st_policies s"
  "st_marks (upd_position pid f s) = st_marks s" "st_readonly (upd_position pid f s) = st_readonly s"
  "get_bot bid (upd_position pid f s) = get_bot bid s" "st_wall (upd_position pid f s) = st_wall s"
  "st_hex (upd_position pid f s) = st_hex s" "st_calls (upd_position pid f s) = st_calls s"
  "find_event eid (upd_position pid f s) = find_event eid s"
  by (simp_all add: upd_position_def get_bot_def find_event_def)

lemma tick_advance [advance_intros]: "store_advance s (tick s)"
  by (auto simp: store_advance_def bot_advance_def store_wf_def tables_of_def)

lemma upd_position_advance [advance_intros]:
  assumes "\<And>r. p_id (f r) = p_id r" and "\<not> st_readonly s"
    and "\<And>r. get_position pid s = Some r \<Longrightarrow> row_advance r (f r)"
  shows "store_advance s (upd_position pid f s)"
proof -
  have "map p_id (st_positions (upd_position pid f s)) = map p_id (st_positions s)"
    by (simp add: upd_position_def rows_upd_keys assms(1))
  then have "store_wf s \<longrightarrow> store_wf (upd_position pid f s)" by (simp add: store_wf_def)
  moreover have "get_position k (upd_position pid f s) =
      (if k = pid then map_option f (get_position k s) else get_position k s)" for k
    by (rule pos.get_upd) (rule assms(1))
  ultimately show ?thesis using assms(2,3)
    by (auto simp: store_advance_def bot_advance_def)
qed

lemma upd_always_advance:
  assumes "\<not> st_readonly s" and "\<And>r. row_advance r (f r)"
  shows "store_advance s (upd_position pid f s)"
  using assms by (intro upd_position_advance) (auto simp: row_advance_def same_identity_def)

lemma store_advance_readonly: "store_advance s s' \<Longrightarrow> st_readonly s' = st_readonly s"
  by (simp add: store_advance_def)

lemma append_event_result:
  assumes "append_execution_event etype bid pid payload event_id created_at s = Inr (eid, s')"
  shows "st_positions s' = st_positions s" and "st_bots s' = st_bots s"
    and "st_commands s' = st_commands s" and "st_policies s' = st_policies s"
    and "st_marks s' = st_marks s" and "st_readonly s' = st_readonly s" and "\<not> st_readonly s"
    and "find_event eid s = None"
    and "\<exists>stamp. st_events s' = st_events s @ [\<lparr>e_id = eid, e_type = etype, e_bot = bid, e_position = pid,
       e_created_at = stamp, e_payload = Some (JObj payload)\<rparr>]
       \<and> (\<forall>c t. created_at = Some (c # t) \<longrightarrow> stamp = c # t)"
    and "\<And>c t. event_id = Some (c # t) \<Longrightarrow> eid = c # t"
  using assms
  by (auto simp: append_execution_event_def Let_def result_simps split: prod.splits option.splits list.splits)

lemma append_event_advance:
  assumes "append_execution_event etype bid pid payload event_id created_at s = Inr (eid, s')"
  shows "store_advance s s'"
proof -
  note res = append_event_result [OF assms]
  obtain e where ev: "st_events s' = st_events s @ [e]" and "e_id e = eid" using res(9) by auto
  moreover have "eid \<notin> e_id ` set (st_events s)" using res(8) by (simp add: find_event_def rows_get_None)
  ultimately have "store_wf s \<longrightarrow> store_wf s'" using res(1,2,3) by (auto simp: store_wf_def)
  moreover have "get_position pid s' = get_position pid s" and "get_bot bid s' = get_bot bid s" for pid bid
    using res(1,2) by (simp_all add: get_position_def get_bot_def)
  ultimately show ?thesis using res ev by (auto simp: store_advance_def bot_advance_def)
qed

lemma get_position_events [simp]:
  "append_execution_event etype bid pid payload event_id created_at s = Inr (eid, s') \<Longrightarrow>
     get_position k s' = get_position k s"
  using append_event_result(1) by (simp add: get_position_def)

lemma ins_position_advance:
  assumes "get_position (p_id r) s = None" and "\<not> st_readonly s"
  shows "store_advance s (ins_position r s)"
proof -
  have "p_id r \<notin> p_id ` set (st_positions s)" using assms(1) by (simp add: get_position_def rows_get_None)
  then have "store_wf s \<longrightarrow> store_wf (ins_position r s)" by (auto simp: store_wf_def ins_position_def)
  moreover have "get_position k s = Some r' \<Longrightarrow> get_position k (ins_position r s) = Some r'" for k r'
    using assms(1) by (rule pos.get_ins_old)
  ultimately show ?thesis using assms(2)
    by (auto simp: store_advance_def bot_advance_def) (auto simp: ins_position_def get_bot_def bot_advance_def)
qed

lemma upd_bot_advance [advance_intros]:
  assumes "\<And>b. b_id (f b) = b_id b" and "\<not> st_readonly s" and "\<And>b. bot_advance b (f b)"
  shows "store_advance s (upd_bot bid f s)"
proof -
  have "map b_id (st_bots (upd_bot bid f s)) = map b_id (st_bots s)"
    by (simp add: upd_bot_def rows_upd_keys assms(1))
  then have "store_wf s \<longrightarrow> store_wf (upd_bot bid f s)" by (simp add: store_wf_def upd_bot_def)
  moreover have "get_bot k (upd_bot bid f s) = (if k = bid then map_option f (get_bot k s) else get_bot k s)" for k
    by (rule bots.get_upd) (rule assms(1))
  moreover have "bot_advance b b" for b by (simp add: bot_advance_def)
  moreover have "get_position k (upd_bot bid f s) = get_position k s" for k
    by (simp add: get_position_def upd_bot_def)
  ultimately show ?thesis using assms(2,3) unfolding store_advance_def
    by (auto simp: upd_bot_def)
qed

lemma ins_bot_advance:
  assumes "get_bot (b_id b) s = None" and "\<not> st_readonly s"
  shows "store_advance s (ins_bot b s)"
proof -
  have "b_id b \<notin> b_id ` set (st_bots s)" using assms(1) by (simp add: get_bot_def rows_get_None)
  then have "store_wf s \<longrightarrow> store_wf (ins_bot b s)" by (auto simp: store_wf_def ins_bot_def)
  moreover have "get_bot k s = Some b' \<Longrightarrow> get_bot k (ins_bot b s) = Some b'" for k b'
    using assms(1) by (rule bots.get_ins_old)
  moreover have "bot_advance b b" for b by (simp add: bot_advance_def)
  moreover have "get_position k (ins_bot b s) = get_position k s" for k
    by (simp add: get_position_def ins_bot_def)
  ultimately show ?thesis using assms(2) unfolding store_advance_def
    by (auto simp: ins_bot_def)
qed

text \<open>A write that leaves bots, positions and events alone and appends to the other logs.\<close>

lemma other_tables_advance:
  assumes "st_positions s' = st_positions s" and "st_bots s' = st_bots s" and "st_events s' = st_events s"
    and "prefix (st_commands s) (st_commands s')" and "prefix (st_policies s) (st_policies s')"
    and "prefix (st_marks s) (st_marks s')" and "st_readonly s' = st_readonly s" and "\<not> st_readonly s"
    and "distinct (map c_key (st_commands s)) \<Longrightarrow> distinct (map c_key (st_commands s'))"
  shows "store_advance s s'"
  using assms by (auto simp: store_advance_def bot_advance_def store_wf_def get_position_def get_bot_def)

subsection \<open>What a transition does\<close>

lemma transition_result:
  assumes "transition pid t s = Inr (r', s')"
  obtains r where "get_position pid s = Some r" and "t \<in> set (TRANSITIONS (p_state r))"
    and "r' = set_state t (now_of s) r" and "get_position pid s' = Some r'"
    and "st_events s' = st_events s" and "st_bots s' = st_bots s" and "store_advance s s'"
    and "\<And>k. k \<noteq> pid \<Longrightarrow> get_position k s' = get_position k s"
proof -
  obtain r where r: "get_position pid s = Some r" and leg: "t \<in> set (TRANSITIONS (p_state r))"
    and ro: "\<not> st_readonly s"
    using assms by (auto simp: transition_def Let_def result_simps)
  let ?f = "\<lambda>x. if p_state x = p_state r then set_state t (now_of s) x else x"
  define s1 where "s1 = (if t \<in> set CLOSING_STATES then tick s else s)"
  have id: "\<And>x. p_id (?f x) = p_id x" by (simp add: set_state_def)
  have s1: "get_position k s1 = get_position k s" "\<not> st_readonly s1" "st_events s1 = st_events s"
    "st_bots s1 = st_bots s" "store_advance s s1" for k
    using ro by (auto simp: s1_def tick_advance)
  have g: "get_position k (upd_position pid ?f s1) = (if k = pid then map_option ?f (get_position k s1) else get_position k s1)" for k
    by (rule pos.get_upd) (rule id)
  have s': "s' = upd_position pid ?f s1" and r': "r' = set_state t (now_of s) r"
    using assms r leg ro g [of pid] s1(1) [of pid]
    by (auto simp: transition_def Let_def result_simps s1_def split: if_splits)
  have adv: "row_advance r (?f r)"
    using leg by (simp add: row_advance_set_state r_into_rtranclp by_transition)
  have "store_advance s1 s'" unfolding s'
  proof (rule upd_position_advance [OF id s1(2)])
    fix x assume "get_position pid s1 = Some x"
    then show "row_advance x (?f x)" using r s1(1) adv by simp
  qed
  with s1(5) have "store_advance s s'" by (rule store_advance_trans)
  moreover have "get_position pid s' = Some r'" using g [of pid] s1(1) r r' s' by simp
  moreover have "get_position k s' = get_position k s" if "k \<noteq> pid" for k using g [of k] that s1(1) s' by simp
  moreover have "st_events s' = st_events s" and "st_bots s' = st_bots s"
    using s1 by (simp_all add: s' upd_position_def)
  ultimately show thesis using that r leg r' by metis
qed

lemma transition_advance: "transition pid t s = Inr (r', s') \<Longrightarrow> store_advance s s'"
  by (erule transition_result)

text \<open>
  With unique keys the compare-and-set changes exactly the row that was read: \<open>STALE_STATE\<close> cannot
  be raised inside the transaction.
\<close>

lemma filter_distinct_key:
  assumes "distinct (map key rs)" and "rows_get key k rs = Some r"
  shows "filter (\<lambda>x. key x = k \<and> P x) rs = (if P r then [r] else [])"
  using assms
proof (induction rs)
  case (Cons a rs)
  show ?case
  proof (cases "key a = k")
    case True
    then have "a = r" using Cons.prems(2) by simp
    moreover have "\<forall>x\<in>set rs. key x \<noteq> k" using Cons.prems(1) True by (metis distinct.simps(2) image_eqI list.set_map list.simps(9))
    then have "filter (\<lambda>x. key x = k \<and> P x) rs = []" by (simp add: filter_empty_conv)
    ultimately show ?thesis using True by simp
  next
    case False
    then show ?thesis using Cons by simp
  qed
qed simp

lemma transition_defined:
  assumes "store_wf s" and "\<not> st_readonly s" and "get_position pid s = Some r"
    and "t \<in> set (TRANSITIONS (p_state r))"
  shows "\<exists>s'. transition pid t s = Inr (set_state t (now_of s) r, s')"
proof -
  let ?f = "\<lambda>x. if p_state x = p_state r then set_state t (now_of s) x else x"
  have id: "\<And>x. p_id (?f x) = p_id x" by (simp add: set_state_def)
  have one: "filter (\<lambda>x. p_id x = pid \<and> p_state x = p_state r) (st_positions s) = [r]"
    using filter_distinct_key [of p_id "st_positions s" pid r "\<lambda>x. p_state x = p_state r"] assms(1,3)
    by (simp add: store_wf_def get_position_def)
  have g: "get_position pid (upd_position pid ?f s1) = map_option ?f (get_position pid s1)" for s1
    using pos.get_upd [of ?f pid pid s1, OF id] by simp
  show ?thesis
    using assms(2-4) g by (simp add: transition_def immediate_write_def Let_def one)
qed

subsection \<open>The contract of an operation\<close>

locale plane_operation =
  fixes run :: "'a \<Rightarrow> store \<Rightarrow> ('b \<times> store) res"
  assumes advance: "run a s = Inr (y, s') \<Longrightarrow> store_advance s s'"
begin

text \<open>A sequence of calls; one that raises leaves the store as it was.\<close>

definition call :: "'a \<Rightarrow> store \<Rightarrow> store" where
  "call a s = (case run a s of Inl e \<Rightarrow> s | Inr (y, s') \<Rightarrow> s')"

definition calls :: "'a list \<Rightarrow> store \<Rightarrow> store" where
  "calls as s = foldl (\<lambda>s a. call a s) s as"

lemma call_advance: "store_advance s (call a s)"
  unfolding call_def by (auto split: sum.split dest: advance)

lemma calls_advance: "store_advance s (calls as s)"
proof (induction as arbitrary: s)
  case (Cons a as)
  show ?case using store_advance_trans [OF call_advance Cons.IH] by (simp add: calls_def)
qed (simp add: calls_def)

lemma settled_stay:
  assumes "get_position pid s = Some r" and "p_state r \<in> {RECONCILED, CANCELLED}"
  obtains r' where "get_position pid (calls as s) = Some r'" and "p_state r' = p_state r"
proof -
  obtain r' where "get_position pid (calls as s) = Some r'" and "row_advance r r'"
    using calls_advance assms(1) by (rule store_advance_position)
  then show thesis using that assms(2) life_settled by (auto simp: row_advance_def)
qed

lemma log_grows: "prefix (st_events s) (st_events (calls as s))"
  using calls_advance unfolding store_advance_def by blast

lemma admission_frozen:
  assumes "get_position pid s = Some r"
  obtains r' where "get_position pid (calls as s) = Some r'" and "same_identity r r'" and "admission_kept r r'"
    and "kept_text (p_entry_price_dec r) (p_entry_price_dec r')"
proof -
  obtain r' where "get_position pid (calls as s) = Some r'" and "row_advance r r'"
    using calls_advance assms(1) by (rule store_advance_position)
  then show thesis using that by (auto simp: row_advance_def)
qed

lemma keys_unique: "store_wf s \<Longrightarrow> store_wf (calls as s)"
  using calls_advance unfolding store_advance_def by blast

lemma readonly_unchanged: "st_readonly s \<Longrightarrow> tables_of (calls as s) = tables_of s"
  using calls_advance unfolding store_advance_def by blast

end

interpretation transition_op: plane_operation "\<lambda>(pid, t). transition pid t"
  by unfold_locales (auto dest: transition_advance)

text \<open>The rules that evaluate the store's primitives on a concrete store.\<close>

named_theorems store_eval

lemmas [store_eval] =
  get_position_def upd_position_def rows_upd_def get_bot_def find_event_def transition_def
  set_state_def now_of_def tick_def hex_of_def upper_char_def append_execution_event_def
  immediate_write_def CLOSING_STATES_def get_execution_event_def

end
