(* ===== verification/PaperControl.thy ===== *)
theory PaperControl
  imports PaperAdvance
begin

section \<open>Opening, cancelling and counting positions\<close>

text \<open>
  The operations of \<open>PaperPlaneStore\<close> that do not book a fill: opening a position, cancelling an
  entry intent, freezing what was admitted, pausing and stopping bots, counting open risk, the
  legacy fill helpers, accepting an exit decision, operator commands and policy revisions. Each
  operation that writes obeys the contract \<open>plane_operation\<close>.
\<close>

subsection \<open>_identity_fields\<close>

definition IDENTITY_KEYS :: "string list" where
  "IDENTITY_KEYS = [''signal_decision_id'', ''strategy_id'', ''activation_epoch_id'', ''mint'', ''action'',
     ''reason_code'', ''decision_at'']"

definition identity_fields :: "(string \<Rightarrow> jval) \<Rightarrow> dict" where
  "identity_fields source =
     (let version = jor (source ''strategy_version'') (source ''strategy_version_label'');
          payload = foldl (\<lambda>d k. if jpresent (source k) then fmupd k (source k) d else d) fmempty IDENTITY_KEYS
      in if jpresent version then fmupd ''strategy_version'' version payload else payload)"

text \<open>The identity columns of a row read as a dictionary: \<open>dict(row).get\<close>.\<close>

definition position_source :: "position \<Rightarrow> string \<Rightarrow> jval" where
  "position_source p k =
     (if k = ''signal_decision_id'' then jtext (p_signal_decision_id p)
      else if k = ''strategy_id'' then jtext (p_strategy_id p)
      else if k = ''activation_epoch_id'' then jtext (p_activation_epoch_id p)
      else if k = ''mint'' then JStr (p_mint p)
      else if k = ''reason_code'' then jtext (p_reason_code p)
      else if k = ''strategy_version_label'' then jtext (p_strategy_version_label p)
      else JNull)"

definition row_identity :: "position \<Rightarrow> dict" where
  "row_identity p = identity_fields (position_source p)"

subsection \<open>Opening a position\<close>

definition blank_position :: "string \<Rightarrow> string \<Rightarrow> string \<Rightarrow> string \<Rightarrow> string \<Rightarrow> position" where
  "blank_position pid bid mint kind now =
     \<lparr>p_id = pid, p_bot = bid, p_mint = mint, p_state = WATCHED, p_signal_kind = Some kind,
      p_entered_notional_usd = None, p_exit_notional_usd = None, p_opened_at = Some now, p_closed_at = None,
      p_signal_decision_id = None, p_activation_epoch_id = None, p_strategy_id = None,
      p_strategy_version_label = None, p_exit_decision_id = None, p_reason_code = None,
      p_entry_price_dec = None, p_exit_price_dec = None, p_qty_dec = None, p_fee_bps = None,
      p_entry_fee_usd_dec = None, p_exit_fee_usd_dec = None, p_entered_notional_usd_dec = None,
      p_exit_notional_usd_dec = None, p_realized_gross_pnl_usd_dec = None, p_realized_net_pnl_usd_dec = None,
      p_pnl_evidence_class = None, p_mark_price_dec = None, p_mark_as_of = None,
      p_unrealized_gross_pnl_usd_dec = None, p_unrealized_net_pnl_usd_dec = None,
      p_unrealized_evidence_class = None, p_admitted_entry_notional_usd_dec = None,
      p_strategy_requested_notional_usd_dec = None, p_runtime_policy_mode = None,
      p_runtime_policy_revision = None, p_runtime_policy_sha256 = None, p_cancel_reason_code = None,
      p_admitted_fee_bps = None, p_signal_decision_sha256 = None, p_strategy_spec_sha256 = None,
      p_exit_reason_code = None, p_ordinary_operating = None, p_ordinary_envelope_sha256 = None,
      p_entry_fee_semantics = None, p_remaining_qty_dec = None, p_remaining_cost_basis_usd_dec = None,
      p_remaining_entry_fee_usd_dec = None\<rparr>"

text \<open>\<open>INSERT ... ON CONFLICT(position_id) DO NOTHING\<close>, a statement of its own.\<close>

definition insert_position_once :: "position \<Rightarrow> store \<Rightarrow> store res" where
  "insert_position_once r s =
     (if st_readonly s then Inl SqliteReadonlyError
      else Inr (if get_position (p_id r) s = None then ins_position r s else s))"

definition position_id_for :: "string \<Rightarrow> string \<Rightarrow> string \<Rightarrow> string" where
  "position_id_for bid mint kind = ''POS-'' @ bid @ ''-'' @ take 12 mint @ ''-'' @ kind"

definition open_position :: "string \<Rightarrow> string \<Rightarrow> string \<Rightarrow> store \<Rightarrow> (string \<times> store) res" where
  "open_position bid mint kind s =
     (if kind \<in> set FORBIDDEN_SIGNAL_KINDS then Inl (PaperPlaneError ''REAL_FILL_FORBIDDEN_IN_PAPER_PLANE'')
      else if kind \<notin> set SIGNAL_KINDS then Inl (PaperPlaneError ''SIGNAL_KIND_INVALID'')
      else let pid = position_id_for bid mint kind
           in bindR (insert_position_once (blank_position pid bid mint kind (now_of s)) (tick s)) (\<lambda>s'. Inr (pid, s')))"

text \<open>A validated signal decision (\<open>validate_signal_decision\<close>), as far as the plane reads it.\<close>

record signal_decision =
  sd_id :: string
  sd_activation_epoch_id :: string
  sd_strategy_id :: string
  sd_strategy_version :: string
  sd_mint :: string
  sd_action :: string
  sd_reason_code :: string
  sd_decision_at :: string

definition position_id_for_signal_decision :: "string \<Rightarrow> string" where
  "position_id_for_signal_decision sid = ''POS-SIG-'' @ sid"

definition open_position_from_signal ::
  "string \<Rightarrow> signal_decision \<Rightarrow> string \<Rightarrow> string option \<Rightarrow> string option \<Rightarrow> store \<Rightarrow> (string \<times> store) res" where
  "open_position_from_signal bid sd kind sd_sha spec_sha s =
     (let pid = position_id_for_signal_decision (sd_id sd);
          row = (blank_position pid bid (sd_mint sd) kind (now_of s))
            \<lparr>p_signal_decision_id := Some (sd_id sd), p_activation_epoch_id := Some (sd_activation_epoch_id sd),
             p_strategy_id := Some (sd_strategy_id sd), p_strategy_version_label := Some (sd_strategy_version sd),
             p_reason_code := Some (sd_reason_code sd), p_signal_decision_sha256 := sd_sha,
             p_strategy_spec_sha256 := spec_sha\<rparr>
      in bindR (insert_position_once row (tick s)) (\<lambda>s'. Inr (pid, s')))"

subsection \<open>Bots\<close>

definition set_entries_paused :: "string \<Rightarrow> bool \<Rightarrow> store \<Rightarrow> (unit \<times> store) res" where
  "set_entries_paused bid paused = immediate_write (\<lambda>s.
     case get_bot bid s of None \<Rightarrow> Inl (PaperPlaneError ''BOT_NOT_FOUND'')
     | Some b \<Rightarrow> Inr ((), upd_bot bid (\<lambda>b. b\<lparr>b_entries_paused := paused\<rparr>) s))"

definition set_bot_status :: "string \<Rightarrow> string \<Rightarrow> string option \<Rightarrow> store \<Rightarrow> (unit \<times> store) res" where
  "set_bot_status bid status stopped_at = immediate_write (\<lambda>s.
     case get_bot bid s of None \<Rightarrow> Inl (PaperPlaneError ''BOT_NOT_FOUND'')
     | Some b \<Rightarrow> Inr ((), upd_bot bid (\<lambda>b. b\<lparr>b_status := status,
         b_stopped_at := coalesce stopped_at (b_stopped_at b)\<rparr>) s))"

subsection \<open>Cancelling an entry intent\<close>

definition cancel_row :: "string \<Rightarrow> position \<Rightarrow> position" where
  "cancel_row reason r = r\<lparr>p_cancel_reason_code := Some reason, p_remaining_qty_dec := Some ''0'',
     p_remaining_cost_basis_usd_dec := Some ''0'', p_remaining_entry_fee_usd_dec := Some ''0''\<rparr>"

definition cancel_entry_intent :: "string \<Rightarrow> string \<Rightarrow> store \<Rightarrow> (position \<times> store) res" where
  "cancel_entry_intent pid reason s0 =
     (if reason \<notin> set CANCEL_REASONS then Inl (PaperPlaneError ''CANCEL_REASON_INVALID'')
      else immediate_write (\<lambda>s.
        case get_position pid s of None \<Rightarrow> Inl (PaperPlaneError ''POSITION_NOT_FOUND'')
        | Some position \<Rightarrow>
          (let state = p_state position
           in if state = CANCELLED then Inr (position, s)
              else if state = ATTEMPTING \<and> reason \<notin> set DEFINITIVE_NON_FILL_REASONS
                then Inl (PaperPlaneError ''CANCEL_REQUIRES_DEFINITIVE_NON_FILL:ATTEMPTING'')
              else if state \<notin> set PRE_ATTEMPT_STATES \<and> state \<noteq> ATTEMPTING
                then Inl (PaperPlaneError (''CANCEL_STATE_INVALID:'' @ state_name state))
              else if present (p_entry_price_dec position)
                then Inl (PaperPlaneError ''CANCEL_AFTER_FILL_FORBIDDEN'')
              else bindR (transition pid CANCELLED s) (\<lambda>(_, s1).
                let s2 = upd_position pid (cancel_row reason) s1
                in bindR (append_execution_event ''ENTRY_INTENT_CANCELLED'' (Some (p_bot position)) (Some pid)
                     (dict_with (row_identity position)
                        [(''from_state'', JStr (state_name state)), (''cancel_reason_code'', JStr reason)])
                     None None s2) (\<lambda>(_, s3).
                   case get_position pid s3 of None \<Rightarrow> Inl PyAssertionError
                   | Some updated \<Rightarrow> Inr (updated, s3))))) s0)"

subsection \<open>What was admitted\<close>

definition freeze_admission_row ::
  "string \<Rightarrow> string \<Rightarrow> string option \<Rightarrow> int option \<Rightarrow> string option \<Rightarrow> int option \<Rightarrow> position \<Rightarrow> position" where
  "freeze_admission_row admitted requested mode revision sha fee r =
     r\<lparr>p_admitted_entry_notional_usd_dec := coalesce (p_admitted_entry_notional_usd_dec r) (Some admitted),
       p_strategy_requested_notional_usd_dec := coalesce (p_strategy_requested_notional_usd_dec r) (Some requested),
       p_runtime_policy_mode := coalesce (p_runtime_policy_mode r) mode,
       p_runtime_policy_revision := coalesce (p_runtime_policy_revision r) revision,
       p_runtime_policy_sha256 := coalesce (p_runtime_policy_sha256 r) sha,
       p_admitted_fee_bps := coalesce (p_admitted_fee_bps r) fee\<rparr>"

definition freeze_admission_binding ::
  "string \<Rightarrow> string \<Rightarrow> string \<Rightarrow> string option \<Rightarrow> int option \<Rightarrow> string option \<Rightarrow> int option \<Rightarrow> store
   \<Rightarrow> (unit \<times> store) res" where
  "freeze_admission_binding pid admitted requested mode revision sha fee = immediate_write (\<lambda>s.
     Inr ((), upd_position pid (freeze_admission_row admitted requested mode revision sha fee) s))"

subsection \<open>Counting open risk\<close>

definition open_risk_count :: "string \<Rightarrow> store \<Rightarrow> nat" where
  "open_risk_count bid s =
     length (filter (\<lambda>r. p_state r \<in> set OPEN_RISK_STATES) (filter (\<lambda>r. p_bot r = bid) (st_positions s)))"

definition OPEN_FOR_BOT_STATES :: "pstate list" where
  "OPEN_FOR_BOT_STATES = [WATCHED, SIGNALLED, INTENT_CREATED, ATTEMPTING, OPEN, PARTIAL, UNKNOWN,
     EXIT_REQUIRED, EXITING, UNRESOLVED]"

datatype risk_decision =
    RiskUnknown nat
  | RiskBlock nat int
  | RiskAllow nat int

text \<open>\<open>decision\<close> UNKNOWN, BLOCK_MAX_OPEN_POSITIONS or ALLOW, with the count and the limit reported.\<close>

definition pre_trade_risk_snapshot :: "string \<Rightarrow> int option \<Rightarrow> store \<Rightarrow> risk_decision" where
  "pre_trade_risk_snapshot bid max_open s =
     (case max_open of None \<Rightarrow> RiskUnknown (open_risk_count bid s)
      | Some m \<Rightarrow> (let current = open_risk_count bid s
                    in if m \<le> int current then RiskBlock current m else RiskAllow current m))"

record risk_inventory =
  i_global_count :: nat
  i_strategy_count :: nat
  i_mint_count :: nat
  i_bot_count :: nat
  i_strategy_identity_unknown :: bool
  i_global_notional :: decimal
  i_strategy_notional :: decimal
  i_mint_notional :: decimal
  i_global_unknown :: bool
  i_strategy_unknown :: bool
  i_mint_unknown :: bool

text \<open>\<open>_exposure\<close>: entered, else admitted, else unknown.\<close>

definition exposure :: "position \<Rightarrow> decimal option res" where
  "exposure r =
     (if present (p_entered_notional_usd_dec r)
      then bindR (dec_of_string (the (p_entered_notional_usd_dec r))) (\<lambda>x. Inr (Some x))
      else if present (p_admitted_entry_notional_usd_dec r)
      then bindR (dec_of_string (the (p_admitted_entry_notional_usd_dec r))) (\<lambda>x. Inr (Some x))
      else Inr None)"

definition add_exposure :: "decimal option \<Rightarrow> decimal \<Rightarrow> decimal res" where
  "add_exposure e acc = (case e of None \<Rightarrow> Inr acc | Some x \<Rightarrow> dec_add acc x)"

definition count_global :: "string \<Rightarrow> position \<Rightarrow> decimal option \<Rightarrow> risk_inventory \<Rightarrow> risk_inventory res" where
  "count_global bid r e i =
     bindR (add_exposure e (i_global_notional i)) (\<lambda>g.
       Inr (i\<lparr>i_global_count := Suc (i_global_count i), i_global_notional := g,
            i_global_unknown := i_global_unknown i \<or> e = None,
            i_bot_count := (if bid \<noteq> [] \<and> p_bot r = bid then Suc (i_bot_count i) else i_bot_count i)\<rparr>))"

definition count_strategy :: "string \<Rightarrow> position \<Rightarrow> decimal option \<Rightarrow> risk_inventory \<Rightarrow> risk_inventory res" where
  "count_strategy strategy r e i =
     (if \<not> present (p_strategy_id r)
      then Inr (i\<lparr>i_strategy_identity_unknown := True, i_strategy_unknown := True\<rparr>)
      else if p_strategy_id r = Some strategy
      then bindR (add_exposure e (i_strategy_notional i)) (\<lambda>n.
        Inr (i\<lparr>i_strategy_count := Suc (i_strategy_count i), i_strategy_notional := n,
             i_strategy_unknown := i_strategy_unknown i \<or> e = None\<rparr>))
      else Inr i)"

definition count_mint :: "string \<Rightarrow> position \<Rightarrow> decimal option \<Rightarrow> risk_inventory \<Rightarrow> risk_inventory res" where
  "count_mint mint r e i =
     (if p_mint r = mint
      then bindR (add_exposure e (i_mint_notional i)) (\<lambda>n.
        Inr (i\<lparr>i_mint_count := Suc (i_mint_count i), i_mint_notional := n,
             i_mint_unknown := i_mint_unknown i \<or> e = None\<rparr>))
      else Inr i)"

definition inventory_step :: "string \<Rightarrow> string \<Rightarrow> string \<Rightarrow> position \<Rightarrow> risk_inventory \<Rightarrow> risk_inventory res" where
  "inventory_step strategy mint bid r i =
     (if p_state r \<notin> set OPEN_RISK_STATES then Inr i
      else bindR (exposure r) (\<lambda>e. bindR (count_global bid r e i) (\<lambda>i1.
             bindR (count_strategy strategy r e i1) (count_mint mint r e))))"

fun inventory_loop :: "string \<Rightarrow> string \<Rightarrow> string \<Rightarrow> position list \<Rightarrow> risk_inventory \<Rightarrow> risk_inventory res" where
  "inventory_loop strategy mint bid [] i = Inr i"
| "inventory_loop strategy mint bid (r # rs) i =
     bindR (inventory_step strategy mint bid r i) (inventory_loop strategy mint bid rs)"

definition mode_positions :: "string \<Rightarrow> store \<Rightarrow> position list" where
  "mode_positions mode s =
     filter (\<lambda>r. case get_bot (p_bot r) s of None \<Rightarrow> False | Some b \<Rightarrow> b_mode b = mode) (st_positions s)"

definition empty_inventory :: risk_inventory where
  "empty_inventory = \<lparr>i_global_count = 0, i_strategy_count = 0, i_mint_count = 0, i_bot_count = 0,
     i_strategy_identity_unknown = False, i_global_notional = dec_zero, i_strategy_notional = dec_zero,
     i_mint_notional = dec_zero, i_global_unknown = False, i_strategy_unknown = False, i_mint_unknown = False\<rparr>"

text \<open>The reported notional is None when a row of its scope has no known exposure.\<close>

definition reported :: "bool \<Rightarrow> decimal \<Rightarrow> decimal option" where
  "reported unknown acc = (if unknown then None else Some acc)"

definition open_risk_inventory :: "string \<Rightarrow> string \<Rightarrow> string \<Rightarrow> string \<Rightarrow> store \<Rightarrow> risk_inventory res" where
  "open_risk_inventory mode strategy mint bid s =
     inventory_loop strategy mint bid (mode_positions mode s) empty_inventory"

subsection \<open>The legacy fill helpers\<close>

text \<open>A sequence of transitions of one position; \<open>float(notional_usd)\<close> is the last write.\<close>

fun transitions :: "string \<Rightarrow> pstate list \<Rightarrow> store \<Rightarrow> store res" where
  "transitions pid [] s = Inr s"
| "transitions pid (t # ts) s = bindR (transition pid t s) (\<lambda>(_, s'). transitions pid ts s')"

definition fill_paper :: "string \<Rightarrow> string \<Rightarrow> decimal \<Rightarrow> store \<Rightarrow> ((string \<times> string) \<times> store) res" where
  "fill_paper bid mint notional = immediate_write (\<lambda>s.
     bindR (open_position bid mint ''SIMULATED_FILL'' s) (\<lambda>(pid, s1).
       bindR (transitions pid [SIGNALLED, INTENT_CREATED, ATTEMPTING, OPEN] s1) (\<lambda>s2.
         Inr ((pid, ''SIMULATED_FILL''),
           upd_position pid (\<lambda>r. r\<lparr>p_entered_notional_usd := Some (FloatOf notional)\<rparr>) s2))))"

definition FILLED_OR_LATER :: "pstate list" where
  "FILLED_OR_LATER = [OPEN, PARTIAL, EXIT_REQUIRED, EXITING, CLOSED, RECONCILED, UNRESOLVED]"

text \<open>The states a fill from a signal still has to pass, from the one it is in.\<close>

fun remaining_path :: "pstate \<Rightarrow> pstate list" where
  "remaining_path WATCHED = [SIGNALLED, INTENT_CREATED, ATTEMPTING, OPEN]"
| "remaining_path SIGNALLED = [INTENT_CREATED, ATTEMPTING, OPEN]"
| "remaining_path INTENT_CREATED = [ATTEMPTING, OPEN]"
| "remaining_path ATTEMPTING = [OPEN]"
| "remaining_path _ = []"

definition ensure_signal_position :: "string \<Rightarrow> signal_decision \<Rightarrow> string \<Rightarrow> store \<Rightarrow> store res" where
  "ensure_signal_position bid sd kind s =
     (case get_position (position_id_for_signal_decision (sd_id sd)) s of
        None \<Rightarrow> bindR (open_position_from_signal bid sd kind None None s) (\<lambda>(_, s1). Inr s1)
      | Some _ \<Rightarrow> Inr s)"

definition fill_existing_position ::
  "string \<Rightarrow> decimal \<Rightarrow> string \<Rightarrow> position \<Rightarrow> store \<Rightarrow> ((string \<times> string) \<times> store) res" where
  "fill_existing_position pid notional kind existing s =
     (if p_state existing \<in> set FILLED_OR_LATER
      then Inr ((pid, if present (p_signal_kind existing) then the (p_signal_kind existing) else kind), s)
      else
        let s1 = (if p_state existing = WATCHED
                  then upd_position pid (\<lambda>r. r\<lparr>p_signal_kind := Some kind\<rparr>) s else s)
        in bindR (transitions pid (remaining_path (p_state existing)) s1) (\<lambda>s2.
             Inr ((pid, kind), upd_position pid (\<lambda>r. r\<lparr>p_entered_notional_usd := Some (FloatOf notional),
               p_signal_kind := Some kind\<rparr>) s2)))"

definition fill_paper_from_signal ::
  "string \<Rightarrow> signal_decision \<Rightarrow> decimal \<Rightarrow> string \<Rightarrow> store \<Rightarrow> ((string \<times> string) \<times> store) res" where
  "fill_paper_from_signal bid sd notional kind s0 =
     (if kind \<notin> {''SIMULATED_FILL'', ''SHADOW_EXECUTABLE''} then Inl (PaperPlaneError ''SIGNAL_KIND_INVALID'')
      else let pid = position_id_for_signal_decision (sd_id sd) in immediate_write (\<lambda>s.
        bindR (ensure_signal_position bid sd kind s) (\<lambda>s1.
          case get_position pid s1 of None \<Rightarrow> Inl PyAssertionError
          | Some existing \<Rightarrow> fill_existing_position pid notional kind existing s1)) s0)"

subsection \<open>Accepting an exit decision\<close>

record exit_decision =
  xd_id :: string
  xd_position :: string
  xd_action :: string
  xd_reason_code :: string
  xd_decision_at :: jval
  xd_evidence_refs :: "jval list"

record exit_outcome =
  xo_position :: string
  xo_applied :: bool
  xo_action :: string
  xo_state :: pstate

definition set_exit_decision :: "exit_decision \<Rightarrow> position \<Rightarrow> position" where
  "set_exit_decision x r = r\<lparr>p_exit_decision_id := Some (xd_id x), p_exit_reason_code := Some (xd_reason_code x)\<rparr>"

definition apply_exit_decision :: "exit_decision \<Rightarrow> store \<Rightarrow> (exit_outcome \<times> store) res" where
  "apply_exit_decision x =
     (let pid = xd_position x in immediate_write (\<lambda>s.
        case get_position pid s of None \<Rightarrow> Inl (PaperPlaneError ''POSITION_NOT_FOUND'')
        | Some position \<Rightarrow>
          if xd_action x \<noteq> ''EXIT''
          then Inr (\<lparr>xo_position = pid, xo_applied = False, xo_action = xd_action x, xo_state = p_state position\<rparr>, s)
          else if p_state position = EXIT_REQUIRED
          then (let s1 = upd_position pid (set_exit_decision x) s
                in case get_position pid s1 of None \<Rightarrow> Inl PyAssertionError
                   | Some updated \<Rightarrow> Inr (\<lparr>xo_position = pid, xo_applied = True, xo_action = xd_action x,
                       xo_state = p_state updated\<rparr>, s1))
          else if p_state position \<notin> {OPEN, PARTIAL, UNKNOWN}
          then Inl (PaperPlaneError (''EXIT_DECISION_STATE_INVALID:'' @ state_name (p_state position)))
          else bindR (transition pid EXIT_REQUIRED s) (\<lambda>(_, s1).
            let s2 = upd_position pid (set_exit_decision x) s1
            in bindR (append_execution_event ''EXIT_DECISION_ACCEPTED'' (Some (p_bot position)) (Some pid)
                 (dict_with (row_identity position)
                   [(''exit_decision_id'', JStr (xd_id x)), (''exit_reason_code'', JStr (xd_reason_code x)),
                    (''from_state'', JStr (state_name (p_state position))), (''to_state'', JStr ''EXIT_REQUIRED''),
                    (''exit_decision_at'', xd_decision_at x), (''evidence_refs'', JArr (xd_evidence_refs x))])
                 None None s2) (\<lambda>(_, s3).
               case get_position pid s3 of None \<Rightarrow> Inl PyAssertionError
               | Some refreshed \<Rightarrow> Inr (\<lparr>xo_position = pid, xo_applied = True, xo_action = xd_action x,
                   xo_state = p_state refreshed\<rparr>, s3)))))"

definition resolve_activation_epoch :: "string \<Rightarrow> string list \<Rightarrow> unit res" where
  "resolve_activation_epoch epoch known =
     guardR (epoch \<in> set known) (PaperPlaneError ''ACTIVATION_EPOCH_UNRESOLVED'')"

subsection \<open>Operator commands and policy revisions\<close>

definition get_operator_command :: "string \<Rightarrow> store \<Rightarrow> command option" where
  "get_operator_command k s = rows_get c_key k (st_commands s)"

definition record_operator_command ::
  "string \<Rightarrow> string \<Rightarrow> dict \<Rightarrow> dict \<Rightarrow> store \<Rightarrow> (unit \<times> store) res" where
  "record_operator_command k ctype request result s =
     (if st_readonly s then Inl SqliteReadonlyError
      else if get_operator_command k s \<noteq> None then Inl SqliteIntegrityError
      else Inr ((), (tick s)\<lparr>st_commands := st_commands s @
        [\<lparr>c_key = k, c_type = ctype, c_created_at = now_of s, c_request = request, c_result = result\<rparr>]\<rparr>))"

definition mode_policies :: "string \<Rightarrow> store \<Rightarrow> policy_row list" where
  "mode_policies mode s = filter (\<lambda>r. r_mode r = mode) (st_policies s)"

text \<open>\<open>ORDER BY revision DESC LIMIT 1\<close>: (mode, revision) is the primary key, so there is one.\<close>

definition latest_runtime_policy_row :: "string \<Rightarrow> store \<Rightarrow> policy_row option" where
  "latest_runtime_policy_row mode s =
     (case rev (sort_key r_revision (mode_policies mode s)) of [] \<Rightarrow> None | r # _ \<Rightarrow> Some r)"

definition runtime_policy_by_sha256 :: "string \<Rightarrow> string \<Rightarrow> store \<Rightarrow> policy_row option" where
  "runtime_policy_by_sha256 mode sha s = rows_get r_sha256 sha (mode_policies mode s)"

definition append_runtime_policy_revision :: "policy_row \<Rightarrow> store \<Rightarrow> (unit \<times> store) res" where
  "append_runtime_policy_revision row s =
     (if st_readonly s then Inl SqliteReadonlyError
      else if r_mode row \<notin> {''PAPER'', ''SHADOW''} then Inl SqliteIntegrityError
      else if \<exists>r\<in>set (mode_policies (r_mode row) s). r_revision r = r_revision row \<or> r_sha256 r = r_sha256 row
      then Inl SqliteIntegrityError
      else Inr ((), s\<lparr>st_policies := st_policies s @ [row]\<rparr>))"

subsection \<open>Every writing operation obeys the contract\<close>

text \<open>A rewrite that touches neither identity, state, admission nor entry price.\<close>

named_theorems row_defs
lemmas [row_defs] = row_advance_def same_identity_def admission_kept_def

lemma insert_once_advance: "insert_position_once r s = Inr s' \<Longrightarrow> store_advance s s'"
  by (auto simp: insert_position_once_def split: if_splits dest: ins_position_advance)

lemma open_position_advance: "open_position bid mint kind s = Inr (pid, s') \<Longrightarrow> store_advance s s'"
  by (auto simp: open_position_def Let_def result_simps
      dest!: insert_once_advance intro: store_advance_trans [OF tick_advance])

lemma open_from_signal_advance:
  "open_position_from_signal bid sd kind sha spec s = Inr (pid, s') \<Longrightarrow> store_advance s s'"
  by (auto simp: open_position_from_signal_def Let_def result_simps
      dest!: insert_once_advance intro: store_advance_trans [OF tick_advance])

lemma set_entries_paused_advance: "set_entries_paused bid paused s = Inr (u, s') \<Longrightarrow> store_advance s s'"
  by (auto simp: set_entries_paused_def result_simps bot_advance_def intro!: upd_bot_advance)

lemma set_bot_status_advance: "set_bot_status bid status stop s = Inr (u, s') \<Longrightarrow> store_advance s s'"
  by (auto simp: set_bot_status_def result_simps bot_advance_def intro!: upd_bot_advance)

lemma upd_after_advance:
  assumes "store_advance s s1" and "\<not> st_readonly s" and "\<And>r. row_advance r (f r)"
  shows "store_advance s (upd_position pid f s1)"
  using assms store_advance_trans [OF assms(1) upd_always_advance] store_advance_readonly by blast

lemma cancel_row_advance: "row_advance r (cancel_row reason r)"
  by (simp add: cancel_row_def row_defs)

text \<open>The two ways a cancellation returns: nothing to do, or the whole sequence of writes.\<close>

lemma cancel_result:
  assumes "cancel_entry_intent pid reason s = Inr (r', s')"
  obtains (already) "get_position pid s = Some r'" and "p_state r' = CANCELLED" and "s' = s"
  | (cancelled) r t s1 eid where "get_position pid s = Some r" and "reason \<in> set CANCEL_REASONS"
      and "p_state r \<in> set PRE_ATTEMPT_STATES
           \<or> p_state r = ATTEMPTING \<and> reason \<in> set DEFINITIVE_NON_FILL_REASONS"
      and "\<not> present (p_entry_price_dec r)" and "\<not> st_readonly s"
      and "transition pid CANCELLED s = Inr (t, s1)"
      and "append_execution_event ''ENTRY_INTENT_CANCELLED'' (Some (p_bot r)) (Some pid)
             (dict_with (row_identity r) [(''from_state'', JStr (state_name (p_state r))),
                (''cancel_reason_code'', JStr reason)]) None None
             (upd_position pid (cancel_row reason) s1) = Inr (eid, s')"
      and "get_position pid s' = Some r'"
proof -
  from assms obtain r where r: "get_position pid s = Some r" and reason: "reason \<in> set CANCEL_REASONS"
    and ro: "\<not> st_readonly s"
    by (auto simp: cancel_entry_intent_def result_simps)
  show thesis
  proof (cases "p_state r = CANCELLED")
    case True
    then show thesis using assms r by (intro already) (auto simp: cancel_entry_intent_def result_simps)
  next
    case False
    note run = assms [unfolded cancel_entry_intent_def Let_def]
    have "\<exists>t s1 eid. (p_state r \<in> set PRE_ATTEMPT_STATES
           \<or> p_state r = ATTEMPTING \<and> reason \<in> set DEFINITIVE_NON_FILL_REASONS)
      \<and> \<not> present (p_entry_price_dec r) \<and> transition pid CANCELLED s = Inr (t, s1)
      \<and> append_execution_event ''ENTRY_INTENT_CANCELLED'' (Some (p_bot r)) (Some pid)
             (dict_with (row_identity r) [(''from_state'', JStr (state_name (p_state r))),
                (''cancel_reason_code'', JStr reason)]) None None
             (upd_position pid (cancel_row reason) s1) = Inr (eid, s') \<and> get_position pid s' = Some r'"
      using run False r by (auto simp: result_simps simp del: dict_with_simps)
    then show thesis using cancelled r reason ro by blast
  qed
qed

lemma cancel_advance: "cancel_entry_intent pid reason s = Inr (r, s') \<Longrightarrow> store_advance s s'"
proof (erule cancel_result)
  fix r0 t s1 eid
  assume ro: "\<not> st_readonly s" and t: "transition pid CANCELLED s = Inr (t, s1)"
    and e: "append_execution_event ''ENTRY_INTENT_CANCELLED'' (Some (p_bot r0)) (Some pid)
             (dict_with (row_identity r0) [(''from_state'', JStr (state_name (p_state r0))),
                (''cancel_reason_code'', JStr reason)]) None None
             (upd_position pid (cancel_row reason) s1) = Inr (eid, s')"
  have "store_advance s (upd_position pid (cancel_row reason) s1)"
    using transition_advance [OF t] ro cancel_row_advance by (rule upd_after_advance)
  then show ?thesis using append_event_advance [OF e] by (rule store_advance_trans)
qed simp

lemma freeze_advance:
  "freeze_admission_binding pid adm req mode rv sha fee s = Inr (u, s') \<Longrightarrow> store_advance s s'"
  by (auto simp: freeze_admission_binding_def result_simps freeze_admission_row_def row_defs
      intro!: upd_always_advance)

lemma transitions_advance: "transitions pid ts s = Inr s' \<Longrightarrow> store_advance s s'"
  by (induction pid ts s rule: transitions.induct)
    (auto simp: bindR_eq_Inr intro: store_advance_trans [OF transition_advance])

lemma fill_paper_advance: "fill_paper bid mint notional s = Inr (y, s') \<Longrightarrow> store_advance s s'"
proof -
  assume "fill_paper bid mint notional s = Inr (y, s')"
  then obtain pid s1 s2 where ro: "\<not> st_readonly s"
    and "open_position bid mint ''SIMULATED_FILL'' s = Inr (pid, s1)"
    and "transitions pid [SIGNALLED, INTENT_CREATED, ATTEMPTING, OPEN] s1 = Inr s2"
    and s': "s' = upd_position pid (\<lambda>r. r\<lparr>p_entered_notional_usd := Some (FloatOf notional)\<rparr>) s2"
    by (auto simp: fill_paper_def result_simps simp del: transitions.simps)
  then have "store_advance s s2"
    using open_position_advance transitions_advance store_advance_trans by blast
  then show ?thesis unfolding s' by (rule upd_after_advance) (use ro in \<open>auto simp: row_defs\<close>)
qed

lemma fill_existing_advance:
  assumes ro: "\<not> st_readonly s"
    and run: "fill_existing_position pid notional kind existing s = Inr (y, s')"
  shows "store_advance s s'"
proof (cases "p_state existing \<in> set FILLED_OR_LATER")
  case True
  then show ?thesis using run by (auto simp: fill_existing_position_def split: if_splits)
next
  case False
  define s1 where "s1 = (if p_state existing = WATCHED
      then upd_position pid (\<lambda>r. r\<lparr>p_signal_kind := Some kind\<rparr>) s else s)"
  have 1: "store_advance s s1"
    using ro upd_always_advance by (simp add: s1_def row_defs)
  from run False obtain s2 where "transitions pid (remaining_path (p_state existing)) s1 = Inr s2"
    and s': "s' = upd_position pid (\<lambda>r. r\<lparr>p_entered_notional_usd := Some (FloatOf notional),
               p_signal_kind := Some kind\<rparr>) s2"
    unfolding fill_existing_position_def Let_def s1_def [symmetric] by (auto simp: result_simps)
  with 1 have "store_advance s s2" using transitions_advance store_advance_trans by blast
  then show ?thesis unfolding s' by (rule upd_after_advance) (use ro in \<open>auto simp: row_defs\<close>)
qed

lemma ensure_signal_advance: "ensure_signal_position bid sd kind s = Inr s' \<Longrightarrow> store_advance s s'"
  by (auto simp: ensure_signal_position_def result_simps split: option.splits dest: open_from_signal_advance)

lemma fill_from_signal_advance:
  "fill_paper_from_signal bid sd notional kind s = Inr (y, s') \<Longrightarrow> store_advance s s'"
  unfolding fill_paper_from_signal_def Let_def if_Inl_eq_Inr immediate_write_eq_Inr bindR_eq_Inr
    case_option_Inl_eq_Inr
  by (metis ensure_signal_advance fill_existing_advance store_advance_trans store_advance_readonly)

lemma set_exit_decision_advance: "row_advance r (set_exit_decision x r)"
  by (simp add: set_exit_decision_def row_defs)

lemma apply_exit_advance: "apply_exit_decision x s = Inr (y, s') \<Longrightarrow> store_advance s s'"
proof -
  assume run: "apply_exit_decision x s = Inr (y, s')"
  then obtain position where ro: "\<not> st_readonly s" and p: "get_position (xd_position x) s = Some position"
    by (auto simp: apply_exit_decision_def Let_def result_simps)
  note run = run [unfolded apply_exit_decision_def Let_def immediate_write_eq_Inr p option.case]
  consider (ignored) "s' = s"
    | (again) "s' = upd_position (xd_position x) (set_exit_decision x) s"
    | (accepted) t s1 payload eid where "transition (xd_position x) EXIT_REQUIRED s = Inr (t, s1)"
      and "append_execution_event ''EXIT_DECISION_ACCEPTED'' (Some (p_bot position)) (Some (xd_position x))
             payload None None (upd_position (xd_position x) (set_exit_decision x) s1) = Inr (eid, s')"
    using run by (auto simp: result_simps simp del: dict_with_simps split: if_splits)
  then show ?thesis
  proof cases
    case again
    then show ?thesis using ro upd_always_advance set_exit_decision_advance by simp
  next
    case accepted
    have "store_advance s (upd_position (xd_position x) (set_exit_decision x) s1)"
      using transition_advance [OF accepted(1)] ro set_exit_decision_advance by (rule upd_after_advance)
    then show ?thesis using append_event_advance [OF accepted(2)] by (rule store_advance_trans)
  qed simp
qed

lemma record_command_advance:
  "record_operator_command k ctype request result s = Inr (u, s') \<Longrightarrow> store_advance s s'"
  by (rule other_tables_advance)
    (auto simp: record_operator_command_def get_operator_command_def rows_get_None tick_def split: if_splits)

lemma append_policy_advance: "append_runtime_policy_revision row s = Inr (u, s') \<Longrightarrow> store_advance s s'"
  by (rule other_tables_advance) (auto simp: append_runtime_policy_revision_def split: if_splits)

end
