(* ===== verification/PaperFills.thy ===== *)
theory PaperFills
  imports PaperControl
begin

section \<open>Booking fills\<close>

text \<open>
  The operations of \<open>PaperPlaneStore\<close> that book modelled economics: marks
  (\<open>record_position_mark\<close>, \<open>modeled_unrealized_mark\<close>), the entry fill, the whole exit and the
  quantity leg. Amounts are read from and written to text columns as the code does; every
  rounding is the code's \<open>quantize\<close>.
\<close>

subsection \<open>Amounts\<close>

text \<open>\<open>_positive_model_decimal\<close> on a text; every conversion and comparison error is the code's own.\<close>

definition positive_model_decimal :: "string \<Rightarrow> string \<Rightarrow> bool \<Rightarrow> decimal res" where
  "positive_model_decimal value code allow_zero =
     (case dec_of_string value of Inl e \<Rightarrow> Inl (PaperPlaneError code)
      | Inr amount \<Rightarrow>
          if \<not> dec_is_finite amount \<or> dec_less amount dec_zero \<or> \<not> allow_zero \<and> dec_eq amount dec_zero
          then Inl (PaperPlaneError code) else Inr amount)"

text \<open>\<open>str(None)\<close> is \<open>'None'\<close>, which no Decimal reads.\<close>

definition str_or_None :: "string option \<Rightarrow> string" where
  "str_or_None t = (case t of None \<Rightarrow> ''None'' | Some x \<Rightarrow> x)"

definition cents :: "decimal \<Rightarrow> decimal res" where
  "cents = dec_quantize (- 2)"

definition dec_ten_thousand :: decimal where
  "dec_ten_thousand = Fin False 10000 0"

lemmas [dec_eval] = cents_def dec_ten_thousand_def

text \<open>\<open>(amount * Decimal(fee_bps) / Decimal(10000)).quantize(Decimal("0.01"), ROUND_HALF_UP)\<close>.\<close>

definition fee_of :: "decimal \<Rightarrow> int \<Rightarrow> decimal res" where
  "fee_of amount fee_bps =
     bindR (dec_mul amount (dec_of_int fee_bps)) (\<lambda>x. bindR (dec_div x dec_ten_thousand) cents)"

lemmas [dec_eval] = fee_of_def

subsection \<open>Marks\<close>

record mark_economics =
  k_mark_value :: decimal
  k_unrealized_gross :: decimal
  k_exit_fee_at_mark :: decimal
  k_unrealized_net :: decimal

definition modeled_unrealized_mark ::
  "decimal \<Rightarrow> decimal \<Rightarrow> decimal \<Rightarrow> decimal \<Rightarrow> int \<Rightarrow> mark_economics res" where
  "modeled_unrealized_mark mark_price qty entered_notional entry_fee fee_bps =
     bindR (bindR (dec_mul mark_price qty) cents) (\<lambda>mark_value.
     bindR (bindR (dec_sub mark_value entered_notional) cents) (\<lambda>gross.
     bindR (fee_of mark_value fee_bps) (\<lambda>exit_fee.
     bindR (bindR (dec_sub gross entry_fee) (\<lambda>x. bindR (dec_sub x exit_fee) cents)) (\<lambda>net.
       Inr \<lparr>k_mark_value = mark_value, k_unrealized_gross = gross, k_exit_fee_at_mark = exit_fee,
            k_unrealized_net = net\<rparr>))))"

definition MARK_CLASSES :: "string list" where
  "MARK_CLASSES = [''PAPER_MARK_TO_MODEL'', ''SHADOW_EXECUTABLE_QUOTE_MARK'', ''UNKNOWN'']"

text \<open>\<open>remaining if remaining is not None else original\<close>.\<close>

definition remaining_or :: "string option \<Rightarrow> string option \<Rightarrow> string option" where
  "remaining_or remaining original = (case remaining of None \<Rightarrow> original | Some x \<Rightarrow> Some x)"

text \<open>The unrealized gross and net a mark gives to a position, as the texts stored.\<close>

definition mark_unrealized :: "position \<Rightarrow> string \<Rightarrow> (string option \<times> string option) res" where
  "mark_unrealized position mark_price =
     bindR (dec_of_string (str_or_None (remaining_or (p_remaining_qty_dec position) (p_qty_dec position)))) (\<lambda>qty.
     bindR (dec_of_string mark_price) (\<lambda>mark.
     bindR (dec_of_string (str_or_None (remaining_or (p_remaining_cost_basis_usd_dec position)
              (p_entered_notional_usd_dec position)))) (\<lambda>entry_notional.
     let entry_fee_raw = remaining_or (p_remaining_entry_fee_usd_dec position) (p_entry_fee_usd_dec position)
     in case p_fee_bps position of
          Some fee_bps \<Rightarrow>
            if present entry_fee_raw
            then bindR (dec_of_string (the entry_fee_raw)) (\<lambda>entry_fee.
                 bindR (modeled_unrealized_mark mark qty entry_notional entry_fee fee_bps) (\<lambda>derived.
                   Inr (Some (dec_text (k_unrealized_gross derived)), Some (dec_text (k_unrealized_net derived)))))
            else bindR (bindR (dec_mul mark qty) cents) (\<lambda>mark_value.
                 bindR (bindR (dec_sub mark_value entry_notional) cents) (\<lambda>gross.
                   Inr (Some (dec_text gross), None)))
        | None \<Rightarrow> bindR (bindR (dec_mul mark qty) cents) (\<lambda>mark_value.
                 bindR (bindR (dec_sub mark_value entry_notional) cents) (\<lambda>gross.
                   Inr (Some (dec_text gross), None))))))"

definition set_mark :: "string option \<Rightarrow> string \<Rightarrow> string option \<Rightarrow> string option \<Rightarrow> string \<Rightarrow> position \<Rightarrow> position" where
  "set_mark mark_price as_of gross net evidence r =
     r\<lparr>p_mark_price_dec := mark_price, p_mark_as_of := Some as_of, p_unrealized_gross_pnl_usd_dec := gross,
       p_unrealized_net_pnl_usd_dec := net, p_unrealized_evidence_class := Some evidence\<rparr>"

definition record_position_mark ::
  "string \<Rightarrow> string option \<Rightarrow> string \<Rightarrow> string \<Rightarrow> store \<Rightarrow> (string \<times> store) res" where
  "record_position_mark pid mark_price as_of evidence s0 =
     (if evidence \<notin> set MARK_CLASSES then Inl (PaperPlaneError ''MARK_EVIDENCE_CLASS_INVALID'')
      else immediate_write (\<lambda>s.
        let mark_id = ''MARK-'' @ hex_of 12 s; s1 = tick s; now = now_of s1; s2 = tick s1 in
        if mark_id \<in> m_id ` set (st_marks s) then Inl SqliteIntegrityError
        else
          let s3 = s2\<lparr>st_marks := st_marks s2 @ [\<lparr>m_id = mark_id, m_position = pid, m_price_dec = mark_price,
                     m_as_of = as_of, m_evidence_class = evidence, m_created_at = now\<rparr>]\<rparr>
          in bindR (case get_position pid s3 of None \<Rightarrow> Inr (None, None)
               | Some position \<Rightarrow>
                   if mark_price \<noteq> None \<and> evidence \<noteq> ''UNKNOWN'' \<and> present (p_entry_price_dec position)
                      \<and> present (p_qty_dec position) \<and> p_entered_notional_usd_dec position \<noteq> None
                   then mark_unrealized position (the mark_price) else Inr (None, None)) (\<lambda>(gross, net).
               Inr (mark_id, upd_position pid (set_mark mark_price as_of gross net evidence) s3))) s0)"

subsection \<open>The entry fill\<close>

definition bound_entry_fee_bps :: "position \<Rightarrow> int option \<Rightarrow> int res" where
  "bound_entry_fee_bps position requested =
     (case p_admitted_fee_bps position of
        Some admitted \<Rightarrow> if requested \<noteq> None \<and> requested \<noteq> Some admitted
          then Inl (PaperPlaneError ''ENTRY_FILL_FEE_MISMATCH'') else Inr admitted
      | None \<Rightarrow> (case requested of None \<Rightarrow> Inl (PaperPlaneError ''ENTRY_FILL_FEE_REQUIRED'') | Some f \<Rightarrow> Inr f))"

definition FEE_SEMANTICS :: "string list" where
  "FEE_SEMANTICS = [''SEPARATE_MODELED_FEE'', ''INCLUDED_IN_UNIT_PRICE'']"

record entry_amounts =
  ea_price :: decimal
  ea_notional :: decimal
  ea_fee_bps :: int
  ea_quantity :: decimal
  ea_entry_fee :: decimal

text \<open>
  The amounts of an entry fill: \<open>price\<close> and \<open>notional\<close> positive, the quantity derived to eight
  decimals or given and consistent to the cent, the fee zero when the price includes it.
\<close>

definition entry_fill_amounts ::
  "position \<Rightarrow> string \<Rightarrow> string \<Rightarrow> int option \<Rightarrow> string option \<Rightarrow> string option \<Rightarrow> entry_amounts res" where
  "entry_fill_amounts position unit_price gross fee_bps quantity_units semantics =
     bindR (dec_of_string unit_price) (\<lambda>price.
     bindR (dec_of_string gross) (\<lambda>notional.
     if \<not> dec_is_finite price \<or> \<not> dec_is_finite notional
        \<or> \<not> dec_less dec_zero price \<or> \<not> dec_less dec_zero notional
     then Inl (PaperPlaneError ''ENTRY_FILL_INVALID'')
     else
     bindR (bound_entry_fee_bps position fee_bps) (\<lambda>bps.
     if semantics \<notin> insert None (Some ` set FEE_SEMANTICS)
     then Inl (PaperPlaneError ''MODELED_FEE_SEMANTICS_UNSUPPORTED'')
     else
     bindR (bindR (dec_div notional price) (dec_quantize (- 8))) (\<lambda>derived.
     bindR (case quantity_units of None \<Rightarrow> Inr derived
        | Some units \<Rightarrow> bindR (positive_model_decimal units ''MODELED_QUANTITY_INVALID'' False) (\<lambda>quantity.
            bindR (bindR (dec_mul price quantity) cents) (\<lambda>a. bindR (cents notional) (\<lambda>b.
              if dec_eq a b then Inr quantity
              else Inl (PaperPlaneError ''MODELED_ENTRY_QUANTITY_PRICE_CONFLICT''))))) (\<lambda>quantity.
     bindR (if semantics = Some ''INCLUDED_IN_UNIT_PRICE'' then Inr dec_zero else fee_of notional bps) (\<lambda>entry_fee.
       Inr \<lparr>ea_price = price, ea_notional = notional, ea_fee_bps = bps, ea_quantity = quantity,
            ea_entry_fee = entry_fee\<rparr>))))))"

text \<open>A text column compared with a number: \<open>Decimal(str(position[field])) != expected\<close>.\<close>

definition column_differs :: "string option \<Rightarrow> decimal \<Rightarrow> bool res" where
  "column_differs t expected = bindR (dec_of_string (str_or_None t)) (\<lambda>x.
     bindR (py_dec_eq x expected) (\<lambda>same. Inr (\<not> same)))"

definition raise_if :: "bool res \<Rightarrow> string \<Rightarrow> unit res" where
  "raise_if c code = bindR c (\<lambda>b. guardR (\<not> b) (PaperPlaneError code))"

definition set_entry_quantity :: "entry_amounts \<Rightarrow> position \<Rightarrow> position" where
  "set_entry_quantity a r =
     r\<lparr>p_qty_dec := Some (dec_text (ea_quantity a)), p_entry_fee_usd_dec := Some (dec_text (ea_entry_fee a))\<rparr>"

text \<open>
  A fill already booked: the same content is accepted once more and writes nothing, except that
  a missing quantity or fee is recovered; any other content is a conflict. \<open>a or b\<close> and
  \<open>int(None)\<close> keep the code's order of evaluation.
\<close>

definition entry_fill_content ::
  "position \<Rightarrow> entry_amounts \<Rightarrow> string option \<Rightarrow> unit res" where
  "entry_fill_content position a semantics =
     bindR (column_differs (p_entry_price_dec position) (ea_price a)) (\<lambda>d1.
     bindR (if d1 then Inr True else column_differs (p_entered_notional_usd_dec position) (ea_notional a)) (\<lambda>d2.
     bindR (if d2 then Inr True else (case p_fee_bps position of None \<Rightarrow> Inl PyTypeError
              | Some f \<Rightarrow> Inr (f \<noteq> ea_fee_bps a))) (\<lambda>d3.
     if d3 \<or> p_entry_fee_semantics position \<noteq> semantics
     then Inl (PaperPlaneError ''ENTRY_FILL_CONTENT_CONFLICT'')
     else
     bindR (if present (p_qty_dec position) then column_differs (p_qty_dec position) (ea_quantity a) else Inr False) (\<lambda>d4.
     bindR (guardR (\<not> d4) (PaperPlaneError ''ENTRY_ACCOUNTING_CONTENT_CONFLICT'')) (\<lambda>_.
     bindR (if present (p_entry_fee_usd_dec position)
            then column_differs (p_entry_fee_usd_dec position) (ea_entry_fee a) else Inr False) (\<lambda>d5.
     guardR (\<not> d5) (PaperPlaneError ''ENTRY_ACCOUNTING_CONTENT_CONFLICT'')))))))"

definition replay_entry_fill ::
  "string \<Rightarrow> position \<Rightarrow> bot \<Rightarrow> entry_amounts \<Rightarrow> string option \<Rightarrow> store \<Rightarrow> (position \<times> store) res" where
  "replay_entry_fill pid position bt a semantics s =
     bindR (entry_fill_content position a semantics) (\<lambda>_.
       if \<not> present (p_qty_dec position) \<or> \<not> present (p_entry_fee_usd_dec position)
       then bindR (append_execution_event ''ENTRY_ACCOUNTING_RECOVERED'' (Some (b_id bt)) (Some pid)
              (dict_with (row_identity position) [(''basis'', JStr ''EXACT_ORIGINATING_ENTRY_BINDING'')]) None None
              (upd_position pid (set_entry_quantity a) s)) (\<lambda>(_, s1).
            case get_position pid s1 of None \<Rightarrow> Inl PyAssertionError | Some recovered \<Rightarrow> Inr (recovered, s1))
       else Inr (position, s))"

text \<open>The states a fill may be booked in; an entry that closes early may still be reconciled.\<close>

definition entry_fill_state_ok :: "position \<Rightarrow> bool \<Rightarrow> bool" where
  "entry_fill_state_ok position reconcile_pending_close =
     (p_state position \<in> {ATTEMPTING, OPEN, PARTIAL, UNKNOWN}
      \<or> reconcile_pending_close \<and> p_state position = EXIT_REQUIRED \<and> p_entry_price_dec position = None)"

definition evidence_class :: "string \<Rightarrow> string" where
  "evidence_class mode = (if mode = ''PAPER'' then ''PAPER_RECONCILED_MODEL'' else ''SHADOW_RECONCILED_QUOTE_MODEL'')"

definition set_entry :: "entry_amounts \<Rightarrow> position \<Rightarrow> position" where
  "set_entry a r =
     r\<lparr>p_entry_price_dec := Some (dec_text (ea_price a)), p_qty_dec := Some (dec_text (ea_quantity a)),
       p_fee_bps := Some (ea_fee_bps a), p_entry_fee_usd_dec := Some (dec_text (ea_entry_fee a)),
       p_entered_notional_usd := Some (FloatOf (ea_notional a)),
       p_entered_notional_usd_dec := Some (dec_text (ea_notional a)), p_pnl_evidence_class := None,
       p_realized_gross_pnl_usd_dec := None, p_realized_net_pnl_usd_dec := None\<rparr>"

definition set_remaining :: "entry_amounts \<Rightarrow> string option \<Rightarrow> position \<Rightarrow> position" where
  "set_remaining a semantics r =
     (if semantics = None then r
      else r\<lparr>p_entry_fee_semantics := semantics, p_remaining_qty_dec := Some (dec_text (ea_quantity a)),
             p_remaining_cost_basis_usd_dec := Some (dec_text (ea_notional a)),
             p_remaining_entry_fee_usd_dec := Some (dec_text (ea_entry_fee a))\<rparr>)"

definition entry_event :: "string \<Rightarrow> entry_amounts \<Rightarrow> position \<Rightarrow> dict" where
  "entry_event mode a position =
     dict_with (row_identity position)
       [(''side'', JStr ''ENTRY''), (''entry_price_dec'', JStr (dec_text (ea_price a))),
        (''qty_dec'', JStr (dec_text (ea_quantity a))), (''entry_fee_usd_dec'', JStr (dec_text (ea_entry_fee a))),
        (''entry_gross_notional_usd_dec'', JStr (dec_text (ea_notional a))), (''mode'', JStr mode),
        (''pending_reconcile_class'', JStr (evidence_class mode))]"

text \<open>What was admitted bounds the fill, and a smaller fill makes the position PARTIAL.\<close>

definition admitted_amount :: "position \<Rightarrow> decimal option res" where
  "admitted_amount position =
     (if present (p_admitted_entry_notional_usd_dec position)
      then bindR (dec_of_string (the (p_admitted_entry_notional_usd_dec position))) (\<lambda>x. Inr (Some x))
      else Inr None)"

definition exceeds_admission :: "decimal option \<Rightarrow> decimal \<Rightarrow> bool res" where
  "exceeds_admission admitted notional =
     (case admitted of None \<Rightarrow> Inr False | Some x \<Rightarrow> dec_lt x notional)"

definition entry_state_after :: "decimal option \<Rightarrow> decimal \<Rightarrow> pstate res" where
  "entry_state_after admitted notional =
     (case admitted of None \<Rightarrow> Inr OPEN
      | Some x \<Rightarrow> bindR (dec_lt notional x) (\<lambda>less. Inr (if less then PARTIAL else OPEN)))"

definition first_entry_fill ::
  "string \<Rightarrow> position \<Rightarrow> entry_amounts \<Rightarrow> string option \<Rightarrow> string \<Rightarrow> store \<Rightarrow> (position \<times> store) res" where
  "first_entry_fill pid position a semantics mode s =
     bindR (admitted_amount position) (\<lambda>admitted.
     bindR (exceeds_admission admitted (ea_notional a)) (\<lambda>over.
     if over then Inl (PaperPlaneError ''ENTRY_FILL_NOTIONAL_EXCEEDS_ADMISSION'')
     else
     bindR (if p_state position \<in> {ATTEMPTING, UNKNOWN}
            then bindR (entry_state_after admitted (ea_notional a)) (\<lambda>t. transition pid t s)
            else Inr (position, s)) (\<lambda>(position', s1).
     let s2 = upd_position pid (set_remaining a semantics) (upd_position pid (set_entry a) s1)
     in bindR (append_execution_event
          (if mode = ''PAPER'' then ''PAPER_SIMULATION_OBSERVED'' else ''SHADOW_EXECUTABLE_OBSERVED'')
          (Some (p_bot position')) (Some pid) (entry_event mode a position') None None s2) (\<lambda>(_, s3).
        case get_position pid s3 of None \<Rightarrow> Inl PyAssertionError | Some updated \<Rightarrow> Inr (updated, s3)))))"

record entry_fill =
  ef_unit_price :: string
  ef_gross_notional :: string
  ef_fee_bps :: "int option"
  ef_mode :: string
  ef_reconcile_pending_close :: bool
  ef_quantity_units :: "string option"
  ef_fee_semantics :: "string option"

definition apply_paper_entry_fill :: "string \<Rightarrow> entry_fill \<Rightarrow> store \<Rightarrow> (position \<times> store) res" where
  "apply_paper_entry_fill pid f s0 =
     (if ef_mode f \<notin> {''PAPER'', ''SHADOW''} then Inl (PaperPlaneError ''BOT_MODE_INVALID'')
      else immediate_write (\<lambda>s.
        case get_position pid s of None \<Rightarrow> Inl (PaperPlaneError ''POSITION_NOT_FOUND'')
        | Some position \<Rightarrow>
          if \<not> entry_fill_state_ok position (ef_reconcile_pending_close f)
          then Inl (PaperPlaneError (''ENTRY_FILL_STATE_INVALID:'' @ state_name (p_state position)))
          else
            bindR (entry_fill_amounts position (ef_unit_price f) (ef_gross_notional f) (ef_fee_bps f)
                     (ef_quantity_units f) (ef_fee_semantics f)) (\<lambda>a.
            case get_bot (p_bot position) s of None \<Rightarrow> Inl (PaperPlaneError ''ENTRY_FILL_MODE_MISMATCH'')
            | Some bt \<Rightarrow>
              if b_mode bt \<noteq> ef_mode f then Inl (PaperPlaneError ''ENTRY_FILL_MODE_MISMATCH'')
              else if present (p_entry_price_dec position)
              then replay_entry_fill pid position bt a (ef_fee_semantics f) s
              else first_entry_fill pid position a (ef_fee_semantics f) (ef_mode f) s)) s0)"

subsection \<open>Marks and entry fills obey the contract\<close>

lemma set_mark_advance: "row_advance r (set_mark m as_of g n e r)"
  by (simp add: set_mark_def row_defs)

lemma set_entry_quantity_advance: "row_advance r (set_entry_quantity a r)"
  by (simp add: set_entry_quantity_def row_defs)

lemma set_remaining_advance: "row_advance r (set_remaining a sem r)"
  by (simp add: set_remaining_def row_defs)

lemma set_entry_advance: "\<not> present (p_entry_price_dec r) \<Longrightarrow> row_advance r (set_entry a r)"
  by (simp add: set_entry_def row_defs kept_text_def)

lemma record_mark_advance: "record_position_mark pid m as_of e s = Inr (mid, s') \<Longrightarrow> store_advance s s'"
proof -
  assume run: "record_position_mark pid m as_of e s = Inr (mid, s')"
  define s3 where "s3 = (tick (tick s))\<lparr>st_marks := st_marks s @ [\<lparr>m_id = ''MARK-'' @ hex_of 12 s, m_position = pid,
      m_price_dec = m, m_as_of = as_of, m_evidence_class = e, m_created_at = now_of (tick s)\<rparr>]\<rparr>"
  from run obtain g n where ro: "\<not> st_readonly s" and s': "s' = upd_position pid (set_mark m as_of g n e) s3"
    unfolding record_position_mark_def Let_def s3_def
    by (auto simp: result_simps split: prod.splits option.splits)
  have "store_advance s s3"
    by (rule other_tables_advance) (use ro in \<open>auto simp: s3_def\<close>)
  then show ?thesis unfolding s' using ro set_mark_advance by (rule upd_after_advance)
qed

lemma replay_entry_advance:
  assumes "\<not> st_readonly s" and "replay_entry_fill pid position bt a sem s = Inr (r, s')"
  shows "store_advance s s'"
proof -
  consider "s' = s" | payload eid where "append_execution_event ''ENTRY_ACCOUNTING_RECOVERED'' (Some (b_id bt))
      (Some pid) payload None None (upd_position pid (set_entry_quantity a) s) = Inr (eid, s')"
    using assms(2) unfolding replay_entry_fill_def
    by (auto simp: result_simps simp del: dict_with_simps split: if_splits)
  then show ?thesis
  proof cases
    case 2
    have "store_advance s (upd_position pid (set_entry_quantity a) s)"
      using assms(1) set_entry_quantity_advance by (rule upd_always_advance)
    then show ?thesis using append_event_advance [OF 2] by (rule store_advance_trans)
  qed simp
qed

lemma transition_entry_price:
  "transition pid t s = Inr (r', s') \<Longrightarrow> get_position pid s = Some r \<Longrightarrow>
     p_entry_price_dec r' = p_entry_price_dec r \<and> get_position pid s' = Some r'"
  by (erule transition_result) (auto simp: set_state_def)

text \<open>The first fill of an entry, taken apart.\<close>

lemma first_entry_result:
  assumes "first_entry_fill pid position a sem mode s = Inr (r', s')"
    and "get_position pid s = Some position"
  obtains admitted r1 s1 payload eid where "admitted_amount position = Inr admitted"
    and "exceeds_admission admitted (ea_notional a) = Inr False"
    and "(if p_state position \<in> {ATTEMPTING, UNKNOWN}
          then bindR (entry_state_after admitted (ea_notional a)) (\<lambda>t. transition pid t s)
          else Inr (position, s)) = Inr (r1, s1)"
    and "get_position pid s1 = Some r1" and "store_advance s s1"
    and "p_entry_price_dec r1 = p_entry_price_dec position"
    and "payload = entry_event mode a r1"
    and "append_execution_event (if mode = ''PAPER'' then ''PAPER_SIMULATION_OBSERVED'' else ''SHADOW_EXECUTABLE_OBSERVED'')
          (Some (p_bot r1)) (Some pid) payload None None
          (upd_position pid (set_remaining a sem) (upd_position pid (set_entry a) s1)) = Inr (eid, s')"
    and "get_position pid s' = Some r'"
proof -
  from assms(1) obtain admitted r1 s1 eid where 1: "admitted_amount position = Inr admitted"
    "exceeds_admission admitted (ea_notional a) = Inr False"
    and t: "(if p_state position \<in> {ATTEMPTING, UNKNOWN}
          then bindR (entry_state_after admitted (ea_notional a)) (\<lambda>t. transition pid t s)
          else Inr (position, s)) = Inr (r1, s1)"
    and e: "append_execution_event (if mode = ''PAPER'' then ''PAPER_SIMULATION_OBSERVED'' else ''SHADOW_EXECUTABLE_OBSERVED'')
          (Some (p_bot r1)) (Some pid) (entry_event mode a r1) None None
          (upd_position pid (set_remaining a sem) (upd_position pid (set_entry a) s1)) = Inr (eid, s')"
    and g: "get_position pid s' = Some r'"
    unfolding first_entry_fill_def Let_def bindR_eq_Inr if_Inl_eq_Inr case_option_Inl_eq_Inr
    by (auto simp: case_option_Inl_eq_Inr bindR_eq_Inr split: prod.splits)
  have "get_position pid s1 = Some r1 \<and> store_advance s s1 \<and> p_entry_price_dec r1 = p_entry_price_dec position"
  proof (cases "p_state position \<in> {ATTEMPTING, UNKNOWN}")
    case True
    then obtain t where "transition pid t s = Inr (r1, s1)" using t by (auto simp: bindR_eq_Inr)
    then show ?thesis using transition_advance transition_entry_price assms(2) by blast
  next
    case False
    then show ?thesis using t assms(2) by auto
  qed
  then show thesis using that [OF 1 t _ _ _ refl e g] by blast
qed

lemma first_entry_advance:
  assumes "first_entry_fill pid position a sem mode s = Inr (r', s')" and "\<not> st_readonly s"
    and "get_position pid s = Some position" and "\<not> present (p_entry_price_dec position)"
  shows "store_advance s s'"
proof (rule first_entry_result [OF assms(1,3)])
  fix admitted r1 s1 payload eid
  assume g: "get_position pid s1 = Some r1" and adv: "store_advance s s1"
    and price: "p_entry_price_dec r1 = p_entry_price_dec position"
    and e: "append_execution_event (if mode = ''PAPER'' then ''PAPER_SIMULATION_OBSERVED'' else ''SHADOW_EXECUTABLE_OBSERVED'')
          (Some (p_bot r1)) (Some pid) payload None None
          (upd_position pid (set_remaining a sem) (upd_position pid (set_entry a) s1)) = Inr (eid, s')"
  have ro: "\<not> st_readonly s1" using adv assms(2) by (simp add: store_advance_readonly)
  have "store_advance s1 (upd_position pid (set_entry a) s1)"
    by (rule upd_position_advance [OF _ ro])
      (use g price assms(4) set_entry_advance in \<open>auto simp: set_entry_def\<close>)
  with adv have "store_advance s (upd_position pid (set_entry a) s1)" by (rule store_advance_trans)
  then have "store_advance s (upd_position pid (set_remaining a sem) (upd_position pid (set_entry a) s1))"
    using assms(2) set_remaining_advance by (rule upd_after_advance)
  then show ?thesis using append_event_advance [OF e] by (rule store_advance_trans)
qed

text \<open>An accepted entry fill is the first one or an accepted replay.\<close>

lemma entry_fill_result:
  assumes "apply_paper_entry_fill pid f s = Inr (r', s')"
  obtains position a bt where "get_position pid s = Some position" and "\<not> st_readonly s"
    and "ef_mode f \<in> {''PAPER'', ''SHADOW''}"
    and "entry_fill_state_ok position (ef_reconcile_pending_close f)"
    and "entry_fill_amounts position (ef_unit_price f) (ef_gross_notional f) (ef_fee_bps f)
           (ef_quantity_units f) (ef_fee_semantics f) = Inr a"
    and "get_bot (p_bot position) s = Some bt" and "b_mode bt = ef_mode f"
    and "if present (p_entry_price_dec position)
         then replay_entry_fill pid position bt a (ef_fee_semantics f) s = Inr (r', s')
         else first_entry_fill pid position a (ef_fee_semantics f) (ef_mode f) s = Inr (r', s')"
  using assms
  unfolding apply_paper_entry_fill_def if_Inl_eq_Inr immediate_write_eq_Inr case_option_Inl_eq_Inr
    bindR_eq_Inr not_not
  by (metis (no_types, lifting))

lemma entry_fill_advance: "apply_paper_entry_fill pid f s = Inr (r', s') \<Longrightarrow> store_advance s s'"
  by (erule entry_fill_result) (auto split: if_splits intro: replay_entry_advance first_entry_advance)

end
