(* ===== verification/PaperExits.thy ===== *)
theory PaperExits
  imports PaperFills
begin

section \<open>Booking exits\<close>

text \<open>
  \<open>PaperPlaneStore.apply_quantity_exit_fill\<close>, a definitive leg that sells a part of the remaining
  quantity and conserves the rest, and \<open>apply_paper_exit_fill\<close>, the whole exit of a position
  with its realized profit and loss or an exit left unresolved.
\<close>

subsection \<open>A quantity leg\<close>

definition text_or :: "string option \<Rightarrow> string \<Rightarrow> string" where
  "text_or t d = (if present t then the t else d)"

record leg =
  l_sold :: decimal
  l_remaining :: decimal
  l_price :: decimal
  l_semantics :: string

record leg_amounts =
  la_proceeds :: decimal
  la_fee :: decimal
  la_remaining_cost :: decimal
  la_allocated_fee :: decimal
  la_remaining_fee :: decimal
  la_leg_allocated_fee :: decimal
  la_exit_total :: decimal
  la_exit_fee :: decimal
  la_gross :: decimal
  la_net :: decimal
  la_exit_price :: decimal
  la_leg_gross :: decimal
  la_leg_net :: decimal

definition leg_request :: "leg \<Rightarrow> string \<Rightarrow> string \<Rightarrow> dict" where
  "leg_request l observed_at mode =
     dict_of [(''quantity_sold'', JStr (dec_text (l_sold l))), (''remaining_quantity'', JStr (dec_text (l_remaining l))),
        (''unit_price_usd'', JStr (dec_text (l_price l))), (''fee_semantics'', JStr (l_semantics l)),
        (''observed_at'', JStr observed_at), (''mode'', JStr mode)]"

text \<open>Sold and remaining must be what was left: \<open>sold > prior or sold + remaining != prior\<close>.\<close>

definition leg_quantity :: "position \<Rightarrow> leg \<Rightarrow> decimal res" where
  "leg_quantity position l =
     bindR (positive_model_decimal (str_or_None (p_qty_dec position)) ''EXIT_FILL_REQUIRES_ENTRY'' False) (\<lambda>original.
     bindR (case p_remaining_qty_dec position of None \<Rightarrow> Inr original
            | Some t \<Rightarrow> positive_model_decimal t ''MODELED_QUANTITY_INVALID'' False) (\<lambda>prior.
     bindR (dec_lt prior (l_sold l)) (\<lambda>over.
     bindR (if over then Inr True
            else bindR (dec_add (l_sold l) (l_remaining l)) (\<lambda>both. bindR (py_dec_eq both prior) (\<lambda>same. Inr (\<not> same)))) (\<lambda>conflict.
     if conflict then Inl (PaperPlaneError ''MODELED_EXIT_QUANTITY_CONFLICT'') else Inr original))))"

definition leg_amounts_of :: "position \<Rightarrow> leg \<Rightarrow> decimal \<Rightarrow> leg_amounts res" where
  "leg_amounts_of position l original =
     bindR (positive_model_decimal (str_or_None (p_entered_notional_usd_dec position))
              ''EXIT_FILL_REQUIRES_ENTRY_NOTIONAL'' False) (\<lambda>entry_notional.
     bindR (positive_model_decimal (str_or_None (p_entry_fee_usd_dec position))
              ''EXIT_FILL_REQUIRES_ENTRY_FEE'' True) (\<lambda>entry_fee.
     bindR (dec_of_string (text_or (p_exit_notional_usd_dec position) ''0'')) (\<lambda>previous_exit.
     bindR (dec_of_string (text_or (p_exit_fee_usd_dec position) ''0'')) (\<lambda>previous_fee.
     bindR (bindR (dec_mul (l_price l) (l_sold l)) cents) (\<lambda>proceeds.
     bindR (if l_semantics l = ''INCLUDED_IN_UNIT_PRICE'' then Inr dec_zero
            else case p_fee_bps position of None \<Rightarrow> Inl PyTypeError | Some bps \<Rightarrow> fee_of proceeds bps) (\<lambda>leg_fee.
     bindR (bindR (dec_mul entry_notional (l_remaining l)) (\<lambda>x. dec_div x original)) (\<lambda>remaining_cost.
     bindR (dec_sub entry_notional remaining_cost) (\<lambda>allocated_cost.
     bindR (dec_sub original (l_remaining l)) (\<lambda>released.
     bindR (bindR (dec_mul entry_fee released) (\<lambda>x. bindR (dec_div x original) cents)) (\<lambda>allocated_fee.
     bindR (dec_sub entry_fee allocated_fee) (\<lambda>remaining_fee.
     bindR (bindR (case p_remaining_entry_fee_usd_dec position of None \<Rightarrow> Inr entry_fee | Some t \<Rightarrow> dec_of_string t)
              (dec_sub entry_fee)) (\<lambda>prior_allocated_fee.
     bindR (dec_add previous_exit proceeds) (\<lambda>exit_total.
     bindR (dec_add previous_fee leg_fee) (\<lambda>exit_fee.
     bindR (bindR (dec_sub exit_total allocated_cost) cents) (\<lambda>gross.
     bindR (bindR (dec_sub gross allocated_fee) (\<lambda>x. bindR (dec_sub x exit_fee) cents)) (\<lambda>net.
     bindR (dec_div exit_total released) (\<lambda>exit_price.
     bindR (dec_sub allocated_fee prior_allocated_fee) (\<lambda>leg_allocated_fee.
     bindR (bindR (dec_of_string (text_or (p_realized_gross_pnl_usd_dec position) ''0'')) (dec_sub gross)) (\<lambda>leg_gross.
     bindR (bindR (dec_of_string (text_or (p_realized_net_pnl_usd_dec position) ''0'')) (dec_sub net)) (\<lambda>leg_net.
       Inr \<lparr>la_proceeds = proceeds, la_fee = leg_fee, la_remaining_cost = remaining_cost,
            la_allocated_fee = allocated_fee, la_remaining_fee = remaining_fee,
            la_leg_allocated_fee = leg_allocated_fee, la_exit_total = exit_total, la_exit_fee = exit_fee,
            la_gross = gross, la_net = net, la_exit_price = exit_price, la_leg_gross = leg_gross,
            la_leg_net = leg_net\<rparr>))))))))))))))))))))"

definition is_zero :: "decimal \<Rightarrow> bool" where
  "is_zero x = dec_eq x dec_zero"

definition set_leg :: "leg \<Rightarrow> leg_amounts \<Rightarrow> string \<Rightarrow> string \<Rightarrow> position \<Rightarrow> position" where
  "set_leg l a mode observed_at r =
     (let final = is_zero (l_remaining l) in
      r\<lparr>p_state := (if final then RECONCILED else EXIT_REQUIRED),
        p_remaining_qty_dec := Some (dec_text (l_remaining l)),
        p_remaining_cost_basis_usd_dec := Some (dec_text (la_remaining_cost a)),
        p_remaining_entry_fee_usd_dec := Some (dec_text (la_remaining_fee a)),
        p_exit_price_dec := Some (dec_text (la_exit_price a)),
        p_exit_notional_usd := Some (FloatOf (la_exit_total a)),
        p_exit_notional_usd_dec := Some (dec_text (la_exit_total a)),
        p_exit_fee_usd_dec := Some (dec_text (la_exit_fee a)),
        p_realized_gross_pnl_usd_dec := Some (dec_text (la_gross a)),
        p_realized_net_pnl_usd_dec := Some (dec_text (la_net a)),
        p_pnl_evidence_class := (if final then Some (evidence_class mode) else None),
        p_closed_at := (if final then coalesce (p_closed_at r) (Some observed_at) else p_closed_at r),
        p_mark_price_dec := None, p_mark_as_of := None, p_unrealized_gross_pnl_usd_dec := None,
        p_unrealized_net_pnl_usd_dec := None, p_unrealized_evidence_class := None\<rparr>)"

definition leg_event :: "leg \<Rightarrow> leg_amounts \<Rightarrow> dict \<Rightarrow> string \<Rightarrow> dict" where
  "leg_event l a request bot_mode =
     dict_of [(''schema_version'', JStr ''1.1''), (''request'', JObj request), (''quantity_unit'', JStr ''TOKEN_UNITS''),
        (''proceeds_usd'', JStr (dec_text (la_proceeds a))), (''exit_fee_usd'', JStr (dec_text (la_fee a))),
        (''allocated_entry_fee_total_usd'', JStr (dec_text (la_allocated_fee a))),
        (''allocated_entry_fee_usd'', JStr (dec_text (la_leg_allocated_fee a))),
        (''realized_gross_pnl_usd'', JStr (dec_text (la_leg_gross a))),
        (''realized_trade_net_usd'', JStr (dec_text (la_leg_net a))),
        (''remaining_cost_basis_usd'', JStr (dec_text (la_remaining_cost a))),
        (''realized_trade_net_total_usd'', JStr (dec_text (la_net a))),
        (''evidence_class'', JStr (bot_mode @ ''_MODEL''))]"

definition leg_of_text :: "string \<Rightarrow> string \<Rightarrow> string \<Rightarrow> string \<Rightarrow> leg res" where
  "leg_of_text quantity_sold remaining_quantity unit_price semantics =
     bindR (positive_model_decimal quantity_sold ''MODELED_QUANTITY_INVALID'' False) (\<lambda>sold.
     bindR (positive_model_decimal remaining_quantity ''MODELED_QUANTITY_INVALID'' True) (\<lambda>remaining.
     bindR (positive_model_decimal unit_price ''MODELED_FILL_DETAILS_INVALID'' False) (\<lambda>price.
     if semantics \<notin> set FEE_SEMANTICS then Inl (PaperPlaneError ''MODELED_FEE_SEMANTICS_UNSUPPORTED'')
     else Inr \<lparr>l_sold = sold, l_remaining = remaining, l_price = price, l_semantics = semantics\<rparr>)))"

text \<open>A leg id seen before: the same request of the same position is answered, any other refused.\<close>

definition replay_leg :: "string \<Rightarrow> event \<Rightarrow> dict \<Rightarrow> position \<Rightarrow> store \<Rightarrow> (position \<times> store) res" where
  "replay_leg pid previous request position s =
     (case e_payload previous of
        Some (JObj payload) \<Rightarrow>
          if e_position previous \<noteq> Some pid \<or> jget payload ''request'' \<noteq> JObj request
          then Inl (PaperPlaneError ''EXIT_LEG_CONTENT_CONFLICT'') else Inr (position, s)
      | _ \<Rightarrow> if e_position previous \<noteq> Some pid then Inl (PaperPlaneError ''EXIT_LEG_CONTENT_CONFLICT'')
             else Inl PyTypeError)"

definition book_leg ::
  "string \<Rightarrow> leg \<Rightarrow> string \<Rightarrow> string \<Rightarrow> string \<Rightarrow> position \<Rightarrow> bot \<Rightarrow> store \<Rightarrow> (position \<times> store) res" where
  "book_leg pid l mode observed_at leg_id position bt s =
     (if p_state position \<notin> set LEG_STATES then Inl (PaperPlaneError ''EXIT_QUANTITY_STATE_INVALID'')
      else
        bindR (leg_quantity position l) (\<lambda>original.
        bindR (leg_amounts_of position l original) (\<lambda>a.
        bindR (append_execution_event ''MODELED_EXIT_QUANTITY_LEG'' (Some (b_id bt)) (Some pid)
                 (leg_event l a (leg_request l observed_at mode) (b_mode bt)) (Some leg_id) (Some observed_at)
                 (upd_position pid (set_leg l a mode observed_at) s)) (\<lambda>(_, s1).
        case get_position pid s1 of None \<Rightarrow> Inl PyAssertionError | Some updated \<Rightarrow> Inr (updated, s1)))))"

definition apply_quantity_exit_fill ::
  "string \<Rightarrow> string \<Rightarrow> string \<Rightarrow> string \<Rightarrow> string \<Rightarrow> string \<Rightarrow> string \<Rightarrow> string \<Rightarrow> store \<Rightarrow> (position \<times> store) res" where
  "apply_quantity_exit_fill pid mode quantity_sold remaining_quantity unit_price semantics observed_at leg_id s0 =
     bindR (leg_of_text quantity_sold remaining_quantity unit_price semantics) (\<lambda>l.
       immediate_write (\<lambda>s.
         case get_position pid s of None \<Rightarrow> Inl (PaperPlaneError ''POSITION_NOT_FOUND'')
         | Some position \<Rightarrow>
           (case get_bot (p_bot position) s of None \<Rightarrow> Inl (PaperPlaneError ''EXIT_FILL_MODE_MISMATCH'')
            | Some bt \<Rightarrow>
              if b_mode bt \<noteq> mode then Inl (PaperPlaneError ''EXIT_FILL_MODE_MISMATCH'')
              else bindR (get_execution_event leg_id s) (\<lambda>previous.
                case previous of
                  Some ev \<Rightarrow> replay_leg pid ev (leg_request l observed_at mode) position s
                | None \<Rightarrow> book_leg pid l mode observed_at leg_id position bt s))) s0)"

subsection \<open>The whole exit\<close>

definition advance_to_exiting :: "string \<Rightarrow> position \<Rightarrow> store \<Rightarrow> (position \<times> store) res" where
  "advance_to_exiting pid current s =
     bindR (if p_state current \<in> {OPEN, PARTIAL, UNKNOWN} then transition pid EXIT_REQUIRED s
            else Inr (current, s)) (\<lambda>(current', s1).
       if p_state current' = EXIT_REQUIRED then transition pid EXITING s1 else Inr (current', s1))"

definition clear_unresolved :: "position \<Rightarrow> position" where
  "clear_unresolved r =
     r\<lparr>p_pnl_evidence_class := None,
       p_realized_gross_pnl_usd_dec :=
         (if p_remaining_qty_dec r = None then None else p_realized_gross_pnl_usd_dec r),
       p_realized_net_pnl_usd_dec :=
         (if p_remaining_qty_dec r = None then None else p_realized_net_pnl_usd_dec r)\<rparr>"

definition leave_unresolved :: "string \<Rightarrow> string \<Rightarrow> position \<Rightarrow> store \<Rightarrow> (position \<times> store) res" where
  "leave_unresolved pid mode position s =
     (if p_state position \<notin> {OPEN, PARTIAL, UNKNOWN, EXIT_REQUIRED, EXITING, UNRESOLVED}
      then Inl (PaperPlaneError (''EXIT_FILL_STATE_INVALID:'' @ state_name (p_state position)))
      else
        bindR (advance_to_exiting pid position s) (\<lambda>(position1, s1).
        bindR (if p_state position1 = EXITING then transition pid UNRESOLVED s1
               else if p_state position1 \<noteq> UNRESOLVED
               then Inl (PaperPlaneError (''EXIT_FILL_STATE_INVALID:'' @ state_name (p_state position1)))
               else Inr (position1, s1)) (\<lambda>(position2, s2).
        bindR (append_execution_event ''RECONCILIATION'' (Some (p_bot position2)) (Some pid)
                 (dict_with (row_identity position2)
                    [(''result'', JStr ''UNRESOLVED''), (''mode'', JStr mode), (''pnl_status'', JStr ''UNKNOWN'')])
                 None None (upd_position pid clear_unresolved s2)) (\<lambda>(_, s3).
        case get_position pid s3 of None \<Rightarrow> Inl PyAssertionError | Some updated \<Rightarrow> Inr (updated, s3)))))"

record exit_amounts =
  xa_price :: decimal
  xa_entry_notional :: decimal
  xa_gross_notional :: decimal
  xa_fee :: decimal
  xa_gross :: decimal
  xa_net :: decimal

definition exit_fill_amounts :: "position \<Rightarrow> string \<Rightarrow> exit_amounts res" where
  "exit_fill_amounts position unit_price =
     (if \<not> present (p_entry_price_dec position) \<or> \<not> present (p_qty_dec position)
      then Inl (PaperPlaneError ''EXIT_FILL_REQUIRES_ENTRY'')
      else case p_entered_notional_usd_dec position of
        None \<Rightarrow> Inl (PaperPlaneError ''EXIT_FILL_REQUIRES_ENTRY_NOTIONAL'')
      | Some notional_raw \<Rightarrow>
        if \<not> present (p_entry_fee_usd_dec position) then Inl (PaperPlaneError ''EXIT_FILL_REQUIRES_ENTRY_FEE'')
        else
          let fee_bps = (case p_fee_bps position of None \<Rightarrow> 0 | Some f \<Rightarrow> f) in
          bindR (dec_of_string (the (p_qty_dec position))) (\<lambda>qty.
          bindR (dec_of_string unit_price) (\<lambda>price.
          bindR (dec_of_string notional_raw) (\<lambda>entry_notional.
          bindR (dec_of_string (the (p_entry_fee_usd_dec position))) (\<lambda>entry_fee.
          bindR (bindR (dec_mul price qty) cents) (\<lambda>exit_gross.
          bindR (fee_of exit_gross fee_bps) (\<lambda>exit_fee.
          bindR (bindR (dec_sub exit_gross entry_notional) cents) (\<lambda>gross.
          bindR (bindR (dec_sub gross entry_fee) (\<lambda>x. bindR (dec_sub x exit_fee) cents)) (\<lambda>net.
            Inr \<lparr>xa_price = price, xa_entry_notional = entry_notional, xa_gross_notional = exit_gross,
                 xa_fee = exit_fee, xa_gross = gross, xa_net = net\<rparr>)))))))))"

definition set_exit :: "exit_amounts \<Rightarrow> string \<Rightarrow> string \<Rightarrow> position \<Rightarrow> position" where
  "set_exit a mode now r =
     r\<lparr>p_exit_price_dec := Some (dec_text (xa_price a)), p_exit_fee_usd_dec := Some (dec_text (xa_fee a)),
       p_exit_notional_usd := Some (FloatOf (xa_gross_notional a)),
       p_exit_notional_usd_dec := Some (dec_text (xa_gross_notional a)),
       p_entered_notional_usd_dec := coalesce (p_entered_notional_usd_dec r) (Some (dec_text (xa_entry_notional a))),
       p_realized_gross_pnl_usd_dec := Some (dec_text (xa_gross a)),
       p_realized_net_pnl_usd_dec := Some (dec_text (xa_net a)),
       p_pnl_evidence_class := Some (evidence_class mode),
       p_closed_at := coalesce (p_closed_at r) (Some now)\<rparr>"

text \<open>The states passed on the way to RECONCILED, from the one the position was in.\<close>

definition reconcile_states :: "string \<Rightarrow> position \<Rightarrow> store \<Rightarrow> (position \<times> store) res" where
  "reconcile_states pid position s =
     (if p_state position \<in> {UNRESOLVED, CLOSED}
      then bindR (transition pid RECONCILED s) (\<lambda>(_, s1). Inr (position, s1))
      else
        bindR (advance_to_exiting pid position s) (\<lambda>(position1, s1).
        bindR (if p_state position1 = EXITING then bindR (transition pid CLOSED s1) (\<lambda>(_, s2). Inr s2)
               else Inr s1) (\<lambda>s2.
        case get_position pid s2 of None \<Rightarrow> Inl PyAssertionError
        | Some row \<Rightarrow>
            if p_state row = CLOSED
            then bindR (transition pid RECONCILED s2) (\<lambda>(_, s3). Inr (position1, s3))
            else Inr (position1, s2))))"

definition reconcile_exit :: "string \<Rightarrow> string \<Rightarrow> string \<Rightarrow> position \<Rightarrow> store \<Rightarrow> (position \<times> store) res" where
  "reconcile_exit pid mode unit_price position s =
     bindR (exit_fill_amounts position unit_price) (\<lambda>a.
     bindR (reconcile_states pid position s) (\<lambda>(position1, s1).
     let s2 = upd_position pid (set_exit a mode (now_of s1)) (tick s1) in
     bindR (append_execution_event
              (if mode = ''PAPER'' then ''PAPER_EXIT_OBSERVED'' else ''SHADOW_EXIT_EXECUTABLE_OBSERVED'')
              (Some (p_bot position1)) (Some pid)
              (dict_with (row_identity position1)
                 [(''side'', JStr ''EXIT''), (''exit_price_dec'', JStr (dec_text (xa_price a))),
                  (''exit_fee_usd_dec'', JStr (dec_text (xa_fee a))),
                  (''realized_net_pnl_usd_dec'', JStr (dec_text (xa_net a))), (''mode'', JStr mode)])
              None None s2) (\<lambda>(_, s3).
     bindR (append_execution_event ''RECONCILIATION'' (Some (p_bot position1)) (Some pid)
              (dict_with (row_identity position1)
                 [(''result'', JStr ''RECONCILED''), (''pnl_status'', JStr ''KNOWN''),
                  (''net_pnl_usd_dec'', JStr (dec_text (xa_net a))),
                  (''pnl_evidence_class'', JStr (evidence_class mode)), (''mode'', JStr mode)])
              None None s3) (\<lambda>(_, s4).
     case get_position pid s4 of None \<Rightarrow> Inl PyAssertionError | Some updated \<Rightarrow> Inr (updated, s4)))))"

definition apply_paper_exit_fill :: "string \<Rightarrow> string option \<Rightarrow> string \<Rightarrow> bool \<Rightarrow> store \<Rightarrow> (position \<times> store) res" where
  "apply_paper_exit_fill pid unit_price mode unresolved s0 =
     (if mode \<notin> {''PAPER'', ''SHADOW''} then Inl (PaperPlaneError ''BOT_MODE_INVALID'')
      else immediate_write (\<lambda>s.
        case get_position pid s of None \<Rightarrow> Inl (PaperPlaneError ''POSITION_NOT_FOUND'')
        | Some position \<Rightarrow>
          (case (unresolved, unit_price, p_remaining_qty_dec position) of
             (False, Some price, Some remaining) \<Rightarrow>
               apply_quantity_exit_fill pid mode remaining ''0'' price ''SEPARATE_MODELED_FEE'' (now_of s)
                 (''LEG-'' @ hex_of 32 (tick s)) (tick (tick s))
           | _ \<Rightarrow>
             if p_state position = RECONCILED
             then Inl (PaperPlaneError (''EXIT_FILL_STATE_INVALID:'' @ state_name (p_state position)))
             else case (unresolved, unit_price) of
               (False, Some price) \<Rightarrow> reconcile_exit pid mode price position s
             | _ \<Rightarrow> leave_unresolved pid mode position s)) s0)"

subsection \<open>Exits obey the contract\<close>

lemma set_leg_advance:
  assumes "p_state r \<in> set LEG_STATES"
  shows "row_advance r (set_leg l a mode now r)"
proof -
  have "life (p_state r) (if is_zero (l_remaining l) then RECONCILED else EXIT_REQUIRED)"
    using assms by (intro r_into_rtranclp by_leg) auto
  then show ?thesis by (simp add: set_leg_def Let_def row_defs)
qed

lemma clear_unresolved_advance: "row_advance r (clear_unresolved r)"
  by (simp add: clear_unresolved_def row_defs)

lemma set_exit_advance: "row_advance r (set_exit a mode now r)"
  by (simp add: set_exit_def row_defs)

text \<open>A leg booked, taken apart.\<close>

lemma book_leg_result:
  assumes "book_leg pid l mode observed_at leg_id position bt s = Inr (r', s')"
  obtains original a eid where "p_state position \<in> set LEG_STATES" and "leg_quantity position l = Inr original"
    and "leg_amounts_of position l original = Inr a"
    and "append_execution_event ''MODELED_EXIT_QUANTITY_LEG'' (Some (b_id bt)) (Some pid)
           (leg_event l a (leg_request l observed_at mode) (b_mode bt)) (Some leg_id) (Some observed_at)
           (upd_position pid (set_leg l a mode observed_at) s) = Inr (eid, s')"
    and "get_position pid s' = Some r'"
  using assms unfolding book_leg_def if_Inl_eq_Inr bindR_eq_Inr
  by (auto simp: case_option_Inl_eq_Inr bindR_eq_Inr split: prod.splits)

lemma book_leg_advance:
  assumes "book_leg pid l mode observed_at leg_id position bt s = Inr (r', s')" and "\<not> st_readonly s"
    and "get_position pid s = Some position"
  shows "store_advance s s'"
proof (rule book_leg_result [OF assms(1)])
  fix original a eid
  assume st: "p_state position \<in> set LEG_STATES"
    and e: "append_execution_event ''MODELED_EXIT_QUANTITY_LEG'' (Some (b_id bt)) (Some pid)
           (leg_event l a (leg_request l observed_at mode) (b_mode bt)) (Some leg_id) (Some observed_at)
           (upd_position pid (set_leg l a mode observed_at) s) = Inr (eid, s')"
  have "store_advance s (upd_position pid (set_leg l a mode observed_at) s)"
    by (rule upd_position_advance [OF _ assms(2)])
      (use assms(3) st set_leg_advance in \<open>auto simp: set_leg_def Let_def\<close>)
  then show ?thesis using append_event_advance [OF e] by (rule store_advance_trans)
qed

text \<open>An accepted leg is a new one or an accepted replay, which writes nothing.\<close>

lemma quantity_exit_result:
  assumes "apply_quantity_exit_fill pid mode sold remaining price sem observed_at leg_id s = Inr (r', s')"
  obtains l position bt where "leg_of_text sold remaining price sem = Inr l" and "\<not> st_readonly s"
    and "get_position pid s = Some position" and "get_bot (p_bot position) s = Some bt" and "b_mode bt = mode"
    and "(\<exists>ev payload. find_event leg_id s = Some ev \<and> e_payload ev = Some (JObj payload) \<and> e_position ev = Some pid
            \<and> jget payload ''request'' = JObj (leg_request l observed_at mode) \<and> r' = position \<and> s' = s)
         \<or> find_event leg_id s = None \<and> book_leg pid l mode observed_at leg_id position bt s = Inr (r', s')"
proof -
  from assms obtain l position bt where l: "leg_of_text sold remaining price sem = Inr l" "\<not> st_readonly s"
      "get_position pid s = Some position" "get_bot (p_bot position) s = Some bt" "b_mode bt = mode"
    unfolding apply_quantity_exit_fill_def bindR_eq_Inr immediate_write_eq_Inr
    by (auto simp: result_simps split: if_splits)
  have run: "bindR (get_execution_event leg_id s)
      (case_option (book_leg pid l mode observed_at leg_id position bt s)
         (\<lambda>ev. replay_leg pid ev (leg_request l observed_at mode) position s)) = Inr (r', s')"
    using assms by (simp add: apply_quantity_exit_fill_def l immediate_write_def)
  show thesis
  proof (cases "find_event leg_id s")
    case None
    then show thesis using run that [OF l] l(5) by (simp add: get_execution_event_def)
  next
    case (Some ev)
    then show thesis using run that [OF l] l(5)
      by (auto simp: get_execution_event_def replay_leg_def split: option.splits jval.splits if_splits)
  qed
qed

lemma quantity_exit_advance:
  "apply_quantity_exit_fill pid mode sold remaining price sem observed_at leg_id s = Inr (r', s')
   \<Longrightarrow> store_advance s s'"
  by (erule quantity_exit_result) (auto intro: book_leg_advance)

lemma advance_to_exiting_result:
  assumes "advance_to_exiting pid r s = Inr (r', s')" and "get_position pid s = Some r"
  shows "store_advance s s'" and "get_position pid s' = Some r'" and "st_events s' = st_events s"
    and "p_state r \<in> {OPEN, PARTIAL, UNKNOWN, EXIT_REQUIRED} \<Longrightarrow> p_state r' = EXITING"
    and "p_state r \<notin> {OPEN, PARTIAL, UNKNOWN, EXIT_REQUIRED} \<Longrightarrow> r' = r \<and> s' = s"
proof -
  obtain r1 s1 where 1: "(if p_state r \<in> {OPEN, PARTIAL, UNKNOWN} then transition pid EXIT_REQUIRED s
      else Inr (r, s)) = Inr (r1, s1)"
    and 2: "(if p_state r1 = EXIT_REQUIRED then transition pid EXITING s1 else Inr (r1, s1)) = Inr (r', s')"
    using assms(1) unfolding advance_to_exiting_def by (auto simp: bindR_eq_Inr)
  have f: "store_advance s s1 \<and> get_position pid s1 = Some r1 \<and> st_events s1 = st_events s
      \<and> (if p_state r \<in> {OPEN, PARTIAL, UNKNOWN} then p_state r1 = EXIT_REQUIRED else r1 = r \<and> s1 = s)"
  proof (cases "p_state r \<in> {OPEN, PARTIAL, UNKNOWN}")
    case True
    then have "transition pid EXIT_REQUIRED s = Inr (r1, s1)" using 1 by simp
    then show ?thesis by (rule transition_result) (use True in \<open>simp add: set_state_def\<close>)
  next
    case False
    then show ?thesis using 1 assms(2) by auto
  qed
  have g: "store_advance s1 s' \<and> get_position pid s' = Some r' \<and> st_events s' = st_events s1
      \<and> (if p_state r1 = EXIT_REQUIRED then p_state r' = EXITING else r' = r1 \<and> s' = s1)"
  proof (cases "p_state r1 = EXIT_REQUIRED")
    case True
    then have "transition pid EXITING s1 = Inr (r', s')" using 2 by simp
    then show ?thesis by (rule transition_result) (use True in \<open>simp add: set_state_def\<close>)
  next
    case False
    then show ?thesis using 2 f by auto
  qed
  show "store_advance s s'" using f g store_advance_trans by blast
  show "get_position pid s' = Some r'" and "st_events s' = st_events s" using f g by simp_all
  show "p_state r' = EXITING" if "p_state r \<in> {OPEN, PARTIAL, UNKNOWN, EXIT_REQUIRED}"
    using f g that by (auto split: if_splits)
  show "r' = r \<and> s' = s" if "p_state r \<notin> {OPEN, PARTIAL, UNKNOWN, EXIT_REQUIRED}"
    using f g that by (auto split: if_splits)
qed

lemma leave_unresolved_advance:
  assumes "leave_unresolved pid mode position s = Inr (r', s')" and "\<not> st_readonly s"
    and "get_position pid s = Some position"
  shows "store_advance s s'"
proof -
  from assms(1) obtain r1 s1 r2 s2 payload eid where 1: "advance_to_exiting pid position s = Inr (r1, s1)"
    and 2: "(if p_state r1 = EXITING then transition pid UNRESOLVED s1
               else if p_state r1 \<noteq> UNRESOLVED
               then Inl (PaperPlaneError (''EXIT_FILL_STATE_INVALID:'' @ state_name (p_state r1)))
               else Inr (r1, s1)) = Inr (r2, s2)"
    and 3: "append_execution_event ''RECONCILIATION'' (Some (p_bot r2)) (Some pid) payload None None
       (upd_position pid clear_unresolved s2) = Inr (eid, s')"
    unfolding leave_unresolved_def if_Inl_eq_Inr bindR_eq_Inr
    by (auto simp: case_option_Inl_eq_Inr bindR_eq_Inr simp del: dict_with_simps split: prod.splits)
  have "store_advance s s1" using 1 assms(3) by (rule advance_to_exiting_result)
  moreover have "store_advance s1 s2" using 2 transition_advance by (auto split: if_splits)
  ultimately have "store_advance s s2" by (rule store_advance_trans)
  then have "store_advance s (upd_position pid clear_unresolved s2)"
    using assms(2) clear_unresolved_advance by (rule upd_after_advance)
  then show ?thesis using append_event_advance [OF 3] by (rule store_advance_trans)
qed

lemma transition_adv_get:
  "transition pid t s = Inr (r', s') \<Longrightarrow> store_advance s s' \<and> get_position pid s' = Some r' \<and> st_events s' = st_events s"
  by (erule transition_result) simp

lemma reconcile_states_result:
  assumes "reconcile_states pid position s = Inr (p1, s')" and "get_position pid s = Some position"
  shows "store_advance s s'" and "st_events s' = st_events s" and "same_identity position p1"
    and "p_state position \<in> {OPEN, PARTIAL, UNKNOWN, EXIT_REQUIRED, EXITING, UNRESOLVED, CLOSED} \<Longrightarrow>
      \<exists>r'. get_position pid s' = Some r' \<and> p_state r' = RECONCILED"
proof -
  have "store_advance s s' \<and> st_events s' = st_events s \<and> same_identity position p1
    \<and> (p_state position \<in> {OPEN, PARTIAL, UNKNOWN, EXIT_REQUIRED, EXITING, UNRESOLVED, CLOSED} \<longrightarrow>
      (\<exists>r'. get_position pid s' = Some r' \<and> p_state r' = RECONCILED))"
  proof (cases "p_state position \<in> {UNRESOLVED, CLOSED}")
    case True
    then obtain r' where "transition pid RECONCILED s = Inr (r', s')" and "p1 = position"
      using assms(1) unfolding reconcile_states_def by (auto simp: bindR_eq_Inr)
    moreover from this(1) have "p_state r' = RECONCILED"
      by (rule transition_result) (simp add: set_state_def)
    moreover have "same_identity position position" by (simp add: same_identity_def)
    ultimately show ?thesis using transition_adv_get by auto
  next
    case False
    then obtain p2 s1 s2 row where 1: "advance_to_exiting pid position s = Inr (p2, s1)"
      and 2: "(if p_state p2 = EXITING then bindR (transition pid CLOSED s1) (\<lambda>(_, s2). Inr s2) else Inr s1) = Inr s2"
      and row: "get_position pid s2 = Some row"
      and 4: "(if p_state row = CLOSED then bindR (transition pid RECONCILED s2) (\<lambda>(_, s3). Inr (p2, s3))
               else Inr (p2, s2)) = Inr (p1, s')"
      using assms(1) unfolding reconcile_states_def if_not_P [OF False]
      by (auto simp only: bindR_pair_eq_Inr bindR_eq_Inr [of _ "\<lambda>s2. case get_position _ s2 of None \<Rightarrow> _ | Some r \<Rightarrow> _ s2 r"]
          case_option_Inl_eq_Inr)
    have p2: "p2 = p1" and 3: "if p_state row = CLOSED then \<exists>r3. transition pid RECONCILED s2 = Inr (r3, s') else s' = s2"
      using 4 by (auto simp: bindR_pair_eq_Inr split: if_splits)
    note 1 = 1 [unfolded p2] and 2 = 2 [unfolded p2]
    note a = advance_to_exiting_result [OF 1 assms(2)]
    have b: "store_advance s1 s2 \<and> st_events s2 = st_events s1 \<and> (p_state p1 = EXITING \<longrightarrow> p_state row = CLOSED)"
    proof (cases "p_state p1 = EXITING")
      case True
      then obtain r2 where t: "transition pid CLOSED s1 = Inr (r2, s2)" using 2 by (auto simp: bindR_eq_Inr)
      then have "p_state r2 = CLOSED" by (rule transition_result) (simp add: set_state_def)
      then show ?thesis using transition_adv_get [OF t] row by auto
    next
      case False
      then show ?thesis using 2 by auto
    qed
    have c: "store_advance s2 s' \<and> st_events s' = st_events s2
        \<and> (p_state row = CLOSED \<longrightarrow> (\<exists>r'. get_position pid s' = Some r' \<and> p_state r' = RECONCILED))"
    proof (cases "p_state row = CLOSED")
      case True
      then obtain r3 where t: "transition pid RECONCILED s2 = Inr (r3, s')" using 3 by auto
      then have "p_state r3 = RECONCILED" by (rule transition_result) (simp add: set_state_def)
      then show ?thesis using transition_adv_get [OF t] by auto
    next
      case False
      then show ?thesis using 3 by auto
    qed
    obtain r' where "get_position pid s1 = Some r'" and "row_advance position r'"
      using a(1) assms(2) by (rule store_advance_position)
    then have "same_identity position p1" using a(2) by (simp add: row_advance_def)
    moreover have "p_state p1 = EXITING"
      if "p_state position \<in> {OPEN, PARTIAL, UNKNOWN, EXIT_REQUIRED, EXITING, UNRESOLVED, CLOSED}"
      using a(4,5) that False by auto
    moreover have "store_advance s s'" using a(1) b c store_advance_trans by blast
    ultimately show ?thesis using a(3) b c by auto
  qed
  then show "store_advance s s'" and "st_events s' = st_events s" and "same_identity position p1"
    and "p_state position \<in> {OPEN, PARTIAL, UNKNOWN, EXIT_REQUIRED, EXITING, UNRESOLVED, CLOSED} \<Longrightarrow>
      \<exists>r'. get_position pid s' = Some r' \<and> p_state r' = RECONCILED"
    by blast+
qed

text \<open>The whole exit, taken apart: states, the row, two events.\<close>

lemma reconcile_exit_result:
  assumes "reconcile_exit pid mode unit_price position s = Inr (r', s')"
  obtains a p1 s1 e1 s3 e2 pl1 pl2 where "exit_fill_amounts position unit_price = Inr a"
    and "reconcile_states pid position s = Inr (p1, s1)"
    and "append_execution_event
           (if mode = ''PAPER'' then ''PAPER_EXIT_OBSERVED'' else ''SHADOW_EXIT_EXECUTABLE_OBSERVED'')
           (Some (p_bot p1)) (Some pid) pl1 None None
           (upd_position pid (set_exit a mode (now_of s1)) (tick s1)) = Inr (e1, s3)"
    and "append_execution_event ''RECONCILIATION'' (Some (p_bot p1)) (Some pid) pl2 None None s3 = Inr (e2, s')"
    and "get_position pid s' = Some r'"
  using assms unfolding reconcile_exit_def Let_def bindR_eq_Inr
  by (auto simp: case_option_Inl_eq_Inr bindR_eq_Inr simp del: dict_with_simps split: prod.splits)

lemma reconcile_exit_advance:
  assumes "reconcile_exit pid mode unit_price position s = Inr (r', s')" and "\<not> st_readonly s"
    and "get_position pid s = Some position"
  shows "store_advance s s'"
proof (rule reconcile_exit_result [OF assms(1)])
  fix a p1 s1 e1 s3 e2 pl1 pl2
  assume 1: "reconcile_states pid position s = Inr (p1, s1)"
    and 2: "append_execution_event
           (if mode = ''PAPER'' then ''PAPER_EXIT_OBSERVED'' else ''SHADOW_EXIT_EXECUTABLE_OBSERVED'')
           (Some (p_bot p1)) (Some pid) pl1 None None
           (upd_position pid (set_exit a mode (now_of s1)) (tick s1)) = Inr (e1, s3)"
    and 3: "append_execution_event ''RECONCILIATION'' (Some (p_bot p1)) (Some pid) pl2 None None s3 = Inr (e2, s')"
  have "store_advance s (tick s1)"
    using reconcile_states_result(1) [OF 1 assms(3)] tick_advance by (rule store_advance_trans)
  then have "store_advance s (upd_position pid (set_exit a mode (now_of s1)) (tick s1))"
    using assms(2) set_exit_advance by (rule upd_after_advance)
  also have "store_advance \<dots> s3" using 2 by (rule append_event_advance)
  also have "store_advance s3 s'" using 3 by (rule append_event_advance)
  finally show ?thesis .
qed

text \<open>Which of the three ways an exit fill took.\<close>

lemma exit_fill_result:
  assumes "apply_paper_exit_fill pid unit_price mode unresolved s = Inr (r', s')"
  obtains position where "get_position pid s = Some position" and "\<not> st_readonly s"
    and "mode \<in> {''PAPER'', ''SHADOW''}"
    and "(\<exists>price remaining. \<not> unresolved \<and> unit_price = Some price \<and> p_remaining_qty_dec position = Some remaining
            \<and> apply_quantity_exit_fill pid mode remaining ''0'' price ''SEPARATE_MODELED_FEE'' (now_of s)
                 (''LEG-'' @ hex_of 32 (tick s)) (tick (tick s)) = Inr (r', s'))
       \<or> (\<exists>price. \<not> unresolved \<and> unit_price = Some price \<and> p_remaining_qty_dec position = None
            \<and> p_state position \<noteq> RECONCILED \<and> reconcile_exit pid mode price position s = Inr (r', s'))
       \<or> (unresolved \<or> unit_price = None) \<and> p_state position \<noteq> RECONCILED
            \<and> leave_unresolved pid mode position s = Inr (r', s')"
proof -
  from assms obtain position where 1: "get_position pid s = Some position" "\<not> st_readonly s"
    "mode \<in> {''PAPER'', ''SHADOW''}"
    unfolding apply_paper_exit_fill_def if_Inl_eq_Inr immediate_write_eq_Inr case_option_Inl_eq_Inr by blast
  then show thesis
    using assms that [OF 1] unfolding apply_paper_exit_fill_def
    by (cases unresolved; cases unit_price; cases "p_remaining_qty_dec position")
      (simp_all add: immediate_write_def if_Inl_eq_Inr)
qed

lemma exit_fill_advance:
  assumes "apply_paper_exit_fill pid unit_price mode unresolved s = Inr (r', s')"
  shows "store_advance s s'"
proof (rule exit_fill_result [OF assms])
  fix position
  assume g: "get_position pid s = Some position" and ro: "\<not> st_readonly s"
    and ways: "(\<exists>price remaining. \<not> unresolved \<and> unit_price = Some price \<and> p_remaining_qty_dec position = Some remaining
            \<and> apply_quantity_exit_fill pid mode remaining ''0'' price ''SEPARATE_MODELED_FEE'' (now_of s)
                 (''LEG-'' @ hex_of 32 (tick s)) (tick (tick s)) = Inr (r', s'))
       \<or> (\<exists>price. \<not> unresolved \<and> unit_price = Some price \<and> p_remaining_qty_dec position = None
            \<and> p_state position \<noteq> RECONCILED \<and> reconcile_exit pid mode price position s = Inr (r', s'))
       \<or> (unresolved \<or> unit_price = None) \<and> p_state position \<noteq> RECONCILED
            \<and> leave_unresolved pid mode position s = Inr (r', s')"
  have two: "store_advance s (tick (tick s))" using tick_advance store_advance_trans by blast
  from ways consider
      (leg) price remaining where "apply_quantity_exit_fill pid mode remaining ''0'' price ''SEPARATE_MODELED_FEE''
        (now_of s) (''LEG-'' @ hex_of 32 (tick s)) (tick (tick s)) = Inr (r', s')"
    | (whole) price where "reconcile_exit pid mode price position s = Inr (r', s')"
    | (open_end) "leave_unresolved pid mode position s = Inr (r', s')"
    by blast
  then show ?thesis
  proof cases
    case leg
    show ?thesis using two quantity_exit_advance [OF leg] by (rule store_advance_trans)
  next
    case whole
    then show ?thesis using ro g by (rule reconcile_exit_advance)
  next
    case open_end
    then show ?thesis using ro g by (rule leave_unresolved_advance)
  qed
qed

end
