(* ===== verification/PaperLedger.thy ===== *)
theory PaperLedger
  imports PaperExits
begin

section \<open>What the booked numbers mean\<close>

text \<open>
  The functional properties of the fills: amounts read back from the columns they were written
  to, profit and loss identities, conservation of quantity and cost by legs, and replays that
  change nothing.
\<close>

subsection \<open>Columns that hold a finite number\<close>

definition reads :: "string option \<Rightarrow> decimal \<Rightarrow> bool" where
  "reads t x = (\<exists>u. t = Some u \<and> u \<noteq> [] \<and> dec_of_string u = Inr x \<and> dec_is_finite x)"

lemma reads_dec_text:
  assumes "dec_is_finite x"
  shows "reads (Some (dec_text x)) (dec_plain x)"
  using assms by (simp add: reads_def dec_text_fin dec_plain_finite)

lemma reads_present: "reads t x \<Longrightarrow> present t"
  by (auto simp: reads_def)

lemma reads_the: "reads t x \<Longrightarrow> dec_of_string (the t) = Inr x \<and> dec_is_finite x"
  by (auto simp: reads_def)

lemma reads_str: "reads t x \<Longrightarrow> dec_of_string (str_or_None t) = Inr x"
  by (auto simp: reads_def str_or_None_def)

subsection \<open>Cents and fees\<close>

lemma abs_near: "\<bar>a - b\<bar> \<le> 1 / 200 \<Longrightarrow> \<bar>b\<bar> < c \<Longrightarrow> \<bar>a\<bar> < c + (1 :: rat)"
  by linarith

lemma abs_minus_less: "\<bar>a\<bar> < c \<Longrightarrow> \<bar>b\<bar> < d \<Longrightarrow> \<bar>a - b\<bar> < c + (d :: rat)"
  by linarith

lemma cents_value:
  assumes "cents x = Inr y" and "dec_is_finite x"
  shows "dec_is_finite y" and "dexp y = - 2" and "\<bar>dval y - dval x\<bar> \<le> 1 / 200"
    and "- 2 \<le> dexp x \<Longrightarrow> dval y = dval x"
proof -
  have p: "(10::rat) powi (- 2) = 1 / 100" by (simp add: power_int_def power2_eq_square)
  show "dec_is_finite y" and "dexp y = - 2" and "\<bar>dval y - dval x\<bar> \<le> 1 / 200"
    and "- 2 \<le> dexp x \<Longrightarrow> dval y = dval x"
    using dec_quantize_value [of "- 2" x y] assms p by (auto simp: cents_def)
qed

lemma dec_of_int_facts [simp]:
  "dec_is_finite (dec_of_int i)" "dexp (dec_of_int i) = 0" "dval (dec_of_int i) = of_int i"
  by (simp_all add: dec_of_int_def signed_def)

lemma fee_of_value:
  assumes "fee_of x bps = Inr f" and "dec_is_finite x" and "- k \<le> dexp x"
    and "\<bar>dval x * of_int bps\<bar> < 10 powi (28 - k)"
  shows "dec_is_finite f" and "dexp f = - 2" and "\<bar>dval f - dval x * of_int bps / 10000\<bar> \<le> 1 / 200"
proof -
  obtain z where z: "dec_mul x (dec_of_int bps) = Inr z" "dec_is_finite z" "dval z = dval x * of_int bps"
    "dexp z = dexp x"
    using dec_mul_exact [of x "dec_of_int bps" k] assms(2-4) by auto
  obtain w where w: "dec_div z dec_ten_thousand = Inr w" "dec_is_finite w" "dval w = dval z / 10000"
    using dec_div_ten_thousand [of z k] z assms(3,4) unfolding dec_ten_thousand_def by auto
  have "cents w = Inr f" using assms(1) z(1) w(1) by (simp add: fee_of_def)
  from cents_value [OF this w(2)] show "dec_is_finite f" and "dexp f = - 2"
    and "\<bar>dval f - dval x * of_int bps / 10000\<bar> \<le> 1 / 200"
    using w(3) z(3) by simp_all
qed

text \<open>\<open>(gross - fee_in - fee_out)\<close> on the cent grid is exact.\<close>

lemma cents_grid:
  assumes "cents x = Inr y" and "dec_is_finite x" and "- 2 \<le> dexp x"
  shows "dec_is_finite y" and "dexp y = - 2" and "dval y = dval x"
  using cents_value [OF assms(1,2)] assms(3) by simp_all

lemma cents_difference:
  assumes "bindR (dec_sub x y) cents = Inr z"
    and "dec_is_finite x" and "dec_is_finite y" and "- 2 \<le> dexp x" and "- 2 \<le> dexp y"
    and "\<bar>dval x\<bar> < 10 ^ 21" and "\<bar>dval y\<bar> < 10 ^ 21"
  shows "dec_is_finite z" and "dexp z = - 2" and "dval z = dval x - dval y"
proof -
  have "\<bar>dval x - dval y\<bar> < 10 powi (28 - 2)" using assms(6,7) by simp
  then obtain d where d: "dec_sub x y = Inr d" "dec_is_finite d" "dval d = dval x - dval y"
    "dexp d = min (dexp x) (dexp y)"
    using assms(2-5) by (elim dec_sub_exact [rotated 4]) auto
  then have "cents d = Inr z" using assms(1) by simp
  from cents_grid [OF this d(2)] d assms(4,5)
  show "dec_is_finite z" and "dexp z = - 2" and "dval z = dval x - dval y" by simp_all
qed

lemma cents_net:
  assumes "bindR (dec_sub x y) (\<lambda>d. bindR (dec_sub d w) cents) = Inr z"
    and "dec_is_finite x" and "dec_is_finite y" and "dec_is_finite w"
    and "- 2 \<le> dexp x" and "- 2 \<le> dexp y" and "- 2 \<le> dexp w"
    and "\<bar>dval x\<bar> < 10 ^ 21" and "\<bar>dval y\<bar> < 10 ^ 21" and "\<bar>dval w\<bar> < 10 ^ 21"
  shows "dec_is_finite z" and "dexp z = - 2" and "dval z = dval x - dval y - dval w"
proof -
  have "\<bar>dval x - dval y\<bar> < 10 powi (28 - 2)" using assms(8,9) by simp
  then obtain d where d: "dec_sub x y = Inr d" "dec_is_finite d" "dval d = dval x - dval y"
    "dexp d = min (dexp x) (dexp y)"
    using assms(2,3,5,6) by (elim dec_sub_exact [rotated 4]) auto
  have "\<bar>dval d - dval w\<bar> < 10 powi (28 - 2)" using assms(8-10) d(3) by simp
  then obtain d' where d': "dec_sub d w = Inr d'" "dec_is_finite d'" "dval d' = dval d - dval w"
    "dexp d' = min (dexp d) (dexp w)"
    using assms(4-7) d by (elim dec_sub_exact [rotated 4]) auto
  then have "cents d' = Inr z" using assms(1) d(1) by simp
  from cents_grid [OF this d'(2)] d d' assms(5-7)
  show "dec_is_finite z" and "dexp z = - 2" and "dval z = dval x - dval y - dval w" by simp_all
qed

subsection \<open>The whole exit's profit and loss\<close>

text \<open>The amounts the exit of a position starts from, in the range where no rounding to 28 digits occurs.\<close>

definition exit_inputs :: "position \<Rightarrow> string \<Rightarrow> decimal \<Rightarrow> decimal \<Rightarrow> decimal \<Rightarrow> decimal \<Rightarrow> bool" where
  "exit_inputs p unit_price pr q n f =
     (reads (Some unit_price) pr \<and> reads (p_qty_dec p) q \<and> reads (p_entered_notional_usd_dec p) n
      \<and> reads (p_entry_fee_usd_dec p) f
      \<and> - 20 \<le> dexp pr + dexp q \<and> \<bar>dval pr * dval q\<bar> < 10 ^ 8
      \<and> - 2 \<le> dexp n \<and> \<bar>dval n\<bar> < 10 ^ 8 \<and> - 2 \<le> dexp f \<and> \<bar>dval f\<bar> < 10 ^ 8
      \<and> (\<exists>bps. p_fee_bps p = Some bps \<and> \<bar>bps\<bar> \<le> 10000))"

lemma exit_fill_amounts_value:
  assumes "exit_fill_amounts p unit_price = Inr a" and "exit_inputs p unit_price pr q n f"
  shows "\<bar>dval (xa_gross_notional a) - dval pr * dval q\<bar> \<le> 1 / 200"
    and "\<bar>dval (xa_fee a) - dval (xa_gross_notional a) * of_int (the (p_fee_bps p)) / 10000\<bar> \<le> 1 / 200"
    and "dval (xa_gross a) = dval (xa_gross_notional a) - dval n"
    and "dval (xa_net a) = dval (xa_gross a) - dval f - dval (xa_fee a)"
    and "xa_price a = pr" and "xa_entry_notional a = n"
    and "dec_is_finite (xa_gross_notional a)" and "dec_is_finite (xa_fee a)" and "dec_is_finite (xa_gross a)"
    and "dec_is_finite (xa_net a)"
    and "dexp (xa_gross a) = - 2" and "dexp (xa_fee a) = - 2" and "dexp (xa_net a) = - 2"
    and "\<bar>dval (xa_gross a)\<bar> < 10 ^ 20" and "\<bar>dval (xa_fee a)\<bar> < 10 ^ 20"
proof -
  note inp = assms(2) [unfolded exit_inputs_def]
  obtain bps where bps: "p_fee_bps p = Some bps" "\<bar>bps\<bar> \<le> 10000" using inp by auto
  have rd: "dec_of_string unit_price = Inr pr" "dec_is_finite pr" "dec_of_string (the (p_qty_dec p)) = Inr q"
    "dec_is_finite q" "dec_of_string (the (p_entered_notional_usd_dec p)) = Inr n" "dec_is_finite n"
    "dec_of_string (the (p_entry_fee_usd_dec p)) = Inr f" "dec_is_finite f"
    using inp reads_the by fastforce+
  have n: "p_entered_notional_usd_dec p \<noteq> None" using inp by (auto simp: reads_def)
  from assms(1) n bps rd obtain g fe gr ne where steps:
      "bindR (dec_mul pr q) cents = Inr g" "fee_of g bps = Inr fe" "bindR (dec_sub g n) cents = Inr gr"
      "bindR (dec_sub gr f) (\<lambda>x. bindR (dec_sub x fe) cents) = Inr ne"
    and a: "a = \<lparr>xa_price = pr, xa_entry_notional = n, xa_gross_notional = g, xa_fee = fe, xa_gross = gr, xa_net = ne\<rparr>"
    by (auto simp: exit_fill_amounts_def Let_def if_Inl_eq_Inr bindR_eq_Inr)
  obtain m where m: "dec_mul pr q = Inr m" "dec_is_finite m" "dval m = dval pr * dval q"
    using dec_mul_exact [of pr q 20] rd inp by auto
  have "cents m = Inr g" using steps(1) m(1) by simp
  note g = cents_value [OF this m(2)]
  have "\<bar>dval g\<bar> < 10 ^ 8 + 1" by (rule abs_near [of _ "dval m"]) (use g(3) m(3) inp in simp_all)
  then have gb: "\<bar>dval g\<bar> < 10 ^ 9" by simp
  have "\<bar>dval g * of_int bps\<bar> \<le> 10 ^ 9 * 10000"
    unfolding abs_mult using gb bps(2) by (intro mult_mono) auto
  then have "\<bar>dval g * of_int bps\<bar> < 10 powi (28 - 2)" by simp
  from fee_of_value [OF steps(2) g(1) _ this] g(2)
  have fe: "dec_is_finite fe" "dexp fe = - 2" "\<bar>dval fe - dval g * of_int bps / 10000\<bar> \<le> 1 / 200" by simp_all
  have "\<bar>dval g * of_int bps / 10000\<bar> \<le> 10 ^ 9" using \<open>\<bar>dval g * of_int bps\<bar> \<le> 10 ^ 9 * 10000\<close> by simp
  then have "\<bar>dval g * of_int bps / 10000\<bar> < 10 ^ 9 + 1" by simp
  then have "\<bar>dval fe\<bar> < 10 ^ 9 + 1 + 1" using fe(3) abs_near by blast
  then have fb: "\<bar>dval fe\<bar> < 10 ^ 10" by simp
  have gr: "dec_is_finite gr" "dexp gr = - 2" "dval gr = dval g - dval n"
    using cents_difference [OF steps(3) g(1) rd(6)] g(2) gb inp by simp_all
  have "\<bar>dval g - dval n\<bar> < 10 ^ 9 + 10 ^ 8" using gb inp by (intro abs_minus_less) simp_all
  then have grb: "\<bar>dval gr\<bar> < 10 ^ 10" using gr(3) by simp
  have ne: "dec_is_finite ne" "dexp ne = - 2" "dval ne = dval gr - dval f - dval fe"
    using cents_net [OF steps(4) gr(1) rd(8) fe(1)] gr(2) fe(2) grb fb inp by simp_all
  show "\<bar>dval (xa_gross_notional a) - dval pr * dval q\<bar> \<le> 1 / 200" using g(3) m(3) by (simp add: a)
  show "\<bar>dval (xa_fee a) - dval (xa_gross_notional a) * of_int (the (p_fee_bps p)) / 10000\<bar> \<le> 1 / 200"
    using fe(3) bps by (simp add: a)
  show "dval (xa_gross a) = dval (xa_gross_notional a) - dval n"
    and "dval (xa_net a) = dval (xa_gross a) - dval f - dval (xa_fee a)"
    and "xa_price a = pr" and "xa_entry_notional a = n"
    and "dec_is_finite (xa_gross_notional a)" and "dec_is_finite (xa_fee a)" and "dec_is_finite (xa_gross a)"
    and "dec_is_finite (xa_net a)"
    and "dexp (xa_gross a) = - 2" and "dexp (xa_fee a) = - 2" and "dexp (xa_net a) = - 2"
    and "\<bar>dval (xa_gross a)\<bar> < 10 ^ 20" and "\<bar>dval (xa_fee a)\<bar> < 10 ^ 20"
    using gr ne g(1) fe grb fb by (simp_all add: a)
qed

subsection \<open>A concrete store\<close>

text \<open>One PAPER bot with one position, on which the properties below are exercised.\<close>

definition demo_bot :: bot where
  "demo_bot = \<lparr>b_id = ''BOT-1'', b_strategy_id = ''S'', b_strategy_version = ''S-1'', b_mode = ''PAPER'',
     b_status = ''RUNNING'', b_started_at = ''2026-01-01T00:00:00Z'', b_stopped_at = None,
     b_activation_epoch_id = None, b_runtime_schema_version = None, b_entries_paused = False,
     b_strategy_spec_sha256 = None\<rparr>"

definition demo_store :: "position \<Rightarrow> store" where
  "demo_store r = \<lparr>st_readonly = False, st_bots = [demo_bot], st_positions = [r], st_events = [], st_commands = [],
     st_policies = [], st_marks = [], st_wall = (\<lambda>n. ''2026-01-02T00:00:00Z''),
     st_hex = (\<lambda>n. replicate (n + 1) (CHR ''a'')), st_calls = 0\<rparr>"

definition demo_open :: position where
  "demo_open = (blank_position ''POS-1'' ''BOT-1'' ''Mint'' ''SIMULATED_FILL'' ''2026-01-01T00:00:00Z'')
     \<lparr>p_state := OPEN, p_entry_price_dec := Some ''0.50'', p_qty_dec := Some ''200.00000000'',
      p_fee_bps := Some 25, p_entry_fee_usd_dec := Some ''0.25'', p_entered_notional_usd_dec := Some ''100''\<rparr>"

lemma demo_open_fields [simp]:
  "p_id demo_open = ''POS-1''" "p_bot demo_open = ''BOT-1''" "p_state demo_open = OPEN"
  "p_remaining_qty_dec demo_open = None" "p_closed_at demo_open = None" "p_fee_bps demo_open = Some 25"
  "p_qty_dec demo_open = Some ''200.00000000''" "p_entered_notional_usd_dec demo_open = Some ''100''"
  "p_entry_fee_usd_dec demo_open = Some ''0.25''" "p_entry_price_dec demo_open = Some ''0.50''"
  by (simp_all add: demo_open_def blank_position_def)

lemmas exit_eval = apply_paper_exit_fill_def reconcile_exit_def reconcile_states_def advance_to_exiting_def
  set_exit_def

lemma demo_exit_amounts: "exit_fill_amounts demo_open ''0.60'' =
    Inr \<lparr>xa_price = Fin False 60 (-2), xa_entry_notional = Fin False 100 0,
         xa_gross_notional = Fin False 12000 (-2), xa_fee = Fin False 30 (-2),
         xa_gross = Fin False 2000 (-2), xa_net = Fin False 1945 (-2)\<rparr>"
  by (simp add: exit_fill_amounts_def dec_eval)

lemma demo_exit_returns:
  "\<exists>r s'. apply_paper_exit_fill ''POS-1'' (Some ''0.60'') ''PAPER'' False (demo_store demo_open) = Inr (r, s')"
  by (simp add: demo_exit_amounts exit_eval store_eval demo_store_def demo_bot_def Let_def dec_eval
      del: dict_with_simps)

lemma demo_exit_inputs: "exit_inputs demo_open ''0.60'' (Fin False 60 (-2)) (Fin False 20000000000 (-8))
    (Fin False 100 0) (Fin False 25 (-2))"
  by (simp add: exit_inputs_def reads_def dec_eval power_int_def power_divide)

subsection \<open>Rows after a fill\<close>

lemma get_after_upd:
  assumes "\<And>r. p_id (f r) = p_id r" and "get_position pid s = Some r"
  shows "get_position pid (upd_position pid f s) = Some (f r)"
  using pos.get_upd [OF assms(1), of pid pid s] assms(2) by simp

text \<open>The row a whole exit leaves is the advanced one with the exit columns set.\<close>

lemma reconcile_exit_row:
  assumes "reconcile_exit pid mode unit_price position s = Inr (r', s')"
    and "get_position pid s = Some position"
    and "p_state position \<in> {OPEN, PARTIAL, UNKNOWN, EXIT_REQUIRED, EXITING, UNRESOLVED, CLOSED}"
  obtains a r1 now where "exit_fill_amounts position unit_price = Inr a" and "r' = set_exit a mode now r1"
    and "p_state r1 = RECONCILED" and "row_advance position r1" and "get_position pid s' = Some r'"
proof (rule reconcile_exit_result [OF assms(1)])
  fix a p1 s1 e1 s3 e2 pl1 pl2
  assume a: "exit_fill_amounts position unit_price = Inr a"
    and st: "reconcile_states pid position s = Inr (p1, s1)"
    and e1: "append_execution_event
           (if mode = ''PAPER'' then ''PAPER_EXIT_OBSERVED'' else ''SHADOW_EXIT_EXECUTABLE_OBSERVED'')
           (Some (p_bot p1)) (Some pid) pl1 None None
           (upd_position pid (set_exit a mode (now_of s1)) (tick s1)) = Inr (e1, s3)"
    and e2: "append_execution_event ''RECONCILIATION'' (Some (p_bot p1)) (Some pid) pl2 None None s3 = Inr (e2, s')"
    and g: "get_position pid s' = Some r'"
  obtain r1 where r1: "get_position pid s1 = Some r1" "p_state r1 = RECONCILED"
    using reconcile_states_result(4) [OF st assms(2,3)] by blast
  have "row_advance position r1"
    using reconcile_states_result(1) [OF st assms(2)] assms(2) r1(1)
    by (auto elim: store_advance_position)
  moreover have "get_position pid (upd_position pid (set_exit a mode (now_of s1)) (tick s1))
      = Some (set_exit a mode (now_of s1) r1)"
    by (rule get_after_upd) (simp_all add: set_exit_def r1(1))
  then have "r' = set_exit a mode (now_of s1) r1" using g e1 e2 by simp
  ultimately show thesis using that [OF a _ r1(2) _ g] by blast
qed

text \<open>C1: an exit fill of a position that holds an entry reconciles it and books an exact ledger: the
  exit notional and the exit fee are within half a cent of price times quantity and of the rate,
  the gross profit is exit notional minus entry notional, and the net profit is the gross minus
  both fees, read back from the stored columns.\<close>

theorem exit_fill_books_pnl:
  assumes "apply_paper_exit_fill pid (Some price) mode False s = Inr (row, s')"
    and "get_position pid s = Some p" and "p_remaining_qty_dec p = None"
    and "p_state p \<in> {OPEN, PARTIAL, UNKNOWN, EXIT_REQUIRED, EXITING, UNRESOLVED, CLOSED}"
    and "exit_inputs p price pr q n f"
  shows "p_state row = RECONCILED \<and> p_pnl_evidence_class row = Some (evidence_class mode)
    \<and> get_position pid s' = Some row
    \<and> (\<exists>x fe gr ne. reads (p_exit_notional_usd_dec row) x \<and> reads (p_exit_fee_usd_dec row) fe
        \<and> reads (p_realized_gross_pnl_usd_dec row) gr \<and> reads (p_realized_net_pnl_usd_dec row) ne
        \<and> \<bar>dval x - dval pr * dval q\<bar> \<le> 1 / 200
        \<and> \<bar>dval fe - dval x * of_int (the (p_fee_bps p)) / 10000\<bar> \<le> 1 / 200
        \<and> dval gr = dval x - dval n \<and> dval ne = dval gr - dval f - dval fe)"
proof -
  have "reconcile_exit pid mode price p s = Inr (row, s')"
    using assms(1) by (rule exit_fill_result) (use assms(2,3) in auto)
  then obtain a r1 now where a: "exit_fill_amounts p price = Inr a" and row: "row = set_exit a mode now r1"
    and r1: "p_state r1 = RECONCILED" and g: "get_position pid s' = Some row"
    using assms(2,4) by (rule reconcile_exit_row)
  note v = exit_fill_amounts_value [OF a assms(5)]
  show ?thesis
    using v(1-4) r1 g reads_dec_text [OF v(7)] reads_dec_text [OF v(8)] reads_dec_text [OF v(9)]
      reads_dec_text [OF v(10)]
    by (simp add: row set_exit_def) (metis dval_dec_plain)
qed

lemma exit_fill_books_pnl_witness:
  "\<exists>row s' x fe gr ne.
      apply_paper_exit_fill ''POS-1'' (Some ''0.60'') ''PAPER'' False (demo_store demo_open) = Inr (row, s')
      \<and> p_state row = RECONCILED \<and> reads (p_exit_notional_usd_dec row) x \<and> reads (p_exit_fee_usd_dec row) fe
      \<and> reads (p_realized_gross_pnl_usd_dec row) gr \<and> reads (p_realized_net_pnl_usd_dec row) ne
      \<and> dval gr = dval x - 100 \<and> dval ne = dval gr - 1 / 4 - dval fe"
proof -
  obtain row s' where r: "apply_paper_exit_fill ''POS-1'' (Some ''0.60'') ''PAPER'' False (demo_store demo_open)
      = Inr (row, s')" using demo_exit_returns by blast
  have g: "get_position ''POS-1'' (demo_store demo_open) = Some demo_open"
    by (simp add: get_position_def demo_store_def)
  have "dval (Fin False 100 0) = 100" and "dval (Fin False 25 (-2)) = 1 / 4"
    by (simp_all add: signed_def power_int_def power2_eq_square)
  then show ?thesis using exit_fill_books_pnl [OF r g _ _ demo_exit_inputs] r by auto
qed

subsection \<open>The entry fill\<close>

lemma fee_of_finite: "fee_of x bps = Inr f \<Longrightarrow> dec_is_finite x \<Longrightarrow> dec_is_finite f"
  unfolding fee_of_def bindR_eq_Inr
  by (metis cents_value(1) dec_div_finite dec_mul_finite dec_of_int_facts(1) dec_is_finite.simps(1)
      dec_ten_thousand_def)

lemma positive_model_decimal_Inr:
  assumes "positive_model_decimal t code z = Inr x"
  shows "dec_of_string t = Inr x" and "dec_is_finite x" and "0 \<le> dval x" and "\<not> z \<Longrightarrow> 0 < dval x"
proof -
  have 1: "dec_of_string t = Inr x" and fin: "dec_is_finite x" and nn: "\<not> dec_less x dec_zero"
    and nz: "\<not> z \<Longrightarrow> \<not> dec_eq x dec_zero"
    using assms by (auto simp: positive_model_decimal_def split: sum.splits if_splits)
  have z: "dec_is_finite dec_zero" "dval dec_zero = 0" by (simp_all add: dec_zero_def signed_def)
  show "dec_of_string t = Inr x" and "dec_is_finite x" by (rule 1, rule fin)
  show "0 \<le> dval x" using nn dec_less_dval [OF fin z(1)] z(2) by simp
  then show "0 < dval x" if "\<not> z" using nz [OF that] dec_eq_dval [OF fin z(1)] z(2) by simp
qed

lemma entry_amounts_finite:
  assumes "entry_fill_amounts p price gross bps units sem = Inr a"
  shows "dec_of_string price = Inr (ea_price a)" and "dec_of_string gross = Inr (ea_notional a)"
    and "dec_is_finite (ea_price a)" and "dec_is_finite (ea_notional a)" and "dec_is_finite (ea_quantity a)"
    and "dec_is_finite (ea_entry_fee a)" and "0 < dval (ea_price a)" and "0 < dval (ea_notional a)"
    and "bound_entry_fee_bps p bps = Inr (ea_fee_bps a)"
    and "sem \<in> insert None (Some ` set FEE_SEMANTICS)"
proof -
  from assms obtain pr n b d q fe where pr: "dec_of_string price = Inr pr" and n: "dec_of_string gross = Inr n"
    and ok: "dec_is_finite pr" "dec_is_finite n" "dec_less dec_zero pr" "dec_less dec_zero n"
    and b: "bound_entry_fee_bps p bps = Inr b" and sem: "sem \<in> insert None (Some ` set FEE_SEMANTICS)"
    and d: "bindR (dec_div n pr) (dec_quantize (- 8)) = Inr d"
    and q: "(case units of None \<Rightarrow> Inr d
        | Some u \<Rightarrow> bindR (positive_model_decimal u ''MODELED_QUANTITY_INVALID'' False) (\<lambda>quantity.
            bindR (bindR (dec_mul pr quantity) cents) (\<lambda>x. bindR (cents n) (\<lambda>y.
              if dec_eq x y then Inr quantity
              else Inl (PaperPlaneError ''MODELED_ENTRY_QUANTITY_PRICE_CONFLICT''))))) = Inr q"
    and fe: "(if sem = Some ''INCLUDED_IN_UNIT_PRICE'' then Inr dec_zero else fee_of n b) = Inr fe"
    and a: "a = \<lparr>ea_price = pr, ea_notional = n, ea_fee_bps = b, ea_quantity = q, ea_entry_fee = fe\<rparr>"
    unfolding entry_fill_amounts_def bindR_eq_Inr if_Inl_eq_Inr by (metis (no_types, lifting) Inr_inject)
  have z: "dec_is_finite dec_zero" "dval dec_zero = 0" by (simp_all add: dec_zero_def signed_def)
  have "dec_is_finite d" using d ok dec_div_finite dec_quantize_value(1) unfolding bindR_eq_Inr by metis
  then have "dec_is_finite q" using q
    by (auto simp: bindR_eq_Inr dest: positive_model_decimal_Inr split: option.splits if_splits)
  moreover have "dec_is_finite fe" using fe ok z fee_of_finite by (auto split: if_splits)
  ultimately show "dec_of_string price = Inr (ea_price a)" and "dec_of_string gross = Inr (ea_notional a)"
    and "dec_is_finite (ea_price a)" and "dec_is_finite (ea_notional a)" and "dec_is_finite (ea_quantity a)"
    and "dec_is_finite (ea_entry_fee a)" and "0 < dval (ea_price a)" and "0 < dval (ea_notional a)"
    and "bound_entry_fee_bps p bps = Inr (ea_fee_bps a)" and "sem \<in> insert None (Some ` set FEE_SEMANTICS)"
    using pr n ok b sem dec_less_dval [OF z(1) ok(1)] dec_less_dval [OF z(1) ok(2)] z(2) by (simp_all add: a)
qed

text \<open>The row the first fill leaves.\<close>

lemma first_entry_row:
  assumes "first_entry_fill pid p a sem mode s = Inr (r', s')" and "get_position pid s = Some p"
    and "dec_is_finite (ea_notional a)"
  obtains r1 where "r' = set_remaining a sem (set_entry a r1)" and "row_advance p r1"
    and "get_position pid s' = Some r'" and "\<And>bid. get_bot bid s' = get_bot bid s"
    and "p_entry_fee_semantics r1 = p_entry_fee_semantics p"
    and "p_admitted_fee_bps r1 = p_admitted_fee_bps p"
    and "p_state p \<in> {ATTEMPTING, UNKNOWN} \<Longrightarrow> p_state r1 \<in> {OPEN, PARTIAL}"
    and "\<And>x. present (p_admitted_entry_notional_usd_dec p) \<Longrightarrow>
           dec_of_string (the (p_admitted_entry_notional_usd_dec p)) = Inr x \<Longrightarrow> dec_is_finite x \<Longrightarrow>
           dval (ea_notional a) \<le> dval x
           \<and> (p_state p \<in> {ATTEMPTING, UNKNOWN} \<longrightarrow> p_state r1 = (if dval (ea_notional a) < dval x then PARTIAL else OPEN))"
    and "\<not> present (p_admitted_entry_notional_usd_dec p) \<Longrightarrow> p_state p \<in> {ATTEMPTING, UNKNOWN} \<Longrightarrow> p_state r1 = OPEN"
    and "p_state p \<notin> {ATTEMPTING, UNKNOWN} \<Longrightarrow> p_state r1 = p_state p"
proof (rule first_entry_result [OF assms(1,2)])
  fix adm r1 s1 payload eid
  assume adm: "admitted_amount p = Inr adm" and over: "exceeds_admission adm (ea_notional a) = Inr False"
    and t: "(if p_state p \<in> {ATTEMPTING, UNKNOWN}
          then bindR (entry_state_after adm (ea_notional a)) (\<lambda>t. transition pid t s)
          else Inr (p, s)) = Inr (r1, s1)"
    and g1: "get_position pid s1 = Some r1" and adv: "store_advance s s1"
    and e: "append_execution_event (if mode = ''PAPER'' then ''PAPER_SIMULATION_OBSERVED'' else ''SHADOW_EXECUTABLE_OBSERVED'')
          (Some (p_bot r1)) (Some pid) payload None None
          (upd_position pid (set_remaining a sem) (upd_position pid (set_entry a) s1)) = Inr (eid, s')"
    and g: "get_position pid s' = Some r'"
  have "get_position pid (upd_position pid (set_entry a) s1) = Some (set_entry a r1)"
    by (rule get_after_upd) (simp_all add: set_entry_def g1)
  then have "get_position pid (upd_position pid (set_remaining a sem) (upd_position pid (set_entry a) s1))
      = Some (set_remaining a sem (set_entry a r1))"
    by (rule get_after_upd [rotated]) (simp add: set_remaining_def)
  then have row: "r' = set_remaining a sem (set_entry a r1)" using g e by simp
  have adv1: "row_advance p r1" using adv assms(2) g1 by (auto elim: store_advance_position)
  have st: "(if p_state p \<in> {ATTEMPTING, UNKNOWN} then entry_state_after adm (ea_notional a) = Inr (p_state r1)
      else p_state r1 = p_state p) \<and> st_bots s1 = st_bots s \<and> p_entry_fee_semantics r1 = p_entry_fee_semantics p
      \<and> p_admitted_fee_bps r1 = p_admitted_fee_bps p"
  proof (cases "p_state p \<in> {ATTEMPTING, UNKNOWN}")
    case True
    then obtain u where u: "entry_state_after adm (ea_notional a) = Inr u" "transition pid u s = Inr (r1, s1)"
      using t by (auto simp: bindR_eq_Inr)
    from u(2) show ?thesis by (rule transition_result) (use True u(1) assms(2) in \<open>auto simp: set_state_def\<close>)
  next
    case False
    then show ?thesis using t by auto
  qed
  have bots: "get_bot bid s' = get_bot bid s" for bid
    using st append_event_result(2) [OF e] by (simp add: get_bot_def)
  have adm_val: "dval (ea_notional a) \<le> dval x
      \<and> (p_state p \<in> {ATTEMPTING, UNKNOWN} \<longrightarrow> p_state r1 = (if dval (ea_notional a) < dval x then PARTIAL else OPEN))"
    if "present (p_admitted_entry_notional_usd_dec p)"
      and "dec_of_string (the (p_admitted_entry_notional_usd_dec p)) = Inr x" and "dec_is_finite x" for x
  proof -
    have "adm = Some x" using adm that by (simp add: admitted_amount_def)
    then show ?thesis using over st that(3) assms(3)
      by (auto simp: exceeds_admission_def entry_state_after_def dec_lt_dval split: if_splits)
  qed
  have no_adm: "p_state r1 = OPEN"
    if "\<not> present (p_admitted_entry_notional_usd_dec p)" and "p_state p \<in> {ATTEMPTING, UNKNOWN}"
    using adm st that by (auto simp: admitted_amount_def entry_state_after_def)
  have same: "p_state r1 = p_state p" if "p_state p \<notin> {ATTEMPTING, UNKNOWN}" using st that by simp
  have moved: "p_state r1 \<in> {OPEN, PARTIAL}" if "p_state p \<in> {ATTEMPTING, UNKNOWN}"
    using st that by (auto simp: entry_state_after_def bindR_eq_Inr split: option.splits if_splits)
  show thesis using that row adv1 g bots st adm_val no_adm same moved by blast
qed

end
