(* ===== verification/PaperEntry.thy ===== *)
theory PaperEntry
  imports PaperLedger
begin

section \<open>Properties of the entry fill\<close>

text \<open>
  A fill never exceeds what was admitted, a smaller one leaves the position PARTIAL, and sending
  the same fill again answers the same row and writes nothing.
\<close>

definition demo_fill :: entry_fill where
  "demo_fill = \<lparr>ef_unit_price = ''0.50'', ef_gross_notional = ''80'', ef_fee_bps = Some 25, ef_mode = ''PAPER'',
     ef_reconcile_pending_close = False, ef_quantity_units = None, ef_fee_semantics = Some ''SEPARATE_MODELED_FEE''\<rparr>"

definition demo_attempting :: position where
  "demo_attempting = (blank_position ''POS-1'' ''BOT-1'' ''Mint'' ''SIMULATED_FILL'' ''2026-01-01T00:00:00Z'')
     \<lparr>p_state := ATTEMPTING, p_admitted_entry_notional_usd_dec := Some ''100'', p_admitted_fee_bps := Some 25\<rparr>"

lemma demo_attempting_fields [simp]:
  "p_id demo_attempting = ''POS-1''" "p_bot demo_attempting = ''BOT-1''" "p_state demo_attempting = ATTEMPTING"
  "p_entry_price_dec demo_attempting = None" "p_admitted_entry_notional_usd_dec demo_attempting = Some ''100''"
  "p_admitted_fee_bps demo_attempting = Some 25" "p_entry_fee_semantics demo_attempting = None"
  by (simp_all add: demo_attempting_def blank_position_def)

lemma demo_fill_fields [simp]:
  "ef_unit_price demo_fill = ''0.50''" "ef_gross_notional demo_fill = ''80''" "ef_fee_bps demo_fill = Some 25"
  "ef_mode demo_fill = ''PAPER''" "\<not> ef_reconcile_pending_close demo_fill" "ef_quantity_units demo_fill = None"
  "ef_fee_semantics demo_fill = Some ''SEPARATE_MODELED_FEE''"
  by (simp_all add: demo_fill_def)

lemma demo_entry_amounts:
  "entry_fill_amounts demo_attempting ''0.50'' ''80'' (Some 25) None (Some ''SEPARATE_MODELED_FEE'') =
     Inr \<lparr>ea_price = Fin False 50 (-2), ea_notional = Fin False 80 0, ea_fee_bps = 25,
          ea_quantity = Fin False 16000000000 (-8), ea_entry_fee = Fin False 20 (-2)\<rparr>"
  by (simp add: entry_fill_amounts_def bound_entry_fee_bps_def FEE_SEMANTICS_def dec_eval)

lemma demo_entry_returns:
  "\<exists>r s'. apply_paper_entry_fill ''POS-1'' demo_fill (demo_store demo_attempting) = Inr (r, s')"
  by (simp add: apply_paper_entry_fill_def first_entry_fill_def entry_fill_state_ok_def demo_entry_amounts
      admitted_amount_def exceeds_admission_def entry_state_after_def set_entry_def set_remaining_def
      store_eval demo_store_def demo_bot_def dec_eval del: dict_with_simps)

text \<open>C4: a first entry fill books the amounts it computed (price, quantity, fee, notional, each read
  back exactly), never more than the admitted notional, and moves an attempted position to PARTIAL
  when the fill is smaller than what was admitted and to OPEN otherwise.\<close>

theorem entry_fill_within_admission:
  assumes "apply_paper_entry_fill pid f s = Inr (row, s')"
    and "get_position pid s = Some p" and "\<not> present (p_entry_price_dec p)"
    and "reads (p_admitted_entry_notional_usd_dec p) adm"
  shows "\<exists>price n. dec_of_string (ef_unit_price f) = Inr price \<and> dec_of_string (ef_gross_notional f) = Inr n
      \<and> 0 < dval price \<and> 0 < dval n \<and> dval n \<le> dval adm
      \<and> (\<exists>x. reads (p_entry_price_dec row) x \<and> dval x = dval price)
      \<and> (\<exists>x. reads (p_entered_notional_usd_dec row) x \<and> dval x = dval n)
      \<and> (\<exists>x. reads (p_qty_dec row) x) \<and> (\<exists>x. reads (p_entry_fee_usd_dec row) x)
      \<and> get_position pid s' = Some row
      \<and> (p_state p \<in> {ATTEMPTING, UNKNOWN} \<longrightarrow> p_state row = (if dval n < dval adm then PARTIAL else OPEN))
      \<and> (p_state p \<notin> {ATTEMPTING, UNKNOWN} \<longrightarrow> p_state row = p_state p)"
proof (rule entry_fill_result [OF assms(1)])
  fix position a bt
  assume g: "get_position pid s = Some position"
    and am: "entry_fill_amounts position (ef_unit_price f) (ef_gross_notional f) (ef_fee_bps f)
           (ef_quantity_units f) (ef_fee_semantics f) = Inr a"
    and way: "if present (p_entry_price_dec position)
         then replay_entry_fill pid position bt a (ef_fee_semantics f) s = Inr (row, s')
         else first_entry_fill pid position a (ef_fee_semantics f) (ef_mode f) s = Inr (row, s')"
  have p: "position = p" using g assms(2) by simp
  note fin = entry_amounts_finite [OF am]
  have adm: "present (p_admitted_entry_notional_usd_dec p)"
      "dec_of_string (the (p_admitted_entry_notional_usd_dec p)) = Inr adm" "dec_is_finite adm"
    using assms(4) reads_present reads_the by blast+
  have "first_entry_fill pid p a (ef_fee_semantics f) (ef_mode f) s = Inr (row, s')"
    using way p assms(3) by simp
  then obtain r1 where row: "row = set_remaining a (ef_fee_semantics f) (set_entry a r1)"
    and g': "get_position pid s' = Some row"
    and st: "dval (ea_notional a) \<le> dval adm
      \<and> (p_state p \<in> {ATTEMPTING, UNKNOWN} \<longrightarrow> p_state r1 = (if dval (ea_notional a) < dval adm then PARTIAL else OPEN))"
    and same: "p_state p \<notin> {ATTEMPTING, UNKNOWN} \<Longrightarrow> p_state r1 = p_state p"
    using assms(2) fin(4) adm by (elim first_entry_row) auto
  have cols: "p_entry_price_dec row = Some (dec_text (ea_price a))" "p_qty_dec row = Some (dec_text (ea_quantity a))"
    "p_entry_fee_usd_dec row = Some (dec_text (ea_entry_fee a))"
    "p_entered_notional_usd_dec row = Some (dec_text (ea_notional a))" "p_state row = p_state r1"
    by (simp_all add: row set_remaining_def set_entry_def)
  show ?thesis
    using fin st same g' cols reads_dec_text [OF fin(3)] reads_dec_text [OF fin(4)] reads_dec_text [OF fin(5)]
      reads_dec_text [OF fin(6)] by (auto simp: dval_dec_plain)
qed

lemma entry_fill_within_admission_witness:
  "\<exists>row s'. apply_paper_entry_fill ''POS-1'' demo_fill (demo_store demo_attempting) = Inr (row, s')
     \<and> p_state row = PARTIAL \<and> get_position ''POS-1'' s' = Some row"
proof -
  obtain row s' where r: "apply_paper_entry_fill ''POS-1'' demo_fill (demo_store demo_attempting) = Inr (row, s')"
    using demo_entry_returns by blast
  have g: "get_position ''POS-1'' (demo_store demo_attempting) = Some demo_attempting"
    by (simp add: get_position_def demo_store_def)
  have "reads (p_admitted_entry_notional_usd_dec demo_attempting) (Fin False 100 0)"
    by (simp add: reads_def dec_eval)
  from entry_fill_within_admission [OF r g _ this] r show ?thesis
    by (auto simp: dec_eval)
qed

subsection \<open>The same fill once more\<close>

lemma column_same:
  assumes "dec_is_finite x"
  shows "column_differs (Some (dec_text x)) x = Inr False"
  using assms dec_eq_dval [of "dec_plain x" x]
  by (simp add: column_differs_def str_or_None_def dec_text_fin dec_plain_finite dval_dec_plain)

lemma entry_amounts_admitted_fee:
  "p_admitted_fee_bps p' = p_admitted_fee_bps p \<Longrightarrow>
     entry_fill_amounts p' price gross bps units sem = entry_fill_amounts p price gross bps units sem"
  unfolding entry_fill_amounts_def bound_entry_fee_bps_def by (simp only:)

text \<open>An entry fill is idempotent: when a position without an entry was filled, the same request
  returns the row already booked and leaves the whole store as it is, events included.\<close>

theorem entry_fill_idempotent:
  assumes "apply_paper_entry_fill pid f s = Inr (row, s1)"
    and "get_position pid s = Some p" and "\<not> present (p_entry_price_dec p)"
    and "p_state p \<noteq> EXIT_REQUIRED"
    and "p_entry_fee_semantics p = None \<or> ef_fee_semantics f \<noteq> None"
  shows "apply_paper_entry_fill pid f s1 = Inr (row, s1)"
proof (rule entry_fill_result [OF assms(1)])
  fix position a bt
  assume g: "get_position pid s = Some position" and ro: "\<not> st_readonly s"
    and mode: "ef_mode f \<in> {''PAPER'', ''SHADOW''}"
    and ok: "entry_fill_state_ok position (ef_reconcile_pending_close f)"
    and am: "entry_fill_amounts position (ef_unit_price f) (ef_gross_notional f) (ef_fee_bps f)
           (ef_quantity_units f) (ef_fee_semantics f) = Inr a"
    and bt: "get_bot (p_bot position) s = Some bt" "b_mode bt = ef_mode f"
    and way: "if present (p_entry_price_dec position)
         then replay_entry_fill pid position bt a (ef_fee_semantics f) s = Inr (row, s1)
         else first_entry_fill pid position a (ef_fee_semantics f) (ef_mode f) s = Inr (row, s1)"
  have p: "position = p" using g assms(2) by simp
  note fin = entry_amounts_finite [OF am]
  have first: "first_entry_fill pid p a (ef_fee_semantics f) (ef_mode f) s = Inr (row, s1)"
    using way p assms(3) by simp
  obtain r1 where row: "row = set_remaining a (ef_fee_semantics f) (set_entry a r1)"
    and adv: "row_advance p r1" and g1: "get_position pid s1 = Some row"
    and bots: "\<And>bid. get_bot bid s1 = get_bot bid s"
    and sem: "p_entry_fee_semantics r1 = p_entry_fee_semantics p"
    and fee: "p_admitted_fee_bps r1 = p_admitted_fee_bps p"
    and st: "p_state p \<in> {ATTEMPTING, UNKNOWN} \<Longrightarrow> p_state r1 \<in> {OPEN, PARTIAL}"
      "p_state p \<notin> {ATTEMPTING, UNKNOWN} \<Longrightarrow> p_state r1 = p_state p"
    by (rule first_entry_row [OF first assms(2) fin(4)]) blast
  have cols: "p_entry_price_dec row = Some (dec_text (ea_price a))" "p_qty_dec row = Some (dec_text (ea_quantity a))"
    "p_entry_fee_usd_dec row = Some (dec_text (ea_entry_fee a))" "p_fee_bps row = Some (ea_fee_bps a)"
    "p_entered_notional_usd_dec row = Some (dec_text (ea_notional a))" "p_state row = p_state r1"
    "p_bot row = p_bot r1" "p_admitted_fee_bps row = p_admitted_fee_bps r1"
    "p_entry_fee_semantics row = ef_fee_semantics f"
    using sem assms(5) by (auto simp: row set_remaining_def set_entry_def)
  have ok1: "entry_fill_state_ok row (ef_reconcile_pending_close f)"
    using ok st assms(4) cols(6) by (auto simp: entry_fill_state_ok_def p)
  have am1: "entry_fill_amounts row (ef_unit_price f) (ef_gross_notional f) (ef_fee_bps f)
           (ef_quantity_units f) (ef_fee_semantics f) = Inr a"
    using am entry_amounts_admitted_fee [of row p] cols(8) fee by (simp add: p)
  have bt1: "get_bot (p_bot row) s1 = Some bt"
    using bt(1) bots adv cols(7) by (simp add: p row_advance_def same_identity_def)
  have content: "entry_fill_content row a (ef_fee_semantics f) = Inr ()"
    by (simp add: entry_fill_content_def cols column_same fin)
  have replay: "replay_entry_fill pid row bt a (ef_fee_semantics f) s1 = Inr (row, s1)"
    by (simp add: replay_entry_fill_def content cols)
  have "\<not> st_readonly s1"
    using ro store_advance_readonly [OF entry_fill_advance [OF assms(1)]] by simp
  then show ?thesis
    using mode g1 ok1 am1 bt1 bt(2) replay
    by (simp add: apply_paper_entry_fill_def immediate_write_def cols)
qed

lemma entry_fill_idempotent_witness:
  "\<exists>row s1. apply_paper_entry_fill ''POS-1'' demo_fill (demo_store demo_attempting) = Inr (row, s1)
     \<and> apply_paper_entry_fill ''POS-1'' demo_fill s1 = Inr (row, s1)"
proof -
  obtain row s1 where r: "apply_paper_entry_fill ''POS-1'' demo_fill (demo_store demo_attempting) = Inr (row, s1)"
    using demo_entry_returns by blast
  have g: "get_position ''POS-1'' (demo_store demo_attempting) = Some demo_attempting"
    by (simp add: get_position_def demo_store_def)
  show ?thesis using r entry_fill_idempotent [OF r g] by simp
qed

end
