(* ===== verification/PaperLegs.thy ===== *)
theory PaperLegs
  imports PaperLedger
begin

section \<open>Properties of a quantity leg\<close>

text \<open>
  A leg conserves quantity, its ledger adds up to the cent, the last leg reconciles the position,
  and a leg id seen before is answered without writing anything.
\<close>

lemma leg_of_text_values:
  assumes "leg_of_text sold rem price sem = Inr l"
  shows "dec_of_string sold = Inr (l_sold l)" and "dec_of_string rem = Inr (l_remaining l)"
    and "dec_of_string price = Inr (l_price l)" and "l_semantics l = sem" and "sem \<in> set FEE_SEMANTICS"
    and "dec_is_finite (l_sold l)" and "dec_is_finite (l_remaining l)" and "dec_is_finite (l_price l)"
    and "0 < dval (l_sold l)" and "0 \<le> dval (l_remaining l)" and "0 < dval (l_price l)"
  using assms unfolding leg_of_text_def bindR_eq_Inr if_Inl_eq_Inr
  by (auto dest: positive_model_decimal_Inr)

definition prior_quantity :: "position \<Rightarrow> string option" where
  "prior_quantity p = remaining_or (p_remaining_qty_dec p) (p_qty_dec p)"

lemma leg_quantity_conserved:
  assumes "leg_quantity p l = Inr original" and "reads (prior_quantity p) prior"
    and "dec_is_finite (l_sold l)" and "dec_is_finite (l_remaining l)"
    and "- 8 \<le> dexp (l_sold l)" and "- 8 \<le> dexp (l_remaining l)"
    and "\<bar>dval (l_sold l) + dval (l_remaining l)\<bar> < 10 ^ 20"
  shows "dval (l_sold l) + dval (l_remaining l) = dval prior"
    and "dec_of_string (str_or_None (p_qty_dec p)) = Inr original" and "dec_is_finite original" and "0 < dval original"
proof -
  from assms(1) obtain pq over where o: "positive_model_decimal (str_or_None (p_qty_dec p)) ''EXIT_FILL_REQUIRES_ENTRY'' False
        = Inr original"
    and pq: "(case p_remaining_qty_dec p of None \<Rightarrow> Inr original
            | Some t \<Rightarrow> positive_model_decimal t ''MODELED_QUANTITY_INVALID'' False) = Inr pq"
    and lt: "dec_lt pq (l_sold l) = Inr over"
    and same: "\<exists>both. dec_add (l_sold l) (l_remaining l) = Inr both \<and> py_dec_eq both pq = Inr True"
    unfolding leg_quantity_def by (auto simp: bindR_eq_Inr split: if_splits)
  have fq: "dec_is_finite pq"
    using pq positive_model_decimal_Inr(2) o by (auto split: option.splits)
  have "pq = prior"
    using pq o assms(2) positive_model_decimal_Inr(1)
    by (auto simp: prior_quantity_def remaining_or_def reads_def str_or_None_def split: option.splits)
  moreover obtain z where z: "dec_add (l_sold l) (l_remaining l) = Inr z" "dec_is_finite z"
      "dval z = dval (l_sold l) + dval (l_remaining l)"
    using dec_add_exact [of "l_sold l" "l_remaining l" 8] assms(3-7) by auto
  ultimately show "dval (l_sold l) + dval (l_remaining l) = dval prior"
    using same fq by (auto simp: dec_eq_dval)
  show "dec_of_string (str_or_None (p_qty_dec p)) = Inr original" and "dec_is_finite original" and "0 < dval original"
    using positive_model_decimal_Inr [OF o] by simp_all
qed

subsection \<open>The row a leg leaves\<close>

lemma book_leg_row:
  assumes "book_leg pid l mode observed_at leg_id p bt s = Inr (r', s')" and "get_position pid s = Some p"
  obtains original a where "leg_quantity p l = Inr original" and "leg_amounts_of p l original = Inr a"
    and "r' = set_leg l a mode observed_at p" and "get_position pid s' = Some r'"
    and "p_state p \<in> set LEG_STATES"
proof (rule book_leg_result [OF assms(1)])
  fix original a eid
  assume q: "leg_quantity p l = Inr original" and a: "leg_amounts_of p l original = Inr a"
    and e: "append_execution_event ''MODELED_EXIT_QUANTITY_LEG'' (Some (b_id bt)) (Some pid)
           (leg_event l a (leg_request l observed_at mode) (b_mode bt)) (Some leg_id) (Some observed_at)
           (upd_position pid (set_leg l a mode observed_at) s) = Inr (eid, s')"
    and g: "get_position pid s' = Some r'" and st: "p_state p \<in> set LEG_STATES"
  have "get_position pid (upd_position pid (set_leg l a mode observed_at) s) = Some (set_leg l a mode observed_at p)"
    by (rule get_after_upd) (simp_all add: set_leg_def Let_def assms(2))
  then have "r' = set_leg l a mode observed_at p" using e g by simp
  then show thesis using that q a g st by blast
qed

lemma is_zero_dval: "dec_is_finite x \<Longrightarrow> is_zero x \<longleftrightarrow> dval x = 0"
  using dec_eq_dval [of x dec_zero] by (simp add: is_zero_def dec_zero_def signed_def)

subsection \<open>A concrete leg\<close>

definition demo_holding :: position where
  "demo_holding = demo_open\<lparr>p_remaining_qty_dec := Some ''200'', p_remaining_cost_basis_usd_dec := Some ''100'',
     p_remaining_entry_fee_usd_dec := Some ''0.25''\<rparr>"

lemma demo_holding_fields [simp]:
  "p_id demo_holding = ''POS-1''" "p_bot demo_holding = ''BOT-1''" "p_state demo_holding = OPEN"
  "p_remaining_qty_dec demo_holding = Some ''200''" "p_qty_dec demo_holding = Some ''200.00000000''"
  "p_entered_notional_usd_dec demo_holding = Some ''100''" "p_entry_fee_usd_dec demo_holding = Some ''0.25''"
  "p_fee_bps demo_holding = Some 25" "p_remaining_entry_fee_usd_dec demo_holding = Some ''0.25''"
  "p_exit_notional_usd_dec demo_holding = None" "p_exit_fee_usd_dec demo_holding = None"
  "p_realized_gross_pnl_usd_dec demo_holding = None" "p_realized_net_pnl_usd_dec demo_holding = None"
  by (simp_all add: demo_holding_def demo_open_def blank_position_def)

lemma demo_leg_text: "leg_of_text ''50'' ''150'' ''0.60'' ''SEPARATE_MODELED_FEE'' =
    Inr \<lparr>l_sold = Fin False 50 0, l_remaining = Fin False 150 0, l_price = Fin False 60 (-2),
         l_semantics = ''SEPARATE_MODELED_FEE''\<rparr>"
  by (simp add: leg_of_text_def positive_model_decimal_def FEE_SEMANTICS_def dec_eval)

lemma demo_leg_quantity: "leg_quantity demo_holding \<lparr>l_sold = Fin False 50 0, l_remaining = Fin False 150 0,
     l_price = Fin False 60 (-2), l_semantics = ''SEPARATE_MODELED_FEE''\<rparr> = Inr (Fin False 20000000000 (-8))"
  by (simp add: leg_quantity_def positive_model_decimal_def str_or_None_def dec_eval)

lemma demo_leg_amounts: "returned (leg_amounts_of demo_holding \<lparr>l_sold = Fin False 50 0,
     l_remaining = Fin False 150 0, l_price = Fin False 60 (-2), l_semantics = ''SEPARATE_MODELED_FEE''\<rparr>
     (Fin False 20000000000 (-8)))"
  by (simp add: leg_amounts_of_def returned_def positive_model_decimal_def str_or_None_def text_or_def dec_eval)

lemma demo_leg_returns:
  "\<exists>r s'. apply_quantity_exit_fill ''POS-1'' ''PAPER'' ''50'' ''150'' ''0.60'' ''SEPARATE_MODELED_FEE''
     ''2026-01-02T00:00:00Z'' ''LEG-1'' (demo_store demo_holding) = Inr (r, s')"
proof -
  obtain a where "leg_amounts_of demo_holding \<lparr>l_sold = Fin False 50 0, l_remaining = Fin False 150 0,
     l_price = Fin False 60 (-2), l_semantics = ''SEPARATE_MODELED_FEE''\<rparr> (Fin False 20000000000 (-8)) = Inr a"
    using demo_leg_amounts by (auto simp: returned_iff)
  then show ?thesis
    by (simp add: apply_quantity_exit_fill_def demo_leg_text book_leg_def demo_leg_quantity demo_store_def demo_bot_def
        store_eval LEG_STATES_def set_leg_def Let_def del: dict_with_simps)
qed

end
