(* ===== verification/DecimalRounding.thy ===== *)
theory DecimalRounding
  imports PyDecimal
begin

section \<open>How far a rounded result is from the exact one\<close>

text \<open>
  Sums, products and quotients of finite decimals are rounded to 28 digits: lemmas that bound the error
  by a fraction of the exact result, for the shares that quantity legs and their fees are.
\<close>

lemma near_trans: "\<bar>a - b\<bar> \<le> d \<Longrightarrow> \<bar>b - c\<bar> \<le> e \<Longrightarrow> \<bar>a - c\<bar> \<le> d + (e :: rat)"
  by linarith

lemma two_roundings:
  fixes a b c :: rat
  assumes "a \<le> b + c" "c \<le> b / 10 ^ 27" "0 \<le> b"
  shows "a / 10 ^ 26 + b / 10 ^ 27 \<le> b / 10 ^ 25"
proof -
  have "a \<le> b + b / 10 ^ 27" using assms(1,2) by (rule order_trans [OF _ add_left_mono])
  then show ?thesis using assms(3) by (simp add: field_simps)
qed

lemma near_halves:
  fixes x c p m r :: int
  assumes "c = p + r"
  shows "x = p + m \<Longrightarrow> m \<le> 2 * r \<Longrightarrow> r < m \<Longrightarrow> \<bar>x - c\<bar> * 2 \<le> m"
    and "x = p \<Longrightarrow> 2 * r \<le> m \<Longrightarrow> 0 \<le> r \<Longrightarrow> \<bar>x - c\<bar> * 2 \<le> m"
  using assms by auto

lemma drop_half_even_near: "\<bar>int (drop_half_even c k * 10 ^ k) - int c\<bar> * 2 \<le> 10 ^ k"
proof -
  let ?m = "10 ^ k :: nat"
  have c: "int c = int (c div ?m) * int ?m + int (c mod ?m)"
    by (metis div_mult_mod_eq of_nat_add of_nat_mult)
  have r: "int (c mod ?m) < int ?m" by simp
  have up: "int ((c div ?m + 1) * ?m) = int (c div ?m) * int ?m + int ?m" by (simp add: algebra_simps)
  have m: "int ?m = 10 ^ k" by simp
  show ?thesis
  proof (cases "?m < 2 * (c mod ?m) \<or> (2 * (c mod ?m) = ?m \<and> odd (c div ?m))")
    case True
    then have "int ?m \<le> 2 * int (c mod ?m)" by linarith
    moreover have "drop_half_even c k = c div ?m + 1" using True by (simp add: drop_half_even_def Let_def)
    then have "int (drop_half_even c k * ?m) = int (c div ?m) * int ?m + int ?m" using up by simp
    ultimately show ?thesis using near_halves(1) [OF c _ _ r] m by simp
  next
    case False
    then have "2 * int (c mod ?m) \<le> int ?m" by linarith
    moreover have "drop_half_even c k = c div ?m" using False by (auto simp: drop_half_even_def Let_def)
    ultimately show ?thesis using c m by simp
  qed
qed

lemma dval_scaled: "\<bar>dval (Fin s c e) - dval (Fin s c' e)\<bar> = of_int \<bar>int c - int c'\<bar> * 10 powi e"
proof -
  have "dval (Fin s c e) - dval (Fin s c' e) = of_int (signed s c - signed s c') * 10 powi e"
    by (simp add: left_diff_distrib)
  then show ?thesis by (simp add: abs_mult signed_def abs_minus_commute)
qed

lemma fix_prec_near: "\<bar>dval (fix_prec s c e) - dval (Fin s c e)\<bar> \<le> \<bar>dval (Fin s c e)\<bar> / 10 ^ 27"
proof (cases "num_digits c \<le> dec_prec")
  case True
  then show ?thesis by (simp add: fix_prec_def)
next
  case False
  define k where "k = num_digits c - dec_prec"
  define c' where "c' = drop_half_even c k"
  have nd: "num_digits c = 28 + k" "0 < k" using False by (simp_all add: k_def dec_prec_def)
  have "10 \<le> c"
  proof (rule ccontr)
    assume "\<not> 10 \<le> c"
    then have "num_digits c = 1" by (subst num_digits.simps) simp
    then show False using False by (simp add: dec_prec_def)
  qed
  then have lo: "10 ^ (27 + k) \<le> c" using num_digits_lower [of c] by (simp add: nd(1))
  have hi: "c < 10 ^ (28 + k)" using num_digits_le [of "28 + k" c] nd by simp
  have val: "dval (fix_prec s c e) = dval (Fin s (c' * 10 ^ k) e)"
  proof (cases "dec_prec < num_digits c'")
    case True
    then have "\<not> c' < 10 ^ 28" using num_digits_le [of 28 c'] by (simp add: dec_prec_def)
    moreover have "c div 10 ^ k < 10 ^ 28" using hi by (simp add: less_mult_imp_div_less power_add)
    then have "c' \<le> 10 ^ 28" by (simp add: c'_def drop_half_even_def Let_def)
    ultimately have c': "c' = 10 ^ 28" by simp
    have "fix_prec s c e = Fin s (c' div 10) (e + int (Suc k))"
      using False True by (simp add: fix_prec_def Let_def k_def [symmetric] c'_def [symmetric] add.assoc)
    then show ?thesis
      using dval_scale [of e "e + int (Suc k)" s "c' div 10"] by (simp add: c' nat_add_distrib del: dval.simps)
  next
    case small: False
    have "fix_prec s c e = Fin s c' (e + int k)"
      using False small by (simp add: fix_prec_def Let_def k_def [symmetric] c'_def [symmetric])
    then show ?thesis using dval_scale [of e "e + int k" s c'] by (simp del: dval.simps)
  qed
  have "\<bar>int (c' * 10 ^ k) - int c\<bar> * 2 \<le> 10 ^ k" unfolding c'_def by (rule drop_half_even_near)
  moreover have "(10::int) ^ k * 10 ^ 27 \<le> int c"
    using lo by (simp add: power_add mult.commute) (metis of_nat_le_iff of_nat_mult of_nat_numeral of_nat_power)
  moreover have "\<bar>int (c' * 10 ^ k) - int c\<bar> * 10 ^ 27 \<le> 10 ^ k * 10 ^ 27"
    using order_trans [OF _ calculation(1), of "\<bar>int (c' * 10 ^ k) - int c\<bar>"] by (intro mult_right_mono) simp_all
  ultimately have "\<bar>int (c' * 10 ^ k) - int c\<bar> * 10 ^ 27 \<le> int c" by linarith
  then have "of_int (\<bar>int (c' * 10 ^ k) - int c\<bar> * 10 ^ 27) \<le> (of_int (int c) :: rat)" by (simp only: of_int_le_iff)
  then have "of_int \<bar>int (c' * 10 ^ k) - int c\<bar> \<le> (of_nat c :: rat) / 10 ^ 27" by (simp add: field_simps)
  then have "of_int \<bar>int (c' * 10 ^ k) - int c\<bar> * (10::rat) powi e \<le> of_nat c / 10 ^ 27 * 10 powi e"
    using ten_powi_pos [of e] by (intro mult_right_mono) auto
  then show ?thesis unfolding val dval_scaled abs_dval_Fin by simp
qed

lemma dec_add_near:
  assumes "dec_add x y = Inr z" and "dec_is_finite x" and "dec_is_finite y"
  shows "\<bar>dval z - (dval x + dval y)\<bar> \<le> \<bar>dval x + dval y\<bar> / 10 ^ 27"
proof -
  obtain s c e where x: "x = Fin s c e" using assms(2) by (rule dec_is_finite_cases)
  obtain s' c' e' where y: "y = Fin s' c' e'" using assms(3) by (rule dec_is_finite_cases)
  let ?e0 = "min e e'"
  define v where "v = scaled s c e ?e0 + scaled s' c' e' ?e0"
  have val: "of_int v * 10 powi ?e0 = dval x + dval y"
    by (simp add: v_def x y distrib_right scaled_dval del: dval.simps)
  have z: "z = fix_prec (if v = 0 then s \<and> s' else v < 0) (nat \<bar>v\<bar>) ?e0"
    using assms(1) unfolding x y v_def by (simp only: dec_add.simps Let_def sum.inject)
  have "dval (Fin (if v = 0 then s \<and> s' else v < 0) (nat \<bar>v\<bar>) ?e0) = dval x + dval y"
    using signed_nat_abs [of v] unfolding val [symmetric] by (cases "v = 0") (simp_all add: signed_def)
  then show ?thesis using fix_prec_near [of "if v = 0 then s \<and> s' else v < 0" "nat \<bar>v\<bar>" ?e0] unfolding z by simp
qed

lemma dec_sub_near:
  "dec_sub x y = Inr z \<Longrightarrow> dec_is_finite x \<Longrightarrow> dec_is_finite y
    \<Longrightarrow> \<bar>dval z - (dval x - dval y)\<bar> \<le> \<bar>dval x - dval y\<bar> / 10 ^ 27"
  using dec_add_near [of x "dec_neg y" z] by (simp add: dec_sub_def)

lemma dec_mul_near:
  assumes "dec_mul x y = Inr z" and "dec_is_finite x" and "dec_is_finite y"
  shows "\<bar>dval z - dval x * dval y\<bar> \<le> \<bar>dval x * dval y\<bar> / 10 ^ 27"
proof -
  obtain s c e where x: "x = Fin s c e" using assms(2) by (rule dec_is_finite_cases)
  obtain s' c' e' where y: "y = Fin s' c' e'" using assms(3) by (rule dec_is_finite_cases)
  have "(10::rat) powi (e + e') = 10 powi e * 10 powi e'" by (subst power_int_add) auto
  then have "dval (Fin (s \<noteq> s') (c * c') (e + e')) = dval x * dval y"
    by (cases s; cases s') (simp_all add: x y signed_def)
  then show ?thesis using assms(1) fix_prec_near [of "s \<noteq> s'" "c * c'" "e + e'"] by (simp add: x y del: dval.simps)
qed

text \<open>A quotient has at least 29 digits before it is rounded, the last one marked when a remainder is left.\<close>

lemma dec_div_near:
  assumes "dec_div x y = Inr z" and "dec_is_finite x" and "dec_is_finite y" and "dval y \<noteq> 0"
  shows "\<bar>dval z - dval x / dval y\<bar> \<le> \<bar>dval x / dval y\<bar> / 10 ^ 26"
proof -
  obtain s c e where x: "x = Fin s c e" using assms(2) by (rule dec_is_finite_cases)
  obtain s' c' e' where y: "y = Fin s' c' e'" using assms(3) by (rule dec_is_finite_cases)
  have c': "c' \<noteq> 0"
  proof
    assume "c' = 0"
    then have "dval y = 0" by (cases s') (simp_all add: y signed_def)
    then show False using assms(4) by simp
  qed
  show ?thesis
  proof (cases "c = 0")
    case True
    then have "z = Fin (s \<noteq> s') 0 (e - e')" using assms(1) c' by (auto simp: x y)
    then show ?thesis using True by (simp add: x signed_def)
  next
    case c: False
    define shift where "shift = int (num_digits c') - int (num_digits c) + int dec_prec + 1"
    define n where "n = (if 0 \<le> shift then c * 10 ^ nat shift else c)"
    define d where "d = (if 0 \<le> shift then c' else c' * 10 ^ nat (- shift))"
    define ex where "ex = e - e' - shift"
    define q where "q = n div d"
    define g where "g = (if s \<noteq> s' then - 1 else (1 :: rat))"
    have d0: "0 < d" using c' by (simp add: d_def)
    have ratio: "of_nat n / of_nat d = (of_nat c / of_nat c') * (10::rat) powi shift"
      using c' by (auto simp: n_def d_def power_int_def field_simps)
    have quot: "dval x / dval y = g * (of_nat n / of_nat d * 10 powi ex)"
    proof -
      have "dval x / dval y = g * (of_nat c / of_nat c') * (10 powi e / 10 powi e')"
        by (cases s; cases s') (simp_all add: x y g_def signed_def)
      also have "(10::rat) powi e / 10 powi e' = 10 powi shift * 10 powi ex"
        by (simp add: ex_def flip: power_int_diff power_int_add)
      finally show ?thesis using ratio by simp
    qed
    have big: "10 ^ 28 * d \<le> n"
    proof -
      have lo: "10 ^ (num_digits m - 1) \<le> m" if "m \<noteq> 0" for m :: nat
        using num_digits_lower [of m] that by (cases "10 \<le> m") (auto simp: num_digits.simps [of m])
      have hi: "c' \<le> 10 ^ num_digits c'" using num_digits_le [of "num_digits c'" c'] num_digits_pos by (simp add: less_imp_le)
      have dp: "0 < num_digits c" "0 < num_digits c'" by (rule num_digits_pos)+
      show ?thesis
      proof (cases "0 \<le> shift")
        case True
        have "28 + num_digits c' = num_digits c - 1 + nat shift" using True dp by (simp add: shift_def dec_prec_def)
        then have "(10::nat) ^ 28 * 10 ^ num_digits c' = 10 ^ (num_digits c - 1) * 10 ^ nat shift" by (metis power_add)
        also have "\<dots> \<le> c * 10 ^ nat shift" using lo [OF c] by simp
        finally have "(10::nat) ^ 28 * 10 ^ num_digits c' \<le> n" using True by (simp only: n_def if_True)
        moreover have "10 ^ 28 * d \<le> (10::nat) ^ 28 * 10 ^ num_digits c'" using hi True by (simp only: d_def if_True mult_le_mono2)
        ultimately show ?thesis by (rule le_trans [rotated])
      next
        case False
        have "28 + (num_digits c' + nat (- shift)) = num_digits c - 1"
          using False dp by (simp add: shift_def dec_prec_def)
        then have e: "(10::nat) ^ 28 * (10 ^ num_digits c' * 10 ^ nat (- shift)) = 10 ^ (num_digits c - 1)" by (metis power_add)
        have "10 ^ 28 * d \<le> (10::nat) ^ 28 * (10 ^ num_digits c' * 10 ^ nat (- shift))"
          using hi False by (simp only: d_def if_False mult_le_mono2 mult_le_mono1)
        also have "\<dots> \<le> c" unfolding e using lo [OF c] .
        finally show ?thesis using False by (simp only: n_def if_False)
      qed
    qed
    define r where "r = (of_nat n / of_nat d :: rat)"
    have "of_nat (10 ^ 28 * d) \<le> (of_nat n :: rat)" using big by (simp only: of_nat_le_iff)
    then have r28: "10 ^ 28 \<le> r" using d0 by (simp add: r_def field_simps)
    have qr: "of_nat q \<le> r" "r < of_nat q + 1" "n mod d = 0 \<Longrightarrow> of_nat q = r"
    proof -
      have "q * d \<le> n" "n < (q + 1) * d" using d0 by (simp_all add: q_def) (metis dividend_less_div_times mult.commute)
      then have "of_nat (q * d) \<le> (of_nat n :: rat)" "of_nat n < (of_nat ((q + 1) * d) :: rat)"
        by (simp_all only: of_nat_le_iff of_nat_less_iff)
      then show "of_nat q \<le> r" "r < of_nat q + 1" using d0 by (simp_all add: r_def field_simps)
      assume "n mod d = 0"
      then have "q * d = n" unfolding q_def by (metis add_0_right div_mult_mod_eq)
      then have "of_nat (q * d) = (of_nat n :: rat)" by simp
      then show "of_nat q = r" using d0 by (simp add: r_def field_simps)
    qed
    have sg: "dval (Fin (s \<noteq> s') m k) = g * (of_nat m * 10 powi k)" for m k
      by (simp add: g_def signed_def)
    have z: "z = dec_div_fin (s \<noteq> s') c e c' e'" using assms(1) c c' by (simp add: x y)
    obtain m k where m: "z = fix_prec (s \<noteq> s') m k" and w: "\<bar>of_nat m * 10 powi k - r * (10::rat) powi ex\<bar> \<le> 10 powi ex"
    proof (cases "n mod d \<noteq> 0")
      case True
      then have "z = fix_prec (s \<noteq> s') (if q mod 5 = 0 then q + 1 else q) ex"
        unfolding z dec_div_fin_def Let_def shift_def [symmetric] n_def [symmetric] d_def [symmetric]
          ex_def [symmetric] q_def [symmetric] by simp
      moreover have "\<bar>of_nat (if q mod 5 = 0 then q + 1 else q) - r\<bar> * 10 powi ex \<le> 1 * (10::rat) powi ex"
        using qr(1,2) ten_powi_pos [of ex] by (intro mult_right_mono) auto
      then have "\<bar>of_nat (if q mod 5 = 0 then q + 1 else q) * 10 powi ex - r * (10::rat) powi ex\<bar> \<le> 10 powi ex"
        by (simp only: left_diff_distrib [symmetric] abs_mult) simp
      ultimately show thesis by (rule that)
    next
      case False
      obtain q' ex' where st: "strip_zeros q ex (e - e') = (q', ex')" by fastforce
      then have "z = fix_prec (s \<noteq> s') q' ex'"
        unfolding z dec_div_fin_def Let_def shift_def [symmetric] n_def [symmetric] d_def [symmetric]
          ex_def [symmetric] q_def [symmetric] using False by simp
      moreover have "of_nat q' * 10 powi ex' = of_nat q * (10::rat) powi ex"
        using ten_powi_split [OF strip_zeros_spec(1) [OF st]] strip_zeros_spec(3) [OF st] by simp
      then have "\<bar>of_nat q' * 10 powi ex' - r * (10::rat) powi ex\<bar> \<le> 10 powi ex"
        using qr(3) False ten_powi_pos [of ex] by simp
      ultimately show thesis by (rule that)
    qed
    define v where "v = of_nat m * (10::rat) powi k"
    define t where "t = r * (10::rat) powi ex"
    have t: "10 ^ 28 * 10 powi ex \<le> t" using r28 ten_powi_pos [of ex] by (simp add: t_def)
    have t0: "0 < t" by (rule less_le_trans [OF _ t]) (simp add: ten_powi_pos)
    have vt: "\<bar>v - t\<bar> \<le> t / 10 ^ 28" using w t unfolding v_def [symmetric] t_def [symmetric] by (simp add: field_simps)
    have v0: "0 \<le> v" using ten_powi_pos [of k] by (simp add: v_def)
    have gg: "\<bar>g * a\<bar> = \<bar>a\<bar>" for a by (simp add: g_def)
    have "\<bar>dval z - g * v\<bar> \<le> v / 10 ^ 27"
      using fix_prec_near [of "s \<noteq> s'" m k] v0 unfolding m sg v_def [symmetric] gg by simp
    moreover have "\<bar>g * v - g * t\<bar> \<le> t / 10 ^ 28"
      using vt by (simp only: right_diff_distrib [symmetric] gg)
    moreover have "v \<le> t + t / 10 ^ 28" using vt by linarith
    moreover have "v / 10 ^ 27 + t / 10 ^ 28 \<le> t / 10 ^ 26" using calculation(3) t0 by (simp add: field_simps)
    ultimately have "\<bar>dval z - g * t\<bar> \<le> t / 10 ^ 26" using near_trans order_trans by blast
    moreover have "dval x / dval y = g * t" using quot by (simp add: t_def r_def)
    ultimately show ?thesis using t0 by (simp add: gg)
  qed
qed

text \<open>A share of an amount, \<open>amount * part / whole\<close>.\<close>

lemma share_near:
  assumes "bindR (dec_mul x part) (\<lambda>m. dec_div m whole) = Inr z"
    and "dec_is_finite x" and "dec_is_finite part" and "dec_is_finite whole" and "dval whole \<noteq> 0"
  shows "\<bar>dval z - dval x * dval part / dval whole\<bar> \<le> \<bar>dval x * dval part / dval whole\<bar> / 10 ^ 25"
proof -
  from assms(1) obtain m where m: "dec_mul x part = Inr m" and z: "dec_div m whole = Inr z"
    by (auto simp: bindR_eq_Inr)
  define v where "v = dval x * dval part / dval whole"
  define u where "u = dval m / dval whole"
  have "\<bar>dval m - dval x * dval part\<bar> / \<bar>dval whole\<bar> \<le> \<bar>dval x * dval part\<bar> / 10 ^ 27 / \<bar>dval whole\<bar>"
    using dec_mul_near [OF m assms(2,3)] by (intro divide_right_mono) auto
  then have "\<bar>u - v\<bar> \<le> \<bar>v\<bar> / 10 ^ 27"
    unfolding u_def v_def diff_divide_distrib [symmetric] abs_divide by (simp add: field_simps)
  moreover have "\<bar>dval z - u\<bar> \<le> \<bar>u\<bar> / 10 ^ 26"
    unfolding u_def by (rule dec_div_near [OF z dec_mul_finite [OF m assms(2,3)] assms(4,5)])
  moreover have "\<bar>u\<bar> / 10 ^ 26 + \<bar>v\<bar> / 10 ^ 27 \<le> \<bar>v\<bar> / 10 ^ 25"
    by (rule two_roundings [OF _ calculation(1)]) (use abs_triangle_ineq2 [of u v] in auto)
  ultimately have "\<bar>dval z - v\<bar> \<le> \<bar>v\<bar> / 10 ^ 25" using near_trans order_trans by blast
  then show ?thesis by (simp add: v_def)
qed

end
