(* ===== verification/PaperLegClaims.thy ===== *)
theory PaperLegClaims
  imports PaperLegs DecimalRounding
begin

section \<open>What an accepted quantity leg promises\<close>

text \<open>
  The amounts a leg computes, from inputs in the range where sums of cents are exact: conservation
  of quantity, the realized ledger, and the answer to a leg id seen before.
\<close>

definition leg_inputs :: "position \<Rightarrow> leg \<Rightarrow> decimal \<Rightarrow> decimal \<Rightarrow> decimal \<Rightarrow> decimal \<Rightarrow> decimal \<Rightarrow> bool" where
  "leg_inputs p l original n f pe pf =
     (reads (p_qty_dec p) original \<and> reads (p_entered_notional_usd_dec p) n \<and> reads (p_entry_fee_usd_dec p) f
      \<and> dec_of_string (text_or (p_exit_notional_usd_dec p) ''0'') = Inr pe \<and> dec_is_finite pe
      \<and> dec_of_string (text_or (p_exit_fee_usd_dec p) ''0'') = Inr pf \<and> dec_is_finite pf
      \<and> - 2 \<le> dexp f \<and> - 2 \<le> dexp pe \<and> - 2 \<le> dexp pf
      \<and> \<bar>dval n\<bar> < 10 ^ 8 \<and> \<bar>dval f\<bar> < 10 ^ 8 \<and> \<bar>dval pe\<bar> < 10 ^ 8 \<and> \<bar>dval pf\<bar> < 10 ^ 8
      \<and> - 20 \<le> dexp (l_price l) + dexp (l_sold l) \<and> \<bar>dval (l_price l) * dval (l_sold l)\<bar> < 10 ^ 8
      \<and> dval (l_remaining l) \<le> dval original
      \<and> (\<forall>bps. p_fee_bps p = Some bps \<longrightarrow> \<bar>bps\<bar> \<le> 10000))"

lemma dec_zero_facts [simp]: "dec_is_finite dec_zero" "dval dec_zero = 0" "dexp dec_zero = 0"
  by (simp_all add: dec_zero_def signed_def)

text \<open>The fee of a leg: zero when the price includes it, else the rate on the proceeds.\<close>

lemma leg_fee_value:
  assumes "(if sem = ''INCLUDED_IN_UNIT_PRICE'' then Inr dec_zero
      else case bps of None \<Rightarrow> Inl PyTypeError | Some b \<Rightarrow> fee_of g b) = Inr fe"
    and "dec_is_finite g" and "dexp g = - 2" and "\<bar>dval g\<bar> < 10 ^ 9"
    and "\<forall>b. bps = Some b \<longrightarrow> \<bar>b\<bar> \<le> 10000"
  shows "dec_is_finite fe \<and> - 2 \<le> dexp fe \<and> \<bar>dval fe\<bar> < 10 ^ 10"
proof (cases "sem = ''INCLUDED_IN_UNIT_PRICE''")
  case True
  then show ?thesis using assms(1) by auto
next
  case False
  then obtain b where b: "bps = Some b" "fee_of g b = Inr fe" using assms(1) by (auto split: option.splits)
  then have bb: "\<bar>of_int b\<bar> \<le> (10000 :: rat)" using assms(5) by (metis of_int_abs of_int_le_iff of_int_numeral)
  then have m: "\<bar>dval g * of_int b\<bar> \<le> 10 ^ 9 * 10000"
    unfolding abs_mult using assms(4) by (intro mult_mono) auto
  then have "\<bar>dval g * of_int b\<bar> < 10 powi (28 - 2)" by simp
  from fee_of_value [OF b(2) assms(2) _ this] assms(3)
  have "dec_is_finite fe" "dexp fe = - 2" "\<bar>dval fe - dval g * of_int b / 10000\<bar> \<le> 1 / 200" by simp_all
  moreover have "\<bar>dval g * of_int b / 10000\<bar> < 10 ^ 9 + 1" using m by simp
  ultimately have "dec_is_finite fe" "dexp fe = - 2" "\<bar>dval fe\<bar> < 10 ^ 9 + 1 + 1"
    using abs_near by blast+
  then show ?thesis by simp
qed

lemma dec_add_cents:
  assumes "dec_add x y = Inr z" and "dec_is_finite x" and "dec_is_finite y" and "- 2 \<le> dexp x" and "- 2 \<le> dexp y"
    and "\<bar>dval x\<bar> < 10 ^ 12" and "\<bar>dval y\<bar> < 10 ^ 12"
  shows "dec_is_finite z" and "dval z = dval x + dval y" and "- 2 \<le> dexp z"
proof -
  have "\<bar>dval x + dval y\<bar> < 10 powi (28 - 2)" using assms(6,7) by simp
  then obtain z' where "dec_add x y = Inr z'" "dec_is_finite z'" "dval z' = dval x + dval y"
    "dexp z' = min (dexp x) (dexp y)"
    using assms(2-5) by (elim dec_add_exact [rotated 4]) auto
  then show "dec_is_finite z" and "dval z = dval x + dval y" and "- 2 \<le> dexp z" using assms(1,4,5) by simp_all
qed

lemma dec_sub_cents:
  assumes "dec_sub x y = Inr z" and "dec_is_finite x" and "dec_is_finite y" and "- 2 \<le> dexp x" and "- 2 \<le> dexp y"
    and "\<bar>dval x\<bar> < 10 ^ 12" and "\<bar>dval y\<bar> < 10 ^ 12"
  shows "dec_is_finite z" and "dval z = dval x - dval y" and "- 2 \<le> dexp z"
  using dec_add_cents [of x "dec_neg y" z] assms by (simp_all add: dec_sub_def)

text \<open>A share of an amount, \<open>amount * part / whole\<close>, stays in proportion up to rounding.\<close>

lemma share_bound:
  assumes "bindR (dec_mul x part) (\<lambda>m. dec_div m whole) = Inr z"
    and "dec_is_finite x" and "dec_is_finite part" and "dec_is_finite whole"
    and "\<bar>dval part\<bar> \<le> c * dval whole" and "0 < dval whole" and "\<bar>dval x\<bar> < b" and "0 \<le> c"
  shows "dec_is_finite z" and "\<bar>dval z\<bar> \<le> 8 * c * b"
proof -
  from assms(1) obtain m where m: "dec_mul x part = Inr m" and z: "dec_div m whole = Inr z"
    by (auto simp: bindR_eq_Inr)
  have fm: "dec_is_finite m" using m assms(2,3) by (rule dec_mul_finite)
  show "dec_is_finite z" using z fm assms(4) by (rule dec_div_finite)
  have "\<bar>dval m\<bar> \<le> 2 * (\<bar>dval x\<bar> * \<bar>dval part\<bar>)" using dec_mul_le [OF m assms(2,3)] by (simp add: abs_mult)
  also have "\<dots> \<le> 2 * (b * (c * dval whole))"
    using assms(5,7) by (intro mult_left_mono mult_mono) auto
  finally have r: "\<bar>dval m\<bar> / dval whole \<le> 2 * (b * c)" using assms(6) by (simp add: field_simps)
  have "\<bar>dval z\<bar> \<le> 4 * (\<bar>dval m\<bar> / dval whole)"
    using dec_div_le [OF z fm assms(4)] assms(6) by simp
  also have "\<dots> \<le> 4 * (2 * (b * c))" using r by (intro mult_left_mono) simp_all
  finally show "\<bar>dval z\<bar> \<le> 8 * c * b" by (simp add: algebra_simps)
qed

text \<open>The steps of \<open>leg_amounts_of\<close>, on the entry amounts that the columns hold.\<close>

lemma leg_amounts_steps:
  assumes "leg_amounts_of p l original = Inr a" and "leg_inputs p l original n f pe pf"
  obtains g fe rc ac rel af0 af rf et ef d gr ne where
      "bindR (dec_mul (l_price l) (l_sold l)) cents = Inr g"
    and "(if l_semantics l = ''INCLUDED_IN_UNIT_PRICE'' then Inr dec_zero
            else case p_fee_bps p of None \<Rightarrow> Inl PyTypeError | Some bps \<Rightarrow> fee_of g bps) = Inr fe"
    and "bindR (dec_mul n (l_remaining l)) (\<lambda>x. dec_div x original) = Inr rc"
    and "dec_sub n rc = Inr ac" and "dec_sub original (l_remaining l) = Inr rel"
    and "bindR (dec_mul f rel) (\<lambda>x. dec_div x original) = Inr af0" and "cents af0 = Inr af"
    and "dec_sub f af = Inr rf" and "dec_add pe g = Inr et" and "dec_add pf fe = Inr ef"
    and "dec_sub et ac = Inr d" and "cents d = Inr gr"
    and "bindR (dec_sub gr af) (\<lambda>x. bindR (dec_sub x ef) cents) = Inr ne"
    and "la_exit_total a = et" "la_net a = ne" "la_gross a = gr" "la_remaining_fee a = rf" "la_exit_fee a = ef"
      "la_remaining_cost a = rc"
proof -
  note inp = assms(2) [unfolded leg_inputs_def]
  have n: "n' = n" if "positive_model_decimal (str_or_None (p_entered_notional_usd_dec p)) e b = Inr n'" for n' e b
    using that inp reads_str positive_model_decimal_Inr(1) by fastforce
  have f: "f' = f" if "positive_model_decimal (str_or_None (p_entry_fee_usd_dec p)) e b = Inr f'" for f' e b
    using that inp reads_str positive_model_decimal_Inr(1) by fastforce
  show thesis
    using assms(1) inp unfolding leg_amounts_of_def
    by (elim exE conjE bindR_eq_Inr [THEN iffD1, elim_format]) (auto dest!: n f intro: that)
qed

lemma leg_proceeds:
  assumes "bindR (dec_mul (l_price l) (l_sold l)) cents = Inr g" and "leg_inputs p l original n f pe pf"
    and "dec_is_finite (l_sold l)" and "dec_is_finite (l_price l)"
  shows "dec_is_finite g" and "dexp g = - 2" and "\<bar>dval g\<bar> < 10 ^ 9"
    and "\<bar>dval g - dval (l_price l) * dval (l_sold l)\<bar> \<le> 1 / 200"
proof -
  note inp = assms(2) [unfolded leg_inputs_def]
  obtain m where m: "dec_mul (l_price l) (l_sold l) = Inr m" "dec_is_finite m"
      "dval m = dval (l_price l) * dval (l_sold l)"
    using dec_mul_exact [of "l_price l" "l_sold l" 20] assms(3,4) inp by auto
  have "cents m = Inr g" using assms(1) m(1) by simp
  note gv = cents_value [OF this m(2)]
  then show "dec_is_finite g" and "dexp g = - 2" and near: "\<bar>dval g - dval (l_price l) * dval (l_sold l)\<bar> \<le> 1 / 200"
    using m(3) by simp_all
  have "\<bar>dval g\<bar> < 10 ^ 8 + 1" by (rule abs_near [OF near]) (use inp in blast)
  then show "\<bar>dval g\<bar> < 10 ^ 9" by simp
qed

lemma leg_amounts_value:
  assumes "leg_amounts_of p l original = Inr a" and "leg_inputs p l original n f pe pf"
    and "dec_is_finite (l_sold l)" and "dec_is_finite (l_remaining l)" and "dec_is_finite (l_price l)"
    and "0 \<le> dval (l_remaining l)" and "0 < dval original"
  shows "\<bar>dval (la_exit_total a) - dval pe - dval (l_price l) * dval (l_sold l)\<bar> \<le> 1 / 200"
    and "dval (la_net a) = dval (la_gross a) - (dval f - dval (la_remaining_fee a)) - dval (la_exit_fee a)"
    and "dec_is_finite (la_net a)" and "dec_is_finite (la_gross a)" and "dec_is_finite (la_remaining_fee a)"
    and "dec_is_finite (la_exit_fee a)" and "dec_is_finite (la_exit_total a)" and "dec_is_finite (la_remaining_cost a)"
    and "dexp (la_net a) = - 2" and "dexp (la_gross a) = - 2" and "- 2 \<le> dexp (la_remaining_fee a)"
    and "- 2 \<le> dexp (la_exit_fee a)" and "\<bar>dval (la_gross a)\<bar> < 10 ^ 12"
    and "\<bar>dval (la_remaining_fee a)\<bar> < 10 ^ 12" and "\<bar>dval (la_exit_fee a)\<bar> < 10 ^ 12"
proof -
  note inp = assms(2) [unfolded leg_inputs_def]
  have rd: "dec_is_finite original" "dec_is_finite n" "dec_is_finite f"
    using inp reads_the by blast+
  obtain g fe rc ac rel af0 af rf et ef d gr ne where
      g: "bindR (dec_mul (l_price l) (l_sold l)) cents = Inr g"
    and fe: "(if l_semantics l = ''INCLUDED_IN_UNIT_PRICE'' then Inr dec_zero
            else case p_fee_bps p of None \<Rightarrow> Inl PyTypeError | Some bps \<Rightarrow> fee_of g bps) = Inr fe"
    and rc: "bindR (dec_mul n (l_remaining l)) (\<lambda>x. dec_div x original) = Inr rc"
    and ac: "dec_sub n rc = Inr ac" and rel: "dec_sub original (l_remaining l) = Inr rel"
    and af0: "bindR (dec_mul f rel) (\<lambda>x. dec_div x original) = Inr af0" and afc: "cents af0 = Inr af"
    and rf: "dec_sub f af = Inr rf" and et: "dec_add pe g = Inr et" and ef: "dec_add pf fe = Inr ef"
    and d: "dec_sub et ac = Inr d" and grc: "cents d = Inr gr"
    and ne: "bindR (dec_sub gr af) (\<lambda>x. bindR (dec_sub x ef) cents) = Inr ne"
    and a: "la_exit_total a = et" "la_net a = ne" "la_gross a = gr" "la_remaining_fee a = rf" "la_exit_fee a = ef"
      "la_remaining_cost a = rc"
    by (rule leg_amounts_steps [OF assms(1,2)])
  note gv = leg_proceeds [OF g assms(2,3,5)] and gb = leg_proceeds(3) [OF g assms(2,3,5)]
  have fev: "dec_is_finite fe \<and> - 2 \<le> dexp fe \<and> \<bar>dval fe\<bar> < 10 ^ 10"
    by (rule leg_fee_value [OF fe gv(1,2) gb]) (use inp in blast)
  have rem: "\<bar>dval (l_remaining l)\<bar> \<le> 1 * dval original" using inp assms(6) by simp
  have rcv: "dec_is_finite rc" "\<bar>dval rc\<bar> \<le> 8 * 1 * 10 ^ 8"
    using share_bound [OF rc rd(2) assms(4) rd(1) rem assms(7), of "10 ^ 8"] inp by simp_all
  have acv: "dec_is_finite ac" using ac rd(2) rcv(1) by (rule dec_sub_finite)
  have "\<bar>dval n - dval rc\<bar> < 10 ^ 8 + 10 ^ 9" using inp rcv(2) by (intro abs_minus_less) simp_all
  then have acb: "\<bar>dval ac\<bar> < 10 ^ 10" using dec_sub_le [OF ac rd(2) rcv(1)] by simp
  have relv: "dec_is_finite rel" using rel rd(1) assms(4) by (rule dec_sub_finite)
  have "\<bar>dval rel\<bar> \<le> 2 * dval original"
    using dec_sub_le [OF rel rd(1) assms(4)] inp assms(6) by simp
  then have af0v: "dec_is_finite af0" "\<bar>dval af0\<bar> \<le> 8 * 2 * 10 ^ 8"
    using share_bound [OF af0 rd(3) relv rd(1) _ assms(7), of 2 "10 ^ 8"] inp by simp_all
  note afv = cents_value [OF afc af0v(1)]
  have "\<bar>dval af0\<bar> < 10 ^ 10" using af0v(2) by simp
  then have "\<bar>dval af\<bar> < 10 ^ 10 + 1" using afv(3) abs_near by blast
  then have afb: "\<bar>dval af\<bar> < 10 ^ 11" by simp
  have fb: "\<bar>dval f\<bar> < 10 ^ 12" "- 2 \<le> dexp f" using inp by simp_all
  note rfv = dec_sub_cents [OF rf rd(3) afv(1) fb(2) _ fb(1)]
  have etv: "dec_is_finite et" "dval et = dval pe + dval g" "- 2 \<le> dexp et"
    using dec_add_cents [OF et _ gv(1)] inp gv(2) gb by simp_all
  have efv: "dec_is_finite ef" "dval ef = dval pf + dval fe" "- 2 \<le> dexp ef"
    using dec_add_cents [OF ef] inp fev by simp_all
  have "\<bar>dval fe - (- dval pf)\<bar> < 10 ^ 10 + 10 ^ 8" using fev inp by (intro abs_minus_less) simp_all
  then have efb: "\<bar>dval ef\<bar> < 10 ^ 12" using efv(2) by (simp add: add.commute)
  have dfin: "dec_is_finite d" using d etv(1) acv by (rule dec_sub_finite)
  note grv = cents_value [OF grc dfin]
  have "\<bar>dval g - (- dval pe)\<bar> < 10 ^ 9 + 10 ^ 8" using gb inp by (intro abs_minus_less) simp_all
  then have "\<bar>dval et\<bar> < 10 ^ 10" using etv(2) by (simp add: add.commute)
  then have "\<bar>dval et - dval ac\<bar> < 10 ^ 10 + 10 ^ 10" using acb by (intro abs_minus_less) simp_all
  then have "\<bar>dval d\<bar> < 10 ^ 11" using dec_sub_le [OF d etv(1) acv] by simp
  then have "\<bar>dval gr\<bar> < 10 ^ 11 + 1" using grv(3) abs_near by blast
  then have grb: "\<bar>dval gr\<bar> < 10 ^ 12" by simp
  have nev: "dec_is_finite ne" "dexp ne = - 2" "dval ne = dval gr - dval af - dval ef"
    using cents_net [OF ne grv(1) afv(1) efv(1)] grv(2) afv(2) efv(3) grb afb efb by simp_all
  have rfv': "dec_is_finite rf" "dval rf = dval f - dval af" "- 2 \<le> dexp rf"
    using rfv afv(2) afb by simp_all
  have "\<bar>dval f - dval af\<bar> < 10 ^ 8 + 10 ^ 11" using inp afb by (intro abs_minus_less) simp_all
  then have rfb: "\<bar>dval rf\<bar> < 10 ^ 12" using rfv'(2) by simp
  show "\<bar>dval (la_exit_total a) - dval pe - dval (l_price l) * dval (l_sold l)\<bar> \<le> 1 / 200"
    using etv(2) gv(4) by (simp add: a)
  show "dval (la_net a) = dval (la_gross a) - (dval f - dval (la_remaining_fee a)) - dval (la_exit_fee a)"
    using nev(3) rfv'(2) by (simp add: a)
  show "dec_is_finite (la_net a)" and "dec_is_finite (la_gross a)" and "dec_is_finite (la_remaining_fee a)"
    and "dec_is_finite (la_exit_fee a)" and "dec_is_finite (la_exit_total a)" and "dec_is_finite (la_remaining_cost a)"
    and "dexp (la_net a) = - 2" and "dexp (la_gross a) = - 2" and "- 2 \<le> dexp (la_remaining_fee a)"
    and "- 2 \<le> dexp (la_exit_fee a)" and "\<bar>dval (la_gross a)\<bar> < 10 ^ 12"
    and "\<bar>dval (la_remaining_fee a)\<bar> < 10 ^ 12" and "\<bar>dval (la_exit_fee a)\<bar> < 10 ^ 12"
    using nev grv rfv' efv etv rcv grb rfb efb by (simp_all add: a)
qed

text \<open>The amounts as shares of the entry: what is left of the cost and what is released of the fee are in proportion
  to the quantity, to the rounding of 28 digits and of cents; the fee of a leg is its rate on the proceeds.\<close>

definition leg_rate :: "position \<Rightarrow> leg \<Rightarrow> rat" where
  "leg_rate p l = (if l_semantics l = ''INCLUDED_IN_UNIT_PRICE'' then 0
     else case p_fee_bps p of None \<Rightarrow> 0 | Some bps \<Rightarrow> of_int bps / 10000)"

lemma share_le:
  fixes x part whole :: rat
  assumes "0 \<le> part" "part \<le> whole" "0 < whole" "\<bar>x\<bar> < b"
  shows "\<bar>x * part / whole\<bar> \<le> b"
proof -
  have "\<bar>x\<bar> * (part / whole) \<le> b * 1" using assms by (intro mult_mono) auto
  then show ?thesis using assms by (simp add: abs_mult)
qed

lemma leg_fee_near:
  assumes "(if l_semantics l = ''INCLUDED_IN_UNIT_PRICE'' then Inr dec_zero
      else case p_fee_bps p of None \<Rightarrow> Inl PyTypeError | Some b \<Rightarrow> fee_of g b) = Inr fe"
    and "dec_is_finite g" and "dexp g = - 2" and "\<bar>dval g\<bar> < 10 ^ 9" and "\<bar>dval g - v\<bar> \<le> 1 / 200"
    and "\<forall>bps. p_fee_bps p = Some bps \<longrightarrow> \<bar>bps\<bar> \<le> 10000"
  shows "\<bar>dval fe - v * leg_rate p l\<bar> \<le> 1 / 100"
proof (cases "l_semantics l = ''INCLUDED_IN_UNIT_PRICE''")
  case True
  then show ?thesis using assms(1) by (auto simp: leg_rate_def)
next
  case False
  then obtain b where b: "p_fee_bps p = Some b" "fee_of g b = Inr fe" using assms(1) by (auto split: option.splits)
  then have bb: "\<bar>of_int b\<bar> \<le> (10000 :: rat)" using assms(6) by (metis of_int_abs of_int_le_iff of_int_numeral)
  then have m: "\<bar>dval g * of_int b\<bar> \<le> 10 ^ 9 * 10000"
    unfolding abs_mult using assms(4) by (intro mult_mono) auto
  then have "\<bar>dval g * of_int b\<bar> < 10 powi (28 - 2)" by simp
  from fee_of_value(3) [OF b(2) assms(2) _ this] assms(3)
  have "\<bar>dval fe - dval g * of_int b / 10000\<bar> \<le> 1 / 200" by simp
  moreover have "\<bar>(dval g - v) * (of_int b / 10000)\<bar> \<le> 1 / 200 * 1"
    unfolding abs_mult using assms(5) bb by (intro mult_mono) auto
  then have "\<bar>dval g * of_int b / 10000 - v * (of_int b / 10000)\<bar> \<le> 1 / 200"
    by (simp only: left_diff_distrib mult_1_right times_divide_eq_right diff_divide_distrib)
  ultimately have "\<bar>dval fe - v * (of_int b / 10000)\<bar> \<le> 1 / 200 + 1 / 200" by (rule near_trans)
  then show ?thesis using False b(1) by (simp add: leg_rate_def)
qed

lemma gross_near:
  fixes gr d et ac n rc x :: rat
  assumes "\<bar>gr - d\<bar> \<le> 1 / 200" "\<bar>d - (et - ac)\<bar> \<le> 1 / 10 ^ 14" "\<bar>ac - (n - rc)\<bar> \<le> 1 / 10 ^ 14" "\<bar>rc - x\<bar> \<le> 10 ^ 8 / 10 ^ 25"
  shows "\<bar>gr - (et - (n - x))\<bar> \<le> 1 / 200 + 1 / 10 ^ 12"
  using assms unfolding abs_le_iff by simp

lemma fee_near:
  fixes f rf af af0 x y :: rat
  assumes "\<bar>rf - (f - af)\<bar> \<le> 1 / 10 ^ 14" "\<bar>af - af0\<bar> \<le> 1 / 200" "\<bar>af0 - x\<bar> \<le> 1 / 10 ^ 14" "\<bar>x - y\<bar> \<le> 1 / 10 ^ 14"
  shows "\<bar>f - rf - y\<bar> \<le> 1 / 200 + 1 / 10 ^ 12"
  using assms unfolding abs_le_iff by simp

lemma released_fee_near:
  assumes rel: "dec_sub original rest = Inr rel" and af0: "bindR (dec_mul f rel) (\<lambda>x. dec_div x original) = Inr af0"
    and afc: "cents af0 = Inr af" and rf: "dec_sub f af = Inr rf"
    and rd: "dec_is_finite original" "dec_is_finite f" and fl: "dec_is_finite rest" and relf: "dec_is_finite rel"
    and part: "0 \<le> dval rest" "dval rest \<le> dval original" "0 \<le> dval original - dval rest"
      "dval original - dval rest \<le> dval original" "0 < dval original"
    and inp: "\<bar>dval f\<bar> < 10 ^ 8"
  shows "\<bar>dval f - dval rf - dval f * (dval original - dval rest) / dval original\<bar> \<le> 1 / 200 + 1 / 10 ^ 12"
proof -
  let ?o = "dval original" and ?r = "dval rest"
  have reln: "\<bar>dval rel - (?o - ?r)\<bar> \<le> (?o - ?r) / 10 ^ 27"
    using dec_sub_near [OF rel rd(1) fl] part(3) by simp
  have "\<bar>dval rel - (?o - ?r)\<bar> / ?o \<le> ?o / 10 ^ 27 / ?o"
    using reln part by (intro divide_right_mono) auto
  then have "\<bar>dval rel / ?o - (?o - ?r) / ?o\<bar> \<le> 1 / 10 ^ 27"
    using part(5) by (simp add: abs_divide flip: diff_divide_distrib)
  then have "\<bar>dval f\<bar> * \<bar>dval rel / ?o - (?o - ?r) / ?o\<bar> \<le> 10 ^ 8 * (1 / 10 ^ 27)"
    using inp by (intro mult_mono) auto
  then have xy: "\<bar>dval f * dval rel / ?o - dval f * (?o - ?r) / ?o\<bar> \<le> 1 / 10 ^ 18"
    unfolding abs_mult [symmetric] right_diff_distrib [of "dval f" "dval rel / ?o"] times_divide_eq_right
    by (rule order_trans) simp
  have y: "\<bar>dval f * (?o - ?r) / ?o\<bar> \<le> 10 ^ 8" by (rule share_le) (use part inp in simp_all)
  then have x: "\<bar>dval f * dval rel / ?o\<bar> \<le> 10 ^ 9" using order_trans [OF near_trans [OF xy, of 0 "10 ^ 8"]] by simp
  have afx: "\<bar>dval af0 - dval f * dval rel / ?o\<bar> \<le> 1 / 10 ^ 14"
  proof (rule order_trans [OF share_near [OF af0 rd(2) relf rd(1)]])
    show "?o \<noteq> 0" using part(5) by simp
    have "\<bar>dval f * dval rel / ?o\<bar> / 10 ^ 25 \<le> 10 ^ 9 / 10 ^ 25" using x by (rule divide_right_mono) simp
    then show "\<bar>dval f * dval rel / ?o\<bar> / 10 ^ 25 \<le> 1 / 10 ^ 14" by (rule order_trans) simp
  qed
  have af0f: "dec_is_finite af0"
    using af0 by (auto simp: bindR_eq_Inr intro: dec_div_finite [OF _ dec_mul_finite] rd relf)
  note afv = cents_value [OF afc af0f]
  have "\<bar>dval af0\<bar> \<le> 1 / 10 ^ 14 + 10 ^ 9" using near_trans [OF afx, of 0 "10 ^ 9"] x by simp
  then have "\<bar>dval af0\<bar> < 10 ^ 10" by (rule le_less_trans) simp
  then have "\<bar>dval af\<bar> < 10 ^ 10 + 1" using afv(3) abs_near by blast
  then have "\<bar>dval f - dval af\<bar> < 10 ^ 8 + (10 ^ 10 + 1)" using inp by (intro abs_minus_less) simp_all
  then have "\<bar>dval rf - (dval f - dval af)\<bar> \<le> 1 / 10 ^ 14"
    using order_trans [OF dec_sub_near [OF rf rd(2) afv(1)], of "1 / 10 ^ 14"] by simp
  then show "\<bar>dval f - dval rf - dval f * (?o - ?r) / ?o\<bar> \<le> 1 / 200 + 1 / 10 ^ 12"
    using afv(3) afx order_trans [OF xy, of "1 / 10 ^ 14"] by (intro fee_near) simp_all
qed

lemma leg_amounts_shares:
  assumes "leg_amounts_of p l original = Inr a" and "leg_inputs p l original n f pe pf"
    and "dec_is_finite (l_sold l)" and "dec_is_finite (l_remaining l)" and "dec_is_finite (l_price l)"
    and "0 \<le> dval (l_remaining l)" and "0 < dval original"
  shows "\<bar>dval (la_remaining_cost a) - dval n * dval (l_remaining l) / dval original\<bar> \<le> 1 / 10 ^ 12"
    and "\<bar>dval f - dval (la_remaining_fee a) - dval f * (dval original - dval (l_remaining l)) / dval original\<bar>
      \<le> 1 / 200 + 1 / 10 ^ 12"
    and "\<bar>dval (la_gross a) - (dval (la_exit_total a) - dval n * (dval original - dval (l_remaining l)) / dval original)\<bar>
      \<le> 1 / 200 + 1 / 10 ^ 12"
    and "\<bar>dval (la_exit_fee a) - dval pf - dval (l_price l) * dval (l_sold l) * leg_rate p l\<bar> \<le> 1 / 100"
proof -
  note inp = assms(2) [unfolded leg_inputs_def]
  have rd: "dec_is_finite original" "dec_is_finite n" "dec_is_finite f"
    using inp reads_the by blast+
  obtain g fe rc ac rel af0 af rf et ef d gr ne where
      g: "bindR (dec_mul (l_price l) (l_sold l)) cents = Inr g"
    and fe: "(if l_semantics l = ''INCLUDED_IN_UNIT_PRICE'' then Inr dec_zero
            else case p_fee_bps p of None \<Rightarrow> Inl PyTypeError | Some bps \<Rightarrow> fee_of g bps) = Inr fe"
    and rc: "bindR (dec_mul n (l_remaining l)) (\<lambda>x. dec_div x original) = Inr rc"
    and ac: "dec_sub n rc = Inr ac" and rel: "dec_sub original (l_remaining l) = Inr rel"
    and af0: "bindR (dec_mul f rel) (\<lambda>x. dec_div x original) = Inr af0" and afc: "cents af0 = Inr af"
    and rf: "dec_sub f af = Inr rf" and et: "dec_add pe g = Inr et" and ef: "dec_add pf fe = Inr ef"
    and d: "dec_sub et ac = Inr d" and grc: "cents d = Inr gr"
    and a: "la_exit_total a = et" "la_gross a = gr" "la_remaining_fee a = rf" "la_exit_fee a = ef"
      "la_remaining_cost a = rc"
    by (rule leg_amounts_steps [OF assms(1,2)])
  note gv = leg_proceeds [OF g assms(2,3,5)]
  let ?o = "dval original" and ?r = "dval (l_remaining l)"
  have part: "0 \<le> ?r" "?r \<le> ?o" "0 \<le> ?o - ?r" "?o - ?r \<le> ?o" "0 < ?o" using inp assms(6,7) by auto
  have fin_g: "dec_is_finite et" using et _ gv(1) by (rule dec_add_finite) (use inp in blast)
  have etb: "\<bar>dval et\<bar> < 10 ^ 10"
  proof -
    have "\<bar>dval pe + dval g\<bar> < 10 ^ 8 + 10 ^ 9" using inp gv(3) by linarith
    then show ?thesis using dec_add_le [OF et _ gv(1)] inp by simp
  qed
  have rcn: "\<bar>dval rc - dval n * ?r / ?o\<bar> \<le> 10 ^ 8 / 10 ^ 25" and nr: "\<bar>dval n * ?r / ?o\<bar> \<le> 10 ^ 8"
  proof -
    show b: "\<bar>dval n * ?r / ?o\<bar> \<le> 10 ^ 8" by (rule share_le) (use part inp in simp_all)
    show "\<bar>dval rc - dval n * ?r / ?o\<bar> \<le> 10 ^ 8 / 10 ^ 25"
      using share_near [OF rc rd(2) assms(4) rd(1)] part(5) b by (simp add: abs_divide)
  qed
  then show "\<bar>dval (la_remaining_cost a) - dval n * ?r / ?o\<bar> \<le> 1 / 10 ^ 12" by (simp add: a)
  have rcf: "dec_is_finite rc" using rc by (auto simp: bindR_eq_Inr intro: dec_div_finite [OF _ dec_mul_finite] rd assms(4))
  have acf: "dec_is_finite ac" using ac rd(2) rcf by (rule dec_sub_finite)
  have "\<bar>dval rc\<bar> \<le> 10 ^ 8 + 10 ^ 8 / 10 ^ 25" using rcn nr by linarith
  then have nrc: "\<bar>dval n - dval rc\<bar> < 10 ^ 8 + 10 ^ 9" using inp by (intro abs_minus_less) simp_all
  have acn: "\<bar>dval ac - (dval n - dval rc)\<bar> \<le> 1 / 10 ^ 14"
    using order_trans [OF dec_sub_near [OF ac rd(2) rcf], of "1 / 10 ^ 14"] nrc by simp
  have acb: "\<bar>dval ac\<bar> < 10 ^ 10"
    using dec_sub_le [OF ac rd(2) rcf] nrc by simp
  have "\<bar>dval et - dval ac\<bar> < 10 ^ 10 + 10 ^ 10" using etb acb by (rule abs_minus_less)
  then have dn: "\<bar>dval d - (dval et - dval ac)\<bar> \<le> 1 / 10 ^ 14"
    using order_trans [OF dec_sub_near [OF d fin_g acf], of "1 / 10 ^ 14"] by simp
  have "dval n * (?o - ?r) / ?o = dval n - dval n * ?r / ?o" using part(5) by (simp add: field_simps)
  then show "\<bar>dval (la_gross a) - (dval (la_exit_total a) - dval n * (?o - ?r) / ?o)\<bar> \<le> 1 / 200 + 1 / 10 ^ 12"
    using cents_value(3) [OF grc dec_sub_finite [OF d fin_g acf]] dn acn rcn
      gross_near [of "dval gr" "dval d" "dval et" "dval ac" "dval n" "dval rc" "dval n * ?r / ?o"] by (simp add: a)
  have relf: "dec_is_finite rel" using rel rd(1) assms(4) by (rule dec_sub_finite)
  show "\<bar>dval f - dval (la_remaining_fee a) - dval f * (?o - ?r) / ?o\<bar> \<le> 1 / 200 + 1 / 10 ^ 12"
    unfolding a by (rule released_fee_near [OF rel af0 afc rf rd(1,3) assms(4) relf part]) (use inp in simp)
  have "dec_is_finite fe \<and> - 2 \<le> dexp fe \<and> \<bar>dval fe\<bar> < 10 ^ 10"
    by (rule leg_fee_value [OF fe gv(1,2,3)]) (use inp in blast)
  then have "dval ef = dval pf + dval fe"
    using dec_add_cents(2) [OF ef] inp by simp
  then show "\<bar>dval (la_exit_fee a) - dval pf - dval (l_price l) * dval (l_sold l) * leg_rate p l\<bar> \<le> 1 / 100"
    using leg_fee_near [OF fe gv] inp by (simp add: a)
qed

subsection \<open>The properties\<close>

lemma new_leg:
  assumes "apply_quantity_exit_fill pid mode sold rem price sem observed_at leg_id s = Inr (row, s')"
    and "find_event leg_id s = None" and "get_position pid s = Some p"
  obtains l bt where "leg_of_text sold rem price sem = Inr l" and "get_bot (p_bot p) s = Some bt"
    and "b_mode bt = mode" and "\<not> st_readonly s" and "book_leg pid l mode observed_at leg_id p bt s = Inr (row, s')"
  using assms(1)
proof (rule quantity_exit_result)
  fix l position bt
  assume "leg_of_text sold rem price sem = Inr l" and "\<not> st_readonly s"
    and "get_position pid s = Some position" and "get_bot (p_bot position) s = Some bt" and "b_mode bt = mode"
    and "(\<exists>ev payload. find_event leg_id s = Some ev \<and> e_payload ev = Some (JObj payload) \<and> e_position ev = Some pid
            \<and> jget payload ''request'' = JObj (leg_request l observed_at mode) \<and> row = position \<and> s' = s)
         \<or> find_event leg_id s = None \<and> book_leg pid l mode observed_at leg_id position bt s = Inr (row, s')"
  then show thesis using that [of l bt] assms(2,3) by simp
qed

text \<open>C3: a new quantity leg conserves quantity: what is sold is positive and, with what remains, is
  exactly what remained before; the remainder is what the row then holds; the position is
  reconciled with its evidence class when nothing remains and owes an exit otherwise.\<close>

theorem leg_conserves_quantity:
  assumes "apply_quantity_exit_fill pid mode sold rem price sem observed_at leg_id s = Inr (row, s')"
    and "find_event leg_id s = None" and "get_position pid s = Some p"
    and "reads (prior_quantity p) prior"
    and "dec_of_string sold = Inr x" and "dec_of_string rem = Inr y"
    and "- 8 \<le> dexp x" and "- 8 \<le> dexp y" and "\<bar>dval x + dval y\<bar> < 10 ^ 20"
  shows "0 < dval x \<and> 0 \<le> dval y \<and> dval x + dval y = dval prior
    \<and> (\<exists>z. reads (p_remaining_qty_dec row) z \<and> dval z = dval y)
    \<and> p_state row = (if dval y = 0 then RECONCILED else EXIT_REQUIRED)
    \<and> p_pnl_evidence_class row = (if dval y = 0 then Some (evidence_class mode) else None)
    \<and> get_position pid s' = Some row"
  using assms(1-3)
proof (rule new_leg)
  fix l bt
  assume l: "leg_of_text sold rem price sem = Inr l"
    and b: "book_leg pid l mode observed_at leg_id p bt s = Inr (row, s')"
  note lv = leg_of_text_values [OF l]
  have xy: "x = l_sold l" "y = l_remaining l" using lv(1,2) assms(5,6) by simp_all
  from b assms(3) obtain original a where q: "leg_quantity p l = Inr original"
    and row: "row = set_leg l a mode observed_at p" and g: "get_position pid s' = Some row"
    by (rule book_leg_row)
  have "dval x + dval y = dval prior"
    using leg_quantity_conserved(1) [OF q assms(4) lv(6,7)] assms(7-9) by (simp add: xy)
  then show ?thesis
    using lv(9,10) g reads_dec_text [OF lv(7)] is_zero_dval [OF lv(7)]
    by (auto simp: xy row set_leg_def Let_def dval_dec_plain)
qed

lemma demo_leg_reads: "reads (prior_quantity demo_holding) (Fin False 200 0)"
  by (simp add: prior_quantity_def remaining_or_def reads_def dec_eval)

lemma demo_leg_new: "find_event ''LEG-1'' (demo_store demo_holding) = None"
  "get_position ''POS-1'' (demo_store demo_holding) = Some demo_holding"
  by (simp_all add: find_event_def get_position_def demo_store_def)

lemma leg_conserves_quantity_witness:
  "\<exists>row s'. apply_quantity_exit_fill ''POS-1'' ''PAPER'' ''50'' ''150'' ''0.60'' ''SEPARATE_MODELED_FEE''
     ''2026-01-02T00:00:00Z'' ''LEG-1'' (demo_store demo_holding) = Inr (row, s') \<and> p_state row = EXIT_REQUIRED"
proof -
  obtain row s' where r: "apply_quantity_exit_fill ''POS-1'' ''PAPER'' ''50'' ''150'' ''0.60'' ''SEPARATE_MODELED_FEE''
     ''2026-01-02T00:00:00Z'' ''LEG-1'' (demo_store demo_holding) = Inr (row, s')"
    using demo_leg_returns by blast
  have xy: "dec_of_string ''50'' = Inr (Fin False 50 0)" "dec_of_string ''150'' = Inr (Fin False 150 0)"
    by (simp_all add: dec_eval)
  have v: "dval (Fin False 50 0) = 50" "dval (Fin False 150 0) = 150" by (simp_all add: signed_def)
  show ?thesis
    using leg_conserves_quantity [OF r demo_leg_new demo_leg_reads xy] r v by auto
qed

lemma leg_original:
  assumes "leg_quantity p l = Inr o2" and "leg_inputs p l original n f pe pf"
  shows "o2 = original" and "0 < dval original"
proof -
  have o2: "positive_model_decimal (str_or_None (p_qty_dec p)) ''EXIT_FILL_REQUIRES_ENTRY'' False = Inr o2"
    using assms(1) unfolding leg_quantity_def by (auto simp: bindR_eq_Inr split: if_splits)
  have "reads (p_qty_dec p) original" using assms(2) by (simp add: leg_inputs_def)
  then show oo: "o2 = original" using positive_model_decimal_Inr(1) [OF o2] reads_str by force
  show "0 < dval original" using positive_model_decimal_Inr(4) [OF o2] oo by simp
qed

text \<open>C2: a leg books an exact ledger, read back from the stored columns, whatever was sold before. The exit
  proceeds grow by price times the quantity sold to half a cent, and the exit fees by the leg's rate on these
  proceeds to a cent, nothing when the price includes the fee. The cost that is left and the entry fee that is
  released are in proportion to the quantity that is left and the quantity that is sold, the cost to the
  rounding of 28 digits (less than \<open>1 / 10 ^ 12\<close> of a dollar) and the fee to half a cent and that. The realized
  gross is the exit proceeds less the cost of what is sold, to half a cent and that, and the realized net is
  exactly the gross less the entry fee released and the exit fees.\<close>

theorem leg_books_ledger:
  assumes "apply_quantity_exit_fill pid mode sold rem price sem observed_at leg_id s = Inr (row, s')"
    and "find_event leg_id s = None" and "get_position pid s = Some p"
    and "leg_of_text sold rem price sem = Inr l" and "leg_inputs p l original n f pe pf"
  shows "\<exists>et gr ne rc rf ef. reads (p_exit_notional_usd_dec row) et \<and> reads (p_realized_gross_pnl_usd_dec row) gr
      \<and> reads (p_realized_net_pnl_usd_dec row) ne \<and> reads (p_remaining_cost_basis_usd_dec row) rc
      \<and> reads (p_remaining_entry_fee_usd_dec row) rf \<and> reads (p_exit_fee_usd_dec row) ef
      \<and> \<bar>dval et - dval pe - dval (l_price l) * dval (l_sold l)\<bar> \<le> 1 / 200
      \<and> \<bar>dval ef - dval pf - dval (l_price l) * dval (l_sold l) * leg_rate p l\<bar> \<le> 1 / 100
      \<and> \<bar>dval rc - dval n * dval (l_remaining l) / dval original\<bar> \<le> 1 / 10 ^ 12
      \<and> \<bar>dval f - dval rf - dval f * (dval original - dval (l_remaining l)) / dval original\<bar> \<le> 1 / 200 + 1 / 10 ^ 12
      \<and> \<bar>dval gr - (dval et - dval n * (dval original - dval (l_remaining l)) / dval original)\<bar> \<le> 1 / 200 + 1 / 10 ^ 12
      \<and> dval ne = dval gr - (dval f - dval rf) - dval ef"
  using assms(1-3)
proof (rule new_leg)
  fix l' bt
  assume l': "leg_of_text sold rem price sem = Inr l'"
    and b: "book_leg pid l' mode observed_at leg_id p bt s = Inr (row, s')"
  have l: "l' = l" using l' assms(4) by simp
  note lv = leg_of_text_values [OF assms(4)]
  from b [unfolded l] assms(3) obtain o2 a where q: "leg_quantity p l = Inr o2"
    and am: "leg_amounts_of p l o2 = Inr a" and row: "row = set_leg l a mode observed_at p"
    by (rule book_leg_row)
  have oo: "o2 = original" and pos: "0 < dval original"
    using leg_original [OF q assms(5)] by simp_all
  note v = leg_amounts_value [OF am [unfolded oo] assms(5) lv(6,7,8,10) pos]
  note shares = leg_amounts_shares [OF am [unfolded oo] assms(5) lv(6,7,8,10) pos]
  have cols: "reads (p_exit_notional_usd_dec row) (dec_plain (la_exit_total a))"
    "reads (p_realized_gross_pnl_usd_dec row) (dec_plain (la_gross a))"
    "reads (p_realized_net_pnl_usd_dec row) (dec_plain (la_net a))"
    "reads (p_remaining_cost_basis_usd_dec row) (dec_plain (la_remaining_cost a))"
    "reads (p_remaining_entry_fee_usd_dec row) (dec_plain (la_remaining_fee a))"
    "reads (p_exit_fee_usd_dec row) (dec_plain (la_exit_fee a))"
    using v(3-8) by (simp_all add: row set_leg_def Let_def reads_dec_text)
  show ?thesis
    by (intro exI conjI; (rule cols)?) (use v(1,2) shares in \<open>simp_all only: dval_dec_plain\<close>)
qed

lemma leg_books_ledger_witness:
  "\<exists>row s' ne gr rc rf ef. apply_quantity_exit_fill ''POS-1'' ''PAPER'' ''50'' ''150'' ''0.60'' ''SEPARATE_MODELED_FEE''
     ''2026-01-02T00:00:00Z'' ''LEG-1'' (demo_store demo_holding) = Inr (row, s')
     \<and> reads (p_realized_net_pnl_usd_dec row) ne \<and> dval ne = dval gr - (1 / 4 - dval rf) - dval ef
     \<and> reads (p_remaining_cost_basis_usd_dec row) rc \<and> \<bar>dval rc - 75\<bar> \<le> 1 / 10 ^ 12"
proof -
  obtain row s' where r: "apply_quantity_exit_fill ''POS-1'' ''PAPER'' ''50'' ''150'' ''0.60'' ''SEPARATE_MODELED_FEE''
     ''2026-01-02T00:00:00Z'' ''LEG-1'' (demo_store demo_holding) = Inr (row, s')"
    using demo_leg_returns by blast
  have inp: "leg_inputs demo_holding \<lparr>l_sold = Fin False 50 0, l_remaining = Fin False 150 0,
       l_price = Fin False 60 (-2), l_semantics = ''SEPARATE_MODELED_FEE''\<rparr>
     (Fin False 20000000000 (-8)) (Fin False 100 0) (Fin False 25 (-2)) (Fin False 0 0) (Fin False 0 0)"
    by (simp add: leg_inputs_def reads_def text_or_def dec_eval power_int_def power_divide)
  have "dval (Fin False 25 (-2)) = 1 / 4" "dval (Fin False 100 0) * dval (Fin False 150 0) / dval (Fin False 20000000000 (-8)) = 75"
    by (simp_all add: signed_def power_int_def power2_eq_square power_divide)
  then show ?thesis
    using leg_books_ledger [OF r demo_leg_new demo_leg_text inp] r by auto
qed

text \<open>A leg is idempotent: the same leg id with the same request, whatever happened to the store's
  clock since, returns the row already booked and leaves the store unchanged.\<close>

theorem leg_idempotent:
  assumes "apply_quantity_exit_fill pid mode sold rem price sem observed_at leg_id s = Inr (row, s1)"
    and "find_event leg_id s = None" and "leg_id \<noteq> []"
  shows "apply_quantity_exit_fill pid mode sold rem price sem observed_at leg_id s1 = Inr (row, s1)"
  using assms(1)
proof (rule quantity_exit_result)
  fix l p bt
  assume l: "leg_of_text sold rem price sem = Inr l" and ro: "\<not> st_readonly s"
    and g: "get_position pid s = Some p" and bt: "get_bot (p_bot p) s = Some bt" "b_mode bt = mode"
    and "(\<exists>ev payload. find_event leg_id s = Some ev \<and> e_payload ev = Some (JObj payload) \<and> e_position ev = Some pid
            \<and> jget payload ''request'' = JObj (leg_request l observed_at mode) \<and> row = p \<and> s1 = s)
         \<or> find_event leg_id s = None \<and> book_leg pid l mode observed_at leg_id p bt s = Inr (row, s1)"
  then have b: "book_leg pid l mode observed_at leg_id p bt s = Inr (row, s1)" using assms(2) by simp
  from b g obtain a0 where row0: "row = set_leg l a0 mode observed_at p" and g1: "get_position pid s1 = Some row"
    by (rule book_leg_row)
  show ?thesis using b
  proof (rule book_leg_result)
    fix original a eid
    assume e: "append_execution_event ''MODELED_EXIT_QUANTITY_LEG'' (Some (b_id bt)) (Some pid)
           (leg_event l a (leg_request l observed_at mode) (b_mode bt)) (Some leg_id) (Some observed_at)
           (upd_position pid (set_leg l a mode observed_at) s) = Inr (eid, s1)"
    obtain c t where c: "leg_id = c # t" using assms(3) by (cases leg_id) auto
    have eid: "eid = leg_id" using append_event_result(10) [OF e] c by simp
    obtain stamp where ev: "st_events s1 = st_events s @ [\<lparr>e_id = leg_id, e_type = ''MODELED_EXIT_QUANTITY_LEG'',
        e_bot = Some (b_id bt), e_position = Some pid, e_created_at = stamp,
        e_payload = Some (JObj (leg_event l a (leg_request l observed_at mode) (b_mode bt)))\<rparr>]"
      using append_event_result(9) [OF e] eid by (auto simp: upd_position_def)
    have "rows_get e_id leg_id (st_events s) = None" using assms(2) by (simp add: find_event_def)
    then have found: "find_event leg_id s1 = Some \<lparr>e_id = leg_id, e_type = ''MODELED_EXIT_QUANTITY_LEG'',
        e_bot = Some (b_id bt), e_position = Some pid, e_created_at = stamp,
        e_payload = Some (JObj (leg_event l a (leg_request l observed_at mode) (b_mode bt)))\<rparr>"
      by (simp add: find_event_def ev rows_get_append)
    have "\<not> st_readonly s1" and "get_bot (p_bot row) s1 = Some bt"
      using append_event_result(2,6) [OF e] ro bt(1)
      by (simp_all add: row0 set_leg_def Let_def get_bot_def upd_position_def)
    then show ?thesis using l g1 bt(2) found
      by (simp add: apply_quantity_exit_fill_def immediate_write_def get_execution_event_def replay_leg_def leg_event_def)
  qed
qed

lemma leg_idempotent_witness:
  "\<exists>row s1. apply_quantity_exit_fill ''POS-1'' ''PAPER'' ''50'' ''150'' ''0.60'' ''SEPARATE_MODELED_FEE''
     ''2026-01-02T00:00:00Z'' ''LEG-1'' (demo_store demo_holding) = Inr (row, s1)
   \<and> apply_quantity_exit_fill ''POS-1'' ''PAPER'' ''50'' ''150'' ''0.60'' ''SEPARATE_MODELED_FEE''
     ''2026-01-02T00:00:00Z'' ''LEG-1'' s1 = Inr (row, s1)"
proof -
  obtain row s1 where r: "apply_quantity_exit_fill ''POS-1'' ''PAPER'' ''50'' ''150'' ''0.60'' ''SEPARATE_MODELED_FEE''
     ''2026-01-02T00:00:00Z'' ''LEG-1'' (demo_store demo_holding) = Inr (row, s1)"
    using demo_leg_returns by blast
  then show ?thesis using leg_idempotent [OF r demo_leg_new(1)] by simp
qed

end
