(* ===== verification/PaperPlane.thy ===== *)
theory PaperPlane
  imports PaperEntry PaperLegClaims
begin

section \<open>The paper plane as a state machine\<close>

text \<open>
  Every writing operation of \<open>PaperPlaneStore\<close> as one call of a state machine on the store, and its
  interpretation of the contract \<open>plane_operation\<close>.
\<close>

datatype plane_call =
    OpenPosition string string string
  | OpenFromSignal string signal_decision string "string option" "string option"
  | Transition string pstate
  | SetEntriesPaused string bool
  | SetBotStatus string string "string option"
  | CancelEntryIntent string string
  | FreezeAdmission string string string "string option" "int option" "string option" "int option"
  | RecordMark string "string option" string string
  | EntryFill string entry_fill
  | ExitFill string "string option" string bool
  | QuantityExit string string string string string string string string
  | FillPaper string string decimal
  | FillFromSignal string signal_decision decimal string
  | ApplyExitDecision exit_decision
  | AppendEvent string "string option" "string option" dict "string option" "string option"
  | RecordCommand string string dict dict
  | AppendPolicy policy_row

text \<open>What a caller sees of the result: that the call returned.\<close>

definition as_call :: "('a \<times> store) res \<Rightarrow> (unit \<times> store) res" where
  "as_call m = bindR m (\<lambda>(_, s). Inr ((), s))"

fun plane_step :: "plane_call \<Rightarrow> store \<Rightarrow> (unit \<times> store) res" where
  "plane_step (OpenPosition bid mint kind) s = as_call (open_position bid mint kind s)"
| "plane_step (OpenFromSignal bid sd kind sha spec) s = as_call (open_position_from_signal bid sd kind sha spec s)"
| "plane_step (Transition pid t) s = as_call (transition pid t s)"
| "plane_step (SetEntriesPaused bid b) s = set_entries_paused bid b s"
| "plane_step (SetBotStatus bid st stop) s = set_bot_status bid st stop s"
| "plane_step (CancelEntryIntent pid reason) s = as_call (cancel_entry_intent pid reason s)"
| "plane_step (FreezeAdmission pid adm req mode rv sha fee) s =
     freeze_admission_binding pid adm req mode rv sha fee s"
| "plane_step (RecordMark pid price as_of e) s = as_call (record_position_mark pid price as_of e s)"
| "plane_step (EntryFill pid f) s = as_call (apply_paper_entry_fill pid f s)"
| "plane_step (ExitFill pid price mode unresolved) s = as_call (apply_paper_exit_fill pid price mode unresolved s)"
| "plane_step (QuantityExit pid mode sold rem price sem obs lid) s =
     as_call (apply_quantity_exit_fill pid mode sold rem price sem obs lid s)"
| "plane_step (FillPaper bid mint n) s = as_call (fill_paper bid mint n s)"
| "plane_step (FillFromSignal bid sd n kind) s = as_call (fill_paper_from_signal bid sd n kind s)"
| "plane_step (ApplyExitDecision x) s = as_call (apply_exit_decision x s)"
| "plane_step (AppendEvent ty bid pid payload eid stamp) s =
     as_call (append_execution_event ty bid pid payload eid stamp s)"
| "plane_step (RecordCommand k ty req result) s = record_operator_command k ty req result s"
| "plane_step (AppendPolicy row) s = append_runtime_policy_revision row s"

lemma as_call_eq_Inr [result_simps]: "as_call m = Inr (u, s) \<longleftrightarrow> (\<exists>x. m = Inr (x, s))"
  by (cases m) (auto simp: as_call_def)

lemmas plane_advance = open_position_advance open_from_signal_advance transition_advance
  set_entries_paused_advance set_bot_status_advance cancel_advance freeze_advance record_mark_advance
  entry_fill_advance exit_fill_advance quantity_exit_advance fill_paper_advance fill_from_signal_advance
  apply_exit_advance append_event_advance record_command_advance append_policy_advance

interpretation plane: plane_operation plane_step
proof unfold_locales
  fix c s u s'
  assume "plane_step c s = Inr (u, s')"
  then show "store_advance s s'"
    by (cases c) (auto simp: as_call_eq_Inr dest: plane_advance)
qed

end
