(* ===== verification/PaperAdmission.thy ===== *)
theory PaperAdmission
  imports PaperPlane
begin

section \<open>Properties of cancelling and of counting open risk\<close>

text \<open>
  A cancellation is refused once anything was filled and leaves the proof a later reader checks
  (\<open>unattempted_cancel_witness_valid\<close>); the open-risk inventory is exactly what the rows hold; the
  pre-trade decision keeps the number of open positions within its limit.
\<close>

subsection \<open>The cancellation's witness\<close>

definition json_text_in :: "jval \<Rightarrow> string list \<Rightarrow> bool" where
  "json_text_in v xs = (case v of JStr t \<Rightarrow> t \<in> set xs | _ \<Rightarrow> False)"

definition unattempted_cancel_witness_valid :: "position \<Rightarrow> event \<Rightarrow> bool" where
  "unattempted_cancel_witness_valid position ev =
     (case e_payload ev of
        Some (JObj payload) \<Rightarrow>
          e_type ev = ''ENTRY_INTENT_CANCELLED'' \<and> e_position ev = Some (p_id position)
          \<and> e_bot ev = Some (p_bot position)
          \<and> json_text_in (jget payload ''from_state'') (map state_name PRE_ATTEMPT_STATES)
          \<and> json_text_in (jget payload ''cancel_reason_code'') CANCEL_REASONS
          \<and> jget payload ''cancel_reason_code'' = jtext (p_cancel_reason_code position)
      | _ \<Rightarrow> False)"

lemma state_name_inject: "state_name a = state_name b \<longleftrightarrow> a = b"
  by (cases a; cases b) simp_all

lemma state_name_mem: "state_name a \<in> set (map state_name xs) \<longleftrightarrow> a \<in> set xs"
  by (auto simp: state_name_inject)

definition demo_intent :: position where
  "demo_intent = demo_attempting\<lparr>p_state := INTENT_CREATED\<rparr>"

lemma demo_intent_fields [simp]:
  "p_id demo_intent = ''POS-1''" "p_bot demo_intent = ''BOT-1''" "p_state demo_intent = INTENT_CREATED"
  "p_entry_price_dec demo_intent = None"
  by (simp_all add: demo_intent_def demo_attempting_def blank_position_def)

lemma demo_cancel_returns:
  "\<exists>row s'. cancel_entry_intent ''POS-1'' ''OPERATOR_CANCEL'' (demo_store demo_intent) = Inr (row, s')"
  by (simp add: cancel_entry_intent_def CANCEL_REASONS_def PRE_ATTEMPT_STATES_def cancel_row_def
      store_eval demo_store_def Let_def del: dict_with_simps)

text \<open>C8: cancelling an entry intent is refused unless nothing was filled and the attempt had not started
  or definitively failed; it leaves the position CANCELLED with nothing remaining and appends exactly
  one event, which proves that nothing was sent precisely when the position was before its attempt.\<close>

theorem cancel_leaves_proof:
  assumes "cancel_entry_intent pid reason s = Inr (row, s')"
    and "get_position pid s = Some p" and "p_state p \<noteq> CANCELLED"
  shows "p_state row = CANCELLED \<and> \<not> present (p_entry_price_dec p)
    \<and> (p_state p \<in> set PRE_ATTEMPT_STATES \<or> p_state p = ATTEMPTING \<and> reason \<in> set DEFINITIVE_NON_FILL_REASONS)
    \<and> p_cancel_reason_code row = Some reason \<and> p_remaining_qty_dec row = Some ''0''
    \<and> (\<exists>ev. st_events s' = st_events s @ [ev]
         \<and> (unattempted_cancel_witness_valid row ev \<longleftrightarrow> p_state p \<in> set PRE_ATTEMPT_STATES))"
  using assms(1)
proof (rule cancel_result)
  assume "get_position pid s = Some row" and "p_state row = CANCELLED"
  then show ?thesis using assms(2,3) by simp
next
  fix r t s1 eid
  assume r: "get_position pid s = Some r" and reason: "reason \<in> set CANCEL_REASONS"
    and st: "p_state r \<in> set PRE_ATTEMPT_STATES \<or> p_state r = ATTEMPTING \<and> reason \<in> set DEFINITIVE_NON_FILL_REASONS"
    and price: "\<not> present (p_entry_price_dec r)"
    and tr: "transition pid CANCELLED s = Inr (t, s1)"
    and e: "append_execution_event ''ENTRY_INTENT_CANCELLED'' (Some (p_bot r)) (Some pid)
             (dict_with (row_identity r) [(''from_state'', JStr (state_name (p_state r))),
                (''cancel_reason_code'', JStr reason)]) None None
             (upd_position pid (cancel_row reason) s1) = Inr (eid, s')"
    and g: "get_position pid s' = Some row"
  from tr obtain now where t: "t = set_state CANCELLED now r" and g1: "get_position pid s1 = Some t"
    and ev1: "st_events s1 = st_events s"
    by (rule transition_result) (use r in auto)
  have "get_position pid (upd_position pid (cancel_row reason) s1) = Some (cancel_row reason t)"
    by (rule get_after_upd) (simp_all add: cancel_row_def g1)
  then have row: "row = cancel_row reason t" using g e by simp
  have ids: "p_id row = pid" "p_bot row = p_bot r"
    using pos.get_key [OF g] by (simp_all add: row cancel_row_def t set_state_def)
  have rp: "r = p" using r assms(2) by simp
  obtain ev where ev: "st_events s' = st_events s @ [ev]" "e_type ev = ''ENTRY_INTENT_CANCELLED''"
      "e_bot ev = Some (p_bot r)" "e_position ev = Some pid"
      "e_payload ev = Some (JObj (dict_with (row_identity r) [(''from_state'', JStr (state_name (p_state r))),
                (''cancel_reason_code'', JStr reason)]))"
    using append_event_result(9) [OF e] ev1 by (auto simp: upd_position_def)
  have "unattempted_cancel_witness_valid row ev \<longleftrightarrow> p_state p \<in> set PRE_ATTEMPT_STATES"
    using reason ids
    by (simp add: unattempted_cancel_witness_valid_def ev json_text_in_def rp state_name_mem jtext_def
        row cancel_row_def del: set_map)
  then show ?thesis
    using st price ev(1) by (auto simp: rp row cancel_row_def t set_state_def)
qed

lemma cancel_leaves_proof_witness:
  "\<exists>row s' ev. cancel_entry_intent ''POS-1'' ''OPERATOR_CANCEL'' (demo_store demo_intent) = Inr (row, s')
     \<and> st_events s' = [ev] \<and> unattempted_cancel_witness_valid row ev"
proof -
  obtain row s' where r: "cancel_entry_intent ''POS-1'' ''OPERATOR_CANCEL'' (demo_store demo_intent) = Inr (row, s')"
    using demo_cancel_returns by blast
  have g: "get_position ''POS-1'' (demo_store demo_intent) = Some demo_intent"
    by (simp add: get_position_def demo_store_def)
  have "st_events (demo_store demo_intent) = []" by (simp add: demo_store_def)
  then show ?thesis using cancel_leaves_proof [OF r g] r by (auto simp: PRE_ATTEMPT_STATES_def)
qed

subsection \<open>The pre-trade limit\<close>

lemma open_risk_count_insert:
  assumes "insert_position_once r s = Inr s'"
  shows "open_risk_count bid s' \<le> Suc (open_risk_count bid s)"
  using assms by (auto simp: insert_position_once_def ins_position_def open_risk_count_def split: if_splits)

text \<open>The pre-trade limit is kept: opening a position, from a signal or from a signal kind, after an ALLOW
  decision for the bot leaves at most the allowed number of open-risk positions.\<close>

theorem pre_trade_limit_kept:
  assumes "pre_trade_risk_snapshot bid (Some m) s = RiskAllow n m"
    and "open_position_from_signal b sd kind sha spec s = Inr (pid, s') \<or> open_position b mint kind s = Inr (pid, s')"
  shows "int (open_risk_count bid s') \<le> m"
proof -
  have tick: "open_risk_count bid (tick s) = open_risk_count bid s" by (simp add: open_risk_count_def)
  obtain r where "insert_position_once r (tick s) = Inr s'"
    using assms(2)
    by (auto simp: open_position_from_signal_def open_position_def Let_def bindR_eq_Inr split: if_splits)
  then have "open_risk_count bid s' \<le> Suc (open_risk_count bid s)"
    using open_risk_count_insert tick by metis
  moreover have "int (open_risk_count bid s) < m"
    using assms(1) by (simp add: pre_trade_risk_snapshot_def Let_def split: if_splits)
  ultimately show ?thesis by linarith
qed

lemma pre_trade_limit_kept_witness:
  "\<exists>pid s'. open_position ''BOT-1'' ''Other'' ''SIMULATED_FILL'' (demo_store demo_open) = Inr (pid, s')
     \<and> int (open_risk_count ''BOT-1'' s') \<le> 2"
proof -
  have snap: "pre_trade_risk_snapshot ''BOT-1'' (Some 2) (demo_store demo_open) = RiskAllow 1 2"
    by (simp add: pre_trade_risk_snapshot_def open_risk_count_def demo_store_def OPEN_RISK_STATES_def)
  obtain pid s' where o: "open_position ''BOT-1'' ''Other'' ''SIMULATED_FILL'' (demo_store demo_open) = Inr (pid, s')"
    by (simp add: open_position_def FORBIDDEN_SIGNAL_KINDS_def SIGNAL_KINDS_def insert_position_once_def
        demo_store_def tick_def Let_def)
  show ?thesis using pre_trade_limit_kept [OF snap] o by blast
qed

subsection \<open>The inventory of open risk\<close>

definition open_risk :: "position \<Rightarrow> bool" where
  "open_risk r = (p_state r \<in> set OPEN_RISK_STATES)"

definition exposure_value :: "position \<Rightarrow> rat" where
  "exposure_value r = (case exposure r of Inr (Some x) \<Rightarrow> dval x | _ \<Rightarrow> 0)"

definition exposure_unknown :: "position \<Rightarrow> bool" where
  "exposure_unknown r = (\<not> present (p_entered_notional_usd_dec r) \<and> \<not> present (p_admitted_entry_notional_usd_dec r))"

lemma exposure_None: "exposure r = Inr e \<Longrightarrow> e = None \<longleftrightarrow> exposure_unknown r"
  by (auto simp: exposure_def exposure_unknown_def bindR_eq_Inr split: if_splits)

definition of_strategy :: "string \<Rightarrow> position \<Rightarrow> bool" where
  "of_strategy strategy r = (present (p_strategy_id r) \<and> p_strategy_id r = Some strategy)"

definition of_bot :: "string \<Rightarrow> position \<Rightarrow> bool" where
  "of_bot bid r = (bid \<noteq> [] \<and> p_bot r = bid)"

text \<open>One row's contribution.\<close>

lemma inventory_step_result:
  assumes "inventory_step strategy mint bid r i = Inr i'"
  shows "i_global_count i' = i_global_count i + (if open_risk r then 1 else 0)"
    and "i_strategy_count i' = i_strategy_count i + (if open_risk r \<and> of_strategy strategy r then 1 else 0)"
    and "i_mint_count i' = i_mint_count i + (if open_risk r \<and> p_mint r = mint then 1 else 0)"
    and "i_bot_count i' = i_bot_count i + (if open_risk r \<and> of_bot bid r then 1 else 0)"
    and "i_global_unknown i' \<longleftrightarrow> i_global_unknown i \<or> open_risk r \<and> exposure_unknown r"
    and "i_mint_unknown i' \<longleftrightarrow> i_mint_unknown i \<or> open_risk r \<and> p_mint r = mint \<and> exposure_unknown r"
    and "i_strategy_unknown i' \<longleftrightarrow> i_strategy_unknown i \<or> open_risk r \<and> (\<not> present (p_strategy_id r)
           \<or> of_strategy strategy r \<and> exposure_unknown r)"
    and "open_risk r \<Longrightarrow> (\<exists>e. exposure r = Inr e \<and> add_exposure e (i_global_notional i) = Inr (i_global_notional i'))"
    and "\<not> open_risk r \<Longrightarrow> i' = i"
proof -
  have main: "(\<not> open_risk r \<longrightarrow> i' = i) \<and> (open_risk r \<longrightarrow>
      i_global_count i' = Suc (i_global_count i)
      \<and> i_strategy_count i' = i_strategy_count i + (if of_strategy strategy r then 1 else 0)
      \<and> i_mint_count i' = i_mint_count i + (if p_mint r = mint then 1 else 0)
      \<and> i_bot_count i' = i_bot_count i + (if of_bot bid r then 1 else 0)
      \<and> (i_global_unknown i' \<longleftrightarrow> i_global_unknown i \<or> exposure_unknown r)
      \<and> (i_mint_unknown i' \<longleftrightarrow> i_mint_unknown i \<or> p_mint r = mint \<and> exposure_unknown r)
      \<and> (i_strategy_unknown i' \<longleftrightarrow> i_strategy_unknown i \<or> \<not> present (p_strategy_id r)
           \<or> of_strategy strategy r \<and> exposure_unknown r)
      \<and> (\<exists>e. exposure r = Inr e \<and> add_exposure e (i_global_notional i) = Inr (i_global_notional i')))"
  proof (cases "open_risk r")
    case False
    then show ?thesis using assms by (simp add: inventory_step_def open_risk_def)
  next
    case True
    then obtain e i1 i2 where e: "exposure r = Inr e" and 1: "count_global bid r e i = Inr i1"
      and 2: "count_strategy strategy r e i1 = Inr i2" and 3: "count_mint mint r e i2 = Inr i'"
      using assms by (auto simp: inventory_step_def open_risk_def bindR_eq_Inr)
    note en = exposure_None [OF e]
    have i1: "i_global_count i1 = Suc (i_global_count i)
      \<and> add_exposure e (i_global_notional i) = Inr (i_global_notional i1)
      \<and> (i_global_unknown i1 \<longleftrightarrow> i_global_unknown i \<or> e = None)
      \<and> i_bot_count i1 = i_bot_count i + (if of_bot bid r then 1 else 0)
      \<and> i_strategy_count i1 = i_strategy_count i \<and> i_strategy_unknown i1 = i_strategy_unknown i
      \<and> i_mint_count i1 = i_mint_count i \<and> i_mint_unknown i1 = i_mint_unknown i"
      using 1 by (auto simp: count_global_def of_bot_def bindR_eq_Inr)
    have i2: "i_global_count i2 = i_global_count i1 \<and> i_global_notional i2 = i_global_notional i1
      \<and> i_global_unknown i2 = i_global_unknown i1 \<and> i_bot_count i2 = i_bot_count i1
      \<and> i_strategy_count i2 = i_strategy_count i1 + (if of_strategy strategy r then 1 else 0)
      \<and> (i_strategy_unknown i2 \<longleftrightarrow> i_strategy_unknown i1 \<or> \<not> present (p_strategy_id r)
           \<or> of_strategy strategy r \<and> e = None)
      \<and> i_mint_count i2 = i_mint_count i1 \<and> i_mint_unknown i2 = i_mint_unknown i1"
      using 2 by (cases "present (p_strategy_id r)"; cases "p_strategy_id r = Some strategy")
        (auto simp: count_strategy_def of_strategy_def bindR_eq_Inr)
    have "i_global_count i' = i_global_count i2 \<and> i_global_notional i' = i_global_notional i2
      \<and> i_global_unknown i' = i_global_unknown i2 \<and> i_bot_count i' = i_bot_count i2
      \<and> i_strategy_count i' = i_strategy_count i2 \<and> i_strategy_unknown i' = i_strategy_unknown i2
      \<and> i_mint_count i' = i_mint_count i2 + (if p_mint r = mint then 1 else 0)
      \<and> (i_mint_unknown i' \<longleftrightarrow> i_mint_unknown i2 \<or> p_mint r = mint \<and> e = None)"
      using 3 by (cases "p_mint r = mint") (auto simp: count_mint_def bindR_eq_Inr)
    then show ?thesis using True i1 i2 e en by simp
  qed
  from main show "i_global_count i' = i_global_count i + (if open_risk r then 1 else 0)" by (cases "open_risk r") simp_all
  from main show "i_strategy_count i' = i_strategy_count i + (if open_risk r \<and> of_strategy strategy r then 1 else 0)" by (cases "open_risk r") simp_all
  from main show "i_mint_count i' = i_mint_count i + (if open_risk r \<and> p_mint r = mint then 1 else 0)" by (cases "open_risk r") simp_all
  from main show "i_bot_count i' = i_bot_count i + (if open_risk r \<and> of_bot bid r then 1 else 0)" by (cases "open_risk r") simp_all
  from main show "i_global_unknown i' \<longleftrightarrow> i_global_unknown i \<or> open_risk r \<and> exposure_unknown r" by (cases "open_risk r") simp_all
  from main show "i_mint_unknown i' \<longleftrightarrow> i_mint_unknown i \<or> open_risk r \<and> p_mint r = mint \<and> exposure_unknown r" by (cases "open_risk r") simp_all
  from main show "i_strategy_unknown i' \<longleftrightarrow> i_strategy_unknown i \<or> open_risk r \<and> (\<not> present (p_strategy_id r)
           \<or> of_strategy strategy r \<and> exposure_unknown r)" by (cases "open_risk r") simp_all
  from main show "open_risk r \<Longrightarrow> (\<exists>e. exposure r = Inr e \<and> add_exposure e (i_global_notional i) = Inr (i_global_notional i'))" by simp
  from main show "\<not> open_risk r \<Longrightarrow> i' = i" by simp
qed

lemma inventory_loop_counts:
  "inventory_loop strategy mint bid rs i = Inr i' \<Longrightarrow>
     i_global_count i' = i_global_count i + length (filter open_risk rs)
   \<and> i_strategy_count i' = i_strategy_count i
        + length (filter (\<lambda>r. open_risk r \<and> of_strategy strategy r) rs)
   \<and> i_mint_count i' = i_mint_count i + length (filter (\<lambda>r. open_risk r \<and> p_mint r = mint) rs)
   \<and> i_bot_count i' = i_bot_count i + length (filter (\<lambda>r. open_risk r \<and> of_bot bid r) rs)
   \<and> (i_global_unknown i' \<longleftrightarrow> i_global_unknown i \<or> (\<exists>r\<in>set rs. open_risk r \<and> exposure_unknown r))
   \<and> (i_mint_unknown i' \<longleftrightarrow> i_mint_unknown i \<or> (\<exists>r\<in>set rs. open_risk r \<and> p_mint r = mint \<and> exposure_unknown r))"
proof (induction rs arbitrary: i)
  case (Cons r rs)
  then obtain i1 where 1: "inventory_step strategy mint bid r i = Inr i1"
    and 2: "inventory_loop strategy mint bid rs i1 = Inr i'" by (auto simp: bindR_eq_Inr)
  show ?case using Cons.IH [OF 2] inventory_step_result(1-6) [OF 1] by auto
qed simp

lemma inventory_loop_notional:
  assumes "inventory_loop strategy mint bid rs i = Inr i'"
    and "\<forall>r\<in>set rs. \<forall>x. open_risk r \<longrightarrow> exposure r = Inr (Some x) \<longrightarrow> dec_is_finite x \<and> - 8 \<le> dexp x"
    and "dec_is_finite (i_global_notional i)" and "- 8 \<le> dexp (i_global_notional i)"
    and "\<bar>dval (i_global_notional i)\<bar> + sum_list (map (\<lambda>r. \<bar>exposure_value r\<bar>) (filter open_risk rs)) < 10 ^ 20"
  shows "dval (i_global_notional i') = dval (i_global_notional i) + sum_list (map exposure_value (filter open_risk rs))"
  using assms
proof (induction rs arbitrary: i)
  case (Cons r rs)
  from Cons.prems(1) obtain i1 where 1: "inventory_step strategy mint bid r i = Inr i1"
    and 2: "inventory_loop strategy mint bid rs i1 = Inr i'" by (auto simp: bindR_eq_Inr)
  have rest: "\<forall>r\<in>set rs. \<forall>x. open_risk r \<longrightarrow> exposure r = Inr (Some x) \<longrightarrow> dec_is_finite x \<and> - 8 \<le> dexp x"
    using Cons.prems(2) by simp
  have nn: "0 \<le> sum_list (map (\<lambda>r. \<bar>exposure_value r\<bar>) (filter open_risk rs))"
    by (rule sum_list_nonneg) auto
  show ?case
  proof (cases "open_risk r")
    case True
    then obtain e where e: "exposure r = Inr e" "add_exposure e (i_global_notional i) = Inr (i_global_notional i1)"
      using inventory_step_result(8) [OF 1] by blast
    have step: "dec_is_finite (i_global_notional i1) \<and> - 8 \<le> dexp (i_global_notional i1)
        \<and> dval (i_global_notional i1) = dval (i_global_notional i) + exposure_value r"
    proof (cases e)
      case None
      then show ?thesis using e Cons.prems(3,4) by (simp add: add_exposure_def exposure_value_def)
    next
      case (Some x)
      have x: "dec_is_finite x" "- 8 \<le> dexp x" "exposure_value r = dval x"
        using Cons.prems(2) True e(1) Some by (auto simp: exposure_value_def)
      have "\<bar>dval (i_global_notional i)\<bar> + \<bar>dval x\<bar> < 10 ^ 20" using Cons.prems(5) True x(3) nn by simp
      then have "\<bar>dval (i_global_notional i) + dval x\<bar> < 10 ^ 20" by linarith
      then have "\<bar>dval (i_global_notional i) + dval x\<bar> < 10 powi (28 - 8)" by simp
      then obtain z where "dec_add (i_global_notional i) x = Inr z" "dec_is_finite z"
          "dval z = dval (i_global_notional i) + dval x" "dexp z = min (dexp (i_global_notional i)) (dexp x)"
        using Cons.prems(3,4) x(1,2) by (elim dec_add_exact [rotated 4]) auto
      then show ?thesis using e(2) Some x Cons.prems(4) by (simp add: add_exposure_def)
    qed
    have "\<bar>dval (i_global_notional i1)\<bar> \<le> \<bar>dval (i_global_notional i)\<bar> + \<bar>exposure_value r\<bar>"
      using step by linarith
    then have "\<bar>dval (i_global_notional i1)\<bar> + sum_list (map (\<lambda>r. \<bar>exposure_value r\<bar>) (filter open_risk rs)) < 10 ^ 20"
      using Cons.prems(5) True by simp
    then have "dval (i_global_notional i') = dval (i_global_notional i1)
        + sum_list (map exposure_value (filter open_risk rs))"
      using Cons.IH [OF 2 rest] step by blast
    then show ?thesis using step True by simp
  next
    case False
    then have "i1 = i" using inventory_step_result(9) [OF 1] by simp
    then show ?thesis using Cons.IH [OF 2 rest] Cons.prems(3-5) False by simp
  qed
qed simp

text \<open>The open-risk inventory is exact: the counts are the numbers of open-risk rows of the mode (of the
  strategy, of the mint, of the bot), the total is reported unknown exactly when some such row has
  neither an entered nor an admitted notional, and otherwise it is the exact sum of the exposures.\<close>

theorem open_risk_inventory_exact:
  assumes "open_risk_inventory mode strategy mint bid s = Inr i"
    and "\<And>r x. r \<in> set (mode_positions mode s) \<Longrightarrow> open_risk r \<Longrightarrow> exposure r = Inr (Some x)
           \<Longrightarrow> dec_is_finite x \<and> - 8 \<le> dexp x"
    and "sum_list (map (\<lambda>r. \<bar>exposure_value r\<bar>) (filter open_risk (mode_positions mode s))) < 10 ^ 20"
  shows "i_global_count i = length (filter open_risk (mode_positions mode s))
    \<and> i_mint_count i = length (filter (\<lambda>r. open_risk r \<and> p_mint r = mint) (mode_positions mode s))
    \<and> i_bot_count i = length (filter (\<lambda>r. open_risk r \<and> of_bot bid r) (mode_positions mode s))
    \<and> i_strategy_count i \<le> i_global_count i
    \<and> (i_global_unknown i \<longleftrightarrow> (\<exists>r\<in>set (mode_positions mode s). open_risk r \<and> exposure_unknown r))
    \<and> dval (i_global_notional i) = sum_list (map exposure_value (filter open_risk (mode_positions mode s)))"
proof -
  have run: "inventory_loop strategy mint bid (mode_positions mode s) empty_inventory = Inr i"
    using assms(1) by (simp add: open_risk_inventory_def)
  have "dval (i_global_notional i) = sum_list (map exposure_value (filter open_risk (mode_positions mode s)))"
    using inventory_loop_notional [OF run] assms(2,3)
    by (simp add: empty_inventory_def dec_zero_def signed_def)
  moreover have "length (filter (\<lambda>r. open_risk r \<and> of_strategy strategy r) xs)
      \<le> length (filter open_risk xs)" for xs by (induction xs) auto
  ultimately show ?thesis using inventory_loop_counts [OF run] by (simp add: empty_inventory_def)
qed

lemma open_risk_inventory_exact_witness:
  "\<exists>i. open_risk_inventory ''PAPER'' ''S'' ''Mint'' ''BOT-1'' (demo_store demo_open) = Inr i
     \<and> i_global_count i = 1 \<and> dval (i_global_notional i) = 100"
proof -
  have m: "mode_positions ''PAPER'' (demo_store demo_open) = [demo_open]"
    by (simp add: mode_positions_def demo_store_def get_bot_def demo_bot_def)
  have o: "open_risk demo_open" by (simp add: open_risk_def OPEN_RISK_STATES_def)
  have x: "exposure demo_open = Inr (Some (Fin False 100 0))" by (simp add: exposure_def dec_eval)
  have v: "exposure_value demo_open = 100" by (simp add: exposure_value_def x signed_def)
  obtain i where i: "open_risk_inventory ''PAPER'' ''S'' ''Mint'' ''BOT-1'' (demo_store demo_open) = Inr i"
  proof -
    have p: "p_strategy_id demo_open = None" "p_mint demo_open = ''Mint''"
      by (simp_all add: demo_open_def blank_position_def)
    have "\<exists>i. inventory_loop ''S'' ''Mint'' ''BOT-1'' [demo_open] empty_inventory = Inr i"
      by (simp add: inventory_step_def count_global_def count_strategy_def count_mint_def OPEN_RISK_STATES_def x p add_exposure_def empty_inventory_def dec_zero_def
          Let_def)
    then show thesis using that by (auto simp: open_risk_inventory_def m)
  qed
  have f: "filter open_risk [demo_open] = [demo_open]" using o by simp
  have prem: "dec_is_finite y \<and> - 8 \<le> dexp y"
    if "r \<in> set (mode_positions ''PAPER'' (demo_store demo_open))" and "open_risk r" and "exposure r = Inr (Some y)" for r y
    using that x by (auto simp: m)
  have small: "sum_list (map (\<lambda>r. \<bar>exposure_value r\<bar>)
      (filter open_risk (mode_positions ''PAPER'' (demo_store demo_open)))) < 10 ^ 20"
    by (simp add: m f v)
  have "i_global_count i = length (filter open_risk [demo_open])
      \<and> dval (i_global_notional i) = sum_list (map exposure_value (filter open_risk [demo_open]))"
    using open_risk_inventory_exact [OF i prem small] by (simp only: m)
  then show ?thesis using i by (simp only: f) (simp add: v)
qed

end
