(* ===== verification/PyTime.thy ===== *)
theory PyTime
  imports PyDecimalText
begin

section \<open>Instants\<close>

text \<open>
  \<open>datetime.fromisoformat\<close> on the extended format the store writes,
  \<open>YYYY-MM-DD?HH:MM:SS[.f...][+HH:MM]\<close> with any separator between date and time. The basic format
  without punctuation, week dates, and times or offsets of another precision are not read. An
  instant is a number of microseconds since 1970-01-01T00:00:00.
\<close>

definition digits_at :: "nat \<Rightarrow> nat \<Rightarrow> string \<Rightarrow> string" where
  "digits_at i n s = take n (drop i s)"

definition is_leap :: "nat \<Rightarrow> bool" where
  "is_leap y = (y mod 4 = 0 \<and> (y mod 100 \<noteq> 0 \<or> y mod 400 = 0))"

definition days_in_month :: "nat \<Rightarrow> nat \<Rightarrow> nat" where
  "days_in_month y m = (if m = 2 then (if is_leap y then 29 else 28) else if m \<in> {4, 6, 9, 11} then 30 else 31)"

text \<open>Days before 1 January of year \<open>y\<close>, and before the first of a month, as \<open>date.toordinal\<close> counts them.\<close>

definition days_before_year :: "nat \<Rightarrow> nat" where
  "days_before_year y = (let z = y - 1 in z * 365 + z div 4 - z div 100 + z div 400)"

definition days_before_month :: "nat \<Rightarrow> nat \<Rightarrow> nat" where
  "days_before_month y m = sum_list (map (days_in_month y) [1..<m])"

definition date_ordinal :: "nat \<Rightarrow> nat \<Rightarrow> nat \<Rightarrow> int" where
  "date_ordinal y m d = int (days_before_year y + days_before_month y m + d)"

definition epoch_ordinal :: int where
  "epoch_ordinal = 719163"

lemma epoch_ordinal_ok: "date_ordinal 1970 1 1 = epoch_ordinal"
  by (simp add: date_ordinal_def days_before_year_def days_before_month_def epoch_ordinal_def Let_def)

text \<open>The fraction's first six digits, padded.\<close>

definition micros_of :: "string \<Rightarrow> nat" where
  "micros_of f = digits_val (take 6 f @ replicate (6 - length f) (CHR ''0''))"

text \<open>The offset after the time: none, or minutes east of UTC.\<close>

definition parse_offset :: "string \<Rightarrow> int option option" where
  "parse_offset t =
     (if t = [] then Some None
      else if length t = 6 \<and> (hd t = CHR ''+'' \<or> hd t = CHR ''-'') \<and> t ! 3 = CHR '':''
           \<and> list_all is_digit (digits_at 1 2 t) \<and> list_all is_digit (digits_at 4 2 t)
           \<and> digits_val (digits_at 1 2 t) < 24 \<and> digits_val (digits_at 4 2 t) < 60
      then let m = int (digits_val (digits_at 1 2 t) * 60 + digits_val (digits_at 4 2 t))
           in Some (Some (if hd t = CHR ''-'' then - m else m))
      else None)"

definition parse_iso :: "string \<Rightarrow> (int \<times> int option) option" where
  "parse_iso s =
     (let f = (\<lambda>i n. digits_at i n s); v = (\<lambda>i n. digits_val (digits_at i n s));
          rest = drop 19 s;
          (frac, tz) = (case rest of [] \<Rightarrow> ([], [])
             | c # r \<Rightarrow> if c = CHR ''.'' \<or> c = CHR '','' then (takeWhile is_digit r, dropWhile is_digit r) else ([], rest))
      in if 19 \<le> length s \<and> s ! 4 = CHR ''-'' \<and> s ! 7 = CHR ''-'' \<and> s ! 13 = CHR '':'' \<and> s ! 16 = CHR '':''
            \<and> list_all is_digit (f 0 4 @ f 5 2 @ f 8 2 @ f 11 2 @ f 14 2 @ f 17 2)
            \<and> 1 \<le> v 0 4 \<and> 1 \<le> v 5 2 \<and> v 5 2 \<le> 12 \<and> 1 \<le> v 8 2 \<and> v 8 2 \<le> days_in_month (v 0 4) (v 5 2)
            \<and> v 11 2 < 24 \<and> v 14 2 < 60 \<and> v 17 2 < 60 \<and> (rest = [] \<or> hd rest \<notin> {CHR ''.'', CHR '',''} \<or> frac \<noteq> [])
         then (case parse_offset tz of None \<Rightarrow> None
               | Some off \<Rightarrow> Some
                   ((((date_ordinal (v 0 4) (v 5 2) (v 8 2) - epoch_ordinal) * 86400
                      + int (v 11 2 * 3600 + v 14 2 * 60 + v 17 2)) * 1000000 + int (micros_of frac)), off))
         else None)"

text \<open>\<open>value.replace("Z", "+00:00")\<close>.\<close>

definition replace_Z :: "string \<Rightarrow> string" where
  "replace_Z s = concat (map (\<lambda>c. if c = CHR ''Z'' then ''+00:00'' else [c]) s)"

lemma replicate_numeral: "replicate (numeral k) x = x # replicate (pred_numeral k) x"
  by (simp add: numeral_eq_Suc)

named_theorems time_eval

lemmas [time_eval] = parse_iso_def replace_Z_def digits_at_def digits_val_def digit_val_def is_digit_def
  days_in_month_def is_leap_def date_ordinal_def days_before_year_def days_before_month_def
  epoch_ordinal_def micros_of_def parse_offset_def Let_def upt_rec
  replicate_numeral

lemma parse_iso_example: "parse_iso (replace_Z ''2026-01-02T03:04:05.5Z'') = Some (1767323045500000, Some 0)"
  by (simp add: time_eval)

end
