(* ===== verification/RiskRows.thy ===== *)
theory RiskRows
  imports PaperAdmission PaperLegClaims PaperEntry PyTime "HOL-Library.Option_ord" "HOL-Library.List_Lexorder" "HOL-Library.Char_ord"
    "HOL-Library.Product_Lexorder"
begin

section \<open>Risk economics: what one position contributes\<close>

text \<open>
  The row functions of \<open>factory/risk_economics.py\<close>: remaining inventory, the accounting
  invariant, the reconciled row, the open mark and the partially realized row. A column that is
  missing, malformed or negative is a named gap, never a guess.
\<close>

subsection \<open>Amounts and gaps\<close>

text \<open>\<open>_dec\<close>.\<close>

definition dec_col :: "string option \<Rightarrow> decimal option res" where
  "dec_col t = (if present t then bindR (dec_of_string (the t)) (\<lambda>x. Inr (Some x)) else Inr None)"

definition money :: "decimal option \<Rightarrow> string option" where
  "money x = map_option dec_text x"

definition ACCEPTED_RECONCILED_CLASSES :: "string list" where
  "ACCEPTED_RECONCILED_CLASSES = [''PAPER_RECONCILED_MODEL'', ''SHADOW_RECONCILED_QUOTE_MODEL'']"

definition ACCEPTED_MARK_CLASSES :: "string list" where
  "ACCEPTED_MARK_CLASSES = [''PAPER_MARK_TO_MODEL'', ''SHADOW_EXECUTABLE_QUOTE_MARK'']"

definition RESIDUAL_COMPONENT_GAPS :: "string list" where
  "RESIDUAL_COMPONENT_GAPS = [''REMAINING_QUANTITY_INVALID'', ''REMAINING_COST_BASIS_INVALID'',
     ''REMAINING_ENTRY_FEE_INVALID'']"

text \<open>An explicit residual is validated before arithmetic; an absent one means the legacy column.\<close>

definition residual_component ::
  "string option \<Rightarrow> string option \<Rightarrow> string \<Rightarrow> (decimal option \<times> string option) res" where
  "residual_component raw legacy gap =
     (case raw of
        None \<Rightarrow> bindR (dec_col legacy) (\<lambda>x. Inr (x, None))
      | Some r \<Rightarrow> (case dec_col (Some r) of
            Inr (Some amount) \<Rightarrow>
              if \<not> dec_is_finite amount \<or> dec_less amount dec_zero then Inr (None, Some gap)
              else Inr (Some amount, None)
          | _ \<Rightarrow> Inr (None, Some gap)))"

definition remaining_quantity :: "position \<Rightarrow> (decimal option \<times> string option) res" where
  "remaining_quantity p =
     residual_component (p_remaining_qty_dec p) (p_qty_dec p) ''REMAINING_QUANTITY_INVALID''"

definition or_gap :: "string option \<Rightarrow> string option \<Rightarrow> string option" where
  "or_gap a b = (case a of None \<Rightarrow> b | Some x \<Rightarrow> Some x)"

definition remaining_money :: "position \<Rightarrow> (decimal option \<times> decimal option \<times> string option) res" where
  "remaining_money p =
     bindR (residual_component (p_remaining_cost_basis_usd_dec p) (p_entered_notional_usd_dec p)
              ''REMAINING_COST_BASIS_INVALID'') (\<lambda>(cost, cost_gap).
     bindR (residual_component (p_remaining_entry_fee_usd_dec p) (p_entry_fee_usd_dec p)
              ''REMAINING_ENTRY_FEE_INVALID'') (\<lambda>(fee, fee_gap).
       Inr (cost, fee, or_gap cost_gap fee_gap)))"

subsection \<open>Labels\<close>

definition or_text :: "string option \<Rightarrow> string option \<Rightarrow> string option" where
  "or_text a b = (if present a then a else b)"

text \<open>\<open>strategy_version_label_from_bot\<close>: the stored version without its strategy prefix.\<close>

definition version_label_from_bot :: "bot \<Rightarrow> string option" where
  "version_label_from_bot b =
     (let stored = b_strategy_version b; sid = b_strategy_id b; n = Suc (length sid)
      in if sid \<noteq> [] \<and> take n stored = sid @ ''-''
         then (if drop n stored = [] then None else Some (drop n stored))
         else if stored = [] then None else Some stored)"

definition row_strategy :: "position \<Rightarrow> bot option \<Rightarrow> string option" where
  "row_strategy p b = or_text (p_strategy_id p) (map_option b_strategy_id b)"

definition row_version :: "position \<Rightarrow> bot option \<Rightarrow> string option" where
  "row_version p b = or_text (p_strategy_version_label p) (Option.bind b version_label_from_bot)"

definition row_mode :: "bot option \<Rightarrow> string" where
  "row_mode b = (case b of None \<Rightarrow> [] | Some x \<Rightarrow> b_mode x)"

definition row_epoch :: "position \<Rightarrow> bot option \<Rightarrow> string option" where
  "row_epoch p b = or_text (p_activation_epoch_id p) (Option.bind b b_activation_epoch_id)"

subsection \<open>Instants\<close>

text \<open>\<open>_parse_utc\<close>: an instant only for a text with the UTC offset.\<close>

definition parse_utc :: "string \<Rightarrow> int option" where
  "parse_utc value =
     (let raw = py_strip value
      in if raw = [] then None
         else case parse_iso (replace_Z raw) of
           Some (t, Some off) \<Rightarrow> if off = 0 then Some t else None
         | _ \<Rightarrow> None)"

subsection \<open>The accounting invariant\<close>

text \<open>A set of Decimals is built only from values that can be hashed: a signalling NaN cannot.\<close>

definition hashable :: "decimal option \<Rightarrow> bool" where
  "hashable x = (x \<noteq> Some (NaN True))"

definition accounting_invariant :: "position \<Rightarrow> string option res" where
  "accounting_invariant p =
     bindR (dec_col (p_realized_gross_pnl_usd_dec p)) (\<lambda>gross.
     bindR (dec_col (p_entry_fee_usd_dec p)) (\<lambda>entry_fee0.
     bindR (residual_component (p_remaining_entry_fee_usd_dec p) None ''REMAINING_ENTRY_FEE_INVALID'') (\<lambda>(remaining_fee, _).
     bindR (case (entry_fee0, remaining_fee) of
              (Some f, Some r) \<Rightarrow> bindR (dec_sub f r) (\<lambda>x. Inr (Some x)) | _ \<Rightarrow> Inr entry_fee0) (\<lambda>entry_fee.
     bindR (dec_col (p_exit_fee_usd_dec p)) (\<lambda>exit_fee.
     bindR (dec_col (p_realized_net_pnl_usd_dec p)) (\<lambda>stored_net.
     if \<not> list_all hashable [gross, entry_fee, exit_fee, stored_net] then Inl PyTypeError
     else case (gross, entry_fee, exit_fee, stored_net) of
       (Some g, Some f, Some x, Some n) \<Rightarrow>
         bindR (bindR (dec_sub g f) (\<lambda>d. bindR (dec_sub d x) cents)) (\<lambda>expected.
         bindR (py_dec_eq expected n) (\<lambda>same.
           Inr (if same then None else Some ''ACCOUNTING_INVARIANT_CONFLICT'')))
     | _ \<Rightarrow> Inr None))))))"

subsection \<open>The reconciled row\<close>

record reconciled_row =
  rr_position_id :: string
  rr_strategy_id :: "string option"
  rr_strategy_version :: "string option"
  rr_mode :: string
  rr_activation_epoch_id :: "string option"
  rr_bot :: string
  rr_evidence_class :: string
  rr_entered_notional_usd :: "string option"
  rr_exit_notional_usd :: "string option"
  rr_gross_pnl_usd :: "string option"
  rr_entry_fee_usd :: "string option"
  rr_exit_fee_usd :: "string option"
  rr_net_usd :: "string option"
  rr_status :: string
  rr_trusted :: bool
  rr_gap :: "string option"
  rr_closed_at :: "string option"
  rr_opened_at :: "string option"

text \<open>Status, trust, gap and net of a reconciled position, in the code's order of precedence.\<close>

definition reconciled_verdict ::
  "string option \<Rightarrow> string \<Rightarrow> string option \<Rightarrow> decimal option \<Rightarrow> string \<times> bool \<times> string option \<times> decimal option" where
  "reconciled_verdict money_gap evidence conflict net =
     (if money_gap \<noteq> None then (''UNKNOWN'', False, money_gap, net)
      else if evidence \<notin> set ACCEPTED_RECONCILED_CLASSES then (''UNKNOWN'', False, Some ''EVIDENCE_CLASS_UNKNOWN'', net)
      else if conflict \<noteq> None then (''ACCOUNTING_CONFLICT'', False, conflict, None)
      else if net = None then (''UNKNOWN'', False, Some ''RECONCILED_NET_UNKNOWN'', net)
      else (''KNOWN'', True, None, net))"

definition text_of :: "string option \<Rightarrow> string" where
  "text_of t = (case t of None \<Rightarrow> [] | Some x \<Rightarrow> x)"

definition class_or_unknown :: "string \<Rightarrow> string" where
  "class_or_unknown t = (if t = [] then ''EVIDENCE_CLASS_UNKNOWN'' else t)"

definition reconciled_row_of :: "position \<Rightarrow> bot option \<Rightarrow> reconciled_row res" where
  "reconciled_row_of p b =
     (let evidence = text_of (p_pnl_evidence_class p) in
      bindR (remaining_money p) (\<lambda>(_, _, money_gap).
      bindR (if money_gap = None then accounting_invariant p else Inr None) (\<lambda>conflict.
      bindR (dec_col (p_realized_net_pnl_usd_dec p)) (\<lambda>net0.
      let (status, trust, gap, net) = reconciled_verdict money_gap evidence conflict net0 in
      bindR (dec_col (p_entered_notional_usd_dec p)) (\<lambda>entered.
      bindR (dec_col (p_exit_notional_usd_dec p)) (\<lambda>exited.
      bindR (dec_col (p_realized_gross_pnl_usd_dec p)) (\<lambda>gross.
      bindR (dec_col (p_entry_fee_usd_dec p)) (\<lambda>entry_fee.
      bindR (dec_col (p_exit_fee_usd_dec p)) (\<lambda>exit_fee.
        Inr \<lparr>rr_position_id = p_id p, rr_strategy_id = row_strategy p b, rr_strategy_version = row_version p b,
             rr_mode = row_mode b, rr_activation_epoch_id = row_epoch p b, rr_bot = p_bot p,
             rr_evidence_class = class_or_unknown evidence, rr_entered_notional_usd = money entered,
             rr_exit_notional_usd = money exited, rr_gross_pnl_usd = money gross, rr_entry_fee_usd = money entry_fee,
             rr_exit_fee_usd = money exit_fee, rr_net_usd = (if trust then money net else None),
             rr_status = status, rr_trusted = trust, rr_gap = gap, rr_closed_at = p_closed_at p,
             rr_opened_at = p_opened_at p\<rparr>)))))))))"

subsection \<open>The open mark\<close>

record mark_view =
  mv_position_id :: string
  mv_strategy_id :: "string option"
  mv_strategy_version :: "string option"
  mv_mode :: string
  mv_activation_epoch_id :: "string option"
  mv_bot :: string
  mv_state :: pstate
  mv_remaining_quantity :: "string option"
  mv_remaining_cost_basis_usd :: "string option"
  mv_remaining_entry_fee_usd :: "string option"
  mv_mark_price :: "string option"
  mv_mark_as_of :: "string option"
  mv_mark_age_seconds :: "int option"
  mv_evidence_class :: string
  mv_unrealized_gross_usd :: "string option"
  mv_exit_fee_at_mark_usd :: "string option"
  mv_unrealized_net_usd :: "string option"
  mv_status :: string
  mv_legacy :: bool
  mv_gap :: "string option"

text \<open>\<open>int((end - start).total_seconds())\<close> truncates towards zero.\<close>

definition age_seconds :: "int \<Rightarrow> int \<Rightarrow> int" where
  "age_seconds start finish = (let d = finish - start in if 0 \<le> d then d div 1000000 else - ((- d) div 1000000))"

definition mark_gap ::
  "position \<Rightarrow> string option \<Rightarrow> string option \<Rightarrow> decimal option \<Rightarrow> decimal option \<Rightarrow> decimal option \<Rightarrow> decimal option
   \<Rightarrow> string option res" where
  "mark_gap p quantity_gap money_gap mark_price qty entered entry_fee =
     (if or_gap quantity_gap money_gap \<noteq> None then Inr (or_gap quantity_gap money_gap)
      else if text_of (p_unrealized_evidence_class p) \<notin> set ACCEPTED_MARK_CLASSES
      then Inr (Some ''EVIDENCE_CLASS_UNKNOWN'')
      else if \<not> present (p_mark_as_of p) then Inr (Some ''MARK_TIME_UNKNOWN'')
      else if \<not> list_all hashable [mark_price, qty, entered, entry_fee] then Inl PyTypeError
      else if None \<in> {mark_price, qty, entered, entry_fee} \<or> p_fee_bps p = None
      then Inr (Some ''OPEN_MARK_COST_COMPONENT_GAP'')
      else Inr None)"

definition open_mark_row :: "position \<Rightarrow> bot option \<Rightarrow> string \<Rightarrow> mark_view res" where
  "open_mark_row p b as_of =
     bindR (dec_col (p_mark_price_dec p)) (\<lambda>mark_price.
     bindR (remaining_quantity p) (\<lambda>(qty, quantity_gap).
     bindR (remaining_money p) (\<lambda>(entered, entry_fee, money_gap).
     bindR (mark_gap p quantity_gap money_gap mark_price qty entered entry_fee) (\<lambda>gap.
     bindR (if gap \<noteq> None then Inr (None, None)
            else bindR (modeled_unrealized_mark (the mark_price) (the qty) (the entered) (the entry_fee)
                         (the (p_fee_bps p))) (\<lambda>d.
                 bindR (dec_col (p_unrealized_net_pnl_usd_dec p)) (\<lambda>stored.
                 bindR (case stored of None \<Rightarrow> Inr False
                        | Some n \<Rightarrow> bindR (py_dec_eq n (k_unrealized_net d)) (\<lambda>same. Inr (\<not> same))) (\<lambda>legacy.
                   Inr (Some (d, legacy), parse_utc (text_of (p_mark_as_of p))))))) (\<lambda>(derived, start).
       Inr \<lparr>mv_position_id = p_id p, mv_strategy_id = row_strategy p b, mv_strategy_version = row_version p b,
            mv_mode = row_mode b, mv_activation_epoch_id = row_epoch p b, mv_bot = p_bot p, mv_state = p_state p,
            mv_remaining_quantity = money qty, mv_remaining_cost_basis_usd = money entered,
            mv_remaining_entry_fee_usd = money entry_fee, mv_mark_price = money mark_price,
            mv_mark_as_of = p_mark_as_of p,
            mv_mark_age_seconds = (case (start, parse_utc as_of) of
               (Some t0, Some t1) \<Rightarrow> Some (age_seconds t0 t1) | _ \<Rightarrow> None),
            mv_evidence_class = class_or_unknown (text_of (p_unrealized_evidence_class p)),
            mv_unrealized_gross_usd = map_option (\<lambda>(d, _). dec_text (k_unrealized_gross d)) derived,
            mv_exit_fee_at_mark_usd = map_option (\<lambda>(d, _). dec_text (k_exit_fee_at_mark d)) derived,
            mv_unrealized_net_usd = map_option (\<lambda>(d, _). dec_text (k_unrealized_net d)) derived,
            mv_status = (if derived = None then ''UNKNOWN'' else ''KNOWN''),
            mv_legacy = (case derived of None \<Rightarrow> False | Some (_, legacy) \<Rightarrow> legacy),
            mv_gap = gap\<rparr>)))))"

subsection \<open>The partially realized row\<close>

record partial_row =
  pr_position_id :: string
  pr_strategy_id :: "string option"
  pr_strategy_version :: "string option"
  pr_mode :: "string option"
  pr_activation_epoch_id :: "string option"
  pr_bot :: string
  pr_remaining_quantity :: "string option"
  pr_remaining_cost_basis_usd :: "string option"
  pr_remaining_entry_fee_usd :: "string option"
  pr_realized_gross_pnl_usd :: "string option"
  pr_realized_trade_net_usd :: "string option"
  pr_status :: string
  pr_gap :: "string option"
  pr_settlement :: string

definition partial_realized_row :: "position \<Rightarrow> bot option \<Rightarrow> partial_row option res" where
  "partial_realized_row p b =
     (if p_remaining_qty_dec p = None \<or> p_realized_net_pnl_usd_dec p = None then Inr None
      else
        bindR (remaining_quantity p) (\<lambda>(quantity, qgap).
        if qgap = None \<and> (case quantity of None \<Rightarrow> True | Some q \<Rightarrow> \<not> dec_less dec_zero q) then Inr None
        else
        bindR (remaining_money p) (\<lambda>(cost, fee, money_gap).
          let gap = or_gap qgap money_gap in
          Inr (Some \<lparr>pr_position_id = p_id p, pr_strategy_id = row_strategy p b, pr_strategy_version = row_version p b,
            pr_mode = map_option b_mode b, pr_activation_epoch_id = row_epoch p b, pr_bot = p_bot p,
            pr_remaining_quantity = money quantity, pr_remaining_cost_basis_usd = money cost,
            pr_remaining_entry_fee_usd = money fee, pr_realized_gross_pnl_usd = p_realized_gross_pnl_usd_dec p,
            pr_realized_trade_net_usd = p_realized_net_pnl_usd_dec p,
            pr_status = (if gap = None then ''KNOWN'' else ''UNKNOWN''), pr_gap = gap,
            pr_settlement = (if gap = None then ''PARTIAL_INVENTORY_REMAINS'' else ''UNKNOWN_INVENTORY'')\<rparr>))))"

end
