(* ===== verification/RiskScopes.thy ===== *)
theory RiskScopes
  imports RiskRows
begin

section \<open>Risk economics: the projection\<close>

text \<open>
  The rest of \<open>factory/risk_economics.py\<close>: rows grouped by strategy, version, mode and
  evidence class, drawdown and loss streak along the order of closing, declared limits, exposure,
  the evidence state, the next action, and \<open>compose_risk_economics\<close> over a store. The strategy
  files (YAML under \<open>configs/strategies\<close>) are a parameter: id, version and declared limit.
\<close>

subsection \<open>Groups in order of first appearance\<close>

fun add_to_group :: "'k \<Rightarrow> 'r \<Rightarrow> ('k \<times> 'r list) list \<Rightarrow> ('k \<times> 'r list) list" where
  "add_to_group k r [] = [(k, [r])]"
| "add_to_group k r ((k', rs) # gs) =
     (if k' = k then (k', rs @ [r]) # gs else (k', rs) # add_to_group k r gs)"

definition group_rows :: "('r \<Rightarrow> 'k) \<Rightarrow> 'r list \<Rightarrow> ('k \<times> 'r list) list" where
  "group_rows key rows = foldl (\<lambda>gs r. add_to_group (key r) r gs) [] rows"

lemma add_to_group_keys: "fst ` set (add_to_group k r gs) = insert k (fst ` set gs)"
proof (induction gs)
  case (Cons g gs)
  then show ?case by (cases g) (simp add: insert_commute image_insert)
qed simp

lemma add_to_group_distinct: "distinct (map fst gs) \<Longrightarrow> distinct (map fst (add_to_group k r gs))"
proof (induction gs)
  case (Cons g gs)
  obtain k' rs where g: "g = (k', rs)" by (cases g)
  have "k' \<noteq> k \<Longrightarrow> k' \<notin> fst ` set (add_to_group k r gs)"
    using Cons.prems by (auto simp: g add_to_group_keys)
  then show ?case using Cons by (auto simp: g)
qed simp

lemma add_to_group_map_of:
  "map_of (add_to_group k r gs) k' =
     (if k' = k then Some (case map_of gs k of None \<Rightarrow> [r] | Some rs \<Rightarrow> rs @ [r]) else map_of gs k')"
proof (induction gs)
  case (Cons g gs)
  then show ?case by (cases g; cases "k' = k") auto
qed simp

lemma group_rows_snoc: "group_rows key (rs @ [r]) = add_to_group (key r) r (group_rows key rs)"
  by (simp add: group_rows_def)

lemma group_rows_distinct: "distinct (map fst (group_rows key rows))"
  by (induction rows rule: rev_induct) (simp_all add: group_rows_snoc add_to_group_distinct, simp add: group_rows_def)

text \<open>Every group holds exactly the rows of its key, in their order.\<close>

lemma group_rows_map_of:
  "map_of (group_rows key rows) k =
     (if filter (\<lambda>r. key r = k) rows = [] then None else Some (filter (\<lambda>r. key r = k) rows))"
proof (induction rows rule: rev_induct)
  case (snoc r rows)
  then show ?case
    by (cases "key r = k") (auto simp: group_rows_snoc add_to_group_map_of simp del: filter_empty_conv)
qed (simp add: group_rows_def)

lemma group_rows_mem:
  assumes "(k, g) \<in> set (group_rows key rows)"
  shows "g = filter (\<lambda>r. key r = k) rows \<and> g \<noteq> []"
proof -
  have "map_of (group_rows key rows) k = Some g"
    using assms group_rows_distinct [of key rows] by (rule map_of_is_SomeI [rotated])
  then show ?thesis
    unfolding group_rows_map_of by (metis option.distinct(1) option.inject)
qed

type_synonym scope_key = "string \<times> string \<times> string \<times> string"

definition or_default :: "string option \<Rightarrow> string \<Rightarrow> string" where
  "or_default t d = (if present t then the t else d)"

text \<open>\<open>_scope_key\<close>.\<close>

definition scope_key :: "string option \<Rightarrow> string option \<Rightarrow> string option \<Rightarrow> string option \<Rightarrow> scope_key" where
  "scope_key strategy version mode evidence =
     (or_default strategy ''UNKNOWN_STRATEGY'', or_default version ''UNKNOWN_VERSION'',
      or_default mode ''UNKNOWN_MODE'', or_default evidence ''EVIDENCE_CLASS_UNKNOWN'')"

subsection \<open>Along the order of closing\<close>

definition fee_coverage :: "reconciled_row list \<Rightarrow> string" where
  "fee_coverage rows =
     (let trusted = filter rr_trusted rows in
      if trusted = [] then ''UNKNOWN''
      else if list_all (\<lambda>r. present (rr_entry_fee_usd r) \<and> present (rr_exit_fee_usd r)) trusted
      then ''COMPLETE'' else ''PARTIAL'')"

definition close_key :: "reconciled_row \<Rightarrow> (int \<times> string) option" where
  "close_key r = (case parse_utc (text_of (rr_closed_at r)) of None \<Rightarrow> None | Some t \<Rightarrow> Some (t, rr_position_id r))"

definition path_ordered :: "reconciled_row list \<Rightarrow> reconciled_row list option" where
  "path_ordered rows =
     (if list_all (\<lambda>r. close_key r \<noteq> None) rows then Some (sort_key (\<lambda>r. the (close_key r)) rows) else None)"

text \<open>A status with an amount, or with a count.\<close>

datatype 'a measured = Known 'a | Unknown | Empty

definition row_pnl :: "reconciled_row \<Rightarrow> decimal res" where
  "row_pnl r = bindR (dec_col (rr_net_usd r)) (\<lambda>x. case x of None \<Rightarrow> Inl PyAssertionError | Some v \<Rightarrow> Inr v)"

text \<open>The loop of \<open>_drawdown\<close>: equity, its peak and the deepest fall so far.\<close>

fun drawdown_loop :: "reconciled_row list \<Rightarrow> decimal \<Rightarrow> decimal \<Rightarrow> decimal \<Rightarrow> decimal res" where
  "drawdown_loop [] equity peak max_dd = Inr max_dd"
| "drawdown_loop (r # rs) equity peak max_dd =
     bindR (row_pnl r) (\<lambda>pnl.
     bindR (dec_add equity pnl) (\<lambda>equity'.
     bindR (dec_lt peak equity') (\<lambda>higher.
     let peak' = (if higher then equity' else peak) in
     bindR (dec_sub peak' equity') (\<lambda>dd.
     bindR (dec_lt max_dd dd) (\<lambda>deeper.
       drawdown_loop rs equity' peak' (if deeper then dd else max_dd))))))"

definition drawdown :: "reconciled_row list \<Rightarrow> string measured res" where
  "drawdown rows =
     (if rows = [] then Inr Empty
      else case path_ordered rows of
        Some ordered \<Rightarrow>
          if list_all rr_trusted rows
          then bindR (drawdown_loop ordered dec_zero dec_zero dec_zero) (\<lambda>d. Inr (Known (dec_text d)))
          else Inr Unknown
      | None \<Rightarrow> Inr Unknown)"

text \<open>The loop of \<open>_loss_streak\<close>, from the last closing backwards.\<close>

fun streak_loop :: "reconciled_row list \<Rightarrow> nat \<Rightarrow> nat measured res" where
  "streak_loop [] streak = Inr (Known streak)"
| "streak_loop (r # rs) streak =
     (if \<not> rr_trusted r then Inr Unknown
      else bindR (row_pnl r) (\<lambda>pnl. bindR (dec_lt pnl dec_zero) (\<lambda>loss.
             if loss then streak_loop rs (Suc streak) else Inr (Known streak))))"

definition loss_streak :: "reconciled_row list \<Rightarrow> nat measured res" where
  "loss_streak rows =
     (if rows = [] then Inr (Known 0)
      else case path_ordered rows of None \<Rightarrow> Inr Unknown | Some ordered \<Rightarrow> streak_loop (rev ordered) 0)"

definition reconciled_status :: "reconciled_row list \<Rightarrow> string" where
  "reconciled_status rows =
     (if rows = [] then ''EMPTY''
      else if list_ex (\<lambda>r. rr_status r = ''ACCOUNTING_CONFLICT'') rows then ''ACCOUNTING_CONFLICT''
      else if list_all rr_trusted rows then ''KNOWN''
      else if list_ex rr_trusted rows then ''PARTIAL_UNKNOWN'' else ''UNKNOWN'')"

subsection \<open>Declared limits\<close>

text \<open>A strategy file: \<open>risk_policy.max_open_positions\<close>, or None when it is not declared.\<close>

record strategy_file =
  sf_strategy_id :: string
  sf_strategy_version :: string
  sf_max_open_positions :: "int option"

record risk_scope =
  rs_strategy_id :: "string option"
  rs_strategy_version :: "string option"
  rs_mode :: string
  rs_bot :: string
  rs_risk_count :: nat
  rs_max_open_positions :: "int option"
  rs_remaining_entry_slots :: "int option"
  rs_admission_status :: string
  rs_unresolved_or_exit_inventory :: bool
  rs_gap :: "string option"

definition limit_status :: "nat \<Rightarrow> int \<Rightarrow> string" where
  "limit_status count limit =
     (if limit < int count then ''DECLARED_ENTRY_LIMIT_BREACH''
      else if int count = limit then ''ENTRY_LIMIT_REACHED'' else ''WITHIN_DECLARED_ENTRY_LIMIT'')"

definition declared_risk_scope :: "bot \<Rightarrow> position list \<Rightarrow> strategy_file list \<Rightarrow> risk_scope" where
  "declared_risk_scope b positions files =
     (let version = version_label_from_bot b;
          count = length (filter (\<lambda>p. p_bot p = b_id b \<and> p_state p \<in> set OPEN_RISK_STATES) positions);
          matches = filter (\<lambda>f. sf_strategy_id f = b_strategy_id b \<and> Some (sf_strategy_version f) = version) files;
          unresolved = list_ex (\<lambda>p. p_bot p = b_id b \<and> p_state p \<in> {EXIT_REQUIRED, EXITING, UNRESOLVED}) positions;
          base = \<lparr>rs_strategy_id = (if b_strategy_id b = [] then None else Some (b_strategy_id b)),
                  rs_strategy_version = version, rs_mode = b_mode b, rs_bot = b_id b, rs_risk_count = count,
                  rs_max_open_positions = None, rs_remaining_entry_slots = None,
                  rs_admission_status = ''POLICY_UNKNOWN'', rs_unresolved_or_exit_inventory = unresolved,
                  rs_gap = None\<rparr>;
          limits = List.map_filter sf_max_open_positions matches
      in if b_strategy_id b = [] \<or> version = None \<or> matches = [] then base\<lparr>rs_gap := Some ''STRATEGY_POLICY_GAP''\<rparr>
         else if 1 < length matches \<and> 1 < card (set limits)
         then base\<lparr>rs_admission_status := ''STRATEGY_POLICY_CONFLICT'', rs_gap := Some ''STRATEGY_POLICY_CONFLICT''\<rparr>
         else case sf_max_open_positions (hd matches) of
           None \<Rightarrow> base\<lparr>rs_gap := Some ''STRATEGY_POLICY_GAP''\<rparr>
         | Some limit \<Rightarrow> base\<lparr>rs_max_open_positions := Some limit,
             rs_remaining_entry_slots := Some (limit - int count), rs_admission_status := limit_status count limit\<rparr>)"

subsection \<open>Exposure\<close>

record exposure_scope =
  xs_key :: "string \<times> string \<times> string"
  xs_usd :: "string option"
  xs_status :: string
  xs_known_count :: nat
  xs_unknown_count :: nat

definition exposure_key :: "(string \<Rightarrow> bot option) \<Rightarrow> position \<Rightarrow> string \<times> string \<times> string" where
  "exposure_key bots p =
     (let b = bots (p_bot p);
          version = (if present (p_strategy_version_label p) then the (p_strategy_version_label p)
             else (case b of None \<Rightarrow> ''UNKNOWN_VERSION''
                   | Some x \<Rightarrow> str_or_None (version_label_from_bot x)));
          mode = (case b of None \<Rightarrow> ''UNKNOWN_MODE''
                  | Some x \<Rightarrow> if b_mode x = [] then ''UNKNOWN_MODE'' else b_mode x);
          strategy = (if present (p_strategy_id p) then the (p_strategy_id p)
             else (case b of None \<Rightarrow> ''UNKNOWN_STRATEGY'' | Some x \<Rightarrow> b_strategy_id x))
      in (strategy, version, mode))"

fun exposure_sum :: "position list \<Rightarrow> decimal \<times> nat \<times> nat \<Rightarrow> (decimal \<times> nat \<times> nat) res" where
  "exposure_sum [] acc = Inr acc"
| "exposure_sum (p # ps) (known, n, m) =
     bindR (dec_col (p_entered_notional_usd_dec p)) (\<lambda>x.
       case x of None \<Rightarrow> exposure_sum ps (known, n, Suc m)
       | Some v \<Rightarrow> bindR (dec_add known v) (\<lambda>k. exposure_sum ps (k, Suc n, m)))"

definition exposure_status :: "nat \<Rightarrow> nat \<Rightarrow> string" where
  "exposure_status known unknown =
     (if known = 0 \<and> unknown = 0 then ''EMPTY'' else if known = 0 then ''UNKNOWN''
      else if 0 < unknown then ''PARTIAL_KNOWN'' else ''KNOWN'')"

definition exposure_scope_of :: "(string \<times> string \<times> string) \<times> position list \<Rightarrow> exposure_scope res" where
  "exposure_scope_of g =
     bindR (exposure_sum (snd g) (dec_zero, 0, 0)) (\<lambda>(usd, known, unknown).
       Inr \<lparr>xs_key = fst g, xs_usd = (if known = 0 then None else Some (dec_text usd)),
            xs_status = exposure_status known unknown, xs_known_count = known, xs_unknown_count = unknown\<rparr>)"

definition OPERATOR_SETTLED_STATES :: "pstate list" where
  "OPERATOR_SETTLED_STATES = [CLOSED, RECONCILED, CANCELLED]"

definition exposure_scopes :: "position list \<Rightarrow> (string \<Rightarrow> bot option) \<Rightarrow> exposure_scope list res" where
  "exposure_scopes positions bots =
     bindR (mapR exposure_scope_of (group_rows (exposure_key bots)
              (filter (\<lambda>p. p_state p \<notin> set OPERATOR_SETTLED_STATES) positions))) (\<lambda>scopes.
       Inr (if scopes = [] then [\<lparr>xs_key = ([], [], []), xs_usd = None, xs_status = ''EMPTY'', xs_known_count = 0,
                                   xs_unknown_count = 0\<rparr>] else scopes))"

end
