(* ===== verification/RiskCompose.thy ===== *)
theory RiskCompose
  imports RiskScopes
begin

section \<open>Risk economics: the composer\<close>

text \<open>
  \<open>compose_risk_economics\<close> of \<open>factory/risk_economics.py\<close> over a store: the rows of every
  position, grouped, measured and turned into a headline, gaps and a next action. The constant
  texts of the answer (schema, non-claims, the prose of an attention entry) are left out; every
  field that depends on the store is a field here.
\<close>

subsection \<open>Evidence state and next action\<close>

definition evidence_state :: "string \<Rightarrow> reconciled_row list \<Rightarrow> bool \<Rightarrow> bool \<Rightarrow> string" where
  "evidence_state source rows paper shadow =
     (if source = ''UNAVAILABLE'' then ''SOURCE_UNAVAILABLE''
      else if source \<in> {''NOT_PRESENT'', ''SOURCE_NOT_PRESENT''} then ''SOURCE_NOT_PRESENT''
      else if list_ex (\<lambda>r. rr_status r = ''ACCOUNTING_CONFLICT'') rows then ''ACCOUNTING_CONFLICT''
      else if rows = [] \<and> \<not> paper \<and> \<not> shadow then ''NO_ECONOMIC_EVIDENCE''
      else if list_ex (\<lambda>r. \<not> rr_trusted r) rows then ''PARTIAL_UNKNOWN''
      else if paper \<and> shadow then ''PAPER_AND_SHADOW_SEPARATE''
      else if paper then ''PAPER_MODEL_ONLY''
      else if shadow then ''SHADOW_MODEL_ONLY'' else ''UNKNOWN'')"

definition limit_breached :: "risk_scope list \<Rightarrow> bool" where
  "limit_breached scopes = list_ex (\<lambda>c. rs_admission_status c = ''DECLARED_ENTRY_LIMIT_BREACH'') scopes"

definition next_action :: "string \<Rightarrow> string \<Rightarrow> bool \<Rightarrow> risk_scope list \<Rightarrow> mark_view list \<Rightarrow> string" where
  "next_action source evidence mixed scopes marks =
     (if source \<in> {''NOT_PRESENT'', ''SOURCE_NOT_PRESENT'', ''UNAVAILABLE''} then ''WAIT_FOR_RECONCILED_EVIDENCE''
      else if evidence = ''ACCOUNTING_CONFLICT'' then ''INSPECT_ACCOUNTING_EVIDENCE''
      else if list_ex (\<lambda>m. mv_gap m \<in> Some ` set (''OPEN_MARK_COST_COMPONENT_GAP'' # RESIDUAL_COMPONENT_GAPS)) marks
      then ''INSPECT_POSITION_EVIDENCE''
      else if limit_breached scopes then ''INSPECT_OPERATIONS''
      else if evidence \<in> {''PARTIAL_UNKNOWN'', ''UNKNOWN''} then ''INSPECT_OPERATIONS''
      else if mixed then ''INSPECT_EVIDENCE_SCOPES''
      else if list_ex rs_unresolved_or_exit_inventory scopes then ''INSPECT_OPERATIONS''
      else ''WAIT_FOR_RECONCILED_EVIDENCE'')"

subsection \<open>Rows of a store\<close>

text \<open>\<open>SELECT * FROM positions ORDER BY opened_at\<close>: NULL first.\<close>

definition ordered_positions :: "store \<Rightarrow> position list" where
  "ordered_positions s = sort_key p_opened_at (st_positions s)"

definition ordered_bots :: "store \<Rightarrow> bot list" where
  "ordered_bots s = sort_key b_started_at (st_bots s)"

text \<open>The key of the sort: rows without an instant come last.\<close>

definition close_order :: "reconciled_row \<Rightarrow> bool \<times> int option \<times> string" where
  "close_order r = (let t = parse_utc (text_of (rr_closed_at r)) in (t = None, t, rr_position_id r))"

definition reconciled_rows :: "store \<Rightarrow> reconciled_row list res" where
  "reconciled_rows s =
     bindR (mapR (\<lambda>p. reconciled_row_of p (get_bot (p_bot p) s))
              (filter (\<lambda>p. p_state p = RECONCILED) (ordered_positions s))) (\<lambda>rows.
       Inr (sort_key close_order rows))"

definition MARK_STATES :: "pstate list" where
  "MARK_STATES = [OPEN, PARTIAL, UNKNOWN, EXIT_REQUIRED, EXITING, UNRESOLVED]"

definition mark_rows :: "store \<Rightarrow> string \<Rightarrow> mark_view list res" where
  "mark_rows s as_of =
     mapR (\<lambda>p. open_mark_row p (get_bot (p_bot p) s) as_of)
       (filter (\<lambda>p. p_state p \<notin> set OPERATOR_SETTLED_STATES \<and> p_state p \<in> set MARK_STATES) (ordered_positions s))"

definition partial_rows :: "store \<Rightarrow> partial_row list res" where
  "partial_rows s =
     bindR (mapR (\<lambda>p. partial_realized_row p (get_bot (p_bot p) s)) (ordered_positions s)) (\<lambda>rows.
       Inr (List.map_filter id rows))"

subsection \<open>Scopes\<close>

fun dec_sum :: "decimal option list \<Rightarrow> decimal \<Rightarrow> decimal res" where
  "dec_sum [] acc = Inr acc"
| "dec_sum (None # xs) acc = dec_sum xs acc"
| "dec_sum (Some x # xs) acc = bindR (dec_add acc x) (dec_sum xs)"

record reconciled_scope =
  sc_key :: scope_key
  sc_status :: string
  sc_total :: nat
  sc_known :: nat
  sc_unknown_or_conflict :: nat
  sc_net_usd :: "string option"
  sc_fee_coverage :: string
  sc_drawdown :: "string measured"
  sc_loss_streak :: "nat measured"
  sc_rows :: "reconciled_row list"

text \<open>The net of a scope is shown only when every row of it is trusted.\<close>

definition trusted_headline :: "string \<Rightarrow> decimal option list \<Rightarrow> string option res" where
  "trusted_headline status nets =
     (if status = ''KNOWN'' \<and> nets \<noteq> [] then bindR (dec_sum nets dec_zero) (\<lambda>d. Inr (Some (dec_text d)))
      else Inr None)"

definition reconciled_scope_of :: "scope_key \<times> reconciled_row list \<Rightarrow> reconciled_scope res" where
  "reconciled_scope_of g =
     (let rows = snd g in
      bindR (mapR (\<lambda>r. dec_col (rr_net_usd r)) (filter rr_trusted rows)) (\<lambda>nets.
      bindR (drawdown rows) (\<lambda>dd.
      bindR (loss_streak rows) (\<lambda>streak.
      bindR (trusted_headline (reconciled_status rows) nets) (\<lambda>net.
        Inr \<lparr>sc_key = fst g, sc_status = reconciled_status rows, sc_total = length rows,
             sc_known = length (filter rr_trusted rows),
             sc_unknown_or_conflict = length (filter (\<lambda>r. \<not> rr_trusted r) rows),
             sc_net_usd = net, sc_fee_coverage = fee_coverage rows, sc_drawdown = dd, sc_loss_streak = streak,
             sc_rows = rows\<rparr>)))))"

definition reconciled_scopes :: "reconciled_row list \<Rightarrow> reconciled_scope list res" where
  "reconciled_scopes rows =
     mapR reconciled_scope_of (group_rows (\<lambda>r. scope_key (rr_strategy_id r) (rr_strategy_version r)
        (Some (rr_mode r)) (Some (rr_evidence_class r))) rows)"

record mark_scope =
  ms_key :: scope_key
  ms_status :: string
  ms_count :: nat
  ms_known :: nat
  ms_unknown :: nat
  ms_net_usd :: "string option"
  ms_rows :: "mark_view list"

definition mark_status :: "nat \<Rightarrow> nat \<Rightarrow> string" where
  "mark_status known count =
     (if 0 < known \<and> known = count then ''KNOWN'' else if 0 < known then ''PARTIAL_UNKNOWN'' else ''UNKNOWN'')"

definition mark_scope_of :: "scope_key \<times> mark_view list \<Rightarrow> mark_scope res" where
  "mark_scope_of g =
     (let rows = snd g; known = filter (\<lambda>m. mv_status m = ''KNOWN'') rows;
          status = mark_status (length known) (length rows) in
      bindR (mapR (\<lambda>m. dec_col (mv_unrealized_net_usd m)) known) (\<lambda>nets.
      bindR (if status = ''KNOWN'' then bindR (dec_sum nets dec_zero) (\<lambda>d. Inr (Some (dec_text d))) else Inr None)
        (\<lambda>net. Inr \<lparr>ms_key = fst g, ms_status = status, ms_count = length rows, ms_known = length known,
                  ms_unknown = length rows - length known, ms_net_usd = net, ms_rows = rows\<rparr>)))"

definition mark_scopes :: "mark_view list \<Rightarrow> mark_scope list res" where
  "mark_scopes rows =
     mapR mark_scope_of (group_rows (\<lambda>m. scope_key (mv_strategy_id m) (mv_strategy_version m)
        (Some (mv_mode m)) (Some (mv_evidence_class m))) rows)"

subsection \<open>Headline\<close>

record headline =
  hl_net_usd :: "string option"
  hl_status :: string
  hl_evidence_class :: "string option"
  hl_mode :: "string option"

definition key_mode :: "scope_key \<Rightarrow> string" where
  "key_mode k = fst (snd (snd k))"

definition key_class :: "scope_key \<Rightarrow> string" where
  "key_class k = snd (snd (snd k))"

definition mixed_evidence :: "reconciled_scope list \<Rightarrow> bool" where
  "mixed_evidence scopes = (1 < length (remdups (map sc_key scopes)))"

definition headline_of :: "reconciled_scope list \<Rightarrow> headline" where
  "headline_of scopes =
     (let trusted = filter (\<lambda>c. sc_status c = ''KNOWN'' \<and> sc_net_usd c \<noteq> None) scopes in
      if mixed_evidence scopes
      then \<lparr>hl_net_usd = None, hl_status = ''MIXED_EVIDENCE_NOT_AGGREGATED'', hl_evidence_class = None, hl_mode = None\<rparr>
      else case trusted of
        [c] \<Rightarrow> \<lparr>hl_net_usd = sc_net_usd c, hl_status = ''KNOWN'', hl_evidence_class = Some (key_class (sc_key c)),
                hl_mode = Some (key_mode (sc_key c))\<rparr>
      | _ \<Rightarrow> \<lparr>hl_net_usd = None, hl_status = (case scopes of [] \<Rightarrow> ''EMPTY'' | [c] \<Rightarrow> sc_status c | _ \<Rightarrow> ''UNKNOWN''),
              hl_evidence_class = None, hl_mode = None\<rparr>)"

subsection \<open>Gaps\<close>

datatype gap_entry =
    ScopeGap string
  | PositionGap string string
  | ResidualGap string string string "string option" "string option" "string option" "string option"
  | BotGap string string

definition is_residual :: "string option \<Rightarrow> bool" where
  "is_residual g = (g \<in> Some ` set RESIDUAL_COMPONENT_GAPS)"

definition plain_gap :: "string \<Rightarrow> string option \<Rightarrow> gap_entry list" where
  "plain_gap pid g = (if present g \<and> \<not> is_residual g then [PositionGap (the g) pid] else [])"

text \<open>A residual gap is reported once per position: reconciled, then open, then partial rows.\<close>

definition residual_candidates ::
  "reconciled_row list \<Rightarrow> mark_view list \<Rightarrow> partial_row list \<Rightarrow> (string \<times> gap_entry) list" where
  "residual_candidates rows marks partials =
     map (\<lambda>r. (rr_position_id r, ResidualGap (the (rr_gap r)) (rr_position_id r) (rr_bot r) (rr_strategy_id r)
            (rr_strategy_version r) (rr_activation_epoch_id r) (Some (rr_mode r))))
       (filter (\<lambda>r. is_residual (rr_gap r)) rows) @
     map (\<lambda>m. (mv_position_id m, ResidualGap (the (mv_gap m)) (mv_position_id m) (mv_bot m) (mv_strategy_id m)
            (mv_strategy_version m) (mv_activation_epoch_id m) (Some (mv_mode m))))
       (filter (\<lambda>m. is_residual (mv_gap m)) marks) @
     map (\<lambda>p. (pr_position_id p, ResidualGap (the (pr_gap p)) (pr_position_id p) (pr_bot p) (pr_strategy_id p)
            (pr_strategy_version p) (pr_activation_epoch_id p) (pr_mode p)))
       (filter (\<lambda>p. is_residual (pr_gap p)) partials)"

fun first_of_each :: "string list \<Rightarrow> (string \<times> gap_entry) list \<Rightarrow> gap_entry list" where
  "first_of_each seen [] = []"
| "first_of_each seen ((pid, g) # xs) =
     (if pid \<in> set seen then first_of_each seen xs else g # first_of_each (pid # seen) xs)"

definition gaps_of ::
  "bool \<Rightarrow> reconciled_row list \<Rightarrow> mark_view list \<Rightarrow> partial_row list \<Rightarrow> risk_scope list \<Rightarrow> gap_entry list" where
  "gaps_of mixed rows marks partials scopes =
     (if mixed then [ScopeGap ''MIXED_EVIDENCE_NOT_AGGREGATED''] else []) @
     concat (map (\<lambda>r. plain_gap (rr_position_id r) (rr_gap r)) rows) @
     concat (map (\<lambda>m. plain_gap (mv_position_id m) (mv_gap m)) marks) @
     first_of_each [] (residual_candidates rows marks partials) @
     concat (map (\<lambda>c. case rs_gap c of None \<Rightarrow> [] | Some g \<Rightarrow> [BotGap g (rs_bot c)]) scopes)"

subsection \<open>compose_risk_economics\<close>

record coverage =
  cv_reconciled_total :: nat
  cv_reconciled_known :: nat
  cv_reconciled_unknown_or_conflict :: nat
  cv_open_marks :: nat
  cv_open_marks_known :: nat
  cv_open_marks_unknown :: nat

record risk_economics =
  re_as_of :: string
  re_source_status :: string
  re_evidence_state :: string
  re_coverage :: coverage
  re_reconciled_scopes :: "reconciled_scope list"
  re_open_mark_scopes :: "mark_scope list"
  re_partial_realized_rows :: "partial_row list"
  re_declared_risk_scopes :: "risk_scope list"
  re_exposure_scopes :: "exposure_scope list"
  re_gaps :: "gap_entry list"
  re_attention :: "string list"
  re_next_safe_action :: string
  re_headline :: headline
  re_mixed_evidence :: bool

definition empty_economics :: "string \<Rightarrow> string \<Rightarrow> risk_economics" where
  "empty_economics as_of status =
     (let absent = (if status \<in> {''NOT_PRESENT'', ''SOURCE_NOT_PRESENT''} then ''SOURCE_NOT_PRESENT''
                    else ''SOURCE_UNAVAILABLE'')
      in \<lparr>re_as_of = as_of, re_source_status = (if status \<noteq> ''NOT_PRESENT'' then status else ''SOURCE_NOT_PRESENT''),
          re_evidence_state = absent,
          re_coverage = \<lparr>cv_reconciled_total = 0, cv_reconciled_known = 0, cv_reconciled_unknown_or_conflict = 0,
            cv_open_marks = 0, cv_open_marks_known = 0, cv_open_marks_unknown = 0\<rparr>,
          re_reconciled_scopes = [], re_open_mark_scopes = [], re_partial_realized_rows = [],
          re_declared_risk_scopes = [], re_exposure_scopes = [], re_gaps = [ScopeGap absent], re_attention = [],
          re_next_safe_action = ''WAIT_FOR_RECONCILED_EVIDENCE'',
          re_headline = \<lparr>hl_net_usd = None, hl_status = absent, hl_evidence_class = None, hl_mode = None\<rparr>,
          re_mixed_evidence = False\<rparr>)"

definition coverage_of :: "reconciled_row list \<Rightarrow> mark_view list \<Rightarrow> coverage" where
  "coverage_of rows marks =
     \<lparr>cv_reconciled_total = length rows, cv_reconciled_known = length (filter rr_trusted rows),
      cv_reconciled_unknown_or_conflict = length (filter (\<lambda>r. \<not> rr_trusted r) rows),
      cv_open_marks = length marks, cv_open_marks_known = length (filter (\<lambda>m. mv_status m = ''KNOWN'') marks),
      cv_open_marks_unknown = length (filter (\<lambda>m. mv_status m \<noteq> ''KNOWN'') marks)\<rparr>"

definition mode_seen :: "string \<Rightarrow> reconciled_scope list \<Rightarrow> mark_scope list \<Rightarrow> bool" where
  "mode_seen mode scopes marks =
     (list_ex (\<lambda>c. key_mode (sc_key c) = mode) scopes \<or> list_ex (\<lambda>c. key_mode (ms_key c) = mode) marks)"

definition attention_of :: "bool \<Rightarrow> string \<Rightarrow> risk_scope list \<Rightarrow> string list" where
  "attention_of mixed evidence scopes =
     (if mixed then [''MIXED_EVIDENCE_NOT_AGGREGATED''] else []) @
     (if evidence = ''ACCOUNTING_CONFLICT'' then [''ACCOUNTING_INVARIANT_CONFLICT''] else []) @
     (if limit_breached scopes then [''DECLARED_ENTRY_LIMIT_BREACH''] else [])"

text \<open>The overrides after \<open>_next_action\<close>: a breached limit, then a residual gap.\<close>

definition final_action ::
  "string \<Rightarrow> bool \<Rightarrow> reconciled_row list \<Rightarrow> mark_view list \<Rightarrow> partial_row list \<Rightarrow> risk_scope list \<Rightarrow> string" where
  "final_action evidence mixed rows marks partials scopes =
     (if residual_candidates rows marks partials \<noteq> [] then ''INSPECT_POSITION_EVIDENCE''
      else if limit_breached scopes then ''INSPECT_OPERATIONS''
      else next_action ''PRESENT'' evidence mixed scopes marks)"

definition economics_of ::
  "string \<Rightarrow> reconciled_row list \<Rightarrow> mark_view list \<Rightarrow> partial_row list \<Rightarrow> reconciled_scope list \<Rightarrow> mark_scope list
   \<Rightarrow> risk_scope list \<Rightarrow> exposure_scope list \<Rightarrow> risk_economics" where
  "economics_of as_of rows marks partials rscopes mscopes dscopes xscopes =
     (let mixed = mixed_evidence rscopes;
          evidence = evidence_state ''PRESENT'' rows (mode_seen ''PAPER'' rscopes mscopes)
                       (mode_seen ''SHADOW'' rscopes mscopes)
      in \<lparr>re_as_of = as_of, re_source_status = ''PRESENT'', re_evidence_state = evidence,
          re_coverage = coverage_of rows marks, re_reconciled_scopes = rscopes, re_open_mark_scopes = mscopes,
          re_partial_realized_rows = partials, re_declared_risk_scopes = dscopes, re_exposure_scopes = xscopes,
          re_gaps = gaps_of mixed rows marks partials dscopes, re_attention = attention_of mixed evidence dscopes,
          re_next_safe_action = final_action evidence mixed rows marks partials dscopes,
          re_headline = headline_of rscopes, re_mixed_evidence = mixed\<rparr>)"

definition compose_risk_economics ::
  "strategy_file list \<Rightarrow> store option \<Rightarrow> string option \<Rightarrow> string option \<Rightarrow> string \<Rightarrow> risk_economics res" where
  "compose_risk_economics files source source_status as_of_given now =
     (let as_of = (if present as_of_given then the as_of_given else now) in
      case source of
        None \<Rightarrow> Inr (empty_economics as_of (if present source_status then the source_status else ''NOT_PRESENT''))
      | Some s \<Rightarrow>
          bindR (reconciled_rows s) (\<lambda>rows.
          bindR (mark_rows s as_of) (\<lambda>marks.
          bindR (partial_rows s) (\<lambda>partials.
          bindR (reconciled_scopes rows) (\<lambda>rscopes.
          bindR (mark_scopes marks) (\<lambda>mscopes.
          let positions = ordered_positions s;
              dscopes = map (\<lambda>b. declared_risk_scope b positions files) (ordered_bots s) in
          bindR (exposure_scopes positions (\<lambda>bid. get_bot bid s)) (\<lambda>xscopes.
            Inr (economics_of as_of rows marks partials rscopes mscopes dscopes xscopes))))))))"

end
