(* ===== verification/RiskClaims.thy ===== *)
theory RiskClaims
  imports RiskCompose
begin

section \<open>The projection agrees with the ledger\<close>

text \<open>
  What the paper plane books is what the projection reports: a booked exit and a booked final leg
  satisfy the accounting invariant and become trusted rows with the booked net, and a stored mark
  is the mark the projection derives.
\<close>

subsection \<open>Columns read by the projection\<close>

lemma dec_col_reads: "reads t x \<Longrightarrow> dec_col t = Inr (Some x)"
  using reads_present [of t x] reads_the [of t x] by (simp add: dec_col_def)

lemma dec_col_None [simp]: "dec_col None = Inr None"
  by (simp add: dec_col_def present_def)

lemma residual_reads:
  assumes "reads t x" and "0 \<le> dval x"
  shows "residual_component t legacy gap = Inr (Some x, None)"
proof -
  have fin: "dec_is_finite x" using reads_the [OF assms(1)] by simp
  obtain u where t: "t = Some u" using assms(1) by (auto simp: reads_def)
  show ?thesis
    using dec_col_reads [OF assms(1)] assms(2) fin dec_less_dval [OF fin dec_zero_facts(1)]
    by (simp add: residual_component_def t dec_zero_facts)
qed

lemma residual_legacy:
  assumes "reads t x"
  shows "residual_component None t gap = Inr (Some x, None)"
  using dec_col_reads [OF assms] by (simp add: residual_component_def)

lemma hashable_finite: "dec_is_finite x \<Longrightarrow> hashable (Some x)"
  by (cases x) (auto simp: hashable_def)

text \<open>The entry fee still carried by what remains: none recorded counts as nothing.\<close>

definition carried_fee :: "position \<Rightarrow> rat \<Rightarrow> bool" where
  "carried_fee p rf =
     (p_remaining_entry_fee_usd_dec p = None \<and> rf = 0 \<or>
      (\<exists>x. reads (p_remaining_entry_fee_usd_dec p) x \<and> 0 \<le> dval x \<and> - 2 \<le> dexp x \<and> \<bar>dval x\<bar> < 10 ^ 12
           \<and> dval x = rf))"

definition grid_column :: "string option \<Rightarrow> decimal \<Rightarrow> bool" where
  "grid_column t x = (reads t x \<and> - 2 \<le> dexp x \<and> \<bar>dval x\<bar> < 10 ^ 20)"

lemma carried_fee_cases:
  assumes "carried_fee p rf" and "grid_column (p_entry_fee_usd_dec p) f"
  obtains r e where "residual_component (p_remaining_entry_fee_usd_dec p) None ''REMAINING_ENTRY_FEE_INVALID'' = Inr (r, None)"
    and "(case (Some f, r) of (Some f, Some r) \<Rightarrow> bindR (dec_sub f r) (\<lambda>x. Inr (Some x)) | _ \<Rightarrow> Inr (Some f)) = Inr (Some e)"
    and "dec_is_finite e" and "- 2 \<le> dexp e" and "dval e = dval f - rf" and "\<bar>dval e\<bar> < 10 ^ 21"
proof -
  have f: "dec_is_finite f" "- 2 \<le> dexp f" "\<bar>dval f\<bar> < 10 ^ 20"
    using assms(2) reads_the by (auto simp: grid_column_def)
  show thesis
    using assms(1) unfolding carried_fee_def
  proof (elim disjE conjE exE)
    assume "p_remaining_entry_fee_usd_dec p = None" "rf = 0"
    then show thesis using that [of None f] f by (simp add: residual_component_def)
  next
    fix x assume x: "reads (p_remaining_entry_fee_usd_dec p) x" "0 \<le> dval x" "- 2 \<le> dexp x" "\<bar>dval x\<bar> < 10 ^ 12"
      "dval x = rf"
    have fin: "dec_is_finite x" using reads_the [OF x(1)] by simp
    have b: "\<bar>dval f - dval x\<bar> < 10 ^ 20 + 10 ^ 12" using f(3) x(4) by (intro abs_minus_less)
    then have "\<bar>dval f - dval x\<bar> < 10 powi (28 - 2)" by simp
    then obtain e where "dec_sub f x = Inr e" "dec_is_finite e" "dval e = dval f - dval x" "dexp e = min (dexp f) (dexp x)"
      using f x(3) fin by (elim dec_sub_exact [rotated 4]) auto
    then show thesis using that [of "Some x" e] residual_reads [OF x(1,2)] f(2) x(3,5) b by simp
  qed
qed

lemma accounting_holds:
  assumes "grid_column (p_realized_gross_pnl_usd_dec p) g" and "grid_column (p_entry_fee_usd_dec p) f"
    and "grid_column (p_exit_fee_usd_dec p) x" and "reads (p_realized_net_pnl_usd_dec p) n"
    and "carried_fee p rf" and "dval n = dval g - (dval f - rf) - dval x"
  shows "accounting_invariant p = Inr None"
proof -
  obtain r e where r: "residual_component (p_remaining_entry_fee_usd_dec p) None ''REMAINING_ENTRY_FEE_INVALID'' = Inr (r, None)"
    and e: "(case (Some f, r) of (Some f, Some r) \<Rightarrow> bindR (dec_sub f r) (\<lambda>x. Inr (Some x)) | _ \<Rightarrow> Inr (Some f)) = Inr (Some e)"
    and ef: "dec_is_finite e" "- 2 \<le> dexp e" "dval e = dval f - rf" "\<bar>dval e\<bar> < 10 ^ 21"
    using assms(5,2) by (rule carried_fee_cases)
  have fin: "dec_is_finite g" "dec_is_finite x" "dec_is_finite n"
    and grid: "- 2 \<le> dexp g" "- 2 \<le> dexp x" "\<bar>dval g\<bar> < 10 ^ 20" "\<bar>dval x\<bar> < 10 ^ 20"
    using assms(1,3,4) reads_the by (auto simp: grid_column_def)
  have col: "dec_col (p_realized_gross_pnl_usd_dec p) = Inr (Some g)" "dec_col (p_entry_fee_usd_dec p) = Inr (Some f)"
    "dec_col (p_exit_fee_usd_dec p) = Inr (Some x)" "dec_col (p_realized_net_pnl_usd_dec p) = Inr (Some n)"
    using assms(1-4) dec_col_reads by (auto simp: grid_column_def)
  have "\<bar>dval g - dval e\<bar> < 10 ^ 20 + 10 ^ 21" using grid(3) ef(4) by (intro abs_minus_less)
  then have b: "\<bar>dval g - dval e\<bar> < 10 ^ 22" by simp
  then have "\<bar>dval g - dval e\<bar> < 10 powi (28 - 2)" by simp
  then obtain d where d: "dec_sub g e = Inr d" "dec_is_finite d" "dval d = dval g - dval e" "dexp d = min (dexp g) (dexp e)"
    using fin(1) ef(1,2) grid(1) by (elim dec_sub_exact [rotated 4]) auto
  have "\<bar>dval d - dval x\<bar> < 10 ^ 22 + 10 ^ 20" using b grid(4) d(3) by (intro abs_minus_less) simp_all
  then have "\<bar>dval d - dval x\<bar> < 10 powi (28 - 2)" by simp
  then obtain d' where d': "dec_sub d x = Inr d'" "dec_is_finite d'" "dval d' = dval d - dval x" "dexp d' = min (dexp d) (dexp x)"
    using fin(2) d ef(2) grid(1,2) by (elim dec_sub_exact [rotated 4]) auto
  have "- 2 \<le> dexp d'" "\<bar>dval d'\<bar> < 10 powi (28 + (- 2))"
    using d'(3,4) d(4) ef(2) grid(1,2) \<open>\<bar>dval d - dval x\<bar> < 10 powi (28 - 2)\<close> by simp_all
  then obtain y where y: "cents d' = Inr y" "dec_is_finite y" "dval y = dval d'"
    using d'(2) by (elim dec_quantize_defined [rotated 2]) (auto simp: cents_def)
  have "py_dec_eq y n = Inr True"
    using y fin(3) dec_eq_dval [OF y(2) fin(3)] d'(3) d(3) ef(3) assms(6) by simp
  moreover have "hashable (Some g)" "hashable (Some e)" "hashable (Some x)" "hashable (Some n)"
    using fin ef(1) hashable_finite by auto
  ultimately show ?thesis
    using e by (simp add: accounting_invariant_def col r d(1) d'(1) y(1))
qed

subsection \<open>A trusted row\<close>

definition readable_notionals :: "position \<Rightarrow> bool" where
  "readable_notionals p =
     ((\<exists>x. reads (p_entered_notional_usd_dec p) x) \<and> (\<exists>x. reads (p_exit_notional_usd_dec p) x))"

lemma reconciled_row_trusted:
  assumes "accounting_invariant p = Inr None" and "p_pnl_evidence_class p = Some (evidence_class m)"
    and "remaining_money p = Inr (c, fe, None)" and "readable_notionals p"
    and "reads (p_realized_gross_pnl_usd_dec p) g" and "reads (p_entry_fee_usd_dec p) f"
    and "reads (p_exit_fee_usd_dec p) x" and "reads (p_realized_net_pnl_usd_dec p) n"
  shows "\<exists>r. reconciled_row_of p b = Inr r \<and> rr_trusted r \<and> rr_status r = ''KNOWN'' \<and> rr_gap r = None
    \<and> rr_net_usd r = Some (dec_text n)"
proof -
  have "evidence_class m \<in> set ACCEPTED_RECONCILED_CLASSES"
    by (simp add: evidence_class_def ACCEPTED_RECONCILED_CLASSES_def)
  then have v: "reconciled_verdict None (evidence_class m) None (Some n) = (''KNOWN'', True, None, Some n)"
    by (simp add: reconciled_verdict_def)
  obtain n1 n2 where "reads (p_entered_notional_usd_dec p) n1" "reads (p_exit_notional_usd_dec p) n2"
    using assms(4) by (auto simp: readable_notionals_def)
  then show ?thesis
    using assms(1-3) v by (simp add: reconciled_row_of_def text_of_def dec_col_reads [OF assms(5)] dec_col_reads [OF assms(6)]
        dec_col_reads [OF assms(7)] dec_col_reads [OF assms(8)] dec_col_reads money_def)
qed

subsection \<open>A booked exit\<close>

text \<open>Passing through the states of an exit changes nothing but state and closing time.\<close>

definition restated :: "position \<Rightarrow> position \<Rightarrow> bool" where
  "restated p r = (\<exists>st c. r = p\<lparr>p_state := st, p_closed_at := c\<rparr>)"

lemma restated_refl: "restated p p"
  unfolding restated_def by (intro exI [of _ "p_state p"] exI [of _ "p_closed_at p"]) simp

lemma restated_trans:
  assumes "restated p q" and "restated q r"
  shows "restated p r"
proof -
  obtain st c st' c' where q: "q = p\<lparr>p_state := st, p_closed_at := c\<rparr>" and r: "r = q\<lparr>p_state := st', p_closed_at := c'\<rparr>"
    using assms by (auto simp: restated_def)
  have "r = p\<lparr>p_state := st', p_closed_at := c'\<rparr>" by (simp add: r q)
  then show ?thesis unfolding restated_def by blast
qed

lemma transition_restated:
  assumes "transition pid t s = Inr (r', s')" and "get_position pid s = Some r"
  shows "restated r r' \<and> get_position pid s' = Some r'"
  using assms(1)
proof (rule transition_result)
  fix q
  assume "get_position pid s = Some q" "r' = set_state t (now_of s) q" "get_position pid s' = Some r'"
  moreover have "restated q (set_state t (now_of s) q)"
    unfolding restated_def set_state_def by (intro exI) (rule refl)
  ultimately show ?thesis using assms(2) by simp
qed

lemma advance_restated:
  assumes "advance_to_exiting pid p s = Inr (r, s')" and "get_position pid s = Some p"
  shows "restated p r \<and> get_position pid s' = Some r"
proof -
  obtain r1 s1 where 1: "(if p_state p \<in> {OPEN, PARTIAL, UNKNOWN} then transition pid EXIT_REQUIRED s
      else Inr (p, s)) = Inr (r1, s1)"
    and 2: "(if p_state r1 = EXIT_REQUIRED then transition pid EXITING s1 else Inr (r1, s1)) = Inr (r, s')"
    using assms(1) unfolding advance_to_exiting_def by (auto simp: bindR_eq_Inr)
  have "restated p r1 \<and> get_position pid s1 = Some r1"
    using 1 assms(2) transition_restated [of pid EXIT_REQUIRED s r1 s1 p] by (auto simp: restated_refl split: if_splits)
  then show ?thesis
    using 2 transition_restated [of pid EXITING s1 r s' r1] by (auto intro: restated_trans split: if_splits)
qed

lemma reconcile_states_restated:
  assumes "reconcile_states pid p s = Inr (p1, s')" and "get_position pid s = Some p"
  shows "\<exists>r. get_position pid s' = Some r \<and> restated p r"
proof (cases "p_state p \<in> {UNRESOLVED, CLOSED}")
  case True
  then obtain r where "transition pid RECONCILED s = Inr (r, s')"
    using assms(1) by (auto simp: reconcile_states_def bindR_eq_Inr)
  then show ?thesis using transition_restated [OF _ assms(2)] by blast
next
  case False
  then obtain q s1 s2 row where a: "advance_to_exiting pid p s = Inr (q, s1)"
    and c: "(if p_state q = EXITING then bindR (transition pid CLOSED s1) (\<lambda>(_, s2). Inr s2) else Inr s1) = Inr s2"
    and g: "get_position pid s2 = Some row"
    and f: "(if p_state row = CLOSED then bindR (transition pid RECONCILED s2) (\<lambda>(_, s3). Inr (q, s3))
             else Inr (q, s2)) = Inr (p1, s')"
    using assms(1) by (auto simp: reconcile_states_def bindR_eq_Inr case_option_Inl_eq_Inr)
  have q: "restated p q" "get_position pid s1 = Some q" using advance_restated [OF a assms(2)] by auto
  have row: "restated p row"
  proof (cases "p_state q = EXITING")
    case True
    then obtain u where "transition pid CLOSED s1 = Inr (u, s2)" using c by (auto simp: bindR_eq_Inr)
    from transition_restated [OF this q(2)] show ?thesis using q(1) g restated_trans by auto
  next
    case False
    then show ?thesis using c q g by simp
  qed
  show ?thesis
  proof (cases "p_state row = CLOSED")
    case True
    then obtain u where "transition pid RECONCILED s2 = Inr (u, s')" using f by (auto simp: bindR_eq_Inr)
    from transition_restated [OF this g] show ?thesis using row restated_trans by auto
  next
    case False
    then show ?thesis using f g row by simp
  qed
qed

lemma reconcile_exit_restated:
  assumes "reconcile_exit pid mode unit_price position s = Inr (r', s')"
    and "get_position pid s = Some position"
  obtains a r1 now where "exit_fill_amounts position unit_price = Inr a" and "r' = set_exit a mode now r1"
    and "restated position r1"
proof (rule reconcile_exit_result [OF assms(1)])
  fix a p1 s1 e1 s3 e2 pl1 pl2
  assume a: "exit_fill_amounts position unit_price = Inr a"
    and st: "reconcile_states pid position s = Inr (p1, s1)"
    and e1: "append_execution_event
           (if mode = ''PAPER'' then ''PAPER_EXIT_OBSERVED'' else ''SHADOW_EXIT_EXECUTABLE_OBSERVED'')
           (Some (p_bot p1)) (Some pid) pl1 None None
           (upd_position pid (set_exit a mode (now_of s1)) (tick s1)) = Inr (e1, s3)"
    and e2: "append_execution_event ''RECONCILIATION'' (Some (p_bot p1)) (Some pid) pl2 None None s3 = Inr (e2, s')"
    and g: "get_position pid s' = Some r'"
  obtain r1 where r1: "get_position pid s1 = Some r1" "restated position r1"
    using reconcile_states_restated [OF st assms(2)] by blast
  have "get_position pid (upd_position pid (set_exit a mode (now_of s1)) (tick s1))
      = Some (set_exit a mode (now_of s1) r1)"
    by (rule get_after_upd) (simp_all add: set_exit_def r1(1))
  then have "r' = set_exit a mode (now_of s1) r1" using g e1 e2 by simp
  then show thesis using that [OF a _ r1(2)] by blast
qed

lemma exit_bound: "\<bar>x\<bar> < 10 ^ 8 \<Longrightarrow> \<bar>x :: rat\<bar> < 10 ^ 20"
  by simp

text \<open>C19: what an exit fill books is what the risk projection trusts: the row of a position just reconciled
  satisfies the accounting invariant, whatever its bot, and is reported KNOWN, without a gap, with
  exactly the net profit that was stored.\<close>

theorem booked_exit_is_trusted:
  assumes "apply_paper_exit_fill pid (Some price) mode False s = Inr (row, s')"
    and "get_position pid s = Some p" and "p_remaining_qty_dec p = None"
    and "p_state p \<in> {OPEN, PARTIAL, UNKNOWN, EXIT_REQUIRED, EXITING, UNRESOLVED, CLOSED}"
    and "exit_inputs p price pr q n f"
    and "p_remaining_cost_basis_usd_dec p = None" and "p_remaining_entry_fee_usd_dec p = None"
  shows "\<exists>r ne. reconciled_row_of row b = Inr r \<and> rr_trusted r \<and> rr_status r = ''KNOWN'' \<and> rr_gap r = None
    \<and> reads (p_realized_net_pnl_usd_dec row) ne \<and> rr_net_usd r = Some (dec_text ne)"
proof -
  have "reconcile_exit pid mode price p s = Inr (row, s')"
    using assms(1) by (rule exit_fill_result) (use assms(2,3) in auto)
  then obtain a r1 now where a: "exit_fill_amounts p price = Inr a" and row: "row = set_exit a mode now r1"
    and p: "restated p r1"
    using assms(2) by (rule reconcile_exit_restated)
  note v = exit_fill_amounts_value [OF a assms(5)]
  have inp: "reads (p_entered_notional_usd_dec p) n" "reads (p_entry_fee_usd_dec p) f" "- 2 \<le> dexp f" "\<bar>dval f\<bar> < 10 ^ 8"
    using assms(5) by (simp_all add: exit_inputs_def)
  have kept: "p_entry_fee_usd_dec r1 = p_entry_fee_usd_dec p" "p_remaining_entry_fee_usd_dec r1 = None"
    "p_entered_notional_usd_dec r1 = p_entered_notional_usd_dec p" "p_remaining_cost_basis_usd_dec r1 = None"
    using p assms(6,7) by (auto simp: restated_def)
  have n: "coalesce (p_entered_notional_usd_dec p) d = p_entered_notional_usd_dec p" for d
    using inp(1) by (auto simp: reads_def coalesce_def)
  have cols: "grid_column (p_realized_gross_pnl_usd_dec row) (dec_plain (xa_gross a))"
    "grid_column (p_entry_fee_usd_dec row) f" "grid_column (p_exit_fee_usd_dec row) (dec_plain (xa_fee a))"
    "reads (p_realized_net_pnl_usd_dec row) (dec_plain (xa_net a))" "carried_fee row 0"
    using v(8-15) inp by (simp_all add: row set_exit_def grid_column_def reads_dec_text dval_dec_plain dexp_dec_plain
        carried_fee_def kept exit_bound)
  have "accounting_invariant row = Inr None"
    by (rule accounting_holds [OF cols]) (simp add: v(4) dval_dec_plain)
  moreover have "remaining_money row = Inr (Some n, Some f, None)"
    using inp by (simp add: remaining_money_def row set_exit_def kept n residual_legacy or_gap_def)
  moreover have "readable_notionals row"
    using inp(1) reads_dec_text [OF v(7)] by (auto simp: readable_notionals_def row set_exit_def kept n)
  moreover have "p_pnl_evidence_class row = Some (evidence_class mode)" by (simp add: row set_exit_def)
  ultimately show ?thesis
    using reconciled_row_trusted [of row mode "Some n" "Some f"] cols by (metis grid_column_def)
qed

lemma booked_exit_is_trusted_witness:
  "\<exists>row s' r ne. apply_paper_exit_fill ''POS-1'' (Some ''0.60'') ''PAPER'' False (demo_store demo_open) = Inr (row, s')
      \<and> reconciled_row_of row (Some demo_bot) = Inr r \<and> rr_trusted r
      \<and> reads (p_realized_net_pnl_usd_dec row) ne \<and> rr_net_usd r = Some (dec_text ne)"
proof -
  obtain row s' where r: "apply_paper_exit_fill ''POS-1'' (Some ''0.60'') ''PAPER'' False (demo_store demo_open)
      = Inr (row, s')" using demo_exit_returns by blast
  have g: "get_position ''POS-1'' (demo_store demo_open) = Some demo_open"
    by (simp add: get_position_def demo_store_def)
  have "p_remaining_cost_basis_usd_dec demo_open = None" "p_remaining_entry_fee_usd_dec demo_open = None"
    by (simp_all add: demo_open_def blank_position_def)
  then show ?thesis using booked_exit_is_trusted [OF r g _ _ demo_exit_inputs, where b = "Some demo_bot"] r by auto
qed

subsection \<open>A booked final leg\<close>

lemma residual_text_Inr:
  assumes "residual_component (Some t) legacy gap = Inr (x, None)" and "reads (Some t) y"
  shows "x = Some y \<and> 0 \<le> dval y"
proof -
  have y: "dec_is_finite y" "dec_col (Some t) = Inr (Some y)" using assms(2) reads_the dec_col_reads by auto
  then show ?thesis
    using assms(1) dec_less_dval [OF y(1) dec_zero_facts(1)]
    by (auto simp: residual_component_def split: if_splits)
qed

lemma remaining_money_Inr:
  assumes "remaining_money p = Inr (c, fe, None)"
  shows "residual_component (p_remaining_entry_fee_usd_dec p) (p_entry_fee_usd_dec p) ''REMAINING_ENTRY_FEE_INVALID''
    = Inr (fe, None)"
  using assms by (auto simp: remaining_money_def bindR_eq_Inr or_gap_def split: option.splits)

text \<open>The last leg of a position is trusted too: when the residual columns it leaves are valid, the
  reconciled row satisfies the accounting invariant with the entry fee released by all legs, and the
  projection reports exactly the stored net.\<close>

theorem final_leg_is_trusted:
  assumes "apply_quantity_exit_fill pid mode sold rem price sem observed_at leg_id s = Inr (row, s')"
    and "find_event leg_id s = None" and "get_position pid s = Some p"
    and "leg_of_text sold rem price sem = Inr l" and "leg_inputs p l original n f pe pf"
    and "dval (l_remaining l) = 0" and "remaining_money row = Inr (c, fe, None)"
  shows "\<exists>r ne. reconciled_row_of row b = Inr r \<and> rr_trusted r \<and> rr_status r = ''KNOWN'' \<and> rr_gap r = None
    \<and> reads (p_realized_net_pnl_usd_dec row) ne \<and> rr_net_usd r = Some (dec_text ne)"
  using assms(1-3)
proof (rule new_leg)
  fix l' bt
  assume l': "leg_of_text sold rem price sem = Inr l'"
    and b: "book_leg pid l' mode observed_at leg_id p bt s = Inr (row, s')"
  have l: "l' = l" using l' assms(4) by simp
  note lv = leg_of_text_values [OF assms(4)]
  from b [unfolded l] assms(3) obtain o2 a where q: "leg_quantity p l = Inr o2"
    and am: "leg_amounts_of p l o2 = Inr a" and row: "row = set_leg l a mode observed_at p"
    by (rule book_leg_row)
  have oo: "o2 = original" and pos: "0 < dval original"
    using leg_original [OF q assms(5)] by simp_all
  note v = leg_amounts_value [OF am [unfolded oo] assms(5) lv(6,7,8,10) pos]
  have inp: "reads (p_entered_notional_usd_dec p) n" "reads (p_entry_fee_usd_dec p) f" "- 2 \<le> dexp f" "\<bar>dval f\<bar> < 10 ^ 8"
    using assms(5) by (simp_all add: leg_inputs_def)
  have final: "is_zero (l_remaining l)" using is_zero_dval [OF lv(7)] assms(6) by simp
  have fee: "reads (p_remaining_entry_fee_usd_dec row) (dec_plain (la_remaining_fee a))"
    using reads_dec_text [OF v(5)] by (simp add: row set_leg_def Let_def)
  have "residual_component (Some (dec_text (la_remaining_fee a))) (p_entry_fee_usd_dec row) ''REMAINING_ENTRY_FEE_INVALID''
      = Inr (fe, None)"
    using remaining_money_Inr [OF assms(7)] by (simp add: row set_leg_def Let_def)
  then have "0 \<le> dval (la_remaining_fee a)"
    using residual_text_Inr [OF _ reads_dec_text [OF v(5)]] by (metis dval_dec_plain)
  then have carried: "carried_fee row (dval (la_remaining_fee a))"
    using fee v(11,14) by (auto simp: carried_fee_def dval_dec_plain dexp_dec_plain)
  have cols: "grid_column (p_realized_gross_pnl_usd_dec row) (dec_plain (la_gross a))"
    "grid_column (p_entry_fee_usd_dec row) f" "grid_column (p_exit_fee_usd_dec row) (dec_plain (la_exit_fee a))"
    "reads (p_realized_net_pnl_usd_dec row) (dec_plain (la_net a))"
    using v(3,4,6,9,10,12,13,15) inp
    by (simp_all add: row set_leg_def Let_def grid_column_def reads_dec_text dval_dec_plain dexp_dec_plain exit_bound)
  have "accounting_invariant row = Inr None"
    by (rule accounting_holds [OF cols carried]) (simp add: v(2) dval_dec_plain)
  moreover have "readable_notionals row"
    using inp(1) reads_dec_text [OF v(7)] by (auto simp: readable_notionals_def row set_leg_def Let_def)
  moreover have "p_pnl_evidence_class row = Some (evidence_class mode)" by (simp add: row set_leg_def Let_def final)
  ultimately show ?thesis
    using reconciled_row_trusted [of row mode c fe] assms(7) cols by (metis grid_column_def)
qed

lemma demo_final_text: "leg_of_text ''200'' ''0'' ''0.60'' ''SEPARATE_MODELED_FEE'' =
    Inr \<lparr>l_sold = Fin False 200 0, l_remaining = Fin False 0 0, l_price = Fin False 60 (-2),
         l_semantics = ''SEPARATE_MODELED_FEE''\<rparr>"
  by (simp add: leg_of_text_def positive_model_decimal_def FEE_SEMANTICS_def dec_eval)

lemma demo_final_amounts: "\<exists>a. leg_amounts_of demo_holding \<lparr>l_sold = Fin False 200 0,
     l_remaining = Fin False 0 0, l_price = Fin False 60 (-2), l_semantics = ''SEPARATE_MODELED_FEE''\<rparr>
     (Fin False 20000000000 (-8)) = Inr a \<and> la_remaining_cost a = Fin False 0 8 \<and> la_remaining_fee a = Fin False 0 (-2)"
  by (simp add: leg_amounts_of_def positive_model_decimal_def str_or_None_def text_or_def dec_eval)

lemma demo_final_quantity: "leg_quantity demo_holding \<lparr>l_sold = Fin False 200 0, l_remaining = Fin False 0 0,
     l_price = Fin False 60 (-2), l_semantics = ''SEPARATE_MODELED_FEE''\<rparr> = Inr (Fin False 20000000000 (-8))"
  by (simp add: leg_quantity_def positive_model_decimal_def str_or_None_def dec_eval)

lemma demo_final_leg_returns:
  "\<exists>r s'. apply_quantity_exit_fill ''POS-1'' ''PAPER'' ''200'' ''0'' ''0.60'' ''SEPARATE_MODELED_FEE''
     ''2026-01-02T00:00:00Z'' ''LEG-1'' (demo_store demo_holding) = Inr (r, s')
     \<and> p_remaining_cost_basis_usd_dec r = Some ''0'' \<and> p_remaining_entry_fee_usd_dec r = Some ''0.00''"
proof -
  obtain a where "leg_amounts_of demo_holding \<lparr>l_sold = Fin False 200 0,
     l_remaining = Fin False 0 0, l_price = Fin False 60 (-2), l_semantics = ''SEPARATE_MODELED_FEE''\<rparr>
     (Fin False 20000000000 (-8)) = Inr a" "la_remaining_cost a = Fin False 0 8" "la_remaining_fee a = Fin False 0 (-2)"
    using demo_final_amounts by blast
  then show ?thesis
    apply (simp add: apply_quantity_exit_fill_def demo_final_text book_leg_def demo_final_quantity demo_store_def demo_bot_def
        store_eval LEG_STATES_def set_leg_def Let_def del: dict_with_simps)
    apply (simp add: dec_eval)
    done
qed

lemma final_leg_is_trusted_witness:
  "\<exists>row s' r ne. apply_quantity_exit_fill ''POS-1'' ''PAPER'' ''200'' ''0'' ''0.60'' ''SEPARATE_MODELED_FEE''
      ''2026-01-02T00:00:00Z'' ''LEG-1'' (demo_store demo_holding) = Inr (row, s')
    \<and> reconciled_row_of row (Some demo_bot) = Inr r \<and> rr_trusted r
    \<and> reads (p_realized_net_pnl_usd_dec row) ne \<and> rr_net_usd r = Some (dec_text ne)"
proof -
  obtain row s' where r: "apply_quantity_exit_fill ''POS-1'' ''PAPER'' ''200'' ''0'' ''0.60'' ''SEPARATE_MODELED_FEE''
      ''2026-01-02T00:00:00Z'' ''LEG-1'' (demo_store demo_holding) = Inr (row, s')"
    and c: "p_remaining_cost_basis_usd_dec row = Some ''0''" "p_remaining_entry_fee_usd_dec row = Some ''0.00''"
    using demo_final_leg_returns by blast
  have m: "remaining_money row = Inr (Some (Fin False 0 0), Some (Fin False 0 (-2)), None)"
    by (simp add: remaining_money_def c residual_component_def dec_col_def present_def or_gap_def dec_eval)
  have inp: "leg_inputs demo_holding \<lparr>l_sold = Fin False 200 0, l_remaining = Fin False 0 0,
       l_price = Fin False 60 (-2), l_semantics = ''SEPARATE_MODELED_FEE''\<rparr>
     (Fin False 20000000000 (-8)) (Fin False 100 0) (Fin False 25 (-2)) (Fin False 0 0) (Fin False 0 0)"
    by (simp add: leg_inputs_def reads_def text_or_def dec_eval power_int_def power_divide)
  have "dval (Fin False 0 0) = 0" by (simp add: signed_def)
  then show ?thesis
    using final_leg_is_trusted [OF r demo_leg_new demo_final_text inp _ m, where b = "Some demo_bot"] r by auto
qed

subsection \<open>A recorded mark\<close>

text \<open>A residual column and its legacy column, as both sides read them.\<close>

definition reads_residual :: "string option \<Rightarrow> string option \<Rightarrow> decimal \<Rightarrow> bool" where
  "reads_residual remaining original x =
     (reads (remaining_or remaining original) x \<and> (remaining = None \<or> 0 \<le> dval x))"

lemma reads_residual_component:
  "reads_residual t legacy x \<Longrightarrow> residual_component t legacy gap = Inr (Some x, None)"
  using residual_reads [of t x legacy gap] residual_legacy [of legacy x gap]
  by (cases t) (auto simp: reads_residual_def remaining_or_def)

definition mark_inputs :: "position \<Rightarrow> string \<Rightarrow> decimal \<Rightarrow> decimal \<Rightarrow> decimal \<Rightarrow> decimal \<Rightarrow> int \<Rightarrow> bool" where
  "mark_inputs p price m q c f bps =
     (reads (Some price) m \<and> reads_residual (p_remaining_qty_dec p) (p_qty_dec p) q
      \<and> reads_residual (p_remaining_cost_basis_usd_dec p) (p_entered_notional_usd_dec p) c
      \<and> reads_residual (p_remaining_entry_fee_usd_dec p) (p_entry_fee_usd_dec p) f
      \<and> p_fee_bps p = Some bps \<and> present (p_entry_price_dec p) \<and> present (p_qty_dec p)
      \<and> p_entered_notional_usd_dec p \<noteq> None)"

lemma mark_unrealized_inputs:
  assumes "mark_inputs p price m q c f bps"
  shows "mark_unrealized p price = bindR (modeled_unrealized_mark m q c f bps) (\<lambda>d.
    Inr (Some (dec_text (k_unrealized_gross d)), Some (dec_text (k_unrealized_net d))))"
proof -
  have i: "reads (Some price) m" "reads (remaining_or (p_remaining_qty_dec p) (p_qty_dec p)) q"
    "reads (remaining_or (p_remaining_cost_basis_usd_dec p) (p_entered_notional_usd_dec p)) c"
    "reads (remaining_or (p_remaining_entry_fee_usd_dec p) (p_entry_fee_usd_dec p)) f"
    using assms by (simp_all add: mark_inputs_def reads_residual_def)
  note r = reads_the [OF i(1), unfolded option.sel] reads_str [OF i(2)] reads_str [OF i(3)] reads_present [OF i(4)] reads_the [OF i(4)]
  show ?thesis using assms by (simp add: mark_unrealized_def r mark_inputs_def)
qed

lemma tick_marks: "st_marks (tick (tick s)) = st_marks s"
  by (simp add: tick_def)

lemma recorded_mark_row:
  assumes "record_position_mark pid (Some price) as_of e s = Inr (mid, s')"
    and "get_position pid s = Some p" and "mark_inputs p price m q c f bps" and "e \<noteq> ''UNKNOWN''"
  obtains d row where "modeled_unrealized_mark m q c f bps = Inr d"
    and "row = set_mark (Some price) as_of (Some (dec_text (k_unrealized_gross d)))
        (Some (dec_text (k_unrealized_net d))) e p" and "get_position pid s' = Some row"
proof -
  define s3 where "s3 = (tick (tick s))\<lparr>st_marks := st_marks s @ [\<lparr>m_id = ''MARK-'' @ hex_of 12 s, m_position = pid,
      m_price_dec = Some price, m_as_of = as_of, m_evidence_class = e, m_created_at = now_of (tick s)\<rparr>]\<rparr>"
  have g3: "get_position pid s3 = Some p" using assms(2) by (simp add: s3_def get_position_def tick_def)
  have "present (p_entry_price_dec p)" "present (p_qty_dec p)" "p_entered_notional_usd_dec p \<noteq> None"
    using assms(3) by (simp_all add: mark_inputs_def)
  then obtain d where d: "modeled_unrealized_mark m q c f bps = Inr d"
    and s': "s' = upd_position pid (set_mark (Some price) as_of (Some (dec_text (k_unrealized_gross d)))
        (Some (dec_text (k_unrealized_net d))) e) s3"
    using assms(1,4) g3 unfolding record_position_mark_def Let_def tick_marks s3_def
    by (auto simp: result_simps mark_unrealized_inputs [OF assms(3)])
  show thesis
    by (rule that [OF d refl]) (unfold s', rule get_after_upd, simp_all add: set_mark_def g3)
qed

lemma unrealized_mark_finite:
  assumes "modeled_unrealized_mark m q c f bps = Inr d"
    and "dec_is_finite m" and "dec_is_finite q" and "dec_is_finite c" and "dec_is_finite f"
  shows "dec_is_finite (k_unrealized_net d)"
proof -
  from assms(1) obtain v g x n where "bindR (dec_mul m q) cents = Inr v" "bindR (dec_sub v c) cents = Inr g"
      "fee_of v bps = Inr x" "bindR (dec_sub g f) (\<lambda>y. bindR (dec_sub y x) cents) = Inr n" and d: "k_unrealized_net d = n"
    unfolding modeled_unrealized_mark_def by (auto simp: bindR_eq_Inr)
  then show ?thesis using assms(2-5)
    by (auto simp: bindR_eq_Inr dest!: dec_mul_finite dec_sub_finite cents_value(1) fee_of_finite)
qed

text \<open>A mark recorded on a position whose columns are numbers is the mark the projection derives: the
  open row is KNOWN without a gap, is not flagged as legacy, and shows the stored gross and net.\<close>

theorem recorded_mark_agrees:
  assumes "record_position_mark pid (Some price) as_of e s = Inr (mid, s')"
    and "get_position pid s = Some p" and "mark_inputs p price m q c f bps"
    and "e \<in> set ACCEPTED_MARK_CLASSES" and "as_of \<noteq> []"
  shows "\<exists>row v. get_position pid s' = Some row \<and> open_mark_row row b now = Inr v \<and> mv_status v = ''KNOWN''
    \<and> mv_gap v = None \<and> \<not> mv_legacy v \<and> mv_unrealized_gross_usd v = p_unrealized_gross_pnl_usd_dec row
    \<and> mv_unrealized_net_usd v = p_unrealized_net_pnl_usd_dec row"
proof -
  have cond: "e \<noteq> ''UNKNOWN''" using assms(4) by (auto simp: ACCEPTED_MARK_CLASSES_def)
  obtain d row where d: "modeled_unrealized_mark m q c f bps = Inr d"
    and row: "row = set_mark (Some price) as_of (Some (dec_text (k_unrealized_gross d)))
        (Some (dec_text (k_unrealized_net d))) e p" and g: "get_position pid s' = Some row"
    using assms(1,2,3) cond by (rule recorded_mark_row)
  note inp = assms(3) [unfolded mark_inputs_def]
  have fin: "dec_is_finite m" "dec_is_finite q" "dec_is_finite c" "dec_is_finite f"
    using inp reads_the by (auto simp: reads_residual_def)
  have net: "dec_is_finite (k_unrealized_net d)" by (rule unrealized_mark_finite [OF d fin])
  have same: "py_dec_eq (dec_plain (k_unrealized_net d)) (k_unrealized_net d) = Inr True"
    using net by (simp add: dec_plain_finite dec_eq_dval dval_dec_plain)
  have stored: "dec_col (Some (dec_text (k_unrealized_net d))) = Inr (Some (dec_plain (k_unrealized_net d)))"
    using dec_col_reads [OF reads_dec_text [OF net]] .
  note rc = reads_residual_component [OF inp [THEN conjunct2, THEN conjunct1]]
    reads_residual_component [OF inp [THEN conjunct2, THEN conjunct2, THEN conjunct1]]
    reads_residual_component [OF inp [THEN conjunct2, THEN conjunct2, THEN conjunct2, THEN conjunct1]]
  have qr: "remaining_quantity row = Inr (Some q, None)" and mr: "remaining_money row = Inr (Some c, Some f, None)"
    by (simp_all add: remaining_quantity_def remaining_money_def row set_mark_def or_gap_def rc)
  have mp: "dec_col (p_mark_price_dec row) = Inr (Some m)"
    using dec_col_reads inp by (simp add: row set_mark_def)
  have "mark_gap row None None (Some m) (Some q) (Some c) (Some f) = Inr None"
    using inp assms(4,5) fin hashable_finite
    by (simp add: mark_gap_def or_gap_def row set_mark_def text_of_def present_def)
  then show ?thesis
    using g inp d by (simp add: open_mark_row_def mp qr mr) (simp add: row set_mark_def stored same)
qed

lemma demo_mark_inputs: "mark_inputs demo_open ''0.60'' (Fin False 60 (-2)) (Fin False 20000000000 (-8)) (Fin False 100 0)
    (Fin False 25 (-2)) 25"
  by (simp add: mark_inputs_def reads_residual_def remaining_or_def reads_def demo_open_def blank_position_def present_def
      dec_eval)

lemma demo_mark_returns:
  "\<exists>mid s'. record_position_mark ''POS-1'' (Some ''0.60'') ''2026-01-02T00:00:00Z'' ''PAPER_MARK_TO_MODEL''
     (demo_store demo_open) = Inr (mid, s')"
proof -
  have "returned (modeled_unrealized_mark (Fin False 60 (-2)) (Fin False 20000000000 (-8)) (Fin False 100 0)
    (Fin False 25 (-2)) 25)"
    by (simp add: modeled_unrealized_mark_def returned_def dec_eval)
  then obtain d where "modeled_unrealized_mark (Fin False 60 (-2)) (Fin False 20000000000 (-8)) (Fin False 100 0)
    (Fin False 25 (-2)) 25 = Inr d" by (auto simp: returned_iff)
  then have u: "mark_unrealized demo_open ''0.60'' =
      Inr (Some (dec_text (k_unrealized_gross d)), Some (dec_text (k_unrealized_net d)))"
    by (simp add: mark_unrealized_inputs [OF demo_mark_inputs])
  show ?thesis
    by (simp add: record_position_mark_def immediate_write_def demo_store_def MARK_CLASSES_def get_position_def tick_def
        u present_def Let_def)
qed

lemma recorded_mark_agrees_witness:
  "\<exists>mid s' row v. record_position_mark ''POS-1'' (Some ''0.60'') ''2026-01-02T00:00:00Z'' ''PAPER_MARK_TO_MODEL''
      (demo_store demo_open) = Inr (mid, s')
    \<and> open_mark_row row (Some demo_bot) ''2026-01-03T00:00:00Z'' = Inr v \<and> mv_status v = ''KNOWN'' \<and> \<not> mv_legacy v"
proof -
  obtain mid s' where r: "record_position_mark ''POS-1'' (Some ''0.60'') ''2026-01-02T00:00:00Z''
      ''PAPER_MARK_TO_MODEL'' (demo_store demo_open) = Inr (mid, s')"
    using demo_mark_returns by blast
  have g: "get_position ''POS-1'' (demo_store demo_open) = Some demo_open"
    by (simp add: get_position_def demo_store_def)
  have e: "''PAPER_MARK_TO_MODEL'' \<in> set ACCEPTED_MARK_CLASSES" by (simp add: ACCEPTED_MARK_CLASSES_def)
  show ?thesis
    using recorded_mark_agrees [OF r g demo_mark_inputs e, where b = "Some demo_bot" and now = "''2026-01-03T00:00:00Z''"] r
    by auto
qed

end
