(* ===== verification/RiskPaths.thy ===== *)
theory RiskPaths
  imports RiskClaims "HOL-Library.Multiset"
begin

section \<open>Drawdown and loss streak\<close>

text \<open>
  The two measures along the order of closing, against what they mean: drawdown is the largest
  loss over any run of consecutive closings, the loss streak the length of the losing run that
  ends with the last closing.
\<close>

subsection \<open>The loop over rational numbers\<close>

fun fall_loop :: "rat list \<Rightarrow> rat \<Rightarrow> rat \<Rightarrow> rat \<Rightarrow> rat" where
  "fall_loop [] e p m = m"
| "fall_loop (x # xs) e p m = fall_loop xs (e + x) (max p (e + x)) (max m (max p (e + x) - (e + x)))"

text \<open>The loss over the run of length \<open>n\<close> that starts at position \<open>i\<close>.\<close>

definition run_fall :: "rat list \<Rightarrow> nat \<Rightarrow> nat \<Rightarrow> rat" where
  "run_fall xs i n = - sum_list (take n (drop i xs))"

lemma run_fall_simps [simp]:
  "run_fall xs i 0 = 0" "run_fall [] i n = 0"
  "run_fall (x # xs) (Suc i) n = run_fall xs i n"
  "run_fall (x # xs) 0 (Suc n) = run_fall xs 0 n - x"
  by (simp_all add: run_fall_def)

lemma fall_loop_ge: "m \<le> fall_loop xs e p m"
proof (induction xs arbitrary: e p m)
  case (Cons x xs)
  have "m \<le> max m (max p (e + x) - (e + x))" by simp
  also have "\<dots> \<le> fall_loop (x # xs) e p m" using Cons by simp
  finally show ?case .
qed simp

lemma fall_loop_prefix: "e \<le> p \<Longrightarrow> p - e \<le> m \<Longrightarrow> p - e + run_fall xs 0 n \<le> fall_loop xs e p m"
proof (induction xs arbitrary: e p m n)
  case (Cons x xs)
  show ?case
  proof (cases n)
    case 0
    then show ?thesis using Cons.prems fall_loop_ge [of m "x # xs" e p] by simp
  next
    case (Suc k)
    have "p - (e + x) + run_fall xs 0 k \<le> max p (e + x) - (e + x) + run_fall xs 0 k" by simp
    also have "\<dots> \<le> fall_loop xs (e + x) (max p (e + x)) (max m (max p (e + x) - (e + x)))"
      by (rule Cons.IH) simp_all
    finally show ?thesis using Suc by (simp add: algebra_simps)
  qed
qed simp

lemma fall_loop_upper: "e \<le> p \<Longrightarrow> p - e \<le> m \<Longrightarrow> 0 \<le> m \<Longrightarrow> run_fall xs i n \<le> fall_loop xs e p m"
proof (induction xs arbitrary: e p m i n)
  case (Cons x xs)
  show ?case
  proof (cases i)
    case 0
    have "run_fall (x # xs) 0 n \<le> p - e + run_fall (x # xs) 0 n" using Cons.prems by simp
    also have "\<dots> \<le> fall_loop (x # xs) e p m" by (rule fall_loop_prefix [OF Cons.prems(1,2)])
    finally show ?thesis using 0 by simp
  next
    case (Suc k)
    then show ?thesis using Cons by simp
  qed
qed simp

lemma fall_loop_attained:
  "e \<le> p \<Longrightarrow> fall_loop xs e p m = m \<or> (\<exists>n. fall_loop xs e p m = p - e + run_fall xs 0 n)
     \<or> (\<exists>i n. fall_loop xs e p m = run_fall xs i n)"
proof (induction xs arbitrary: e p m)
  case (Cons x xs)
  define p' where "p' = max p (e + x)"
  define m' where "m' = max m (p' - (e + x))"
  have step: "fall_loop (x # xs) e p m = fall_loop xs (e + x) p' m'" by (simp add: p'_def m'_def)
  have seg: "\<exists>i n. v = run_fall (x # xs) i n" if "v = run_fall xs i n" for v i n
    using that by (intro exI [of _ "Suc i"] exI [of _ n]) simp
  have pre: "(\<exists>n. v = p - e + run_fall (x # xs) 0 n) \<or> (\<exists>i n. v = run_fall (x # xs) i n)"
    if v: "v = p' - (e + x) + run_fall xs 0 n" for v n
  proof (cases "p' = p")
    case True
    then have "v = p - e + run_fall (x # xs) 0 (Suc n)" using v by simp
    then show ?thesis by blast
  next
    case False
    then have "v = run_fall xs 0 n" using v by (simp add: p'_def max_def split: if_splits)
    then show ?thesis using seg by blast
  qed
  have "e + x \<le> p'" by (simp add: p'_def)
  from Cons.IH [OF this, of m'] consider "fall_loop xs (e + x) p' m' = m'"
    | n where "fall_loop xs (e + x) p' m' = p' - (e + x) + run_fall xs 0 n"
    | i n where "fall_loop xs (e + x) p' m' = run_fall xs i n" by blast
  then show ?case
  proof cases
    case 1
    then show ?thesis using step pre [of "p' - (e + x)" 0] by (auto simp: m'_def max_def)
  next
    case 2
    then show ?thesis using step pre by metis
  next
    case 3
    then show ?thesis using step seg by metis
  qed
qed simp

lemma fall_loop_zero:
  shows "run_fall xs i n \<le> fall_loop xs 0 0 0" and "\<exists>i n. fall_loop xs 0 0 0 = run_fall xs i n"
proof -
  show "run_fall xs i n \<le> fall_loop xs 0 0 0" by (rule fall_loop_upper) simp_all
  have "\<exists>i n. 0 = run_fall xs i n" by (intro exI [of _ 0]) simp
  then show "\<exists>i n. fall_loop xs 0 0 0 = run_fall xs i n"
    using fall_loop_attained [of 0 0 xs 0] by (elim disjE exE) (simp_all, metis+)
qed

subsection \<open>The code's loop computes it\<close>

definition net_value :: "reconciled_row \<Rightarrow> rat" where
  "net_value r = (case dec_col (rr_net_usd r) of Inr (Some x) \<Rightarrow> dval x | _ \<Rightarrow> 0)"

definition cents_net_row :: "reconciled_row \<Rightarrow> bool" where
  "cents_net_row r = (\<exists>x. reads (rr_net_usd r) x \<and> - 2 \<le> dexp x)"

lemma row_pnl_reads:
  assumes "cents_net_row r"
  obtains x where "row_pnl r = Inr x" and "dec_is_finite x" and "- 2 \<le> dexp x" and "dval x = net_value r"
  using assms dec_col_reads reads_the
  by (fastforce simp: cents_net_row_def row_pnl_def net_value_def)

lemma drawdown_loop_exact:
  assumes "\<forall>r\<in>set rs. cents_net_row r" and "dec_is_finite e" and "dec_is_finite p" and "dec_is_finite m"
    and "- 2 \<le> dexp e" and "- 2 \<le> dexp p" and "\<bar>dval e\<bar> \<le> t" and "\<bar>dval p\<bar> \<le> t"
    and "t + sum_list (map (\<lambda>r. \<bar>net_value r\<bar>) rs) \<le> 10 ^ 20"
  shows "\<exists>d. drawdown_loop rs e p m = Inr d \<and> dec_is_finite d
    \<and> dval d = fall_loop (map net_value rs) (dval e) (dval p) (dval m)"
  using assms
proof (induction rs arbitrary: e p m t)
  case (Cons r rs)
  have r: "cents_net_row r" and rs: "\<forall>r\<in>set rs. cents_net_row r" using Cons.prems(1) by simp_all
  obtain x where x: "row_pnl r = Inr x" "dec_is_finite x" "- 2 \<le> dexp x" "dval x = net_value r"
    using r by (rule row_pnl_reads)
  have nonneg: "0 \<le> sum_list (map (\<lambda>r. \<bar>net_value r\<bar>) rs)" by (rule sum_list_nonneg) auto
  have t': "t + \<bar>dval x\<bar> + sum_list (map (\<lambda>r. \<bar>net_value r\<bar>) rs) \<le> 10 ^ 20" using Cons.prems(9) x(4) by simp
  have tb: "t + \<bar>dval x\<bar> \<le> 10 ^ 20" using t' nonneg by simp
  have eb: "\<bar>dval e + dval x\<bar> \<le> t + \<bar>dval x\<bar>" using Cons.prems(7) by linarith
  have "\<bar>dval e + dval x\<bar> \<le> 10 ^ 20" using eb tb by simp
  then have "\<bar>dval e + dval x\<bar> < 10 powi (28 - 2)" by simp
  then obtain e' where e': "dec_add e x = Inr e'" "dec_is_finite e'" "dval e' = dval e + dval x" "dexp e' = min (dexp e) (dexp x)"
    using Cons.prems(2,5) x(2,3) by (elim dec_add_exact [rotated 4]) auto
  define p' where "p' = (if dval p < dval e' then e' else p)"
  have p': "dec_is_finite p'" "- 2 \<le> dexp p'" "dval p' = max (dval p) (dval e')" "\<bar>dval p'\<bar> \<le> t + \<bar>dval x\<bar>"
    using e' Cons.prems(3,5,6,8) x(3) eb by (auto simp: p'_def)
  have "\<bar>dval p' - dval e'\<bar> \<le> 10 ^ 20 + 10 ^ 20" using p'(4) eb e'(3) tb by (simp add: abs_le_iff)
  then have "\<bar>dval p' - dval e'\<bar> < 10 powi (28 - 2)" by simp
  moreover have "- 2 \<le> dexp e'" using e'(4) Cons.prems(5) x(3) by simp
  ultimately obtain d where d: "dec_sub p' e' = Inr d" "dec_is_finite d" "dval d = dval p' - dval e'"
    using p'(1,2) e'(2) by (elim dec_sub_exact [rotated 4]) auto
  define m' where "m' = (if dval m < dval d then d else m)"
  have m': "dec_is_finite m'" "dval m' = max (dval m) (dval d)" using Cons.prems(4) d(2) by (auto simp: m'_def)
  have step: "drawdown_loop (r # rs) e p m = drawdown_loop rs e' p' m'"
    using dec_lt_dval [OF Cons.prems(3) e'(2)] dec_lt_dval [OF Cons.prems(4) d(2)] d(1)
    by (simp add: x(1) e'(1) p'_def m'_def Let_def)
  have e'g: "- 2 \<le> dexp e'" "\<bar>dval e'\<bar> \<le> t + \<bar>dval x\<bar>" using e'(3,4) eb Cons.prems(5) x(3) by simp_all
  have "\<exists>z. drawdown_loop rs e' p' m' = Inr z \<and> dec_is_finite z
      \<and> dval z = fall_loop (map net_value rs) (dval e') (dval p') (dval m')"
    by (rule Cons.IH [OF rs e'(2) p'(1) m'(1) e'g(1) p'(2) e'g(2) p'(4) t'])
  then show ?case unfolding step by (simp add: e'(3) p'(3) m'(2) d(3) x(4))
qed simp

lemma path_ordered_mset: "path_ordered rows = Some ordered \<Longrightarrow> mset ordered = mset rows \<and> set ordered = set rows"
  by (auto simp: path_ordered_def split: if_splits)

lemma sum_list_mset_eq: "mset xs = mset ys \<Longrightarrow> sum_list (map f xs) = sum_list (map f ys :: rat list)"
  by (metis mset_map sum_mset_sum_list)

text \<open>C20: the reported drawdown of a scope whose rows are all trusted is exactly the largest loss over any
  run of consecutive closings: no run loses more, and one run (the empty one counts as 0) loses
  just that.\<close>

theorem drawdown_is_largest_fall:
  assumes "rows \<noteq> []" and "path_ordered rows = Some ordered"
    and "\<forall>r\<in>set rows. rr_trusted r \<and> cents_net_row r"
    and "sum_list (map (\<lambda>r. \<bar>net_value r\<bar>) rows) \<le> 10 ^ 20"
  shows "\<exists>t d. drawdown rows = Inr (Known t) \<and> reads (Some t) d
    \<and> (\<forall>i n. run_fall (map net_value ordered) i n \<le> dval d)
    \<and> (\<exists>i n. dval d = run_fall (map net_value ordered) i n)"
proof -
  note mset = path_ordered_mset [OF assms(2)]
  have tr: "list_all rr_trusted rows" using assms(3) by (simp add: list_all_iff)
  have "sum_list (map (\<lambda>r. \<bar>net_value r\<bar>) ordered) \<le> 10 ^ 20"
    using assms(4) sum_list_mset_eq [of ordered rows "\<lambda>r. \<bar>net_value r\<bar>"] mset by simp
  then obtain d where d: "drawdown_loop ordered dec_zero dec_zero dec_zero = Inr d" "dec_is_finite d"
    "dval d = fall_loop (map net_value ordered) 0 0 0"
    using drawdown_loop_exact [of ordered dec_zero dec_zero dec_zero 0] assms(3) mset by auto
  have "drawdown rows = Inr (Known (dec_text d))" using assms(1,2) tr d(1) by (simp add: drawdown_def)
  moreover have "reads (Some (dec_text d)) (dec_plain d)" by (rule reads_dec_text [OF d(2)])
  ultimately show ?thesis
    using fall_loop_zero [of "map net_value ordered"] d(3) by (metis dval_dec_plain)
qed

text \<open>The loss streak of a scope whose rows are all trusted is the number of losses in a row that end
  with the last closing.\<close>

theorem loss_streak_is_trailing_losses:
  assumes "path_ordered rows = Some ordered" and "\<forall>r\<in>set rows. rr_trusted r \<and> cents_net_row r"
  shows "loss_streak rows = Inr (Known (length (takeWhile (\<lambda>r. net_value r < 0) (rev ordered))))"
proof -
  have loop: "streak_loop rs k = Inr (Known (k + length (takeWhile (\<lambda>r. net_value r < 0) rs)))"
    if "\<forall>r\<in>set rs. rr_trusted r \<and> cents_net_row r" for rs k
    using that
  proof (induction rs arbitrary: k)
    case (Cons r rs)
    obtain x where x: "row_pnl r = Inr x" "dec_is_finite x" "dval x = net_value r"
      using Cons.prems row_pnl_reads [of r] by auto
    show ?case using Cons dec_lt_dval [OF x(2) dec_zero_facts(1)] x(1,3) by simp
  qed simp
  show ?thesis
  proof (cases "rows = []")
    case True
    then show ?thesis using assms(1) by (simp add: loss_streak_def path_ordered_def)
  next
    case False
    have "\<forall>r\<in>set (rev ordered). rr_trusted r \<and> cents_net_row r"
      using path_ordered_mset [OF assms(1)] assms(2) by simp
    from loop [OF this, of 0] show ?thesis using assms(1) False by (simp add: loss_streak_def)
  qed
qed

subsection \<open>A concrete path\<close>

definition demo_row :: "string \<Rightarrow> string \<Rightarrow> string \<Rightarrow> reconciled_row" where
  "demo_row pid stamp net =
     \<lparr>rr_position_id = pid, rr_strategy_id = Some ''S'', rr_strategy_version = Some ''1'', rr_mode = ''PAPER'',
      rr_activation_epoch_id = None, rr_bot = ''BOT-1'', rr_evidence_class = ''PAPER_RECONCILED_MODEL'',
      rr_entered_notional_usd = None, rr_exit_notional_usd = None, rr_gross_pnl_usd = None, rr_entry_fee_usd = None,
      rr_exit_fee_usd = None, rr_net_usd = Some net, rr_status = ''KNOWN'', rr_trusted = True, rr_gap = None,
      rr_closed_at = Some stamp, rr_opened_at = None\<rparr>"

definition demo_rows :: "reconciled_row list" where
  "demo_rows = [demo_row ''B'' ''2026-01-02T00:00:00Z'' ''-3.00'', demo_row ''A'' ''2026-01-01T00:00:00Z'' ''5.00'']"

lemma demo_row_fields [simp]:
  "rr_trusted (demo_row pid t n)" "rr_net_usd (demo_row pid t n) = Some n" "rr_closed_at (demo_row pid t n) = Some t"
  "rr_position_id (demo_row pid t n) = pid"
  by (simp_all add: demo_row_def)

lemma demo_close:
  "parse_utc ''2026-01-01T00:00:00Z'' = Some 1767225600000000"
  "parse_utc ''2026-01-02T00:00:00Z'' = Some 1767312000000000"
  by (simp_all add: parse_utc_def time_eval dec_eval)

lemma demo_nets: "net_value (demo_row pid t ''-3.00'') = - 3" "net_value (demo_row pid t ''5.00'') = 5"
  "cents_net_row (demo_row pid t ''-3.00'')" "cents_net_row (demo_row pid t ''5.00'')"
  by (simp_all add: net_value_def cents_net_row_def reads_def dec_col_def present_def dec_eval power_int_def power_divide)

lemma demo_path: "path_ordered demo_rows =
    Some [demo_row ''A'' ''2026-01-01T00:00:00Z'' ''5.00'', demo_row ''B'' ''2026-01-02T00:00:00Z'' ''-3.00'']"
  by (simp add: path_ordered_def demo_rows_def close_key_def text_of_def demo_close)

lemma drawdown_is_largest_fall_witness:
  "\<exists>t d. drawdown demo_rows = Inr (Known t) \<and> reads (Some t) d \<and> 3 \<le> dval d"
proof -
  let ?path = "[demo_row ''A'' ''2026-01-01T00:00:00Z'' ''5.00'', demo_row ''B'' ''2026-01-02T00:00:00Z'' ''-3.00'']"
  have fall: "run_fall (map net_value ?path) 1 1 = 3" by (simp add: run_fall_def demo_nets)
  have hyps: "demo_rows \<noteq> []" "\<forall>r\<in>set demo_rows. rr_trusted r \<and> cents_net_row r"
    "sum_list (map (\<lambda>r. \<bar>net_value r\<bar>) demo_rows) \<le> 10 ^ 20"
    by (simp_all add: demo_rows_def demo_nets)
  obtain t d where "drawdown demo_rows = Inr (Known t)" "reads (Some t) d"
    "\<forall>i n. run_fall (map net_value ?path) i n \<le> dval d"
    using drawdown_is_largest_fall [OF hyps(1) demo_path hyps(2,3)] by blast
  then show ?thesis using fall by metis
qed

lemma loss_streak_is_trailing_losses_witness: "loss_streak demo_rows = Inr (Known 1)"
  using loss_streak_is_trailing_losses [OF demo_path] by (simp add: demo_rows_def demo_nets)

end
