(* ===== verification/RiskHeadline.thy ===== *)
theory RiskHeadline
  imports RiskPaths
begin

section \<open>Scopes and the headline\<close>

text \<open>
  The composer never mixes evidence: the reconciled positions are split among the scopes without
  loss or overlap, and a net profit is headlined only when all of them belong to one scope and
  every one is trusted.
\<close>

definition row_scope :: "reconciled_row \<Rightarrow> scope_key" where
  "row_scope r = scope_key (rr_strategy_id r) (rr_strategy_version r) (Some (rr_mode r)) (Some (rr_evidence_class r))"

lemma reconciled_scopes_groups: "reconciled_scopes rows = mapR reconciled_scope_of (group_rows row_scope rows)"
  by (simp add: reconciled_scopes_def row_scope_def [abs_def])

lemma mapR_all2: "mapR f xs = Inr ys \<Longrightarrow> list_all2 (\<lambda>x y. f x = Inr y) xs ys"
  by (induction xs arbitrary: ys) (auto simp: bindR_eq_Inr)

lemma list_all2_right: "list_all2 P xs ys \<Longrightarrow> y \<in> set ys \<Longrightarrow> \<exists>x\<in>set xs. P x y"
  by (induction rule: list_all2_induct) auto

lemma reconciled_scope_of_fields:
  assumes "reconciled_scope_of g = Inr c"
  shows "sc_key c = fst g" and "sc_rows c = snd g" and "sc_total c = length (snd g)"
    and "sc_known c = length (filter rr_trusted (snd g))" and "sc_status c = reconciled_status (snd g)"
    and "\<exists>nets. mapR (\<lambda>r. dec_col (rr_net_usd r)) (filter rr_trusted (snd g)) = Inr nets
      \<and> trusted_headline (reconciled_status (snd g)) nets = Inr (sc_net_usd c)"
  using assms unfolding reconciled_scope_of_def Let_def by (auto simp: bindR_eq_Inr)

lemma scopes_keys:
  assumes "reconciled_scopes rows = Inr cs"
  shows "map sc_key cs = map fst (group_rows row_scope rows)" and "distinct (map sc_key cs)"
    and "\<forall>c\<in>set cs. reconciled_scope_of (sc_key c, sc_rows c) = Inr c
      \<and> sc_rows c = filter (\<lambda>r. row_scope r = sc_key c) rows \<and> sc_rows c \<noteq> []"
proof -
  have all2: "list_all2 (\<lambda>g c. reconciled_scope_of g = Inr c) (group_rows row_scope rows) cs"
    using assms by (simp add: reconciled_scopes_groups mapR_all2)
  then have "list_all2 (\<lambda>g c. fst g = sc_key c) (group_rows row_scope rows) cs"
    by (rule list_all2_mono) (simp add: reconciled_scope_of_fields)
  then have "list_all2 (=) (map fst (group_rows row_scope rows)) (map sc_key cs)"
    by (simp add: list_all2_map1 list_all2_map2)
  then show keys: "map sc_key cs = map fst (group_rows row_scope rows)" by (simp add: list.rel_eq)
  then show "distinct (map sc_key cs)" using group_rows_distinct [of row_scope rows] by simp
  show "\<forall>c\<in>set cs. reconciled_scope_of (sc_key c, sc_rows c) = Inr c
      \<and> sc_rows c = filter (\<lambda>r. row_scope r = sc_key c) rows \<and> sc_rows c \<noteq> []"
  proof
    fix c assume "c \<in> set cs"
    then obtain g where g: "g \<in> set (group_rows row_scope rows)" "reconciled_scope_of g = Inr c"
      using all2 list_all2_right [OF all2] by blast
    then have f: "sc_key c = fst g" "sc_rows c = snd g" by (simp_all add: reconciled_scope_of_fields)
    then show "reconciled_scope_of (sc_key c, sc_rows c) = Inr c
      \<and> sc_rows c = filter (\<lambda>r. row_scope r = sc_key c) rows \<and> sc_rows c \<noteq> []"
      using g group_rows_mem [of "fst g" "snd g" row_scope rows] by (metis prod.collapse)
  qed
qed

lemma scopes_cover:
  assumes "reconciled_scopes rows = Inr cs" and "r \<in> set rows"
  shows "\<exists>c\<in>set cs. sc_key c = row_scope r \<and> r \<in> set (sc_rows c)"
proof -
  have "filter (\<lambda>x. row_scope x = row_scope r) rows \<noteq> []" using assms(2) by (auto simp: filter_empty_conv)
  then have "map_of (group_rows row_scope rows) (row_scope r) \<noteq> None" by (simp add: group_rows_map_of)
  then have "row_scope r \<in> set (map fst (group_rows row_scope rows))" by (auto simp: map_of_eq_None_iff)
  then obtain c where c: "c \<in> set cs" "sc_key c = row_scope r"
    using scopes_keys(1) [OF assms(1)] by (metis (no_types, lifting) imageE list.set_map)
  then show ?thesis using scopes_keys(3) [OF assms(1)] assms(2) by auto
qed

lemma compose_result:
  assumes "compose_risk_economics files (Some s) given as_of now = Inr e"
  obtains rows marks partials rscopes mscopes xscopes where "reconciled_rows s = Inr rows"
    and "reconciled_scopes rows = Inr rscopes" and "re_reconciled_scopes e = rscopes"
    and "re_headline e = headline_of rscopes" and "re_coverage e = coverage_of rows marks"
    and "re_evidence_state e = evidence_state ''PRESENT'' rows (mode_seen ''PAPER'' rscopes mscopes)
           (mode_seen ''SHADOW'' rscopes mscopes)"
    and "re_next_safe_action e = final_action (re_evidence_state e) (mixed_evidence rscopes) rows marks partials
           (re_declared_risk_scopes e)"
    and "mark_rows s (if present as_of then the as_of else now) = Inr marks" and "partial_rows s = Inr partials"
    and "re_mixed_evidence e = mixed_evidence rscopes" and "exposure_scopes (ordered_positions s) (\<lambda>bid. get_bot bid s) = Inr xscopes"
  using assms unfolding compose_risk_economics_def Let_def
  by (auto simp: bindR_eq_Inr economics_of_def Let_def)

text \<open>The scopes of the projection partition the reconciled positions: one row per RECONCILED position,
  every row in the scope of its strategy, version, mode and evidence class and in no other, no
  scope empty.\<close>

theorem scopes_partition_reconciled:
  assumes "compose_risk_economics files (Some s) given as_of now = Inr e"
  shows "\<exists>rows. reconciled_rows s = Inr rows
    \<and> length rows = length (filter (\<lambda>p. p_state p = RECONCILED) (st_positions s))
    \<and> cv_reconciled_total (re_coverage e) = length rows
    \<and> distinct (map sc_key (re_reconciled_scopes e))
    \<and> (\<forall>c\<in>set (re_reconciled_scopes e). sc_rows c = filter (\<lambda>r. row_scope r = sc_key c) rows \<and> sc_rows c \<noteq> [])
    \<and> (\<forall>r\<in>set rows. \<exists>c\<in>set (re_reconciled_scopes e). r \<in> set (sc_rows c))"
  using assms
proof (rule compose_result)
  fix rows marks partials rscopes mscopes xscopes
  assume r: "reconciled_rows s = Inr rows" and c: "reconciled_scopes rows = Inr rscopes"
    and e: "re_reconciled_scopes e = rscopes" "re_coverage e = coverage_of rows marks"
  obtain rows0 where "mapR (\<lambda>p. reconciled_row_of p (get_bot (p_bot p) s))
      (filter (\<lambda>p. p_state p = RECONCILED) (ordered_positions s)) = Inr rows0" "rows = sort_key close_order rows0"
    using r by (auto simp: reconciled_rows_def bindR_eq_Inr)
  then have "length rows = length (filter (\<lambda>p. p_state p = RECONCILED) (ordered_positions s))"
    by (simp add: mapR_length)
  also have "\<dots> = length (filter (\<lambda>p. p_state p = RECONCILED) (st_positions s))"
    by (simp add: ordered_positions_def filter_sort)
  finally show ?thesis
    using r e scopes_keys [OF c] scopes_cover [OF c] by (auto simp: coverage_of_def)
qed

text \<open>C21: a net profit is headlined only for a single scope in which every reconciled row is trusted, and
  then it is the sum of the nets of all of them: no total across scopes, and none that leaves a row out.\<close>

theorem headline_is_one_trusted_scope:
  assumes "compose_risk_economics files (Some s) given as_of now = Inr e"
    and "hl_net_usd (re_headline e) = Some t" and "reconciled_rows s = Inr rows"
  shows "(\<exists>key. \<forall>r\<in>set rows. row_scope r = key \<and> rr_trusted r) \<and> rows \<noteq> []
    \<and> hl_status (re_headline e) = ''KNOWN'' \<and> \<not> re_mixed_evidence e
    \<and> (\<exists>nets d. mapR (\<lambda>r. dec_col (rr_net_usd r)) rows = Inr nets \<and> dec_sum nets dec_zero = Inr d \<and> t = dec_text d)"
  using assms(1)
proof (rule compose_result)
  fix rows' marks partials rscopes mscopes xscopes
  assume r: "reconciled_rows s = Inr rows'" and c': "reconciled_scopes rows' = Inr rscopes"
    and h: "re_headline e = headline_of rscopes" and mx: "re_mixed_evidence e = mixed_evidence rscopes"
  have c: "reconciled_scopes rows = Inr rscopes" using r c' assms(3) by simp
  have hl: "hl_net_usd (headline_of rscopes) = Some t" using assms(2) h by simp
  have nm: "\<not> mixed_evidence rscopes" using hl by (auto simp: headline_of_def)
  then obtain x where x: "filter (\<lambda>c. sc_status c = ''KNOWN'' \<and> sc_net_usd c \<noteq> None) rscopes = [x]"
    using hl by (auto simp: headline_of_def split: list.splits)
  have net: "sc_net_usd x = Some t" using hl nm x by (simp add: headline_of_def)
  have hs: "hl_status (headline_of rscopes) = ''KNOWN''" using nm x by (simp add: headline_of_def)
  have "x \<in> set (filter (\<lambda>c. sc_status c = ''KNOWN'' \<and> sc_net_usd c \<noteq> None) rscopes)" unfolding x by simp
  then have xin: "x \<in> set rscopes" and known: "sc_status x = ''KNOWN''" by simp_all
  have "length rscopes \<le> 1"
    using nm scopes_keys(2) [OF c] by (simp add: mixed_evidence_def distinct_remdups_id)
  then have one: "rscopes = [x]" using xin by (cases rscopes) auto
  have sc: "reconciled_scope_of (sc_key x, sc_rows x) = Inr x" "sc_rows x = filter (\<lambda>r. row_scope r = sc_key x) rows"
    "sc_rows x \<noteq> []" using scopes_keys(3) [OF c] xin by auto
  have all: "\<forall>r\<in>set rows. row_scope r = sc_key x" using scopes_cover [OF c] one by auto
  then have rows: "sc_rows x = rows" using sc(2) by (simp add: filter_id_conv)
  have st: "reconciled_status rows = ''KNOWN''" using known reconciled_scope_of_fields(5) [OF sc(1)] rows by simp
  then have tr: "\<forall>r\<in>set rows. rr_trusted r"
    by (auto simp: reconciled_status_def list_all_iff split: if_splits)
  obtain nets where nets: "mapR (\<lambda>r. dec_col (rr_net_usd r)) (filter rr_trusted rows) = Inr nets"
    and th: "trusted_headline (reconciled_status rows) nets = Inr (Some t)"
    using reconciled_scope_of_fields(6) [OF sc(1)] net rows by auto
  have "filter rr_trusted rows = rows" using tr by (simp add: filter_id_conv)
  moreover have "\<exists>d. dec_sum nets dec_zero = Inr d \<and> t = dec_text d"
    using th by (auto simp: trusted_headline_def bindR_eq_Inr split: if_splits)
  moreover have "\<exists>key. \<forall>r\<in>set rows. row_scope r = key \<and> rr_trusted r"
    using all tr by (intro exI [of _ "sc_key x"]) simp
  ultimately show ?thesis using nets sc(3) rows hs h nm mx by auto
qed

subsection \<open>A concrete projection\<close>

definition demo_done :: position where
  "demo_done = demo_open\<lparr>p_state := RECONCILED, p_exit_notional_usd_dec := Some ''120.00'',
     p_exit_fee_usd_dec := Some ''0.30'', p_realized_gross_pnl_usd_dec := Some ''20.00'',
     p_realized_net_pnl_usd_dec := Some ''19.45'', p_pnl_evidence_class := Some ''PAPER_RECONCILED_MODEL'',
     p_closed_at := Some ''2026-01-02T00:00:00Z''\<rparr>"

lemma demo_done_fields [simp]:
  "p_id demo_done = ''POS-1''" "p_bot demo_done = ''BOT-1''" "p_state demo_done = RECONCILED"
  "p_remaining_qty_dec demo_done = None" "p_remaining_cost_basis_usd_dec demo_done = None"
  "p_remaining_entry_fee_usd_dec demo_done = None" "p_entered_notional_usd_dec demo_done = Some ''100''"
  "p_entry_fee_usd_dec demo_done = Some ''0.25''" "p_exit_notional_usd_dec demo_done = Some ''120.00''"
  "p_exit_fee_usd_dec demo_done = Some ''0.30''" "p_realized_gross_pnl_usd_dec demo_done = Some ''20.00''"
  "p_realized_net_pnl_usd_dec demo_done = Some ''19.45''"
  "p_pnl_evidence_class demo_done = Some ''PAPER_RECONCILED_MODEL''"
  "p_closed_at demo_done = Some ''2026-01-02T00:00:00Z''" "p_strategy_id demo_done = None"
  "p_strategy_version_label demo_done = None" "p_activation_epoch_id demo_done = None"
  by (simp_all add: demo_done_def demo_open_def blank_position_def)

lemma demo_done_row: "reconciled_row_of demo_done (Some demo_bot) = Inr
  \<lparr>rr_position_id = ''POS-1'', rr_strategy_id = Some ''S'', rr_strategy_version = Some ''1'', rr_mode = ''PAPER'',
   rr_activation_epoch_id = None, rr_bot = ''BOT-1'', rr_evidence_class = ''PAPER_RECONCILED_MODEL'',
   rr_entered_notional_usd = Some ''100'', rr_exit_notional_usd = Some ''120.00'', rr_gross_pnl_usd = Some ''20.00'',
   rr_entry_fee_usd = Some ''0.25'', rr_exit_fee_usd = Some ''0.30'', rr_net_usd = Some ''19.45'',
   rr_status = ''KNOWN'', rr_trusted = True, rr_gap = None, rr_closed_at = Some ''2026-01-02T00:00:00Z'',
   rr_opened_at = p_opened_at demo_done\<rparr>"
  by (simp add: reconciled_row_of_def remaining_money_def residual_component_def accounting_invariant_def or_gap_def
      dec_col_def present_def reconciled_verdict_def ACCEPTED_RECONCILED_CLASSES_def text_of_def money_def
      class_or_unknown_def row_strategy_def row_version_def row_mode_def row_epoch_def or_text_def hashable_def cents_def
      demo_bot_def version_label_from_bot_def dec_eval)

definition demo_file :: strategy_file where
  "demo_file = \<lparr>sf_strategy_id = ''S'', sf_strategy_version = ''1'', sf_max_open_positions = Some 3\<rparr>"

definition demo_view :: reconciled_row where
  "demo_view = projr (reconciled_row_of demo_done (Some demo_bot))"

lemma demo_view_row: "reconciled_row_of demo_done (Some demo_bot) = Inr demo_view"
  by (simp add: demo_view_def demo_done_row)

lemma demo_view_fields [simp]:
  "rr_trusted demo_view" "rr_net_usd demo_view = Some ''19.45''" "rr_status demo_view = ''KNOWN''" "rr_gap demo_view = None"
  "rr_position_id demo_view = ''POS-1''" "rr_closed_at demo_view = Some ''2026-01-02T00:00:00Z''"
  by (simp_all add: demo_view_def demo_done_row)

lemma demo_reconciled: "reconciled_rows (demo_store demo_done) = Inr [demo_view]"
  by (simp add: reconciled_rows_def ordered_positions_def demo_store_def get_bot_def demo_view_row
      flip: demo_store_def) (simp add: demo_store_def get_bot_def demo_bot_def demo_view_row [unfolded demo_bot_def])

lemma demo_done_bot: "get_bot ''BOT-1'' (demo_store demo_done) = Some demo_bot"
  by (simp add: get_bot_def demo_store_def demo_bot_def)

lemma demo_positions: "ordered_positions (demo_store demo_done) = [demo_done]"
  by (simp add: ordered_positions_def demo_store_def)

lemma demo_no_marks: "mark_rows (demo_store demo_done) now = Inr []" "partial_rows (demo_store demo_done) = Inr []"
  "exposure_scopes [demo_done] f = Inr [\<lparr>xs_key = ([], [], []), xs_usd = None, xs_status = ''EMPTY'',
     xs_known_count = 0, xs_unknown_count = 0\<rparr>]"
  by (simp_all add: mark_rows_def partial_rows_def demo_positions OPERATOR_SETTLED_STATES_def partial_realized_row_def
      exposure_scopes_def group_rows_def List.map_filter_def)

lemma demo_scopes: "\<exists>c. reconciled_scopes [demo_view] = Inr [c] \<and> sc_status c = ''KNOWN'' \<and> sc_net_usd c = Some ''19.45''"
  by (simp add: reconciled_scopes_def group_rows_def reconciled_scope_of_def reconciled_status_def dec_col_def present_def
      drawdown_def path_ordered_def close_key_def text_of_def demo_close row_pnl_def loss_streak_def
      trusted_headline_def dec_eval)

lemma demo_compose: "\<exists>e. compose_risk_economics [demo_file] (Some (demo_store demo_done)) None None ''now'' = Inr e
    \<and> hl_net_usd (re_headline e) = Some ''19.45''"
proof -
  obtain c where c: "reconciled_scopes [demo_view] = Inr [c]" "sc_status c = ''KNOWN''" "sc_net_usd c = Some ''19.45''"
    using demo_scopes by blast
  show ?thesis
    by (simp add: compose_risk_economics_def Let_def demo_reconciled demo_positions demo_no_marks c mark_scopes_def
        group_rows_def economics_of_def headline_of_def mixed_evidence_def)
qed

lemma scopes_partition_reconciled_witness:
  "\<exists>e. compose_risk_economics [demo_file] (Some (demo_store demo_done)) None None ''now'' = Inr e
    \<and> cv_reconciled_total (re_coverage e) = 1"
proof -
  obtain e where e: "compose_risk_economics [demo_file] (Some (demo_store demo_done)) None None ''now'' = Inr e"
    using demo_compose by blast
  then show ?thesis using scopes_partition_reconciled [OF e] by (auto simp: demo_store_def)
qed

lemma headline_is_one_trusted_scope_witness:
  "\<exists>e. compose_risk_economics [demo_file] (Some (demo_store demo_done)) None None ''now'' = Inr e
    \<and> hl_net_usd (re_headline e) = Some ''19.45'' \<and> hl_status (re_headline e) = ''KNOWN''"
proof -
  obtain e where e: "compose_risk_economics [demo_file] (Some (demo_store demo_done)) None None ''now'' = Inr e"
    "hl_net_usd (re_headline e) = Some ''19.45''"
    using demo_compose by blast
  then show ?thesis using headline_is_one_trusted_scope [OF e demo_reconciled] by blast
qed

end
