(* ===== verification/RuntimePolicy.thy ===== *)
theory RuntimePolicy
  imports PaperPlane "HOL-Library.List_Lexorder" "HOL-Library.Char_ord"
begin

section \<open>The trading runtime policy\<close>

text \<open>
  \<open>factory/trading_runtime_policy.py\<close>, first part: what a policy document may hold
  (\<open>normalize_policy_body\<close>), the identity of a revision, the policy in force
  (\<open>resolve_current_policy\<close>), the caps it sets and the classification of a change. A normalized
  body is a dictionary with fixed keys, here a record; \<open>body_dict\<close> is the dictionary again.
  \<open>canonical_sha256\<close> is a parameter \<open>sha\<close> of the definitions that use it. The code walks the
  overrides of a document in the order they were written, the model in the order of their keys;
  that order decides only which of several malformed overrides is named.
\<close>

subsection \<open>Fields\<close>

definition int_text :: "int \<Rightarrow> string" where
  "int_text i = (if i < 0 then CHR ''-'' # digits_of (nat (- i)) else digits_of (nat i))"

definition policy_error :: "string \<Rightarrow> py_error" where
  "policy_error field = TradingRuntimePolicyError (''POLICY_FIELD_INVALID:'' @ field)"

text \<open>\<open>Decimal(str(value))\<close> of a JSON value: only numbers and texts can be one.\<close>

definition jdecimal :: "jval \<Rightarrow> decimal res" where
  "jdecimal v = (case v of JInt i \<Rightarrow> Inr (dec_of_int i) | JFloat t \<Rightarrow> dec_of_string t | JStr t \<Rightarrow> dec_of_string t
     | _ \<Rightarrow> Inl DecimalInvalid)"

definition policy_money :: "string \<Rightarrow> jval \<Rightarrow> string option res" where
  "policy_money field v =
     (if v = JNull then Inr None
      else case jdecimal v of
        Inl e \<Rightarrow> Inl (policy_error field)
      | Inr x \<Rightarrow> if \<not> dec_is_finite x \<or> \<not> dec_less dec_zero x then Inl (policy_error field)
                 else Inr (Some (dec_text x)))"

text \<open>\<open>int(text)\<close> with \<open>text.strip() == str(number)\<close> and a number of at least 1.\<close>

definition count_of_text :: "string \<Rightarrow> int option" where
  "count_of_text t =
     (let u = py_strip t
      in if u \<noteq> [] \<and> list_all is_digit u \<and> hd u \<noteq> CHR ''0'' \<and> length u \<le> 4300 then Some (int (digits_val u)) else None)"

definition policy_count :: "string \<Rightarrow> jval \<Rightarrow> int option res" where
  "policy_count field v =
     (case v of
        JNull \<Rightarrow> Inr None
      | JInt i \<Rightarrow> if i < 1 then Inl (policy_error field) else Inr (Some i)
      | JStr t \<Rightarrow> (case count_of_text t of None \<Rightarrow> Inl (policy_error field) | Some n \<Rightarrow> Inr (Some n))
      | JFloat t \<Rightarrow> if \<exists>s\<in>{True, False}. dec_of_string t = Inr (Infinity s) then Inl PyOverflowError
                    else Inl (policy_error field)
      | _ \<Rightarrow> Inl (policy_error field))"

subsection \<open>The body\<close>

record override_item =
  ov_entry_cap :: "string option"
  ov_max_notional :: "string option"
  ov_max_positions :: "int option"

record policy_body =
  pb_mode :: string
  pb_new_entries_enabled :: bool
  pb_entry_cap :: "string option"
  pb_total_notional :: "string option"
  pb_strategy_notional :: "string option"
  pb_mint_notional :: "string option"
  pb_total_positions :: "int option"
  pb_strategy_positions :: "int option"
  pb_mint_positions :: "int option"
  pb_overrides :: "(string, override_item) fmap"

definition STRAT_PREFIX :: string where
  "STRAT_PREFIX = ''STRAT-''"

definition normalize_override :: "string \<Rightarrow> jval \<Rightarrow> override_item res" where
  "normalize_override key spec =
     (case spec of
        JObj d \<Rightarrow>
          if take 6 key \<noteq> STRAT_PREFIX then Inl (TradingRuntimePolicyError ''POLICY_STRATEGY_ID_INVALID'')
          else let field = (\<lambda>f. ''strategy_overrides.'' @ key @ ''.'' @ f) in
            bindR (policy_money (field ''entry_notional_cap_usd'') (jget d ''entry_notional_cap_usd'')) (\<lambda>cap.
            bindR (policy_money (field ''max_open_notional_usd'') (jget d ''max_open_notional_usd'')) (\<lambda>notional.
            bindR (policy_count (field ''max_open_positions'') (jget d ''max_open_positions'')) (\<lambda>n.
              Inr \<lparr>ov_entry_cap = cap, ov_max_notional = notional, ov_max_positions = n\<rparr>)))
      | _ \<Rightarrow> Inl (policy_error ''strategy_overrides''))"

definition normalize_overrides :: "jval \<Rightarrow> (string, override_item) fmap res" where
  "normalize_overrides v =
     (if \<not> jtruthy v then Inr fmempty
      else case v of
        JObj d \<Rightarrow> bindR (mapR (\<lambda>(key, spec). bindR (normalize_override key spec) (\<lambda>item. Inr (key, item)))
                         (sorted_list_of_fmap d)) (\<lambda>items. Inr (fmap_of_list items))
      | _ \<Rightarrow> Inl (policy_error ''strategy_overrides''))"

definition SUPPORTED_MODES :: "string list" where
  "SUPPORTED_MODES = [''PAPER'', ''SHADOW'']"

definition normalize_policy_body :: "dict \<Rightarrow> string \<Rightarrow> policy_body res" where
  "normalize_policy_body raw mode =
     (if mode \<notin> set SUPPORTED_MODES
      then Inl (TradingRuntimePolicyError (if mode = ''LIVE'' then ''LIVE_NOT_SUPPORTED'' else ''POLICY_MODE_INVALID''))
      else case jget raw ''new_entries_enabled'' of
        JBool enabled \<Rightarrow>
          bindR (policy_money ''global_entry_notional_cap_usd'' (jget raw ''global_entry_notional_cap_usd'')) (\<lambda>cap.
          bindR (policy_money ''max_total_open_notional_usd'' (jget raw ''max_total_open_notional_usd'')) (\<lambda>total.
          bindR (policy_money ''default_strategy_max_open_notional_usd''
                   (jget raw ''default_strategy_max_open_notional_usd'')) (\<lambda>strategy.
          bindR (policy_money ''max_open_notional_per_mint_usd'' (jget raw ''max_open_notional_per_mint_usd'')) (\<lambda>mint.
          bindR (policy_count ''max_total_open_positions'' (jget raw ''max_total_open_positions'')) (\<lambda>n_total.
          bindR (policy_count ''default_strategy_max_open_positions''
                   (jget raw ''default_strategy_max_open_positions'')) (\<lambda>n_strategy.
          bindR (policy_count ''max_open_positions_per_mint'' (jget raw ''max_open_positions_per_mint'')) (\<lambda>n_mint.
          bindR (normalize_overrides (jget raw ''strategy_overrides'')) (\<lambda>overrides.
            Inr \<lparr>pb_mode = mode, pb_new_entries_enabled = enabled, pb_entry_cap = cap, pb_total_notional = total,
                 pb_strategy_notional = strategy, pb_mint_notional = mint, pb_total_positions = n_total,
                 pb_strategy_positions = n_strategy, pb_mint_positions = n_mint, pb_overrides = overrides\<rparr>))))))))
      | _ \<Rightarrow> Inl (policy_error ''new_entries_enabled''))"

subsection \<open>The dictionary of a body\<close>

definition override_dict :: "override_item \<Rightarrow> jval" where
  "override_dict i = JObj (dict_of [(''entry_notional_cap_usd'', jtext (ov_entry_cap i)),
     (''max_open_notional_usd'', jtext (ov_max_notional i)), (''max_open_positions'', jint (ov_max_positions i))])"

definition SCHEMA :: string where
  "SCHEMA = ''smial.trading-runtime-policy''"

definition body_items :: "policy_body \<Rightarrow> (string \<times> jval) list" where
  "body_items b =
     [(''schema'', JStr SCHEMA), (''schema_version'', JStr ''1.0''), (''mode'', JStr (pb_mode b)),
      (''new_entries_enabled'', JBool (pb_new_entries_enabled b)),
      (''global_entry_notional_cap_usd'', jtext (pb_entry_cap b)),
      (''max_total_open_notional_usd'', jtext (pb_total_notional b)),
      (''default_strategy_max_open_notional_usd'', jtext (pb_strategy_notional b)),
      (''max_open_notional_per_mint_usd'', jtext (pb_mint_notional b)),
      (''max_total_open_positions'', jint (pb_total_positions b)),
      (''default_strategy_max_open_positions'', jint (pb_strategy_positions b)),
      (''max_open_positions_per_mint'', jint (pb_mint_positions b)),
      (''strategy_overrides'', JObj (fmmap override_dict (pb_overrides b)))]"

definition policy_content_sha256 :: "(jval \<Rightarrow> string) \<Rightarrow> policy_body \<Rightarrow> string" where
  "policy_content_sha256 sha b = sha (JObj (dict_of (body_items b)))"

subsection \<open>The identity of a revision\<close>

text \<open>\<open>pl_id\<close> is the value under \<open>policy_id\<close>; no hash and no decision reads it.\<close>

record policy =
  pl_body :: policy_body
  pl_revision :: int
  pl_created_at :: string
  pl_reason :: string
  pl_previous_sha256 :: string
  pl_id :: jval
  pl_sha256 :: string

definition GENESIS_POLICY_SHA256 :: string where
  "GENESIS_POLICY_SHA256 = replicate 64 (CHR ''0'')"

definition default_policy_id :: "string \<Rightarrow> int \<Rightarrow> jval" where
  "default_policy_id mode revision = JStr (''TRP-'' @ mode @ ''-R'' @ int_text revision)"

definition attach_revision_identity ::
  "(jval \<Rightarrow> string) \<Rightarrow> policy_body \<Rightarrow> int \<Rightarrow> string \<Rightarrow> string \<Rightarrow> string \<Rightarrow> jval \<Rightarrow> policy" where
  "attach_revision_identity sha b revision created_at reason previous policy_id =
     \<lparr>pl_body = b, pl_revision = revision, pl_created_at = created_at, pl_reason = reason,
      pl_previous_sha256 = previous, pl_id = jor policy_id (default_policy_id (pb_mode b) revision),
      pl_sha256 = sha (JObj (dict_of [(''content_sha256'', JStr (policy_content_sha256 sha b)),
        (''mode'', JStr (pb_mode b)), (''revision'', JInt revision), (''previous_policy_sha256'', JStr previous)]))\<rparr>"

definition policy_dict :: "policy \<Rightarrow> dict" where
  "policy_dict p = dict_of (body_items (pl_body p) @
     [(''revision'', JInt (pl_revision p)), (''created_at'', JStr (pl_created_at p)), (''reason'', JStr (pl_reason p)),
      (''previous_policy_sha256'', JStr (pl_previous_sha256 p)), (''policy_id'', pl_id p),
      (''policy_sha256'', JStr (pl_sha256 p))])"

text \<open>The row \<open>append_runtime_policy_revision\<close> writes for a policy.\<close>

definition policy_row_of :: "policy \<Rightarrow> policy_row" where
  "policy_row_of p = \<lparr>r_mode = pb_mode (pl_body p), r_revision = pl_revision p, r_created_at = pl_created_at p,
     r_reason = pl_reason p, r_policy = Some (policy_dict p), r_sha256 = pl_sha256 p,
     r_previous_sha256 = pl_previous_sha256 p\<rparr>"

subsection \<open>The policy in force\<close>

datatype policy_status = NOT_CONFIGURED_STRATEGY_ONLY | VALID | RUNTIME_POLICY_INVALID

record current_policy =
  cu_status :: policy_status
  cu_mode :: string
  cu_policy :: "policy option"
  cu_revision :: "int option"
  cu_sha256 :: string

definition policy_of_row :: "(jval \<Rightarrow> string) \<Rightarrow> string \<Rightarrow> policy_row \<Rightarrow> policy res" where
  "policy_of_row sha mode row =
     (case r_policy row of None \<Rightarrow> Inl (TradingRuntimePolicyError ''RUNTIME_POLICY_INVALID'')
      | Some loaded \<Rightarrow>
          bindR (normalize_policy_body loaded mode) (\<lambda>b.
            let expected = attach_revision_identity sha b (r_revision row) (r_created_at row) (r_reason row)
                             (r_previous_sha256 row) (jor (jget loaded ''policy_id'') (default_policy_id mode (r_revision row)))
            in if r_sha256 row \<noteq> pl_sha256 expected then Inl (TradingRuntimePolicyError ''RUNTIME_POLICY_INVALID'')
               else Inr expected))"

text \<open>What the \<open>except\<close> clause turns into an invalid policy; an overflow passes through.\<close>

fun policy_read_error :: "py_error \<Rightarrow> bool" where
  "policy_read_error PyOverflowError = False"
| "policy_read_error _ = True"

definition resolve_current_policy :: "(jval \<Rightarrow> string) \<Rightarrow> store \<Rightarrow> string \<Rightarrow> current_policy res" where
  "resolve_current_policy sha s mode =
     (if mode = ''LIVE'' then Inl (TradingRuntimePolicyError ''LIVE_NOT_SUPPORTED'')
      else if mode \<notin> set SUPPORTED_MODES then Inl (TradingRuntimePolicyError ''POLICY_MODE_INVALID'')
      else case latest_runtime_policy_row mode s of
        None \<Rightarrow> Inr \<lparr>cu_status = NOT_CONFIGURED_STRATEGY_ONLY, cu_mode = mode, cu_policy = None, cu_revision = None,
                     cu_sha256 = GENESIS_POLICY_SHA256\<rparr>
      | Some row \<Rightarrow>
          (case policy_of_row sha mode row of
             Inl e \<Rightarrow> if policy_read_error e
                      then Inr \<lparr>cu_status = RUNTIME_POLICY_INVALID, cu_mode = mode, cu_policy = None,
                                cu_revision = Some (r_revision row), cu_sha256 = r_sha256 row\<rparr>
                      else Inl e
           | Inr p \<Rightarrow> Inr \<lparr>cu_status = VALID, cu_mode = mode, cu_policy = Some p, cu_revision = Some (pl_revision p),
                           cu_sha256 = pl_sha256 p\<rparr>))"

definition runtime_policy_history :: "string \<Rightarrow> store \<Rightarrow> policy_row list" where
  "runtime_policy_history mode s = rev (sort_key r_revision (mode_policies mode s))"

text \<open>\<open>show_policy\<close>: the policy in force with the rows before it.\<close>

definition show_policy :: "(jval \<Rightarrow> string) \<Rightarrow> store \<Rightarrow> string \<Rightarrow> (current_policy \<times> policy_row list) res" where
  "show_policy sha s mode =
     bindR (resolve_current_policy sha s mode) (\<lambda>current. Inr (current, runtime_policy_history mode s))"

subsection \<open>Caps\<close>

definition override_for :: "policy_body option \<Rightarrow> string \<Rightarrow> override_item" where
  "override_for b strategy =
     (let none = \<lparr>ov_entry_cap = None, ov_max_notional = None, ov_max_positions = None\<rparr> in
      case b of None \<Rightarrow> none
      | Some x \<Rightarrow> (case fmlookup (pb_overrides x) strategy of None \<Rightarrow> none | Some i \<Rightarrow> i))"

definition runtime_entry_cap :: "policy_body option \<Rightarrow> string \<Rightarrow> decimal option res" where
  "runtime_entry_cap b strategy =
     (case b of None \<Rightarrow> Inr None
      | Some x \<Rightarrow> (case coalesce (ov_entry_cap (override_for b strategy)) (pb_entry_cap x) of
           None \<Rightarrow> Inr None | Some t \<Rightarrow> bindR (dec_of_string t) (\<lambda>c. Inr (Some c))))"

text \<open>\<open>min\<close> keeps its first argument unless the second is smaller.\<close>

definition effective_entry_notional :: "decimal \<Rightarrow> decimal option \<Rightarrow> decimal res" where
  "effective_entry_notional requested cap =
     (case cap of None \<Rightarrow> Inr requested
      | Some c \<Rightarrow> bindR (dec_lt c requested) (\<lambda>smaller. Inr (if smaller then c else requested)))"

subsection \<open>Classifying a change\<close>

text \<open>Whether a change tightens and whether it relaxes; \<open>_note\<close> on a money and on a count field.\<close>

type_synonym diff = "bool \<times> bool"

definition note_money :: "string option \<Rightarrow> string option \<Rightarrow> diff \<Rightarrow> diff res" where
  "note_money old new d =
     (if old = new then Inr d
      else case (old, new) of
        (None, Some n) \<Rightarrow> Inr (True, snd d)
      | (Some k, None) \<Rightarrow> Inr (fst d, True)
      | (Some k, Some n) \<Rightarrow>
          bindR (dec_of_string n) (\<lambda>y. bindR (dec_of_string k) (\<lambda>x.
          bindR (dec_lt y x) (\<lambda>less. if less then Inr (True, snd d)
            else bindR (dec_lt x y) (\<lambda>more. Inr (if more then (fst d, True) else d)))))
      | _ \<Rightarrow> Inr d)"

definition note_count :: "int option \<Rightarrow> int option \<Rightarrow> diff \<Rightarrow> diff" where
  "note_count old new d =
     (if old = new then d
      else case (old, new) of
        (None, Some n) \<Rightarrow> (True, snd d)
      | (Some k, None) \<Rightarrow> (fst d, True)
      | (Some k, Some n) \<Rightarrow> if n < k then (True, snd d) else if k < n then (fst d, True) else d
      | _ \<Rightarrow> d)"

definition note_override :: "override_item \<Rightarrow> override_item \<Rightarrow> diff \<Rightarrow> diff res" where
  "note_override old new d =
     bindR (note_money (ov_entry_cap old) (ov_entry_cap new) d) (\<lambda>d1.
     bindR (note_money (ov_max_notional old) (ov_max_notional new) d1) (\<lambda>d2.
       Inr (note_count (ov_max_positions old) (ov_max_positions new) d2)))"

fun note_overrides :: "policy_body \<Rightarrow> policy_body \<Rightarrow> string list \<Rightarrow> diff \<Rightarrow> diff res" where
  "note_overrides current candidate [] d = Inr d"
| "note_overrides current candidate (k # ks) d =
     bindR (note_override (override_for (Some current) k) (override_for (Some candidate) k) d)
       (note_overrides current candidate ks)"

definition note_enabled :: "bool \<Rightarrow> bool \<Rightarrow> diff" where
  "note_enabled old new = (old \<and> \<not> new, \<not> old \<and> new)"

definition policy_diff :: "policy_body \<Rightarrow> policy_body \<Rightarrow> diff res" where
  "policy_diff current candidate =
     bindR (note_money (pb_entry_cap current) (pb_entry_cap candidate)
              (note_enabled (pb_new_entries_enabled current) (pb_new_entries_enabled candidate))) (\<lambda>d1.
     bindR (note_money (pb_total_notional current) (pb_total_notional candidate) d1) (\<lambda>d2.
     bindR (note_money (pb_strategy_notional current) (pb_strategy_notional candidate) d2) (\<lambda>d3.
     bindR (note_money (pb_mint_notional current) (pb_mint_notional candidate) d3) (\<lambda>d4.
       note_overrides current candidate
         (sorted_list_of_fset (fmdom (pb_overrides current) |\<union>| fmdom (pb_overrides candidate)))
         (note_count (pb_mint_positions current) (pb_mint_positions candidate)
           (note_count (pb_strategy_positions current) (pb_strategy_positions candidate)
             (note_count (pb_total_positions current) (pb_total_positions candidate) d4)))))))"

definition diff_name :: "diff \<Rightarrow> string" where
  "diff_name d = (if fst d \<and> snd d then ''MIXED'' else if fst d then ''TIGHTENING''
     else if snd d then ''RELAXATION'' else ''NO_CHANGE'')"

definition classify_diff :: "policy_body option \<Rightarrow> policy_body \<Rightarrow> string res" where
  "classify_diff current candidate =
     (case current of None \<Rightarrow> Inr (diff_name (True, False))
      | Some c \<Rightarrow> bindR (policy_diff c candidate) (\<lambda>d. Inr (diff_name d)))"

text \<open>\<open>check_policy\<close>: the policy in force, the candidate's body and how it would change it.\<close>

definition check_policy ::
  "(jval \<Rightarrow> string) \<Rightarrow> store \<Rightarrow> string \<Rightarrow> dict \<Rightarrow> (current_policy \<times> policy_body \<times> string) res" where
  "check_policy sha s mode raw =
     bindR (resolve_current_policy sha s mode) (\<lambda>current.
     bindR (normalize_policy_body raw mode) (\<lambda>candidate.
     bindR (if cu_status current = RUNTIME_POLICY_INVALID then Inr ''BLOCKED_INVALID''
            else classify_diff (map_option pl_body (cu_policy current)) candidate) (\<lambda>classification.
       Inr (current, candidate, classification))))"

end
