(* ===== verification/RuntimePolicyFacts.thy ===== *)
theory RuntimePolicyFacts
  imports RuntimePolicy
begin

section \<open>Policy bodies are normal forms\<close>

text \<open>
  A normalized body survives being written and read: normalizing the dictionary of a policy gives
  its body back. A stored revision is therefore read as it was applied.
\<close>

subsection \<open>Texts of amounts\<close>

lemma dec_text_plain: "dec_is_finite x \<Longrightarrow> dec_text (dec_plain x) = dec_text x"
  by (cases x) auto

definition money_text :: "string \<Rightarrow> bool" where
  "money_text t = (\<exists>x. dec_is_finite x \<and> 0 < dval x \<and> t = dec_text x)"

lemma money_text_value:
  assumes "money_text t"
  obtains x where "dec_of_string t = Inr x" and "dec_is_finite x" and "0 < dval x" and "dec_text x = t"
proof -
  obtain x where x: "dec_is_finite x" "0 < dval x" "t = dec_text x" using assms by (auto simp: money_text_def)
  then show thesis
    using that [of "dec_plain x"] by (simp add: dec_text_fin dec_plain_finite dval_dec_plain dec_text_plain)
qed

lemma dec_less_zero: "dec_is_finite x \<Longrightarrow> dec_less dec_zero x \<longleftrightarrow> 0 < dval x"
  using dec_less_dval [of dec_zero x] by (simp add: dec_zero_def signed_def)

lemma policy_money_wf:
  assumes "policy_money f v = Inr t"
  shows "(t = None \<longleftrightarrow> v = JNull) \<and> (\<forall>u. t = Some u \<longrightarrow> money_text u)"
  using assms unfolding policy_money_def money_text_def
  by (auto simp: dec_less_zero split: if_splits sum.splits)

lemma policy_money_text: "money_text t \<Longrightarrow> policy_money f (JStr t) = Inr (Some t)"
  by (erule money_text_value) (simp add: policy_money_def jdecimal_def dec_less_zero)

definition money_column :: "string option \<Rightarrow> bool" where
  "money_column t = (\<forall>u. t = Some u \<longrightarrow> money_text u)"

lemma policy_money_column_wf: "policy_money f v = Inr t \<Longrightarrow> money_column t"
  using policy_money_wf by (simp add: money_column_def)

lemma policy_money_column: "money_column t \<Longrightarrow> policy_money f (jtext t) = Inr t"
  by (cases t) (simp_all add: jtext_def money_column_def policy_money_text, simp add: policy_money_def)

definition count_column :: "int option \<Rightarrow> bool" where
  "count_column n = (\<forall>k. n = Some k \<longrightarrow> 1 \<le> k)"

lemma policy_count_column: "count_column n \<Longrightarrow> policy_count f (jint n) = Inr n"
  by (cases n) (simp_all add: jint_def count_column_def policy_count_def)

lemma zero_digit:
  assumes "of_char c = (48 :: nat)"
  shows "c = CHR ''0''"
proof -
  have "of_char c = (of_char (CHR ''0'') :: nat)" using assms by simp
  then show ?thesis by (simp only: of_char_eq_iff)
qed

lemma digits_val_pos:
  assumes "u \<noteq> []" and "list_all is_digit u" and "hd u \<noteq> CHR ''0''"
  shows "0 < digits_val u"
proof -
  have grow: "v \<le> foldl (\<lambda>v c. 10 * v + digit_val c) v xs" for v xs
  proof (induction xs arbitrary: v)
    case (Cons c xs)
    have "v \<le> 10 * v + digit_val c" by simp
    also have "\<dots> \<le> foldl (\<lambda>v c. 10 * v + digit_val c) (10 * v + digit_val c) xs" by (rule Cons)
    finally show ?case by simp
  qed simp
  obtain c r where u: "u = c # r" using assms(1) by (cases u) auto
  have "0 < digit_val c"
    using assms(2,3) zero_digit [of c] by (cases "of_char c = (48 :: nat)") (auto simp: u is_digit_def digit_val_def)
  then show ?thesis using grow [of "digit_val c" r] by (simp add: digits_val_def u)
qed

lemma policy_count_wf: "policy_count f v = Inr n \<Longrightarrow> count_column n"
  by (auto simp: policy_count_def count_column_def count_of_text_def Let_def dest!: digits_val_pos
      split: jval.splits if_splits option.splits)

subsection \<open>Overrides\<close>

definition override_wf :: "override_item \<Rightarrow> bool" where
  "override_wf i = (money_column (ov_entry_cap i) \<and> money_column (ov_max_notional i) \<and> count_column (ov_max_positions i))"

lemma normalize_override_wf:
  "normalize_override k v = Inr i \<Longrightarrow> override_wf i \<and> take 6 k = STRAT_PREFIX"
  unfolding normalize_override_def
  by (cases v) (auto simp: Let_def bindR_eq_Inr override_wf_def money_column_def policy_count_wf
      dest!: policy_money_wf split: if_splits)

lemma normalize_override_dict:
  assumes "override_wf i" and "take 6 k = STRAT_PREFIX"
  shows "normalize_override k (override_dict i) = Inr i"
  using assms by (simp add: normalize_override_def override_dict_def override_wf_def policy_money_column policy_count_column)

definition overrides_wf :: "(string, override_item) fmap \<Rightarrow> bool" where
  "overrides_wf m = (\<forall>k i. fmlookup m k = Some i \<longrightarrow> override_wf i \<and> take 6 k = STRAT_PREFIX)"

lemma mapR_mem: "mapR f xs = Inr ys \<Longrightarrow> y \<in> set ys \<Longrightarrow> \<exists>x\<in>set xs. f x = Inr y"
  by (induction xs arbitrary: ys) (auto simp: bindR_eq_Inr)

lemma normalize_overrides_wf:
  assumes "normalize_overrides v = Inr m"
  shows "overrides_wf m"
  unfolding overrides_wf_def
proof (intro allI impI)
  fix k i assume l: "fmlookup m k = Some i"
  show "override_wf i \<and> take 6 k = STRAT_PREFIX"
  proof (cases "jtruthy v")
    case False
    then show ?thesis using assms l by (simp add: normalize_overrides_def)
  next
    case True
    then obtain d items where d: "v = JObj d" and m: "m = fmap_of_list items"
      and items: "mapR (\<lambda>(key, spec). bindR (normalize_override key spec) (\<lambda>item. Inr (key, item)))
        (sorted_list_of_fmap d) = Inr items"
      using assms by (cases v) (auto simp: normalize_overrides_def bindR_eq_Inr)
    have "(k, i) \<in> set items" using l m fmap_of_list_SomeD by metis
    from mapR_mem [OF items this] show ?thesis by (auto simp: bindR_eq_Inr dest: normalize_override_wf)
  qed
qed

lemma fmap_of_sorted_list: "fmap_of_list (sorted_list_of_fmap m) = m"
proof (rule fmap_ext)
  fix k
  have d: "distinct (map fst (sorted_list_of_fmap m))"
    by (simp add: sorted_list_of_fmap_def comp_def sorted_list_of_fset.rep_eq)
  have "map_of (sorted_list_of_fmap m) k = fmlookup m k"
  proof (cases "fmlookup m k")
    case None
    then have "k \<notin> fst ` set (sorted_list_of_fmap m)"
      by (auto simp: sorted_list_of_fmap_def fmlookup_dom_iff)
    then show ?thesis using None by (simp add: map_of_eq_None_iff)
  next
    case (Some v)
    then have "(k, v) \<in> set (sorted_list_of_fmap m)"
      by (auto simp: sorted_list_of_fmap_def fmlookup_dom_iff intro!: image_eqI [of _ _ k])
    then show ?thesis using d Some by (simp add: map_of_is_SomeI)
  qed
  then show "fmlookup (fmap_of_list (sorted_list_of_fmap m)) k = fmlookup m k" by (simp add: fmlookup_of_list)
qed

lemma sorted_list_of_fmmap: "sorted_list_of_fmap (fmmap f m) = map (\<lambda>(k, v). (k, f v)) (sorted_list_of_fmap m)"
  by (auto simp: sorted_list_of_fmap_def fmlookup_dom_iff)

lemma mapR_map: "mapR f (map g xs) = mapR (\<lambda>x. f (g x)) xs"
  by (induction xs) auto

lemma normalize_overrides_dict:
  assumes "overrides_wf m"
  shows "normalize_overrides (JObj (fmmap override_dict m)) = Inr m"
proof (cases "m = fmempty")
  case True
  then show ?thesis by (simp add: normalize_overrides_def)
next
  case False
  have ne: "fmmap override_dict m \<noteq> fmempty"
  proof
    assume e: "fmmap override_dict m = fmempty"
    have "fmlookup m k = None" for k
      using arg_cong [OF e, of "\<lambda>x. fmlookup x k"] by simp
    then have "m = fmempty" by (intro fmap_ext) simp
    then show False using False by contradiction
  qed
  have item: "(case x of (k, i) \<Rightarrow> bindR (normalize_override k (override_dict i)) (\<lambda>item. Inr (k, item))) = Inr x"
    if "x \<in> set (sorted_list_of_fmap m)" for x
  proof -
    obtain k i where x: "x = (k, i)" by (cases x)
    have "fmlookup m k = Some i" using that x by (auto simp: sorted_list_of_fmap_def fmlookup_dom_iff)
    then show ?thesis using assms normalize_override_dict by (auto simp: overrides_wf_def x)
  qed
  have "mapR (\<lambda>(key, spec). bindR (normalize_override key spec) (\<lambda>item. Inr (key, item)))
      (sorted_list_of_fmap (fmmap override_dict m)) = Inr (sorted_list_of_fmap m)"
    unfolding sorted_list_of_fmmap mapR_map
    using mapR_all_Inr [of "sorted_list_of_fmap m" _ "\<lambda>x. x"] item by (simp add: case_prod_unfold)
  then show ?thesis using ne by (simp add: normalize_overrides_def fmap_of_sorted_list)
qed

subsection \<open>Bodies\<close>

definition body_wf :: "policy_body \<Rightarrow> bool" where
  "body_wf b = (pb_mode b \<in> set SUPPORTED_MODES \<and> money_column (pb_entry_cap b) \<and> money_column (pb_total_notional b)
     \<and> money_column (pb_strategy_notional b) \<and> money_column (pb_mint_notional b) \<and> count_column (pb_total_positions b)
     \<and> count_column (pb_strategy_positions b) \<and> count_column (pb_mint_positions b) \<and> overrides_wf (pb_overrides b))"

lemma normalize_policy_body_wf:
  "normalize_policy_body raw mode = Inr b \<Longrightarrow> body_wf b \<and> pb_mode b = mode"
  unfolding normalize_policy_body_def
  by (auto simp: bindR_eq_Inr body_wf_def split: if_splits jval.splits
      intro: policy_money_column_wf policy_count_wf normalize_overrides_wf)

lemma policy_dict_fields:
  "jget (policy_dict p) ''new_entries_enabled'' = JBool (pb_new_entries_enabled (pl_body p))"
  "jget (policy_dict p) ''global_entry_notional_cap_usd'' = jtext (pb_entry_cap (pl_body p))"
  "jget (policy_dict p) ''max_total_open_notional_usd'' = jtext (pb_total_notional (pl_body p))"
  "jget (policy_dict p) ''default_strategy_max_open_notional_usd'' = jtext (pb_strategy_notional (pl_body p))"
  "jget (policy_dict p) ''max_open_notional_per_mint_usd'' = jtext (pb_mint_notional (pl_body p))"
  "jget (policy_dict p) ''max_total_open_positions'' = jint (pb_total_positions (pl_body p))"
  "jget (policy_dict p) ''default_strategy_max_open_positions'' = jint (pb_strategy_positions (pl_body p))"
  "jget (policy_dict p) ''max_open_positions_per_mint'' = jint (pb_mint_positions (pl_body p))"
  "jget (policy_dict p) ''strategy_overrides'' = JObj (fmmap override_dict (pb_overrides (pl_body p)))"
  "jget (policy_dict p) ''policy_id'' = pl_id p"
  by (simp_all add: policy_dict_def body_items_def)

lemma normalize_policy_dict:
  assumes "body_wf (pl_body p)"
  shows "normalize_policy_body (policy_dict p) (pb_mode (pl_body p)) = Inr (pl_body p)"
  using assms
  by (simp add: normalize_policy_body_def policy_dict_fields body_wf_def policy_money_column policy_count_column
      normalize_overrides_dict)

end
