(* ===== verification/PolicyWrite.thy ===== *)
theory PolicyWrite
  imports RuntimePolicyFacts
begin

section \<open>Applying and rolling back a policy\<close>

text \<open>
  The writing half of \<open>factory/trading_runtime_policy.py\<close>: a revision is appended only on top of
  the policy the caller has seen, under an idempotency key that answers a repeated command from
  the log. The owner's authorization phrase comes from a configuration file and is a parameter.
\<close>

definition COMMAND_APPLY :: string where
  "COMMAND_APPLY = ''TRADING_RUNTIME_POLICY_APPLY''"

definition COMMAND_ROLLBACK :: string where
  "COMMAND_ROLLBACK = ''TRADING_RUNTIME_POLICY_ROLLBACK''"

text \<open>\<open>require_owner_authorization\<close>, with the phrase the configuration holds.\<close>

definition require_owner_authorization :: "string \<Rightarrow> string option \<Rightarrow> unit res" where
  "require_owner_authorization expected phrase =
     (if expected = [] then Inl (TradingRuntimePolicyError ''POLICY_AUTHORIZATION_PHRASE_MISSING'')
      else guardR (phrase = Some expected) (TradingRuntimePolicyError ''POLICY_OWNER_AUTHORIZATION_INVALID''))"

fun status_name :: "policy_status \<Rightarrow> string" where
  "status_name NOT_CONFIGURED_STRATEGY_ONLY = ''NOT_CONFIGURED_STRATEGY_ONLY''"
| "status_name VALID = ''VALID''"
| "status_name RUNTIME_POLICY_INVALID = ''RUNTIME_POLICY_INVALID''"

definition current_dict :: "current_policy \<Rightarrow> dict" where
  "current_dict c =
     (let base = dict_of [(''status'', JStr (status_name (cu_status c))), (''mode'', JStr (cu_mode c)),
            (''policy'', case cu_policy c of None \<Rightarrow> JNull | Some p \<Rightarrow> JObj (policy_dict p)),
            (''revision'', jint (cu_revision c)), (''policy_sha256'', JStr (cu_sha256 c))]
      in case cu_policy c of None \<Rightarrow> base
         | Some p \<Rightarrow> dict_with base [(''created_at'', JStr (pl_created_at p)), (''reason'', JStr (pl_reason p))])"

text \<open>A key that was used: the stored answer for the same command and request, an error for any other.\<close>

definition replay_or_conflict :: "store \<Rightarrow> string \<Rightarrow> string \<Rightarrow> dict \<Rightarrow> dict option res" where
  "replay_or_conflict s key ctype request =
     (case get_operator_command key s of
        None \<Rightarrow> Inr None
      | Some c \<Rightarrow>
          if c_type c \<noteq> ctype \<or> c_request c \<noteq> request
          then Inl (TradingRuntimePolicyError ''POLICY_IDEMPOTENCY_REQUEST_MISMATCH'')
          else Inr (Some (dict_with (c_result c) [(''idempotent'', JBool True), (''idempotency_key'', JStr key)])))"

definition next_revision :: "current_policy \<Rightarrow> int" where
  "next_revision c = (case cu_revision c of None \<Rightarrow> 1 | Some n \<Rightarrow> n + 1)"

definition persist_result :: "string \<Rightarrow> policy \<Rightarrow> current_policy \<Rightarrow> dict" where
  "persist_result ctype p readback =
     dict_of [(''command_type'', JStr ctype), (''status'', JStr (if ctype = COMMAND_APPLY then ''APPLIED'' else ''ROLLED_BACK'')),
       (''mode'', JStr (pb_mode (pl_body p))), (''revision'', JInt (pl_revision p)),
       (''policy_sha256'', JStr (pl_sha256 p)), (''previous_policy_sha256'', JStr (pl_previous_sha256 p)),
       (''readback'', JObj (current_dict readback))]"

definition persist_policy_revision ::
  "(jval \<Rightarrow> string) \<Rightarrow> string \<Rightarrow> policy_body \<Rightarrow> string \<Rightarrow> string \<Rightarrow> string \<Rightarrow> string \<Rightarrow> dict \<Rightarrow> store
   \<Rightarrow> (dict \<times> store) res" where
  "persist_policy_revision sha mode body expected_sha reason ctype key request s =
     bindR (resolve_current_policy sha s mode) (\<lambda>current.
     if cu_status current = RUNTIME_POLICY_INVALID then Inl (TradingRuntimePolicyError ''RUNTIME_POLICY_INVALID'')
     else if expected_sha \<noteq> cu_sha256 current then Inl (TradingRuntimePolicyError ''POLICY_STALE_WRITE_DENIED'')
     else
       let previous = (if cu_sha256 current = [] then GENESIS_POLICY_SHA256 else cu_sha256 current);
           p = attach_revision_identity sha body (next_revision current) (now_of s) reason previous JNull in
       bindR (append_runtime_policy_revision (policy_row_of p) (tick s)) (\<lambda>(_, s1).
       bindR (resolve_current_policy sha s1 mode) (\<lambda>readback.
       let result = persist_result ctype p readback in
       bindR (record_operator_command key ctype request result s1) (\<lambda>(_, s2).
         Inr (dict_with result [(''idempotent'', JBool False), (''idempotency_key'', JStr key)], s2)))))"

definition apply_request :: "string \<Rightarrow> string \<Rightarrow> policy_body \<Rightarrow> string \<Rightarrow> dict" where
  "apply_request mode expected_sha body reason =
     dict_of [(''mode'', JStr mode), (''expected_current_sha256'', JStr expected_sha),
       (''candidate'', JObj (dict_of (body_items body))), (''reason'', JStr reason)]"

definition apply_policy ::
  "(jval \<Rightarrow> string) \<Rightarrow> string \<Rightarrow> string \<Rightarrow> dict \<Rightarrow> string \<Rightarrow> string \<Rightarrow> string option \<Rightarrow> string \<Rightarrow> store
   \<Rightarrow> (dict \<times> store) res" where
  "apply_policy sha phrase mode raw expected_sha key given_phrase reason s0 =
     bindR (require_owner_authorization phrase given_phrase) (\<lambda>_.
     if key = [] then Inl (TradingRuntimePolicyError ''COMMAND_IDEMPOTENCY_KEY_REQUIRED'')
     else bindR (normalize_policy_body raw mode) (\<lambda>body.
       let request = apply_request mode expected_sha body reason in
       immediate_write (\<lambda>s.
         bindR (replay_or_conflict s key COMMAND_APPLY request) (\<lambda>replayed.
           case replayed of
             Some answer \<Rightarrow> Inr (answer, s)
           | None \<Rightarrow> persist_policy_revision sha mode body expected_sha reason COMMAND_APPLY key request s)) s0))"

definition rollback_request :: "string \<Rightarrow> string \<Rightarrow> dict" where
  "rollback_request mode expected_sha =
     dict_of [(''mode'', JStr mode), (''expected_current_sha256'', JStr expected_sha), (''reason'', JStr ''ROLLBACK'')]"

text \<open>The body a rollback returns to: that of the revision the current one was built on.\<close>

definition previous_body :: "(jval \<Rightarrow> string) \<Rightarrow> string \<Rightarrow> string \<Rightarrow> store \<Rightarrow> policy_body res" where
  "previous_body sha mode expected_sha s =
     bindR (resolve_current_policy sha s mode) (\<lambda>current.
       case cu_policy current of
         None \<Rightarrow> Inl (TradingRuntimePolicyError ''POLICY_ROLLBACK_NO_CURRENT'')
       | Some p \<Rightarrow>
         if cu_status current \<noteq> VALID then Inl (TradingRuntimePolicyError ''POLICY_ROLLBACK_NO_CURRENT'')
         else if expected_sha \<noteq> cu_sha256 current then Inl (TradingRuntimePolicyError ''POLICY_STALE_WRITE_DENIED'')
         else if pl_previous_sha256 p = GENESIS_POLICY_SHA256
         then Inl (TradingRuntimePolicyError ''POLICY_ROLLBACK_NO_PREVIOUS'')
         else (case runtime_policy_by_sha256 mode (pl_previous_sha256 p) s of
             None \<Rightarrow> Inl (TradingRuntimePolicyError ''POLICY_ROLLBACK_PREVIOUS_MISSING'')
           | Some row \<Rightarrow> (case r_policy row of None \<Rightarrow> Inl PyValueError
               | Some d \<Rightarrow> normalize_policy_body d mode)))"

definition rollback_policy ::
  "(jval \<Rightarrow> string) \<Rightarrow> string \<Rightarrow> string \<Rightarrow> string \<Rightarrow> string \<Rightarrow> string option \<Rightarrow> store \<Rightarrow> (dict \<times> store) res" where
  "rollback_policy sha phrase mode expected_sha key given_phrase s0 =
     bindR (require_owner_authorization phrase given_phrase) (\<lambda>_.
     if key = [] then Inl (TradingRuntimePolicyError ''COMMAND_IDEMPOTENCY_KEY_REQUIRED'')
     else let request = rollback_request mode expected_sha in
       immediate_write (\<lambda>s.
         bindR (replay_or_conflict s key COMMAND_ROLLBACK request) (\<lambda>replayed.
           case replayed of
             Some answer \<Rightarrow> Inr (answer, s)
           | None \<Rightarrow>
               bindR (previous_body sha mode expected_sha s) (\<lambda>body.
                 persist_policy_revision sha mode body expected_sha ''ROLLBACK'' COMMAND_ROLLBACK key request s))) s0)"

end
