(* ===== verification/PolicyChain.thy ===== *)
theory PolicyChain
  imports PolicyWrite
begin

section \<open>The log of policy revisions\<close>

text \<open>
  The revisions of a mode form a chain: numbered from 1, each naming the hash of the one before,
  each readable as it was written. Every policy command keeps the chain, an applied policy is the
  one in force, and a rollback restores the body before the last.
\<close>

subsection \<open>Chains\<close>

fun chain_from :: "int \<Rightarrow> string \<Rightarrow> policy_row list \<Rightarrow> bool" where
  "chain_from n previous [] = True"
| "chain_from n previous (r # rs) =
     (r_revision r = n \<and> r_previous_sha256 r = previous \<and> chain_from (n + 1) (r_sha256 r) rs)"

definition last_sha :: "string \<Rightarrow> policy_row list \<Rightarrow> string" where
  "last_sha previous rs = (if rs = [] then previous else r_sha256 (last rs))"

lemma chain_snoc:
  "chain_from n previous (rs @ [r]) \<longleftrightarrow>
     chain_from n previous rs \<and> r_revision r = n + int (length rs) \<and> r_previous_sha256 r = last_sha previous rs"
  by (induction rs arbitrary: n previous) (auto simp: last_sha_def)

lemma chain_revisions: "chain_from n previous rs \<Longrightarrow> map r_revision rs = map (\<lambda>i. n + int i) [0..<length rs]"
  by (induction rs arbitrary: n previous rule: rev_induct) (auto simp: chain_snoc)

lemma chain_sorted: "chain_from n previous rs \<Longrightarrow> sort_key r_revision rs = rs"
  by (rule sort_key_id_if_sorted) (simp add: chain_revisions sorted_iff_nth_mono)

lemma chain_nth:
  "chain_from n previous rs \<Longrightarrow> Suc i < length rs \<Longrightarrow> r_previous_sha256 (rs ! Suc i) = r_sha256 (rs ! i)"
  by (induction n previous rs arbitrary: i rule: chain_from.induct)
    (case_tac rs; fastforce simp: nth_Cons split: nat.splits)+

lemma latest_of_chain:
  assumes "chain_from 1 g (mode_policies mode s)"
  shows "latest_runtime_policy_row mode s =
    (if mode_policies mode s = [] then None else Some (last (mode_policies mode s)))"
  using chain_sorted [OF assms]
  by (cases "mode_policies mode s" rule: rev_cases) (simp_all add: latest_runtime_policy_row_def)

subsection \<open>Revisions that read back\<close>

definition well_identified :: "(jval \<Rightarrow> string) \<Rightarrow> policy \<Rightarrow> bool" where
  "well_identified sha p =
     (body_wf (pl_body p) \<and> jtruthy (pl_id p) \<and>
      attach_revision_identity sha (pl_body p) (pl_revision p) (pl_created_at p) (pl_reason p) (pl_previous_sha256 p) (pl_id p) = p)"

lemma policy_row_of_fields [simp]:
  "r_mode (policy_row_of p) = pb_mode (pl_body p)" "r_revision (policy_row_of p) = pl_revision p"
  "r_created_at (policy_row_of p) = pl_created_at p" "r_reason (policy_row_of p) = pl_reason p"
  "r_policy (policy_row_of p) = Some (policy_dict p)" "r_sha256 (policy_row_of p) = pl_sha256 p"
  "r_previous_sha256 (policy_row_of p) = pl_previous_sha256 p"
  by (simp_all add: policy_row_of_def)

lemma policy_of_row_written:
  assumes "well_identified sha p"
  shows "policy_of_row sha (pb_mode (pl_body p)) (policy_row_of p) = Inr p"
  using assms by (simp add: policy_of_row_def normalize_policy_dict policy_dict_fields well_identified_def jor_def)

definition policy_log_ok :: "(jval \<Rightarrow> string) \<Rightarrow> store \<Rightarrow> bool" where
  "policy_log_ok sha s =
     (\<forall>mode\<in>set SUPPORTED_MODES. chain_from 1 GENESIS_POLICY_SHA256 (mode_policies mode s)
        \<and> distinct (map r_sha256 (mode_policies mode s))
        \<and> (\<forall>r\<in>set (mode_policies mode s). \<exists>p. well_identified sha p \<and> r = policy_row_of p \<and> pb_mode (pl_body p) = mode))"

lemma supported_not_live: "mode \<in> set SUPPORTED_MODES \<Longrightarrow> mode \<noteq> ''LIVE''"
  by (auto simp: SUPPORTED_MODES_def)

text \<open>With a log in order the policy in force is the last revision, or none.\<close>

lemma resolve_of_log:
  assumes "policy_log_ok sha s" and "mode \<in> set SUPPORTED_MODES"
  shows "mode_policies mode s = [] \<Longrightarrow> resolve_current_policy sha s mode =
      Inr \<lparr>cu_status = NOT_CONFIGURED_STRATEGY_ONLY, cu_mode = mode, cu_policy = None, cu_revision = None,
           cu_sha256 = GENESIS_POLICY_SHA256\<rparr>"
    and "mode_policies mode s = rs @ [policy_row_of p] \<Longrightarrow> well_identified sha p \<Longrightarrow> pb_mode (pl_body p) = mode \<Longrightarrow>
      resolve_current_policy sha s mode =
      Inr \<lparr>cu_status = VALID, cu_mode = mode, cu_policy = Some p, cu_revision = Some (pl_revision p),
           cu_sha256 = pl_sha256 p\<rparr>"
proof -
  have latest: "latest_runtime_policy_row mode s =
      (if mode_policies mode s = [] then None else Some (last (mode_policies mode s)))"
    using assms by (intro latest_of_chain) (auto simp: policy_log_ok_def)
  show "mode_policies mode s = [] \<Longrightarrow> resolve_current_policy sha s mode =
      Inr \<lparr>cu_status = NOT_CONFIGURED_STRATEGY_ONLY, cu_mode = mode, cu_policy = None, cu_revision = None,
           cu_sha256 = GENESIS_POLICY_SHA256\<rparr>"
    using assms(2) supported_not_live latest by (auto simp: resolve_current_policy_def)
  assume "mode_policies mode s = rs @ [policy_row_of p]" and p: "well_identified sha p" "pb_mode (pl_body p) = mode"
  then show "resolve_current_policy sha s mode =
      Inr \<lparr>cu_status = VALID, cu_mode = mode, cu_policy = Some p, cu_revision = Some (pl_revision p),
           cu_sha256 = pl_sha256 p\<rparr>"
    using assms(2) supported_not_live latest policy_of_row_written [OF p(1)] by (auto simp: resolve_current_policy_def)
qed

lemma log_cases:
  assumes "policy_log_ok sha s" and "mode \<in> set SUPPORTED_MODES"
  obtains "mode_policies mode s = []"
  | rs p where "mode_policies mode s = rs @ [policy_row_of p]" and "well_identified sha p" and "pb_mode (pl_body p) = mode"
    and "pl_revision p = 1 + int (length rs)" and "pl_previous_sha256 p = last_sha GENESIS_POLICY_SHA256 rs"
proof (cases "mode_policies mode s" rule: rev_cases)
  case (snoc rs r)
  then have "r \<in> set (mode_policies mode s)" by simp
  then obtain p where p: "well_identified sha p" "r = policy_row_of p" "pb_mode (pl_body p) = mode"
    using assms by (auto simp: policy_log_ok_def)
  have "chain_from 1 GENESIS_POLICY_SHA256 (rs @ [r])" using assms snoc by (auto simp: policy_log_ok_def)
  then show thesis using that(2) [of rs p] snoc p by (simp add: chain_snoc)
qed (use that in blast)

text \<open>What the next revision is built on.\<close>

lemma resolve_summary:
  assumes log: "policy_log_ok sha s" and mode: "mode \<in> set SUPPORTED_MODES"
    and c: "resolve_current_policy sha s mode = Inr c"
  shows "cu_sha256 c = last_sha GENESIS_POLICY_SHA256 (mode_policies mode s)"
    and "next_revision c = 1 + int (length (mode_policies mode s))" and "cu_status c \<noteq> RUNTIME_POLICY_INVALID"
proof (atomize (full), cases rule: log_cases [OF log mode])
  case 1
  then show "cu_sha256 c = last_sha GENESIS_POLICY_SHA256 (mode_policies mode s) \<and>
      next_revision c = 1 + int (length (mode_policies mode s)) \<and> cu_status c \<noteq> RUNTIME_POLICY_INVALID"
    using resolve_of_log(1) [OF log mode 1] c by (auto simp: last_sha_def next_revision_def)
next
  case (2 rs p)
  then show "cu_sha256 c = last_sha GENESIS_POLICY_SHA256 (mode_policies mode s) \<and>
      next_revision c = 1 + int (length (mode_policies mode s)) \<and> cu_status c \<noteq> RUNTIME_POLICY_INVALID"
    using resolve_of_log(2) [OF log mode 2(1-3)] c by (auto simp: last_sha_def next_revision_def)
qed

end
