(* ===== verification/PolicyClaims.thy ===== *)
theory PolicyClaims
  imports PolicyChain
begin

section \<open>What policy commands guarantee\<close>

text \<open>
  \<open>apply_policy\<close> and \<open>rollback_policy\<close> as writers of the revision log (locale \<open>policy_writer\<close>):
  each leaves the log alone or puts one well identified revision on top of it. From that: the log
  stays in order, an applied policy is in force and reads back as written, a rollback restores
  the body before the last, a repeated command changes nothing and a stale one is refused.
  The digest is any function to 64 characters; where two digests must differ it is said.
\<close>

definition sha_ok :: "(jval \<Rightarrow> string) \<Rightarrow> bool" where
  "sha_ok sha = (\<forall>v. length (sha v) = 64)"

subsection \<open>One revision on top\<close>

definition next_policy :: "(jval \<Rightarrow> string) \<Rightarrow> string \<Rightarrow> policy_body \<Rightarrow> string \<Rightarrow> store \<Rightarrow> policy" where
  "next_policy sha mode body reason s =
     attach_revision_identity sha body (1 + int (length (mode_policies mode s))) (now_of s) reason
       (last_sha GENESIS_POLICY_SHA256 (mode_policies mode s)) JNull"

lemma next_policy_fields [simp]:
  "pl_body (next_policy sha mode body reason s) = body"
  "pl_revision (next_policy sha mode body reason s) = 1 + int (length (mode_policies mode s))"
  "pl_created_at (next_policy sha mode body reason s) = now_of s"
  "pl_reason (next_policy sha mode body reason s) = reason"
  "pl_previous_sha256 (next_policy sha mode body reason s) = last_sha GENESIS_POLICY_SHA256 (mode_policies mode s)"
  by (simp_all add: next_policy_def attach_revision_identity_def)

lemma next_policy_identified:
  assumes "body_wf body"
  shows "well_identified sha (next_policy sha mode body reason s)"
  using assms unfolding well_identified_def
  by (simp add: next_policy_def attach_revision_identity_def jor_def default_policy_id_def)

definition policy_append :: "(jval \<Rightarrow> string) \<Rightarrow> policy \<Rightarrow> store \<Rightarrow> store \<Rightarrow> bool" where
  "policy_append sha p s s' =
     (st_policies s' = st_policies s @ [policy_row_of p] \<and> well_identified sha p
      \<and> pl_revision p = 1 + int (length (mode_policies (pb_mode (pl_body p)) s))
      \<and> pl_previous_sha256 p = last_sha GENESIS_POLICY_SHA256 (mode_policies (pb_mode (pl_body p)) s)
      \<and> pl_sha256 p \<notin> r_sha256 ` set (mode_policies (pb_mode (pl_body p)) s))"

lemma mode_policies_append:
  assumes "st_policies s' = st_policies s @ [policy_row_of p]"
  shows "mode_policies mode s' =
    mode_policies mode s @ (if pb_mode (pl_body p) = mode then [policy_row_of p] else [])"
  using assms by (simp add: mode_policies_def)

lemma policy_append_ok:
  assumes log: "policy_log_ok sha s" and new: "policy_append sha p s s'"
  shows "policy_log_ok sha s'"
  unfolding policy_log_ok_def
proof (intro ballI)
  fix mode assume m: "mode \<in> set SUPPORTED_MODES"
  have at_mode: "mode_policies mode s' =
      mode_policies mode s @ (if pb_mode (pl_body p) = mode then [policy_row_of p] else [])"
    using new by (intro mode_policies_append) (simp add: policy_append_def)
  show "chain_from 1 GENESIS_POLICY_SHA256 (mode_policies mode s') \<and> distinct (map r_sha256 (mode_policies mode s'))
    \<and> (\<forall>r\<in>set (mode_policies mode s'). \<exists>p. well_identified sha p \<and> r = policy_row_of p \<and> pb_mode (pl_body p) = mode)"
    using log m new unfolding at_mode policy_log_ok_def policy_append_def
    by (cases "pb_mode (pl_body p) = mode") (auto simp: chain_snoc)
qed

lemma log_ok_same: "st_policies s' = st_policies s \<Longrightarrow> policy_log_ok sha s' = policy_log_ok sha s"
  by (simp add: policy_log_ok_def mode_policies_def)

text \<open>With a log in order \<open>persist_policy_revision\<close> is: refuse, or write the next policy.\<close>

lemma identified_sha_length:
  assumes "well_identified sha p" and "sha_ok sha"
  shows "length (pl_sha256 p) = 64"
proof -
  have "pl_sha256 p = pl_sha256 (attach_revision_identity sha (pl_body p) (pl_revision p) (pl_created_at p)
      (pl_reason p) (pl_previous_sha256 p) (pl_id p))"
    using assms(1) by (simp add: well_identified_def)
  then show ?thesis using assms(2) by (simp add: attach_revision_identity_def sha_ok_def)
qed

lemma last_sha_not_empty:
  assumes "sha_ok sha" and "policy_log_ok sha s" and "mode \<in> set SUPPORTED_MODES"
  shows "last_sha GENESIS_POLICY_SHA256 (mode_policies mode s) \<noteq> []"
proof (cases rule: log_cases [OF assms(2,3)])
  case 1
  then show ?thesis by (simp add: last_sha_def GENESIS_POLICY_SHA256_def)
next
  case (2 rs p)
  then show ?thesis using identified_sha_length [OF 2(2) assms(1)] by (auto simp: last_sha_def)
qed

definition after_append :: "policy \<Rightarrow> store \<Rightarrow> store" where
  "after_append p s = (tick s)\<lparr>st_policies := st_policies s @ [policy_row_of p]\<rparr>"

definition policy_answer :: "string \<Rightarrow> string \<Rightarrow> policy \<Rightarrow> dict" where
  "policy_answer ctype key p = dict_with (persist_result ctype p
       \<lparr>cu_status = VALID, cu_mode = pb_mode (pl_body p), cu_policy = Some p, cu_revision = Some (pl_revision p),
        cu_sha256 = pl_sha256 p\<rparr>) [(''idempotent'', JBool False), (''idempotency_key'', JStr key)]"

definition recorded :: "string \<Rightarrow> string \<Rightarrow> dict \<Rightarrow> policy \<Rightarrow> store \<Rightarrow> store" where
  "recorded key ctype request p s = (tick s)\<lparr>st_commands := st_commands s @
     [\<lparr>c_key = key, c_type = ctype, c_created_at = now_of s, c_request = request,
       c_result = persist_result ctype p \<lparr>cu_status = VALID, cu_mode = pb_mode (pl_body p), cu_policy = Some p,
         cu_revision = Some (pl_revision p), cu_sha256 = pl_sha256 p\<rparr>\<rparr>]\<rparr>"

lemma after_append_reads:
  "st_policies (after_append p s) = st_policies s @ [policy_row_of p]" "st_readonly (after_append p s) = st_readonly s"
  "get_operator_command key (after_append p s) = get_operator_command key s"
  by (simp_all add: after_append_def tick_def get_operator_command_def)

lemma after_append_policy:
  assumes "body_wf body" and "pl_sha256 (next_policy sha (pb_mode body) body reason s)
      \<notin> r_sha256 ` set (mode_policies (pb_mode body) s)"
  shows "policy_append sha (next_policy sha (pb_mode body) body reason s) s
      (after_append (next_policy sha (pb_mode body) body reason s) s)"
  using assms next_policy_identified by (simp add: policy_append_def after_append_reads)

lemma resolve_after_append:
  assumes "policy_log_ok sha s" and "body_wf body" and "pb_mode body = mode"
    and "pl_sha256 (next_policy sha mode body reason s) \<notin> r_sha256 ` set (mode_policies mode s)"
    and "st_policies s' = st_policies s @ [policy_row_of (next_policy sha mode body reason s)]"
  shows "resolve_current_policy sha s' mode = Inr \<lparr>cu_status = VALID, cu_mode = mode,
      cu_policy = Some (next_policy sha mode body reason s), cu_revision = Some (1 + int (length (mode_policies mode s))),
      cu_sha256 = pl_sha256 (next_policy sha mode body reason s)\<rparr>"
proof -
  define p where "p = next_policy sha mode body reason s"
  have p: "well_identified sha p" "pb_mode (pl_body p) = mode" "pl_revision p = 1 + int (length (mode_policies mode s))"
    using assms(2,3) next_policy_identified by (simp_all add: p_def)
  have m: "mode \<in> set SUPPORTED_MODES" using assms(2,3) by (auto simp: body_wf_def)
  have "policy_append sha p s s'"
    using assms next_policy_identified by (auto simp: policy_append_def p_def)
  then have log: "policy_log_ok sha s'" by (rule policy_append_ok [OF assms(1)])
  have "mode_policies mode s' = mode_policies mode s @ [policy_row_of p]"
    using mode_policies_append [of s' s p mode] assms(5) p(2) by (simp add: p_def)
  from resolve_of_log(2) [OF log m this p(1,2)] show ?thesis by (simp add: p_def p(3) [unfolded p_def])
qed

text \<open>With a log in order a policy write is: refuse, or put the next policy on top.\<close>

lemma persist_cases:
  assumes sha: "sha_ok sha" and log: "policy_log_ok sha s" and body: "body_wf body" and mode: "pb_mode body = mode"
    and p_def: "p = next_policy sha mode body reason s"
  shows "persist_policy_revision sha mode body expected reason ctype key request s =
    (if expected \<noteq> last_sha GENESIS_POLICY_SHA256 (mode_policies mode s)
     then Inl (TradingRuntimePolicyError ''POLICY_STALE_WRITE_DENIED'')
     else if st_readonly s then Inl SqliteReadonlyError
     else if pl_sha256 p \<in> r_sha256 ` set (mode_policies mode s) then Inl SqliteIntegrityError
     else if get_operator_command key s \<noteq> None then Inl SqliteIntegrityError
     else Inr (policy_answer ctype key p, recorded key ctype request p (after_append p s)))"
proof -
  have m: "mode \<in> set SUPPORTED_MODES" using body mode by (auto simp: body_wf_def)
  obtain c where c: "resolve_current_policy sha s mode = Inr c"
    using resolve_of_log [OF log m] by (cases rule: log_cases [OF log m]) auto
  note sum = resolve_summary [OF log m c]
  have attach: "attach_revision_identity sha body (1 + int (length (mode_policies mode s))) (now_of s) reason
      (last_sha GENESIS_POLICY_SHA256 (mode_policies mode s)) JNull = p"
    by (simp add: p_def next_policy_def)
  note seen = sum last_sha_not_empty [OF sha log m] attach
  have revs: "\<forall>r\<in>set (mode_policies mode s). r_revision r \<noteq> 1 + int (length (mode_policies mode s))"
  proof
    fix r assume "r \<in> set (mode_policies mode s)"
    then have "r_revision r \<in> set (map r_revision (mode_policies mode s))" by simp
    moreover have "chain_from 1 GENESIS_POLICY_SHA256 (mode_policies mode s)" using log m by (auto simp: policy_log_ok_def)
    ultimately show "r_revision r \<noteq> 1 + int (length (mode_policies mode s))" by (auto simp: chain_revisions)
  qed
  have pm: "pb_mode (pl_body p) = mode" "pl_revision p = 1 + int (length (mode_policies mode s))"
    by (simp_all add: p_def mode)
  have "mode_policies mode (tick s) = mode_policies mode s" by (simp add: mode_policies_def tick_def)
  then have dup: "(\<exists>r\<in>set (mode_policies mode (tick s)). r_revision r = 1 + int (length (mode_policies mode s))
        \<or> r_sha256 r = pl_sha256 p) \<longleftrightarrow> pl_sha256 p \<in> r_sha256 ` set (mode_policies mode s)"
    using revs by force
  have append: "append_runtime_policy_revision (policy_row_of p) (tick s) =
      (if st_readonly s then Inl SqliteReadonlyError
       else if pl_sha256 p \<in> r_sha256 ` set (mode_policies mode s) then Inl SqliteIntegrityError
       else Inr ((), after_append p s))"
    using m dup by (auto simp: append_runtime_policy_revision_def pm SUPPORTED_MODES_def after_append_def tick_def)
  show ?thesis
  proof (cases "pl_sha256 p \<in> r_sha256 ` set (mode_policies mode s)")
    case True
    then show ?thesis by (simp add: persist_policy_revision_def c seen append Let_def)
  next
    case False
    have res: "resolve_current_policy sha (after_append p s) mode = Inr \<lparr>cu_status = VALID, cu_mode = mode,
        cu_policy = Some p, cu_revision = Some (pl_revision p), cu_sha256 = pl_sha256 p\<rparr>"
      using resolve_after_append [OF log body mode, of reason "after_append p s"] False
      by (simp add: p_def after_append_reads)
    show ?thesis using False
      by (simp add: persist_policy_revision_def c seen append res Let_def record_operator_command_def
          after_append_reads policy_answer_def recorded_def pm)
  qed
qed

subsection \<open>Commands as writers of the log\<close>

datatype policy_command =
    ApplyPolicy string dict string string "string option" string
  | RollbackPolicy string string string "string option"

fun policy_step :: "(jval \<Rightarrow> string) \<Rightarrow> string \<Rightarrow> policy_command \<Rightarrow> store \<Rightarrow> (dict \<times> store) res" where
  "policy_step sha phrase (ApplyPolicy mode raw expected key given reason) s =
     apply_policy sha phrase mode raw expected key given reason s"
| "policy_step sha phrase (RollbackPolicy mode expected key given) s =
     rollback_policy sha phrase mode expected key given s"

text \<open>What a writer of the log promises.\<close>

definition log_step :: "(jval \<Rightarrow> string) \<Rightarrow> store \<Rightarrow> store \<Rightarrow> bool" where
  "log_step sha s s' = (s' = s \<or> (\<exists>p. policy_append sha p s s'))"

lemma log_step_intros [intro]: "log_step sha s s" "policy_append sha p s s' \<Longrightarrow> log_step sha s s'"
  by (auto simp: log_step_def)

locale policy_writer =
  fixes sha :: "jval \<Rightarrow> string" and step :: "'c \<Rightarrow> store \<Rightarrow> (dict \<times> store) res"
  assumes step_log: "sha_ok sha \<Longrightarrow> policy_log_ok sha s \<Longrightarrow> step c s = Inr (ans, s') \<Longrightarrow> log_step sha s s'"
begin

definition call :: "store \<Rightarrow> 'c \<Rightarrow> store" where
  "call s c = (case step c s of Inl e \<Rightarrow> s | Inr (ans, s') \<Rightarrow> s')"

lemma call_log: "sha_ok sha \<Longrightarrow> policy_log_ok sha s \<Longrightarrow> log_step sha s (call s c)"
  using step_log [of s c] by (cases "step c s") (auto simp: call_def log_step_def)

lemma call_ok: "sha_ok sha \<Longrightarrow> policy_log_ok sha s \<Longrightarrow> policy_log_ok sha (call s c)"
  using call_log [of s c] policy_append_ok by (auto simp: log_step_def)

lemma calls_ok: "sha_ok sha \<Longrightarrow> policy_log_ok sha s \<Longrightarrow> policy_log_ok sha (foldl call s cs)"
  by (induction cs arbitrary: s) (simp_all add: call_ok)

lemma calls_prefix:
  assumes "sha_ok sha" and "policy_log_ok sha s"
  shows "prefix (st_policies s) (st_policies (foldl call s cs))"
  using assms(2)
proof (induction cs rule: rev_induct)
  case (snoc c cs)
  have "log_step sha (foldl call s cs) (call (foldl call s cs) c)"
    using snoc assms(1) by (intro call_log calls_ok)
  then show ?case using snoc by (auto simp: log_step_def policy_append_def intro: prefix_order.trans)
qed simp

end

lemma recorded_log: "policy_append sha p s (recorded key ctype request p (after_append p s)) = policy_append sha p s (after_append p s)"
  by (simp add: policy_append_def recorded_def after_append_def tick_def)

lemma persist_log:
  assumes "sha_ok sha" and "policy_log_ok sha s" and "body_wf body" and "pb_mode body = mode"
    and "persist_policy_revision sha mode body expected reason ctype key request s = Inr (ans, s')"
  shows "log_step sha s s'"
proof -
  define p where "p = next_policy sha mode body reason s"
  have "policy_append sha p s s'"
    using assms(5) after_append_policy [OF assms(3), of sha reason s] recorded_log [of sha p s key ctype request]
    unfolding persist_cases [OF assms(1-4) p_def, of expected ctype key request]
    by (simp add: assms(4) p_def [symmetric] split: if_splits)
  then show ?thesis ..
qed

lemma previous_body_wf: "previous_body sha mode expected s = Inr b \<Longrightarrow> body_wf b \<and> pb_mode b = mode"
  unfolding previous_body_def
  by (auto simp: result_simps dest: normalize_policy_body_wf)

interpretation policies: policy_writer sha "policy_step sha phrase" for sha phrase
proof
  fix s c ans s'
  assume sha: "sha_ok sha" and log: "policy_log_ok sha s" and step: "policy_step sha phrase c s = Inr (ans, s')"
  show "log_step sha s s'"
  proof (cases c)
    case (ApplyPolicy mode raw expected key given reason)
    then show ?thesis
      using step normalize_policy_body_wf [of raw mode] persist_log [OF sha log]
      by (auto simp: apply_policy_def bindR_eq_Inr immediate_write_eq_Inr Let_def split: if_splits option.splits)
  next
    case (RollbackPolicy mode expected key given)
    then show ?thesis
      using step previous_body_wf [of sha mode expected s] persist_log [OF sha log]
      by (auto simp: rollback_policy_def bindR_eq_Inr immediate_write_eq_Inr Let_def split: if_splits option.splits)
  qed
qed

definition run_policy :: "(jval \<Rightarrow> string) \<Rightarrow> string \<Rightarrow> policy_command list \<Rightarrow> store \<Rightarrow> store" where
  "run_policy sha phrase cs s =
     foldl (\<lambda>s c. case policy_step sha phrase c s of Inl e \<Rightarrow> s | Inr (ans, s') \<Rightarrow> s') s cs"

lemma run_policy_calls: "run_policy sha phrase cs s = foldl (policies.call sha phrase) s cs"
proof -
  have "(\<lambda>s c. case policy_step sha phrase c s of Inl e \<Rightarrow> s | Inr (ans, s') \<Rightarrow> s') = policies.call sha phrase"
    by (intro ext) (simp add: policies.call_def)
  then show ?thesis by (simp add: run_policy_def)
qed

subsection \<open>A concrete digest and store\<close>

definition demo_sha :: "jval \<Rightarrow> string" where
  "demo_sha v = replicate 63 (CHR ''a'') @
     (case v of JObj d \<Rightarrow> (case jget d ''revision'' of JInt i \<Rightarrow> if i = 1 then ''1'' else if i = 2 then ''2'' else ''3''
        | _ \<Rightarrow> ''0'') | _ \<Rightarrow> ''0'')"

lemma demo_sha_ok: "sha_ok demo_sha"
  by (auto simp: sha_ok_def demo_sha_def split: jval.splits)

definition demo_policies :: store where
  "demo_policies = \<lparr>st_readonly = False, st_bots = [], st_positions = [], st_events = [], st_commands = [],
     st_policies = [], st_marks = [], st_wall = (\<lambda>n. ''2026-07-01T00:00:00+00:00''), st_hex = (\<lambda>n. ''00''), st_calls = 0\<rparr>"

lemma demo_policies_ok: "policy_log_ok sha demo_policies"
  by (simp add: policy_log_ok_def demo_policies_def mode_policies_def)

definition demo_raw :: dict where
  "demo_raw = dict_of [(''new_entries_enabled'', JBool True), (''max_total_open_positions'', JInt 4)]"

definition demo_raw2 :: dict where
  "demo_raw2 = dict_of [(''new_entries_enabled'', JBool False), (''max_total_open_positions'', JInt 2)]"

definition blank_body :: "bool \<Rightarrow> int \<Rightarrow> policy_body" where
  "blank_body enabled n = \<lparr>pb_mode = ''PAPER'', pb_new_entries_enabled = enabled, pb_entry_cap = None,
     pb_total_notional = None, pb_strategy_notional = None, pb_mint_notional = None, pb_total_positions = Some n,
     pb_strategy_positions = None, pb_mint_positions = None, pb_overrides = fmempty\<rparr>"

lemma demo_bodies:
  "normalize_policy_body demo_raw ''PAPER'' = Inr (blank_body True 4)"
  "normalize_policy_body demo_raw2 ''PAPER'' = Inr (blank_body False 2)"
  by (simp_all add: normalize_policy_body_def demo_raw_def demo_raw2_def SUPPORTED_MODES_def policy_money_def
      policy_count_def normalize_overrides_def blank_body_def)

subsection \<open>Properties\<close>

text \<open>C22: the revision log stays in order: after any sequence of apply and rollback commands, whichever of
  them are refused, the revisions of each mode are numbered 1, 2, ... without a gap, each names the digest of
  the one before, their digests are distinct, each is readable exactly as it was written, and no revision
  written before is changed or removed.\<close>

theorem policy_log_kept:
  assumes "sha_ok sha" and "policy_log_ok sha s"
  shows "policy_log_ok sha (run_policy sha phrase cs s)
    \<and> prefix (st_policies s) (st_policies (run_policy sha phrase cs s))"
  using policies.calls_ok [OF assms] policies.calls_prefix [OF assms] by (simp add: run_policy_calls)

lemma policy_log_kept_witness:
  "policy_log_ok demo_sha (run_policy demo_sha ''OK'' [ApplyPolicy ''PAPER'' demo_raw GENESIS_POLICY_SHA256 ''K1''
     (Some ''OK'') ''first''] demo_policies)"
  using policy_log_kept [OF demo_sha_ok demo_policies_ok] by blast

text \<open>An applied policy is in force: with the owner's phrase, an unused key, the digest of the policy in
  force and a new digest of its own, \<open>apply_policy\<close> returns, and the policy in force is then exactly the
  normalized body, one revision further, built on the digest it replaced.\<close>

theorem applied_policy_in_force:
  assumes "sha_ok sha" and "policy_log_ok sha s" and "\<not> st_readonly s" and "phrase \<noteq> []" and "key \<noteq> []"
    and "get_operator_command key s = None" and "normalize_policy_body raw mode = Inr b"
    and "resolve_current_policy sha s mode = Inr c"
    and "pl_sha256 (next_policy sha mode b reason s) \<notin> r_sha256 ` set (mode_policies mode s)"
  shows "\<exists>ans s' c' p. apply_policy sha phrase mode raw (cu_sha256 c) key (Some phrase) reason s = Inr (ans, s')
    \<and> resolve_current_policy sha s' mode = Inr c' \<and> cu_status c' = VALID \<and> cu_policy c' = Some p
    \<and> pl_body p = b \<and> pl_revision p = next_revision c \<and> pl_previous_sha256 p = cu_sha256 c \<and> pl_reason p = reason"
proof -
  define p where "p = next_policy sha mode b reason s"
  have b: "body_wf b" "pb_mode b = mode" using normalize_policy_body_wf [OF assms(7)] by auto
  then have m: "mode \<in> set SUPPORTED_MODES" by (auto simp: body_wf_def)
  note sum = resolve_summary [OF assms(2) m assms(8)]
  have "apply_policy sha phrase mode raw (cu_sha256 c) key (Some phrase) reason s =
      Inr (policy_answer COMMAND_APPLY key p, recorded key COMMAND_APPLY (apply_request mode (cu_sha256 c) b reason) p (after_append p s))"
    using assms(3-7,9) persist_cases [OF assms(1,2) b p_def, of "cu_sha256 c" COMMAND_APPLY key]
    by (simp add: apply_policy_def require_owner_authorization_def immediate_write_def replay_or_conflict_def Let_def
        sum(1) p_def)
  moreover have "resolve_current_policy sha (recorded key COMMAND_APPLY (apply_request mode (cu_sha256 c) b reason) p (after_append p s)) mode =
      Inr \<lparr>cu_status = VALID, cu_mode = mode, cu_policy = Some p, cu_revision = Some (1 + int (length (mode_policies mode s))),
        cu_sha256 = pl_sha256 p\<rparr>"
    unfolding p_def
    by (rule resolve_after_append [OF assms(2) b assms(9)]) (simp add: recorded_def after_append_def tick_def)
  ultimately show ?thesis by (intro exI conjI) (auto simp: p_def sum)
qed

lemma demo_resolve: "resolve_current_policy sha demo_policies ''PAPER'' =
  Inr \<lparr>cu_status = NOT_CONFIGURED_STRATEGY_ONLY, cu_mode = ''PAPER'', cu_policy = None, cu_revision = None,
       cu_sha256 = GENESIS_POLICY_SHA256\<rparr>"
  by (rule resolve_of_log [OF demo_policies_ok]) (simp_all add: SUPPORTED_MODES_def demo_policies_def mode_policies_def)

lemma applied_policy_in_force_witness:
  "\<exists>ans s' c' p. apply_policy demo_sha ''OK'' ''PAPER'' demo_raw GENESIS_POLICY_SHA256 ''K1'' (Some ''OK'') ''first''
     demo_policies = Inr (ans, s') \<and> resolve_current_policy demo_sha s' ''PAPER'' = Inr c' \<and> cu_policy c' = Some p
     \<and> pl_body p = blank_body True 4 \<and> pl_revision p = 1"
proof -
  have d: "\<not> st_readonly demo_policies" "(''OK'' :: string) \<noteq> []" "(''K1'' :: string) \<noteq> []"
    "get_operator_command ''K1'' demo_policies = None"
    "pl_sha256 (next_policy demo_sha ''PAPER'' (blank_body True 4) ''first'' demo_policies)
       \<notin> r_sha256 ` set (mode_policies ''PAPER'' demo_policies)"
    by (simp_all add: demo_policies_def get_operator_command_def mode_policies_def)
  show ?thesis
    using applied_policy_in_force [OF demo_sha_ok demo_policies_ok d(1-4) demo_bodies(1) demo_resolve d(5)]
    by (auto simp: next_revision_def)
qed

text \<open>What an apply that returned did, when its key was new.\<close>

lemma apply_policy_success:
  assumes "sha_ok sha" and "policy_log_ok sha s" and "get_operator_command key s = None"
    and "apply_policy sha phrase mode raw expected key given reason s = Inr (ans, s1)"
  obtains b p where "normalize_policy_body raw mode = Inr b" and "phrase \<noteq> []" and "given = Some phrase"
    and "\<not> st_readonly s" and "p = next_policy sha mode b reason s"
    and "pl_sha256 p \<notin> r_sha256 ` set (mode_policies mode s)"
    and "expected = last_sha GENESIS_POLICY_SHA256 (mode_policies mode s)"
    and "s1 = recorded key COMMAND_APPLY (apply_request mode expected b reason) p (after_append p s)"
proof -
  obtain b where b: "normalize_policy_body raw mode = Inr b"
    and persist: "persist_policy_revision sha mode b expected reason COMMAND_APPLY key
        (apply_request mode expected b reason) s = Inr (ans, s1)"
    and ok: "phrase \<noteq> []" "given = Some phrase" "\<not> st_readonly s"
    using assms(3,4) by (auto simp: apply_policy_def require_owner_authorization_def replay_or_conflict_def
        bindR_eq_Inr immediate_write_eq_Inr guardR_eq_Inr Let_def split: if_splits)
  have wf: "body_wf b" "pb_mode b = mode" using normalize_policy_body_wf [OF b] by auto
  show thesis
    using persist by (intro that [OF b ok refl])
      (auto simp: persist_cases [OF assms(1,2) wf refl] split: if_splits)
qed

lemma rows_get_in_distinct:
  "distinct (map key rs) \<Longrightarrow> r \<in> set rs \<Longrightarrow> rows_get key (key r) rs = Some r"
  by (induction rs) auto

text \<open>C23: a rollback undoes an apply: when a policy was in force, a new one was applied and nothing else has
  written since, rolling back on the digest now in force returns, and the body in force is again the one
  before the apply, as a new revision that keeps both in the log.\<close>

theorem rollback_undoes_apply:
  assumes "sha_ok sha" and "policy_log_ok sha s" and "get_operator_command key s = None"
    and "resolve_current_policy sha s mode = Inr c" and "cu_policy c = Some q"
    and "pl_sha256 q \<noteq> GENESIS_POLICY_SHA256"
    and "apply_policy sha phrase mode raw expected key given reason s = Inr (ans, s1)"
    and "resolve_current_policy sha s1 mode = Inr c1"
    and "key2 \<noteq> []" and "key2 \<noteq> key" and "get_operator_command key2 s = None"
    and "pl_sha256 (next_policy sha mode (pl_body q) ''ROLLBACK'' s1) \<notin> r_sha256 ` set (mode_policies mode s1)"
  shows "\<exists>ans2 s2 c2 p. rollback_policy sha phrase mode (cu_sha256 c1) key2 (Some phrase) s1 = Inr (ans2, s2)
    \<and> resolve_current_policy sha s2 mode = Inr c2 \<and> cu_status c2 = VALID \<and> cu_policy c2 = Some p
    \<and> pl_body p = pl_body q \<and> pl_revision p = pl_revision q + 2
    \<and> length (mode_policies mode s2) = length (mode_policies mode s) + 2"
proof -
  obtain b p1 where b: "normalize_policy_body raw mode = Inr b" and ph: "phrase \<noteq> []" and ro: "\<not> st_readonly s"
    and p1: "p1 = next_policy sha mode b reason s" and fresh: "pl_sha256 p1 \<notin> r_sha256 ` set (mode_policies mode s)"
    and s1: "s1 = recorded key COMMAND_APPLY (apply_request mode expected b reason) p1 (after_append p1 s)"
    using apply_policy_success [OF assms(1-3,7)] by metis
  have wf: "body_wf b" "pb_mode b = mode" using normalize_policy_body_wf [OF b] by auto
  then have m: "mode \<in> set SUPPORTED_MODES" by (auto simp: body_wf_def)
  obtain rs where rs: "mode_policies mode s = rs @ [policy_row_of q]" and q: "well_identified sha q" "pb_mode (pl_body q) = mode"
    and qr: "pl_revision q = 1 + int (length rs)"
    using assms(4,5) resolve_of_log [OF assms(2) m] by (cases rule: log_cases [OF assms(2) m]) auto
  have new: "st_policies s1 = st_policies s @ [policy_row_of p1]" by (simp add: s1 recorded_def after_append_def tick_def)
  have p1m: "pb_mode (pl_body p1) = mode" by (simp add: p1 wf)
  have log1: "policy_log_ok sha s1"
    using policy_append_ok [OF assms(2), of p1 s1] after_append_policy [OF wf(1), of sha reason s] fresh
    by (simp add: wf p1 s1 recorded_log)
  have rows1: "mode_policies mode s1 = rs @ [policy_row_of q, policy_row_of p1]"
    using mode_policies_append [OF new, of mode] p1m rs by simp
  have c1: "cu_policy c1 = Some p1" "cu_sha256 c1 = pl_sha256 p1" "cu_status c1 = VALID"
    using resolve_after_append [OF assms(2) wf, of reason s1] assms(8) fresh new by (auto simp: p1)
  have prev: "pl_previous_sha256 p1 = pl_sha256 q" by (simp add: p1 rs last_sha_def)
  have row: "runtime_policy_by_sha256 mode (pl_sha256 q) s1 = Some (policy_row_of q)"
    using rows_get_in_distinct [of r_sha256 "mode_policies mode s1" "policy_row_of q"] log1 m
    by (auto simp: runtime_policy_by_sha256_def policy_log_ok_def rows1)
  have body: "previous_body sha mode (cu_sha256 c1) s1 = Inr (pl_body q)"
    using q assms(6) normalize_policy_dict [of q]
    by (simp add: previous_body_def assms(8) c1 prev row well_identified_def)
  have ro1: "\<not> st_readonly s1" and k2: "get_operator_command key2 s1 = None"
    using ro assms(10,11) by (simp_all add: s1 recorded_def after_append_def tick_def get_operator_command_def rows_get_append)
  define p2 where "p2 = next_policy sha mode (pl_body q) ''ROLLBACK'' s1"
  have qw: "body_wf (pl_body q)" using q(1) by (simp add: well_identified_def)
  let ?s2 = "recorded key2 COMMAND_ROLLBACK (rollback_request mode (cu_sha256 c1)) p2 (after_append p2 s1)"
  have rolled: "rollback_policy sha phrase mode (cu_sha256 c1) key2 (Some phrase) s1 = Inr (policy_answer COMMAND_ROLLBACK key2 p2, ?s2)"
    using ph ro1 k2 assms(9,12) persist_cases [OF assms(1) log1 qw q(2) p2_def, of "cu_sha256 c1" COMMAND_ROLLBACK key2]
    by (simp add: resolve_summary(1) [OF log1 m assms(8), symmetric] rollback_policy_def require_owner_authorization_def immediate_write_def replay_or_conflict_def Let_def
        body p2_def)
  have new2: "st_policies ?s2 = st_policies s1 @ [policy_row_of p2]" by (simp add: recorded_def after_append_def tick_def)
  note resolved = resolve_after_append [OF log1 qw q(2) assms(12) new2 [unfolded p2_def]]
  have rev: "pl_revision p2 = pl_revision q + 2" and len: "length (mode_policies mode ?s2) = length (mode_policies mode s) + 2"
    using mode_policies_append [OF new2, of mode] by (simp_all add: p2_def rows1 qr rs q)
  let ?c2 = "\<lparr>cu_status = VALID, cu_mode = mode, cu_policy = Some p2,
      cu_revision = Some (1 + int (length (mode_policies mode s1))), cu_sha256 = pl_sha256 p2\<rparr>"
  have "rollback_policy sha phrase mode (cu_sha256 c1) key2 (Some phrase) s1 =
        Inr (policy_answer COMMAND_ROLLBACK key2 p2, ?s2)
    \<and> resolve_current_policy sha ?s2 mode = Inr ?c2 \<and> cu_status ?c2 = VALID \<and> cu_policy ?c2 = Some p2
    \<and> pl_body p2 = pl_body q \<and> pl_revision p2 = pl_revision q + 2
    \<and> length (mode_policies mode ?s2) = length (mode_policies mode s) + 2"
    using rolled resolved [folded p2_def] rev len by (simp add: p2_def)
  then show ?thesis by (intro exI)
qed

definition demo_applied :: store where
  "demo_applied = recorded ''K1'' COMMAND_APPLY (apply_request ''PAPER'' GENESIS_POLICY_SHA256 (blank_body True 4) ''first'')
     (next_policy demo_sha ''PAPER'' (blank_body True 4) ''first'' demo_policies)
     (after_append (next_policy demo_sha ''PAPER'' (blank_body True 4) ''first'' demo_policies) demo_policies)"

lemma demo_applied_step:
  "apply_policy demo_sha ''OK'' ''PAPER'' demo_raw GENESIS_POLICY_SHA256 ''K1'' (Some ''OK'') ''first'' demo_policies =
     Inr (policy_answer COMMAND_APPLY ''K1'' (next_policy demo_sha ''PAPER'' (blank_body True 4) ''first'' demo_policies),
          demo_applied)"
proof -
  have wf: "body_wf (blank_body True 4)" "pb_mode (blank_body True 4) = ''PAPER''"
    using normalize_policy_body_wf [OF demo_bodies(1)] by auto
  show ?thesis
    using persist_cases [OF demo_sha_ok demo_policies_ok wf refl, of GENESIS_POLICY_SHA256 "''first''" COMMAND_APPLY "''K1''"]
    by (simp add: apply_policy_def require_owner_authorization_def demo_bodies immediate_write_def replay_or_conflict_def
        demo_applied_def last_sha_def get_operator_command_def mode_policies_def demo_policies_def)
qed

lemma demo_applied_ok: "policy_log_ok demo_sha demo_applied"
  using policies.step_log [OF demo_sha_ok demo_policies_ok, of "''OK''"
      "ApplyPolicy ''PAPER'' demo_raw GENESIS_POLICY_SHA256 ''K1'' (Some ''OK'') ''first''"]
    demo_applied_step policy_append_ok [OF demo_policies_ok]
  by (auto simp: log_step_def demo_policies_ok)

lemma demo_applied_log:
  "mode_policies ''PAPER'' demo_applied = [policy_row_of (next_policy demo_sha ''PAPER'' (blank_body True 4) ''first'' demo_policies)]"
  "st_readonly demo_applied = False" "map c_key (st_commands demo_applied) = [''K1'']"
  by (simp_all add: demo_applied_def recorded_def after_append_def tick_def mode_policies_def demo_policies_def blank_body_def)

lemma demo_sha_digit:
  "pl_sha256 (next_policy demo_sha ''PAPER'' b r s) =
     replicate 63 (CHR ''a'') @ (if length (mode_policies ''PAPER'' s) = 0 then ''1''
       else if length (mode_policies ''PAPER'' s) = 1 then ''2'' else ''3'')"
  by (simp add: next_policy_def attach_revision_identity_def demo_sha_def)

lemma demo_current:
  "resolve_current_policy demo_sha demo_applied ''PAPER'' = Inr \<lparr>cu_status = VALID, cu_mode = ''PAPER'',
     cu_policy = Some (next_policy demo_sha ''PAPER'' (blank_body True 4) ''first'' demo_policies), cu_revision = Some 1,
     cu_sha256 = replicate 63 (CHR ''a'') @ ''1''\<rparr>"
proof -
  have wf: "body_wf (blank_body True 4)" "pb_mode (blank_body True 4) = ''PAPER''"
    using normalize_policy_body_wf [OF demo_bodies(1)] by auto
  have e: "mode_policies ''PAPER'' demo_policies = []" by (simp add: mode_policies_def demo_policies_def)
  show ?thesis
    using resolve_of_log(2) [OF demo_applied_ok, of "''PAPER''" "[]"] demo_applied_log(1)
      next_policy_identified [OF wf(1)]
    by (simp add: SUPPORTED_MODES_def wf e demo_sha_digit)
qed

lemma rollback_undoes_apply_witness:
  "\<exists>ans s1 ans2 s2 c2 p. apply_policy demo_sha ''OK'' ''PAPER'' demo_raw2 (replicate 63 (CHR ''a'') @ ''1'') ''K2'' (Some ''OK'')
       ''tighter'' demo_applied = Inr (ans, s1)
   \<and> rollback_policy demo_sha ''OK'' ''PAPER'' (replicate 63 (CHR ''a'') @ ''2'') ''K3'' (Some ''OK'') s1 = Inr (ans2, s2)
   \<and> resolve_current_policy demo_sha s2 ''PAPER'' = Inr c2 \<and> cu_policy c2 = Some p \<and> pl_body p = blank_body True 4"
proof -
  let ?q = "next_policy demo_sha ''PAPER'' (blank_body True 4) ''first'' demo_policies"
  let ?p = "next_policy demo_sha ''PAPER'' (blank_body False 2) ''tighter'' demo_applied"
  let ?s1 = "recorded ''K2'' COMMAND_APPLY (apply_request ''PAPER'' (replicate 63 (CHR ''a'') @ ''1'') (blank_body False 2) ''tighter'')
     ?p (after_append ?p demo_applied)"
  have e: "mode_policies ''PAPER'' demo_policies = []" by (simp add: mode_policies_def demo_policies_def)
  have wf: "body_wf (blank_body False 2)" "pb_mode (blank_body False 2) = ''PAPER''"
    using normalize_policy_body_wf [OF demo_bodies(2)] by auto
  have keys: "get_operator_command ''K2'' demo_applied = None" "get_operator_command ''K3'' demo_applied = None"
    using demo_applied_log(3) by (auto simp: get_operator_command_def rows_get_None)
  have step: "apply_policy demo_sha ''OK'' ''PAPER'' demo_raw2 (replicate 63 (CHR ''a'') @ ''1'') ''K2'' (Some ''OK'') ''tighter''
      demo_applied = Inr (policy_answer COMMAND_APPLY ''K2'' ?p, ?s1)"
    using persist_cases [OF demo_sha_ok demo_applied_ok wf refl, of "replicate 63 (CHR ''a'') @ ''1''" "''tighter''" COMMAND_APPLY "''K2''"]
    by (simp add: apply_policy_def require_owner_authorization_def demo_bodies immediate_write_def replay_or_conflict_def
        demo_applied_log keys last_sha_def demo_sha_digit e)
  have rows: "mode_policies ''PAPER'' ?s1 = [policy_row_of ?q, policy_row_of ?p]"
    using mode_policies_append [of ?s1 demo_applied ?p "''PAPER''"]
    by (simp add: demo_applied_log wf recorded_def after_append_def tick_def)
  have res1: "resolve_current_policy demo_sha ?s1 ''PAPER'' = Inr \<lparr>cu_status = VALID, cu_mode = ''PAPER'',
      cu_policy = Some ?p, cu_revision = Some 2, cu_sha256 = replicate 63 (CHR ''a'') @ ''2''\<rparr>"
    using resolve_after_append [OF demo_applied_ok wf, of "''tighter''" ?s1]
    by (simp add: demo_applied_log demo_sha_digit e recorded_def after_append_def tick_def)
  have gen: "pl_sha256 ?q \<noteq> GENESIS_POLICY_SHA256" by (auto simp: demo_sha_digit e GENESIS_POLICY_SHA256_def dest!: arg_cong [of _ _ hd])
  have fresh: "pl_sha256 (next_policy demo_sha ''PAPER'' (pl_body ?q) ''ROLLBACK'' ?s1) \<notin> r_sha256 ` set (mode_policies ''PAPER'' ?s1)"
    by (simp add: rows demo_sha_digit e demo_applied_log)
  show ?thesis
    using rollback_undoes_apply [OF demo_sha_ok demo_applied_ok keys(1) demo_current _ gen step res1 _ _ keys(2) fresh] step
    by auto
qed

text \<open>A write that succeeded left its answer under its key.\<close>

lemma persist_answer:
  assumes "persist_policy_revision sha mode body expected reason ctype key request s = Inr (ans, s')"
  obtains c where "get_operator_command key s' = Some c" and "c_type c = ctype" and "c_request c = request"
    and "ans = dict_with (c_result c) [(''idempotent'', JBool False), (''idempotency_key'', JStr key)]"
    and "st_readonly s' = st_readonly s"
proof -
  obtain s1 rb where app: "append_runtime_policy_revision rb (tick s) = Inr ((), s1)"
    and rest: "\<exists>result. record_operator_command key ctype request result s1 = Inr ((), s')
      \<and> ans = dict_with result [(''idempotent'', JBool False), (''idempotency_key'', JStr key)]"
    using assms unfolding persist_policy_revision_def Let_def
    by (auto simp: bindR_eq_Inr split: if_splits)
  then obtain result where rec: "record_operator_command key ctype request result s1 = Inr ((), s')"
    and ans: "ans = dict_with result [(''idempotent'', JBool False), (''idempotency_key'', JStr key)]" by blast
  have "get_operator_command key s' =
      Some \<lparr>c_key = key, c_type = ctype, c_created_at = now_of s1, c_request = request, c_result = result\<rparr>"
    using rec by (auto simp: record_operator_command_def get_operator_command_def rows_get_append split: if_splits)
  moreover have "st_readonly s' = st_readonly s"
    using rec app by (auto simp: record_operator_command_def append_runtime_policy_revision_def tick_def split: if_splits)
  ultimately show thesis using ans that by auto
qed

lemma replay_dict:
  "dict_with d [(''idempotent'', JBool True), (''idempotency_key'', JStr key)] =
   fmupd ''idempotent'' (JBool True) (dict_with d [(''idempotent'', JBool b), (''idempotency_key'', JStr key)])"
  by (rule fmap_ext) auto

lemma replayed_or_persisted:
  assumes "bindR (replay_or_conflict s key ctype request)
      (\<lambda>replayed. case replayed of Some answer \<Rightarrow> Inr (answer, s)
       | None \<Rightarrow> bindR body (\<lambda>b. persist_policy_revision sha mode b expected reason ctype key request s)) = Inr (ans, s')"
  shows "replay_or_conflict s' key ctype request = Inr (Some (fmupd ''idempotent'' (JBool True) ans))
    \<and> st_readonly s' = st_readonly s"
proof -
  obtain r where r: "replay_or_conflict s key ctype request = Inr r" using assms by (auto simp: bindR_eq_Inr)
  show ?thesis
  proof (cases r)
    case (Some answer)
    then show ?thesis using assms r
      by (auto simp: replay_or_conflict_def fmap_ext split: option.splits if_splits intro!: fmap_ext)
  next
    case None
    then obtain b where "persist_policy_revision sha mode b expected reason ctype key request s = Inr (ans, s')"
      using assms r by (auto simp: bindR_eq_Inr)
    then obtain c where "get_operator_command key s' = Some c" "c_type c = ctype" "c_request c = request"
      "ans = dict_with (c_result c) [(''idempotent'', JBool False), (''idempotency_key'', JStr key)]"
      "st_readonly s' = st_readonly s"
      by (rule persist_answer)
    then show ?thesis by (simp add: replay_or_conflict_def replay_dict [of _ key False] del: dict_with_simps)
  qed
qed

text \<open>A repeated command changes nothing: whenever an apply or rollback command returned, sending it
  again with its key returns the same answer, marked idempotent, and leaves the store as it is, whatever
  the policy in force has become.\<close>

theorem policy_command_replayed:
  assumes "policy_step sha phrase c s = Inr (ans, s')"
  shows "policy_step sha phrase c s' = Inr (fmupd ''idempotent'' (JBool True) ans, s')"
proof (cases c)
  case (ApplyPolicy mode raw expected key given reason)
  then obtain b where b: "normalize_policy_body raw mode = Inr b" "require_owner_authorization phrase given = Inr ()"
    "key \<noteq> []" "\<not> st_readonly s"
    and done_so: "bindR (replay_or_conflict s key COMMAND_APPLY (apply_request mode expected b reason))
      (\<lambda>replayed. case replayed of Some answer \<Rightarrow> Inr (answer, s)
       | None \<Rightarrow> persist_policy_revision sha mode b expected reason COMMAND_APPLY key
                   (apply_request mode expected b reason) s) = Inr (ans, s')"
    using assms unfolding ApplyPolicy policy_step.simps apply_policy_def immediate_write_def Let_def
    by (auto simp: bindR_eq_Inr split: if_splits)
  have run: "bindR (replay_or_conflict s key COMMAND_APPLY (apply_request mode expected b reason))
      (\<lambda>replayed. case replayed of Some answer \<Rightarrow> Inr (answer, s)
       | None \<Rightarrow> bindR (Inr b) (\<lambda>b'. persist_policy_revision sha mode b' expected reason COMMAND_APPLY key
                   (apply_request mode expected b reason) s)) = Inr (ans, s')"
    using done_so unfolding bindR_simps .
  show ?thesis using replayed_or_persisted [OF run] b
    by (simp add: ApplyPolicy apply_policy_def immediate_write_def Let_def)
next
  case (RollbackPolicy mode expected key given)
  then have ok: "require_owner_authorization phrase given = Inr ()" "key \<noteq> []" "\<not> st_readonly s"
    and run: "bindR (replay_or_conflict s key COMMAND_ROLLBACK (rollback_request mode expected))
      (\<lambda>replayed. case replayed of Some answer \<Rightarrow> Inr (answer, s)
       | None \<Rightarrow> bindR (previous_body sha mode expected s) (\<lambda>b. persist_policy_revision sha mode b expected ''ROLLBACK''
                   COMMAND_ROLLBACK key (rollback_request mode expected) s)) = Inr (ans, s')"
    using assms by (auto simp: rollback_policy_def immediate_write_def Let_def bindR_eq_Inr split: if_splits)
  show ?thesis using replayed_or_persisted [OF run] ok
    by (simp add: RollbackPolicy rollback_policy_def immediate_write_def Let_def)
qed

lemma policy_command_replayed_witness:
  "\<exists>ans. policy_step demo_sha ''OK'' (ApplyPolicy ''PAPER'' demo_raw GENESIS_POLICY_SHA256 ''K1'' (Some ''OK'') ''first'')
     demo_applied = Inr (ans, demo_applied)"
  using policy_command_replayed [of demo_sha "''OK''"
      "ApplyPolicy ''PAPER'' demo_raw GENESIS_POLICY_SHA256 ''K1'' (Some ''OK'') ''first''" demo_policies] demo_applied_step
  by auto

fun command_terms :: "policy_command \<Rightarrow> string \<times> string \<times> string \<times> string option" where
  "command_terms (ApplyPolicy mode raw expected key given reason) = (mode, expected, key, given)"
| "command_terms (RollbackPolicy mode expected key given) = (mode, expected, key, given)"

text \<open>C24: no unauthorised or stale write: a command whose key is new and that returned carried the owner's
  phrase, named a supported mode and the digest of the policy in force, which was readable; a command on any
  other digest, or with any other phrase, is refused.\<close>

theorem policy_write_guarded:
  assumes "policy_step sha phrase c s = Inr (ans, s')" and "command_terms c = (mode, expected, key, given)"
    and "get_operator_command key s = None"
  shows "phrase \<noteq> [] \<and> given = Some phrase \<and> mode \<in> set SUPPORTED_MODES \<and> key \<noteq> [] \<and> \<not> st_readonly s
    \<and> (\<exists>cur. resolve_current_policy sha s mode = Inr cur \<and> cu_status cur \<noteq> RUNTIME_POLICY_INVALID
         \<and> cu_sha256 cur = expected)"
proof -
  obtain body reason ctype request where
    p: "persist_policy_revision sha mode body expected reason ctype key request s = Inr (ans, s')"
    and ok: "phrase \<noteq> []" "given = Some phrase" "key \<noteq> []" "\<not> st_readonly s"
    using assms
    by (cases c) (auto simp: apply_policy_def rollback_policy_def require_owner_authorization_def replay_or_conflict_def
        guardR_eq_Inr bindR_eq_Inr immediate_write_eq_Inr Let_def split: if_splits)
  then obtain cur where cur: "resolve_current_policy sha s mode = Inr cur" "cu_status cur \<noteq> RUNTIME_POLICY_INVALID"
    "cu_sha256 cur = expected"
    by (auto simp: persist_policy_revision_def bindR_eq_Inr split: if_splits)
  moreover have "mode \<in> set SUPPORTED_MODES"
    using cur(1) by (simp add: resolve_current_policy_def split: if_splits)
  ultimately show ?thesis using ok by blast
qed

lemma policy_write_guarded_witness:
  "''PAPER'' \<in> set SUPPORTED_MODES \<and> (\<exists>cur. resolve_current_policy demo_sha demo_policies ''PAPER'' = Inr cur
     \<and> cu_sha256 cur = GENESIS_POLICY_SHA256)"
  using policy_write_guarded [of demo_sha "''OK''"
      "ApplyPolicy ''PAPER'' demo_raw GENESIS_POLICY_SHA256 ''K1'' (Some ''OK'') ''first''" demo_policies _ demo_applied
      "''PAPER''" GENESIS_POLICY_SHA256 "''K1''" "Some ''OK''"] demo_applied_step
  by (simp add: get_operator_command_def demo_policies_def) blast

end
