(* ===== verification/RuntimeAdmission.thy ===== *)
theory RuntimeAdmission
  imports PolicyClaims PaperAdmission
begin

section \<open>Admitting an entry\<close>

text \<open>
  \<open>evaluate_admission\<close> of \<open>factory/trading_runtime_policy.py\<close>: whether a bot may open one more
  position, from the policy in force and the open-risk inventory, and for how much. The strategy
  is the part of its validated YAML that is read here. \<open>admission_block\<close> is the chain of early
  returns: the code of the first limit that blocks.
\<close>

record strategy_terms =
  sg_id :: string
  sg_version :: string
  sg_notional :: jval
  sg_max_open :: int

record admission =
  ad_decision :: string
  ad_reason_codes :: "string list"
  ad_mode :: string
  ad_strategy_id :: string
  ad_strategy_version :: string
  ad_bot :: string
  ad_mint :: string
  ad_requested :: string
  ad_effective :: string
  ad_policy_status :: policy_status
  ad_policy_revision :: "int option"
  ad_policy_sha256 :: "string option"
  ad_global_count :: nat
  ad_strategy_count :: nat
  ad_mint_count :: nat
  ad_bot_count :: nat
  ad_global_notional :: "string option"
  ad_strategy_notional :: "string option"
  ad_mint_notional :: "string option"
  ad_declared_max_open :: int
  ad_runtime_max_open :: "int option"
  ad_open_risk_states :: "string list"

text \<open>The policy the limits are read from: only a valid one counts.\<close>

definition policy_in_force :: "policy_status \<Rightarrow> policy option \<Rightarrow> policy_body option" where
  "policy_in_force status p = (if status = VALID then map_option pl_body p else None)"

definition runtime_strategy_max :: "policy_body option \<Rightarrow> string \<Rightarrow> int option" where
  "runtime_strategy_max b strategy =
     coalesce (ov_max_positions (override_for b strategy)) (case b of None \<Rightarrow> None | Some x \<Rightarrow> pb_strategy_positions x)"

definition strategy_notional_limit :: "policy_body \<Rightarrow> string \<Rightarrow> string option" where
  "strategy_notional_limit b strategy = coalesce (ov_max_notional (override_for (Some b) strategy)) (pb_strategy_notional b)"

definition bot_block :: "bot \<Rightarrow> policy_status \<Rightarrow> policy_body option \<Rightarrow> string option" where
  "bot_block bt status b =
     (if b_status bt \<in> {''DRAINING'', ''STOPPED''} then Some ''BOT_STATUS_BLOCKS_ENTRY''
      else if b_entries_paused bt then Some ''ENTRIES_PAUSED''
      else if status = RUNTIME_POLICY_INVALID then Some ''RUNTIME_POLICY_INVALID''
      else case b of
        Some x \<Rightarrow> if \<not> pb_new_entries_enabled x then Some ''BLOCK_NEW_ENTRIES_DISABLED'' else None
      | None \<Rightarrow> None)"

text \<open>A count that has reached its limit.\<close>

definition reached :: "nat \<Rightarrow> int option \<Rightarrow> bool" where
  "reached n limit = (case limit of None \<Rightarrow> False | Some m \<Rightarrow> m \<le> int n)"

definition count_block :: "strategy_terms \<Rightarrow> policy_body option \<Rightarrow> risk_inventory \<Rightarrow> string option" where
  "count_block sg b i =
     (if sg_max_open sg \<le> int (i_bot_count i) then Some ''BLOCK_MAX_OPEN_POSITIONS''
      else if runtime_strategy_max b (sg_id sg) \<noteq> None \<and> i_strategy_identity_unknown i then Some ''RUNTIME_EXPOSURE_UNKNOWN''
      else if reached (i_strategy_count i) (runtime_strategy_max b (sg_id sg)) then Some ''BLOCK_RUNTIME_STRATEGY_MAX_OPEN''
      else case b of
        None \<Rightarrow> None
      | Some x \<Rightarrow>
          if reached (i_global_count i) (pb_total_positions x) then Some ''BLOCK_GLOBAL_MAX_OPEN_POSITIONS''
          else if reached (i_mint_count i) (pb_mint_positions x) then Some ''BLOCK_MINT_MAX_OPEN_POSITIONS''
          else None)"

text \<open>\<open>_notional_block\<close>.\<close>

definition notional_block :: "bool \<Rightarrow> decimal \<Rightarrow> decimal \<Rightarrow> string option \<Rightarrow> string \<Rightarrow> string option res" where
  "notional_block unknown current effective limit code =
     (case limit of None \<Rightarrow> Inr None
      | Some t \<Rightarrow>
          if unknown then Inr (Some ''RUNTIME_EXPOSURE_UNKNOWN'')
          else bindR (dec_add current effective) (\<lambda>total. bindR (dec_of_string t) (\<lambda>most.
               bindR (dec_lt most total) (\<lambda>above. Inr (if above then Some code else None)))))"

text \<open>The second check runs only when the first found nothing.\<close>

definition or_else :: "string option res \<Rightarrow> string option res \<Rightarrow> string option res" where
  "or_else a b = bindR a (\<lambda>x. case x of None \<Rightarrow> b | Some code \<Rightarrow> Inr (Some code))"

definition notional_blocks :: "strategy_terms \<Rightarrow> policy_body option \<Rightarrow> risk_inventory \<Rightarrow> decimal \<Rightarrow> string option res" where
  "notional_blocks sg b i effective =
     (case b of None \<Rightarrow> Inr None
      | Some x \<Rightarrow>
          or_else (notional_block (i_global_unknown i) (i_global_notional i) effective (pb_total_notional x)
                     ''BLOCK_GLOBAL_OPEN_NOTIONAL'')
         (or_else (notional_block (i_strategy_unknown i \<or> i_strategy_identity_unknown i) (i_strategy_notional i) effective
                     (strategy_notional_limit x (sg_id sg)) ''BLOCK_STRATEGY_OPEN_NOTIONAL'')
                  (notional_block (i_mint_unknown i) (i_mint_notional i) effective (pb_mint_notional x)
                     ''BLOCK_MINT_OPEN_NOTIONAL'')))"

definition admission_block ::
  "strategy_terms \<Rightarrow> bot \<Rightarrow> policy_status \<Rightarrow> policy_body option \<Rightarrow> risk_inventory \<Rightarrow> decimal \<Rightarrow> string option res" where
  "admission_block sg bt status b i effective =
     or_else (Inr (bot_block bt status b)) (or_else (Inr (count_block sg b i)) (notional_blocks sg b i effective))"

definition block_decision :: "string \<Rightarrow> string" where
  "block_decision code = (if take 5 code = ''BLOCK'' then code else ''BLOCK_'' @ code)"

text \<open>\<open>_snapshot\<close>.\<close>

definition admission_snapshot ::
  "string \<Rightarrow> string list \<Rightarrow> string \<Rightarrow> strategy_terms \<Rightarrow> string \<Rightarrow> bot \<Rightarrow> policy_status \<Rightarrow> policy option
   \<Rightarrow> decimal \<Rightarrow> decimal \<Rightarrow> risk_inventory \<Rightarrow> admission" where
  "admission_snapshot decision codes mode sg mint bt status p requested effective i =
     \<lparr>ad_decision = decision, ad_reason_codes = codes, ad_mode = mode, ad_strategy_id = sg_id sg,
      ad_strategy_version = sg_version sg, ad_bot = b_id bt, ad_mint = mint, ad_requested = dec_text requested,
      ad_effective = dec_text effective, ad_policy_status = status, ad_policy_revision = map_option pl_revision p,
      ad_policy_sha256 = map_option pl_sha256 p, ad_global_count = i_global_count i,
      ad_strategy_count = i_strategy_count i, ad_mint_count = i_mint_count i, ad_bot_count = i_bot_count i,
      ad_global_notional = map_option dec_text (reported (i_global_unknown i) (i_global_notional i)),
      ad_strategy_notional = map_option dec_text (reported (i_strategy_unknown i) (i_strategy_notional i)),
      ad_mint_notional = map_option dec_text (reported (i_mint_unknown i) (i_mint_notional i)),
      ad_declared_max_open = sg_max_open sg,
      ad_runtime_max_open = runtime_strategy_max (policy_in_force status p) (sg_id sg),
      ad_open_risk_states = sort (map state_name OPEN_RISK_STATES)\<rparr>"

definition evaluate_admission ::
  "string \<Rightarrow> strategy_terms \<Rightarrow> bot \<Rightarrow> string \<Rightarrow> policy_status \<Rightarrow> policy option \<Rightarrow> risk_inventory \<Rightarrow> admission res" where
  "evaluate_admission mode sg bt mint status p i =
     (if mode = ''LIVE'' then Inl (TradingRuntimePolicyError ''LIVE_NOT_SUPPORTED'')
      else bindR (jdecimal (sg_notional sg)) (\<lambda>requested.
           bindR (runtime_entry_cap (policy_in_force status p) (sg_id sg)) (\<lambda>cap.
           bindR (effective_entry_notional requested cap) (\<lambda>effective.
           bindR (admission_block sg bt status (policy_in_force status p) i effective) (\<lambda>block.
             Inr (case block of
               Some code \<Rightarrow> admission_snapshot (block_decision code) [code] mode sg mint bt status p requested effective i
             | None \<Rightarrow> admission_snapshot ''ALLOW'' [''WITHIN_LIMIT''] mode sg mint bt status p requested effective i))))))"

subsection \<open>The envelope shown to the owner\<close>

text \<open>
  The entries of \<open>compose_runtime_envelope\<close> that are read from the policy and the inventory: one
  per mode, and one per strategy and mode. A strategy is given with its requested notional and
  declared maximum already looked up in its file.
\<close>

record mode_envelope =
  me_status :: policy_status
  me_revision :: "int option"
  me_changed_at :: "string option"
  me_policy_sha256 :: string
  me_new_entries_enabled :: "bool option"
  me_entry_cap :: "string option"
  me_max_total_positions :: "int option"
  me_max_total_notional :: "string option"
  me_active_positions :: nat
  me_open_risk_notional :: "string option"
  me_open_risk_unknown :: bool

definition mode_envelope_of :: "(jval \<Rightarrow> string) \<Rightarrow> store \<Rightarrow> string \<Rightarrow> mode_envelope res" where
  "mode_envelope_of sha s mode =
     bindR (resolve_current_policy sha s mode) (\<lambda>current.
     bindR (open_risk_inventory mode [] [] [] s) (\<lambda>i.
       let p = (if cu_status current = VALID then cu_policy current else None); b = map_option pl_body p in
       Inr \<lparr>me_status = cu_status current, me_revision = cu_revision current, me_changed_at = map_option pl_created_at p,
            me_policy_sha256 = cu_sha256 current, me_new_entries_enabled = map_option pb_new_entries_enabled b,
            me_entry_cap = Option.bind b pb_entry_cap, me_max_total_positions = Option.bind b pb_total_positions,
            me_max_total_notional = Option.bind b pb_total_notional, me_active_positions = i_global_count i,
            me_open_risk_notional = map_option dec_text (reported (i_global_unknown i) (i_global_notional i)),
            me_open_risk_unknown = i_global_unknown i\<rparr>))"

record strategy_envelope =
  se_mode :: string
  se_strategy_id :: string
  se_requested :: "string option"
  se_entry_cap :: "string option"
  se_effective :: "string option"
  se_active_positions :: nat
  se_declared_max :: "int option"
  se_runtime_max :: "int option"
  se_open_risk_notional :: "string option"
  se_blocker :: string

definition strategy_envelope_of ::
  "(jval \<Rightarrow> string) \<Rightarrow> store \<Rightarrow> string \<Rightarrow> jval \<Rightarrow> int option \<Rightarrow> string \<Rightarrow> strategy_envelope res" where
  "strategy_envelope_of sha s strategy requested declared mode =
     bindR (resolve_current_policy sha s mode) (\<lambda>current.
     let b = policy_in_force (cu_status current) (cu_policy current) in
     bindR (open_risk_inventory mode strategy [] [] s) (\<lambda>i.
     bindR (runtime_entry_cap b strategy) (\<lambda>cap.
     bindR (if requested = JNull then Inr None else bindR (jdecimal requested) (\<lambda>x. Inr (Some x))) (\<lambda>req.
     bindR (case req of None \<Rightarrow> Inr None
            | Some x \<Rightarrow> bindR (effective_entry_notional x cap) (\<lambda>e. Inr (Some e))) (\<lambda>effective.
       Inr \<lparr>se_mode = mode, se_strategy_id = strategy, se_requested = map_option dec_text req,
            se_entry_cap = map_option dec_text cap, se_effective = map_option dec_text effective,
            se_active_positions = i_strategy_count i, se_declared_max = declared,
            se_runtime_max = runtime_strategy_max b strategy,
            se_open_risk_notional = map_option dec_text (reported (i_strategy_unknown i) (i_strategy_notional i)),
            se_blocker = (case b of Some x \<Rightarrow> if \<not> pb_new_entries_enabled x then ''NEW_ENTRIES_DISABLED''
                                              else status_name (cu_status current)
                          | None \<Rightarrow> status_name (cu_status current))\<rparr>)))))"

end
