(* ===== verification/PolicyDiff.thy ===== *)
theory PolicyDiff
  imports PolicyClaims RuntimeAdmission
begin

section \<open>What a classification of a change says\<close>

text \<open>
  \<open>classify_diff\<close> against the limits it classifies: a change it does not call a relaxation loosens
  no limit of the body, and none of the three limits in force for a strategy (entry cap, positions and
  notional) unless the candidate adds an override of that limit where there was none. That proviso is
  needed for each of them: see \<open>override_can_loosen\<close>.
\<close>

definition text_value :: "string \<Rightarrow> rat" where
  "text_value t = (case dec_of_string t of Inr x \<Rightarrow> dval x | Inl e \<Rightarrow> 0)"

text \<open>An optional limit that is no looser; an absent one is no limit.\<close>

definition money_le :: "string option \<Rightarrow> string option \<Rightarrow> bool" where
  "money_le new old = (\<forall>k. old = Some k \<longrightarrow> (\<exists>n. new = Some n \<and> text_value n \<le> text_value k))"

definition count_le :: "int option \<Rightarrow> int option \<Rightarrow> bool" where
  "count_le new old = (\<forall>k. old = Some k \<longrightarrow> (\<exists>n. new = Some n \<and> n \<le> k))"

lemma note_money_relaxed:
  assumes "note_money old new d = Inr d'" and "money_column old" and "money_column new" and "\<not> snd d'"
  shows "\<not> snd d \<and> money_le new old"
proof (cases "old = new")
  case True
  then show ?thesis using assms by (auto simp: note_money_def money_le_def)
next
  case False
  show ?thesis
  proof (cases old)
    case None
    then show ?thesis using assms False by (cases new) (auto simp: note_money_def money_le_def)
  next
    case (Some k)
    then obtain n where n: "new = Some n" using assms False by (cases new) (auto simp: note_money_def)
    obtain x where x: "dec_of_string k = Inr x" "dec_is_finite x" using assms(2) Some by (auto simp: money_column_def elim: money_text_value)
    obtain y where y: "dec_of_string n = Inr y" "dec_is_finite y" using assms(3) n by (auto simp: money_column_def elim: money_text_value)
    show ?thesis using assms(1,4) False x y
      by (auto simp: note_money_def money_le_def text_value_def Some n dec_lt_dval split: if_splits)
  qed
qed

lemma note_count_relaxed:
  assumes "\<not> snd (note_count old new d)"
  shows "\<not> snd d \<and> count_le new old"
  using assms by (cases old; cases new) (auto simp: note_count_def count_le_def split: if_splits)

definition override_le :: "override_item \<Rightarrow> override_item \<Rightarrow> bool" where
  "override_le new old = (money_le (ov_entry_cap new) (ov_entry_cap old)
     \<and> money_le (ov_max_notional new) (ov_max_notional old) \<and> count_le (ov_max_positions new) (ov_max_positions old))"

lemma override_for_wf: "body_wf b \<Longrightarrow> override_wf (override_for (Some b) st)"
  by (auto simp: override_for_def body_wf_def overrides_wf_def override_wf_def money_column_def count_column_def split: option.splits)

lemma note_overrides_relaxed:
  assumes "note_overrides c b ks d = Inr d'" and "body_wf c" and "body_wf b" and "\<not> snd d'"
  shows "\<not> snd d \<and> (\<forall>k\<in>set ks. override_le (override_for (Some b) k) (override_for (Some c) k))"
  using assms(1)
proof (induction ks arbitrary: d)
  case (Cons k ks)
  obtain d1 where d1: "note_override (override_for (Some c) k) (override_for (Some b) k) d = Inr d1"
    and rest: "note_overrides c b ks d1 = Inr d'"
    using Cons.prems by (auto simp: bindR_eq_Inr)
  have r: "\<not> snd d1" using Cons.IH [OF rest] by simp
  have "\<not> snd d \<and> override_le (override_for (Some b) k) (override_for (Some c) k)"
    using d1 r override_for_wf [OF assms(2), of k] override_for_wf [OF assms(3), of k]
    by (auto simp: note_override_def bindR_eq_Inr override_wf_def override_le_def
        dest!: note_count_relaxed dest: note_money_relaxed)
  then show ?case using Cons.IH [OF rest] by simp
qed (use assms in simp)

lemma override_le_none: "override_for (Some b) k = override_for None k \<Longrightarrow> override_for (Some c) k = override_for None k
   \<Longrightarrow> override_le (override_for (Some b) k) (override_for (Some c) k)"
  by (simp add: override_le_def money_le_def count_le_def override_for_def)

definition body_le :: "policy_body \<Rightarrow> policy_body \<Rightarrow> bool" where
  "body_le b c = ((pb_new_entries_enabled b \<longrightarrow> pb_new_entries_enabled c)
     \<and> money_le (pb_entry_cap b) (pb_entry_cap c) \<and> money_le (pb_total_notional b) (pb_total_notional c)
     \<and> money_le (pb_strategy_notional b) (pb_strategy_notional c) \<and> money_le (pb_mint_notional b) (pb_mint_notional c)
     \<and> count_le (pb_total_positions b) (pb_total_positions c)
     \<and> count_le (pb_strategy_positions b) (pb_strategy_positions c)
     \<and> count_le (pb_mint_positions b) (pb_mint_positions c))"

lemma policy_diff_relaxed:
  assumes "policy_diff c b = Inr d" and "body_wf c" and "body_wf b" and "\<not> snd d"
  shows "body_le b c \<and> (\<forall>k. override_le (override_for (Some b) k) (override_for (Some c) k))"
proof -
  let ?ks = "sorted_list_of_fset (fmdom (pb_overrides c) |\<union>| fmdom (pb_overrides b))"
  obtain d1 d2 d3 d4 where d: "note_money (pb_entry_cap c) (pb_entry_cap b)
        (note_enabled (pb_new_entries_enabled c) (pb_new_entries_enabled b)) = Inr d1"
      "note_money (pb_total_notional c) (pb_total_notional b) d1 = Inr d2"
      "note_money (pb_strategy_notional c) (pb_strategy_notional b) d2 = Inr d3"
      "note_money (pb_mint_notional c) (pb_mint_notional b) d3 = Inr d4"
    and o: "note_overrides c b ?ks (note_count (pb_mint_positions c) (pb_mint_positions b)
           (note_count (pb_strategy_positions c) (pb_strategy_positions b)
             (note_count (pb_total_positions c) (pb_total_positions b) d4))) = Inr d"
    using assms(1) by (auto simp: policy_diff_def bindR_eq_Inr)
  have over: "\<not> snd (note_count (pb_mint_positions c) (pb_mint_positions b)
           (note_count (pb_strategy_positions c) (pb_strategy_positions b)
             (note_count (pb_total_positions c) (pb_total_positions b) d4)))"
    and ks: "\<forall>k\<in>set ?ks. override_le (override_for (Some b) k) (override_for (Some c) k)"
    using note_overrides_relaxed [OF o assms(2-4)] by auto
  have cols: "money_column (pb_entry_cap c)" "money_column (pb_entry_cap b)" "money_column (pb_total_notional c)"
    "money_column (pb_total_notional b)" "money_column (pb_strategy_notional c)" "money_column (pb_strategy_notional b)"
    "money_column (pb_mint_notional c)" "money_column (pb_mint_notional b)"
    using assms(2,3) by (auto simp: body_wf_def)
  have counts: "\<not> snd d4 \<and> count_le (pb_total_positions b) (pb_total_positions c)
     \<and> count_le (pb_strategy_positions b) (pb_strategy_positions c) \<and> count_le (pb_mint_positions b) (pb_mint_positions c)"
    using over by (auto dest!: note_count_relaxed)
  have m4: "\<not> snd d3 \<and> money_le (pb_mint_notional b) (pb_mint_notional c)"
    using note_money_relaxed [OF d(4)] cols counts by simp
  then have m3: "\<not> snd d2 \<and> money_le (pb_strategy_notional b) (pb_strategy_notional c)"
    using note_money_relaxed [OF d(3)] cols by simp
  then have m2: "\<not> snd d1 \<and> money_le (pb_total_notional b) (pb_total_notional c)"
    using note_money_relaxed [OF d(2)] cols by simp
  then have m1: "(pb_new_entries_enabled b \<longrightarrow> pb_new_entries_enabled c) \<and> money_le (pb_entry_cap b) (pb_entry_cap c)"
    using note_money_relaxed [OF d(1)] cols by (auto simp: note_enabled_def)
  have "override_le (override_for (Some b) k) (override_for (Some c) k)" for k
  proof (cases "k \<in> set ?ks")
    case False
    then show ?thesis by (intro override_le_none) (auto simp: override_for_def fmdom_notD)
  qed (use ks in blast)
  then show ?thesis using m1 m2 m3 m4 counts by (simp add: body_le_def)
qed

lemma runtime_cap_of:
  assumes "body_wf b"
  shows "runtime_entry_cap (Some b) st = (case coalesce (ov_entry_cap (override_for (Some b) st)) (pb_entry_cap b) of
     None \<Rightarrow> Inr None | Some t \<Rightarrow> bindR (dec_of_string t) (\<lambda>c. Inr (Some c)))"
  by (simp add: runtime_entry_cap_def)

lemma cap_text:
  assumes "body_wf b" and "coalesce (ov_entry_cap (override_for (Some b) st)) (pb_entry_cap b) = Some t"
  obtains x where "runtime_entry_cap (Some b) st = Inr (Some x)" and "dval x = text_value t" and "0 < dval x"
    and "dec_is_finite x"
proof -
  have "money_text t"
    using assms override_for_wf [OF assms(1), of st]
    by (cases "ov_entry_cap (override_for (Some b) st)") (auto simp: override_wf_def money_column_def body_wf_def)
  then obtain x where "dec_of_string t = Inr x" "0 < dval x" "dec_is_finite x" by (rule money_text_value)
  then show thesis using that by (simp add: runtime_cap_of [OF assms(1)] assms(2) text_value_def)
qed

lemma diff_name_relaxed: "diff_name d \<in> {''TIGHTENING'', ''NO_CHANGE''} \<Longrightarrow> \<not> snd d"
  by (auto simp: diff_name_def split: if_splits)

lemma coalesce_le:
  "count_le i j \<Longrightarrow> count_le x y \<Longrightarrow> (j = None \<longrightarrow> i = None) \<Longrightarrow> count_le (coalesce i x) (coalesce j y)"
  "money_le t u \<Longrightarrow> money_le v w \<Longrightarrow> (u = None \<longrightarrow> t = None) \<Longrightarrow> money_le (coalesce t v) (coalesce u w)"
  by (cases j; auto simp: count_le_def) (cases u; auto simp: money_le_def)

lemma strategy_limits_relaxed:
  assumes "body_le b c" and "override_le (override_for (Some b) st) (override_for (Some c) st)"
  shows "(ov_max_positions (override_for (Some c) st) = None \<longrightarrow> ov_max_positions (override_for (Some b) st) = None)
      \<Longrightarrow> count_le (runtime_strategy_max (Some b) st) (runtime_strategy_max (Some c) st)"
    and "(ov_max_notional (override_for (Some c) st) = None \<longrightarrow> ov_max_notional (override_for (Some b) st) = None)
      \<Longrightarrow> money_le (strategy_notional_limit b st) (strategy_notional_limit c st)"
  using assms unfolding body_le_def override_le_def
  by (simp_all add: runtime_strategy_max_def strategy_notional_limit_def coalesce_le)

text \<open>C25: a change classified TIGHTENING or NO_CHANGE loosens no limit of the body and none in force for a strategy
  without a new override. Entries are not switched on and no total, strategy or mint limit grows or
  disappears; and for every strategy the entry cap, the maximum of open positions and the maximum of open
  notional that the admission reads (its override, or else the limit of the body) do not grow or disappear,
  unless the candidate overrides that limit for a strategy that had no override of it.\<close>

theorem unrelaxed_change_loosens_nothing:
  assumes "body_wf c" and "body_wf b" and "classify_diff (Some c) b = Inr n" and "n \<in> {''TIGHTENING'', ''NO_CHANGE''}"
  shows "body_le b c \<and> (\<forall>st x. runtime_entry_cap (Some c) st = Inr (Some x)
      \<and> (ov_entry_cap (override_for (Some c) st) = None \<longrightarrow> ov_entry_cap (override_for (Some b) st) = None)
    \<longrightarrow> (\<exists>y. runtime_entry_cap (Some b) st = Inr (Some y) \<and> dval y \<le> dval x))
    \<and> (\<forall>st. (ov_max_positions (override_for (Some c) st) = None \<longrightarrow> ov_max_positions (override_for (Some b) st) = None)
    \<longrightarrow> count_le (runtime_strategy_max (Some b) st) (runtime_strategy_max (Some c) st))
    \<and> (\<forall>st. (ov_max_notional (override_for (Some c) st) = None \<longrightarrow> ov_max_notional (override_for (Some b) st) = None)
    \<longrightarrow> money_le (strategy_notional_limit b st) (strategy_notional_limit c st))"
proof -
  obtain d where d: "policy_diff c b = Inr d" "n = diff_name d"
    using assms(3) by (auto simp: classify_diff_def bindR_eq_Inr)
  have le: "body_le b c" "override_le (override_for (Some b) k) (override_for (Some c) k)" for k
    using policy_diff_relaxed [OF d(1) assms(1,2)] diff_name_relaxed [of d] assms(4) d(2) by auto
  have "\<exists>y. runtime_entry_cap (Some b) st = Inr (Some y) \<and> dval y \<le> dval x"
    if x: "runtime_entry_cap (Some c) st = Inr (Some x)"
      and new: "ov_entry_cap (override_for (Some c) st) = None \<longrightarrow> ov_entry_cap (override_for (Some b) st) = None" for st x
  proof -
    obtain t where t: "coalesce (ov_entry_cap (override_for (Some c) st)) (pb_entry_cap c) = Some t"
      using x by (auto simp: runtime_cap_of [OF assms(1)] split: option.splits)
    obtain u where u: "coalesce (ov_entry_cap (override_for (Some b) st)) (pb_entry_cap b) = Some u"
      and v: "text_value u \<le> text_value t"
      using le(1) le(2) [of st] t new
      by (cases "ov_entry_cap (override_for (Some c) st)") (auto simp: body_le_def override_le_def money_le_def)
    have "dval x = text_value t" using cap_text [OF assms(1) t] x by auto
    then show ?thesis using cap_text [OF assms(2) u] v by metis
  qed
  then show ?thesis using le(1) strategy_limits_relaxed [OF le] by simp
qed

lemma demo_unrelaxed: "classify_diff (Some (blank_body True 4)) (blank_body False 2) = Inr ''TIGHTENING''"
  by (simp add: classify_diff_def policy_diff_def blank_body_def note_money_def note_count_def note_enabled_def diff_name_def
      sorted_list_of_fset.rep_eq)

lemma unrelaxed_change_loosens_nothing_witness:
  "body_le (blank_body False 2) (blank_body True 4)
   \<and> count_le (runtime_strategy_max (Some (blank_body False 2)) ''S'') (runtime_strategy_max (Some (blank_body True 4)) ''S'')"
proof -
  have "body_wf (blank_body True 4)" "body_wf (blank_body False 2)"
    using normalize_policy_body_wf demo_bodies by blast+
  then show ?thesis using unrelaxed_change_loosens_nothing [OF _ _ demo_unrelaxed]
    by (simp add: override_for_def blank_body_def)
qed

text \<open>
  The proviso is needed: an override of 500 over a global cap of 100 is classified TIGHTENING and raises the
  entry cap of its strategy from 100 to 500; overrides of 10 positions and of 900 of notional over limits of 2
  and 200 for each strategy are classified TIGHTENING too.
\<close>

definition capped_body :: "(string, override_item) fmap \<Rightarrow> policy_body" where
  "capped_body m = (blank_body True 4)\<lparr>pb_entry_cap := Some ''100'', pb_strategy_positions := Some 2,
     pb_strategy_notional := Some ''200'', pb_overrides := m\<rparr>"

theorem override_can_loosen:
  "classify_diff (Some (capped_body fmempty)) (capped_body (fmupd ''STRAT-1''
       \<lparr>ov_entry_cap = Some ''500'', ov_max_notional = None, ov_max_positions = None\<rparr> fmempty)) = Inr ''TIGHTENING''
   \<and> runtime_entry_cap (Some (capped_body fmempty)) ''STRAT-1'' = Inr (Some (dec_of_int 100))
   \<and> runtime_entry_cap (Some (capped_body (fmupd ''STRAT-1''
       \<lparr>ov_entry_cap = Some ''500'', ov_max_notional = None, ov_max_positions = None\<rparr> fmempty))) ''STRAT-1'' =
       Inr (Some (dec_of_int 500))"
  by (simp add: classify_diff_def policy_diff_def capped_body_def blank_body_def note_money_def note_count_def
      note_enabled_def diff_name_def note_override_def override_for_def runtime_entry_cap_def dec_eval
      sorted_list_of_fset.rep_eq)

theorem override_can_loosen_limits:
  "classify_diff (Some (capped_body fmempty)) (capped_body (fmupd ''STRAT-1''
       \<lparr>ov_entry_cap = None, ov_max_notional = Some ''900'', ov_max_positions = Some 10\<rparr> fmempty)) = Inr ''TIGHTENING''
   \<and> runtime_strategy_max (Some (capped_body fmempty)) ''STRAT-1'' = Some 2
   \<and> runtime_strategy_max (Some (capped_body (fmupd ''STRAT-1''
       \<lparr>ov_entry_cap = None, ov_max_notional = Some ''900'', ov_max_positions = Some 10\<rparr> fmempty))) ''STRAT-1'' = Some 10
   \<and> strategy_notional_limit (capped_body fmempty) ''STRAT-1'' = Some ''200''
   \<and> strategy_notional_limit (capped_body (fmupd ''STRAT-1''
       \<lparr>ov_entry_cap = None, ov_max_notional = Some ''900'', ov_max_positions = Some 10\<rparr> fmempty)) ''STRAT-1'' = Some ''900''"
  by (simp add: classify_diff_def policy_diff_def capped_body_def blank_body_def note_money_def note_count_def
      note_enabled_def diff_name_def note_override_def override_for_def runtime_strategy_max_def
      strategy_notional_limit_def dec_eval sorted_list_of_fset.rep_eq)

end
