(* ===== verification/AdmissionClaims.thy ===== *)
theory AdmissionClaims
  imports RuntimeAdmission PolicyDiff
begin

section \<open>What an admission decision means\<close>

text \<open>
  \<open>evaluate_admission\<close> on the inventory of a store against a specification over the rows of that
  store (\<open>may_enter\<close>): the decimal totals of the inventory are the exact sums of the open
  exposures, so an entry is allowed exactly when every limit still holds with it included.
\<close>

subsection \<open>Exact totals\<close>

fun accumulate :: "position list \<Rightarrow> decimal \<Rightarrow> decimal res" where
  "accumulate [] a = Inr a"
| "accumulate (r # rs) a = bindR (exposure r) (\<lambda>e. bindR (add_exposure e a) (accumulate rs))"

lemma accumulate_append: "accumulate (xs @ ys) a = bindR (accumulate xs a) (accumulate ys)"
proof (induction xs arbitrary: a)
  case (Cons x xs)
  have "accumulate (xs @ ys) = (\<lambda>a. bindR (accumulate xs a) (accumulate ys))" using Cons by (intro ext)
  then show ?case by (simp add: bindR_assoc)
qed simp

definition readable_exposures :: "position list \<Rightarrow> bool" where
  "readable_exposures rs = ((\<forall>r\<in>set rs. \<forall>x. exposure r = Inr (Some x) \<longrightarrow> dec_is_finite x \<and> - 8 \<le> dexp x)
     \<and> sum_list (map (\<lambda>r. \<bar>exposure_value r\<bar>) rs) < 10 ^ 19)"

lemma accumulate_exact:
  assumes "accumulate rs a = Inr z" and "\<forall>r\<in>set rs. \<forall>x. exposure r = Inr (Some x) \<longrightarrow> dec_is_finite x \<and> - 8 \<le> dexp x"
    and "dec_is_finite a" and "- 8 \<le> dexp a"
    and "\<bar>dval a\<bar> + sum_list (map (\<lambda>r. \<bar>exposure_value r\<bar>) rs) < 10 ^ 20"
  shows "dec_is_finite z \<and> - 8 \<le> dexp z \<and> dval z = dval a + sum_list (map exposure_value rs)"
  using assms
proof (induction rs arbitrary: a)
  case (Cons r rs)
  obtain e a1 where e: "exposure r = Inr e" and a1: "add_exposure e a = Inr a1" and rest: "accumulate rs a1 = Inr z"
    using Cons.prems(1) by (auto simp: bindR_eq_Inr)
  have nn: "0 \<le> sum_list (map (\<lambda>r. \<bar>exposure_value r\<bar>) rs)" by (rule sum_list_nonneg) auto
  have step: "dec_is_finite a1 \<and> - 8 \<le> dexp a1 \<and> dval a1 = dval a + exposure_value r"
  proof (cases e)
    case None
    then show ?thesis using e a1 Cons.prems(3,4) by (simp add: add_exposure_def exposure_value_def)
  next
    case (Some x)
    have x: "dec_is_finite x" "- 8 \<le> dexp x" "exposure_value r = dval x"
      using Cons.prems(2) e Some by (auto simp: exposure_value_def)
    have "\<bar>dval a\<bar> + \<bar>dval x\<bar> < 10 ^ 20" using Cons.prems(5) x(3) nn by simp
    then have "\<bar>dval a + dval x\<bar> < 10 ^ 20" by linarith
    then have "\<bar>dval a + dval x\<bar> < 10 powi (28 - 8)" by simp
    then obtain y where "dec_add a x = Inr y" "dec_is_finite y" "dval y = dval a + dval x" "dexp y = min (dexp a) (dexp x)"
      using Cons.prems(3,4) x(1,2) by (elim dec_add_exact [rotated 4]) auto
    then show ?thesis using a1 Some x Cons.prems(4) by (simp add: add_exposure_def)
  qed
  have "\<bar>dval a1\<bar> \<le> \<bar>dval a\<bar> + \<bar>exposure_value r\<bar>" using step by linarith
  then have "\<bar>dval a1\<bar> + sum_list (map (\<lambda>r. \<bar>exposure_value r\<bar>) rs) < 10 ^ 20" using Cons.prems(5) by simp
  then show ?case using Cons.IH [OF rest] Cons.prems(2) step by simp
qed simp

lemma filter_abs_le: "sum_list (map (\<lambda>r. \<bar>exposure_value r\<bar>) (filter P rs)) \<le> sum_list (map (\<lambda>r. \<bar>exposure_value r\<bar>) rs)"
  by (induction rs) auto

lemma accumulate_filter:
  assumes "accumulate (filter P rs) dec_zero = Inr z" and "readable_exposures rs"
  shows "dec_is_finite z \<and> - 8 \<le> dexp z \<and> dval z = sum_list (map exposure_value (filter P rs))
    \<and> \<bar>dval z\<bar> < 10 ^ 19"
proof -
  have small: "sum_list (map (\<lambda>r. \<bar>exposure_value r\<bar>) (filter P rs)) < 10 ^ 19"
    using filter_abs_le [of P rs] assms(2) by (simp add: readable_exposures_def)
  have z: "dec_is_finite z \<and> - 8 \<le> dexp z \<and> dval z = dval dec_zero + sum_list (map exposure_value (filter P rs))"
    using assms small by (intro accumulate_exact) (auto simp: readable_exposures_def dec_zero_def signed_def)
  have "\<bar>sum_list (map exposure_value (filter P rs))\<bar> \<le> sum_list (map (\<lambda>r. \<bar>exposure_value r\<bar>) (filter P rs))"
    using sum_list_abs [of "map exposure_value (filter P rs)"] by (simp add: comp_def)
  then show ?thesis using z small by (simp add: dec_zero_def signed_def)
qed

subsection \<open>The inventory as a reading of the rows\<close>

lemma step_accumulates:
  assumes "inventory_step strategy mint bid r i = Inr i'"
  shows "accumulate (filter open_risk [r]) (i_global_notional i) = Inr (i_global_notional i')"
    and "accumulate (filter (\<lambda>r. open_risk r \<and> of_strategy strategy r) [r]) (i_strategy_notional i) = Inr (i_strategy_notional i')"
    and "accumulate (filter (\<lambda>r. open_risk r \<and> p_mint r = mint) [r]) (i_mint_notional i) = Inr (i_mint_notional i')"
    and "i_strategy_identity_unknown i' \<longleftrightarrow> i_strategy_identity_unknown i \<or> open_risk r \<and> \<not> present (p_strategy_id r)"
proof -
  have "accumulate (filter open_risk [r]) (i_global_notional i) = Inr (i_global_notional i')
    \<and> accumulate (filter (\<lambda>r. open_risk r \<and> of_strategy strategy r) [r]) (i_strategy_notional i) = Inr (i_strategy_notional i')
    \<and> accumulate (filter (\<lambda>r. open_risk r \<and> p_mint r = mint) [r]) (i_mint_notional i) = Inr (i_mint_notional i')
    \<and> (i_strategy_identity_unknown i' \<longleftrightarrow> i_strategy_identity_unknown i \<or> open_risk r \<and> \<not> present (p_strategy_id r))"
  proof (cases "open_risk r")
    case False
    then show ?thesis using assms by (simp add: inventory_step_def open_risk_def)
  next
    case True
    then obtain e i1 i2 where e: "exposure r = Inr e" and 1: "count_global bid r e i = Inr i1"
      and 2: "count_strategy strategy r e i1 = Inr i2" and 3: "count_mint mint r e i2 = Inr i'"
      using assms by (auto simp: inventory_step_def open_risk_def bindR_eq_Inr)
    have i1: "add_exposure e (i_global_notional i) = Inr (i_global_notional i1)
      \<and> i_strategy_notional i1 = i_strategy_notional i \<and> i_mint_notional i1 = i_mint_notional i
      \<and> i_strategy_identity_unknown i1 = i_strategy_identity_unknown i"
      using 1 by (auto simp: count_global_def bindR_eq_Inr)
    have i2: "(if of_strategy strategy r then add_exposure e (i_strategy_notional i1) else Inr (i_strategy_notional i1))
        = Inr (i_strategy_notional i2)
      \<and> i_global_notional i2 = i_global_notional i1 \<and> i_mint_notional i2 = i_mint_notional i1
      \<and> (i_strategy_identity_unknown i2 \<longleftrightarrow> i_strategy_identity_unknown i1 \<or> \<not> present (p_strategy_id r))"
      using 2 by (cases "present (p_strategy_id r)"; cases "p_strategy_id r = Some strategy")
        (auto simp: count_strategy_def of_strategy_def bindR_eq_Inr)
    have "(if p_mint r = mint then add_exposure e (i_mint_notional i2) else Inr (i_mint_notional i2))
        = Inr (i_mint_notional i')
      \<and> i_global_notional i' = i_global_notional i2 \<and> i_strategy_notional i' = i_strategy_notional i2
      \<and> i_strategy_identity_unknown i' = i_strategy_identity_unknown i2"
      using 3 by (cases "p_mint r = mint") (auto simp: count_mint_def bindR_eq_Inr)
    then show ?thesis using True e i1 i2 by (cases "of_strategy strategy r"; cases "p_mint r = mint") simp_all
  qed
  then show "accumulate (filter open_risk [r]) (i_global_notional i) = Inr (i_global_notional i')"
    and "accumulate (filter (\<lambda>r. open_risk r \<and> of_strategy strategy r) [r]) (i_strategy_notional i) = Inr (i_strategy_notional i')"
    and "accumulate (filter (\<lambda>r. open_risk r \<and> p_mint r = mint) [r]) (i_mint_notional i) = Inr (i_mint_notional i')"
    and "i_strategy_identity_unknown i' \<longleftrightarrow> i_strategy_identity_unknown i \<or> open_risk r \<and> \<not> present (p_strategy_id r)"
    by blast+
qed

lemma loop_accumulates:
  assumes "inventory_loop strategy mint bid rs i = Inr i'"
  shows "accumulate (filter open_risk rs) (i_global_notional i) = Inr (i_global_notional i')
    \<and> accumulate (filter (\<lambda>r. open_risk r \<and> of_strategy strategy r) rs) (i_strategy_notional i) = Inr (i_strategy_notional i')
    \<and> accumulate (filter (\<lambda>r. open_risk r \<and> p_mint r = mint) rs) (i_mint_notional i) = Inr (i_mint_notional i')
    \<and> (i_strategy_identity_unknown i' \<longleftrightarrow> i_strategy_identity_unknown i \<or> (\<exists>r\<in>set rs. open_risk r \<and> \<not> present (p_strategy_id r)))
    \<and> (i_strategy_unknown i' \<longleftrightarrow> i_strategy_unknown i \<or> (\<exists>r\<in>set rs. open_risk r
         \<and> (\<not> present (p_strategy_id r) \<or> of_strategy strategy r \<and> exposure_unknown r)))"
  using assms
proof (induction rs arbitrary: i)
  case (Cons r rs)
  obtain i1 where 1: "inventory_step strategy mint bid r i = Inr i1"
    and 2: "inventory_loop strategy mint bid rs i1 = Inr i'" using Cons.prems by (auto simp: bindR_eq_Inr)
  have f: "filter P (r # rs) = filter P [r] @ filter P rs" for P by simp
  show ?case
    using Cons.IH [OF 2] step_accumulates [OF 1] inventory_step_result(7) [OF 1]
    unfolding f accumulate_append by auto
qed simp

definition open_rows :: "string \<Rightarrow> store \<Rightarrow> position list" where
  "open_rows mode s = filter open_risk (mode_positions mode s)"

definition total_of :: "(position \<Rightarrow> bool) \<Rightarrow> position list \<Rightarrow> rat" where
  "total_of P rs = sum_list (map exposure_value (filter P rs))"

definition number_of :: "(position \<Rightarrow> bool) \<Rightarrow> position list \<Rightarrow> nat" where
  "number_of P rs = length (filter P rs)"

lemma inventory_reads_rows:
  assumes "open_risk_inventory mode strategy mint bid s = Inr i" and "readable_exposures (open_rows mode s)"
  defines "rs \<equiv> open_rows mode s"
  shows "i_global_count i = length rs" and "i_strategy_count i = number_of (of_strategy strategy) rs"
    and "i_mint_count i = number_of (\<lambda>r. p_mint r = mint) rs" and "i_bot_count i = number_of (of_bot bid) rs"
    and "i_global_unknown i \<longleftrightarrow> (\<exists>r\<in>set rs. exposure_unknown r)"
    and "i_mint_unknown i \<longleftrightarrow> (\<exists>r\<in>set rs. p_mint r = mint \<and> exposure_unknown r)"
    and "i_strategy_identity_unknown i \<longleftrightarrow> (\<exists>r\<in>set rs. \<not> present (p_strategy_id r))"
    and "i_strategy_unknown i \<longleftrightarrow> (\<exists>r\<in>set rs. \<not> present (p_strategy_id r) \<or> of_strategy strategy r \<and> exposure_unknown r)"
    and "dval (i_global_notional i) = total_of (\<lambda>r. True) rs"
    and "dval (i_strategy_notional i) = total_of (of_strategy strategy) rs"
    and "dval (i_mint_notional i) = total_of (\<lambda>r. p_mint r = mint) rs"
    and "\<forall>z\<in>{i_global_notional i, i_strategy_notional i, i_mint_notional i}.
           dec_is_finite z \<and> - 8 \<le> dexp z \<and> \<bar>dval z\<bar> < 10 ^ 19"
proof -
  have run: "inventory_loop strategy mint bid (mode_positions mode s) empty_inventory = Inr i"
    using assms(1) by (simp add: open_risk_inventory_def)
  have ff: "filter (\<lambda>r. open_risk r \<and> P r) (mode_positions mode s) = filter P rs" for P
    by (simp add: rs_def open_rows_def conj_commute)
  have ex: "(\<exists>r\<in>set (mode_positions mode s). open_risk r \<and> P r) \<longleftrightarrow> (\<exists>r\<in>set rs. P r)" for P
    by (auto simp: rs_def open_rows_def)
  have c: "filter open_risk (mode_positions mode s) = filter (\<lambda>r. True) rs" by (simp add: rs_def open_rows_def)
  note counts = inventory_loop_counts [OF run, unfolded ff ex c]
  note acc = loop_accumulates [OF run, unfolded ff ex c]
  show "i_global_count i = length rs" and "i_strategy_count i = number_of (of_strategy strategy) rs"
    and "i_mint_count i = number_of (\<lambda>r. p_mint r = mint) rs" and "i_bot_count i = number_of (of_bot bid) rs"
    and "i_global_unknown i \<longleftrightarrow> (\<exists>r\<in>set rs. exposure_unknown r)"
    and "i_mint_unknown i \<longleftrightarrow> (\<exists>r\<in>set rs. p_mint r = mint \<and> exposure_unknown r)"
    and "i_strategy_identity_unknown i \<longleftrightarrow> (\<exists>r\<in>set rs. \<not> present (p_strategy_id r))"
    and "i_strategy_unknown i \<longleftrightarrow> (\<exists>r\<in>set rs. \<not> present (p_strategy_id r) \<or> of_strategy strategy r \<and> exposure_unknown r)"
    using counts acc by (simp_all add: number_of_def empty_inventory_def)
  have g: "accumulate (filter (\<lambda>r. True) rs) dec_zero = Inr (i_global_notional i)"
    and st: "accumulate (filter (of_strategy strategy) rs) dec_zero = Inr (i_strategy_notional i)"
    and mi: "accumulate (filter (\<lambda>r. p_mint r = mint) rs) dec_zero = Inr (i_mint_notional i)"
    using acc by (simp_all add: empty_inventory_def)
  note exact = accumulate_filter [OF _ assms(2) [folded rs_def]]
  show "dval (i_global_notional i) = total_of (\<lambda>r. True) rs"
    and "dval (i_strategy_notional i) = total_of (of_strategy strategy) rs"
    and "dval (i_mint_notional i) = total_of (\<lambda>r. p_mint r = mint) rs"
    using exact [OF g] exact [OF st] exact [OF mi] by (simp_all add: total_of_def)
  show "\<forall>z\<in>{i_global_notional i, i_strategy_notional i, i_mint_notional i}.
           dec_is_finite z \<and> - 8 \<le> dexp z \<and> \<bar>dval z\<bar> < 10 ^ 19"
    using exact [OF g] exact [OF st] exact [OF mi] by blast
qed

subsection \<open>The decision\<close>

text \<open>A limit that still holds with one more position, or with the new notional.\<close>

definition count_within :: "nat \<Rightarrow> int option \<Rightarrow> bool" where
  "count_within n limit = (\<forall>m. limit = Some m \<longrightarrow> int n + 1 \<le> m)"

definition money_within :: "bool \<Rightarrow> rat \<Rightarrow> rat \<Rightarrow> string option \<Rightarrow> bool" where
  "money_within known held extra limit = (\<forall>t. limit = Some t \<longrightarrow> known \<and> held + extra \<le> text_value t)"

definition bot_may_enter :: "bot \<Rightarrow> policy_status \<Rightarrow> policy_body option \<Rightarrow> bool" where
  "bot_may_enter bt status b = (b_status bt \<noteq> ''DRAINING'' \<and> b_status bt \<noteq> ''STOPPED'' \<and> \<not> b_entries_paused bt
     \<and> status \<noteq> RUNTIME_POLICY_INVALID \<and> (\<forall>x. b = Some x \<longrightarrow> pb_new_entries_enabled x))"

definition counts_allow :: "strategy_terms \<Rightarrow> string \<Rightarrow> string \<Rightarrow> policy_body option \<Rightarrow> position list \<Rightarrow> bool" where
  "counts_allow sg bid mint b rs =
     (int (number_of (of_bot bid) rs) + 1 \<le> sg_max_open sg
      \<and> (runtime_strategy_max b (sg_id sg) \<noteq> None \<longrightarrow> (\<forall>r\<in>set rs. present (p_strategy_id r)))
      \<and> count_within (number_of (of_strategy (sg_id sg)) rs) (runtime_strategy_max b (sg_id sg))
      \<and> (\<forall>x. b = Some x \<longrightarrow> count_within (length rs) (pb_total_positions x)
           \<and> count_within (number_of (\<lambda>r. p_mint r = mint) rs) (pb_mint_positions x)))"

definition notionals_allow :: "strategy_terms \<Rightarrow> string \<Rightarrow> policy_body option \<Rightarrow> position list \<Rightarrow> rat \<Rightarrow> bool" where
  "notionals_allow sg mint b rs extra =
     (\<forall>x. b = Some x \<longrightarrow>
        money_within (\<forall>r\<in>set rs. \<not> exposure_unknown r) (total_of (\<lambda>r. True) rs) extra (pb_total_notional x)
      \<and> money_within (\<forall>r\<in>set rs. present (p_strategy_id r) \<and> (of_strategy (sg_id sg) r \<longrightarrow> \<not> exposure_unknown r))
          (total_of (of_strategy (sg_id sg)) rs) extra (strategy_notional_limit x (sg_id sg))
      \<and> money_within (\<forall>r\<in>set rs. p_mint r = mint \<longrightarrow> \<not> exposure_unknown r)
          (total_of (\<lambda>r. p_mint r = mint) rs) extra (pb_mint_notional x))"

lemma notional_block_exact:
  assumes "dec_is_finite a \<and> - 8 \<le> dexp a \<and> \<bar>dval a\<bar> < 10 ^ 19"
    and "dec_is_finite e" and "- 8 \<le> dexp e" and "\<bar>dval e\<bar> < 10 ^ 19" and "money_column limit"
  shows "\<exists>r. notional_block unknown a e limit code = Inr r \<and> (r = None \<longleftrightarrow> money_within (\<not> unknown) (dval a) (dval e) limit)"
proof (cases limit)
  case None
  then show ?thesis by (simp add: notional_block_def money_within_def)
next
  case (Some t)
  have "\<bar>dval a + dval e\<bar> < 10 ^ 19 + 10 ^ 19" using assms(1,4) by linarith
  then have "\<bar>dval a + dval e\<bar> < 10 powi (28 - 8)" by simp
  then obtain z where z: "dec_add a e = Inr z" "dec_is_finite z" "dval z = dval a + dval e"
    using assms(1-3) by (elim dec_add_exact [rotated 4]) auto
  obtain m where m: "dec_of_string t = Inr m" "dec_is_finite m"
    using assms(5) Some by (auto simp: money_column_def elim: money_text_value)
  show ?thesis using z m
    by (auto simp: notional_block_def money_within_def text_value_def Some dec_lt_dval)
qed

lemma or_else_exact:
  assumes "\<exists>r. a = Inr r \<and> (r = None \<longleftrightarrow> P)" and "\<exists>r. b = Inr r \<and> (r = None \<longleftrightarrow> Q)"
  shows "\<exists>r. or_else a b = Inr r \<and> (r = None \<longleftrightarrow> P \<and> Q)"
  using assms by (auto simp: or_else_def split: option.splits)

lemma bot_block_None: "bot_block bt status b = None \<longleftrightarrow> bot_may_enter bt status b"
  by (auto simp: bot_block_def bot_may_enter_def split: option.splits)

lemma reached_iff: "reached n limit \<longleftrightarrow> \<not> count_within n limit"
  by (cases limit) (auto simp: reached_def count_within_def)

lemma strategy_limit_column: "body_wf b \<Longrightarrow> money_column (strategy_notional_limit b st)"
  using override_for_wf [of b st]
  by (cases "ov_max_notional (override_for (Some b) st)") (auto simp: strategy_notional_limit_def override_wf_def body_wf_def)

text \<open>The chain of early returns finds nothing exactly when every limit holds.\<close>

lemma admission_block_exact:
  assumes inv: "open_risk_inventory mode (sg_id sg) mint (b_id bt) s = Inr i"
    and rd: "readable_exposures (open_rows mode s)" and wf: "\<forall>x. b = Some x \<longrightarrow> body_wf x"
    and e: "dec_is_finite e" "- 8 \<le> dexp e" "\<bar>dval e\<bar> < 10 ^ 19"
  shows "\<exists>r. admission_block sg bt status b i e = Inr r \<and> (r = None \<longleftrightarrow>
    bot_may_enter bt status b \<and> counts_allow sg (b_id bt) mint b (open_rows mode s)
    \<and> notionals_allow sg mint b (open_rows mode s) (dval e))"
proof -
  note inv_eqs = inventory_reads_rows [OF inv rd]
  have counts: "count_block sg b i = None \<longleftrightarrow> counts_allow sg (b_id bt) mint b (open_rows mode s)"
    unfolding count_block_def counts_allow_def reached_iff inv_eqs by (auto split: option.splits)
  have "\<exists>r. notional_blocks sg b i e = Inr r \<and> (r = None \<longleftrightarrow> notionals_allow sg mint b (open_rows mode s) (dval e))"
  proof (cases b)
    case None
    then show ?thesis by (simp add: notional_blocks_def notionals_allow_def)
  next
    case (Some x)
    have x: "body_wf x" using wf Some by simp
    have cols: "money_column (pb_total_notional x)" "money_column (pb_mint_notional x)"
      using x by (auto simp: body_wf_def)
    have fin: "dec_is_finite z \<and> - 8 \<le> dexp z \<and> \<bar>dval z\<bar> < 10 ^ 19"
      if "z \<in> {i_global_notional i, i_strategy_notional i, i_mint_notional i}" for z
      using inv_eqs(12) that by blast
    have g: "\<exists>r. notional_block (i_global_unknown i) (i_global_notional i) e (pb_total_notional x) ''BLOCK_GLOBAL_OPEN_NOTIONAL'' = Inr r
        \<and> (r = None \<longleftrightarrow> money_within (\<not> i_global_unknown i) (dval (i_global_notional i)) (dval e) (pb_total_notional x))"
      by (rule notional_block_exact [OF fin e cols(1)]) simp
    have st: "\<exists>r. notional_block (i_strategy_unknown i \<or> i_strategy_identity_unknown i) (i_strategy_notional i) e
          (strategy_notional_limit x (sg_id sg)) ''BLOCK_STRATEGY_OPEN_NOTIONAL'' = Inr r
        \<and> (r = None \<longleftrightarrow> money_within (\<not> (i_strategy_unknown i \<or> i_strategy_identity_unknown i))
             (dval (i_strategy_notional i)) (dval e) (strategy_notional_limit x (sg_id sg)))"
      by (rule notional_block_exact [OF fin e strategy_limit_column [OF x]]) simp
    have m: "\<exists>r. notional_block (i_mint_unknown i) (i_mint_notional i) e (pb_mint_notional x) ''BLOCK_MINT_OPEN_NOTIONAL'' = Inr r
        \<and> (r = None \<longleftrightarrow> money_within (\<not> i_mint_unknown i) (dval (i_mint_notional i)) (dval e) (pb_mint_notional x))"
      by (rule notional_block_exact [OF fin e cols(2)]) simp
    have known: "(\<not> (i_strategy_unknown i \<or> i_strategy_identity_unknown i)) =
        (\<forall>r\<in>set (open_rows mode s). present (p_strategy_id r) \<and> (of_strategy (sg_id sg) r \<longrightarrow> \<not> exposure_unknown r))"
      "(\<not> i_global_unknown i) = (\<forall>r\<in>set (open_rows mode s). \<not> exposure_unknown r)"
      "(\<not> i_mint_unknown i) = (\<forall>r\<in>set (open_rows mode s). p_mint r = mint \<longrightarrow> \<not> exposure_unknown r)"
      using inv_eqs(5-8) by auto
    show ?thesis
      using or_else_exact [OF g or_else_exact [OF st m]]
      unfolding known inv_eqs(9-11) by (simp add: notional_blocks_def notionals_allow_def Some)
  qed
  then have rest: "\<exists>r. or_else (Inr (count_block sg b i)) (notional_blocks sg b i e) = Inr r \<and> (r = None \<longleftrightarrow>
      counts_allow sg (b_id bt) mint b (open_rows mode s) \<and> notionals_allow sg mint b (open_rows mode s) (dval e))"
    by (intro or_else_exact) (simp_all add: counts)
  show ?thesis unfolding admission_block_def by (rule or_else_exact [OF _ rest]) (simp add: bot_block_None)
qed

lemma effective_exact:
  assumes "dec_is_finite q" and "- 8 \<le> dexp q" and "\<bar>dval q\<bar> < 10 ^ 19" and "0 < dval q"
    and "\<forall>c. cap = Some c \<longrightarrow> dec_is_finite c \<and> - 8 \<le> dexp c \<and> 0 < dval c"
  shows "\<exists>e. effective_entry_notional q cap = Inr e \<and> dec_is_finite e \<and> - 8 \<le> dexp e \<and> \<bar>dval e\<bar> < 10 ^ 19
    \<and> 0 < dval e \<and> dval e = (case cap of None \<Rightarrow> dval q | Some c \<Rightarrow> min (dval q) (dval c))"
  using assms by (cases cap) (auto simp: effective_entry_notional_def dec_lt_dval)

lemma text_value_dec_text: "dec_is_finite x \<Longrightarrow> text_value (dec_text x) = dval x"
  by (simp add: text_value_def dec_text_fin dval_dec_plain)

lemma block_decision_not_allow: "block_decision code \<noteq> ''ALLOW''"
proof
  assume a: "block_decision code = ''ALLOW''"
  show False
  proof (cases "take 5 code = ''BLOCK''")
    case True
    then have "code = ''ALLOW''" using a by (simp add: block_decision_def)
    then show False using True by simp
  qed (use a in \<open>simp add: block_decision_def\<close>)
qed

text \<open>C26: admission is exact: on the open-risk inventory of a store, \<open>evaluate_admission\<close> returns, and it
  answers ALLOW exactly when the bot may enter and every limit still holds with the new position included:
  the numbers of open-risk rows of the bot, strategy, mint and mode stay within their limits, and so do the
  exact sums of their exposures plus the new notional, with nothing unknown where a limit applies. The
  notional is the strategy's request, cut to the runtime cap where there is one.\<close>

theorem admission_exact:
  assumes "mode \<noteq> ''LIVE''" and "open_risk_inventory mode (sg_id sg) mint (b_id bt) s = Inr i"
    and "readable_exposures (open_rows mode s)"
    and "\<And>x. policy_in_force status p = Some x \<Longrightarrow> body_wf x"
    and "jdecimal (sg_notional sg) = Inr q" and "dec_is_finite q" and "- 8 \<le> dexp q" and "\<bar>dval q\<bar> < 10 ^ 19"
    and "0 < dval q"
    and "\<And>c. runtime_entry_cap (policy_in_force status p) (sg_id sg) = Inr (Some c) \<Longrightarrow> - 8 \<le> dexp c"
  shows "\<exists>a cap. evaluate_admission mode sg bt mint status p i = Inr a
    \<and> runtime_entry_cap (policy_in_force status p) (sg_id sg) = Inr cap
    \<and> text_value (ad_effective a) = (case cap of None \<Rightarrow> dval q | Some c \<Rightarrow> min (dval q) (dval c))
    \<and> (ad_decision a = ''ALLOW'' \<longleftrightarrow> bot_may_enter bt status (policy_in_force status p)
        \<and> counts_allow sg (b_id bt) mint (policy_in_force status p) (open_rows mode s)
        \<and> notionals_allow sg mint (policy_in_force status p) (open_rows mode s) (text_value (ad_effective a)))"
proof -
  define b where "b = policy_in_force status p"
  have wf: "\<forall>x. b = Some x \<longrightarrow> body_wf x" using assms(4) by (simp add: b_def)
  obtain cap where cap: "runtime_entry_cap b (sg_id sg) = Inr cap"
    and capf: "\<forall>c. cap = Some c \<longrightarrow> dec_is_finite c \<and> - 8 \<le> dexp c \<and> 0 < dval c"
  proof (cases "b = None \<or> (\<exists>x. b = Some x \<and> coalesce (ov_entry_cap (override_for b (sg_id sg))) (pb_entry_cap x) = None)")
    case True
    then have "runtime_entry_cap b (sg_id sg) = Inr None" by (auto simp: runtime_entry_cap_def)
    then show thesis using that by blast
  next
    case False
    then obtain x t where x: "b = Some x" "coalesce (ov_entry_cap (override_for (Some x) (sg_id sg))) (pb_entry_cap x) = Some t"
      by (cases b) auto
    with wf have "body_wf x" by simp
    then obtain c where "runtime_entry_cap (Some x) (sg_id sg) = Inr (Some c)" "dec_is_finite c" "0 < dval c"
      using cap_text [OF _ x(2)] by metis
    then show thesis using that [of "Some c"] assms(10) x(1) by (simp add: b_def)
  qed
  obtain e where e: "effective_entry_notional q cap = Inr e" "dec_is_finite e" "- 8 \<le> dexp e" "\<bar>dval e\<bar> < 10 ^ 19"
    and ev: "dval e = (case cap of None \<Rightarrow> dval q | Some c \<Rightarrow> min (dval q) (dval c))"
    using effective_exact [OF assms(6-9) capf] by blast
  obtain r where r: "admission_block sg bt status b i e = Inr r" and rn: "r = None \<longleftrightarrow>
      bot_may_enter bt status b \<and> counts_allow sg (b_id bt) mint b (open_rows mode s)
      \<and> notionals_allow sg mint b (open_rows mode s) (dval e)"
    using admission_block_exact [OF assms(2,3) wf e(2-4)] by blast
  let ?a = "case r of
      Some code \<Rightarrow> admission_snapshot (block_decision code) [code] mode sg mint bt status p q e i
    | None \<Rightarrow> admission_snapshot ''ALLOW'' [''WITHIN_LIMIT''] mode sg mint bt status p q e i"
  have run: "evaluate_admission mode sg bt mint status p i = Inr ?a"
    using assms(1,5) cap e(1) r by (simp add: evaluate_admission_def b_def [symmetric])
  have eff: "text_value (ad_effective ?a) = dval e"
    using e(2) by (simp add: admission_snapshot_def text_value_dec_text split: option.split)
  have "ad_decision ?a = ''ALLOW'' \<longleftrightarrow> r = None"
    using block_decision_not_allow by (simp add: admission_snapshot_def split: option.split)
  then show ?thesis using run cap eff ev rn
    unfolding b_def by (intro exI [of _ ?a] exI [of _ cap]) simp
qed

definition demo_terms :: strategy_terms where
  "demo_terms = \<lparr>sg_id = ''S'', sg_version = ''1'', sg_notional = JInt 50, sg_max_open = 2\<rparr>"

lemma admission_exact_witness:
  "\<exists>i a. open_risk_inventory ''PAPER'' ''S'' ''Mint'' ''BOT-1'' (demo_store demo_open) = Inr i
     \<and> evaluate_admission ''PAPER'' demo_terms demo_bot ''Mint'' NOT_CONFIGURED_STRATEGY_ONLY None i = Inr a
     \<and> ad_decision a = ''ALLOW'' \<and> text_value (ad_effective a) = 50"
proof -
  have id: "b_id demo_bot = ''BOT-1''" by (simp add: demo_bot_def)
  have m: "mode_positions ''PAPER'' (demo_store demo_open) = [demo_open]"
    by (simp add: mode_positions_def demo_store_def get_bot_def demo_bot_def)
  have o: "open_risk demo_open" by (simp add: open_risk_def OPEN_RISK_STATES_def)
  have rows: "open_rows ''PAPER'' (demo_store demo_open) = [demo_open]" by (simp add: open_rows_def m o)
  have x: "exposure demo_open = Inr (Some (Fin False 100 0))" by (simp add: exposure_def dec_eval)
  have rd: "readable_exposures (open_rows ''PAPER'' (demo_store demo_open))"
    by (simp add: readable_exposures_def rows x exposure_value_def signed_def)
  obtain i where i: "open_risk_inventory ''PAPER'' (sg_id demo_terms) ''Mint'' (b_id demo_bot) (demo_store demo_open) = Inr i"
    using open_risk_inventory_exact_witness by (auto simp: demo_terms_def id)
  have q: "jdecimal (sg_notional demo_terms) = Inr (dec_of_int 50)" by (simp add: demo_terms_def jdecimal_def)
  have none: "policy_in_force NOT_CONFIGURED_STRATEGY_ONLY None = None" by (simp add: policy_in_force_def)
  have cap: "runtime_entry_cap None (sg_id demo_terms) = Inr None" by (simp add: runtime_entry_cap_def)
  have may: "bot_may_enter demo_bot NOT_CONFIGURED_STRATEGY_ONLY None" by (simp add: bot_may_enter_def demo_bot_def)
  have counts: "counts_allow demo_terms (b_id demo_bot) ''Mint'' None [demo_open]"
    by (simp add: counts_allow_def number_of_def demo_terms_def runtime_strategy_max_def override_for_def Let_def
        count_within_def)
  have notionals: "notionals_allow demo_terms ''Mint'' None [demo_open] n" for n
    by (simp add: notionals_allow_def)
  have "\<exists>a. evaluate_admission ''PAPER'' demo_terms demo_bot ''Mint'' NOT_CONFIGURED_STRATEGY_ONLY None i = Inr a
      \<and> text_value (ad_effective a) = 50 \<and> ad_decision a = ''ALLOW''"
    using admission_exact [OF _ i rd, of NOT_CONFIGURED_STRATEGY_ONLY None, OF _ _ q]
    by (auto simp: none cap rows dec_of_int_def signed_def may counts notionals)
  then show ?thesis using i by (auto simp: demo_terms_def id)
qed

end
