(* ===== verification/OperatingEnvelope.thy ===== *)
theory OperatingEnvelope
  imports PolicyWrite
begin

section \<open>The ordinary operating envelope\<close>

text \<open>
  \<open>factory/trading_runtime_policy.py\<close>, the additional safety bound: how many positions and how much
  cost basis may be outstanding in a mode. Its revisions are execution events, each naming the
  digest of the one before; \<open>read_operating_envelope\<close> replays them and trusts none that does not
  fit. What the \<open>except\<close> clause does not catch (an attribute read of a list or an empty text where
  the envelope should be) passes through.
\<close>

definition OPERATING_ENVELOPE_SCHEMA :: string where
  "OPERATING_ENVELOPE_SCHEMA = ''smial.ordinary-operating-envelope''"

definition OPERATING_ENVELOPE_BASIS :: string where
  "OPERATING_ENVELOPE_BASIS = ''OUTSTANDING_OBLIGATIONS_V1''"

definition OPERATING_ENVELOPE_EVENT :: string where
  "OPERATING_ENVELOPE_EVENT = ''ORDINARY_OPERATING_ENVELOPE_CONFIGURED''"

definition ENVELOPE_KEYS :: "string list" where
  "ENVELOPE_KEYS = [''schema'', ''schema_version'', ''basis'', ''mode'', ''max_outstanding_positions'',
     ''max_outstanding_cost_basis_usd'']"

record envelope =
  en_mode :: string
  en_max_positions :: int
  en_max_cost :: string

text \<open>\<open>d.get(k, default)\<close>.\<close>

definition jget_or :: "dict \<Rightarrow> string \<Rightarrow> jval \<Rightarrow> jval" where
  "jget_or d k v = (case fmlookup d k of None \<Rightarrow> v | Some x \<Rightarrow> x)"

definition normalize_operating_envelope :: "dict \<Rightarrow> string \<Rightarrow> envelope res" where
  "normalize_operating_envelope raw mode =
     (if mode \<notin> set SUPPORTED_MODES then Inl (TradingRuntimePolicyError ''OPERATING_ENVELOPE_MODE_INVALID'')
      else if \<not> fBall (fmdom raw) (\<lambda>k. k \<in> set ENVELOPE_KEYS)
          \<or> jget_or raw ''schema'' (JStr OPERATING_ENVELOPE_SCHEMA) \<noteq> JStr OPERATING_ENVELOPE_SCHEMA
      then Inl (TradingRuntimePolicyError ''OPERATING_ENVELOPE_INVALID'')
      else if jget_or raw ''schema_version'' (JStr ''1.0'') \<noteq> JStr ''1.0''
          \<or> jget_or raw ''basis'' (JStr OPERATING_ENVELOPE_BASIS) \<noteq> JStr OPERATING_ENVELOPE_BASIS
      then Inl (TradingRuntimePolicyError ''OPERATING_ENVELOPE_INVALID'')
      else if jget_or raw ''mode'' (JStr mode) \<noteq> JStr mode
      then Inl (TradingRuntimePolicyError ''OPERATING_ENVELOPE_MODE_INVALID'')
      else
        bindR (policy_count ''max_outstanding_positions'' (jget raw ''max_outstanding_positions'')) (\<lambda>count.
        bindR (policy_money ''max_outstanding_cost_basis_usd'' (jget raw ''max_outstanding_cost_basis_usd'')) (\<lambda>money.
          case (count, money) of
            (Some n, Some t) \<Rightarrow> Inr \<lparr>en_mode = mode, en_max_positions = n, en_max_cost = t\<rparr>
          | _ \<Rightarrow> Inl (TradingRuntimePolicyError ''CONFIGURATION_REQUIRED''))))"

definition envelope_dict :: "envelope \<Rightarrow> dict" where
  "envelope_dict b = dict_of [(''schema'', JStr OPERATING_ENVELOPE_SCHEMA), (''schema_version'', JStr ''1.0''),
     (''mode'', JStr (en_mode b)), (''basis'', JStr OPERATING_ENVELOPE_BASIS),
     (''max_outstanding_positions'', JInt (en_max_positions b)),
     (''max_outstanding_cost_basis_usd'', JStr (en_max_cost b))]"

subsection \<open>Revisions\<close>

record envelope_revision =
  er_body :: envelope
  er_revision :: int
  er_previous_sha256 :: string
  er_sha256 :: string
  er_configured_at :: string

definition envelope_identity :: "envelope \<Rightarrow> int \<Rightarrow> string \<Rightarrow> (string \<times> jval) list" where
  "envelope_identity b revision previous =
     [(''envelope'', JObj (envelope_dict b)), (''revision'', JInt revision), (''previous_sha256'', JStr previous)]"

definition envelope_fingerprint :: "(jval \<Rightarrow> string) \<Rightarrow> envelope \<Rightarrow> int \<Rightarrow> string \<Rightarrow> string" where
  "envelope_fingerprint sha b revision previous = sha (JObj (dict_of (envelope_identity b revision previous)))"

definition envelope_payload :: "(jval \<Rightarrow> string) \<Rightarrow> envelope \<Rightarrow> int \<Rightarrow> string \<Rightarrow> dict" where
  "envelope_payload sha b revision previous =
     dict_of ([(''mode'', JStr (en_mode b))] @ envelope_identity b revision previous
       @ [(''envelope_sha256'', JStr (envelope_fingerprint sha b revision previous))])"

text \<open>The digest the next revision is built on, and its number.\<close>

definition envelope_head :: "envelope_revision option \<Rightarrow> string" where
  "envelope_head c = (case c of None \<Rightarrow> GENESIS_POLICY_SHA256 | Some r \<Rightarrow> er_sha256 r)"

definition envelope_next :: "envelope_revision option \<Rightarrow> int" where
  "envelope_next c = (case c of None \<Rightarrow> 1 | Some r \<Rightarrow> er_revision r + 1)"

text \<open>\<open>value == n\<close> for a JSON value and an int.\<close>

definition jequals_int :: "jval \<Rightarrow> int \<Rightarrow> bool" where
  "jequals_int v n = (case v of JInt i \<Rightarrow> i = n | JBool b \<Rightarrow> (if b then 1 else 0) = n
     | JFloat t \<Rightarrow> (case dec_of_string t of Inr x \<Rightarrow> dec_eq x (dec_of_int n) | Inl e \<Rightarrow> False) | _ \<Rightarrow> False)"

text \<open>\<open>payload["envelope"]\<close> as the mapping the normalization reads.\<close>

definition envelope_mapping :: "dict \<Rightarrow> dict res" where
  "envelope_mapping payload =
     (case fmlookup payload ''envelope'' of
        None \<Rightarrow> Inl PyKeyError
      | Some (JObj d) \<Rightarrow> Inr d
      | Some (JStr t) \<Rightarrow> if t = [] then Inl PyAttributeError
                         else Inl (TradingRuntimePolicyError ''OPERATING_ENVELOPE_INVALID'')
      | Some (JArr xs) \<Rightarrow> if list_all (\<lambda>x. x \<in> JStr ` set ENVELOPE_KEYS) xs then Inl PyAttributeError
                          else Inl (TradingRuntimePolicyError ''OPERATING_ENVELOPE_INVALID'')
      | Some v \<Rightarrow> Inl PyTypeError)"

text \<open>One event of the envelope's type: skipped when it is for the other mode.\<close>

definition envelope_event ::
  "(jval \<Rightarrow> string) \<Rightarrow> string \<Rightarrow> event \<Rightarrow> envelope_revision option \<Rightarrow> envelope_revision option res" where
  "envelope_event sha mode ev current =
     (case e_payload ev of
        Some (JObj payload) \<Rightarrow>
          if jget payload ''mode'' \<notin> JStr ` set SUPPORTED_MODES
          then Inl (TradingRuntimePolicyError ''OPERATING_ENVELOPE_INVALID'')
          else if jget payload ''mode'' \<noteq> JStr mode then Inr current
          else
            bindR (envelope_mapping payload) (\<lambda>raw.
            bindR (normalize_operating_envelope raw mode) (\<lambda>b.
              let revision = envelope_next current; previous = envelope_head current;
                  fingerprint = envelope_fingerprint sha b revision previous in
              if \<not> jequals_int (jget payload ''revision'') revision
                \<or> jget payload ''previous_sha256'' \<noteq> JStr previous
                \<or> jget payload ''envelope_sha256'' \<noteq> JStr fingerprint
              then Inl (TradingRuntimePolicyError ''OPERATING_ENVELOPE_INVALID'')
              else Inr (Some \<lparr>er_body = b, er_revision = revision, er_previous_sha256 = previous,
                     er_sha256 = fingerprint, er_configured_at = e_created_at ev\<rparr>)))
      | _ \<Rightarrow> Inl (TradingRuntimePolicyError ''OPERATING_ENVELOPE_INVALID''))"

text \<open>The replay: the last revision it reached, and the error it stopped at.\<close>

fun replay_envelopes ::
  "(jval \<Rightarrow> string) \<Rightarrow> string \<Rightarrow> event list \<Rightarrow> envelope_revision option \<Rightarrow> envelope_revision option \<times> py_error option" where
  "replay_envelopes sha mode [] current = (current, None)"
| "replay_envelopes sha mode (ev # evs) current =
     (case envelope_event sha mode ev current of
        Inl e \<Rightarrow> (current, Some e)
      | Inr current' \<Rightarrow> replay_envelopes sha mode evs current')"

datatype envelope_status = ENVELOPE_CONFIGURATION_REQUIRED | ENVELOPE_VALID | OPERATING_ENVELOPE_INVALID

record envelope_state =
  es_status :: envelope_status
  es_mode :: string
  es_current :: "envelope_revision option"
  es_sha256 :: string

definition read_operating_envelope :: "(jval \<Rightarrow> string) \<Rightarrow> store \<Rightarrow> string \<Rightarrow> envelope_state res" where
  "read_operating_envelope sha s mode =
     (if mode \<notin> set SUPPORTED_MODES then Inl (TradingRuntimePolicyError ''OPERATING_ENVELOPE_MODE_INVALID'')
      else case replay_envelopes sha mode (filtered_execution_events (Some OPERATING_ENVELOPE_EVENT) None s) None of
        (reached, Some e) \<Rightarrow>
          if e \<in> {PyAttributeError, PyOverflowError} then Inl e
          else Inr \<lparr>es_status = OPERATING_ENVELOPE_INVALID, es_mode = mode, es_current = None,
                    es_sha256 = envelope_head reached\<rparr>
      | (None, None) \<Rightarrow> Inr \<lparr>es_status = ENVELOPE_CONFIGURATION_REQUIRED, es_mode = mode, es_current = None,
                          es_sha256 = GENESIS_POLICY_SHA256\<rparr>
      | (Some r, None) \<Rightarrow> Inr \<lparr>es_status = ENVELOPE_VALID, es_mode = mode, es_current = Some r,
                          es_sha256 = er_sha256 r\<rparr>)"

subsection \<open>Configuring\<close>

fun envelope_status_name :: "envelope_status \<Rightarrow> string" where
  "envelope_status_name ENVELOPE_CONFIGURATION_REQUIRED = ''CONFIGURATION_REQUIRED''"
| "envelope_status_name ENVELOPE_VALID = ''VALID''"
| "envelope_status_name OPERATING_ENVELOPE_INVALID = ''OPERATING_ENVELOPE_INVALID''"

definition envelope_state_dict :: "envelope_state \<Rightarrow> dict" where
  "envelope_state_dict c =
     dict_of ([(''status'', JStr (envelope_status_name (es_status c))), (''mode'', JStr (es_mode c))]
       @ (case es_current c of
            None \<Rightarrow> [(''envelope'', JNull), (''revision'', JNull), (''envelope_sha256'', JStr (es_sha256 c))]
          | Some r \<Rightarrow> envelope_identity (er_body r) (er_revision r) (er_previous_sha256 r)
              @ [(''envelope_sha256'', JStr (er_sha256 r)), (''configured_at'', JStr (er_configured_at r))]))"

definition configure_request :: "string \<Rightarrow> envelope \<Rightarrow> string \<Rightarrow> string \<Rightarrow> dict" where
  "configure_request mode b expected_sha as_of =
     dict_of [(''mode'', JStr mode), (''candidate'', JObj (envelope_dict b)),
       (''expected_current_sha256'', JStr expected_sha), (''as_of'', JStr as_of)]"

definition configure_operating_envelope ::
  "(jval \<Rightarrow> string) \<Rightarrow> string \<Rightarrow> dict \<Rightarrow> string \<Rightarrow> string \<Rightarrow> string \<Rightarrow> store \<Rightarrow> (dict \<times> store) res" where
  "configure_operating_envelope sha mode raw expected_sha key as_of s0 =
     (if key = [] \<or> as_of = [] then Inl (TradingRuntimePolicyError ''OPERATING_ENVELOPE_IDENTITY_REQUIRED'')
      else bindR (normalize_operating_envelope raw mode) (\<lambda>b.
        let request = configure_request mode b expected_sha as_of in
        immediate_write (\<lambda>s.
          bindR (replay_or_conflict s key OPERATING_ENVELOPE_EVENT request) (\<lambda>replayed.
            case replayed of
              Some answer \<Rightarrow> Inr (answer, s)
            | None \<Rightarrow>
                bindR (read_operating_envelope sha s mode) (\<lambda>current.
                if es_status current = OPERATING_ENVELOPE_INVALID
                then Inl (TradingRuntimePolicyError ''OPERATING_ENVELOPE_INVALID'')
                else if expected_sha \<noteq> es_sha256 current
                then Inl (TradingRuntimePolicyError ''OPERATING_ENVELOPE_STALE_WRITE'')
                else
                  let revision = envelope_next (es_current current) in
                  bindR (append_execution_event OPERATING_ENVELOPE_EVENT None None
                           (envelope_payload sha b revision expected_sha)
                           (Some (''OPERATING-ENVELOPE-'' @ mode @ ''-'' @ int_text revision)) (Some as_of) s) (\<lambda>(_, s1).
                  bindR (read_operating_envelope sha s1 mode) (\<lambda>result.
                  bindR (record_operator_command key OPERATING_ENVELOPE_EVENT request (envelope_state_dict result) s1)
                    (\<lambda>(_, s2). Inr (dict_with (envelope_state_dict result) [(''idempotent'', JBool False)], s2))))))) s0))"

subsection \<open>Enforcing\<close>

text \<open>
  \<open>enforce_operating_envelope\<close> from the envelope in force, the number of outstanding positions and
  their cost basis (None when it is unknown): the reason an admission is refused, if any.
\<close>

definition envelope_refusal :: "envelope_state \<Rightarrow> nat \<Rightarrow> string option \<Rightarrow> decimal \<Rightarrow> string option res" where
  "envelope_refusal current count outstanding amount =
     (case es_current current of
        None \<Rightarrow> Inr (Some (envelope_status_name (es_status current)))
      | Some r \<Rightarrow>
          (case outstanding of
             None \<Rightarrow> Inr (Some ''OUTSTANDING_OBLIGATIONS_UNKNOWN'')
           | Some t \<Rightarrow>
               if en_max_positions (er_body r) < int count + 1 then Inr (Some ''OUTSTANDING_POSITION_LIMIT'')
               else bindR (dec_of_string t) (\<lambda>cost. bindR (dec_add cost amount) (\<lambda>total.
                    bindR (dec_of_string (en_max_cost (er_body r))) (\<lambda>most. bindR (dec_lt most total) (\<lambda>above.
                      Inr (if above then Some ''OUTSTANDING_COST_BASIS_LIMIT'' else None)))))))"

end
