(* ===== verification/EnvelopeClaims.thy ===== *)
theory EnvelopeClaims
  imports OperatingEnvelope PolicyDiff
begin

section \<open>What the operating envelope guarantees\<close>

text \<open>
  A configured envelope is the one read back, the other mode's is untouched, and an admission that
  \<open>envelope_refusal\<close> lets through keeps both bounds of the envelope in force.
\<close>

subsection \<open>Normal forms\<close>

definition envelope_wf :: "string \<Rightarrow> envelope \<Rightarrow> bool" where
  "envelope_wf mode b = (mode \<in> set SUPPORTED_MODES \<and> en_mode b = mode \<and> 1 \<le> en_max_positions b \<and> money_text (en_max_cost b))"

lemma normalize_envelope_wf:
  assumes "normalize_operating_envelope raw mode = Inr b"
  shows "envelope_wf mode b"
proof -
  obtain n t where "mode \<in> set SUPPORTED_MODES" and n: "policy_count ''max_outstanding_positions'' (jget raw ''max_outstanding_positions'') = Inr (Some n)"
    and t: "policy_money ''max_outstanding_cost_basis_usd'' (jget raw ''max_outstanding_cost_basis_usd'') = Inr (Some t)"
    and "b = \<lparr>en_mode = mode, en_max_positions = n, en_max_cost = t\<rparr>"
    using assms by (auto simp: normalize_operating_envelope_def result_simps split: option.splits)
  moreover have "1 \<le> n" using policy_count_wf [OF n] by (simp add: count_column_def)
  moreover have "money_text t" using policy_money_wf [OF t] by simp
  ultimately show ?thesis by (simp add: envelope_wf_def)
qed

lemma normalize_envelope_dict:
  assumes "envelope_wf mode b"
  shows "normalize_operating_envelope (envelope_dict b) mode = Inr b"
proof -
  have m: "policy_money ''max_outstanding_cost_basis_usd'' (JStr (en_max_cost b)) = Inr (Some (en_max_cost b))"
    using assms policy_money_text by (simp add: envelope_wf_def)
  show ?thesis using assms m
    by (auto simp: normalize_operating_envelope_def envelope_wf_def envelope_dict_def ENVELOPE_KEYS_def jget_or_def
        policy_count_def)
qed

lemma written_event:
  assumes "envelope_wf mode b"
  shows "envelope_event sha mode \<lparr>e_id = eid, e_type = ty, e_bot = bt, e_position = ps, e_created_at = stamp,
      e_payload = Some (JObj (envelope_payload sha b (envelope_next current) (envelope_head current)))\<rparr> current =
    Inr (Some \<lparr>er_body = b, er_revision = envelope_next current, er_previous_sha256 = envelope_head current,
      er_sha256 = envelope_fingerprint sha b (envelope_next current) (envelope_head current), er_configured_at = stamp\<rparr>)"
  using assms normalize_envelope_dict [OF assms]
  by (simp add: envelope_event_def envelope_payload_def envelope_identity_def envelope_mapping_def envelope_wf_def
      jequals_int_def Let_def image_iff)

lemma other_event:
  assumes "envelope_wf mode b" and "other \<noteq> mode"
  shows "envelope_event sha other \<lparr>e_id = eid, e_type = ty, e_bot = bt, e_position = ps, e_created_at = stamp,
      e_payload = Some (JObj (envelope_payload sha b n prev))\<rparr> current = Inr current"
  using assms by (simp add: envelope_event_def envelope_payload_def envelope_identity_def envelope_wf_def image_iff)

subsection \<open>Replaying\<close>

lemma replay_snoc:
  "replay_envelopes sha mode (evs @ [ev]) c = (case replay_envelopes sha mode evs c of
     (r, Some e) \<Rightarrow> (r, Some e)
   | (r, None) \<Rightarrow> (case envelope_event sha mode ev r of Inl e \<Rightarrow> (r, Some e) | Inr r' \<Rightarrow> (r', None)))"
  by (induction evs arbitrary: c) (auto split: sum.split)

lemma envelope_event_wf:
  assumes "envelope_event sha mode ev c = Inr c'" and "\<forall>r. c = Some r \<longrightarrow> envelope_wf mode (er_body r)"
  shows "\<forall>r. c' = Some r \<longrightarrow> envelope_wf mode (er_body r)"
  using assms normalize_envelope_wf
  by (auto simp: envelope_event_def bindR_eq_Inr Let_def split: option.splits jval.splits if_splits)

lemma replay_wf:
  "replay_envelopes sha mode evs c = (c', err) \<Longrightarrow> \<forall>r. c = Some r \<longrightarrow> envelope_wf mode (er_body r)
    \<Longrightarrow> \<forall>r. c' = Some r \<longrightarrow> envelope_wf mode (er_body r)"
proof (induction sha mode evs c rule: replay_envelopes.induct)
  case (2 sha mode ev evs c)
  then show ?case using envelope_event_wf [of sha mode ev c] by (cases "envelope_event sha mode ev c") simp_all
qed simp

lemma read_envelope_wf:
  assumes "read_operating_envelope sha s mode = Inr cur" and "es_current cur = Some r"
  shows "envelope_wf mode (er_body r)"
  using assms replay_wf [of sha mode _ None]
  by (auto simp: read_operating_envelope_def split: if_splits option.splits prod.splits)

lemma read_envelope_parts:
  assumes "read_operating_envelope sha s mode = Inr cur" and "es_status cur \<noteq> OPERATING_ENVELOPE_INVALID"
  shows "replay_envelopes sha mode (filtered_execution_events (Some OPERATING_ENVELOPE_EVENT) None s) None = (es_current cur, None)"
    and "es_sha256 cur = envelope_head (es_current cur)"
  using assms
  by (auto simp: read_operating_envelope_def envelope_head_def split: if_splits option.splits prod.splits)

lemma filtered_snoc:
  assumes "st_events s' = st_events s @ [ev]" and "e_type ev = t" and "e_payload ev = Some p"
  shows "filtered_execution_events (Some t) None s' = filtered_execution_events (Some t) None s @ [ev]"
  using assms by (simp add: filtered_execution_events_def)

lemma read_same_events:
  "st_events s' = st_events s \<Longrightarrow> read_operating_envelope sha s' mode = read_operating_envelope sha s mode"
  by (simp add: read_operating_envelope_def filtered_execution_events_def)

text \<open>The event \<open>configure_operating_envelope\<close> appends.\<close>

definition envelope_row :: "(jval \<Rightarrow> string) \<Rightarrow> string \<Rightarrow> envelope \<Rightarrow> envelope_revision option \<Rightarrow> string \<Rightarrow> event" where
  "envelope_row sha mode b c as_of =
     \<lparr>e_id = ''OPERATING-ENVELOPE-'' @ mode @ ''-'' @ int_text (envelope_next c), e_type = OPERATING_ENVELOPE_EVENT,
      e_bot = None, e_position = None, e_created_at = as_of,
      e_payload = Some (JObj (envelope_payload sha b (envelope_next c) (envelope_head c)))\<rparr>"

definition next_envelope :: "(jval \<Rightarrow> string) \<Rightarrow> envelope \<Rightarrow> envelope_revision option \<Rightarrow> string \<Rightarrow> envelope_revision" where
  "next_envelope sha b c as_of = \<lparr>er_body = b, er_revision = envelope_next c, er_previous_sha256 = envelope_head c,
     er_sha256 = envelope_fingerprint sha b (envelope_next c) (envelope_head c), er_configured_at = as_of\<rparr>"

lemma read_after_row:
  assumes "read_operating_envelope sha s mode = Inr cur" and "es_status cur \<noteq> OPERATING_ENVELOPE_INVALID"
    and "envelope_wf mode b" and "st_events s' = st_events s @ [envelope_row sha mode b (es_current cur) as_of]"
  shows "read_operating_envelope sha s' mode = Inr \<lparr>es_status = ENVELOPE_VALID, es_mode = mode,
      es_current = Some (next_envelope sha b (es_current cur) as_of),
      es_sha256 = er_sha256 (next_envelope sha b (es_current cur) as_of)\<rparr>"
proof -
  have m: "mode \<in> set SUPPORTED_MODES" using assms(3) by (simp add: envelope_wf_def)
  have "filtered_execution_events (Some OPERATING_ENVELOPE_EVENT) None s' =
      filtered_execution_events (Some OPERATING_ENVELOPE_EVENT) None s @ [envelope_row sha mode b (es_current cur) as_of]"
    using assms(4) by (rule filtered_snoc) (simp_all add: envelope_row_def)
  then show ?thesis
    using read_envelope_parts [OF assms(1,2)] written_event [OF assms(3)] m
    by (simp add: read_operating_envelope_def replay_snoc envelope_row_def next_envelope_def)
qed

lemma read_other_mode:
  assumes "envelope_wf mode b" and "other \<noteq> mode" and "st_events s' = st_events s @ [envelope_row sha mode b c as_of]"
  shows "read_operating_envelope sha s' other = read_operating_envelope sha s other"
proof -
  have "filtered_execution_events (Some OPERATING_ENVELOPE_EVENT) None s' =
      filtered_execution_events (Some OPERATING_ENVELOPE_EVENT) None s @ [envelope_row sha mode b c as_of]"
    using assms(3) by (rule filtered_snoc) (simp_all add: envelope_row_def)
  moreover have "envelope_event sha other (envelope_row sha mode b c as_of) x = Inr x" for x
    using other_event [OF assms(1,2)] by (simp add: envelope_row_def)
  ultimately show ?thesis
    by (simp add: read_operating_envelope_def replay_snoc split: prod.split option.split)
qed

text \<open>C27: a configured envelope is in force: with an unused key and the digest of the envelope in force,
  \<open>configure_operating_envelope\<close> returns, appends exactly one event, and the envelope read back is the
  normalized candidate, one revision further, built on that digest; the other mode's envelope is as it was.\<close>

theorem configured_envelope_in_force:
  assumes "read_operating_envelope sha s mode = Inr cur" and "es_status cur \<noteq> OPERATING_ENVELOPE_INVALID"
    and "normalize_operating_envelope raw mode = Inr b" and "key \<noteq> []" and "as_of \<noteq> []" and "\<not> st_readonly s"
    and "get_operator_command key s = None"
    and "find_event (''OPERATING-ENVELOPE-'' @ mode @ ''-'' @ int_text (envelope_next (es_current cur))) s = None"
  shows "\<exists>ans s' ev r. configure_operating_envelope sha mode raw (es_sha256 cur) key as_of s = Inr (ans, s')
    \<and> st_events s' = st_events s @ [ev]
    \<and> read_operating_envelope sha s' mode =
        Inr \<lparr>es_status = ENVELOPE_VALID, es_mode = mode, es_current = Some r, es_sha256 = er_sha256 r\<rparr>
    \<and> er_body r = b \<and> er_revision r = envelope_next (es_current cur) \<and> er_previous_sha256 r = es_sha256 cur
    \<and> er_configured_at r = as_of
    \<and> (\<forall>other. other \<noteq> mode \<longrightarrow> read_operating_envelope sha s' other = read_operating_envelope sha s other)"
proof -
  have wf: "envelope_wf mode b" using normalize_envelope_wf [OF assms(3)] .
  let ?row = "envelope_row sha mode b (es_current cur) as_of"
  let ?r = "next_envelope sha b (es_current cur) as_of"
  define s1 where "s1 = s\<lparr>st_events := st_events s @ [?row]\<rparr>"
  have head: "es_sha256 cur = envelope_head (es_current cur)" by (rule read_envelope_parts(2) [OF assms(1,2)])
  have app: "append_execution_event OPERATING_ENVELOPE_EVENT None None
      (envelope_payload sha b (envelope_next (es_current cur)) (es_sha256 cur))
      (Some (''OPERATING-ENVELOPE-'' @ mode @ ''-'' @ int_text (envelope_next (es_current cur)))) (Some as_of) s =
      Inr (''OPERATING-ENVELOPE-'' @ mode @ ''-'' @ int_text (envelope_next (es_current cur)), s1)"
    using assms(5,6,8) by (cases as_of) (simp_all add: append_execution_event_def s1_def envelope_row_def head)
  have read1: "read_operating_envelope sha s1 mode = Inr \<lparr>es_status = ENVELOPE_VALID, es_mode = mode,
      es_current = Some ?r, es_sha256 = er_sha256 ?r\<rparr>"
    by (rule read_after_row [OF assms(1,2) wf]) (simp add: s1_def)
  have key1: "get_operator_command key s1 = None" "\<not> st_readonly s1"
    using assms(6,7) by (simp_all add: s1_def get_operator_command_def)
  define answer where "answer = envelope_state_dict \<lparr>es_status = ENVELOPE_VALID, es_mode = mode, es_current = Some ?r,
      es_sha256 = er_sha256 ?r\<rparr>"
  obtain s2 where rec: "record_operator_command key OPERATING_ENVELOPE_EVENT
      (configure_request mode b (es_sha256 cur) as_of) answer s1 = Inr ((), s2)"
    and ev2: "st_events s2 = st_events s @ [?row]"
    using key1 by (auto simp: record_operator_command_def s1_def tick_def)
  have run: "configure_operating_envelope sha mode raw (es_sha256 cur) key as_of s =
      Inr (dict_with answer [(''idempotent'', JBool False)], s2)"
    using assms(1-7) app read1 rec
    by (simp add: configure_operating_envelope_def immediate_write_def replay_or_conflict_def Let_def
        answer_def [symmetric] del: dict_with_simps)
  have "read_operating_envelope sha s2 other = read_operating_envelope sha s other" if "other \<noteq> mode" for other
    by (rule read_other_mode [OF wf that ev2])
  moreover have "read_operating_envelope sha s2 mode = Inr \<lparr>es_status = ENVELOPE_VALID, es_mode = mode,
      es_current = Some ?r, es_sha256 = er_sha256 ?r\<rparr>"
    by (rule read_after_row [OF assms(1,2) wf ev2])
  ultimately show ?thesis
    using run ev2 head by (intro exI [of _ "dict_with answer [(''idempotent'', JBool False)]"] exI [of _ s2] exI [of _ ?row]
        exI [of _ ?r]) (simp add: next_envelope_def)
qed

definition demo_envelope :: dict where
  "demo_envelope = dict_of [(''max_outstanding_positions'', JInt 3), (''max_outstanding_cost_basis_usd'', JStr ''1000'')]"

lemma demo_envelope_body:
  "normalize_operating_envelope demo_envelope ''PAPER'' = Inr \<lparr>en_mode = ''PAPER'', en_max_positions = 3, en_max_cost = ''1000''\<rparr>"
  by (simp add: normalize_operating_envelope_def demo_envelope_def SUPPORTED_MODES_def ENVELOPE_KEYS_def jget_or_def
      policy_count_def policy_money_def jdecimal_def dec_eval dec_less_zero signed_def)

lemma configured_envelope_in_force_witness:
  "\<exists>ans s' r. configure_operating_envelope demo_sha ''PAPER'' demo_envelope GENESIS_POLICY_SHA256 ''K1''
       ''2026-07-01T00:00:00Z'' demo_policies = Inr (ans, s')
     \<and> read_operating_envelope demo_sha s' ''PAPER'' = Inr \<lparr>es_status = ENVELOPE_VALID, es_mode = ''PAPER'',
         es_current = Some r, es_sha256 = er_sha256 r\<rparr> \<and> en_max_positions (er_body r) = 3 \<and> er_revision r = 1"
proof -
  have read: "read_operating_envelope demo_sha demo_policies ''PAPER'' = Inr \<lparr>es_status = ENVELOPE_CONFIGURATION_REQUIRED,
      es_mode = ''PAPER'', es_current = None, es_sha256 = GENESIS_POLICY_SHA256\<rparr>"
    by (simp add: read_operating_envelope_def SUPPORTED_MODES_def filtered_execution_events_def demo_policies_def)
  have k: "get_operator_command ''K1'' demo_policies = None" "\<not> st_readonly demo_policies"
    "find_event i demo_policies = None" for i
    by (simp_all add: get_operator_command_def demo_policies_def find_event_def)
  show ?thesis
    using configured_envelope_in_force [OF read _ demo_envelope_body _ _ k(2) k(1) k(3),
        of "''2026-07-01T00:00:00Z''"] by (auto simp: envelope_next_def)
qed

text \<open>The envelope bounds what is outstanding: with an envelope in force and a known cost basis,
  \<open>envelope_refusal\<close> returns, and it refuses nothing exactly when the positions outstanding, this one
  included, are within its number and their exact cost plus the amount is within its cost basis.\<close>

theorem envelope_bounds_outstanding:
  assumes "read_operating_envelope sha s mode = Inr cur" and "es_current cur = Some r"
    and "dec_is_finite cost" and "- 8 \<le> dexp cost" and "dec_is_finite amount" and "- 8 \<le> dexp amount"
    and "\<bar>dval cost\<bar> < 10 ^ 19" and "\<bar>dval amount\<bar> < 10 ^ 19"
  shows "\<exists>x. envelope_refusal cur n (Some (dec_text cost)) amount = Inr x
    \<and> (x = None \<longleftrightarrow> int n + 1 \<le> en_max_positions (er_body r)
         \<and> dval cost + dval amount \<le> text_value (en_max_cost (er_body r)))"
proof -
  have wf: "envelope_wf mode (er_body r)" by (rule read_envelope_wf [OF assms(1,2)])
  obtain m where m: "dec_of_string (en_max_cost (er_body r)) = Inr m" "dec_is_finite m"
    using wf by (auto simp: envelope_wf_def elim: money_text_value)
  have "\<bar>dval cost + dval amount\<bar> < 10 ^ 19 + 10 ^ 19" using assms(7,8) by linarith
  then have "\<bar>dval (dec_plain cost) + dval amount\<bar> < 10 powi (28 - 8)" by (simp add: dval_dec_plain)
  moreover have "- 8 \<le> dexp (dec_plain cost)" using assms(4) by (cases cost) auto
  ultimately obtain z where z: "dec_add (dec_plain cost) amount = Inr z" "dec_is_finite z" "dval z = dval cost + dval amount"
    using assms(3,5,6) by (elim dec_add_exact [rotated 4]) (auto simp: dec_plain_finite dval_dec_plain)
  show ?thesis using z m assms(3)
    by (auto simp: envelope_refusal_def assms(2) dec_text_fin text_value_def dec_lt_dval)
qed

lemma envelope_bounds_outstanding_witness:
  "\<exists>s cur x. read_operating_envelope demo_sha s ''PAPER'' = Inr cur
     \<and> envelope_refusal cur 2 (Some (dec_text (dec_of_int 900))) (dec_of_int 100) = Inr x \<and> x = None"
proof -
  obtain ans s' r where read: "read_operating_envelope demo_sha s' ''PAPER'' = Inr \<lparr>es_status = ENVELOPE_VALID,
      es_mode = ''PAPER'', es_current = Some r, es_sha256 = er_sha256 r\<rparr>"
    and b: "er_body r = \<lparr>en_mode = ''PAPER'', en_max_positions = 3, en_max_cost = ''1000''\<rparr>"
  proof -
    have k: "read_operating_envelope demo_sha demo_policies ''PAPER'' = Inr \<lparr>es_status = ENVELOPE_CONFIGURATION_REQUIRED,
      es_mode = ''PAPER'', es_current = None, es_sha256 = GENESIS_POLICY_SHA256\<rparr>"
      by (simp add: read_operating_envelope_def SUPPORTED_MODES_def filtered_execution_events_def demo_policies_def)
    have w: "envelope_wf ''PAPER'' \<lparr>en_mode = ''PAPER'', en_max_positions = 3, en_max_cost = ''1000''\<rparr>"
      by (rule normalize_envelope_wf [OF demo_envelope_body])
    let ?b = "\<lparr>en_mode = ''PAPER'', en_max_positions = 3, en_max_cost = ''1000''\<rparr>"
    have e: "read_operating_envelope demo_sha (demo_policies\<lparr>st_events := [envelope_row demo_sha ''PAPER'' ?b None ''T'']\<rparr>) ''PAPER'' =
        Inr \<lparr>es_status = ENVELOPE_VALID, es_mode = ''PAPER'', es_current = Some (next_envelope demo_sha ?b None ''T''),
             es_sha256 = er_sha256 (next_envelope demo_sha ?b None ''T'')\<rparr>"
      using read_after_row [OF k _ w, of "demo_policies\<lparr>st_events := [envelope_row demo_sha ''PAPER'' ?b None ''T'']\<rparr>" "''T''"]
      by (simp add: demo_policies_def)
    show thesis by (rule that [OF e]) (simp add: next_envelope_def)
  qed
  have v: "text_value ''1000'' = 1000" by (simp add: text_value_def dec_eval signed_def)
  show ?thesis
    using envelope_bounds_outstanding [OF read, of r "dec_of_int 900" "dec_of_int 100" 2] read
    by (auto simp: b v dec_of_int_def signed_def)
qed

end
