(* ===== verification/ScheduleStore.thy ===== *)
theory ScheduleStore
  imports PyJson "HOL-Library.Product_Lexorder"
begin

section \<open>The observation schedule store: lease, counters, account budget\<close>

text \<open>
  The part of \<open>factory/observation_schedule_store.py\<close> that decides who may write and what a provider
  call costs: the scheduler's lease, the accounting and lifetime counters of an activation, and
  the tables of the shared account budget. An activation is named by its schedule digest and its
  id. Instants are microseconds since 1970, a UTC day is their number of days. Instants are stored
  as the text \<open>render_utc\<close> makes, which \<open>parse_utc\<close> reads back exactly; the SQL and Python
  comparisons of the lease compare these texts.
\<close>

type_synonym instant = int
type_synonym activation = "string \<times> string"

definition utc_day :: "instant \<Rightarrow> int" where
  "utc_day t = t div 86400000000"

text \<open>
  The order of the texts of \<open>render_utc\<close>: the seconds as fixed-width digits, then the letter Z, or a
  point and six digits when there are microseconds. A point sorts before the letter.
\<close>

definition stamp_key :: "instant \<Rightarrow> int \<times> int" where
  "stamp_key t = (t div 1000000, if t mod 1000000 = 0 then 1000000 else t mod 1000000)"

definition stamp_before :: "instant \<Rightarrow> instant \<Rightarrow> bool" where
  "stamp_before a b = (stamp_key a < stamp_key b)"

subsection \<open>Tables\<close>

record lease =
  ls_owner :: string
  ls_token :: string
  ls_expires_at :: instant
  ls_created_at :: instant

record counters =
  k_calls :: int
  k_credits :: int
  k_candidates :: int
  k_members :: int
  k_raw_bytes :: int
  k_canonical_bytes :: int
  k_last_call :: "instant option"

record counter_row =
  kr_key :: "activation \<times> int"
  kr_values :: counters

record lifetime_row =
  lr_key :: activation
  lr_calls :: int
  lr_canonical_bytes :: int

record budget_policy =
  bp_scope :: string
  bp_revision :: int
  bp_day_calls :: int
  bp_day_credits :: int
  bp_life_calls :: int
  bp_command_sha256 :: string

record ops =
  op_readonly :: bool
  op_lease :: "lease option"
  op_counters :: "counter_row list"
  op_lifetime :: "lifetime_row list"
  op_budget_tables :: nat
  op_scopes :: "string list"
  op_policies :: "budget_policy list"
  op_members :: "(activation \<times> string) list"

definition get_counters :: "activation \<times> int \<Rightarrow> ops \<Rightarrow> counter_row option" where
  "get_counters k s = rows_get kr_key k (op_counters s)"

definition upd_counters :: "activation \<times> int \<Rightarrow> (counter_row \<Rightarrow> counter_row) \<Rightarrow> ops \<Rightarrow> ops" where
  "upd_counters k f s = s\<lparr>op_counters := rows_upd kr_key k f (op_counters s)\<rparr>"

definition ins_counters :: "counter_row \<Rightarrow> ops \<Rightarrow> ops" where
  "ins_counters r s = s\<lparr>op_counters := op_counters s @ [r]\<rparr>"

definition get_life :: "activation \<Rightarrow> ops \<Rightarrow> lifetime_row option" where
  "get_life k s = rows_get lr_key k (op_lifetime s)"

definition upd_life :: "activation \<Rightarrow> (lifetime_row \<Rightarrow> lifetime_row) \<Rightarrow> ops \<Rightarrow> ops" where
  "upd_life k f s = s\<lparr>op_lifetime := rows_upd lr_key k f (op_lifetime s)\<rparr>"

definition ins_life :: "lifetime_row \<Rightarrow> ops \<Rightarrow> ops" where
  "ins_life r s = s\<lparr>op_lifetime := op_lifetime s @ [r]\<rparr>"

interpretation counters: row_table get_counters upd_counters ins_counters kr_key
proof unfold_locales
  fix f :: "counter_row \<Rightarrow> counter_row" and k k' s
  assume "\<And>r. kr_key (f r) = kr_key r"
  then show "get_counters k (upd_counters k' f s) =
      (if k = k' then map_option f (get_counters k s) else get_counters k s)"
    by (simp add: get_counters_def upd_counters_def rows_get_upd)
next
  fix r :: counter_row and k s
  assume "get_counters (kr_key r) s = None"
  then show "get_counters k (ins_counters r s) = (if k = kr_key r then Some r else get_counters k s)"
    by (simp add: get_counters_def ins_counters_def rows_get_ins)
next
  fix k s r
  assume "get_counters k s = Some r"
  then show "kr_key r = k" unfolding get_counters_def by (rule rows_get_key)
qed

interpretation life: row_table get_life upd_life ins_life lr_key
proof unfold_locales
  fix f :: "lifetime_row \<Rightarrow> lifetime_row" and k k' s
  assume "\<And>r. lr_key (f r) = lr_key r"
  then show "get_life k (upd_life k' f s) = (if k = k' then map_option f (get_life k s) else get_life k s)"
    by (simp add: get_life_def upd_life_def rows_get_upd)
next
  fix r :: lifetime_row and k s
  assume "get_life (lr_key r) s = None"
  then show "get_life k (ins_life r s) = (if k = lr_key r then Some r else get_life k s)"
    by (simp add: get_life_def ins_life_def rows_get_ins)
next
  fix k s r
  assume "get_life k s = Some r"
  then show "lr_key r = k" unfolding get_life_def by (rule rows_get_key)
qed

subsection \<open>The writer's lease\<close>

definition LEASE_SECONDS :: int where
  "LEASE_SECONDS = 120"

definition require_writable :: "ops \<Rightarrow> unit res" where
  "require_writable s = guardR (\<not> op_readonly s) (ObservationScheduleStoreError ''SOURCE_READONLY'')"

text \<open>
  \<open>_require_write_lease\<close> for a process that holds \<open>token\<close>: without one, no lease may be active; with
  one, the lease must be its own and not expired, and it is renewed.
\<close>

definition require_write_lease :: "string option \<Rightarrow> instant \<Rightarrow> ops \<Rightarrow> ops res" where
  "require_write_lease token now s =
     bindR (require_writable s) (\<lambda>_.
       case token of
         None \<Rightarrow>
           (case op_lease s of
              Some l \<Rightarrow> if stamp_before now (ls_expires_at l) then Inl (ObservationScheduleStoreError ''WRITER_BUSY'')
                        else Inr s
            | None \<Rightarrow> Inr s)
       | Some tk \<Rightarrow>
           (case op_lease s of
              None \<Rightarrow> Inl (ObservationScheduleStoreError ''LEASE_FENCED'')
            | Some l \<Rightarrow>
                if ls_token l \<noteq> tk \<or> \<not> stamp_before now (ls_expires_at l)
                then Inl (ObservationScheduleStoreError ''LEASE_FENCED'')
                else Inr (s\<lparr>op_lease := Some (l\<lparr>ls_expires_at := now + LEASE_SECONDS * 1000000\<rparr>)\<rparr>)))"

text \<open>\<open>acquire_lease\<close>: the token and the store, or None while another lease is active.\<close>

definition acquire_lease :: "string \<Rightarrow> string \<Rightarrow> instant \<Rightarrow> ops \<Rightarrow> (string option \<times> ops) res" where
  "acquire_lease owner hex now s =
     bindR (require_writable s) (\<lambda>_.
       let token = owner @ ''-'' @ hex;
           fresh = \<lparr>ls_owner = owner, ls_token = token, ls_expires_at = now + LEASE_SECONDS * 1000000, ls_created_at = now\<rparr> in
       case op_lease s of
         Some l \<Rightarrow> if stamp_before now (ls_expires_at l) then Inr (None, s)
                   else Inr (Some token, s\<lparr>op_lease := Some fresh\<rparr>)
       | None \<Rightarrow> Inr (Some token, s\<lparr>op_lease := Some fresh\<rparr>))"

definition renew_held_lease :: "string option \<Rightarrow> instant \<Rightarrow> ops \<Rightarrow> ops res" where
  "renew_held_lease token now s =
     (if token = None then Inl (ObservationScheduleStoreError ''LEASE_NOT_HELD'') else require_write_lease token now s)"

text \<open>\<open>release_lease\<close>: the token the process holds afterwards, and the store.\<close>

definition release_lease :: "string \<Rightarrow> string option \<Rightarrow> ops \<Rightarrow> (string option \<times> ops) res" where
  "release_lease given held s =
     bindR (require_writable s) (\<lambda>_.
       case op_lease s of
         Some l \<Rightarrow> if ls_token l = given
                   then Inr (if held = Some given then None else held, s\<lparr>op_lease := None\<rparr>)
                   else Inr (held, s)
       | None \<Rightarrow> Inr (held, s))"

subsection \<open>Counters\<close>

definition zero_counters :: counters where
  "zero_counters = \<lparr>k_calls = 0, k_credits = 0, k_candidates = 0, k_members = 0, k_raw_bytes = 0,
     k_canonical_bytes = 0, k_last_call = None\<rparr>"

definition load_accounting :: "activation \<Rightarrow> int \<Rightarrow> ops \<Rightarrow> counters" where
  "load_accounting a day s = (case get_counters (a, day) s of None \<Rightarrow> zero_counters | Some r \<Rightarrow> kr_values r)"

definition load_lifetime :: "activation \<Rightarrow> ops \<Rightarrow> int \<times> int" where
  "load_lifetime a s = (case get_life a s of None \<Rightarrow> (0, 0) | Some r \<Rightarrow> (lr_calls r, lr_canonical_bytes r))"

definition latest_provider_call_at :: "activation \<Rightarrow> ops \<Rightarrow> instant option" where
  "latest_provider_call_at a s =
     (let stamps = concat (map (\<lambda>r. case k_last_call (kr_values r) of None \<Rightarrow> [] | Some t \<Rightarrow> [t])
                     (filter (\<lambda>r. fst (kr_key r) = a) (op_counters s)))
      in if stamps = [] then None else Some (foldr max (tl stamps) (hd stamps)))"

text \<open>\<open>INSERT ... ON CONFLICT DO UPDATE\<close>.\<close>

definition write_accounting :: "activation \<Rightarrow> int \<Rightarrow> counters \<Rightarrow> ops \<Rightarrow> ops" where
  "write_accounting a day v s =
     (case get_counters (a, day) s of
        None \<Rightarrow> ins_counters \<lparr>kr_key = (a, day), kr_values = v\<rparr> s
      | Some r \<Rightarrow> upd_counters (a, day) (\<lambda>r. r\<lparr>kr_values := v\<rparr>) s)"

definition write_lifetime :: "activation \<Rightarrow> int \<Rightarrow> int \<Rightarrow> ops \<Rightarrow> ops" where
  "write_lifetime a calls bytes s =
     (case get_life a s of
        None \<Rightarrow> ins_life \<lparr>lr_key = a, lr_calls = calls, lr_canonical_bytes = bytes\<rparr> s
      | Some r \<Rightarrow> upd_life a (\<lambda>r. r\<lparr>lr_calls := calls, lr_canonical_bytes := bytes\<rparr>) s)"

definition save_accounting :: "string option \<Rightarrow> activation \<Rightarrow> int \<Rightarrow> counters \<Rightarrow> instant \<Rightarrow> ops \<Rightarrow> ops res" where
  "save_accounting token a day v clock s =
     bindR (require_write_lease token clock s) (\<lambda>s1. Inr (write_accounting a day v s1))"

definition save_lifetime :: "string option \<Rightarrow> activation \<Rightarrow> int \<Rightarrow> int \<Rightarrow> instant \<Rightarrow> ops \<Rightarrow> ops res" where
  "save_lifetime token a calls bytes clock s =
     bindR (require_write_lease token clock s) (\<lambda>s1. Inr (write_lifetime a calls bytes s1))"

definition save_call_debit ::
  "string option \<Rightarrow> activation \<Rightarrow> int \<Rightarrow> counters \<Rightarrow> int \<Rightarrow> int \<Rightarrow> instant \<Rightarrow> ops \<Rightarrow> ops res" where
  "save_call_debit token a day v calls bytes clock s =
     bindR (require_write_lease token clock s) (\<lambda>s1.
       Inr (write_lifetime a calls bytes (write_accounting a day v s1)))"

subsection \<open>The shared account budget\<close>

datatype budget_binding =
    Unmanaged
  | Managed string budget_policy
  | NotMember string budget_policy
  | CorruptBudget string "string option"

definition account_budget_policy :: "string \<Rightarrow> ops \<Rightarrow> budget_policy option" where
  "account_budget_policy scope s =
     (case rev (sort_key bp_revision (filter (\<lambda>p. bp_scope p = scope) (op_policies s))) of [] \<Rightarrow> None | p # _ \<Rightarrow> Some p)"

definition account_budget_binding :: "activation \<Rightarrow> ops \<Rightarrow> budget_binding" where
  "account_budget_binding a s =
     (if op_budget_tables s = 0 then Unmanaged
      else if op_budget_tables s \<noteq> 3 then CorruptBudget ''ACCOUNT_BUDGET_SCHEMA_PARTIAL'' None
      else case op_scopes s of
        [] \<Rightarrow> if op_members s \<noteq> [] \<or> op_policies s \<noteq> [] then CorruptBudget ''ACCOUNT_BUDGET_SCOPE_MISSING'' None
              else Unmanaged
      | [scope] \<Rightarrow>
          (case account_budget_policy scope s of
             None \<Rightarrow> CorruptBudget ''ACCOUNT_BUDGET_POLICY_MISSING'' (Some scope)
           | Some p \<Rightarrow>
               (case map_of (op_members s) a of
                  None \<Rightarrow> NotMember scope p
                | Some sc \<Rightarrow> if sc \<noteq> scope then CorruptBudget ''ACCOUNT_BUDGET_MEMBER_SCOPE_MISMATCH'' (Some scope)
                             else Managed scope p))
      | _ \<Rightarrow> CorruptBudget ''ACCOUNT_BUDGET_SCOPE_AMBIGUOUS'' None)"

text \<open>\<open>account_budget_usage\<close>: the day's calls and credits and the lifetime calls of all members.\<close>

definition members_of :: "string \<Rightarrow> ops \<Rightarrow> activation list" where
  "members_of scope s = map fst (filter (\<lambda>m. snd m = scope) (op_members s))"

definition account_budget_usage :: "string \<Rightarrow> int \<Rightarrow> ops \<Rightarrow> int \<times> int \<times> int" where
  "account_budget_usage scope day s =
     (sum_list (map (\<lambda>a. k_calls (load_accounting a day s)) (members_of scope s)),
      sum_list (map (\<lambda>a. k_credits (load_accounting a day s)) (members_of scope s)),
      sum_list (map (\<lambda>a. fst (load_lifetime a s)) (members_of scope s)))"

definition insert_account_policy :: "string \<Rightarrow> int \<Rightarrow> budget_policy \<Rightarrow> ops \<Rightarrow> ops res" where
  "insert_account_policy scope revision p s =
     (if revision < 1 \<or> (\<exists>q\<in>set (op_policies s). bp_scope q = scope \<and> bp_revision q = revision
            \<or> bp_command_sha256 q = bp_command_sha256 p)
      then Inl SqliteIntegrityError
      else Inr (s\<lparr>op_policies := op_policies s @ [p\<lparr>bp_scope := scope, bp_revision := revision\<rparr>]\<rparr>))"

fun insert_members :: "string \<Rightarrow> activation list \<Rightarrow> ops \<Rightarrow> ops res" where
  "insert_members scope [] s = Inr s"
| "insert_members scope (a # as) s =
     (if a \<in> fst ` set (op_members s) then Inl SqliteIntegrityError
      else insert_members scope as (s\<lparr>op_members := op_members s @ [(a, scope)]\<rparr>))"

definition commission_account_budget ::
  "string option \<Rightarrow> string \<Rightarrow> budget_policy \<Rightarrow> activation list \<Rightarrow> instant \<Rightarrow> ops \<Rightarrow> ops res" where
  "commission_account_budget token scope p members clock s =
     bindR (require_write_lease token clock s) (\<lambda>s1.
     bindR (require_write_lease token clock s1) (\<lambda>s2.
       if op_scopes s2 \<noteq> [] then Inl (ObservationScheduleStoreError ''ACCOUNT_BUDGET_ALREADY_COMMISSIONED'')
       else if op_members s2 \<noteq> [] then Inl (ObservationScheduleStoreError ''ACCOUNT_BUDGET_SCOPE_MISSING'')
       else bindR (insert_account_policy scope 1 p (s2\<lparr>op_scopes := [scope]\<rparr>)) (insert_members scope members)))"

definition revise_account_budget_policy ::
  "string option \<Rightarrow> string \<Rightarrow> int \<Rightarrow> budget_policy \<Rightarrow> instant \<Rightarrow> ops \<Rightarrow> (int \<times> ops) res" where
  "revise_account_budget_policy token scope expected p clock s =
     bindR (require_write_lease token clock s) (\<lambda>s1.
     bindR (require_write_lease token clock s1) (\<lambda>s2.
       case account_budget_policy scope s2 of
         None \<Rightarrow> Inl (ObservationScheduleStoreError ''ACCOUNT_BUDGET_POLICY_MISSING'')
       | Some current \<Rightarrow>
           if bp_revision current \<noteq> expected then Inl (ObservationScheduleStoreError ''ACCOUNT_BUDGET_REVISION_STALE'')
           else bindR (insert_account_policy scope (bp_revision current + 1) p s2) (\<lambda>s3.
                  Inr (bp_revision current + 1, s3))))"

text \<open>A new activation in a commissioned store joins its one account.\<close>

definition bind_new_activation :: "activation \<Rightarrow> ops \<Rightarrow> ops res" where
  "bind_new_activation a s =
     (case op_scopes s of
        [] \<Rightarrow> Inr s
      | [scope] \<Rightarrow> Inr (if a \<in> fst ` set (op_members s) then s else s\<lparr>op_members := op_members s @ [(a, scope)]\<rparr>)
      | _ \<Rightarrow> Inl (ObservationScheduleStoreError ''ACCOUNT_BUDGET_SCOPE_AMBIGUOUS''))"

end
