(* ===== verification/ScheduleAccounting.thy ===== *)
theory ScheduleAccounting
  imports ScheduleStore
begin

section \<open>Provider accounting\<close>

text \<open>
  \<open>_Accounting\<close> of \<open>factory/observation_scheduler.py\<close>: the gate in front of every provider call and the
  debit after it. An accounting object caches the counters of its activation for one UTC day and
  for the lifetime; the shared account is read from the store at every gate.
\<close>

record budgets =
  bg_cash_usd_max :: string
  bg_retry :: jval
  bg_fallback :: jval
  bg_tick_calls :: int
  bg_day_calls :: int
  bg_life_calls :: int
  bg_day_credits :: int
  bg_day_raw_bytes :: int
  bg_life_canonical_bytes :: int
  bg_pace_seconds :: int

record denial =
  dn_scope :: string
  dn_dimension :: string
  dn_used :: "int option"
  dn_requested :: "int option"
  dn_limit :: "int option"
  dn_account :: "string option"
  dn_revision :: "int option"
  dn_reason :: "string option"
  dn_day :: int
  dn_next_action :: string

record accounting =
  ac_activation :: activation
  ac_now :: instant
  ac_utc_day :: int
  ac_day :: counters
  ac_life_calls :: int
  ac_life_canonical :: int
  ac_tick_calls :: int
  ac_budgets :: budgets
  ac_last_denial :: "denial option"
  ac_account :: budget_binding

text \<open>A day's counters with the last call of any day where the day has none.\<close>

definition day_with_last_call :: "activation \<Rightarrow> int \<Rightarrow> ops \<Rightarrow> counters" where
  "day_with_last_call a day s =
     (let v = load_accounting a day s
      in case k_last_call v of None \<Rightarrow> v\<lparr>k_last_call := latest_provider_call_at a s\<rparr> | Some t \<Rightarrow> v)"

definition new_accounting :: "activation \<Rightarrow> budgets \<Rightarrow> instant \<Rightarrow> ops \<Rightarrow> accounting" where
  "new_accounting a b now s =
     \<lparr>ac_activation = a, ac_now = now, ac_utc_day = utc_day now, ac_day = day_with_last_call a (utc_day now) s,
      ac_life_calls = fst (load_lifetime a s), ac_life_canonical = snd (load_lifetime a s), ac_tick_calls = 0,
      ac_budgets = b, ac_last_denial = None, ac_account = account_budget_binding a s\<rparr>"

definition refresh_day :: "instant \<Rightarrow> ops \<Rightarrow> accounting \<Rightarrow> accounting" where
  "refresh_day t s ac =
     (if utc_day t = ac_utc_day ac then ac
      else ac\<lparr>ac_utc_day := utc_day t, ac_day := day_with_last_call (ac_activation ac) (utc_day t) s\<rparr>)"

text \<open>\<open>"LIFETIME" in dimension\<close>.\<close>

definition contains_text :: "string \<Rightarrow> string \<Rightarrow> bool" where
  "contains_text t s = (\<exists>i\<in>{0..<Suc (length s)}. take (length t) (drop i s) = t)"

definition next_action_of :: "string \<Rightarrow> string" where
  "next_action_of dimension =
     (if dimension = ''ACCOUNT_BINDING'' then ''RECONCILE_ACCOUNT_BUDGET_BINDING''
      else if contains_text ''LIFETIME'' dimension then ''OWNER_DECISION_REQUIRED''
      else if take 4 dimension = ''TICK'' then ''WAIT_NEXT_TICK'' else ''WAIT_NEXT_UTC_DAY'')"

definition binding_scope :: "budget_binding \<Rightarrow> string option" where
  "binding_scope b = (case b of Unmanaged \<Rightarrow> None | Managed sc p \<Rightarrow> Some sc | NotMember sc p \<Rightarrow> Some sc
     | CorruptBudget reason sc \<Rightarrow> sc)"

definition deny ::
  "string \<Rightarrow> string \<Rightarrow> int option \<Rightarrow> int option \<Rightarrow> int option \<Rightarrow> int option \<Rightarrow> string option \<Rightarrow> accounting
   \<Rightarrow> string option \<times> accounting" where
  "deny scope dimension used debit limit revision reason ac =
     (Some ''BLOCKED_BUDGET'', ac\<lparr>ac_last_denial := Some \<lparr>dn_scope = scope, dn_dimension = dimension, dn_used = used,
        dn_requested = debit, dn_limit = limit, dn_account = binding_scope (ac_account ac), dn_revision = revision,
        dn_reason = reason, dn_day = ac_utc_day ac, dn_next_action = next_action_of dimension\<rparr>\<rparr>)"

text \<open>The first dimension whose limit the debit would pass: its name, use, debit and limit.\<close>

type_synonym dimension = "string \<times> int \<times> int \<times> int"

definition passed :: "dimension \<Rightarrow> bool" where
  "passed d = (case d of (name, used, debit, limit) \<Rightarrow> limit < used + debit)"

definition first_passed :: "dimension list \<Rightarrow> dimension option" where
  "first_passed ds = List.find passed ds"

definition local_dimensions :: "int \<Rightarrow> int \<Rightarrow> int \<Rightarrow> accounting \<Rightarrow> dimension list" where
  "local_dimensions calls credits raw ac =
     (let b = ac_budgets ac in
      [(''TICK_PROVIDER_CALLS'', ac_tick_calls ac, calls, bg_tick_calls b),
       (''DAY_PROVIDER_CALLS'', k_calls (ac_day ac), calls, bg_day_calls b),
       (''LIFETIME_PROVIDER_CALLS'', ac_life_calls ac, calls, bg_life_calls b),
       (''DAY_MODELED_CREDITS'', k_credits (ac_day ac), credits, bg_day_credits b),
       (''DAY_RAW_BYTES'', k_raw_bytes (ac_day ac), raw, bg_day_raw_bytes b),
       (''LIFETIME_CANONICAL_BYTES'', ac_life_canonical ac, raw, bg_life_canonical_bytes b)])"

definition shared_dimensions :: "int \<Rightarrow> int \<Rightarrow> string \<Rightarrow> budget_policy \<Rightarrow> int \<Rightarrow> ops \<Rightarrow> dimension list" where
  "shared_dimensions calls credits scope p day s =
     (case account_budget_usage scope day s of
        (day_calls, day_credits, life_calls) \<Rightarrow>
          [(''SHARED_DAY_PROVIDER_CALLS'', day_calls, calls, bp_day_calls p),
           (''SHARED_DAY_MODELED_CREDITS'', day_credits, credits, bp_day_credits p),
           (''SHARED_LIFETIME_PROVIDER_CALLS'', life_calls, calls, bp_life_calls p)])"

definition shared_gate :: "int \<Rightarrow> int \<Rightarrow> ops \<Rightarrow> accounting \<Rightarrow> string option \<times> accounting" where
  "shared_gate calls credits s ac0 =
     (let ac = ac0\<lparr>ac_account := account_budget_binding (ac_activation ac0) s\<rparr> in
      case ac_account ac of
        Unmanaged \<Rightarrow> (None, ac)
      | Managed scope p \<Rightarrow>
          (case first_passed (shared_dimensions calls credits scope p (ac_utc_day ac) s) of
             None \<Rightarrow> (None, ac)
           | Some (name, used, debit, limit) \<Rightarrow>
               deny ''SHARED_ACCOUNT'' name (Some used) (Some debit) (Some limit) (Some (bp_revision p)) None ac)
      | NotMember scope p \<Rightarrow>
          deny ''SHARED_ACCOUNT'' ''ACCOUNT_BINDING'' None (Some calls) None None (Some ''ACCOUNT_BUDGET_MEMBERSHIP_REQUIRED'') ac
      | CorruptBudget reason scope \<Rightarrow>
          deny ''SHARED_ACCOUNT'' ''ACCOUNT_BINDING'' None (Some calls) None None (Some reason) ac)"

text \<open>A call less than the pace after the last one, a last call in the future not counting.\<close>

definition pace_wait :: "instant \<Rightarrow> accounting \<Rightarrow> bool" where
  "pace_wait t ac =
     (case k_last_call (ac_day ac) of
        None \<Rightarrow> False
      | Some prev \<Rightarrow> 0 \<le> t - prev \<and> t - prev < bg_pace_seconds (ac_budgets ac) * 1000000)"

definition gate :: "int \<Rightarrow> int \<Rightarrow> int \<Rightarrow> instant \<Rightarrow> ops \<Rightarrow> accounting \<Rightarrow> string option \<times> accounting" where
  "gate calls credits raw t s ac0 =
     (let ac = (refresh_day t s ac0)\<lparr>ac_now := t, ac_last_denial := None\<rparr>; b = ac_budgets ac in
      if bg_cash_usd_max b \<noteq> ''0'' then (Some ''CHANGE_LANE_SAFETY_CONTRACT_GAP'', ac)
      else if bg_retry b \<noteq> JBool False \<or> bg_fallback b \<noteq> JBool False then (Some ''CHANGE_LANE_SAFETY_CONTRACT_GAP'', ac)
      else case first_passed (local_dimensions calls credits raw ac) of
        Some (name, used, debit, limit) \<Rightarrow>
          deny ''ACTIVATION'' name (Some used) (Some debit) (Some limit) None None ac
      | None \<Rightarrow>
          (case shared_gate calls credits s ac of
             (Some code, ac') \<Rightarrow> (Some code, ac')
           | (None, ac') \<Rightarrow> (if pace_wait t ac' then Some ''PACE_WAIT'' else None, ac')))"

text \<open>\<open>note\<close>: the cached counters after a call, written through to the store.\<close>

definition noted :: "int \<Rightarrow> int \<Rightarrow> instant \<Rightarrow> bool \<Rightarrow> accounting \<Rightarrow> accounting" where
  "noted raw credits t consume ac =
     ac\<lparr>ac_now := t, ac_tick_calls := ac_tick_calls ac + (if consume then 1 else 0),
        ac_day := (ac_day ac)\<lparr>k_calls := k_calls (ac_day ac) + (if consume then 1 else 0),
          k_credits := k_credits (ac_day ac) + (if consume then credits else 0),
          k_raw_bytes := k_raw_bytes (ac_day ac) + raw, k_last_call := Some t\<rparr>,
        ac_life_calls := ac_life_calls ac + (if consume then 1 else 0),
        ac_life_canonical := ac_life_canonical ac + raw\<rparr>"

definition note_call ::
  "string option \<Rightarrow> int \<Rightarrow> int \<Rightarrow> instant \<Rightarrow> bool \<Rightarrow> ops \<Rightarrow> accounting \<Rightarrow> (accounting \<times> ops) res" where
  "note_call token raw credits t consume s ac0 =
     (let ac = noted raw credits t consume (refresh_day t s ac0) in
      bindR (save_call_debit token (ac_activation ac) (ac_utc_day ac) (ac_day ac) (ac_life_calls ac)
               (ac_life_canonical ac) t s) (\<lambda>s'. Inr (ac, s')))"

definition reserve_call ::
  "string option \<Rightarrow> int \<Rightarrow> instant \<Rightarrow> ops \<Rightarrow> accounting \<Rightarrow> (string option \<times> accounting \<times> ops) res" where
  "reserve_call token credits t s ac =
     (case gate 1 credits 1 t s ac of
        (Some code, ac') \<Rightarrow> Inr (Some code, ac', s)
      | (None, ac') \<Rightarrow> bindR (note_call token 0 credits t True s ac') (\<lambda>(ac'', s'). Inr (None, ac'', s')))"

end
