(* ===== verification/ScheduleLease.thy ===== *)
theory ScheduleLease
  imports ScheduleStore
begin

section \<open>The lease fences writers\<close>

text \<open>
  Processes that share the store, each holding at most one token: any interleaving of acquiring,
  writing and releasing (\<open>lease_step\<close>). Tokens carry a fresh \<open>uuid4\<close>, so no token is issued twice;
  what a write does beside the fence is left open, as long as it leaves the lease row alone.
\<close>

record lease_world =
  lw_ops :: ops
  lw_held :: "nat \<Rightarrow> string option"
  lw_issued :: "string set"

inductive lease_step :: "lease_world \<Rightarrow> lease_world \<Rightarrow> bool" where
  acquired: "acquire_lease owner hex now (lw_ops w) = Inr (Some token, s') \<Longrightarrow> token \<notin> lw_issued w \<Longrightarrow>
     lease_step w (w\<lparr>lw_ops := s', lw_held := (lw_held w)(p := Some token), lw_issued := insert token (lw_issued w)\<rparr>)"
| written: "require_write_lease (lw_held w p) now (lw_ops w) = Inr s1 \<Longrightarrow> op_lease s' = op_lease s1 \<Longrightarrow>
     lease_step w (w\<lparr>lw_ops := s'\<rparr>)"
| released: "release_lease given (lw_held w p) (lw_ops w) = Inr (held, s') \<Longrightarrow>
     lease_step w (w\<lparr>lw_ops := s', lw_held := (lw_held w)(p := held)\<rparr>)"

inductive_cases lease_stepE: "lease_step w w'"

subsection \<open>The interface the proofs use\<close>

text \<open>What the store's operations do to the token in the lease row.\<close>

definition lease_token :: "ops \<Rightarrow> string option" where
  "lease_token s = map_option ls_token (op_lease s)"

locale fence =
  fixes acquire :: "string \<Rightarrow> string \<Rightarrow> instant \<Rightarrow> 's \<Rightarrow> (string option \<times> 's) res"
    and require :: "string option \<Rightarrow> instant \<Rightarrow> 's \<Rightarrow> 's res"
    and release :: "string \<Rightarrow> string option \<Rightarrow> 's \<Rightarrow> (string option \<times> 's) res"
    and row :: "'s \<Rightarrow> string option"
  assumes acquire_row: "acquire owner hex now s = Inr (Some token, s') \<Longrightarrow> row s' = Some token"
    and acquire_busy: "acquire owner hex now s = Inr (None, s') \<Longrightarrow> s' = s"
    and require_row: "require held now s = Inr s' \<Longrightarrow> row s' = row s \<and> (\<forall>token. held = Some token \<longrightarrow> row s = Some token)"
    and release_row: "release given held s = Inr (held', s') \<Longrightarrow>
      (held' = held \<or> held' = None) \<and> (row s' = row s \<or> row s' = None)"
begin

lemma one_writer:
  "require (Some a) now s = Inr s1 \<Longrightarrow> require (Some b) now' s = Inr s2 \<Longrightarrow> a = b"
  using require_row by (metis option.inject)

lemma fenced: "row s \<noteq> Some token \<Longrightarrow> require (Some token) now s \<noteq> Inr s'"
  using require_row by metis

end

interpretation lease: fence acquire_lease require_write_lease release_lease lease_token
proof
  fix owner hex now s token s'
  assume "acquire_lease owner hex now s = Inr (Some token, s')"
  then show "lease_token s' = Some token"
    by (auto simp: acquire_lease_def lease_token_def Let_def bindR_eq_Inr split: option.splits if_splits)
next
  fix owner hex now s s'
  assume "acquire_lease owner hex now s = Inr (None, s')"
  then show "s' = s"
    by (auto simp: acquire_lease_def Let_def bindR_eq_Inr split: option.splits if_splits)
next
  fix held now s s'
  assume "require_write_lease held now s = Inr s'"
  then show "lease_token s' = lease_token s \<and> (\<forall>token. held = Some token \<longrightarrow> lease_token s = Some token)"
    by (auto simp: require_write_lease_def lease_token_def bindR_eq_Inr split: option.splits if_splits)
next
  fix given held s held' s'
  assume "release_lease given held s = Inr (held', s')"
  then show "(held' = held \<or> held' = None) \<and> (lease_token s' = lease_token s \<or> lease_token s' = None)"
    by (auto simp: release_lease_def lease_token_def bindR_eq_Inr split: option.splits if_splits)
qed

definition lease_inv :: "lease_world \<Rightarrow> bool" where
  "lease_inv w = ((\<forall>p token. lw_held w p = Some token \<longrightarrow> token \<in> lw_issued w)
     \<and> (\<forall>p q token. lw_held w p = Some token \<longrightarrow> lw_held w q = Some token \<longrightarrow> p = q)
     \<and> (\<forall>token. lease_token (lw_ops w) = Some token \<longrightarrow> token \<in> lw_issued w))"

lemma lease_inv_step:
  assumes "lease_step w w'" and "lease_inv w"
  shows "lease_inv w'"
  using assms
proof cases
  case (acquired owner hex now token s' p)
  then show ?thesis using assms(2) lease.acquire_row [of owner hex now "lw_ops w" token s']
    by (auto simp: lease_inv_def)
next
  case (written p now s1 s')
  then have "lease_token s' = lease_token (lw_ops w)"
    using lease.require_row [of "lw_held w p" now "lw_ops w" s1] by (simp add: lease_token_def)
  then show ?thesis using assms(2) written(1) by (simp add: lease_inv_def)
next
  case (released given p held s')
  then show ?thesis using assms(2) lease.release_row [of given "lw_held w p" "lw_ops w" held s']
    by (auto simp: lease_inv_def)
qed

lemma lease_inv_steps: "lease_step\<^sup>*\<^sup>* w w' \<Longrightarrow> lease_inv w \<Longrightarrow> lease_inv w'"
  by (induction rule: rtranclp_induct) (auto intro: lease_inv_step)

definition lease_start :: "ops \<Rightarrow> lease_world" where
  "lease_start s = \<lparr>lw_ops = s, lw_held = (\<lambda>p. None), lw_issued = (case lease_token s of None \<Rightarrow> {} | Some t \<Rightarrow> {t})\<rparr>"

lemma lease_inv_start: "lease_inv (lease_start s)"
  by (auto simp: lease_inv_def lease_start_def split: option.splits)

text \<open>C28: one writer at a time: in every world the processes can reach, whatever the order of acquiring,
  writing and releasing, two processes that hold tokens cannot both pass the write fence, and a process
  without a token cannot pass it while a lease is active.\<close>

theorem one_writer_at_a_time:
  assumes "lease_step\<^sup>*\<^sup>* (lease_start s0) w"
  shows "(\<forall>p q now now' s1 s2. lw_held w p \<noteq> None \<and> lw_held w q \<noteq> None
      \<and> require_write_lease (lw_held w p) now (lw_ops w) = Inr s1
      \<and> require_write_lease (lw_held w q) now' (lw_ops w) = Inr s2 \<longrightarrow> p = q)
    \<and> (\<forall>p now l. lw_held w p = None \<and> op_lease (lw_ops w) = Some l \<and> stamp_before now (ls_expires_at l)
      \<longrightarrow> (\<exists>e. require_write_lease (lw_held w p) now (lw_ops w) = Inl e))"
proof -
  have inv: "lease_inv w" using lease_inv_steps [OF assms lease_inv_start] .
  have "p = q" if h: "lw_held w p \<noteq> None" "lw_held w q \<noteq> None"
    "require_write_lease (lw_held w p) now (lw_ops w) = Inr s1" "require_write_lease (lw_held w q) now' (lw_ops w) = Inr s2"
    for p q now now' s1 s2
  proof -
    obtain a b where ab: "lw_held w p = Some a" "lw_held w q = Some b" using h(1,2) by blast
    then have "a = b" using lease.one_writer h(3,4) by metis
    then show "p = q" using inv ab by (simp add: lease_inv_def)
  qed
  moreover have "\<exists>e. require_write_lease None now (lw_ops w) = Inl e"
    if "op_lease (lw_ops w) = Some l" "stamp_before now (ls_expires_at l)" for now l
    using that by (cases "op_readonly (lw_ops w)") (auto simp: require_write_lease_def require_writable_def)
  ultimately show ?thesis by auto
qed

lemma lost_stays_lost:
  assumes "lease_step w w'" and "token \<in> lw_issued w" and "lease_token (lw_ops w) \<noteq> Some token"
  shows "token \<in> lw_issued w' \<and> lease_token (lw_ops w') \<noteq> Some token"
  using assms(1)
proof cases
  case (acquired owner hex now t s' p)
  then show ?thesis using assms(2,3) lease.acquire_row [of owner hex now "lw_ops w" t s'] by auto
next
  case (written p now s1 s')
  then show ?thesis using assms(2,3) lease.require_row [of "lw_held w p" now "lw_ops w" s1] by (simp add: lease_token_def)
next
  case (released given p held s')
  then show ?thesis using assms(2,3) lease.release_row [of given "lw_held w p" "lw_ops w" held s'] by auto
qed

lemma lost_steps:
  "lease_step\<^sup>*\<^sup>* w w' \<Longrightarrow> token \<in> lw_issued w \<Longrightarrow> lease_token (lw_ops w) \<noteq> Some token
    \<Longrightarrow> token \<in> lw_issued w' \<and> lease_token (lw_ops w') \<noteq> Some token"
  by (induction rule: rtranclp_induct) (auto dest: lost_stays_lost)

text \<open>A lost lease stays lost: once the lease row no longer carries the token a process holds, every later
  write under that token is refused, whatever the processes do meanwhile.\<close>

theorem lost_lease_is_fenced:
  assumes "lease_step\<^sup>*\<^sup>* (lease_start s0) w" and "lw_held w p = Some token"
    and "lease_token (lw_ops w) \<noteq> Some token" and "lease_step\<^sup>*\<^sup>* w w'"
  shows "require_write_lease (Some token) now (lw_ops w') \<noteq> Inr s'"
proof -
  have "token \<in> lw_issued w"
    using lease_inv_steps [OF assms(1) lease_inv_start] assms(2) by (auto simp: lease_inv_def)
  with assms(3,4) have "lease_token (lw_ops w') \<noteq> Some token" using lost_steps by blast
  then show ?thesis using lease.fenced by blast
qed

definition demo_ops :: ops where
  "demo_ops = \<lparr>op_readonly = False, op_lease = None, op_counters = [], op_lifetime = [], op_budget_tables = 3,
     op_scopes = [], op_policies = [], op_members = []\<rparr>"

definition demo_lease :: "string \<Rightarrow> instant \<Rightarrow> ops \<Rightarrow> ops" where
  "demo_lease owner now s = s\<lparr>op_lease := Some \<lparr>ls_owner = owner, ls_token = owner @ ''-1'',
     ls_expires_at = now + 120000000, ls_created_at = now\<rparr>\<rparr>"

lemma demo_acquire: "op_lease s = None \<Longrightarrow> \<not> op_readonly s \<Longrightarrow>
   acquire_lease owner ''1'' now s = Inr (Some (owner @ ''-1''), demo_lease owner now s)"
  by (simp add: acquire_lease_def require_writable_def demo_lease_def LEASE_SECONDS_def Let_def)

lemma demo_takeover: "\<not> stamp_before now (then' + 120000000) \<Longrightarrow> \<not> op_readonly s \<Longrightarrow>
   acquire_lease owner ''1'' now (demo_lease other then' s) = Inr (Some (owner @ ''-1''), demo_lease owner now s)"
  by (simp add: acquire_lease_def require_writable_def demo_lease_def LEASE_SECONDS_def Let_def)

definition demo_world :: "nat \<Rightarrow> lease_world" where
  "demo_world n = (if n = 1
     then \<lparr>lw_ops = demo_lease ''A'' 0 demo_ops, lw_held = (\<lambda>p. None)(0 := Some ''A-1''), lw_issued = {''A-1''}\<rparr>
     else \<lparr>lw_ops = demo_lease ''B'' 200000000 demo_ops,
           lw_held = (\<lambda>p. None)(0 := Some ''A-1'', 1 := Some ''B-1''), lw_issued = {''B-1'', ''A-1''}\<rparr>)"

lemma demo_steps:
  "lease_step (lease_start demo_ops) (demo_world 1)" "lease_step (demo_world 1) (demo_world 2)"
proof -
  have "lease_step (lease_start demo_ops) ((lease_start demo_ops)\<lparr>lw_ops := demo_lease ''A'' 0 demo_ops,
      lw_held := (lw_held (lease_start demo_ops))(0 := Some (''A'' @ ''-1'')),
      lw_issued := insert (''A'' @ ''-1'') (lw_issued (lease_start demo_ops))\<rparr>)"
    by (rule acquired [where hex = "''1''" and owner = "''A''" and now = 0])
      (simp_all add: lease_start_def demo_acquire demo_ops_def lease_token_def)
  then show "lease_step (lease_start demo_ops) (demo_world 1)"
    by (simp add: demo_world_def lease_start_def lease_token_def demo_ops_def)
  have "lease_step (demo_world 1) ((demo_world 1)\<lparr>lw_ops := demo_lease ''B'' 200000000 demo_ops,
      lw_held := (lw_held (demo_world 1))(1 := Some (''B'' @ ''-1'')),
      lw_issued := insert (''B'' @ ''-1'') (lw_issued (demo_world 1))\<rparr>)"
    by (rule acquired [where hex = "''1''" and owner = "''B''" and now = 200000000])
      (simp_all add: demo_world_def demo_takeover stamp_before_def stamp_key_def less_prod_def demo_ops_def)
  then show "lease_step (demo_world 1) (demo_world 2)"
    by (simp add: demo_world_def)
qed

lemma one_writer_at_a_time_witness:
  "\<forall>s'. require_write_lease None 1 (lw_ops (demo_world 1)) \<noteq> Inr s'"
proof -
  have r: "lease_step\<^sup>*\<^sup>* (lease_start demo_ops) (demo_world 1)" using demo_steps(1) by blast
  have "lw_held (demo_world 1) 7 = None" "op_lease (lw_ops (demo_world 1)) = Some \<lparr>ls_owner = ''A'', ls_token = ''A-1'',
      ls_expires_at = 120000000, ls_created_at = 0\<rparr>" "stamp_before 1 120000000"
    by (simp_all add: demo_world_def demo_lease_def stamp_before_def stamp_key_def less_prod_def)
  then show ?thesis using one_writer_at_a_time [OF r] by (metis (no_types, lifting) Inl_Inr_False lease.select_convs(3))
qed

lemma lost_lease_is_fenced_witness:
  "\<forall>s'. require_write_lease (Some ''A-1'') 200000001 (lw_ops (demo_world 2)) \<noteq> Inr s'"
proof -
  have r: "lease_step\<^sup>*\<^sup>* (lease_start demo_ops) (demo_world 2)" using demo_steps by (meson rtranclp.simps)
  show ?thesis
    by (intro allI lost_lease_is_fenced [OF r, of 0]) (simp_all add: demo_world_def demo_lease_def lease_token_def)
qed

subsection \<open>How long a lease lasts\<close>

text \<open>The order of the stored texts is the order of the instants, up to instants of the same second.\<close>

lemma stamp_before_seconds: "a div 1000000 < b div 1000000 \<Longrightarrow> stamp_before a b"
  by (simp add: stamp_before_def stamp_key_def less_prod_def)

lemma stamp_before_other_second: "a div 1000000 \<noteq> b div 1000000 \<Longrightarrow> stamp_before a b \<longleftrightarrow> a < b"
proof
  assume n: "a div 1000000 \<noteq> b div 1000000" and "stamp_before a b"
  then have "a div 1000000 < b div 1000000" by (auto simp: stamp_before_def stamp_key_def less_prod_def)
  then show "a < b" using zdiv_mono1 [of b a 1000000] by linarith
next
  assume n: "a div 1000000 \<noteq> b div 1000000" and "a < b"
  then have "a div 1000000 < b div 1000000" using zdiv_mono1 [of a b 1000000] by linarith
  then show "stamp_before a b" by (rule stamp_before_seconds)
qed

lemma stamp_same_second_wrong: "stamp_before 500000 0" "\<not> stamp_before 0 500000"
  by (simp_all add: stamp_before_def stamp_key_def less_prod_def)

text \<open>A lease lasts its term: after an acquisition at \<open>t\<close>, and with nothing else happening, nobody else can
  acquire the lease and its holder can write until the second of its expiry, and from the second after
  that the holder is refused and anyone can acquire it.\<close>

theorem lease_lasts_its_term:
  assumes "acquire_lease owner hex t s = Inr (Some token, s1)"
  shows "(now div 1000000 < t div 1000000 + 120 \<longrightarrow> acquire_lease other hex' now s1 = Inr (None, s1)
        \<and> (\<exists>s2. require_write_lease (Some token) now s1 = Inr s2 \<and> lease_token s2 = Some token))
    \<and> (t div 1000000 + 120 < now div 1000000 \<longrightarrow>
          require_write_lease (Some token) now s1 = Inl (ObservationScheduleStoreError ''LEASE_FENCED'')
        \<and> (\<exists>s2. acquire_lease other hex' now s1 = Inr (Some (other @ ''-'' @ hex'), s2)))"
proof -
  obtain l where l: "op_lease s1 = Some l" "ls_token l = token" "ls_expires_at l = t + 120000000" "\<not> op_readonly s1"
    using assms by (auto simp: acquire_lease_def require_writable_def LEASE_SECONDS_def Let_def bindR_eq_Inr guardR_eq_Inr
        split: option.splits if_splits)
  have sec: "(t + 120000000) div 1000000 = t div 1000000 + 120" by simp
  show ?thesis
  proof (intro conjI impI)
    assume "now div 1000000 < t div 1000000 + 120"
    then have "stamp_before now (t + 120000000)" by (intro stamp_before_seconds) (simp add: sec)
    then show "acquire_lease other hex' now s1 = Inr (None, s1)"
      and "\<exists>s2. require_write_lease (Some token) now s1 = Inr s2 \<and> lease_token s2 = Some token"
      using l by (simp_all add: acquire_lease_def require_write_lease_def require_writable_def Let_def lease_token_def)
  next
    assume late: "t div 1000000 + 120 < now div 1000000"
    then have "\<not> stamp_before now (t + 120000000)"
      using stamp_before_other_second [of now "t + 120000000"] stamp_before_seconds [of "t + 120000000" now]
      by (auto simp: sec stamp_before_def)
    then show "require_write_lease (Some token) now s1 = Inl (ObservationScheduleStoreError ''LEASE_FENCED'')"
      and "\<exists>s2. acquire_lease other hex' now s1 = Inr (Some (other @ ''-'' @ hex'), s2)"
      using l by (simp_all add: acquire_lease_def require_write_lease_def require_writable_def Let_def)
  qed
qed

lemma lease_lasts_its_term_witness:
  "acquire_lease ''B'' ''2'' 60000000 (demo_lease ''A'' 0 demo_ops) = Inr (None, demo_lease ''A'' 0 demo_ops)
   \<and> require_write_lease (Some ''A-1'') 130000000 (demo_lease ''A'' 0 demo_ops) =
       Inl (ObservationScheduleStoreError ''LEASE_FENCED'')"
proof -
  have a: "acquire_lease ''A'' ''1'' 0 demo_ops = Inr (Some (''A'' @ ''-1''), demo_lease ''A'' 0 demo_ops)"
    by (rule demo_acquire) (simp_all add: demo_ops_def)
  show ?thesis
    using lease_lasts_its_term [OF a, of 60000000 "''B''" "''2''"] lease_lasts_its_term [OF a, of 130000000]
    by simp
qed

end
