(* ===== verification/BudgetClaims.thy ===== *)
theory BudgetClaims
  imports ScheduleAccounting ScheduleLease
begin

section \<open>No budget is overspent\<close>

text \<open>
  Several activations debit one shared account through their own accounting objects, in any order.
  Every object's cache agrees with the store (\<open>coherent\<close>), so the limits the gate checks are the
  limits of the stored counters, and no sequence of reservations takes the account or an
  activation past them.
\<close>

subsection \<open>Reading what was written\<close>

lemma load_write_accounting:
  "load_accounting a' day' (write_accounting a day v s) =
     (if a' = a \<and> day' = day then v else load_accounting a' day' s)"
proof (cases "get_counters (a, day) s")
  case None
  then show ?thesis using counters.get_ins [of "\<lparr>kr_key = (a, day), kr_values = v\<rparr>" s "(a', day')"]
    by (auto simp: load_accounting_def write_accounting_def)
next
  case (Some r)
  then show ?thesis using counters.get_upd [of "\<lambda>r. r\<lparr>kr_values := v\<rparr>" "(a', day')" "(a, day)" s]
    by (auto simp: load_accounting_def write_accounting_def)
qed

lemma load_write_lifetime:
  "load_lifetime a' (write_lifetime a calls bytes s) = (if a' = a then (calls, bytes) else load_lifetime a' s)"
proof (cases "get_life a s")
  case None
  then show ?thesis using life.get_ins [of "\<lparr>lr_key = a, lr_calls = calls, lr_canonical_bytes = bytes\<rparr>" s a']
    by (auto simp: load_lifetime_def write_lifetime_def)
next
  case (Some r)
  then show ?thesis using life.get_upd [of "\<lambda>r. r\<lparr>lr_calls := calls, lr_canonical_bytes := bytes\<rparr>" a' a s]
    by (auto simp: load_lifetime_def write_lifetime_def)
qed

lemma write_frames [simp]:
  "load_lifetime a' (write_accounting a day v s) = load_lifetime a' s"
  "load_accounting a' day' (write_lifetime a calls bytes s) = load_accounting a' day' s"
  "op_members (write_accounting a day v s) = op_members s" "op_members (write_lifetime a calls bytes s) = op_members s"
  "op_scopes (write_accounting a day v s) = op_scopes s" "op_scopes (write_lifetime a calls bytes s) = op_scopes s"
  "op_policies (write_accounting a day v s) = op_policies s" "op_policies (write_lifetime a calls bytes s) = op_policies s"
  "op_budget_tables (write_accounting a day v s) = op_budget_tables s"
  "op_budget_tables (write_lifetime a calls bytes s) = op_budget_tables s"
  by (auto simp: load_lifetime_def load_accounting_def write_accounting_def write_lifetime_def get_life_def
      get_counters_def upd_counters_def ins_counters_def upd_life_def ins_life_def split: option.splits)

lemma lease_frames:
  assumes "require_write_lease token t s = Inr s1"
  shows "load_accounting a day s1 = load_accounting a day s" "load_lifetime a s1 = load_lifetime a s"
    "op_members s1 = op_members s" "op_scopes s1 = op_scopes s" "op_policies s1 = op_policies s"
    "op_budget_tables s1 = op_budget_tables s"
  using assms
  by (auto simp: require_write_lease_def load_accounting_def load_lifetime_def get_counters_def get_life_def bindR_eq_Inr
      split: option.splits if_splits)

lemma save_call_debit_result:
  assumes "save_call_debit token a day v calls bytes t s = Inr s'"
  shows "load_accounting a' day' s' = (if a' = a \<and> day' = day then v else load_accounting a' day' s)"
    "load_lifetime a' s' = (if a' = a then (calls, bytes) else load_lifetime a' s)"
    "op_members s' = op_members s" "op_scopes s' = op_scopes s" "op_policies s' = op_policies s"
    "op_budget_tables s' = op_budget_tables s"
proof -
  obtain s1 where 1: "require_write_lease token t s = Inr s1"
    and s': "s' = write_lifetime a calls bytes (write_accounting a day v s1)"
    using assms by (auto simp: save_call_debit_def bindR_eq_Inr)
  note frames = lease_frames [OF 1]
  show "load_accounting a' day' s' = (if a' = a \<and> day' = day then v else load_accounting a' day' s)"
    "load_lifetime a' s' = (if a' = a then (calls, bytes) else load_lifetime a' s)"
    "op_members s' = op_members s" "op_scopes s' = op_scopes s" "op_policies s' = op_policies s"
    "op_budget_tables s' = op_budget_tables s"
    by (simp_all add: s' load_write_accounting load_write_lifetime frames)
qed

subsection \<open>The cache\<close>

definition coherent :: "ops \<Rightarrow> accounting \<Rightarrow> bool" where
  "coherent s ac =
     (k_calls (ac_day ac) = k_calls (load_accounting (ac_activation ac) (ac_utc_day ac) s)
      \<and> k_credits (ac_day ac) = k_credits (load_accounting (ac_activation ac) (ac_utc_day ac) s)
      \<and> ac_life_calls ac = fst (load_lifetime (ac_activation ac) s))"

lemma day_with_last_call_counts:
  "k_calls (day_with_last_call a day s) = k_calls (load_accounting a day s)"
  "k_credits (day_with_last_call a day s) = k_credits (load_accounting a day s)"
  by (auto simp: day_with_last_call_def Let_def split: option.split)

lemma coherent_new: "coherent s (new_accounting a b t s)"
  by (simp add: coherent_def new_accounting_def day_with_last_call_counts)

lemma coherent_refresh: "coherent s ac \<Longrightarrow> coherent s (refresh_day t s ac)"
  by (simp add: coherent_def refresh_day_def day_with_last_call_counts)

lemma refresh_fields [simp]:
  "ac_activation (refresh_day t s ac) = ac_activation ac" "ac_budgets (refresh_day t s ac) = ac_budgets ac"
  "ac_life_calls (refresh_day t s ac) = ac_life_calls ac" "ac_utc_day (refresh_day t s ac) = utc_day t"
  "ac_tick_calls (refresh_day t s ac) = ac_tick_calls ac" "ac_life_canonical (refresh_day t s ac) = ac_life_canonical ac"
  by (auto simp: refresh_day_def)

lemma refresh_twice: "refresh_day t s (refresh_day t s ac) = refresh_day t s ac"
  by (simp add: refresh_day_def)

subsection \<open>When the gate opens\<close>

definition contract_holds :: "budgets \<Rightarrow> bool" where
  "contract_holds b = (bg_cash_usd_max b = ''0'' \<and> bg_retry b = JBool False \<and> bg_fallback b = JBool False)"

definition shared_allows :: "int \<Rightarrow> int \<Rightarrow> activation \<Rightarrow> int \<Rightarrow> ops \<Rightarrow> bool" where
  "shared_allows calls credits a day s =
     (case account_budget_binding a s of
        Unmanaged \<Rightarrow> True
      | Managed scope p \<Rightarrow> list_all (\<lambda>d. \<not> passed d) (shared_dimensions calls credits scope p day s)
      | _ \<Rightarrow> False)"

lemma first_passed_None: "first_passed ds = None \<longleftrightarrow> list_all (\<lambda>d. \<not> passed d) ds"
  by (auto simp: first_passed_def find_None_iff list_all_iff)

lemma shared_gate_opens:
  "fst (shared_gate calls credits s ac) = None \<longleftrightarrow> shared_allows calls credits (ac_activation ac) (ac_utc_day ac) s"
  by (cases "account_budget_binding (ac_activation ac) s")
    (simp_all add: shared_gate_def shared_allows_def deny_def Let_def first_passed_None [symmetric] split: option.split prod.split)

lemma shared_gate_result:
  "fst (shared_gate calls credits s ac) = None \<Longrightarrow>
     snd (shared_gate calls credits s ac) = ac\<lparr>ac_account := account_budget_binding (ac_activation ac) s\<rparr>"
  by (cases "account_budget_binding (ac_activation ac) s")
    (simp_all add: shared_gate_def deny_def Let_def split: option.splits prod.splits)

lemma gate_opens_iff:
  "fst (gate calls credits raw t s ac) = None \<longleftrightarrow>
     contract_holds (ac_budgets ac)
     \<and> list_all (\<lambda>d. \<not> passed d) (local_dimensions calls credits raw (refresh_day t s ac))
     \<and> shared_allows calls credits (ac_activation ac) (utc_day t) s
     \<and> \<not> pace_wait t (refresh_day t s ac)"
proof -
  let ?ac = "(refresh_day t s ac)\<lparr>ac_now := t, ac_last_denial := None\<rparr>"
  have l: "local_dimensions calls credits raw ?ac = local_dimensions calls credits raw (refresh_day t s ac)"
    by (simp add: local_dimensions_def Let_def)
  have sh: "fst (shared_gate calls credits s ?ac) = None \<longleftrightarrow> shared_allows calls credits (ac_activation ac) (utc_day t) s"
    by (simp add: shared_gate_opens)
  have pw: "pace_wait t (snd (shared_gate calls credits s ?ac)) = pace_wait t (refresh_day t s ac)"
    if "fst (shared_gate calls credits s ?ac) = None"
    using shared_gate_result [OF that] by (simp add: pace_wait_def split: option.split)
  show ?thesis
    using sh pw unfolding gate_def Let_def l first_passed_None [symmetric]
    by (cases "shared_gate calls credits s ?ac")
      (auto simp: contract_holds_def deny_def split: option.splits)
qed

text \<open>The cache is what the store holds: the counters of the object's day with the activation's last call, which is
  the day's or, on a day without one, the latest of any day, and the counters of its lifetime. It holds of a new
  object, and stays when the day changes and when a call is noted.\<close>

definition last_call_before :: "activation \<Rightarrow> int \<Rightarrow> ops \<Rightarrow> instant option" where
  "last_call_before a day s =
     (case k_last_call (load_accounting a day s) of Some x \<Rightarrow> Some x | None \<Rightarrow> latest_provider_call_at a s)"

definition mirrors :: "ops \<Rightarrow> accounting \<Rightarrow> bool" where
  "mirrors s ac \<longleftrightarrow>
     k_calls (ac_day ac) = k_calls (load_accounting (ac_activation ac) (ac_utc_day ac) s)
     \<and> k_credits (ac_day ac) = k_credits (load_accounting (ac_activation ac) (ac_utc_day ac) s)
     \<and> k_raw_bytes (ac_day ac) = k_raw_bytes (load_accounting (ac_activation ac) (ac_utc_day ac) s)
     \<and> k_last_call (ac_day ac) = last_call_before (ac_activation ac) (ac_utc_day ac) s
     \<and> (ac_life_calls ac, ac_life_canonical ac) = load_lifetime (ac_activation ac) s"

lemma day_with_last_call_mirrors:
  "k_raw_bytes (day_with_last_call a day s) = k_raw_bytes (load_accounting a day s)"
  "k_last_call (day_with_last_call a day s) = last_call_before a day s"
  by (auto simp: day_with_last_call_def last_call_before_def Let_def split: option.split)

lemma mirrors_new: "mirrors s (new_accounting a b t s)"
  by (simp add: mirrors_def new_accounting_def day_with_last_call_counts day_with_last_call_mirrors)

lemma mirrors_refresh: "mirrors s ac \<Longrightarrow> mirrors s (refresh_day t s ac)"
  by (simp add: mirrors_def refresh_day_def day_with_last_call_counts day_with_last_call_mirrors)

lemma mirrors_note:
  assumes "note_call token raw credits t consume s ac = Inr (ac', s')"
  shows "mirrors s' ac'"
proof -
  have ac': "ac' = noted raw credits t consume (refresh_day t s ac)"
    and save: "save_call_debit token (ac_activation ac') (ac_utc_day ac') (ac_day ac') (ac_life_calls ac')
      (ac_life_canonical ac') t s = Inr s'"
    using assms by (auto simp: note_call_def Let_def bindR_eq_Inr)
  have "k_last_call (ac_day ac') = Some t" by (simp add: ac' noted_def)
  then show ?thesis by (simp add: mirrors_def last_call_before_def save_call_debit_result [OF save])
qed

text \<open>The limits in numbers, over the counters in the store.\<close>

definition own_limits_hold :: "int \<Rightarrow> int \<Rightarrow> int \<Rightarrow> int \<Rightarrow> budgets \<Rightarrow> counters \<Rightarrow> int \<times> int \<Rightarrow> bool" where
  "own_limits_hold calls credits raw tick_calls b day life \<longleftrightarrow>
     tick_calls + calls \<le> bg_tick_calls b
     \<and> k_calls day + calls \<le> bg_day_calls b \<and> k_credits day + credits \<le> bg_day_credits b
     \<and> k_raw_bytes day + raw \<le> bg_day_raw_bytes b
     \<and> fst life + calls \<le> bg_life_calls b \<and> snd life + raw \<le> bg_life_canonical_bytes b"

definition account_limits_hold :: "int \<Rightarrow> int \<Rightarrow> activation \<Rightarrow> int \<Rightarrow> ops \<Rightarrow> bool" where
  "account_limits_hold calls credits a day s \<longleftrightarrow>
     account_budget_binding a s = Unmanaged
     \<or> (\<exists>scope p. account_budget_binding a s = Managed scope p
          \<and> sum_list (map (\<lambda>m. k_calls (load_accounting m day s)) (members_of scope s)) + calls \<le> bp_day_calls p
          \<and> sum_list (map (\<lambda>m. k_credits (load_accounting m day s)) (members_of scope s)) + credits \<le> bp_day_credits p
          \<and> sum_list (map (\<lambda>m. fst (load_lifetime m s)) (members_of scope s)) + calls \<le> bp_life_calls p)"

definition too_soon :: "instant \<Rightarrow> int \<Rightarrow> instant option \<Rightarrow> bool" where
  "too_soon t pace before \<longleftrightarrow> (\<exists>p. before = Some p \<and> p \<le> t \<and> t < p + pace * 1000000)"

lemma shared_allows_limits: "shared_allows calls credits a day s = account_limits_hold calls credits a day s"
  by (cases "account_budget_binding a s")
    (simp_all add: shared_allows_def account_limits_hold_def shared_dimensions_def account_budget_usage_def passed_def not_less)

lemma gate_answer:
  "fst (gate calls credits raw t s ac) =
     (if \<not> contract_holds (ac_budgets ac) then Some ''CHANGE_LANE_SAFETY_CONTRACT_GAP''
      else if \<not> list_all (\<lambda>d. \<not> passed d) (local_dimensions calls credits raw (refresh_day t s ac))
        \<or> \<not> shared_allows calls credits (ac_activation ac) (utc_day t) s then Some ''BLOCKED_BUDGET''
      else if pace_wait t (refresh_day t s ac) then Some ''PACE_WAIT'' else None)"
proof -
  let ?ac = "(refresh_day t s ac)\<lparr>ac_now := t, ac_last_denial := None\<rparr>"
  have l: "local_dimensions calls credits raw ?ac = local_dimensions calls credits raw (refresh_day t s ac)"
    by (simp add: local_dimensions_def Let_def)
  have sh: "fst (shared_gate calls credits s ?ac)
      = (if shared_allows calls credits (ac_activation ac) (utc_day t) s then None else Some ''BLOCKED_BUDGET'')"
    using shared_gate_opens [of calls credits s ?ac]
    by (auto simp: shared_gate_def deny_def Let_def split: budget_binding.splits option.splits prod.splits)
  have pw: "pace_wait t (snd (shared_gate calls credits s ?ac)) = pace_wait t (refresh_day t s ac)"
    if "fst (shared_gate calls credits s ?ac) = None"
    using shared_gate_result [OF that] by (simp add: pace_wait_def split: option.split)
  show ?thesis
    using sh pw unfolding gate_def Let_def l first_passed_None [symmetric]
    by (cases "shared_gate calls credits s ?ac")
      (auto simp: contract_holds_def deny_def split: option.splits if_splits)
qed

text \<open>C29: the gate opens exactly when a call is within everything. For an accounting object whose cache is what the
  store holds, \<open>gate\<close> answers with a contract gap unless the budget forbids cash, retry and fallback; else with
  a blocked budget unless the calls, credits and bytes asked for, added to the calls of the tick and to the
  counters of the activation's day and lifetime in the store, are within the six limits of its budget, and its
  activation is outside any shared account or a member of one whose three limits are kept by the sums over all
  its members; else with the pace while less than the pace of the budget has passed since the last call; and
  otherwise it opens.\<close>

theorem gate_opens_exactly:
  assumes "mirrors s ac"
  shows "fst (gate calls credits raw t s ac) =
     (let a = ac_activation ac; b = ac_budgets ac; day = utc_day t in
      if bg_cash_usd_max b \<noteq> ''0'' \<or> bg_retry b \<noteq> JBool False \<or> bg_fallback b \<noteq> JBool False
      then Some ''CHANGE_LANE_SAFETY_CONTRACT_GAP''
      else if \<not> own_limits_hold calls credits raw (ac_tick_calls ac) b (load_accounting a day s) (load_lifetime a s)
        \<or> \<not> account_limits_hold calls credits a day s then Some ''BLOCKED_BUDGET''
      else if too_soon t (bg_pace_seconds b) (last_call_before a day s) then Some ''PACE_WAIT'' else None)"
proof -
  have r: "mirrors s (refresh_day t s ac)" using assms by (rule mirrors_refresh)
  then have life: "load_lifetime (ac_activation ac) s = (ac_life_calls ac, ac_life_canonical ac)" by (simp add: mirrors_def)
  have own: "list_all (\<lambda>d. \<not> passed d) (local_dimensions calls credits raw (refresh_day t s ac))
      = own_limits_hold calls credits raw (ac_tick_calls ac) (ac_budgets ac)
          (load_accounting (ac_activation ac) (utc_day t) s) (load_lifetime (ac_activation ac) s)"
    using r by (auto simp: local_dimensions_def Let_def passed_def own_limits_hold_def mirrors_def life)
  have pace: "pace_wait t (refresh_day t s ac)
      = too_soon t (bg_pace_seconds (ac_budgets ac)) (last_call_before (ac_activation ac) (utc_day t) s)"
    using r by (auto simp: pace_wait_def too_soon_def mirrors_def split: option.splits)
  show ?thesis
    unfolding gate_answer own pace shared_allows_limits Let_def by (simp add: contract_holds_def)
qed

definition demo_budgets :: budgets where
  "demo_budgets = \<lparr>bg_cash_usd_max = ''0'', bg_retry = JBool False, bg_fallback = JBool False, bg_tick_calls = 5,
     bg_day_calls = 5, bg_life_calls = 5, bg_day_credits = 5, bg_day_raw_bytes = 5, bg_life_canonical_bytes = 5,
     bg_pace_seconds = 3\<rparr>"

lemmas budget_eval = new_accounting_def refresh_day_def local_dimensions_def Let_def passed_def day_with_last_call_def
  load_accounting_def get_counters_def load_lifetime_def get_life_def demo_ops_def zero_counters_def
  latest_provider_call_at_def account_budget_binding_def pace_wait_def demo_budgets_def

lemma gate_opens_exactly_witness:
  "fst (gate 1 1 1 0 demo_ops (new_accounting (''d'', ''a'') demo_budgets 0 demo_ops)) = None
   \<and> fst (gate 6 1 1 0 demo_ops (new_accounting (''d'', ''a'') demo_budgets 0 demo_ops)) = Some ''BLOCKED_BUDGET''
   \<and> fst (gate 1 1 6 0 demo_ops (new_accounting (''d'', ''a'') demo_budgets 0 demo_ops)) = Some ''BLOCKED_BUDGET''"
  unfolding gate_opens_exactly [OF mirrors_new]
  by (simp add: own_limits_hold_def account_limits_hold_def too_soon_def last_call_before_def budget_eval)

lemma gate_opens_demo:
  "fst (gate 1 1 1 0 demo_ops (new_accounting (''d'', ''a'') demo_budgets 0 demo_ops)) = None"
  unfolding gate_opens_iff by (simp add: contract_holds_def shared_allows_def budget_eval)

lemma gate_result:
  assumes "gate calls credits raw t s ac = (None, ac')"
  shows "ac' = (refresh_day t s ac)\<lparr>ac_now := t, ac_last_denial := None,
      ac_account := account_budget_binding (ac_activation ac) s\<rparr>"
proof -
  let ?ac = "(refresh_day t s ac)\<lparr>ac_now := t, ac_last_denial := None\<rparr>"
  have "fst (shared_gate calls credits s ?ac) = None \<and> ac' = snd (shared_gate calls credits s ?ac)"
    using assms unfolding gate_def Let_def
    by (cases "shared_gate calls credits s ?ac") (auto simp: deny_def split: if_splits option.splits prod.splits)
  then show ?thesis using shared_gate_result [of calls credits s ?ac] by simp
qed

subsection \<open>Reserving\<close>

text \<open>What a reservation that went through did to the stored counters.\<close>

lemma reserve_result:
  assumes "reserve_call token credits t s ac = Inr (None, ac', s')" and "coherent s ac"
  shows "list_all (\<lambda>d. \<not> passed d) (local_dimensions 1 credits 1 (refresh_day t s ac))"
    and "shared_allows 1 credits (ac_activation ac) (utc_day t) s"
    and "coherent s' ac'" and "ac_activation ac' = ac_activation ac" and "ac_budgets ac' = ac_budgets ac"
    and "k_last_call (ac_day ac') = Some t" and "ac_utc_day ac' = utc_day t"
    and "k_calls (load_accounting a d s') = k_calls (load_accounting a d s)
           + (if a = ac_activation ac \<and> d = utc_day t then 1 else 0)"
    and "k_credits (load_accounting a d s') = k_credits (load_accounting a d s)
           + (if a = ac_activation ac \<and> d = utc_day t then credits else 0)"
    and "fst (load_lifetime a s') = fst (load_lifetime a s) + (if a = ac_activation ac then 1 else 0)"
    and "op_members s' = op_members s" and "op_scopes s' = op_scopes s" and "op_policies s' = op_policies s"
    and "op_budget_tables s' = op_budget_tables s"
proof -
  obtain ac1 where g: "gate 1 credits 1 t s ac = (None, ac1)" and n: "note_call token 0 credits t True s ac1 = Inr (ac', s')"
    using assms(1) by (auto simp: reserve_call_def bindR_eq_Inr split: prod.splits option.splits)
  have "fst (gate 1 credits 1 t s ac) = None" using g by simp
  then show "list_all (\<lambda>d. \<not> passed d) (local_dimensions 1 credits 1 (refresh_day t s ac))"
    and "shared_allows 1 credits (ac_activation ac) (utc_day t) s"
    unfolding gate_opens_iff by blast+
  have ac1: "ac1 = (refresh_day t s ac)\<lparr>ac_now := t, ac_last_denial := None,
      ac_account := account_budget_binding (ac_activation ac) s\<rparr>" by (rule gate_result [OF g])
  have co: "coherent s (refresh_day t s ac)" using assms(2) by (rule coherent_refresh)
  have same: "refresh_day t s ac1 = ac1" by (simp add: ac1 refresh_day_def)
  have ac': "ac' = noted 0 credits t True ac1"
    and save: "save_call_debit token (ac_activation ac) (utc_day t) (ac_day ac') (ac_life_calls ac') (ac_life_canonical ac') t s = Inr s'"
    using n ac1 unfolding note_call_def same Let_def by (auto simp: bindR_eq_Inr noted_def)
  note saved = save_call_debit_result [OF save]
  have counts: "k_calls (ac_day ac') = k_calls (load_accounting (ac_activation ac) (utc_day t) s) + 1"
    "k_credits (ac_day ac') = k_credits (load_accounting (ac_activation ac) (utc_day t) s) + credits"
    "ac_life_calls ac' = fst (load_lifetime (ac_activation ac) s) + 1"
    using co by (simp_all add: ac' noted_def ac1 coherent_def)
  show "ac_activation ac' = ac_activation ac" and "ac_budgets ac' = ac_budgets ac"
    and "k_last_call (ac_day ac') = Some t" and "ac_utc_day ac' = utc_day t"
    by (simp_all add: ac' noted_def ac1)
  then show "coherent s' ac'" by (simp add: coherent_def saved)
  show "k_calls (load_accounting a d s') = k_calls (load_accounting a d s)
           + (if a = ac_activation ac \<and> d = utc_day t then 1 else 0)"
    and "k_credits (load_accounting a d s') = k_credits (load_accounting a d s)
           + (if a = ac_activation ac \<and> d = utc_day t then credits else 0)"
    and "fst (load_lifetime a s') = fst (load_lifetime a s) + (if a = ac_activation ac then 1 else 0)"
    by (simp_all add: saved counts)
  show "op_members s' = op_members s" and "op_scopes s' = op_scopes s" and "op_policies s' = op_policies s"
    and "op_budget_tables s' = op_budget_tables s" by (simp_all add: saved)
qed

text \<open>Calls keep their pace: after a reservation at \<open>t\<close> went through, the same accounting object lets no
  call through before the pace of its budget has passed.\<close>

theorem reserved_calls_are_paced:
  assumes "reserve_call token credits t s ac = Inr (None, ac', s')" and "coherent s ac"
    and "t \<le> t'" and "t' < t + bg_pace_seconds (ac_budgets ac) * 1000000" and "utc_day t' = utc_day t"
  shows "fst (gate calls credits' raw t' s'' ac') \<noteq> None"
proof -
  note r = reserve_result [OF assms(1,2)]
  have "pace_wait t' (refresh_day t' s'' ac')"
    using assms(3-5) r by (simp add: pace_wait_def refresh_day_def)
  then show ?thesis by (simp add: gate_opens_iff)
qed

lemma demo_reserve:
  "reserve_call None 1 0 demo_ops (new_accounting (''d'', ''a'') demo_budgets 0 demo_ops) =
     Inr (None, noted 0 1 0 True (new_accounting (''d'', ''a'') demo_budgets 0 demo_ops),
       write_lifetime (''d'', ''a'') 1 0 (write_accounting (''d'', ''a'') 0
         (ac_day (noted 0 1 0 True (new_accounting (''d'', ''a'') demo_budgets 0 demo_ops))) demo_ops))"
proof -
  have "fst (gate 1 1 1 0 demo_ops (new_accounting (''d'', ''a'') demo_budgets 0 demo_ops)) = None"
    by (rule gate_opens_demo)
  then obtain ac1 where g: "gate 1 1 1 0 demo_ops (new_accounting (''d'', ''a'') demo_budgets 0 demo_ops) = (None, ac1)"
    by (cases "gate 1 1 1 0 demo_ops (new_accounting (''d'', ''a'') demo_budgets 0 demo_ops)") simp
  define ac0 where "ac0 = new_accounting (''d'', ''a'') demo_budgets 0 demo_ops"
  have ac0: "ac_activation ac0 = (''d'', ''a'')" "ac_utc_day ac0 = 0" "ac_life_calls ac0 = 0" "ac_life_canonical ac0 = 0"
    by (simp_all add: ac0_def new_accounting_def utc_day_def load_lifetime_def get_life_def demo_ops_def)
  have "ac1 = ac0"
    using gate_result [OF g] by (simp add: refresh_day_def new_accounting_def ac0_def)
  moreover have "require_write_lease None 0 demo_ops = Inr demo_ops"
    by (simp add: require_write_lease_def require_writable_def demo_ops_def)
  ultimately show ?thesis using g
    by (simp add: reserve_call_def ac0_def [symmetric] note_call_def Let_def refresh_day_def save_call_debit_def ac0
        noted_def utc_day_def)
qed

lemma reserved_calls_are_paced_witness:
  "\<exists>ac' s'. reserve_call None 1 0 demo_ops (new_accounting (''d'', ''a'') demo_budgets 0 demo_ops) = Inr (None, ac', s')
     \<and> fst (gate 1 1 1 2999999 s' ac') \<noteq> None"
proof -
  have u: "utc_day 2999999 = utc_day 0" by (simp add: utc_day_def)
  have p: "bg_pace_seconds (ac_budgets (new_accounting (''d'', ''a'') demo_budgets 0 demo_ops)) = 3"
    by (simp add: new_accounting_def demo_budgets_def)
  show ?thesis
    using reserved_calls_are_paced [OF demo_reserve coherent_new, of 2999999] demo_reserve by (auto simp: u p)
qed

end
