(* ===== verification/BudgetRuns.thy ===== *)
theory BudgetRuns
  imports BudgetClaims
begin

section \<open>Many activations, one account\<close>

text \<open>
  A fleet of accounting objects on one store. In every step one of them reserves a call, or is
  built anew from the store (the start of a tick, and what follows an exception). The sums of the
  shared account change by exactly the debit of the member that reserved.
\<close>

record fleet =
  fl_ops :: ops
  fl_accounts :: "accounting list"

datatype fleet_step =
    Reserve nat "string option" int instant
  | Rebuild nat instant

definition rebuild :: "nat \<Rightarrow> instant \<Rightarrow> fleet \<Rightarrow> fleet" where
  "rebuild i t f = f\<lparr>fl_accounts := (fl_accounts f)[i := new_accounting (ac_activation (fl_accounts f ! i))
     (ac_budgets (fl_accounts f ! i)) t (fl_ops f)]\<rparr>"

fun fleet_do :: "fleet_step \<Rightarrow> fleet \<Rightarrow> fleet" where
  "fleet_do (Reserve i token credits t) f =
     (if i < length (fl_accounts f)
      then case reserve_call token credits t (fl_ops f) (fl_accounts f ! i) of
             Inl e \<Rightarrow> rebuild i t f
           | Inr (Some code, ac, s) \<Rightarrow> rebuild i t f
           | Inr (None, ac, s) \<Rightarrow> \<lparr>fl_ops = s, fl_accounts = (fl_accounts f)[i := ac]\<rparr>
      else f)"
| "fleet_do (Rebuild i t) f = (if i < length (fl_accounts f) then rebuild i t f else f)"

definition fleet_run :: "fleet_step list \<Rightarrow> fleet \<Rightarrow> fleet" where
  "fleet_run steps f = foldl (\<lambda>f st. fleet_do st f) f steps"

subsection \<open>Sums over the members\<close>

lemma sum_list_one_changed:
  fixes f g :: "'a \<Rightarrow> int"
  assumes "distinct xs" and "a \<in> set xs" and "\<And>x. x \<noteq> a \<Longrightarrow> g x = f x"
  shows "sum_list (map g xs) = sum_list (map f xs) + (g a - f a)"
  using assms
proof (induction xs)
  case (Cons x xs)
  show ?case
  proof (cases "x = a")
    case True
    then have "a \<notin> set xs" using Cons.prems(1) by simp
    then have "\<forall>x\<in>set xs. g x = f x" using Cons.prems(3) by metis
    then have "map g xs = map f xs" by (auto intro: map_cong)
    then have "sum_list (map g xs) = sum_list (map f xs)" by (rule arg_cong)
    then show ?thesis using True by simp
  next
    case False
    then show ?thesis using Cons by simp
  qed
qed simp

definition within_policy :: "string \<Rightarrow> budget_policy \<Rightarrow> ops \<Rightarrow> bool" where
  "within_policy scope p s = (\<forall>day. case account_budget_usage scope day s of (calls, credits, life_calls) \<Rightarrow>
     calls \<le> bp_day_calls p \<and> credits \<le> bp_day_credits p \<and> life_calls \<le> bp_life_calls p)"

definition within_activation :: "ops \<Rightarrow> accounting \<Rightarrow> bool" where
  "within_activation s ac = ((\<forall>day. k_calls (load_accounting (ac_activation ac) day s) \<le> bg_day_calls (ac_budgets ac)
       \<and> k_credits (load_accounting (ac_activation ac) day s) \<le> bg_day_credits (ac_budgets ac))
     \<and> fst (load_lifetime (ac_activation ac) s) \<le> bg_life_calls (ac_budgets ac))"

definition commissioned :: "string \<Rightarrow> budget_policy \<Rightarrow> ops \<Rightarrow> bool" where
  "commissioned scope p s = (op_budget_tables s = 3 \<and> op_scopes s = [scope] \<and> account_budget_policy scope s = Some p
     \<and> distinct (map fst (op_members s)))"

lemma commissioned_binding:
  assumes "commissioned scope p s"
  shows "shared_allows calls credits a day s \<longleftrightarrow> a \<in> set (members_of scope s)
    \<and> list_all (\<lambda>d. \<not> passed d) (shared_dimensions calls credits scope p day s)"
proof -
  have m: "a \<in> set (members_of scope s) \<longleftrightarrow> map_of (op_members s) a = Some scope"
  proof -
    have "a \<in> set (members_of scope s) \<longleftrightarrow> (a, scope) \<in> set (op_members s)" by (force simp: members_of_def)
    then show ?thesis using assms by (simp add: commissioned_def map_of_eq_Some_iff)
  qed
  show ?thesis using assms unfolding m
    by (cases "map_of (op_members s) a") (auto simp: shared_allows_def account_budget_binding_def commissioned_def)
qed

lemma members_distinct: "commissioned scope p s \<Longrightarrow> distinct (members_of scope s)"
  unfolding commissioned_def members_of_def by (auto simp: distinct_map intro: inj_on_subset)

lemma usage_after_reserve:
  assumes "reserve_call token credits t s ac = Inr (None, ac', s')" and "coherent s ac"
    and "commissioned scope p s" and "within_policy scope p s"
  shows "within_policy scope p s'" and "commissioned scope p s'"
proof -
  note r = reserve_result [OF assms(1,2)]
  let ?a = "ac_activation ac" and ?ms = "members_of scope s"
  have mem: "?a \<in> set ?ms" and dims: "list_all (\<lambda>d. \<not> passed d) (shared_dimensions 1 credits scope p (utc_day t) s)"
    using r(2) commissioned_binding [OF assms(3)] by auto
  have ms: "members_of scope s' = ?ms" using r(11) by (simp add: members_of_def)
  note one = sum_list_one_changed [OF members_distinct [OF assms(3)] mem]
  have day: "sum_list (map (\<lambda>a. k_calls (load_accounting a d s')) ?ms) =
        sum_list (map (\<lambda>a. k_calls (load_accounting a d s)) ?ms) + (if d = utc_day t then 1 else 0)" for d
    using one [of "\<lambda>a. k_calls (load_accounting a d s')" "\<lambda>a. k_calls (load_accounting a d s)"] by (simp add: r(8))
  have credits: "sum_list (map (\<lambda>a. k_credits (load_accounting a d s')) ?ms) =
        sum_list (map (\<lambda>a. k_credits (load_accounting a d s)) ?ms) + (if d = utc_day t then credits else 0)" for d
    using one [of "\<lambda>a. k_credits (load_accounting a d s')" "\<lambda>a. k_credits (load_accounting a d s)"] by (simp add: r(9))
  have life: "sum_list (map (\<lambda>a. fst (load_lifetime a s')) ?ms) = sum_list (map (\<lambda>a. fst (load_lifetime a s)) ?ms) + 1"
    using one [of "\<lambda>a. fst (load_lifetime a s')" "\<lambda>a. fst (load_lifetime a s)"] by (simp add: r(10))
  show "within_policy scope p s'"
    using assms(4) dims
    by (simp add: within_policy_def account_budget_usage_def ms day credits life shared_dimensions_def passed_def)
  show "commissioned scope p s'"
    using assms(3) r(11-14) by (simp add: commissioned_def account_budget_policy_def)
qed

lemma activation_after_reserve:
  assumes "reserve_call token credits t s ac = Inr (None, ac', s')" and "coherent s ac" and "within_activation s ac"
  shows "within_activation s' ac'"
proof -
  note r = reserve_result [OF assms(1,2)]
  have co: "coherent s (refresh_day t s ac)" using assms(2) by (rule coherent_refresh)
  then have "k_calls (load_accounting (ac_activation ac) (utc_day t) s) + 1 \<le> bg_day_calls (ac_budgets ac)"
    "k_credits (load_accounting (ac_activation ac) (utc_day t) s) + credits \<le> bg_day_credits (ac_budgets ac)"
    "fst (load_lifetime (ac_activation ac) s) + 1 \<le> bg_life_calls (ac_budgets ac)"
    using r(1) by (auto simp: local_dimensions_def Let_def passed_def coherent_def)
  then show ?thesis using assms(3) by (auto simp: within_activation_def r(4,5,8-10))
qed

lemma other_coherent:
  assumes "reserve_call token credits t s ac = Inr (None, ac', s')" and "coherent s ac"
    and "ac_activation other \<noteq> ac_activation ac"
  shows "coherent s' other = coherent s other" and "within_activation s' other = within_activation s other"
  using reserve_result(8-10) [OF assms(1,2)] assms(3) by (simp_all add: coherent_def within_activation_def)

subsection \<open>The invariant of a run\<close>

definition fleet_ok :: "string \<Rightarrow> budget_policy \<Rightarrow> fleet \<Rightarrow> bool" where
  "fleet_ok scope p f = (commissioned scope p (fl_ops f) \<and> within_policy scope p (fl_ops f)
     \<and> distinct (map ac_activation (fl_accounts f))
     \<and> (\<forall>ac\<in>set (fl_accounts f). coherent (fl_ops f) ac \<and> within_activation (fl_ops f) ac))"

lemma rebuild_ok:
  assumes "fleet_ok scope p f" and "i < length (fl_accounts f)"
  shows "fleet_ok scope p (rebuild i t f)"
proof -
  let ?new = "new_accounting (ac_activation (fl_accounts f ! i)) (ac_budgets (fl_accounts f ! i)) t (fl_ops f)"
  have "map ac_activation ((fl_accounts f)[i := ?new]) = map ac_activation (fl_accounts f)"
    using assms(2) by (simp add: map_update new_accounting_def list_update_same_conv)
  moreover have "within_activation (fl_ops f) ?new"
    using assms nth_mem by (fastforce simp: fleet_ok_def within_activation_def new_accounting_def)
  moreover have "ac = ?new \<or> ac \<in> set (fl_accounts f)" if "ac \<in> set ((fl_accounts f)[i := ?new])" for ac
    using that set_update_subset_insert by fastforce
  ultimately show ?thesis
    using assms coherent_new by (fastforce simp: fleet_ok_def rebuild_def)
qed

lemma reserve_ok:
  assumes ok: "fleet_ok scope p f" and i: "i < length (fl_accounts f)"
    and r: "reserve_call token credits t (fl_ops f) (fl_accounts f ! i) = Inr (None, ac, s)"
  shows "fleet_ok scope p \<lparr>fl_ops = s, fl_accounts = (fl_accounts f)[i := ac]\<rparr>"
proof -
  let ?as = "fl_accounts f"
  have co: "coherent (fl_ops f) (?as ! i)" and wa: "within_activation (fl_ops f) (?as ! i)"
    using ok i nth_mem by (auto simp: fleet_ok_def)
  have com: "commissioned scope p (fl_ops f)" "within_policy scope p (fl_ops f)" using ok by (auto simp: fleet_ok_def)
  have dist: "distinct (map ac_activation ?as)" using ok by (simp add: fleet_ok_def)
  have act: "ac_activation ac = ac_activation (?as ! i)" by (rule reserve_result(4) [OF r co])
  have same: "map ac_activation (?as[i := ac]) = map ac_activation ?as"
    using i act by (simp add: map_update list_update_same_conv)
  have all: "coherent s x \<and> within_activation s x" if x: "x \<in> set (?as[i := ac])" for x
  proof -
    obtain j where j: "j < length ?as" "x = ?as[i := ac] ! j" using x by (auto simp: in_set_conv_nth)
    show ?thesis
    proof (cases "j = i")
      case True
      then show ?thesis using j i reserve_result(3) [OF r co] activation_after_reserve [OF r co wa] by simp
    next
      case False
      then have x': "x = ?as ! j" using j by simp
      then have "ac_activation x \<noteq> ac_activation (?as ! i)"
        using dist False i j(1) by (auto simp: distinct_conv_nth)
      moreover have "coherent (fl_ops f) x \<and> within_activation (fl_ops f) x"
        using ok j(1) x' by (auto simp: fleet_ok_def)
      ultimately show ?thesis using other_coherent [OF r co] by simp
    qed
  qed
  show ?thesis using usage_after_reserve [OF r co com] dist same all by (simp add: fleet_ok_def)
qed

lemma fleet_do_ok: "fleet_ok scope p f \<Longrightarrow> fleet_ok scope p (fleet_do st f)"
  by (cases st) (auto intro: rebuild_ok reserve_ok split: sum.split prod.split option.split)

text \<open>C30: no budget is overspent: let any number of activations reserve calls on one commissioned account, in
  any order and on any days, each through its own accounting object. Then the account's calls and credits of
  every day and its calls over the lifetime stay within the shared policy, and every activation's stay within
  its own budget.\<close>

theorem no_budget_overspent:
  assumes "fleet_ok scope p f"
  shows "within_policy scope p (fl_ops (fleet_run steps f))
    \<and> (\<forall>ac\<in>set (fl_accounts (fleet_run steps f)). within_activation (fl_ops (fleet_run steps f)) ac)"
proof -
  have "fleet_ok scope p (foldl (\<lambda>f st. fleet_do st f) f steps)"
    using assms by (induction steps arbitrary: f) (simp_all add: fleet_do_ok)
  then show ?thesis by (simp add: fleet_run_def fleet_ok_def)
qed

definition demo_policy :: budget_policy where
  "demo_policy = \<lparr>bp_scope = ''ACC'', bp_revision = 1, bp_day_calls = 1, bp_day_credits = 1, bp_life_calls = 2,
     bp_command_sha256 = ''c''\<rparr>"

definition demo_fleet :: fleet where
  "demo_fleet = (let s = demo_ops\<lparr>op_scopes := [''ACC''], op_policies := [demo_policy],
       op_members := [((''d'', ''a''), ''ACC''), ((''d'', ''b''), ''ACC'')]\<rparr>
     in \<lparr>fl_ops = s, fl_accounts = [new_accounting (''d'', ''a'') demo_budgets 0 s, new_accounting (''d'', ''b'') demo_budgets 0 s]\<rparr>)"

lemma no_budget_overspent_witness:
  "\<exists>calls credits life_calls. account_budget_usage ''ACC'' 0
     (fl_ops (fleet_run [Reserve 0 None 1 0, Reserve 1 None 1 1] demo_fleet)) = (calls, credits, life_calls) \<and> calls \<le> 1"
proof -
  define s where "s = demo_ops\<lparr>op_scopes := [''ACC''], op_policies := [demo_policy],
       op_members := [((''d'', ''a''), ''ACC''), ((''d'', ''b''), ''ACC'')]\<rparr>"
  have zero: "load_accounting a d s = zero_counters" "load_lifetime a s = (0, 0)" for a d
    by (simp_all add: s_def load_accounting_def get_counters_def load_lifetime_def get_life_def demo_ops_def)
  have tables: "op_budget_tables s = 3" "op_scopes s = [''ACC'']" "op_policies s = [demo_policy]"
    "op_members s = [((''d'', ''a''), ''ACC''), ((''d'', ''b''), ''ACC'')]"
    by (simp_all add: s_def demo_ops_def)
  have f: "demo_fleet = \<lparr>fl_ops = s, fl_accounts = [new_accounting (''d'', ''a'') demo_budgets 0 s,
      new_accounting (''d'', ''b'') demo_budgets 0 s]\<rparr>"
    by (simp add: demo_fleet_def s_def Let_def)
  have "commissioned ''ACC'' demo_policy s"
    by (simp add: commissioned_def tables account_budget_policy_def demo_policy_def)
  moreover have "within_policy ''ACC'' demo_policy s"
    by (simp add: within_policy_def account_budget_usage_def members_of_def tables zero zero_counters_def demo_policy_def)
  moreover have "within_activation s (new_accounting a demo_budgets 0 s)" for a
    by (simp add: within_activation_def zero zero_counters_def demo_budgets_def new_accounting_def)
  ultimately have "fleet_ok ''ACC'' demo_policy demo_fleet"
    by (simp add: fleet_ok_def f coherent_new) (simp add: new_accounting_def)
  from no_budget_overspent [OF this, of "[Reserve 0 None 1 0, Reserve 1 None 1 1]"]
  show ?thesis
    by (cases "account_budget_usage ''ACC'' 0 (fl_ops (fleet_run [Reserve 0 None 1 0, Reserve 1 None 1 1] demo_fleet))")
      (force simp: within_policy_def demo_policy_def split: prod.splits)
qed

end
