(* ===== verification/ProviderPacing.thy ===== *)
theory ProviderPacing
  imports ScheduleAccounting
begin

section \<open>Provider pacing\<close>

text \<open>
  \<open>factory/observation_provider_pacing.py\<close>: the waiting in front of a provider call within one tick,
  the record of a completion, and the arithmetic of how many calls a tick holds. Instants are
  microseconds (every datetime here is aware, the check on a naive one is not modelled); the
  comparison of elapsed seconds, a float in the code, is exact in microseconds.

  The wall clock is outside the program: a \<open>WallClock\<close> keeps what the program did with it, its readings
  and its sleeps, the latest first, and \<open>wall\<close> gives the instant read after such a history, so that time may
  pass at every reading and a sleep may move the next one. \<open>_AccountingGate\<close> is the parameter \<open>gt\<close> of the loop.
\<close>

definition TIMER_CADENCE_SECONDS :: int where "TIMER_CADENCE_SECONDS = 60"

definition DEFAULT_TICK_WALL_BUDGET_SECONDS :: int where "DEFAULT_TICK_WALL_BUDGET_SECONDS = 55"

definition MAX_INTRA_TICK_PACE_WAITS :: nat where "MAX_INTRA_TICK_PACE_WAITS = 20"

definition FREE_TIER_MIN_PACE_SECONDS :: int where "FREE_TIER_MIN_PACE_SECONDS = 3"

subsection \<open>Clocks\<close>

text \<open>The clocks with \<open>sleep\<close>, and what a caller may supply: one of them or a bare callable.\<close>

datatype clock_event =
    Read
  | Slept int

type_synonym wall_clock = "clock_event list \<Rightarrow> instant"

datatype clock =
    WallClock "clock_event list"
  | AdvancingClock instant

datatype supplied_clock =
    Sleeping clock
  | BareCallable

fun clock_has_sleep :: "supplied_clock \<Rightarrow> bool" where
  "clock_has_sleep BareCallable = False"
| "clock_has_sleep (Sleeping k) = True"

fun require_sleep_capable_clock :: "supplied_clock option \<Rightarrow> clock option res" where
  "require_sleep_capable_clock None = Inr None"
| "require_sleep_capable_clock (Some (Sleeping k)) = Inr (Some k)"
| "require_sleep_capable_clock (Some BareCallable) = Inl (ClockSleepRequiredError ''CLOCK_SLEEP_REQUIRED'')"

text \<open>\<open>sleep\<close>: nothing for no seconds; otherwise the wall clock records the sleep, and the advancing clock
  moves by the seconds asked for.\<close>

fun clock_sleep :: "int \<Rightarrow> clock \<Rightarrow> clock" where
  "clock_sleep seconds (AdvancingClock t) = (if seconds \<le> 0 then AdvancingClock t else AdvancingClock (t + seconds * 1000000))"
| "clock_sleep seconds (WallClock h) = WallClock (if 0 < seconds then Slept seconds # h else h)"

subsection \<open>The tick context\<close>

record tick_context =
  tc_tick_start :: instant
  tc_pace_seconds :: int
  tc_wall_budget :: int
  tc_injectable :: "clock option"
  tc_logical_offset :: int
  tc_pace_waits :: nat
  tc_completions :: nat

definition new_tick_context :: "instant \<Rightarrow> int \<Rightarrow> supplied_clock option \<Rightarrow> int \<Rightarrow> tick_context res" where
  "new_tick_context tick_start pace injectable wall_budget =
     bindR (require_sleep_capable_clock injectable) (\<lambda>k.
       Inr \<lparr>tc_tick_start = tick_start, tc_pace_seconds = max FREE_TIER_MIN_PACE_SECONDS pace,
            tc_wall_budget = wall_budget, tc_injectable = k, tc_logical_offset = 0, tc_pace_waits = 0,
            tc_completions = 0\<rparr>)"

text \<open>\<open>now\<close>: a reading of the wall clock is kept in its history.\<close>

definition tick_now :: "wall_clock \<Rightarrow> tick_context \<Rightarrow> instant \<times> tick_context" where
  "tick_now wall c =
     (case tc_injectable c of
        Some (WallClock h) \<Rightarrow> (wall h, c\<lparr>tc_injectable := Some (WallClock (Read # h))\<rparr>)
      | Some (AdvancingClock t) \<Rightarrow> (t, c)
      | None \<Rightarrow> (tc_tick_start c + tc_logical_offset c, c))"

definition elapsed_tick :: "wall_clock \<Rightarrow> tick_context \<Rightarrow> int \<times> tick_context" where
  "elapsed_tick wall c = (case tick_now wall c of (t, c') \<Rightarrow> (max 0 (t - tc_tick_start c'), c'))"

definition tick_budget_exhausted :: "wall_clock \<Rightarrow> tick_context \<Rightarrow> bool \<times> tick_context" where
  "tick_budget_exhausted wall c =
     (case elapsed_tick wall c of (e, c') \<Rightarrow> (tc_wall_budget c' * 1000000 \<le> e, c'))"

definition advance_pace_wait :: "tick_context \<Rightarrow> tick_context" where
  "advance_pace_wait c =
     (let c' = c\<lparr>tc_pace_waits := Suc (tc_pace_waits c)\<rparr> in
      case tc_injectable c' of
        Some k \<Rightarrow> c'\<lparr>tc_injectable := Some (clock_sleep (tc_pace_seconds c') k)\<rparr>
      | None \<Rightarrow> c'\<lparr>tc_logical_offset := tc_logical_offset c' + tc_pace_seconds c' * 1000000\<rparr>)"

lemma tick_now_fields [simp]:
  "tc_pace_waits (snd (tick_now wall c)) = tc_pace_waits c"
  "tc_tick_start (snd (tick_now wall c)) = tc_tick_start c"
  "tc_pace_seconds (snd (tick_now wall c)) = tc_pace_seconds c"
  "tc_wall_budget (snd (tick_now wall c)) = tc_wall_budget c"
  "tc_completions (snd (tick_now wall c)) = tc_completions c"
  by (auto simp: tick_now_def split: option.split clock.split)

lemma elapsed_context [simp]: "snd (elapsed_tick wall c) = snd (tick_now wall c)"
  by (simp add: elapsed_tick_def split: prod.split)

lemma advance_fields [simp]:
  "tc_pace_waits (advance_pace_wait c) = Suc (tc_pace_waits c)"
  "tc_tick_start (advance_pace_wait c) = tc_tick_start c"
  "tc_pace_seconds (advance_pace_wait c) = tc_pace_seconds c"
  "tc_wall_budget (advance_pace_wait c) = tc_wall_budget c"
  by (auto simp: advance_pace_wait_def Let_def split: option.split)

subsection \<open>Waiting for a slot\<close>

function wait_for_provider_slot ::
  "wall_clock \<Rightarrow> (instant \<Rightarrow> 'a \<Rightarrow> string option \<times> 'a) \<Rightarrow> tick_context \<Rightarrow> 'a
   \<Rightarrow> string option \<times> tick_context \<times> 'a" where
  "wait_for_provider_slot wall gt c a =
     (let c1 = snd (tick_now wall c); r = gt (fst (tick_now wall c)) a in
      if fst r \<noteq> Some ''PACE_WAIT'' then (fst r, c1, snd r)
      else if MAX_INTRA_TICK_PACE_WAITS \<le> tc_pace_waits c1 then (Some ''PACE_WAIT'', c1, snd r)
      else if tc_wall_budget c1 * 1000000 < fst (elapsed_tick wall c1) + tc_pace_seconds c1 * 1000000
      then (Some ''PACE_WAIT'', snd (elapsed_tick wall c1), snd r)
      else wait_for_provider_slot wall gt (advance_pace_wait (snd (elapsed_tick wall c1))) (snd r))"
  by pat_completeness auto
termination
  by (relation "measure (\<lambda>(wall, gt, c, a). MAX_INTRA_TICK_PACE_WAITS - tc_pace_waits c)") auto

declare wait_for_provider_slot.simps [simp del]

definition record_provider_completion ::
  "wall_clock \<Rightarrow> string option \<Rightarrow> int \<Rightarrow> int \<Rightarrow> instant option \<Rightarrow> bool \<Rightarrow> tick_context \<Rightarrow> ops \<Rightarrow> accounting
   \<Rightarrow> (tick_context \<times> accounting \<times> ops) res" where
  "record_provider_completion wall token raw credits completed_at reserved c s ac =
     (let (completion, c1) = (case completed_at of Some t \<Rightarrow> (t, c) | None \<Rightarrow> tick_now wall c) in
      bindR (note_call token raw credits completion (\<not> reserved) s ac) (\<lambda>(ac', s').
        let c2 = c1\<lparr>tc_completions := Suc (tc_completions c1)\<rparr> in
        Inr (if tc_injectable c2 = None
             then c2\<lparr>tc_logical_offset := max (tc_logical_offset c2)
                       (completion - tc_tick_start c2 + tc_pace_seconds c2 * 1000000)\<rparr>
             else c2, ac', s')))"

definition should_defer_fresh_source_poll ::
  "wall_clock \<Rightarrow> (instant \<Rightarrow> 'a \<Rightarrow> string option \<times> 'a) \<Rightarrow> int \<Rightarrow> bool \<Rightarrow> tick_context \<Rightarrow> 'a
   \<Rightarrow> bool \<times> tick_context \<times> 'a" where
  "should_defer_fresh_source_poll wall gt matured_due_count poll_slot_cached c a =
     (if poll_slot_cached \<or> matured_due_count \<le> 0 then (False, c, a)
      else case tick_now wall c of (t, c') \<Rightarrow>
        (case gt t a of (code, a') \<Rightarrow> (code = Some ''PACE_WAIT'', c', a')))"

subsection \<open>The loop before clocks had to sleep\<close>

text \<open>\<open>legacy_bare_callable_pace_starvation_terminal\<close>: the frozen clock is the origin; the trace is
  built in order.\<close>

record starvation =
  sv_terminal :: string
  sv_pace_waits :: nat
  sv_offset_seconds :: "int option"
  sv_trace :: "string list"

function legacy_loop :: "int \<Rightarrow> int \<Rightarrow> nat \<Rightarrow> int \<Rightarrow> string list \<Rightarrow> starvation" where
  "legacy_loop pace max_waits waits offset trace =
     (if \<not> (0::int) < pace
      then \<lparr>sv_terminal = ''UNEXPECTED_SLOT_OPEN'', sv_pace_waits = waits, sv_offset_seconds = None, sv_trace = trace\<rparr>
      else if max_waits \<le> int waits
      then \<lparr>sv_terminal = ''PACE_WAIT'', sv_pace_waits = waits, sv_offset_seconds = Some offset,
            sv_trace = trace @ [''MAX_INTRA_TICK_PACE_WAITS'', ''RETURN_PACE_WAIT'', ''SEARCH_PROVIDER_CALL_NEVER'']\<rparr>
      else legacy_loop pace max_waits (Suc waits) (offset + pace) (trace @ [''LOGICAL_OFFSET_BUMP_'' @ digits_of (Suc waits)]))"
  by pat_completeness auto
termination
  by (relation "measure (\<lambda>(pace, max_waits, waits, offset, trace). nat (max_waits - int waits))") auto

declare legacy_loop.simps [simp del]

definition legacy_bare_callable_pace_starvation_terminal :: "int \<Rightarrow> int \<Rightarrow> starvation" where
  "legacy_bare_callable_pace_starvation_terminal pace_seconds max_waits =
     legacy_loop pace_seconds max_waits 0 0 [''RECENT_COMPLETED'', ''SEARCH_WAIT_FOR_PROVIDER_SLOT'', ''GATE_PACE_WAIT'']"

subsection \<open>Calls of a tick\<close>

definition max_provider_calls_per_tick :: "int \<Rightarrow> int \<Rightarrow> int \<Rightarrow> int" where
  "max_provider_calls_per_tick pace_seconds wall_budget max_claims =
     (let pace = max FREE_TIER_MIN_PACE_SECONDS pace_seconds in min max_claims (max 1 (wall_budget div pace)))"

definition reserved_source_poll_calls :: "int \<Rightarrow> int \<Rightarrow> int" where
  "reserved_source_poll_calls poll_period cadence =
     (if poll_period \<le> 0 then 0 else if cadence < poll_period then 1 else max 1 (cadence div poll_period))"

definition usable_due_calls_per_tick :: "int \<Rightarrow> int \<Rightarrow> int \<Rightarrow> int \<Rightarrow> int \<Rightarrow> int" where
  "usable_due_calls_per_tick pace_seconds poll_period cadence wall_budget max_claims =
     (let calls = max_provider_calls_per_tick pace_seconds wall_budget max_claims;
          reserve = min calls (reserved_source_poll_calls poll_period cadence)
      in max 0 (calls - reserve))"

end
