(* ===== verification/PacingClaims.thy ===== *)
theory PacingClaims
  imports ProviderPacing BudgetClaims "HOL-Library.Sublist"
begin

section \<open>Waiting ends, and ends well\<close>

text \<open>
  The loop of \<open>wait_for_provider_slot\<close> waits a bounded number of times and within the wall budget of
  the tick, for any gate; for a gate that opens once its pace has passed (the locale \<open>pacing_gate\<close>,
  interpreted on the gate of the accounting) one wait is enough.
\<close>

subsection \<open>Any gate\<close>

abbreviation slot_code :: "string option \<times> tick_context \<times> 'a \<Rightarrow> string option" where
  "slot_code r \<equiv> fst r"

abbreviation slot_context :: "string option \<times> tick_context \<times> 'a \<Rightarrow> tick_context" where
  "slot_context r \<equiv> fst (snd r)"

definition reads_wall :: "tick_context \<Rightarrow> bool" where
  "reads_wall c = (case tc_injectable c of Some (WallClock h) \<Rightarrow> True | _ \<Rightarrow> False)"

definition wall_history :: "tick_context \<Rightarrow> clock_event list" where
  "wall_history c = (case tc_injectable c of Some (WallClock h) \<Rightarrow> h | _ \<Rightarrow> [])"

text \<open>What is relied on of the wall clock. It is \<open>steady\<close> when it does not go back between readings and a sleep
  lasts at least its length (\<open>time.sleep\<close>), and \<open>prompt\<close> when no more than \<open>d\<close> microseconds pass between two
  steps besides the sleep asked for. The other clocks need neither.\<close>

definition steady :: "wall_clock \<Rightarrow> bool" where
  "steady wall \<longleftrightarrow> (\<forall>h. wall h \<le> wall (Read # h)) \<and> (\<forall>h k. 0 < k \<longrightarrow> wall h + k * 1000000 \<le> wall (Slept k # h))"

definition prompt :: "wall_clock \<Rightarrow> int \<Rightarrow> bool" where
  "prompt wall d \<longleftrightarrow> 0 \<le> d \<and> (\<forall>h. wall (Read # h) \<le> wall h + d)
     \<and> (\<forall>h k. 0 < k \<longrightarrow> wall (Slept k # h) \<le> wall h + k * 1000000 + d)"

lemma reads_wall_kept [simp]:
  "reads_wall (snd (tick_now wall c)) = reads_wall c"
  "reads_wall (advance_pace_wait c) = reads_wall c"
  by (auto simp: tick_now_def advance_pace_wait_def Let_def reads_wall_def split: option.splits clock.splits)

lemma next_reading:
  "\<not> reads_wall c \<Longrightarrow> fst (tick_now wall (snd (tick_now wall c))) = fst (tick_now wall c)"
  "steady wall \<Longrightarrow> fst (tick_now wall c) \<le> fst (tick_now wall (snd (tick_now wall c)))"
  "prompt wall d \<Longrightarrow> fst (tick_now wall (snd (tick_now wall c))) \<le> fst (tick_now wall c) + d"
  by (auto simp: tick_now_def reads_wall_def steady_def prompt_def split: option.splits clock.splits)

lemma reading_after_sleep:
  assumes "0 \<le> tc_pace_seconds c"
  shows "\<not> reads_wall c \<Longrightarrow> fst (tick_now wall (advance_pace_wait c)) = fst (tick_now wall c) + tc_pace_seconds c * 1000000"
    and "steady wall \<Longrightarrow> fst (tick_now wall c) + tc_pace_seconds c * 1000000 \<le> fst (tick_now wall (advance_pace_wait c))"
    and "prompt wall d \<Longrightarrow> fst (tick_now wall (advance_pace_wait c)) \<le> fst (tick_now wall c) + tc_pace_seconds c * 1000000 + d"
  using assms
  by (auto simp: advance_pace_wait_def Let_def tick_now_def reads_wall_def steady_def prompt_def split: option.splits clock.splits)

lemma elapsed_reading: "fst (elapsed_tick wall c) = max 0 (fst (tick_now wall c) - tc_tick_start c)"
  by (simp add: elapsed_tick_def split: prod.split) (metis tick_now_fields(2) snd_conv)

lemma wait_count:
  "tc_pace_waits (slot_context (wait_for_provider_slot wall gt c a)) \<le> max (tc_pace_waits c) MAX_INTRA_TICK_PACE_WAITS"
proof (induction wall gt c a rule: wait_for_provider_slot.induct)
  case (1 wall gt c a)
  show ?case
    using 1 [OF refl refl] by (subst wait_for_provider_slot.simps) (auto simp: Let_def)
qed

text \<open>The clock after the loop, for a delay \<open>e\<close> of each step that is nothing unless the clock reads the wall.\<close>

lemma wait_within_budget:
  assumes "reads_wall c \<longrightarrow> prompt wall e" "\<not> reads_wall c \<longrightarrow> e = 0" "0 \<le> tc_pace_seconds c"
  shows "fst (tick_now wall (slot_context (wait_for_provider_slot wall gt c a)))
    \<le> max (fst (tick_now wall c)) (tc_tick_start c + tc_wall_budget c * 1000000 + 2 * e) + 2 * e"
  using assms
proof (induction wall gt c a rule: wait_for_provider_slot.induct)
  case (1 wall gt c a)
  have e: "0 \<le> e" using 1(2,3) by (cases "reads_wall c") (auto simp: prompt_def)
  let ?c1 = "snd (tick_now wall c)" let ?c2 = "snd (tick_now wall ?c1)"
  have next_r: "fst (tick_now wall (snd (tick_now wall x))) \<le> fst (tick_now wall x) + e" if "reads_wall x = reads_wall c" for x
    using next_reading [where c = x and wall = wall] 1(2,3) that e by (cases "reads_wall c") auto
  have slept: "fst (tick_now wall (advance_pace_wait ?c2)) \<le> fst (tick_now wall ?c2) + tc_pace_seconds c * 1000000 + e"
    using reading_after_sleep [where c = ?c2 and wall = wall] 1(2-4) e by (cases "reads_wall c") auto
  have steps: "fst (tick_now wall ?c1) \<le> fst (tick_now wall c) + e" "fst (tick_now wall ?c2) \<le> fst (tick_now wall ?c1) + e"
    by (simp_all add: next_r)
  have room: "fst (tick_now wall (advance_pace_wait ?c2)) \<le> tc_tick_start c + tc_wall_budget c * 1000000 + 2 * e"
    if "\<not> tc_wall_budget c * 1000000 < fst (elapsed_tick wall ?c1) + tc_pace_seconds c * 1000000"
    using that steps slept by (simp add: elapsed_reading)
  show ?case
  proof (cases "fst (gt (fst (tick_now wall c)) a) = Some ''PACE_WAIT'' \<and> tc_pace_waits c < MAX_INTRA_TICK_PACE_WAITS
      \<and> \<not> tc_wall_budget c * 1000000 < fst (elapsed_tick wall ?c1) + tc_pace_seconds c * 1000000")
    case True
    have go: "wait_for_provider_slot wall gt c a
        = wait_for_provider_slot wall gt (advance_pace_wait ?c2) (snd (gt (fst (tick_now wall c)) a))"
      using True by (subst wait_for_provider_slot.simps) (simp add: Let_def)
    show ?thesis
      using 1(1) [OF refl refl] True room 1(2-4) unfolding go by (auto simp: elapsed_context)
  next
    case False
    then have "slot_context (wait_for_provider_slot wall gt c a) \<in> {?c1, ?c2}"
      by (subst wait_for_provider_slot.simps) (auto simp: Let_def)
    then show ?thesis using steps e by auto
  qed
qed

text \<open>Every sleep of the loop on the wall clock comes right after a reading that left room for it.\<close>

definition room_for :: "wall_clock \<Rightarrow> tick_context \<Rightarrow> int \<Rightarrow> clock_event list \<Rightarrow> bool" where
  "room_for wall c k h = (\<exists>q. h = Read # q \<and> k = tc_pace_seconds c
     \<and> max 0 (wall q - tc_tick_start c) + k * 1000000 \<le> tc_wall_budget c * 1000000)"

lemma sleeps_have_room:
  assumes "suffix (Slept k # h) (wall_history (slot_context (wait_for_provider_slot wall gt c a)))"
    and "\<not> suffix (Slept k # h) (wall_history c)"
  shows "room_for wall c k h"
  using assms
proof (induction wall gt c a rule: wait_for_provider_slot.induct)
  case (1 wall gt c a)
  let ?c1 = "snd (tick_now wall c)" let ?c2 = "snd (tick_now wall ?c1)"
  have h: "wall_history (snd (tick_now wall x)) = (if reads_wall x then Read # wall_history x else [])" for x
    by (auto simp: wall_history_def tick_now_def reads_wall_def split: option.splits clock.splits)
  have f: "fst (tick_now wall x) = wall (wall_history x)" if "reads_wall x" for x
    using that by (auto simp: wall_history_def tick_now_def reads_wall_def split: option.splits clock.splits)
  have adv: "wall_history (advance_pace_wait x)
      = (if reads_wall x \<and> 0 < tc_pace_seconds x then Slept (tc_pace_seconds x) # wall_history x else wall_history x)" for x
    by (auto simp: wall_history_def advance_pace_wait_def Let_def reads_wall_def split: option.splits clock.splits)
  show ?case
  proof (cases "fst (gt (fst (tick_now wall c)) a) = Some ''PACE_WAIT'' \<and> tc_pace_waits c < MAX_INTRA_TICK_PACE_WAITS
      \<and> \<not> tc_wall_budget c * 1000000 < fst (elapsed_tick wall ?c1) + tc_pace_seconds c * 1000000")
    case on: True
    have go: "wait_for_provider_slot wall gt c a
        = wait_for_provider_slot wall gt (advance_pace_wait ?c2) (snd (gt (fst (tick_now wall c)) a))"
      using on by (subst wait_for_provider_slot.simps) (simp add: Let_def)
    show ?thesis
    proof (cases "suffix (Slept k # h) (wall_history (advance_pace_wait ?c2))")
      case True
      then have "reads_wall c \<and> k = tc_pace_seconds c \<and> h = Read # Read # wall_history c"
        using 1(3) by (auto simp: adv h suffix_Cons split: if_splits)
      then show ?thesis
        using on f [of ?c1] by (auto simp: room_for_def elapsed_reading h)
    next
      case False
      have "room_for wall (advance_pace_wait ?c2) k h"
        using 1(1) [OF refl refl] on False 1(2) unfolding go by simp
      then show ?thesis by (simp add: room_for_def)
    qed
  next
    case False
    then have "slot_context (wait_for_provider_slot wall gt c a) \<in> {?c1, ?c2}"
      by (subst wait_for_provider_slot.simps) (auto simp: Let_def)
    then show ?thesis using 1(2,3) by (auto simp: h suffix_Cons split: if_splits)
  qed
qed

text \<open>C31: waiting for a provider slot ends, whatever gate and clock it asks: \<open>wait_for_provider_slot\<close> waits at
  most \<open>MAX_INTRA_TICK_PACE_WAITS\<close> times in a tick; it sleeps on the wall clock only right after a reading
  that left room for the sleep in the wall budget of the tick; and the instant after it is within the
  budget (or was past it before), on the wall clock up to four of the delays \<open>d\<close> that pass between two steps.
  The pace is not negative, as \<open>new_tick_context\<close> makes it.\<close>

theorem slot_wait_is_bounded:
  assumes "0 \<le> tc_pace_seconds c" and "reads_wall c \<Longrightarrow> prompt wall d"
  shows "tc_pace_waits (slot_context (wait_for_provider_slot wall gt c a)) \<le> max (tc_pace_waits c) MAX_INTRA_TICK_PACE_WAITS
    \<and> (\<forall>k h. suffix (Slept k # h) (wall_history (slot_context (wait_for_provider_slot wall gt c a)))
         \<and> \<not> suffix (Slept k # h) (wall_history c) \<longrightarrow> room_for wall c k h)
    \<and> fst (tick_now wall (slot_context (wait_for_provider_slot wall gt c a)))
        \<le> max (fst (tick_now wall c)) (tc_tick_start c + tc_wall_budget c * 1000000) + (if reads_wall c then 4 * d else 0)"
proof -
  let ?e = "if reads_wall c then d else 0"
  have "0 \<le> ?e" using assms(2) by (auto simp: prompt_def)
  moreover have "fst (tick_now wall (slot_context (wait_for_provider_slot wall gt c a)))
    \<le> max (fst (tick_now wall c)) (tc_tick_start c + tc_wall_budget c * 1000000 + 2 * ?e) + 2 * ?e"
    by (rule wait_within_budget) (use assms in auto)
  ultimately show ?thesis
    by (intro conjI wait_count allI impI) (auto intro: sleeps_have_room)
qed

definition demo_tick :: tick_context where
  "demo_tick = \<lparr>tc_tick_start = 0, tc_pace_seconds = 3, tc_wall_budget = 55, tc_injectable = Some (AdvancingClock 1000000),
     tc_logical_offset = 0, tc_pace_waits = 0, tc_completions = 0\<rparr>"

fun demo_wall :: wall_clock where
  "demo_wall [] = 1000000"
| "demo_wall (Read # h) = demo_wall h + 400"
| "demo_wall (Slept k # h) = demo_wall h + k * 1000000 + 700"

lemma demo_wall_laws: "prompt demo_wall 700" "steady demo_wall"
  by (simp_all add: prompt_def steady_def)

definition demo_wall_tick :: tick_context where
  "demo_wall_tick = demo_tick\<lparr>tc_injectable := Some (WallClock [])\<rparr>"

lemma slot_wait_is_bounded_witness:
  "tc_pace_waits (slot_context (wait_for_provider_slot demo_wall (\<lambda>t a. (Some ''PACE_WAIT'', a)) demo_wall_tick ())) \<le> 20
   \<and> fst (tick_now demo_wall (slot_context (wait_for_provider_slot demo_wall (\<lambda>t a. (Some ''PACE_WAIT'', a)) demo_wall_tick ())))
       \<le> 55002800"
  using slot_wait_is_bounded [of demo_wall_tick demo_wall 700 "\<lambda>t a. (Some ''PACE_WAIT'', a)" "()"] demo_wall_laws(1)
  by (simp add: reads_wall_def demo_tick_def demo_wall_tick_def MAX_INTRA_TICK_PACE_WAITS_def tick_now_def)

subsection \<open>A gate that opens after its pace\<close>

locale pacing_gate =
  fixes gt :: "instant \<Rightarrow> 'a \<Rightarrow> string option \<times> 'a"
    and pace :: "'a \<Rightarrow> int"
    and day :: "instant \<Rightarrow> int"
  assumes opens_after_pace: "\<lbrakk>gt t a = (Some ''PACE_WAIT'', a'); t + pace a * 1000000 \<le> t'; day t' = day t\<rbrakk>
      \<Longrightarrow> fst (gt t' a') = None"
begin

lemma slot_opens:
  assumes clock: "reads_wall c \<longrightarrow> steady wall" and now: "n = fst (tick_now wall c)"
    and c2: "c2 = snd (tick_now wall (snd (tick_now wall c)))"
    and blocked: "fst (gt n a) = Some ''PACE_WAIT''"
    and waits: "tc_pace_waits c < MAX_INTRA_TICK_PACE_WAITS"
    and room: "fst (elapsed_tick wall (snd (tick_now wall c))) + tc_pace_seconds c * 1000000 \<le> tc_wall_budget c * 1000000"
    and pace: "pace a \<le> tc_pace_seconds c" "0 \<le> tc_pace_seconds c"
    and today: "day (fst (tick_now wall (advance_pace_wait c2))) = day n"
  shows "slot_code (wait_for_provider_slot wall gt c a) = None"
    and "tc_pace_waits (slot_context (wait_for_provider_slot wall gt c a)) = Suc (tc_pace_waits c)"
proof -
  obtain a' where g: "gt n a = (Some ''PACE_WAIT'', a')" using blocked by (cases "gt n a") simp
  let ?n' = "fst (tick_now wall (advance_pace_wait c2))"
  have le: "fst (tick_now wall x) \<le> fst (tick_now wall (snd (tick_now wall x)))" if "reads_wall x = reads_wall c" for x
    using next_reading(1,2) [where c = x and wall = wall] clock that by (cases "reads_wall c") auto
  have "fst (tick_now wall c2) + tc_pace_seconds c2 * 1000000 \<le> ?n'"
    using reading_after_sleep(1,2) [where c = c2 and wall = wall] clock pace(2) by (cases "reads_wall c") (auto simp: c2)
  then have "n + pace a * 1000000 \<le> ?n'"
    using le [of c] le [of "snd (tick_now wall c)"] pace(1) by (simp add: now c2)
  then have "fst (gt ?n' a') = None" by (rule opens_after_pace [OF g _ today])
  then have "wait_for_provider_slot wall gt (advance_pace_wait c2) a'
      = (None, snd (tick_now wall (advance_pace_wait c2)), snd (gt ?n' a'))"
    by (subst wait_for_provider_slot.simps) (simp add: Let_def)
  then have "wait_for_provider_slot wall gt c a = (None, snd (tick_now wall (advance_pace_wait c2)), snd (gt ?n' a'))"
    using waits room by (subst wait_for_provider_slot.simps) (simp add: Let_def g now [symmetric] c2)
  then show "slot_code (wait_for_provider_slot wall gt c a) = None"
    and "tc_pace_waits (slot_context (wait_for_provider_slot wall gt c a)) = Suc (tc_pace_waits c)" by (simp_all add: c2)
qed

end

lemma gate_pace_wait:
  assumes "gate calls credits raw t s ac = (Some ''PACE_WAIT'', ac')"
  shows "contract_holds (ac_budgets ac)
     \<and> list_all (\<lambda>d. \<not> passed d) (local_dimensions calls credits raw (refresh_day t s ac))
     \<and> shared_allows calls credits (ac_activation ac) (utc_day t) s \<and> pace_wait t (refresh_day t s ac)"
    and "ac' = (refresh_day t s ac)\<lparr>ac_now := t, ac_last_denial := None,
      ac_account := account_budget_binding (ac_activation ac) s\<rparr>"
proof -
  let ?ac = "(refresh_day t s ac)\<lparr>ac_now := t, ac_last_denial := None\<rparr>"
  have l: "local_dimensions calls credits raw ?ac = local_dimensions calls credits raw (refresh_day t s ac)"
    by (simp add: local_dimensions_def Let_def)
  have denied: "fst (shared_gate calls credits s ?ac) \<noteq> Some ''PACE_WAIT''"
    by (auto simp: shared_gate_def deny_def Let_def split: budget_binding.splits option.splits prod.splits)
  have split: "contract_holds (ac_budgets ac) \<and> first_passed (local_dimensions calls credits raw ?ac) = None
      \<and> fst (shared_gate calls credits s ?ac) = None \<and> ac' = snd (shared_gate calls credits s ?ac)
      \<and> pace_wait t (snd (shared_gate calls credits s ?ac))"
    using assms denied unfolding gate_def Let_def
    by (cases "shared_gate calls credits s ?ac")
      (auto simp: deny_def contract_holds_def split: if_splits option.splits prod.splits)
  then show "ac' = (refresh_day t s ac)\<lparr>ac_now := t, ac_last_denial := None,
      ac_account := account_budget_binding (ac_activation ac) s\<rparr>"
    using shared_gate_result [of calls credits s ?ac] by simp
  then show "contract_holds (ac_budgets ac)
     \<and> list_all (\<lambda>d. \<not> passed d) (local_dimensions calls credits raw (refresh_day t s ac))
     \<and> shared_allows calls credits (ac_activation ac) (utc_day t) s \<and> pace_wait t (refresh_day t s ac)"
    using split unfolding l first_passed_None shared_gate_opens by (auto simp: pace_wait_def split: option.splits)
qed

interpretation paced: pacing_gate "\<lambda>t ac. gate calls credits raw t s ac" "\<lambda>ac. bg_pace_seconds (ac_budgets ac)" utc_day
proof
  fix t t' ac ac'
  assume g: "gate calls credits raw t s ac = (Some ''PACE_WAIT'', ac')"
    and later: "t + bg_pace_seconds (ac_budgets ac) * 1000000 \<le> t'" and today: "utc_day t' = utc_day t"
  note r = gate_pace_wait [OF g]
  have same: "refresh_day t' s ac' = ac'" using today by (simp add: r(2) refresh_day_def [of t' s])
  have "local_dimensions calls credits raw ac' = local_dimensions calls credits raw (refresh_day t s ac)"
    by (simp add: r(2) local_dimensions_def Let_def)
  moreover have "\<not> pace_wait t' ac'"
    using later r(1) by (auto simp: r(2) pace_wait_def split: option.splits)
  ultimately show "fst (gate calls credits raw t' s ac') = None"
    unfolding gate_opens_iff same using r today by simp
qed

text \<open>C32: a paced slot opens, on the wall clock as on the others: when only the pace holds a call back, fewer
  than \<open>MAX_INTRA_TICK_PACE_WAITS\<close> waits are spent, the context sleeps at least the pace of the budget, the
  sleep fits in what the tick has left, and the reading after it is of the same UTC day,
  \<open>wait_for_provider_slot\<close> on the accounting's gate lets the call through after exactly one wait. Of the
  wall clock it takes that it does not go back and that a sleep lasts its length (\<open>steady\<close>).\<close>

theorem paced_slot_opens:
  assumes "reads_wall c \<Longrightarrow> steady wall"
    and "fst (gate calls credits raw (fst (tick_now wall c)) s ac) = Some ''PACE_WAIT''"
    and "tc_pace_waits c < MAX_INTRA_TICK_PACE_WAITS"
    and "fst (elapsed_tick wall (snd (tick_now wall c))) + tc_pace_seconds c * 1000000 \<le> tc_wall_budget c * 1000000"
    and "bg_pace_seconds (ac_budgets ac) \<le> tc_pace_seconds c" and "0 \<le> tc_pace_seconds c"
    and "utc_day (fst (tick_now wall (advance_pace_wait (snd (tick_now wall (snd (tick_now wall c)))))))
      = utc_day (fst (tick_now wall c))"
  shows "slot_code (wait_for_provider_slot wall (\<lambda>t ac. gate calls credits raw t s ac) c ac) = None
    \<and> tc_pace_waits (slot_context (wait_for_provider_slot wall (\<lambda>t ac. gate calls credits raw t s ac) c ac))
        = Suc (tc_pace_waits c)"
  using paced.slot_opens [OF _ refl refl assms(2-7)] assms(1) by blast

lemma demo_paced:
  "fst (gate 1 1 1 1000000 demo_ops (noted 0 1 0 True (new_accounting (''d'', ''a'') demo_budgets 0 demo_ops))) = Some ''PACE_WAIT''"
  by (simp add: gate_def shared_gate_def first_passed_def noted_def utc_day_def budget_eval)

lemma paced_slot_opens_witness:
  "slot_code (wait_for_provider_slot demo_wall (\<lambda>t ac. gate 1 1 1 t demo_ops ac) demo_wall_tick
     (noted 0 1 0 True (new_accounting (''d'', ''a'') demo_budgets 0 demo_ops))) = None"
proof -
  have tick: "fst (tick_now demo_wall demo_wall_tick) = 1000000" "tc_pace_waits demo_wall_tick = 0"
    "tc_pace_seconds demo_wall_tick = 3" "tc_wall_budget demo_wall_tick = 55"
    "fst (elapsed_tick demo_wall (snd (tick_now demo_wall demo_wall_tick))) = 1000400"
    "fst (tick_now demo_wall (advance_pace_wait (snd (tick_now demo_wall (snd (tick_now demo_wall demo_wall_tick)))))) = 4001500"
    by (simp_all add: demo_tick_def demo_wall_tick_def tick_now_def elapsed_tick_def advance_pace_wait_def)
  have pace: "bg_pace_seconds (ac_budgets (noted 0 1 0 True (new_accounting (''d'', ''a'') demo_budgets 0 demo_ops))) = 3"
    by (simp add: noted_def new_accounting_def demo_budgets_def)
  show ?thesis
    using paced_slot_opens [of demo_wall_tick demo_wall 1 1 1 demo_ops
        "noted 0 1 0 True (new_accounting (''d'', ''a'') demo_budgets 0 demo_ops)"] demo_paced demo_wall_laws(2)
    by (simp add: tick pace MAX_INTRA_TICK_PACE_WAITS_def utc_day_def)
qed

subsection \<open>After a completion\<close>

text \<open>A completed call frees the next slot: on the logical clock, after \<open>record_provider_completion\<close> of a call
  that completed at \<open>t\<close>, the context's next instant is at least its pace after \<open>t\<close>, so the accounting's gate
  never answers \<open>PACE_WAIT\<close> there on the same day.\<close>

theorem completion_frees_the_slot:
  assumes "record_provider_completion wall token raw credits (Some t) reserved c s ac = Inr (c', ac', s')"
    and "tc_injectable c = None" and "bg_pace_seconds (ac_budgets ac) \<le> tc_pace_seconds c"
    and "utc_day (fst (tick_now wall c')) = utc_day t"
  shows "t + tc_pace_seconds c * 1000000 \<le> fst (tick_now wall c')
    \<and> fst (gate calls credits' raw' (fst (tick_now wall c')) s'' ac') \<noteq> Some ''PACE_WAIT''"
proof -
  have c': "c' = c\<lparr>tc_completions := Suc (tc_completions c),
      tc_logical_offset := max (tc_logical_offset c) (t - tc_tick_start c + tc_pace_seconds c * 1000000)\<rparr>"
    and ac': "ac' = noted raw credits t (\<not> reserved) (refresh_day t s ac)"
    using assms(1,2) by (auto simp: record_provider_completion_def note_call_def bindR_eq_Inr Let_def)
  have later: "t + tc_pace_seconds c * 1000000 \<le> fst (tick_now wall c')"
    using assms(2) by (simp add: c' tick_now_def)
  have "\<not> pace_wait n (refresh_day n s'' ac')" if "n = fst (tick_now wall c')" for n
  proof -
    have same: "refresh_day n s'' ac' = ac'"
    proof -
      have "utc_day n = ac_utc_day ac'" using assms(4) that by (simp add: ac' noted_def)
      then show ?thesis by (simp add: refresh_day_def)
    qed
    show ?thesis
      unfolding same using later assms(3) that by (simp add: pace_wait_def ac' noted_def)
  qed
  then show ?thesis
    using later gate_pace_wait(1) by (metis prod.collapse)
qed

lemma completion_frees_the_slot_witness:
  "\<exists>c' ac' s'. record_provider_completion (\<lambda>n. 0) None 0 1 (Some 0) False (demo_tick\<lparr>tc_injectable := None\<rparr>) demo_ops
       (new_accounting (''d'', ''a'') demo_budgets 0 demo_ops) = Inr (c', ac', s')
     \<and> fst (gate 1 1 1 (fst (tick_now (\<lambda>n. 0) c')) s' ac') \<noteq> Some ''PACE_WAIT''"
proof -
  let ?c = "demo_tick\<lparr>tc_injectable := None\<rparr>" and ?ac = "new_accounting (''d'', ''a'') demo_budgets 0 demo_ops"
  have "require_write_lease None 0 demo_ops = Inr demo_ops"
    by (simp add: require_write_lease_def require_writable_def demo_ops_def)
  then obtain c' ac' s' where r: "record_provider_completion (\<lambda>n. 0) None 0 1 (Some 0) False ?c demo_ops ?ac = Inr (c', ac', s')"
    and c': "c' = ?c\<lparr>tc_completions := 1, tc_logical_offset := 3000000\<rparr>"
    by (simp add: record_provider_completion_def note_call_def save_call_debit_def Let_def demo_tick_def)
  have "utc_day (fst (tick_now (\<lambda>n. 0) c')) = utc_day 0"
    by (simp add: c' tick_now_def utc_day_def demo_tick_def)
  then have "fst (gate 1 1 1 (fst (tick_now (\<lambda>n. 0) c')) s' ac') \<noteq> Some ''PACE_WAIT''"
    using completion_frees_the_slot [OF r, of 1 1 1 s'] by (simp add: demo_tick_def new_accounting_def demo_budgets_def)
  then show ?thesis using r by blast
qed

subsection \<open>The clock that never moved\<close>

lemma legacy_loop_starves:
  assumes "0 < pace"
  shows "sv_terminal (legacy_loop pace m waits offset trace) = ''PACE_WAIT''
    \<and> sv_pace_waits (legacy_loop pace m waits offset trace) = max waits (nat m)
    \<and> sv_offset_seconds (legacy_loop pace m waits offset trace) = Some (offset + int (nat m - waits) * pace)
    \<and> length (sv_trace (legacy_loop pace m waits offset trace)) = length trace + (nat m - waits) + 3"
  using assms
proof (induction pace m waits offset trace rule: legacy_loop.induct)
  case (1 pace m waits offset trace)
  show ?case
  proof (cases "m \<le> int waits")
    case True
    then have "legacy_loop pace m waits offset trace = \<lparr>sv_terminal = ''PACE_WAIT'', sv_pace_waits = waits,
        sv_offset_seconds = Some offset,
        sv_trace = trace @ [''MAX_INTRA_TICK_PACE_WAITS'', ''RETURN_PACE_WAIT'', ''SEARCH_PROVIDER_CALL_NEVER'']\<rparr>"
      using 1(2) by (subst legacy_loop.simps) simp
    moreover have "nat m \<le> waits" using True by simp
    ultimately show ?thesis by simp
  next
    case False
    then have "nat m - waits = Suc (nat m - Suc waits)" "max waits (nat m) = max (Suc waits) (nat m)" by linarith+
    moreover have "legacy_loop pace m waits offset trace
        = legacy_loop pace m (Suc waits) (offset + pace) (trace @ [''LOGICAL_OFFSET_BUMP_'' @ digits_of (Suc waits)])"
      using 1(2) False by (subst legacy_loop.simps) simp
    ultimately show ?thesis using 1 False by (simp add: algebra_simps)
  qed
qed

text \<open>The clock without a sleep starves: with a frozen clock and a positive pace the earlier loop spends every
  wait it has, moves only an offset that no reading uses, and ends in \<open>PACE_WAIT\<close> without a provider call;
  and a bare callable is refused as a clock of a tick context.\<close>

theorem bare_clock_starves:
  assumes "0 < pace"
  shows "sv_terminal (legacy_bare_callable_pace_starvation_terminal pace m) = ''PACE_WAIT''
    \<and> sv_pace_waits (legacy_bare_callable_pace_starvation_terminal pace m) = nat m
    \<and> sv_offset_seconds (legacy_bare_callable_pace_starvation_terminal pace m) = Some (int (nat m) * pace)
    \<and> new_tick_context t pace' (Some BareCallable) budget = Inl (ClockSleepRequiredError ''CLOCK_SLEEP_REQUIRED'')"
  using legacy_loop_starves [OF assms, of m 0 0]
  by (simp add: legacy_bare_callable_pace_starvation_terminal_def new_tick_context_def)

lemma bare_clock_starves_witness:
  "sv_terminal (legacy_bare_callable_pace_starvation_terminal 3 20) = ''PACE_WAIT''
   \<and> sv_pace_waits (legacy_bare_callable_pace_starvation_terminal 3 20) = 20
   \<and> sv_offset_seconds (legacy_bare_callable_pace_starvation_terminal 3 20) = Some 60"
  using bare_clock_starves [of 3 20] by simp

subsection \<open>How many calls a tick holds\<close>

text \<open>The calls of a tick fit in it: with at least one claim allowed, a tick has between one call and the claims
  allowed; more than one only if all of them, paced, fit in the wall budget, so the default budget never needs
  more waits than \<open>MAX_INTRA_TICK_PACE_WAITS\<close>; and the due calls with the reserve for source polls (no
  more than the tick holds) are exactly the calls of the tick.\<close>

theorem tick_calls_fit:
  assumes "1 \<le> claims"
  shows "1 \<le> max_provider_calls_per_tick pace budget claims \<and> max_provider_calls_per_tick pace budget claims \<le> claims
    \<and> (max_provider_calls_per_tick pace budget claims = 1
       \<or> max_provider_calls_per_tick pace budget claims * max FREE_TIER_MIN_PACE_SECONDS pace \<le> budget)
    \<and> max_provider_calls_per_tick pace DEFAULT_TICK_WALL_BUDGET_SECONDS claims \<le> int MAX_INTRA_TICK_PACE_WAITS
    \<and> usable_due_calls_per_tick pace period cadence budget claims
        + min (max_provider_calls_per_tick pace budget claims) (reserved_source_poll_calls period cadence)
        = max_provider_calls_per_tick pace budget claims"
proof -
  define p where "p = max FREE_TIER_MIN_PACE_SECONDS pace"
  have p: "3 \<le> p" by (simp add: p_def FREE_TIER_MIN_PACE_SECONDS_def)
  have m: "max_provider_calls_per_tick pace b claims = min claims (max 1 (b div p))" for b
    by (simp add: max_provider_calls_per_tick_def Let_def p_def)
  have fit: "(b div p) * p \<le> b" for b
    using p by (metis div_mult_mod_eq le_add_same_cancel1 pos_mod_sign less_le_trans zero_less_numeral)
  have "min claims (max 1 (budget div p)) = 1 \<or> min claims (max 1 (budget div p)) * p \<le> budget"
  proof (cases "1 < budget div p")
    case True
    then have "min claims (max 1 (budget div p)) * p \<le> (budget div p) * p" using p by (intro mult_right_mono) auto
    then show ?thesis using fit [of budget] by linarith
  qed (use assms in auto)
  moreover have "55 div p \<le> 55 div 3" using p by (intro zdiv_mono2) auto
  then have "min claims (max 1 (DEFAULT_TICK_WALL_BUDGET_SECONDS div p)) \<le> int MAX_INTRA_TICK_PACE_WAITS"
    by (simp add: DEFAULT_TICK_WALL_BUDGET_SECONDS_def MAX_INTRA_TICK_PACE_WAITS_def)
  ultimately show ?thesis
    unfolding m p_def [symmetric] using assms by (auto simp: usable_due_calls_per_tick_def Let_def m)
qed

lemma tick_calls_fit_witness:
  "usable_due_calls_per_tick 3 60 60 55 60 = 17 \<and> max_provider_calls_per_tick 3 55 60 = 18
   \<and> max_provider_calls_per_tick 3 55 60 * 3 \<le> 55"
  using tick_calls_fit [of 60 3 55 60 60]
  by (simp add: usable_due_calls_per_tick_def max_provider_calls_per_tick_def reserved_source_poll_calls_def Let_def
      FREE_TIER_MIN_PACE_SECONDS_def)

end
