(* ===== verification/PaperWitness.thy ===== *)
theory PaperWitness
  imports RuntimePolicy PaperAdmission PyTime
begin

section \<open>Witnesses of modelled results\<close>

text \<open>
  The validators of \<open>factory/paper_plane.py\<close> that trust nothing a row says before the original
  events prove it: \<open>modeled_final_witness_valid\<close> for an attempt, its result and its final event, and
  \<open>_native_legacy_entry_witness_valid\<close> for an entry that was filled without an attempt. Both catch every
  exception that can occur and answer False, so a check that raises is a check that fails
  (\<open>holds\<close>). \<open>canonical_spec_sha256\<close> is the parameter \<open>spec_sha\<close>.
\<close>

definition holds :: "bool res \<Rightarrow> bool" where
  "holds r = (case r of Inr b \<Rightarrow> b | Inl e \<Rightarrow> False)"

lemma holds_simps [simp]:
  "holds (Inr b) = b"
  "holds (Inl e) = False"
  by (simp_all add: holds_def)

lemma holds_bind: "holds (bindR m f) \<longleftrightarrow> (\<exists>x. m = Inr x \<and> holds (f x))"
  by (cases m) simp_all

text \<open>\<open>a and b\<close>, \<open>b\<close> evaluated only when \<open>a\<close> holds.\<close>

definition andR :: "bool \<Rightarrow> bool res \<Rightarrow> bool res" where
  "andR a b = (if a then b else Inr False)"

lemma holds_andR [simp]: "holds (andR a b) \<longleftrightarrow> a \<and> holds b"
  by (simp add: andR_def)

text \<open>\<open>_positive_model_decimal\<close> on a JSON value.\<close>

definition model_amount :: "jval \<Rightarrow> string \<Rightarrow> bool \<Rightarrow> decimal res" where
  "model_amount v code allow_zero =
     (case jdecimal v of Inl e \<Rightarrow> Inl (PaperPlaneError code)
      | Inr amount \<Rightarrow>
          if \<not> dec_is_finite amount \<or> dec_less amount dec_zero \<or> \<not> allow_zero \<and> dec_eq amount dec_zero
          then Inl (PaperPlaneError code) else Inr amount)"

definition column_amount :: "string option \<Rightarrow> string \<Rightarrow> bool \<Rightarrow> decimal res" where
  "column_amount t = positive_model_decimal (str_or_None t)"

text \<open>\<open>(x / y).quantize(Decimal("0.00000001"), ROUND_HALF_UP)\<close>.\<close>

definition units_of :: "decimal \<Rightarrow> decimal \<Rightarrow> decimal res" where
  "units_of notional price = bindR (dec_div notional price) (dec_quantize (- 8))"

subsection \<open>Instants of events\<close>

text \<open>\<open>_parse_utc\<close>: the instant, and whether it has an offset; only such two of a kind compare.\<close>

definition clock_of :: "string \<Rightarrow> (int \<times> bool) res" where
  "clock_of t = (case parse_iso (replace_Z t) of
       None \<Rightarrow> Inl PyValueError
     | Some (m, None) \<Rightarrow> Inr (m, False)
     | Some (m, Some off) \<Rightarrow> Inr (m - off * 60000000, True))"

definition clock_before :: "string \<Rightarrow> string \<Rightarrow> bool res" where
  "clock_before a b = bindR (clock_of a) (\<lambda>(x, xa). bindR (clock_of b) (\<lambda>(y, ya).
     if xa = ya then Inr (x < y) else Inl PyTypeError))"

subsection \<open>Reading events\<close>

definition payload_of :: "event \<Rightarrow> dict option" where
  "payload_of ev = (case e_payload ev of Some (JObj d) \<Rightarrow> Some d | _ \<Rightarrow> None)"

definition jobj_of :: "jval \<Rightarrow> dict option" where
  "jobj_of v = (case v of JObj d \<Rightarrow> Some d | _ \<Rightarrow> None)"

definition NONFILL_OUTCOMES :: "string list" where
  "NONFILL_OUTCOMES = [''NO_ROUTE'', ''REJECTED_BEFORE_SEND'', ''DROPPED_OR_EXPIRED_NOT_PROCESSED'', ''LANDED_FAILED'']"

definition POSITIVE_OUTCOMES :: "string list" where
  "POSITIVE_OUTCOMES = [''LANDED_SUCCESS'', ''PARTIAL'']"

definition RESULT_OUTCOMES :: "string list" where
  "RESULT_OUTCOMES = NONFILL_OUTCOMES @ POSITIVE_OUTCOMES @ [''UNKNOWN_REQUIRES_RECONCILIATION'']"

definition RESULT_KEYS :: "string list" where
  "RESULT_KEYS = [''attempt_id'', ''result_id'', ''outcome'', ''observed_at'', ''unit_price_usd'', ''filled_notional_usd'',
     ''chargeable_cost_usd'']"

definition QUANTITY_KEYS :: "string list" where
  "QUANTITY_KEYS = [''schema_version'', ''quantity_filled'', ''quantity_sold'', ''quantity_unit'', ''remaining_quantity'',
     ''fee_semantics'']"

definition result_keys_ok :: "dict \<Rightarrow> bool" where
  "result_keys_ok result =
     fBall (fmdom result) (\<lambda>k. k \<in> set RESULT_KEYS
       \<or> jget result ''schema_version'' = JStr ''1.1'' \<and> k \<in> set QUANTITY_KEYS)"

definition result_version :: "dict \<Rightarrow> jval" where
  "result_version result = (case fmlookup result ''schema_version'' of None \<Rightarrow> JStr ''1.0'' | Some v \<Rightarrow> v)"

text \<open>The identifiers an attempt and a result are stored under.\<close>

definition ATTEMPT_IDENTITY :: "string list" where
  "ATTEMPT_IDENTITY = [''position_id'', ''side'', ''mode'', ''attempt_key'']"

definition attempt_id_of :: "(jval \<Rightarrow> string) \<Rightarrow> dict \<Rightarrow> string" where
  "attempt_id_of spec_sha body =
     ''ATTEMPT-'' @ map upper_char (spec_sha (JObj (dict_of (map (\<lambda>k. (k, jget body k)) ATTEMPT_IDENTITY))))"

definition result_id_of :: "(jval \<Rightarrow> string) \<Rightarrow> jval \<Rightarrow> string" where
  "result_id_of spec_sha rid = ''RESULT-'' @ map upper_char (spec_sha (JObj (dict_of [(''result_id'', rid)])))"

definition attempt_evidence :: "string \<Rightarrow> string" where
  "attempt_evidence mode = (if mode = ''PAPER'' then ''PAPER_MODEL'' else ''SHADOW_QUOTE_MODEL'')"

subsection \<open>The attempt, its result and its final event\<close>

definition result_id_ok :: "jval \<Rightarrow> bool" where
  "result_id_ok v = (case v of JStr t \<Rightarrow> 0 < length t \<and> length t \<le> 120 | _ \<Rightarrow> False)"

definition same_owner :: "event \<Rightarrow> dict \<Rightarrow> event \<Rightarrow> bool" where
  "same_owner attempt body ev = (jtext (e_position ev) = jget body ''position_id'' \<and> e_bot ev = e_bot attempt)"

definition identity_witness ::
  "(jval \<Rightarrow> string) \<Rightarrow> string \<Rightarrow> event \<Rightarrow> dict \<Rightarrow> event option \<Rightarrow> event \<Rightarrow> dict \<Rightarrow> dict \<Rightarrow> bool" where
  "identity_witness spec_sha mode attempt body final accepted payload result =
     (let aid = attempt_id_of spec_sha body; rid = result_id_of spec_sha (jget result ''result_id'') in
      list_all (\<lambda>k. k |\<in>| fmdom body) ATTEMPT_IDENTITY
      \<and> mode \<in> {''PAPER'', ''SHADOW''} \<and> jget body ''mode'' = JStr mode \<and> json_text_in (jget body ''side'') [''ENTRY'', ''EXIT'']
      \<and> e_type attempt = ''MODELED_ATTEMPT_STARTED'' \<and> e_id attempt = aid \<and> jget body ''attempt_id'' = JStr aid
      \<and> e_type accepted = ''MODELED_RESULT_ACCEPTED'' \<and> e_id accepted = rid
      \<and> jget result ''attempt_id'' = JStr aid \<and> json_text_in (jget result ''outcome'') RESULT_OUTCOMES
      \<and> list_all (same_owner attempt body) (case final of None \<Rightarrow> [accepted] | Some f \<Rightarrow> [f, accepted])
      \<and> jtext (e_position attempt) = jget body ''position_id''
      \<and> jget payload ''evidence_class'' = jget body ''evidence_class''
      \<and> jget body ''evidence_class'' = JStr (attempt_evidence mode)
      \<and> result_id_ok (jget result ''result_id'')
      \<and> JStr (e_created_at attempt) = jget body ''as_of'' \<and> JStr (e_created_at accepted) = jget result ''observed_at''
      \<and> holds (bindR (clock_before (e_created_at accepted) (e_created_at attempt)) (\<lambda>early. Inr (\<not> early)))
      \<and> result_version result \<in> {JStr ''1.0'', JStr ''1.1''})"

definition final_witness :: "string \<Rightarrow> string \<Rightarrow> event option \<Rightarrow> dict \<Rightarrow> dict \<Rightarrow> bool" where
  "final_witness aid rid final terminal result =
     (case final of None \<Rightarrow> True
      | Some f \<Rightarrow> jget result ''outcome'' \<noteq> JStr ''UNKNOWN_REQUIRES_RECONCILIATION''
          \<and> e_type f = ''MODELED_ATTEMPT_FINAL'' \<and> e_id f = ''FINAL-'' @ aid
          \<and> JStr (e_created_at f) = jget result ''observed_at''
          \<and> terminal = dict_of ([(''outcome'', jget result ''outcome''), (''result_event_id'', JStr rid)]
               @ (if result_version result = JStr ''1.1'' then [(''schema_version'', JStr ''1.1'')] else [])))"

definition cost_witness :: "dict \<Rightarrow> dict \<Rightarrow> bool" where
  "cost_witness payload result =
     (let cost = jget result ''chargeable_cost_usd'' in
      jget payload ''chargeable_cost_status'' = JStr (if cost \<noteq> JNull then ''KNOWN'' else ''UNKNOWN'')
      \<and> (cost = JNull \<or> returned (model_amount cost ''MODELED_RESULT_COST_INVALID'' True)))"

definition FILL_KEYS :: "string list" where
  "FILL_KEYS = [''unit_price_usd'', ''filled_notional_usd'', ''quantity_filled'', ''quantity_sold'', ''remaining_quantity'']"

text \<open>An entry agrees with the books of its position, where they are given.\<close>

definition entry_books_witness :: "position option \<Rightarrow> dict \<Rightarrow> decimal \<Rightarrow> decimal \<Rightarrow> bool res" where
  "entry_books_witness books result price notional =
     (case books of None \<Rightarrow> Inr True
      | Some p \<Rightarrow>
          bindR (column_amount (p_qty_dec p) ''MODELED_QUANTITY_INVALID'' False) (\<lambda>original_qty.
          bindR (column_amount (p_admitted_entry_notional_usd_dec p) ''MODELED_FILL_DETAILS_INVALID'' False) (\<lambda>admitted.
          bindR (column_amount (p_entry_price_dec p) ''MODELED_FILL_DETAILS_INVALID'' False) (\<lambda>entry_price.
          andR (dec_eq price entry_price)
         (bindR (column_amount (p_entered_notional_usd_dec p) ''MODELED_FILL_DETAILS_INVALID'' False) (\<lambda>entered.
          andR (dec_eq notional entered \<and> \<not> dec_less admitted notional
                \<and> (jget result ''outcome'' = JStr ''PARTIAL'') = dec_less notional admitted)
         (bindR (if result_version result = JStr ''1.1''
                 then model_amount (jget result ''quantity_filled'') ''MODELED_QUANTITY_INVALID'' False
                 else units_of notional price) (\<lambda>quantity.
          Inr (dec_eq quantity original_qty
               \<and> (result_version result \<noteq> JStr ''1.1''
                  \<or> jget result ''fee_semantics'' = jtext (p_entry_fee_semantics p)))))))))))"

text \<open>\<open>legacy_original_quantity\<close>: a number, or the text of a column.\<close>

datatype original_quantity = QuantityNumber decimal | QuantityText string

fun original_amount :: "original_quantity \<Rightarrow> decimal res" where
  "original_amount (QuantityText t) = positive_model_decimal t ''MODELED_QUANTITY_INVALID'' False"
| "original_amount (QuantityNumber x) =
     (if \<not> dec_is_finite x \<or> dec_less x dec_zero \<or> dec_eq x dec_zero
      then Inl (PaperPlaneError ''MODELED_QUANTITY_INVALID'') else Inr x)"

definition legacy_witness :: "original_quantity option \<Rightarrow> dict \<Rightarrow> decimal \<Rightarrow> decimal \<Rightarrow> bool res" where
  "legacy_witness legacy result price notional =
     (case legacy of
        Some q \<Rightarrow> if result_version result = JStr ''1.0''
          then bindR (original_amount q) (\<lambda>original. bindR (units_of notional price) (\<lambda>x. Inr (dec_eq x original)))
          else Inr True
      | None \<Rightarrow> Inr True)"

definition accounting_keys_ok :: "dict \<Rightarrow> bool" where
  "accounting_keys_ok result =
     (jget result ''quantity_unit'' = JStr ''TOKEN_UNITS'' \<and> json_text_in (jget result ''fee_semantics'') FEE_SEMANTICS)"

definition entry_witness ::
  "original_quantity option \<Rightarrow> position option \<Rightarrow> dict \<Rightarrow> decimal \<Rightarrow> bool res" where
  "entry_witness legacy books result price =
     bindR (model_amount (jget result ''filled_notional_usd'') ''MODELED_FILL_DETAILS_INVALID'' False) (\<lambda>notional.
     bindR (entry_books_witness books result price notional) (\<lambda>booked.
     andR booked
    (bindR (legacy_witness legacy result price notional) (\<lambda>derived.
     andR derived
    (if result_version result \<noteq> JStr ''1.1'' then Inr True
     else andR (accounting_keys_ok result)
         (bindR (model_amount (jget result ''quantity_filled'') ''MODELED_QUANTITY_INVALID'' False) (\<lambda>quantity.
          andR (fmlookup result ''quantity_sold'' = None \<and> fmlookup result ''remaining_quantity'' = None)
         (bindR (bindR (dec_mul price quantity) cents) (\<lambda>a. bindR (cents notional) (\<lambda>b. Inr (dec_eq a b)))))))))))"

text \<open>An exit sells from the quantity its attempt reserved, or from the original quantity.\<close>

definition reserved_quantity :: "original_quantity option \<Rightarrow> dict \<Rightarrow> decimal res" where
  "reserved_quantity legacy body =
     (if jget body ''remaining_quantity'' = JNull
      then if fmlookup body ''quantity_unit'' \<noteq> None then Inl PyValueError
           else (case legacy of None \<Rightarrow> Inl (PaperPlaneError ''MODELED_QUANTITY_INVALID'') | Some q \<Rightarrow> original_amount q)
      else if jget body ''quantity_unit'' \<noteq> JStr ''TOKEN_UNITS'' then Inl PyValueError
      else model_amount (jget body ''remaining_quantity'') ''MODELED_QUANTITY_INVALID'' False)"

definition exit_witness :: "original_quantity option \<Rightarrow> dict \<Rightarrow> dict \<Rightarrow> bool res" where
  "exit_witness legacy body result =
     (if result_version result \<noteq> JStr ''1.1''
      then Inr (jget result ''outcome'' = JStr ''LANDED_SUCCESS'' \<and> jget result ''filled_notional_usd'' = JNull)
      else andR (accounting_keys_ok result)
          (bindR (model_amount (jget result ''quantity_sold'') ''MODELED_QUANTITY_INVALID'' False) (\<lambda>quantity.
           andR (fmlookup result ''quantity_filled'' = None \<and> fmlookup result ''filled_notional_usd'' = None)
          (bindR (model_amount (jget result ''remaining_quantity'') ''MODELED_QUANTITY_INVALID'' True) (\<lambda>remainder.
           bindR (reserved_quantity legacy body) (\<lambda>original.
           bindR (dec_add quantity remainder) (\<lambda>both.
             Inr (dec_eq both original \<and> (jget result ''outcome'' = JStr ''PARTIAL'') = dec_less dec_zero remainder))))))))"

definition fill_witness :: "original_quantity option \<Rightarrow> position option \<Rightarrow> dict \<Rightarrow> dict \<Rightarrow> bool" where
  "fill_witness legacy books body result =
     (if \<not> json_text_in (jget result ''outcome'') POSITIVE_OUTCOMES
      then list_all (\<lambda>k. jget result k = JNull) FILL_KEYS
      else holds (bindR (model_amount (jget result ''unit_price_usd'') ''MODELED_FILL_DETAILS_INVALID'' False) (\<lambda>price.
        if jget body ''side'' = JStr ''ENTRY'' then entry_witness legacy books result price
        else exit_witness legacy body result)))"

definition modeled_final_witness_valid ::
  "(jval \<Rightarrow> string) \<Rightarrow> event \<Rightarrow> event option \<Rightarrow> event \<Rightarrow> string \<Rightarrow> original_quantity option \<Rightarrow> position option \<Rightarrow> bool" where
  "modeled_final_witness_valid spec_sha attempt final accepted mode legacy books =
     (case (payload_of attempt, case final of None \<Rightarrow> Some fmempty | Some f \<Rightarrow> payload_of f, payload_of accepted) of
        (Some body, Some terminal, Some payload) \<Rightarrow>
          (case jobj_of (jget payload ''result'') of
             None \<Rightarrow> False
           | Some result \<Rightarrow>
               result_keys_ok result \<and> fmdom payload = {|''result'', ''evidence_class'', ''chargeable_cost_status''|}
               \<and> identity_witness spec_sha mode attempt body final accepted payload result
               \<and> final_witness (attempt_id_of spec_sha body) (result_id_of spec_sha (jget result ''result_id'')) final
                   terminal result
               \<and> cost_witness payload result
               \<and> fill_witness legacy books body result)
      | _ \<Rightarrow> False)"

end
