(* ===== verification/PaperInventory.thy ===== *)
theory PaperInventory
  imports PaperWitness
begin

section \<open>Inventory proved from original events\<close>

text \<open>
  \<open>_native_legacy_entry_witness_valid\<close>, \<open>_native_legacy_inventory_witness_valid\<close> and
  \<open>_assert_quantity_inventory_witness\<close> of \<open>factory/paper_plane.py\<close>: what a position says it holds is
  recomputed from its attempts, results, native observations and quantity legs, and refused as
  \<open>EXIT_INVENTORY_WITNESS_CONFLICT\<close> when it differs anywhere. The fold over the exit attempts is
  \<open>witness_fold\<close>. Where the code reads \<open>Decimal(x)\<close> of a JSON number with a fraction the model reads
  its text; every writer stores texts there. A dictionary of events by identifier is the list of
  events, since identifiers are a primary key.
\<close>

definition CONFLICT :: py_error where
  "CONFLICT = PaperPlaneError ''EXIT_INVENTORY_WITNESS_CONFLICT''"

definition ENTRY_OBSERVED :: "string list" where
  "ENTRY_OBSERVED = [''PAPER_SIMULATION_OBSERVED'', ''SHADOW_EXECUTABLE_OBSERVED'']"

definition EXIT_OBSERVED :: "string list" where
  "EXIT_OBSERVED = [''PAPER_EXIT_OBSERVED'', ''SHADOW_EXIT_EXECUTABLE_OBSERVED'']"

definition events_of :: "string list \<Rightarrow> event list \<Rightarrow> event list" where
  "events_of types evs = filter (\<lambda>e. e_type e \<in> set types) evs"

definition event_by_id :: "string \<Rightarrow> string \<Rightarrow> event list \<Rightarrow> event option" where
  "event_by_id etype eid evs = List.find (\<lambda>e. e_type e = etype \<and> e_id e = eid) evs"

definition witness_amount :: "jval \<Rightarrow> bool \<Rightarrow> decimal res" where
  "witness_amount v = model_amount v ''EXIT_INVENTORY_WITNESS_CONFLICT''"

definition witness_column :: "string option \<Rightarrow> bool \<Rightarrow> decimal res" where
  "witness_column t = column_amount t ''EXIT_INVENTORY_WITNESS_CONFLICT''"

text \<open>\<open>Decimal(position[key]) == value\<close> and \<open>Decimal(payload[key]) == value\<close>.\<close>

definition column_equals :: "string option \<Rightarrow> decimal \<Rightarrow> bool res" where
  "column_equals t x = (case t of None \<Rightarrow> Inl PyTypeError | Some u \<Rightarrow> bindR (dec_of_string u) (\<lambda>y. py_dec_eq y x))"

definition raw_decimal :: "jval \<Rightarrow> decimal res" where
  "raw_decimal v = (case v of JStr t \<Rightarrow> dec_of_string t | JFloat t \<Rightarrow> dec_of_string t | JInt i \<Rightarrow> Inr (dec_of_int i)
     | JBool b \<Rightarrow> Inr (dec_of_int (if b then 1 else 0)) | _ \<Rightarrow> Inl PyTypeError)"

definition field_equals :: "dict \<Rightarrow> string \<Rightarrow> decimal \<Rightarrow> bool res" where
  "field_equals d k x = (case fmlookup d k of None \<Rightarrow> Inl PyKeyError
     | Some v \<Rightarrow> bindR (raw_decimal v) (\<lambda>y. py_dec_eq y x))"

fun allR :: "bool res list \<Rightarrow> bool res" where
  "allR [] = Inr True"
| "allR (c # cs) = bindR c (\<lambda>b. if b then allR cs else Inr False)"

lemma holds_allR: "holds (allR cs) \<longleftrightarrow> list_all holds cs"
proof (induction cs)
  case (Cons c cs)
  then show ?case by (cases c) auto
qed simp

subsection \<open>An entry filled without an attempt\<close>

definition native_entry_type :: "string \<Rightarrow> string" where
  "native_entry_type mode = (if mode = ''PAPER'' then ''PAPER_SIMULATION_OBSERVED'' else ''SHADOW_EXECUTABLE_OBSERVED'')"

definition native_exit_type :: "string \<Rightarrow> string" where
  "native_exit_type mode = (if mode = ''PAPER'' then ''PAPER_EXIT_OBSERVED'' else ''SHADOW_EXIT_EXECUTABLE_OBSERVED'')"

definition of_position :: "position \<Rightarrow> event \<Rightarrow> bool" where
  "of_position p ev = (e_position ev = Some (p_id p) \<and> e_bot ev = Some (p_bot p))"

text \<open>The columns of an entry against the original observation.\<close>

definition entry_columns_witness :: "position \<Rightarrow> dict \<Rightarrow> bool" where
  "entry_columns_witness p source =
     list_all (\<lambda>(column, key, zero). holds (bindR (witness_column column zero) (\<lambda>x.
         bindR (witness_amount (jget source key) zero) (\<lambda>y. Inr (dec_eq x y)))))
       [(p_qty_dec p, ''qty_dec'', False), (p_entry_price_dec p, ''entry_price_dec'', False),
        (p_entered_notional_usd_dec p, ''entry_gross_notional_usd_dec'', False),
        (p_entry_fee_usd_dec p, ''entry_fee_usd_dec'', True)]"

definition native_legacy_entry_witness_valid :: "position \<Rightarrow> event list \<Rightarrow> string \<Rightarrow> bool" where
  "native_legacy_entry_witness_valid p events mode =
     (mode \<in> {''PAPER'', ''SHADOW''} \<and> p_entry_fee_semantics p = None
      \<and> list_all (\<lambda>e. case payload_of e of None \<Rightarrow> False | Some d \<Rightarrow> jget d ''side'' \<noteq> JStr ''ENTRY'')
          (events_of [''MODELED_ATTEMPT_STARTED''] events)
      \<and> (case (events_of ENTRY_OBSERVED events, events_of [''EXECUTION_INTENT_CREATED''] events) of
           ([entry], [intent]) \<Rightarrow>
             (case (payload_of entry, payload_of intent) of
                (Some source, Some body) \<Rightarrow>
                  e_type entry = native_entry_type mode \<and> jget source ''side'' = JStr ''ENTRY''
                  \<and> jget source ''mode'' = JStr mode \<and> jget body ''mode'' = JStr mode
                  \<and> jget body ''signal_kind'' = JStr (if mode = ''PAPER'' then ''SIMULATED_FILL'' else ''SHADOW_EXECUTABLE'')
                  \<and> of_position p entry \<and> of_position p intent
                  \<and> identity_fields (jget source) = row_identity p \<and> jget body ''action'' = JStr ''ENTER''
                  \<and> fBall (fmdom (row_identity p)) (\<lambda>k. jget body k = jget (row_identity p) k)
                  \<and> entry_columns_witness p source
              | _ \<Rightarrow> False)
         | _ \<Rightarrow> False))"

text \<open>The exit of such a position, recomputed from its observation.\<close>

definition native_exit_witness :: "position \<Rightarrow> event \<Rightarrow> event \<Rightarrow> dict \<Rightarrow> string \<Rightarrow> bool res" where
  "native_exit_witness p entry ev payload mode =
     (if e_type ev \<noteq> native_exit_type mode \<or> \<not> of_position p ev \<or> jget payload ''side'' \<noteq> JStr ''EXIT''
         \<or> jget payload ''mode'' \<noteq> JStr mode \<or> identity_fields (jget payload) \<noteq> row_identity p
      then Inr False
      else
        bindR (clock_before (e_created_at ev) (e_created_at entry)) (\<lambda>early.
        andR (\<not> early \<and> p_state p = RECONCILED \<and> p_pnl_evidence_class p = Some (evidence_class mode))
       (bindR (witness_amount (jget payload ''exit_price_dec'') False) (\<lambda>price.
        bindR (witness_column (p_qty_dec p) False) (\<lambda>qty.
        bindR (witness_column (p_entered_notional_usd_dec p) False) (\<lambda>entered.
        bindR (witness_column (p_entry_fee_usd_dec p) True) (\<lambda>entry_fee.
        bindR (bindR (dec_mul price qty) cents) (\<lambda>proceeds.
        bindR (case p_fee_bps p of None \<Rightarrow> Inl PyTypeError | Some f \<Rightarrow> bound_entry_fee_bps p (Some f)) (\<lambda>bps.
        bindR (fee_of proceeds bps) (\<lambda>fee.
        bindR (bindR (dec_sub proceeds entered) cents) (\<lambda>gross.
        bindR (bindR (dec_sub gross entry_fee) (\<lambda>x. bindR (dec_sub x fee) cents)) (\<lambda>net.
          allR [field_equals payload ''exit_fee_usd_dec'' fee, field_equals payload ''realized_net_pnl_usd_dec'' net,
                column_equals (p_exit_price_dec p) price, column_equals (p_exit_fee_usd_dec p) fee,
                column_equals (p_exit_notional_usd_dec p) proceeds,
                column_equals (p_realized_gross_pnl_usd_dec p) gross,
                column_equals (p_realized_net_pnl_usd_dec p) net]))))))))))))"

definition native_legacy_inventory_witness_valid :: "position \<Rightarrow> event list \<Rightarrow> string \<Rightarrow> bool" where
  "native_legacy_inventory_witness_valid p events mode =
     (native_legacy_entry_witness_valid p events mode
      \<and> p_remaining_qty_dec p = None \<and> p_remaining_cost_basis_usd_dec p = None \<and> p_remaining_entry_fee_usd_dec p = None
      \<and> (case (events_of ENTRY_OBSERVED events, events_of EXIT_OBSERVED events) of
           ([entry], []) \<Rightarrow> p_state p \<noteq> RECONCILED
             \<and> list_all (\<lambda>c. c = None) [p_exit_price_dec p, p_exit_fee_usd_dec p, p_exit_notional_usd_dec p,
                  p_realized_gross_pnl_usd_dec p, p_realized_net_pnl_usd_dec p, p_pnl_evidence_class p]
         | ([entry], [ev]) \<Rightarrow>
             (case payload_of ev of None \<Rightarrow> False | Some payload \<Rightarrow> holds (native_exit_witness p entry ev payload mode))
         | _ \<Rightarrow> False))"

subsection \<open>Which positions keep quantities\<close>

definition schema_1_1 :: "dict option \<Rightarrow> bool" where
  "schema_1_1 d = (case d of None \<Rightarrow> False | Some x \<Rightarrow> jget x ''schema_version'' = JStr ''1.1'')"

definition result_of :: "event \<Rightarrow> dict option" where
  "result_of ev = Option.bind (payload_of ev) (\<lambda>d. jobj_of (jget d ''result''))"

definition quantitative :: "position \<Rightarrow> event list \<Rightarrow> bool \<Rightarrow> bool" where
  "quantitative p events force =
     (force \<or> p_entry_fee_semantics p \<noteq> None \<or> p_qty_dec p = None \<and> p_state p = CANCELLED
      \<or> p_qty_dec p \<noteq> None \<and> events_of [''MODELED_ATTEMPT_STARTED''] events \<noteq> []
      \<or> list_ex (\<lambda>e. e_type e = ''MODELED_EXIT_QUANTITY_LEG''
            \<or> e_type e = ''MODELED_ATTEMPT_FINAL'' \<and> schema_1_1 (payload_of e)
            \<or> e_type e = ''MODELED_RESULT_ACCEPTED'' \<and> schema_1_1 (result_of e)) events)"

definition inventory_evidence :: "position \<Rightarrow> event list \<Rightarrow> bool" where
  "inventory_evidence p events =
     (list_ex (\<lambda>c. c \<noteq> None) [p_entry_price_dec p, p_entered_notional_usd_dec p, p_entry_fee_usd_dec p,
          p_remaining_qty_dec p, p_remaining_cost_basis_usd_dec p, p_remaining_entry_fee_usd_dec p]
      \<or> events_of (ENTRY_OBSERVED @ EXIT_OBSERVED) events \<noteq> [])"

subsection \<open>A position that never held anything\<close>

definition side_of :: "event \<Rightarrow> jval option" where
  "side_of ev = Option.bind (payload_of ev) (\<lambda>d. fmlookup d ''side'')"

text \<open>The attempt a result belongs to, and the result a final event names.\<close>

definition attempt_of_result :: "event list \<Rightarrow> event \<Rightarrow> event option" where
  "attempt_of_result events accepted =
     (case result_of accepted of None \<Rightarrow> None
      | Some result \<Rightarrow> (case jget result ''attempt_id'' of
          JStr aid \<Rightarrow> event_by_id ''MODELED_ATTEMPT_STARTED'' aid events | _ \<Rightarrow> None))"

definition result_of_final :: "event list \<Rightarrow> event \<Rightarrow> event option" where
  "result_of_final events final =
     (case payload_of final of None \<Rightarrow> None
      | Some terminal \<Rightarrow> (case jget terminal ''result_event_id'' of
          JStr rid \<Rightarrow> event_by_id ''MODELED_RESULT_ACCEPTED'' rid events | _ \<Rightarrow> None))"

definition final_of_attempt :: "event list \<Rightarrow> event \<Rightarrow> event option" where
  "final_of_attempt events attempt = event_by_id ''MODELED_ATTEMPT_FINAL'' (''FINAL-'' @ e_id attempt) events"

definition outcome_in :: "string list \<Rightarrow> event \<Rightarrow> bool" where
  "outcome_in xs accepted = (case result_of accepted of None \<Rightarrow> False | Some r \<Rightarrow> json_text_in (jget r ''outcome'') xs)"

text \<open>Every observation belongs to an attempt and is valid without its final event.\<close>

definition observations_valid ::
  "(jval \<Rightarrow> string) \<Rightarrow> string \<Rightarrow> original_quantity option \<Rightarrow> position \<Rightarrow> event list \<Rightarrow> bool" where
  "observations_valid spec_sha mode legacy p events =
     list_all (\<lambda>e. case attempt_of_result events e of None \<Rightarrow> False
         | Some attempt \<Rightarrow> modeled_final_witness_valid spec_sha attempt None e mode legacy (Some p))
       (events_of [''MODELED_RESULT_ACCEPTED''] events)"

definition nonfill_witness :: "(jval \<Rightarrow> string) \<Rightarrow> string \<Rightarrow> position \<Rightarrow> event list \<Rightarrow> bool" where
  "nonfill_witness spec_sha mode p events =
     (let starts = events_of [''MODELED_ATTEMPT_STARTED''] events;
          finals = events_of [''MODELED_ATTEMPT_FINAL''] events;
          observations = events_of [''MODELED_RESULT_ACCEPTED''] events
      in p_state p = CANCELLED \<and> length finals = length starts
         \<and> list_all (\<lambda>e. side_of e = Some (JStr ''ENTRY'')) starts
         \<and> events_of (ENTRY_OBSERVED @ [''MODELED_EXIT_QUANTITY_LEG'']) events = []
         \<and> list_all (\<lambda>c. c = None) [p_entry_price_dec p, p_entered_notional_usd_dec p, p_entry_fee_usd_dec p,
              p_entry_fee_semantics p, p_exit_notional_usd_dec p, p_exit_fee_usd_dec p,
              p_realized_gross_pnl_usd_dec p, p_realized_net_pnl_usd_dec p]
         \<and> list_all (\<lambda>c. holds (bindR (witness_column c True) (\<lambda>x. Inr (dec_eq x dec_zero))))
              [p_remaining_qty_dec p, p_remaining_cost_basis_usd_dec p, p_remaining_entry_fee_usd_dec p]
         \<and> (if starts = []
            then observations = [] \<and> list_ex (\<lambda>e. e_type e = ''ENTRY_INTENT_CANCELLED''
                   \<and> unattempted_cancel_witness_valid p e) events
            else observations_valid spec_sha mode None p events
              \<and> list_all (\<lambda>attempt. case final_of_attempt events attempt of None \<Rightarrow> False
                   | Some final \<Rightarrow> (case result_of_final events final of None \<Rightarrow> False
                     | Some accepted \<Rightarrow>
                         modeled_final_witness_valid spec_sha attempt (Some final) accepted mode None (Some p)
                         \<and> outcome_in NONFILL_OUTCOMES accepted)) starts))"

subsection \<open>The basis of the exits\<close>

record entry_basis =
  eb_original :: decimal
  eb_legacy :: "original_quantity option"
  eb_native :: bool
  eb_notional :: decimal
  eb_fee_bps :: int
  eb_entry_fee :: decimal

text \<open>What the one entry filled: its notional, its price and whether the price includes the fee.\<close>

definition entry_filled ::
  "(jval \<Rightarrow> string) \<Rightarrow> string \<Rightarrow> original_quantity option \<Rightarrow> position \<Rightarrow> event list \<Rightarrow> (bool \<times> jval \<times> jval \<times> jval) res" where
  "entry_filled spec_sha mode legacy p events =
     (case filter (\<lambda>e. side_of e = Some (JStr ''ENTRY'')) (events_of [''MODELED_ATTEMPT_STARTED''] events) of
        [] \<Rightarrow> if native_legacy_entry_witness_valid p events mode
              then Inr (True, jtext (p_entered_notional_usd_dec p), jtext (p_entry_price_dec p), JNull)
              else Inl PyValueError
      | [attempt] \<Rightarrow>
          (case Option.bind (final_of_attempt events attempt) (\<lambda>f. Option.bind (result_of_final events f) (\<lambda>a. Some (f, a))) of
             None \<Rightarrow> Inl PyKeyError
           | Some (final, accepted) \<Rightarrow>
               if \<not> modeled_final_witness_valid spec_sha attempt (Some final) accepted mode legacy (Some p)
                  \<or> \<not> outcome_in POSITIVE_OUTCOMES accepted
               then Inl PyValueError
               else (case result_of accepted of None \<Rightarrow> Inl PyTypeError
                 | Some r \<Rightarrow> Inr (False, jget r ''filled_notional_usd'', jget r ''unit_price_usd'', jget r ''fee_semantics'')))
      | _ \<Rightarrow> Inl PyValueError)"

text \<open>The one native observation of the entry against the same amounts.\<close>

definition native_entry_source :: "position \<Rightarrow> event list \<Rightarrow> dict res" where
  "native_entry_source p events =
     (let observed = events_of ENTRY_OBSERVED events in
      if list_ex (\<lambda>e. payload_of e = None) observed then Inl PyAttributeError
      else case filter (\<lambda>e. side_of e = Some (JStr ''ENTRY'')) observed of
        [e] \<Rightarrow> if of_position p e then Inr (the (payload_of e)) else Inl PyValueError
      | _ \<Rightarrow> Inl PyValueError)"

text \<open>\<open>str.removeprefix\<close>.\<close>

definition remove_prefix :: "string \<Rightarrow> string \<Rightarrow> string" where
  "remove_prefix pre t = (if take (length pre) t = pre then drop (length pre) t else t)"

definition entry_basis_of ::
  "(jval \<Rightarrow> string) \<Rightarrow> string \<Rightarrow> position \<Rightarrow> event list \<Rightarrow> entry_basis res" where
  "entry_basis_of spec_sha mode p events =
     bindR (witness_column (p_qty_dec p) False) (\<lambda>original.
     let legacy = (if p_entry_fee_semantics p = None then Some (QuantityNumber original) else None);
         starts = events_of [''MODELED_ATTEMPT_STARTED''] events in
     if \<not> observations_valid spec_sha mode legacy p events
        \<or> list_ex (\<lambda>f. remove_prefix ''FINAL-'' (e_id f) \<notin> set (map e_id starts)) (events_of [''MODELED_ATTEMPT_FINAL''] events)
        \<or> list_ex (\<lambda>a. side_of a = None) starts
     then Inl PyValueError
     else
     bindR (entry_filled spec_sha mode legacy p events) (\<lambda>(native, filled_notional, filled_price, semantics).
     bindR (witness_amount filled_notional False) (\<lambda>notional.
     bindR (column_equals (p_entered_notional_usd_dec p) notional) (\<lambda>same_notional.
     if \<not> same_notional then Inl PyValueError else
     bindR (raw_decimal filled_price) (\<lambda>price.
     bindR (column_equals (p_entry_price_dec p) price) (\<lambda>same_price.
     if \<not> same_price then Inl PyValueError else
     bindR (case p_fee_bps p of None \<Rightarrow> Inl PyTypeError | Some f \<Rightarrow> bound_entry_fee_bps p (Some f)) (\<lambda>bps.
     bindR (if semantics = JStr ''INCLUDED_IN_UNIT_PRICE'' then Inr dec_zero else fee_of notional bps) (\<lambda>entry_fee.
     bindR (native_entry_source p events) (\<lambda>source.
     bindR (allR [field_equals source ''qty_dec'' original, field_equals source ''entry_price_dec'' price,
              field_equals source ''entry_gross_notional_usd_dec'' notional, field_equals source ''entry_fee_usd_dec'' entry_fee,
              column_equals (p_entry_fee_usd_dec p) entry_fee]) (\<lambda>booked.
     if \<not> booked \<or> jget source ''mode'' \<noteq> JStr mode then Inl PyValueError
     else Inr \<lparr>eb_original = original, eb_legacy = legacy, eb_native = native, eb_notional = notional,
               eb_fee_bps = bps, eb_entry_fee = entry_fee\<rparr>))))))))))"

subsection \<open>The exits, one attempt after the other\<close>

record inventory =
  iv_remainder :: decimal
  iv_proceeds :: decimal
  iv_exit_fees :: decimal
  iv_allocated_fee :: decimal
  iv_gross :: decimal
  iv_net :: decimal
  iv_consumed :: "string list"
  iv_consumed_native :: "string list"

definition start_inventory :: "entry_basis \<Rightarrow> inventory" where
  "start_inventory b = \<lparr>iv_remainder = eb_original b, iv_proceeds = dec_zero, iv_exit_fees = dec_zero,
     iv_allocated_fee = dec_zero, iv_gross = dec_zero, iv_net = dec_zero, iv_consumed = [], iv_consumed_native = []\<rparr>"

record leg_terms =
  lt_modern :: bool
  lt_sold :: decimal
  lt_remaining :: decimal
  lt_price :: decimal
  lt_semantics :: jval
  lt_observed_at :: jval

record leg_books =
  lb_proceeds :: decimal
  lb_fee :: decimal
  lb_total_proceeds :: decimal
  lb_total_fees :: decimal
  lb_cost :: decimal
  lb_allocated_fee :: decimal
  lb_gross :: decimal
  lb_net :: decimal

definition leg_terms_of :: "dict \<Rightarrow> decimal \<Rightarrow> leg_terms res" where
  "leg_terms_of result remainder =
     (let modern = (jget result ''schema_version'' = JStr ''1.1'') in
      bindR (if modern then raw_decimal (jget result ''quantity_sold'') else Inr remainder) (\<lambda>sold.
      bindR (if modern then raw_decimal (jget result ''remaining_quantity'') else Inr dec_zero) (\<lambda>remaining.
      bindR (raw_decimal (jget result ''unit_price_usd'')) (\<lambda>price.
        Inr \<lparr>lt_modern = modern, lt_sold = sold, lt_remaining = remaining, lt_price = price,
             lt_semantics = (case fmlookup result ''fee_semantics'' of None \<Rightarrow> JStr ''SEPARATE_MODELED_FEE'' | Some v \<Rightarrow> v),
             lt_observed_at = jget result ''observed_at''\<rparr>))))"

definition leg_books_of :: "entry_basis \<Rightarrow> inventory \<Rightarrow> leg_terms \<Rightarrow> leg_books res" where
  "leg_books_of b iv t =
     bindR (bindR (dec_mul (lt_price t) (lt_sold t)) cents) (\<lambda>proceeds.
     bindR (if lt_semantics t = JStr ''INCLUDED_IN_UNIT_PRICE'' then Inr dec_zero else fee_of proceeds (eb_fee_bps b)) (\<lambda>fee.
     bindR (dec_add (iv_proceeds iv) proceeds) (\<lambda>total_proceeds.
     bindR (dec_add (iv_exit_fees iv) fee) (\<lambda>total_fees.
     bindR (bindR (dec_mul (eb_notional b) (lt_remaining t)) (\<lambda>x. dec_div x (eb_original b))) (\<lambda>cost.
     bindR (bindR (dec_sub (eb_original b) (lt_remaining t)) (\<lambda>released. bindR (dec_mul (eb_entry_fee b) released) (\<lambda>x.
              bindR (dec_div x (eb_original b)) cents))) (\<lambda>allocated_fee.
     bindR (bindR (dec_sub (eb_notional b) cost) (\<lambda>x. bindR (dec_sub total_proceeds x) cents)) (\<lambda>gross.
     bindR (bindR (dec_sub gross allocated_fee) (\<lambda>x. bindR (dec_sub x total_fees) cents)) (\<lambda>net.
       Inr \<lparr>lb_proceeds = proceeds, lb_fee = fee, lb_total_proceeds = total_proceeds, lb_total_fees = total_fees,
            lb_cost = cost, lb_allocated_fee = allocated_fee, lb_gross = gross, lb_net = net\<rparr>))))))))"

definition leg_expected :: "string \<Rightarrow> inventory \<Rightarrow> leg_terms \<Rightarrow> leg_books \<Rightarrow> jval \<Rightarrow> dict res" where
  "leg_expected mode iv t k clock =
     bindR (dec_sub (lb_allocated_fee k) (iv_allocated_fee iv)) (\<lambda>leg_fee_share.
     bindR (dec_sub (lb_gross k) (iv_gross iv)) (\<lambda>leg_gross.
     bindR (dec_sub (lb_net k) (iv_net iv)) (\<lambda>leg_net.
       Inr (dict_of [(''schema_version'', JStr ''1.1''),
         (''request'', JObj (dict_of [(''quantity_sold'', JStr (dec_text (lt_sold t))),
            (''remaining_quantity'', JStr (dec_text (lt_remaining t))), (''unit_price_usd'', JStr (dec_text (lt_price t))),
            (''fee_semantics'', lt_semantics t), (''observed_at'', clock), (''mode'', JStr mode)])),
         (''quantity_unit'', JStr ''TOKEN_UNITS''), (''proceeds_usd'', JStr (dec_text (lb_proceeds k))),
         (''exit_fee_usd'', JStr (dec_text (lb_fee k))),
         (''allocated_entry_fee_total_usd'', JStr (dec_text (lb_allocated_fee k))),
         (''allocated_entry_fee_usd'', JStr (dec_text leg_fee_share)),
         (''realized_gross_pnl_usd'', JStr (dec_text leg_gross)), (''realized_trade_net_usd'', JStr (dec_text leg_net)),
         (''remaining_cost_basis_usd'', JStr (dec_text (lb_cost k))),
         (''realized_trade_net_total_usd'', JStr (dec_text (lb_net k))), (''evidence_class'', JStr (mode @ ''_MODEL''))]))))"

text \<open>The leg of an old result is found by its quantities, among the legs not used yet.\<close>

definition requested :: "string \<Rightarrow> event \<Rightarrow> jval res" where
  "requested key leg =
     (case Option.bind (payload_of leg) (\<lambda>d. jobj_of (jget d ''request'')) of None \<Rightarrow> Inl PyTypeError
      | Some request \<Rightarrow> (case fmlookup request key of None \<Rightarrow> Inl PyKeyError | Some v \<Rightarrow> Inr v))"

definition leg_matches :: "leg_terms \<Rightarrow> event \<Rightarrow> bool res" where
  "leg_matches t leg =
     bindR (requested ''quantity_sold'' leg) (\<lambda>sold.
       if sold \<noteq> JStr (dec_text (lt_sold t)) then Inr False
       else bindR (requested ''remaining_quantity'' leg) (\<lambda>r. Inr (r = JStr (dec_text (lt_remaining t)))))"

definition find_leg :: "event list \<Rightarrow> inventory \<Rightarrow> leg_terms \<Rightarrow> event \<Rightarrow> event option res" where
  "find_leg events iv t accepted =
     (if lt_modern t then Inr (event_by_id ''MODELED_EXIT_QUANTITY_LEG'' (''LEG-'' @ e_id accepted) events)
      else
        let free = filter (\<lambda>e. e_id e \<notin> set (iv_consumed iv)) (events_of [''MODELED_EXIT_QUANTITY_LEG''] events) in
        bindR (mapR (leg_matches t) free) (\<lambda>flags.
          case filter snd (zip free flags) of [(leg, _)] \<Rightarrow> Inr (Some leg) | _ \<Rightarrow> Inr None))"

definition advance_inventory :: "leg_terms \<Rightarrow> leg_books \<Rightarrow> inventory \<Rightarrow> inventory" where
  "advance_inventory t k iv =
     iv\<lparr>iv_remainder := lt_remaining t, iv_proceeds := lb_total_proceeds k, iv_exit_fees := lb_total_fees k,
        iv_allocated_fee := lb_allocated_fee k, iv_gross := lb_gross k, iv_net := lb_net k\<rparr>"

text \<open>A whole exit of the first version, proved by its native observation.\<close>

definition native_leg :: "string \<Rightarrow> position \<Rightarrow> event list \<Rightarrow> leg_terms \<Rightarrow> leg_books \<Rightarrow> inventory \<Rightarrow> inventory res" where
  "native_leg mode p events t k iv =
     (case events_of EXIT_OBSERVED events of
        [native] \<Rightarrow>
          if iv_consumed_native iv \<noteq> [] then Inl PyValueError
          else (case payload_of native of None \<Rightarrow> Inl PyTypeError
            | Some payload \<Rightarrow>
                if \<not> of_position p native \<or> jget payload ''side'' \<noteq> JStr ''EXIT'' \<or> jget payload ''mode'' \<noteq> JStr mode
                then Inl PyValueError
                else bindR (allR [field_equals payload ''exit_price_dec'' (lt_price t),
                             field_equals payload ''exit_fee_usd_dec'' (lb_fee k),
                             field_equals payload ''realized_net_pnl_usd_dec'' (lb_net k)]) (\<lambda>same.
                       if \<not> same then Inl PyValueError
                       else Inr ((advance_inventory t k iv)\<lparr>iv_consumed_native := [e_id native]\<rparr>)))
      | _ \<Rightarrow> Inl PyValueError)"

definition book_exit_result ::
  "string \<Rightarrow> position \<Rightarrow> event list \<Rightarrow> entry_basis \<Rightarrow> event \<Rightarrow> dict \<Rightarrow> inventory \<Rightarrow> inventory res" where
  "book_exit_result mode p events b accepted result iv =
     bindR (leg_terms_of result (iv_remainder iv)) (\<lambda>t.
     bindR (dec_add (lt_sold t) (lt_remaining t)) (\<lambda>both.
     if \<not> dec_eq both (iv_remainder iv) \<or> eb_native b \<and> \<not> dec_eq (lt_remaining t) dec_zero then Inl PyValueError
     else
     bindR (leg_books_of b iv t) (\<lambda>k.
     bindR (find_leg events iv t accepted) (\<lambda>found.
     case found of
       None \<Rightarrow> if \<not> lt_modern t \<and> eb_legacy b \<noteq> None then native_leg mode p events t k iv else Inl PyValueError
     | Some leg \<Rightarrow>
         let clock = (if lt_modern t then lt_observed_at t else JStr (e_created_at leg)) in
         if \<not> of_position p leg then Inl PyValueError
         else bindR (leg_expected mode iv t k clock) (\<lambda>expected.
           if JStr (e_created_at leg) \<noteq> clock \<or> e_payload leg \<noteq> Some (JObj expected) then Inl PyValueError
           else Inr ((advance_inventory t k iv)\<lparr>iv_consumed := e_id leg # iv_consumed iv\<rparr>))))))"

text \<open>The quantity an exit attempt reserved is the remainder at that point.\<close>

definition reservation_holds :: "entry_basis \<Rightarrow> dict \<Rightarrow> inventory \<Rightarrow> bool res" where
  "reservation_holds b body iv =
     (if jget body ''remaining_quantity'' \<noteq> JNull
      then bindR (raw_decimal (jget body ''remaining_quantity'')) (\<lambda>x. bindR (py_dec_eq x (iv_remainder iv)) (\<lambda>same.
             Inr (same \<and> jget body ''quantity_unit'' = JStr ''TOKEN_UNITS'')))
      else Inr (eb_legacy b \<noteq> None \<and> dec_eq (iv_remainder iv) (eb_original b)))"

definition only_unknown_results :: "event list \<Rightarrow> event \<Rightarrow> bool" where
  "only_unknown_results events attempt =
     list_all (\<lambda>e. case result_of e of None \<Rightarrow> False
         | Some r \<Rightarrow> jget r ''attempt_id'' = JStr (e_id attempt) \<longrightarrow> jget r ''outcome'' = JStr ''UNKNOWN_REQUIRES_RECONCILIATION'')
       (events_of [''MODELED_RESULT_ACCEPTED''] events)"

definition witness_step ::
  "(jval \<Rightarrow> string) \<Rightarrow> string \<Rightarrow> position \<Rightarrow> event list \<Rightarrow> string option \<Rightarrow> bool \<Rightarrow> entry_basis \<Rightarrow> event \<Rightarrow> inventory
   \<Rightarrow> inventory res" where
  "witness_step spec_sha mode p events pending allow b attempt iv =
     (case payload_of attempt of None \<Rightarrow> Inl PyTypeError
      | Some body \<Rightarrow>
          if jget body ''side'' \<noteq> JStr ''EXIT'' then Inr iv
          else bindR (reservation_holds b body iv) (\<lambda>reserved.
            if \<not> reserved then Inl PyValueError
            else case final_of_attempt events attempt of
              None \<Rightarrow> if (allow \<or> pending = Some (e_id attempt)) \<and> only_unknown_results events attempt then Inr iv
                      else Inl PyValueError
            | Some final \<Rightarrow>
                (case result_of_final events final of None \<Rightarrow> Inl PyKeyError
                 | Some accepted \<Rightarrow>
                     if \<not> modeled_final_witness_valid spec_sha attempt (Some final) accepted mode (eb_legacy b) (Some p)
                     then Inl PyValueError
                     else if \<not> outcome_in POSITIVE_OUTCOMES accepted then Inr iv
                     else (case result_of accepted of None \<Rightarrow> Inl PyTypeError
                       | Some result \<Rightarrow> book_exit_result mode p events b accepted result iv))))"

fun witness_fold ::
  "(jval \<Rightarrow> string) \<Rightarrow> string \<Rightarrow> position \<Rightarrow> event list \<Rightarrow> string option \<Rightarrow> bool \<Rightarrow> entry_basis \<Rightarrow> event list \<Rightarrow> inventory
   \<Rightarrow> inventory res" where
  "witness_fold spec_sha mode p events pending allow b [] iv = Inr iv"
| "witness_fold spec_sha mode p events pending allow b (attempt # attempts) iv =
     bindR (witness_step spec_sha mode p events pending allow b attempt iv)
       (witness_fold spec_sha mode p events pending allow b attempts)"

subsection \<open>The columns against the fold\<close>

definition remainder_columns :: "position \<Rightarrow> entry_basis \<Rightarrow> inventory \<Rightarrow> bool res" where
  "remainder_columns p b iv =
     (if p_remaining_qty_dec p \<noteq> None
      then bindR (bindR (dec_mul (eb_notional b) (iv_remainder iv)) (\<lambda>x. dec_div x (eb_original b))) (\<lambda>cost.
           bindR (dec_sub (eb_entry_fee b) (iv_allocated_fee iv)) (\<lambda>fee.
             allR [column_equals (p_remaining_qty_dec p) (iv_remainder iv),
                   column_equals (p_remaining_cost_basis_usd_dec p) cost,
                   column_equals (p_remaining_entry_fee_usd_dec p) fee]))
      else Inr (p_entry_fee_semantics p = None \<and> iv_consumed iv = [] \<and> p_remaining_cost_basis_usd_dec p = None
                \<and> p_remaining_entry_fee_usd_dec p = None))"

definition exit_column :: "inventory \<Rightarrow> string option \<times> decimal \<Rightarrow> bool res" where
  "exit_column iv c = (case c of (None, x) \<Rightarrow> Inr (iv_consumed iv = []) | (Some t, x) \<Rightarrow> column_equals (Some t) x)"

definition exit_columns :: "position \<Rightarrow> inventory \<Rightarrow> bool res" where
  "exit_columns p iv =
     allR (map (exit_column iv)
       [(p_exit_notional_usd_dec p, iv_proceeds iv), (p_exit_fee_usd_dec p, iv_exit_fees iv),
        (p_realized_gross_pnl_usd_dec p, iv_gross iv), (p_realized_net_pnl_usd_dec p, iv_net iv)])"

definition quantity_witness ::
  "(jval \<Rightarrow> string) \<Rightarrow> string \<Rightarrow> position \<Rightarrow> event list \<Rightarrow> string option \<Rightarrow> bool \<Rightarrow> bool res" where
  "quantity_witness spec_sha mode p events pending allow =
     bindR (entry_basis_of spec_sha mode p events) (\<lambda>b.
     bindR (witness_fold spec_sha mode p events pending allow b (events_of [''MODELED_ATTEMPT_STARTED''] events)
              (start_inventory b)) (\<lambda>iv.
     if set (iv_consumed iv) \<noteq> set (map e_id (events_of [''MODELED_EXIT_QUANTITY_LEG''] events))
        \<or> set (iv_consumed_native iv) \<noteq> set (map e_id (events_of EXIT_OBSERVED events))
     then Inr False
     else bindR (remainder_columns p b iv) (\<lambda>kept. andR kept (exit_columns p iv))))"

definition inventory_witness ::
  "(jval \<Rightarrow> string) \<Rightarrow> position \<Rightarrow> event list \<Rightarrow> string \<Rightarrow> string option \<Rightarrow> bool \<Rightarrow> bool \<Rightarrow> unit res" where
  "inventory_witness spec_sha p events mode pending allow force =
     (if \<not> quantitative p events force
      then guardR (p_qty_dec p = None \<and> \<not> inventory_evidence p events
                   \<or> native_legacy_inventory_witness_valid p events mode) CONFLICT
      else if p_qty_dec p = None then guardR (nonfill_witness spec_sha mode p events) CONFLICT
      else guardR (holds (quantity_witness spec_sha mode p events pending allow)) CONFLICT)"

text \<open>\<open>assert_quantity_inventory_witness\<close>, on the events of the position and the mode of its bot.\<close>

definition assert_quantity_inventory_witness ::
  "(jval \<Rightarrow> string) \<Rightarrow> position \<Rightarrow> string option \<Rightarrow> bool \<Rightarrow> bool \<Rightarrow> store \<Rightarrow> unit res" where
  "assert_quantity_inventory_witness spec_sha p pending allow force s =
     (case get_bot (p_bot p) s of None \<Rightarrow> Inl CONFLICT
      | Some b \<Rightarrow> inventory_witness spec_sha p (filtered_execution_events None (Some [p_id p]) s) (b_mode b)
                    pending allow force)"

end
