(* ===== verification/PaperModeled.thy ===== *)
theory PaperModeled
  imports PaperInventory
begin

section \<open>Accepting a modelled result\<close>

text \<open>
  \<open>accept_modeled_result\<close> of \<open>factory/paper_plane.py\<close>: one result of an attempt, checked against the
  attempt and the inventory, its effect on the position, and the two events that record it, in one
  transaction. A result is the mapping the caller passes, every value a JSON value.
\<close>

text \<open>\<open>str\<close> of a JSON value; None for a list or a dictionary, whose text is no identifier of an event,
  no instant and no number.\<close>

definition jstr :: "jval \<Rightarrow> string option" where
  "jstr v = (case v of JNull \<Rightarrow> Some ''None'' | JBool b \<Rightarrow> Some (if b then ''True'' else ''False'') | JInt i \<Rightarrow> Some (int_text i)
     | JFloat t \<Rightarrow> Some t | JStr t \<Rightarrow> Some t | _ \<Rightarrow> None)"

text \<open>\<open>str\<close> of a decimal: with an exponent when it is positive or the number is below 1E-6.\<close>

definition exponent_text :: "int \<Rightarrow> string" where
  "exponent_text e = ''E'' @ (if e < 0 then ''-'' else ''+'') @ digits_of (nat \<bar>e\<bar>)"

definition dec_str :: "decimal \<Rightarrow> string" where
  "dec_str x = (case x of
       Fin s c e \<Rightarrow>
         (let ds = digits_of c; adjusted = int (length ds) - 1 + e
          in if e \<le> 0 \<and> - 6 \<le> adjusted then dec_text x
             else sign_text s @ take 1 ds @ (if 1 < length ds then ''.'' @ drop 1 ds else []) @ exponent_text adjusted)
     | _ \<Rightarrow> dec_text x)"

definition json_hashable :: "jval \<Rightarrow> bool" where
  "json_hashable v = (case v of JArr xs \<Rightarrow> False | JObj d \<Rightarrow> False | _ \<Rightarrow> True)"

text \<open>\<open>value not in {...}: raise\<close>, a list or a dictionary not being hashable.\<close>

definition member_or_raise :: "jval \<Rightarrow> string list \<Rightarrow> string \<Rightarrow> unit res" where
  "member_or_raise v xs code =
     (if \<not> json_hashable v then Inl PyTypeError else guardR (json_text_in v xs) (PaperPlaneError code))"

subsection \<open>The form of a result\<close>

definition is_positive :: "dict \<Rightarrow> bool" where
  "is_positive result = json_text_in (jget result ''outcome'') POSITIVE_OUTCOMES"

definition is_modern :: "dict \<Rightarrow> bool" where
  "is_modern result = (result_version result = JStr ''1.1'')"

definition REQUIRED_RESULT_KEYS :: "string list" where
  "REQUIRED_RESULT_KEYS = [''attempt_id'', ''result_id'', ''outcome'', ''observed_at'']"

text \<open>A positive amount where there is one.\<close>

definition fill_detail_ok :: "jval \<Rightarrow> unit res" where
  "fill_detail_ok v = (if v = JNull then Inr ()
     else bindR (model_amount v ''MODELED_FILL_DETAILS_INVALID'' False) (\<lambda>_. Inr ()))"

definition result_form :: "dict \<Rightarrow> unit res" where
  "result_form result =
     bindR (member_or_raise (result_version result) [''1.0'', ''1.1''] ''MODELED_RESULT_VERSION_UNSUPPORTED'') (\<lambda>_.
     bindR (guardR (fBall (fmdom result) (\<lambda>k. k \<in> set RESULT_KEYS \<or> is_modern result \<and> k \<in> set QUANTITY_KEYS)
                    \<and> list_all (\<lambda>k. k |\<in>| fmdom result) REQUIRED_RESULT_KEYS) (PaperPlaneError ''MODELED_RESULT_INVALID'')) (\<lambda>_.
     bindR (member_or_raise (jget result ''outcome'') RESULT_OUTCOMES ''MODELED_RESULT_CLASS_UNSUPPORTED'') (\<lambda>_.
     bindR (guardR (result_id_ok (jget result ''result_id'')) (PaperPlaneError ''MODELED_RESULT_ID_INVALID'')) (\<lambda>_.
     bindR (if is_modern result \<and> is_positive result
            then bindR (guardR (jget result ''quantity_unit'' = JStr ''TOKEN_UNITS'')
                          (PaperPlaneError ''MODELED_QUANTITY_UNIT_UNSUPPORTED'')) (\<lambda>_.
                 member_or_raise (jget result ''fee_semantics'') FEE_SEMANTICS ''MODELED_FEE_SEMANTICS_UNSUPPORTED'')
            else Inr ()) (\<lambda>_.
     bindR (guardR (is_positive result
                    \<or> list_all (\<lambda>k. jget result k = JNull) [''quantity_sold'', ''quantity_filled'', ''remaining_quantity''])
              (PaperPlaneError ''NON_FILL_RESULT_HAS_FILL'')) (\<lambda>_.
     bindR (if is_positive result
            then bindR (fill_detail_ok (jget result ''unit_price_usd'')) (\<lambda>_. fill_detail_ok (jget result ''filled_notional_usd''))
            else guardR (list_all (\<lambda>k. jget result k = JNull) [''unit_price_usd'', ''filled_notional_usd''])
                   (PaperPlaneError ''NON_FILL_RESULT_HAS_FILL'')) (\<lambda>_.
     if jget result ''chargeable_cost_usd'' = JNull then Inr ()
     else bindR (model_amount (jget result ''chargeable_cost_usd'') ''MODELED_RESULT_COST_INVALID'' True) (\<lambda>_. Inr ()))))))))"

subsection \<open>Against the earlier results of the attempt\<close>

text \<open>\<open>_parse_utc(str(a)) < _parse_utc(b)\<close>.\<close>

definition jclock_before :: "jval \<Rightarrow> jval \<Rightarrow> bool res" where
  "jclock_before a b = (case (jstr a, jstr b) of (Some x, Some y) \<Rightarrow> clock_before x y | _ \<Rightarrow> Inl PyValueError)"

definition dec_max :: "decimal \<Rightarrow> decimal \<Rightarrow> decimal" where
  "dec_max x y = (if dec_less x y then y else x)"

definition prior_cost :: "dict \<Rightarrow> event \<Rightarrow> decimal \<Rightarrow> decimal res" where
  "prior_cost result ev known =
     (case payload_of ev of None \<Rightarrow> Inl PyAttributeError
      | Some payload \<Rightarrow>
          if \<not> jtruthy (jget payload ''result'') then Inr known
          else (case jobj_of (jget payload ''result'') of None \<Rightarrow> Inl PyAttributeError
            | Some prior \<Rightarrow>
                if jget prior ''attempt_id'' \<noteq> jget result ''attempt_id'' then Inr known
                else case fmlookup prior ''observed_at'' of None \<Rightarrow> Inl PyKeyError
                | Some observed \<Rightarrow>
                    bindR (jclock_before (jget result ''observed_at'') observed) (\<lambda>early.
                    if early then Inl (PaperPlaneError ''MODELED_RESULT_CLOCK_REGRESSION'')
                    else if jget prior ''chargeable_cost_usd'' = JNull then Inr known
                    else bindR (model_amount (jget prior ''chargeable_cost_usd'') ''MODELED_RESULT_SOURCE_CORRUPT'' True)
                           (\<lambda>x. Inr (dec_max known x)))))"

fun prior_known_cost :: "dict \<Rightarrow> event list \<Rightarrow> decimal \<Rightarrow> decimal res" where
  "prior_known_cost result [] known = Inr known"
| "prior_known_cost result (ev # evs) known = bindR (prior_cost result ev known) (prior_known_cost result evs)"

definition cost_kept :: "dict \<Rightarrow> string \<Rightarrow> store \<Rightarrow> unit res" where
  "cost_kept result pid s =
     bindR (prior_known_cost result (filtered_execution_events (Some ''MODELED_RESULT_ACCEPTED'') (Some [pid]) s) dec_zero) (\<lambda>known.
       if jget result ''chargeable_cost_usd'' = JNull then Inr ()
       else bindR (jdecimal (jget result ''chargeable_cost_usd'')) (\<lambda>cost.
            bindR (dec_lt cost known) (\<lambda>less. guardR (\<not> less) (PaperPlaneError ''MODELED_RESULT_COST_REGRESSION''))))"

subsection \<open>The effect\<close>

definition jtext_of :: "jval \<Rightarrow> string" where
  "jtext_of v = (case jstr v of None \<Rightarrow> [] | Some t \<Rightarrow> t)"

definition modeled_entry_fill :: "dict \<Rightarrow> int \<Rightarrow> string \<Rightarrow> entry_fill" where
  "modeled_entry_fill result fee_bps mode =
     \<lparr>ef_unit_price = jtext_of (jget result ''unit_price_usd''), ef_gross_notional = jtext_of (jget result ''filled_notional_usd''),
      ef_fee_bps = Some fee_bps, ef_mode = mode, ef_reconcile_pending_close = True,
      ef_quantity_units = (if is_modern result then Some (jtext_of (jget result ''quantity_filled'')) else None),
      ef_fee_semantics = (if is_modern result then Some (jtext_of (jget result ''fee_semantics'')) else None)\<rparr>"

definition accept_entry_fill :: "dict \<Rightarrow> position \<Rightarrow> string \<Rightarrow> store \<Rightarrow> store res" where
  "accept_entry_fill result position mode s =
     (if jget result ''filled_notional_usd'' = JNull \<or> jget result ''unit_price_usd'' = JNull
      then Inl (PaperPlaneError ''MODELED_FILL_DETAILS_REQUIRED'')
      else
        bindR (dec_of_string (str_or_None (p_admitted_entry_notional_usd_dec position))) (\<lambda>admitted.
        bindR (jdecimal (jget result ''filled_notional_usd'')) (\<lambda>filled.
        bindR (dec_lt filled admitted) (\<lambda>less.
        if (jget result ''outcome'' = JStr ''PARTIAL'') \<noteq> less
        then Inl (PaperPlaneError ''MODELED_FILL_AMOUNT_CLASS_CONFLICT'')
        else if is_modern result \<and> (fmlookup result ''quantity_sold'' \<noteq> None \<or> fmlookup result ''remaining_quantity'' \<noteq> None)
        then Inl (PaperPlaneError ''MODELED_ENTRY_QUANTITY_FIELDS_INVALID'')
        else
          bindR (if is_modern result
                 then bindR (model_amount (jget result ''quantity_filled'') ''MODELED_QUANTITY_INVALID'' False) (\<lambda>_. Inr ())
                 else Inr ()) (\<lambda>_.
          case p_admitted_fee_bps position of None \<Rightarrow> Inl PyTypeError
          | Some bps \<Rightarrow> bindR (apply_paper_entry_fill (p_id position) (modeled_entry_fill result bps mode) s) (\<lambda>(_, s1). Inr s1))))))"

definition release_row :: "position \<Rightarrow> position" where
  "release_row r = r\<lparr>p_remaining_qty_dec := Some ''0'', p_remaining_cost_basis_usd_dec := Some ''0'',
     p_remaining_entry_fee_usd_dec := Some ''0''\<rparr>"

definition accept_entry :: "dict \<Rightarrow> position \<Rightarrow> string \<Rightarrow> store \<Rightarrow> store res" where
  "accept_entry result position mode s =
     (if is_positive result then accept_entry_fill result position mode s
      else if jget result ''outcome'' = JStr ''UNKNOWN_REQUIRES_RECONCILIATION''
      then (if p_state position = ATTEMPTING then bindR (transition (p_id position) UNKNOWN s) (\<lambda>(_, s1). Inr s1) else Inr s)
      else bindR (transition (p_id position) CANCELLED s) (\<lambda>(_, s1). Inr (upd_position (p_id position) release_row s1)))"

definition accept_exit_fill :: "dict \<Rightarrow> position \<Rightarrow> string \<Rightarrow> string \<Rightarrow> store \<Rightarrow> store res" where
  "accept_exit_fill result position mode rid s =
     (if \<not> is_modern result
      then if jget result ''outcome'' = JStr ''PARTIAL'' \<or> jget result ''filled_notional_usd'' \<noteq> JNull
           then Inl (PaperPlaneError ''PARTIAL_EXIT_MODEL_UNSUPPORTED'')
           else if jget result ''unit_price_usd'' = JNull then Inl (PaperPlaneError ''MODELED_FILL_DETAILS_REQUIRED'')
           else bindR (apply_paper_exit_fill (p_id position) (Some (jtext_of (jget result ''unit_price_usd''))) mode False s)
                  (\<lambda>(_, s1). Inr s1)
      else if fmlookup result ''filled_notional_usd'' \<noteq> None \<or> fmlookup result ''quantity_filled'' \<noteq> None
      then Inl (PaperPlaneError ''MODELED_EXIT_QUANTITY_FIELDS_INVALID'')
      else
        bindR (model_amount (jget result ''remaining_quantity'') ''MODELED_QUANTITY_INVALID'' True) (\<lambda>remaining.
        if (jget result ''outcome'' = JStr ''PARTIAL'') \<noteq> dec_less dec_zero remaining
        then Inl (PaperPlaneError ''MODELED_EXIT_AMOUNT_CLASS_CONFLICT'')
        else if \<not> dec_eq remaining dec_zero
             \<and> native_legacy_entry_witness_valid position (filtered_execution_events None (Some [p_id position]) s) mode
        then Inl (PaperPlaneError ''PARTIAL_EXIT_MODEL_UNSUPPORTED'')
        else bindR (apply_quantity_exit_fill (p_id position) mode (jtext_of (jget result ''quantity_sold'')) (dec_str remaining)
               (jtext_of (jget result ''unit_price_usd'')) (jtext_of (jget result ''fee_semantics''))
               (jtext_of (jget result ''observed_at'')) (''LEG-'' @ rid) s) (\<lambda>(_, s1). Inr s1)))"

definition accept_exit :: "dict \<Rightarrow> position \<Rightarrow> string \<Rightarrow> string \<Rightarrow> store \<Rightarrow> store res" where
  "accept_exit result position mode rid s =
     (if is_positive result then accept_exit_fill result position mode rid s
      else bindR (apply_paper_exit_fill (p_id position) None mode True s) (\<lambda>(_, s1). Inr s1))"

subsection \<open>The events\<close>

definition accepted_payload :: "dict \<Rightarrow> dict \<Rightarrow> dict" where
  "accepted_payload bound result =
     dict_of [(''result'', JObj result), (''evidence_class'', jget bound ''evidence_class''),
       (''chargeable_cost_status'', JStr (if jget result ''chargeable_cost_usd'' \<noteq> JNull then ''KNOWN'' else ''UNKNOWN''))]"

definition final_payload :: "dict \<Rightarrow> string \<Rightarrow> dict" where
  "final_payload result rid =
     dict_of ([(''outcome'', jget result ''outcome''), (''result_event_id'', JStr rid)]
       @ (if is_modern result then [(''schema_version'', JStr ''1.1'')] else []))"

record modeled_answer =
  ma_idempotent :: bool
  ma_attempt_id :: jval
  ma_position :: "position option"

definition record_result ::
  "event \<Rightarrow> dict \<Rightarrow> dict \<Rightarrow> string \<Rightarrow> string \<Rightarrow> string \<Rightarrow> store \<Rightarrow> (modeled_answer \<times> store) res" where
  "record_result attempt bound result pid rid final_id s =
     (let stamp = jtext_of (jget result ''observed_at'') in
      bindR (append_execution_event ''MODELED_RESULT_ACCEPTED'' (e_bot attempt) (Some pid) (accepted_payload bound result)
               (Some rid) (Some stamp) s) (\<lambda>(_, s1).
      bindR (if jget result ''outcome'' = JStr ''UNKNOWN_REQUIRES_RECONCILIATION'' then Inr s1
             else bindR (append_execution_event ''MODELED_ATTEMPT_FINAL'' (e_bot attempt) (Some pid) (final_payload result rid)
                    (Some final_id) (Some stamp) s1) (\<lambda>(_, s2). Inr s2)) (\<lambda>s2.
        Inr (\<lparr>ma_idempotent = False, ma_attempt_id = jget result ''attempt_id'', ma_position = get_position pid s2\<rparr>, s2))))"

text \<open>A result identifier seen before: the same content is answered, any other refused.\<close>

definition replay_result :: "event \<Rightarrow> dict \<Rightarrow> string \<Rightarrow> store \<Rightarrow> (modeled_answer \<times> store) res" where
  "replay_result previous result pid s =
     (case payload_of previous of None \<Rightarrow> Inl PyAttributeError
      | Some payload \<Rightarrow>
          if jget payload ''result'' \<noteq> JObj result then Inl (PaperPlaneError ''MODELED_RESULT_CONTENT_CONFLICT'')
          else Inr (\<lparr>ma_idempotent = True, ma_attempt_id = jget result ''attempt_id'', ma_position = get_position pid s\<rparr>, s))"

definition new_result ::
  "event \<Rightarrow> dict \<Rightarrow> dict \<Rightarrow> string \<Rightarrow> position \<Rightarrow> string \<Rightarrow> store \<Rightarrow> (modeled_answer \<times> store) res" where
  "new_result attempt bound result side position rid s =
     (let final_id = ''FINAL-'' @ jtext_of (jget result ''attempt_id''); mode = jtext_of (jget bound ''mode'') in
      bindR (get_execution_event final_id s) (\<lambda>earlier.
      if earlier \<noteq> None then Inl (PaperPlaneError ''MODELED_RESULT_ALREADY_FINAL'')
      else
        bindR (cost_kept result (p_id position) s) (\<lambda>_.
        bindR (if side = ''ENTRY'' then accept_entry result position mode s else accept_exit result position mode rid s) (\<lambda>s1.
        record_result attempt bound result (p_id position) rid final_id s1))))"

text \<open>The attempt, as \<open>begin_modeled_attempt\<close> wrote it: its position, side and instant are texts.\<close>

definition accept_modeled_result ::
  "(jval \<Rightarrow> string) \<Rightarrow> dict \<Rightarrow> store \<Rightarrow> (modeled_answer \<times> store) res" where
  "accept_modeled_result spec_sha result s0 =
     bindR (result_form result) (\<lambda>_.
     immediate_write (\<lambda>s.
       bindR (case jstr (jget result ''attempt_id'') of None \<Rightarrow> Inr None | Some aid \<Rightarrow> get_execution_event aid s) (\<lambda>found.
       case found of None \<Rightarrow> Inl (PaperPlaneError ''MODELED_ATTEMPT_UNRESOLVED'')
       | Some attempt \<Rightarrow>
         if e_type attempt \<noteq> ''MODELED_ATTEMPT_STARTED'' then Inl (PaperPlaneError ''MODELED_ATTEMPT_UNRESOLVED'')
         else (case payload_of attempt of None \<Rightarrow> Inl PyTypeError
           | Some bound \<Rightarrow>
             (case (fmlookup bound ''position_id'', fmlookup bound ''side'', fmlookup bound ''as_of'') of
                (Some (JStr pid), Some (JStr side), Some as_of) \<Rightarrow>
                  (case get_position pid s of None \<Rightarrow> Inl (PaperPlaneError ''POSITION_NOT_FOUND'')
                   | Some position \<Rightarrow>
                     bindR (if side = ''EXIT''
                            then assert_quantity_inventory_witness spec_sha position (Some (e_id attempt)) False
                                   (is_modern result \<and> is_positive result) s
                            else Inr ()) (\<lambda>_.
                     bindR (jclock_before (jget result ''observed_at'') as_of) (\<lambda>early.
                     if early then Inl (PaperPlaneError ''MODELED_RESULT_CLOCK_INVALID'')
                     else
                       let rid = result_id_of spec_sha (jget result ''result_id'') in
                       bindR (get_execution_event rid s) (\<lambda>previous.
                       case previous of
                         Some ev \<Rightarrow> replay_result ev result pid s
                       | None \<Rightarrow> new_result attempt bound result side position rid s))))
              | _ \<Rightarrow> Inl PyKeyError)))) s0)"

end
