(* ===== verification/OperatingScope.thy ===== *)
theory OperatingScope
  imports PaperWitness
begin

section \<open>The operating scope of a mode\<close>

text \<open>
  \<open>_effective_operating_scope\<close>, \<open>_operating_binding_records_block\<close>, \<open>_operating_switch_lineage_block\<close>,
  \<open>_operating_entry_block\<close>, \<open>_operating_attempt_block\<close> and \<open>_resume_block\<close> of \<open>factory/paper_plane.py\<close>: whether
  a mode is managed by the operating lifecycle and whether its profile, switches and binding prove
  that an entry or an exit may be attempted now. The row of \<open>ordinary_state\<close>, a table that
  \<open>factory/trading_coordinator.py\<close> writes, is the parameter \<open>row\<close>; \<open>sha256_of\<close> is the parameter \<open>sha\<close>; the
  reading of the wall clock is the parameter \<open>wall\<close>, in microseconds. The checks answer a reason to
  refuse, and \<open>except (ValueError, KeyError, TypeError, AttributeError)\<close> turns the exceptions of a
  malformed record into one (\<open>refuse_malformed\<close>).
\<close>

text \<open>The exceptions caught: \<open>PaperPlaneError\<close> is a \<open>ValueError\<close>.\<close>

definition malformed_error :: "py_error \<Rightarrow> bool" where
  "malformed_error e = (case e of DecimalInvalid \<Rightarrow> False | DecimalDivByZero \<Rightarrow> False | PyAssertionError \<Rightarrow> False
     | SqliteIntegrityError \<Rightarrow> False | SqliteReadonlyError \<Rightarrow> False | PyOverflowError \<Rightarrow> False | _ \<Rightarrow> True)"

definition refuse_malformed :: "string \<Rightarrow> string option res \<Rightarrow> string option res" where
  "refuse_malformed code m = (case m of Inl e \<Rightarrow> if malformed_error e then Inr (Some code) else Inl e | Inr x \<Rightarrow> Inr x)"

text \<open>\<open>d[k]\<close>, \<open>value[k]\<close> for a value that should be a dictionary, and \<open>or\<close> over such reads.\<close>

definition jfield :: "dict \<Rightarrow> string \<Rightarrow> jval res" where
  "jfield d k = (case fmlookup d k of None \<Rightarrow> Inl PyKeyError | Some v \<Rightarrow> Inr v)"

definition jdict :: "jval \<Rightarrow> dict res" where
  "jdict v = (case v of JObj d \<Rightarrow> Inr d | _ \<Rightarrow> Inl PyTypeError)"

definition event_body :: "event \<Rightarrow> dict res" where
  "event_body ev = (case e_payload ev of None \<Rightarrow> Inl PyTypeError | Some v \<Rightarrow> jdict v)"

fun anyR :: "bool res list \<Rightarrow> bool res" where
  "anyR [] = Inr False"
| "anyR (c # cs) = bindR c (\<lambda>b. if b then Inr True else anyR cs)"

definition field_differs :: "dict \<Rightarrow> string \<Rightarrow> jval \<Rightarrow> bool res" where
  "field_differs d k v = bindR (jfield d k) (\<lambda>x. Inr (x \<noteq> v))"

definition fields_differ :: "dict \<Rightarrow> string \<Rightarrow> dict \<Rightarrow> string \<Rightarrow> bool res" where
  "fields_differ d k d' k' = bindR (jfield d k) (\<lambda>x. bindR (jfield d' k') (\<lambda>y. Inr (x \<noteq> y)))"

text \<open>The text an f-string makes of a value that should be a text.\<close>

definition jformat :: "jval \<Rightarrow> string" where
  "jformat v = (case v of JStr t \<Rightarrow> t | JNull \<Rightarrow> ''None'' | JBool b \<Rightarrow> if b then ''True'' else ''False''
     | JInt i \<Rightarrow> int_text i | JFloat t \<Rightarrow> t | _ \<Rightarrow> [])"

subsection \<open>Stop dominance\<close>

definition resume_block :: "(jval \<Rightarrow> string) \<Rightarrow> store \<Rightarrow> bot \<Rightarrow> string \<Rightarrow> bool \<Rightarrow> (string \<times> string) option res" where
  "resume_block sha s bt mode stale =
     (if stale then Inr (Some (''SIGNAL_DECISION_STALE'', ''SIGNAL_EXPIRED''))
      else if b_status bt \<in> {''DRAINING'', ''STOPPED''}
      then Inr (Some (''BOT_STATUS_BLOCKS_ENTRY:'' @ b_status bt, ''BOT_'' @ b_status bt))
      else if b_entries_paused bt then Inr (Some (''ENTRIES_PAUSED'', ''ENTRIES_PAUSED''))
      else bindR (resolve_current_policy sha s mode) (\<lambda>current.
        Inr (case cu_status current of
          RUNTIME_POLICY_INVALID \<Rightarrow> Some (''RUNTIME_POLICY_INVALID'', ''RUNTIME_POLICY_INVALID'')
        | VALID \<Rightarrow> (case cu_policy current of
            Some p \<Rightarrow> if \<not> pb_new_entries_enabled (pl_body p)
                      then Some (''BLOCK_NEW_ENTRIES_DISABLED'', ''NEW_ENTRIES_DISABLED'') else None
          | None \<Rightarrow> None)
        | _ \<Rightarrow> None)))"

subsection \<open>Managed or not\<close>

record operating_scope =
  sc_managed :: bool
  sc_mode :: string
  sc_state :: "dict option"
  sc_reason :: "string option"

text \<open>The mode a lifecycle event is about; None when it cannot be read.\<close>

definition lifecycle_mode :: "event \<Rightarrow> jval option" where
  "lifecycle_mode ev =
     (case payload_of ev of None \<Rightarrow> None
      | Some payload \<Rightarrow>
          if e_type ev = ''OPERATING_PROFILE_COMMITTED''
          then Option.bind (fmlookup payload ''profile'') (\<lambda>p. Option.bind (jobj_of p) (\<lambda>d. fmlookup d ''mode''))
          else fmlookup payload ''mode'')"

definition lifecycle_marks :: "string \<Rightarrow> event \<Rightarrow> bool" where
  "lifecycle_marks mode ev =
     (e_type ev \<in> {''OPERATING_PROFILE_COMMITTED'', ''OPERATING_SWITCH_COMMITTED''}
      \<and> (case lifecycle_mode ev of None \<Rightarrow> True | Some m \<Rightarrow> m = JStr mode))"

definition state_malformed :: "dict \<Rightarrow> bool" where
  "state_malformed state =
     (\<not> (case jget state ''epoch_id'' of JStr t \<Rightarrow> t \<noteq> [] | _ \<Rightarrow> False)
      \<or> \<not> (case jget state ''generation'' of JInt n \<Rightarrow> 1 \<le> n | _ \<Rightarrow> False)
      \<or> jget state ''restore_guard'' \<notin> {JInt 0, JInt 1})"

definition effective_operating_scope :: "dict option \<Rightarrow> store \<Rightarrow> string \<Rightarrow> operating_scope" where
  "effective_operating_scope row s mode =
     (if row = None \<and> \<not> list_ex (lifecycle_marks mode) (st_events s)
      then \<lparr>sc_managed = False, sc_mode = mode, sc_state = None, sc_reason = None\<rparr>
      else case row of
        None \<Rightarrow> \<lparr>sc_managed = True, sc_mode = mode, sc_state = None, sc_reason = Some ''OPERATING_STATE_REQUIRED''\<rparr>
      | Some state \<Rightarrow> \<lparr>sc_managed = True, sc_mode = mode, sc_state = Some state,
          sc_reason = (if state_malformed state then Some ''OPERATING_STATE_INVALID''
                       else if jget state ''restore_guard'' = JInt 1 then Some ''RESTORE_NEW_EFFECTS_FORBIDDEN'' else None)\<rparr>)"

subsection \<open>The binding of an epoch\<close>

definition SIGNAL_MAX_CLOCK_SKEW_SECONDS :: int where "SIGNAL_MAX_CLOCK_SKEW_SECONDS = 2"

text \<open>\<open>_parse_utc\<close> of a value that should be a text, and the wall clock, which is aware.\<close>

definition jclock :: "jval \<Rightarrow> (int \<times> bool) res" where
  "jclock v = (case v of JStr t \<Rightarrow> clock_of t | _ \<Rightarrow> Inl PyValueError)"

definition clock_less :: "int \<times> bool \<Rightarrow> int \<times> bool \<Rightarrow> bool res" where
  "clock_less a b = (if snd a = snd b then Inr (fst a < fst b) else Inl PyTypeError)"

definition binding_instants :: "int \<Rightarrow> dict \<Rightarrow> string option \<Rightarrow> string option res" where
  "binding_instants wall activation as_of =
     (case as_of of None \<Rightarrow> Inr None
      | Some t \<Rightarrow>
          bindR (clock_of t) (\<lambda>now. bindR (bindR (jfield activation ''at'') jclock) (\<lambda>start. bindR (clock_less now start) (\<lambda>early.
          if early then Inr (Some ''DECISION_BEFORE_ACTIVATION'')
          else if jget activation ''evidence_class'' \<noteq> JStr ''OBSERVED'' then Inr None
          else if \<not> snd now then Inl PyTypeError
          else if SIGNAL_MAX_CLOCK_SKEW_SECONDS * 1000000 < \<bar>wall - fst now\<bar>
          then Inr (Some ''OBSERVED_RUNTIME_REQUIRES_PHYSICAL_CLOCK'') else Inr None))))"

definition expected_bot_of :: "dict \<Rightarrow> string \<Rightarrow> string \<Rightarrow> string res" where
  "expected_bot_of strategy mode epoch =
     bindR (jfield strategy ''strategy_id'') (\<lambda>sid. bindR (jfield strategy ''strategy_version'') (\<lambda>version.
       Inr (''BOT-'' @ jformat sid @ ''-'' @ jformat version @ ''-'' @ mode @ ''-'' @ epoch)))"

definition binding_conflict ::
  "(jval \<Rightarrow> string) \<Rightarrow> event \<Rightarrow> event \<Rightarrow> dict \<Rightarrow> dict \<Rightarrow> dict \<Rightarrow> string \<Rightarrow> string \<Rightarrow> string \<Rightarrow> string option \<Rightarrow> bool res" where
  "binding_conflict sha ev original body activation strategy expected_bot mode epoch strategy_sha =
     anyR [Inr (e_type ev \<noteq> ''OPERATING_BINDING_COMMITTED''),
       Inr (e_id ev \<noteq> ''OPERATING-'' @ epoch), Inr (e_id original \<noteq> epoch),
       field_differs body ''binding_sha256'' (JStr (sha (JObj (fmdrop ''binding_sha256'' body)))),
       field_differs activation ''epoch_id'' (JStr epoch), field_differs activation ''mode'' (JStr mode),
       bindR (jfield activation ''evidence_class'') (\<lambda>v. Inr (\<not> json_text_in v [''OBSERVED'', ''SYNTHETIC_OFFLINE''])),
       fields_differ activation ''strategy_sha256'' strategy ''spec_sha256'',
       fields_differ activation ''strategy_id'' strategy ''strategy_id'',
       fields_differ activation ''strategy_version'' strategy ''strategy_version'',
       Inr (e_bot ev \<noteq> Some expected_bot), Inr (e_position ev \<noteq> None),
       field_differs activation ''at'' (JStr (e_created_at ev)),
       Inr (e_type original \<noteq> ''OFFLINE_ACTIVATION_CREATED''), Inr (e_payload original \<noteq> Some (JObj activation)),
       Inr (e_bot original \<noteq> Some expected_bot), Inr (e_position original \<noteq> None),
       field_differs activation ''at'' (JStr (e_created_at original)),
       (case strategy_sha of None \<Rightarrow> Inr False | Some x \<Rightarrow> field_differs activation ''strategy_sha256'' (JStr x))]"

definition operating_binding_records_block ::
  "(jval \<Rightarrow> string) \<Rightarrow> int \<Rightarrow> event option \<Rightarrow> event option \<Rightarrow> string \<Rightarrow> string \<Rightarrow> string option \<Rightarrow> string option
   \<Rightarrow> string option res" where
  "operating_binding_records_block sha wall ev original mode epoch strategy_sha as_of =
     refuse_malformed ''OPERATING_BINDING_INTEGRITY_CONFLICT''
       (case ev of None \<Rightarrow> Inr (Some ''OPERATING_BINDING_MISSING'')
        | Some e \<Rightarrow>
            bindR (event_body e) (\<lambda>body.
            bindR (jfield body ''activation'') (\<lambda>activation_value.
            bindR (jfield body ''strategy'') (\<lambda>strategy_value.
            case original of None \<Rightarrow> Inr (Some ''OPERATING_ACTIVATION_BINDING_INCOMPLETE'')
            | Some o' \<Rightarrow>
                bindR (jdict strategy_value) (\<lambda>strategy.
                bindR (expected_bot_of strategy mode epoch) (\<lambda>expected_bot.
                bindR (jdict activation_value) (\<lambda>activation.
                bindR (binding_conflict sha e o' body activation strategy expected_bot mode epoch strategy_sha) (\<lambda>conflict.
                if conflict then Inr (Some ''OPERATING_BINDING_INTEGRITY_CONFLICT'')
                else binding_instants wall activation as_of))))))))"

text \<open>The two events are read before the check, so an unreadable one is reported as such.\<close>

definition operating_binding_block ::
  "(jval \<Rightarrow> string) \<Rightarrow> int \<Rightarrow> store \<Rightarrow> string \<Rightarrow> string option \<Rightarrow> string option \<Rightarrow> string option \<Rightarrow> string option res" where
  "operating_binding_block sha wall s mode epoch strategy_sha as_of =
     (case epoch of None \<Rightarrow> Inl PyTypeError
      | Some ep \<Rightarrow>
          bindR (get_execution_event (''OPERATING-'' @ ep) s) (\<lambda>ev.
          bindR (get_execution_event ep s) (\<lambda>original.
            operating_binding_records_block sha wall ev original mode ep strategy_sha as_of)))"

subsection \<open>The lineage of switches\<close>

record switch_bundle =
  sb_activation :: "event option"
  sb_binding :: "event option"
  sb_profile :: "event option"

definition SWITCH_BODY_KEYS :: "string list" where
  "SWITCH_BODY_KEYS = [''epoch_id'', ''at'', ''mode'', ''profile'', ''strategy_sha256'', ''expected_current_epoch'']"

definition is_hex_digit :: "char \<Rightarrow> bool" where
  "is_hex_digit c = (c \<in> set ''0123456789abcdef'')"

definition switch_id_ok :: "string \<Rightarrow> bool" where
  "switch_id_ok t = (take 7 t = ''SWITCH-'' \<and> length t = 71 \<and> list_all is_hex_digit (drop 7 t))"

text \<open>A switch event of itself, and its place after the epoch before it.\<close>

definition switch_conflict :: "string \<Rightarrow> event \<Rightarrow> dict \<Rightarrow> jval \<Rightarrow> bool res" where
  "switch_conflict mode ev body previous =
     anyR [Inr (e_type ev \<noteq> ''OPERATING_SWITCH_COMMITTED''), Inr (e_bot ev \<noteq> None), Inr (e_position ev \<noteq> None),
       Inr (\<not> switch_id_ok (e_id ev)), Inr (fmdom body \<noteq> fset_of_list SWITCH_BODY_KEYS),
       field_differs body ''mode'' (JStr mode), field_differs body ''expected_current_epoch'' previous,
       field_differs body ''at'' (JStr (e_created_at ev))]"

definition profile_conflict :: "(jval \<Rightarrow> string) \<Rightarrow> string \<Rightarrow> string \<Rightarrow> event \<Rightarrow> dict \<Rightarrow> bool res" where
  "profile_conflict sha mode epoch ev profile =
     anyR [Inr (e_type ev \<noteq> ''OPERATING_PROFILE_COMMITTED''), Inr (e_id ev \<noteq> ''PROFILE-'' @ epoch),
       Inr (e_bot ev \<noteq> None), Inr (e_position ev \<noteq> None),
       Inr (fmdom profile \<noteq> {|''profile'', ''profile_sha256''|}),
       bindR (jfield profile ''profile'') (\<lambda>v. Inr (jobj_of v = None)),
       bindR (jfield profile ''profile'') (\<lambda>v. field_differs profile ''profile_sha256'' (JStr (sha v))),
       bindR (bindR (jfield profile ''profile'') jdict) (\<lambda>d. Inr (jget d ''mode'' \<noteq> JStr mode))]"

text \<open>The activation and binding of the epoch a switch starts.\<close>

definition switch_binding_block ::
  "(jval \<Rightarrow> string) \<Rightarrow> int \<Rightarrow> string \<Rightarrow> string \<Rightarrow> string option \<Rightarrow> bool \<Rightarrow> dict \<Rightarrow> string \<Rightarrow> switch_bundle \<Rightarrow> string option res" where
  "switch_binding_block sha wall mode current_epoch strategy_sha initializing body epoch bundle =
     (if initializing \<and> epoch = current_epoch \<and> sb_activation bundle = None \<and> sb_binding bundle = None
      then (case strategy_sha of None \<Rightarrow> Inr (Some ''OPERATING_SWITCH_STATE_CONFLICT'')
            | Some x \<Rightarrow> bindR (field_differs body ''strategy_sha256'' (JStr x)) (\<lambda>differs.
                Inr (if differs then Some ''OPERATING_SWITCH_STATE_CONFLICT'' else None)))
      else
        bindR (operating_binding_records_block sha wall (sb_binding bundle) (sb_activation bundle) mode epoch None None) (\<lambda>block.
        if block \<noteq> None then Inr block
        else
          bindR (case (sb_activation bundle, sb_binding bundle) of
              (Some a, Some b) \<Rightarrow>
                bindR (event_body a) (\<lambda>activation. bindR (event_body b) (\<lambda>binding.
                bindR (bindR (jfield binding ''strategy'') jdict) (\<lambda>strategy.
                  anyR [fields_differ activation ''at'' body ''at'', fields_differ body ''strategy_sha256'' strategy ''spec_sha256''])))
            | _ \<Rightarrow> Inl PyTypeError) (\<lambda>differs.
          if differs then Inr (Some ''OPERATING_SWITCH_STATE_CONFLICT'')
          else if epoch = current_epoch \<and> strategy_sha \<noteq> None
          then operating_binding_records_block sha wall (sb_binding bundle) (sb_activation bundle) mode epoch strategy_sha None
          else Inr None)))"

definition switch_block ::
  "(jval \<Rightarrow> string) \<Rightarrow> int \<Rightarrow> string \<Rightarrow> string \<Rightarrow> (string \<times> switch_bundle) list \<Rightarrow> string option \<Rightarrow> string option \<Rightarrow> bool
   \<Rightarrow> event \<Rightarrow> jval \<Rightarrow> (string option \<times> string) res" where
  "switch_block sha wall mode current_epoch bundles strategy_sha as_of initializing ev previous =
     bindR (event_body ev) (\<lambda>body.
     bindR (jfield body ''epoch_id'') (\<lambda>epoch_value.
     case epoch_value of
       JStr epoch \<Rightarrow>
         (case map_of bundles epoch of None \<Rightarrow> Inl PyKeyError
          | Some bundle \<Rightarrow>
            bindR (switch_conflict mode ev body previous) (\<lambda>conflict.
            if conflict then Inr (Some ''OPERATING_SWITCH_STATE_CONFLICT'', epoch)
            else case sb_profile bundle of None \<Rightarrow> Inr (Some ''OPERATING_PROFILE_REQUIRED'', epoch)
            | Some pev \<Rightarrow>
              bindR (event_body pev) (\<lambda>profile.
              bindR (profile_conflict sha mode epoch pev profile) (\<lambda>bad_profile.
              if bad_profile then Inr (Some ''OPERATING_PROFILE_INTEGRITY_CONFLICT'', epoch)
              else
                bindR (anyR [fields_differ body ''profile'' profile ''profile'', field_differs body ''at'' (JStr (e_created_at pev))])
                  (\<lambda>differs.
                if differs then Inr (Some ''OPERATING_SWITCH_STATE_CONFLICT'', epoch)
                else
                  bindR (switch_binding_block sha wall mode current_epoch strategy_sha initializing body epoch bundle) (\<lambda>block.
                  if block \<noteq> None then Inr (block, epoch)
                  else case as_of of None \<Rightarrow> Inr (None, epoch)
                  | Some t \<Rightarrow>
                      bindR (bindR (jfield body ''at'') jclock) (\<lambda>start. bindR (clock_of t) (\<lambda>now. bindR (clock_less now start) (\<lambda>early.
                        Inr (if early then Some ''DECISION_BEFORE_ACTIVATION'' else None, epoch))))))))))
     | _ \<Rightarrow> Inl PyTypeError))"

fun switch_loop ::
  "(jval \<Rightarrow> string) \<Rightarrow> int \<Rightarrow> string \<Rightarrow> string \<Rightarrow> (string \<times> switch_bundle) list \<Rightarrow> string option \<Rightarrow> string option \<Rightarrow> bool
   \<Rightarrow> event list \<Rightarrow> jval \<Rightarrow> string option res" where
  "switch_loop sha wall mode current_epoch bundles strategy_sha as_of initializing [] previous = Inr None"
| "switch_loop sha wall mode current_epoch bundles strategy_sha as_of initializing (ev # evs) previous =
     bindR (switch_block sha wall mode current_epoch bundles strategy_sha as_of initializing ev previous) (\<lambda>(block, epoch).
       if block \<noteq> None then Inr block
       else switch_loop sha wall mode current_epoch bundles strategy_sha as_of initializing evs (JStr epoch))"

definition operating_switch_lineage_block ::
  "(jval \<Rightarrow> string) \<Rightarrow> int \<Rightarrow> string \<Rightarrow> dict \<Rightarrow> event list \<Rightarrow> (string \<times> switch_bundle) list \<Rightarrow> string option \<Rightarrow> string option
   \<Rightarrow> bool \<Rightarrow> string option res" where
  "operating_switch_lineage_block sha wall mode current switches bundles strategy_sha as_of initializing =
     refuse_malformed ''OPERATING_SWITCH_STATE_CONFLICT''
       (case (rev switches, jget current ''generation'', jget current ''epoch_id'') of
          (newest # older, JInt n, JStr current_epoch) \<Rightarrow>
            if int (length switches) \<noteq> n \<or> \<not> distinct (map e_id switches)
            then Inr (Some ''OPERATING_SWITCH_STATE_CONFLICT'')
            else bindR (bindR (event_body newest) (\<lambda>body. field_differs body ''epoch_id'' (JStr current_epoch))) (\<lambda>differs.
              if differs then Inr (Some ''OPERATING_SWITCH_STATE_CONFLICT'')
              else switch_loop sha wall mode current_epoch bundles strategy_sha as_of initializing switches JNull)
        | _ \<Rightarrow> Inr (Some ''OPERATING_SWITCH_STATE_CONFLICT''))"

subsection \<open>Entering and attempting\<close>

definition profile_block :: "(jval \<Rightarrow> string) \<Rightarrow> string \<Rightarrow> store \<Rightarrow> string \<Rightarrow> string option res" where
  "profile_block sha mode s epoch =
     refuse_malformed ''OPERATING_PROFILE_INTEGRITY_CONFLICT''
       (bindR (get_execution_event (''PROFILE-'' @ epoch) s) (\<lambda>found.
        case found of None \<Rightarrow> Inr (Some ''OPERATING_PROFILE_REQUIRED'')
        | Some ev \<Rightarrow>
            bindR (event_body ev) (\<lambda>body.
            bindR (jfield body ''profile'') (\<lambda>profile.
            bindR (anyR [Inr (e_type ev \<noteq> ''OPERATING_PROFILE_COMMITTED''), Inr (fmdom body \<noteq> {|''profile'', ''profile_sha256''|}),
                Inr (jobj_of profile = None), field_differs body ''profile_sha256'' (JStr (sha profile)),
                bindR (jdict profile) (\<lambda>d. Inr (jget d ''mode'' \<noteq> JStr mode))]) (\<lambda>conflict.
              Inr (if conflict then Some ''OPERATING_PROFILE_INTEGRITY_CONFLICT'' else None))))))"

definition switch_bundle_of :: "store \<Rightarrow> event \<Rightarrow> (string \<times> switch_bundle) res" where
  "switch_bundle_of s ev =
     bindR (bindR (event_body ev) (\<lambda>body. jfield body ''epoch_id'')) (\<lambda>v.
     case v of
       JStr epoch \<Rightarrow>
         bindR (get_execution_event epoch s) (\<lambda>activation.
         bindR (get_execution_event (''OPERATING-'' @ epoch) s) (\<lambda>binding.
         bindR (get_execution_event (''PROFILE-'' @ epoch) s) (\<lambda>profile.
           Inr (epoch, \<lparr>sb_activation = activation, sb_binding = binding, sb_profile = profile\<rparr>))))
     | _ \<Rightarrow> Inl PyTypeError)"

definition mode_switches :: "string \<Rightarrow> store \<Rightarrow> event list res" where
  "mode_switches mode s =
     (let evs = filtered_execution_events (Some ''OPERATING_SWITCH_COMMITTED'') None s in
      if list_ex (\<lambda>e. payload_of e = None) evs then Inl PyAttributeError
      else Inr (filter (\<lambda>e. case payload_of e of None \<Rightarrow> False | Some d \<Rightarrow> jget d ''mode'' = JStr mode) evs))"

definition operating_entry_block ::
  "(jval \<Rightarrow> string) \<Rightarrow> int \<Rightarrow> store \<Rightarrow> operating_scope \<Rightarrow> string option \<Rightarrow> string option \<Rightarrow> string option \<Rightarrow> bool
   \<Rightarrow> string option res" where
  "operating_entry_block sha wall s sc epoch strategy_sha as_of initializing =
     (if \<not> sc_managed sc then Inr None
      else if sc_reason sc \<noteq> None then Inr (sc_reason sc)
      else case sc_state sc of None \<Rightarrow> Inl PyTypeError
      | Some state \<Rightarrow>
        if jget state ''epoch_id'' \<noteq> jtext epoch then Inr (Some ''OPERATING_ENTRY_SCOPE_NOT_CURRENT'')
        else case epoch of None \<Rightarrow> Inl PyTypeError
        | Some ep \<Rightarrow>
          bindR (profile_block sha (sc_mode sc) s ep) (\<lambda>block.
          if block \<noteq> None then Inr block
          else case bindR (mode_switches (sc_mode sc) s) (\<lambda>switches. bindR (mapR (switch_bundle_of s) switches) (\<lambda>bundles.
                      Inr (switches, bundles))) of
            Inl e \<Rightarrow> if malformed_error e then Inr (Some ''OPERATING_SWITCH_STATE_CONFLICT'') else Inl e
          | Inr (switches, bundles) \<Rightarrow>
              bindR (operating_switch_lineage_block sha wall (sc_mode sc) state switches bundles strategy_sha as_of initializing) (\<lambda>lineage.
              if lineage \<noteq> None then Inr lineage
              else if initializing then Inr None
              else operating_binding_block sha wall s (sc_mode sc) (Some ep) strategy_sha as_of)))"

text \<open>An old exit needs only the binding it came from.\<close>

definition operating_attempt_block ::
  "(jval \<Rightarrow> string) \<Rightarrow> int \<Rightarrow> store \<Rightarrow> operating_scope \<Rightarrow> string option \<Rightarrow> string \<Rightarrow> string \<Rightarrow> string option res" where
  "operating_attempt_block sha wall s sc epoch side as_of =
     (if \<not> sc_managed sc then Inr None
      else if sc_reason sc \<noteq> None then Inr (sc_reason sc)
      else if side = ''ENTRY'' then operating_entry_block sha wall s sc epoch None (Some as_of) False
      else operating_binding_block sha wall s (sc_mode sc) epoch None (Some as_of))"

end
