(* ===== verification/Obligations.thy ===== *)
theory Obligations
  imports PaperInventory OperatingEnvelope
begin

section \<open>Outstanding obligations\<close>

text \<open>
  \<open>obligation_positions\<close> of \<open>factory/paper_plane.py\<close>, \<open>obligation_summary\<close> and
  \<open>enforce_operating_envelope\<close> of \<open>factory/trading_runtime_policy.py\<close>: what a mode still owes. A position
  leaves the sum only when original events prove its release, once in SQL (\<open>proved_release\<close>) and once
  more in Python; what cannot be proved counts with its admission or its last proved cost basis and
  makes the sum unknown. The SQL functions call the validators of \<open>PaperWitness\<close> and
  \<open>PaperInventory\<close> on the columns and payloads they are given.
\<close>

subsection \<open>The SQL prefilter\<close>

definition ZERO_TEXTS :: "string list" where
  "ZERO_TEXTS = [''0'', ''0.0'', ''0.00'', ''0.00000000'']"

definition SHORT_ZERO_TEXTS :: "string list" where
  "SHORT_ZERO_TEXTS = [''0'', ''0.0'', ''0.00'']"

definition column_in :: "string list \<Rightarrow> string option \<Rightarrow> bool" where
  "column_in xs c = (case c of None \<Rightarrow> False | Some t \<Rightarrow> t \<in> set xs)"

text \<open>\<open>json_valid(t) AND CAST(t AS REAL) > 0\<close>: the text is a JSON number and positive.\<close>

definition json_number :: "string \<Rightarrow> bool" where
  "json_number t =
     (let u = (if take 1 t = ''-'' then drop 1 t else t); ip = takeWhile is_digit u; r = dropWhile is_digit u;
          (fp, r2) = (case r of c # r' \<Rightarrow> if c = CHR ''.'' then (Some (takeWhile is_digit r'), dropWhile is_digit r') else (None, r)
                      | [] \<Rightarrow> (None, []));
          ex = (case r2 of [] \<Rightarrow> True
                | c # r' \<Rightarrow> (c = CHR ''e'' \<or> c = CHR ''E'')
                    \<and> (let ds = (if take 1 r' = ''+'' \<or> take 1 r' = ''-'' then drop 1 r' else r')
                       in ds \<noteq> [] \<and> list_all is_digit ds))
      in ip \<noteq> [] \<and> (length ip = 1 \<or> hd ip \<noteq> CHR ''0'') \<and> fp \<noteq> Some [] \<and> ex)"

definition sql_positive :: "string option \<Rightarrow> bool" where
  "sql_positive c =
     (case c of None \<Rightarrow> False
      | Some t \<Rightarrow> json_number t \<and> (case dec_of_string t of Inl e \<Rightarrow> False | Inr x \<Rightarrow> dec_less dec_zero x))"

definition RECONCILED_CLASSES :: "string list" where
  "RECONCILED_CLASSES = [''PAPER_RECONCILED_MODEL'', ''SHADOW_RECONCILED_QUOTE_MODEL'']"

definition known_flat :: "position \<Rightarrow> bool" where
  "known_flat p =
     (p_state p = RECONCILED \<and> p_exit_notional_usd_dec p \<noteq> None \<and> column_in RECONCILED_CLASSES (p_pnl_evidence_class p)
      \<and> sql_positive (p_qty_dec p)
      \<and> (p_remaining_qty_dec p = None
         \<or> column_in ZERO_TEXTS (p_remaining_qty_dec p) \<and> column_in ZERO_TEXTS (p_remaining_cost_basis_usd_dec p)
           \<and> column_in ZERO_TEXTS (p_remaining_entry_fee_usd_dec p)))"

definition known_released :: "position \<Rightarrow> bool" where
  "known_released p =
     (known_flat p
      \<or> p_state p = CANCELLED \<and> p_qty_dec p = None \<and> p_entry_price_dec p = None
        \<and> column_in SHORT_ZERO_TEXTS (p_remaining_qty_dec p) \<and> column_in SHORT_ZERO_TEXTS (p_remaining_cost_basis_usd_dec p)
        \<and> column_in SHORT_ZERO_TEXTS (p_remaining_entry_fee_usd_dec p))"

text \<open>\<open>json_extract(payload, '$.key')\<close>, NULL for a payload that is no object.\<close>

definition payload_field :: "event \<Rightarrow> string \<Rightarrow> jval" where
  "payload_field ev k = (case payload_of ev of None \<Rightarrow> JNull | Some d \<Rightarrow> jget d k)"

definition result_field :: "event \<Rightarrow> string \<Rightarrow> jval" where
  "result_field ev k = (case result_of ev of None \<Rightarrow> JNull | Some r \<Rightarrow> jget r k)"

definition position_events :: "position \<Rightarrow> store \<Rightarrow> event list" where
  "position_events p s = filter (\<lambda>e. e_position e = Some (p_id p)) (st_events s)"

definition attempts_in :: "event list \<Rightarrow> event list" where
  "attempts_in evs = filter (\<lambda>e. e_type e = ''MODELED_ATTEMPT_STARTED'') evs"

text \<open>\<open>_LEGACY_QUANTITY_SQL\<close>.\<close>

definition readable :: "event list \<Rightarrow> bool" where
  "readable evs = list_all (\<lambda>e. e_payload e \<noteq> None) evs"

definition native_entry_proof :: "position \<Rightarrow> string \<Rightarrow> store \<Rightarrow> bool" where
  "native_entry_proof p mode s =
     (let evs = position_events p s in readable evs \<and> native_legacy_entry_witness_valid p evs mode)"

definition old_entry_result :: "position \<Rightarrow> store \<Rightarrow> bool" where
  "old_entry_result p s =
     list_ex (\<lambda>r. e_type r = ''MODELED_RESULT_ACCEPTED'' \<and> result_field r ''schema_version'' = JNull
         \<and> json_text_in (result_field r ''outcome'') POSITIVE_OUTCOMES
         \<and> list_ex (\<lambda>a. result_field r ''attempt_id'' = JStr (e_id a) \<and> payload_field a ''side'' = JStr ''ENTRY'')
             (attempts_in (position_events p s)))
       (position_events p s)"

definition legacy_quantity :: "position \<Rightarrow> string \<Rightarrow> store \<Rightarrow> original_quantity option" where
  "legacy_quantity p mode s =
     (if p_entry_fee_semantics p = None \<and> old_entry_result p s \<or> native_entry_proof p mode s
      then map_option QuantityText (p_qty_dec p) else None)"

text \<open>\<open>_FINAL_WITNESS_JOIN_SQL\<close>: the final event of an attempt that a result of it proves.\<close>

definition proved_finals :: "(jval \<Rightarrow> string) \<Rightarrow> position \<Rightarrow> string \<Rightarrow> store \<Rightarrow> event \<Rightarrow> event list" where
  "proved_finals spec_sha p mode s attempt =
     filter (\<lambda>f. e_id f = ''FINAL-'' @ e_id attempt \<and> e_bot attempt = Some (p_bot p)
         \<and> list_ex (\<lambda>r. payload_field f ''result_event_id'' = JStr (e_id r)
              \<and> modeled_final_witness_valid spec_sha attempt (Some f) r mode (legacy_quantity p mode s) (Some p)) (st_events s))
       (st_events s)"

definition all_attempts_final :: "(jval \<Rightarrow> string) \<Rightarrow> position \<Rightarrow> string \<Rightarrow> store \<Rightarrow> bool" where
  "all_attempts_final spec_sha p mode s =
     list_all (\<lambda>a. proved_finals spec_sha p mode s a \<noteq> []) (attempts_in (position_events p s))"

definition no_orphan_events :: "(jval \<Rightarrow> string) \<Rightarrow> position \<Rightarrow> string \<Rightarrow> store \<Rightarrow> bool" where
  "no_orphan_events spec_sha p mode s =
     list_all (\<lambda>e.
         (e_type e = ''MODELED_ATTEMPT_FINAL'' \<longrightarrow>
            list_ex (\<lambda>a. e_id e = ''FINAL-'' @ e_id a \<and> proved_finals spec_sha p mode s a \<noteq> [])
              (attempts_in (position_events p s)))
         \<and> (e_type e = ''MODELED_RESULT_ACCEPTED'' \<longrightarrow>
            list_ex (\<lambda>a. result_field e ''attempt_id'' = JStr (e_id a) \<and> e_bot a = Some (p_bot p)
                \<and> modeled_final_witness_valid spec_sha a None e mode (legacy_quantity p mode s) (Some p))
              (position_events p s)))
       (position_events p s)"

definition attempt_proved ::
  "(jval \<Rightarrow> string) \<Rightarrow> position \<Rightarrow> string \<Rightarrow> store \<Rightarrow> string \<Rightarrow> string list \<Rightarrow> bool" where
  "attempt_proved spec_sha p mode s side outcomes =
     list_ex (\<lambda>a. payload_field a ''side'' = JStr side
         \<and> list_ex (\<lambda>f. json_text_in (payload_field f ''outcome'') outcomes) (proved_finals spec_sha p mode s a))
       (attempts_in (position_events p s))"

definition MODELED_TYPES :: "string list" where
  "MODELED_TYPES = [''MODELED_ATTEMPT_STARTED'', ''MODELED_ATTEMPT_FINAL'', ''MODELED_RESULT_ACCEPTED'']"

definition unattempted_cancel_proof :: "position \<Rightarrow> store \<Rightarrow> bool" where
  "unattempted_cancel_proof p s =
     (events_of MODELED_TYPES (position_events p s) = []
      \<and> list_ex (unattempted_cancel_witness_valid p) (events_of [''ENTRY_INTENT_CANCELLED''] (position_events p s)))"

definition native_release_proof :: "(jval \<Rightarrow> string) \<Rightarrow> position \<Rightarrow> string \<Rightarrow> store \<Rightarrow> bool" where
  "native_release_proof spec_sha p mode s =
     (native_entry_proof p mode s \<and> returned (inventory_witness spec_sha p (position_events p s) mode None False False))"

definition not_ordinary :: "position \<Rightarrow> bool" where
  "not_ordinary p = (case p_ordinary_operating p of None \<Rightarrow> True | Some n \<Rightarrow> n = 0)"

definition proved_release :: "(jval \<Rightarrow> string) \<Rightarrow> position \<Rightarrow> string option \<Rightarrow> store \<Rightarrow> bool" where
  "proved_release spec_sha p bot_mode s =
     (let mode = (case bot_mode of None \<Rightarrow> [] | Some m \<Rightarrow> m) in
      all_attempts_final spec_sha p mode s \<and> no_orphan_events spec_sha p mode s
      \<and> (p_state p = CANCELLED
           \<and> (attempt_proved spec_sha p mode s ''ENTRY'' NONFILL_OUTCOMES \<or> unattempted_cancel_proof p s)
         \<or> p_state p = RECONCILED
           \<and> (attempt_proved spec_sha p mode s ''EXIT'' [''LANDED_SUCCESS'']
                \<and> (not_ordinary p \<or> attempt_proved spec_sha p mode s ''ENTRY'' POSITIVE_OUTCOMES)
              \<or> native_release_proof spec_sha p mode s)))"

definition obligation_mode :: "position \<Rightarrow> store \<Rightarrow> string option" where
  "obligation_mode p s = map_option b_mode (get_bot (p_bot p) s)"

definition obligation_positions :: "(jval \<Rightarrow> string) \<Rightarrow> string \<Rightarrow> store \<Rightarrow> position list" where
  "obligation_positions spec_sha mode s =
     filter (\<lambda>p. (\<not> known_released p \<or> \<not> proved_release spec_sha p (obligation_mode p s) s)
         \<and> obligation_mode p s \<in> {None, Some mode}) (st_positions s)"

subsection \<open>The candidates with their events\<close>

text \<open>
  What the summary collects over all candidates before it looks at one of them: the candidates, their
  events in rowid order, the quantities of the first version, and the final events that are proved.
\<close>

record obligation_view =
  ov_mode :: string
  ov_positions :: "position list"
  ov_events :: "event list"

definition view_of :: "(jval \<Rightarrow> string) \<Rightarrow> string \<Rightarrow> string option \<Rightarrow> store \<Rightarrow> obligation_view" where
  "view_of spec_sha mode exclude s =
     (let ps = filter (\<lambda>p. Some (p_id p) \<noteq> exclude) (obligation_positions spec_sha mode s) in
      \<lparr>ov_mode = mode, ov_positions = ps, ov_events = filtered_execution_events None (Some (map p_id ps)) s\<rparr>)"

definition view_position :: "obligation_view \<Rightarrow> string option \<Rightarrow> position option" where
  "view_position v pid = List.find (\<lambda>p. Some (p_id p) = pid) (ov_positions v)"

definition events_at :: "obligation_view \<Rightarrow> position \<Rightarrow> event list" where
  "events_at v p = filter (\<lambda>e. e_position e = Some (p_id p)) (ov_events v)"

definition native_legacy :: "obligation_view \<Rightarrow> position \<Rightarrow> bool" where
  "native_legacy v p = native_legacy_entry_witness_valid p (events_at v p) (ov_mode v)"

definition view_attempt :: "obligation_view \<Rightarrow> jval \<Rightarrow> event option" where
  "view_attempt v aid = (case aid of JStr t \<Rightarrow> event_by_id ''MODELED_ATTEMPT_STARTED'' t (ov_events v) | _ \<Rightarrow> None)"

text \<open>A positive result of the first version whose attempt was an entry.\<close>

definition old_entry_observed :: "obligation_view \<Rightarrow> event \<Rightarrow> bool" where
  "old_entry_observed v r =
     (e_type r = ''MODELED_RESULT_ACCEPTED'' \<and> result_of r \<noteq> None \<and> result_field r ''schema_version'' = JNull
      \<and> json_text_in (result_field r ''outcome'') POSITIVE_OUTCOMES
      \<and> (case view_attempt v (result_field r ''attempt_id'') of None \<Rightarrow> False
         | Some a \<Rightarrow> payload_field a ''side'' = JStr ''ENTRY''))"

definition view_legacy_quantity :: "obligation_view \<Rightarrow> position \<Rightarrow> original_quantity option" where
  "view_legacy_quantity v p =
     (if native_legacy v p
         \<or> p_entry_fee_semantics p = None \<and> list_ex (old_entry_observed v) (events_at v p)
      then map_option QuantityText (p_qty_dec p) else None)"

definition legacy_at :: "obligation_view \<Rightarrow> string option \<Rightarrow> original_quantity option" where
  "legacy_at v pid = Option.bind (view_position v pid) (view_legacy_quantity v)"

definition DEFINITIVE_OUTCOMES :: "string list" where
  "DEFINITIVE_OUTCOMES = NONFILL_OUTCOMES @ POSITIVE_OUTCOMES"

definition proved_final :: "(jval \<Rightarrow> string) \<Rightarrow> obligation_view \<Rightarrow> event \<Rightarrow> bool" where
  "proved_final spec_sha v f =
     (e_type f = ''MODELED_ATTEMPT_FINAL'' \<and> json_text_in (payload_field f ''outcome'') DEFINITIVE_OUTCOMES
      \<and> (case (payload_field f ''result_event_id'',
              event_by_id ''MODELED_ATTEMPT_STARTED'' (remove_prefix ''FINAL-'' (e_id f)) (ov_events v)) of
           (JStr rid, Some attempt) \<Rightarrow>
             (case event_by_id ''MODELED_RESULT_ACCEPTED'' rid (ov_events v) of None \<Rightarrow> False
              | Some r \<Rightarrow> modeled_final_witness_valid spec_sha attempt (Some f) r (ov_mode v)
                            (legacy_at v (e_position attempt)) (view_position v (e_position attempt)))
         | _ \<Rightarrow> False))"

text \<open>The proved final event of an attempt.\<close>

definition final_at :: "(jval \<Rightarrow> string) \<Rightarrow> obligation_view \<Rightarrow> event \<Rightarrow> event option" where
  "final_at spec_sha v attempt = List.find (\<lambda>f. e_id f = ''FINAL-'' @ e_id attempt \<and> proved_final spec_sha v f) (ov_events v)"

subsection \<open>One position\<close>

text \<open>\<open>_as_decimal\<close>: a finite number, or None.\<close>

definition as_decimal :: "string option \<Rightarrow> decimal option" where
  "as_decimal t = (if \<not> present t then None
     else case dec_of_string (the t) of Inl e \<Rightarrow> None | Inr x \<Rightarrow> if dec_is_finite x then Some x else None)"

definition zero_or_none :: "decimal option \<Rightarrow> bool" where
  "zero_or_none x = (case x of None \<Rightarrow> True | Some y \<Rightarrow> dec_eq y dec_zero)"

definition is_zero_amount :: "decimal option \<Rightarrow> bool" where
  "is_zero_amount x = (case x of None \<Rightarrow> False | Some y \<Rightarrow> dec_eq y dec_zero)"

definition positive_amount :: "decimal option \<Rightarrow> bool" where
  "positive_amount x = (case x of None \<Rightarrow> False | Some y \<Rightarrow> dec_less dec_zero y)"

definition position_attempts :: "obligation_view \<Rightarrow> position \<Rightarrow> event list" where
  "position_attempts v p = attempts_in (events_at v p)"

definition unresolved_attempts :: "(jval \<Rightarrow> string) \<Rightarrow> obligation_view \<Rightarrow> position \<Rightarrow> event list" where
  "unresolved_attempts spec_sha v p = filter (\<lambda>a. final_at spec_sha v a = None) (position_attempts v p)"

definition final_outcome :: "(jval \<Rightarrow> string) \<Rightarrow> obligation_view \<Rightarrow> event \<Rightarrow> jval" where
  "final_outcome spec_sha v a = (case final_at spec_sha v a of None \<Rightarrow> JNull | Some f \<Rightarrow> payload_field f ''outcome'')"

definition side_outcome ::
  "(jval \<Rightarrow> string) \<Rightarrow> obligation_view \<Rightarrow> position \<Rightarrow> string \<Rightarrow> string list \<Rightarrow> bool" where
  "side_outcome spec_sha v p side outcomes =
     list_ex (\<lambda>a. payload_field a ''side'' = JStr side \<and> json_text_in (final_outcome spec_sha v a) outcomes) (position_attempts v p)"

definition held_quantity :: "position \<Rightarrow> decimal option" where
  "held_quantity p = as_decimal (if p_remaining_qty_dec p \<noteq> None then p_remaining_qty_dec p else p_qty_dec p)"

definition corrupt_event :: "(jval \<Rightarrow> string) \<Rightarrow> obligation_view \<Rightarrow> position \<Rightarrow> event \<Rightarrow> bool" where
  "corrupt_event spec_sha v p e =
     (if e_type e = ''MODELED_ATTEMPT_FINAL'' then \<not> proved_final spec_sha v e
      else result_of e = None
        \<or> (case view_attempt v (result_field e ''attempt_id'') of None \<Rightarrow> True
           | Some a \<Rightarrow> \<not> modeled_final_witness_valid spec_sha a None e (ov_mode v) (view_legacy_quantity v p) (Some p)))"

definition corrupt_events :: "(jval \<Rightarrow> string) \<Rightarrow> obligation_view \<Rightarrow> position \<Rightarrow> bool" where
  "corrupt_events spec_sha v p =
     list_ex (corrupt_event spec_sha v p) (events_of [''MODELED_ATTEMPT_FINAL'', ''MODELED_RESULT_ACCEPTED''] (events_at v p))"

definition exit_proved :: "(jval \<Rightarrow> string) \<Rightarrow> obligation_view \<Rightarrow> position \<Rightarrow> bool" where
  "exit_proved spec_sha v p =
     (side_outcome spec_sha v p ''EXIT'' [''LANDED_SUCCESS'']
      \<and> (not_ordinary p \<or> native_legacy v p \<or> side_outcome spec_sha v p ''ENTRY'' POSITIVE_OUTCOMES))"

definition flat_position :: "(jval \<Rightarrow> string) \<Rightarrow> obligation_view \<Rightarrow> position \<Rightarrow> bool" where
  "flat_position spec_sha v p =
     (p_state p = RECONCILED \<and> present (p_exit_notional_usd_dec p) \<and> column_in RECONCILED_CLASSES (p_pnl_evidence_class p)
      \<and> positive_amount (as_decimal (p_qty_dec p))
      \<and> (p_remaining_qty_dec p = None
         \<or> is_zero_amount (held_quantity p) \<and> is_zero_amount (as_decimal (p_remaining_cost_basis_usd_dec p))
           \<and> is_zero_amount (as_decimal (p_remaining_entry_fee_usd_dec p)))
      \<and> (exit_proved spec_sha v p
         \<or> (not_ordinary p \<or> native_legacy v p) \<and> events_of MODELED_TYPES (events_at v p) = []))"

definition nothing_filled :: "position \<Rightarrow> bool" where
  "nothing_filled p = (p_qty_dec p = None \<and> p_entry_price_dec p = None \<and> zero_or_none (held_quantity p))"

definition nonfill_position :: "(jval \<Rightarrow> string) \<Rightarrow> obligation_view \<Rightarrow> position \<Rightarrow> bool" where
  "nonfill_position spec_sha v p = (side_outcome spec_sha v p ''ENTRY'' NONFILL_OUTCOMES \<and> nothing_filled p)"

definition unattempted_cancel :: "obligation_view \<Rightarrow> position \<Rightarrow> bool" where
  "unattempted_cancel v p =
     (p_state p = CANCELLED \<and> events_of MODELED_TYPES (events_at v p) = [] \<and> nothing_filled p
      \<and> list_all (\<lambda>c. c = None \<or> is_zero_amount (as_decimal c))
          [p_remaining_cost_basis_usd_dec p, p_remaining_entry_fee_usd_dec p]
      \<and> list_ex (unattempted_cancel_witness_valid p) (events_of [''ENTRY_INTENT_CANCELLED''] (events_at v p)))"

definition witness_conflict :: "(jval \<Rightarrow> string) \<Rightarrow> position \<Rightarrow> store \<Rightarrow> bool" where
  "witness_conflict spec_sha p s =
     (p_qty_dec p \<noteq> None \<and> \<not> returned (assert_quantity_inventory_witness spec_sha p None True False s))"

text \<open>A position the summary leaves out.\<close>

definition released :: "(jval \<Rightarrow> string) \<Rightarrow> obligation_view \<Rightarrow> store \<Rightarrow> position \<Rightarrow> bool" where
  "released spec_sha v s p =
     (unresolved_attempts spec_sha v p = [] \<and> \<not> corrupt_events spec_sha v p \<and> \<not> witness_conflict spec_sha p s
      \<and> (flat_position spec_sha v p \<or> nonfill_position spec_sha v p \<or> unattempted_cancel v p))"

subsection \<open>What one position owes\<close>

record obligation =
  ob_position :: string
  ob_bot :: string
  ob_strategy :: "string option"
  ob_epoch :: "string option"
  ob_state :: string
  ob_remaining :: "string option"
  ob_cost_basis :: "string option"
  ob_unknown :: bool

text \<open>The remainder does not fit what was entered: \<open>exposure != entered_cost * quantity / original\<close>.\<close>

definition invalid_remainder :: "position \<Rightarrow> decimal option \<Rightarrow> decimal option \<Rightarrow> bool res" where
  "invalid_remainder p quantity known =
     (if p_remaining_qty_dec p = None then Inr False
      else case (quantity, as_decimal (p_qty_dec p), as_decimal (p_entered_notional_usd_dec p)) of
        (Some q, Some original, Some entered) \<Rightarrow>
          if \<not> dec_less dec_zero original \<or> \<not> dec_less dec_zero q \<or> dec_less original q \<or> \<not> dec_less dec_zero entered
          then Inr True
          else (case known of None \<Rightarrow> Inr False
            | Some x \<Rightarrow> bindR (bindR (dec_mul entered q) (\<lambda>y. dec_div y original)) (\<lambda>share. Inr (\<not> dec_eq x share)))
      | _ \<Rightarrow> Inr True)"

definition cost_exposure :: "position \<Rightarrow> decimal option" where
  "cost_exposure p =
     (if p_remaining_cost_basis_usd_dec p \<noteq> None then as_decimal (p_remaining_cost_basis_usd_dec p)
      else coalesce (as_decimal (p_entered_notional_usd_dec p)) (as_decimal (p_admitted_entry_notional_usd_dec p)))"

definition state_unknown :: "(jval \<Rightarrow> string) \<Rightarrow> obligation_view \<Rightarrow> store \<Rightarrow> position \<Rightarrow> bool" where
  "state_unknown spec_sha v s p =
     (obligation_mode p s = None \<or> unresolved_attempts spec_sha v p \<noteq> [] \<or> corrupt_events spec_sha v p
      \<or> witness_conflict spec_sha p s \<or> p_state p \<in> {UNKNOWN, ATTEMPTING, CANCELLED, RECONCILED}
      \<or> p_state p \<notin> set PRE_ATTEMPT_STATES \<and> \<not> positive_amount (held_quantity p)
      \<or> p_state p = UNRESOLVED \<and> (position_attempts v p = [] \<or> unresolved_attempts spec_sha v p \<noteq> [])
      \<or> (case held_quantity p of None \<Rightarrow> False | Some q \<Rightarrow> dec_less q dec_zero))"

definition obligation_of ::
  "(jval \<Rightarrow> string) \<Rightarrow> obligation_view \<Rightarrow> store \<Rightarrow> position \<Rightarrow> (obligation \<times> decimal option) res" where
  "obligation_of spec_sha v s p =
     (let quantity = held_quantity p; known = cost_exposure p; admitted = as_decimal (p_admitted_entry_notional_usd_dec p) in
      bindR (invalid_remainder p quantity known) (\<lambda>invalid.
      let readable = (case known of None \<Rightarrow> False | Some x \<Rightarrow> \<not> dec_less x dec_zero);
          kept = (if readable then known else None);
          unknown = (state_unknown spec_sha v s p \<or> invalid \<or> \<not> readable);
          floor = (case admitted of
              Some a \<Rightarrow> if unknown \<and> (p_remaining_qty_dec p = None \<or> invalid \<or> witness_conflict spec_sha p s \<or> kept = None)
                        then Some (let x = (case kept of None \<Rightarrow> dec_zero | Some y \<Rightarrow> y) in if dec_less x a then a else x)
                        else kept
            | None \<Rightarrow> kept)
      in Inr (\<lparr>ob_position = p_id p, ob_bot = p_bot p, ob_strategy = p_strategy_id p, ob_epoch = p_activation_epoch_id p,
               ob_state = state_name (p_state p), ob_remaining = map_option dec_text quantity,
               ob_cost_basis = map_option dec_text floor, ob_unknown = (unknown \<or> floor = None)\<rparr>, floor)))"

subsection \<open>The sum\<close>

record obligations =
  os_rows :: "obligation list"
  os_total :: decimal
  os_unknown :: bool
  os_pending :: nat

definition obligation_step ::
  "(jval \<Rightarrow> string) \<Rightarrow> obligation_view \<Rightarrow> store \<Rightarrow> position \<Rightarrow> obligations \<Rightarrow> obligations res" where
  "obligation_step spec_sha v s p acc =
     (if obligation_mode p s \<notin> {None, Some (ov_mode v)} \<or> released spec_sha v s p then Inr acc
      else bindR (obligation_of spec_sha v s p) (\<lambda>(row, owed).
           bindR (case owed of None \<Rightarrow> Inr (os_total acc) | Some x \<Rightarrow> dec_add (os_total acc) x) (\<lambda>total.
             Inr \<lparr>os_rows = os_rows acc @ [row], os_total = total, os_unknown = os_unknown acc \<or> ob_unknown row,
                  os_pending = os_pending acc + length (unresolved_attempts spec_sha v p)\<rparr>)))"

fun obligation_loop ::
  "(jval \<Rightarrow> string) \<Rightarrow> obligation_view \<Rightarrow> store \<Rightarrow> position list \<Rightarrow> obligations \<Rightarrow> obligations res" where
  "obligation_loop spec_sha v s [] acc = Inr acc"
| "obligation_loop spec_sha v s (p # ps) acc = bindR (obligation_step spec_sha v s p acc) (obligation_loop spec_sha v s ps)"

definition obligation_summary :: "(jval \<Rightarrow> string) \<Rightarrow> string \<Rightarrow> string option \<Rightarrow> store \<Rightarrow> obligations res" where
  "obligation_summary spec_sha mode exclude s =
     (if mode \<notin> set SUPPORTED_MODES then Inl (TradingRuntimePolicyError ''OPERATING_ENVELOPE_MODE_INVALID'')
      else let v = view_of spec_sha mode exclude s in
           obligation_loop spec_sha v s (ov_positions v) \<lparr>os_rows = [], os_total = dec_zero, os_unknown = False, os_pending = 0\<rparr>)"

definition outstanding_cost_basis :: "obligations \<Rightarrow> string option" where
  "outstanding_cost_basis o' = (if os_unknown o' then None else Some (dec_text (os_total o')))"

text \<open>The reason an admission is refused, None when the envelope allows it.\<close>

definition enforce_operating_envelope ::
  "(jval \<Rightarrow> string) \<Rightarrow> (jval \<Rightarrow> string) \<Rightarrow> string \<Rightarrow> string option \<Rightarrow> string option \<Rightarrow> store \<Rightarrow> string option res" where
  "enforce_operating_envelope sha spec_sha mode admitted exclude s =
     bindR (read_operating_envelope sha s mode) (\<lambda>current.
     bindR (obligation_summary spec_sha mode exclude s) (\<lambda>summary.
     case as_decimal admitted of
       None \<Rightarrow> Inl (TradingRuntimePolicyError ''OPERATING_ADMISSION_AMOUNT_INVALID'')
     | Some amount \<Rightarrow>
         if \<not> dec_less dec_zero amount then Inl (TradingRuntimePolicyError ''OPERATING_ADMISSION_AMOUNT_INVALID'')
         else envelope_refusal current (length (os_rows summary)) (outstanding_cost_basis summary) amount))"

end
