(* ===== verification/PaperAttempt.thy ===== *)
theory PaperAttempt
  imports PaperModeled OperatingScope Obligations
begin

section \<open>Beginning a modelled attempt\<close>

text \<open>
  \<open>begin_modeled_attempt\<close> of \<open>factory/paper_plane.py\<close>: the one place that permits a send. The attempt
  is written in the transaction that permits it, so a replay finds it and permits nothing. The
  parameters are those of the checks it calls: \<open>sha\<close> and \<open>spec_sha\<close>, the wall clock and the row of
  \<open>ordinary_state\<close> (see \<open>OperatingScope\<close>).
\<close>

datatype attempt_answer =
    AttemptReplayed dict
  | AttemptBlocked string pstate
  | AttemptStarted dict

fun send_permitted :: "attempt_answer \<Rightarrow> bool" where
  "send_permitted (AttemptStarted d) = True"
| "send_permitted _ = False"

record attempt_request =
  ar_position :: string
  ar_side :: string
  ar_mode :: string
  ar_key :: string
  ar_decision_at :: string
  ar_max_age :: int
  ar_as_of :: string
  ar_ordinary :: bool

definition attempt_identity :: "attempt_request \<Rightarrow> dict" where
  "attempt_identity q = dict_of [(''position_id'', JStr (ar_position q)), (''side'', JStr (ar_side q)),
     (''mode'', JStr (ar_mode q)), (''attempt_key'', JStr (ar_key q))]"

definition attempt_id :: "(jval \<Rightarrow> string) \<Rightarrow> attempt_request \<Rightarrow> string" where
  "attempt_id spec_sha q = ''ATTEMPT-'' @ map upper_char (spec_sha (JObj (attempt_identity q)))"

definition attempt_payload :: "(jval \<Rightarrow> string) \<Rightarrow> attempt_request \<Rightarrow> position \<Rightarrow> dict" where
  "attempt_payload spec_sha q position =
     (let base = dict_with (attempt_identity q)
            [(''attempt_id'', JStr (attempt_id spec_sha q)), (''as_of'', JStr (ar_as_of q)),
             (''evidence_class'', JStr (attempt_evidence (ar_mode q)))]
      in case p_remaining_qty_dec position of
           Some t \<Rightarrow> if ar_side q = ''EXIT''
             then dict_with base [(''remaining_quantity'', JStr t), (''quantity_unit'', JStr ''TOKEN_UNITS'')] else base
         | None \<Rightarrow> base)"

subsection \<open>Earlier attempts\<close>

definition prior_attempts :: "attempt_request \<Rightarrow> store \<Rightarrow> event list res" where
  "prior_attempts q s =
     (let evs = filtered_execution_events (Some ''MODELED_ATTEMPT_STARTED'') (Some [ar_position q]) s in
      if list_ex (\<lambda>e. payload_of e = None) evs then Inl PyAttributeError
      else Inr (filter (\<lambda>e. case payload_of e of None \<Rightarrow> False | Some d \<Rightarrow> jget d ''side'' = JStr (ar_side q)) evs))"

text \<open>The last exit ended without a fill, or partially with a remainder to sell.\<close>

definition another_exit_permitted :: "event \<Rightarrow> position \<Rightarrow> store \<Rightarrow> bool res" where
  "another_exit_permitted newest position s =
     bindR (get_execution_event (''FINAL-'' @ e_id newest) s) (\<lambda>found.
     case found of None \<Rightarrow> Inr False
     | Some final \<Rightarrow>
         bindR (event_body final) (\<lambda>terminal.
         bindR (jfield terminal ''outcome'') (\<lambda>outcome.
         if \<not> json_hashable outcome then Inl PyTypeError
         else if outcome = JStr ''PARTIAL'' \<and> jget terminal ''schema_version'' = JStr ''1.1''
         then (case p_remaining_qty_dec position of None \<Rightarrow> Inr False
               | Some t \<Rightarrow> bindR (dec_of_string t) (\<lambda>x. dec_lt dec_zero x))
         else Inr (json_text_in outcome NONFILL_OUTCOMES))))"

definition no_conflicting_attempt :: "attempt_request \<Rightarrow> position \<Rightarrow> store \<Rightarrow> unit res" where
  "no_conflicting_attempt q position s =
     bindR (prior_attempts q s) (\<lambda>prior.
     case rev prior of [] \<Rightarrow> Inr ()
     | newest # older \<Rightarrow>
         if ar_side q = ''ENTRY'' then Inl (PaperPlaneError ''ENTRY_ATTEMPT_ALREADY_EXISTS'')
         else bindR (another_exit_permitted newest position s) (\<lambda>ok.
              guardR ok (PaperPlaneError ''ATTEMPT_RECONCILIATION_REQUIRED'')))"

subsection \<open>The entry side\<close>

definition blocked_entry :: "attempt_request \<Rightarrow> string \<Rightarrow> string \<Rightarrow> store \<Rightarrow> (attempt_answer \<times> store) res" where
  "blocked_entry q code cancel s =
     bindR (cancel_entry_intent (ar_position q) cancel s) (\<lambda>(_, s1). Inr (AttemptBlocked code CANCELLED, s1))"

text \<open>The states from an intent to the attempt.\<close>

definition to_attempting :: "pstate \<Rightarrow> pstate list" where
  "to_attempting st = (if st = WATCHED then [SIGNALLED, INTENT_CREATED, ATTEMPTING]
     else if st = SIGNALLED then [INTENT_CREATED, ATTEMPTING] else [ATTEMPTING])"

definition entry_age :: "attempt_request \<Rightarrow> bool res" where
  "entry_age q =
     bindR (clock_of (ar_as_of q)) (\<lambda>now. bindR (clock_of (ar_decision_at q)) (\<lambda>decided.
     if snd now \<noteq> snd decided then Inl PyTypeError
     else if fst now < fst decided then Inl (PaperPlaneError ''MODELED_ATTEMPT_FROM_FUTURE'')
     else Inr (ar_max_age q * 1000000 < fst now - fst decided)))"

definition started :: "(jval \<Rightarrow> string) \<Rightarrow> attempt_request \<Rightarrow> position \<Rightarrow> store \<Rightarrow> (attempt_answer \<times> store) res" where
  "started spec_sha q position s =
     bindR (append_execution_event ''MODELED_ATTEMPT_STARTED'' (Some (p_bot position)) (Some (ar_position q))
              (attempt_payload spec_sha q position) (Some (attempt_id spec_sha q)) (Some (ar_as_of q)) s) (\<lambda>(_, s1).
       Inr (AttemptStarted (attempt_payload spec_sha q position), s1))"

definition begin_entry ::
  "(jval \<Rightarrow> string) \<Rightarrow> (jval \<Rightarrow> string) \<Rightarrow> attempt_request \<Rightarrow> operating_scope \<Rightarrow> position \<Rightarrow> bot \<Rightarrow> store
   \<Rightarrow> (attempt_answer \<times> store) res" where
  "begin_entry sha spec_sha q sc position bt s =
     (if p_state position \<notin> set PRE_ATTEMPT_STATES then Inl (PaperPlaneError ''ENTRY_ATTEMPT_STATE_INVALID'')
      else
        bindR (entry_age q) (\<lambda>stale.
        bindR (resume_block sha s bt (ar_mode q) stale) (\<lambda>block.
        case block of Some (code, cancel) \<Rightarrow> blocked_entry q code cancel s
        | None \<Rightarrow>
            bindR (if ar_ordinary q \<or> sc_managed sc \<or> p_ordinary_operating position = Some 1
                   then enforce_operating_envelope sha spec_sha (ar_mode q)
                          (p_admitted_entry_notional_usd_dec position) (Some (ar_position q)) s
                   else Inr None) (\<lambda>veto.
            case veto of Some code \<Rightarrow> blocked_entry q code ''OPERATING_SAFETY_VETO'' s
            | None \<Rightarrow>
                bindR (transitions (ar_position q) (to_attempting (p_state position)) s) (\<lambda>s1.
                  started spec_sha q position s1)))))"

subsection \<open>The exit side\<close>

text \<open>The decision and every result so far lie before the attempt.\<close>

definition result_clock :: "event \<Rightarrow> (int \<times> bool) res" where
  "result_clock ev =
     bindR (event_body ev) (\<lambda>payload. bindR (bindR (jfield payload ''result'') jdict) (\<lambda>result.
     bindR (jfield result ''observed_at'') (\<lambda>v. case jstr v of None \<Rightarrow> Inl PyValueError | Some t \<Rightarrow> clock_of t)))"

fun clock_max :: "(int \<times> bool) list \<Rightarrow> int \<times> bool \<Rightarrow> (int \<times> bool) res" where
  "clock_max [] x = Inr x"
| "clock_max (c # cs) x = bindR (clock_less x c) (\<lambda>later. clock_max cs (if later then c else x))"

definition causal_clock :: "attempt_request \<Rightarrow> store \<Rightarrow> unit res" where
  "causal_clock q s =
     bindR (clock_of (ar_as_of q)) (\<lambda>now.
     bindR (clock_of (ar_decision_at q)) (\<lambda>decided.
     bindR (mapR result_clock (filtered_execution_events (Some ''MODELED_RESULT_ACCEPTED'') (Some [ar_position q]) s)) (\<lambda>clocks.
     bindR (clock_max clocks decided) (\<lambda>latest.
     bindR (clock_less now latest) (\<lambda>early.
       guardR (\<not> early) (PaperPlaneError ''MODELED_ATTEMPT_CAUSAL_CLOCK_INVALID''))))))"

definition begin_exit ::
  "(jval \<Rightarrow> string) \<Rightarrow> attempt_request \<Rightarrow> position \<Rightarrow> store \<Rightarrow> (attempt_answer \<times> store) res" where
  "begin_exit spec_sha q position s =
     (if p_state position \<notin> {EXIT_REQUIRED, EXITING, UNRESOLVED}
      then Inl (PaperPlaneError ''EXIT_ATTEMPT_REQUIRES_ORIGINATING_EXIT'')
      else
        bindR (assert_quantity_inventory_witness spec_sha position None False False s) (\<lambda>_.
        bindR (guardR (p_entry_price_dec position \<noteq> None) (PaperPlaneError ''EXIT_ATTEMPT_REQUIRES_ENTRY_RECONCILIATION'')) (\<lambda>_.
        bindR (causal_clock q s) (\<lambda>_.
        bindR (if p_state position = EXIT_REQUIRED then bindR (transition (ar_position q) EXITING s) (\<lambda>(_, s1). Inr s1)
               else Inr s) (\<lambda>s1.
          started spec_sha q position s1)))))"

subsection \<open>The handler\<close>

definition begin_modeled_attempt ::
  "(jval \<Rightarrow> string) \<Rightarrow> (jval \<Rightarrow> string) \<Rightarrow> int \<Rightarrow> dict option \<Rightarrow> attempt_request \<Rightarrow> store \<Rightarrow> (attempt_answer \<times> store) res" where
  "begin_modeled_attempt sha spec_sha wall row q s0 =
     (if ar_side q \<notin> {''ENTRY'', ''EXIT''} \<or> ar_mode q \<notin> {''PAPER'', ''SHADOW''}
      then Inl (PaperPlaneError ''MODELED_ATTEMPT_SCOPE_INVALID'')
      else if ar_key q = [] \<or> 120 < length (ar_key q) then Inl (PaperPlaneError ''MODELED_ATTEMPT_KEY_INVALID'')
      else immediate_write (\<lambda>s.
        bindR (get_execution_event (attempt_id spec_sha q) s) (\<lambda>previous.
        case previous of Some ev \<Rightarrow> bindR (event_body ev) (\<lambda>d. Inr (AttemptReplayed d, s))
        | None \<Rightarrow>
          (case get_position (ar_position q) s of None \<Rightarrow> Inl (PaperPlaneError ''POSITION_NOT_FOUND'')
           | Some position \<Rightarrow>
             (case get_bot (p_bot position) s of None \<Rightarrow> Inl (PaperPlaneError ''MODELED_ATTEMPT_MODE_MISMATCH'')
              | Some bt \<Rightarrow>
                if b_mode bt \<noteq> ar_mode q then Inl (PaperPlaneError ''MODELED_ATTEMPT_MODE_MISMATCH'')
                else
                  let sc = effective_operating_scope row s (ar_mode q) in
                  bindR (operating_attempt_block sha wall s sc (p_activation_epoch_id position) (ar_side q) (ar_as_of q)) (\<lambda>block.
                  case block of Some code \<Rightarrow> Inr (AttemptBlocked code (p_state position), s)
                  | None \<Rightarrow>
                      bindR (no_conflicting_attempt q position s) (\<lambda>_.
                      if ar_side q = ''ENTRY'' then begin_entry sha spec_sha q sc position bt s
                      else begin_exit spec_sha q position s)))))) s0)"

end
