(* ===== verification/PaperSignal.thy ===== *)
theory PaperSignal
  imports PaperAttempt RuntimeAdmission
begin

section \<open>Accepting a signal decision\<close>

text \<open>
  \<open>start_bot\<close>, \<open>accept_signal_decision\<close> and \<open>accept_signal_decision_outcome\<close> of
  \<open>factory/paper_plane.py\<close>: the way from a frozen decision of a strategy to a reserved position and its
  fill. A strategy and a decision are the fields the code reads of documents valid under their JSON
  schemas (\<open>jsonschema\<close> checks them). The parameters are those of the checks that are called: \<open>sha\<close> and
  \<open>spec_sha\<close>, the wall clock and the row of \<open>ordinary_state\<close> (see \<open>OperatingScope\<close>). The code runs two
  transactions, a reservation (\<open>reserve_signal\<close>) and a fill (\<open>fill_signal\<close>); both nest in the transaction
  of the caller, and an error of the second gives back no store, as when that outer transaction is
  rolled back.
\<close>

subsection \<open>Strategies\<close>

datatype runtime_path = LEGACY_V1_0 | CANDIDATE_V1_1

record strategy = strategy_terms +
  sy_schema_version :: string
  sy_fee_bps :: int
  sy_max_age_seconds :: int
  sy_paper :: bool
  sy_shadow :: bool
  sy_micro_live :: bool
  sy_spec_sha256 :: "string option"

abbreviation terms_of :: "strategy \<Rightarrow> strategy_terms" where
  "terms_of \<equiv> strategy_terms.truncate"

definition normalize_strategy :: "strategy \<Rightarrow> runtime_path res" where
  "normalize_strategy sy =
     (if sy_schema_version sy = ''1.0'' then Inr LEGACY_V1_0
      else if sy_schema_version sy = ''1.1'' then Inr CANDIDATE_V1_1
      else Inl (PaperPlaneError ''STRATEGY_SCHEMA_VERSION_UNSUPPORTED''))"

subsection \<open>start_bot\<close>

definition bot_instance_id :: "strategy \<Rightarrow> string \<Rightarrow> string option \<Rightarrow> string" where
  "bot_instance_id sy mode epoch =
     ''BOT-'' @ sg_id sy @ ''-'' @ sg_version sy @ ''-'' @ mode @ (case epoch of None \<Rightarrow> [] | Some e \<Rightarrow> ''-'' @ e)"

text \<open>The epoch of a bot: required for v1.1, dropped for any other version.\<close>

definition bot_epoch :: "strategy \<Rightarrow> string option \<Rightarrow> string option res" where
  "bot_epoch sy epoch =
     (if sy_schema_version sy = ''1.1''
      then if present epoch then Inr epoch else Inl (PaperPlaneError ''ACTIVATION_EPOCH_REQUIRED'')
      else Inr None)"

text \<open>\<open>str(strategy.get("spec_sha256") or "") or None\<close>.\<close>

definition bot_spec :: "strategy \<Rightarrow> string option" where
  "bot_spec sy = (if present (sy_spec_sha256 sy) then sy_spec_sha256 sy else None)"

text \<open>A bot that exists: drift of its strategy is refused, a missing digest is filled in, a status is kept.\<close>

definition existing_bot :: "string option \<Rightarrow> bot \<Rightarrow> store \<Rightarrow> (bot \<times> store) option res" where
  "existing_bot spec b s =
     (if present (b_strategy_spec_sha256 b) \<and> spec \<noteq> None \<and> b_strategy_spec_sha256 b \<noteq> spec
      then Inl (PaperPlaneError ''STRATEGY_SPEC_DRIFT'')
      else if \<not> present (b_strategy_spec_sha256 b) \<and> spec \<noteq> None
      then let s1 = upd_bot (b_id b) (\<lambda>r. if b_strategy_spec_sha256 r = None then r\<lparr>b_strategy_spec_sha256 := spec\<rparr> else r) s
           in (case get_bot (b_id b) s1 of None \<Rightarrow> Inl PyAssertionError | Some refreshed \<Rightarrow> Inr (Some (refreshed, s1)))
      else if b_status b \<in> {''RUNNING'', ''DRAINING'', ''STOPPED''} then Inr (Some (b, s))
      else Inr None)"

text \<open>
  Re-creating the bot of a retained activation after a restore: the activation event is the bot's own
  and its binding still proves it.
\<close>

definition recovering_bot ::
  "(jval \<Rightarrow> string) \<Rightarrow> int \<Rightarrow> operating_scope \<Rightarrow> string \<Rightarrow> string \<Rightarrow> string option \<Rightarrow> string option \<Rightarrow> event option \<Rightarrow> store
   \<Rightarrow> bool res" where
  "recovering_bot sha wall sc mode bid epoch spec retained s =
     (case retained of None \<Rightarrow> Inr False
      | Some ev \<Rightarrow>
          if sc_reason sc \<noteq> Some ''RESTORE_NEW_EFFECTS_FORBIDDEN'' \<or> e_type ev \<noteq> ''OFFLINE_ACTIVATION_CREATED''
             \<or> e_bot ev \<noteq> Some bid
          then Inr False
          else bindR (operating_binding_block sha wall s mode epoch spec None) (\<lambda>block.
            if block \<noteq> None then Inr False
            else case epoch of None \<Rightarrow> Inl PyTypeError
            | Some ep \<Rightarrow>
                bindR (get_execution_event (''OPERATING-'' @ ep) s) (\<lambda>found.
                case found of None \<Rightarrow> Inl PyTypeError
                | Some binding \<Rightarrow>
                    bindR (bindR (event_body binding) (\<lambda>body. jfield body ''activation'')) (\<lambda>activation.
                      Inr (e_payload ev = Some activation)))))"

text \<open>Whether a managed mode lets a bot start; the answer is whether it is being recovered.\<close>

definition start_permitted ::
  "(jval \<Rightarrow> string) \<Rightarrow> int \<Rightarrow> dict option \<Rightarrow> string \<Rightarrow> string \<Rightarrow> string option \<Rightarrow> string option \<Rightarrow> store \<Rightarrow> bool res" where
  "start_permitted sha wall row mode bid epoch spec s =
     (let sc = effective_operating_scope row s mode in
      if \<not> sc_managed sc then Inr False
      else bindR (get_execution_event (case epoch of None \<Rightarrow> ''None'' | Some e \<Rightarrow> e) s) (\<lambda>retained.
        bindR (recovering_bot sha wall sc mode bid epoch spec retained s) (\<lambda>recovering.
        bindR (if recovering then Inr None else operating_entry_block sha wall s sc epoch spec None True) (\<lambda>block.
          case block of Some code \<Rightarrow> Inl (PaperPlaneError code)
          | None \<Rightarrow> if retained \<noteq> None \<and> \<not> recovering
                    then Inl (PaperPlaneError ''OPERATING_ACTIVATION_BINDING_INCOMPLETE'')
                    else Inr recovering))))"

definition new_bot :: "strategy \<Rightarrow> string \<Rightarrow> string \<Rightarrow> string option \<Rightarrow> string option \<Rightarrow> string \<Rightarrow> bot" where
  "new_bot sy mode bid epoch spec now =
     \<lparr>b_id = bid, b_strategy_id = sg_id sy, b_strategy_version = sg_id sy @ ''-'' @ sg_version sy, b_mode = mode,
      b_status = ''RUNNING'', b_started_at = now, b_stopped_at = None, b_activation_epoch_id = epoch,
      b_runtime_schema_version = Some (sy_schema_version sy), b_entries_paused = False,
      b_strategy_spec_sha256 = spec\<rparr>"

text \<open>\<open>ON CONFLICT(bot_instance_id) DO UPDATE\<close>: a drained or stopped bot keeps its status.\<close>

definition merged_bot :: "bot \<Rightarrow> bot \<Rightarrow> bot" where
  "merged_bot excluded b =
     b\<lparr>b_status := (if b_status b \<in> {''DRAINING'', ''STOPPED''} then b_status b else b_status excluded),
       b_stopped_at := (if b_status b \<in> {''DRAINING'', ''STOPPED''} then b_stopped_at b else b_stopped_at excluded),
       b_activation_epoch_id := coalesce (b_activation_epoch_id excluded) (b_activation_epoch_id b),
       b_runtime_schema_version := coalesce (b_runtime_schema_version excluded) (b_runtime_schema_version b),
       b_strategy_spec_sha256 := coalesce (b_strategy_spec_sha256 b) (b_strategy_spec_sha256 excluded)\<rparr>"

definition upsert_bot :: "bot \<Rightarrow> store \<Rightarrow> store" where
  "upsert_bot b s = (if get_bot (b_id b) s = None then ins_bot b s else upd_bot (b_id b) (merged_bot b) s)"

definition start_new_bot ::
  "(jval \<Rightarrow> string) \<Rightarrow> int \<Rightarrow> dict option \<Rightarrow> strategy \<Rightarrow> string \<Rightarrow> string option \<Rightarrow> store \<Rightarrow> (bot \<times> store) res" where
  "start_new_bot sha wall row sy mode epoch s =
     (let bid = bot_instance_id sy mode epoch in
      bindR (start_permitted sha wall row mode bid epoch (bot_spec sy) s) (\<lambda>recovering.
        let s1 = upsert_bot (new_bot sy mode bid epoch (bot_spec sy) (now_of s)) (tick s);
            s2 = (if recovering then upd_bot bid (\<lambda>b. b\<lparr>b_entries_paused := True\<rparr>) s1 else s1)
        in case get_bot bid s2 of None \<Rightarrow> Inl PyAssertionError | Some refreshed \<Rightarrow> Inr (refreshed, s2)))"

definition start_bot ::
  "(jval \<Rightarrow> string) \<Rightarrow> int \<Rightarrow> dict option \<Rightarrow> strategy \<Rightarrow> string \<Rightarrow> string option \<Rightarrow> store \<Rightarrow> (bot \<times> store) res" where
  "start_bot sha wall row sy mode activation_epoch = immediate_write (\<lambda>s.
     if mode \<notin> {''PAPER'', ''SHADOW''} then Inl (PaperPlaneError ''BOT_MODE_INVALID'')
     else bindR (bot_epoch sy activation_epoch) (\<lambda>epoch.
       case get_bot (bot_instance_id sy mode epoch) s of
         None \<Rightarrow> start_new_bot sha wall row sy mode epoch s
       | Some b \<Rightarrow> bindR (existing_bot (bot_spec sy) b s) (\<lambda>answer.
           case answer of Some r \<Rightarrow> Inr r | None \<Rightarrow> start_new_bot sha wall row sy mode epoch s)))"

subsection \<open>Decisions and their refusals\<close>

record frozen_decision = signal_decision +
  fd_hypothesis_refs :: "string list"
  fd_available_at :: string
  fd_evidence_refs :: "string list"

abbreviation decision_of :: "frozen_decision \<Rightarrow> signal_decision" where
  "decision_of \<equiv> signal_decision.truncate"

definition decision_dict :: "frozen_decision \<Rightarrow> dict" where
  "decision_dict d = dict_of
     [(''schema'', JStr ''smial.signal-decision''), (''schema_version'', JStr ''1.0''),
      (''signal_decision_id'', JStr (sd_id d)), (''strategy_id'', JStr (sd_strategy_id d)),
      (''strategy_version'', JStr (sd_strategy_version d)), (''activation_epoch_id'', JStr (sd_activation_epoch_id d)),
      (''source_hypothesis_refs'', JArr (map JStr (fd_hypothesis_refs d))), (''mint'', JStr (sd_mint d)),
      (''decision_at'', JStr (sd_decision_at d)), (''first_reliable_available_at'', JStr (fd_available_at d)),
      (''action'', JStr (sd_action d)), (''reason_code'', JStr (sd_reason_code d)),
      (''evidence_refs'', JArr (map JStr (fd_evidence_refs d)))]"

definition decision_sha256 :: "(jval \<Rightarrow> string) \<Rightarrow> frozen_decision \<Rightarrow> string" where
  "decision_sha256 spec_sha d = spec_sha (JObj (decision_dict d))"

definition decision_identity :: "frozen_decision \<Rightarrow> dict" where
  "decision_identity d = identity_fields (jget (decision_dict d))"

type_synonym lineage = "(string \<times> jval) list"

definition lineage_of :: "(jval \<Rightarrow> string) \<Rightarrow> strategy \<Rightarrow> frozen_decision \<Rightarrow> lineage" where
  "lineage_of spec_sha sy d =
     [(''signal_decision_sha256'', JStr (decision_sha256 spec_sha d)),
      (''evidence_refs'', JArr (map JStr (fd_evidence_refs d))),
      (''source_hypothesis_refs'', JArr (map JStr (fd_hypothesis_refs d))),
      (''first_reliable_available_at'', JStr (fd_available_at d)),
      (''strategy_spec_sha256'', jtext (sy_spec_sha256 sy))]"

text \<open>\<open>_append_exact_admission_event\<close>: the identifier is the digest of the content; found again, it must agree.\<close>

definition admission_event_id :: "(jval \<Rightarrow> string) \<Rightarrow> string \<Rightarrow> dict \<Rightarrow> string" where
  "admission_event_id spec_sha etype payload =
     ''ADMISSION-'' @ spec_sha (JObj (dict_of [(''event_type'', JStr etype), (''payload'', JObj payload)]))"

definition append_exact_admission_event ::
  "(jval \<Rightarrow> string) \<Rightarrow> string \<Rightarrow> string \<Rightarrow> string option \<Rightarrow> dict \<Rightarrow> string \<Rightarrow> store \<Rightarrow> ((string \<times> bool) \<times> store) res" where
  "append_exact_admission_event spec_sha etype bid pid payload as_of s =
     (let eid = admission_event_id spec_sha etype payload in
      bindR (get_execution_event eid s) (\<lambda>previous.
      case previous of
        Some e \<Rightarrow> if (e_type e, e_bot e, e_position e, e_payload e) \<noteq> (etype, Some bid, pid, Some (JObj payload))
                  then Inl (PaperPlaneError ''ADMISSION_EVALUATION_CONTENT_CONFLICT'') else Inr ((eid, True), s)
      | None \<Rightarrow> bindR (append_execution_event etype (Some bid) pid payload (Some eid) (Some as_of) s) (\<lambda>(_, s1).
                  Inr ((eid, False), s1))))"

record refusal =
  rf_reason :: string
  rf_payload :: dict
  rf_position :: "string option"
  rf_bot :: string
  rf_event :: string
  rf_idempotent :: bool

text \<open>What \<open>_signal_refusal\<close> is told besides the code: the position, the risk event and the policy it saw.\<close>

record refusal_context =
  rc_position :: "position option"
  rc_risk_event :: "string option"
  rc_policy :: "current_policy option"

definition no_context :: refusal_context where
  "no_context = \<lparr>rc_position = None, rc_risk_event = None, rc_policy = None\<rparr>"

definition refusal_payload ::
  "(jval \<Rightarrow> string) \<Rightarrow> strategy \<Rightarrow> frozen_decision \<Rightarrow> bot \<Rightarrow> string \<Rightarrow> string \<Rightarrow> string \<Rightarrow> refusal_context \<Rightarrow> dict" where
  "refusal_payload spec_sha sy d b mode as_of code c =
     (let policy = Option.bind (rc_policy c) cu_policy in
      dict_with (decision_identity d) (lineage_of spec_sha sy d @
        [(''outcome'', JStr ''DENIED''), (''source_reason_code'', JStr (sd_reason_code d)), (''reason_code'', JStr code),
         (''mode'', JStr mode), (''evaluated_at'', JStr as_of), (''bot_status'', JStr (b_status b)),
         (''entries_paused'', JInt (of_bool (b_entries_paused b))),
         (''state'', jtext (map_option (\<lambda>p. state_name (p_state p)) (rc_position c))),
         (''cancel_reason_code'', jtext (Option.bind (rc_position c) p_cancel_reason_code)),
         (''risk_event_id'', jtext (rc_risk_event c)),
         (''runtime_policy_status'', jtext (map_option (\<lambda>x. status_name (cu_status x)) (rc_policy c))),
         (''runtime_policy_revision'', jint (map_option pl_revision policy)),
         (''runtime_policy_sha256'', jtext (map_option pl_sha256 policy))]))"

definition signal_refusal ::
  "(jval \<Rightarrow> string) \<Rightarrow> strategy \<Rightarrow> frozen_decision \<Rightarrow> bot \<Rightarrow> string \<Rightarrow> string \<Rightarrow> string \<Rightarrow> refusal_context \<Rightarrow> store
   \<Rightarrow> (refusal \<times> store) res" where
  "signal_refusal spec_sha sy d b mode as_of code c s =
     (let payload = refusal_payload spec_sha sy d b mode as_of code c; pid = map_option p_id (rc_position c) in
      bindR (append_exact_admission_event spec_sha ''SIGNAL_ADMISSION_DENIED'' (b_id b) pid payload as_of s)
        (\<lambda>((eid, replay), s1).
          Inr (\<lparr>rf_reason = code, rf_payload = payload, rf_position = pid, rf_bot = b_id b, rf_event = eid,
                rf_idempotent = replay\<rparr>, s1)))"

text \<open>
  What a caller is told. Only \<open>SignalRefused\<close> carries \<open>"outcome": "DENIED"\<close>; \<open>SignalStanding\<close> is the
  answer about a position that is past its attempt, \<open>SignalReserved\<close> the one with \<open>fill_deferred\<close>.
\<close>

datatype signal_outcome =
    SignalNoted string string bool
  | SignalRefused refusal
  | SignalStanding position bool bool
  | SignalReserved position bool
  | SignalBlocked string position bool
  | SignalFilled position string bool

fun opened :: "signal_outcome \<Rightarrow> bool" where
  "opened (SignalStanding p o' r) = o'"
| "opened (SignalReserved p i) = (p_state p = OPEN)"
| "opened (SignalFilled p k i) = (p_state p = OPEN)"
| "opened _ = False"

subsection \<open>The checks before the store\<close>

record signal_request =
  sq_strategy :: strategy
  sq_decision :: frozen_decision
  sq_known_epochs :: "string list"
  sq_mode :: string
  sq_as_of :: string
  sq_skip_fill :: bool
  sq_ordinary :: bool

definition sq_position :: "signal_request \<Rightarrow> string" where
  "sq_position q = position_id_for_signal_decision (sd_id (sq_decision q))"

definition mode_eligible :: "strategy \<Rightarrow> string \<Rightarrow> unit res" where
  "mode_eligible sy mode =
     (if mode = ''PAPER'' \<and> \<not> sy_paper sy then Inl (PaperPlaneError ''PAPER_MODE_NOT_ELIGIBLE'')
      else if mode = ''SHADOW'' \<and> \<not> sy_shadow sy then Inl (PaperPlaneError ''SHADOW_MODE_NOT_ELIGIBLE'')
      else if sy_micro_live sy then Inl (PaperPlaneError ''MICRO_LIVE_FORBIDDEN'') else Inr ())"

definition decision_matches :: "strategy \<Rightarrow> frozen_decision \<Rightarrow> string list \<Rightarrow> unit res" where
  "decision_matches sy d known =
     (if sd_strategy_id d \<noteq> sg_id sy then Inl (PaperPlaneError ''SIGNAL_STRATEGY_ID_MISMATCH'')
      else if sd_strategy_version d \<noteq> sg_version sy then Inl (PaperPlaneError ''SIGNAL_STRATEGY_VERSION_MISMATCH'')
      else resolve_activation_epoch (sd_activation_epoch_id d) known)"

text \<open>The difference of two clocks in microseconds; a naive and an aware one have none.\<close>

definition clock_minus :: "int \<times> bool \<Rightarrow> int \<times> bool \<Rightarrow> int res" where
  "clock_minus a b = (if snd a = snd b then Inr (fst a - fst b) else Inl PyTypeError)"

text \<open>The instants of a decision; the answer is its age in microseconds.\<close>

definition decision_age :: "frozen_decision \<Rightarrow> string \<Rightarrow> int res" where
  "decision_age d as_of =
     bindR (clock_of as_of) (\<lambda>now. bindR (clock_of (sd_decision_at d)) (\<lambda>decided.
     bindR (clock_minus decided now) (\<lambda>ahead.
     if SIGNAL_MAX_CLOCK_SKEW_SECONDS * 1000000 < ahead then Inl (PaperPlaneError ''SIGNAL_DECISION_FROM_FUTURE'')
     else bindR (clock_of (fd_available_at d)) (\<lambda>available. bindR (clock_less decided available) (\<lambda>early.
       if early \<and> sd_action d = ''ENTER'' then Inl (PaperPlaneError ''SIGNAL_FUTURE_AVAILABLE_ENTER_FORBIDDEN'')
       else clock_minus now decided)))))"

definition signal_checked :: "signal_request \<Rightarrow> int res" where
  "signal_checked q =
     (let sy = sq_strategy q; d = sq_decision q in
      if sq_mode q \<notin> {''PAPER'', ''SHADOW''} then Inl (PaperPlaneError ''BOT_MODE_INVALID'')
      else if sq_as_of q = [] then Inl (PaperPlaneError ''SIGNAL_AS_OF_REQUIRED'')
      else bindR (normalize_strategy sy) (\<lambda>path.
        if path \<noteq> CANDIDATE_V1_1 then Inl (PaperPlaneError ''SIGNAL_DECISION_REQUIRES_V1_1'')
        else bindR (mode_eligible sy (sq_mode q)) (\<lambda>_. bindR (decision_matches sy d (sq_known_epochs q)) (\<lambda>_.
          decision_age d (sq_as_of q)))))"

subsection \<open>A decision that does not enter\<close>

definition note_signal :: "(jval \<Rightarrow> string) \<Rightarrow> signal_request \<Rightarrow> store \<Rightarrow> (signal_outcome \<times> store) res" where
  "note_signal spec_sha q = immediate_write (\<lambda>s.
     let d = sq_decision q; sy = sq_strategy q; eid = ''DECISION-'' @ sd_id d in
     if get_position (sq_position q) s \<noteq> None then Inl (PaperPlaneError ''SIGNAL_DECISION_IDEMPOTENCY_MISMATCH'')
     else bindR (get_execution_event eid s) (\<lambda>previous.
       case previous of
         Some e \<Rightarrow> (case payload_of e of None \<Rightarrow> Inl PyAttributeError
           | Some body \<Rightarrow>
               if jget body ''signal_decision_sha256'' \<noteq> JStr (decision_sha256 spec_sha d)
               then Inl (PaperPlaneError ''SIGNAL_DECISION_IDEMPOTENCY_MISMATCH'')
               else Inr (SignalNoted (sd_action d) (sd_reason_code d) True, s))
       | None \<Rightarrow>
           bindR (append_execution_event ''SIGNAL_DECISION_ACCEPTED'' None None
             (dict_with (decision_identity d) ([(''strategy_id'', JStr (sg_id sy)), (''strategy_version'', JStr (sg_version sy)),
                (''opened'', JBool False)] @ lineage_of spec_sha sy d)) (Some eid) None s) (\<lambda>(_, s1).
             Inr (SignalNoted (sd_action d) (sd_reason_code d) False, s1))))"

subsection \<open>The reservation\<close>

text \<open>A position that exists must be this decision's.\<close>

definition existing_matches :: "(jval \<Rightarrow> string) \<Rightarrow> signal_request \<Rightarrow> position \<Rightarrow> unit res" where
  "existing_matches spec_sha q p =
     (let d = sq_decision q; differs = (\<lambda>c t. present c \<and> c \<noteq> Some t) in
      if differs (p_signal_decision_sha256 p) (decision_sha256 spec_sha d)
      then Inl (PaperPlaneError ''SIGNAL_DECISION_IDEMPOTENCY_MISMATCH'')
      else if differs (p_activation_epoch_id p) (sd_activation_epoch_id d)
      then Inl (PaperPlaneError ''SIGNAL_ACTIVATION_EPOCH_MISMATCH'')
      else if differs (p_strategy_id p) (sd_strategy_id d)
      then Inl (PaperPlaneError ''SIGNAL_POSITION_STRATEGY_MISMATCH'')
      else if differs (Some (p_bot p)) (bot_instance_id (sq_strategy q) (sq_mode q) (Some (sd_activation_epoch_id d)))
      then Inl (PaperPlaneError ''SIGNAL_BOT_INSTANCE_MISMATCH'')
      else Inr ())"

text \<open>
  A transaction ends with an answer, or goes on to the fill with the bot and the notional admitted.
\<close>

datatype reservation =
    Answered signal_outcome
  | Reserved string decimal

definition refused :: "(refusal \<times> store) res \<Rightarrow> (reservation \<times> store) res" where
  "refused m = bindR m (\<lambda>(r, s). Inr (Answered (SignalRefused r), s))"

text \<open>
  \<open>enforce_operating_envelope\<close> with what it returns besides its reason. It only reads, so the envelope
  and the summary are those it decided on.
\<close>

record operating_risk =
  or_refusal :: "string option"
  or_envelope :: envelope_state
  or_obligations :: obligations
  or_admitted :: string

definition operating_risk_of ::
  "(jval \<Rightarrow> string) \<Rightarrow> (jval \<Rightarrow> string) \<Rightarrow> string \<Rightarrow> string \<Rightarrow> string option \<Rightarrow> store \<Rightarrow> operating_risk res" where
  "operating_risk_of sha spec_sha mode admitted exclude s =
     bindR (enforce_operating_envelope sha spec_sha mode (Some admitted) exclude s) (\<lambda>reason.
     bindR (read_operating_envelope sha s mode) (\<lambda>current.
     bindR (obligation_summary spec_sha mode exclude s) (\<lambda>summary.
     bindR (dec_of_string admitted) (\<lambda>amount.
       Inr \<lparr>or_refusal = reason, or_envelope = current, or_obligations = summary, or_admitted = dec_text amount\<rparr>))))"

definition obligation_dict :: "obligation \<Rightarrow> dict" where
  "obligation_dict r = dict_of
     [(''position_id'', JStr (ob_position r)), (''bot_instance_id'', JStr (ob_bot r)), (''strategy_id'', jtext (ob_strategy r)),
      (''activation_epoch_id'', jtext (ob_epoch r)), (''state'', JStr (ob_state r)),
      (''remaining_quantity'', jtext (ob_remaining r)), (''cost_basis_usd'', jtext (ob_cost_basis r)),
      (''inventory_status'', JStr (if ob_unknown r then ''UNKNOWN'' else ''KNOWN''))]"

definition summary_dict :: "string \<Rightarrow> obligations \<Rightarrow> dict" where
  "summary_dict mode o' = dict_of
     [(''basis'', JStr OPERATING_ENVELOPE_BASIS), (''mode'', JStr mode), (''position_count'', JInt (int (length (os_rows o')))),
      (''known_cost_basis_floor_usd'', JStr (dec_text (os_total o'))),
      (''outstanding_cost_basis_usd'', jtext (outstanding_cost_basis o')),
      (''inventory_status'', JStr (if os_unknown o' then ''UNKNOWN'' else ''KNOWN'')),
      (''pending_attempt_count'', JInt (int (os_pending o'))), (''positions'', JArr (map (\<lambda>r. JObj (obligation_dict r)) (os_rows o')))]"

definition operating_risk_dict :: "string \<Rightarrow> operating_risk \<Rightarrow> dict" where
  "operating_risk_dict mode r = dict_of
     [(''decision'', JStr (if or_refusal r = None then ''ALLOW'' else ''DENIED'')),
      (''reason_code'', JStr (case or_refusal r of None \<Rightarrow> ''WITHIN_LIMIT'' | Some code \<Rightarrow> code)),
      (''envelope'', JObj (envelope_state_dict (or_envelope r))), (''obligations'', JObj (summary_dict mode (or_obligations r))),
      (''admitted_notional_usd'', JStr (or_admitted r))]"

definition admission_dict :: "admission \<Rightarrow> dict" where
  "admission_dict a = dict_of
     [(''decision'', JStr (ad_decision a)), (''reason_codes'', JArr (map JStr (ad_reason_codes a))), (''mode'', JStr (ad_mode a)),
      (''strategy_id'', JStr (ad_strategy_id a)), (''strategy_version'', JStr (ad_strategy_version a)),
      (''bot_instance_id'', JStr (ad_bot a)), (''mint'', JStr (ad_mint a)),
      (''strategy_requested_notional_usd_dec'', JStr (ad_requested a)), (''effective_entry_notional_usd_dec'', JStr (ad_effective a)),
      (''runtime_policy_status'', JStr (status_name (ad_policy_status a))), (''runtime_policy_revision'', jint (ad_policy_revision a)),
      (''runtime_policy_sha256'', jtext (ad_policy_sha256 a)), (''current_global_position_count'', JInt (int (ad_global_count a))),
      (''current_strategy_position_count'', JInt (int (ad_strategy_count a))),
      (''current_mint_position_count'', JInt (int (ad_mint_count a))), (''current_bot_position_count'', JInt (int (ad_bot_count a))),
      (''current_global_open_risk_notional_usd'', jtext (ad_global_notional a)),
      (''current_strategy_open_risk_notional_usd'', jtext (ad_strategy_notional a)),
      (''current_mint_open_risk_notional_usd'', jtext (ad_mint_notional a)),
      (''strategy_declared_max_open_positions'', JInt (ad_declared_max_open a)),
      (''runtime_strategy_max_open_positions'', jint (ad_runtime_max_open a)),
      (''open_risk_states'', JArr (map JStr (ad_open_risk_states a)))]"

text \<open>A position that was reserved before and is not attempted yet: what stops it, or its admitted notional.\<close>

definition resumed_notional :: "(jval \<Rightarrow> string) \<Rightarrow> signal_request \<Rightarrow> position \<Rightarrow> decimal \<Rightarrow> store \<Rightarrow> decimal res" where
  "resumed_notional sha q p asked s =
     (if present (p_admitted_entry_notional_usd_dec p) then dec_of_string (the (p_admitted_entry_notional_usd_dec p))
      else bindR (resolve_current_policy sha s (sq_mode q)) (\<lambda>current.
        if cu_status current \<in> {VALID, RUNTIME_POLICY_INVALID} then Inl (PaperPlaneError ''ADMISSION_BINDING_MISSING'')
        else Inr asked))"

definition resume_refusal ::
  "(jval \<Rightarrow> string) \<Rightarrow> (jval \<Rightarrow> string) \<Rightarrow> signal_request \<Rightarrow> bot \<Rightarrow> string \<Rightarrow> string \<Rightarrow> store \<Rightarrow> (refusal \<times> store) res" where
  "resume_refusal sha spec_sha q b code cancel s =
     bindR (cancel_entry_intent (sq_position q) cancel s) (\<lambda>(cancelled, s1).
     bindR (if code \<in> {''RUNTIME_POLICY_INVALID'', ''BLOCK_NEW_ENTRIES_DISABLED''}
            then bindR (resolve_current_policy sha s1 (sq_mode q)) (\<lambda>x. Inr (Some x)) else Inr None) (\<lambda>current.
       signal_refusal spec_sha (sq_strategy q) (sq_decision q) b (sq_mode q) (sq_as_of q) code
         \<lparr>rc_position = Some cancelled, rc_risk_event = None, rc_policy = current\<rparr> s1))"

text \<open>The checks of the operating scope; a reservation that is resumed meets its envelope again.\<close>

definition scope_refusal ::
  "(jval \<Rightarrow> string) \<Rightarrow> (jval \<Rightarrow> string) \<Rightarrow> int \<Rightarrow> dict option \<Rightarrow> signal_request \<Rightarrow> decimal option \<Rightarrow> store \<Rightarrow> string option res" where
  "scope_refusal sha spec_sha wall row q resumed s =
     (let sc = effective_operating_scope row s (sq_mode q);
          spec = (case sy_spec_sha256 (sq_strategy q) of None \<Rightarrow> [] | Some t \<Rightarrow> t) in
      bindR (operating_entry_block sha wall s sc (Some (sd_activation_epoch_id (sq_decision q))) (Some spec) (Some (sq_as_of q)) False)
        (\<lambda>block.
      if block \<noteq> None then Inr block
      else case resumed of None \<Rightarrow> Inr None
      | Some admitted \<Rightarrow>
          if sq_ordinary q \<or> sc_managed sc
          then enforce_operating_envelope sha spec_sha (sq_mode q) (Some (dec_text admitted)) (Some (sq_position q)) s
          else Inr None))"

definition effective_operating :: "dict option \<Rightarrow> signal_request \<Rightarrow> store \<Rightarrow> bool" where
  "effective_operating row q s = (sq_ordinary q \<or> sc_managed (effective_operating_scope row s (sq_mode q)))"

text \<open>The risk of a new entry: the admission, and for an ordinary or managed one the envelope as well.\<close>

record entry_risk =
  er_admission :: admission
  er_operating :: "operating_risk option"

definition entry_risk_of ::
  "(jval \<Rightarrow> string) \<Rightarrow> (jval \<Rightarrow> string) \<Rightarrow> dict option \<Rightarrow> signal_request \<Rightarrow> bot \<Rightarrow> current_policy \<Rightarrow> store \<Rightarrow> entry_risk res" where
  "entry_risk_of sha spec_sha row q b current s =
     (let sy = sq_strategy q; d = sq_decision q in
      bindR (open_risk_inventory (sq_mode q) (sg_id sy) (sd_mint d) (b_id b) s) (\<lambda>inventory.
      bindR (evaluate_admission (sq_mode q) (terms_of sy) b (sd_mint d) (cu_status current) (cu_policy current) inventory) (\<lambda>risk.
      if effective_operating row q s \<and> ad_decision risk = ''ALLOW''
      then bindR (operating_risk_of sha spec_sha (sq_mode q) (ad_effective risk) None s) (\<lambda>op.
        Inr \<lparr>er_admission = (case or_refusal op of None \<Rightarrow> risk
               | Some code \<Rightarrow> risk\<lparr>ad_decision := code, ad_reason_codes := [code]\<rparr>), er_operating = Some op\<rparr>)
      else Inr \<lparr>er_admission = risk, er_operating = None\<rparr>)))"

definition risk_payload :: "(jval \<Rightarrow> string) \<Rightarrow> signal_request \<Rightarrow> entry_risk \<Rightarrow> dict" where
  "risk_payload spec_sha q r =
     (let sy = sq_strategy q; d = sq_decision q in
      dict_with
        (fmadd
          (dict_with (admission_dict (er_admission r))
            ((case er_operating r of None \<Rightarrow> []
              | Some op \<Rightarrow> [(''ordinary_operating_envelope'', JObj (operating_risk_dict (sq_mode q) op))])
             @ [(''signal_decision_id'', JStr (sd_id d))] @ lineage_of spec_sha sy d @ [(''evaluated_at'', JStr (sq_as_of q))]))
          (decision_identity d))
        [(''strategy_id'', JStr (sg_id sy)), (''strategy_version'', JStr (sg_version sy))])"

definition accepted_payload_of :: "(jval \<Rightarrow> string) \<Rightarrow> signal_request \<Rightarrow> decimal \<Rightarrow> policy option \<Rightarrow> dict" where
  "accepted_payload_of spec_sha q admitted p =
     dict_with (decision_identity (sq_decision q))
       ([(''strategy_id'', JStr (sg_id (sq_strategy q))), (''strategy_version'', JStr (sg_version (sq_strategy q))),
         (''admitted_entry_notional_usd_dec'', JStr (dec_text admitted)),
         (''runtime_policy_revision'', jint (map_option pl_revision p)), (''runtime_policy_sha256'', jtext (map_option pl_sha256 p))]
        @ lineage_of spec_sha (sq_strategy q) (sq_decision q))"

text \<open>An admitted entry: the position is opened, what was admitted is frozen, and the decision is logged.\<close>

definition signal_kind_of :: "string \<Rightarrow> string" where
  "signal_kind_of mode = (if mode = ''SHADOW'' then ''SHADOW_EXECUTABLE'' else ''SIMULATED_FILL'')"

definition mark_ordinary :: "string \<Rightarrow> operating_risk option \<Rightarrow> store \<Rightarrow> store" where
  "mark_ordinary pid op s =
     (case op of None \<Rightarrow> s
      | Some x \<Rightarrow> upd_position pid (\<lambda>r. r\<lparr>p_ordinary_operating := Some 1,
          p_ordinary_envelope_sha256 := Some (es_sha256 (or_envelope x))\<rparr>) s)"

definition open_admitted ::
  "(jval \<Rightarrow> string) \<Rightarrow> signal_request \<Rightarrow> bot \<Rightarrow> policy option \<Rightarrow> entry_risk \<Rightarrow> store \<Rightarrow> (decimal \<times> store) res" where
  "open_admitted spec_sha q b p r s =
     (let sy = sq_strategy q; d = sq_decision q; pid = sq_position q in
      bindR (open_position_from_signal (b_id b) (decision_of d) (signal_kind_of (sq_mode q)) (Some (decision_sha256 spec_sha d))
               (bot_spec sy) s) (\<lambda>(_, s1).
      bindR (dec_of_string (ad_effective (er_admission r))) (\<lambda>admitted.
      bindR (freeze_admission_binding pid (dec_text admitted) (ad_requested (er_admission r))
               (if p = None then None else Some (sq_mode q)) (map_option pl_revision p) (map_option pl_sha256 p)
               (Some (sy_fee_bps sy)) s1) (\<lambda>(_, s2).
      bindR (append_execution_event ''SIGNAL_DECISION_ACCEPTED'' (Some (b_id b)) (Some pid)
               (accepted_payload_of spec_sha q admitted p) None None (mark_ordinary pid (er_operating r) s2)) (\<lambda>(_, s3).
        Inr (admitted, s3))))))"

text \<open>A new entry; \<open>existing\<close> is None here, so the risk event names no position.\<close>

definition reserve_new ::
  "(jval \<Rightarrow> string) \<Rightarrow> (jval \<Rightarrow> string) \<Rightarrow> dict option \<Rightarrow> signal_request \<Rightarrow> bot \<Rightarrow> store \<Rightarrow> (reservation \<times> store) res" where
  "reserve_new sha spec_sha row q b s =
     (let refuse = (\<lambda>code c s. refused (signal_refusal spec_sha (sq_strategy q) (sq_decision q) b (sq_mode q) (sq_as_of q) code c s)) in
      if b_status b \<in> {''DRAINING'', ''STOPPED''} then refuse (''BOT_STATUS_BLOCKS_ENTRY:'' @ b_status b) no_context s
      else if b_entries_paused b then refuse ''ENTRIES_PAUSED'' no_context s
      else bindR (resolve_current_policy sha s (sq_mode q)) (\<lambda>current.
        bindR (entry_risk_of sha spec_sha row q b current s) (\<lambda>r.
        bindR (append_exact_admission_event spec_sha ''PRE_TRADE_RISK_SNAPSHOT'' (b_id b) None (risk_payload spec_sha q r) (sq_as_of q) s)
          (\<lambda>((risk_event, _), s1).
        if ad_decision (er_admission r) \<noteq> ''ALLOW''
        then refuse (ad_decision (er_admission r))
               \<lparr>rc_position = None, rc_risk_event = Some risk_event, rc_policy = Some current\<rparr> s1
        else bindR (open_admitted spec_sha q b (cu_policy current) r s1) (\<lambda>(admitted, s2).
          Inr (Reserved (b_id b) admitted, s2))))))"

text \<open>A position that exists: past its attempt it is reported, before it the reservation is taken up again.\<close>

definition standing :: "position \<Rightarrow> signal_outcome" where
  "standing p = (if p_state p = OPEN then SignalStanding p True False
     else if p_state p \<in> {ATTEMPTING, UNKNOWN} then SignalStanding p False True
     else SignalStanding p (p_state p = PARTIAL) False)"

definition resume_reserved ::
  "(jval \<Rightarrow> string) \<Rightarrow> (jval \<Rightarrow> string) \<Rightarrow> int \<Rightarrow> dict option \<Rightarrow> signal_request \<Rightarrow> bool \<Rightarrow> decimal \<Rightarrow> bot \<Rightarrow> position \<Rightarrow> store
   \<Rightarrow> (reservation \<times> store) res" where
  "resume_reserved sha spec_sha wall row q stale asked b p s =
     (if p_state p \<notin> set PRE_ATTEMPT_STATES then Inr (Answered (standing p), s)
      else bindR (resume_block sha s b (sq_mode q) stale) (\<lambda>block.
        case block of
          Some (code, cancel) \<Rightarrow> refused (resume_refusal sha spec_sha q b code cancel s)
        | None \<Rightarrow>
            bindR (resumed_notional sha q p asked s) (\<lambda>admitted.
            bindR (scope_refusal sha spec_sha wall row q (Some admitted) s) (\<lambda>refusal.
              case refusal of
                Some code \<Rightarrow> refused (signal_refusal spec_sha (sq_strategy q) (sq_decision q) b (sq_mode q) (sq_as_of q) code no_context s)
              | None \<Rightarrow> Inr (Reserved (b_id b) admitted, s)))))"

definition reserve_fresh ::
  "(jval \<Rightarrow> string) \<Rightarrow> (jval \<Rightarrow> string) \<Rightarrow> int \<Rightarrow> dict option \<Rightarrow> signal_request \<Rightarrow> bool \<Rightarrow> bot \<Rightarrow> store \<Rightarrow> (reservation \<times> store) res" where
  "reserve_fresh sha spec_sha wall row q stale b s =
     (let refuse = (\<lambda>code. refused (signal_refusal spec_sha (sq_strategy q) (sq_decision q) b (sq_mode q) (sq_as_of q) code no_context s)) in
      if stale then refuse ''SIGNAL_DECISION_STALE''
      else bindR (scope_refusal sha spec_sha wall row q None s) (\<lambda>block.
        case block of Some code \<Rightarrow> refuse code | None \<Rightarrow> reserve_new sha spec_sha row q b s))"

definition reserve_signal ::
  "(jval \<Rightarrow> string) \<Rightarrow> (jval \<Rightarrow> string) \<Rightarrow> int \<Rightarrow> dict option \<Rightarrow> signal_request \<Rightarrow> bool \<Rightarrow> decimal \<Rightarrow> store
   \<Rightarrow> (reservation \<times> store) res" where
  "reserve_signal sha spec_sha wall row q stale asked = immediate_write (\<lambda>s.
     let existing = get_position (sq_position q) s in
     bindR (case existing of None \<Rightarrow> Inr () | Some p \<Rightarrow> existing_matches spec_sha q p) (\<lambda>_.
     bindR (start_bot sha wall row (sq_strategy q) (sq_mode q) (Some (sd_activation_epoch_id (sq_decision q))) s) (\<lambda>(b, s1).
       case existing of
         None \<Rightarrow> reserve_fresh sha spec_sha wall row q stale b s1
       | Some p \<Rightarrow> resume_reserved sha spec_sha wall row q stale asked b p s1)))"

subsection \<open>The fill\<close>

text \<open>The same checks once more, for a position that is not attempted yet.\<close>

definition fill_refusal ::
  "(jval \<Rightarrow> string) \<Rightarrow> (jval \<Rightarrow> string) \<Rightarrow> int \<Rightarrow> dict option \<Rightarrow> signal_request \<Rightarrow> decimal \<Rightarrow> position \<Rightarrow> store \<Rightarrow> string option res" where
  "fill_refusal sha spec_sha wall row q admitted before s =
     (let sc = effective_operating_scope row s (sq_mode q) in
      bindR (operating_entry_block sha wall s sc (p_activation_epoch_id before) (p_strategy_spec_sha256 before) (Some (sq_as_of q)) False)
        (\<lambda>block.
      if block \<noteq> None then Inr block
      else if sq_ordinary q \<or> sc_managed sc \<or> p_ordinary_operating before = Some 1
      then enforce_operating_envelope sha spec_sha (sq_mode q) (Some (dec_text admitted)) (Some (sq_position q)) s
      else Inr None))"

definition fill_payload :: "signal_request \<Rightarrow> (string \<times> jval) list \<Rightarrow> dict" where
  "fill_payload q extra =
     dict_with (decision_identity (sq_decision q))
       ([(''strategy_id'', JStr (sg_id (sq_strategy q))), (''strategy_version'', JStr (sg_version (sq_strategy q)))] @ extra)"

definition fill_logged :: "signal_request \<Rightarrow> string \<Rightarrow> string \<Rightarrow> string \<Rightarrow> store \<Rightarrow> store res" where
  "fill_logged q bid pid realized s =
     bindR (append_execution_event ''EXECUTION_INTENT_CREATED'' (Some bid) (Some pid)
              (fill_payload q [(''signal_kind'', JStr realized), (''mode'', JStr (sq_mode q))]) None None s) (\<lambda>(_, s1).
     bindR (append_execution_event ''POSITION_TRANSITION'' (Some bid) (Some pid)
              (fill_payload q [(''to_state'', JStr ''OPEN''), (''signal_kind'', JStr realized)]) None None s1) (\<lambda>(_, s2).
       Inr s2))"

definition fill_now :: "signal_request \<Rightarrow> string \<Rightarrow> decimal \<Rightarrow> bool \<Rightarrow> position option \<Rightarrow> store \<Rightarrow> (signal_outcome \<times> store) res" where
  "fill_now q bid admitted was_existing before s =
     (let filled_now = (case before of None \<Rightarrow> True | Some p \<Rightarrow> p_state p \<noteq> OPEN) in
      bindR (fill_paper_from_signal bid (decision_of (sq_decision q)) admitted (signal_kind_of (sq_mode q)) s) (\<lambda>((pid, realized), s1).
      bindR (if filled_now then fill_logged q bid pid realized s1 else Inr s1) (\<lambda>s2.
        case get_position pid s2 of None \<Rightarrow> Inl PyAssertionError
        | Some refreshed \<Rightarrow> Inr (SignalFilled refreshed realized was_existing, s2))))"

definition fill_signal ::
  "(jval \<Rightarrow> string) \<Rightarrow> (jval \<Rightarrow> string) \<Rightarrow> int \<Rightarrow> dict option \<Rightarrow> signal_request \<Rightarrow> bool \<Rightarrow> string \<Rightarrow> decimal \<Rightarrow> bool \<Rightarrow> store
   \<Rightarrow> (signal_outcome \<times> store) res" where
  "fill_signal sha spec_sha wall row q stale bid admitted was_existing = immediate_write (\<lambda>s.
     let before = get_position (sq_position q) s; fill = fill_now q bid admitted was_existing before s in
     case before of None \<Rightarrow> fill
     | Some p \<Rightarrow>
         if p_state p \<notin> set PRE_ATTEMPT_STATES then fill
         else case get_bot bid s of None \<Rightarrow> Inl PyAssertionError
         | Some b \<Rightarrow>
             bindR (fill_refusal sha spec_sha wall row q admitted p s) (\<lambda>refusal.
             case refusal of
               Some code \<Rightarrow>
                 bindR (signal_refusal spec_sha (sq_strategy q) (sq_decision q) b (sq_mode q) (sq_as_of q) code
                   (no_context\<lparr>rc_position := Some p\<rparr>) s) (\<lambda>(r, s1). Inr (SignalRefused r, s1))
             | None \<Rightarrow>
                 bindR (resume_block sha s b (sq_mode q) stale) (\<lambda>block.
                 case block of
                   Some (code, cancel) \<Rightarrow>
                     bindR (cancel_entry_intent (sq_position q) cancel s) (\<lambda>(cancelled, s1).
                       Inr (SignalBlocked code cancelled was_existing, s1))
                 | None \<Rightarrow> fill)))"

subsection \<open>Both transactions\<close>

definition deferred :: "signal_request \<Rightarrow> bool \<Rightarrow> store \<Rightarrow> (signal_outcome \<times> store) res" where
  "deferred q was_existing s =
     (case get_position (sq_position q) s of None \<Rightarrow> Inl PyAssertionError
      | Some reserved \<Rightarrow> Inr (SignalReserved reserved was_existing, s))"

definition enter_signal ::
  "(jval \<Rightarrow> string) \<Rightarrow> (jval \<Rightarrow> string) \<Rightarrow> int \<Rightarrow> dict option \<Rightarrow> signal_request \<Rightarrow> bool \<Rightarrow> decimal \<Rightarrow> store
   \<Rightarrow> (signal_outcome \<times> store) res" where
  "enter_signal sha spec_sha wall row q stale asked s =
     (let was_existing = (get_position (sq_position q) s \<noteq> None) in
      bindR (reserve_signal sha spec_sha wall row q stale asked s) (\<lambda>(r, s1).
        case r of
          Answered out \<Rightarrow> Inr (out, s1)
        | Reserved bid admitted \<Rightarrow>
            if sq_skip_fill q then deferred q was_existing s1
            else fill_signal sha spec_sha wall row q stale bid admitted was_existing s1))"

definition accept_signal_decision_outcome ::
  "(jval \<Rightarrow> string) \<Rightarrow> (jval \<Rightarrow> string) \<Rightarrow> int \<Rightarrow> dict option \<Rightarrow> signal_request \<Rightarrow> store \<Rightarrow> (signal_outcome \<times> store) res" where
  "accept_signal_decision_outcome sha spec_sha wall row q s =
     bindR (signal_checked q) (\<lambda>age.
       if sd_action (sq_decision q) \<noteq> ''ENTER'' then note_signal spec_sha q s
       else bindR (jdecimal (sg_notional (sq_strategy q))) (\<lambda>asked.
         enter_signal sha spec_sha wall row q (sy_max_age_seconds (sq_strategy q) * 1000000 < age) asked s))"

definition accept_signal_decision ::
  "(jval \<Rightarrow> string) \<Rightarrow> (jval \<Rightarrow> string) \<Rightarrow> int \<Rightarrow> dict option \<Rightarrow> signal_request \<Rightarrow> store \<Rightarrow> (signal_outcome \<times> store) res" where
  "accept_signal_decision sha spec_sha wall row q s =
     bindR (accept_signal_decision_outcome sha spec_sha wall row q s) (\<lambda>(out, s1).
       case out of SignalRefused r \<Rightarrow> Inl (PaperPlaneError (rf_reason r)) | _ \<Rightarrow> Inr (out, s1))"

subsection \<open>An exit decision\<close>

record frozen_exit = exit_decision +
  fx_strategy_id :: string
  fx_strategy_version :: string
  fx_epoch :: string
  fx_available_at :: string

definition exit_matches :: "frozen_exit \<Rightarrow> position \<Rightarrow> unit res" where
  "exit_matches x p =
     (let differs = (\<lambda>c t. present c \<and> c \<noteq> Some t) in
      if differs (p_activation_epoch_id p) (fx_epoch x) then Inl (PaperPlaneError ''EXIT_ACTIVATION_EPOCH_MISMATCH'')
      else if differs (p_strategy_id p) (fx_strategy_id x) then Inl (PaperPlaneError ''EXIT_POSITION_STRATEGY_MISMATCH'')
      else if differs (p_strategy_version_label p) (fx_strategy_version x)
      then Inl (PaperPlaneError ''EXIT_POSITION_VERSION_MISMATCH'') else Inr ())"

definition accept_exit_decision ::
  "strategy \<Rightarrow> frozen_exit \<Rightarrow> string list \<Rightarrow> store \<Rightarrow> (exit_outcome \<times> store) res" where
  "accept_exit_decision sy x known s =
     bindR (normalize_strategy sy) (\<lambda>path.
     if path \<noteq> CANDIDATE_V1_1 then Inl (PaperPlaneError ''EXIT_DECISION_REQUIRES_V1_1'')
     else if fx_strategy_id x \<noteq> sg_id sy then Inl (PaperPlaneError ''EXIT_STRATEGY_ID_MISMATCH'')
     else if fx_strategy_version x \<noteq> sg_version sy then Inl (PaperPlaneError ''EXIT_STRATEGY_VERSION_MISMATCH'')
     else bindR (resolve_activation_epoch (fx_epoch x) known) (\<lambda>_.
       bindR (clock_of (fx_available_at x)) (\<lambda>available. bindR (jclock (xd_decision_at x)) (\<lambda>decided.
       bindR (clock_less decided available) (\<lambda>early.
       if early \<and> xd_action x = ''EXIT'' then Inl (PaperPlaneError ''EXIT_FUTURE_AVAILABLE_FORBIDDEN'')
       else case get_position (xd_position x) s of None \<Rightarrow> Inl (PaperPlaneError ''POSITION_NOT_FOUND'')
       | Some p \<Rightarrow> bindR (exit_matches x p) (\<lambda>_. apply_exit_decision (exit_decision.truncate x) s))))))"

end
