(* ===== verification/SignalPlane.thy ===== *)
theory SignalPlane
  imports PaperSignal PolicyWrite
begin

section \<open>Decisions as operations of the plane\<close>

text \<open>
  \<open>start_bot\<close>, \<open>accept_signal_decision_outcome\<close> and \<open>accept_exit_decision\<close> keep the contract of
  \<open>plane_operation\<close>: they only move the store forward. So do the commands of the owner, which write
  policy revisions and envelopes.
\<close>

subsection \<open>Starting a bot\<close>

lemma merged_bot_advance: "b_id b0 = b_id b \<Longrightarrow> bot_advance b (merged_bot b0 b)"
  by (simp add: bot_advance_def merged_bot_def)

lemma existing_bot_advance:
  assumes "existing_bot spec b s = Inr (Some (b', s'))" and "\<not> st_readonly s"
  shows "store_advance s s'"
  using assms
  by (auto simp: existing_bot_def Let_def result_simps bot_advance_def split: if_splits option.splits intro!: upd_bot_advance)

lemma upsert_bot_advance:
  assumes "\<not> st_readonly s" shows "store_advance s (upsert_bot b s)"
  using assms by (auto simp: upsert_bot_def bot_advance_def merged_bot_def intro!: ins_bot_advance upd_bot_advance)

lemma start_new_bot_advance:
  assumes "start_new_bot sha wall row sy mode epoch s = Inr (b, s')" and ro: "\<not> st_readonly s"
  shows "store_advance s s'"
proof -
  let ?n = "new_bot sy mode (bot_instance_id sy mode epoch) epoch (bot_spec sy) (now_of s)"
  have 1: "store_advance s (upsert_bot ?n (tick s))"
    by (rule store_advance_trans [OF tick_advance upsert_bot_advance]) (simp add: ro)
  then have "\<not> st_readonly (upsert_bot ?n (tick s))" using ro store_advance_readonly by blast
  then have 2: "store_advance s (upd_bot bid (\<lambda>b. b\<lparr>b_entries_paused := True\<rparr>) (upsert_bot ?n (tick s)))" for bid
    by (intro store_advance_trans [OF 1 upd_bot_advance]) (simp_all add: bot_advance_def)
  show ?thesis using assms 1 2
    by (auto simp: start_new_bot_def Let_def bindR_eq_Inr result_simps split: if_splits option.splits)
qed

lemma start_bot_advance: "start_bot sha wall row sy mode epoch s = Inr (b, s') \<Longrightarrow> store_advance s s'"
  by (auto simp: start_bot_def bindR_eq_Inr result_simps split: option.splits
      dest: start_new_bot_advance existing_bot_advance)

subsection \<open>Refusals and reservations\<close>

lemma exact_event_advance:
  "append_exact_admission_event spec_sha etype bid pid payload as_of s = Inr (y, s') \<Longrightarrow> store_advance s s'"
  by (auto simp: append_exact_admission_event_def Let_def bindR_eq_Inr result_simps split: option.splits
      dest: append_event_advance)

lemma signal_refusal_advance: "signal_refusal spec_sha sy d b mode as_of code c s = Inr (y, s') \<Longrightarrow> store_advance s s'"
  by (auto simp: signal_refusal_def Let_def bindR_eq_Inr dest: exact_event_advance)

lemma note_signal_advance: "note_signal spec_sha q s = Inr (y, s') \<Longrightarrow> store_advance s s'"
  by (auto simp: note_signal_def Let_def bindR_eq_Inr result_simps simp del: dict_with_simps split: option.splits
      dest: append_event_advance)

lemma refused_eq_Inr [result_simps]:
  "refused m = Inr (r, s) \<longleftrightarrow> (\<exists>x. m = Inr (x, s) \<and> r = Answered (SignalRefused x))"
  by (cases m) (auto simp: refused_def)

lemma resume_refusal_advance: "resume_refusal sha spec_sha q b code cancel s = Inr (y, s') \<Longrightarrow> store_advance s s'"
  by (auto simp: resume_refusal_def bindR_eq_Inr dest: cancel_advance signal_refusal_advance intro: store_advance_trans)

lemma mark_ordinary_advance: "\<not> st_readonly s \<Longrightarrow> store_advance s (mark_ordinary pid op s)"
  by (auto simp: mark_ordinary_def row_defs split: option.splits intro!: upd_always_advance)

lemma open_admitted_advance:
  assumes "open_admitted spec_sha q b p r s = Inr (n, s')" shows "store_advance s s'"
proof -
  obtain pid s1 s2 eid where o': "open_position_from_signal (b_id b) (decision_of (sq_decision q)) (signal_kind_of (sq_mode q))
       (Some (decision_sha256 spec_sha (sq_decision q))) (bot_spec (sq_strategy q)) s = Inr (pid, s1)"
    and f: "freeze_admission_binding (sq_position q) (dec_text n) (ad_requested (er_admission r))
       (if p = None then None else Some (sq_mode q)) (map_option pl_revision p) (map_option pl_sha256 p)
       (Some (sy_fee_bps (sq_strategy q))) s1 = Inr ((), s2)"
    and e: "append_execution_event ''SIGNAL_DECISION_ACCEPTED'' (Some (b_id b)) (Some (sq_position q))
       (accepted_payload_of spec_sha q n p) None None (mark_ordinary (sq_position q) (er_operating r) s2) = Inr (eid, s')"
    using assms by (auto simp: open_admitted_def Let_def bindR_eq_Inr)
  note s1 = open_from_signal_advance [OF o'] and s2 = freeze_advance [OF f]
  have "\<not> st_readonly s2" using f s2 by (auto simp: freeze_admission_binding_def result_simps)
  then show ?thesis
    by (rule store_advance_trans [OF store_advance_trans [OF s1 store_advance_trans [OF s2 mark_ordinary_advance]]
          append_event_advance [OF e]])
qed

lemma reserve_new_advance:
  assumes "reserve_new sha spec_sha row q b s = Inr (y, s')" shows "store_advance s s'"
  using assms
  by (auto simp: reserve_new_def Let_def bindR_eq_Inr result_simps split: if_splits
      dest: signal_refusal_advance exact_event_advance open_admitted_advance intro: store_advance_trans)

lemma reserve_fresh_advance:
  "reserve_fresh sha spec_sha wall row q stale b s = Inr (y, s') \<Longrightarrow> store_advance s s'"
  by (auto simp: reserve_fresh_def Let_def bindR_eq_Inr result_simps split: if_splits option.splits
      dest: signal_refusal_advance reserve_new_advance)

lemma resume_reserved_advance:
  "resume_reserved sha spec_sha wall row q stale n b p s = Inr (y, s') \<Longrightarrow> store_advance s s'"
  by (auto simp: resume_reserved_def Let_def bindR_eq_Inr result_simps split: if_splits option.splits
      dest: signal_refusal_advance resume_refusal_advance)

lemma reserve_advance:
  "reserve_signal sha spec_sha wall row q stale n s = Inr (y, s') \<Longrightarrow> store_advance s s'"
  by (auto simp: reserve_signal_def Let_def bindR_eq_Inr result_simps split: option.splits
      dest!: start_bot_advance reserve_fresh_advance resume_reserved_advance intro: store_advance_trans)

subsection \<open>Fills and answers\<close>

lemma fill_logged_advance: "fill_logged q bid pid k s = Inr s' \<Longrightarrow> store_advance s s'"
  by (auto simp: fill_logged_def bindR_eq_Inr dest: append_event_advance intro: store_advance_trans)

lemma fill_now_advance: "fill_now q bid n w before s = Inr (y, s') \<Longrightarrow> store_advance s s'"
  by (auto simp: fill_now_def Let_def bindR_eq_Inr result_simps split: if_splits option.splits
      dest!: fill_from_signal_advance fill_logged_advance intro: store_advance_trans)

lemma fill_signal_advance:
  "fill_signal sha spec_sha wall row q stale bid n w s = Inr (y, s') \<Longrightarrow> store_advance s s'"
  by (auto simp: fill_signal_def Let_def bindR_eq_Inr result_simps split: if_splits option.splits
      dest: fill_now_advance signal_refusal_advance cancel_advance)

text \<open>The three ways an entry is answered.\<close>

lemma enter_result:
  assumes "enter_signal sha spec_sha wall row q stale n s = Inr (out, s')"
  obtains (answered) "reserve_signal sha spec_sha wall row q stale n s = Inr (Answered out, s')"
  | (deferred) bid m p where "reserve_signal sha spec_sha wall row q stale n s = Inr (Reserved bid m, s')"
      and "sq_skip_fill q" and "get_position (sq_position q) s' = Some p"
      and "out = SignalReserved p (get_position (sq_position q) s \<noteq> None)"
  | (filled) bid m s1 where "reserve_signal sha spec_sha wall row q stale n s = Inr (Reserved bid m, s1)"
      and "\<not> sq_skip_fill q"
      and "fill_signal sha spec_sha wall row q stale bid m (get_position (sq_position q) s \<noteq> None) s1 = Inr (out, s')"
proof -
  obtain r s1 where r: "reserve_signal sha spec_sha wall row q stale n s = Inr (r, s1)"
    using assms by (auto simp: enter_signal_def Let_def bindR_eq_Inr)
  show thesis
  proof (cases r)
    case (Answered x)
    then show thesis using assms r by (intro answered) (simp add: enter_signal_def)
  next
    case (Reserved bid m)
    then show thesis using assms r by (cases "sq_skip_fill q")
      (auto simp: enter_signal_def Let_def deferred_def result_simps intro: deferred filled)
  qed
qed

lemma enter_signal_advance:
  "enter_signal sha spec_sha wall row q stale n s = Inr (y, s') \<Longrightarrow> store_advance s s'"
  by (erule enter_result) (auto dest: reserve_advance fill_signal_advance intro: store_advance_trans)

lemma accept_signal_advance:
  "accept_signal_decision_outcome sha spec_sha wall row q s = Inr (y, s') \<Longrightarrow> store_advance s s'"
  by (auto simp: accept_signal_decision_outcome_def bindR_eq_Inr split: if_splits
      dest: note_signal_advance enter_signal_advance)

lemma exit_decision_advance: "accept_exit_decision sy x known s = Inr (y, s') \<Longrightarrow> store_advance s s'"
  by (auto simp: accept_exit_decision_def bindR_eq_Inr result_simps split: if_splits option.splits dest: apply_exit_advance)

subsection \<open>The owner's commands\<close>

lemma persist_policy_advance:
  "persist_policy_revision sha mode body expected reason ctype key request s = Inr (y, s') \<Longrightarrow> store_advance s s'"
  by (auto simp: persist_policy_revision_def Let_def bindR_eq_Inr split: if_splits
      dest!: append_policy_advance record_command_advance intro: store_advance_trans [OF tick_advance] store_advance_trans)

lemma apply_policy_advance:
  "apply_policy sha phrase mode raw expected key given reason s = Inr (y, s') \<Longrightarrow> store_advance s s'"
  by (auto simp: apply_policy_def Let_def bindR_eq_Inr result_simps split: if_splits option.splits dest: persist_policy_advance)

lemma rollback_policy_advance:
  "rollback_policy sha phrase mode expected key given s = Inr (y, s') \<Longrightarrow> store_advance s s'"
  by (auto simp: rollback_policy_def Let_def bindR_eq_Inr result_simps split: if_splits option.splits dest: persist_policy_advance)

lemma configure_envelope_advance:
  "configure_operating_envelope sha mode raw expected key as_of s = Inr (y, s') \<Longrightarrow> store_advance s s'"
  by (auto simp: configure_operating_envelope_def Let_def bindR_eq_Inr result_simps simp del: dict_with_simps split: if_splits option.splits
      dest!: append_event_advance record_command_advance intro: store_advance_trans)

end
