(* ===== verification/ModeledPlane.thy ===== *)
theory ModeledPlane
  imports SignalPlane
begin

section \<open>Attempts and results as operations of the plane\<close>

text \<open>
  \<open>begin_modeled_attempt\<close> and \<open>accept_modeled_result\<close> keep the contract of \<open>plane_operation\<close>, so together
  with the calls of \<open>PaperPlane\<close> they form one state machine on the store. On it: an attempt is
  permitted once, a permitted entry passed every gate, and a definitive result is recorded once.
\<close>

subsection \<open>What a permitted attempt did\<close>

lemma blocked_entry_result:
  assumes "blocked_entry q code cancel s = Inr (a, s')"
  obtains r where "a = AttemptBlocked code CANCELLED" and "cancel_entry_intent (ar_position q) cancel s = Inr (r, s')"
  using assms by (auto simp: blocked_entry_def bindR_eq_Inr)

lemma started_result:
  assumes "started spec_sha q p s = Inr (a, s')"
  obtains eid where "a = AttemptStarted (attempt_payload spec_sha q p)"
    and "append_execution_event ''MODELED_ATTEMPT_STARTED'' (Some (p_bot p)) (Some (ar_position q))
           (attempt_payload spec_sha q p) (Some (attempt_id spec_sha q)) (Some (ar_as_of q)) s = Inr (eid, s')"
  using assms by (auto simp: started_def bindR_eq_Inr)

lemma transitions_events: "transitions pid ts s = Inr s' \<Longrightarrow> st_events s' = st_events s"
proof (induction pid ts s rule: transitions.induct)
  case (2 pid t ts s)
  then obtain r s1 where t: "transition pid t s = Inr (r, s1)" and ts: "transitions pid ts s1 = Inr s'"
    by (auto simp: bindR_eq_Inr)
  have "st_events s1 = st_events s" using t by (rule transition_result)
  then show ?case using "2.IH" [OF t refl ts] by simp
qed simp

text \<open>The three ways the entry side returns.\<close>

lemma begin_entry_result:
  assumes "begin_entry sha spec_sha q sc p bt s = Inr (a, s')"
  obtains (blocked) code cancel where "blocked_entry q code cancel s = Inr (a, s')"
  | (sent) stale s1 where "p_state p \<in> set PRE_ATTEMPT_STATES" and "entry_age q = Inr stale"
      and "resume_block sha s bt (ar_mode q) stale = Inr None"
      and "ar_ordinary q \<or> sc_managed sc \<or> p_ordinary_operating p = Some 1 \<Longrightarrow>
             enforce_operating_envelope sha spec_sha (ar_mode q) (p_admitted_entry_notional_usd_dec p)
               (Some (ar_position q)) s = Inr None"
      and "transitions (ar_position q) (to_attempting (p_state p)) s = Inr s1"
      and "started spec_sha q p s1 = Inr (a, s')"
proof -
  from assms obtain stale block where pre: "p_state p \<in> set PRE_ATTEMPT_STATES" and age: "entry_age q = Inr stale"
    and rb: "resume_block sha s bt (ar_mode q) stale = Inr block"
    by (auto simp: begin_entry_def result_simps bindR_eq_Inr)
  show thesis
  proof (cases block)
    case (Some cc)
    then show thesis using assms pre age rb by (cases cc) (auto simp: begin_entry_def intro: blocked)
  next
    case None
    let ?m = "if ar_ordinary q \<or> sc_managed sc \<or> p_ordinary_operating p = Some 1
       then enforce_operating_envelope sha spec_sha (ar_mode q) (p_admitted_entry_notional_usd_dec p) (Some (ar_position q)) s
       else Inr None"
    from assms pre age rb None obtain veto where v: "?m = Inr veto"
      by (auto simp: begin_entry_def bindR_eq_Inr)
    show thesis
    proof (cases veto)
      case (Some code)
      then show thesis using assms pre age rb None v by (intro blocked) (simp add: begin_entry_def)
    next
      case N: None
      then obtain s1 where "transitions (ar_position q) (to_attempting (p_state p)) s = Inr s1"
        and "started spec_sha q p s1 = Inr (a, s')"
        using assms pre age rb None v by (auto simp: begin_entry_def bindR_eq_Inr)
      then show thesis using sent pre age rb None v N by (auto split: if_splits)
    qed
  qed
qed

lemma begin_exit_result:
  assumes "begin_exit spec_sha q p s = Inr (a, s')"
  obtains s1 where "p_state p \<in> {EXIT_REQUIRED, EXITING, UNRESOLVED}"
    and "assert_quantity_inventory_witness spec_sha p None False False s = Inr ()"
    and "store_advance s s1" and "st_events s1 = st_events s" and "started spec_sha q p s1 = Inr (a, s')"
  using assms
  by (auto simp: begin_exit_def result_simps bindR_eq_Inr split: if_splits
      elim!: transition_result)

text \<open>The handler: a replay, a refusal that wrote nothing, or one of the two sides.\<close>

lemma begin_result:
  assumes "begin_modeled_attempt sha spec_sha wall row q s = Inr (a, s')"
  obtains (replayed) ev d where "get_execution_event (attempt_id spec_sha q) s = Inr (Some ev)" and "event_body ev = Inr d"
      and "a = AttemptReplayed d" and "s' = s" and "\<not> st_readonly s"
  | (refused) code p where "a = AttemptBlocked code (p_state (p :: position))" and "s' = s"
  | (entry) p bt where "ar_side q = ''ENTRY''" and "get_position (ar_position q) s = Some p"
      and "get_bot (p_bot p) s = Some bt" and "b_mode bt = ar_mode q" and "no_conflicting_attempt q p s = Inr ()"
      and "operating_attempt_block sha wall s (effective_operating_scope row s (ar_mode q)) (p_activation_epoch_id p)
             (ar_side q) (ar_as_of q) = Inr None"
      and "begin_entry sha spec_sha q (effective_operating_scope row s (ar_mode q)) p bt s = Inr (a, s')"
  | (exit) p bt where "ar_side q = ''EXIT''" and "get_position (ar_position q) s = Some p"
      and "get_bot (p_bot p) s = Some bt" and "b_mode bt = ar_mode q" and "no_conflicting_attempt q p s = Inr ()"
      and "begin_exit spec_sha q p s = Inr (a, s')"
proof -
  from assms obtain previous where scope: "ar_side q \<in> {''ENTRY'', ''EXIT''}" "ar_mode q \<in> {''PAPER'', ''SHADOW''}"
    and key: "ar_key q \<noteq> []" "\<not> 120 < length (ar_key q)" and ro: "\<not> st_readonly s"
    and prev: "get_execution_event (attempt_id spec_sha q) s = Inr previous"
    by (auto simp: begin_modeled_attempt_def result_simps bindR_eq_Inr)
  note run = assms [unfolded begin_modeled_attempt_def immediate_write_def]
  show thesis
  proof (cases previous)
    case (Some ev)
    then show thesis using run scope key ro prev replayed by (auto simp: bindR_eq_Inr)
  next
    case None
    obtain p bt where p: "get_position (ar_position q) s = Some p" and bt: "get_bot (p_bot p) s = Some bt"
      and mode: "b_mode bt = ar_mode q"
      using run scope key ro prev None by (auto simp: Let_def split: option.splits if_splits)
    let ?sc = "effective_operating_scope row s (ar_mode q)"
    obtain block where block: "operating_attempt_block sha wall s ?sc (p_activation_epoch_id p)
             (ar_side q) (ar_as_of q) = Inr block"
      using run scope key ro prev None p bt mode by (auto simp: Let_def bindR_eq_Inr)
    show thesis
    proof (cases block)
      case (Some code)
      then show thesis using run scope key ro prev None p bt mode block
        by (intro refused [of code p]) (auto simp: Let_def)
    next
      case N: None
      then have nc: "no_conflicting_attempt q p s = Inr ()"
        and side: "(if ar_side q = ''ENTRY'' then begin_entry sha spec_sha q ?sc p bt s else begin_exit spec_sha q p s) = Inr (a, s')"
        using run scope key ro prev None p bt mode block by (auto simp: Let_def bindR_eq_Inr)
      show thesis
      proof (cases "ar_side q = ''ENTRY''")
        case True
        then show thesis using entry p bt mode nc side block N by auto
      next
        case False
        then show thesis using exit scope p bt mode nc side by auto
      qed
    qed
  qed
qed

lemma started_advance: "started spec_sha q p s = Inr (a, s') \<Longrightarrow> store_advance s s'"
  by (auto elim!: started_result dest: append_event_advance)

lemma begin_advance:
  assumes "begin_modeled_attempt sha spec_sha wall row q s = Inr (a, s')"
  shows "store_advance s s'"
  using assms
proof (cases rule: begin_result)
  case (entry p bt)
  from entry(7) show ?thesis
  proof (cases rule: begin_entry_result)
    case (blocked code cancel)
    then show ?thesis by (auto elim!: blocked_entry_result dest: cancel_advance)
  next
    case (sent stale s1)
    then show ?thesis by (blast intro: store_advance_trans transitions_advance started_advance)
  qed
next
  case (exit p bt)
  from exit(6) show ?thesis
    by (rule begin_exit_result) (blast intro: store_advance_trans started_advance)
qed simp_all

subsection \<open>What an accepted result did\<close>

lemma transition_writable: "transition pid t s = Inr (r, s') \<Longrightarrow> \<not> st_readonly s"
  by (simp add: transition_def immediate_write_eq_Inr)

lemma release_row_advance: "row_advance r (release_row r)"
  by (simp add: release_row_def row_defs)

lemma accept_entry_advance:
  assumes run: "accept_entry result p mode s = Inr s'"
  shows "store_advance s s'"
proof (cases "is_positive result")
  case True
  then show ?thesis using run
    by (auto simp: accept_entry_def accept_entry_fill_def result_simps bindR_eq_Inr dest!: entry_fill_advance)
next
  case False
  then show ?thesis using run
    by (auto simp: accept_entry_def bindR_eq_Inr split: if_splits
        intro: upd_after_advance [OF transition_advance transition_writable release_row_advance] transition_advance)
qed

lemma accept_exit_advance: "accept_exit result p mode rid s = Inr s' \<Longrightarrow> store_advance s s'"
  by (auto simp: accept_exit_def accept_exit_fill_def result_simps bindR_eq_Inr split: if_splits
      dest!: exit_fill_advance quantity_exit_advance)

lemma record_result_advance: "record_result attempt bound result pid rid fid s = Inr (a, s') \<Longrightarrow> store_advance s s'"
  by (auto simp: record_result_def Let_def bindR_eq_Inr split: if_splits
      dest!: append_event_advance intro: store_advance_trans)

text \<open>The handler: the answer of an earlier result with the same identifier, or a new result.\<close>

lemma accept_result:
  assumes "accept_modeled_result spec_sha result s = Inr (a, s')"
  obtains (replayed) "ma_idempotent a" and "s' = s"
  | (fresh) attempt bound side p aid where "result_form result = Inr ()" and "jstr (jget result ''attempt_id'') = Some aid"
      and "get_execution_event aid s = Inr (Some attempt)" and "payload_of attempt = Some bound"
      and "e_type attempt = ''MODELED_ATTEMPT_STARTED''"
      and "fmlookup bound ''position_id'' = Some (JStr (p_id p))" and "fmlookup bound ''side'' = Some (JStr side)"
      and "get_position (p_id p) s = Some p"
      and "jclock_before (jget result ''observed_at'') (jget bound ''as_of'') = Inr False"
      and "get_execution_event (result_id_of spec_sha (jget result ''result_id'')) s = Inr None"
      and "new_result attempt bound result side p (result_id_of spec_sha (jget result ''result_id'')) s = Inr (a, s')"
      and "\<not> st_readonly s"
proof -
  from assms have form: "result_form result = Inr ()" and ro: "\<not> st_readonly s"
    by (auto simp: accept_modeled_result_def result_simps bindR_eq_Inr)
  note run = assms [unfolded accept_modeled_result_def immediate_write_def]
  obtain aid attempt where aid: "jstr (jget result ''attempt_id'') = Some aid"
    and att: "get_execution_event aid s = Inr (Some attempt)"
    using run form ro by (auto simp: bindR_eq_Inr split: option.splits)
  obtain bound where ty: "e_type attempt = ''MODELED_ATTEMPT_STARTED''" and bound: "payload_of attempt = Some bound"
    using run form ro aid att by (auto split: if_splits option.splits)
  obtain pid side as_of p where pid: "fmlookup bound ''position_id'' = Some (JStr pid)"
    and side: "fmlookup bound ''side'' = Some (JStr side)" and as_of: "fmlookup bound ''as_of'' = Some as_of"
    and p: "get_position pid s = Some p"
    using run form ro aid att ty bound by (auto split: option.splits jval.splits)
  have clock: "jclock_before (jget result ''observed_at'') (jget bound ''as_of'') = Inr False"
    using run form ro aid att ty bound pid side as_of p by (auto simp: bindR_eq_Inr jget_def split: if_splits)
  obtain previous where prev: "get_execution_event (result_id_of spec_sha (jget result ''result_id'')) s = Inr previous"
    using run form ro aid att ty bound pid side as_of p by (auto simp: bindR_eq_Inr Let_def split: if_splits)
  have key: "p_id p = pid" using p by (rule pos.get_key)
  show thesis
  proof (cases previous)
    case (Some ev)
    then show thesis using run form ro aid att ty bound pid side as_of p clock prev replayed
      by (auto simp: bindR_eq_Inr Let_def replay_result_def jget_def result_simps split: if_splits option.splits)
  next
    case None
    then have "new_result attempt bound result side p (result_id_of spec_sha (jget result ''result_id'')) s = Inr (a, s')"
      using run form ro aid att ty bound pid side as_of p clock prev
      by (auto simp: bindR_eq_Inr Let_def jget_def split: if_splits)
    then show thesis using fresh form ro aid att ty bound pid side p clock prev None key by auto
  qed
qed

lemma new_result_result:
  assumes "new_result attempt bound result side p rid s = Inr (a, s')"
  obtains s1 where "get_execution_event (''FINAL-'' @ jtext_of (jget result ''attempt_id'')) s = Inr None"
    and "cost_kept result (p_id p) s = Inr ()"
    and "(if side = ''ENTRY'' then accept_entry result p (jtext_of (jget bound ''mode'')) s
          else accept_exit result p (jtext_of (jget bound ''mode'')) rid s) = Inr s1"
    and "record_result attempt bound result (p_id p) rid (''FINAL-'' @ jtext_of (jget result ''attempt_id'')) s1 = Inr (a, s')"
  using assms by (auto simp: new_result_def Let_def bindR_eq_Inr split: if_splits)

lemma new_result_advance:
  assumes "new_result attempt bound result side p rid s = Inr (a, s')"
  shows "store_advance s s'"
  using assms by (rule new_result_result)
    (auto split: if_splits intro: store_advance_trans accept_entry_advance accept_exit_advance record_result_advance)

lemma accept_advance:
  assumes "accept_modeled_result spec_sha result s = Inr (a, s')"
  shows "store_advance s s'"
  using assms by (cases rule: accept_result) (auto dest: new_result_advance)

subsection \<open>The plane with attempts and results\<close>

datatype desk_call =
    OnPlane plane_call
  | BeginAttempt "jval \<Rightarrow> string" "jval \<Rightarrow> string" int "dict option" attempt_request
  | AcceptResult "jval \<Rightarrow> string" dict
  | StartBot "jval \<Rightarrow> string" int "dict option" strategy string "string option"
  | AcceptSignal "jval \<Rightarrow> string" "jval \<Rightarrow> string" int "dict option" signal_request
  | AcceptExit strategy frozen_exit "string list"
  | ApplyPolicy "jval \<Rightarrow> string" string string dict string string "string option" string
  | RollbackPolicy "jval \<Rightarrow> string" string string string string "string option"
  | ConfigureEnvelope "jval \<Rightarrow> string" string dict string string string

fun desk_step :: "desk_call \<Rightarrow> store \<Rightarrow> (unit \<times> store) res" where
  "desk_step (OnPlane c) s = plane_step c s"
| "desk_step (BeginAttempt sha spec_sha wall row q) s = as_call (begin_modeled_attempt sha spec_sha wall row q s)"
| "desk_step (AcceptResult spec_sha result) s = as_call (accept_modeled_result spec_sha result s)"
| "desk_step (StartBot sha wall row sy mode epoch) s = as_call (start_bot sha wall row sy mode epoch s)"
| "desk_step (AcceptSignal sha spec_sha wall row q) s = as_call (accept_signal_decision_outcome sha spec_sha wall row q s)"
| "desk_step (AcceptExit sy x known) s = as_call (accept_exit_decision sy x known s)"
| "desk_step (ApplyPolicy sha phrase mode raw expected key given reason) s =
     as_call (apply_policy sha phrase mode raw expected key given reason s)"
| "desk_step (RollbackPolicy sha phrase mode expected key given) s =
     as_call (rollback_policy sha phrase mode expected key given s)"
| "desk_step (ConfigureEnvelope sha mode raw expected key as_of) s =
     as_call (configure_operating_envelope sha mode raw expected key as_of s)"

interpretation desk: plane_operation desk_step
proof unfold_locales
  fix c s u s'
  assume "desk_step c s = Inr (u, s')"
  then show "store_advance s s'"
    by (cases c) (auto simp: as_call_eq_Inr intro: plane.advance begin_advance accept_advance
        start_bot_advance accept_signal_advance exit_decision_advance apply_policy_advance rollback_policy_advance
        configure_envelope_advance)
qed

definition run_desk :: "desk_call list \<Rightarrow> store \<Rightarrow> store" where
  "run_desk cs s = foldl (\<lambda>s c. case desk_step c s of Inl e \<Rightarrow> s | Inr (u, s') \<Rightarrow> s') s cs"

lemma run_desk_calls: "run_desk cs s = desk.calls cs s"
  by (simp add: run_desk_def desk.calls_def desk.call_def)

lemma run_desk_advance: "store_advance s (run_desk cs s)"
  unfolding run_desk_calls by (rule desk.calls_advance)

end
