(* ===== verification/ModeledClaims.thy ===== *)
theory ModeledClaims
  imports ModeledPlane PolicyClaims
begin

section \<open>Sends and results happen once\<close>

text \<open>
  What the attempts and results of a position are worth after any further calls: the attempt that
  permitted a send is found and permits no other, and a definitive result is the last one of its
  attempt.
\<close>

subsection \<open>The events stay\<close>

lemma find_event_kept:
  assumes "store_advance s s'" and "find_event eid s = Some e"
  shows "find_event eid s' = Some e"
  using assms by (auto simp: store_advance_def find_event_def prefix_def rows_get_append)

lemma find_appended:
  assumes "append_execution_event ty bid pid payload (Some (c # t)) (Some (c' # t')) s = Inr (eid, s')"
  shows "find_event (c # t) s' = Some \<lparr>e_id = c # t, e_type = ty, e_bot = bid, e_position = pid,
     e_created_at = c' # t', e_payload = Some (JObj payload)\<rparr>"
  using assms
  by (auto simp: append_execution_event_def Let_def result_simps find_event_def rows_get_append)

lemma get_event_kept:
  assumes "store_advance s s'" and "get_execution_event eid s = Inr (Some e)"
  shows "get_execution_event eid s' = Inr (Some e)"
  using assms find_event_kept by (auto simp: get_execution_event_def split: option.splits)

lemma get_event_find: "find_event eid s = Some e \<Longrightarrow> e_payload e = Some v \<Longrightarrow> get_execution_event eid s = Inr (Some e)"
  by (simp add: get_execution_event_def)

subsection \<open>The attempt event\<close>

definition attempt_event :: "(jval \<Rightarrow> string) \<Rightarrow> attempt_request \<Rightarrow> position \<Rightarrow> event" where
  "attempt_event spec_sha q p = \<lparr>e_id = attempt_id spec_sha q, e_type = ''MODELED_ATTEMPT_STARTED'', e_bot = Some (p_bot p),
     e_position = Some (ar_position q), e_created_at = ar_as_of q, e_payload = Some (JObj (attempt_payload spec_sha q p))\<rparr>"

lemma attempt_side: "jget (attempt_payload spec_sha q p) ''side'' = JStr (ar_side q)"
  by (simp add: attempt_payload_def attempt_identity_def Let_def split: option.split)

lemma as_of_parses: "clock_of t = Inr c \<Longrightarrow> t \<noteq> []"
  by (auto simp: clock_of_def replace_Z_def parse_iso_def split: option.splits)

lemma started_event:
  assumes "started spec_sha q p s = Inr (a, s')" and "ar_as_of q \<noteq> []"
  shows "find_event (attempt_id spec_sha q) s' = Some (attempt_event spec_sha q p)"
    and "a = AttemptStarted (attempt_payload spec_sha q p)"
proof -
  obtain eid where a: "a = AttemptStarted (attempt_payload spec_sha q p)"
    and app: "append_execution_event ''MODELED_ATTEMPT_STARTED'' (Some (p_bot p)) (Some (ar_position q))
           (attempt_payload spec_sha q p) (Some (attempt_id spec_sha q)) (Some (ar_as_of q)) s = Inr (eid, s')"
    using assms(1) by (rule started_result)
  obtain c t where id: "attempt_id spec_sha q = c # t" by (simp add: attempt_id_def)
  obtain c' t' where stamp: "ar_as_of q = c' # t'" using assms(2) by (cases "ar_as_of q") auto
  show "find_event (attempt_id spec_sha q) s' = Some (attempt_event spec_sha q p)"
    using find_appended [OF app [unfolded id stamp]] by (simp add: attempt_event_def id stamp)
  show "a = AttemptStarted (attempt_payload spec_sha q p)" by (rule a)
qed

text \<open>A permitted send left the attempt event, with its position and its payload.\<close>

lemma permitted_event:
  assumes "begin_modeled_attempt sha spec_sha wall row q s = Inr (AttemptStarted d, s')"
  obtains p where "get_position (ar_position q) s = Some p" and "d = attempt_payload spec_sha q p"
    and "find_event (attempt_id spec_sha q) s' = Some (attempt_event spec_sha q p)" and "\<not> st_readonly s"
    and "ar_side q \<in> {''ENTRY'', ''EXIT''}" and "ar_mode q \<in> {''PAPER'', ''SHADOW''}"
    and "ar_key q \<noteq> [] \<and> length (ar_key q) \<le> 120" and "ar_as_of q \<noteq> []"
proof -
  have scope: "ar_side q \<in> {''ENTRY'', ''EXIT''}" "ar_mode q \<in> {''PAPER'', ''SHADOW''}" "\<not> st_readonly s"
    and key: "ar_key q \<noteq> [] \<and> length (ar_key q) \<le> 120"
    using assms by (auto simp: begin_modeled_attempt_def result_simps)
  from assms show thesis
  proof (cases rule: begin_result)
    case (entry p bt)
    from entry(7) show thesis
    proof (cases rule: begin_entry_result)
      case (blocked code cancel)
      then show thesis by (auto elim: blocked_entry_result)
    next
      case (sent stale s1)
      then have t: "ar_as_of q \<noteq> []" by (auto simp: entry_age_def bindR_eq_Inr dest: as_of_parses)
      show thesis using started_event [OF sent(6) t] entry(2) that scope key t by auto
    qed
  next
    case (exit p bt)
    from exit(6) have t: "ar_as_of q \<noteq> []"
      by (auto simp: begin_exit_def causal_clock_def result_simps bindR_eq_Inr dest: as_of_parses)
    from exit(6) obtain s1 where st: "started spec_sha q p s1 = Inr (AttemptStarted d, s')"
      by (rule begin_exit_result)
    show thesis using started_event [OF st t] exit(2) that scope key t by auto
  qed simp_all
qed

lemma attempt_replayed:
  assumes "find_event (attempt_id spec_sha q) s = Some (attempt_event spec_sha q p)" and "\<not> st_readonly s"
    and "ar_side q \<in> {''ENTRY'', ''EXIT''}" and "ar_mode q \<in> {''PAPER'', ''SHADOW''}"
    and "ar_key q \<noteq> [] \<and> length (ar_key q) \<le> 120"
  shows "begin_modeled_attempt sha spec_sha wall row q s = Inr (AttemptReplayed (attempt_payload spec_sha q p), s)"
proof -
  have "get_execution_event (attempt_id spec_sha q) s = Inr (Some (attempt_event spec_sha q p))"
    using assms(1) by (rule get_event_find) (simp add: attempt_event_def)
  then show ?thesis using assms(2-)
    by (auto simp: begin_modeled_attempt_def immediate_write_def event_body_def jdict_def attempt_event_def)
qed

text \<open>An entry attempt of the position forbids every other one.\<close>

lemma filtered_event:
  assumes "find_event eid s = Some e" and "e_type e = ty" and "e_position e = Some pid" and "e_payload e \<noteq> None"
  shows "e \<in> set (filtered_execution_events (Some ty) (Some [pid]) s)"
proof -
  have "e \<in> set (st_events s)" using assms(1) rows_get_Some by (fastforce simp: find_event_def)
  then show ?thesis using assms(2-)
    by (auto simp: filtered_execution_events_def image_iff split: option.split intro!: bexI [of _ e])
qed

lemma second_entry_refused:
  assumes ev: "find_event eid s = Some (attempt_event spec_sha q p)" and side: "ar_side q = ''ENTRY''"
    and q2: "ar_position q2 = ar_position q" "ar_side q2 = ''ENTRY''"
  shows "no_conflicting_attempt q2 p2 s \<noteq> Inr ()"
proof
  assume ok: "no_conflicting_attempt q2 p2 s = Inr ()"
  let ?e = "attempt_event spec_sha q p"
  have mem: "?e \<in> set (filtered_execution_events (Some ''MODELED_ATTEMPT_STARTED'') (Some [ar_position q2]) s)"
    using ev q2 by (intro filtered_event) (auto simp: attempt_event_def)
  from ok obtain prior where prior: "prior_attempts q2 s = Inr prior" by (auto simp: no_conflicting_attempt_def bindR_eq_Inr)
  have "?e \<in> set prior"
    using prior mem q2 side
    by (auto simp: prior_attempts_def Let_def result_simps payload_of_def attempt_event_def attempt_side)
  then have "rev prior \<noteq> []" by auto
  then show False using ok prior q2(2)
    by (auto simp: no_conflicting_attempt_def bindR_eq_Inr split: list.splits)
qed

subsection \<open>A sent entry\<close>

definition demo_watched :: position where
  "demo_watched = demo_attempting\<lparr>p_state := WATCHED\<rparr>"

definition demo_request :: attempt_request where
  "demo_request = \<lparr>ar_position = ''POS-1'', ar_side = ''ENTRY'', ar_mode = ''PAPER'', ar_key = ''K'',
     ar_decision_at = ''2026-01-01T00:00:00Z'', ar_max_age = 60, ar_as_of = ''2026-01-01T00:00:30Z'', ar_ordinary = False\<rparr>"

definition demo_sent :: "(jval \<Rightarrow> string) \<Rightarrow> store" where
  "demo_sent spec_sha = (demo_store demo_attempting)\<lparr>st_events := [attempt_event spec_sha demo_request demo_watched]\<rparr>"

lemma demo_request_fields [simp]:
  "ar_position demo_request = ''POS-1''" "ar_side demo_request = ''ENTRY''" "ar_mode demo_request = ''PAPER''"
  "ar_key demo_request = ''K''" "ar_max_age demo_request = 60" "ar_as_of demo_request = ''2026-01-01T00:00:30Z''"
  "ar_decision_at demo_request = ''2026-01-01T00:00:00Z''" "\<not> ar_ordinary demo_request"
  by (simp_all add: demo_request_def)

lemma demo_watched_fields [simp]:
  "p_id demo_watched = ''POS-1''" "p_bot demo_watched = ''BOT-1''" "p_state demo_watched = WATCHED"
  "p_ordinary_operating demo_watched = None" "p_remaining_qty_dec demo_watched = None"
  "demo_watched\<lparr>p_state := ATTEMPTING\<rparr> = demo_attempting"
  by (simp_all add: demo_watched_def demo_attempting_def blank_position_def)

lemma demo_entry_age: "entry_age demo_request = Inr False"
  by (simp add: entry_age_def clock_of_def time_eval)

lemma demo_transitions:
  "transitions ''POS-1'' [SIGNALLED, INTENT_CREATED, ATTEMPTING] (demo_store demo_watched) = Inr (demo_store demo_attempting)"
  by (simp add: demo_store_def store_eval)
    (simp add: demo_watched_def demo_attempting_def blank_position_def)

lemma demo_started:
  "started spec_sha demo_request demo_watched (demo_store demo_attempting) =
     Inr (AttemptStarted (attempt_payload spec_sha demo_request demo_watched), demo_sent spec_sha)"
  by (simp add: started_def append_execution_event_def attempt_id_def demo_store_def find_event_def demo_sent_def
      attempt_event_def)

lemma demo_begin:
  "begin_modeled_attempt sha spec_sha wall None demo_request (demo_store demo_watched) =
     Inr (AttemptStarted (attempt_payload spec_sha demo_request demo_watched), demo_sent spec_sha)"
proof -
  let ?s = "demo_store demo_watched"
  have p: "get_position ''POS-1'' ?s = Some demo_watched" and b: "get_bot ''BOT-1'' ?s = Some demo_bot"
    and ro: "\<not> st_readonly ?s" and ev: "st_events ?s = []" and pol: "st_policies ?s = []"
    by (simp_all add: demo_store_def get_position_def get_bot_def demo_bot_def)
  have bt: "b_mode demo_bot = ''PAPER''" "b_status demo_bot = ''RUNNING''" "\<not> b_entries_paused demo_bot"
    by (simp_all add: demo_bot_def)
  have none: "get_execution_event eid ?s = Inr None" for eid
    by (simp add: get_execution_event_def find_event_def ev)
  have sc: "effective_operating_scope None ?s ''PAPER'' = \<lparr>sc_managed = False, sc_mode = ''PAPER'', sc_state = None, sc_reason = None\<rparr>"
    by (simp add: effective_operating_scope_def ev)
  have prior: "no_conflicting_attempt demo_request demo_watched ?s = Inr ()"
    by (simp add: no_conflicting_attempt_def prior_attempts_def filtered_execution_events_def ev)
  have rb: "resume_block sha ?s demo_bot ''PAPER'' False = Inr None"
    by (simp add: resume_block_def bt resolve_current_policy_def latest_runtime_policy_row_def mode_policies_def
        pol SUPPORTED_MODES_def)
  have entry: "begin_entry sha spec_sha demo_request (effective_operating_scope None ?s ''PAPER'') demo_watched demo_bot ?s =
      Inr (AttemptStarted (attempt_payload spec_sha demo_request demo_watched), demo_sent spec_sha)"
    by (simp add: begin_entry_def demo_entry_age rb sc PRE_ATTEMPT_STATES_def to_attempting_def
        demo_transitions [simplified] demo_started)
  show ?thesis
    using p b ro bt none prior entry
    by (simp add: begin_modeled_attempt_def immediate_write_def operating_attempt_block_def sc)
qed

subsection \<open>The properties\<close>

text \<open>C9: one send per attempt. Once \<open>begin_modeled_attempt\<close> permitted a send, whatever calls of the plane
  follow, the same request answers with the attempt that was written and changes nothing, and for an
  entry no other request for an entry of that position is permitted.\<close>

theorem one_send_per_attempt:
  assumes "begin_modeled_attempt sha spec_sha wall row q s = Inr (AttemptStarted d, s')"
  shows "begin_modeled_attempt sha' spec_sha wall' row' q (run_desk cs s') = Inr (AttemptReplayed d, run_desk cs s')
    \<and> (ar_side q = ''ENTRY'' \<and> ar_side q' = ''ENTRY'' \<and> ar_position q' = ar_position q
         \<and> begin_modeled_attempt sha' spec_sha wall' row' q' (run_desk cs s') = Inr (a, s'')
         \<longrightarrow> \<not> send_permitted a)"
proof -
  obtain p where d: "d = attempt_payload spec_sha q p"
    and ev': "find_event (attempt_id spec_sha q) s' = Some (attempt_event spec_sha q p)" and ro: "\<not> st_readonly s"
    and scope: "ar_side q \<in> {''ENTRY'', ''EXIT''}" "ar_mode q \<in> {''PAPER'', ''SHADOW''}"
      "ar_key q \<noteq> [] \<and> length (ar_key q) \<le> 120"
    using assms by (rule permitted_event)
  have adv: "store_advance s' (run_desk cs s')" by (rule run_desk_advance)
  have ev: "find_event (attempt_id spec_sha q) (run_desk cs s') = Some (attempt_event spec_sha q p)"
    using adv ev' by (rule find_event_kept)
  have "st_readonly (run_desk cs s') = st_readonly s"
    using store_advance_readonly [OF adv] store_advance_readonly [OF begin_advance [OF assms]] by simp
  then have "begin_modeled_attempt sha' spec_sha wall' row' q (run_desk cs s') = Inr (AttemptReplayed d, run_desk cs s')"
    using attempt_replayed [OF ev _ scope] ro d by simp
  moreover have "\<not> send_permitted a"
    if side: "ar_side q = ''ENTRY''" "ar_side q' = ''ENTRY''" "ar_position q' = ar_position q"
      and run: "begin_modeled_attempt sha' spec_sha wall' row' q' (run_desk cs s') = Inr (a, s'')"
    using run second_entry_refused [OF ev side(1,3,2)] side by (cases rule: begin_result) auto
  ultimately show ?thesis by blast
qed

lemma one_send_per_attempt_witness:
  "begin_modeled_attempt demo_sha demo_sha 0 None demo_request
     (run_desk [OnPlane (EntryFill ''POS-1'' demo_fill)] (demo_sent demo_sha)) =
   Inr (AttemptReplayed (attempt_payload demo_sha demo_request demo_watched),
     run_desk [OnPlane (EntryFill ''POS-1'' demo_fill)] (demo_sent demo_sha))"
  using one_send_per_attempt [OF demo_begin [of demo_sha demo_sha 0], of demo_sha 0 None
      "[OnPlane (EntryFill ''POS-1'' demo_fill)]" demo_request] by simp

subsection \<open>The events of a result\<close>

lemma record_result_steps:
  assumes "record_result attempt bound r pid rid fid s = Inr (a, s')"
  obtains eid s1 where "append_execution_event ''MODELED_RESULT_ACCEPTED'' (e_bot attempt) (Some pid) (accepted_payload bound r)
      (Some rid) (Some (jtext_of (jget r ''observed_at''))) s = Inr (eid, s1)"
    and "if jget r ''outcome'' = JStr ''UNKNOWN_REQUIRES_RECONCILIATION'' then s' = s1
         else \<exists>eid2. append_execution_event ''MODELED_ATTEMPT_FINAL'' (e_bot attempt) (Some pid) (final_payload r rid)
           (Some fid) (Some (jtext_of (jget r ''observed_at''))) s1 = Inr (eid2, s')"
    and "a = \<lparr>ma_idempotent = False, ma_attempt_id = jget r ''attempt_id'', ma_position = get_position pid s'\<rparr>"
proof (cases "jget r ''outcome'' = JStr ''UNKNOWN_REQUIRES_RECONCILIATION''")
  case True
  then show thesis using assms that by (auto simp: record_result_def Let_def bindR_eq_Inr)
next
  case False
  then show thesis using assms that by (auto simp: record_result_def Let_def bindR_eq_Inr)
qed

lemma jclock_stamp:
  assumes "jclock_before v w = Inr b"
  obtains c t where "jtext_of v = c # t"
  using assms by (cases "jstr v"; cases "jtext_of v")
    (auto simp: jclock_before_def jtext_of_def clock_before_def bindR_eq_Inr dest!: as_of_parses split: option.splits)

definition result_event :: "event \<Rightarrow> dict \<Rightarrow> dict \<Rightarrow> string \<Rightarrow> string \<Rightarrow> event" where
  "result_event attempt bound r pid rid = \<lparr>e_id = rid, e_type = ''MODELED_RESULT_ACCEPTED'', e_bot = e_bot attempt,
     e_position = Some pid, e_created_at = jtext_of (jget r ''observed_at''),
     e_payload = Some (JObj (accepted_payload bound r))\<rparr>"

definition final_event :: "event \<Rightarrow> dict \<Rightarrow> string \<Rightarrow> string \<Rightarrow> event" where
  "final_event attempt r pid rid = \<lparr>e_id = ''FINAL-'' @ jtext_of (jget r ''attempt_id''), e_type = ''MODELED_ATTEMPT_FINAL'',
     e_bot = e_bot attempt, e_position = Some pid, e_created_at = jtext_of (jget r ''observed_at''),
     e_payload = Some (JObj (final_payload r rid))\<rparr>"

lemma record_result_events:
  assumes "record_result attempt bound r pid (c # t) (''FINAL-'' @ jtext_of (jget r ''attempt_id'')) s = Inr (a, s')"
    and stamp: "jtext_of (jget r ''observed_at'') = c' # t'"
  shows "\<not> ma_idempotent a" and "find_event (c # t) s' = Some (result_event attempt bound r pid (c # t))"
    and "jget r ''outcome'' \<noteq> JStr ''UNKNOWN_REQUIRES_RECONCILIATION'' \<Longrightarrow>
           find_event (''FINAL-'' @ jtext_of (jget r ''attempt_id'')) s' = Some (final_event attempt r pid (c # t))"
    and "ma_position a = get_position pid s'" and "get_position k s' = get_position k s"
    and "st_bots s' = st_bots s"
proof -
  let ?definitive = "jget r ''outcome'' \<noteq> JStr ''UNKNOWN_REQUIRES_RECONCILIATION''"
  obtain eid s1 where one: "append_execution_event ''MODELED_RESULT_ACCEPTED'' (e_bot attempt) (Some pid) (accepted_payload bound r)
      (Some (c # t)) (Some (c' # t')) s = Inr (eid, s1)"
    and two: "if ?definitive then \<exists>eid2. append_execution_event ''MODELED_ATTEMPT_FINAL'' (e_bot attempt) (Some pid)
         (final_payload r (c # t)) (Some (''FINAL-'' @ jtext_of (jget r ''attempt_id''))) (Some (c' # t')) s1 = Inr (eid2, s')
       else s' = s1"
    and a: "a = \<lparr>ma_idempotent = False, ma_attempt_id = jget r ''attempt_id'', ma_position = get_position pid s'\<rparr>"
    using assms(1) by (rule record_result_steps) (use stamp in \<open>cases ?definitive, simp_all\<close>)
  show "\<not> ma_idempotent a" and "ma_position a = get_position pid s'" using a by simp_all
  have found: "find_event (c # t) s1 = Some (result_event attempt bound r pid (c # t))"
    using find_appended [OF one] by (simp add: result_event_def stamp)
  have "store_advance s1 s'" using two by (cases ?definitive) (auto dest: append_event_advance)
  then show "find_event (c # t) s' = Some (result_event attempt bound r pid (c # t))"
    using found by (rule find_event_kept)
  show "find_event (''FINAL-'' @ jtext_of (jget r ''attempt_id'')) s' = Some (final_event attempt r pid (c # t))" if d: ?definitive
  proof -
    from two d obtain eid2 where f: "append_execution_event ''MODELED_ATTEMPT_FINAL'' (e_bot attempt) (Some pid)
         (final_payload r (c # t)) (Some (CHR ''F'' # ''INAL-'' @ jtext_of (jget r ''attempt_id''))) (Some (c' # t')) s1 = Inr (eid2, s')"
      by auto
    show ?thesis using find_appended [OF f] by (simp add: final_event_def stamp)
  qed
  have "get_position k s1 = get_position k s" and b1: "st_bots s1 = st_bots s"
    using one append_event_result(2) by auto
  moreover have "get_position k s' = get_position k s1" and "st_bots s' = st_bots s1"
    using two append_event_result(2) by (cases ?definitive, auto)+
  ultimately show "get_position k s' = get_position k s" and "st_bots s' = st_bots s" by simp_all
qed

text \<open>A result that was not a replay: its attempt, its two events, and the position it wrote.\<close>

lemma fresh_result:
  assumes run: "accept_modeled_result spec_sha r s = Inr (a, s')" and fresh: "\<not> ma_idempotent a"
  obtains attempt bound side p aid s1 where "jstr (jget r ''attempt_id'') = Some aid" and "result_form r = Inr ()"
    and "find_event aid s = Some attempt" and "payload_of attempt = Some bound" and "e_type attempt = ''MODELED_ATTEMPT_STARTED''"
    and "fmlookup bound ''position_id'' = Some (JStr (p_id p))" and "fmlookup bound ''side'' = Some (JStr side)"
    and "get_position (p_id p) s = Some p" and "store_advance s s1" and "\<not> st_readonly s"
    and "jclock_before (jget r ''observed_at'') (jget bound ''as_of'') = Inr False"
    and "(if side = ''ENTRY'' then accept_entry r p (jtext_of (jget bound ''mode'')) s
          else accept_exit r p (jtext_of (jget bound ''mode'')) (result_id_of spec_sha (jget r ''result_id'')) s) = Inr s1"
    and "record_result attempt bound r (p_id p) (result_id_of spec_sha (jget r ''result_id''))
           (''FINAL-'' @ jtext_of (jget r ''attempt_id'')) s1 = Inr (a, s')"
  using run
proof (cases rule: accept_result)
  case (fresh attempt bound side p aid)
  have "find_event aid s = Some attempt" using fresh(3) by (auto simp: get_execution_event_def split: option.splits)
  moreover from fresh(11) obtain s1 where
      step: "(if side = ''ENTRY'' then accept_entry r p (jtext_of (jget bound ''mode'')) s
          else accept_exit r p (jtext_of (jget bound ''mode'')) (result_id_of spec_sha (jget r ''result_id'')) s) = Inr s1"
    and "record_result attempt bound r (p_id p) (result_id_of spec_sha (jget r ''result_id''))
           (''FINAL-'' @ jtext_of (jget r ''attempt_id'')) s1 = Inr (a, s')"
    by (rule new_result_result)
  moreover have "store_advance s s1" using step by (auto split: if_splits intro: accept_entry_advance accept_exit_advance)
  ultimately show thesis using that fresh by blast
qed (use fresh in simp)

lemma final_recorded:
  assumes run: "accept_modeled_result spec_sha r s = Inr (a, s')" and fresh: "\<not> ma_idempotent a"
    and definitive: "jget r ''outcome'' \<noteq> JStr ''UNKNOWN_REQUIRES_RECONCILIATION''"
  obtains attempt pid where "find_event (''FINAL-'' @ jtext_of (jget r ''attempt_id'')) s' =
      Some (final_event attempt r pid (result_id_of spec_sha (jget r ''result_id'')))"
proof (rule fresh_result [OF run fresh])
  fix attempt bound p s1
  assume clock: "jclock_before (jget r ''observed_at'') (jget bound ''as_of'') = Inr False"
    and rec: "record_result attempt bound r (p_id p) (result_id_of spec_sha (jget r ''result_id''))
           (''FINAL-'' @ jtext_of (jget r ''attempt_id'')) s1 = Inr (a, s')"
  obtain c t where id: "result_id_of spec_sha (jget r ''result_id'') = c # t" by (simp add: result_id_of_def)
  obtain c' t' where stamp: "jtext_of (jget r ''observed_at'') = c' # t'" using clock by (rule jclock_stamp)
  show thesis using that record_result_events(3) [OF rec [unfolded id] stamp definitive] id by simp
qed

text \<open>C17: a result is recorded once. After a definitive result of an attempt was accepted, whatever calls
  of the plane follow, any result of the same attempt is refused or is a replay that answers and changes
  nothing, and the final event still carries the outcome accepted first.\<close>

theorem result_recorded_once:
  assumes "accept_modeled_result spec_sha r s = Inr (a, s')" and "\<not> ma_idempotent a"
    and "jget r ''outcome'' \<noteq> JStr ''UNKNOWN_REQUIRES_RECONCILIATION''"
    and "jget r' ''attempt_id'' = jget r ''attempt_id''"
    and "accept_modeled_result spec_sha' r' (run_desk cs s') = Inr (a', s'')"
  shows "ma_idempotent a' \<and> s'' = run_desk cs s'
    \<and> (\<exists>e. find_event (''FINAL-'' @ jtext_of (jget r ''attempt_id'')) s'' = Some e
         \<and> e_payload e = Some (JObj (final_payload r (result_id_of spec_sha (jget r ''result_id'')))))"
proof -
  obtain attempt pid where "find_event (''FINAL-'' @ jtext_of (jget r ''attempt_id'')) s' =
      Some (final_event attempt r pid (result_id_of spec_sha (jget r ''result_id'')))"
    using assms(1-3) by (rule final_recorded)
  then have f: "find_event (''FINAL-'' @ jtext_of (jget r ''attempt_id'')) (run_desk cs s') =
      Some (final_event attempt r pid (result_id_of spec_sha (jget r ''result_id'')))"
    by (rule find_event_kept [OF run_desk_advance])
  then have g: "get_execution_event (''FINAL-'' @ jtext_of (jget r' ''attempt_id'')) (run_desk cs s') =
      Inr (Some (final_event attempt r pid (result_id_of spec_sha (jget r ''result_id''))))"
    unfolding assms(4) by (rule get_event_find) (simp add: final_event_def)
  from assms(5) show ?thesis
  proof (cases rule: accept_result)
    case replayed
    then show ?thesis using f by (auto simp: final_event_def)
  next
    case (fresh attempt bound side p aid)
    from fresh(11) show ?thesis by (rule new_result_result) (use g in simp)
  qed
qed

end
