(* ===== verification/ModeledWitness.thy ===== *)
theory ModeledWitness
  imports ModeledClaims
begin

section \<open>What is accepted is what the witness validator accepts\<close>

text \<open>
  \<open>begin_modeled_attempt\<close> and \<open>accept_modeled_result\<close> write the events that \<open>modeled_final_witness_valid\<close>
  later judges, for the obligations and the inventory. The two are separate code: here the events of an
  accepted entry are shown to be valid for the position they left.
\<close>

subsection \<open>Texts of amounts\<close>

lemma int_text_dec: "int_text i = dec_text (dec_of_int i)"
  by (simp add: int_text_def dec_of_int_def sign_text_def)

lemma dec_of_int_text: "dec_of_string (int_text i) = Inr (dec_of_int i)"
proof -
  have "dec_is_finite (dec_of_int i)" by (simp add: dec_of_int_def)
  then show ?thesis unfolding int_text_dec by (simp add: dec_text_fin) (simp add: dec_of_int_def)
qed

lemma jdecimal_text: "jdecimal v = Inr x \<Longrightarrow> dec_of_string (jtext_of v) = Inr x"
  by (auto simp: jdecimal_def jtext_of_def jstr_def dec_of_int_text split: jval.splits)

lemma model_amount_Inr:
  assumes "model_amount v code z = Inr x"
  shows "jdecimal v = Inr x" and "dec_is_finite x" and "0 \<le> dval x" and "\<not> z \<Longrightarrow> 0 < dval x"
proof -
  have 1: "jdecimal v = Inr x" and fin: "dec_is_finite x" and nn: "\<not> dec_less x dec_zero"
    and nz: "\<not> z \<Longrightarrow> \<not> dec_eq x dec_zero"
    using assms by (auto simp: model_amount_def split: sum.splits if_splits)
  have zero: "dec_is_finite dec_zero" "dval dec_zero = 0" by (simp_all add: dec_zero_def signed_def)
  show "jdecimal v = Inr x" and "dec_is_finite x" by (rule 1, rule fin)
  show "0 \<le> dval x" using nn dec_less_dval [OF fin zero(1)] zero(2) by simp
  then show "0 < dval x" if "\<not> z" using nz [OF that] dec_eq_dval [OF fin zero(1)] zero(2) by simp
qed

lemma model_amount_ok:
  assumes "jdecimal v = Inr x" and "dec_is_finite x" and "0 < dval x"
  shows "model_amount v code z = Inr x"
proof -
  have zero: "dec_is_finite dec_zero" "dval dec_zero = 0" by (simp_all add: dec_zero_def signed_def)
  show ?thesis using assms zero dec_less_dval [OF assms(2) zero(1)] dec_eq_dval [OF assms(2) zero(1)]
    by (simp add: model_amount_def)
qed

lemma column_amount_ok:
  assumes "reads t x" and "0 < dval x"
  shows "column_amount t code z = Inr x"
proof -
  have fin: "dec_is_finite x" and rd: "dec_of_string (str_or_None t) = Inr x"
    using assms(1) reads_str by (auto simp: reads_def)
  have zero: "dec_is_finite dec_zero" "dval dec_zero = 0" by (simp_all add: dec_zero_def signed_def)
  show ?thesis using assms(2) fin rd zero dec_less_dval [OF fin zero(1)] dec_eq_dval [OF fin zero(1)]
    by (simp add: column_amount_def positive_model_decimal_def)
qed

subsection \<open>The form of an accepted result\<close>

lemma json_text_in_hashable: "json_text_in v xs \<Longrightarrow> json_hashable v"
  by (auto simp: json_text_in_def json_hashable_def split: jval.splits)

lemma member_or_raise_Inr: "member_or_raise v xs code = Inr u \<longleftrightarrow> json_text_in v xs"
  using json_text_in_hashable by (auto simp: member_or_raise_def guardR_eq_Inr split: if_splits)

lemma modern_version: "is_modern r \<Longrightarrow> jget r ''schema_version'' = JStr ''1.1''"
  by (auto simp: is_modern_def result_version_def jget_def split: option.splits)

lemma result_form_facts:
  assumes "result_form r = Inr ()"
  shows "result_keys_ok r" and "result_version r \<in> {JStr ''1.0'', JStr ''1.1''}"
    and "json_text_in (jget r ''outcome'') RESULT_OUTCOMES" and "result_id_ok (jget r ''result_id'')"
    and "is_modern r \<Longrightarrow> is_positive r \<Longrightarrow> accounting_keys_ok r"
    and "\<not> is_positive r \<Longrightarrow> list_all (\<lambda>k. jget r k = JNull) FILL_KEYS"
    and "is_positive r \<Longrightarrow> jget r ''unit_price_usd'' \<noteq> JNull \<Longrightarrow>
           returned (model_amount (jget r ''unit_price_usd'') ''MODELED_FILL_DETAILS_INVALID'' False)"
    and "is_positive r \<Longrightarrow> jget r ''filled_notional_usd'' \<noteq> JNull \<Longrightarrow>
           returned (model_amount (jget r ''filled_notional_usd'') ''MODELED_FILL_DETAILS_INVALID'' False)"
    and "jget r ''chargeable_cost_usd'' = JNull
         \<or> returned (model_amount (jget r ''chargeable_cost_usd'') ''MODELED_RESULT_COST_INVALID'' True)"
proof -
  note form = assms [unfolded result_form_def bindR_eq_Inr member_or_raise_Inr guardR_eq_Inr]
  have keys: "fBall (fmdom r) (\<lambda>k. k \<in> set RESULT_KEYS \<or> is_modern r \<and> k \<in> set QUANTITY_KEYS)"
    and ver: "json_text_in (result_version r) [''1.0'', ''1.1'']"
    and oc: "json_text_in (jget r ''outcome'') RESULT_OUTCOMES" and rid: "result_id_ok (jget r ''result_id'')"
    using form by auto
  show "result_keys_ok r" using keys modern_version by (auto simp: result_keys_ok_def)
  show "result_version r \<in> {JStr ''1.0'', JStr ''1.1''}" using ver by (auto simp: json_text_in_def split: jval.splits)
  show "json_text_in (jget r ''outcome'') RESULT_OUTCOMES" and "result_id_ok (jget r ''result_id'')" by (rule oc, rule rid)
  show "accounting_keys_ok r" if "is_modern r" "is_positive r"
    using form that by (auto simp: accounting_keys_ok_def member_or_raise_Inr guardR_eq_Inr bindR_eq_Inr)
  show "list_all (\<lambda>k. jget r k = JNull) FILL_KEYS" if "\<not> is_positive r"
    using form that by (auto simp: FILL_KEYS_def guardR_eq_Inr)
  show "returned (model_amount (jget r ''unit_price_usd'') ''MODELED_FILL_DETAILS_INVALID'' False)"
    if "is_positive r" "jget r ''unit_price_usd'' \<noteq> JNull"
    using form that by (auto simp: fill_detail_ok_def bindR_eq_Inr returned_iff split: if_splits)
  show "returned (model_amount (jget r ''filled_notional_usd'') ''MODELED_FILL_DETAILS_INVALID'' False)"
    if "is_positive r" "jget r ''filled_notional_usd'' \<noteq> JNull"
    using form that by (auto simp: fill_detail_ok_def bindR_eq_Inr returned_iff split: if_splits)
  show "jget r ''chargeable_cost_usd'' = JNull
         \<or> returned (model_amount (jget r ''chargeable_cost_usd'') ''MODELED_RESULT_COST_INVALID'' True)"
    using form by (auto simp: bindR_eq_Inr returned_iff split: if_splits)
qed

subsection \<open>What an accepted fill booked\<close>

lemma entry_amounts_quantity:
  assumes "entry_fill_amounts p price gross bps units sem = Inr a"
  shows "units = None \<Longrightarrow> units_of (ea_notional a) (ea_price a) = Inr (ea_quantity a)"
    and "units = Some u \<Longrightarrow> positive_model_decimal u ''MODELED_QUANTITY_INVALID'' False = Inr (ea_quantity a)
           \<and> (\<exists>x y. bindR (dec_mul (ea_price a) (ea_quantity a)) cents = Inr x \<and> cents (ea_notional a) = Inr y \<and> dec_eq x y)"
  using assms unfolding entry_fill_amounts_def units_of_def
  by (auto simp: bindR_eq_Inr result_simps split: if_splits)

text \<open>The fill of an accepted positive entry result, read back from the row it left.\<close>

definition booked_fill :: "dict \<Rightarrow> position \<Rightarrow> decimal \<Rightarrow> entry_amounts \<Rightarrow> bool" where
  "booked_fill r row adm a =
     (jdecimal (jget r ''unit_price_usd'') = Inr (ea_price a) \<and> jdecimal (jget r ''filled_notional_usd'') = Inr (ea_notional a)
      \<and> dec_is_finite (ea_price a) \<and> dec_is_finite (ea_notional a) \<and> dec_is_finite (ea_quantity a)
      \<and> 0 < dval (ea_price a) \<and> 0 < dval (ea_notional a)
      \<and> dval (ea_notional a) \<le> dval adm \<and> (jget r ''outcome'' = JStr ''PARTIAL'') = (dval (ea_notional a) < dval adm)
      \<and> p_entry_price_dec row = Some (dec_text (ea_price a)) \<and> p_qty_dec row = Some (dec_text (ea_quantity a))
      \<and> p_entered_notional_usd_dec row = Some (dec_text (ea_notional a)) \<and> reads (p_admitted_entry_notional_usd_dec row) adm
      \<and> (if is_modern r
         then model_amount (jget r ''quantity_filled'') ''MODELED_QUANTITY_INVALID'' False = Inr (ea_quantity a)
           \<and> fmlookup r ''quantity_sold'' = None \<and> fmlookup r ''remaining_quantity'' = None
           \<and> jget r ''fee_semantics'' = jtext (p_entry_fee_semantics row)
           \<and> (\<exists>x y. bindR (dec_mul (ea_price a) (ea_quantity a)) cents = Inr x \<and> cents (ea_notional a) = Inr y \<and> dec_eq x y)
         else units_of (ea_notional a) (ea_price a) = Inr (ea_quantity a)))"

lemma fill_semantics:
  assumes "accounting_keys_ok r"
  shows "jget r ''fee_semantics'' = JStr (jtext_of (jget r ''fee_semantics''))"
  using assms by (auto simp: accounting_keys_ok_def json_text_in_def jtext_of_def jstr_def split: jval.splits)

lemma accept_fill_booked:
  assumes run: "accept_entry_fill r p mode s = Inr s1" and form: "result_form r = Inr ()" and pos: "is_positive r"
    and g: "get_position (p_id p) s = Some p" and new: "\<not> present (p_entry_price_dec p)"
    and adm: "reads (p_admitted_entry_notional_usd_dec p) adm"
  obtains row a where "get_position (p_id p) s1 = Some row" and "booked_fill r row adm a"
proof -
  from run obtain n bps row where nn: "jget r ''filled_notional_usd'' \<noteq> JNull" "jget r ''unit_price_usd'' \<noteq> JNull"
    and n: "jdecimal (jget r ''filled_notional_usd'') = Inr n"
    and less: "dec_lt n adm = Inr (jget r ''outcome'' = JStr ''PARTIAL'')"
    and keys: "is_modern r \<Longrightarrow> fmlookup r ''quantity_sold'' = None \<and> fmlookup r ''remaining_quantity'' = None"
    and qty: "is_modern r \<Longrightarrow> returned (model_amount (jget r ''quantity_filled'') ''MODELED_QUANTITY_INVALID'' False)"
    and fill: "apply_paper_entry_fill (p_id p) (modeled_entry_fill r bps mode) s = Inr (row, s1)"
    using reads_str [OF adm] by (auto simp: accept_entry_fill_def result_simps bindR_eq_Inr returned_iff split: if_splits)
  obtain pr where pr: "jdecimal (jget r ''unit_price_usd'') = Inr pr"
    using result_form_facts(7) [OF form pos nn(2)] model_amount_Inr(1) by (auto simp: returned_iff)
  obtain a where am: "entry_fill_amounts p (jtext_of (jget r ''unit_price_usd'')) (jtext_of (jget r ''filled_notional_usd''))
      (Some bps) (ef_quantity_units (modeled_entry_fill r bps mode)) (ef_fee_semantics (modeled_entry_fill r bps mode)) = Inr a"
    and first: "first_entry_fill (p_id p) p a (ef_fee_semantics (modeled_entry_fill r bps mode)) mode s = Inr (row, s1)"
    using fill by (rule entry_fill_result) (use g new in \<open>auto simp: modeled_entry_fill_def\<close>)
  note fin = entry_amounts_finite [OF am]
  have same: "ea_price a = pr" "ea_notional a = n"
    using fin(1,2) jdecimal_text [OF pr] jdecimal_text [OF n] by simp_all
  have admp: "dec_of_string (the (p_admitted_entry_notional_usd_dec p)) = Inr adm" "dec_is_finite adm"
    "present (p_admitted_entry_notional_usd_dec p)"
    using reads_the [OF adm] reads_present [OF adm] by auto
  obtain r1 where row: "row = set_remaining a (ef_fee_semantics (modeled_entry_fill r bps mode)) (set_entry a r1)"
    and adv: "row_advance p r1" and g1: "get_position (p_id p) s1 = Some row"
    and within: "dval (ea_notional a) \<le> dval adm"
    by (rule first_entry_row [OF first g fin(4)]) (use admp in blast)
  have admr: "p_admitted_entry_notional_usd_dec r1 = p_admitted_entry_notional_usd_dec p"
    using adv adm by (auto simp: row_advance_def admission_kept_def kept_def reads_def)
  have "booked_fill r row adm a"
  proof (cases "is_modern r")
    case True
    have acc: "accounting_keys_ok r" using form True pos by (rule result_form_facts(5))
    obtain q where q: "model_amount (jget r ''quantity_filled'') ''MODELED_QUANTITY_INVALID'' False = Inr q"
      using qty True by (auto simp: returned_iff)
    have "positive_model_decimal (jtext_of (jget r ''quantity_filled'')) ''MODELED_QUANTITY_INVALID'' False = Inr (ea_quantity a)"
      and cents_eq: "\<exists>x y. bindR (dec_mul (ea_price a) (ea_quantity a)) cents = Inr x \<and> cents (ea_notional a) = Inr y \<and> dec_eq x y"
      using entry_amounts_quantity(2) [OF am] True by (auto simp: modeled_entry_fill_def)
    then have "q = ea_quantity a"
      using positive_model_decimal_Inr(1) jdecimal_text [OF model_amount_Inr(1) [OF q]] by fastforce
    then show ?thesis
      using True pr n same fin within less admp admr adm keys q cents_eq fill_semantics [OF acc]
      by (simp add: booked_fill_def dec_lt_dval row set_remaining_def set_entry_def modeled_entry_fill_def jtext_def)
  next
    case False
    then show ?thesis
      using pr n same fin within less admp admr adm entry_amounts_quantity(1) [OF am]
      by (simp add: booked_fill_def dec_lt_dval row set_remaining_def set_entry_def modeled_entry_fill_def)
  qed
  then show thesis using that g1 by blast
qed

subsection \<open>The validator on it\<close>

lemma column_of_text:
  assumes "dec_is_finite x" and "0 < dval x"
  shows "column_amount (Some (dec_text x)) code z = Inr (dec_plain x)"
  by (rule column_amount_ok) (use assms reads_dec_text dval_dec_plain in auto)

lemma dec_eq_plain: "dec_is_finite x \<Longrightarrow> dec_eq x (dec_plain x)"
  by (simp add: dec_eq_dval dec_plain_finite dval_dec_plain)

lemma books_agree:
  assumes b: "booked_fill r row adm a" and q: "0 < dval (ea_quantity a)"
  shows "entry_books_witness (Some row) r (ea_price a) (ea_notional a) = Inr True"
proof -
  have adm: "column_amount (p_admitted_entry_notional_usd_dec row) c z = Inr adm" for c z
    by (rule column_amount_ok) (use b in \<open>auto simp: booked_fill_def\<close>)
  have texts: "column_amount (Some (dec_text (ea_quantity a))) c z = Inr (dec_plain (ea_quantity a))"
    "column_amount (Some (dec_text (ea_price a))) c z = Inr (dec_plain (ea_price a))"
    "column_amount (Some (dec_text (ea_notional a))) c z = Inr (dec_plain (ea_notional a))" for c z
    using b q column_of_text by (simp_all add: booked_fill_def)
  have fin: "dec_is_finite adm" using b by (auto simp: booked_fill_def reads_def)
  have quantity: "(if result_version r = JStr ''1.1''
       then model_amount (jget r ''quantity_filled'') ''MODELED_QUANTITY_INVALID'' False
       else units_of (ea_notional a) (ea_price a)) = Inr (ea_quantity a)"
    using b by (auto simp: booked_fill_def is_modern_def split: if_splits)
  have sem: "result_version r \<noteq> JStr ''1.1'' \<or> jget r ''fee_semantics'' = jtext (p_entry_fee_semantics row)"
    using b by (auto simp: booked_fill_def is_modern_def split: if_splits)
  show ?thesis
    using b fin sem
    by (simp add: entry_books_witness_def texts adm quantity andR_def booked_fill_def dec_eq_plain dec_less_dval)
qed

definition legacy_of :: "position \<Rightarrow> original_quantity option \<Rightarrow> bool" where
  "legacy_of row legacy = (legacy = None \<or> legacy = map_option QuantityText (p_qty_dec row))"

lemma legacy_agrees:
  assumes b: "booked_fill r row adm a" and q: "0 < dval (ea_quantity a)" and l: "legacy_of row legacy"
    and ver: "result_version r \<in> {JStr ''1.0'', JStr ''1.1''}"
  shows "legacy_witness legacy r (ea_price a) (ea_notional a) = Inr True"
proof (cases "legacy = None \<or> result_version r \<noteq> JStr ''1.0''")
  case True
  then show ?thesis by (cases legacy) (auto simp: legacy_witness_def)
next
  case False
  then have old: "\<not> is_modern r" by (simp add: is_modern_def)
  then have u: "units_of (ea_notional a) (ea_price a) = Inr (ea_quantity a)" using b by (simp add: booked_fill_def)
  have col: "p_qty_dec row = Some (dec_text (ea_quantity a))" and fin: "dec_is_finite (ea_quantity a)"
    using b by (simp_all add: booked_fill_def)
  have "original_amount (QuantityText (dec_text (ea_quantity a))) = Inr (dec_plain (ea_quantity a))"
    using column_of_text [OF fin q] by (simp add: column_amount_def str_or_None_def)
  then show ?thesis using False l u col fin
    by (auto simp: legacy_witness_def legacy_of_def dec_eq_plain)
qed

lemma booked_fill_witness:
  assumes b: "booked_fill r row adm a" and q: "0 < dval (ea_quantity a)" and l: "legacy_of row legacy"
    and form: "result_form r = Inr ()" and pos: "is_positive r" and side: "jget body ''side'' = JStr ''ENTRY''"
  shows "fill_witness legacy (Some row) body r"
proof -
  note ver = result_form_facts(2) [OF form]
  have price: "model_amount (jget r ''unit_price_usd'') c False = Inr (ea_price a)"
    and notional: "model_amount (jget r ''filled_notional_usd'') c False = Inr (ea_notional a)" for c
    using b model_amount_ok by (simp_all add: booked_fill_def)
  have modern: "holds (if result_version r \<noteq> JStr ''1.1'' then Inr True
     else andR (accounting_keys_ok r)
         (bindR (model_amount (jget r ''quantity_filled'') ''MODELED_QUANTITY_INVALID'' False) (\<lambda>quantity.
          andR (fmlookup r ''quantity_sold'' = None \<and> fmlookup r ''remaining_quantity'' = None)
         (bindR (bindR (dec_mul (ea_price a) quantity) cents) (\<lambda>x. bindR (cents (ea_notional a)) (\<lambda>y. Inr (dec_eq x y)))))))"
  proof (cases "is_modern r")
    case True
    have "accounting_keys_ok r" using form True pos by (rule result_form_facts(5))
    then show ?thesis using True b by (auto simp: booked_fill_def is_modern_def)
  qed (simp add: is_modern_def)
  have "holds (entry_witness legacy (Some row) r (ea_price a))"
    unfolding entry_witness_def notional bindR_simps books_agree [OF b q] legacy_agrees [OF b q l ver] holds_andR
    using modern by blast
  then show ?thesis using pos side price
    by (simp add: fill_witness_def is_positive_def)
qed

lemma nonfill_fill_witness:
  "result_form r = Inr () \<Longrightarrow> \<not> is_positive r \<Longrightarrow> fill_witness legacy books body r"
  using result_form_facts(6) by (simp add: fill_witness_def is_positive_def)

text \<open>The identifiers and instants of the events, which do not depend on the fill.\<close>

lemma attempt_payload_fields:
  assumes "ar_side q = ''ENTRY''"
  shows "attempt_id_of spec_sha (attempt_payload spec_sha q p) = attempt_id spec_sha q"
    and "list_all (\<lambda>k. k |\<in>| fmdom (attempt_payload spec_sha q p)) ATTEMPT_IDENTITY"
    and "jget (attempt_payload spec_sha q p) ''mode'' = JStr (ar_mode q)"
    and "jget (attempt_payload spec_sha q p) ''side'' = JStr ''ENTRY''"
    and "jget (attempt_payload spec_sha q p) ''attempt_id'' = JStr (attempt_id spec_sha q)"
    and "jget (attempt_payload spec_sha q p) ''position_id'' = JStr (ar_position q)"
    and "jget (attempt_payload spec_sha q p) ''evidence_class'' = JStr (attempt_evidence (ar_mode q))"
    and "jget (attempt_payload spec_sha q p) ''as_of'' = JStr (ar_as_of q)"
  using assms
  by (simp_all add: attempt_payload_def Let_def attempt_identity_def attempt_id_of_def attempt_id_def ATTEMPT_IDENTITY_def
      split: option.split)

definition definitive :: "dict \<Rightarrow> bool" where
  "definitive r = (jget r ''outcome'' \<noteq> JStr ''UNKNOWN_REQUIRES_RECONCILIATION'')"

lemma entry_events_valid:
  fixes q :: attempt_request and p :: position and spec_sha :: "jval \<Rightarrow> string"
  defines "attempt \<equiv> attempt_event spec_sha q p" and "body \<equiv> attempt_payload spec_sha q p"
  assumes side: "ar_side q = ''ENTRY''" and mode: "ar_mode q \<in> {''PAPER'', ''SHADOW''}"
    and form: "result_form r = Inr ()"
    and aid: "jget r ''attempt_id'' = JStr (attempt_id spec_sha q)" and t: "jget r ''observed_at'' = JStr t"
    and clock: "jclock_before (jget r ''observed_at'') (JStr (ar_as_of q)) = Inr False"
    and fill: "fill_witness legacy books body r"
  shows "modeled_final_witness_valid spec_sha attempt
      (if definitive r then Some (final_event attempt r (ar_position q) (result_id_of spec_sha (jget r ''result_id''))) else None)
      (result_event attempt body r (ar_position q) (result_id_of spec_sha (jget r ''result_id''))) (ar_mode q) legacy books"
proof -
  let ?rid = "result_id_of spec_sha (jget r ''result_id'')"
  let ?accepted = "result_event attempt body r (ar_position q) ?rid"
  let ?final = "if definitive r then Some (final_event attempt r (ar_position q) ?rid) else None"
  note fields = attempt_payload_fields [OF side, of spec_sha p, folded body_def]
  note facts = result_form_facts [OF form]
  have att: "payload_of attempt = Some body" "e_type attempt = ''MODELED_ATTEMPT_STARTED''" "e_id attempt = attempt_id spec_sha q"
    "e_position attempt = Some (ar_position q)" "e_created_at attempt = ar_as_of q"
    by (simp_all add: attempt_def attempt_event_def body_def payload_of_def)
  have acc: "payload_of ?accepted = Some (accepted_payload body r)" "e_type ?accepted = ''MODELED_RESULT_ACCEPTED''" "e_id ?accepted = ?rid"
    "e_position ?accepted = Some (ar_position q)" "e_bot ?accepted = e_bot attempt" "e_created_at ?accepted = t"
    by (simp_all add: result_event_def payload_of_def jtext_of_def jstr_def t)
  have pay: "jget (accepted_payload body r) ''result'' = JObj r"
    "fmdom (accepted_payload body r) = {|''result'', ''evidence_class'', ''chargeable_cost_status''|}"
    "jget (accepted_payload body r) ''evidence_class'' = jget body ''evidence_class''"
    by (auto simp: accepted_payload_def)
  have "holds (bindR (clock_before t (ar_as_of q)) (\<lambda>early. Inr (\<not> early)))"
    using clock by (simp add: jclock_before_def t jstr_def)
  then have "identity_witness spec_sha (ar_mode q) attempt body ?final ?accepted (accepted_payload body r) r"
    using facts(2-4) mode
    by (simp add: identity_witness_def Let_def fields att acc pay aid t same_owner_def jtext_def final_event_def json_text_in_def
        split: jval.splits)
  moreover have "final_witness (attempt_id_of spec_sha body) ?rid ?final
      (case ?final of None \<Rightarrow> fmempty | Some f \<Rightarrow> final_payload r ?rid) r"
    by (simp add: final_witness_def definitive_def final_event_def fields aid t jtext_of_def jstr_def final_payload_def is_modern_def)
  moreover have "cost_witness (accepted_payload body r) r"
    using facts(9) by (simp add: cost_witness_def Let_def accepted_payload_def)
  moreover have "(case ?final of None \<Rightarrow> Some fmempty | Some f \<Rightarrow> payload_of f) =
      Some (case ?final of None \<Rightarrow> fmempty | Some f \<Rightarrow> final_payload r ?rid)"
    by (simp add: final_event_def payload_of_def)
  ultimately show ?thesis
    using facts(1) fill
    by (simp add: modeled_final_witness_valid_def att(1) acc(1) pay(1,2) jobj_of_def)
qed

subsection \<open>The same result once more\<close>

lemma entry_replay:
  assumes acc: "accept_modeled_result spec_sha r s = Inr (a, s')" and fresh: "\<not> ma_idempotent a"
    and aid: "jget r ''attempt_id'' = JStr aid" and e: "find_event aid s = Some e" and side: "side_of e = Some (JStr ''ENTRY'')"
    and adv: "store_advance s' s''"
  shows "\<exists>pid. accept_modeled_result spec_sha r s'' =
     Inr (\<lparr>ma_idempotent = True, ma_attempt_id = JStr aid, ma_position = get_position pid s''\<rparr>, s'')"
proof -
  let ?rid = "result_id_of spec_sha (jget r ''result_id'')"
  obtain attempt bound aside p i s2 where i: "jstr (jget r ''attempt_id'') = Some i" and form: "result_form r = Inr ()"
    and found: "find_event i s = Some attempt" and bound: "payload_of attempt = Some bound"
    and ty: "e_type attempt = ''MODELED_ATTEMPT_STARTED''"
    and pid: "fmlookup bound ''position_id'' = Some (JStr (p_id p))" and sd: "fmlookup bound ''side'' = Some (JStr aside)"
    and p: "get_position (p_id p) s = Some p" and ro: "\<not> st_readonly s"
    and clock: "jclock_before (jget r ''observed_at'') (jget bound ''as_of'') = Inr False"
    and rec: "record_result attempt bound r (p_id p) ?rid (''FINAL-'' @ jtext_of (jget r ''attempt_id'')) s2 = Inr (a, s')"
    using acc fresh by (rule fresh_result) blast
  have all: "store_advance s s''" using accept_advance [OF acc] adv by (rule store_advance_trans)
  have same: "i = aid" "attempt = e" using i aid found e by (simp_all add: jstr_def)
  have entry: "aside = ''ENTRY''" using side sd bound by (simp add: same side_of_def)
  obtain c u where id: "?rid = c # u" by (simp add: result_id_of_def)
  obtain c' u' where stamp: "jtext_of (jget r ''observed_at'') = c' # u'" using clock by (rule jclock_stamp)
  have "find_event ?rid s' = Some (result_event attempt bound r (p_id p) ?rid)"
    using record_result_events(2) [OF rec [unfolded id] stamp] id by simp
  with adv have "find_event ?rid s'' = Some (result_event attempt bound r (p_id p) ?rid)" by (rule find_event_kept)
  then have recorded: "get_execution_event ?rid s'' = Inr (Some (result_event attempt bound r (p_id p) ?rid))"
    by (rule get_event_find) (simp add: result_event_def)
  have "find_event i s'' = Some attempt" using all found by (rule find_event_kept)
  then have started: "get_execution_event i s'' = Inr (Some attempt)"
    using bound by (auto simp: payload_of_def split: option.splits jval.splits intro: get_event_find)
  obtain p2 where p2: "get_position (p_id p) s'' = Some p2" using all p by (rule store_advance_position)
  obtain as_of where as_of: "fmlookup bound ''as_of'' = Some as_of" and early: "jclock_before (jget r ''observed_at'') as_of = Inr False"
    using clock by (cases "fmlookup bound ''as_of''") (auto simp: jget_def jclock_before_def jstr_def clock_before_def
        clock_of_def bindR_eq_Inr time_eval split: option.splits)
  have "\<not> st_readonly s''" using all ro store_advance_readonly by simp
  moreover have "replay_result (result_event attempt bound r (p_id p) ?rid) r (p_id p) s'' =
      Inr (\<lparr>ma_idempotent = True, ma_attempt_id = JStr aid, ma_position = get_position (p_id p) s''\<rparr>, s'')"
    by (simp add: replay_result_def payload_of_def result_event_def accepted_payload_def aid)
  ultimately show ?thesis
    using form i started ty bound pid sd as_of p2 early recorded entry
    by (intro exI [of _ "p_id p"]) (simp add: accept_modeled_result_def immediate_write_def)
qed

subsection \<open>The property\<close>

text \<open>C18: what is accepted is what the validator accepts. When an entry was sent, and a new result of that
  attempt is accepted after any further calls, the three events in the store (the attempt, the result
  and, for a definitive outcome, the final event) pass \<open>modeled_final_witness_valid\<close> against the books of the
  position, with or without its quantity as that of a first-version entry. A fill must be the first one
  of the position and its booked quantity must not round to zero.\<close>

theorem accepted_entry_is_witnessed:
  assumes sent: "begin_modeled_attempt sha spec_sha wall ordinary q s0 = Inr (AttemptStarted d, s1)" and side: "ar_side q = ''ENTRY''"
    and acc: "accept_modeled_result spec_sha r (run_desk cs s1) = Inr (a, s')" and fresh: "\<not> ma_idempotent a"
    and aid: "jget r ''attempt_id'' = JStr (attempt_id spec_sha q)" and t: "jget r ''observed_at'' = JStr t"
    and p: "get_position (ar_position q) (run_desk cs s1) = Some p"
    and fill: "is_positive r \<Longrightarrow> \<not> present (p_entry_price_dec p) \<and> reads (p_admitted_entry_notional_usd_dec p) adm"
    and row: "get_position (ar_position q) s' = Some row"
    and qty: "is_positive r \<Longrightarrow> reads (p_qty_dec row) x \<and> 0 < dval x"
    and l: "legacy_of row legacy"
  shows "\<exists>attempt accepted. find_event (attempt_id spec_sha q) s' = Some attempt
     \<and> find_event (result_id_of spec_sha (jget r ''result_id'')) s' = Some accepted
     \<and> modeled_final_witness_valid spec_sha attempt
         (if definitive r then find_event (''FINAL-'' @ attempt_id spec_sha q) s' else None) accepted (ar_mode q) legacy (Some row)"
proof -
  let ?s = "run_desk cs s1" and ?rid = "result_id_of spec_sha (jget r ''result_id'')"
  obtain p0 where ev1: "find_event (attempt_id spec_sha q) s1 = Some (attempt_event spec_sha q p0)"
    and mode: "ar_mode q \<in> {''PAPER'', ''SHADOW''}"
    using sent by (rule permitted_event)
  let ?attempt = "attempt_event spec_sha q p0" and ?body = "attempt_payload spec_sha q p0"
  have ev: "find_event (attempt_id spec_sha q) ?s = Some ?attempt"
    using run_desk_advance ev1 by (rule find_event_kept)
  note fields = attempt_payload_fields [OF side, of spec_sha p0]
  obtain attempt bound aside p' i s2 where i: "jstr (jget r ''attempt_id'') = Some i" and form: "result_form r = Inr ()"
    and found: "find_event i ?s = Some attempt" and bound: "payload_of attempt = Some bound"
    and pid: "fmlookup bound ''position_id'' = Some (JStr (p_id p'))" and sd: "fmlookup bound ''side'' = Some (JStr aside)"
    and p': "get_position (p_id p') ?s = Some p'"
    and clock: "jclock_before (jget r ''observed_at'') (jget bound ''as_of'') = Inr False"
    and step: "(if aside = ''ENTRY'' then accept_entry r p' (jtext_of (jget bound ''mode'')) ?s
          else accept_exit r p' (jtext_of (jget bound ''mode'')) ?rid ?s) = Inr s2"
    and rec: "record_result attempt bound r (p_id p') ?rid (''FINAL-'' @ jtext_of (jget r ''attempt_id'')) s2 = Inr (a, s')"
    using acc fresh by (rule fresh_result) blast
  have attempt: "attempt = ?attempt" using found ev i aid by (simp add: jstr_def)
  then have body: "bound = ?body" using bound by (simp add: payload_of_def attempt_event_def)
  have pos: "p_id p' = ar_position q" and aside: "aside = ''ENTRY''"
    using pid sd fields(4,6) by (simp_all add: body jget_def)
  have pp: "p' = p" using p' p pos by simp
  obtain c u where id: "?rid = c # u" by (simp add: result_id_of_def)
  obtain c' u' where stamp: "jtext_of (jget r ''observed_at'') = c' # u'" using clock by (rule jclock_stamp)
  note recorded = record_result_events [OF rec [unfolded id] stamp]
  have filled: "fill_witness legacy (Some row) ?body r"
  proof (cases "is_positive r")
    case True
    have f: "accept_entry_fill r p (jtext_of (jget bound ''mode'')) ?s = Inr s2"
      using step aside True by (simp add: accept_entry_def pp)
    obtain row' b where row': "get_position (p_id p) s2 = Some row'" and b: "booked_fill r row' adm b"
      by (rule accept_fill_booked [OF f form True, of adm]) (use fill [OF True] p' pp in auto)
    have "row' = row" using row' row recorded(5) pos pp by simp
    moreover have "0 < dval (ea_quantity b)"
      using qty [OF True] b \<open>row' = row\<close> dec_text_fin [of "ea_quantity b"] dval_dec_plain [of "ea_quantity b"]
      by (auto simp: booked_fill_def reads_def)
    ultimately show ?thesis using booked_fill_witness [OF b _ _ form True fields(4)] l by simp
  qed (use nonfill_fill_witness form in blast)
  have "jclock_before (jget r ''observed_at'') (JStr (ar_as_of q)) = Inr False"
    using clock fields(8) by (simp add: body)
  note valid = entry_events_valid [OF side mode form aid t this filled]
  have accepted: "find_event ?rid s' = Some (result_event ?attempt ?body r (ar_position q) ?rid)"
    using recorded(2) by (simp add: id attempt body pos)
  have final: "definitive r \<Longrightarrow>
      find_event (''FINAL-'' @ attempt_id spec_sha q) s' = Some (final_event ?attempt r (ar_position q) ?rid)"
    using recorded(3) by (simp add: definitive_def id attempt pos aid jtext_of_def jstr_def)
  have kept: "find_event (attempt_id spec_sha q) s' = Some ?attempt"
    using accept_advance [OF acc] ev by (rule find_event_kept)
  show ?thesis using kept accepted valid final by (cases "definitive r") auto
qed

subsection \<open>An accepted entry\<close>

definition demo_result :: "(jval \<Rightarrow> string) \<Rightarrow> dict" where
  "demo_result spec_sha = dict_of [(''attempt_id'', JStr (attempt_id spec_sha demo_request)), (''result_id'', JStr ''R1''),
     (''outcome'', JStr ''PARTIAL''), (''observed_at'', JStr ''2026-01-01T00:00:40Z''),
     (''unit_price_usd'', JStr ''0.50''), (''filled_notional_usd'', JStr ''80'')]"

lemma demo_result_fields [simp]:
  "jget (demo_result spec_sha) ''attempt_id'' = JStr (attempt_id spec_sha demo_request)"
  "jget (demo_result spec_sha) ''result_id'' = JStr ''R1''" "jget (demo_result spec_sha) ''outcome'' = JStr ''PARTIAL''"
  "jget (demo_result spec_sha) ''observed_at'' = JStr ''2026-01-01T00:00:40Z''"
  "jget (demo_result spec_sha) ''unit_price_usd'' = JStr ''0.50''"
  "jget (demo_result spec_sha) ''filled_notional_usd'' = JStr ''80''"
  "jget (demo_result spec_sha) ''chargeable_cost_usd'' = JNull" "result_version (demo_result spec_sha) = JStr ''1.0''"
  "jget (demo_result spec_sha) ''quantity_sold'' = JNull"
  "fmdom (demo_result spec_sha) = {|''attempt_id'', ''result_id'', ''outcome'', ''observed_at'', ''unit_price_usd'', ''filled_notional_usd''|}"
  by (auto simp: demo_result_def result_version_def)

lemma demo_result_kind [simp]: "is_positive (demo_result spec_sha)" "\<not> is_modern (demo_result spec_sha)" "definitive (demo_result spec_sha)"
  by (simp_all add: is_positive_def is_modern_def json_text_in_def POSITIVE_OUTCOMES_def definitive_def)

lemma demo_result_form: "result_form (demo_result spec_sha) = Inr ()"
  by (simp add: result_form_def member_or_raise_def json_hashable_def json_text_in_def RESULT_OUTCOMES_def NONFILL_OUTCOMES_def
      POSITIVE_OUTCOMES_def RESULT_KEYS_def REQUIRED_RESULT_KEYS_def result_id_ok_def fill_detail_ok_def model_amount_def jdecimal_def
      dec_eval)

lemma demo_modeled_amounts:
  "entry_fill_amounts demo_attempting ''0.50'' ''80'' (Some 25) None None =
     Inr \<lparr>ea_price = Fin False 50 (-2), ea_notional = Fin False 80 0, ea_fee_bps = 25,
          ea_quantity = Fin False 16000000000 (-8), ea_entry_fee = Fin False 20 (-2)\<rparr>"
  by (simp add: entry_fill_amounts_def bound_entry_fee_bps_def FEE_SEMANTICS_def dec_eval)

lemma demo_modeled_fill:
  "modeled_entry_fill (demo_result spec_sha) 25 ''PAPER'' = \<lparr>ef_unit_price = ''0.50'', ef_gross_notional = ''80'',
     ef_fee_bps = Some 25, ef_mode = ''PAPER'', ef_reconcile_pending_close = True, ef_quantity_units = None, ef_fee_semantics = None\<rparr>"
  by (simp add: modeled_entry_fill_def jtext_of_def jstr_def)

lemma attempt_event_id: "e_id (attempt_event spec_sha q p) = ''ATTEMPT-'' @ map upper_char (spec_sha (JObj (attempt_identity q)))"
  by (simp add: attempt_event_def attempt_id_def)

lemma demo_fill_applied:
  "\<exists>s1 row e. apply_paper_entry_fill ''POS-1'' (modeled_entry_fill (demo_result spec_sha) 25 ''PAPER'') (demo_sent spec_sha) = Inr (row, s1)
     \<and> get_position ''POS-1'' s1 = Some row \<and> p_qty_dec row = Some ''160.00000000'' \<and> \<not> st_readonly s1
     \<and> st_events s1 = [attempt_event spec_sha demo_request demo_watched, e] \<and> take 4 (e_id e) = ''EVT-''"
  by (simp add: demo_modeled_fill apply_paper_entry_fill_def first_entry_fill_def entry_fill_state_ok_def demo_modeled_amounts
      admitted_amount_def exceeds_admission_def entry_state_after_def set_entry_def set_remaining_def attempt_event_id
      store_eval demo_store_def demo_sent_def demo_bot_def dec_eval del: dict_with_simps)

lemma demo_accept_fill:
  "\<exists>s1 row e. accept_entry_fill (demo_result spec_sha) demo_attempting ''PAPER'' (demo_sent spec_sha) = Inr s1
     \<and> get_position ''POS-1'' s1 = Some row \<and> p_qty_dec row = Some ''160.00000000'' \<and> \<not> st_readonly s1
     \<and> st_events s1 = [attempt_event spec_sha demo_request demo_watched, e] \<and> take 4 (e_id e) = ''EVT-''"
proof -
  have less: "dec_lt (Fin False 80 0) (Fin False 100 0) = Inr True" by (simp add: dec_eval)
  have texts: "dec_of_string ''100'' = Inr (Fin False 100 0)" "dec_of_string ''80'' = Inr (Fin False 80 0)"
    by (simp_all add: dec_eval)
  show ?thesis using demo_fill_applied [of spec_sha]
    by (auto simp: accept_entry_fill_def str_or_None_def jdecimal_def texts less)
qed

lemma append_returns:
  assumes "\<not> st_readonly s" and "find_event (c # t) s = None"
  shows "append_execution_event ty bid pid payload (Some (c # t)) (Some (c' # t')) s =
     Inr (c # t, s\<lparr>st_events := st_events s @ [\<lparr>e_id = c # t, e_type = ty, e_bot = bid, e_position = pid,
       e_created_at = c' # t', e_payload = Some (JObj payload)\<rparr>]\<rparr>)"
  using assms by (simp add: append_execution_event_def)

lemma record_returns:
  assumes "\<not> st_readonly s" and "find_event (c # t) s = None" and "find_event (CHR ''F'' # u) s = None" and "c \<noteq> CHR ''F''"
    and "jtext_of (jget r ''observed_at'') = c' # t'"
  shows "\<exists>a s'. record_result attempt bound r pid (c # t) (CHR ''F'' # u) s = Inr (a, s') \<and> \<not> ma_idempotent a
     \<and> st_positions s' = st_positions s"
proof -
  let ?e = "\<lparr>e_id = c # t, e_type = ''MODELED_RESULT_ACCEPTED'', e_bot = e_bot attempt, e_position = Some pid,
       e_created_at = c' # t', e_payload = Some (JObj (accepted_payload bound r))\<rparr>"
  have "find_event (CHR ''F'' # u) (s\<lparr>st_events := st_events s @ [?e]\<rparr>) = None"
    using assms(3,4) by (simp add: find_event_def rows_get_append)
  then show ?thesis
    using append_returns [OF assms(1,2)] append_returns [of "s\<lparr>st_events := st_events s @ [?e]\<rparr>" "CHR ''F''" u] assms(1,5)
    by (simp add: record_result_def Let_def)
qed

lemma demo_accept:
  "\<exists>a s' row. accept_modeled_result spec_sha (demo_result spec_sha) (demo_sent spec_sha) = Inr (a, s')
     \<and> \<not> ma_idempotent a \<and> get_position ''POS-1'' s' = Some row \<and> p_qty_dec row = Some ''160.00000000''"
proof -
  let ?r = "demo_result spec_sha" and ?s = "demo_sent spec_sha" and ?e = "attempt_event spec_sha demo_request demo_watched"
  let ?body = "attempt_payload spec_sha demo_request demo_watched" and ?rid = "result_id_of spec_sha (JStr ''R1'')"
  let ?aid = "attempt_id spec_sha demo_request"
  obtain s1 row e where fill: "accept_entry_fill ?r demo_attempting ''PAPER'' ?s = Inr s1"
    and row: "get_position ''POS-1'' s1 = Some row" and qty: "p_qty_dec row = Some ''160.00000000''" and ro: "\<not> st_readonly s1"
    and ev: "st_events s1 = [?e, e]" and id: "take 4 (e_id e) = ''EVT-''"
    using demo_accept_fill by blast
  have aid: "?aid = ''ATTEMPT-'' @ map upper_char (spec_sha (JObj (attempt_identity demo_request)))" by (simp add: attempt_id_def)
  have rid: "?rid = ''RESULT-'' @ map upper_char (spec_sha (JObj (dict_of [(''result_id'', JStr ''R1'')])))"
    by (simp add: result_id_of_def)
  obtain tl where head: "e_id e = CHR ''E'' # tl" using id by (cases "e_id e") auto
  have events: "st_events ?s = [?e]" and g: "get_position ''POS-1'' ?s = Some demo_attempting" and ro0: "\<not> st_readonly ?s"
    by (simp_all add: demo_sent_def get_position_def demo_store_def)
  have att: "get_execution_event ?aid ?s = Inr (Some ?e)"
    by (simp add: get_execution_event_def find_event_def events attempt_event_def)
  have none: "find_event ?rid ?s = None" "find_event (''FINAL-'' @ ?aid) ?s = None"
    by (simp_all add: find_event_def events attempt_event_id rid aid)
  have none1: "find_event ?rid s1 = None" "find_event (''FINAL-'' @ ?aid) s1 = None"
    by (simp_all add: find_event_def ev attempt_event_id rid aid head)
  have body: "payload_of ?e = Some ?body" "e_type ?e = ''MODELED_ATTEMPT_STARTED''" "e_id ?e = ?aid"
    "fmlookup ?body ''position_id'' = Some (JStr ''POS-1'')" "fmlookup ?body ''side'' = Some (JStr ''ENTRY'')"
    "fmlookup ?body ''as_of'' = Some (JStr ''2026-01-01T00:00:30Z'')" "jget ?body ''mode'' = JStr ''PAPER''"
    by (simp_all add: attempt_event_def payload_of_def attempt_payload_def attempt_identity_def Let_def)
  have clock: "jclock_before (JStr ''2026-01-01T00:00:40Z'') (JStr ''2026-01-01T00:00:30Z'') = Inr False"
    by (simp add: jclock_before_def jstr_def clock_before_def clock_of_def time_eval)
  have cost: "cost_kept ?r ''POS-1'' ?s = Inr ()"
    by (simp add: cost_kept_def filtered_execution_events_def events body(2))
  have texts: "jtext_of (JStr u) = u" "jstr (JStr u) = Some u" for u by (simp_all add: jtext_of_def jstr_def)
  obtain a s' where rec: "record_result ?e ?body ?r ''POS-1'' ?rid (''FINAL-'' @ ?aid) s1 = Inr (a, s')" and idem: "\<not> ma_idempotent a"
    and pos: "st_positions s' = st_positions s1"
    using record_returns [of s1 "CHR ''R''" "drop 1 ?rid" "''INAL-'' @ ?aid" ?r "CHR ''2''"
        "''026-01-01T00:00:40Z''" ?e ?body "''POS-1''"] ro none1 by (auto simp: rid texts)
  have "get_position ''POS-1'' s' = Some row" using row pos by (simp add: get_position_def)
  moreover have "accept_modeled_result spec_sha ?r ?s = Inr (a, s')"
    using demo_result_form ro0 att body g clock none cost fill rec
    by (simp add: accept_modeled_result_def immediate_write_def texts get_execution_event_def new_result_def Let_def accept_entry_def)
  ultimately show ?thesis using idem qty by blast
qed

lemma run_desk_nil [simp]: "run_desk [] s = s"
  by (simp add: run_desk_def)

lemma demo_quantity: "reads (Some ''160.00000000'') (Fin False 16000000000 (-8)) \<and> 0 < dval (Fin False 16000000000 (-8))"
  by (simp add: reads_def dec_eval signed_def power_int_def)

lemma accepted_entry_is_witnessed_witness:
  "\<exists>s' row attempt accepted. get_position ''POS-1'' s' = Some row \<and> p_qty_dec row = Some ''160.00000000''
     \<and> modeled_final_witness_valid demo_sha attempt (find_event (''FINAL-'' @ attempt_id demo_sha demo_request) s') accepted
         ''PAPER'' (Some (QuantityText ''160.00000000'')) (Some row)"
proof -
  obtain a s' row where acc: "accept_modeled_result demo_sha (demo_result demo_sha) (demo_sent demo_sha) = Inr (a, s')"
    and fresh: "\<not> ma_idempotent a" and row: "get_position ''POS-1'' s' = Some row" and qty: "p_qty_dec row = Some ''160.00000000''"
    using demo_accept by blast
  have g: "get_position (ar_position demo_request) (run_desk [] (demo_sent demo_sha)) = Some demo_attempting"
    by (simp add: get_position_def demo_sent_def demo_store_def)
  have adm: "\<not> present (p_entry_price_dec demo_attempting)
      \<and> reads (p_admitted_entry_notional_usd_dec demo_attempting) (Fin False 100 0)"
    by (simp add: reads_def dec_eval)
  have leg: "legacy_of row (Some (QuantityText ''160.00000000''))" by (simp add: legacy_of_def qty)
  have acc': "accept_modeled_result demo_sha (demo_result demo_sha) (run_desk [] (demo_sent demo_sha)) = Inr (a, s')"
    using acc by simp
  have "\<exists>attempt accepted. find_event (attempt_id demo_sha demo_request) s' = Some attempt
     \<and> find_event (result_id_of demo_sha (jget (demo_result demo_sha) ''result_id'')) s' = Some accepted
     \<and> modeled_final_witness_valid demo_sha attempt
         (if definitive (demo_result demo_sha) then find_event (''FINAL-'' @ attempt_id demo_sha demo_request) s' else None) accepted
         (ar_mode demo_request) (Some (QuantityText ''160.00000000'')) (Some row)"
    by (rule accepted_entry_is_witnessed [OF demo_begin [of demo_sha demo_sha 0] demo_request_fields(2) acc' fresh
          demo_result_fields(1) demo_result_fields(4) g adm _ _ leg])
      (use row qty demo_quantity in auto)
  then show ?thesis using row qty by auto
qed

text \<open>A result is accepted once more without effect. When a result of an entry was accepted, whatever
  calls follow, sending the same result again returns, is marked idempotent, answers the position as it is
  now and leaves the store unchanged.\<close>

theorem entry_result_replayed:
  assumes "accept_modeled_result spec_sha r s = Inr (a, s')" and "\<not> ma_idempotent a"
    and "jget r ''attempt_id'' = JStr aid" and "find_event aid s = Some e" and "side_of e = Some (JStr ''ENTRY'')"
  shows "\<exists>pid. accept_modeled_result spec_sha r (run_desk cs s') =
     Inr (\<lparr>ma_idempotent = True, ma_attempt_id = JStr aid, ma_position = get_position pid (run_desk cs s')\<rparr>, run_desk cs s')"
  using assms run_desk_advance by (rule entry_replay)

lemma demo_entry_event:
  "find_event (attempt_id spec_sha demo_request) (demo_sent spec_sha) = Some (attempt_event spec_sha demo_request demo_watched)"
  "side_of (attempt_event spec_sha demo_request demo_watched) = Some (JStr ''ENTRY'')"
  by (simp_all add: demo_sent_def find_event_def attempt_event_def side_of_def payload_of_def attempt_payload_def
      attempt_identity_def Let_def)

lemma entry_result_replayed_witness:
  "\<exists>a s' pid. accept_modeled_result demo_sha (demo_result demo_sha) (demo_sent demo_sha) = Inr (a, s')
     \<and> accept_modeled_result demo_sha (demo_result demo_sha) (run_desk [OnPlane (CancelEntryIntent ''POS-1'' ''OPERATOR_STOP'')] s') =
        Inr (\<lparr>ma_idempotent = True, ma_attempt_id = JStr (attempt_id demo_sha demo_request),
          ma_position = get_position pid (run_desk [OnPlane (CancelEntryIntent ''POS-1'' ''OPERATOR_STOP'')] s')\<rparr>,
          run_desk [OnPlane (CancelEntryIntent ''POS-1'' ''OPERATOR_STOP'')] s')"
proof -
  obtain a s' row where acc: "accept_modeled_result demo_sha (demo_result demo_sha) (demo_sent demo_sha) = Inr (a, s')"
    and fresh: "\<not> ma_idempotent a"
    using demo_accept by blast
  show ?thesis
    using entry_result_replayed [OF acc fresh demo_result_fields(1) demo_entry_event,
        of "[OnPlane (CancelEntryIntent ''POS-1'' ''OPERATOR_STOP'')]"] acc by blast
qed

lemma result_recorded_once_witness:
  "\<exists>a s' a' s''. accept_modeled_result demo_sha (demo_result demo_sha) (demo_sent demo_sha) = Inr (a, s')
     \<and> accept_modeled_result demo_sha (demo_result demo_sha) s' = Inr (a', s'') \<and> ma_idempotent a' \<and> s'' = s'"
proof -
  obtain a s' row where acc: "accept_modeled_result demo_sha (demo_result demo_sha) (demo_sent demo_sha) = Inr (a, s')"
    and fresh: "\<not> ma_idempotent a"
    using demo_accept by blast
  obtain pid where again: "accept_modeled_result demo_sha (demo_result demo_sha) s' =
     Inr (\<lparr>ma_idempotent = True, ma_attempt_id = JStr (attempt_id demo_sha demo_request), ma_position = get_position pid s'\<rparr>, s')"
    using entry_replay [OF acc fresh demo_result_fields(1) demo_entry_event store_advance_refl] by blast
  show ?thesis
    using result_recorded_once [OF acc fresh _ refl, of demo_sha "[]", unfolded run_desk_nil, OF _ again] acc again by auto
qed

end
