(* ===== verification/SignalFacts.thy ===== *)
theory SignalFacts
  imports SignalPlane AdmissionClaims
begin

section \<open>What accepting a decision writes\<close>

text \<open>
  The results of the steps of \<open>accept_signal_decision_outcome\<close>. It writes to one position only, that of
  the decision, and to no bot once its bot has started (\<open>same_others\<close>); a refusal writes no position but
  a cancellation; a reservation has frozen what the admission allowed.
\<close>

subsection \<open>Only one position\<close>

definition others :: "string \<Rightarrow> store \<Rightarrow> position list" where
  "others pid s = filter (\<lambda>r. p_id r \<noteq> pid) (st_positions s)"

definition same_others :: "string \<Rightarrow> store \<Rightarrow> store \<Rightarrow> bool" where
  "same_others pid s s' = (others pid s' = others pid s \<and> st_bots s' = st_bots s \<and> st_policies s' = st_policies s)"

lemma same_others_refl [simp, intro]: "same_others pid s s"
  by (simp add: same_others_def)

lemma same_others_trans [trans]: "same_others pid a b \<Longrightarrow> same_others pid b c \<Longrightarrow> same_others pid a c"
  by (simp add: same_others_def)

lemma same_rows_others:
  "st_positions s' = st_positions s \<Longrightarrow> st_bots s' = st_bots s \<Longrightarrow> st_policies s' = st_policies s \<Longrightarrow> same_others pid s s'"
  by (simp add: same_others_def others_def)

lemma upd_others: "(\<And>r. p_id (f r) = p_id r) \<Longrightarrow> same_others pid s (upd_position pid f s)"
proof -
  assume id: "\<And>r. p_id (f r) = p_id r"
  have "filter (\<lambda>r. p_id r \<noteq> pid) (rows_upd p_id pid f xs) = filter (\<lambda>r. p_id r \<noteq> pid) xs" for xs
    by (induction xs) (auto simp: rows_upd_def id)
  then show ?thesis by (simp add: same_others_def others_def upd_position_def)
qed

lemma tick_others: "same_others pid s (tick s)"
  by (simp add: same_rows_others)

lemma append_event_others: "append_execution_event t b p payload e c s = Inr (eid, s') \<Longrightarrow> same_others pid s s'"
  by (intro same_rows_others) (simp_all add: append_event_result)

lemma transition_others:
  assumes "transition pid t s = Inr (r, s')" shows "same_others pid s s'"
proof -
  obtain row where row: "get_position pid s = Some row" using assms by (auto simp: transition_def result_simps)
  then have s': "s' = upd_position pid (\<lambda>r. if p_state r = p_state row then set_state t (now_of s) r else r)
      (if t \<in> set CLOSING_STATES then tick s else s)"
    using assms by (auto simp: transition_def Let_def result_simps split: if_splits)
  have "same_others pid s (if t \<in> set CLOSING_STATES then tick s else s)" by (simp add: tick_others)
  then show ?thesis unfolding s' by (rule same_others_trans) (simp add: upd_others set_state_def)
qed

lemma transitions_others: "transitions pid ts s = Inr s' \<Longrightarrow> same_others pid s s'"
  by (induction pid ts s rule: transitions.induct)
    (auto simp: bindR_eq_Inr intro: same_others_trans [OF transition_others])

lemma cancel_others: "cancel_entry_intent pid reason s = Inr (r, s') \<Longrightarrow> same_others pid s s'"
proof (erule cancel_result)
  fix r0 t s1 payload eid
  assume t: "transition pid CANCELLED s = Inr (t, s1)"
    and e: "append_execution_event ''ENTRY_INTENT_CANCELLED'' (Some (p_bot r0)) (Some pid)
             payload None None (upd_position pid (cancel_row reason) s1) = Inr (eid, s')"
  have "same_others pid s1 (upd_position pid (cancel_row reason) s1)" by (rule upd_others) (simp add: cancel_row_def)
  then show ?thesis by (rule same_others_trans [OF transition_others [OF t] same_others_trans [OF _ append_event_others [OF e]]])
qed simp

lemma open_from_signal_others:
  "open_position_from_signal bid sd kind sha spec s = Inr (pid, s') \<Longrightarrow> same_others pid s s'"
  by (auto simp: open_position_from_signal_def Let_def insert_position_once_def bindR_eq_Inr same_others_def others_def
      ins_position_def blank_position_def split: if_splits)

lemma exact_event_result:
  assumes "append_exact_admission_event spec_sha etype bid pid payload as_of s = Inr ((eid, replay), s')"
  shows "st_positions s' = st_positions s" and "st_bots s' = st_bots s" and "st_policies s' = st_policies s"
    and "eid = admission_event_id spec_sha etype payload"
    and "\<exists>e. find_event eid s' = Some e \<and> e_type e = etype \<and> e_bot e = Some bid \<and> e_position e = pid
           \<and> e_payload e = Some (JObj payload)"
    and "replay \<Longrightarrow> s' = s"
    and "\<exists>e. find_event eid s' = Some e \<and> st_events s' = st_events s @ (if replay then [] else [e])"
proof -
  let ?id = "admission_event_id spec_sha etype payload"
  obtain previous where prev: "get_execution_event ?id s = Inr previous"
    using assms by (auto simp: append_exact_admission_event_def Let_def bindR_eq_Inr)
  have "st_positions s' = st_positions s \<and> st_bots s' = st_bots s \<and> st_policies s' = st_policies s \<and> eid = ?id
    \<and> (\<exists>e. find_event eid s' = Some e \<and> e_type e = etype \<and> e_bot e = Some bid \<and> e_position e = pid
           \<and> e_payload e = Some (JObj payload) \<and> st_events s' = st_events s @ (if replay then [] else [e])) \<and> (replay \<longrightarrow> s' = s)"
  proof (cases previous)
    case (Some e)
    then have f: "find_event ?id s = Some e" using prev by (auto simp: get_execution_event_def split: option.splits)
    have "(e_type e, e_bot e, e_position e, e_payload e) = (etype, Some bid, pid, Some (JObj payload))
        \<and> eid = ?id \<and> s' = s \<and> replay"
      using assms unfolding append_exact_admission_event_def Let_def prev Some bindR_simps option.case
      by (simp only: if_Inl_eq_Inr sum.inject prod.inject) simp
    then show ?thesis using f by simp
  next
    case None
    have "bindR (append_execution_event etype (Some bid) pid payload (Some ?id) (Some as_of) s) (\<lambda>(_, s1). Inr ((?id, False), s1)) =
        Inr ((eid, replay), s')"
      using assms unfolding append_exact_admission_event_def Let_def prev None bindR_simps option.case .
    then obtain x where a: "append_execution_event etype (Some bid) pid payload (Some ?id) (Some as_of) s = Inr (x, s')"
      and e: "eid = ?id" "\<not> replay"
      by (cases "append_execution_event etype (Some bid) pid payload (Some ?id) (Some as_of) s") (simp_all split: prod.splits)
    note res = append_event_result [OF a]
    obtain c t where id: "?id = c # t" by (simp add: admission_event_id_def)
    have x: "x = ?id" using res(10) id by simp
    obtain stamp where ev: "st_events s' = st_events s @ [\<lparr>e_id = x, e_type = etype, e_bot = Some bid, e_position = pid,
       e_created_at = stamp, e_payload = Some (JObj payload)\<rparr>]" using res(9) by blast
    have "find_event x s = None" by (rule res(8))
    then have "find_event x s' = Some \<lparr>e_id = x, e_type = etype, e_bot = Some bid, e_position = pid,
       e_created_at = stamp, e_payload = Some (JObj payload)\<rparr>"
      by (simp add: find_event_def ev rows_get_append)
    then show ?thesis using res(1,2,4) e x ev by auto
  qed
  then show "st_positions s' = st_positions s" and "st_bots s' = st_bots s" and "st_policies s' = st_policies s" and "eid = ?id"
    and "\<exists>e. find_event eid s' = Some e \<and> e_type e = etype \<and> e_bot e = Some bid \<and> e_position e = pid
           \<and> e_payload e = Some (JObj payload)"
    and "replay \<Longrightarrow> s' = s"
    and "\<exists>e. find_event eid s' = Some e \<and> st_events s' = st_events s @ (if replay then [] else [e])" by blast+
qed

lemma signal_refusal_result:
  assumes "signal_refusal spec_sha sy d b mode as_of code c s = Inr (r, s')"
  shows "st_positions s' = st_positions s" and "st_bots s' = st_bots s" and "st_policies s' = st_policies s" and "rf_reason r = code"
    and "rf_payload r = refusal_payload spec_sha sy d b mode as_of code c" and "rf_bot r = b_id b"
    and "\<exists>e. find_event (rf_event r) s' = Some e \<and> e_type e = ''SIGNAL_ADMISSION_DENIED'' \<and> e_bot e = Some (b_id b)
           \<and> e_position e = rf_position r \<and> e_payload e = Some (JObj (rf_payload r))"
  using assms by (auto simp: signal_refusal_def Let_def bindR_eq_Inr dest: exact_event_result)

text \<open>The denials on record, and the one that a refusal adds unless the same one is there already.\<close>

definition denials :: "store \<Rightarrow> event list" where
  "denials s = filter (\<lambda>e. e_type e = ''SIGNAL_ADMISSION_DENIED'') (st_events s)"

definition refusal_recorded :: "refusal \<Rightarrow> store \<Rightarrow> store \<Rightarrow> bool" where
  "refusal_recorded x s s' =
     ((\<exists>e. find_event (rf_event x) s' = Some e \<and> e_type e = ''SIGNAL_ADMISSION_DENIED''
         \<and> e_payload e = Some (JObj (rf_payload x)) \<and> denials s' = denials s @ (if rf_idempotent x then [] else [e]))
      \<and> jget (rf_payload x) ''outcome'' = JStr ''DENIED'' \<and> jget (rf_payload x) ''reason_code'' = JStr (rf_reason x))"

lemma recorded_since: "denials s1 = denials s \<Longrightarrow> refusal_recorded x s1 s' \<Longrightarrow> refusal_recorded x s s'"
  by (simp add: refusal_recorded_def)

lemma same_events_denials: "st_events s' = st_events s \<Longrightarrow> denials s' = denials s"
  by (simp add: denials_def)

lemma append_event_denials:
  "append_execution_event t b p payload e c s = Inr (eid, s') \<Longrightarrow> t \<noteq> ''SIGNAL_ADMISSION_DENIED'' \<Longrightarrow> denials s' = denials s"
  using append_event_result(9) by (fastforce simp: denials_def)

lemma exact_event_denials:
  assumes "append_exact_admission_event spec_sha etype bid pid payload as_of s = Inr ((eid, replay), s')"
    and "etype \<noteq> ''SIGNAL_ADMISSION_DENIED''"
  shows "denials s' = denials s"
  using exact_event_result(5,7) [OF assms(1)] assms(2) by (auto simp: denials_def)

lemma cancel_denials: "cancel_entry_intent pid reason s = Inr (r, s') \<Longrightarrow> denials s' = denials s"
proof (erule cancel_result)
  fix r0 t s1 payload eid
  assume t: "transition pid CANCELLED s = Inr (t, s1)"
    and e: "append_execution_event ''ENTRY_INTENT_CANCELLED'' (Some (p_bot r0)) (Some pid)
             payload None None (upd_position pid (cancel_row reason) s1) = Inr (eid, s')"
  have "st_events s1 = st_events s" using t by (rule transition_result)
  then show "denials s' = denials s"
    using append_event_denials [OF e] by (simp add: denials_def upd_position_def)
qed simp

lemma signal_refusal_recorded:
  assumes "signal_refusal spec_sha sy d b mode as_of code c s = Inr (x, s')" shows "refusal_recorded x s s'"
proof -
  have codes: "jget (refusal_payload spec_sha sy d b mode as_of code c) ''outcome'' = JStr ''DENIED''"
    "jget (refusal_payload spec_sha sy d b mode as_of code c) ''reason_code'' = JStr code"
    by (simp_all add: refusal_payload_def lineage_of_def Let_def)
  let ?payload = "refusal_payload spec_sha sy d b mode as_of code c"
  obtain eid replay where a: "append_exact_admission_event spec_sha ''SIGNAL_ADMISSION_DENIED'' (b_id b)
      (map_option p_id (rc_position c)) ?payload as_of s = Inr ((eid, replay), s')"
    and x: "x = \<lparr>rf_reason = code, rf_payload = ?payload, rf_position = map_option p_id (rc_position c), rf_bot = b_id b,
      rf_event = eid, rf_idempotent = replay\<rparr>"
    using assms by (auto simp: signal_refusal_def Let_def bindR_eq_Inr)
  obtain e where "find_event eid s' = Some e" and "e_type e = ''SIGNAL_ADMISSION_DENIED''" and "e_payload e = Some (JObj ?payload)"
    and "st_events s' = st_events s @ (if replay then [] else [e])"
    using exact_event_result(5,7) [OF a] by auto
  then show ?thesis using codes unfolding refusal_recorded_def by (auto simp: x denials_def)
qed

lemma signal_refusal_others: "signal_refusal spec_sha sy d b mode as_of code c s = Inr (r, s') \<Longrightarrow> same_others pid s s'"
  by (intro same_rows_others) (simp_all add: signal_refusal_result)

subsection \<open>The bot\<close>

lemma upsert_bot_tables [simp]:
  "st_positions (upsert_bot b s) = st_positions s" "st_events (upsert_bot b s) = st_events s"
  "st_policies (upsert_bot b s) = st_policies s"
  by (simp_all add: upsert_bot_def ins_bot_def upd_bot_def)

lemma start_bot_result:
  assumes "start_bot sha wall row sy mode epoch s = Inr (b, s')"
  shows "st_positions s' = st_positions s" and "st_events s' = st_events s" and "st_policies s' = st_policies s"
    and "get_bot (b_id b) s' = Some b" and "\<not> st_readonly s"
proof -
  have new: "st_positions s' = st_positions s \<and> st_events s' = st_events s \<and> st_policies s' = st_policies s
      \<and> get_bot (b_id b) s' = Some b" if "start_new_bot sha wall row sy mode e s = Inr (b, s')" for e
  proof -
    have "get_bot (bot_instance_id sy mode e) s' = Some b \<and> st_positions s' = st_positions s \<and> st_events s' = st_events s
        \<and> st_policies s' = st_policies s"
      using that by (auto simp: start_new_bot_def Let_def bindR_eq_Inr result_simps upd_bot_def)
    then show ?thesis using bots.get_key by metis
  qed
  have old: "st_positions s' = st_positions s \<and> st_events s' = st_events s \<and> st_policies s' = st_policies s
      \<and> get_bot (b_id b) s' = Some b" if "existing_bot spec b0 s = Inr (Some (b, s'))" and "get_bot (b_id b0) s = Some b0" for b0 spec
  proof -
    have "get_bot (b_id b0) s' = Some b \<and> st_positions s' = st_positions s \<and> st_events s' = st_events s
        \<and> st_policies s' = st_policies s"
      using that by (auto simp: existing_bot_def Let_def result_simps upd_bot_def split: if_splits)
    then show ?thesis using bots.get_key by metis
  qed
  obtain e where e: "bot_epoch sy epoch = Inr e" and ro: "\<not> st_readonly s"
    using assms by (auto simp: start_bot_def bindR_eq_Inr result_simps)
  note run = assms [unfolded start_bot_def immediate_write_eq_Inr if_Inl_eq_Inr e bindR_simps]
  have "st_positions s' = st_positions s \<and> st_events s' = st_events s \<and> st_policies s' = st_policies s
      \<and> get_bot (b_id b) s' = Some b"
  proof (cases "get_bot (bot_instance_id sy mode e) s")
    case None
    then have "start_new_bot sha wall row sy mode e s = Inr (b, s')" using run by simp
    then show ?thesis by (rule new)
  next
    case (Some b0)
    then have "b_id b0 = bot_instance_id sy mode e" by (rule bots.get_key)
    then have b0: "get_bot (b_id b0) s = Some b0" using Some by simp
    obtain answer where a: "existing_bot (bot_spec sy) b0 s = Inr answer" using run Some by (auto simp: bindR_eq_Inr)
    show ?thesis
    proof (cases answer)
      case N: None
      then have "start_new_bot sha wall row sy mode e s = Inr (b, s')" using run Some a by simp
      then show ?thesis by (rule new)
    next
      case (Some r)
      then have "r = (b, s')" using run a \<open>get_bot (bot_instance_id sy mode e) s = Some b0\<close> by simp
      then show ?thesis using old b0 a Some by blast
    qed
  qed
  then show "st_positions s' = st_positions s" and "st_events s' = st_events s" and "st_policies s' = st_policies s"
    and "get_bot (b_id b) s' = Some b" and "\<not> st_readonly s" using ro by blast+
qed

lemma start_bot_id:
  assumes "start_bot sha wall row sy mode epoch s = Inr (b, s')" and "sy_schema_version sy = ''1.1''"
  shows "b_id b = bot_instance_id sy mode epoch"
proof -
  have e: "bot_epoch sy epoch = Inr epoch" using assms by (auto simp: start_bot_def bot_epoch_def bindR_eq_Inr result_simps split: if_splits)
  note run = assms(1) [unfolded start_bot_def immediate_write_eq_Inr if_Inl_eq_Inr e bindR_simps]
  have new: "b_id b = bot_instance_id sy mode epoch" if "start_new_bot sha wall row sy mode epoch s = Inr (b, s')"
  proof -
    have "get_bot (bot_instance_id sy mode epoch) s' = Some b"
      using that by (auto simp: start_new_bot_def Let_def bindR_eq_Inr result_simps)
    then show ?thesis by (rule bots.get_key)
  qed
  show ?thesis
  proof (cases "get_bot (bot_instance_id sy mode epoch) s")
    case None
    then show ?thesis using run by (intro new) simp
  next
    case (Some b0)
    then have b0: "b_id b0 = bot_instance_id sy mode epoch" by (rule bots.get_key)
    obtain answer where a: "existing_bot (bot_spec sy) b0 s = Inr answer" using run Some by (auto simp: bindR_eq_Inr)
    show ?thesis
    proof (cases answer)
      case N: None
      then show ?thesis using run Some a by (intro new) simp
    next
      case (Some r)
      then have "r = (b, s')" using run a \<open>get_bot (bot_instance_id sy mode epoch) s = Some b0\<close> by simp
      then have "b = b0 \<or> get_bot (b_id b0) s' = Some b"
        using a Some by (auto simp: existing_bot_def Let_def result_simps split: if_splits)
      then show ?thesis using b0 bots.get_key by metis
    qed
  qed
qed

text \<open>A bot that the code left in one of its three states, with the digest of its strategy.\<close>

definition settled_bot :: "strategy \<Rightarrow> bot \<Rightarrow> bool" where
  "settled_bot sy b = (b_status b \<in> {''RUNNING'', ''DRAINING'', ''STOPPED''} \<and> (bot_spec sy = None \<or> b_strategy_spec_sha256 b = bot_spec sy))"

lemma bot_spec_present: "bot_spec sy \<noteq> None \<Longrightarrow> present (bot_spec sy)"
  by (simp add: bot_spec_def split: if_splits)

lemma start_bot_again:
  assumes "get_bot (bot_instance_id sy mode (Some epoch)) s = Some b" and "settled_bot sy b" and "\<not> st_readonly s"
    and "mode \<in> {''PAPER'', ''SHADOW''}" and "sy_schema_version sy = ''1.1''" and "epoch \<noteq> []"
  shows "start_bot sha wall row sy mode (Some epoch) s = Inr (b, s)"
proof -
  have "existing_bot (bot_spec sy) b s = Inr (Some (b, s))"
    using assms(2) bot_spec_present [of sy] by (auto simp: existing_bot_def settled_bot_def)
  then show ?thesis using assms by (auto simp: start_bot_def immediate_write_def bot_epoch_def)
qed

lemma start_bot_settles:
  assumes "start_bot sha wall row sy mode (Some epoch) s = Inr (b, s')" and "sy_schema_version sy = ''1.1''"
    and old: "\<And>b0. get_bot (bot_instance_id sy mode (Some epoch)) s = Some b0 \<Longrightarrow>
      b_status b0 \<in> {''RUNNING'', ''DRAINING'', ''STOPPED''} \<and> b_strategy_spec_sha256 b0 \<noteq> Some []"
  shows "settled_bot sy b" and "epoch \<noteq> []"
proof -
  let ?bid = "bot_instance_id sy mode (Some epoch)"
  have e: "bot_epoch sy (Some epoch) = Inr (Some epoch)" and ep: "epoch \<noteq> []"
    using assms(1,2) by (auto simp: start_bot_def bot_epoch_def bindR_eq_Inr result_simps split: if_splits)
  note run = assms(1) [unfolded start_bot_def immediate_write_eq_Inr if_Inl_eq_Inr e bindR_simps]
  show "settled_bot sy b"
  proof (cases "get_bot ?bid s")
    case None
    then have new: "start_new_bot sha wall row sy mode (Some epoch) s = Inr (b, s')" using run by simp
    let ?n = "new_bot sy mode ?bid (Some epoch) (bot_spec sy) (now_of s)"
    have key: "b_id ?n = ?bid" by (simp add: new_bot_def)
    have "upsert_bot ?n (tick s) = ins_bot ?n (tick s)" using None by (simp add: upsert_bot_def key)
    moreover have "get_bot ?bid (ins_bot ?n (tick s)) = Some ?n" using bots.get_ins [of ?n "tick s"] None key by simp
    moreover have "get_bot ?bid (upd_bot ?bid (\<lambda>b. b\<lparr>b_entries_paused := True\<rparr>) (ins_bot ?n (tick s))) = Some (?n\<lparr>b_entries_paused := True\<rparr>)"
      by (rule bots.get_upd_same) (simp_all add: calculation(2))
    ultimately have "b = ?n \<or> b = ?n\<lparr>b_entries_paused := True\<rparr>"
      using new by (auto simp: start_new_bot_def Let_def bindR_eq_Inr result_simps split: if_splits)
    then show ?thesis by (auto simp: settled_bot_def new_bot_def)
  next
    case (Some b0)
    note b0 = old [OF Some]
    have key: "b_id b0 = ?bid" using Some by (rule bots.get_key)
    obtain answer where a: "existing_bot (bot_spec sy) b0 s = Inr answer" using run Some by (auto simp: bindR_eq_Inr)
    have "answer = Some (b, s')"
      using run Some a b0 by (cases answer) (auto simp: existing_bot_def Let_def split: if_splits option.splits)
    note x = a [unfolded this]
    show ?thesis
    proof (cases "\<not> present (b_strategy_spec_sha256 b0) \<and> bot_spec sy \<noteq> None")
      case False
      then show ?thesis using x b0 by (auto simp: existing_bot_def settled_bot_def split: if_splits)
    next
      case True
      then have none: "b_strategy_spec_sha256 b0 = None" using b0 by (auto simp: present_def)
      let ?f = "\<lambda>r. if b_strategy_spec_sha256 r = None then r\<lparr>b_strategy_spec_sha256 := bot_spec sy\<rparr> else r"
      have "get_bot ?bid (upd_bot ?bid ?f s) = Some (?f b0)" by (rule bots.get_upd_same) (simp_all add: Some)
      then have "b = b0\<lparr>b_strategy_spec_sha256 := bot_spec sy\<rparr>"
        using x True none by (auto simp: existing_bot_def Let_def key split: option.splits)
      then show ?thesis using b0 by (simp add: settled_bot_def)
    qed
  qed
  show "epoch \<noteq> []" by (fact ep)
qed

subsection \<open>An admitted entry\<close>

text \<open>What a reservation has frozen in the row of its position.\<close>

definition frozen_row :: "(jval \<Rightarrow> string) \<Rightarrow> signal_request \<Rightarrow> bot \<Rightarrow> policy option \<Rightarrow> entry_risk \<Rightarrow> decimal \<Rightarrow> position \<Rightarrow> bool" where
  "frozen_row spec_sha q b p r n x =
     (p_id x = sq_position q \<and> p_bot x = b_id b \<and> p_mint x = sd_mint (sq_decision q)
      \<and> p_strategy_id x = Some (sd_strategy_id (sq_decision q))
      \<and> p_activation_epoch_id x = Some (sd_activation_epoch_id (sq_decision q))
      \<and> p_signal_decision_sha256 x = Some (decision_sha256 spec_sha (sq_decision q))
      \<and> p_admitted_entry_notional_usd_dec x = Some (dec_text n)
      \<and> p_strategy_requested_notional_usd_dec x = Some (ad_requested (er_admission r))
      \<and> p_runtime_policy_revision x = map_option pl_revision p \<and> p_runtime_policy_sha256 x = map_option pl_sha256 p
      \<and> p_admitted_fee_bps x = Some (sy_fee_bps (sq_strategy q))
      \<and> p_ordinary_operating x = map_option (\<lambda>_. 1) (er_operating r)
      \<and> p_ordinary_envelope_sha256 x = map_option (\<lambda>y. es_sha256 (or_envelope y)) (er_operating r))"

lemma frozen_admission: "frozen_row spec_sha q b p r n x \<Longrightarrow> p_admitted_entry_notional_usd_dec x = Some (dec_text n)"
  by (simp add: frozen_row_def)

lemma decision_of_fields [simp]:
  "sd_id (decision_of d) = sd_id d" "sd_activation_epoch_id (decision_of d) = sd_activation_epoch_id d"
  "sd_strategy_id (decision_of d) = sd_strategy_id d" "sd_strategy_version (decision_of d) = sd_strategy_version d"
  "sd_mint (decision_of d) = sd_mint d" "sd_reason_code (decision_of d) = sd_reason_code d"
  by (simp_all add: signal_decision.truncate_def)

lemma open_new_result:
  assumes "open_position_from_signal bid sd kind sha spec s = Inr (pid, s')"
    and "get_position (position_id_for_signal_decision (sd_id sd)) s = None"
  obtains x where "get_position (position_id_for_signal_decision (sd_id sd)) s' = Some x" and "p_state x = WATCHED"
    and "p_id x = position_id_for_signal_decision (sd_id sd)" and "p_bot x = bid" and "p_mint x = sd_mint sd"
    and "p_strategy_id x = Some (sd_strategy_id sd)" and "p_signal_decision_sha256 x = sha"
    and "p_admitted_entry_notional_usd_dec x = None" and "p_strategy_requested_notional_usd_dec x = None"
    and "p_runtime_policy_revision x = None" and "p_runtime_policy_sha256 x = None" and "p_admitted_fee_bps x = None"
    and "p_ordinary_operating x = None" and "p_ordinary_envelope_sha256 x = None" and "p_activation_epoch_id x = Some (sd_activation_epoch_id sd)"
    and "p_strategy_spec_sha256 x = spec"
proof -
  define row where "row = (blank_position (position_id_for_signal_decision (sd_id sd)) bid (sd_mint sd) kind (now_of s))
            \<lparr>p_signal_decision_id := Some (sd_id sd), p_activation_epoch_id := Some (sd_activation_epoch_id sd),
             p_strategy_id := Some (sd_strategy_id sd), p_strategy_version_label := Some (sd_strategy_version sd),
             p_reason_code := Some (sd_reason_code sd), p_signal_decision_sha256 := sha,
             p_strategy_spec_sha256 := spec\<rparr>"
  have key: "p_id row = position_id_for_signal_decision (sd_id sd)" by (simp add: row_def blank_position_def)
  have "s' = ins_position row (tick s)"
    using assms by (auto simp: open_position_from_signal_def Let_def insert_position_once_def row_def [symmetric] key
        bindR_eq_Inr split: if_splits)
  moreover have "get_position (p_id row) (tick s) = None" using assms(2) key by simp
  ultimately have "get_position (position_id_for_signal_decision (sd_id sd)) s' = Some row"
    using pos.get_ins [of row "tick s"] key by simp
  then show thesis by (rule that) (simp_all add: row_def blank_position_def)
qed

lemma open_admitted_result:
  assumes "open_admitted spec_sha q b p r s = Inr (n, s')" and "get_position (sq_position q) s = None"
  shows "dec_of_string (ad_effective (er_admission r)) = Inr n" and "same_others (sq_position q) s s'"
    and "\<exists>x. get_position (sq_position q) s' = Some x \<and> p_state x = WATCHED \<and> frozen_row spec_sha q b p r n x"
proof -
  let ?pid = "sq_position q"
  obtain pid s1 s2 eid where o': "open_position_from_signal (b_id b) (decision_of (sq_decision q)) (signal_kind_of (sq_mode q))
       (Some (decision_sha256 spec_sha (sq_decision q))) (bot_spec (sq_strategy q)) s = Inr (pid, s1)"
    and d: "dec_of_string (ad_effective (er_admission r)) = Inr n"
    and f: "freeze_admission_binding ?pid (dec_text n) (ad_requested (er_admission r))
       (if p = None then None else Some (sq_mode q)) (map_option pl_revision p) (map_option pl_sha256 p)
       (Some (sy_fee_bps (sq_strategy q))) s1 = Inr ((), s2)"
    and e: "append_execution_event ''SIGNAL_DECISION_ACCEPTED'' (Some (b_id b)) (Some ?pid)
       (accepted_payload_of spec_sha q n p) None None (mark_ordinary ?pid (er_operating r) s2) = Inr (eid, s')"
    using assms(1) by (auto simp: open_admitted_def Let_def bindR_eq_Inr)
  have new: "get_position (position_id_for_signal_decision (sd_id (decision_of (sq_decision q)))) s = None"
    using assms(2) by (simp add: sq_position_def)
  obtain x where x: "get_position ?pid s1 = Some x" "p_state x = WATCHED" "p_id x = ?pid" "p_bot x = b_id b"
    "p_mint x = sd_mint (sq_decision q)" "p_strategy_id x = Some (sd_strategy_id (sq_decision q))"
    "p_activation_epoch_id x = Some (sd_activation_epoch_id (sq_decision q))"
    "p_signal_decision_sha256 x = Some (decision_sha256 spec_sha (sq_decision q))"
    "p_admitted_entry_notional_usd_dec x = None" "p_strategy_requested_notional_usd_dec x = None"
    "p_runtime_policy_revision x = None" "p_runtime_policy_sha256 x = None" "p_admitted_fee_bps x = None"
    "p_ordinary_operating x = None" "p_ordinary_envelope_sha256 x = None"
    using open_new_result [OF o' new] by (simp add: sq_position_def) blast
  let ?f = "freeze_admission_row (dec_text n) (ad_requested (er_admission r)) (if p = None then None else Some (sq_mode q))
      (map_option pl_revision p) (map_option pl_sha256 p) (Some (sy_fee_bps (sq_strategy q)))"
  have s2: "s2 = upd_position ?pid ?f s1" using f by (simp add: freeze_admission_binding_def result_simps)
  have keep: "p_id (?f y) = p_id y" for y by (simp add: freeze_admission_row_def)
  have pid: "pid = ?pid" using o' by (auto simp: open_position_from_signal_def Let_def bindR_eq_Inr sq_position_def)
  let ?g = "\<lambda>y z. z\<lparr>p_ordinary_operating := Some 1, p_ordinary_envelope_sha256 := Some (es_sha256 (or_envelope y))\<rparr>"
  define s3 where "s3 = mark_ordinary ?pid (er_operating r) s2"
  define x3 where "x3 = (case er_operating r of None \<Rightarrow> ?f x | Some y \<Rightarrow> ?g y (?f x))"
  have g2: "get_position ?pid s2 = Some (?f x)" unfolding s2 by (rule pos.get_upd_same) (simp_all add: keep x(1))
  then have g3: "get_position ?pid s3 = Some x3"
    by (auto simp: s3_def x3_def mark_ordinary_def split: option.splits intro!: pos.get_upd_same)
  have "same_others ?pid s2 s3"
    by (auto simp: s3_def mark_ordinary_def split: option.splits intro!: upd_others)
  then have "same_others ?pid s1 s3" using upd_others [of ?f ?pid s1, OF keep] s2 same_others_trans by blast
  moreover have "same_others ?pid s s1" using open_from_signal_others [OF o'] pid by simp
  moreover have "same_others ?pid s3 s'" using append_event_others [OF e] by (simp add: s3_def)
  ultimately show "same_others ?pid s s'" using same_others_trans by blast
  have "get_position ?pid s' = Some x3" using get_position_events [OF e] g3 by (simp add: s3_def)
  moreover have "p_state x3 = WATCHED" and "frozen_row spec_sha q b p r n x3"
    using x(2-) by (auto simp: x3_def frozen_row_def freeze_admission_row_def split: option.split)
  ultimately show "\<exists>x. get_position ?pid s' = Some x \<and> p_state x = WATCHED \<and> frozen_row spec_sha q b p r n x" by blast
  show "dec_of_string (ad_effective (er_admission r)) = Inr n" by (rule d)
qed

text \<open>The risk snapshot holds the whole admission.\<close>

lemma fold_upd_lookup:
  "fmlookup (foldl (\<lambda>d k. if P k then fmupd k (f k) d else d) m ks) k = (if k \<in> set ks \<and> P k then Some (f k) else fmlookup m k)"
  by (induction ks arbitrary: m) auto

lemma identity_lookup:
  "fmlookup (identity_fields source) k =
     (if k = ''strategy_version'' then
        (if jpresent (jor (source ''strategy_version'') (source ''strategy_version_label''))
         then Some (jor (source ''strategy_version'') (source ''strategy_version_label'')) else None)
      else if k \<in> set IDENTITY_KEYS \<and> jpresent (source k) then Some (source k) else None)"
  by (simp add: identity_fields_def Let_def fold_upd_lookup) (simp add: IDENTITY_KEYS_def)

definition ADMISSION_KEYS :: "string list" where
  "ADMISSION_KEYS = [''decision'', ''reason_codes'', ''mode'', ''strategy_id'', ''strategy_version'', ''bot_instance_id'', ''mint'',
     ''strategy_requested_notional_usd_dec'', ''effective_entry_notional_usd_dec'', ''runtime_policy_status'',
     ''runtime_policy_revision'', ''runtime_policy_sha256'', ''current_global_position_count'', ''current_strategy_position_count'',
     ''current_mint_position_count'', ''current_bot_position_count'', ''current_global_open_risk_notional_usd'',
     ''current_strategy_open_risk_notional_usd'', ''current_mint_open_risk_notional_usd'', ''strategy_declared_max_open_positions'',
     ''runtime_strategy_max_open_positions'', ''open_risk_states'']"

definition ADDED_KEYS :: "string list" where
  "ADDED_KEYS = [''ordinary_operating_envelope'', ''signal_decision_id'', ''signal_decision_sha256'', ''evidence_refs'',
     ''source_hypothesis_refs'', ''first_reliable_available_at'', ''strategy_spec_sha256'', ''evaluated_at'',
     ''activation_epoch_id'', ''action'', ''reason_code'', ''decision_at'']"

lemma admission_keys_kept: "list_all (\<lambda>k. k \<notin> set ADDED_KEYS) ADMISSION_KEYS"
  by (simp add: ADMISSION_KEYS_def ADDED_KEYS_def)

lemma dict_of_key: "fmlookup (dict_of kvs) k = Some v \<Longrightarrow> k \<in> fst ` set kvs"
  by (auto simp: dict_with_lookup split: option.splits dest!: map_of_SomeD intro: rev_image_eqI)

lemma admission_dict_keys: "fmlookup (admission_dict a) k = Some v \<Longrightarrow> k \<in> set ADMISSION_KEYS"
proof -
  assume "fmlookup (admission_dict a) k = Some v"
  note dict_of_key [OF this [unfolded admission_dict_def]]
  then show ?thesis by (simp only: ADMISSION_KEYS_def list.set image_insert image_empty fst_conv)
qed

lemma admission_dict_identity:
  "fmlookup (admission_dict a) ''mint'' = Some (JStr (ad_mint a))"
  "fmlookup (admission_dict a) ''strategy_id'' = Some (JStr (ad_strategy_id a))"
  "fmlookup (admission_dict a) ''strategy_version'' = Some (JStr (ad_strategy_version a))"
  by (simp_all add: admission_dict_def)

lemma risk_payload_lookup:
  assumes "k \<notin> set ADDED_KEYS" and "k \<noteq> ''mint''"
  shows "fmlookup (risk_payload spec_sha q r) k =
     (if k = ''strategy_version'' then Some (JStr (sg_version (sq_strategy q)))
      else if k = ''strategy_id'' then Some (JStr (sg_id (sq_strategy q)))
      else fmlookup (admission_dict (er_admission r)) k)"
proof -
  have "fmlookup (decision_identity (sq_decision q)) k = None \<or> k = ''strategy_id'' \<or> k = ''strategy_version''"
    using assms by (auto simp: decision_identity_def identity_lookup IDENTITY_KEYS_def ADDED_KEYS_def)
  moreover have "fmlookup (dict_with d (((case er_operating r of None \<Rightarrow> []
              | Some op \<Rightarrow> [(''ordinary_operating_envelope'', JObj (operating_risk_dict (sq_mode q) op))])
             @ [(''signal_decision_id'', JStr (sd_id (sq_decision q)))] @ lineage_of spec_sha (sq_strategy q) (sq_decision q)
             @ [(''evaluated_at'', JStr (sq_as_of q))]))) k = fmlookup d k" for d
    using assms(1) by (cases "er_operating r") (simp_all add: ADDED_KEYS_def lineage_of_def dict_with_lookup del: dict_with_simps)
  ultimately show ?thesis
    by (auto simp: risk_payload_def Let_def fmlookup_add)
qed

lemma risk_payload_mint:
  "fmlookup (risk_payload spec_sha q r) ''mint'' =
     (if sd_mint (sq_decision q) = [] then fmlookup (admission_dict (er_admission r)) ''mint''
      else Some (JStr (sd_mint (sq_decision q))))"
proof -
  have "fmlookup (decision_identity (sq_decision q)) ''mint'' =
      (if sd_mint (sq_decision q) = [] then None else Some (JStr (sd_mint (sq_decision q))))"
    by (simp add: decision_identity_def identity_lookup IDENTITY_KEYS_def decision_dict_def jpresent_def)
  moreover have "fmlookup (dict_with d (((case er_operating r of None \<Rightarrow> []
              | Some op \<Rightarrow> [(''ordinary_operating_envelope'', JObj (operating_risk_dict (sq_mode q) op))])
             @ [(''signal_decision_id'', JStr (sd_id (sq_decision q)))] @ lineage_of spec_sha (sq_strategy q) (sq_decision q)
             @ [(''evaluated_at'', JStr (sq_as_of q))]))) ''mint'' = fmlookup d ''mint''" for d
    by (cases "er_operating r") (simp_all add: lineage_of_def dict_with_lookup del: dict_with_simps)
  ultimately show ?thesis
    by (auto simp: risk_payload_def Let_def fmlookup_add fmdom_notD intro: fmdomI split: if_splits)
qed

lemma risk_payload_admission:
  assumes "ad_mint (er_admission r) = sd_mint (sq_decision q)" and "ad_strategy_id (er_admission r) = sg_id (sq_strategy q)"
    and "ad_strategy_version (er_admission r) = sg_version (sq_strategy q)"
    and "fmlookup (admission_dict (er_admission r)) k = Some v"
  shows "fmlookup (risk_payload spec_sha q r) k = Some v"
proof -
  have "k \<notin> set ADDED_KEYS"
    using admission_keys_kept admission_dict_keys [OF assms(4)] by (auto simp: list_all_iff)
  then show ?thesis
    using assms admission_dict_identity [of "er_admission r"] risk_payload_lookup [of k spec_sha q r] risk_payload_mint [of spec_sha q r]
    by (cases "k = ''mint''") (auto split: if_splits)
qed

definition risk_recorded :: "(jval \<Rightarrow> string) \<Rightarrow> signal_request \<Rightarrow> bot \<Rightarrow> entry_risk \<Rightarrow> store \<Rightarrow> bool" where
  "risk_recorded spec_sha q b r s =
     (\<exists>e\<in>set (st_events s). e_type e = ''PRE_TRADE_RISK_SNAPSHOT'' \<and> e_bot e = Some (b_id b) \<and> e_position e = None
        \<and> e_payload e = Some (JObj (risk_payload spec_sha q r)))"

lemma risk_recorded_since: "risk_recorded spec_sha q b r s \<Longrightarrow> store_advance s s' \<Longrightarrow> risk_recorded spec_sha q b r s'"
  by (auto simp: risk_recorded_def store_advance_def prefix_def)

lemma find_event_in: "find_event eid s = Some e \<Longrightarrow> e \<in> set (st_events s)"
  by (auto simp: find_event_def dest: rows_get_Some)

text \<open>The two ways a new entry is answered: refused, with no row written, or reserved as admitted.\<close>

lemma reserve_new_result:
  assumes "reserve_new sha spec_sha row q b s = Inr (y, s')" and "get_position (sq_position q) s = None"
  obtains (refused) x where "y = Answered (SignalRefused x)" and "st_positions s' = st_positions s" and "st_bots s' = st_bots s"
      and "st_policies s' = st_policies s" and "refusal_recorded x s s'"
  | (reserved) current r n x where "y = Reserved (b_id b) n" and "b_status b \<notin> {''DRAINING'', ''STOPPED''}"
      and "\<not> b_entries_paused b" and "resolve_current_policy sha s (sq_mode q) = Inr current"
      and "entry_risk_of sha spec_sha row q b current s = Inr r" and "ad_decision (er_admission r) = ''ALLOW''"
      and "dec_of_string (ad_effective (er_admission r)) = Inr n" and "same_others (sq_position q) s s'"
      and "get_position (sq_position q) s' = Some x" and "p_state x = WATCHED"
      and "frozen_row spec_sha q b (cu_policy current) r n x" and "risk_recorded spec_sha q b r s'"
proof -
  let ?refuse = "\<lambda>code c s. refused (signal_refusal spec_sha (sq_strategy q) (sq_decision q) b (sq_mode q) (sq_as_of q) code c s)"
  note run = assms(1) [unfolded reserve_new_def Let_def]
  have quit: thesis if told: "?refuse code c s1 = Inr (y, s')" and same: "st_positions s1 = st_positions s" "st_bots s1 = st_bots s" "st_policies s1 = st_policies s"
      and old: "denials s1 = denials s"
    for code c s1
  proof -
    obtain x where "signal_refusal spec_sha (sq_strategy q) (sq_decision q) b (sq_mode q) (sq_as_of q) code c s1 = Inr (x, s')"
      and "y = Answered (SignalRefused x)" using told by (auto simp: refused_eq_Inr)
    then show thesis using refused same signal_refusal_result(1-3) recorded_since [OF old signal_refusal_recorded] by metis
  qed
  show thesis
  proof (cases "b_status b \<in> {''DRAINING'', ''STOPPED''} \<or> b_entries_paused b")
    case True
    then show thesis using run quit [of _ _ s] by (auto split: if_splits)
  next
    case False
    then obtain current r eid replay s1 where c: "resolve_current_policy sha s (sq_mode q) = Inr current"
      and r: "entry_risk_of sha spec_sha row q b current s = Inr r"
      and e: "append_exact_admission_event spec_sha ''PRE_TRADE_RISK_SNAPSHOT'' (b_id b) None (risk_payload spec_sha q r) (sq_as_of q) s
          = Inr ((eid, replay), s1)"
      using run by (auto simp: bindR_eq_Inr)
    note same = exact_event_result(1-3) [OF e]
    show thesis
    proof (cases "ad_decision (er_admission r) = ''ALLOW''")
      case False
      then show thesis using run \<open>\<not> (_ \<or> _)\<close> c r e quit [OF _ same exact_event_denials [OF e]] by simp
    next
      case True
      then obtain n where n: "open_admitted spec_sha q b (cu_policy current) r s1 = Inr (n, s')" and y: "y = Reserved (b_id b) n"
        using run \<open>\<not> (_ \<or> _)\<close> c r e by (auto simp: bindR_eq_Inr)
      have none: "get_position (sq_position q) s1 = None" using assms(2) same by (simp add: get_position_def)
      note res = open_admitted_result [OF n none]
      have "same_others (sq_position q) s s'" using same_rows_others [OF same] res(2) same_others_trans by blast
      moreover have "risk_recorded spec_sha q b r s1"
        using exact_event_result(5) [OF e] find_event_in unfolding risk_recorded_def by blast
      then have "risk_recorded spec_sha q b r s'" by (rule risk_recorded_since [OF _ open_admitted_advance [OF n]])
      ultimately show thesis using reserved [OF y _ _ c r True res(1)] res(3) False by blast
    qed
  qed
qed

lemma open_admitted_denials:
  assumes "open_admitted spec_sha q b p r s = Inr (n, s')" shows "denials s' = denials s"
proof -
  obtain pid s1 s2 eid where o': "open_position_from_signal (b_id b) (decision_of (sq_decision q)) (signal_kind_of (sq_mode q))
       (Some (decision_sha256 spec_sha (sq_decision q))) (bot_spec (sq_strategy q)) s = Inr (pid, s1)"
    and f: "freeze_admission_binding (sq_position q) (dec_text n) (ad_requested (er_admission r))
       (if p = None then None else Some (sq_mode q)) (map_option pl_revision p) (map_option pl_sha256 p)
       (Some (sy_fee_bps (sq_strategy q))) s1 = Inr ((), s2)"
    and e: "append_execution_event ''SIGNAL_DECISION_ACCEPTED'' (Some (b_id b)) (Some (sq_position q))
       (accepted_payload_of spec_sha q n p) None None (mark_ordinary (sq_position q) (er_operating r) s2) = Inr (eid, s')"
    using assms by (auto simp: open_admitted_def Let_def bindR_eq_Inr)
  have "st_events s1 = st_events s"
    using o' by (auto simp: open_position_from_signal_def Let_def insert_position_once_def ins_position_def bindR_eq_Inr split: if_splits)
  moreover have "st_events (mark_ordinary (sq_position q) (er_operating r) s2) = st_events s1"
    using f by (auto simp: freeze_admission_binding_def mark_ordinary_def upd_position_def result_simps split: option.split)
  ultimately show ?thesis using append_event_denials [OF e] by (simp add: denials_def)
qed

lemma reserve_new_denials:
  "reserve_new sha spec_sha row q b s = Inr (Reserved bid n, s') \<Longrightarrow> denials s' = denials s"
  by (auto simp: reserve_new_def Let_def bindR_eq_Inr refused_eq_Inr split: if_splits
      dest!: open_admitted_denials exact_event_denials)

lemma reserve_fresh_result:
  assumes "reserve_fresh sha spec_sha wall row q stale b s = Inr (y, s')" and "get_position (sq_position q) s = None"
  obtains (refused) x where "y = Answered (SignalRefused x)" and "st_positions s' = st_positions s" and "st_bots s' = st_bots s"
      and "st_policies s' = st_policies s" and "refusal_recorded x s s'"
  | (new) "\<not> stale" and "scope_refusal sha spec_sha wall row q None s = Inr None"
      and "reserve_new sha spec_sha row q b s = Inr (y, s')"
proof -
  have quit: thesis if "refused (signal_refusal spec_sha (sq_strategy q) (sq_decision q) b (sq_mode q) (sq_as_of q) code c s) = Inr (y, s')"
    for code c
    using that refused signal_refusal_result(1-3) signal_refusal_recorded unfolding refused_eq_Inr by metis
  show thesis
  proof (cases stale)
    case True
    then show thesis using assms(1) quit by (simp add: reserve_fresh_def)
  next
    case False
    then obtain block where b: "scope_refusal sha spec_sha wall row q None s = Inr block"
      using assms(1) by (auto simp: reserve_fresh_def bindR_eq_Inr)
    show thesis
    proof (cases block)
      case None
      then show thesis using assms(1) False b new by (simp add: reserve_fresh_def)
    next
      case (Some code)
      then show thesis using assms(1) False b quit by (simp add: reserve_fresh_def)
    qed
  qed
qed

lemma reserve_absent_result:
  assumes "reserve_signal sha spec_sha wall row q stale n s = Inr (y, s')" and "get_position (sq_position q) s = None"
  obtains b s1 where "start_bot sha wall row (sq_strategy q) (sq_mode q) (Some (sd_activation_epoch_id (sq_decision q))) s = Inr (b, s1)"
    and "reserve_fresh sha spec_sha wall row q stale b s1 = Inr (y, s')" and "get_position (sq_position q) s1 = None"
proof -
  obtain b s1 where 1: "start_bot sha wall row (sq_strategy q) (sq_mode q) (Some (sd_activation_epoch_id (sq_decision q))) s = Inr (b, s1)"
    and 2: "reserve_fresh sha spec_sha wall row q stale b s1 = Inr (y, s')"
    using assms by (auto simp: reserve_signal_def Let_def bindR_eq_Inr result_simps)
  moreover have "get_position (sq_position q) s1 = None" using start_bot_result(1) [OF 1] assms(2) by (simp add: get_position_def)
  ultimately show thesis by (rule that)
qed

subsection \<open>The fill\<close>

lemma transitions_reach:
  assumes "transitions pid ts s = Inr s'" and "ts \<noteq> []"
  shows "\<exists>r. get_position pid s' = Some r \<and> p_state r = last ts"
  using assms
proof (induction ts arbitrary: s)
  case (Cons t ts)
  then obtain r s1 where t: "transition pid t s = Inr (r, s1)" and ts: "transitions pid ts s1 = Inr s'"
    by (auto simp: bindR_eq_Inr)
  show ?case
  proof (cases "ts = []")
    case True
    obtain r0 where "r = set_state t (now_of s) r0" and "get_position pid s1 = Some r" using t by (rule transition_result) blast
    then show ?thesis using True ts by (simp add: set_state_def)
  next
    case False
    then show ?thesis using Cons.IH [OF ts] by simp
  qed
qed simp

lemma remaining_path_open: "st \<in> set PRE_ATTEMPT_STATES \<Longrightarrow> remaining_path st \<noteq> [] \<and> last (remaining_path st) = OPEN"
  by (auto simp: PRE_ATTEMPT_STATES_def)

lemma pre_attempt_not_filled: "st \<in> set PRE_ATTEMPT_STATES \<Longrightarrow> st \<notin> set FILLED_OR_LATER"
  by (auto simp: PRE_ATTEMPT_STATES_def FILLED_OR_LATER_def)

text \<open>A reserved position is filled: OPEN, for the notional that was admitted.\<close>

lemma fill_reserved_result:
  assumes run: "fill_paper_from_signal bid sd n kind s = Inr ((pid, realized), s')"
    and p: "get_position (position_id_for_signal_decision (sd_id sd)) s = Some p" and pre: "p_state p \<in> set PRE_ATTEMPT_STATES"
  shows "pid = position_id_for_signal_decision (sd_id sd)" and "realized = kind" and "same_others pid s s'"
    and "\<exists>x. get_position pid s' = Some x \<and> p_state x = OPEN \<and> p_entered_notional_usd x = Some (FloatOf n)
           \<and> p_signal_kind x = Some kind"
proof -
  let ?pid = "position_id_for_signal_decision (sd_id sd)"
  let ?s1 = "if p_state p = WATCHED then upd_position ?pid (\<lambda>r. r\<lparr>p_signal_kind := Some kind\<rparr>) s else s"
  let ?h = "\<lambda>r. r\<lparr>p_entered_notional_usd := Some (FloatOf n), p_signal_kind := Some kind\<rparr>"
  obtain s2 where t: "transitions ?pid (remaining_path (p_state p)) ?s1 = Inr s2" and pid: "pid = ?pid" "realized = kind"
    and s': "s' = upd_position ?pid ?h s2"
    using run p pre_attempt_not_filled [OF pre]
    by (auto simp: fill_paper_from_signal_def Let_def fill_existing_position_def ensure_signal_position_def bindR_eq_Inr result_simps
        simp del: transitions.simps remaining_path.simps)
  have path: "remaining_path (p_state p) \<noteq> []" "last (remaining_path (p_state p)) = OPEN" using remaining_path_open [OF pre] by auto
  obtain r where r: "get_position ?pid s2 = Some r" "p_state r = OPEN"
    using transitions_reach [OF t path(1)] path(2) by metis
  have "same_others ?pid s ?s1" by (auto intro: upd_others)
  then have "same_others ?pid s s2" using transitions_others [OF t] same_others_trans by blast
  then show "same_others pid s s'" unfolding s' pid(1) by (rule same_others_trans) (simp add: upd_others)
  have "get_position ?pid s' = Some (?h r)" unfolding s' by (rule pos.get_upd_same) (simp_all add: r)
  then show "\<exists>x. get_position pid s' = Some x \<and> p_state x = OPEN \<and> p_entered_notional_usd x = Some (FloatOf n)
           \<and> p_signal_kind x = Some kind"
    using r(2) pid by auto
  show "pid = ?pid" and "realized = kind" by (fact pid)+
qed

lemma fill_logged_others: "fill_logged q bid pid k s = Inr s' \<Longrightarrow> same_others x s s'"
  by (auto simp: fill_logged_def bindR_eq_Inr dest: append_event_others intro: same_others_trans)

lemma fill_logged_positions: "fill_logged q bid pid k s = Inr s' \<Longrightarrow> get_position x s' = get_position x s"
  by (auto simp: fill_logged_def bindR_eq_Inr)

text \<open>The ways the fill of a reserved position ends.\<close>

lemma fill_signal_result:
  assumes "fill_signal sha spec_sha wall row q stale bid n w s = Inr (out, s')"
    and p: "get_position (sq_position q) s = Some p" and pre: "p_state p \<in> set PRE_ATTEMPT_STATES"
  obtains (refused) x where "out = SignalRefused x" and "st_positions s' = st_positions s" and "st_bots s' = st_bots s"
      and "st_policies s' = st_policies s" and "refusal_recorded x s s'"
      and "fill_refusal sha spec_sha wall row q n p s = Inr (Some (rf_reason x))"
  | (blocked) b code cancel r where "get_bot bid s = Some b" and "resume_block sha s b (sq_mode q) stale = Inr (Some (code, cancel))"
      and "cancel_entry_intent (sq_position q) cancel s = Inr (r, s')" and "out = SignalBlocked code r w"
  | (filled) b x where "get_bot bid s = Some b" and "resume_block sha s b (sq_mode q) stale = Inr None"
      and "fill_refusal sha spec_sha wall row q n p s = Inr None" and "out = SignalFilled x (signal_kind_of (sq_mode q)) w"
      and "get_position (sq_position q) s' = Some x" and "p_state x = OPEN" and "p_entered_notional_usd x = Some (FloatOf n)"
      and "same_others (sq_position q) s s'"
proof -
  note run = assms(1) [unfolded fill_signal_def Let_def immediate_write_eq_Inr p option.case]
  obtain b refusal where b: "get_bot bid s = Some b" and v: "fill_refusal sha spec_sha wall row q n p s = Inr refusal"
    using run pre by (auto simp: bindR_eq_Inr split: option.splits)
  show thesis
  proof (cases refusal)
    case (Some code)
    then obtain x where "signal_refusal spec_sha (sq_strategy q) (sq_decision q) b (sq_mode q) (sq_as_of q) code
        (no_context\<lparr>rc_position := Some p\<rparr>) s = Inr (x, s')" and "out = SignalRefused x"
      using run pre b v by (auto simp: bindR_eq_Inr)
    then show thesis using refused signal_refusal_result(1-4) signal_refusal_recorded v Some by metis
  next
    case N: None
    then obtain block where bl: "resume_block sha s b (sq_mode q) stale = Inr block" using run pre b v by (auto simp: bindR_eq_Inr)
    show thesis
    proof (cases block)
      case (Some cc)
      then show thesis using run pre b v N bl blocked by (cases cc) (auto simp: bindR_eq_Inr)
    next
      case None
      then have "fill_now q bid n w (Some p) s = Inr (out, s')" using run pre b v N bl by simp
      then obtain pid k s1 s2 x where f: "fill_paper_from_signal bid (decision_of (sq_decision q)) n (signal_kind_of (sq_mode q)) s = Inr ((pid, k), s1)"
        and l: "fill_logged q bid pid k s1 = Inr s'" and x: "get_position pid s' = Some x" "out = SignalFilled x k w"
        using pre by (auto simp: fill_now_def bindR_eq_Inr result_simps PRE_ATTEMPT_STATES_def)
      have p': "get_position (position_id_for_signal_decision (sd_id (decision_of (sq_decision q)))) s = Some p"
        using p by (simp add: sq_position_def)
      note res = fill_reserved_result [OF f p' pre]
      have pid: "pid = sq_position q" using res(1) by (simp add: sq_position_def)
      have "same_others (sq_position q) s s'"
        using res(3) fill_logged_others [OF l] same_others_trans unfolding pid by blast
      moreover have "p_state x = OPEN \<and> p_entered_notional_usd x = Some (FloatOf n)"
        using res(4) x(1) fill_logged_positions [OF l, of pid] by auto
      ultimately show thesis using filled [OF b _ _ _ _ _ _] bl None v N x res(2) pid by simp
    qed
  qed
qed

subsection \<open>Counting open positions\<close>

lemma inventory_counts:
  assumes "open_risk_inventory mode strategy mint bid s = Inr i"
  shows "i_global_count i = length (open_rows mode s)" and "i_strategy_count i = number_of (of_strategy strategy) (open_rows mode s)"
    and "i_mint_count i = number_of (\<lambda>r. p_mint r = mint) (open_rows mode s)"
    and "i_bot_count i = number_of (of_bot bid) (open_rows mode s)"
  using inventory_loop_counts [OF assms [unfolded open_risk_inventory_def]]
  by (simp_all add: number_of_def open_rows_def empty_inventory_def conj_commute)

lemma one_more_row:
  assumes "same_others pid s s'" and "get_position pid s = None" and "distinct (map p_id (st_positions s'))"
  shows "number_of P (open_rows mode s') \<le> Suc (number_of P (open_rows mode s))"
proof -
  let ?Q = "\<lambda>t r. P r \<and> open_risk r \<and> (case get_bot (p_bot r) t of None \<Rightarrow> False | Some b \<Rightarrow> b_mode b = mode)"
  have Q: "?Q s' = ?Q s" using assms(1) by (simp add: same_others_def get_bot_def)
  have n: "number_of P (open_rows mode t) = length (filter (?Q t) (st_positions t))" for t
    by (simp add: number_of_def open_rows_def mode_positions_def conj_ac)
  have split: "length (filter F xs) \<le> length (filter F (filter (\<lambda>r. p_id r \<noteq> pid) xs)) + 1"
    if "distinct (map p_id xs)" for F and xs :: "position list"
    using that
  proof (induction xs)
    case (Cons a xs)
    have "p_id a = pid \<Longrightarrow> filter (\<lambda>r. p_id r \<noteq> pid) xs = xs" 
      using Cons.prems by (simp add: filter_id_conv) (metis image_eqI)
    then show ?case using Cons by auto
  qed simp
  have "others pid s = st_positions s"
    using assms(2) by (auto simp: others_def filter_id_conv get_position_def rows_get_None)
  then have "others pid s' = st_positions s" using assms(1) by (simp add: same_others_def)
  then show ?thesis using split [OF assms(3), of "?Q s'"] by (simp add: n Q others_def)
qed

end
