(* ===== verification/DeskClaims.thy ===== *)
theory DeskClaims
  imports ModeledPlane
begin

section \<open>The desk as a state machine\<close>

text \<open>
  What holds after any sequence of the desk's calls, in any order, whichever of them raise: the
  operations of \<open>PaperPlaneStore\<close>, modelled attempts and results, starting bots, signal and exit
  decisions, and the owner's policy and envelope commands. The facts are those the locale
  \<open>plane_operation\<close> gives for \<open>desk_step\<close>.
\<close>

text \<open>C5: settled positions are final: whatever calls follow, a RECONCILED or CANCELLED position keeps its
  state and its identity.\<close>

theorem settled_is_final:
  assumes "get_position pid s = Some r" and "p_state r \<in> {RECONCILED, CANCELLED}"
  shows "\<exists>r'. get_position pid (run_desk cs s) = Some r' \<and> p_state r' = p_state r \<and> same_identity r r'"
proof -
  obtain r' where "get_position pid (desk.calls cs s) = Some r'" and "p_state r' = p_state r"
    using assms by (rule desk.settled_stay)
  moreover obtain r'' where "get_position pid (desk.calls cs s) = Some r''" and "same_identity r r''"
    using assms(1) by (rule desk.admission_frozen)
  ultimately show ?thesis by (auto simp: run_desk_calls)
qed

definition demo_cancelled :: position where
  "demo_cancelled = demo_attempting\<lparr>p_state := CANCELLED\<rparr>"

lemma settled_is_final_witness:
  "\<exists>r'. get_position ''POS-1'' (run_desk [OnPlane (Transition ''POS-1'' OPEN), OnPlane (EntryFill ''POS-1'' demo_fill)]
     (demo_store demo_cancelled)) = Some r' \<and> p_state r' = CANCELLED"
proof -
  have g: "get_position ''POS-1'' (demo_store demo_cancelled) = Some demo_cancelled"
    and st: "p_state demo_cancelled = CANCELLED"
    by (simp_all add: get_position_def demo_store_def demo_cancelled_def demo_attempting_def blank_position_def)
  show ?thesis using settled_is_final [OF g] st by auto
qed

text \<open>C6: a position's life never goes back: whatever calls follow, its state is one that
  TRANSITIONS and the legs lead to, and a position past the attempt is never before it again.\<close>

theorem life_moves_forward:
  assumes "get_position pid s = Some r"
  shows "\<exists>r'. get_position pid (run_desk cs s) = Some r' \<and> life (p_state r) (p_state r')
    \<and> (p_state r \<notin> set PRE_ATTEMPT_STATES \<longrightarrow> p_state r' \<notin> set PRE_ATTEMPT_STATES)"
proof -
  obtain r' where r': "get_position pid (desk.calls cs s) = Some r'" and adv: "row_advance r r'"
    using desk.calls_advance assms by (rule store_advance_position)
  have lf: "life (p_state r) (p_state r')" using adv by (simp add: row_advance_def)
  have "p_state r \<notin> set PRE_ATTEMPT_STATES \<longrightarrow> p_state r' \<notin> set PRE_ATTEMPT_STATES"
    using life_stage_mono [OF lf] by (cases "p_state r"; cases "p_state r'") (auto simp: PRE_ATTEMPT_STATES_def)
  then show ?thesis using r' lf by (auto simp: run_desk_calls)
qed

lemma life_moves_forward_witness:
  "\<exists>r'. get_position ''POS-1'' (run_desk [OnPlane (EntryFill ''POS-1'' demo_fill)] (demo_store demo_attempting)) = Some r'
     \<and> p_state r' \<noteq> SIGNALLED"
proof -
  have g: "get_position ''POS-1'' (demo_store demo_attempting) = Some demo_attempting"
    by (simp add: get_position_def demo_store_def)
  show ?thesis using life_moves_forward [OF g, of "[OnPlane (EntryFill ''POS-1'' demo_fill)]"]
    by (auto simp: PRE_ATTEMPT_STATES_def)
qed

text \<open>C7: what was admitted is written once and the price of an entry is never changed: after any calls
  the admitted notional, the requested notional, the policy mode, revision and digest, the admitted fee
  and the entry price are what they were, wherever they were present.\<close>

theorem admission_written_once:
  assumes "get_position pid s = Some r"
  shows "\<exists>r'. get_position pid (run_desk cs s) = Some r' \<and> admission_kept r r'
    \<and> (present (p_entry_price_dec r) \<longrightarrow> p_entry_price_dec r' = p_entry_price_dec r)"
proof -
  obtain r' where "get_position pid (desk.calls cs s) = Some r'" and "admission_kept r r'"
    and "kept_text (p_entry_price_dec r) (p_entry_price_dec r')"
    using assms by (rule desk.admission_frozen)
  then show ?thesis by (auto simp: run_desk_calls kept_text_def)
qed

lemma admission_written_once_witness:
  "\<exists>r'. get_position ''POS-1'' (run_desk [OnPlane (FreezeAdmission ''POS-1'' ''999'' ''999'' None None None (Some 1))]
      (demo_store demo_attempting)) = Some r' \<and> p_admitted_entry_notional_usd_dec r' = Some ''100''"
proof -
  have g: "get_position ''POS-1'' (demo_store demo_attempting) = Some demo_attempting"
    by (simp add: get_position_def demo_store_def)
  show ?thesis
    using admission_written_once [OF g, of "[OnPlane (FreezeAdmission ''POS-1'' ''999'' ''999'' None None None (Some 1))]"]
    by (auto simp: admission_kept_def kept_def)
qed

text \<open>The logs are append-only and keys stay unique: after any calls the events, commands and policy
  revisions written before are a prefix of those written now, and no primary key is used twice; a
  read-only store never changes.\<close>

theorem logs_append_only:
  "prefix (st_events s) (st_events (run_desk cs s)) \<and> prefix (st_commands s) (st_commands (run_desk cs s))
   \<and> prefix (st_policies s) (st_policies (run_desk cs s)) \<and> prefix (st_marks s) (st_marks (run_desk cs s))
   \<and> (store_wf s \<longrightarrow> store_wf (run_desk cs s))
   \<and> (st_readonly s \<longrightarrow> tables_of (run_desk cs s) = tables_of s)"
  using desk.calls_advance [of s cs] unfolding run_desk_calls store_advance_def by blast

lemma logs_append_only_witness:
  "store_wf (run_desk [OnPlane (EntryFill ''POS-1'' demo_fill), OnPlane (ExitFill ''POS-1'' (Some ''0.60'') ''PAPER'' False)]
     (demo_store demo_attempting))"
proof -
  have "store_wf (demo_store demo_attempting)" by (simp add: store_wf_def demo_store_def)
  then show ?thesis
    using logs_append_only [of "demo_store demo_attempting"
        "[OnPlane (EntryFill ''POS-1'' demo_fill), OnPlane (ExitFill ''POS-1'' (Some ''0.60'') ''PAPER'' False)]"] by simp
qed

end
