(* ===== verification/ObligationClaims.thy ===== *)
theory ObligationClaims
  imports ModeledClaims EnvelopeClaims
begin

section \<open>What a permitted entry says about the other positions\<close>

text \<open>
  An ordinary entry is only sent after \<open>enforce_operating_envelope\<close> looked at what the mode still owes.
  A position that holds a quantity, or has an attempt without its final event, cannot leave that sum, so
  a permitted send bounds the positions held and waits for every earlier result.
\<close>

subsection \<open>The loop over the candidates\<close>

lemma obligation_step_result:
  assumes "obligation_step spec_sha v s p acc = Inr acc'"
  obtains (skipped) "obligation_mode p s \<notin> {None, Some (ov_mode v)} \<or> released spec_sha v s p" and "acc' = acc"
  | (counted) row owed where "obligation_mode p s \<in> {None, Some (ov_mode v)}" and "\<not> released spec_sha v s p"
      and "obligation_of spec_sha v s p = Inr (row, owed)" and "os_rows acc' = os_rows acc @ [row]"
      and "os_unknown acc' = (os_unknown acc \<or> ob_unknown row)"
proof (cases "obligation_mode p s \<notin> {None, Some (ov_mode v)} \<or> released spec_sha v s p")
  case True
  then show thesis using assms skipped by (auto simp: obligation_step_def)
next
  case False
  then obtain row owed where "obligation_of spec_sha v s p = Inr (row, owed)" and "os_rows acc' = os_rows acc @ [row]"
    and "os_unknown acc' = (os_unknown acc \<or> ob_unknown row)"
    using assms by (auto simp: obligation_step_def bindR_eq_Inr)
  then show thesis using False counted by blast
qed

lemma obligation_row:
  assumes "obligation_of spec_sha v s p = Inr (row, owed)"
  shows "ob_position row = p_id p" and "state_unknown spec_sha v s p \<Longrightarrow> ob_unknown row"
  using assms by (auto simp: obligation_of_def Let_def bindR_eq_Inr)

lemma obligation_loop_rows:
  assumes "obligation_loop spec_sha v s ps acc = Inr acc'"
  shows "length (filter (\<lambda>p. obligation_mode p s \<in> {None, Some (ov_mode v)} \<and> \<not> released spec_sha v s p) ps) + length (os_rows acc)
      = length (os_rows acc')"
    and "os_unknown acc \<Longrightarrow> os_unknown acc'"
    and "p \<in> set ps \<Longrightarrow> obligation_mode p s \<in> {None, Some (ov_mode v)} \<Longrightarrow> \<not> released spec_sha v s p \<Longrightarrow>
         state_unknown spec_sha v s p \<Longrightarrow> os_unknown acc'"
  using assms
proof (induction ps arbitrary: acc)
  case (Cons p' ps)
  {
    case 1
    then obtain mid where step: "obligation_step spec_sha v s p' acc = Inr mid" and rest: "obligation_loop spec_sha v s ps mid = Inr acc'"
      by (auto simp: bindR_eq_Inr)
    from step Cons.IH(1) [OF rest] show ?case by (cases rule: obligation_step_result) auto
  next
    case 2
    then obtain mid where step: "obligation_step spec_sha v s p' acc = Inr mid" and rest: "obligation_loop spec_sha v s ps mid = Inr acc'"
      by (auto simp: bindR_eq_Inr)
    from step have "os_unknown mid" using 2 by (cases rule: obligation_step_result) auto
    then show ?case using Cons.IH(2) rest by blast
  next
    case 3
    then obtain mid where step: "obligation_step spec_sha v s p' acc = Inr mid" and rest: "obligation_loop spec_sha v s ps mid = Inr acc'"
      by (auto simp: bindR_eq_Inr)
    show ?case
    proof (cases "p = p'")
      case True
      from step have "os_unknown mid" using True 3 obligation_row(2) by (cases rule: obligation_step_result) auto
      then show ?thesis using Cons.IH(2) rest by blast
    next
      case False
      then show ?thesis using 3 Cons.IH(3) rest by auto
    qed
  }
qed simp_all

subsection \<open>Who cannot leave the sum\<close>

text \<open>A position that holds or held a quantity and is not reconciled.\<close>

definition holding :: "position \<Rightarrow> bool" where
  "holding p = (p_qty_dec p \<noteq> None \<and> p_state p \<noteq> RECONCILED)"

text \<open>A position with an attempt whose final event is not in the store.\<close>

definition awaiting :: "store \<Rightarrow> position \<Rightarrow> bool" where
  "awaiting s p = list_ex (\<lambda>a. e_type a = ''MODELED_ATTEMPT_STARTED'' \<and> e_position a = Some (p_id p)
     \<and> find_event (''FINAL-'' @ e_id a) s = None) (st_events s)"

definition counted :: "string \<Rightarrow> string \<Rightarrow> store \<Rightarrow> position \<Rightarrow> bool" where
  "counted mode pid s p = (obligation_mode p s \<in> {None, Some mode} \<and> p_id p \<noteq> pid \<and> (holding p \<or> awaiting s p))"

lemma holding_not_released:
  assumes "holding p"
  shows "\<not> known_released p" and "\<not> released spec_sha v s p"
  using assms
  by (auto simp: holding_def known_released_def known_flat_def released_def flat_position_def nonfill_position_def
      unattempted_cancel_def nothing_filled_def)

lemma awaiting_not_proved:
  assumes "awaiting s p"
  shows "\<not> proved_release spec_sha p m s"
proof
  assume "proved_release spec_sha p m s"
  then obtain mode where all: "all_attempts_final spec_sha p mode s" by (auto simp: proved_release_def Let_def)
  obtain a where a: "a \<in> set (st_events s)" "e_type a = ''MODELED_ATTEMPT_STARTED''" "e_position a = Some (p_id p)"
    and none: "find_event (''FINAL-'' @ e_id a) s = None"
    using assms by (auto simp: awaiting_def list_ex_iff)
  have "a \<in> set (attempts_in (position_events p s))" using a by (simp add: attempts_in_def position_events_def)
  then have "proved_finals spec_sha p mode s a \<noteq> []" using all by (auto simp: all_attempts_final_def list_all_iff)
  then obtain f where "f \<in> set (st_events s)" "e_id f = ''FINAL-'' @ e_id a"
    by (auto simp: proved_finals_def filter_empty_conv)
  then show False using none by (auto simp: find_event_def rows_get_None image_iff)
qed

lemma counted_candidate:
  assumes "counted mode pid s p" and "p \<in> set (st_positions s)"
  shows "p \<in> set (ov_positions (view_of spec_sha mode (Some pid) s))"
  using assms holding_not_released(1) awaiting_not_proved
  by (auto simp: counted_def view_of_def Let_def obligation_positions_def)

text \<open>The events of the view are those of the store with an unreadable payload read as empty.\<close>

lemma filtered_members:
  "e' \<in> set (filtered_execution_events None (Some pids) s) \<longleftrightarrow>
     (\<exists>e \<in> set (st_events s). e_position e \<in> Some ` set pids
        \<and> e' = (case e_payload e of None \<Rightarrow> e\<lparr>e_payload := Some (JObj fmempty)\<rparr> | Some x \<Rightarrow> e))"
  by (cases pids) (auto simp: filtered_execution_events_def)

lemma read_event_fields:
  "e' = (case e_payload e of None \<Rightarrow> e\<lparr>e_payload := Some (JObj fmempty)\<rparr> | Some x \<Rightarrow> e) \<Longrightarrow>
     e_id e' = e_id e \<and> e_type e' = e_type e \<and> e_position e' = e_position e"
  by (auto split: option.splits)

lemma awaiting_unresolved:
  assumes await: "awaiting s p" and mem: "p \<in> set (ov_positions (view_of spec_sha mode (Some pid) s))"
  shows "unresolved_attempts spec_sha (view_of spec_sha mode (Some pid) s) p \<noteq> []"
proof -
  let ?v = "view_of spec_sha mode (Some pid) s"
  have ov: "ov_events ?v = filtered_execution_events None (Some (map p_id (ov_positions ?v))) s"
    by (simp add: view_of_def Let_def)
  obtain a where a: "a \<in> set (st_events s)" "e_type a = ''MODELED_ATTEMPT_STARTED''" "e_position a = Some (p_id p)"
    and none: "find_event (''FINAL-'' @ e_id a) s = None"
    using await by (auto simp: awaiting_def list_ex_iff)
  define a' where "a' = (case e_payload a of None \<Rightarrow> a\<lparr>e_payload := Some (JObj fmempty)\<rparr> | Some x \<Rightarrow> a)"
  have f: "e_id a' = e_id a" "e_type a' = e_type a" "e_position a' = e_position a"
    using read_event_fields [OF a'_def] by simp_all
  have "a' \<in> set (ov_events ?v)" unfolding ov filtered_members using a mem a'_def by auto
  then have at: "a' \<in> set (position_attempts ?v p)"
    using a f by (simp add: position_attempts_def attempts_in_def events_at_def)
  have "e_id e \<noteq> ''FINAL-'' @ e_id a" if e: "e \<in> set (ov_events ?v)" for e
  proof -
    obtain o' where "o' \<in> set (st_events s)" and "e_id e = e_id o'"
      using e read_event_fields unfolding ov filtered_members by blast
    then show ?thesis using none by (metis find_event_def rows_get_None image_eqI)
  qed
  then have "final_at spec_sha ?v a' = None" by (auto simp: final_at_def find_None_iff f)
  then show ?thesis using at by (auto simp: unresolved_attempts_def filter_empty_conv)
qed

lemma counted_not_released:
  assumes "counted mode pid s p" and "p \<in> set (st_positions s)"
  shows "\<not> released spec_sha (view_of spec_sha mode (Some pid) s) s p"
  using assms holding_not_released(2) awaiting_unresolved counted_candidate [OF assms]
  by (auto simp: counted_def released_def)

lemma summary_counts:
  assumes run: "obligation_summary spec_sha mode (Some pid) s = Inr os"
  shows "length (filter (counted mode pid s) (st_positions s)) \<le> length (os_rows os)"
    and "\<not> os_unknown os \<Longrightarrow> p \<in> set (st_positions s) \<Longrightarrow> counted mode pid s p \<Longrightarrow> \<not> awaiting s p \<and> p_state p \<notin> {UNKNOWN, ATTEMPTING}"
proof -
  let ?v = "view_of spec_sha mode (Some pid) s"
  have loop: "obligation_loop spec_sha ?v s (ov_positions ?v)
      \<lparr>os_rows = [], os_total = dec_zero, os_unknown = False, os_pending = 0\<rparr> = Inr os"
    using run by (auto simp: obligation_summary_def Let_def split: if_splits)
  have mode: "ov_mode ?v = mode" by (simp add: view_of_def Let_def)
  let ?in = "\<lambda>p. obligation_mode p s \<in> {None, Some mode} \<and> \<not> released spec_sha ?v s p"
  have ps: "ov_positions ?v = filter (\<lambda>p. Some (p_id p) \<noteq> Some pid \<and> (\<not> known_released p \<or> \<not> proved_release spec_sha p (obligation_mode p s) s)
         \<and> obligation_mode p s \<in> {None, Some mode}) (st_positions s)"
    by (simp add: view_of_def Let_def obligation_positions_def conj_commute)
  have member: "x \<in> set (ov_positions ?v) \<and> ?in x" if "x \<in> set (st_positions s)" "counted mode pid s x" for x
    using that counted_candidate counted_not_released by (auto simp: counted_def)
  have "filter (counted mode pid s) (st_positions s) = filter (counted mode pid s) (filter ?in (ov_positions ?v))"
    unfolding ps filter_filter by (rule filter_cong [OF refl]) (use member in \<open>auto simp: ps\<close>)
  then have "length (filter (counted mode pid s) (st_positions s))
      = length (filter (counted mode pid s) (filter ?in (ov_positions ?v)))" by (rule arg_cong)
  also have "\<dots> \<le> length (filter ?in (ov_positions ?v))" by (rule length_filter_le)
  also have "\<dots> = length (os_rows os)" using obligation_loop_rows(1) [OF loop] mode by simp
  finally show "length (filter (counted mode pid s) (st_positions s)) \<le> length (os_rows os)" .
  show "\<not> awaiting s p \<and> p_state p \<notin> {UNKNOWN, ATTEMPTING}"
    if known: "\<not> os_unknown os" and p: "p \<in> set (st_positions s)" "counted mode pid s p"
  proof -
    have "\<not> state_unknown spec_sha ?v s p"
      using obligation_loop_rows(3) [OF loop counted_candidate [OF p(2,1)]] counted_not_released [OF p(2,1)] known p(2) mode
      by (auto simp: counted_def)
    then show ?thesis using awaiting_unresolved [OF _ counted_candidate [OF p(2,1)]] by (auto simp: state_unknown_def)
  qed
qed

subsection \<open>A permitted entry\<close>

lemma envelope_passed:
  assumes "enforce_operating_envelope sha spec_sha mode admitted (Some pid) s = Inr None"
  obtains current e os where "read_operating_envelope sha s mode = Inr current" and "es_current current = Some e"
    and "obligation_summary spec_sha mode (Some pid) s = Inr os" and "\<not> os_unknown os"
    and "int (length (os_rows os)) + 1 \<le> en_max_positions (er_body e)"
  using assms
  by (auto simp: enforce_operating_envelope_def envelope_refusal_def outstanding_cost_basis_def bindR_eq_Inr result_simps
      split: option.splits if_splits)

text \<open>The scope in which an entry must pass the envelope.\<close>

definition enveloped :: "dict option \<Rightarrow> attempt_request \<Rightarrow> store \<Rightarrow> bool" where
  "enveloped row q s = (ar_ordinary q \<or> sc_managed (effective_operating_scope row s (ar_mode q))
     \<or> (case get_position (ar_position q) s of None \<Rightarrow> False | Some p \<Rightarrow> p_ordinary_operating p = Some 1))"

lemma sent_entry_passed:
  assumes "begin_modeled_attempt sha spec_sha wall row q s = Inr (AttemptStarted d, s')" and "ar_side q = ''ENTRY''"
    and "enveloped row q s"
  obtains p where "get_position (ar_position q) s = Some p"
    and "enforce_operating_envelope sha spec_sha (ar_mode q) (p_admitted_entry_notional_usd_dec p) (Some (ar_position q)) s = Inr None"
  using assms(1)
proof (cases rule: begin_result)
  case (entry p bt)
  from entry(7) show thesis
  proof (cases rule: begin_entry_result)
    case (blocked code cancel)
    then show thesis by (auto elim: blocked_entry_result)
  next
    case (sent stale s1)
    then show thesis using that entry(2) assms(3) by (auto simp: enveloped_def)
  qed
qed (use assms(2) in simp_all)

subsection \<open>A sent ordinary entry\<close>

definition demo_limits :: envelope where
  "demo_limits = \<lparr>en_mode = ''PAPER'', en_max_positions = 3, en_max_cost = ''1000''\<rparr>"

definition demo_limit_event :: event where
  "demo_limit_event = envelope_row demo_sha ''PAPER'' demo_limits None ''T''"

definition demo_other :: position where
  "demo_other = demo_watched\<lparr>p_id := ''POS-2''\<rparr>"

definition demo_plane :: "position \<Rightarrow> store" where
  "demo_plane p = (demo_store p)\<lparr>st_positions := [p, demo_other], st_events := [demo_limit_event]\<rparr>"

definition demo_ordinary :: attempt_request where
  "demo_ordinary = demo_request\<lparr>ar_ordinary := True\<rparr>"

lemma demo_ordinary_fields [simp]:
  "ar_position demo_ordinary = ''POS-1''" "ar_side demo_ordinary = ''ENTRY''" "ar_mode demo_ordinary = ''PAPER''"
  "ar_key demo_ordinary = ''K''" "ar_max_age demo_ordinary = 60" "ar_as_of demo_ordinary = ''2026-01-01T00:00:30Z''"
  "ar_decision_at demo_ordinary = ''2026-01-01T00:00:00Z''" "ar_ordinary demo_ordinary"
  by (simp_all add: demo_ordinary_def)

lemma demo_other_fields [simp]:
  "p_id demo_other = ''POS-2''" "p_bot demo_other = ''BOT-1''" "p_state demo_other = WATCHED" "p_qty_dec demo_other = None"
  "p_remaining_qty_dec demo_other = None" "p_admitted_entry_notional_usd_dec demo_other = Some ''100''"
  "p_remaining_cost_basis_usd_dec demo_other = None" "p_entered_notional_usd_dec demo_other = None"
  by (simp_all add: demo_other_def demo_watched_def demo_attempting_def blank_position_def)

lemma demo_plane_fields [simp]:
  "st_positions (demo_plane p) = [p, demo_other]" "st_events (demo_plane p) = [demo_limit_event]"
  "st_bots (demo_plane p) = [demo_bot]" "st_policies (demo_plane p) = []" "\<not> st_readonly (demo_plane p)"
  by (simp_all add: demo_plane_def demo_store_def)

lemma demo_limit_event_fields [simp]:
  "e_type demo_limit_event = OPERATING_ENVELOPE_EVENT" "e_position demo_limit_event = None"
  "e_id demo_limit_event = ''OPERATING-ENVELOPE-PAPER-1''" "e_payload demo_limit_event \<noteq> None"
  by (simp_all add: demo_limit_event_def envelope_row_def envelope_next_def int_text_def digits_of.simps digit_char_def)

lemma demo_limits_in_force:
  "read_operating_envelope demo_sha (demo_plane p) ''PAPER'' = Inr \<lparr>es_status = ENVELOPE_VALID, es_mode = ''PAPER'',
     es_current = Some (next_envelope demo_sha demo_limits None ''T''), es_sha256 = er_sha256 (next_envelope demo_sha demo_limits None ''T'')\<rparr>"
proof -
  have k: "read_operating_envelope demo_sha ((demo_plane p)\<lparr>st_events := []\<rparr>) ''PAPER'' = Inr \<lparr>es_status = ENVELOPE_CONFIGURATION_REQUIRED,
      es_mode = ''PAPER'', es_current = None, es_sha256 = GENESIS_POLICY_SHA256\<rparr>"
    by (simp add: read_operating_envelope_def SUPPORTED_MODES_def filtered_execution_events_def)
  have w: "envelope_wf ''PAPER'' demo_limits"
    unfolding demo_limits_def by (rule normalize_envelope_wf [OF demo_envelope_body])
  show ?thesis
    using read_after_row [OF k _ w, of "demo_plane p" "''T''"] by (simp add: demo_limit_event_def)
qed

lemma demo_mode: "obligation_mode p s = Some ''PAPER''" if "p_bot p = ''BOT-1''" and "st_bots s = [demo_bot]"
  using that by (simp add: obligation_mode_def get_bot_def demo_bot_def)

lemma demo_view_of:
  "view_of spec_sha ''PAPER'' (Some ''POS-1'') (demo_plane demo_watched) = \<lparr>ov_mode = ''PAPER'', ov_positions = [demo_other], ov_events = []\<rparr>"
  by (simp add: view_of_def Let_def obligation_positions_def known_released_def known_flat_def demo_mode
      filtered_execution_events_def)

lemma demo_summary:
  "\<exists>os. obligation_summary spec_sha ''PAPER'' (Some ''POS-1'') (demo_plane demo_watched) = Inr os
     \<and> length (os_rows os) = 1 \<and> outstanding_cost_basis os = Some ''100''"
proof -
  let ?v = "\<lparr>ov_mode = ''PAPER'', ov_positions = [demo_other], ov_events = []\<rparr>" and ?s = "demo_plane demo_watched"
  have empty: "events_at ?v demo_other = []" "position_attempts ?v demo_other = []" "unresolved_attempts spec_sha ?v demo_other = []"
    by (simp_all add: events_at_def position_attempts_def attempts_in_def unresolved_attempts_def)
  have clean: "\<not> corrupt_events spec_sha ?v demo_other" "\<not> witness_conflict spec_sha demo_other ?s"
    by (simp_all add: corrupt_events_def events_of_def empty witness_conflict_def)
  have kept: "\<not> released spec_sha ?v ?s demo_other"
    by (simp add: released_def flat_position_def nonfill_position_def side_outcome_def unattempted_cancel_def empty)
  have amount: "as_decimal (Some ''100'') = Some (Fin False 100 0)" "as_decimal None = None"
    by (simp_all add: as_decimal_def dec_eval)
  have known: "\<not> state_unknown spec_sha ?v ?s demo_other"
    by (simp add: state_unknown_def demo_mode empty clean PRE_ATTEMPT_STATES_def held_quantity_def amount)
  have row: "obligation_of spec_sha ?v ?s demo_other =
      Inr (\<lparr>ob_position = ''POS-2'', ob_bot = ''BOT-1'', ob_strategy = p_strategy_id demo_other, ob_epoch = p_activation_epoch_id demo_other,
        ob_state = ''WATCHED'', ob_remaining = None, ob_cost_basis = Some (dec_text (Fin False 100 0)), ob_unknown = False\<rparr>,
        Some (Fin False 100 0))"
    by (simp add: obligation_of_def Let_def invalid_remainder_def cost_exposure_def held_quantity_def amount known dec_eval)
  have hundred: "dec_text (Fin False 100 0) = ''100''" and sum: "dec_add dec_zero (Fin False 100 0) = Inr (Fin False 100 0)"
    by (simp_all add: dec_eval)
  show ?thesis
    by (simp add: obligation_summary_def SUPPORTED_MODES_def demo_view_of obligation_step_def demo_mode kept row sum empty
        outstanding_cost_basis_def hundred del: dec_add.simps dec_text.simps)
qed

lemma demo_enforced:
  "enforce_operating_envelope demo_sha spec_sha ''PAPER'' (Some ''100'') (Some ''POS-1'') (demo_plane demo_watched) = Inr None"
proof -
  obtain os where os: "obligation_summary spec_sha ''PAPER'' (Some ''POS-1'') (demo_plane demo_watched) = Inr os"
    "length (os_rows os) = 1" "outstanding_cost_basis os = Some ''100''"
    using demo_summary by blast
  have amount: "as_decimal (Some ''100'') = Some (Fin False 100 0)" "dec_less dec_zero (Fin False 100 0)"
    "dec_of_string ''100'' = Inr (Fin False 100 0)" "dec_add (Fin False 100 0) (Fin False 100 0) = Inr (Fin False 200 0)"
    "dec_of_string ''1000'' = Inr (Fin False 1000 0)" "dec_lt (Fin False 1000 0) (Fin False 200 0) = Inr False"
    by (simp_all add: as_decimal_def dec_eval)
  show ?thesis
    by (simp add: enforce_operating_envelope_def demo_limits_in_force os amount envelope_refusal_def next_envelope_def demo_limits_def
        del: dec_add.simps)
qed

lemma demo_ordinary_begin:
  "\<exists>s'. begin_modeled_attempt demo_sha demo_sha 0 None demo_ordinary (demo_plane demo_watched) =
     Inr (AttemptStarted (attempt_payload demo_sha demo_ordinary demo_watched), s')"
proof -
  let ?s = "demo_plane demo_watched"
  have p: "get_position ''POS-1'' ?s = Some demo_watched" and b: "get_bot ''BOT-1'' ?s = Some demo_bot"
    by (simp_all add: get_position_def get_bot_def demo_bot_def)
  have bt: "b_mode demo_bot = ''PAPER''" "b_status demo_bot = ''RUNNING''" "\<not> b_entries_paused demo_bot"
    by (simp_all add: demo_bot_def)
  have aid: "attempt_id demo_sha demo_ordinary = CHR ''A'' # ''TTEMPT-'' @ map upper_char (demo_sha (JObj (attempt_identity demo_ordinary)))"
    by (simp add: attempt_id_def)
  have none: "find_event (attempt_id demo_sha demo_ordinary) ?s = None"
    by (simp add: find_event_def aid)
  then have get: "get_execution_event (attempt_id demo_sha demo_ordinary) ?s = Inr None"
    by (simp add: get_execution_event_def)
  have sc: "effective_operating_scope None ?s ''PAPER'' = \<lparr>sc_managed = False, sc_mode = ''PAPER'', sc_state = None, sc_reason = None\<rparr>"
    by (simp add: effective_operating_scope_def lifecycle_marks_def OPERATING_ENVELOPE_EVENT_def)
  have prior: "no_conflicting_attempt demo_ordinary demo_watched ?s = Inr ()"
    by (simp add: no_conflicting_attempt_def prior_attempts_def filtered_execution_events_def)
  have rb: "resume_block demo_sha ?s demo_bot ''PAPER'' False = Inr None"
    by (simp add: resume_block_def bt resolve_current_policy_def latest_runtime_policy_row_def mode_policies_def SUPPORTED_MODES_def)
  have age: "entry_age demo_ordinary = Inr False"
    by (simp add: entry_age_def clock_of_def time_eval)
  have adm: "p_admitted_entry_notional_usd_dec demo_watched = Some ''100''" by (simp add: demo_watched_def)
  have move: "transitions ''POS-1'' [SIGNALLED, INTENT_CREATED, ATTEMPTING] ?s = Inr (demo_plane demo_attempting)"
    by (simp add: demo_plane_def demo_store_def store_eval)
      (simp add: demo_watched_def demo_attempting_def blank_position_def)
  obtain s' where sent: "started demo_sha demo_ordinary demo_watched (demo_plane demo_attempting) =
      Inr (AttemptStarted (attempt_payload demo_sha demo_ordinary demo_watched), s')"
    by (simp add: started_def append_execution_event_def aid find_event_def)
  have entry: "begin_entry demo_sha demo_sha demo_ordinary (effective_operating_scope None ?s ''PAPER'') demo_watched demo_bot ?s =
      Inr (AttemptStarted (attempt_payload demo_sha demo_ordinary demo_watched), s')"
    by (simp add: begin_entry_def age rb sc PRE_ATTEMPT_STATES_def to_attempting_def adm demo_enforced move [simplified] sent)
  show ?thesis
    using p b bt get prior entry
    by (simp add: begin_modeled_attempt_def immediate_write_def operating_attempt_block_def sc)
qed

text \<open>C15: an entry waits for every earlier result. When \<open>begin_modeled_attempt\<close> permits an ordinary or
  managed entry, every other position of the mode that holds a quantity is in a settled state of its entry
  (not ATTEMPTING, not UNKNOWN), and every attempt of every other position of the mode, entry or exit,
  already has its final event in the store.\<close>

theorem send_waits_for_results:
  assumes "begin_modeled_attempt sha spec_sha wall row q s = Inr (AttemptStarted d, s')" and "ar_side q = ''ENTRY''"
    and "enveloped row q s" and "p \<in> set (st_positions s)" and "p_id p \<noteq> ar_position q"
    and "obligation_mode p s \<in> {None, Some (ar_mode q)}"
  shows "(holding p \<longrightarrow> p_state p \<notin> {UNKNOWN, ATTEMPTING})
    \<and> (\<forall>a \<in> set (st_events s). e_type a = ''MODELED_ATTEMPT_STARTED'' \<and> e_position a = Some (p_id p)
          \<longrightarrow> find_event (''FINAL-'' @ e_id a) s \<noteq> None)"
proof -
  obtain p0 where "get_position (ar_position q) s = Some p0"
    and "enforce_operating_envelope sha spec_sha (ar_mode q) (p_admitted_entry_notional_usd_dec p0)
      (Some (ar_position q)) s = Inr None"
    using assms(1-3) by (rule sent_entry_passed)
  note passed = this(2)
  obtain os where os: "obligation_summary spec_sha (ar_mode q) (Some (ar_position q)) s = Inr os" "\<not> os_unknown os"
    using passed by (rule envelope_passed)
  have "\<not> awaiting s p" and "holding p \<longrightarrow> p_state p \<notin> {UNKNOWN, ATTEMPTING}"
    using summary_counts(2) [OF os assms(4)] assms(5,6) by (auto simp: counted_def)
  then show ?thesis by (auto simp: awaiting_def list_ex_iff)
qed

text \<open>C16: an entry keeps within the owner's envelope. When an ordinary or managed entry is permitted, an
  operating envelope of its mode is in force and the other positions of the mode that hold a quantity or
  await a result, together with the new one, are no more than its limit.\<close>

theorem sends_within_position_limit:
  assumes "begin_modeled_attempt sha spec_sha wall row q s = Inr (AttemptStarted d, s')" and "ar_side q = ''ENTRY''"
    and "enveloped row q s"
  shows "\<exists>current e. read_operating_envelope sha s (ar_mode q) = Inr current \<and> es_current current = Some e
    \<and> int (length (filter (counted (ar_mode q) (ar_position q) s) (st_positions s))) + 1 \<le> en_max_positions (er_body e)"
proof -
  obtain p where "get_position (ar_position q) s = Some p"
    and "enforce_operating_envelope sha spec_sha (ar_mode q) (p_admitted_entry_notional_usd_dec p)
      (Some (ar_position q)) s = Inr None"
    using assms by (rule sent_entry_passed)
  note passed = this(2)
  obtain current e os where "read_operating_envelope sha s (ar_mode q) = Inr current" and "es_current current = Some e"
    and os: "obligation_summary spec_sha (ar_mode q) (Some (ar_position q)) s = Inr os"
    and limit: "int (length (os_rows os)) + 1 \<le> en_max_positions (er_body e)"
    using passed by (rule envelope_passed)
  moreover have "int (length (filter (counted (ar_mode q) (ar_position q) s) (st_positions s))) + 1 \<le> en_max_positions (er_body e)"
    using summary_counts(1) [OF os] limit by linarith
  ultimately show ?thesis by blast
qed

lemma send_waits_for_results_witness:
  "obligation_mode demo_other (demo_plane demo_watched) = Some ''PAPER'' \<and> demo_other \<in> set (st_positions (demo_plane demo_watched))
   \<and> p_state demo_other \<notin> {UNKNOWN, ATTEMPTING}
   \<and> [a \<leftarrow> st_events (demo_plane demo_watched). e_type a = ''MODELED_ATTEMPT_STARTED'' \<and> e_position a = Some ''POS-2''
        \<and> find_event (''FINAL-'' @ e_id a) (demo_plane demo_watched) = None] = []"
proof -
  obtain s' where sent: "begin_modeled_attempt demo_sha demo_sha 0 None demo_ordinary (demo_plane demo_watched) =
     Inr (AttemptStarted (attempt_payload demo_sha demo_ordinary demo_watched), s')"
    using demo_ordinary_begin by blast
  have "enveloped None demo_ordinary (demo_plane demo_watched)" by (simp add: enveloped_def)
  from send_waits_for_results [OF sent demo_ordinary_fields(2) this, of demo_other]
  show ?thesis by (simp add: demo_mode)
qed

lemma sends_within_position_limit_witness:
  "\<exists>current e. read_operating_envelope demo_sha (demo_plane demo_watched) ''PAPER'' = Inr current \<and> es_current current = Some e
    \<and> int (length (filter (counted ''PAPER'' ''POS-1'' (demo_plane demo_watched)) [demo_watched, demo_other])) + 1 \<le> en_max_positions (er_body e)"
proof -
  obtain s' where sent: "begin_modeled_attempt demo_sha demo_sha 0 None demo_ordinary (demo_plane demo_watched) =
     Inr (AttemptStarted (attempt_payload demo_sha demo_ordinary demo_watched), s')"
    using demo_ordinary_begin by blast
  have "enveloped None demo_ordinary (demo_plane demo_watched)" by (simp add: enveloped_def)
  from sends_within_position_limit [OF sent demo_ordinary_fields(2) this] show ?thesis by simp
qed

end
