(* ===== verification/SignalClaims.thy ===== *)
theory SignalClaims
  imports SignalFacts DeskClaims ObligationClaims
begin

section \<open>What an accepted decision guarantees\<close>

text \<open>
  The properties of \<open>accept_signal_decision_outcome\<close>: a new position was admitted and keeps the limits, a
  refusal opens nothing, a decision that was filled is only reported when it comes again, and no fill
  passes a stop.
\<close>

definition signal_bot :: "(jval \<Rightarrow> string) \<Rightarrow> int \<Rightarrow> dict option \<Rightarrow> signal_request \<Rightarrow> store \<Rightarrow> (bot \<times> store) res" where
  "signal_bot sha wall row q s =
     start_bot sha wall row (sq_strategy q) (sq_mode q) (Some (sd_activation_epoch_id (sq_decision q))) s"

lemma note_signal_result:
  assumes "note_signal spec_sha q s = Inr (out, s')"
  shows "st_positions s' = st_positions s" and "st_bots s' = st_bots s" and "\<exists>a c i. out = SignalNoted a c i"
proof -
  let ?d = "sq_decision q"
  obtain previous where e: "get_execution_event (''DECISION-'' @ sd_id ?d) s = Inr previous"
    and none: "get_position (sq_position q) s = None"
    using assms by (auto simp: note_signal_def Let_def bindR_eq_Inr result_simps)
  note run = assms [unfolded note_signal_def Let_def immediate_write_eq_Inr e bindR_simps]
  have "st_positions s' = st_positions s \<and> st_bots s' = st_bots s \<and> (\<exists>a c i. out = SignalNoted a c i)"
  proof (cases previous)
    case None
    then show ?thesis using run none by (auto simp: bindR_eq_Inr simp del: dict_with_simps dest: append_event_result(1,2))
  next
    case (Some ev)
    then show ?thesis using run none by (auto split: option.splits if_splits)
  qed
  then show "st_positions s' = st_positions s" and "st_bots s' = st_bots s" and "\<exists>a c i. out = SignalNoted a c i" by blast+
qed

text \<open>What may happen after the reservation of a position that waits for its fill.\<close>

definition filled_from :: "string \<Rightarrow> reservation \<Rightarrow> store \<Rightarrow> signal_outcome \<Rightarrow> store \<Rightarrow> bool" where
  "filled_from pid y s out s' =
     (case y of Answered m \<Rightarrow> out = m \<and> s' = s
      | Reserved bid n \<Rightarrow> \<forall>x. get_position pid s = Some x \<longrightarrow> p_state x \<in> set PRE_ATTEMPT_STATES \<longrightarrow>
          same_others pid s s' \<and> (\<forall>v k w. out = SignalFilled v k w \<longrightarrow>
            get_position pid s' = Some v \<and> p_state v = OPEN \<and> p_entered_notional_usd v = Some (FloatOf n)))"

lemma fill_signal_filled:
  assumes "fill_signal sha spec_sha wall row q stale bid n w s = Inr (out, s')"
  shows "filled_from (sq_position q) (Reserved bid n) s out s'"
proof -
  have "same_others (sq_position q) s s' \<and> (\<forall>v k w. out = SignalFilled v k w \<longrightarrow>
      get_position (sq_position q) s' = Some v \<and> p_state v = OPEN \<and> p_entered_notional_usd v = Some (FloatOf n))"
    if "get_position (sq_position q) s = Some x" and "p_state x \<in> set PRE_ATTEMPT_STATES" for x
    using assms that
  proof (cases rule: fill_signal_result)
    case (refused r)
    then show ?thesis by (simp add: same_rows_others)
  next
    case (blocked b code cancel r)
    then show ?thesis using cancel_others [OF blocked(3)] by simp
  next
    case (filled b v)
    have "y = v" if "out = SignalFilled y k z" for y k z using that filled(4) by simp
    then show ?thesis using filled(5-8) by (intro conjI allI impI) simp_all
  qed
  then show ?thesis unfolding filled_from_def reservation.case by blast
qed

lemma enter_after_reservation:
  assumes "enter_signal sha spec_sha wall row q stale n s = Inr (out, s')"
  obtains y s2 where "reserve_signal sha spec_sha wall row q stale n s = Inr (y, s2)" and "store_advance s2 s'"
    and "filled_from (sq_position q) y s2 out s'"
  using assms
proof (cases rule: enter_result)
  case answered
  then show thesis using that [of "Answered out" s'] by (simp add: filled_from_def)
next
  case (deferred bid m p)
  then show thesis using that [of "Reserved bid m" s'] by (simp add: filled_from_def)
next
  case (filled bid m s1)
  show thesis by (rule that [OF filled(1) fill_signal_advance [OF filled(3)] fill_signal_filled [OF filled(3)]])
qed

lemma accept_enters:
  assumes run: "accept_signal_decision_outcome sha spec_sha wall row q s = Inr (out, s')"
    and enter: "sd_action (sq_decision q) = ''ENTER''"
  obtains stale n where "enter_signal sha spec_sha wall row q stale n s = Inr (out, s')"
  using assms by (auto simp: accept_signal_decision_outcome_def bindR_eq_Inr)

lemma new_position_enters:
  assumes "accept_signal_decision_outcome sha spec_sha wall row q s = Inr (out, s')"
    and "get_position (sq_position q) s = None" and "get_position (sq_position q) s' = Some p"
  shows "sd_action (sq_decision q) = ''ENTER''"
proof (rule ccontr)
  assume "sd_action (sq_decision q) \<noteq> ''ENTER''"
  then have "note_signal spec_sha q s = Inr (out, s')"
    using assms(1) by (auto simp: accept_signal_decision_outcome_def bindR_eq_Inr)
  then show False using note_signal_result(1) assms(2,3) by (metis get_position_def option.distinct(1))
qed

text \<open>The history of a new position: its bot, its admission, its reservation, and the same row since.\<close>

lemma accepted_new:
  assumes run: "accept_signal_decision_outcome sha spec_sha wall row q s = Inr (out, s')"
    and absent: "get_position (sq_position q) s = None" and made: "get_position (sq_position q) s' = Some p"
  obtains b s1 current r n s2 x where "signal_bot sha wall row q s = Inr (b, s1)"
    and "b_status b \<notin> {''DRAINING'', ''STOPPED''}" and "\<not> b_entries_paused b"
    and "scope_refusal sha spec_sha wall row q None s1 = Inr None"
    and "resolve_current_policy sha s1 (sq_mode q) = Inr current"
    and "entry_risk_of sha spec_sha row q b current s1 = Inr r" and "ad_decision (er_admission r) = ''ALLOW''"
    and "dec_of_string (ad_effective (er_admission r)) = Inr n" and "get_position (sq_position q) s1 = None"
    and "get_position (sq_position q) s2 = Some x" and "frozen_row spec_sha q b (cu_policy current) r n x"
    and "store_advance s2 s'" and "same_others (sq_position q) s1 s'" and "risk_recorded spec_sha q b r s'"
    and "\<And>y k w. out = SignalFilled y k w \<Longrightarrow> y = p \<and> p_state p = OPEN \<and> p_entered_notional_usd p = Some (FloatOf n)"
proof -
  let ?pid = "sq_position q"
  obtain stale asked where "enter_signal sha spec_sha wall row q stale asked s = Inr (out, s')"
    using run new_position_enters [OF assms] by (rule accept_enters)
  then obtain y s2 where y: "reserve_signal sha spec_sha wall row q stale asked s = Inr (y, s2)" and adv: "store_advance s2 s'"
    and since: "filled_from ?pid y s2 out s'"
    by (rule enter_after_reservation)
  obtain b s1 where b: "start_bot sha wall row (sq_strategy q) (sq_mode q) (Some (sd_activation_epoch_id (sq_decision q))) s = Inr (b, s1)"
    and f: "reserve_fresh sha spec_sha wall row q stale b s1 = Inr (y, s2)" and none: "get_position ?pid s1 = None"
    using y absent by (rule reserve_absent_result)
  have told: "y \<noteq> Answered m" if "st_positions s2 = st_positions s1" for m
    using that none made since by (auto simp: filled_from_def get_position_def)
  have rn: "scope_refusal sha spec_sha wall row q None s1 = Inr None" "reserve_new sha spec_sha row q b s1 = Inr (y, s2)"
    using f none told by (auto elim: reserve_fresh_result)
  from rn(2) none show thesis
  proof (cases rule: reserve_new_result)
    case (refused m)
    then show thesis using told by blast
  next
    case (reserved current r n x)
    then have "same_others ?pid s2 s'" and fin: "\<And>v k w. out = SignalFilled v k w \<Longrightarrow>
        get_position ?pid s' = Some v \<and> p_state v = OPEN \<and> p_entered_notional_usd v = Some (FloatOf n)"
      using since by (auto simp: filled_from_def PRE_ATTEMPT_STATES_def)
    then have "same_others ?pid s1 s'" using reserved(8) same_others_trans by blast
    moreover have "y = p \<and> p_state p = OPEN \<and> p_entered_notional_usd p = Some (FloatOf n)" if "out = SignalFilled y k w" for y k w
      using fin [OF that] made by simp
    moreover have "signal_bot sha wall row q s = Inr (b, s1)" using b by (simp add: signal_bot_def)
    moreover have "risk_recorded spec_sha q b r s'" using reserved(12) adv by (rule risk_recorded_since)
    ultimately show thesis
      using that [of b s1 current r n s2 x] reserved(2-7) rn(1) none reserved(9,11) adv by blast
  qed
qed

subsection \<open>Admission\<close>

lemma envelope_refusal_code: "envelope_refusal current count owed amount = Inr (Some code) \<Longrightarrow> code \<noteq> ''ALLOW''"
  by (cases "es_status current") (auto simp: envelope_refusal_def bindR_eq_Inr split: option.splits if_splits)

lemma enforce_code:
  "enforce_operating_envelope sha spec_sha mode amount exclude s = Inr (Some code) \<Longrightarrow> code \<noteq> ''ALLOW''"
  by (auto simp: enforce_operating_envelope_def bindR_eq_Inr result_simps dest: envelope_refusal_code split: option.splits)

text \<open>An allowed entry risk is an allowed admission within the envelope.\<close>

lemma entry_risk_allowed:
  assumes "entry_risk_of sha spec_sha row q b current s = Inr r" and "ad_decision (er_admission r) = ''ALLOW''"
  obtains inventory a where "open_risk_inventory (sq_mode q) (sg_id (sq_strategy q)) (sd_mint (sq_decision q)) (b_id b) s = Inr inventory"
    and "evaluate_admission (sq_mode q) (terms_of (sq_strategy q)) b (sd_mint (sq_decision q)) (cu_status current) (cu_policy current)
           inventory = Inr a"
    and "er_admission r = a" and "ad_decision a = ''ALLOW''"
    and "effective_operating row q s \<longrightarrow>
           enforce_operating_envelope sha spec_sha (sq_mode q) (Some (ad_effective a)) None s = Inr None"
proof -
  obtain inventory a where i: "open_risk_inventory (sq_mode q) (sg_id (sq_strategy q)) (sd_mint (sq_decision q)) (b_id b) s = Inr inventory"
    and a: "evaluate_admission (sq_mode q) (terms_of (sq_strategy q)) b (sd_mint (sq_decision q)) (cu_status current) (cu_policy current)
           inventory = Inr a"
    using assms(1) by (auto simp: entry_risk_of_def Let_def bindR_eq_Inr)
  note run = assms(1) [unfolded entry_risk_of_def Let_def i a bindR_simps]
  show thesis
  proof (cases "effective_operating row q s \<and> ad_decision a = ''ALLOW''")
    case False
    then have "er_admission r = a" using run by auto
    then show thesis using that i a assms(2) False by blast
  next
    case True
    then obtain op where op: "operating_risk_of sha spec_sha (sq_mode q) (ad_effective a) None s = Inr op"
      and r: "er_admission r = (case or_refusal op of None \<Rightarrow> a | Some code \<Rightarrow> a\<lparr>ad_decision := code, ad_reason_codes := [code]\<rparr>)"
      using run by (auto simp: bindR_eq_Inr)
    have e: "enforce_operating_envelope sha spec_sha (sq_mode q) (Some (ad_effective a)) None s = Inr (or_refusal op)"
      using op by (auto simp: operating_risk_of_def bindR_eq_Inr)
    have "or_refusal op = None" using r assms(2) e by (cases "or_refusal op") (auto dest: enforce_code)
    then show thesis using that i a r e True by simp
  qed
qed

text \<open>The record of the admission: an event of the bot with the whole admission, the decision and its instant.\<close>

definition snapshot_of :: "(jval \<Rightarrow> string) \<Rightarrow> signal_request \<Rightarrow> bot \<Rightarrow> admission \<Rightarrow> store \<Rightarrow> bool" where
  "snapshot_of spec_sha q b a s =
     (\<exists>e\<in>set (st_events s). e_type e = ''PRE_TRADE_RISK_SNAPSHOT'' \<and> e_bot e = Some (b_id b)
        \<and> (\<exists>payload. e_payload e = Some (JObj payload)
             \<and> (\<forall>k v. fmlookup (admission_dict a) k = Some v \<longrightarrow> fmlookup payload k = Some v)
             \<and> jget payload ''signal_decision_sha256'' = JStr (decision_sha256 spec_sha (sq_decision q))
             \<and> jget payload ''evaluated_at'' = JStr (sq_as_of q)))"

lemma snapshot_identity [simp]:
  "ad_mint (admission_snapshot decision codes mode sg mint b status p asked effective i) = mint"
  "ad_strategy_id (admission_snapshot decision codes mode sg mint b status p asked effective i) = sg_id sg"
  "ad_strategy_version (admission_snapshot decision codes mode sg mint b status p asked effective i) = sg_version sg"
  by (simp_all add: admission_snapshot_def)

lemma evaluated_identity:
  "evaluate_admission mode sg b mint status p i = Inr a \<Longrightarrow>
     ad_mint a = mint \<and> ad_strategy_id a = sg_id sg \<and> ad_strategy_version a = sg_version sg"
  by (auto simp: evaluate_admission_def if_Inl_eq_Inr bindR_eq_Inr split: option.splits)

lemma risk_payload_decision:
  "jget (risk_payload spec_sha q r) ''signal_decision_sha256'' = JStr (decision_sha256 spec_sha (sq_decision q))"
  "jget (risk_payload spec_sha q r) ''evaluated_at'' = JStr (sq_as_of q)"
proof -
  have none: "fmlookup (decision_identity d) ''signal_decision_sha256'' = None" "fmlookup (decision_identity d) ''evaluated_at'' = None" for d
    by (simp_all add: decision_identity_def identity_lookup IDENTITY_KEYS_def)
  show "jget (risk_payload spec_sha q r) ''signal_decision_sha256'' = JStr (decision_sha256 spec_sha (sq_decision q))"
    "jget (risk_payload spec_sha q r) ''evaluated_at'' = JStr (sq_as_of q)"
    using none by (cases "er_operating r";
      simp add: risk_payload_def Let_def jget_def lineage_of_def dict_with_lookup fmdom_notI del: dict_with_simps)+
qed

lemma risk_recorded_snapshot:
  assumes "risk_recorded spec_sha q b r s" and "er_admission r = a" and "ad_mint a = sd_mint (sq_decision q)"
    and "ad_strategy_id a = sg_id (sq_strategy q)" and "ad_strategy_version a = sg_version (sq_strategy q)"
  shows "snapshot_of spec_sha q b a s"
proof -
  have "fmlookup (admission_dict a) k = Some v \<Longrightarrow> fmlookup (risk_payload spec_sha q r) k = Some v" for k v
    using risk_payload_admission [of r q k v spec_sha] assms(2-5) by simp
  then show ?thesis using assms(1) risk_payload_decision [of spec_sha q r] unfolding snapshot_of_def risk_recorded_def by blast
qed

text \<open>C10: a new position was admitted, and the admission is on record. When
  \<open>accept_signal_decision_outcome\<close> returns with a position that was not there before, its bot was running and
  not paused, \<open>evaluate_admission\<close> allowed the entry on the inventory of open risk and the policy in force,
  for an ordinary or managed entry the owner's envelope allowed it as well, and the row holds the notional
  that was admitted; a fill in the same call is for that notional. The store holds a
  \<open>PRE_TRADE_RISK_SNAPSHOT\<close> of the bot with every entry of that admission, the digest of the decision and the
  instant of the evaluation.\<close>

theorem new_entry_was_admitted:
  assumes "accept_signal_decision_outcome sha spec_sha wall row q s = Inr (out, s')"
    and "get_position (sq_position q) s = None" and "get_position (sq_position q) s' = Some p"
  shows "\<exists>b s1 current inventory a n. signal_bot sha wall row q s = Inr (b, s1)
    \<and> b_status b \<notin> {''DRAINING'', ''STOPPED''} \<and> \<not> b_entries_paused b
    \<and> resolve_current_policy sha s1 (sq_mode q) = Inr current
    \<and> open_risk_inventory (sq_mode q) (sg_id (sq_strategy q)) (sd_mint (sq_decision q)) (b_id b) s1 = Inr inventory
    \<and> evaluate_admission (sq_mode q) (terms_of (sq_strategy q)) b (sd_mint (sq_decision q)) (cu_status current)
        (cu_policy current) inventory = Inr a
    \<and> ad_decision a = ''ALLOW'' \<and> dec_of_string (ad_effective a) = Inr n
    \<and> (effective_operating row q s1 \<longrightarrow>
         enforce_operating_envelope sha spec_sha (sq_mode q) (Some (ad_effective a)) None s1 = Inr None)
    \<and> p_bot p = b_id b \<and> p_admitted_entry_notional_usd_dec p = Some (dec_text n)
    \<and> p_strategy_requested_notional_usd_dec p = Some (ad_requested a)
    \<and> (\<forall>x. cu_policy current = Some x \<longrightarrow> p_runtime_policy_sha256 p = Some (pl_sha256 x))
    \<and> (\<forall>y k w. out = SignalFilled y k w \<longrightarrow> p_entered_notional_usd p = Some (FloatOf n))
    \<and> snapshot_of spec_sha q b a s'"
proof -
  obtain b s1 current r n s2 x where bot: "signal_bot sha wall row q s = Inr (b, s1)"
    "b_status b \<notin> {''DRAINING'', ''STOPPED''}" "\<not> b_entries_paused b"
    and c: "resolve_current_policy sha s1 (sq_mode q) = Inr current"
    and r: "entry_risk_of sha spec_sha row q b current s1 = Inr r" "ad_decision (er_admission r) = ''ALLOW''"
    and n: "dec_of_string (ad_effective (er_admission r)) = Inr n"
    and x: "get_position (sq_position q) s2 = Some x" "frozen_row spec_sha q b (cu_policy current) r n x" "store_advance s2 s'"
    and kept: "risk_recorded spec_sha q b r s'"
    and filled: "\<And>y k w. out = SignalFilled y k w \<Longrightarrow> y = p \<and> p_state p = OPEN \<and> p_entered_notional_usd p = Some (FloatOf n)"
    using assms by (rule accepted_new) blast
  obtain inventory a where i: "open_risk_inventory (sq_mode q) (sg_id (sq_strategy q)) (sd_mint (sq_decision q)) (b_id b) s1 = Inr inventory"
    and a: "evaluate_admission (sq_mode q) (terms_of (sq_strategy q)) b (sd_mint (sq_decision q)) (cu_status current) (cu_policy current)
           inventory = Inr a" "er_admission r = a" "ad_decision a = ''ALLOW''"
    and e: "effective_operating row q s1 \<longrightarrow>
           enforce_operating_envelope sha spec_sha (sq_mode q) (Some (ad_effective a)) None s1 = Inr None"
    using r by (rule entry_risk_allowed)
  obtain p' where "get_position (sq_position q) s' = Some p'" and "row_advance x p'" using x(3,1) by (rule store_advance_position)
  then have "row_advance x p" using assms(3) by simp
  then have "p_bot p = b_id b" and "p_admitted_entry_notional_usd_dec p = Some (dec_text n)"
    and "p_strategy_requested_notional_usd_dec p = Some (ad_requested a)"
    and "\<forall>y. cu_policy current = Some y \<longrightarrow> p_runtime_policy_sha256 p = Some (pl_sha256 y)"
    using x(2) a(2) by (auto simp: frozen_row_def row_advance_def same_identity_def admission_kept_def kept_def)
  moreover have "snapshot_of spec_sha q b a s'" using risk_recorded_snapshot [OF kept] a i by (simp add: evaluated_identity strategy_terms.truncate_def)
  ultimately show ?thesis using bot c i a e n filled
    by (intro exI [of _ b] exI [of _ s1] exI [of _ current] exI [of _ inventory] exI [of _ a] exI [of _ n]) blast
qed

subsection \<open>Limits\<close>

lemma allowed_counts:
  assumes "evaluate_admission mode sg b mint status p i = Inr a" and "ad_decision a = ''ALLOW''"
  shows "count_block sg (policy_in_force status p) i = None"
proof -
  obtain asked cap e block where m: "mode \<noteq> ''LIVE''" and q: "jdecimal (sg_notional sg) = Inr asked"
    and c: "runtime_entry_cap (policy_in_force status p) (sg_id sg) = Inr cap" and e: "effective_entry_notional asked cap = Inr e"
    and bl: "admission_block sg b status (policy_in_force status p) i e = Inr block"
    using assms(1) by (auto simp: evaluate_admission_def bindR_eq_Inr split: if_splits)
  have "block = None"
    using assms m q c e bl block_decision_not_allow
    by (cases block) (auto simp: evaluate_admission_def admission_snapshot_def)
  then show ?thesis using bl by (auto simp: admission_block_def or_else_def bindR_eq_Inr split: option.splits)
qed

lemma terms_fields [simp]: "sg_id (terms_of sy) = sg_id sy" "sg_max_open (terms_of sy) = sg_max_open sy"
  by (simp_all add: strategy_terms.truncate_def)

text \<open>The limits on numbers of positions, for the rows of open risk as they are.\<close>

definition counts_kept :: "strategy \<Rightarrow> string \<Rightarrow> string \<Rightarrow> policy_body option \<Rightarrow> position list \<Rightarrow> bool" where
  "counts_kept sy bid mint body rs =
     (int (number_of (of_bot bid) rs) \<le> sg_max_open sy
      \<and> (\<forall>m. runtime_strategy_max body (sg_id sy) = Some m \<longrightarrow> int (number_of (of_strategy (sg_id sy)) rs) \<le> m)
      \<and> (\<forall>x m. body = Some x \<longrightarrow> pb_total_positions x = Some m \<longrightarrow> int (length rs) \<le> m)
      \<and> (\<forall>x m. body = Some x \<longrightarrow> pb_mint_positions x = Some m \<longrightarrow> int (number_of (\<lambda>r. p_mint r = mint) rs) \<le> m))"

lemma resolve_same_policies: "st_policies s' = st_policies s \<Longrightarrow> resolve_current_policy sha s' mode = resolve_current_policy sha s mode"
  by (simp add: resolve_current_policy_def latest_runtime_policy_row_def mode_policies_def)

text \<open>C11: a new position keeps the limits. After a call that made a new position, the open-risk rows of its
  bot are at most the strategy's maximum, and those of its strategy, mode and mint at most what the policy
  in force allows.\<close>

theorem new_entry_keeps_limits:
  assumes "accept_signal_decision_outcome sha spec_sha wall row q s = Inr (out, s')" and "store_wf s"
    and "get_position (sq_position q) s = None" and "get_position (sq_position q) s' = Some p"
  shows "\<exists>current. resolve_current_policy sha s' (sq_mode q) = Inr current
    \<and> counts_kept (sq_strategy q) (p_bot p) (sd_mint (sq_decision q)) (policy_in_force (cu_status current) (cu_policy current))
        (open_rows (sq_mode q) s')"
proof -
  obtain b s1 current r n s2 x where bot: "signal_bot sha wall row q s = Inr (b, s1)"
    and c: "resolve_current_policy sha s1 (sq_mode q) = Inr current"
    and r: "entry_risk_of sha spec_sha row q b current s1 = Inr r" "ad_decision (er_admission r) = ''ALLOW''"
    and none: "get_position (sq_position q) s1 = None" and same: "same_others (sq_position q) s1 s'"
    and x: "get_position (sq_position q) s2 = Some x" "frozen_row spec_sha q b (cu_policy current) r n x" "store_advance s2 s'"
    using assms(1,3,4) by (rule accepted_new) blast
  obtain inventory a where i: "open_risk_inventory (sq_mode q) (sg_id (sq_strategy q)) (sd_mint (sq_decision q)) (b_id b) s1 = Inr inventory"
    and a: "evaluate_admission (sq_mode q) (terms_of (sq_strategy q)) b (sd_mint (sq_decision q)) (cu_status current) (cu_policy current)
           inventory = Inr a" "ad_decision a = ''ALLOW''"
    using r by (rule entry_risk_allowed) blast
  obtain p' where "get_position (sq_position q) s' = Some p'" and "row_advance x p'" using x(3,1) by (rule store_advance_position)
  then have pb: "p_bot p = b_id b" using x(2) assms(4) by (simp add: frozen_row_def row_advance_def same_identity_def)
  have "store_wf s'" using accept_signal_advance [OF assms(1)] assms(2) by (simp add: store_advance_def)
  then have d: "distinct (map p_id (st_positions s'))" by (simp add: store_wf_def)
  have le: "number_of P (open_rows (sq_mode q) s') \<le> Suc (number_of P (open_rows (sq_mode q) s1))" for P
    by (rule one_more_row [OF same none d])
  have all: "length rs = number_of (\<lambda>_. True) rs" for rs by (simp add: number_of_def)
  have "counts_kept (sq_strategy q) (b_id b) (sd_mint (sq_decision q)) (policy_in_force (cu_status current) (cu_policy current))
        (open_rows (sq_mode q) s')"
    using allowed_counts [OF a] le [of "of_bot (b_id b)"] le [of "of_strategy (sg_id (sq_strategy q))"] le [of "\<lambda>_. True"]
      le [of "\<lambda>r. p_mint r = sd_mint (sq_decision q)"]
    unfolding counts_kept_def count_block_def reached_def inventory_counts [OF i] all
    by (fastforce split: if_splits option.splits)
  moreover have "resolve_current_policy sha s' (sq_mode q) = Inr current"
    using c resolve_same_policies [of s' s1] same by (simp add: same_others_def)
  ultimately show ?thesis by (intro exI [of _ current]) (simp add: pb)
qed

subsection \<open>Refusals\<close>

text \<open>The row of the decision, if there is one, still waits or is cancelled.\<close>

definition unfilled :: "string \<Rightarrow> store \<Rightarrow> bool" where
  "unfilled pid s = (\<forall>p. get_position pid s = Some p \<longrightarrow> p_state p \<in> set PRE_ATTEMPT_STATES \<or> p_state p = CANCELLED)"

lemma cancel_state: "cancel_entry_intent pid reason s = Inr (r, s') \<Longrightarrow> p_state r = CANCELLED \<and> get_position pid s' = Some r"
proof (erule cancel_result)
  fix r0 t s1 payload eid
  assume t: "transition pid CANCELLED s = Inr (t, s1)" and get: "get_position pid s' = Some r"
    and e: "append_execution_event ''ENTRY_INTENT_CANCELLED'' (Some (p_bot r0)) (Some pid)
             payload None None (upd_position pid (cancel_row reason) s1) = Inr (eid, s')"
  obtain r1 where "t = set_state CANCELLED (now_of s) r1" and "get_position pid s1 = Some t"
    using t by (rule transition_result) blast
  moreover have "get_position pid s' = get_position pid (upd_position pid (cancel_row reason) s1)"
    using e by (rule get_position_events)
  moreover have "get_position pid (upd_position pid (cancel_row reason) s1) = Some (cancel_row reason t)" 
    by (rule pos.get_upd_same) (simp_all add: cancel_row_def calculation(2))
  ultimately have "r = cancel_row reason t" using get by simp
  then show "p_state r = CANCELLED \<and> get_position pid s' = Some r"
    using get \<open>t = set_state CANCELLED (now_of s) r1\<close> by (simp add: cancel_row_def set_state_def)
qed simp

lemma resume_refusal_result:
  assumes "resume_refusal sha spec_sha q b code cancel s = Inr (x, s')"
  shows "same_others (sq_position q) s s'" and "refusal_recorded x s s'" and "unfilled (sq_position q) s'"
proof -
  obtain r s1 current where c: "cancel_entry_intent (sq_position q) cancel s = Inr (r, s1)"
    and f: "signal_refusal spec_sha (sq_strategy q) (sq_decision q) b (sq_mode q) (sq_as_of q) code
         \<lparr>rc_position = Some r, rc_risk_event = None, rc_policy = current\<rparr> s1 = Inr (x, s')"
    using assms by (auto simp: resume_refusal_def bindR_eq_Inr)
  show "same_others (sq_position q) s s'" by (rule same_others_trans [OF cancel_others [OF c] signal_refusal_others [OF f]])
  show "refusal_recorded x s s'" by (rule recorded_since [OF cancel_denials [OF c] signal_refusal_recorded [OF f]])
  show "unfilled (sq_position q) s'"
    using cancel_state [OF c] signal_refusal_result(1) [OF f] by (simp add: unfilled_def get_position_def)
qed

text \<open>The ways a standing reservation is answered.\<close>

lemma resume_result:
  assumes "resume_reserved sha spec_sha wall row q stale n b p s = Inr (y, s')"
  obtains (standing) "p_state p \<notin> set PRE_ATTEMPT_STATES" and "y = Answered (standing p)" and "s' = s"
  | (cancelled) x where "y = Answered (SignalRefused x)" and "same_others (sq_position q) s s'" and "refusal_recorded x s s'"
      and "unfilled (sq_position q) s'"
  | (refused) x where "p_state p \<in> set PRE_ATTEMPT_STATES" and "y = Answered (SignalRefused x)" and "st_positions s' = st_positions s"
      and "st_bots s' = st_bots s" and "st_policies s' = st_policies s" and "refusal_recorded x s s'"
  | (resumed) m where "p_state p \<in> set PRE_ATTEMPT_STATES" and "y = Reserved (b_id b) m" and "s' = s"
      and "resume_block sha s b (sq_mode q) stale = Inr None" and "resumed_notional sha q p n s = Inr m"
proof (cases "p_state p \<in> set PRE_ATTEMPT_STATES")
  case False
  then show thesis using assms standing by (simp add: resume_reserved_def)
next
  case True
  obtain block where bl: "resume_block sha s b (sq_mode q) stale = Inr block"
    using assms True by (auto simp: resume_reserved_def bindR_eq_Inr)
  show thesis
  proof (cases block)
    case (Some cc)
    obtain code cancel where cc: "cc = (code, cancel)" by (cases cc)
    obtain x where f: "resume_refusal sha spec_sha q b code cancel s = Inr (x, s')" and y: "y = Answered (SignalRefused x)"
      using assms True bl Some cc by (auto simp: resume_reserved_def refused_eq_Inr)
    show thesis by (rule cancelled [OF y resume_refusal_result [OF f]])
  next
    case None
    obtain m refusal where m: "resumed_notional sha q p n s = Inr m"
      and v: "scope_refusal sha spec_sha wall row q (Some m) s = Inr refusal"
      using assms True bl None by (auto simp: resume_reserved_def bindR_eq_Inr)
    show thesis
    proof (cases refusal)
      case (Some code)
      then obtain x where f: "signal_refusal spec_sha (sq_strategy q) (sq_decision q) b (sq_mode q) (sq_as_of q) code no_context s = Inr (x, s')"
        and y: "y = Answered (SignalRefused x)"
        using assms True bl None m v by (auto simp: resume_reserved_def refused_eq_Inr)
      show thesis by (rule refused [OF True y signal_refusal_result(1-3) [OF f] signal_refusal_recorded [OF f]])
    next
      case N: None
      then have "y = Reserved (b_id b) m" and "s' = s" using assms True bl None m v by (auto simp: resume_reserved_def)
      then show thesis using resumed True bl None m by blast
    qed
  qed
qed

lemma reserve_signal_result:
  assumes "reserve_signal sha spec_sha wall row q stale n s = Inr (y, s')"
  obtains b s1 where "signal_bot sha wall row q s = Inr (b, s1)" and "get_position (sq_position q) s = None"
    and "get_position (sq_position q) s1 = None" and "reserve_fresh sha spec_sha wall row q stale b s1 = Inr (y, s')"
  | p b s1 where "signal_bot sha wall row q s = Inr (b, s1)" and "get_position (sq_position q) s = Some p"
    and "get_position (sq_position q) s1 = Some p" and "existing_matches spec_sha q p = Inr ()"
    and "resume_reserved sha spec_sha wall row q stale n b p s1 = Inr (y, s')"
proof -
  obtain b s1 where b: "signal_bot sha wall row q s = Inr (b, s1)"
    using assms by (auto simp: reserve_signal_def Let_def bindR_eq_Inr immediate_write_eq_Inr signal_bot_def)
  then have same: "get_position (sq_position q) s1 = get_position (sq_position q) s"
    using start_bot_result(1) unfolding signal_bot_def by (simp add: get_position_def)
  note run = assms [unfolded reserve_signal_def Let_def, folded signal_bot_def, unfolded b bindR_simps]
  show thesis
  proof (cases "get_position (sq_position q) s")
    case None
    then show thesis using run b same that(1) by (simp add: result_simps)
  next
    case (Some p)
    then show thesis using run b same that(2) by (auto simp: result_simps)
  qed
qed

lemma signal_bot_others: "signal_bot sha wall row q s = Inr (b, s') \<Longrightarrow> others pid s' = others pid s"
  unfolding signal_bot_def using start_bot_result(1) by (simp add: others_def)

lemma same_rows_unfilled:
  "get_position pid s = Some p \<Longrightarrow> p_state p \<in> set PRE_ATTEMPT_STATES \<Longrightarrow> st_positions s' = st_positions s \<Longrightarrow> unfilled pid s'"
  "get_position pid s = None \<Longrightarrow> st_positions s' = st_positions s \<Longrightarrow> unfilled pid s'"
  by (simp_all add: unfilled_def get_position_def)

lemma standing_not_refused: "standing p \<noteq> SignalRefused x"
  by (simp add: standing_def)

lemma signal_bot_denials: "signal_bot sha wall row q s = Inr (b, s') \<Longrightarrow> denials s' = denials s"
  unfolding signal_bot_def using start_bot_result(2) by (rule same_events_denials)

lemma reserve_reserved_denials:
  assumes "reserve_signal sha spec_sha wall row q stale n s = Inr (Reserved bid m, s')"
  shows "denials s' = denials s"
  using assms
proof (cases rule: reserve_signal_result)
  case (1 b s1)
  have "reserve_new sha spec_sha row q b s1 = Inr (Reserved bid m, s')"
    using 1(4,3) by (cases rule: reserve_fresh_result) simp_all
  then show ?thesis using reserve_new_denials signal_bot_denials [OF 1(1)] by simp
next
  case (2 p b s1)
  show ?thesis using 2(5) signal_bot_denials [OF 2(1)] by (cases rule: resume_result) simp_all
qed

lemma reserve_refused:
  assumes "reserve_signal sha spec_sha wall row q stale n s = Inr (Answered (SignalRefused x), s')"
  shows "refusal_recorded x s s'" and "others (sq_position q) s' = others (sq_position q) s" and "unfilled (sq_position q) s'"
    and "get_position (sq_position q) s = None \<Longrightarrow> st_positions s' = st_positions s"
proof -
  have "refusal_recorded x s s' \<and> others (sq_position q) s' = others (sq_position q) s \<and> unfilled (sq_position q) s'
      \<and> (get_position (sq_position q) s = None \<longrightarrow> st_positions s' = st_positions s)"
    using assms
  proof (cases rule: reserve_signal_result)
    case (1 b s1)
    have o1: "st_positions s1 = st_positions s" using 1(1) start_bot_result(1) by (simp add: signal_bot_def)
    have "refusal_recorded x s1 s' \<and> st_positions s' = st_positions s1"
      using 1(4,3)
    proof (cases rule: reserve_fresh_result)
      case new
      show ?thesis using new(3) 1(3) by (cases rule: reserve_new_result) simp_all
    qed simp
    then show ?thesis using o1 same_rows_unfilled(2) [OF 1(3)] recorded_since [OF signal_bot_denials [OF 1(1)]]
      by (simp add: others_def)
  next
    case (2 p b s1)
    note o1 = signal_bot_others [OF 2(1)] and since = recorded_since [OF signal_bot_denials [OF 2(1)]]
    show ?thesis using 2(5)
    proof (cases rule: resume_result)
      case standing
      then show ?thesis using standing_not_refused [of p x] by simp
    next
      case (cancelled m)
      then show ?thesis using o1 since 2(2) by (simp add: same_others_def)
    next
      case (refused m)
      then show ?thesis using o1 since same_rows_unfilled(1) [OF 2(3)] 2(2) by (simp add: others_def)
    qed simp
  qed
  then show "refusal_recorded x s s'" and "others (sq_position q) s' = others (sq_position q) s" and "unfilled (sq_position q) s'"
    and "get_position (sq_position q) s = None \<Longrightarrow> st_positions s' = st_positions s"
    by blast+
qed

text \<open>A reservation that goes on to its fill is this decision's, waits, and stands with its own bot.\<close>

lemma frozen_matches:
  assumes "frozen_row spec_sha q b p r n x" and "b_id b = bot_instance_id (sq_strategy q) (sq_mode q) (Some (sd_activation_epoch_id (sq_decision q)))"
  shows "existing_matches spec_sha q x = Inr ()"
  using assms by (simp add: frozen_row_def existing_matches_def Let_def)

lemma signal_bot_id:
  assumes "signal_bot sha wall row q s = Inr (b, s')" and "sy_schema_version (sq_strategy q) = ''1.1''"
  shows "b_id b = bot_instance_id (sq_strategy q) (sq_mode q) (Some (sd_activation_epoch_id (sq_decision q)))"
  using assms unfolding signal_bot_def by (rule start_bot_id)

lemma reserve_reserved:
  assumes "reserve_signal sha spec_sha wall row q stale n s = Inr (Reserved bid m, s')"
    and v: "sy_schema_version (sq_strategy q) = ''1.1''"
  obtains b s1 x where "signal_bot sha wall row q s = Inr (b, s1)" and "bid = b_id b" and "get_bot (b_id b) s' = Some b"
    and "same_others (sq_position q) s1 s'" and "get_position (sq_position q) s' = Some x" and "p_state x \<in> set PRE_ATTEMPT_STATES"
    and "existing_matches spec_sha q x = Inr ()"
  using assms(1)
proof (cases rule: reserve_signal_result)
  case (1 b s1)
  have id: "get_bot (b_id b) s1 = Some b" using start_bot_result(4) 1(1) by (simp add: signal_bot_def)
  have "reserve_new sha spec_sha row q b s1 = Inr (Reserved bid m, s')"
    using 1(4,3) by (cases rule: reserve_fresh_result) simp_all
  then show thesis using 1(3)
  proof (cases rule: reserve_new_result)
    case (reserved current r k x)
    have "get_bot (b_id b) s' = Some b" using id reserved(8) by (simp add: same_others_def get_bot_def)
    moreover have "existing_matches spec_sha q x = Inr ()" using frozen_matches [OF reserved(11) signal_bot_id [OF 1(1) v]] .
    ultimately show thesis using that [OF 1(1)] reserved(1,8-10) by (simp add: PRE_ATTEMPT_STATES_def)
  qed simp
next
  case (2 p b s1)
  have id: "get_bot (b_id b) s1 = Some b" using start_bot_result(4) 2(1) by (simp add: signal_bot_def)
  show thesis using 2(5)
  proof (cases rule: resume_result)
    case (resumed k)
    then show thesis using that [OF 2(1)] id 2(3,4) by simp
  qed simp_all
qed

lemma checked_version: "signal_checked q = Inr age \<Longrightarrow> sy_schema_version (sq_strategy q) = ''1.1''"
  by (auto simp: signal_checked_def Let_def normalize_strategy_def bindR_eq_Inr result_simps split: if_splits)

lemma reserve_answers:
  assumes "reserve_signal sha spec_sha wall row q stale n s = Inr (Answered out, s')"
  shows "(\<exists>x. out = SignalRefused x) \<or> (\<exists>p. out = standing p)"
  using assms
proof (cases rule: reserve_signal_result)
  case (1 b s1)
  show ?thesis using 1(4,3)
  proof (cases rule: reserve_fresh_result)
    case new
    show ?thesis using new(3) 1(3) by (cases rule: reserve_new_result) simp_all
  qed simp
next
  case (2 p b s1)
  show ?thesis using 2(5) by (cases rule: resume_result) auto
qed

lemma note_not_filled: "note_signal spec_sha q s = Inr (out, s') \<Longrightarrow> out \<noteq> SignalFilled v k w \<and> out \<noteq> SignalRefused x"
  using note_signal_result(3) by blast

text \<open>An entry that was filled: reserved, waiting, and past every check at the moment of its fill.\<close>

lemma filled_steps:
  assumes "accept_signal_decision_outcome sha spec_sha wall row q s = Inr (SignalFilled v k w, s')"
  obtains age n m b s1 s2 x where "signal_checked q = Inr age" and "sd_action (sq_decision q) = ''ENTER''"
    and "jdecimal (sg_notional (sq_strategy q)) = Inr n"
    and "reserve_signal sha spec_sha wall row q (sy_max_age_seconds (sq_strategy q) * 1000000 < age) n s = Inr (Reserved (b_id b) m, s2)"
    and "signal_bot sha wall row q s = Inr (b, s1)" and "get_bot (b_id b) s2 = Some b" and "same_others (sq_position q) s1 s2"
    and "get_position (sq_position q) s2 = Some x" and "p_state x \<in> set PRE_ATTEMPT_STATES" and "existing_matches spec_sha q x = Inr ()"
    and "resume_block sha s2 b (sq_mode q) (sy_max_age_seconds (sq_strategy q) * 1000000 < age) = Inr None"
    and "fill_refusal sha spec_sha wall row q m x s2 = Inr None"
    and "get_position (sq_position q) s' = Some v" and "p_state v = OPEN" and "p_entered_notional_usd v = Some (FloatOf m)"
    and "same_others (sq_position q) s2 s'" and "store_advance s2 s'"
proof -
  let ?pid = "sq_position q"
  obtain age where age: "signal_checked q = Inr age" using assms by (auto simp: accept_signal_decision_outcome_def bindR_eq_Inr)
  have enter: "sd_action (sq_decision q) = ''ENTER''"
  proof (rule ccontr)
    assume "sd_action (sq_decision q) \<noteq> ''ENTER''"
    then have "note_signal spec_sha q s = Inr (SignalFilled v k w, s')" using assms age by (simp add: accept_signal_decision_outcome_def)
    then show False using note_not_filled by blast
  qed
  let ?stale = "sy_max_age_seconds (sq_strategy q) * 1000000 < age"
  obtain n where n: "jdecimal (sg_notional (sq_strategy q)) = Inr n"
    and e: "enter_signal sha spec_sha wall row q ?stale n s = Inr (SignalFilled v k w, s')"
    using assms age enter by (auto simp: accept_signal_decision_outcome_def bindR_eq_Inr)
  from e show thesis
  proof (cases rule: enter_result)
    case answered
    then show thesis using reserve_answers by (fastforce simp: standing_def split: if_splits)
  next
    case (filled bid m s2)
    obtain b s1 x where b: "signal_bot sha wall row q s = Inr (b, s1)" "bid = b_id b" "get_bot (b_id b) s2 = Some b"
      and so: "same_others ?pid s1 s2" and x: "get_position ?pid s2 = Some x" "p_state x \<in> set PRE_ATTEMPT_STATES"
      "existing_matches spec_sha q x = Inr ()"
      using filled(1) checked_version [OF age] by (rule reserve_reserved)
    from filled(3) x(1,2) show thesis
    proof (cases rule: fill_signal_result)
      case fin: (filled b' y)
      have "b' = b" using fin(1) b(2,3) by simp
      then show thesis
        using that [OF age enter n _ b(1,3) so x] filled(1) b(2) fin(2-8) fill_signal_advance [OF filled(3)] by auto
    qed simp_all
  qed simp
qed

text \<open>What a refusal at the fill leaves: the reservation, unattempted, which the scope or the envelope stopped.\<close>

definition fill_stopped ::
  "(jval \<Rightarrow> string) \<Rightarrow> (jval \<Rightarrow> string) \<Rightarrow> int \<Rightarrow> dict option \<Rightarrow> signal_request \<Rightarrow> refusal \<Rightarrow> store \<Rightarrow> store \<Rightarrow> bool" where
  "fill_stopped sha spec_sha wall row q x s s' =
     (\<exists>stale n bid m s2 p. reserve_signal sha spec_sha wall row q stale n s = Inr (Reserved bid m, s2)
        \<and> get_position (sq_position q) s2 = Some p \<and> p_state p \<in> set PRE_ATTEMPT_STATES
        \<and> fill_refusal sha spec_sha wall row q m p s2 = Inr (Some (rf_reason x)) \<and> st_positions s' = st_positions s2)"

text \<open>C12: a refusal fills nothing and is on record. When the answer is DENIED, the denials on record are those from
  before and the event of this one, with the code that was answered, or the same ones when it was on record
  already; the rows of all other positions are what they were; the position of the decision, if there is one,
  still waits for its attempt or is cancelled; and if there was none, there is none, except that a reservation
  that was admitted and whose fill the operating scope or the envelope then refused keeps its unattempted row.\<close>

theorem refused_signal_fills_nothing:
  assumes "accept_signal_decision_outcome sha spec_sha wall row q s = Inr (SignalRefused x, s')"
  shows "refusal_recorded x s s' \<and> others (sq_position q) s' = others (sq_position q) s \<and> unfilled (sq_position q) s'
    \<and> (get_position (sq_position q) s = None \<longrightarrow>
         st_positions s' = st_positions s \<or> fill_stopped sha spec_sha wall row q x s s')"
proof -
  have enter: "sd_action (sq_decision q) = ''ENTER''"
  proof (rule ccontr)
    assume "sd_action (sq_decision q) \<noteq> ''ENTER''"
    then have "note_signal spec_sha q s = Inr (SignalRefused x, s')"
      using assms by (auto simp: accept_signal_decision_outcome_def bindR_eq_Inr)
    then show False using note_not_filled by blast
  qed
  obtain age where age: "signal_checked q = Inr age" using assms by (auto simp: accept_signal_decision_outcome_def bindR_eq_Inr)
  obtain stale n where "enter_signal sha spec_sha wall row q stale n s = Inr (SignalRefused x, s')"
    using assms enter by (rule accept_enters)
  then show ?thesis
  proof (cases rule: enter_result)
    case answered
    then show ?thesis using reserve_refused [of sha spec_sha wall row q stale n s x s'] by (simp add: fill_stopped_def)
  next
    case (filled bid m s2)
    obtain b s1 p where b: "signal_bot sha wall row q s = Inr (b, s1)" and so: "same_others (sq_position q) s1 s2"
      and p: "get_position (sq_position q) s2 = Some p" "p_state p \<in> set PRE_ATTEMPT_STATES"
      using filled(1) checked_version [OF age] by (rule reserve_reserved) blast
    from filled(3) p show ?thesis
    proof (cases rule: fill_signal_result)
      case (refused y)
      have "fill_stopped sha spec_sha wall row q x s s'"
        unfolding fill_stopped_def using filled(1) p refused(2,6) unfolding signal_outcome.inject(2) [THEN iffD1, OF refused(1)]
        by blast
      moreover have "refusal_recorded x s s'"
        using recorded_since [OF reserve_reserved_denials [OF filled(1)]] refused(1,5) by simp
      ultimately show ?thesis using refused(2) signal_bot_others [OF b] so same_rows_unfilled(1) [OF p]
        by (simp add: same_others_def) (simp add: others_def)
    qed simp_all
  qed simp
qed

subsection \<open>Fills\<close>

text \<open>The checks of \<open>fill_refusal\<close> that a reserved row passed: the operating scope in force lets its epoch enter,
  and for an ordinary or managed entry the envelope in force has room for the admitted notional.\<close>

definition scope_lets_fill ::
  "(jval \<Rightarrow> string) \<Rightarrow> (jval \<Rightarrow> string) \<Rightarrow> int \<Rightarrow> dict option \<Rightarrow> signal_request \<Rightarrow> decimal \<Rightarrow> position \<Rightarrow> store \<Rightarrow> bool" where
  "scope_lets_fill sha spec_sha wall row q m p s =
     (operating_entry_block sha wall s (effective_operating_scope row s (sq_mode q)) (p_activation_epoch_id p)
        (p_strategy_spec_sha256 p) (Some (sq_as_of q)) False = Inr None
      \<and> (sq_ordinary q \<or> sc_managed (effective_operating_scope row s (sq_mode q)) \<or> p_ordinary_operating p = Some 1 \<longrightarrow>
           enforce_operating_envelope sha spec_sha (sq_mode q) (Some (dec_text m)) (Some (sq_position q)) s = Inr None))"

lemma fill_refusal_None:
  "fill_refusal sha spec_sha wall row q m p s = Inr None \<Longrightarrow> scope_lets_fill sha spec_sha wall row q m p s"
  by (auto simp: fill_refusal_def Let_def scope_lets_fill_def bindR_eq_Inr split: if_splits)

text \<open>C13: no fill passes a stop. When an entry is filled, the position is OPEN for the notional of its reservation,
  the decision was not older than its strategy allows, and in the store that results the bot of the decision is
  neither draining, stopped nor paused, and the policy in force is readable and has new entries enabled. At
  the moment of the fill, on the store of the reservation with its unattempted row, the operating scope did
  not block the row's epoch, and for an ordinary or managed entry, or a row marked ordinary, the envelope had
  room for that notional beside all other obligations.\<close>

theorem fill_passes_no_stop:
  assumes "accept_signal_decision_outcome sha spec_sha wall row q s = Inr (SignalFilled v k w, s')"
  shows "\<exists>b current age. get_position (sq_position q) s' = Some v \<and> p_state v = OPEN
    \<and> get_bot (bot_instance_id (sq_strategy q) (sq_mode q) (Some (sd_activation_epoch_id (sq_decision q)))) s' = Some b
    \<and> b_status b \<notin> {''DRAINING'', ''STOPPED''} \<and> \<not> b_entries_paused b
    \<and> resolve_current_policy sha s' (sq_mode q) = Inr current \<and> cu_status current \<noteq> RUNTIME_POLICY_INVALID
    \<and> (\<forall>x. cu_status current = VALID \<and> cu_policy current = Some x \<longrightarrow> pb_new_entries_enabled (pl_body x))
    \<and> signal_checked q = Inr age \<and> age \<le> sy_max_age_seconds (sq_strategy q) * 1000000
    \<and> (\<exists>stale n m s2 x. reserve_signal sha spec_sha wall row q stale n s = Inr (Reserved (b_id b) m, s2)
         \<and> get_position (sq_position q) s2 = Some x \<and> p_state x \<in> set PRE_ATTEMPT_STATES
         \<and> scope_lets_fill sha spec_sha wall row q m x s2 \<and> p_entered_notional_usd v = Some (FloatOf m))"
proof -
  obtain age n m b s1 s2 x where age: "signal_checked q = Inr age" and bot: "signal_bot sha wall row q s = Inr (b, s1)"
    and b: "get_bot (b_id b) s2 = Some b"
    and rb: "resume_block sha s2 b (sq_mode q) (sy_max_age_seconds (sq_strategy q) * 1000000 < age) = Inr None"
    and v: "get_position (sq_position q) s' = Some v" "p_state v = OPEN" and so: "same_others (sq_position q) s2 s'"
    and res: "reserve_signal sha spec_sha wall row q (sy_max_age_seconds (sq_strategy q) * 1000000 < age) n s = Inr (Reserved (b_id b) m, s2)"
    and x: "get_position (sq_position q) s2 = Some x" "p_state x \<in> set PRE_ATTEMPT_STATES"
    and free: "fill_refusal sha spec_sha wall row q m x s2 = Inr None" and booked: "p_entered_notional_usd v = Some (FloatOf m)"
    using assms by (rule filled_steps) blast
  obtain current where c: "resolve_current_policy sha s2 (sq_mode q) = Inr current"
    using rb by (auto simp: resume_block_def bindR_eq_Inr split: if_splits)
  have c': "resolve_current_policy sha s' (sq_mode q) = Inr current"
    using c so resolve_same_policies [of s' s2] by (simp add: same_others_def)
  have b': "get_bot (b_id b) s' = Some b" using b so by (simp add: same_others_def get_bot_def)
  have id: "b_id b = bot_instance_id (sq_strategy q) (sq_mode q) (Some (sd_activation_epoch_id (sq_decision q)))"
    using bot checked_version [OF age] by (rule signal_bot_id)
  have "age \<le> sy_max_age_seconds (sq_strategy q) * 1000000" and "b_status b \<notin> {''DRAINING'', ''STOPPED''}"
    and "\<not> b_entries_paused b" and "cu_status current \<noteq> RUNTIME_POLICY_INVALID"
    and "\<forall>x. cu_status current = VALID \<and> cu_policy current = Some x \<longrightarrow> pb_new_entries_enabled (pl_body x)"
    using rb c by (auto simp: resume_block_def split: if_splits policy_status.splits)
  moreover note res x fill_refusal_None [OF free] booked
  ultimately show ?thesis using v b' c' age unfolding id [symmetric] by blast
qed

lemma matches_same_identity: "same_identity x y \<Longrightarrow> existing_matches spec_sha q y = existing_matches spec_sha q x"
  unfolding same_identity_def existing_matches_def by presburger

text \<open>C14: an entry that was filled is only reported when its decision comes again: the same request, at any
  wall clock and whatever the operating state is then, answers that the position is open and leaves the
  store as it is, provided the bot was in one of the states the code gives it.\<close>

theorem filled_signal_replayed:
  assumes "accept_signal_decision_outcome sha spec_sha wall row q s = Inr (SignalFilled v k w, s')"
    and "\<And>b. get_bot (bot_instance_id (sq_strategy q) (sq_mode q) (Some (sd_activation_epoch_id (sq_decision q)))) s = Some b \<Longrightarrow>
      b_status b \<in> {''RUNNING'', ''DRAINING'', ''STOPPED''} \<and> b_strategy_spec_sha256 b \<noteq> Some []"
  shows "accept_signal_decision_outcome sha spec_sha wall' row' q s' = Inr (SignalStanding v True False, s')"
proof -
  let ?pid = "sq_position q" and ?epoch = "sd_activation_epoch_id (sq_decision q)"
  obtain age n b s1 s2 x where age: "signal_checked q = Inr age" and enter: "sd_action (sq_decision q) = ''ENTER''"
    and n: "jdecimal (sg_notional (sq_strategy q)) = Inr n" and bot: "signal_bot sha wall row q s = Inr (b, s1)"
    and b: "get_bot (b_id b) s2 = Some b" and x: "get_position ?pid s2 = Some x" "existing_matches spec_sha q x = Inr ()"
    and v: "get_position ?pid s' = Some v" "p_state v = OPEN" and so: "same_others ?pid s2 s'" and adv: "store_advance s2 s'"
    using assms(1) by (rule filled_steps) blast
  note version = checked_version [OF age]
  have id: "b_id b = bot_instance_id (sq_strategy q) (sq_mode q) (Some ?epoch)" using bot version by (rule signal_bot_id)
  note settled = start_bot_settles [OF bot [unfolded signal_bot_def] version assms(2)]
  have "\<not> st_readonly s" using start_bot_result(5) bot by (simp add: signal_bot_def)
  then have ro: "\<not> st_readonly s'" using accept_signal_advance [OF assms(1)] store_advance_readonly by blast
  have mode: "sq_mode q \<in> {''PAPER'', ''SHADOW''}" using age by (auto simp: signal_checked_def Let_def split: if_splits)
  have "get_bot (bot_instance_id (sq_strategy q) (sq_mode q) (Some ?epoch)) s' = Some b"
    using b so by (simp add: id same_others_def get_bot_def)
  then have again: "start_bot sha wall' row' (sq_strategy q) (sq_mode q) (Some ?epoch) s' = Inr (b, s')"
    by (rule start_bot_again [OF _ settled(1) ro mode version settled(2)])
  obtain v' where "get_position ?pid s' = Some v'" and "row_advance x v'" using adv x(1) by (rule store_advance_position)
  then have "existing_matches spec_sha q v = Inr ()"
    using x(2) v(1) matches_same_identity [of x v] by (simp add: row_advance_def)
  then have "reserve_signal sha spec_sha wall' row' q stale n s' = Inr (Answered (SignalStanding v True False), s')" for stale
    using ro v again
    by (simp add: reserve_signal_def immediate_write_def resume_reserved_def PRE_ATTEMPT_STATES_def standing_def)
  then show ?thesis using age enter n by (simp add: accept_signal_decision_outcome_def enter_signal_def)
qed

end
