(* ===== verification/SignalDemo.thy ===== *)
theory SignalDemo
  imports SignalClaims
begin

section \<open>A decision on a concrete desk\<close>

text \<open>
  A paper desk with one running bot, no positions and no policy, and the decision of its strategy to
  enter for 50: the run that the properties of \<open>SignalClaims\<close> are applied to.
\<close>

definition demo_strategy :: strategy where
  "demo_strategy = \<lparr>sg_id = ''S'', sg_version = ''1'', sg_notional = JInt 50, sg_max_open = 2, sy_schema_version = ''1.1'',
     sy_fee_bps = 25, sy_max_age_seconds = 60, sy_paper = True, sy_shadow = True, sy_micro_live = False,
     sy_spec_sha256 = None\<rparr>"

definition demo_decision :: frozen_decision where
  "demo_decision = \<lparr>sd_id = ''D-1'', sd_activation_epoch_id = ''E-1'', sd_strategy_id = ''S'', sd_strategy_version = ''1'',
     sd_mint = ''Mint'', sd_action = ''ENTER'', sd_reason_code = ''MOMENTUM'', sd_decision_at = ''2026-01-02T00:00:00Z'',
     fd_hypothesis_refs = [''HYP''], fd_available_at = ''2026-01-02T00:00:00Z'', fd_evidence_refs = [''REF'']\<rparr>"

definition demo_signal :: "string \<Rightarrow> signal_request" where
  "demo_signal as_of = \<lparr>sq_strategy = demo_strategy, sq_decision = demo_decision, sq_known_epochs = [''E-1''], sq_mode = ''PAPER'',
     sq_as_of = as_of, sq_skip_fill = False, sq_ordinary = False\<rparr>"

definition demo_desk_bot :: bot where
  "demo_desk_bot = demo_bot\<lparr>b_id := ''BOT-S-1-PAPER-E-1''\<rparr>"

definition demo_desk :: store where
  "demo_desk = (demo_store demo_open)\<lparr>st_bots := [demo_desk_bot], st_positions := []\<rparr>"

abbreviation demo_now :: string where "demo_now \<equiv> ''2026-01-02T00:00:10Z''"
abbreviation demo_late :: string where "demo_late \<equiv> ''2026-01-02T00:02:00Z''"

lemma demo_strategy_fields [simp]:
  "sg_id demo_strategy = ''S''" "sg_version demo_strategy = ''1''" "sg_notional demo_strategy = JInt 50" "sg_max_open demo_strategy = 2"
  "sy_schema_version demo_strategy = ''1.1''" "sy_fee_bps demo_strategy = 25" "sy_max_age_seconds demo_strategy = 60"
  "sy_paper demo_strategy" "sy_shadow demo_strategy" "\<not> sy_micro_live demo_strategy" "sy_spec_sha256 demo_strategy = None"
  by (simp_all add: demo_strategy_def)

lemma demo_decision_fields [simp]:
  "sd_id demo_decision = ''D-1''" "sd_activation_epoch_id demo_decision = ''E-1''" "sd_strategy_id demo_decision = ''S''"
  "sd_strategy_version demo_decision = ''1''" "sd_mint demo_decision = ''Mint''" "sd_action demo_decision = ''ENTER''"
  "sd_reason_code demo_decision = ''MOMENTUM''" "sd_decision_at demo_decision = ''2026-01-02T00:00:00Z''"
  "fd_available_at demo_decision = ''2026-01-02T00:00:00Z''"
  by (simp_all add: demo_decision_def)

lemma demo_signal_fields [simp]:
  "sq_strategy (demo_signal t) = demo_strategy" "sq_decision (demo_signal t) = demo_decision" "sq_known_epochs (demo_signal t) = [''E-1'']"
  "sq_mode (demo_signal t) = ''PAPER''" "sq_as_of (demo_signal t) = t" "\<not> sq_skip_fill (demo_signal t)" "\<not> sq_ordinary (demo_signal t)"
  "sq_position (demo_signal t) = ''POS-SIG-D-1''"
  by (simp_all add: demo_signal_def sq_position_def position_id_for_signal_decision_def)

lemma demo_desk_bot_fields [simp]:
  "b_id demo_desk_bot = ''BOT-S-1-PAPER-E-1''" "b_status demo_desk_bot = ''RUNNING''" "b_mode demo_desk_bot = ''PAPER''"
  "\<not> b_entries_paused demo_desk_bot" "b_strategy_spec_sha256 demo_desk_bot = None"
  by (simp_all add: demo_desk_bot_def demo_bot_def)

lemma demo_desk_fields [simp]:
  "st_bots demo_desk = [demo_desk_bot]" "st_positions demo_desk = []" "st_events demo_desk = []" "st_policies demo_desk = []"
  "\<not> st_readonly demo_desk" "st_calls demo_desk = 0"
  by (simp_all add: demo_desk_def demo_store_def)

lemma demo_checked: "signal_checked (demo_signal demo_now) = Inr 10000000" "signal_checked (demo_signal demo_late) = Inr 120000000"
  by (simp_all add: signal_checked_def normalize_strategy_def mode_eligible_def decision_matches_def resolve_activation_epoch_def
      decision_age_def clock_of_def clock_minus_def clock_less_def SIGNAL_MAX_CLOCK_SKEW_SECONDS_def time_eval guardR_def)

lemma demo_bot_started:
  assumes "\<not> st_readonly s" and "st_bots s = [demo_desk_bot]"
  shows "signal_bot sha wall row (demo_signal t) s = Inr (demo_desk_bot, s)"
  unfolding signal_bot_def
  by (simp only: demo_signal_fields demo_decision_fields, rule start_bot_again)
    (simp_all add: assms settled_bot_def bot_spec_def bot_instance_id_def get_bot_def)

lemma demo_scope: "effective_operating_scope None demo_desk ''PAPER'' = \<lparr>sc_managed = False, sc_mode = ''PAPER'', sc_state = None, sc_reason = None\<rparr>"
  by (simp add: effective_operating_scope_def)

lemma demo_scope_free: "scope_refusal sha spec_sha wall None (demo_signal t) None demo_desk = Inr None"
  by (simp add: scope_refusal_def demo_scope operating_entry_block_def)

lemma demo_policy: "st_policies s = [] \<Longrightarrow> resolve_current_policy sha s ''PAPER'' = Inr \<lparr>cu_status = NOT_CONFIGURED_STRATEGY_ONLY,
    cu_mode = ''PAPER'', cu_policy = None, cu_revision = None, cu_sha256 = GENESIS_POLICY_SHA256\<rparr>"
  by (simp add: resolve_current_policy_def SUPPORTED_MODES_def latest_runtime_policy_row_def mode_policies_def)

lemma demo_inventory: "open_risk_inventory ''PAPER'' ''S'' ''Mint'' bid demo_desk = Inr empty_inventory"
  by (simp add: open_risk_inventory_def mode_positions_def)

lemma demo_admitted:
  "\<exists>a. evaluate_admission ''PAPER'' (terms_of demo_strategy) demo_desk_bot ''Mint'' NOT_CONFIGURED_STRATEGY_ONLY None empty_inventory = Inr a
     \<and> ad_decision a = ''ALLOW'' \<and> ad_effective a = ''50''"
proof -
  have t: "sg_notional (terms_of demo_strategy) = JInt 50" "sg_version (terms_of demo_strategy) = ''1''"
    by (simp_all add: strategy_terms.truncate_def)
  have tx: "dec_text (dec_of_int 50) = ''50''" by (simp add: dec_eval dec_of_int_def)
  show ?thesis
    by (simp add: evaluate_admission_def t jdecimal_def policy_in_force_def runtime_entry_cap_def effective_entry_notional_def
        admission_block_def or_else_def bot_block_def count_block_def empty_inventory_def runtime_strategy_max_def override_for_def
        reached_def notional_blocks_def admission_snapshot_def tx)
qed

subsection \<open>Refused for its age\<close>

lemma no_context_position [simp]: "rc_position no_context = None"
  by (simp add: no_context_def)

lemma demo_refused:
  "\<exists>x s'. accept_signal_decision_outcome sha spec_sha wall None (demo_signal demo_late) demo_desk = Inr (SignalRefused x, s')
     \<and> rf_reason x = ''SIGNAL_DECISION_STALE''"
proof -
  let ?q = "demo_signal demo_late"
  let ?payload = "refusal_payload spec_sha demo_strategy demo_decision demo_desk_bot ''PAPER'' demo_late ''SIGNAL_DECISION_STALE'' no_context"
  have ev: "get_execution_event e demo_desk = Inr None" for e by (simp add: get_execution_event_def find_event_def)
  obtain eid s' where a: "append_exact_admission_event spec_sha ''SIGNAL_ADMISSION_DENIED'' ''BOT-S-1-PAPER-E-1'' None ?payload demo_late demo_desk
      = Inr ((eid, False), s')"
    unfolding append_exact_admission_event_def Let_def ev bindR_simps option.case
    by (simp add: append_execution_event_def admission_event_id_def find_event_def)
  obtain x where r: "signal_refusal spec_sha demo_strategy demo_decision demo_desk_bot ''PAPER'' demo_late ''SIGNAL_DECISION_STALE'' no_context demo_desk
      = Inr (x, s')" and code: "rf_reason x = ''SIGNAL_DECISION_STALE''"
    using a by (simp add: signal_refusal_def)
  have "reserve_signal sha spec_sha wall None ?q True n demo_desk = Inr (Answered (SignalRefused x), s')" for n
    using demo_bot_started [of demo_desk sha wall None demo_late] r
    by (simp add: reserve_signal_def immediate_write_def signal_bot_def reserve_fresh_def refused_def get_position_def)
  then have "accept_signal_decision_outcome sha spec_sha wall None ?q demo_desk = Inr (SignalRefused x, s')"
    by (simp add: accept_signal_decision_outcome_def demo_checked jdecimal_def enter_signal_def)
  then show ?thesis using code by blast
qed

subsection \<open>Reserved\<close>

lemma demo_risk:
  obtains r where "entry_risk_of sha spec_sha None (demo_signal t) demo_desk_bot \<lparr>cu_status = NOT_CONFIGURED_STRATEGY_ONLY,
      cu_mode = ''PAPER'', cu_policy = None, cu_revision = None, cu_sha256 = GENESIS_POLICY_SHA256\<rparr> demo_desk = Inr r"
    and "ad_decision (er_admission r) = ''ALLOW''" and "ad_effective (er_admission r) = ''50''" and "er_operating r = None"
proof -
  obtain a where a: "evaluate_admission ''PAPER'' (terms_of demo_strategy) demo_desk_bot ''Mint'' NOT_CONFIGURED_STRATEGY_ONLY None
      empty_inventory = Inr a" and ok: "ad_decision a = ''ALLOW''" "ad_effective a = ''50''"
    using demo_admitted by blast
  show thesis
    by (rule that [of "\<lparr>er_admission = a, er_operating = None\<rparr>"])
      (simp_all add: entry_risk_of_def demo_inventory a ok effective_operating_def demo_scope)
qed

lemma char_A [simp]: "(char_of (65 :: nat) :: char) = CHR ''A''"
  by code_simp

definition demo_note :: "event \<Rightarrow> bool" where
  "demo_note e = (take 4 (e_id e) = ''ADMI'')"

text \<open>The desk after the reservation: the risk event, the decision, and the one position.\<close>

definition demo_held :: "position \<Rightarrow> store \<Rightarrow> bool" where
  "demo_held x s = (\<not> st_readonly s \<and> st_bots s = [demo_desk_bot] \<and> st_positions s = [x] \<and> st_policies s = []
     \<and> st_calls s = 3 \<and> st_wall s = (\<lambda>n. ''2026-01-02T00:00:00Z'') \<and> st_hex s = (\<lambda>n. replicate (n + 1) (CHR ''a''))
     \<and> p_id x = ''POS-SIG-D-1'' \<and> p_state x = WATCHED \<and> p_ordinary_operating x = None
     \<and> (\<exists>e e2. st_events s = [e, e2] \<and> demo_note e \<and> e_type e = ''PRE_TRADE_RISK_SNAPSHOT'' \<and> e_id e2 = ''EVT-AA''
          \<and> e_type e2 = ''SIGNAL_DECISION_ACCEPTED''))"

lemma demo_opened:
  assumes "er_operating r = None" and "ad_effective (er_admission r) = ''50''" and "demo_note e" and "e_type e = ''PRE_TRADE_RISK_SNAPSHOT''"
  shows "\<exists>x s2. open_admitted spec_sha (demo_signal t) demo_desk_bot None r (demo_desk\<lparr>st_events := [e]\<rparr>) = Inr (dec_of_int 50, s2)
     \<and> demo_held x s2"
proof -
  have "e_id e \<noteq> ''EVT-AA''" using assms(3) by (auto simp: demo_note_def)
  then show ?thesis
    by (simp add: open_admitted_def open_position_from_signal_def insert_position_once_def store_eval dec_eval assms
        freeze_admission_binding_def mark_ordinary_def ins_position_def position_id_for_signal_decision_def blank_position_def
        freeze_admission_row_def demo_desk_def demo_store_def demo_held_def dec_of_int_def del: dict_with_simps)
qed

lemma demo_reserved:
  "\<exists>x s2. (\<forall>n. reserve_signal sha spec_sha wall None (demo_signal demo_now) False n demo_desk
      = Inr (Reserved ''BOT-S-1-PAPER-E-1'' (dec_of_int 50), s2)) \<and> demo_held x s2"
proof -
  let ?q = "demo_signal demo_now"
  let ?none = "\<lparr>cu_status = NOT_CONFIGURED_STRATEGY_ONLY, cu_mode = ''PAPER'', cu_policy = None, cu_revision = None,
    cu_sha256 = GENESIS_POLICY_SHA256\<rparr>"
  obtain r where r: "entry_risk_of sha spec_sha None ?q demo_desk_bot ?none demo_desk = Inr r"
    and ok: "ad_decision (er_admission r) = ''ALLOW''" "ad_effective (er_admission r) = ''50''" "er_operating r = None"
    by (rule demo_risk)
  let ?id = "admission_event_id spec_sha ''PRE_TRADE_RISK_SNAPSHOT'' (risk_payload spec_sha ?q r)"
  define e where "e = \<lparr>e_id = ?id, e_type = ''PRE_TRADE_RISK_SNAPSHOT'', e_bot = Some ''BOT-S-1-PAPER-E-1'', e_position = None,
    e_created_at = demo_now, e_payload = Some (JObj (risk_payload spec_sha ?q r))\<rparr>"
  have ev: "get_execution_event ?id demo_desk = Inr None" by (simp add: get_execution_event_def find_event_def)
  have noted: "append_exact_admission_event spec_sha ''PRE_TRADE_RISK_SNAPSHOT'' ''BOT-S-1-PAPER-E-1'' None (risk_payload spec_sha ?q r)
      demo_now demo_desk = Inr ((?id, False), demo_desk\<lparr>st_events := [e]\<rparr>)"
    unfolding append_exact_admission_event_def Let_def ev bindR_simps option.case
    by (simp add: append_execution_event_def admission_event_id_def find_event_def e_def)
  have "demo_note e" by (simp add: demo_note_def e_def admission_event_id_def)
  then obtain x s2 where o': "open_admitted spec_sha ?q demo_desk_bot None r (demo_desk\<lparr>st_events := [e]\<rparr>) = Inr (dec_of_int 50, s2)"
    and held: "demo_held x s2"
    using demo_opened [OF ok(3,2), of e spec_sha demo_now] by (auto simp: e_def)
  have "reserve_new sha spec_sha None ?q demo_desk_bot demo_desk = Inr (Reserved ''BOT-S-1-PAPER-E-1'' (dec_of_int 50), s2)"
    using noted o' ok(1) by (simp add: reserve_new_def demo_policy r)
  then have "reserve_signal sha spec_sha wall None ?q False n demo_desk = Inr (Reserved ''BOT-S-1-PAPER-E-1'' (dec_of_int 50), s2)" for n
    using demo_bot_started [of demo_desk sha wall None demo_now]
    by (simp add: reserve_signal_def immediate_write_def signal_bot_def reserve_fresh_def demo_scope_free get_position_def)
  then show ?thesis using held by blast
qed

subsection \<open>Filled\<close>

lemma demo_held_scope: "demo_held x s \<Longrightarrow> effective_operating_scope None s ''PAPER''
    = \<lparr>sc_managed = False, sc_mode = ''PAPER'', sc_state = None, sc_reason = None\<rparr>"
  by (auto simp: demo_held_def effective_operating_scope_def lifecycle_marks_def)

lemma demo_filled_now:
  assumes "demo_held x s"
  shows "\<exists>v k s'. fill_now (demo_signal demo_now) ''BOT-S-1-PAPER-E-1'' n False (Some x) s = Inr (SignalFilled v k False, s')"
proof -
  obtain e e2 where h: "\<not> st_readonly s" "st_bots s = [demo_desk_bot]" "st_positions s = [x]" "st_calls s = 3"
    "st_wall s = (\<lambda>n. ''2026-01-02T00:00:00Z'')" "st_hex s = (\<lambda>n. replicate (n + 1) (CHR ''a''))" "p_id x = ''POS-SIG-D-1''"
    "p_state x = WATCHED" "st_events s = [e, e2]" "take 4 (e_id e) = ''ADMI''" "e_id e2 = ''EVT-AA''"
    using assms by (auto simp: demo_held_def demo_note_def)
  have "e_id e \<noteq> ''EVT-'' @ t" for t using h(10) by auto
  then show ?thesis
    by (simp add: fill_now_def fill_paper_from_signal_def ensure_signal_position_def fill_existing_position_def FILLED_OR_LATER_def
        position_id_for_signal_decision_def signal_kind_of_def fill_logged_def store_eval h eval_nat_numeral del: dict_with_simps)
qed

lemma demo_filled:
  obtains v k s' where "accept_signal_decision_outcome sha spec_sha wall None (demo_signal demo_now) demo_desk
      = Inr (SignalFilled v k False, s')"
proof -
  obtain x s2 where r: "\<And>n. reserve_signal sha spec_sha wall None (demo_signal demo_now) False n demo_desk
      = Inr (Reserved ''BOT-S-1-PAPER-E-1'' (dec_of_int 50), s2)" and held: "demo_held x s2"
    using demo_reserved by blast
  obtain v k s' where f: "fill_now (demo_signal demo_now) ''BOT-S-1-PAPER-E-1'' (dec_of_int 50) False (Some x) s2
      = Inr (SignalFilled v k False, s')"
    using demo_filled_now [OF held] by blast
  have h: "\<not> st_readonly s2" "get_position ''POS-SIG-D-1'' s2 = Some x" "get_bot ''BOT-S-1-PAPER-E-1'' s2 = Some demo_desk_bot"
    "st_policies s2 = []" "p_state x \<in> set PRE_ATTEMPT_STATES" "p_ordinary_operating x \<noteq> Some 1"
    using held by (auto simp: demo_held_def get_position_def get_bot_def PRE_ATTEMPT_STATES_def)
  have "fill_signal sha spec_sha wall None (demo_signal demo_now) False ''BOT-S-1-PAPER-E-1'' (dec_of_int 50) False s2
      = Inr (SignalFilled v k False, s')"
    using f h demo_held_scope [OF held]
    by (simp add: fill_signal_def immediate_write_def fill_refusal_def operating_entry_block_def resume_block_def demo_policy)
  then have "enter_signal sha spec_sha wall None (demo_signal demo_now) False n demo_desk = Inr (SignalFilled v k False, s')" for n
    using r by (simp add: enter_signal_def get_position_def)
  then show thesis
    by (intro that [of v k s']) (simp add: accept_signal_decision_outcome_def demo_checked jdecimal_def)
qed

subsection \<open>The properties on this desk\<close>

lemma new_entry_was_admitted_witness:
  "\<exists>out s' p. accept_signal_decision_outcome demo_sha demo_sha 0 None (demo_signal demo_now) demo_desk = Inr (out, s')
     \<and> get_position ''POS-SIG-D-1'' s' = Some p
     \<and> (\<exists>(a :: admission) n. ad_decision a = ''ALLOW'' \<and> dec_of_string (ad_effective a) = Inr n
          \<and> p_admitted_entry_notional_usd_dec p = Some (dec_text n) \<and> p_entered_notional_usd p = Some (FloatOf n))"
proof -
  obtain v k s' where run: "accept_signal_decision_outcome demo_sha demo_sha 0 None (demo_signal demo_now) demo_desk
      = Inr (SignalFilled v k False, s')"
    by (rule demo_filled)
  have none: "get_position (sq_position (demo_signal demo_now)) demo_desk = None" by (simp add: get_position_def)
  have v: "get_position (sq_position (demo_signal demo_now)) s' = Some v" using run by (rule filled_steps)
  show ?thesis using new_entry_was_admitted [OF run none v] run v by auto
qed

lemma new_entry_keeps_limits_witness:
  "\<exists>out s' p. accept_signal_decision_outcome demo_sha demo_sha 0 None (demo_signal demo_now) demo_desk = Inr (out, s')
     \<and> get_position ''POS-SIG-D-1'' s' = Some p \<and> number_of (of_bot (p_bot p)) (open_rows ''PAPER'' s') \<le> 2"
proof -
  obtain v k s' where run: "accept_signal_decision_outcome demo_sha demo_sha 0 None (demo_signal demo_now) demo_desk
      = Inr (SignalFilled v k False, s')"
    by (rule demo_filled)
  have none: "get_position (sq_position (demo_signal demo_now)) demo_desk = None" by (simp add: get_position_def)
  have v: "get_position (sq_position (demo_signal demo_now)) s' = Some v" using run by (rule filled_steps)
  have wf: "store_wf demo_desk" by (simp add: store_wf_def demo_desk_def demo_store_def)
  show ?thesis using new_entry_keeps_limits [OF run wf none v] run v by (auto simp: counts_kept_def)
qed

lemma refused_signal_fills_nothing_witness:
  "\<exists>x s'. accept_signal_decision_outcome demo_sha demo_sha 0 None (demo_signal demo_late) demo_desk = Inr (SignalRefused x, s')
     \<and> refusal_recorded x demo_desk s' \<and> others ''POS-SIG-D-1'' s' = []"
proof -
  obtain x s' where run: "accept_signal_decision_outcome demo_sha demo_sha 0 None (demo_signal demo_late) demo_desk = Inr (SignalRefused x, s')"
    using demo_refused by blast
  show ?thesis using refused_signal_fills_nothing [OF run] run by (auto simp: others_def)
qed

lemma fill_passes_no_stop_witness:
  "\<exists>v k s' b. accept_signal_decision_outcome demo_sha demo_sha 0 None (demo_signal demo_now) demo_desk = Inr (SignalFilled v k False, s')
     \<and> p_state v = OPEN \<and> get_bot ''BOT-S-1-PAPER-E-1'' s' = Some b \<and> \<not> b_entries_paused b"
proof -
  obtain v k s' where run: "accept_signal_decision_outcome demo_sha demo_sha 0 None (demo_signal demo_now) demo_desk
      = Inr (SignalFilled v k False, s')"
    by (rule demo_filled)
  show ?thesis using fill_passes_no_stop [OF run] run by (auto simp: bot_instance_id_def)
qed

lemma filled_signal_replayed_witness:
  "\<exists>v k s'. accept_signal_decision_outcome demo_sha demo_sha 0 None (demo_signal demo_now) demo_desk = Inr (SignalFilled v k False, s')
     \<and> accept_signal_decision_outcome demo_sha demo_sha 5 (Some fmempty) (demo_signal demo_now) s' = Inr (SignalStanding v True False, s')"
proof -
  obtain v k s' where run: "accept_signal_decision_outcome demo_sha demo_sha 0 None (demo_signal demo_now) demo_desk
      = Inr (SignalFilled v k False, s')"
    by (rule demo_filled)
  have "accept_signal_decision_outcome demo_sha demo_sha 5 (Some fmempty) (demo_signal demo_now) s' = Inr (SignalStanding v True False, s')"
    by (rule filled_signal_replayed [OF run]) (auto simp: get_bot_def split: if_splits)
  then show ?thesis using run by blast
qed

end
