(* ===== verification/PyBytes.thy ===== *)
theory PyBytes
  imports PyDecimalText "HOL-Library.Word" "HOL-Library.AList"
begin

section \<open>Bytes and texts\<close>

text \<open>
  The part of Python's \<open>bytes\<close>, \<open>str\<close>, \<open>int.from_bytes\<close>, \<open>bytes.decode("utf-8")\<close> and \<open>base64.b64decode\<close> that
  the event decoders use, and reference encoders to compare them with. A byte is an \<open>8 word\<close>; a text that
  comes from outside is the list of its code points. Numbers are unbounded, as in Python.
\<close>

type_synonym bytes = "8 word list"
type_synonym ustr = "nat list"

definition ustr :: "string \<Rightarrow> ustr" where
  "ustr t = map of_char t"

lemma ustr_simps [simp]: "ustr [] = []" "ustr (c # t) = of_char c # ustr t" "ustr (s @ t) = ustr s @ ustr t"
  by (simp_all add: ustr_def)

lemma ustr_inject [simp]: "ustr s = ustr t \<longleftrightarrow> s = t"
  unfolding ustr_def by (metis inj_map_eq_map inj_of_char)

lemma byte_lt [simp]: "unat (b :: 8 word) < 256"
  using unsigned_less [of b, where ?'a = nat] by simp

definition byte :: "nat \<Rightarrow> 8 word" where
  "byte n = word_of_nat n"

lemma unat_byte: "n < 256 \<Longrightarrow> unat (byte n) = n"
  by (simp add: byte_def unat_of_nat)

lemma byte_unat [simp]: "byte (unat b) = b"
  by (simp add: byte_def)

lemma byte_eq_iff: "a = b \<longleftrightarrow> unat a = unat (b :: 8 word)"
  by (simp add: word_unat_eq_iff)

subsection \<open>int.from_bytes\<close>

fun from_le :: "bytes \<Rightarrow> nat" where
  "from_le [] = 0"
| "from_le (b # bs) = unat b + 256 * from_le bs"

definition from_be :: "bytes \<Rightarrow> nat" where
  "from_be bs = from_le (rev bs)"

definition from_le_signed :: "bytes \<Rightarrow> int" where
  "from_le_signed bs =
     (let n = int (from_le bs); w = 8 * length bs in if 2 * n < 2 ^ w then n else n - 2 ^ w)"

text \<open>The reference encoder: \<open>k\<close> bytes of a number, lowest first.\<close>

fun to_le :: "nat \<Rightarrow> nat \<Rightarrow> bytes" where
  "to_le 0 n = []"
| "to_le (Suc k) n = byte (n mod 256) # to_le k (n div 256)"

definition to_le_signed :: "nat \<Rightarrow> int \<Rightarrow> bytes" where
  "to_le_signed k i = to_le k (nat (i mod 2 ^ (8 * k)))"

lemma to_le_length [simp]: "length (to_le k n) = k" "length (to_le_signed k i) = k"
proof -
  show "length (to_le k n) = k" for n by (induction k arbitrary: n) auto
  then show "length (to_le_signed k i) = k" by (simp add: to_le_signed_def)
qed

lemma from_le_bound: "from_le bs < 256 ^ length bs"
proof (induction bs)
  case (Cons b bs)
  have "unat b + 256 * from_le bs < 256 + 256 * from_le bs" by simp
  also have "\<dots> \<le> 256 * 256 ^ length bs" using Cons.IH by (metis Suc_leI mult_Suc_right mult_le_mono2)
  finally show ?case by simp
qed simp

lemma power_256: "(256 :: 'a :: comm_semiring_1) ^ k = 2 ^ (8 * k)"
  by (simp add: power_mult)

lemma from_to_le: "n < 256 ^ k \<Longrightarrow> from_le (to_le k n) = n"
proof (induction k arbitrary: n)
  case (Suc k)
  then have "n div 256 < 256 ^ k" by (simp add: less_mult_imp_div_less mult.commute)
  with Suc.IH show ?case by (simp add: unat_byte)
qed simp

lemma to_from_le: "to_le (length bs) (from_le bs) = bs"
  by (induction bs) (simp_all add: byte_eq_iff unat_byte)

lemma from_le_inject: "length a = length b \<Longrightarrow> from_le a = from_le b \<longleftrightarrow> a = b"
  by (metis to_from_le)

lemma from_le_signed_bounds:
  assumes "bs \<noteq> []"
  shows "- (2 ^ (8 * length bs - 1)) \<le> from_le_signed bs" and "from_le_signed bs < 2 ^ (8 * length bs - 1)"
proof -
  let ?w = "8 * length bs" and ?n = "int (from_le bs)"
  have w: "2 ^ ?w = 2 * (2 :: int) ^ (?w - 1)" using assms by (cases ?w) auto
  have "?n < 2 ^ ?w" using from_le_bound [of bs] by (metis of_nat_less_iff of_nat_numeral of_nat_power power_256)
  then show "- (2 ^ (?w - 1)) \<le> from_le_signed bs" and "from_le_signed bs < 2 ^ (?w - 1)"
    unfolding from_le_signed_def Let_def w by auto
qed

lemma from_to_le_signed:
  assumes "- (2 ^ (8 * k - 1)) \<le> i" and "i < 2 ^ (8 * k - 1)" and "0 < k"
  shows "from_le_signed (to_le_signed k i) = i"
proof -
  let ?w = "8 * k" and ?m = "i mod 2 ^ (8 * k)"
  have w: "2 ^ ?w = 2 * (2 :: int) ^ (?w - 1)" using assms(3) by (cases ?w) auto
  have m: "0 \<le> ?m" "?m < 2 ^ ?w" by simp_all
  then have "nat ?m < 256 ^ k" by (simp add: power_256 nat_less_iff)
  then have n: "int (from_le (to_le k (nat ?m))) = ?m" using m(1) by (simp add: from_to_le)
  have v: "from_le_signed (to_le_signed k i) = (if 2 * ?m < 2 ^ ?w then ?m else ?m - 2 ^ ?w)"
    by (simp add: from_le_signed_def to_le_signed_def n Let_def)
  show ?thesis
  proof (cases "0 \<le> i")
    case True
    then have "?m = i" using assms(2) w by simp
    then show ?thesis using v w assms(2) by simp
  next
    case False
    have "?m = (i + 2 ^ ?w) mod 2 ^ ?w" by simp
    also have "\<dots> = i + 2 ^ ?w" using False assms(1) w by (intro mod_pos_pos_trivial) auto
    finally show ?thesis using v w assms(1) by simp
  qed
qed

lemma to_from_le_signed:
  assumes "bs \<noteq> []"
  shows "to_le_signed (length bs) (from_le_signed bs) = bs"
proof -
  let ?w = "8 * length bs" and ?n = "int (from_le bs)"
  have b: "?n < 2 ^ ?w" using from_le_bound [of bs] by (metis of_nat_less_iff of_nat_numeral of_nat_power power_256)
  have "from_le_signed bs mod 2 ^ ?w = ?n mod 2 ^ ?w"
    by (simp add: from_le_signed_def Let_def mod_diff_eq [symmetric])
  also have "\<dots> = ?n" using b by simp
  finally show ?thesis by (simp add: to_le_signed_def to_from_le)
qed

lemma takeWhile_neq_nth:
  "distinct xs \<Longrightarrow> i < length xs \<Longrightarrow> takeWhile (\<lambda>x. x \<noteq> xs ! i) xs = take i xs"
proof (induction xs arbitrary: i)
  case (Cons a xs)
  then show ?case by (cases i) auto
qed simp

subsection \<open>bytes.decode("utf-8")\<close>

definition continuation :: "8 word \<Rightarrow> bool" where
  "continuation b = (128 \<le> unat b \<and> unat b < 192)"

text \<open>
  The first code point of a well-formed sequence and the bytes after it: no overlong form, no surrogate
  and nothing above \<open>U+10FFFF\<close>.
\<close>

definition utf8_next :: "bytes \<Rightarrow> (nat \<times> bytes) option" where
  "utf8_next bs = (case bs of [] \<Rightarrow> None
    | a # r1 \<Rightarrow>
      let x = unat a in
      if x < 128 then Some (x, r1)
      else if x < 194 then None
      else (case r1 of [] \<Rightarrow> None
        | b # r2 \<Rightarrow>
          let y = unat b - 128 in
          if \<not> continuation b then None
          else if x < 224 then Some ((x - 192) * 64 + y, r2)
          else (case r2 of [] \<Rightarrow> None
            | c # r3 \<Rightarrow>
              let z = unat c - 128 in
              if \<not> continuation c then None
              else if x < 240 then
                let p = ((x - 224) * 64 + y) * 64 + z in
                if p < 2048 \<or> (55296 \<le> p \<and> p < 57344) then None else Some (p, r3)
              else (case r3 of [] \<Rightarrow> None
                | d # r4 \<Rightarrow>
                  if \<not> continuation d \<or> 245 \<le> x then None
                  else let p = (((x - 240) * 64 + y) * 64 + z) * 64 + (unat d - 128) in
                    if p < 65536 \<or> 1114112 \<le> p then None else Some (p, r4)))))"

lemma utf8_next_shorter: "utf8_next bs = Some (p, r) \<Longrightarrow> length r < length bs"
  by (auto simp: utf8_next_def Let_def split: list.splits if_splits)

function utf8_decode :: "bytes \<Rightarrow> ustr option" where
  "utf8_decode bs = (if bs = [] then Some []
     else case utf8_next bs of None \<Rightarrow> None
       | Some (p, r) \<Rightarrow> map_option ((#) p) (utf8_decode r))"
  by auto
termination by (relation "measure length") (auto dest: utf8_next_shorter)

declare utf8_decode.simps [simp del]

text \<open>The reference encoder.\<close>

definition scalar :: "nat \<Rightarrow> bool" where
  "scalar p = (p < 55296 \<or> (57344 \<le> p \<and> p < 1114112))"

definition utf8_point :: "nat \<Rightarrow> bytes" where
  "utf8_point p =
     (if p < 128 then [byte p]
      else if p < 2048 then [byte (192 + p div 64), byte (128 + p mod 64)]
      else if p < 65536
      then [byte (224 + p div 4096), byte (128 + p div 64 mod 64), byte (128 + p mod 64)]
      else [byte (240 + p div 262144), byte (128 + p div 4096 mod 64),
            byte (128 + p div 64 mod 64), byte (128 + p mod 64)])"

definition utf8_encode :: "ustr \<Rightarrow> bytes" where
  "utf8_encode t = concat (map utf8_point t)"

lemma utf8_encode_simps [simp]: "utf8_encode [] = []" "utf8_encode (p # t) = utf8_point p @ utf8_encode t"
  by (simp_all add: utf8_encode_def)

lemma utf8_point_not_Nil [simp]: "utf8_point p \<noteq> []"
  by (simp add: utf8_point_def)

lemma low_bits: "z < 64 \<Longrightarrow> (a * 64 + z) div 64 = a" "z < 64 \<Longrightarrow> (a * 64 + z) mod 64 = (z :: nat)"
  by simp_all

lemma div_levels: "p div 4096 = p div 64 div (64 :: nat)" "p div 262144 = p div 64 div 64 div (64 :: nat)"
  by (simp_all add: div_mult2_eq [symmetric])

lemma byte_sub: "k \<le> unat b \<Longrightarrow> byte (k + (unat b - k)) = b"
  by simp

lemma div_mod_lt: "p div 64 mod 64 < (64::nat)" "p div 4096 mod 64 < (64::nat)" "p mod 64 < (64::nat)"
  by simp_all

lemma utf8_next_point:
  assumes "scalar p"
  shows "utf8_next (utf8_point p @ r) = Some (p, r)"
proof -
  consider "p < 128" | "128 \<le> p" "p < 2048" | "2048 \<le> p" "p < 65536" | "65536 \<le> p" "p < 1114112"
    using assms unfolding scalar_def by linarith
  then show ?thesis
  proof cases
    case 1
    then show ?thesis by (simp add: utf8_point_def utf8_next_def unat_byte)
  next
    case 2
    then have "p div 64 < 32" "2 \<le> p div 64" by auto
    then show ?thesis using 2 div_mod_lt by (simp add: utf8_point_def utf8_next_def unat_byte continuation_def)
  next
    case 3
    then have a: "p div 4096 < 16" by auto
    have e: "(p div 4096 * 64 + p div 64 mod 64) * 64 + p mod 64 = p"
      by (simp only: div_levels div_mult_mod_eq)
    show ?thesis using 3 a e div_mod_lt assms
      by (auto simp: utf8_point_def utf8_next_def unat_byte continuation_def scalar_def Let_def)
  next
    case 4
    then have a: "p div 262144 < 5" by auto
    have e: "((p div 262144 * 64 + p div 4096 mod 64) * 64 + p div 64 mod 64) * 64 + p mod 64 = p"
      by (simp only: div_levels div_mult_mod_eq)
    show ?thesis using 4 a e div_mod_lt
      by (simp add: utf8_point_def utf8_next_def unat_byte continuation_def Let_def)
  qed
qed

lemma utf8_next_sound:
  assumes "utf8_next bs = Some (p, r)"
  shows "scalar p \<and> bs = utf8_point p @ r"
proof -
  obtain a r1 where bs: "bs = a # r1" using assms by (auto simp: utf8_next_def split: list.splits)
  let ?x = "unat a"
  consider "?x < 128" | "194 \<le> ?x" "?x < 224" | "224 \<le> ?x" "?x < 240" | "240 \<le> ?x"
    using assms unfolding bs utf8_next_def by (fastforce simp: Let_def split: if_splits)
  then show ?thesis
  proof cases
    case 1
    then show ?thesis using assms
      by (auto simp: bs utf8_next_def utf8_point_def scalar_def byte_eq_iff unat_byte)
  next
    case 2
    then obtain b where r1: "r1 = b # r" and b: "continuation b" and p: "p = (?x - 192) * 64 + (unat b - 128)"
      using assms unfolding bs utf8_next_def by (auto simp: Let_def split: list.splits if_splits)
    have y: "unat b - 128 < 64" using b by (auto simp: continuation_def)
    then have "p div 64 = ?x - 192" and "p mod 64 = unat b - 128" unfolding p by (simp_all only: low_bits)
    moreover have "128 \<le> p" "p < 2048" using 2 y unfolding p by auto
    ultimately show ?thesis using 2 b
      by (simp add: bs r1 utf8_point_def scalar_def continuation_def byte_sub)
  next
    case 3
    then obtain b c where r1: "r1 = b # c # r" and b: "continuation b" "continuation c"
      and p: "p = ((?x - 224) * 64 + (unat b - 128)) * 64 + (unat c - 128)"
      and ok: "2048 \<le> p" "p < 55296 \<or> 57344 \<le> p"
      using assms unfolding bs utf8_next_def by (auto simp: Let_def split: list.splits if_splits)
    have y: "unat b - 128 < 64" "unat c - 128 < 64" using b by (auto simp: continuation_def)
    then have q: "p div 64 = (?x - 224) * 64 + (unat b - 128)" "p mod 64 = unat c - 128"
      unfolding p by (simp_all only: low_bits)
    have q2: "p div 64 div 64 = ?x - 224" "p div 64 mod 64 = unat b - 128"
      unfolding q using y by (simp_all only: low_bits)
    have "p < 65536" using 3 y unfolding p by auto
    moreover have "utf8_point p = [a, b, c]"
      using 3 b ok \<open>p < 65536\<close> by (simp add: utf8_point_def continuation_def div_levels q2 q(2) byte_sub)
    ultimately show ?thesis using ok by (simp add: bs r1 scalar_def)
  next
    case 4
    then obtain b c d where r1: "r1 = b # c # d # r" and b: "continuation b" "continuation c" "continuation d"
      and p: "p = (((?x - 240) * 64 + (unat b - 128)) * 64 + (unat c - 128)) * 64 + (unat d - 128)"
      and ok: "65536 \<le> p" "p < 1114112" "?x < 245"
      using assms unfolding bs utf8_next_def by (auto simp: Let_def split: list.splits if_splits)
    have y: "unat b - 128 < 64" "unat c - 128 < 64" "unat d - 128 < 64" using b by (auto simp: continuation_def)
    have q: "p div 64 = ((?x - 240) * 64 + (unat b - 128)) * 64 + (unat c - 128)" "p mod 64 = unat d - 128"
      unfolding p using y by (simp_all only: low_bits)
    have q2: "p div 64 div 64 = (?x - 240) * 64 + (unat b - 128)" "p div 64 mod 64 = unat c - 128"
      unfolding q using y by (simp_all only: low_bits)
    have q3: "p div 64 div 64 div 64 = ?x - 240" "p div 64 div 64 mod 64 = unat b - 128"
      unfolding q2 using y by (simp_all only: low_bits)
    have "utf8_point p = [a, b, c, d]"
      using 4 b ok by (simp add: utf8_point_def continuation_def div_levels q3 q2(2) q(2) byte_sub)
    then show ?thesis using ok by (simp add: bs r1 scalar_def)
  qed
qed

lemma utf8_decode_encode: "\<forall>p\<in>set t. scalar p \<Longrightarrow> utf8_decode (utf8_encode t) = Some t"
proof (induction t)
  case (Cons p t)
  then show ?case by (subst utf8_decode.simps) (simp add: utf8_next_point)
qed (simp add: utf8_decode.simps)

lemma utf8_encode_decode: "utf8_decode bs = Some t \<Longrightarrow> utf8_encode t = bs \<and> (\<forall>p\<in>set t. scalar p)"
proof (induction bs arbitrary: t rule: utf8_decode.induct)
  case (1 bs)
  show ?case
  proof (cases "bs = []")
    case True
    then show ?thesis using "1.prems" by (simp add: utf8_decode.simps)
  next
    case False
    then obtain p r u where n: "utf8_next bs = Some (p, r)" and d: "utf8_decode r = Some u" and t: "t = p # u"
      using "1.prems" by (subst (asm) utf8_decode.simps) (auto split: option.splits)
    have "utf8_encode u = r \<and> (\<forall>x\<in>set u. scalar x)" using "1.IH" [OF False n refl d] .
    then show ?thesis using utf8_next_sound [OF n] t by simp
  qed
qed

subsection \<open>base64.b64decode with validate=True\<close>

definition BASE64_ALPHABET :: string where
  "BASE64_ALPHABET = ''ABCDEFGHIJKLMNOPQRSTUVWXYZabcdefghijklmnopqrstuvwxyz0123456789+/''"

definition base64_value :: "nat \<Rightarrow> nat option" where
  "base64_value c =
     (let i = length (takeWhile (\<lambda>x. x \<noteq> c) (ustr BASE64_ALPHABET)) in if i < 64 then Some i else None)"

text \<open>
  The loop of \<open>binascii.a2b_base64\<close> in strict mode: the place in the group of four, the bits left over, the
  padding seen in this group, and whether padding has begun. Interpreters differ on padding after a
  complete group: earlier ones skip it, later ones refuse it, which is \<open>refuse\<close>.
\<close>

fun a2b_loop :: "bool \<Rightarrow> nat \<Rightarrow> nat \<Rightarrow> nat \<Rightarrow> bool \<Rightarrow> ustr \<Rightarrow> bytes option" where
  "a2b_loop refuse quad left pads started [] = (if quad = 0 then Some [] else None)"
| "a2b_loop refuse quad left pads started (c # cs) =
     (if c = 61 then
        if refuse \<and> quad = 0 then None
        else if 2 \<le> quad \<and> 4 \<le> quad + Suc pads then (if cs = [] then Some [] else None)
        else a2b_loop refuse quad left (if 2 \<le> quad then Suc pads else pads) True cs
      else case base64_value c of None \<Rightarrow> None
      | Some v \<Rightarrow>
          if started then None
          else if quad = 0 then a2b_loop refuse 1 v 0 False cs
          else if quad = 1 then map_option ((#) (byte (left * 4 + v div 16))) (a2b_loop refuse 2 (v mod 16) 0 False cs)
          else if quad = 2 then map_option ((#) (byte (left * 16 + v div 4))) (a2b_loop refuse 3 (v mod 4) 0 False cs)
          else map_option ((#) (byte (left * 64 + v))) (a2b_loop refuse 0 0 0 False cs))"

definition b64decode :: "bool \<Rightarrow> ustr \<Rightarrow> bytes option" where
  "b64decode refuse t = (if t \<noteq> [] \<and> hd t = 61 then None else a2b_loop refuse 0 0 0 False t)"

text \<open>The reference encoder.\<close>

definition base64_char :: "nat \<Rightarrow> nat" where
  "base64_char v = ustr BASE64_ALPHABET ! v"

fun b64encode :: "bytes \<Rightarrow> ustr" where
  "b64encode [] = []"
| "b64encode [a] = [base64_char (unat a div 4), base64_char (unat a mod 4 * 16), 61, 61]"
| "b64encode [a, b] = [base64_char (unat a div 4), base64_char (unat a mod 4 * 16 + unat b div 16),
     base64_char (unat b mod 16 * 4), 61]"
| "b64encode (a # b # c # r) = [base64_char (unat a div 4), base64_char (unat a mod 4 * 16 + unat b div 16),
     base64_char (unat b mod 16 * 4 + unat c div 64), base64_char (unat c mod 64)] @ b64encode r"

lemma base64_alphabet: "length (ustr BASE64_ALPHABET) = 64" "distinct (ustr BASE64_ALPHABET)" "61 \<notin> set (ustr BASE64_ALPHABET)"
  "\<forall>c\<in>set (ustr BASE64_ALPHABET). 33 \<le> c \<and> c < 127"
  by code_simp+

lemma base64_value_char: "v < 64 \<Longrightarrow> base64_value (base64_char v) = Some v"
  using base64_alphabet by (simp add: base64_value_def base64_char_def takeWhile_neq_nth)

lemma base64_char_ok: "v < 64 \<Longrightarrow> base64_char v \<noteq> 61 \<and> 33 \<le> base64_char v \<and> base64_char v < 127"
  using base64_alphabet nth_mem [of v "ustr BASE64_ALPHABET"] unfolding base64_char_def by metis

lemma a2b_char: "v < 64 \<Longrightarrow> a2b_loop x q l p False (base64_char v # cs) =
     (if q = 0 then a2b_loop x 1 v 0 False cs
      else if q = 1 then map_option ((#) (byte (l * 4 + v div 16))) (a2b_loop x 2 (v mod 16) 0 False cs)
      else if q = 2 then map_option ((#) (byte (l * 16 + v div 4))) (a2b_loop x 3 (v mod 4) 0 False cs)
      else map_option ((#) (byte (l * 64 + v))) (a2b_loop x 0 0 0 False cs))"
  using base64_char_ok [of v] by (simp add: base64_value_char)

lemma high_bits: "unat (b :: 8 word) div 16 < 16" "unat (b :: 8 word) div 64 < 4" "unat (b :: 8 word) div 4 < 64"
  by (simp_all add: less_mult_imp_div_less)

lemma byte_parts:
  "unat a div 4 < 64" "unat a mod 4 * 16 + unat b div 16 < 64" "unat b mod 16 * 4 + unat c div 64 < 64"
  "unat (c :: 8 word) mod 64 < 64" "unat (a :: 8 word) mod 4 * 16 < 64" "unat (b :: 8 word) mod 16 * 4 < 64"
proof -
  have "unat a mod 4 < 4" and "unat b mod 16 < 16" by simp_all
  then show "unat a mod 4 * 16 + unat b div 16 < 64" and "unat b mod 16 * 4 + unat c div 64 < 64"
    and "unat a mod 4 * 16 < 64" and "unat b mod 16 * 4 < 64"
    using high_bits [of b] high_bits [of c] by linarith+
qed (simp_all add: high_bits)

lemma parts_joined:
  "y < 16 \<Longrightarrow> n div 4 * 4 + (n mod 4 * 16 + y) div 16 = (n :: nat)"
  "y < 16 \<Longrightarrow> z < 4 \<Longrightarrow> (k * 16 + y) mod 16 * 16 + (m mod 16 * 4 + z) div 4 = y * 16 + m mod 16"
  "z < 4 \<Longrightarrow> (k * 4 + z) mod 4 = z"
  by (simp_all add: div_mult_mod_eq)

lemma byte_joined:
  "byte (unat a div 4 * 4 + (unat a mod 4 * 16 + unat b div 16) div 16) = a"
  "byte ((unat a mod 4 * 16 + unat b div 16) mod 16 * 16 + (unat b mod 16 * 4 + unat c div 64) div 4) = b"
  "byte ((unat b mod 16 * 4 + unat c div 64) mod 4 * 64 + unat c mod 64) = (c :: 8 word)"
  "byte (unat a div 4 * 4 + unat a mod 4 * 16 div 16) = a"
  "byte ((unat a mod 4 * 16 + unat b div 16) mod 16 * 16 + unat b mod 16 * 4 div 4) = b"
proof -
  note h = high_bits [of b] high_bits [of c]
  show "byte (unat a div 4 * 4 + (unat a mod 4 * 16 + unat b div 16) div 16) = a"
    by (simp only: parts_joined(1) [OF h(1)] byte_unat)
  show "byte ((unat a mod 4 * 16 + unat b div 16) mod 16 * 16 + (unat b mod 16 * 4 + unat c div 64) div 4) = b"
    by (simp only: parts_joined(2) [OF h(1) h(5)] div_mult_mod_eq byte_unat)
  show "byte ((unat b mod 16 * 4 + unat c div 64) mod 4 * 64 + unat c mod 64) = c"
    by (simp only: parts_joined(3) [OF h(5)] div_mult_mod_eq byte_unat)
  show "byte (unat a div 4 * 4 + unat a mod 4 * 16 div 16) = a"
    using parts_joined(1) [of 0 "unat a"] by (simp only: add_0_right zero_less_numeral simp_thms byte_unat)
  show "byte ((unat a mod 4 * 16 + unat b div 16) mod 16 * 16 + unat b mod 16 * 4 div 4) = b"
    using parts_joined(2) [OF h(1), of 0 "unat a mod 4" "unat b"]
    by (simp only: add_0_right zero_less_numeral simp_thms div_mult_mod_eq byte_unat)
qed

lemma a2b_pad: "a2b_loop x 2 l 0 False [61, 61] = Some []" "a2b_loop x 3 l 0 False [61] = Some []"
  by simp_all

lemma a2b_encode: "a2b_loop x 0 l p False (b64encode bs) = Some bs"
proof (induction bs arbitrary: l p rule: b64encode.induct)
  case (2 a)
  show ?case unfolding b64encode.simps by (simp only: a2b_char byte_parts a2b_pad byte_joined if_True if_False) simp
next
  case (3 a b)
  show ?case unfolding b64encode.simps by (simp only: a2b_char byte_parts a2b_pad byte_joined if_True if_False) simp
next
  case (4 a b c r)
  show ?case unfolding b64encode.simps append.simps
    by (simp only: a2b_char byte_parts byte_joined 4 if_True if_False) simp
qed simp

lemma b64encode_chars: "\<forall>c\<in>set (b64encode bs). 33 \<le> c \<and> c < 127"
  by (induction bs rule: b64encode.induct) (simp_all add: base64_char_ok byte_parts)

lemma b64encode_head: "bs \<noteq> [] \<Longrightarrow> \<exists>v t. v < 64 \<and> b64encode bs = base64_char v # t"
  by (induction bs rule: b64encode.induct) (auto intro: byte_parts)

lemma b64_decode_encode: "b64decode x (b64encode bs) = Some bs"
proof (cases "bs = []")
  case False
  then obtain v t where "v < 64" "b64encode bs = base64_char v # t" using b64encode_head by blast
  then show ?thesis using base64_char_ok [of v] by (metis a2b_encode b64decode_def list.sel(1))
qed (simp add: b64decode_def)

text \<open>\<open>str.strip\<close>: the code points Python counts as space.\<close>

definition py_space :: "nat \<Rightarrow> bool" where
  "py_space c = ((9 \<le> c \<and> c \<le> 13) \<or> (28 \<le> c \<and> c \<le> 32) \<or> c \<in> {133, 160, 5760, 8232, 8233, 8239, 8287, 12288}
     \<or> (8192 \<le> c \<and> c \<le> 8202))"

definition ustr_strip :: "ustr \<Rightarrow> ustr" where
  "ustr_strip t = rev (dropWhile py_space (rev (dropWhile py_space t)))"

lemma strip_nothing: "\<forall>c\<in>set t. \<not> py_space c \<Longrightarrow> ustr_strip t = t"
proof -
  assume a: "\<forall>c\<in>set t. \<not> py_space c"
  have d: "dropWhile py_space u = u" if "\<forall>c\<in>set u. \<not> py_space c" for u using that by (cases u) auto
  show ?thesis unfolding ustr_strip_def using a by (simp add: d)
qed

lemma b64encode_strip: "ustr_strip (b64encode bs) = b64encode bs"
  by (rule strip_nothing) (use b64encode_chars [of bs] in \<open>fastforce simp: py_space_def\<close>)

end
