(* ===== verification/Base58.thy ===== *)
theory Base58
  imports PyBytes
begin

section \<open>Public keys as text\<close>

text \<open>
  \<open>_base58_encode\<close>, which \<open>pump_event_decoder.py\<close> and \<open>pumpswap_touch_decoder.py\<close> hold in the same words,
  and the proof that no two byte strings have the same text.
\<close>

subsection \<open>Numbers in base 58\<close>

definition BASE58_ALPHABET :: string where
  "BASE58_ALPHABET = ''123456789ABCDEFGHJKLMNPQRSTUVWXYZabcdefghijkmnopqrstuvwxyz''"

text \<open>The loop \<open>while number: number, remainder = divmod(number, 58)\<close>.\<close>

fun base58_loop :: "nat \<Rightarrow> string \<Rightarrow> string" where
  "base58_loop n encoded =
     (if n = 0 then encoded else base58_loop (n div 58) (BASE58_ALPHABET ! (n mod 58) # encoded))"

declare base58_loop.simps [simp del]

definition zero_prefix :: "bytes \<Rightarrow> nat" where
  "zero_prefix bs = length bs - length (dropWhile (\<lambda>b. b = 0) bs)"

definition base58_encode :: "bytes \<Rightarrow> string" where
  "base58_encode bs = replicate (zero_prefix bs) (CHR ''1'') @ base58_loop (from_be bs) []"

text \<open>Reading a text of that alphabet back.\<close>

definition base58_digit :: "char \<Rightarrow> nat" where
  "base58_digit c = length (takeWhile (\<lambda>x. x \<noteq> c) BASE58_ALPHABET)"

definition base58_number :: "string \<Rightarrow> nat" where
  "base58_number t = foldl (\<lambda>n c. 58 * n + base58_digit c) 0 t"

lemma base58_length: "length BASE58_ALPHABET = 58"
  by (simp add: BASE58_ALPHABET_def)

lemma base58_distinct: "distinct BASE58_ALPHABET"
  unfolding BASE58_ALPHABET_def by code_simp

lemma base58_digit_nth: "i < 58 \<Longrightarrow> base58_digit (BASE58_ALPHABET ! i) = i"
  by (simp add: base58_digit_def takeWhile_neq_nth base58_distinct base58_length)

lemma base58_loop_append: "base58_loop n t = base58_loop n [] @ t"
proof (induction n arbitrary: t rule: less_induct)
  case (less n)
  show ?case
  proof (cases "n = 0")
    case True
    then show ?thesis by (simp add: base58_loop.simps [of 0])
  next
    case False
    let ?c = "BASE58_ALPHABET ! (n mod 58)"
    have ih: "base58_loop (n div 58) u = base58_loop (n div 58) [] @ u" for u
      by (rule less.IH) (use False in simp)
    have "base58_loop n u = base58_loop (n div 58) [] @ ?c # u" for u
      by (subst base58_loop.simps) (simp only: False if_False ih [of "?c # u"])
    then show ?thesis by simp
  qed
qed

lemma base58_loop_step: "0 < n \<Longrightarrow> base58_loop n [] = base58_loop (n div 58) [] @ [BASE58_ALPHABET ! (n mod 58)]"
  using base58_loop.simps [of n "[]"] base58_loop_append [of "n div 58" "[BASE58_ALPHABET ! (n mod 58)]"] by simp

lemma base58_number_loop: "base58_number (base58_loop n []) = n"
proof (induction n rule: less_induct)
  case (less n)
  show ?case
  proof (cases "n = 0")
    case True
    then show ?thesis by (simp add: base58_loop.simps [of 0] base58_number_def)
  next
    case False
    then have "base58_number (base58_loop (n div 58) []) = n div 58" using less.IH by simp
    then show ?thesis using False by (simp add: base58_loop_step base58_number_def base58_digit_nth)
  qed
qed

lemma base58_loop_head: "0 < n \<Longrightarrow> \<exists>c t. base58_loop n [] = c # t \<and> c \<noteq> CHR ''1''"
proof (induction n rule: less_induct)
  case (less n)
  show ?case
  proof (cases "n div 58 = 0")
    case True
    then have n: "n < 58" by simp
    then have "base58_digit (BASE58_ALPHABET ! n) \<noteq> base58_digit (BASE58_ALPHABET ! 0)"
      using less.prems by (simp add: base58_digit_nth)
    then have "BASE58_ALPHABET ! n \<noteq> CHR ''1''" by (auto simp: BASE58_ALPHABET_def)
    then show ?thesis using n less.prems by (simp add: base58_loop_step base58_loop.simps [of 0])
  next
    case False
    moreover have "n div 58 < n" using less.prems by simp
    ultimately obtain c t where "base58_loop (n div 58) [] = c # t" and "c \<noteq> CHR ''1''"
      using less.IH [of "n div 58"] by auto
    then show ?thesis using base58_loop_step [OF less.prems] by auto
  qed
qed

lemma base58_loop_no_ones: "takeWhile (\<lambda>c. c = CHR ''1'') (base58_loop n []) = []"
  using base58_loop_head [of n] by (cases "n = 0") (auto simp: base58_loop.simps [of 0])

lemma from_le_zeros: "from_le (bs @ replicate k 0) = from_le bs"
proof (induction bs)
  case Nil
  show ?case by (induction k) auto
qed simp

lemma zero_prefix_split: "bs = replicate (zero_prefix bs) 0 @ dropWhile (\<lambda>b. b = 0) bs"
proof -
  let ?t = "takeWhile (\<lambda>b. b = 0) bs"
  have "?t = replicate (length ?t) 0" by (rule replicate_length_same [symmetric]) (auto dest: set_takeWhileD)
  moreover have "length ?t = zero_prefix bs"
    unfolding zero_prefix_def by (metis add_diff_cancel_right' length_append takeWhile_dropWhile_id)
  ultimately show ?thesis by (metis takeWhile_dropWhile_id)
qed

lemma from_be_drop: "from_be (dropWhile (\<lambda>b. b = 0) bs) = from_be bs"
proof -
  have "rev bs = rev (dropWhile (\<lambda>b. b = 0) bs) @ replicate (zero_prefix bs) 0"
    using arg_cong [OF zero_prefix_split, of rev bs] by simp
  then show ?thesis by (simp add: from_be_def from_le_zeros)
qed

text \<open>Highest byte first without leading zeros, a number has one form.\<close>

lemma from_le_lower: "bs \<noteq> [] \<Longrightarrow> last bs \<noteq> 0 \<Longrightarrow> 256 ^ (length bs - 1) \<le> from_le bs"
proof (induction bs)
  case (Cons b bs)
  show ?case
  proof (cases "bs = []")
    case True
    then show ?thesis using Cons.prems by (simp add: Suc_le_eq unat_gt_0)
  next
    case False
    then have "256 ^ (length bs - 1) \<le> from_le bs" using Cons by simp
    then have "256 * 256 ^ (length bs - 1) \<le> 256 * from_le bs" by simp
    then show ?thesis using False by (cases bs) auto
  qed
qed simp

lemma stripped_length:
  assumes "a \<noteq> [] \<longrightarrow> last a \<noteq> 0" and "b \<noteq> [] \<longrightarrow> last b \<noteq> 0" and "from_le a = from_le b"
  shows "length a \<le> length b"
proof (rule ccontr)
  assume "\<not> length a \<le> length b"
  then have a: "a \<noteq> []" "length b \<le> length a - 1" by auto
  have "from_le b < 256 ^ length b" by (rule from_le_bound)
  also have "\<dots> \<le> 256 ^ (length a - 1)" using a(2) by (intro power_increasing) auto
  also have "\<dots> \<le> from_le a" using a(1) assms(1) from_le_lower by blast
  finally show False using assms(3) by simp
qed

lemma base58_inject: "base58_encode a = base58_encode b \<longleftrightarrow> a = b"
proof
  let ?d = "\<lambda>bs. dropWhile (\<lambda>x. x = (0 :: 8 word)) bs"
  assume eq: "base58_encode a = base58_encode b"
  have ones: "length (takeWhile (\<lambda>c. c = CHR ''1'') (base58_encode x)) = zero_prefix x" for x
    by (simp add: base58_encode_def takeWhile_append base58_loop_no_ones)
  have rest: "base58_number (drop (zero_prefix x) (base58_encode x)) = from_be x" for x
    by (simp add: base58_encode_def base58_number_loop)
  have z: "zero_prefix a = zero_prefix b" using eq ones by metis
  have n: "from_le (rev (?d a)) = from_le (rev (?d b))"
    using eq rest z from_be_drop unfolding from_be_def by metis
  have nz: "rev (?d x) \<noteq> [] \<longrightarrow> last (rev (?d x)) \<noteq> 0" for x
    using hd_dropWhile [of "\<lambda>b. b = 0" x] by (simp add: last_rev)
  have "length (rev (?d a)) = length (rev (?d b))"
    using stripped_length [OF nz nz n] stripped_length [OF nz nz n [symmetric]] by simp
  then have "?d a = ?d b" using from_le_inject n by (metis rev_rev_ident)
  then show "a = b" using zero_prefix_split z by metis
qed simp

text \<open>Keys of a fixed length are read back from their text.\<close>

definition base58_bytes :: "nat \<Rightarrow> string \<Rightarrow> bytes" where
  "base58_bytes k t = rev (to_le k (base58_number t))"

lemma base58_number_ones: "base58_number (replicate k (CHR ''1'') @ t) = base58_number t"
proof -
  have "base58_digit (CHR ''1'') = 0" by (simp add: base58_digit_def BASE58_ALPHABET_def)
  then have "foldl (\<lambda>n c. 58 * n + base58_digit c) 0 (replicate k (CHR ''1'')) = 0" by (induction k) auto
  then show ?thesis by (simp add: base58_number_def)
qed

lemma base58_bytes_encode: "base58_bytes (length bs) (base58_encode bs) = bs"
  using to_from_le [of "rev bs"]
  by (simp add: base58_bytes_def base58_encode_def base58_number_ones base58_number_loop from_be_def)

end
