(* ===== verification/Borsh.thy ===== *)
theory Borsh
  imports Base58
begin

section \<open>The Borsh reader\<close>

text \<open>
  \<open>class _BorshReader\<close> and the primitive cases of \<open>_decode_type\<close>, which \<open>pump_event_decoder.py\<close> and
  \<open>pumpswap_touch_decoder.py\<close> hold in the same words but for the class of the error, \<open>err\<close> here. The locale
  \<open>codec\<close> is the contract of a reader against a reference writer: what is written is read back, and nothing
  else is read. Sequences of fields and of rows keep it.
\<close>

record borsh_reader =
  br_payload :: bytes
  br_offset :: nat

definition new_reader :: "bytes \<Rightarrow> borsh_reader" where
  "new_reader payload = \<lparr>br_payload = payload, br_offset = 0\<rparr>"

definition remaining :: "borsh_reader \<Rightarrow> int" where
  "remaining r = int (length (br_payload r)) - int (br_offset r)"

definition take_bytes :: "(string \<Rightarrow> py_error) \<Rightarrow> nat \<Rightarrow> borsh_reader \<Rightarrow> (bytes \<times> borsh_reader) res" where
  "take_bytes err k r =
     (if int k > remaining r then Inl (err ''borsh_payload_truncated'')
      else Inr (take k (drop (br_offset r) (br_payload r)), r\<lparr>br_offset := br_offset r + k\<rparr>))"

definition unsigned_bytes :: "(string \<Rightarrow> py_error) \<Rightarrow> nat \<Rightarrow> borsh_reader \<Rightarrow> (nat \<times> borsh_reader) res" where
  "unsigned_bytes err k r = bindR (take_bytes err k r) (\<lambda>(bs, r1). Inr (from_le bs, r1))"

definition signed_bytes :: "(string \<Rightarrow> py_error) \<Rightarrow> nat \<Rightarrow> borsh_reader \<Rightarrow> (int \<times> borsh_reader) res" where
  "signed_bytes err k r = bindR (take_bytes err k r) (\<lambda>(bs, r1). Inr (from_le_signed bs, r1))"

subsection \<open>Values\<close>

text \<open>A dictionary is the list of its items in the order they were first put in, as in Python.\<close>

datatype borsh_value =
    VBool bool
  | VInt int
  | VText ustr
  | VRows "(string \<times> borsh_value) list list"

type_synonym row = "(string \<times> borsh_value) list"

record 't field_spec =
  fs_name :: string
  fs_type :: 't

definition MAX_STRING_BYTES :: nat where
  "MAX_STRING_BYTES = 4096"

type_synonym 'v reading = "borsh_reader \<Rightarrow> ('v \<times> borsh_reader) res"

definition read_bool :: "(string \<Rightarrow> py_error) \<Rightarrow> borsh_value reading" where
  "read_bool err r = bindR (unsigned_bytes err 1 r) (\<lambda>(n, r1).
     if n \<notin> {0, 1} then Inl (err ''borsh_bool_invalid'') else Inr (VBool (n = 1), r1))"

definition read_unsigned :: "(string \<Rightarrow> py_error) \<Rightarrow> nat \<Rightarrow> borsh_value reading" where
  "read_unsigned err k r = bindR (unsigned_bytes err k r) (\<lambda>(n, r1). Inr (VInt (int n), r1))"

definition read_signed :: "(string \<Rightarrow> py_error) \<Rightarrow> nat \<Rightarrow> borsh_value reading" where
  "read_signed err k r = bindR (signed_bytes err k r) (\<lambda>(i, r1). Inr (VInt i, r1))"

definition read_pubkey :: "(string \<Rightarrow> py_error) \<Rightarrow> borsh_value reading" where
  "read_pubkey err r = bindR (take_bytes err 32 r) (\<lambda>(bs, r1). Inr (VText (ustr (base58_encode bs)), r1))"

definition read_string :: "(string \<Rightarrow> py_error) \<Rightarrow> borsh_value reading" where
  "read_string err r = bindR (unsigned_bytes err 4 r) (\<lambda>(n, r1).
     if n > MAX_STRING_BYTES then Inl (err ''borsh_string_too_large'')
     else bindR (take_bytes err n r1) (\<lambda>(bs, r2).
       case utf8_decode bs of None \<Rightarrow> Inl (err ''borsh_string_invalid_utf8'') | Some t \<Rightarrow> Inr (VText t, r2)))"

text \<open>\<open>{field.name: _decode_type(reader, field.type_spec) for field in fields}\<close>.\<close>

fun decode_fields :: "('t \<Rightarrow> borsh_value reading) \<Rightarrow> 't field_spec list \<Rightarrow> row \<Rightarrow> row reading" where
  "decode_fields rd [] d r = Inr (d, r)"
| "decode_fields rd (f # fs) d r =
     bindR (rd (fs_type f) r) (\<lambda>(v, r1). decode_fields rd fs (AList.update (fs_name f) v d) r1)"

text \<open>\<open>for _ in range(length)\<close> over the items of a vector.\<close>

fun decode_items :: "('t \<Rightarrow> borsh_value reading) \<Rightarrow> 't field_spec list \<Rightarrow> nat \<Rightarrow> row list reading" where
  "decode_items rd fs 0 r = Inr ([], r)"
| "decode_items rd fs (Suc n) r =
     bindR (decode_fields rd fs [] r) (\<lambda>(d, r1). bindR (decode_items rd fs n r1) (\<lambda>(ds, r2). Inr (d # ds, r2)))"

subsection \<open>Reference writers\<close>

definition write_bool :: "borsh_value \<Rightarrow> bytes" where
  "write_bool v = (case v of VBool b \<Rightarrow> [if b then 1 else 0] | _ \<Rightarrow> [])"

definition write_unsigned :: "nat \<Rightarrow> borsh_value \<Rightarrow> bytes" where
  "write_unsigned k v = (case v of VInt i \<Rightarrow> to_le k (nat i) | _ \<Rightarrow> [])"

definition write_signed :: "nat \<Rightarrow> borsh_value \<Rightarrow> bytes" where
  "write_signed k v = (case v of VInt i \<Rightarrow> to_le_signed k i | _ \<Rightarrow> [])"

definition write_pubkey :: "borsh_value \<Rightarrow> bytes" where
  "write_pubkey v = (case v of VText t \<Rightarrow> base58_bytes 32 (map char_of t) | _ \<Rightarrow> [])"

definition write_string :: "borsh_value \<Rightarrow> bytes" where
  "write_string v = (case v of VText t \<Rightarrow> to_le 4 (length (utf8_encode t)) @ utf8_encode t | _ \<Rightarrow> [])"

definition write_fields :: "('t \<Rightarrow> borsh_value \<Rightarrow> bytes) \<Rightarrow> 't field_spec list \<Rightarrow> row \<Rightarrow> bytes" where
  "write_fields wr fs d = concat (map2 (\<lambda>f (n, v). wr (fs_type f) v) fs d)"

definition write_items :: "('t \<Rightarrow> borsh_value \<Rightarrow> bytes) \<Rightarrow> 't field_spec list \<Rightarrow> row list \<Rightarrow> bytes" where
  "write_items wr fs ds = concat (map (write_fields wr fs) ds)"

text \<open>The values of a type: what can be written.\<close>

definition ok_bool :: "borsh_value \<Rightarrow> bool" where
  "ok_bool v = (case v of VBool b \<Rightarrow> True | _ \<Rightarrow> False)"

definition ok_unsigned :: "nat \<Rightarrow> borsh_value \<Rightarrow> bool" where
  "ok_unsigned k v = (case v of VInt i \<Rightarrow> 0 \<le> i \<and> i < 2 ^ (8 * k) | _ \<Rightarrow> False)"

definition ok_signed :: "nat \<Rightarrow> borsh_value \<Rightarrow> bool" where
  "ok_signed k v = (case v of VInt i \<Rightarrow> - (2 ^ (8 * k - 1)) \<le> i \<and> i < 2 ^ (8 * k - 1) | _ \<Rightarrow> False)"

definition ok_pubkey :: "borsh_value \<Rightarrow> bool" where
  "ok_pubkey v = (case v of VText t \<Rightarrow> ustr (base58_encode (base58_bytes 32 (map char_of t))) = t | _ \<Rightarrow> False)"

definition ok_string :: "borsh_value \<Rightarrow> bool" where
  "ok_string v = (case v of VText t \<Rightarrow> list_all scalar t \<and> length (utf8_encode t) \<le> MAX_STRING_BYTES | _ \<Rightarrow> False)"

definition ok_fields :: "('t \<Rightarrow> borsh_value \<Rightarrow> bool) \<Rightarrow> 't field_spec list \<Rightarrow> row \<Rightarrow> bool" where
  "ok_fields ok fs d = list_all2 (\<lambda>f (n, v). n = fs_name f \<and> ok (fs_type f) v) fs d"

subsection \<open>The contract of a reader\<close>

definition ahead :: "borsh_reader \<Rightarrow> bytes" where
  "ahead r = drop (br_offset r) (br_payload r)"

definition inside :: "borsh_reader \<Rightarrow> bool" where
  "inside r = (br_offset r \<le> length (br_payload r))"

definition moved :: "nat \<Rightarrow> borsh_reader \<Rightarrow> borsh_reader" where
  "moved n r = r\<lparr>br_offset := br_offset r + n\<rparr>"

lemma moved_simps [simp]: "moved 0 r = r" "moved m (moved n r) = moved (n + m) r"
  by (simp_all add: moved_def)

lemma new_reader_simps [simp]: "ahead (new_reader p) = p" "inside (new_reader p)" "br_offset (new_reader p) = 0"
  by (simp_all add: ahead_def inside_def new_reader_def)

lemma ahead_moved: "inside r \<Longrightarrow> ahead r = a @ bs \<Longrightarrow> ahead (moved (length a) r) = bs \<and> inside (moved (length a) r)"
proof -
  assume w: "inside r" and a: "ahead r = a @ bs"
  have "ahead (moved (length a) r) = drop (length a) (ahead r)" by (simp add: ahead_def moved_def add.commute)
  moreover have "length (br_payload r) - br_offset r = length a + length bs" using a by (metis ahead_def length_append length_drop)
  ultimately show ?thesis using a w by (auto simp: inside_def moved_def)
qed

lemma remaining_ahead: "inside r \<Longrightarrow> remaining r = int (length (ahead r))"
  by (simp add: remaining_def ahead_def inside_def of_nat_diff)

lemma take_bytes_eq_Inr:
  assumes "inside r"
  shows "take_bytes err k r = Inr (bs, r') \<longleftrightarrow>
    length bs = k \<and> ahead r = bs @ ahead r' \<and> inside r' \<and> r' = moved k r"
proof
  assume t: "take_bytes err k r = Inr (bs, r')"
  then have k: "k \<le> length (ahead r)" and bs: "bs = take k (ahead r)" and r': "r' = moved k r"
    using remaining_ahead [OF assms] by (auto simp: take_bytes_def ahead_def moved_def split: if_splits)
  then have "length bs = k" and "ahead r = bs @ drop k (ahead r)" by simp_all
  then show "length bs = k \<and> ahead r = bs @ ahead r' \<and> inside r' \<and> r' = moved k r"
    using ahead_moved [OF assms, of bs] r' by metis
next
  assume "length bs = k \<and> ahead r = bs @ ahead r' \<and> inside r' \<and> r' = moved k r"
  then show "take_bytes err k r = Inr (bs, r')"
    using remaining_ahead [OF assms] by (auto simp: take_bytes_def ahead_def [symmetric] moved_def)
qed

lemma unsigned_bytes_eq_Inr:
  assumes "inside r"
  shows "unsigned_bytes err k r = Inr (n, r') \<longleftrightarrow>
    n < 256 ^ k \<and> ahead r = to_le k n @ ahead r' \<and> inside r' \<and> r' = moved k r"
proof
  assume "unsigned_bytes err k r = Inr (n, r')"
  then obtain bs where t: "take_bytes err k r = Inr (bs, r')" and n: "n = from_le bs"
    by (auto simp: unsigned_bytes_def bindR_eq_Inr)
  then have "length bs = k" using take_bytes_eq_Inr [OF assms] by blast
  then have "n < 256 ^ k" and "bs = to_le k n" using from_le_bound [of bs] to_from_le [of bs] n by auto
  then show "n < 256 ^ k \<and> ahead r = to_le k n @ ahead r' \<and> inside r' \<and> r' = moved k r"
    using t take_bytes_eq_Inr [OF assms] by blast
next
  assume a: "n < 256 ^ k \<and> ahead r = to_le k n @ ahead r' \<and> inside r' \<and> r' = moved k r"
  then have "take_bytes err k r = Inr (to_le k n, r')" using take_bytes_eq_Inr [OF assms] to_le_length(1) by blast
  then show "unsigned_bytes err k r = Inr (n, r')" using a by (simp add: unsigned_bytes_def from_to_le)
qed

lemma signed_bytes_eq_Inr:
  assumes "inside r" and "0 < k"
  shows "signed_bytes err k r = Inr (i, r') \<longleftrightarrow> - (2 ^ (8 * k - 1)) \<le> i \<and> i < 2 ^ (8 * k - 1)
    \<and> ahead r = to_le_signed k i @ ahead r' \<and> inside r' \<and> r' = moved k r"
proof
  assume "signed_bytes err k r = Inr (i, r')"
  then obtain bs where t: "take_bytes err k r = Inr (bs, r')" and i: "i = from_le_signed bs"
    by (auto simp: signed_bytes_def bindR_eq_Inr)
  then have k: "length bs = k" using take_bytes_eq_Inr [OF assms(1)] by blast
  then have b: "bs \<noteq> []" using assms(2) by auto
  show "- (2 ^ (8 * k - 1)) \<le> i \<and> i < 2 ^ (8 * k - 1)
    \<and> ahead r = to_le_signed k i @ ahead r' \<and> inside r' \<and> r' = moved k r"
    using t [unfolded take_bytes_eq_Inr [OF assms(1)]] from_le_signed_bounds [OF b] to_from_le_signed [OF b] i k by auto
next
  assume a: "- (2 ^ (8 * k - 1)) \<le> i \<and> i < 2 ^ (8 * k - 1)
    \<and> ahead r = to_le_signed k i @ ahead r' \<and> inside r' \<and> r' = moved k r"
  then have "take_bytes err k r = Inr (to_le_signed k i, r')"
    using take_bytes_eq_Inr [OF assms(1)] to_le_length(2) by blast
  then show "signed_bytes err k r = Inr (i, r')" using a assms(2) by (simp add: signed_bytes_def from_to_le_signed)
qed

locale codec =
  fixes rd :: "'v reading" and wr :: "'v \<Rightarrow> bytes" and ok :: "'v \<Rightarrow> bool"
  assumes reads_exactly: "inside r \<Longrightarrow> rd r = Inr (v, r') \<longleftrightarrow>
    ok v \<and> ahead r = wr v @ ahead r' \<and> inside r' \<and> r' = moved (length (wr v)) r"
begin

lemma read_written:
  assumes "inside r" and "ok v" and "ahead r = wr v @ bs"
  shows "rd r = Inr (v, moved (length (wr v)) r)" and "ahead (moved (length (wr v)) r) = bs"
    and "inside (moved (length (wr v)) r)"
  using assms ahead_moved [OF assms(1,3)] by (simp_all add: reads_exactly)

text \<open>A payload that is read to its end is the one that is written.\<close>

lemma reads_all:
  "rd (new_reader p) = Inr (v, r) \<and> remaining r = 0 \<longleftrightarrow> ok v \<and> p = wr v \<and> r = moved (length p) (new_reader p)"
proof
  assume a: "rd (new_reader p) = Inr (v, r) \<and> remaining r = 0"
  have r: "ok v \<and> ahead (new_reader p) = wr v @ ahead r \<and> inside r \<and> r = moved (length (wr v)) (new_reader p)"
    using a reads_exactly [OF new_reader_simps(2)] by blast
  have "remaining r = int (length (ahead r))" using r remaining_ahead by blast
  then have "ahead r = []" using a by auto
  with r have "p = wr v" by (metis append_Nil2 new_reader_simps(1))
  with r show "ok v \<and> p = wr v \<and> r = moved (length p) (new_reader p)" by blast
next
  assume a: "ok v \<and> p = wr v \<and> r = moved (length p) (new_reader p)"
  then have p: "ahead (new_reader p) = wr v @ []" by simp
  show "rd (new_reader p) = Inr (v, r) \<and> remaining r = 0"
    using read_written [OF new_reader_simps(2) conjunct1 [OF a] p] a by (simp add: remaining_ahead)
qed

lemma write_inject: "ok v \<Longrightarrow> ok w \<Longrightarrow> wr v = wr w \<Longrightarrow> v = w"
  using read_written(1) [of "new_reader (wr v)" v "[]"] read_written(1) [of "new_reader (wr v)" w "[]"] by simp

end


subsection \<open>Primitive types\<close>

interpretation bool_codec: codec "read_bool err" write_bool ok_bool for err
proof
  fix r r' :: borsh_reader and v assume r: "inside r"
  have one: "to_le 1 n = [byte n]" if "n < 256" for n using that by simp
  have bits: "byte 0 = 0" "byte 1 = 1" by (simp_all add: byte_def)
  show "read_bool err r = Inr (v, r') \<longleftrightarrow>
    ok_bool v \<and> ahead r = write_bool v @ ahead r' \<and> inside r' \<and> r' = moved (length (write_bool v)) r"
    (is "?L \<longleftrightarrow> ?R")
  proof
    assume ?L
    then obtain n where n: "unsigned_bytes err 1 r = Inr (n, r')" "n \<in> {0, 1}" "v = VBool (n = 1)"
      by (auto simp: read_bool_def bindR_eq_Inr split: if_splits)
    then show ?R using unsigned_bytes_eq_Inr [OF r, of err 1 n r'] one [of n] bits
      by (auto simp: ok_bool_def write_bool_def)
  next
    assume R: ?R
    then obtain b where v: "v = VBool b" by (auto simp: ok_bool_def split: borsh_value.splits)
    let ?n = "of_bool b :: nat"
    have "unsigned_bytes err 1 r = Inr (?n, r')"
      using R v unsigned_bytes_eq_Inr [OF r, of err 1 ?n r'] one [of ?n] bits by (auto simp: write_bool_def)
    then show ?L using v by (simp add: read_bool_def)
  qed
qed

interpretation unsigned_codec: codec "read_unsigned err k" "write_unsigned k" "ok_unsigned k" for err k
proof
  fix r r' :: borsh_reader and v assume r: "inside r"
  have p: "(256 :: nat) ^ k = 2 ^ (8 * k)" by (rule power_256)
  show "read_unsigned err k r = Inr (v, r') \<longleftrightarrow>
    ok_unsigned k v \<and> ahead r = write_unsigned k v @ ahead r' \<and> inside r' \<and> r' = moved (length (write_unsigned k v)) r"
    (is "?L \<longleftrightarrow> ?R")
  proof
    assume ?L
    then obtain n where n: "unsigned_bytes err k r = Inr (n, r')" "v = VInt (int n)"
      by (auto simp: read_unsigned_def bindR_eq_Inr)
    moreover from n(1) have "int n < 2 ^ (8 * k)"
      using unsigned_bytes_eq_Inr [OF r] p by (metis of_nat_less_iff of_nat_numeral of_nat_power)
    ultimately show ?R unfolding unsigned_bytes_eq_Inr [OF r] by (auto simp: ok_unsigned_def write_unsigned_def)
  next
    assume R: ?R
    then obtain i where v: "v = VInt i" "0 \<le> i" "i < 2 ^ (8 * k)" by (auto simp: ok_unsigned_def split: borsh_value.splits)
    then have "nat i < 256 ^ k" by (simp add: p nat_less_iff)
    then have "unsigned_bytes err k r = Inr (nat i, r')"
      unfolding unsigned_bytes_eq_Inr [OF r] using R v by (auto simp: write_unsigned_def)
    then show ?L using v by (simp add: read_unsigned_def)
  qed
qed

lemma signed_codec: "0 < k \<Longrightarrow> codec (read_signed err k) (write_signed k) (ok_signed k)"
proof
  fix r r' :: borsh_reader and v assume k: "0 < k" and r: "inside r"
  show "read_signed err k r = Inr (v, r') \<longleftrightarrow>
    ok_signed k v \<and> ahead r = write_signed k v @ ahead r' \<and> inside r' \<and> r' = moved (length (write_signed k v)) r"
    by (cases v) (auto simp: read_signed_def bindR_pair_eq_Inr signed_bytes_eq_Inr [OF r k] ok_signed_def write_signed_def)
qed

lemma ustr_back [simp]: "map char_of (ustr t) = t"
  by (simp add: ustr_def comp_def)

interpretation pubkey_codec: codec "read_pubkey err" write_pubkey ok_pubkey for err
proof
  fix r r' :: borsh_reader and v assume r: "inside r"
  show "read_pubkey err r = Inr (v, r') \<longleftrightarrow>
    ok_pubkey v \<and> ahead r = write_pubkey v @ ahead r' \<and> inside r' \<and> r' = moved (length (write_pubkey v)) r"
    (is "?L \<longleftrightarrow> ?R")
  proof
    assume ?L
    then obtain bs where t: "take_bytes err 32 r = Inr (bs, r')" and v: "v = VText (ustr (base58_encode bs))"
      by (auto simp: read_pubkey_def bindR_eq_Inr)
    moreover from t have "length bs = 32" using take_bytes_eq_Inr [OF r] by blast
    moreover from this have "base58_bytes 32 (base58_encode bs) = bs" using base58_bytes_encode [of bs] by simp
    ultimately show ?R unfolding take_bytes_eq_Inr [OF r] by (auto simp: ok_pubkey_def write_pubkey_def)
  next
    assume R: ?R
    then obtain t where v: "v = VText t" "ustr (base58_encode (base58_bytes 32 (map char_of t))) = t"
      by (auto simp: ok_pubkey_def split: borsh_value.splits)
    moreover have "length (base58_bytes 32 (map char_of t)) = 32" by (simp add: base58_bytes_def)
    ultimately have "take_bytes err 32 r = Inr (base58_bytes 32 (map char_of t), r')"
      unfolding take_bytes_eq_Inr [OF r] using R by (auto simp: write_pubkey_def)
    then show ?L using v by (simp add: read_pubkey_def)
  qed
qed

interpretation string_codec: codec "read_string err" write_string ok_string for err
proof
  fix r r' :: borsh_reader and v assume r: "inside r"
  show "read_string err r = Inr (v, r') \<longleftrightarrow>
    ok_string v \<and> ahead r = write_string v @ ahead r' \<and> inside r' \<and> r' = moved (length (write_string v)) r"
    (is "?L \<longleftrightarrow> ?R")
  proof
    assume ?L
    then obtain n r1 bs t where n: "unsigned_bytes err 4 r = Inr (n, r1)" "n \<le> MAX_STRING_BYTES"
      and b: "take_bytes err n r1 = Inr (bs, r')" and t: "utf8_decode bs = Some t" "v = VText t"
      by (auto simp: read_string_def bindR_eq_Inr split: if_splits option.splits)
    have u: "ahead r = to_le 4 n @ ahead r1" "inside r1" "r1 = moved 4 r" using n(1) unsigned_bytes_eq_Inr [OF r] by auto
    have w: "length bs = n" "ahead r1 = bs @ ahead r'" "inside r'" "r' = moved n r1"
      using b take_bytes_eq_Inr [OF u(2)] by auto
    show ?R using utf8_encode_decode [OF t(1)] t(2) u w n(2)
      by (simp add: ok_string_def write_string_def list_all_iff)
  next
    assume R: ?R
    then obtain t where v: "v = VText t" and t: "list_all scalar t" "length (utf8_encode t) \<le> MAX_STRING_BYTES"
      by (auto simp: ok_string_def split: borsh_value.splits)
    let ?b = "utf8_encode t" and ?r = "moved 4 r"
    have l: "length (to_le 4 (length ?b)) = 4" by simp
    have a: "ahead r = to_le 4 (length ?b) @ ?b @ ahead r'" and r': "inside r'" "r' = moved (length ?b) ?r"
      using R v by (auto simp: write_string_def)
    have m: "ahead ?r = ?b @ ahead r'" "inside ?r" using ahead_moved [OF r a] l by simp_all
    have "unsigned_bytes err 4 r = Inr (length ?b, ?r)"
      using a m t(2) unsigned_bytes_eq_Inr [OF r] by (simp add: MAX_STRING_BYTES_def)
    moreover have "take_bytes err (length ?b) ?r = Inr (?b, r')" using m r' take_bytes_eq_Inr [OF m(2)] by simp
    moreover have "utf8_decode ?b = Some t" using t(1) by (simp add: utf8_decode_encode list_all_iff)
    ultimately show ?L using v t(2) by (simp add: read_string_def)
  qed
qed

subsection \<open>Fields and rows\<close>

lemma update_new: "n \<notin> fst ` set d \<Longrightarrow> AList.update n v d = d @ [(n, v)]"
  by (induction d) auto

text \<open>One codec for every type a field can have.\<close>

locale codec_family =
  fixes rd :: "'t \<Rightarrow> borsh_value reading" and wr :: "'t \<Rightarrow> borsh_value \<Rightarrow> bytes" and ok :: "'t \<Rightarrow> borsh_value \<Rightarrow> bool"
  assumes member: "codec (rd t) (wr t) (ok t)"
begin

lemma fields_from:
  assumes "inside r" and "distinct (map fst d @ map fs_name fs)"
  shows "decode_fields rd fs d r = Inr (d', r') \<longleftrightarrow> (\<exists>e. d' = d @ e \<and> ok_fields ok fs e
    \<and> ahead r = write_fields wr fs e @ ahead r' \<and> inside r' \<and> r' = moved (length (write_fields wr fs e)) r)"
  using assms
proof (induction fs arbitrary: d r)
  case Nil
  then show ?case by (auto simp: ok_fields_def write_fields_def)
next
  case (Cons f fs)
  let ?n = "fs_name f" and ?t = "fs_type f"
  have new: "AList.update ?n v d = d @ [(?n, v)]" for v using Cons.prems(2) by (intro update_new) auto
  have apart: "distinct (map fst (d @ [(?n, v)]) @ map fs_name fs)" for v using Cons.prems(2) by auto
  note exact = codec.reads_exactly [OF member]
  show ?case (is "?L \<longleftrightarrow> ?R")
  proof
    assume ?L
    then obtain v r1 where v: "rd ?t r = Inr (v, r1)" and d: "decode_fields rd fs (d @ [(?n, v)]) r1 = Inr (d', r')"
      by (auto simp: new bindR_eq_Inr)
    have r1: "ok ?t v" "ahead r = wr ?t v @ ahead r1" "inside r1" "r1 = moved (length (wr ?t v)) r"
      using v unfolding exact [OF Cons.prems(1)] by blast+
    obtain e where "d' = (d @ [(?n, v)]) @ e" "ok_fields ok fs e" "ahead r1 = write_fields wr fs e @ ahead r'"
      "inside r'" "r' = moved (length (write_fields wr fs e)) r1"
      using d unfolding Cons.IH [OF r1(3) apart] by blast
    then show ?R using r1 by (intro exI [of _ "(?n, v) # e"]) (auto simp: ok_fields_def write_fields_def)
  next
    assume ?R
    then obtain e where e: "d' = d @ e" "ok_fields ok (f # fs) e" "ahead r = write_fields wr (f # fs) e @ ahead r'"
      "inside r'" "r' = moved (length (write_fields wr (f # fs) e)) r" by blast
    then obtain v e' where v: "e = (?n, v) # e'" "ok ?t v" "ok_fields ok fs e'"
      by (auto simp: ok_fields_def list_all2_Cons1)
    have a: "ahead r = wr ?t v @ write_fields wr fs e' @ ahead r'" using e(3) v(1) by (simp add: write_fields_def)
    let ?r = "moved (length (wr ?t v)) r"
    note read = codec.read_written [OF member Cons.prems(1) v(2) a]
    have "r' = moved (length (write_fields wr fs e')) ?r" using e(5) v(1) by (simp add: write_fields_def)
    then have "decode_fields rd fs (d @ [(?n, v)]) ?r = Inr (d', r')"
      unfolding Cons.IH [OF read(3) apart] using e(1,4) v(1,3) read(2) by (intro exI [of _ e']) auto
    then show ?L using read(1) by (simp add: new)
  qed
qed

lemma fields_codec: "distinct (map fs_name fs) \<Longrightarrow> codec (decode_fields rd fs []) (write_fields wr fs) (ok_fields ok fs)"
  by unfold_locales (simp add: fields_from)

lemma items_codec:
  assumes "distinct (map fs_name fs)"
  shows "codec (decode_items rd fs n) (write_items wr fs) (\<lambda>ds. length ds = n \<and> list_all (ok_fields ok fs) ds)"
proof
  fix r r' :: borsh_reader and ds assume "inside r"
  then show "decode_items rd fs n r = Inr (ds, r') \<longleftrightarrow> (length ds = n \<and> list_all (ok_fields ok fs) ds)
    \<and> ahead r = write_items wr fs ds @ ahead r' \<and> inside r' \<and> r' = moved (length (write_items wr fs ds)) r"
  proof (induction n arbitrary: r ds)
    case 0
    then show ?case by (auto simp: write_items_def)
  next
    case (Suc n)
    note f = fields_codec [OF assms]
    note exact = codec.reads_exactly [OF f Suc.prems]
    show ?case (is "?L \<longleftrightarrow> ?R")
    proof
      assume ?L
      then obtain d ds' r1 where d: "decode_fields rd fs [] r = Inr (d, r1)" and "decode_items rd fs n r1 = Inr (ds', r')"
        and ds: "ds = d # ds'" by (auto simp: bindR_eq_Inr)
      then show ?R using d [unfolded exact] Suc.IH [of r1 ds'] by (auto simp: write_items_def)
    next
      assume R: ?R
      then obtain d ds' where ds: "ds = d # ds'" "length ds' = n" by (auto simp: length_Suc_conv)
      then have "ok_fields ok fs d" and a: "ahead r = write_fields wr fs d @ write_items wr fs ds' @ ahead r'"
        using R by (auto simp: write_items_def)
      note read = codec.read_written [OF f Suc.prems this]
      have "decode_items rd fs n (moved (length (write_fields wr fs d)) r) = Inr (ds', r')"
        unfolding Suc.IH [OF read(3)] using R ds read(2) by (auto simp: write_items_def)
      then show ?L using read(1) ds(1) by simp
    qed
  qed
qed

end

text \<open>A dictionary that fits the fields has their names and values of their types.\<close>

lemma ok_fields_names: "ok_fields ok fs d \<Longrightarrow> map fst d = map fs_name fs"
  unfolding ok_fields_def by (induction rule: list_all2_induct) auto

lemma ok_fields_value:
  "ok_fields ok fs d \<Longrightarrow> distinct (map fs_name fs) \<Longrightarrow> f \<in> set fs \<Longrightarrow> \<exists>v. map_of d (fs_name f) = Some v \<and> ok (fs_type f) v"
  unfolding ok_fields_def
proof (induction rule: list_all2_induct)
  case (Cons g gs p d)
  then show ?case by (cases "f = g") (auto simp: image_iff)
qed simp

end
