(* ===== verification/PinnedDocument.thy ===== *)
theory PinnedDocument
  imports Borsh PyJson
begin

section \<open>Reading a pinned document\<close>

text \<open>
  The checks both decoders use to compile their pinned subset (\<open>_mapping\<close>, \<open>_sequence\<close>, \<open>_text\<close>, \<open>_exact\<close> and
  the loops over rows and discriminators), with the class of the error, \<open>err\<close>, as an argument. A document is
  the JSON value of the fixture. The lemmas say that a dictionary whose keys and entries are all checked is
  one dictionary.
\<close>

definition fld :: "string \<times> 't \<Rightarrow> 't field_spec" where
  "fld p = \<lparr>fs_name = fst p, fs_type = snd p\<rparr>"

definition pair_of :: "'t field_spec \<Rightarrow> string \<times> 't" where
  "pair_of f = (fs_name f, fs_type f)"

lemma fld_simps [simp]: "fs_name (fld p) = fst p" "fs_type (fld p) = snd p" "pair_of (fld p) = p" "fld (pair_of f) = f"
  by (simp_all add: fld_def pair_of_def)

definition as_mapping :: "(string \<Rightarrow> py_error) \<Rightarrow> string \<Rightarrow> jval \<Rightarrow> dict res" where
  "as_mapping err name v = (case v of JObj d \<Rightarrow> Inr d | _ \<Rightarrow> Inl (err (name @ ''_must_be_mapping'')))"

definition as_sequence :: "(string \<Rightarrow> py_error) \<Rightarrow> string \<Rightarrow> jval \<Rightarrow> jval list res" where
  "as_sequence err name v = (case v of JArr xs \<Rightarrow> Inr xs | _ \<Rightarrow> Inl (err (name @ ''_must_be_sequence'')))"

definition as_text :: "(string \<Rightarrow> py_error) \<Rightarrow> string \<Rightarrow> jval \<Rightarrow> string res" where
  "as_text err name v = (case v of JStr t \<Rightarrow> if t = [] then Inl (err (name @ ''_must_be_nonempty_text'')) else Inr t
     | _ \<Rightarrow> Inl (err (name @ ''_must_be_nonempty_text'')))"

definition exact :: "(string \<Rightarrow> py_error) \<Rightarrow> string \<Rightarrow> bool \<Rightarrow> unit res" where
  "exact err name same = guardR same (err (name @ ''_drift''))"

text \<open>\<open>for index, item in enumerate(rows)\<close>.\<close>

fun enumerated :: "(nat \<Rightarrow> jval \<Rightarrow> 'a res) \<Rightarrow> nat \<Rightarrow> jval list \<Rightarrow> 'a list res" where
  "enumerated f i [] = Inr []"
| "enumerated f i (x # xs) = bindR (f i x) (\<lambda>y. bindR (enumerated f (Suc i) xs) (\<lambda>ys. Inr (y # ys)))"

definition byte_of_json :: "jval \<Rightarrow> nat option" where
  "byte_of_json v = (case v of JInt i \<Rightarrow> if 0 \<le> i \<and> i \<le> 255 then Some (nat i) else None | _ \<Rightarrow> None)"

definition compile_discriminator :: "(string \<Rightarrow> py_error) \<Rightarrow> string \<Rightarrow> nat list \<Rightarrow> jval \<Rightarrow> bytes res" where
  "compile_discriminator err name expected v =
     bindR (as_sequence err name v) (\<lambda>values.
       if length values \<noteq> 8 \<or> list_ex (\<lambda>x. byte_of_json x = None) values then Inl (err (name @ ''_invalid''))
       else let d = map (\<lambda>x. byte (the (byte_of_json x))) values in
         bindR (exact err name (d = map byte expected)) (\<lambda>_. Inr d))"

subsection \<open>Dictionaries with exactly the expected keys\<close>

lemma dict_exact:
  assumes "distinct (map fst kvs)"
  shows "d = dict_of kvs \<longleftrightarrow> fmdom d = fset_of_list (map fst kvs) \<and> (\<forall>(k, v)\<in>set kvs. jget d k = v)"
proof -
  have "map_of (rev kvs) k = map_of kvs k" for k
  proof (cases "map_of kvs k")
    case None
    then have "map_of (rev kvs) k = None" by (simp add: map_of_eq_None_iff)
    with None show ?thesis by simp
  next
    case (Some v)
    then have "(k, v) \<in> set (rev kvs)" by (auto dest: map_of_SomeD)
    moreover have "distinct (map fst (rev kvs))" using assms by (simp add: rev_map [symmetric])
    ultimately show ?thesis using Some map_of_is_SomeI by fastforce
  qed
  then have look: "fmlookup (dict_of kvs) k = map_of kvs k" for k
    by (cases "map_of kvs k") (simp_all add: dict_with_lookup)
  have dom: "fmdom (dict_of kvs) = fset_of_list (map fst kvs)"
  proof (rule fset_eqI)
    fix k
    have "k |\<in>| fmdom (dict_of kvs) \<longleftrightarrow> map_of kvs k \<noteq> None" using look [of k] by (auto simp: fmlookup_dom_iff)
    then show "k |\<in>| fmdom (dict_of kvs) \<longleftrightarrow> k |\<in>| fset_of_list (map fst kvs)"
      by (simp add: map_of_eq_None_iff fset_of_list.rep_eq)
  qed
  show ?thesis
  proof
    assume "d = dict_of kvs"
    then show "fmdom d = fset_of_list (map fst kvs) \<and> (\<forall>(k, v)\<in>set kvs. jget d k = v)"
      using dom look assms by (auto simp: jget_def)
  next
    assume a: "fmdom d = fset_of_list (map fst kvs) \<and> (\<forall>(k, v)\<in>set kvs. jget d k = v)"
    show "d = dict_of kvs"
    proof (rule fmap_ext)
      fix k
      show "fmlookup d k = fmlookup (dict_of kvs) k"
      proof (cases "k |\<in>| fmdom d")
        case False
        then have "k |\<notin>| fmdom (dict_of kvs)" using a dom by simp
        with False show ?thesis by (simp add: fmdom_notD)
      next
        case True
        then obtain v where v: "(k, v) \<in> set kvs" using a by (auto simp: fset_of_list_elem)
        then have "jget d k = v" using a by auto
        then have "fmlookup d k = Some v" using True by (auto simp: jget_def split: option.splits)
        then show ?thesis using look v assms by simp
      qed
    qed
  qed
qed

lemma dict_one:
  "d = dict_of [(a, x)] \<longleftrightarrow> fmdom d = {|a|} \<and> jget d a = x"
  "fmdom (dict_of [(a, x)]) = {|a|}" "jget (dict_of [(a, x)]) a = x"
  using dict_exact [of "[(a, x)]" d] by auto

lemma dict_two:
  assumes "a \<noteq> b"
  shows "d = dict_of [(a, x), (b, y)] \<longleftrightarrow> fmdom d = {|a, b|} \<and> jget d a = x \<and> jget d b = y"
  using dict_exact [of "[(a, x), (b, y)]" d] assms by auto

lemma as_mapping_eq_Inr: "as_mapping err name v = Inr d \<longleftrightarrow> v = JObj d"
  by (cases v) (auto simp: as_mapping_def)

lemma as_sequence_eq_Inr: "as_sequence err name v = Inr xs \<longleftrightarrow> v = JArr xs"
  by (cases v) (auto simp: as_sequence_def)

lemma as_text_eq_Inr: "as_text err name v = Inr t \<longleftrightarrow> v = JStr t \<and> t \<noteq> []"
  by (cases v) (auto simp: as_text_def)

lemma exact_eq_Inr: "exact err name c = Inr u \<longleftrightarrow> c"
  by (simp add: exact_def guardR_eq_Inr)

lemmas compile_simps = bindR_eq_Inr as_mapping_eq_Inr as_sequence_eq_Inr as_text_eq_Inr exact_eq_Inr

lemma dict_four:
  assumes "distinct [a, b, c, e]"
  shows "d = dict_of [(a, w), (b, x), (c, y), (e, z)] \<longleftrightarrow>
    fmdom d = {|a, b, c, e|} \<and> jget d a = w \<and> jget d b = x \<and> jget d c = y \<and> jget d e = z"
  using dict_exact [of "[(a, w), (b, x), (c, y), (e, z)]" d] assms by auto

lemma dict_eight:
  assumes "distinct [a1, a2, a3, a4, a5, a6, a7, a8]"
  shows "d = dict_of [(a1, x1), (a2, x2), (a3, x3), (a4, x4), (a5, x5), (a6, x6), (a7, x7), (a8, x8)] \<longleftrightarrow>
    fmdom d = {|a1, a2, a3, a4, a5, a6, a7, a8|} \<and> jget d a1 = x1 \<and> jget d a2 = x2 \<and> jget d a3 = x3
    \<and> jget d a4 = x4 \<and> jget d a5 = x5 \<and> jget d a6 = x6 \<and> jget d a7 = x7 \<and> jget d a8 = x8"
  using dict_exact [of "[(a1, x1), (a2, x2), (a3, x3), (a4, x4), (a5, x5), (a6, x6), (a7, x7), (a8, x8)]" d] assms by auto

subsection \<open>Rows and discriminators\<close>

lemma enumerated_exact:
  assumes "\<And>i x y. f i x = Inr y \<longleftrightarrow> x = g y \<and> P y"
  shows "enumerated f i xs = Inr ys \<longleftrightarrow> xs = map g ys \<and> list_all P ys"
proof (induction xs arbitrary: i ys)
  case (Cons x xs)
  show ?case by (cases ys) (auto simp: bindR_eq_Inr assms Cons)
qed auto

lemma map_fld_eq: "map pair_of fs = ps \<longleftrightarrow> fs = map fld ps"
  by (auto simp: comp_def)

lemma byte_of_json_Some: "byte_of_json v = Some n \<longleftrightarrow> v = JInt (int n) \<and> n < 256"
  by (cases v) (auto simp: byte_of_json_def)

lemma compile_discriminator_exact:
  assumes "length ns = 8"
  shows "compile_discriminator err name ns v = Inr d \<longleftrightarrow> d = map byte ns \<and> v = JArr (map (\<lambda>b. JInt (int (unat b))) d)"
proof -
  let ?g = "\<lambda>b :: 8 word. JInt (int (unat b))" and ?f = "\<lambda>x. byte (the (byte_of_json x))"
  have fg: "map ?f (map ?g bs) = bs" for bs
  proof (induction bs)
    case (Cons b bs)
    have "byte_of_json (?g b) = Some (unat b)" by (simp add: byte_of_json_Some)
    then have "?f (?g b) = b" by (simp only: option.sel byte_unat)
    with Cons show ?case by simp
  qed simp
  have gf: "\<not> list_ex (\<lambda>x. byte_of_json x = None) xs \<Longrightarrow> map ?g (map ?f xs) = xs" for xs
  proof (induction xs)
    case (Cons x xs)
    then obtain n where n: "byte_of_json x = Some n" by auto
    then have "x = JInt (int n)" and "n < 256" by (simp_all add: byte_of_json_Some)
    then have "?g (?f x) = x" using n by (simp only: option.sel unat_byte)
    with Cons show ?case by simp
  qed simp
  have all: "\<not> list_ex (\<lambda>x. byte_of_json x = None) (map ?g bs)" for bs
    by (simp only: list_ex_iff) (metis (no_types, lifting) byte_lt byte_of_json_Some ex_map_conv option.distinct(1))
  show ?thesis
  proof
    assume "compile_discriminator err name ns v = Inr d"
    then obtain xs where "v = JArr xs" and "\<not> list_ex (\<lambda>x. byte_of_json x = None) xs" and "d = map ?f xs" and "d = map byte ns"
      using assms by (auto simp: compile_discriminator_def Let_def compile_simps split: if_splits)
    moreover from this have "map ?g d = xs" using gf by blast
    ultimately show "d = map byte ns \<and> v = JArr (map ?g d)" by simp
  next
    assume "d = map byte ns \<and> v = JArr (map ?g d)"
    then show "compile_discriminator err name ns v = Inr d"
      using assms fg [of d] all [of d] by (auto simp: compile_discriminator_def Let_def compile_simps)
  qed
qed

end
