(* ===== verification/PumpEvent.thy ===== *)
theory PumpEvent
  imports PinnedDocument
begin

section \<open>The Pump event decoder\<close>

text \<open>
  \<open>pump_event_decoder.py\<close>: a plan compiled from the pinned subset of the program's interface, and the decoding
  of one log line under it. A type of a field is one of those \<open>_compile_type\<close> knows, so the last line of
  \<open>_decode_type\<close>, for any other, has no case. The digest \<open>sha\<close> of a payload is a parameter. \<open>_decode_type\<close>
  calls itself for the fields of a defined type; \<open>depth\<close> bounds these calls (see \<open>decode_type_depth\<close>).
\<close>

definition PUMP_PROGRAM_ID :: string where
  "PUMP_PROGRAM_ID = ''6EF8rrecthR5Dkzon8Nwu78hRvfCKubJ14M5uBEwF6P''"

definition PUMP_IDL_REPOSITORY :: string where
  "PUMP_IDL_REPOSITORY = ''pump-fun/pump-public-docs''"

definition PUMP_IDL_PATH :: string where
  "PUMP_IDL_PATH = ''idl/pump.json''"

definition PUMP_IDL_REF :: string where
  "PUMP_IDL_REF = ''main''"

definition PUMP_IDL_BLOB_SHA :: string where
  "PUMP_IDL_BLOB_SHA = ''062e66f032bb9f295353b573be3400070bd55e5b''"

definition PROGRAM_DATA_PREFIX :: string where
  "PROGRAM_DATA_PREFIX = ''Program data: ''"

definition MAX_EVENT_PAYLOAD_BYTES :: nat where
  "MAX_EVENT_PAYLOAD_BYTES = 65536"

definition MAX_VECTOR_ITEMS :: nat where
  "MAX_VECTOR_ITEMS = 64"

datatype borsh_type = BBool | BI64 | BPubkey | BString | BU16 | BU64 | BVecDefined string

datatype lifecycle_state = DISCOVERED | CREATED | ACTIVE | MIGRATION_STARTED | MIGRATED | INACTIVE | UNKNOWN_STATE

fun lifecycle_text :: "lifecycle_state \<Rightarrow> string" where
  "lifecycle_text DISCOVERED = ''DISCOVERED''"
| "lifecycle_text CREATED = ''CREATED''"
| "lifecycle_text ACTIVE = ''ACTIVE''"
| "lifecycle_text MIGRATION_STARTED = ''MIGRATION_STARTED''"
| "lifecycle_text MIGRATED = ''MIGRATED''"
| "lifecycle_text INACTIVE = ''INACTIVE''"
| "lifecycle_text UNKNOWN_STATE = ''UNKNOWN''"

type_synonym pump_field = "borsh_type field_spec"

record event_schema =
  ev_name :: string
  ev_discriminator :: bytes
  ev_state :: lifecycle_state
  ev_fields :: "pump_field list"

type_synonym defined_types = "(string \<times> pump_field list) list"

record pump_plan =
  pp_fixture_sha256 :: string
  pp_source_blob_sha :: string
  pp_program_id :: string
  pp_defined_types :: defined_types
  pp_events :: "event_schema list"

text \<open>\<open>event_by_discriminator\<close>: of two events with one discriminator the later counts.\<close>

definition event_by_discriminator :: "pump_plan \<Rightarrow> bytes \<Rightarrow> event_schema option" where
  "event_by_discriminator plan d = map_of (rev (map (\<lambda>e. (ev_discriminator e, e)) (pp_events plan))) d"

record pump_event =
  pe_name :: string
  pe_state :: lifecycle_state
  pe_fields :: row
  pe_payload_sha256 :: string

definition decoded_mint :: "pump_event \<Rightarrow> ustr res" where
  "decoded_mint e = (case map_of (pe_fields e) ''mint'' of Some (VText t) \<Rightarrow> Inr t
     | _ \<Rightarrow> Inl (PumpEventDecodeError ''decoded_event_missing_mint''))"

definition event_timestamp :: "pump_event \<Rightarrow> int res" where
  "event_timestamp e = (case map_of (pe_fields e) ''timestamp'' of Some (VInt i) \<Rightarrow> Inr i
     | _ \<Rightarrow> Inl (PumpEventDecodeError ''decoded_event_missing_timestamp''))"

definition destination_pool :: "pump_event \<Rightarrow> ustr option res" where
  "destination_pool e = (case map_of (pe_fields e) ''pool'' of None \<Rightarrow> Inr None
     | Some (VText t) \<Rightarrow> Inr (Some t) | Some _ \<Rightarrow> Inl (PumpEventDecodeError ''decoded_event_pool_invalid''))"

subsection \<open>Decoding\<close>

primrec decode_type :: "defined_types \<Rightarrow> nat \<Rightarrow> borsh_type \<Rightarrow> borsh_value reading" where
  "decode_type defs 0 t r = Inl PyRecursionError"
| "decode_type defs (Suc depth) t r =
     (case t of
        BBool \<Rightarrow> read_bool PumpEventDecodeError r
      | BI64 \<Rightarrow> read_signed PumpEventDecodeError 8 r
      | BPubkey \<Rightarrow> read_pubkey PumpEventDecodeError r
      | BString \<Rightarrow> read_string PumpEventDecodeError r
      | BU16 \<Rightarrow> read_unsigned PumpEventDecodeError 2 r
      | BU64 \<Rightarrow> read_unsigned PumpEventDecodeError 8 r
      | BVecDefined name \<Rightarrow>
          bindR (unsigned_bytes PumpEventDecodeError 4 r) (\<lambda>(n, r1).
          if n > MAX_VECTOR_ITEMS then Inl (PumpEventDecodeError ''borsh_vector_too_large'')
          else case map_of defs name of
            None \<Rightarrow> Inl (PumpEventDecodeError (''borsh_defined_type_unknown:'' @ name))
          | Some fs \<Rightarrow> bindR (decode_items (decode_type defs depth) fs n r1) (\<lambda>(ds, r2). Inr (VRows ds, r2))))"

text \<open>The text after the prefix, as bytes. \<open>refuse\<close> is the interpreter's rule on padding (see \<open>a2b_loop\<close>).\<close>

definition payload_of_line :: "bool \<Rightarrow> (string \<Rightarrow> py_error) \<Rightarrow> ustr \<Rightarrow> bytes res" where
  "payload_of_line refuse err line =
     (let n = length PROGRAM_DATA_PREFIX; encoded = drop n line in
      if take n line \<noteq> ustr PROGRAM_DATA_PREFIX then Inl (err ''program_data_prefix_invalid'')
      else if encoded = [] \<or> ustr_strip encoded \<noteq> encoded then Inl (err ''program_data_base64_not_canonical'')
      else case b64decode refuse encoded of None \<Rightarrow> Inl (err ''program_data_base64_invalid'')
      | Some payload \<Rightarrow>
          if length payload < 8 then Inl (err ''event_payload_missing_discriminator'')
          else if length payload > MAX_EVENT_PAYLOAD_BYTES then Inl (err ''event_payload_too_large'')
          else Inr payload)"

text \<open>The checks on the decoded event: a mint, a timestamp, and a pool exactly after a migration.\<close>

definition event_complete :: "pump_event \<Rightarrow> unit res" where
  "event_complete e =
     bindR (decoded_mint e) (\<lambda>_. bindR (event_timestamp e) (\<lambda>_. bindR (destination_pool e) (\<lambda>pool.
       if pe_name e = ''CompletePumpAmmMigrationEvent''
       then guardR (pool \<noteq> None) (PumpEventDecodeError ''migration_event_missing_pool'')
       else guardR (pool = None) (PumpEventDecodeError ''unexpected_destination_pool''))))"

definition decode_payload :: "(bytes \<Rightarrow> string) \<Rightarrow> pump_plan \<Rightarrow> bytes \<Rightarrow> pump_event res" where
  "decode_payload sha plan payload =
     (case event_by_discriminator plan (take 8 payload) of
        None \<Rightarrow> Inl (PumpEventDecodeError ''event_discriminator_unknown'')
      | Some schema \<Rightarrow>
          bindR (decode_fields (decode_type (pp_defined_types plan) (Suc (length payload))) (ev_fields schema) []
                  (new_reader (drop 8 payload))) (\<lambda>(fields, r).
          if remaining r \<noteq> 0 then Inl (PumpEventDecodeError ''event_payload_trailing_bytes'')
          else let e = \<lparr>pe_name = ev_name schema, pe_state = ev_state schema, pe_fields = fields,
                        pe_payload_sha256 = sha payload\<rparr>
            in bindR (event_complete e) (\<lambda>_. Inr e)))"

definition decode_pump_program_data ::
  "(bytes \<Rightarrow> string) \<Rightarrow> bool \<Rightarrow> pump_plan \<Rightarrow> ustr \<Rightarrow> string \<Rightarrow> bool \<Rightarrow> pump_event option res" where
  "decode_pump_program_data sha refuse plan log_line emitting_program_id transaction_succeeded =
     (if \<not> transaction_succeeded then Inr None
      else if emitting_program_id \<noteq> pp_program_id plan
      then Inl (PumpEventDecodeError ''emitting_program_id_mismatch'')
      else bindR (payload_of_line refuse PumpEventDecodeError log_line) (\<lambda>payload.
           bindR (decode_payload sha plan payload) (\<lambda>e. Inr (Some e))))"

subsection \<open>The pinned layouts\<close>

definition EXPECTED_DEFINED_TYPES :: "(string \<times> (string \<times> borsh_type) list) list" where
  "EXPECTED_DEFINED_TYPES = [(''Shareholder'', [(''address'', BPubkey), (''share_bps'', BU16)])]"

definition EXPECTED_DISCRIMINATORS :: "(string \<times> nat list) list" where
  "EXPECTED_DISCRIMINATORS =
     [(''CreateEvent'', [27, 114, 169, 77, 222, 235, 99, 118]),
      (''TradeEvent'', [189, 219, 127, 211, 78, 230, 97, 238]),
      (''CompleteEvent'', [95, 114, 97, 156, 212, 46, 152, 8]),
      (''CompletePumpAmmMigrationEvent'', [189, 233, 93, 185, 92, 148, 234, 148])]"

definition EXPECTED_LIFECYCLE_STATES :: "(string \<times> lifecycle_state) list" where
  "EXPECTED_LIFECYCLE_STATES =
     [(''CreateEvent'', CREATED), (''TradeEvent'', ACTIVE), (''CompleteEvent'', MIGRATION_STARTED),
      (''CompletePumpAmmMigrationEvent'', MIGRATED)]"

definition EXPECTED_EVENT_FIELDS :: "(string \<times> (string \<times> borsh_type) list) list" where
  "EXPECTED_EVENT_FIELDS =
     [(''CreateEvent'',
        [(''name'', BString), (''symbol'', BString), (''uri'', BString), (''mint'', BPubkey), (''bonding_curve'', BPubkey),
         (''user'', BPubkey), (''creator'', BPubkey), (''timestamp'', BI64), (''virtual_token_reserves'', BU64),
         (''virtual_sol_reserves'', BU64), (''real_token_reserves'', BU64), (''token_total_supply'', BU64),
         (''token_program'', BPubkey), (''is_mayhem_mode'', BBool), (''is_cashback_enabled'', BBool),
         (''quote_mint'', BPubkey), (''virtual_quote_reserves'', BU64)]),
      (''TradeEvent'',
        [(''mint'', BPubkey), (''sol_amount'', BU64), (''token_amount'', BU64), (''is_buy'', BBool), (''user'', BPubkey),
         (''timestamp'', BI64), (''virtual_sol_reserves'', BU64), (''virtual_token_reserves'', BU64),
         (''real_sol_reserves'', BU64), (''real_token_reserves'', BU64), (''fee_recipient'', BPubkey),
         (''fee_basis_points'', BU64), (''fee'', BU64), (''creator'', BPubkey), (''creator_fee_basis_points'', BU64),
         (''creator_fee'', BU64), (''track_volume'', BBool), (''total_unclaimed_tokens'', BU64),
         (''total_claimed_tokens'', BU64), (''current_sol_volume'', BU64), (''last_update_timestamp'', BI64),
         (''ix_name'', BString), (''mayhem_mode'', BBool), (''cashback_fee_basis_points'', BU64), (''cashback'', BU64),
         (''buyback_fee_basis_points'', BU64), (''buyback_fee'', BU64), (''shareholders'', BVecDefined ''Shareholder''),
         (''quote_mint'', BPubkey), (''quote_amount'', BU64), (''virtual_quote_reserves'', BU64),
         (''real_quote_reserves'', BU64)]),
      (''CompleteEvent'',
        [(''user'', BPubkey), (''mint'', BPubkey), (''bonding_curve'', BPubkey), (''timestamp'', BI64),
         (''quote_mint'', BPubkey)]),
      (''CompletePumpAmmMigrationEvent'',
        [(''user'', BPubkey), (''mint'', BPubkey), (''mint_amount'', BU64), (''sol_amount'', BU64),
         (''pool_migration_fee'', BU64), (''bonding_curve'', BPubkey), (''timestamp'', BI64), (''pool'', BPubkey),
         (''quote_mint'', BPubkey)])]"

subsection \<open>Compiling the subset\<close>

definition PRIMITIVES :: "(string \<times> borsh_type) list" where
  "PRIMITIVES = [(''bool'', BBool), (''i64'', BI64), (''pubkey'', BPubkey), (''string'', BString), (''u16'', BU16), (''u64'', BU64)]"

definition compile_type :: "string \<Rightarrow> jval \<Rightarrow> borsh_type res" where
  "compile_type name v =
     (case v of
        JStr t \<Rightarrow> (case map_of PRIMITIVES t of Some p \<Rightarrow> Inr p
          | None \<Rightarrow> Inl (PumpEventContractError (name @ ''_unsupported_primitive:'' @ t)))
      | _ \<Rightarrow>
          bindR (as_mapping PumpEventContractError name v) (\<lambda>d.
          bindR (exact PumpEventContractError (name @ ''_keys'') (fmdom d = {|''vec''|})) (\<lambda>_.
          bindR (as_mapping PumpEventContractError (name @ ''_vec'') (jget d ''vec'')) (\<lambda>x.
          bindR (exact PumpEventContractError (name @ ''_vec_keys'') (fmdom x = {|''defined''|})) (\<lambda>_.
          bindR (as_text PumpEventContractError (name @ ''_defined'') (jget x ''defined'')) (\<lambda>t. Inr (BVecDefined t)))))))"

definition compile_field :: "string \<Rightarrow> jval \<Rightarrow> pump_field res" where
  "compile_field name v =
     bindR (as_mapping PumpEventContractError name v) (\<lambda>d.
     bindR (exact PumpEventContractError (name @ ''_keys'') (fmdom d = {|''name'', ''type''|})) (\<lambda>_.
     bindR (as_text PumpEventContractError (name @ ''_name'') (jget d ''name'')) (\<lambda>n.
     bindR (compile_type (name @ ''_type'') (jget d ''type'')) (\<lambda>t. Inr (fld (n, t))))))"

definition compile_fields :: "string \<Rightarrow> jval \<Rightarrow> pump_field list res" where
  "compile_fields name v =
     bindR (as_sequence PumpEventContractError name v) (\<lambda>rows.
     bindR (enumerated (\<lambda>i. compile_field (name @ ''_'' @ digits_of i)) 0 rows) (\<lambda>fields.
       if \<not> distinct (map fs_name fields) then Inl (PumpEventContractError (name @ ''_duplicate_field'')) else Inr fields))"

definition compile_event :: "nat \<Rightarrow> jval \<Rightarrow> event_schema res" where
  "compile_event index v =
     (let name = ''event_'' @ digits_of index in
      bindR (as_mapping PumpEventContractError name v) (\<lambda>row.
      bindR (exact PumpEventContractError (name @ ''_keys'') (fmdom row = {|''name'', ''discriminator'', ''lifecycle_state'', ''fields''|})) (\<lambda>_.
      bindR (as_text PumpEventContractError (name @ ''_name'') (jget row ''name'')) (\<lambda>event.
        if map_of EXPECTED_DISCRIMINATORS event = None then Inl (PumpEventContractError (''unexpected_event:'' @ event))
        else
          bindR (compile_discriminator PumpEventContractError (''event_'' @ event @ ''_discriminator'')
                   (the (map_of EXPECTED_DISCRIMINATORS event)) (jget row ''discriminator'')) (\<lambda>d.
          let state = the (map_of EXPECTED_LIFECYCLE_STATES event) in
          bindR (exact PumpEventContractError (''event_'' @ event @ ''_lifecycle_state'') (jget row ''lifecycle_state'' = JStr (lifecycle_text state))) (\<lambda>_.
          bindR (compile_fields (''event_'' @ event @ ''_fields'') (jget row ''fields'')) (\<lambda>fields.
          bindR (exact PumpEventContractError (''event_'' @ event @ ''_field_layout'') (map pair_of fields = the (map_of EXPECTED_EVENT_FIELDS event))) (\<lambda>_.
            Inr \<lparr>ev_name = event, ev_discriminator = d, ev_state = state, ev_fields = fields\<rparr>))))))))"

definition expected_source :: dict where
  "expected_source = dict_of
     [(''repository'', JStr PUMP_IDL_REPOSITORY), (''ref'', JStr PUMP_IDL_REF), (''path'', JStr PUMP_IDL_PATH),
      (''blob_sha'', JStr PUMP_IDL_BLOB_SHA), (''retrieval_mode'', JStr ''GITHUB_CONTENTS_READ_ONLY'')]"

definition compile_defined_types :: "jval \<Rightarrow> defined_types res" where
  "compile_defined_types v =
     bindR (as_mapping PumpEventContractError ''defined_types'' v) (\<lambda>d.
     bindR (exact PumpEventContractError ''defined_type_inventory'' (fmdom d = {|''Shareholder''|})) (\<lambda>_.
     bindR (compile_fields ''defined_type_Shareholder'' (jget d ''Shareholder'')) (\<lambda>fields.
     let types = [(''Shareholder'', fields)] in
     bindR (exact PumpEventContractError ''defined_type_layouts'' (map (\<lambda>(n, fs). (n, map pair_of fs)) types = EXPECTED_DEFINED_TYPES)) (\<lambda>_.
       Inr types))))"

definition compile_pump_event_idl_subset :: "string \<Rightarrow> jval \<Rightarrow> pump_plan res" where
  "compile_pump_event_idl_subset fixture_sha256 document =
     bindR (as_mapping PumpEventContractError ''event_subset'' document) (\<lambda>root.
     bindR (exact PumpEventContractError ''top_level_keys'' (fmdom root = {|''schema'', ''schema_version'', ''as_of'', ''status'', ''source'',
              ''program_id'', ''defined_types'', ''events''|})) (\<lambda>_.
     bindR (exact PumpEventContractError ''schema'' (jget root ''schema'' = JStr ''solana_alpha_lab.pump_event_idl_subset'')) (\<lambda>_.
     bindR (exact PumpEventContractError ''schema_version'' (jget root ''schema_version'' = JStr ''1.0'')) (\<lambda>_.
     bindR (exact PumpEventContractError ''as_of'' (jget root ''as_of'' = JStr ''2026-07-25'')) (\<lambda>_.
     bindR (exact PumpEventContractError ''status'' (jget root ''status'' = JStr ''PINNED_OFFICIAL_SUBSET'')) (\<lambda>_.
     bindR (exact PumpEventContractError ''source'' (jget root ''source'' = JObj expected_source)) (\<lambda>_.
     bindR (exact PumpEventContractError ''program_id'' (jget root ''program_id'' = JStr PUMP_PROGRAM_ID)) (\<lambda>_.
     bindR (compile_defined_types (jget root ''defined_types'')) (\<lambda>types.
     bindR (as_sequence PumpEventContractError ''events'' (jget root ''events'')) (\<lambda>rows.
     bindR (enumerated compile_event 0 rows) (\<lambda>events.
     bindR (exact PumpEventContractError ''event_inventory'' (map ev_name events = map fst EXPECTED_EVENT_FIELDS)) (\<lambda>_.
       if \<not> distinct (map ev_discriminator events) then Inl (PumpEventContractError ''event_discriminator_collision'')
       else Inr \<lparr>pp_fixture_sha256 = fixture_sha256, pp_source_blob_sha = PUMP_IDL_BLOB_SHA,
                 pp_program_id = PUMP_PROGRAM_ID, pp_defined_types = types, pp_events = events\<rparr>))))))))))))"

end
