(* ===== verification/PumpCodec.thy ===== *)
theory PumpCodec
  imports PumpEvent
begin

section \<open>The decoder of types against a reference writer\<close>

text \<open>
  A writer for every type of a field, the values it can write, and the proof that \<open>decode_type\<close> and the
  writer are a codec, by the laws of \<open>codec_family\<close>. The bound on nested calls is never met: a nest one
  deeper reads the four bytes of a length.
\<close>

subsection \<open>The bound on nested calls\<close>

definition shrinks :: "'v reading \<Rightarrow> bool" where
  "shrinks rd = (\<forall>r v r'. inside r \<longrightarrow> rd r = Inr (v, r') \<longrightarrow> inside r' \<and> length (ahead r') \<le> length (ahead r))"

lemma shrinksD: "shrinks rd \<Longrightarrow> inside r \<Longrightarrow> rd r = Inr (v, r') \<Longrightarrow> inside r' \<and> length (ahead r') \<le> length (ahead r)"
  by (simp add: shrinks_def)

lemma codec_shrinks: "codec rd wr ok \<Longrightarrow> shrinks rd"
  unfolding shrinks_def by (metis codec.reads_exactly le_add2 length_append)

lemma unsigned_bytes_shrinks:
  "inside r \<Longrightarrow> unsigned_bytes err k r = Inr (n, r') \<Longrightarrow> inside r' \<and> length (ahead r) = k + length (ahead r')"
  using unsigned_bytes_eq_Inr [of r err k n r'] by auto

lemma shrinks_return [intro]: "shrinks (\<lambda>r. Inr (v, r))" and shrinks_error [intro]: "shrinks (\<lambda>r. Inl e)"
  by (simp_all add: shrinks_def)

lemma shrinks_bind:
  assumes "shrinks rd" and "\<And>v. shrinks (f v)"
  shows "shrinks (\<lambda>r. bindR (rd r) (\<lambda>(v, r1). f v r1))"
  unfolding shrinks_def bindR_pair_eq_Inr
proof (intro allI impI, elim exE conjE)
  fix r w r' v r1 assume "inside r" and "rd r = Inr (v, r1)" and "f v r1 = Inr (w, r')"
  then show "inside r' \<and> length (ahead r') \<le> length (ahead r)"
    using shrinksD [OF assms(1)] shrinksD [OF assms(2)] by (meson le_trans)
qed

lemma shrinks_unsigned: "shrinks (unsigned_bytes err k)"
  unfolding shrinks_def using unsigned_bytes_shrinks by (metis le_add2)

lemma decode_steps:
  "decode_fields rd [] d = (\<lambda>r. Inr (d, r))"
  "decode_fields rd (f # fs) d = (\<lambda>r. bindR (rd (fs_type f) r) (\<lambda>(v, r1). decode_fields rd fs (AList.update (fs_name f) v d) r1))"
  "decode_items rd fs 0 = (\<lambda>r. Inr ([], r))"
  "decode_items rd fs (Suc n) = (\<lambda>r. bindR (decode_fields rd fs [] r) (\<lambda>(d, r1).
     bindR (decode_items rd fs n r1) (\<lambda>(ds, r2). Inr (d # ds, r2))))"
  by (simp_all add: fun_eq_iff)

lemma decode_fields_shrinks: "(\<And>t. shrinks (rd t)) \<Longrightarrow> shrinks (decode_fields rd fs d)"
  by (induction fs arbitrary: d) (auto simp only: decode_steps intro!: shrinks_bind shrinks_return)

lemma decode_items_shrinks: "(\<And>t. shrinks (rd t)) \<Longrightarrow> shrinks (decode_items rd fs n)"
  by (induction n) (auto simp only: decode_steps intro!: shrinks_bind shrinks_return decode_fields_shrinks)

text \<open>The case of a vector, once its type is found.\<close>

definition read_vector :: "(nat \<Rightarrow> row list reading) \<Rightarrow> borsh_value reading" where
  "read_vector items r = bindR (unsigned_bytes PumpEventDecodeError 4 r) (\<lambda>(n, r1).
     if n > MAX_VECTOR_ITEMS then Inl (PumpEventDecodeError ''borsh_vector_too_large'')
     else bindR (items n r1) (\<lambda>(ds, r2). Inr (VRows ds, r2)))"

lemma decode_vector:
  "map_of defs name = Some fs \<Longrightarrow>
   decode_type defs (Suc k) (BVecDefined name) = read_vector (decode_items (decode_type defs k) fs)"
  by (rule ext) (simp add: read_vector_def cong: if_cong)

lemma decode_unknown: "map_of defs name = None \<Longrightarrow> decode_type defs (Suc k) (BVecDefined name) r \<noteq> Inr x"
  by (auto simp: bindR_eq_Inr split: if_splits)

lemma decode_primitive:
  "decode_type defs (Suc k) BBool = read_bool PumpEventDecodeError"
  "decode_type defs (Suc k) BI64 = read_signed PumpEventDecodeError 8"
  "decode_type defs (Suc k) BPubkey = read_pubkey PumpEventDecodeError"
  "decode_type defs (Suc k) BString = read_string PumpEventDecodeError"
  "decode_type defs (Suc k) BU16 = read_unsigned PumpEventDecodeError 2"
  "decode_type defs (Suc k) BU64 = read_unsigned PumpEventDecodeError 8"
  by (simp_all add: fun_eq_iff)

lemmas primitive_codecs = bool_codec.codec_axioms unsigned_codec.codec_axioms pubkey_codec.codec_axioms
  string_codec.codec_axioms signed_codec [where k = 8, simplified]

lemmas primitive_shrinks = primitive_codecs [THEN codec_shrinks]

lemma decode_type_shrinks: "shrinks (decode_type defs k t)"
proof (induction k arbitrary: t)
  case 0
  show ?case by (simp add: shrinks_def)
next
  case (Suc k)
  show ?case
  proof (cases t)
    case (BVecDefined n)
    show ?thesis
    proof (cases "map_of defs n")
      case None
      show ?thesis unfolding BVecDefined shrinks_def using decode_unknown [OF None] by blast
    next
      case (Some fs)
      have "shrinks (\<lambda>r1. if m > MAX_VECTOR_ITEMS then Inl (PumpEventDecodeError ''borsh_vector_too_large'')
        else bindR (decode_items (decode_type defs k) fs m r1) (\<lambda>(ds, r2). Inr (VRows ds, r2)))" for m
        by (cases "m > MAX_VECTOR_ITEMS")
          (auto simp only: if_True if_False intro!: shrinks_error shrinks_bind decode_items_shrinks Suc.IH shrinks_return)
      from shrinks_bind [OF shrinks_unsigned this] show ?thesis
        unfolding BVecDefined decode_vector [OF Some] read_vector_def .
    qed
  qed (simp_all only: decode_primitive primitive_shrinks)
qed

lemma decode_fields_agree:
  assumes "\<And>t. shrinks (rd t)" and "\<And>t r. inside r \<Longrightarrow> length (ahead r) \<le> m \<Longrightarrow> rd t r = rd' t r"
    and "inside r" and "length (ahead r) \<le> m"
  shows "decode_fields rd fs d r = decode_fields rd' fs d r"
  using assms(3,4)
proof (induction fs arbitrary: d r)
  case (Cons f fs)
  have "rd (fs_type f) r = rd' (fs_type f) r" using assms(2) Cons.prems by blast
  moreover have "decode_fields rd fs e r1 = decode_fields rd' fs e r1" if "rd (fs_type f) r = Inr (v, r1)" for v r1 e
    using that Cons assms(1) [of "fs_type f"] unfolding shrinks_def by (meson le_trans)
  ultimately show ?case unfolding decode_fields.simps by (intro bindR_cong) (auto split: prod.splits)
qed simp

lemma decode_items_agree:
  assumes "\<And>t. shrinks (rd t)" and "\<And>t r. inside r \<Longrightarrow> length (ahead r) \<le> m \<Longrightarrow> rd t r = rd' t r"
    and "inside r" and "length (ahead r) \<le> m"
  shows "decode_items rd fs n r = decode_items rd' fs n r"
  using assms(3,4)
proof (induction n arbitrary: r)
  case (Suc n)
  have "decode_fields rd fs [] r = decode_fields rd' fs [] r"
    by (rule decode_fields_agree [OF assms(1,2) Suc.prems])
  moreover have "shrinks (decode_fields rd fs [])" by (rule decode_fields_shrinks) (rule assms(1))
  then have "decode_items rd fs n r1 = decode_items rd' fs n r1" if "decode_fields rd fs [] r = Inr (d, r1)" for d r1
    using that Suc unfolding shrinks_def by (meson le_trans)
  ultimately show ?case unfolding decode_items.simps by (intro bindR_cong) (auto split: prod.splits)
qed simp

lemma decode_type_depth:
  assumes "inside r" and "length (ahead r) < j" and "length (ahead r) < k"
  shows "decode_type defs j t r = decode_type defs k t r"
  using assms
proof (induction j arbitrary: k t r)
  case (Suc j)
  then obtain k' where k: "k = Suc k'" by (cases k) auto
  show ?case
  proof (cases t)
    case (BVecDefined name)
    have "decode_items (decode_type defs j) fs n r1 = decode_items (decode_type defs k') fs n r1"
      if "unsigned_bytes PumpEventDecodeError 4 r = Inr (n, r1)" for n r1 fs
    proof (rule decode_items_agree [OF decode_type_shrinks])
      show "inside r1" and "length (ahead r1) \<le> length (ahead r1)"
        using unsigned_bytes_shrinks [OF Suc.prems(1) that] by auto
      fix u q assume "inside q" and "length (ahead q) \<le> length (ahead r1)"
      then show "decode_type defs j u q = decode_type defs k' u q"
        using unsigned_bytes_shrinks [OF Suc.prems(1) that] Suc.prems(2,3) k by (intro Suc.IH) auto
    qed
    then show ?thesis unfolding k decode_type.simps BVecDefined borsh_type.case
      by (intro bindR_cong) (auto split: prod.splits option.splits intro!: bindR_cong)
  qed (simp_all add: k)
qed simp

subsection \<open>Writer and codec\<close>

primrec write_type :: "defined_types \<Rightarrow> nat \<Rightarrow> borsh_type \<Rightarrow> borsh_value \<Rightarrow> bytes" where
  "write_type defs 0 t v = []"
| "write_type defs (Suc depth) t v =
     (case t of BBool \<Rightarrow> write_bool v | BI64 \<Rightarrow> write_signed 8 v | BPubkey \<Rightarrow> write_pubkey v | BString \<Rightarrow> write_string v
      | BU16 \<Rightarrow> write_unsigned 2 v | BU64 \<Rightarrow> write_unsigned 8 v
      | BVecDefined name \<Rightarrow> (case v of
          VRows ds \<Rightarrow> to_le 4 (length ds) @ write_items (write_type defs depth) (the (map_of defs name)) ds | _ \<Rightarrow> []))"

primrec ok_type :: "defined_types \<Rightarrow> nat \<Rightarrow> borsh_type \<Rightarrow> borsh_value \<Rightarrow> bool" where
  "ok_type defs 0 t v = False"
| "ok_type defs (Suc depth) t v =
     (case t of BBool \<Rightarrow> ok_bool v | BI64 \<Rightarrow> ok_signed 8 v | BPubkey \<Rightarrow> ok_pubkey v | BString \<Rightarrow> ok_string v
      | BU16 \<Rightarrow> ok_unsigned 2 v | BU64 \<Rightarrow> ok_unsigned 8 v
      | BVecDefined name \<Rightarrow> (case (v, map_of defs name) of
          (VRows ds, Some fs) \<Rightarrow> length ds \<le> MAX_VECTOR_ITEMS \<and> list_all (ok_fields (ok_type defs depth) fs) ds | _ \<Rightarrow> False))"

definition types_distinct :: "defined_types \<Rightarrow> bool" where
  "types_distinct defs = list_all (\<lambda>(n, fs). distinct (map fs_name fs)) defs"

lemma types_distinct_of: "types_distinct defs \<Longrightarrow> map_of defs n = Some fs \<Longrightarrow> distinct (map fs_name fs)"
  unfolding types_distinct_def list_all_iff using map_of_SomeD by fastforce

lemma vector_codec:
  assumes "\<And>n. codec (items n) wr (\<lambda>ds. length ds = n \<and> P ds)"
  shows "codec (read_vector items)
    (\<lambda>v. case v of VRows ds \<Rightarrow> to_le 4 (length ds) @ wr ds | _ \<Rightarrow> [])
    (\<lambda>v. case v of VRows ds \<Rightarrow> length ds \<le> MAX_VECTOR_ITEMS \<and> P ds | _ \<Rightarrow> False)"
    (is "codec ?rd ?wr ?ok")
proof
  fix r r' :: borsh_reader and v assume r: "inside r"
  show "?rd r = Inr (v, r') \<longleftrightarrow> ?ok v \<and> ahead r = ?wr v @ ahead r' \<and> inside r' \<and> r' = moved (length (?wr v)) r"
    (is "?L \<longleftrightarrow> ?R")
  proof
    assume ?L
    then obtain n r1 ds where n: "unsigned_bytes PumpEventDecodeError 4 r = Inr (n, r1)" "n \<le> MAX_VECTOR_ITEMS" and ds: "items n r1 = Inr (ds, r')" "v = VRows ds"
      by (auto simp: read_vector_def bindR_eq_Inr split: if_splits)
    have u: "ahead r = to_le 4 n @ ahead r1" "inside r1" "r1 = moved 4 r" using n(1) unsigned_bytes_eq_Inr [OF r] by auto
    show ?R using ds(1) [unfolded codec.reads_exactly [OF assms(1) u(2)]] u ds(2) n(2) by auto
  next
    assume R: ?R
    then obtain ds where v: "v = VRows ds" by (auto split: borsh_value.splits)
    let ?n = "length ds" and ?r = "moved 4 r"
    have a: "ahead r = to_le 4 ?n @ wr ds @ ahead r'" and r': "inside r'" "r' = moved (length (wr ds)) ?r" and n: "?n \<le> MAX_VECTOR_ITEMS" "P ds"
      using R v by auto
    have q: "ahead ?r = wr ds @ ahead r'" "inside ?r" using ahead_moved [OF r a] by simp_all
    have "unsigned_bytes PumpEventDecodeError 4 r = Inr (?n, ?r)"
      unfolding unsigned_bytes_eq_Inr [OF r] using a q n by (auto simp: MAX_VECTOR_ITEMS_def)
    moreover have "items ?n ?r = Inr (ds, r')" unfolding codec.reads_exactly [OF assms(1) q(2)] using q r' n by auto
    ultimately show ?L using v n by (simp add: read_vector_def)
  qed
qed

lemma type_codec:
  assumes "types_distinct defs"
  shows "codec (decode_type defs k t) (write_type defs k t) (ok_type defs k t)"
proof (induction k arbitrary: t)
  case 0
  show ?case by (simp add: codec_def)
next
  case (Suc k)
  show ?case
  proof (cases t)
    case (BVecDefined name)
    show ?thesis
    proof (cases "map_of defs name")
      case None
      then have "ok_type defs (Suc k) t = (\<lambda>v. False)" by (auto simp: BVecDefined fun_eq_iff split: borsh_value.splits)
      then show ?thesis unfolding codec_def BVecDefined using decode_unknown [OF None] by simp
    next
      case (Some fs)
      have w: "write_type defs (Suc k) t = (\<lambda>v. case v of VRows ds \<Rightarrow> to_le 4 (length ds) @
          write_items (write_type defs k) fs ds | _ \<Rightarrow> [])"
        and o': "ok_type defs (Suc k) t = (\<lambda>v. case v of VRows ds \<Rightarrow> length ds \<le> MAX_VECTOR_ITEMS \<and>
          list_all (ok_fields (ok_type defs k) fs) ds | _ \<Rightarrow> False)"
        using Some by (auto simp: BVecDefined fun_eq_iff split: borsh_value.splits)
      have "codec_family (decode_type defs k) (write_type defs k) (ok_type defs k)" by (rule codec_family.intro) (rule Suc.IH)
      from vector_codec [OF codec_family.items_codec [OF this types_distinct_of [OF assms Some]]]
      show ?thesis unfolding w o' unfolding BVecDefined decode_vector [OF Some] .
    qed
  qed (simp_all add: decode_primitive primitive_codecs fun_eq_iff [symmetric] del: decode_type.simps)
qed

end
