(* ===== verification/PumpSubset.thy ===== *)
theory PumpSubset
  imports PumpEvent
begin

section \<open>The pinned subset is the only one that compiles\<close>

text \<open>
  The document behind the pinned layouts, and the plan it compiles to: \<open>compile_pump_event_idl_subset\<close> returns
  for this document and for no other.
\<close>

fun type_json :: "borsh_type \<Rightarrow> jval" where
  "type_json BBool = JStr ''bool''"
| "type_json BI64 = JStr ''i64''"
| "type_json BPubkey = JStr ''pubkey''"
| "type_json BString = JStr ''string''"
| "type_json BU16 = JStr ''u16''"
| "type_json BU64 = JStr ''u64''"
| "type_json (BVecDefined n) = JObj (dict_of [(''vec'', JObj (dict_of [(''defined'', JStr n)]))])"

definition field_json :: "pump_field \<Rightarrow> jval" where
  "field_json f = JObj (dict_of [(''name'', JStr (fs_name f)), (''type'', type_json (fs_type f))])"

definition event_json :: "event_schema \<Rightarrow> jval" where
  "event_json e = JObj (dict_of
     [(''name'', JStr (ev_name e)), (''discriminator'', JArr (map (\<lambda>b. JInt (int (unat b))) (ev_discriminator e))),
      (''lifecycle_state'', JStr (lifecycle_text (ev_state e))), (''fields'', JArr (map field_json (ev_fields e)))])"

definition PINNED_TYPES :: defined_types where
  "PINNED_TYPES = map (\<lambda>(n, fs). (n, map fld fs)) EXPECTED_DEFINED_TYPES"

definition pinned_event :: "string \<Rightarrow> event_schema" where
  "pinned_event n = \<lparr>ev_name = n, ev_discriminator = map byte (the (map_of EXPECTED_DISCRIMINATORS n)),
     ev_state = the (map_of EXPECTED_LIFECYCLE_STATES n), ev_fields = map fld (the (map_of EXPECTED_EVENT_FIELDS n))\<rparr>"

definition PINNED_EVENTS :: "event_schema list" where
  "PINNED_EVENTS = map (pinned_event \<circ> fst) EXPECTED_EVENT_FIELDS"

definition pinned_plan :: "string \<Rightarrow> pump_plan" where
  "pinned_plan fixture_sha256 = \<lparr>pp_fixture_sha256 = fixture_sha256, pp_source_blob_sha = PUMP_IDL_BLOB_SHA,
     pp_program_id = PUMP_PROGRAM_ID, pp_defined_types = PINNED_TYPES, pp_events = PINNED_EVENTS\<rparr>"

definition pinned_document :: jval where
  "pinned_document = JObj (dict_of
     [(''schema'', JStr ''solana_alpha_lab.pump_event_idl_subset''), (''schema_version'', JStr ''1.0''),
      (''as_of'', JStr ''2026-07-25''), (''status'', JStr ''PINNED_OFFICIAL_SUBSET''), (''source'', JObj expected_source),
      (''program_id'', JStr PUMP_PROGRAM_ID),
      (''defined_types'', JObj (dict_of (map (\<lambda>(n, fs). (n, JArr (map field_json fs))) PINNED_TYPES))),
      (''events'', JArr (map event_json PINNED_EVENTS))])"

subsection \<open>Types and fields\<close>

fun named_type :: "borsh_type \<Rightarrow> bool" where
  "named_type (BVecDefined n) = (n \<noteq> [])"
| "named_type _ = True"

lemma compile_type_exact: "compile_type name v = Inr t \<longleftrightarrow> v = type_json t \<and> named_type t"
proof (cases v)
  case (JStr x)
  then show ?thesis by (cases t) (auto simp: compile_type_def PRIMITIVES_def)
next
  case (JObj d)
  have c: "compile_type name v = Inr t \<longleftrightarrow> (\<exists>n x. t = BVecDefined n \<and> n \<noteq> [] \<and> fmdom d = {|''vec''|} \<and> jget d ''vec'' = JObj x
      \<and> fmdom x = {|''defined''|} \<and> jget x ''defined'' = JStr n)"
    by (auto simp: JObj compile_type_def compile_simps)
  show ?thesis
  proof (cases t)
    case (BVecDefined n)
    let ?x = "dict_of [(''defined'', JStr n)]"
    have "compile_type name v = Inr t \<longleftrightarrow> n \<noteq> [] \<and> fmdom d = {|''vec''|} \<and> jget d ''vec'' = JObj ?x"
      unfolding c [unfolded BVecDefined] BVecDefined dict_one(1) [of _ "''defined''", symmetric]
      by (metis (no_types, lifting) borsh_type.inject dict_one(1))
    also have "\<dots> \<longleftrightarrow> n \<noteq> [] \<and> d = dict_of [(''vec'', JObj ?x)]" using dict_one(1) [of d] by blast
    finally show ?thesis by (simp add: JObj BVecDefined del: dict_with_simps) blast
  qed (use c JObj in auto)
qed (cases t; simp add: compile_type_def as_mapping_def)+

definition named_field :: "pump_field \<Rightarrow> bool" where
  "named_field f = (fs_name f \<noteq> [] \<and> named_type (fs_type f))"

lemma compile_field_exact: "compile_field name v = Inr f \<longleftrightarrow> v = field_json f \<and> named_field f"
proof (cases v)
  case (JObj d)
  have fld: "fld (n, t) = f \<longleftrightarrow> n = fs_name f \<and> t = fs_type f" for n t by (cases f) (auto simp: fld_def)
  have "compile_field name v = Inr f \<longleftrightarrow> fmdom d = {|''name'', ''type''|} \<and> jget d ''name'' = JStr (fs_name f)
      \<and> fs_name f \<noteq> [] \<and> compile_type (name @ ''_type'') (jget d ''type'') = Inr (fs_type f)"
    by (simp add: JObj compile_field_def compile_simps fld)
  also have "\<dots> \<longleftrightarrow> d = dict_of [(''name'', JStr (fs_name f)), (''type'', type_json (fs_type f))] \<and> named_field f"
    unfolding compile_type_exact named_field_def using dict_two [of "''name''" "''type''" d] by auto
  finally show ?thesis by (simp add: JObj field_json_def del: dict_with_simps)
qed (simp_all add: compile_field_def as_mapping_def field_json_def)

lemma compile_fields_exact:
  "compile_fields name v = Inr fs \<longleftrightarrow> v = JArr (map field_json fs) \<and> list_all named_field fs \<and> distinct (map fs_name fs)"
  by (auto simp: compile_fields_def compile_simps enumerated_exact [of _ field_json named_field, OF compile_field_exact])

subsection \<open>Events\<close>

lemma expected_names:
  "map fst EXPECTED_DISCRIMINATORS = map fst EXPECTED_EVENT_FIELDS"
  "map fst EXPECTED_LIFECYCLE_STATES = map fst EXPECTED_EVENT_FIELDS"
  "list_all (\<lambda>n. n \<noteq> [] \<and> length (the (map_of EXPECTED_DISCRIMINATORS n)) = 8) (map fst EXPECTED_EVENT_FIELDS)"
  "list_all (\<lambda>e. list_all named_field (ev_fields e) \<and> distinct (map fs_name (ev_fields e))) PINNED_EVENTS"
  "map ev_name PINNED_EVENTS = map fst EXPECTED_EVENT_FIELDS"
  "distinct (map fst EXPECTED_EVENT_FIELDS)"
  by code_simp+

lemma pinned_discriminators: "distinct (map ev_discriminator PINNED_EVENTS)"
  by (simp add: PINNED_EVENTS_def pinned_event_def EXPECTED_EVENT_FIELDS_def EXPECTED_DISCRIMINATORS_def byte_def)

lemma pinned_types: "list_all (\<lambda>(n, fs). list_all named_field fs \<and> distinct (map fs_name fs)) PINNED_TYPES"
  by code_simp

lemma pinned_event_fields: "ev_name (pinned_event n) = n" "ev_discriminator (pinned_event n) = map byte (the (map_of EXPECTED_DISCRIMINATORS n))"
  "ev_state (pinned_event n) = the (map_of EXPECTED_LIFECYCLE_STATES n)"
  "ev_fields (pinned_event n) = map fld (the (map_of EXPECTED_EVENT_FIELDS n))"
  by (simp_all add: pinned_event_def)

definition pinned_names :: "string list" where
  "pinned_names = map fst EXPECTED_EVENT_FIELDS"

lemma known_event: "map_of EXPECTED_DISCRIMINATORS n \<noteq> None \<longleftrightarrow> n \<in> set pinned_names"
  by (metis expected_names(1) map_of_eq_None_iff list.set_map pinned_names_def)

lemma compile_event_exact: "compile_event i v = Inr e \<longleftrightarrow> ev_name e \<in> set pinned_names \<and> e = pinned_event (ev_name e) \<and> v = event_json e"
proof (cases v)
  case (JObj row)
  show ?thesis
  proof (cases "\<exists>n. jget row ''name'' = JStr n \<and> n \<in> set pinned_names")
    case False
    then have "compile_event i v \<noteq> Inr e"
      by (auto simp: JObj compile_event_def Let_def compile_simps known_event [symmetric] split: if_splits)
    moreover have "jget row ''name'' = JStr (ev_name e)" if "v = event_json e"
      using that JObj by (simp add: event_json_def)
    ultimately show ?thesis using False by blast
  next
    case True
    then obtain n where n: "jget row ''name'' = JStr n" "n \<in> set pinned_names" by blast
    let ?p = "pinned_event n"
    obtain ns where ns: "map_of EXPECTED_DISCRIMINATORS n = Some ns" using n(2) known_event by blast
    have l: "n \<noteq> []" "length ns = 8" using expected_names(3) n(2) ns by (auto simp: list_all_iff pinned_names_def)
    have p: "list_all named_field (ev_fields ?p)" "distinct (map fs_name (ev_fields ?p))"
      using expected_names(4) n(2) by (auto simp: list_all_iff pinned_names_def PINNED_EVENTS_def)
    have d: "ev_discriminator ?p = map byte ns" by (simp add: pinned_event_fields ns)
    have "compile_event i v = Inr e \<longleftrightarrow> fmdom row = {|''name'', ''discriminator'', ''lifecycle_state'', ''fields''|}
      \<and> jget row ''discriminator'' = JArr (map (\<lambda>b. JInt (int (unat b))) (ev_discriminator ?p))
      \<and> jget row ''lifecycle_state'' = JStr (lifecycle_text (ev_state ?p))
      \<and> jget row ''fields'' = JArr (map field_json (ev_fields ?p)) \<and> e = ?p"
      using l ns p d
      by (auto simp: JObj compile_event_def Let_def compile_simps ns compile_discriminator_exact [OF l(2)] n(1)
        compile_fields_exact map_fld_eq pinned_event_def)
    also have "\<dots> \<longleftrightarrow> e = ?p \<and> v = event_json ?p"
      using dict_four [of "''name''" "''discriminator''" "''lifecycle_state''" "''fields''" row] n(1)
      by (auto simp: JObj event_json_def pinned_event_fields simp del: dict_with_simps)
    also have "\<dots> \<longleftrightarrow> ev_name e \<in> set pinned_names \<and> e = pinned_event (ev_name e) \<and> v = event_json e"
    proof
      assume "ev_name e \<in> set pinned_names \<and> e = pinned_event (ev_name e) \<and> v = event_json e"
      moreover from this have "ev_name e = n" using n(1) JObj by (auto simp: event_json_def)
      ultimately show "e = ?p \<and> v = event_json ?p" by metis
    qed (use n in \<open>simp add: pinned_event_fields\<close>)
    finally show ?thesis .
  qed
qed (simp_all add: compile_event_def as_mapping_def event_json_def)


lemma compile_types_exact:
  "compile_defined_types v = Inr ts \<longleftrightarrow>
    ts = PINNED_TYPES \<and> v = JObj (dict_of (map (\<lambda>(n, fs). (n, JArr (map field_json fs))) PINNED_TYPES))"
proof (cases v)
  case (JObj d)
  let ?fs = "map fld [(''address'', BPubkey), (''share_bps'', BU16)]"
  have P: "PINNED_TYPES = [(''Shareholder'', ?fs)]" by (simp add: PINNED_TYPES_def EXPECTED_DEFINED_TYPES_def)
  have ok: "list_all named_field ?fs" "distinct (map fs_name ?fs)" by (simp_all add: named_field_def)
  have "compile_defined_types v = Inr ts \<longleftrightarrow>
    fmdom d = {|''Shareholder''|} \<and> jget d ''Shareholder'' = JArr (map field_json ?fs) \<and> ts = PINNED_TYPES"
    using ok by (auto simp: JObj compile_defined_types_def compile_simps compile_fields_exact EXPECTED_DEFINED_TYPES_def map_fld_eq P Let_def)
  also have "\<dots> \<longleftrightarrow> ts = PINNED_TYPES \<and> v = JObj (dict_of (map (\<lambda>(n, fs). (n, JArr (map field_json fs))) PINNED_TYPES))"
    unfolding P using dict_one(1) [of d "''Shareholder''" "JArr (map field_json ?fs)"]
    by (auto simp: JObj simp del: dict_with_simps)
  finally show ?thesis .
qed (simp_all add: compile_defined_types_def as_mapping_def)

lemma compile_events_exact:
  "enumerated compile_event 0 rows = Inr es \<and> map ev_name es = pinned_names \<longleftrightarrow>
     es = PINNED_EVENTS \<and> rows = map event_json es"
proof -
  let ?P = "\<lambda>e. ev_name e \<in> set pinned_names \<and> e = pinned_event (ev_name e)"
  have run: "enumerated compile_event 0 rows = Inr es \<longleftrightarrow> rows = map event_json es \<and> list_all ?P es"
    by (rule enumerated_exact) (auto simp: compile_event_exact)
  have all: "PINNED_EVENTS = map pinned_event pinned_names" by (simp add: PINNED_EVENTS_def pinned_names_def)
  have "es = map pinned_event (map ev_name es)" if "list_all ?P es"
    using that by (induction es) auto
  moreover have "list_all ?P PINNED_EVENTS" and "map ev_name PINNED_EVENTS = pinned_names"
    by (simp_all add: all list_all_iff pinned_event_fields comp_def)
  ultimately show ?thesis using run all by metis
qed

text \<open>C37: only the pinned subset compiles. For the document behind the pinned layouts the compiler returns the
  pinned plan; for any other JSON value, however small the change, it raises.\<close>

theorem pump_subset_pinned:
  "compile_pump_event_idl_subset sha document = Inr plan \<longleftrightarrow> document = pinned_document \<and> plan = pinned_plan sha"
proof (cases document)
  case (JObj root)
  let ?types = "JObj (dict_of (map (\<lambda>(n, fs). (n, JArr (map field_json fs))) PINNED_TYPES))"
  note events = compile_events_exact
  have "compile_pump_event_idl_subset sha document = Inr plan \<longleftrightarrow>
      fmdom root = {|''schema'', ''schema_version'', ''as_of'', ''status'', ''source'', ''program_id'', ''defined_types'', ''events''|}
      \<and> jget root ''schema'' = JStr ''solana_alpha_lab.pump_event_idl_subset'' \<and> jget root ''schema_version'' = JStr ''1.0''
      \<and> jget root ''as_of'' = JStr ''2026-07-25'' \<and> jget root ''status'' = JStr ''PINNED_OFFICIAL_SUBSET''
      \<and> jget root ''source'' = JObj expected_source \<and> jget root ''program_id'' = JStr PUMP_PROGRAM_ID
      \<and> jget root ''defined_types'' = ?types \<and> jget root ''events'' = JArr (map event_json PINNED_EVENTS)
      \<and> plan = pinned_plan sha"
    (is "?L \<longleftrightarrow> ?R")
  proof
    assume ?L
    then obtain types rows es where r: "jget root ''events'' = JArr rows" "enumerated compile_event 0 rows = Inr es"
        "map ev_name es = pinned_names"
      and t: "compile_defined_types (jget root ''defined_types'') = Inr types"
      and p: "\<lparr>pp_fixture_sha256 = sha, pp_source_blob_sha = PUMP_IDL_BLOB_SHA, pp_program_id = PUMP_PROGRAM_ID,
        pp_defined_types = types, pp_events = es\<rparr> = plan"
      and rest: "fmdom root = {|''schema'', ''schema_version'', ''as_of'', ''status'', ''source'', ''program_id'',
          ''defined_types'', ''events''|} \<and> jget root ''schema'' = JStr ''solana_alpha_lab.pump_event_idl_subset''
        \<and> jget root ''schema_version'' = JStr ''1.0'' \<and> jget root ''as_of'' = JStr ''2026-07-25''
        \<and> jget root ''status'' = JStr ''PINNED_OFFICIAL_SUBSET'' \<and> jget root ''source'' = JObj expected_source
        \<and> jget root ''program_id'' = JStr PUMP_PROGRAM_ID"
      unfolding JObj compile_pump_event_idl_subset_def compile_simps if_Inl_eq_Inr sum.inject jval.inject
      by (elim exE conjE) (rule that; simp add: pinned_names_def)
    have "es = PINNED_EVENTS" and "rows = map event_json PINNED_EVENTS" using iffD1 [OF events conjI [OF r(2,3)]] by simp_all
    then show ?R using r(1) t p [symmetric] rest by (simp add: compile_types_exact pinned_plan_def del: dict_with_simps)
  next
    assume ?R
    then show ?L using events [of "map event_json PINNED_EVENTS" PINNED_EVENTS] pinned_discriminators
      by (simp add: JObj compile_pump_event_idl_subset_def compile_simps compile_types_exact pinned_plan_def
        pinned_names_def [symmetric])
  qed
  also have "\<dots> \<longleftrightarrow> document = pinned_document \<and> plan = pinned_plan sha"
    unfolding pinned_document_def JObj jval.inject
    using dict_eight [of "''schema''" "''schema_version''" "''as_of''" "''status''" "''source''" "''program_id''"
        "''defined_types''" "''events''" root] by auto
  finally show ?thesis .
qed (simp_all add: compile_pump_event_idl_subset_def as_mapping_def pinned_document_def)

end
