(* ===== verification/PumpClaims.thy ===== *)
theory PumpClaims
  imports PumpCodec PumpSubset
begin

section \<open>What the Pump decoder reads is what was written\<close>

text \<open>
  Under the pinned plan \<open>decode_payload\<close> returns exactly for the payloads of well-typed events, so decoding
  and the reference writer are inverse to each other; the rest of the line, prefix and base64, is undone too.
\<close>

definition write_pinned :: "borsh_type \<Rightarrow> borsh_value \<Rightarrow> bytes" where
  "write_pinned = write_type PINNED_TYPES 2"

definition ok_pinned :: "borsh_type \<Rightarrow> borsh_value \<Rightarrow> bool" where
  "ok_pinned = ok_type PINNED_TYPES 2"

definition event_bytes :: "string \<Rightarrow> row \<Rightarrow> bytes" where
  "event_bytes n d = ev_discriminator (pinned_event n) @ write_fields write_pinned (ev_fields (pinned_event n)) d"

definition event_row_ok :: "string \<Rightarrow> row \<Rightarrow> bool" where
  "event_row_ok n d = ok_fields ok_pinned (ev_fields (pinned_event n)) d"

definition pump_event_of :: "(bytes \<Rightarrow> string) \<Rightarrow> string \<Rightarrow> row \<Rightarrow> pump_event" where
  "pump_event_of sha n d = \<lparr>pe_name = n, pe_state = ev_state (pinned_event n), pe_fields = d,
     pe_payload_sha256 = sha (event_bytes n d)\<rparr>"

definition log_line_of :: "bytes \<Rightarrow> ustr" where
  "log_line_of payload = ustr PROGRAM_DATA_PREFIX @ b64encode payload"

subsection \<open>The pinned types\<close>

lemma pinned_distinct: "types_distinct PINNED_TYPES"
  using pinned_types by (auto simp: types_distinct_def list_all_iff)

lemma pinned_lookup: "map_of PINNED_TYPES name = Some fs \<Longrightarrow> fs = map fld [(''address'', BPubkey), (''share_bps'', BU16)]"
  by (auto simp: PINNED_TYPES_def EXPECTED_DEFINED_TYPES_def split: if_splits)

lemma decode_fields_cong:
  "(\<And>f r. f \<in> set fs \<Longrightarrow> rd (fs_type f) r = rd' (fs_type f) r) \<Longrightarrow> decode_fields rd fs d r = decode_fields rd' fs d r"
proof (induction fs arbitrary: d r)
  case (Cons f fs)
  then have "rd (fs_type f) r = rd' (fs_type f) r" and "decode_fields rd fs e = decode_fields rd' fs e" for e
    by (auto intro: ext)
  then show ?case by simp
qed simp

lemma decode_items_cong:
  "(\<And>f r. f \<in> set fs \<Longrightarrow> rd (fs_type f) r = rd' (fs_type f) r) \<Longrightarrow> decode_items rd fs n r = decode_items rd' fs n r"
proof (induction n arbitrary: r)
  case (Suc n)
  then have "decode_fields rd fs [] r = decode_fields rd' fs [] r" by (intro decode_fields_cong) auto
  with Suc show ?case by simp
qed simp

lemma pinned_depth: "decode_type PINNED_TYPES (Suc (Suc k)) t = decode_type PINNED_TYPES 2 t"
proof (cases t)
  case (BVecDefined name)
  show ?thesis
  proof (cases "map_of PINNED_TYPES name")
    case None
    then show ?thesis by (simp add: BVecDefined fun_eq_iff numeral_2_eq_2 cong: if_cong)
  next
    case (Some fs)
    have "decode_items (decode_type PINNED_TYPES (Suc k)) fs = decode_items (decode_type PINNED_TYPES (Suc 0)) fs"
      unfolding pinned_lookup [OF Some] by (intro ext decode_items_cong) auto
    then show ?thesis unfolding BVecDefined numeral_2_eq_2 decode_vector [OF Some] by simp
  qed
qed (simp_all add: fun_eq_iff numeral_2_eq_2)

interpretation pinned: codec_family "decode_type PINNED_TYPES 2" write_pinned ok_pinned
  unfolding write_pinned_def ok_pinned_def by unfold_locales (rule codec.reads_exactly [OF type_codec [OF pinned_distinct]])

lemma pinned_fields_distinct: "n \<in> set pinned_names \<Longrightarrow> distinct (map fs_name (ev_fields (pinned_event n)))"
  using expected_names(4) by (auto simp: list_all_iff pinned_names_def PINNED_EVENTS_def)

lemma pinned_discriminator_length: "n \<in> set pinned_names \<Longrightarrow> length (ev_discriminator (pinned_event n)) = 8"
  using expected_names(3) by (auto simp: list_all_iff pinned_names_def pinned_event_def)

lemma event_found:
  "event_by_discriminator (pinned_plan h) x = Some e \<longleftrightarrow> (\<exists>n\<in>set pinned_names. e = pinned_event n \<and> x = ev_discriminator e)"
proof -
  have d: "distinct (map fst (rev (map (\<lambda>e. (ev_discriminator e, e)) PINNED_EVENTS)))"
    using pinned_discriminators by (simp add: rev_map [symmetric] comp_def)
  have "event_by_discriminator (pinned_plan h) x = Some e \<longleftrightarrow> e \<in> set PINNED_EVENTS \<and> x = ev_discriminator e"
    unfolding event_by_discriminator_def pinned_plan_def using map_of_eq_Some_iff [OF d] by auto
  then show ?thesis by (auto simp: PINNED_EVENTS_def pinned_names_def)
qed

subsection \<open>The checks on a decoded event always pass\<close>

lemma pinned_layouts:
  "n \<in> set pinned_names \<Longrightarrow> (''mint'', BPubkey) \<in> set (the (map_of EXPECTED_EVENT_FIELDS n))
    \<and> (''timestamp'', BI64) \<in> set (the (map_of EXPECTED_EVENT_FIELDS n))
    \<and> (if n = ''CompletePumpAmmMigrationEvent'' then (''pool'', BPubkey) \<in> set (the (map_of EXPECTED_EVENT_FIELDS n))
       else ''pool'' \<notin> fst ` set (the (map_of EXPECTED_EVENT_FIELDS n)))"
proof -
  have "list_all (\<lambda>n. (''mint'', BPubkey) \<in> set (the (map_of EXPECTED_EVENT_FIELDS n))
    \<and> (''timestamp'', BI64) \<in> set (the (map_of EXPECTED_EVENT_FIELDS n))
    \<and> (if n = ''CompletePumpAmmMigrationEvent'' then (''pool'', BPubkey) \<in> set (the (map_of EXPECTED_EVENT_FIELDS n))
       else ''pool'' \<notin> fst ` set (the (map_of EXPECTED_EVENT_FIELDS n)))) pinned_names"
    by code_simp
  then show "n \<in> set pinned_names \<Longrightarrow> ?thesis" unfolding list_all_iff by blast
qed


lemma pinned_value:
  assumes "event_row_ok n d" and "n \<in> set pinned_names" and "(k, t) \<in> set (the (map_of EXPECTED_EVENT_FIELDS n))"
  obtains v where "map_of d k = Some v" and "ok_pinned t v"
proof -
  have "fld (k, t) \<in> set (ev_fields (pinned_event n))" using assms(3) by (simp add: pinned_event_fields)
  from ok_fields_value [OF assms(1) [unfolded event_row_ok_def] pinned_fields_distinct [OF assms(2)] this]
  show thesis using that by auto
qed

lemma pinned_absent:
  assumes "event_row_ok n d" and "k \<notin> fst ` set (the (map_of EXPECTED_EVENT_FIELDS n))"
  shows "map_of d k = None"
proof -
  have "map fst d = map fst (the (map_of EXPECTED_EVENT_FIELDS n))"
    using ok_fields_names [OF assms(1) [unfolded event_row_ok_def]] by (simp add: pinned_event_fields comp_def)
  then have "fst ` set d = fst ` set (the (map_of EXPECTED_EVENT_FIELDS n))" by (metis list.set_map)
  then show ?thesis using assms(2) by (simp add: map_of_eq_None_iff)
qed

lemma ok_pinned_key: "ok_pinned BPubkey v \<Longrightarrow> \<exists>t. v = VText t"
  by (auto simp: ok_pinned_def numeral_2_eq_2 ok_pubkey_def split: borsh_value.splits)

lemma ok_pinned_time: "ok_pinned BI64 v \<Longrightarrow> \<exists>i. v = VInt i"
  by (auto simp: ok_pinned_def numeral_2_eq_2 ok_signed_def split: borsh_value.splits)

lemma event_complete_holds:
  assumes "n \<in> set pinned_names" and "event_row_ok n d"
  shows "event_complete (pump_event_of sha n d) = Inr ()"
proof -
  note l = pinned_layouts [OF assms(1)]
  obtain m where m: "map_of d ''mint'' = Some (VText m)"
    using pinned_value [OF assms(2,1) conjunct1 [OF l]] ok_pinned_key by metis
  obtain i where i: "map_of d ''timestamp'' = Some (VInt i)"
    using pinned_value [OF assms(2,1) conjunct1 [OF conjunct2 [OF l]]] ok_pinned_time by metis
  show ?thesis
  proof (cases "n = ''CompletePumpAmmMigrationEvent''")
    case True
    then have "(''pool'', BPubkey) \<in> set (the (map_of EXPECTED_EVENT_FIELDS n))" using l by argo
    then obtain p where "map_of d ''pool'' = Some (VText p)" using pinned_value [OF assms(2,1)] ok_pinned_key by metis
    then show ?thesis using m i True
      by (simp add: event_complete_def pump_event_of_def decoded_mint_def event_timestamp_def destination_pool_def)
  next
    case False
    then have "map_of d ''pool'' = None" using l pinned_absent [OF assms(2)] by simp
    then show ?thesis using m i False
      by (simp add: event_complete_def pump_event_of_def decoded_mint_def event_timestamp_def destination_pool_def)
  qed
qed

subsection \<open>Payloads and events\<close>

lemma decode_payload_exact:
  "decode_payload sha (pinned_plan h) payload = Inr e \<longleftrightarrow>
    (\<exists>n\<in>set pinned_names. \<exists>d. event_row_ok n d \<and> payload = event_bytes n d \<and> e = pump_event_of sha n d)"
    (is "?L \<longleftrightarrow> ?R")
proof -
  have codec: "codec (decode_fields (decode_type PINNED_TYPES 2) (ev_fields (pinned_event n)) [])
      (write_fields write_pinned (ev_fields (pinned_event n))) (event_row_ok n)" if "n \<in> set pinned_names" for n
    using pinned.fields_codec [OF pinned_fields_distinct [OF that]] by (simp add: event_row_ok_def [abs_def])
  have depth: "decode_type PINNED_TYPES (Suc (length payload)) = decode_type PINNED_TYPES 2" if "length payload \<noteq> 0"
    using that pinned_depth [of "length payload - 1"] by (auto simp: fun_eq_iff)
  have types: "pp_defined_types (pinned_plan h) = PINNED_TYPES" by (simp add: pinned_plan_def)
  show ?thesis
  proof
    assume ?L
    then obtain schema d r where s: "event_by_discriminator (pinned_plan h) (take 8 payload) = Some schema"
      and f: "decode_fields (decode_type PINNED_TYPES (Suc (length payload))) (ev_fields schema) [] (new_reader (drop 8 payload)) = Inr (d, r)"
      and z: "remaining r = 0"
      and e: "e = \<lparr>pe_name = ev_name schema, pe_state = ev_state schema, pe_fields = d, pe_payload_sha256 = sha payload\<rparr>"
      by (auto simp: decode_payload_def types Let_def bindR_eq_Inr split: option.splits if_splits)
    obtain n where n: "n \<in> set pinned_names" "schema = pinned_event n" "take 8 payload = ev_discriminator schema"
      using s event_found by blast
    have "length payload \<noteq> 0" using n(3) pinned_discriminator_length [OF n(1)] n(2) by auto
    from f [unfolded depth [OF this] n(2)] z
    have "event_row_ok n d" and "drop 8 payload = write_fields write_pinned (ev_fields (pinned_event n)) d"
      using codec.reads_all [OF codec [OF n(1)]] by blast+
    moreover from this(2) have "payload = event_bytes n d"
      using n(2,3) append_take_drop_id [of 8 payload] by (simp add: event_bytes_def)
    ultimately show ?R using n e by (auto simp: pump_event_of_def pinned_event_fields)
  next
    assume ?R
    then obtain n d where n: "n \<in> set pinned_names" "event_row_ok n d" and p: "payload = event_bytes n d"
      and e: "e = pump_event_of sha n d" by blast
    let ?x = "ev_discriminator (pinned_event n)" and ?w = "write_fields write_pinned (ev_fields (pinned_event n)) d"
    have x: "take 8 payload = ?x" "drop 8 payload = ?w" "length payload \<noteq> 0"
      using pinned_discriminator_length [OF n(1)] by (auto simp: p event_bytes_def)
    have "event_by_discriminator (pinned_plan h) ?x = Some (pinned_event n)" using event_found n(1) by blast
    moreover have "decode_fields (decode_type PINNED_TYPES 2) (ev_fields (pinned_event n)) [] (new_reader ?w) =
        Inr (d, moved (length ?w) (new_reader ?w)) \<and> remaining (moved (length ?w) (new_reader ?w)) = 0"
      using codec.reads_all [OF codec [OF n(1)]] n(2) by blast
    ultimately show ?L using event_complete_holds [OF n, of sha] e
      by (simp add: decode_payload_def types x(1,2) depth [OF x(3)] Let_def pump_event_of_def pinned_event_fields(1)
        p [symmetric])
  qed
qed

lemma payload_of_log_line:
  assumes "8 \<le> length payload" and "length payload \<le> MAX_EVENT_PAYLOAD_BYTES"
  shows "payload_of_line refuse err (log_line_of payload) = Inr payload"
proof -
  let ?n = "length PROGRAM_DATA_PREFIX" and ?line = "log_line_of payload"
  have "payload \<noteq> []" using assms(1) by auto
  from b64encode_head [OF this] have some: "b64encode payload \<noteq> []" by auto
  have "length (ustr PROGRAM_DATA_PREFIX) = ?n" by (simp add: ustr_def)
  then have t: "take ?n ?line = ustr PROGRAM_DATA_PREFIX" "drop ?n ?line = b64encode payload"
    unfolding log_line_of_def by (simp_all only: take_append drop_append take_all drop_all diff_self_eq_0 take_0 drop_0
      append_Nil append_Nil2 order_refl)
  have "\<not> length payload < 8" and "\<not> MAX_EVENT_PAYLOAD_BYTES < length payload" using assms by simp_all
  then show ?thesis unfolding payload_of_line_def Let_def t by (simp only: some b64encode_strip b64_decode_encode simp_thms if_False option.case)
qed

lemma event_bytes_length: "n \<in> set pinned_names \<Longrightarrow> 8 \<le> length (event_bytes n d)"
  by (simp add: event_bytes_def pinned_discriminator_length)

lemma line_decodes:
  assumes "n \<in> set pinned_names" and "event_row_ok n d" and "length (event_bytes n d) \<le> MAX_EVENT_PAYLOAD_BYTES"
  shows "decode_pump_program_data sha refuse (pinned_plan h) (log_line_of (event_bytes n d)) PUMP_PROGRAM_ID True
    = Inr (Some (pump_event_of sha n d))"
proof -
  have "decode_payload sha (pinned_plan h) (event_bytes n d) = Inr (pump_event_of sha n d)"
    using assms(1,2) decode_payload_exact by blast
  moreover have "pp_program_id (pinned_plan h) = PUMP_PROGRAM_ID" by (simp add: pinned_plan_def)
  ultimately show ?thesis
    using payload_of_log_line [OF event_bytes_length [OF assms(1)] assms(3)] by (simp add: decode_pump_program_data_def)
qed

text \<open>C33: a written event is read back. For every pinned event and every row of values of its types, in a line
  no longer than the bound, the decoder returns that event with exactly these values, whatever the rule of
  the interpreter on padding.\<close>

theorem pump_line_read_back:
  assumes "n \<in> set pinned_names" and "event_row_ok n d" and "length (event_bytes n d) \<le> MAX_EVENT_PAYLOAD_BYTES"
  shows "decode_pump_program_data sha refuse (pinned_plan h) (log_line_of (event_bytes n d)) PUMP_PROGRAM_ID True
    = Inr (Some (pump_event_of sha n d))"
  by (rule line_decodes [OF assms])

text \<open>C34: decoded events are well typed, and the payload is the only one for them. What the decoder returns
  for any line is a pinned event whose fields have the pinned names in their order and values of the pinned
  types: unsigned and signed numbers within their width, keys the text of 32 bytes, texts of Unicode scalars
  within their bound, at most 64 rows. The bytes in the line are what the writer gives for it.\<close>

theorem decoded_pump_event_typed:
  assumes "decode_pump_program_data sha refuse (pinned_plan h) line program True = Inr (Some e)"
  shows "program = PUMP_PROGRAM_ID \<and> pe_name e \<in> set pinned_names \<and> pe_state e = ev_state (pinned_event (pe_name e))
    \<and> list_all2 (\<lambda>(name, t) (key, v). key = name \<and> ok_pinned t v) (the (map_of EXPECTED_EVENT_FIELDS (pe_name e))) (pe_fields e)
    \<and> payload_of_line refuse PumpEventDecodeError line = Inr (event_bytes (pe_name e) (pe_fields e))"
proof -
  obtain payload where l: "payload_of_line refuse PumpEventDecodeError line = Inr payload"
    and d: "decode_payload sha (pinned_plan h) payload = Inr e" and p: "program = PUMP_PROGRAM_ID"
    using assms by (auto simp: decode_pump_program_data_def bindR_eq_Inr pinned_plan_def split: if_splits)
  obtain n d where n: "n \<in> set pinned_names" "event_row_ok n d" "payload = event_bytes n d" "e = pump_event_of sha n d"
    using d decode_payload_exact by blast
  have "list_all2 (\<lambda>(name, t) (key, v). key = name \<and> ok_pinned t v) (the (map_of EXPECTED_EVENT_FIELDS n)) d"
    using n(2) by (auto simp: event_row_ok_def ok_fields_def pinned_event_fields list_all2_map1 elim!: list_all2_mono)
  then show ?thesis using n l p by (simp add: pump_event_of_def)
qed


text \<open>The check for canonical base64 looks at surrounding space only: two texts that differ in unused bits carry the same
  bytes, so two lines can carry one event.\<close>

lemma base64_not_unique:
  "b64decode refuse (ustr ''Zh=='') = b64decode refuse (ustr ''Zg=='')" "b64decode refuse (ustr ''Zg=='') = Some [102]"
  by (simp_all add: b64decode_def base64_value_def BASE64_ALPHABET_def byte_def)

subsection \<open>An event\<close>

definition demo_key :: borsh_value where
  "demo_key = VText (ustr (base58_encode (replicate 32 7)))"

definition demo_complete :: row where
  "demo_complete = [(''user'', demo_key), (''mint'', demo_key), (''bonding_curve'', demo_key),
     (''timestamp'', VInt 1721888000), (''quote_mint'', demo_key)]"

lemma demo_complete_ok:
  "''CompleteEvent'' \<in> set pinned_names" "event_row_ok ''CompleteEvent'' demo_complete"
  "length (event_bytes ''CompleteEvent'' demo_complete) \<le> MAX_EVENT_PAYLOAD_BYTES"
proof -
  have key: "ok_pubkey demo_key" "length (write_pubkey demo_key) = 32"
    using base58_bytes_encode [of "replicate 32 7"] by (simp_all add: ok_pubkey_def write_pubkey_def demo_key_def)
  show n: "''CompleteEvent'' \<in> set pinned_names" by (simp add: pinned_names_def EXPECTED_EVENT_FIELDS_def)
  show "event_row_ok ''CompleteEvent'' demo_complete"
    by (simp add: event_row_ok_def ok_fields_def pinned_event_def EXPECTED_EVENT_FIELDS_def demo_complete_def
      ok_pinned_def numeral_2_eq_2 key ok_signed_def)
  show "length (event_bytes ''CompleteEvent'' demo_complete) \<le> MAX_EVENT_PAYLOAD_BYTES"
    using pinned_discriminator_length [OF n]
    by (simp add: event_bytes_def write_fields_def pinned_event_def EXPECTED_EVENT_FIELDS_def demo_complete_def
      write_pinned_def numeral_2_eq_2 key write_signed_def MAX_EVENT_PAYLOAD_BYTES_def)
qed

lemma pump_line_read_back_witness:
  "event_row_ok ''CompleteEvent'' demo_complete \<and>
   decode_pump_program_data (\<lambda>_. ''digest'') False (pinned_plan ''fixture'')
     (log_line_of (event_bytes ''CompleteEvent'' demo_complete)) PUMP_PROGRAM_ID True
   = Inr (Some (pump_event_of (\<lambda>_. ''digest'') ''CompleteEvent'' demo_complete))"
  using pump_line_read_back [OF demo_complete_ok] demo_complete_ok(2) by blast

lemma decoded_pump_event_typed_witness:
  "payload_of_line True PumpEventDecodeError (log_line_of (event_bytes ''CompleteEvent'' demo_complete))
   = Inr (event_bytes ''CompleteEvent'' demo_complete)"
  using decoded_pump_event_typed [OF line_decodes [OF demo_complete_ok, of "\<lambda>_. ''digest''" True "''fixture''"]]
  by (simp add: pump_event_of_def)

end
