(* ===== verification/PumpSwap.thy ===== *)
theory PumpSwap
  imports PinnedDocument
begin

section \<open>The PumpSwap decoder\<close>

text \<open>
  \<open>pumpswap_touch_decoder.py\<close>: the plan of its pinned subset, the decoding of a pool account and of a trade
  event, and the reserves a projection may use. Its reader is that of \<open>Borsh\<close>; it has no vectors, so its
  \<open>_decode_type\<close> does not call itself.
\<close>

definition PUMPSWAP_PROGRAM_ID :: string where
  "PUMPSWAP_PROGRAM_ID = ''pAMMBay6oceH9fJKBRHGP5D4bD4sWpmSwMn52FMfXEA''"

definition PUMPSWAP_IDL_COMMIT :: string where
  "PUMPSWAP_IDL_COMMIT = ''9c82f61cb711b044a17f770ab8ce9f9bdf78f333''"

definition PUMPSWAP_IDL_SHA256 :: string where
  "PUMPSWAP_IDL_SHA256 = ''6b5c7ec4e5ef9742fa99dc57b0d75b1031b379bba02a7e1b3c5a4cad68d77e56''"

definition U64_MAX :: int where
  "U64_MAX = 2 ^ 64 - 1"

definition I128_MIN :: int where
  "I128_MIN = - (2 ^ 127)"

definition I128_MAX :: int where
  "I128_MAX = 2 ^ 127 - 1"

datatype swap_type = SBool | SI64 | SI128 | SPubkey | SString | SU8 | SU16 | SU64

type_synonym swap_field = "swap_type field_spec"

record layout_schema =
  ly_name :: string
  ly_discriminator :: bytes
  ly_fields :: "swap_field list"

record swap_plan =
  wp_fixture_sha256 :: string
  wp_source_commit :: string
  wp_source_sha256 :: string
  wp_program_id :: string
  wp_pool :: layout_schema
  wp_events :: "layout_schema list"

definition layout_by_discriminator :: "swap_plan \<Rightarrow> bytes \<Rightarrow> layout_schema option" where
  "layout_by_discriminator plan d = map_of (rev (map (\<lambda>e. (ly_discriminator e, e)) (wp_events plan))) d"

definition required_text :: "row \<Rightarrow> string \<Rightarrow> ustr res" where
  "required_text d name = (case map_of d name of
     Some (VText t) \<Rightarrow> if t = [] then Inl (PumpSwapDecodeError (''decoded_'' @ name @ ''_invalid'')) else Inr t
   | _ \<Rightarrow> Inl (PumpSwapDecodeError (''decoded_'' @ name @ ''_invalid'')))"

definition required_int :: "row \<Rightarrow> string \<Rightarrow> int res" where
  "required_int d name = (case map_of d name of Some (VInt i) \<Rightarrow> Inr i
     | _ \<Rightarrow> Inl (PumpSwapDecodeError (''decoded_'' @ name @ ''_invalid'')))"

record pool_account =
  pa_pubkey :: ustr
  pa_fields :: row
  pa_payload_sha256 :: string

datatype trade_side = BUY | SELL

record trade_event =
  te_name :: string
  te_side :: trade_side
  te_fields :: row
  te_payload_sha256 :: string

subsection \<open>Decoding\<close>

fun swap_decode_type :: "swap_type \<Rightarrow> borsh_value reading" where
  "swap_decode_type SBool = read_bool PumpSwapDecodeError"
| "swap_decode_type SI64 = read_signed PumpSwapDecodeError 8"
| "swap_decode_type SI128 = read_signed PumpSwapDecodeError 16"
| "swap_decode_type SPubkey = read_pubkey PumpSwapDecodeError"
| "swap_decode_type SString = read_string PumpSwapDecodeError"
| "swap_decode_type SU8 = read_unsigned PumpSwapDecodeError 1"
| "swap_decode_type SU16 = read_unsigned PumpSwapDecodeError 2"
| "swap_decode_type SU64 = read_unsigned PumpSwapDecodeError 8"

definition decode_layout :: "bytes \<Rightarrow> layout_schema \<Rightarrow> row res" where
  "decode_layout payload schema =
     (if length payload < 8 then Inl (PumpSwapDecodeError ''payload_missing_discriminator'')
      else if take 8 payload \<noteq> ly_discriminator schema
      then Inl (PumpSwapDecodeError (ly_name schema @ ''_discriminator_mismatch''))
      else bindR (decode_fields swap_decode_type (ly_fields schema) [] (new_reader (drop 8 payload))) (\<lambda>(fields, r).
        if remaining r \<noteq> 0 then Inl (PumpSwapDecodeError ''borsh_payload_trailing_bytes'') else Inr fields))"

definition decode_pool_account ::
  "(bytes \<Rightarrow> string) \<Rightarrow> swap_plan \<Rightarrow> bytes \<Rightarrow> ustr \<Rightarrow> string \<Rightarrow> pool_account res" where
  "decode_pool_account sha plan account_data account_pubkey owner_program_id =
     (if owner_program_id \<noteq> wp_program_id plan then Inl (PumpSwapDecodeError ''pool_owner_program_id_mismatch'')
      else bindR (decode_layout account_data (wp_pool plan)) (\<lambda>fields.
        if account_pubkey = [] then Inl (PumpSwapContractError ''account_pubkey_must_be_nonempty_text'')
        else bindR (required_text fields ''base_mint'') (\<lambda>base. bindR (required_text fields ''quote_mint'') (\<lambda>quote.
          if base = quote then Inl (PumpSwapDecodeError ''pool_mints_must_differ'')
          else bindR (required_text fields ''pool_base_token_account'') (\<lambda>base_account.
            bindR (required_text fields ''pool_quote_token_account'') (\<lambda>quote_account.
              if base_account = quote_account then Inl (PumpSwapDecodeError ''pool_token_accounts_must_differ'')
              else Inr \<lparr>pa_pubkey = account_pubkey, pa_fields = fields, pa_payload_sha256 = sha account_data\<rparr>))))))"

definition SWAP_DATA_PREFIX :: string where
  "SWAP_DATA_PREFIX = ''Program data: ''"

definition SWAP_MAX_PAYLOAD_BYTES :: nat where
  "SWAP_MAX_PAYLOAD_BYTES = 65536"

definition swap_payload_of_line :: "bool \<Rightarrow> ustr \<Rightarrow> bytes res" where
  "swap_payload_of_line refuse line =
     (let n = length SWAP_DATA_PREFIX; encoded = drop n line in
      if take n line \<noteq> ustr SWAP_DATA_PREFIX then Inl (PumpSwapDecodeError ''program_data_prefix_invalid'')
      else if encoded = [] \<or> ustr_strip encoded \<noteq> encoded then Inl (PumpSwapDecodeError ''program_data_base64_not_canonical'')
      else case b64decode refuse encoded of None \<Rightarrow> Inl (PumpSwapDecodeError ''program_data_base64_invalid'')
      | Some payload \<Rightarrow>
          if length payload < 8 then Inl (PumpSwapDecodeError ''event_payload_missing_discriminator'')
          else if length payload > SWAP_MAX_PAYLOAD_BYTES then Inl (PumpSwapDecodeError ''event_payload_too_large'')
          else Inr payload)"

definition decode_trade_payload :: "(bytes \<Rightarrow> string) \<Rightarrow> swap_plan \<Rightarrow> bytes \<Rightarrow> trade_event res" where
  "decode_trade_payload sha plan payload =
     (case layout_by_discriminator plan (take 8 payload) of
        None \<Rightarrow> Inl (PumpSwapDecodeError ''event_discriminator_unknown'')
      | Some schema \<Rightarrow>
          bindR (decode_layout payload schema) (\<lambda>fields.
          bindR (required_text fields ''pool'') (\<lambda>_. bindR (required_int fields ''timestamp'') (\<lambda>_.
            Inr \<lparr>te_name = ly_name schema, te_side = (if ly_name schema = ''BuyEvent'' then BUY else SELL),
                 te_fields = fields, te_payload_sha256 = sha payload\<rparr>))))"

definition decode_pumpswap_program_data ::
  "(bytes \<Rightarrow> string) \<Rightarrow> bool \<Rightarrow> swap_plan \<Rightarrow> ustr \<Rightarrow> string \<Rightarrow> bool \<Rightarrow> trade_event option res" where
  "decode_pumpswap_program_data sha refuse plan log_line emitting_program_id transaction_succeeded =
     (if \<not> transaction_succeeded then Inr None
      else if emitting_program_id \<noteq> wp_program_id plan then Inl (PumpSwapDecodeError ''emitting_program_id_mismatch'')
      else bindR (swap_payload_of_line refuse log_line) (\<lambda>payload.
           bindR (decode_trade_payload sha plan payload) (\<lambda>e. Inr (Some e))))"

text \<open>The reserves a projection may report: none is rounded or cut.\<close>

definition effective_quote_reserves :: "int \<Rightarrow> int \<Rightarrow> int res" where
  "effective_quote_reserves raw_quote virtual_quote =
     (if \<not> (0 \<le> raw_quote \<and> raw_quote \<le> U64_MAX) then Inl (PumpSwapProjectionError ''raw_quote_reserve_out_of_range'')
      else if \<not> (I128_MIN \<le> virtual_quote \<and> virtual_quote \<le> I128_MAX)
      then Inl (PumpSwapProjectionError ''virtual_quote_reserve_out_of_range'')
      else let effective = raw_quote + virtual_quote in
        if \<not> (0 \<le> effective \<and> effective \<le> U64_MAX)
        then Inl (PumpSwapProjectionError ''effective_quote_reserve_not_representable'') else Inr effective)"

subsection \<open>The pinned layouts\<close>

definition SWAP_DISCRIMINATORS :: "(string \<times> nat list) list" where
  "SWAP_DISCRIMINATORS =
     [(''Pool'', [241, 154, 109, 4, 17, 177, 109, 188]), (''BuyEvent'', [103, 244, 82, 31, 44, 245, 119, 119]),
      (''SellEvent'', [62, 47, 55, 10, 165, 3, 220, 42])]"

definition SWAP_FIELDS :: "(string \<times> (string \<times> swap_type) list) list" where
  "SWAP_FIELDS =
     [(''Pool'',
        [(''pool_bump'', SU8), (''index'', SU16), (''creator'', SPubkey), (''base_mint'', SPubkey), (''quote_mint'', SPubkey),
         (''lp_mint'', SPubkey), (''pool_base_token_account'', SPubkey), (''pool_quote_token_account'', SPubkey),
         (''lp_supply'', SU64), (''coin_creator'', SPubkey), (''is_mayhem_mode'', SBool), (''is_cashback_coin'', SBool),
         (''virtual_quote_reserves'', SI128)]),
      (''BuyEvent'',
        [(''timestamp'', SI64), (''base_amount_out'', SU64), (''max_quote_amount_in'', SU64),
         (''user_base_token_reserves'', SU64), (''user_quote_token_reserves'', SU64), (''pool_base_token_reserves'', SU64),
         (''pool_quote_token_reserves'', SU64), (''quote_amount_in'', SU64), (''lp_fee_basis_points'', SU64), (''lp_fee'', SU64),
         (''protocol_fee_basis_points'', SU64), (''protocol_fee'', SU64), (''quote_amount_in_with_lp_fee'', SU64),
         (''user_quote_amount_in'', SU64), (''pool'', SPubkey), (''user'', SPubkey), (''user_base_token_account'', SPubkey),
         (''user_quote_token_account'', SPubkey), (''protocol_fee_recipient'', SPubkey),
         (''protocol_fee_recipient_token_account'', SPubkey), (''coin_creator'', SPubkey),
         (''coin_creator_fee_basis_points'', SU64), (''coin_creator_fee'', SU64), (''track_volume'', SBool),
         (''total_unclaimed_tokens'', SU64), (''total_claimed_tokens'', SU64), (''current_sol_volume'', SU64),
         (''last_update_timestamp'', SI64), (''min_base_amount_out'', SU64), (''ix_name'', SString),
         (''cashback_fee_basis_points'', SU64), (''cashback'', SU64), (''buyback_fee_basis_points'', SU64),
         (''buyback_fee'', SU64), (''virtual_quote_reserves'', SI128), (''can_boost'', SBool), (''base_supply'', SU64)]),
      (''SellEvent'',
        [(''timestamp'', SI64), (''base_amount_in'', SU64), (''min_quote_amount_out'', SU64),
         (''user_base_token_reserves'', SU64), (''user_quote_token_reserves'', SU64), (''pool_base_token_reserves'', SU64),
         (''pool_quote_token_reserves'', SU64), (''quote_amount_out'', SU64), (''lp_fee_basis_points'', SU64), (''lp_fee'', SU64),
         (''protocol_fee_basis_points'', SU64), (''protocol_fee'', SU64), (''quote_amount_out_without_lp_fee'', SU64),
         (''user_quote_amount_out'', SU64), (''pool'', SPubkey), (''user'', SPubkey), (''user_base_token_account'', SPubkey),
         (''user_quote_token_account'', SPubkey), (''protocol_fee_recipient'', SPubkey),
         (''protocol_fee_recipient_token_account'', SPubkey), (''coin_creator'', SPubkey),
         (''coin_creator_fee_basis_points'', SU64), (''coin_creator_fee'', SU64), (''cashback_fee_basis_points'', SU64),
         (''cashback'', SU64), (''buyback_fee_basis_points'', SU64), (''buyback_fee'', SU64),
         (''virtual_quote_reserves'', SI128), (''can_boost'', SBool), (''base_supply'', SU64)])]"

subsection \<open>Compiling the subset\<close>

definition SWAP_PRIMITIVES :: "(string \<times> swap_type) list" where
  "SWAP_PRIMITIVES = [(''bool'', SBool), (''i64'', SI64), (''i128'', SI128), (''pubkey'', SPubkey), (''string'', SString),
     (''u8'', SU8), (''u16'', SU16), (''u64'', SU64)]"

definition swap_compile_field :: "string \<Rightarrow> jval \<Rightarrow> swap_field res" where
  "swap_compile_field name v =
     bindR (as_mapping PumpSwapContractError name v) (\<lambda>d.
     bindR (exact PumpSwapContractError (name @ ''_keys'') (fmdom d = {|''name'', ''type''|})) (\<lambda>_.
     bindR (as_text PumpSwapContractError (name @ ''_type'') (jget d ''type'')) (\<lambda>t.
     case map_of SWAP_PRIMITIVES t of
       None \<Rightarrow> Inl (PumpSwapContractError (name @ ''_unsupported_type:'' @ t))
     | Some p \<Rightarrow> bindR (as_text PumpSwapContractError (name @ ''_name'') (jget d ''name'')) (\<lambda>n. Inr (fld (n, p))))))"

definition swap_compile_fields :: "string \<Rightarrow> jval \<Rightarrow> swap_field list res" where
  "swap_compile_fields name v =
     bindR (as_sequence PumpSwapContractError name v) (\<lambda>rows.
     bindR (enumerated (\<lambda>i. swap_compile_field (name @ ''_'' @ digits_of i)) 0 rows) (\<lambda>fields.
       if \<not> distinct (map fs_name fields) then Inl (PumpSwapContractError (name @ ''_duplicate_field'')) else Inr fields))"

definition compile_layout :: "string \<Rightarrow> jval \<Rightarrow> layout_schema res" where
  "compile_layout name v =
     bindR (as_mapping PumpSwapContractError name v) (\<lambda>row.
     bindR (exact PumpSwapContractError (name @ ''_keys'') (fmdom row = {|''name'', ''discriminator'', ''fields''|})) (\<lambda>_.
     bindR (as_text PumpSwapContractError (name @ ''_name'') (jget row ''name'')) (\<lambda>layout.
       if map_of SWAP_DISCRIMINATORS layout = None then Inl (PumpSwapContractError (''unexpected_layout:'' @ layout))
       else
         bindR (compile_discriminator PumpSwapContractError (layout @ ''_discriminator'')
                  (the (map_of SWAP_DISCRIMINATORS layout)) (jget row ''discriminator'')) (\<lambda>d.
         bindR (swap_compile_fields (layout @ ''_fields'') (jget row ''fields'')) (\<lambda>fields.
         bindR (exact PumpSwapContractError (layout @ ''_field_layout'') (map pair_of fields = the (map_of SWAP_FIELDS layout))) (\<lambda>_.
           Inr \<lparr>ly_name = layout, ly_discriminator = d, ly_fields = fields\<rparr>))))))"

definition swap_source :: dict where
  "swap_source = dict_of
     [(''repository'', JStr ''pump-fun/pump-public-docs''), (''commit'', JStr PUMPSWAP_IDL_COMMIT),
      (''path'', JStr ''idl/pump_amm.json''), (''git_blob_sha1'', JStr ''a654b6f924c8e5458ba9b38c9e13a3980f5e9518''),
      (''content_sha256'', JStr PUMPSWAP_IDL_SHA256), (''retrieval_mode'', JStr ''GIT_LS_REMOTE_AND_RAW_READ_ONLY'')]"

definition compile_accounts :: "jval \<Rightarrow> layout_schema res" where
  "compile_accounts v =
     bindR (as_sequence PumpSwapContractError ''accounts'' v) (\<lambda>accounts.
     bindR (exact PumpSwapContractError ''account_count'' (length accounts = 1)) (\<lambda>_.
     bindR (compile_layout ''account_0'' (hd accounts)) (\<lambda>pool.
     bindR (exact PumpSwapContractError ''account_inventory'' (ly_name pool = ''Pool'')) (\<lambda>_. Inr pool))))"

definition compile_pumpswap_idl_subset :: "string \<Rightarrow> jval \<Rightarrow> swap_plan res" where
  "compile_pumpswap_idl_subset fixture_sha256 document =
     bindR (as_mapping PumpSwapContractError ''pumpswap_subset'' document) (\<lambda>root.
     bindR (exact PumpSwapContractError ''top_level_keys'' (fmdom root = {|''schema'', ''schema_version'', ''as_of'', ''status'',
              ''source'', ''program_id'', ''accounts'', ''events''|})) (\<lambda>_.
     bindR (exact PumpSwapContractError ''schema'' (jget root ''schema'' = JStr ''solana_alpha_lab.pumpswap_idl_subset'')) (\<lambda>_.
     bindR (exact PumpSwapContractError ''schema_version'' (jget root ''schema_version'' = JStr ''1.0'')) (\<lambda>_.
     bindR (exact PumpSwapContractError ''as_of'' (jget root ''as_of'' = JStr ''2026-07-27'')) (\<lambda>_.
     bindR (exact PumpSwapContractError ''status'' (jget root ''status'' = JStr ''PINNED_OFFICIAL_SUBSET'')) (\<lambda>_.
     bindR (exact PumpSwapContractError ''source'' (jget root ''source'' = JObj swap_source)) (\<lambda>_.
     bindR (exact PumpSwapContractError ''program_id'' (jget root ''program_id'' = JStr PUMPSWAP_PROGRAM_ID)) (\<lambda>_.
     bindR (compile_accounts (jget root ''accounts'')) (\<lambda>pool.
     bindR (as_sequence PumpSwapContractError ''events'' (jget root ''events'')) (\<lambda>rows.
     bindR (enumerated (\<lambda>i. compile_layout (''event_'' @ digits_of i)) 0 rows) (\<lambda>events.
     bindR (exact PumpSwapContractError ''event_inventory'' (map ly_name events = [''BuyEvent'', ''SellEvent''])) (\<lambda>_.
       if \<not> distinct (map ly_discriminator events) then Inl (PumpSwapContractError ''event_discriminator_collision'')
       else Inr \<lparr>wp_fixture_sha256 = fixture_sha256, wp_source_commit = PUMPSWAP_IDL_COMMIT,
                 wp_source_sha256 = PUMPSWAP_IDL_SHA256, wp_program_id = PUMPSWAP_PROGRAM_ID,
                 wp_pool = pool, wp_events = events\<rparr>))))))))))))"

end
