(* ===== verification/HashText.thy ===== *)
theory HashText
  imports PyBytes
begin

section \<open>The text behind a stable hash\<close>

text \<open>
  \<open>_stable_hash\<close> of \<open>pumpswap_touch_decoder.py\<close>: the JSON text of a tuple of texts, numbers and missing values,
  as \<open>json.dumps(parts, ensure_ascii=False, separators=(",", ":"))\<close> writes it, encoded in UTF-8 and hashed.
  The hash is a parameter. What is proved is that two tuples never have the same bytes.
\<close>

datatype hash_part = PText ustr | PNumber int | PNone

text \<open>The escapes of \<open>py_encode_basestring\<close>: two characters for a quote, a backslash and five controls, four
  hexadecimal digits for every other control.\<close>

definition hex_digit :: "nat \<Rightarrow> nat" where
  "hex_digit d = (if d < 10 then 48 + d else 87 + d)"

definition json_escape :: "nat \<Rightarrow> ustr" where
  "json_escape p =
     (if p = 34 then [92, 34] else if p = 92 then [92, 92]
      else if p = 8 then [92, 98] else if p = 12 then [92, 102] else if p = 10 then [92, 110]
      else if p = 13 then [92, 114] else if p = 9 then [92, 116]
      else if p < 32 then [92, 117, 48, 48, hex_digit (p div 16), hex_digit (p mod 16)]
      else [p])"

definition int_chars :: "int \<Rightarrow> ustr" where
  "int_chars i = ustr (dec_text (dec_of_int i))"

fun part_text :: "hash_part \<Rightarrow> ustr" where
  "part_text (PText t) = [34] @ concat (map json_escape t) @ [34]"
| "part_text (PNumber i) = int_chars i"
| "part_text PNone = ustr ''null''"

fun parts_text :: "hash_part list \<Rightarrow> ustr" where
  "parts_text [] = []"
| "parts_text [p] = part_text p"
| "parts_text (p # q # ps) = part_text p @ [44] @ parts_text (q # ps)"

definition stable_text :: "hash_part list \<Rightarrow> ustr" where
  "stable_text parts = [91] @ parts_text parts @ [93]"

definition stable_hash :: "(bytes \<Rightarrow> string) \<Rightarrow> hash_part list \<Rightarrow> string res" where
  "stable_hash sha parts =
     (if list_all scalar (stable_text parts) then Inr (sha (utf8_encode (stable_text parts))) else Inl PyUnicodeEncodeError)"

subsection \<open>Reading an escaped text back\<close>

definition hex_value :: "nat \<Rightarrow> nat" where
  "hex_value c = (if c < 58 then c - 48 else c - 87)"

definition unescape :: "ustr \<Rightarrow> (nat \<times> ustr) option" where
  "unescape t = (case t of [] \<Rightarrow> None
     | c # r \<Rightarrow> if c \<noteq> 92 then Some (c, r)
       else case r of [] \<Rightarrow> None
       | e # r' \<Rightarrow>
           if e = 117 then Some (16 * hex_value (r' ! 2) + hex_value (r' ! 3), drop 4 r')
           else Some (the (map_of [(34, 34), (92, 92), (98, 8), (102, 12), (110, 10), (114, 13), (116, 9)] e), r'))"

lemma hex_value_digit: "d < 16 \<Longrightarrow> hex_value (hex_digit d) = d"
  by (simp add: hex_value_def hex_digit_def)

lemma unescape_escape: "unescape (json_escape p @ r) = Some (p, r)"
  by (simp add: json_escape_def unescape_def hex_value_digit less_mult_imp_div_less)

lemma escape_head: "\<exists>c r. json_escape p = c # r \<and> c \<noteq> 34"
  by (simp add: json_escape_def)

lemma escaped_inject:
  "concat (map json_escape s) @ 34 # a = concat (map json_escape t) @ 34 # b \<Longrightarrow> s = t \<and> a = b"
proof (induction s arbitrary: t)
  case Nil
  show ?case
  proof (cases t)
    case (Cons q u)
    obtain c r where "json_escape q = c # r" "c \<noteq> 34" using escape_head by blast
    then show ?thesis using Nil Cons by simp
  qed (use Nil in simp)
next
  case (Cons p s)
  show ?case
  proof (cases t)
    case Nil
    then show ?thesis using Cons.prems escape_head [of p] by auto
  next
    case (Cons q u)
    have "unescape (json_escape p @ concat (map json_escape s) @ 34 # a)
        = unescape (json_escape q @ concat (map json_escape u) @ 34 # b)"
      using Cons.prems Cons by simp
    then show ?thesis using Cons.IH [of u] Cons by (simp add: unescape_escape)
  qed
qed

subsection \<open>Two tuples never have one text\<close>

lemma dec_text_int: "dec_text (dec_of_int i) = sign_text (i < 0) @ digits_of (nat \<bar>i\<bar>)"
  by (simp add: dec_of_int_def)

lemma is_digit_code: "is_digit c \<Longrightarrow> 48 \<le> (of_char c :: nat) \<and> (of_char c :: nat) < 58"
  by (auto simp: is_digit_def)

lemma int_chars_inject: "int_chars i = int_chars j \<Longrightarrow> i = j"
proof -
  assume "int_chars i = int_chars j"
  then have e: "sign_text (i < 0) @ digits_of (nat \<bar>i\<bar>) = sign_text (j < 0) @ digits_of (nat \<bar>j\<bar>)"
    by (simp only: int_chars_def dec_text_int ustr_inject)
  have n: "CHR ''-'' \<notin> set (digits_of n)" for n using digits_of_digits [of n] by (auto simp: is_digit_def)
  have h: "digits_of n \<noteq> CHR ''-'' # r" "CHR ''-'' # r \<noteq> digits_of n" for n r using n [of n] by (metis list.set_intros(1))+
  then have "(i < 0) = (j < 0)" "digits_of (nat \<bar>i\<bar>) = digits_of (nat \<bar>j\<bar>)"
    using e h by (auto simp: sign_text_def split: if_splits)
  then show "i = j" using digits_of_val by (metis abs_of_neg abs_of_nonneg linorder_not_less nat_0_le neg_equal_iff_equal abs_ge_zero)
qed

lemma int_chars_codes: "c \<in> set (int_chars i) \<Longrightarrow> c = 45 \<or> (48 \<le> c \<and> c < 58)"
  using digits_of_digits is_digit_code
  by (auto simp: int_chars_def dec_text_int ustr_def sign_text_def split: if_splits)

lemma int_chars_not_Nil: "int_chars i \<noteq> []"
  using digits_of_not_Nil by (simp add: int_chars_def dec_text_int ustr_def)

lemma until_terminator:
  assumes "\<forall>c\<in>set s. c \<noteq> 44 \<and> c \<noteq> 93" and "\<forall>c\<in>set t. c \<noteq> 44 \<and> c \<noteq> (93 :: nat)"
    and "a \<noteq> []" "hd a \<in> {44, 93}" "b \<noteq> []" "hd b \<in> {44, 93}" and "s @ a = t @ b"
  shows "s = t \<and> a = b"
proof -
  have stop: "takeWhile (\<lambda>c. c \<noteq> 44 \<and> c \<noteq> 93) (u @ x) = u" if "\<forall>c\<in>set u. c \<noteq> 44 \<and> c \<noteq> 93" "x \<noteq> []" "hd x \<in> {44, 93}"
    for u x :: "nat list"
    using that by (cases x) (auto simp: takeWhile_append2)
  have "s = t" using stop [OF assms(1,3,4)] stop [OF assms(2,5,6)] assms(7) by simp
  then show ?thesis using assms(7) by simp
qed

lemma part_inject:
  assumes "a \<noteq> []" "hd a \<in> {44, 93}" "b \<noteq> []" "hd b \<in> {44, 93}" and "part_text p @ a = part_text q @ b"
  shows "p = q \<and> a = b"
proof -
  have text_first: "hd (part_text (PText t) @ x) = 34" for t x by simp
  have other_first: "hd (part_text r @ x) \<noteq> 34 \<and> (\<forall>c\<in>set (part_text r). c \<noteq> 44 \<and> c \<noteq> 93)" if "\<forall>t. r \<noteq> PText t" for r x
  proof (cases r)
    case (PNumber i)
    then show ?thesis using int_chars_codes [of _ i] hd_in_set [OF int_chars_not_Nil [of i]] int_chars_not_Nil [of i] by fastforce
  qed (use that in auto)
  show ?thesis
  proof (cases "(\<exists>t. p = PText t) \<or> (\<exists>t. q = PText t)")
    case True
    then obtain s t where "p = PText s" "q = PText t" using assms(5) text_first other_first by metis
    then show ?thesis using assms(5) escaped_inject [of s a t b] by simp
  next
    case False
    then have "part_text p = part_text q \<and> a = b"
      using until_terminator [OF _ _ assms] other_first by metis
    moreover have "int_chars i \<noteq> ustr ''null''" for i
      using int_chars_codes [of 110 i] by (auto dest: arg_cong [where f = set])
    ultimately show ?thesis using False int_chars_inject by (cases p; cases q) (auto dest: sym)
  qed
qed

lemma parts_inject: "parts_text ps @ [93] = parts_text qs @ [93] \<Longrightarrow> ps = qs"
proof (induction ps arbitrary: qs rule: parts_text.induct)
  case 1
  show ?case
  proof (cases qs rule: parts_text.cases)
    case (2 q)
    have "part_text q \<noteq> []" using int_chars_not_Nil by (cases q) auto
    then show ?thesis using 1 2 by simp
  qed (use 1 in auto)
next
  case (2 p)
  show ?case
  proof (cases qs rule: parts_text.cases)
    case 1
    have "part_text p \<noteq> []" using int_chars_not_Nil by (cases p) auto
    then show ?thesis using 2 1 by simp
  next
    case (3 q r rs)
    then show ?thesis using part_inject [of "[93]" "44 # parts_text (r # rs) @ [93]" p q] 2 by simp
  qed (use 2 part_inject [of "[93]" "[93]" p] in auto)
next
  case (3 p q ps)
  show ?case
  proof (cases qs rule: parts_text.cases)
    case (2 r)
    then show ?thesis using part_inject [of "44 # parts_text (q # ps) @ [93]" "[93]" p r] "3.prems" by simp
  next
    case (3 r s rs)
    then show ?thesis using part_inject [of "44 # parts_text (q # ps) @ [93]" "44 # parts_text (s # rs) @ [93]" p r]
      "3.prems" "3.IH" [of "s # rs"] by simp
  qed (use "3.prems" in auto)
qed

lemma stable_text_inject: "stable_text ps = stable_text qs \<longleftrightarrow> ps = qs"
  using parts_inject by (auto simp: stable_text_def)

lemma stable_bytes_inject:
  assumes "list_all scalar (stable_text ps)" and "list_all scalar (stable_text qs)"
  shows "utf8_encode (stable_text ps) = utf8_encode (stable_text qs) \<longleftrightarrow> ps = qs"
  using utf8_decode_encode assms stable_text_inject by (metis list_all_iff option.inject)

subsection \<open>When the text can be encoded\<close>

definition part_scalar :: "hash_part \<Rightarrow> bool" where
  "part_scalar p = (case p of PText t \<Rightarrow> list_all scalar t | _ \<Rightarrow> True)"

lemma small_scalar: "p < 55296 \<Longrightarrow> scalar p"
  by (simp add: scalar_def)

lemma ustr_scalar: "list_all scalar (ustr t)"
  by (auto simp: list_all_iff ustr_def intro!: small_scalar less_trans [OF nat_of_char_less_256])

lemma escape_scalar: "list_all scalar (json_escape p) \<longleftrightarrow> scalar p"
  by (auto simp: json_escape_def scalar_def hex_digit_def)

lemma part_text_scalar: "list_all scalar (part_text p) \<longleftrightarrow> part_scalar p"
proof (cases p)
  case (PText t)
  have "list_all scalar (concat (map json_escape t)) \<longleftrightarrow> list_all scalar t"
    by (induction t) (simp_all add: escape_scalar)
  then show ?thesis using PText by (simp add: part_scalar_def small_scalar)
next
  case (PNumber i)
  then show ?thesis using int_chars_codes [of _ i] by (fastforce simp: part_scalar_def list_all_iff scalar_def)
qed (use ustr_scalar [of "''null''"] in \<open>simp add: part_scalar_def\<close>)

lemma stable_text_scalar: "list_all scalar (stable_text ps) \<longleftrightarrow> list_all part_scalar ps"
proof -
  have "list_all scalar (parts_text ps) \<longleftrightarrow> list_all part_scalar ps"
    by (induction ps rule: parts_text.induct) (simp_all add: part_text_scalar small_scalar)
  then show ?thesis by (simp add: stable_text_def small_scalar)
qed

lemma stable_hash_simp:
  "list_all part_scalar ps \<Longrightarrow> stable_hash sha ps = Inr (sha (utf8_encode (stable_text ps)))"
  by (simp add: stable_hash_def stable_text_scalar)

lemma stable_hash_eq_Inr:
  "stable_hash sha ps = Inr d \<longleftrightarrow> list_all part_scalar ps \<and> d = sha (utf8_encode (stable_text ps))"
  by (auto simp: stable_hash_def stable_text_scalar)

end
