(* ===== verification/PumpTouch.thy ===== *)
theory PumpTouch
  imports PumpSwap HashText
begin

section \<open>Projecting what was decoded\<close>

text \<open>
  The second half of \<open>pumpswap_touch_decoder.py\<close>: a decoded pool account or trade becomes rows of the canonical
  schema. The rows and the validators that run when one is built are those of \<open>contracts/schema_v1.py\<close>. An
  instant is a number of microseconds since the epoch.
\<close>

subsection \<open>Times\<close>

datatype py_datetime = Naive int | Aware int

definition MIN_SECOND :: int where
  "MIN_SECOND = - 62135596800"

definition MAX_SECOND :: int where
  "MAX_SECOND = 253402300799"

text \<open>\<open>datetime\<close> holds the years 1 to 9999.\<close>

definition representable :: "int \<Rightarrow> bool" where
  "representable i = (MIN_SECOND * 1000000 \<le> i \<and> i < (MAX_SECOND + 1) * 1000000)"

definition as_utc :: "string \<Rightarrow> py_datetime \<Rightarrow> int res" where
  "as_utc name value = (case value of Naive _ \<Rightarrow> Inl (PumpSwapProjectionError (name @ ''_must_be_timezone_aware''))
     | Aware i \<Rightarrow> if representable i then Inr i else Inl PyOverflowError)"

record touch_times =
  tt_event :: int
  tt_observed :: int
  tt_reliable :: int
  tt_available :: int
  tt_ingested :: int

definition validate_time_order ::
  "py_datetime \<Rightarrow> py_datetime \<Rightarrow> py_datetime \<Rightarrow> py_datetime \<Rightarrow> py_datetime \<Rightarrow> touch_times res" where
  "validate_time_order event_time observed_at reliable_at available_at ingested_at =
     bindR (as_utc ''event_time'' event_time) (\<lambda>e.
     bindR (as_utc ''observed_at'' observed_at) (\<lambda>obs.
     bindR (as_utc ''first_reliable_available_at'' reliable_at) (\<lambda>r.
     bindR (as_utc ''available_at'' available_at) (\<lambda>a.
     bindR (as_utc ''ingested_at'' ingested_at) (\<lambda>i.
       let values = [e, obs, r, a, i] in
       if sort values \<noteq> values then Inl (PumpSwapProjectionError ''timestamp_order_invalid'')
       else Inr \<lparr>tt_event = e, tt_observed = obs, tt_reliable = r, tt_available = a, tt_ingested = i\<rparr>)))))"

definition from_timestamp :: "int \<Rightarrow> py_datetime res" where
  "from_timestamp s = (if MIN_SECOND \<le> s \<and> s \<le> MAX_SECOND then Inr (Aware (s * 1000000))
     else Inl (PumpSwapProjectionError ''event_timestamp_out_of_range''))"

subsection \<open>Rows of the canonical schema\<close>

definition hash64 :: "string \<Rightarrow> bool" where
  "hash64 t = (length t = 64 \<and> list_all (\<lambda>c. c \<in> set ''0123456789abcdef'') t)"

definition require :: "bool \<Rightarrow> string \<Rightarrow> unit res" where
  "require condition message = guardR condition (ValidationError message)"

definition validate_revision :: "ustr \<Rightarrow> int \<Rightarrow> ustr option \<Rightarrow> unit res" where
  "validate_revision row_id number of_row =
     bindR (require (number \<ge> 1) ''revision_number_must_be_positive'') (\<lambda>_.
       require (of_row = None \<or> of_row \<noteq> Some row_id) ''revision_self_reference'')"

definition validate_availability :: "int \<Rightarrow> int \<Rightarrow> unit res" where
  "validate_availability reliable available =
     require (reliable \<le> available) ''first_reliable_availability_after_strategy_availability''"

definition decimals_ok :: "int \<Rightarrow> bool" where
  "decimals_ok d = (0 \<le> d \<and> d \<le> 30)"

record observation =
  ob_id :: ustr
  ob_idempotency_key :: string
  ob_business_key :: ustr
  ob_entity_type :: string
  ob_entity_id :: ustr
  ob_type :: string
  ob_value_decimal :: "decimal option"
  ob_value_atomic :: "int option"
  ob_unit :: ustr
  ob_amount_mint :: "ustr option"
  ob_amount_decimals :: "int option"
  ob_times :: touch_times
  ob_source :: ustr
  ob_source_version :: ustr
  ob_schema_version :: string
  ob_revision_number :: int
  ob_revision_of :: "ustr option"
  ob_raw_event_id :: ustr
  ob_content_sha256 :: string
  ob_quality_flags :: string

definition validated_observation :: "observation \<Rightarrow> observation res" where
  "validated_observation x =
     bindR (require ((\<forall>v\<in>set_option (ob_value_atomic x). 0 \<le> v) \<and> (\<forall>d\<in>set_option (ob_amount_decimals x). decimals_ok d)
              \<and> ob_revision_number x > 0 \<and> hash64 (ob_content_sha256 x)) ''CanonicalObservation'') (\<lambda>_.
     bindR (require (ob_id x \<noteq> []) ''observation_id_empty'') (\<lambda>_.
     bindR (require (ob_idempotency_key x \<noteq> []) ''idempotency_key_empty'') (\<lambda>_.
     bindR (require (ob_business_key x \<noteq> []) ''business_key_empty'') (\<lambda>_.
     bindR (validate_revision (ob_id x) (ob_revision_number x) (ob_revision_of x)) (\<lambda>_.
     bindR (validate_availability (tt_reliable (ob_times x)) (tt_available (ob_times x))) (\<lambda>_.
     bindR (if ob_value_atomic x = None
            then require (ob_amount_mint x = None \<and> ob_amount_decimals x = None) ''missing_atomic_amount_requires_missing_provenance''
            else require (ob_amount_mint x \<noteq> None \<and> ob_amount_decimals x \<noteq> None) ''atomic_amount_requires_mint_and_decimals'') (\<lambda>_.
       Inr x)))))))"

record pool_snapshot =
  sn_id :: ustr
  sn_idempotency_key :: string
  sn_business_key :: ustr
  sn_pool_id :: ustr
  sn_base_mint :: ustr
  sn_quote_mint :: ustr
  sn_base_decimals :: int
  sn_quote_decimals :: int
  sn_base_reserve_atomic :: int
  sn_quote_reserve_atomic :: int
  sn_context_slot :: int
  sn_times :: touch_times
  sn_source :: ustr
  sn_source_version :: ustr
  sn_schema_version :: string
  sn_revision_number :: int
  sn_revision_of :: "ustr option"
  sn_raw_event_id :: ustr
  sn_content_sha256 :: string
  sn_quality_flags :: string

definition validated_snapshot :: "pool_snapshot \<Rightarrow> pool_snapshot res" where
  "validated_snapshot x =
     bindR (require (decimals_ok (sn_base_decimals x) \<and> decimals_ok (sn_quote_decimals x) \<and> 0 \<le> sn_base_reserve_atomic x
              \<and> 0 \<le> sn_quote_reserve_atomic x \<and> 0 \<le> sn_context_slot x \<and> sn_revision_number x > 0
              \<and> hash64 (sn_content_sha256 x)) ''PoolStateSnapshot'') (\<lambda>_.
     bindR (require (sn_base_mint x \<noteq> sn_quote_mint x) ''pool_mints_must_differ'') (\<lambda>_.
     bindR (validate_revision (sn_id x) (sn_revision_number x) (sn_revision_of x)) (\<lambda>_.
     bindR (validate_availability (tt_reliable (sn_times x)) (tt_available (sn_times x))) (\<lambda>_. Inr x))))"

record trade_input =
  ti_id :: ustr
  ti_idempotency_key :: string
  ti_business_key :: ustr
  ti_pool_id :: ustr
  ti_side :: trade_side
  ti_input_mint :: ustr
  ti_input_amount_atomic :: int
  ti_input_decimals :: int
  ti_output_mint :: ustr
  ti_output_amount_atomic :: int
  ti_output_decimals :: int
  ti_trader_entity_id :: ustr
  ti_transaction_signature :: ustr
  ti_context_slot :: int
  ti_times :: touch_times
  ti_source :: ustr
  ti_source_version :: ustr
  ti_schema_version :: string
  ti_revision_number :: int
  ti_revision_of :: "ustr option"
  ti_raw_event_id :: ustr
  ti_content_sha256 :: string
  ti_quality_flags :: string

definition validated_trade :: "trade_input \<Rightarrow> trade_input res" where
  "validated_trade x =
     bindR (require (0 \<le> ti_input_amount_atomic x \<and> decimals_ok (ti_input_decimals x) \<and> 0 \<le> ti_output_amount_atomic x
              \<and> decimals_ok (ti_output_decimals x) \<and> 0 \<le> ti_context_slot x \<and> ti_revision_number x > 0
              \<and> hash64 (ti_content_sha256 x)) ''TradeOrderflowInput'') (\<lambda>_.
     bindR (require (ti_input_mint x \<noteq> ti_output_mint x) ''trade_mints_must_differ'') (\<lambda>_.
     bindR (validate_revision (ti_id x) (ti_revision_number x) (ti_revision_of x)) (\<lambda>_.
     bindR (validate_availability (tt_reliable (ti_times x)) (tt_available (ti_times x))) (\<lambda>_. Inr x))))"

subsection \<open>Building rows\<close>

text \<open>What every row of one projection shares.\<close>

record touch_frame =
  fr_identity :: string
  fr_pool_id :: ustr
  fr_times :: touch_times
  fr_source :: ustr
  fr_source_version :: ustr
  fr_raw_event_id :: ustr
  fr_quality_flags :: string

definition colon_joined :: "ustr list \<Rightarrow> ustr" where
  "colon_joined ts = (case ts of [] \<Rightarrow> [] | t # us \<Rightarrow> t @ concat (map (\<lambda>u. ustr '':'' @ u) us))"

definition text_part :: "string \<Rightarrow> hash_part" where
  "text_part t = PText (ustr t)"

definition observation_row ::
  "(bytes \<Rightarrow> string) \<Rightarrow> touch_frame \<Rightarrow> string \<Rightarrow> decimal option \<Rightarrow> int option \<Rightarrow> ustr \<Rightarrow> ustr option \<Rightarrow> int option
     \<Rightarrow> observation res" where
  "observation_row sha fr type value_decimal value_atomic unit amount_mint amount_decimals =
     bindR (stable_hash sha [text_part (fr_identity fr), text_part type]) (\<lambda>digest.
     bindR (stable_hash sha [text_part (fr_identity fr), text_part type,
              (case value_decimal of None \<Rightarrow> PNone | Some d \<Rightarrow> text_part (dec_text d)),
              (case value_atomic of None \<Rightarrow> PNone | Some i \<Rightarrow> PNumber i), PText unit]) (\<lambda>content.
       validated_observation
         \<lparr>ob_id = ustr ''obs-t09-'' @ ustr digest, ob_idempotency_key = digest,
          ob_business_key = colon_joined [fr_pool_id fr, ustr type, ustr (fr_identity fr)],
          ob_entity_type = ''PUMPSWAP_POOL'', ob_entity_id = fr_pool_id fr, ob_type = type,
          ob_value_decimal = value_decimal, ob_value_atomic = value_atomic, ob_unit = unit,
          ob_amount_mint = amount_mint, ob_amount_decimals = amount_decimals, ob_times = fr_times fr,
          ob_source = fr_source fr, ob_source_version = fr_source_version fr, ob_schema_version = ''1.0'',
          ob_revision_number = 1, ob_revision_of = None, ob_raw_event_id = fr_raw_event_id fr,
          ob_content_sha256 = content, ob_quality_flags = fr_quality_flags fr\<rparr>))"

definition snapshot_row ::
  "(bytes \<Rightarrow> string) \<Rightarrow> touch_frame \<Rightarrow> ustr \<Rightarrow> ustr \<Rightarrow> int \<Rightarrow> int \<Rightarrow> int \<Rightarrow> int \<Rightarrow> int \<Rightarrow> pool_snapshot res" where
  "snapshot_row sha fr base_mint quote_mint base_decimals quote_decimals base_reserve quote_reserve slot =
     bindR (stable_hash sha [text_part (fr_identity fr), text_part ''pool_state_snapshot'']) (\<lambda>digest.
     bindR (stable_hash sha [text_part (fr_identity fr), PNumber base_reserve, PNumber quote_reserve]) (\<lambda>content.
       validated_snapshot
         \<lparr>sn_id = ustr ''pool-snapshot-t09-'' @ ustr digest, sn_idempotency_key = digest,
          sn_business_key = colon_joined [fr_pool_id fr, int_chars slot, ustr (fr_identity fr)],
          sn_pool_id = fr_pool_id fr, sn_base_mint = base_mint, sn_quote_mint = quote_mint,
          sn_base_decimals = base_decimals, sn_quote_decimals = quote_decimals,
          sn_base_reserve_atomic = base_reserve, sn_quote_reserve_atomic = quote_reserve, sn_context_slot = slot,
          sn_times = fr_times fr, sn_source = fr_source fr, sn_source_version = fr_source_version fr,
          sn_schema_version = ''1.0'', sn_revision_number = 1, sn_revision_of = None,
          sn_raw_event_id = fr_raw_event_id fr, sn_content_sha256 = content, sn_quality_flags = fr_quality_flags fr\<rparr>))"

text \<open>The two observations on the quote reserves; both projections build them in the same way.\<close>

definition reserve_observations ::
  "(bytes \<Rightarrow> string) \<Rightarrow> touch_frame \<Rightarrow> ustr \<Rightarrow> int \<Rightarrow> int \<Rightarrow> int \<Rightarrow> observation list res" where
  "reserve_observations sha fr quote_mint quote_decimals virtual_reserves effective =
     bindR (observation_row sha fr ''virtual_quote_reserves_atomic'' (Some (dec_of_int virtual_reserves)) None
              (colon_joined [ustr ''signed_atomic'', quote_mint, int_chars quote_decimals]) None None) (\<lambda>v.
     bindR (observation_row sha fr ''effective_quote_reserves_atomic'' None (Some effective) (ustr ''atomic'')
              (Some quote_mint) (Some quote_decimals)) (\<lambda>e. Inr [v, e]))"

subsection \<open>A pool account\<close>

record pool_context =
  pc_raw_base_reserve :: int
  pc_raw_quote_reserve :: int
  pc_base_decimals :: int
  pc_quote_decimals :: int
  pc_context_slot :: int
  pc_event_time :: py_datetime
  pc_observed_at :: py_datetime
  pc_reliable_at :: py_datetime
  pc_available_at :: py_datetime
  pc_ingested_at :: py_datetime
  pc_raw_event_id :: ustr
  pc_source :: ustr
  pc_source_version :: ustr

record pool_touch =
  pt_snapshot :: pool_snapshot
  pt_observations :: "observation list"
  pt_labels :: "string list"

definition project_pool_touch :: "(bytes \<Rightarrow> string) \<Rightarrow> pool_account \<Rightarrow> pool_context \<Rightarrow> pool_touch res" where
  "project_pool_touch sha decoded c =
     bindR (validate_time_order (pc_event_time c) (pc_observed_at c) (pc_reliable_at c) (pc_available_at c) (pc_ingested_at c)) (\<lambda>times.
     bindR (required_int (pa_fields decoded) ''virtual_quote_reserves'') (\<lambda>v.
     bindR (effective_quote_reserves (pc_raw_quote_reserve c) v) (\<lambda>effective.
     bindR (stable_hash sha [text_part (pa_payload_sha256 decoded), PNumber (pc_context_slot c), PText (pc_raw_event_id c)]) (\<lambda>identity.
     bindR (required_int (pa_fields decoded) ''index'') (\<lambda>index.
     let fr = \<lparr>fr_identity = identity, fr_pool_id = pa_pubkey decoded, fr_times = times, fr_source = pc_source c,
               fr_source_version = pc_source_version c, fr_raw_event_id = pc_raw_event_id c,
               fr_quality_flags = (if index = 0 then ''TOUCH_ONLY;CANONICAL_INDEX_CANDIDATE'' else ''TOUCH_ONLY'')\<rparr> in
     bindR (required_text (pa_fields decoded) ''base_mint'') (\<lambda>base.
     bindR (required_text (pa_fields decoded) ''quote_mint'') (\<lambda>quote.
     bindR (snapshot_row sha fr base quote (pc_base_decimals c) (pc_quote_decimals c) (pc_raw_base_reserve c)
              (pc_raw_quote_reserve c) (pc_context_slot c)) (\<lambda>snapshot.
     bindR (reserve_observations sha fr quote (pc_quote_decimals c) v effective) (\<lambda>observations.
       Inr \<lparr>pt_snapshot = snapshot, pt_observations = observations,
            pt_labels = ''PUMPSWAP_OBSERVED'' # (if index = 0 then [''CANONICAL_INDEX_CANDIDATE''] else [])\<rparr>)))))))))"

subsection \<open>A trade\<close>

datatype fee_mode = BPS | ATOMIC

definition FEE_FIELDS :: "(string \<times> string \<times> fee_mode) list" where
  "FEE_FIELDS =
     [(''lp_fee_basis_points'', ''lp_fee_bps'', BPS), (''lp_fee'', ''lp_fee_atomic'', ATOMIC),
      (''protocol_fee_basis_points'', ''protocol_fee_bps'', BPS), (''protocol_fee'', ''protocol_fee_atomic'', ATOMIC),
      (''coin_creator_fee_basis_points'', ''coin_creator_fee_bps'', BPS),
      (''coin_creator_fee'', ''coin_creator_fee_atomic'', ATOMIC),
      (''cashback_fee_basis_points'', ''cashback_fee_bps'', BPS), (''cashback'', ''cashback_atomic'', ATOMIC),
      (''buyback_fee_basis_points'', ''buyback_fee_bps'', BPS), (''buyback_fee'', ''buyback_fee_atomic'', ATOMIC)]"

record trade_context =
  xc_base_decimals :: int
  xc_quote_decimals :: int
  xc_signature :: ustr
  xc_instruction_index :: int
  xc_event_index :: int
  xc_context_slot :: int
  xc_observed_at :: py_datetime
  xc_reliable_at :: py_datetime
  xc_available_at :: py_datetime
  xc_ingested_at :: py_datetime
  xc_raw_event_id :: ustr
  xc_source :: ustr
  xc_source_version :: ustr

record trade_touch =
  xt_snapshot :: pool_snapshot
  xt_trade :: trade_input
  xt_observations :: "observation list"
  xt_labels :: "string list"

text \<open>Which side pays what: mint, amount and decimals of input and output.\<close>

definition trade_amounts ::
  "trade_event \<Rightarrow> pool_account \<Rightarrow> trade_context \<Rightarrow> ((ustr \<times> int \<times> int) \<times> (ustr \<times> int \<times> int)) res" where
  "trade_amounts decoded pool c =
     (if te_side decoded = BUY then
        bindR (required_text (pa_fields pool) ''quote_mint'') (\<lambda>input_mint.
        bindR (required_int (te_fields decoded) ''user_quote_amount_in'') (\<lambda>input_amount.
        bindR (required_text (pa_fields pool) ''base_mint'') (\<lambda>output_mint.
        bindR (required_int (te_fields decoded) ''base_amount_out'') (\<lambda>output_amount.
          Inr ((input_mint, input_amount, xc_quote_decimals c), (output_mint, output_amount, xc_base_decimals c))))))
      else
        bindR (required_text (pa_fields pool) ''base_mint'') (\<lambda>input_mint.
        bindR (required_int (te_fields decoded) ''base_amount_in'') (\<lambda>input_amount.
        bindR (required_text (pa_fields pool) ''quote_mint'') (\<lambda>output_mint.
        bindR (required_int (te_fields decoded) ''user_quote_amount_out'') (\<lambda>output_amount.
          Inr ((input_mint, input_amount, xc_base_decimals c), (output_mint, output_amount, xc_quote_decimals c)))))))"

definition identity_parts :: "trade_event \<Rightarrow> trade_context \<Rightarrow> hash_part list" where
  "identity_parts decoded c = [text_part (te_payload_sha256 decoded), PText (xc_signature c), PNumber (xc_instruction_index c),
     PNumber (xc_event_index c), PNumber (xc_context_slot c)]"

definition trade_row ::
  "(bytes \<Rightarrow> string) \<Rightarrow> touch_frame \<Rightarrow> trade_event \<Rightarrow> trade_context \<Rightarrow> (ustr \<times> int \<times> int) \<times> (ustr \<times> int \<times> int) \<Rightarrow> trade_input res" where
  "trade_row sha fr decoded c amounts =
     (let ((input_mint, input_amount, input_decimals), (output_mint, output_amount, output_decimals)) = amounts in
      bindR (stable_hash sha [text_part (fr_identity fr), text_part ''trade_orderflow_input'']) (\<lambda>digest.
      bindR (required_text (te_fields decoded) ''user'') (\<lambda>user.
      bindR (stable_hash sha [text_part (fr_identity fr), PNumber input_amount, PNumber output_amount]) (\<lambda>content.
        validated_trade
          \<lparr>ti_id = ustr ''trade-input-t09-'' @ ustr digest, ti_idempotency_key = digest,
           ti_business_key = colon_joined [xc_signature c, int_chars (xc_instruction_index c), int_chars (xc_event_index c)],
           ti_pool_id = fr_pool_id fr, ti_side = te_side decoded, ti_input_mint = input_mint,
           ti_input_amount_atomic = input_amount, ti_input_decimals = input_decimals, ti_output_mint = output_mint,
           ti_output_amount_atomic = output_amount, ti_output_decimals = output_decimals, ti_trader_entity_id = user,
           ti_transaction_signature = xc_signature c, ti_context_slot = xc_context_slot c, ti_times = fr_times fr,
           ti_source = fr_source fr, ti_source_version = fr_source_version fr, ti_schema_version = ''1.0'',
           ti_revision_number = 1, ti_revision_of = None, ti_raw_event_id = fr_raw_event_id fr,
           ti_content_sha256 = content, ti_quality_flags = fr_quality_flags fr\<rparr>))))"

definition fee_observation ::
  "(bytes \<Rightarrow> string) \<Rightarrow> touch_frame \<Rightarrow> row \<Rightarrow> ustr \<Rightarrow> int \<Rightarrow> string \<times> string \<times> fee_mode \<Rightarrow> observation res" where
  "fee_observation sha fr d quote_mint quote_decimals fee =
     (let (source_field, type, mode) = fee in
      bindR (required_int d source_field) (\<lambda>value.
        if mode = BPS then observation_row sha fr type (Some (dec_of_int value)) None (ustr ''basis_points'') None None
        else observation_row sha fr type None (Some value) (ustr ''atomic'') (Some quote_mint) (Some quote_decimals)))"

text \<open>The rows, once everything is read.\<close>

definition trade_rows ::
  "(bytes \<Rightarrow> string) \<Rightarrow> touch_frame \<Rightarrow> trade_event \<Rightarrow> pool_account \<Rightarrow> trade_context \<Rightarrow> (ustr \<times> int \<times> int) \<times> (ustr \<times> int \<times> int)
     \<Rightarrow> int \<Rightarrow> int \<Rightarrow> int \<Rightarrow> int \<Rightarrow> trade_touch res" where
  "trade_rows sha fr decoded pool c amounts raw_base raw_quote v effective =
     bindR (required_text (pa_fields pool) ''base_mint'') (\<lambda>base.
     bindR (required_text (pa_fields pool) ''quote_mint'') (\<lambda>quote.
     bindR (snapshot_row sha fr base quote (xc_base_decimals c) (xc_quote_decimals c) raw_base raw_quote (xc_context_slot c)) (\<lambda>snapshot.
     bindR (trade_row sha fr decoded c amounts) (\<lambda>trade.
     bindR (reserve_observations sha fr quote (xc_quote_decimals c) v effective) (\<lambda>reserves.
     bindR (mapR (fee_observation sha fr (te_fields decoded) quote (xc_quote_decimals c)) FEE_FIELDS) (\<lambda>fees.
       Inr \<lparr>xt_snapshot = snapshot, xt_trade = trade, xt_observations = reserves @ fees,
            xt_labels = [''PUMPSWAP_OBSERVED'']\<rparr>))))))"

definition project_trade_touch ::
  "(bytes \<Rightarrow> string) \<Rightarrow> trade_event \<Rightarrow> pool_account \<Rightarrow> trade_context \<Rightarrow> trade_touch res" where
  "project_trade_touch sha decoded pool c =
     bindR (required_text (te_fields decoded) ''pool'') (\<lambda>pool_id.
     if pool_id \<noteq> pa_pubkey pool then Inl (PumpSwapProjectionError ''trade_pool_context_mismatch'')
     else
     bindR (required_int (te_fields decoded) ''timestamp'') (\<lambda>timestamp.
     bindR (from_timestamp timestamp) (\<lambda>event_time.
     bindR (validate_time_order event_time (xc_observed_at c) (xc_reliable_at c) (xc_available_at c) (xc_ingested_at c)) (\<lambda>times.
     bindR (required_int (te_fields decoded) ''pool_base_token_reserves'') (\<lambda>raw_base.
     bindR (required_int (te_fields decoded) ''pool_quote_token_reserves'') (\<lambda>raw_quote.
     bindR (required_int (te_fields decoded) ''virtual_quote_reserves'') (\<lambda>v.
     bindR (effective_quote_reserves raw_quote v) (\<lambda>effective.
     bindR (trade_amounts decoded pool c) (\<lambda>amounts.
     bindR (stable_hash sha (identity_parts decoded c)) (\<lambda>identity.
       trade_rows sha
         \<lparr>fr_identity = identity, fr_pool_id = pa_pubkey pool, fr_times = times, fr_source = xc_source c,
          fr_source_version = xc_source_version c, fr_raw_event_id = xc_raw_event_id c,
          fr_quality_flags = ''TOUCH_ONLY;OBSERVED_TRADE_NOT_OUR_FILL''\<rparr>
         decoded pool c amounts raw_base raw_quote v effective))))))))))"

end
