(* ===== verification/SwapClaims.thy ===== *)
theory SwapClaims
  imports PumpSwap
begin

section \<open>PumpSwap: the pinned subset, and what its decoder reads\<close>

text \<open>
  As for the Pump decoder: one document compiles, decoding is the inverse of a reference writer, and what is
  decoded is well typed. The checks of \<open>decode_pool_account\<close> are the only ones that can still refuse.
\<close>

fun swap_type_json :: "swap_type \<Rightarrow> jval" where
  "swap_type_json SBool = JStr ''bool''"
| "swap_type_json SI64 = JStr ''i64''"
| "swap_type_json SI128 = JStr ''i128''"
| "swap_type_json SPubkey = JStr ''pubkey''"
| "swap_type_json SString = JStr ''string''"
| "swap_type_json SU8 = JStr ''u8''"
| "swap_type_json SU16 = JStr ''u16''"
| "swap_type_json SU64 = JStr ''u64''"

definition swap_field_json :: "swap_field \<Rightarrow> jval" where
  "swap_field_json f = JObj (dict_of [(''name'', JStr (fs_name f)), (''type'', swap_type_json (fs_type f))])"

definition layout_json :: "layout_schema \<Rightarrow> jval" where
  "layout_json e = JObj (dict_of
     [(''name'', JStr (ly_name e)), (''discriminator'', JArr (map (\<lambda>b. JInt (int (unat b))) (ly_discriminator e))),
      (''fields'', JArr (map swap_field_json (ly_fields e)))])"

definition pinned_layout :: "string \<Rightarrow> layout_schema" where
  "pinned_layout n = \<lparr>ly_name = n, ly_discriminator = map byte (the (map_of SWAP_DISCRIMINATORS n)),
     ly_fields = map fld (the (map_of SWAP_FIELDS n))\<rparr>"

definition swap_names :: "string list" where
  "swap_names = map fst SWAP_FIELDS"

definition swap_plan_of :: "string \<Rightarrow> swap_plan" where
  "swap_plan_of fixture_sha256 = \<lparr>wp_fixture_sha256 = fixture_sha256, wp_source_commit = PUMPSWAP_IDL_COMMIT,
     wp_source_sha256 = PUMPSWAP_IDL_SHA256, wp_program_id = PUMPSWAP_PROGRAM_ID, wp_pool = pinned_layout ''Pool'',
     wp_events = [pinned_layout ''BuyEvent'', pinned_layout ''SellEvent'']\<rparr>"

definition swap_document :: jval where
  "swap_document = JObj (dict_of
     [(''schema'', JStr ''solana_alpha_lab.pumpswap_idl_subset''), (''schema_version'', JStr ''1.0''),
      (''as_of'', JStr ''2026-07-27''), (''status'', JStr ''PINNED_OFFICIAL_SUBSET''), (''source'', JObj swap_source),
      (''program_id'', JStr PUMPSWAP_PROGRAM_ID), (''accounts'', JArr [layout_json (pinned_layout ''Pool'')]),
      (''events'', JArr [layout_json (pinned_layout ''BuyEvent''), layout_json (pinned_layout ''SellEvent'')])])"

lemma pinned_layout_fields: "ly_name (pinned_layout n) = n"
  "ly_discriminator (pinned_layout n) = map byte (the (map_of SWAP_DISCRIMINATORS n))"
  "ly_fields (pinned_layout n) = map fld (the (map_of SWAP_FIELDS n))"
  by (simp_all add: pinned_layout_def)

lemma swap_names_simps: "set swap_names = {''Pool'', ''BuyEvent'', ''SellEvent''}"
  by (simp add: swap_names_def SWAP_FIELDS_def)

lemma swap_tables:
  "map fst SWAP_DISCRIMINATORS = swap_names"
  "list_all (\<lambda>n. n \<noteq> [] \<and> length (the (map_of SWAP_DISCRIMINATORS n)) = 8
     \<and> list_all (\<lambda>f. fs_name f \<noteq> []) (ly_fields (pinned_layout n)) \<and> distinct (map fs_name (ly_fields (pinned_layout n)))) swap_names"
  by code_simp+

lemma swap_table:
  assumes "n \<in> set swap_names"
  shows "n \<noteq> []" "length (the (map_of SWAP_DISCRIMINATORS n)) = 8" "list_all (\<lambda>f. fs_name f \<noteq> []) (ly_fields (pinned_layout n))"
    "distinct (map fs_name (ly_fields (pinned_layout n)))" "length (ly_discriminator (pinned_layout n)) = 8"
  using swap_tables(2) assms by (auto simp: list_all_iff pinned_layout_fields)

lemma swap_discriminators: "ly_discriminator (pinned_layout ''BuyEvent'') \<noteq> ly_discriminator (pinned_layout ''SellEvent'')"
  by (simp add: pinned_layout_def SWAP_DISCRIMINATORS_def byte_def)

subsection \<open>One document compiles\<close>

lemma swap_field_exact: "swap_compile_field name v = Inr f \<longleftrightarrow> v = swap_field_json f \<and> fs_name f \<noteq> []"
proof (cases v)
  case (JObj d)
  have fld: "fld (n, t) = f \<longleftrightarrow> n = fs_name f \<and> t = fs_type f" for n t by (cases f) (auto simp: fld_def)
  have prim: "(\<exists>x. w = JStr x \<and> x \<noteq> [] \<and> map_of SWAP_PRIMITIVES x = Some t) \<longleftrightarrow> w = swap_type_json t" for w t
  proof (cases w)
    case (JStr x)
    have "x \<noteq> [] \<and> map_of SWAP_PRIMITIVES x = Some t \<longleftrightarrow> JStr x = swap_type_json t"
      by (cases t) (auto simp: SWAP_PRIMITIVES_def)
    then show ?thesis by (simp add: JStr)
  qed (cases t; simp)+
  have "swap_compile_field name v = Inr f \<longleftrightarrow> fmdom d = {|''name'', ''type''|} \<and> jget d ''name'' = JStr (fs_name f)
      \<and> fs_name f \<noteq> [] \<and> (\<exists>x. jget d ''type'' = JStr x \<and> x \<noteq> [] \<and> map_of SWAP_PRIMITIVES x = Some (fs_type f))"
    unfolding JObj swap_compile_field_def compile_simps case_option_Inl_eq_Inr sum.inject fld jval.inject by metis
  also have "\<dots> \<longleftrightarrow> d = dict_of [(''name'', JStr (fs_name f)), (''type'', swap_type_json (fs_type f))] \<and> fs_name f \<noteq> []"
    unfolding prim using dict_two [of "''name''" "''type''" d] by auto
  finally show ?thesis by (simp add: JObj swap_field_json_def del: dict_with_simps)
qed (simp_all add: swap_compile_field_def as_mapping_def swap_field_json_def)

lemma swap_fields_exact: "swap_compile_fields name v = Inr fs \<longleftrightarrow>
    v = JArr (map swap_field_json fs) \<and> list_all (\<lambda>f. fs_name f \<noteq> []) fs \<and> distinct (map fs_name fs)"
  by (auto simp: swap_compile_fields_def compile_simps
    enumerated_exact [of _ swap_field_json "\<lambda>f. fs_name f \<noteq> []", OF swap_field_exact])

lemma dict_three:
  assumes "distinct [a, b, c]"
  shows "d = dict_of [(a, w), (b, x), (c, y)] \<longleftrightarrow> fmdom d = {|a, b, c|} \<and> jget d a = w \<and> jget d b = x \<and> jget d c = y"
  using dict_exact [of "[(a, w), (b, x), (c, y)]" d] assms by auto

lemma known_layout: "map_of SWAP_DISCRIMINATORS n \<noteq> None \<longleftrightarrow> n \<in> set swap_names"
  by (metis swap_tables(1) map_of_eq_None_iff list.set_map)

lemma compile_layout_exact:
  "compile_layout name v = Inr e \<longleftrightarrow> v = layout_json e \<and> ly_name e \<in> set swap_names \<and> e = pinned_layout (ly_name e)"
proof (cases v)
  case (JObj row)
  show ?thesis
  proof (cases "\<exists>n. jget row ''name'' = JStr n \<and> n \<in> set swap_names")
    case False
    then have "compile_layout name v \<noteq> Inr e"
      by (auto simp: JObj compile_layout_def compile_simps known_layout [symmetric] split: if_splits)
    moreover have "jget row ''name'' = JStr (ly_name e)" if "v = layout_json e"
      using that JObj by (simp add: layout_json_def)
    ultimately show ?thesis using False by blast
  next
    case True
    then obtain n where n: "jget row ''name'' = JStr n" "n \<in> set swap_names" by blast
    let ?p = "pinned_layout n"
    obtain ns where ns: "map_of SWAP_DISCRIMINATORS n = Some ns" using n(2) known_layout by blast
    note t = swap_table [OF n(2)]
    have l: "length ns = 8" using t(2) ns by simp
    have d: "ly_discriminator ?p = map byte ns" by (simp add: pinned_layout_fields ns)
    have "compile_layout name v = Inr e \<longleftrightarrow> fmdom row = {|''name'', ''discriminator'', ''fields''|}
      \<and> jget row ''discriminator'' = JArr (map (\<lambda>b. JInt (int (unat b))) (ly_discriminator ?p))
      \<and> jget row ''fields'' = JArr (map swap_field_json (ly_fields ?p)) \<and> e = ?p"
      using t ns d by (auto simp: JObj compile_layout_def compile_simps ns compile_discriminator_exact [OF l] n(1)
        swap_fields_exact map_fld_eq pinned_layout_def)
    also have "\<dots> \<longleftrightarrow> e = ?p \<and> v = layout_json ?p"
      using dict_three [of "''name''" "''discriminator''" "''fields''" row] n(1)
      by (auto simp: JObj layout_json_def pinned_layout_fields simp del: dict_with_simps)
    also have "\<dots> \<longleftrightarrow> v = layout_json e \<and> ly_name e \<in> set swap_names \<and> e = pinned_layout (ly_name e)"
    proof
      assume a: "v = layout_json e \<and> ly_name e \<in> set swap_names \<and> e = pinned_layout (ly_name e)"
      then have "ly_name e = n" using n(1) JObj by (auto simp: layout_json_def)
      with a show "e = ?p \<and> v = layout_json ?p" by metis
    qed (use n in \<open>simp add: pinned_layout_fields\<close>)
    finally show ?thesis .
  qed
qed (simp_all add: compile_layout_def as_mapping_def layout_json_def)

lemma compile_accounts_exact:
  "compile_accounts v = Inr pool \<longleftrightarrow> pool = pinned_layout ''Pool'' \<and> v = JArr [layout_json pool]"
proof -
  have "compile_accounts v = Inr pool \<longleftrightarrow> (\<exists>x. v = JArr [x] \<and> compile_layout ''account_0'' x = Inr pool) \<and> ly_name pool = ''Pool''"
    by (auto simp: compile_accounts_def compile_simps length_Suc_conv)
  also have "\<dots> \<longleftrightarrow> pool = pinned_layout ''Pool'' \<and> v = JArr [layout_json pool]"
    unfolding compile_layout_exact by (auto simp: swap_names_simps pinned_layout_fields)
  finally show ?thesis .
qed

lemma compile_layouts_exact:
  "enumerated (\<lambda>i. compile_layout (''event_'' @ digits_of i)) 0 rows = Inr es \<and> map ly_name es = [''BuyEvent'', ''SellEvent'']
   \<longleftrightarrow> es = [pinned_layout ''BuyEvent'', pinned_layout ''SellEvent''] \<and> rows = map layout_json es"
proof -
  let ?P = "\<lambda>e. ly_name e \<in> set swap_names \<and> e = pinned_layout (ly_name e)"
  let ?es = "[pinned_layout ''BuyEvent'', pinned_layout ''SellEvent'']"
  have run: "enumerated (\<lambda>i. compile_layout (''event_'' @ digits_of i)) 0 rows = Inr es \<longleftrightarrow> rows = map layout_json es \<and> list_all ?P es"
    by (rule enumerated_exact) (rule compile_layout_exact)
  have "es = map pinned_layout (map ly_name es)" if "list_all ?P es"
    using that by (induction es) auto
  then have es: "es = ?es" if "list_all ?P es" "map ly_name es = [''BuyEvent'', ''SellEvent'']"
    using that by (simp only: list.map)
  have all: "list_all ?P ?es" "map ly_name ?es = [''BuyEvent'', ''SellEvent'']"
    by (simp_all add: pinned_layout_fields swap_names_simps)
  show ?thesis unfolding run
  proof (intro iffI conjI; elim conjE)
    assume "es = ?es" and "rows = map layout_json es"
    then show "rows = map layout_json es" and "list_all ?P es" and "map ly_name es = [''BuyEvent'', ''SellEvent'']"
      using all by (simp_all only:)
  next
    assume "list_all ?P es" and "map ly_name es = [''BuyEvent'', ''SellEvent'']"
    then show "es = ?es" by (rule es)
  qed
qed

text \<open>Only the pinned PumpSwap subset compiles: for its document the compiler returns the pinned plan, and for
  any other JSON value it raises.\<close>

lemma swap_subset_pinned:
  "compile_pumpswap_idl_subset sha document = Inr plan \<longleftrightarrow> document = swap_document \<and> plan = swap_plan_of sha"
proof (cases document)
  case (JObj root)
  let ?pool = "JArr [layout_json (pinned_layout ''Pool'')]"
  let ?es = "[pinned_layout ''BuyEvent'', pinned_layout ''SellEvent'']"
  have "compile_pumpswap_idl_subset sha document = Inr plan \<longleftrightarrow>
      fmdom root = {|''schema'', ''schema_version'', ''as_of'', ''status'', ''source'', ''program_id'', ''accounts'', ''events''|}
      \<and> jget root ''schema'' = JStr ''solana_alpha_lab.pumpswap_idl_subset'' \<and> jget root ''schema_version'' = JStr ''1.0''
      \<and> jget root ''as_of'' = JStr ''2026-07-27'' \<and> jget root ''status'' = JStr ''PINNED_OFFICIAL_SUBSET''
      \<and> jget root ''source'' = JObj swap_source \<and> jget root ''program_id'' = JStr PUMPSWAP_PROGRAM_ID
      \<and> jget root ''accounts'' = ?pool \<and> jget root ''events'' = JArr (map layout_json ?es) \<and> plan = swap_plan_of sha"
    (is "?L \<longleftrightarrow> ?R")
  proof
    assume ?L
    then obtain pool rows es where r: "jget root ''events'' = JArr rows"
        "enumerated (\<lambda>i. compile_layout (''event_'' @ digits_of i)) 0 rows = Inr es" "map ly_name es = [''BuyEvent'', ''SellEvent'']"
      and t: "compile_accounts (jget root ''accounts'') = Inr pool"
      and p: "\<lparr>wp_fixture_sha256 = sha, wp_source_commit = PUMPSWAP_IDL_COMMIT, wp_source_sha256 = PUMPSWAP_IDL_SHA256,
        wp_program_id = PUMPSWAP_PROGRAM_ID, wp_pool = pool, wp_events = es\<rparr> = plan"
      and rest: "fmdom root = {|''schema'', ''schema_version'', ''as_of'', ''status'', ''source'', ''program_id'',
          ''accounts'', ''events''|} \<and> jget root ''schema'' = JStr ''solana_alpha_lab.pumpswap_idl_subset''
        \<and> jget root ''schema_version'' = JStr ''1.0'' \<and> jget root ''as_of'' = JStr ''2026-07-27''
        \<and> jget root ''status'' = JStr ''PINNED_OFFICIAL_SUBSET'' \<and> jget root ''source'' = JObj swap_source
        \<and> jget root ''program_id'' = JStr PUMPSWAP_PROGRAM_ID"
      unfolding JObj compile_pumpswap_idl_subset_def compile_simps if_Inl_eq_Inr sum.inject jval.inject
      by (elim exE conjE) (rule that; simp)
    have "es = ?es" and "rows = map layout_json ?es" using iffD1 [OF compile_layouts_exact conjI [OF r(2,3)]] by simp_all
    then show ?R using r(1) t p [symmetric] rest by (simp add: compile_accounts_exact swap_plan_of_def)
  next
    assume ?R
    then show ?L using compile_layouts_exact [of "map layout_json ?es" ?es] swap_discriminators
      by (simp add: JObj compile_pumpswap_idl_subset_def compile_simps compile_accounts_exact swap_plan_of_def)
  qed
  also have "\<dots> \<longleftrightarrow> document = swap_document \<and> plan = swap_plan_of sha"
    unfolding swap_document_def JObj jval.inject
    using dict_eight [of "''schema''" "''schema_version''" "''as_of''" "''status''" "''source''" "''program_id''"
        "''accounts''" "''events''" root] by auto
  finally show ?thesis .
qed (simp_all add: compile_pumpswap_idl_subset_def as_mapping_def swap_document_def)

subsection \<open>Decoding\<close>

fun write_swap :: "swap_type \<Rightarrow> borsh_value \<Rightarrow> bytes" where
  "write_swap SBool = write_bool"
| "write_swap SI64 = write_signed 8"
| "write_swap SI128 = write_signed 16"
| "write_swap SPubkey = write_pubkey"
| "write_swap SString = write_string"
| "write_swap SU8 = write_unsigned 1"
| "write_swap SU16 = write_unsigned 2"
| "write_swap SU64 = write_unsigned 8"

fun ok_swap :: "swap_type \<Rightarrow> borsh_value \<Rightarrow> bool" where
  "ok_swap SBool = ok_bool"
| "ok_swap SI64 = ok_signed 8"
| "ok_swap SI128 = ok_signed 16"
| "ok_swap SPubkey = ok_pubkey"
| "ok_swap SString = ok_string"
| "ok_swap SU8 = ok_unsigned 1"
| "ok_swap SU16 = ok_unsigned 2"
| "ok_swap SU64 = ok_unsigned 8"

interpretation swap: codec_family swap_decode_type write_swap ok_swap
proof
  fix t r v r' assume "inside r"
  then show "swap_decode_type t r = Inr (v, r') \<longleftrightarrow>
    ok_swap t v \<and> ahead r = write_swap t v @ ahead r' \<and> inside r' \<and> r' = moved (length (write_swap t v)) r"
    by (cases t) (simp_all only: swap_decode_type.simps write_swap.simps ok_swap.simps bool_codec.reads_exactly
      unsigned_codec.reads_exactly pubkey_codec.reads_exactly string_codec.reads_exactly
      codec.reads_exactly [OF signed_codec] zero_less_numeral)
qed

definition layout_bytes :: "string \<Rightarrow> row \<Rightarrow> bytes" where
  "layout_bytes n d = ly_discriminator (pinned_layout n) @ write_fields write_swap (ly_fields (pinned_layout n)) d"

definition layout_row_ok :: "string \<Rightarrow> row \<Rightarrow> bool" where
  "layout_row_ok n d = ok_fields ok_swap (ly_fields (pinned_layout n)) d"

lemma decode_layout_exact:
  assumes "n \<in> set swap_names"
  shows "decode_layout payload (pinned_layout n) = Inr d \<longleftrightarrow> layout_row_ok n d \<and> payload = layout_bytes n d"
proof -
  let ?x = "ly_discriminator (pinned_layout n)" and ?fs = "ly_fields (pinned_layout n)"
  have x: "length ?x = 8" by (rule swap_table(5) [OF assms])
  have "decode_layout payload (pinned_layout n) = Inr d \<longleftrightarrow> take 8 payload = ?x \<and> 8 \<le> length payload \<and>
      (\<exists>r. decode_fields swap_decode_type ?fs [] (new_reader (drop 8 payload)) = Inr (d, r) \<and> remaining r = 0)"
    by (auto simp: decode_layout_def bindR_eq_Inr)
  also have "\<dots> \<longleftrightarrow> take 8 payload = ?x \<and> 8 \<le> length payload \<and> layout_row_ok n d \<and> drop 8 payload = write_fields write_swap ?fs d"
    unfolding layout_row_ok_def codec.reads_all [OF swap.fields_codec [OF swap_table(4) [OF assms]]] by blast
  also have "\<dots> \<longleftrightarrow> layout_row_ok n d \<and> payload = layout_bytes n d"
    using x by (auto simp: layout_bytes_def) (metis append_take_drop_id)
  finally show ?thesis .
qed


lemma base58_not_Nil: "bs \<noteq> [] \<Longrightarrow> base58_encode bs \<noteq> []"
  using base58_inject [of bs "[]"] by (auto simp: base58_encode_def zero_prefix_def from_be_def base58_loop.simps [of 0])

lemma ok_pubkey_text: "ok_pubkey v \<longleftrightarrow> (\<exists>t. v = VText t \<and> t \<noteq> [] \<and> ok_pubkey v)"
proof -
  have "base58_encode (base58_bytes 32 t) \<noteq> []" for t
  proof (rule base58_not_Nil)
    have "length (base58_bytes 32 t) = 32" by (simp add: base58_bytes_def)
    then show "base58_bytes 32 t \<noteq> []" by (metis list.size(3) zero_neq_numeral)
  qed
  then have "ok_pubkey (VText t) \<Longrightarrow> t \<noteq> []" for t by (auto simp: ok_pubkey_def ustr_def)
  then show ?thesis by (cases v) (auto simp: ok_pubkey_def)
qed

lemma swap_value:
  assumes "layout_row_ok n d" and "n \<in> set swap_names" and "(k, t) \<in> set (the (map_of SWAP_FIELDS n))"
  obtains v where "map_of d k = Some v" and "ok_swap t v"
proof -
  have "fld (k, t) \<in> set (ly_fields (pinned_layout n))" using assms(3) by (simp add: pinned_layout_fields)
  from ok_fields_value [OF assms(1) [unfolded layout_row_ok_def] swap_table(4) [OF assms(2)] this]
  show thesis using that by auto
qed

lemma required_key:
  assumes "layout_row_ok n d" and "n \<in> set swap_names" and "(k, SPubkey) \<in> set (the (map_of SWAP_FIELDS n))"
  obtains t where "map_of d k = Some (VText t)" and "required_text d k = Inr t"
proof -
  obtain v where v: "map_of d k = Some v" "ok_pubkey v" using swap_value [OF assms] by (metis ok_swap.simps(4))
  then obtain t where "v = VText t" "t \<noteq> []" using ok_pubkey_text by blast
  then show thesis using v(1) that by (simp add: required_text_def)
qed

lemma required_number:
  assumes "layout_row_ok n d" and "n \<in> set swap_names" and "(k, t) \<in> set (the (map_of SWAP_FIELDS n))" and "t \<in> {SI64, SI128, SU8, SU16, SU64}"
  obtains i where "map_of d k = Some (VInt i)" and "required_int d k = Inr i"
proof -
  obtain v where v: "map_of d k = Some v" "ok_swap t v" using swap_value [OF assms(1-3)] .
  then obtain i where "v = VInt i" using assms(4) by (cases v) (auto simp: ok_signed_def ok_unsigned_def)
  then show thesis using v(1) that by (simp add: required_int_def)
qed

definition trade_event_of :: "(bytes \<Rightarrow> string) \<Rightarrow> string \<Rightarrow> row \<Rightarrow> trade_event" where
  "trade_event_of sha n d = \<lparr>te_name = n, te_side = (if n = ''BuyEvent'' then BUY else SELL), te_fields = d,
     te_payload_sha256 = sha (layout_bytes n d)\<rparr>"

lemma layout_found:
  "layout_by_discriminator (swap_plan_of h) x = Some e \<longleftrightarrow> (\<exists>n\<in>{''BuyEvent'', ''SellEvent''}. e = pinned_layout n \<and> x = ly_discriminator e)"
  using swap_discriminators by (auto simp: layout_by_discriminator_def swap_plan_of_def)

lemma layout_bytes_head: "n \<in> set swap_names \<Longrightarrow> take 8 (layout_bytes n d) = ly_discriminator (pinned_layout n)"
  using swap_table(5) [of n] by (simp add: layout_bytes_def)

text \<open>What a trade payload is.\<close>

lemma trade_payload_iff:
  "decode_trade_payload sha (swap_plan_of h) payload = Inr e \<longleftrightarrow>
    (\<exists>n\<in>{''BuyEvent'', ''SellEvent''}. \<exists>d. layout_row_ok n d \<and> payload = layout_bytes n d \<and> e = trade_event_of sha n d)"
proof
  have names: "n \<in> set swap_names" if "n \<in> {''BuyEvent'', ''SellEvent''}" for n using that swap_names_simps by auto
  { assume "decode_trade_payload sha (swap_plan_of h) payload = Inr e"
    then obtain schema d where s: "layout_by_discriminator (swap_plan_of h) (take 8 payload) = Some schema"
      and d: "decode_layout payload schema = Inr d"
      and e: "e = \<lparr>te_name = ly_name schema, te_side = (if ly_name schema = ''BuyEvent'' then BUY else SELL),
                 te_fields = d, te_payload_sha256 = sha payload\<rparr>"
      by (auto simp: decode_trade_payload_def bindR_eq_Inr split: option.splits)
    obtain n where n: "n \<in> {''BuyEvent'', ''SellEvent''}" "schema = pinned_layout n" using s layout_found by blast
    from d [unfolded n(2) decode_layout_exact [OF names [OF n(1)]]] e n
    show "\<exists>n\<in>{''BuyEvent'', ''SellEvent''}. \<exists>d. layout_row_ok n d \<and> payload = layout_bytes n d \<and> e = trade_event_of sha n d"
      by (intro bexI [of _ n] exI [of _ d]) (simp_all add: trade_event_of_def pinned_layout_fields(1)) }
  assume "\<exists>n\<in>{''BuyEvent'', ''SellEvent''}. \<exists>d. layout_row_ok n d \<and> payload = layout_bytes n d \<and> e = trade_event_of sha n d"
  then obtain n d where n: "n \<in> {''BuyEvent'', ''SellEvent''}" and d: "layout_row_ok n d" "payload = layout_bytes n d"
    and e: "e = trade_event_of sha n d" by blast
  have "(''pool'', SPubkey) \<in> set (the (map_of SWAP_FIELDS n))" and "(''timestamp'', SI64) \<in> set (the (map_of SWAP_FIELDS n))"
    using n by (auto simp: SWAP_FIELDS_def)
  then obtain p i where "required_text d ''pool'' = Inr p" and "required_int d ''timestamp'' = Inr i"
    using required_key [OF d(1) names [OF n]] required_number [OF d(1) names [OF n], of _ SI64] by (metis insertI1)
  moreover have "layout_by_discriminator (swap_plan_of h) (take 8 payload) = Some (pinned_layout n)"
    using n layout_found layout_bytes_head [OF names [OF n]] d(2) by metis
  moreover have "decode_layout payload (pinned_layout n) = Inr d" using decode_layout_exact [OF names [OF n]] d by blast
  ultimately show "decode_trade_payload sha (swap_plan_of h) payload = Inr e"
    using e d(2) by (simp add: decode_trade_payload_def trade_event_of_def pinned_layout_fields(1))
qed

text \<open>What a pool account is.\<close>

lemma pool_account_iff:
  "decode_pool_account sha (swap_plan_of h) account_data account_pubkey owner = Inr p \<longleftrightarrow>
    owner = PUMPSWAP_PROGRAM_ID \<and> account_pubkey \<noteq> [] \<and> layout_row_ok ''Pool'' (pa_fields p)
    \<and> account_data = layout_bytes ''Pool'' (pa_fields p)
    \<and> map_of (pa_fields p) ''base_mint'' \<noteq> map_of (pa_fields p) ''quote_mint''
    \<and> map_of (pa_fields p) ''pool_base_token_account'' \<noteq> map_of (pa_fields p) ''pool_quote_token_account''
    \<and> p = \<lparr>pa_pubkey = account_pubkey, pa_fields = pa_fields p, pa_payload_sha256 = sha account_data\<rparr>"
    (is "?L \<longleftrightarrow> ?R")
proof -
  have n: "''Pool'' \<in> set swap_names" by (simp add: swap_names_simps)
  have plan: "wp_program_id (swap_plan_of h) = PUMPSWAP_PROGRAM_ID" "wp_pool (swap_plan_of h) = pinned_layout ''Pool''"
    by (simp_all add: swap_plan_of_def)
  have keys: "(k, SPubkey) \<in> set (the (map_of SWAP_FIELDS ''Pool''))"
    if "k \<in> {''base_mint'', ''quote_mint'', ''pool_base_token_account'', ''pool_quote_token_account''}" for k
    using that by (auto simp: SWAP_FIELDS_def)
  show ?thesis
  proof (cases "\<exists>d. decode_layout account_data (pinned_layout ''Pool'') = Inr d")
    case False
    then have "\<not> ?L" by (auto simp: decode_pool_account_def plan bindR_eq_Inr)
    moreover have "\<not> ?R" using False decode_layout_exact [OF n] by blast
    ultimately show ?thesis by blast
  next
    case True
    then obtain d where d: "decode_layout account_data (pinned_layout ''Pool'') = Inr d" by blast
    then have ok: "layout_row_ok ''Pool'' d" "account_data = layout_bytes ''Pool'' d" using decode_layout_exact [OF n] by blast+
    obtain a b where mints: "map_of d ''base_mint'' = Some (VText a)" "required_text d ''base_mint'' = Inr a"
      "map_of d ''quote_mint'' = Some (VText b)" "required_text d ''quote_mint'' = Inr b"
      using required_key [OF ok(1) n keys] by (metis insertCI)
    obtain x y where accounts: "map_of d ''pool_base_token_account'' = Some (VText x)" "required_text d ''pool_base_token_account'' = Inr x"
      "map_of d ''pool_quote_token_account'' = Some (VText y)" "required_text d ''pool_quote_token_account'' = Inr y"
      using required_key [OF ok(1) n keys] by (metis insertCI)
    have one: "d' = d" if "layout_row_ok ''Pool'' d'" "account_data = layout_bytes ''Pool'' d'" for d'
      using that d decode_layout_exact [OF n] by (metis sum.inject(2))
    have "?L \<longleftrightarrow> owner = PUMPSWAP_PROGRAM_ID \<and> account_pubkey \<noteq> [] \<and> a \<noteq> b \<and> x \<noteq> y
      \<and> p = \<lparr>pa_pubkey = account_pubkey, pa_fields = d, pa_payload_sha256 = sha account_data\<rparr>"
      by (auto simp: decode_pool_account_def plan d mints accounts)
    also have "\<dots> \<longleftrightarrow> ?R"
    proof (rule iffI, goal_cases)
      case 1
      then have "pa_fields p = d" by simp
      with 1 ok mints accounts show ?case by simp
    next
      case 2
      then have "pa_fields p = d" using one by blast
      with 2 mints accounts show ?case by simp
    qed
    finally show ?thesis .
  qed
qed

subsection \<open>Properties\<close>

text \<open>C36: trade events. \<open>decode_trade_payload\<close> returns exactly for the bytes of a well-typed buy or sell event,
  with the side of its name and exactly its values, so that event and payload determine each other; every
  other payload raises.\<close>

theorem trade_payload_exact:
  "decode_trade_payload sha (swap_plan_of h) payload = Inr e \<longleftrightarrow>
    (\<exists>n\<in>{''BuyEvent'', ''SellEvent''}. \<exists>d. layout_row_ok n d \<and> payload = layout_bytes n d \<and> e = trade_event_of sha n d)"
  by (rule trade_payload_iff)

text \<open>C35: pool accounts. \<open>decode_pool_account\<close> returns exactly for the bytes of a well-typed pool that the
  program owns, under a key, with two different mints and two different token accounts.\<close>

theorem pool_account_exact:
  "decode_pool_account sha (swap_plan_of h) account_data account_pubkey owner = Inr p \<longleftrightarrow>
    owner = PUMPSWAP_PROGRAM_ID \<and> account_pubkey \<noteq> [] \<and> layout_row_ok ''Pool'' (pa_fields p)
    \<and> account_data = layout_bytes ''Pool'' (pa_fields p)
    \<and> map_of (pa_fields p) ''base_mint'' \<noteq> map_of (pa_fields p) ''quote_mint''
    \<and> map_of (pa_fields p) ''pool_base_token_account'' \<noteq> map_of (pa_fields p) ''pool_quote_token_account''
    \<and> p = \<lparr>pa_pubkey = account_pubkey, pa_fields = pa_fields p, pa_payload_sha256 = sha account_data\<rparr>"
  by (rule pool_account_iff)

end
