(* ===== verification/TouchClaims.thy ===== *)
theory TouchClaims
  imports PumpTouch SwapClaims
begin

section \<open>What a projection keeps\<close>

text \<open>
  When the projection of a decoded trade returns, what it contains, and that its key identifies the event it
  came from. The decoded trade and the pool come from the decoders, so none of the checks on their fields can
  fail; \<open>hash_ok\<close> states that the hash gives 64 hexadecimal digits.
\<close>

definition hash_ok :: "(bytes \<Rightarrow> string) \<Rightarrow> bool" where
  "hash_ok sha = (\<forall>x. hash64 (sha x))"

subsection \<open>Checks that hold or fail\<close>

lemma require_eq_Inr: "require c message = Inr u \<longleftrightarrow> c"
  by (simp add: require_def guardR_eq_Inr)

lemma as_utc_eq_Inr: "as_utc name v = Inr i \<longleftrightarrow> v = Aware i \<and> representable i"
  by (auto simp: as_utc_def split: py_datetime.splits)

lemma from_timestamp_eq_Inr: "from_timestamp s = Inr v \<longleftrightarrow> v = Aware (s * 1000000) \<and> representable (s * 1000000)"
  by (auto simp: from_timestamp_def representable_def)

lemma time_order_eq_Inr:
  "validate_time_order a b c d e = Inr t \<longleftrightarrow>
     a = Aware (tt_event t) \<and> b = Aware (tt_observed t) \<and> c = Aware (tt_reliable t) \<and> d = Aware (tt_available t)
     \<and> e = Aware (tt_ingested t) \<and> list_all representable [tt_event t, tt_observed t, tt_reliable t, tt_available t, tt_ingested t]
     \<and> sorted [tt_event t, tt_observed t, tt_reliable t, tt_available t, tt_ingested t]"
  (is "?L \<longleftrightarrow> ?R")
proof
  have ordered: "sort xs = xs \<longleftrightarrow> sorted xs" for xs :: "int list" by (metis sorted_sort sorted_sort_id)
  { assume ?L
    then show ?R unfolding validate_time_order_def bindR_eq_Inr as_utc_eq_Inr Let_def if_Inl_eq_Inr not_not ordered by auto }
  assume ?R
  moreover from this have "sort [tt_event t, tt_observed t, tt_reliable t, tt_available t, tt_ingested t]
    = [tt_event t, tt_observed t, tt_reliable t, tt_available t, tt_ingested t]" using ordered by blast
  ultimately show ?L by (cases t) (simp add: validate_time_order_def as_utc_def del: sort_key_simps)
qed

lemma effective_eq_Inr:
  "effective_quote_reserves q v = Inr e \<longleftrightarrow>
     0 \<le> q \<and> q \<le> U64_MAX \<and> I128_MIN \<le> v \<and> v \<le> I128_MAX \<and> 0 \<le> q + v \<and> q + v \<le> U64_MAX \<and> e = q + v"
  by (auto simp: effective_quote_reserves_def Let_def)

lemma text_part_scalar [simp]: "part_scalar (text_part t)" "part_scalar (PNumber i)" "part_scalar PNone"
  "part_scalar (PText u) \<longleftrightarrow> list_all scalar u"
  using ustr_scalar by (simp_all add: text_part_def part_scalar_def)

lemma colon_scalar: "list_all scalar (colon_joined ts) \<longleftrightarrow> list_all (list_all scalar) ts"
proof (cases ts)
  case (Cons t us)
  have "list_all scalar (concat (map ((@) [58]) us)) \<longleftrightarrow> list_all (list_all scalar) us"
    by (induction us) (simp_all add: scalar_def)
  then show ?thesis using Cons by (simp add: colon_joined_def)
qed (simp add: colon_joined_def)

lemma int_chars_scalar: "list_all scalar (int_chars i)"
  using ustr_scalar by (simp add: int_chars_def)

lemma pubkey_scalar: "ok_pubkey (VText t) \<Longrightarrow> list_all scalar t"
  using ustr_scalar [of "base58_encode (base58_bytes 32 (map char_of t))"] by (simp add: ok_pubkey_def)


lemma hash_not_Nil: "hash_ok sha \<Longrightarrow> sha x \<noteq> []"
  by (auto simp: hash_ok_def hash64_def dest: spec [of _ x])

lemma mapR_returned: "(\<exists>ys. mapR f xs = Inr ys) \<longleftrightarrow> (\<forall>x\<in>set xs. \<exists>y. f x = Inr y)"
  by (induction xs) (auto simp: bindR_eq_Inr)

subsection \<open>Rows\<close>

lemma revision_one: "validate_revision i 1 None = Inr ()"
  by (simp add: validate_revision_def require_def)

lemma availability_eq_Inr: "validate_availability a b = Inr u \<longleftrightarrow> a \<le> b"
  by (simp add: validate_availability_def require_eq_Inr)

definition amount_ok :: "int option \<Rightarrow> ustr option \<Rightarrow> int option \<Rightarrow> bool" where
  "amount_ok atomic mint decimals = (case atomic of None \<Rightarrow> mint = None \<and> decimals = None
     | Some v \<Rightarrow> 0 \<le> v \<and> mint \<noteq> None \<and> (case decimals of None \<Rightarrow> False | Some d \<Rightarrow> decimals_ok d))"

lemma observation_row_returned:
  assumes "hash_ok sha"
  shows "(\<exists>x. observation_row sha fr type dec atomic unit mint decimals = Inr x) \<longleftrightarrow>
    list_all scalar unit \<and> tt_reliable (fr_times fr) \<le> tt_available (fr_times fr) \<and> amount_ok atomic mint decimals"
proof -
  have "list_all part_scalar [text_part (fr_identity fr), text_part type,
      (case dec of None \<Rightarrow> PNone | Some d \<Rightarrow> text_part (dec_text d)), (case atomic of None \<Rightarrow> PNone | Some i \<Rightarrow> PNumber i), PText unit]
    \<longleftrightarrow> list_all scalar unit" by (simp split: option.splits)
  moreover have "hash64 (sha x)" for x using assms by (simp add: hash_ok_def)
  ultimately show ?thesis
    by (auto simp: observation_row_def validated_observation_def bindR_eq_Inr stable_hash_eq_Inr require_eq_Inr
        revision_one availability_eq_Inr hash_not_Nil [OF assms] colon_joined_def amount_ok_def split: option.splits)
qed

lemma observation_row_values:
  "observation_row sha fr type dec atomic unit mint decimals = Inr x \<Longrightarrow>
    ob_type x = type \<and> ob_value_decimal x = dec \<and> ob_value_atomic x = atomic \<and> ob_amount_mint x = mint
    \<and> ob_entity_id x = fr_pool_id fr \<and> ob_times x = fr_times fr"
  by (auto simp: observation_row_def validated_observation_def bindR_eq_Inr)

lemma snapshot_row_returned:
  assumes "hash_ok sha"
  shows "(\<exists>x. snapshot_row sha fr base_mint quote_mint bd qd base quote slot = Inr x) \<longleftrightarrow>
    decimals_ok bd \<and> decimals_ok qd \<and> 0 \<le> base \<and> 0 \<le> quote \<and> 0 \<le> slot \<and> base_mint \<noteq> quote_mint
    \<and> tt_reliable (fr_times fr) \<le> tt_available (fr_times fr)"
  using assms by (auto simp: snapshot_row_def validated_snapshot_def bindR_eq_Inr stable_hash_eq_Inr require_eq_Inr
        revision_one availability_eq_Inr hash_ok_def)

lemma snapshot_row_values:
  "snapshot_row sha fr base_mint quote_mint bd qd base quote slot = Inr x \<Longrightarrow>
    sn_pool_id x = fr_pool_id fr \<and> sn_base_mint x = base_mint \<and> sn_quote_mint x = quote_mint
    \<and> sn_base_reserve_atomic x = base \<and> sn_quote_reserve_atomic x = quote \<and> sn_times x = fr_times fr"
  by (auto simp: snapshot_row_def validated_snapshot_def bindR_eq_Inr)

lemma trade_row_returned:
  assumes "hash_ok sha" and "required_text (te_fields e) ''user'' = Inr user"
  shows "(\<exists>x. trade_row sha fr e c ((im, i, di), (om, out, dq)) = Inr x) \<longleftrightarrow>
    0 \<le> i \<and> decimals_ok di \<and> 0 \<le> out \<and> decimals_ok dq \<and> 0 \<le> xc_context_slot c \<and> im \<noteq> om
    \<and> tt_reliable (fr_times fr) \<le> tt_available (fr_times fr)"
  using assms by (auto simp: trade_row_def validated_trade_def bindR_eq_Inr stable_hash_eq_Inr require_eq_Inr
        revision_one availability_eq_Inr hash_ok_def)

lemma trade_row_values:
  "trade_row sha fr e c ((im, i, di), (om, out, dq)) = Inr x \<Longrightarrow>
    ti_side x = te_side e \<and> ti_pool_id x = fr_pool_id fr \<and> ti_input_mint x = im \<and> ti_input_amount_atomic x = i
    \<and> ti_output_mint x = om \<and> ti_output_amount_atomic x = out \<and> ti_times x = fr_times fr
    \<and> ti_idempotency_key x = sha (utf8_encode (stable_text [text_part (fr_identity fr), text_part ''trade_orderflow_input'']))"
  by (auto simp: trade_row_def validated_trade_def bindR_eq_Inr stable_hash_eq_Inr)


subsection \<open>Fields of decoded rows\<close>

definition number_of_field :: "row \<Rightarrow> string \<Rightarrow> int" where
  "number_of_field d k = (case map_of d k of Some (VInt i) \<Rightarrow> i | _ \<Rightarrow> 0)"

definition text_of_field :: "row \<Rightarrow> string \<Rightarrow> ustr" where
  "text_of_field d k = (case map_of d k of Some (VText t) \<Rightarrow> t | _ \<Rightarrow> [])"

lemma field_number:
  assumes "layout_row_ok n d" and "n \<in> set swap_names" and "(k, t) \<in> set (the (map_of SWAP_FIELDS n))" and "t \<in> {SI64, SI128, SU8, SU16, SU64}"
  shows "required_int d k = Inr (number_of_field d k)" and "ok_swap t (VInt (number_of_field d k))"
proof -
  obtain v where v: "map_of d k = Some v" "ok_swap t v" using swap_value [OF assms(1-3)] .
  then obtain i where "v = VInt i" using assms(4) by (cases v) (auto simp: ok_signed_def ok_unsigned_def)
  then show "required_int d k = Inr (number_of_field d k)" and "ok_swap t (VInt (number_of_field d k))"
    using v by (simp_all add: required_int_def number_of_field_def)
qed

lemma field_text:
  assumes "layout_row_ok n d" and "n \<in> set swap_names" and "(k, SPubkey) \<in> set (the (map_of SWAP_FIELDS n))"
  shows "required_text d k = Inr (text_of_field d k)" and "list_all scalar (text_of_field d k)"
    and "map_of d k = Some (VText (text_of_field d k))"
proof -
  obtain v where v: "map_of d k = Some v" "ok_pubkey v" using swap_value [OF assms] by (metis ok_swap.simps(4))
  then obtain t where "v = VText t" "t \<noteq> []" using ok_pubkey_text by blast
  then show "required_text d k = Inr (text_of_field d k)" and "list_all scalar (text_of_field d k)"
    and "map_of d k = Some (VText (text_of_field d k))"
    using v pubkey_scalar by (simp_all add: required_text_def text_of_field_def)
qed

text \<open>What a decoded trade and its pool give the projection.\<close>

lemma decoded_trade:
  assumes "decode_trade_payload sha (swap_plan_of h) payload = Inr e"
  obtains n where "n \<in> {''BuyEvent'', ''SellEvent''}" and "layout_row_ok n (te_fields e)"
    and "te_side e = (if n = ''BuyEvent'' then BUY else SELL)"
proof -
  obtain n d where n: "n \<in> {''BuyEvent'', ''SellEvent''}" and d: "layout_row_ok n d" and e: "e = trade_event_of sha n d"
    using assms [unfolded trade_payload_iff] by blast
  show thesis by (rule that [OF n]) (simp_all add: e d trade_event_of_def)
qed

lemma u64_bounds: "ok_swap SU64 (VInt i) \<longleftrightarrow> 0 \<le> i \<and> i \<le> U64_MAX"
  by (auto simp: ok_unsigned_def U64_MAX_def power_256 [symmetric])

lemma i128_bounds: "ok_swap SI128 (VInt i) \<longleftrightarrow> I128_MIN \<le> i \<and> i \<le> I128_MAX"
  by (auto simp: ok_signed_def I128_MIN_def I128_MAX_def)

definition TRADE_NUMBERS :: "trade_side \<Rightarrow> string list" where
  "TRADE_NUMBERS side = [''pool_base_token_reserves'', ''pool_quote_token_reserves''] @ map fst FEE_FIELDS
     @ (if side = BUY then [''user_quote_amount_in'', ''base_amount_out''] else [''base_amount_in'', ''user_quote_amount_out''])"

lemma trade_fields:
  assumes "decode_trade_payload sha (swap_plan_of h) payload = Inr e"
  shows "k \<in> set (TRADE_NUMBERS (te_side e)) \<Longrightarrow> required_int (te_fields e) k = Inr (number_of_field (te_fields e) k)
      \<and> 0 \<le> number_of_field (te_fields e) k \<and> number_of_field (te_fields e) k \<le> U64_MAX"
    and "required_int (te_fields e) ''timestamp'' = Inr (number_of_field (te_fields e) ''timestamp'')"
    and "required_int (te_fields e) ''virtual_quote_reserves'' = Inr (number_of_field (te_fields e) ''virtual_quote_reserves'')"
    and "I128_MIN \<le> number_of_field (te_fields e) ''virtual_quote_reserves''"
    and "number_of_field (te_fields e) ''virtual_quote_reserves'' \<le> I128_MAX"
    and "required_text (te_fields e) ''pool'' = Inr (text_of_field (te_fields e) ''pool'')"
    and "required_text (te_fields e) ''user'' = Inr (text_of_field (te_fields e) ''user'')"
proof -
  obtain n where n: "n \<in> {''BuyEvent'', ''SellEvent''}" and d: "layout_row_ok n (te_fields e)"
    and side: "te_side e = (if n = ''BuyEvent'' then BUY else SELL)" by (rule decoded_trade [OF assms])
  have names: "n \<in> set swap_names" using n swap_names_simps by auto
  note number = field_number [OF d names] and key = field_text [OF d names]
  have u64: "(k, SU64) \<in> set (the (map_of SWAP_FIELDS n))" if "k \<in> set (TRADE_NUMBERS (te_side e))" for k
    using that n by (auto simp: side TRADE_NUMBERS_def FEE_FIELDS_def SWAP_FIELDS_def)
  show "k \<in> set (TRADE_NUMBERS (te_side e)) \<Longrightarrow> required_int (te_fields e) k = Inr (number_of_field (te_fields e) k)
      \<and> 0 \<le> number_of_field (te_fields e) k \<and> number_of_field (te_fields e) k \<le> U64_MAX"
    using number [OF u64] u64_bounds by simp
  have "(''timestamp'', SI64) \<in> set (the (map_of SWAP_FIELDS n))" using n by (auto simp: SWAP_FIELDS_def)
  from number(1) [OF this] show "required_int (te_fields e) ''timestamp'' = Inr (number_of_field (te_fields e) ''timestamp'')" by simp
  have v: "(''virtual_quote_reserves'', SI128) \<in> set (the (map_of SWAP_FIELDS n))" using n by (auto simp: SWAP_FIELDS_def)
  show "required_int (te_fields e) ''virtual_quote_reserves'' = Inr (number_of_field (te_fields e) ''virtual_quote_reserves'')"
    and "I128_MIN \<le> number_of_field (te_fields e) ''virtual_quote_reserves''"
    and "number_of_field (te_fields e) ''virtual_quote_reserves'' \<le> I128_MAX"
    using number [OF v] i128_bounds by simp_all
  have "(''pool'', SPubkey) \<in> set (the (map_of SWAP_FIELDS n))" "(''user'', SPubkey) \<in> set (the (map_of SWAP_FIELDS n))"
    using n by (auto simp: SWAP_FIELDS_def)
  then show "required_text (te_fields e) ''pool'' = Inr (text_of_field (te_fields e) ''pool'')"
    and "required_text (te_fields e) ''user'' = Inr (text_of_field (te_fields e) ''user'')"
    using key(1) by blast+
qed

lemma pool_fields:
  assumes "decode_pool_account sha (swap_plan_of h) account key owner = Inr p"
  shows "required_text (pa_fields p) ''base_mint'' = Inr (text_of_field (pa_fields p) ''base_mint'')"
    and "required_text (pa_fields p) ''quote_mint'' = Inr (text_of_field (pa_fields p) ''quote_mint'')"
    and "list_all scalar (text_of_field (pa_fields p) ''quote_mint'')"
    and "text_of_field (pa_fields p) ''base_mint'' \<noteq> text_of_field (pa_fields p) ''quote_mint''"
proof -
  have d: "layout_row_ok ''Pool'' (pa_fields p)" and differ: "map_of (pa_fields p) ''base_mint'' \<noteq> map_of (pa_fields p) ''quote_mint''"
    using assms [unfolded pool_account_iff] by blast+
  have n: "''Pool'' \<in> set swap_names" by (simp add: swap_names_simps)
  have "(''base_mint'', SPubkey) \<in> set (the (map_of SWAP_FIELDS ''Pool''))" "(''quote_mint'', SPubkey) \<in> set (the (map_of SWAP_FIELDS ''Pool''))"
    by (auto simp: SWAP_FIELDS_def)
  note base = field_text [OF d n this(1)] and quote = field_text [OF d n this(2)]
  show "required_text (pa_fields p) ''base_mint'' = Inr (text_of_field (pa_fields p) ''base_mint'')"
    and "required_text (pa_fields p) ''quote_mint'' = Inr (text_of_field (pa_fields p) ''quote_mint'')"
    and "list_all scalar (text_of_field (pa_fields p) ''quote_mint'')" by (rule base(1) quote(1) quote(2))+
  show "text_of_field (pa_fields p) ''base_mint'' \<noteq> text_of_field (pa_fields p) ''quote_mint''"
    using differ base(3) quote(3) by auto
qed


subsection \<open>The projection of a decoded trade\<close>

definition side_amounts ::
  "trade_event \<Rightarrow> pool_account \<Rightarrow> trade_context \<Rightarrow> (ustr \<times> int \<times> int) \<times> (ustr \<times> int \<times> int)" where
  "side_amounts e pool c =
     (let n = number_of_field (te_fields e); m = text_of_field (pa_fields pool) in
      if te_side e = BUY
      then ((m ''quote_mint'', n ''user_quote_amount_in'', xc_quote_decimals c), (m ''base_mint'', n ''base_amount_out'', xc_base_decimals c))
      else ((m ''base_mint'', n ''base_amount_in'', xc_base_decimals c), (m ''quote_mint'', n ''user_quote_amount_out'', xc_quote_decimals c)))"

lemma trade_amounts_known:
  assumes "decode_trade_payload sha (swap_plan_of h) payload = Inr e"
    and "decode_pool_account sha' (swap_plan_of h') account key owner = Inr pool"
  shows "trade_amounts e pool c = Inr (side_amounts e pool c)"
proof -
  note n = trade_fields(1) [OF assms(1)] and m = pool_fields(1,2) [OF assms(2)]
  show ?thesis
    by (cases "te_side e") (simp_all add: trade_amounts_def side_amounts_def m n TRADE_NUMBERS_def Let_def)
qed

lemma bindR_returned: "(\<exists>y. bindR m f = Inr y) \<longleftrightarrow> (\<exists>x. m = Inr x \<and> (\<exists>y. f x = Inr y))"
  by (auto simp: bindR_eq_Inr)

definition trade_frame :: "(bytes \<Rightarrow> string) \<Rightarrow> trade_event \<Rightarrow> pool_account \<Rightarrow> trade_context \<Rightarrow> touch_times \<Rightarrow> touch_frame" where
  "trade_frame sha e pool c ts =
     \<lparr>fr_identity = sha (utf8_encode (stable_text (identity_parts e c))), fr_pool_id = pa_pubkey pool, fr_times = ts,
      fr_source = xc_source c, fr_source_version = xc_source_version c, fr_raw_event_id = xc_raw_event_id c,
      fr_quality_flags = ''TOUCH_ONLY;OBSERVED_TRADE_NOT_OUR_FILL''\<rparr>"

lemma identity_scalar: "list_all part_scalar (identity_parts e c) \<longleftrightarrow> list_all scalar (xc_signature c)"
  by (simp add: identity_parts_def)

text \<open>The projection with every field of the decoded rows in place.\<close>

lemma trade_rows_eq_Inr:
  assumes "decode_pool_account sha' (swap_plan_of h') account key owner = Inr pool"
  defines "m \<equiv> text_of_field (pa_fields pool)"
  shows "trade_rows sha fr e pool c amounts raw_base raw_quote v effective = Inr t \<longleftrightarrow>
    (\<exists>snapshot trade reserves fees.
      snapshot_row sha fr (m ''base_mint'') (m ''quote_mint'') (xc_base_decimals c) (xc_quote_decimals c) raw_base raw_quote
        (xc_context_slot c) = Inr snapshot
      \<and> trade_row sha fr e c amounts = Inr trade
      \<and> reserve_observations sha fr (m ''quote_mint'') (xc_quote_decimals c) v effective = Inr reserves
      \<and> mapR (fee_observation sha fr (te_fields e) (m ''quote_mint'') (xc_quote_decimals c)) FEE_FIELDS = Inr fees
      \<and> t = \<lparr>xt_snapshot = snapshot, xt_trade = trade, xt_observations = reserves @ fees, xt_labels = [''PUMPSWAP_OBSERVED'']\<rparr>)"
  unfolding trade_rows_def pool_fields(1,2) [OF assms(1)] m_def [symmetric] bindR_simps bindR_eq_Inr sum.inject
  by (simp add: eq_commute [of t])

lemma project_trade_known:
  fixes e :: trade_event and pool :: pool_account
  assumes e: "decode_trade_payload sha (swap_plan_of h) payload = Inr e"
    and pool: "decode_pool_account sha' (swap_plan_of h') account key owner = Inr pool"
  defines "n \<equiv> number_of_field (te_fields e)"
  shows "project_trade_touch sha e pool c = Inr t \<longleftrightarrow>
    text_of_field (te_fields e) ''pool'' = pa_pubkey pool \<and> list_all scalar (xc_signature c)
    \<and> 0 \<le> n ''pool_quote_token_reserves'' + n ''virtual_quote_reserves''
    \<and> n ''pool_quote_token_reserves'' + n ''virtual_quote_reserves'' \<le> U64_MAX
    \<and> (\<exists>ts. validate_time_order (Aware (n ''timestamp'' * 1000000)) (xc_observed_at c) (xc_reliable_at c) (xc_available_at c)
          (xc_ingested_at c) = Inr ts
        \<and> trade_rows sha (trade_frame sha e pool c ts) e pool c (side_amounts e pool c) (n ''pool_base_token_reserves'')
            (n ''pool_quote_token_reserves'') (n ''virtual_quote_reserves'')
            (n ''pool_quote_token_reserves'' + n ''virtual_quote_reserves'') = Inr t)"
proof -
  have numbers: "required_int (te_fields e) k = Inr (n k) \<and> 0 \<le> n k \<and> n k \<le> U64_MAX"
    if "k \<in> {''pool_base_token_reserves'', ''pool_quote_token_reserves''}" for k
    using that trade_fields(1) [OF e, of k] by (auto simp: TRADE_NUMBERS_def n_def)
  note known = trade_fields(2-6) [OF e, folded n_def] trade_amounts_known [OF e pool]
  have "representable (n ''timestamp'' * 1000000)"
    if "validate_time_order (Aware (n ''timestamp'' * 1000000)) a b d f = Inr ts" for a b d f ts
    using that by (auto simp: time_order_eq_Inr)
  moreover have "project_trade_touch sha e pool c =
    (if text_of_field (te_fields e) ''pool'' \<noteq> pa_pubkey pool then Inl (PumpSwapProjectionError ''trade_pool_context_mismatch'')
     else bindR (from_timestamp (n ''timestamp'')) (\<lambda>time.
       bindR (validate_time_order time (xc_observed_at c) (xc_reliable_at c) (xc_available_at c) (xc_ingested_at c)) (\<lambda>ts.
       bindR (effective_quote_reserves (n ''pool_quote_token_reserves'') (n ''virtual_quote_reserves'')) (\<lambda>effective.
       bindR (stable_hash sha (identity_parts e c)) (\<lambda>identity.
         trade_rows sha (trade_frame sha e pool c ts\<lparr>fr_identity := identity\<rparr>) e pool c (side_amounts e pool c)
           (n ''pool_base_token_reserves'') (n ''pool_quote_token_reserves'') (n ''virtual_quote_reserves'') effective)))))"
    unfolding project_trade_touch_def using numbers by (simp add: known trade_frame_def)
  ultimately show ?thesis using numbers known(3,4)
    by (auto simp: bindR_eq_Inr from_timestamp_eq_Inr effective_eq_Inr stable_hash_eq_Inr identity_scalar trade_frame_def)
qed


subsection \<open>When every row can be built\<close>

declare small_scalar [simp]

lemma reserves_returned:
  assumes "hash_ok sha" and "list_all scalar quote_mint"
  shows "(\<exists>x. reserve_observations sha fr quote_mint qd v effective = Inr x) \<longleftrightarrow>
    0 \<le> effective \<and> decimals_ok qd \<and> tt_reliable (fr_times fr) \<le> tt_available (fr_times fr)"
  unfolding reserve_observations_def bindR_returned
  by (simp add: ex_simps(1) [symmetric] del: ex_simps)
    (simp add: observation_row_returned [OF assms(1)] amount_ok_def colon_scalar assms(2) int_chars_scalar ustr_scalar conj_ac)

lemma fee_returned:
  assumes "hash_ok sha" and "decode_trade_payload sha' (swap_plan_of h) payload = Inr e" and "fee \<in> set FEE_FIELDS"
    and "tt_reliable (fr_times fr) \<le> tt_available (fr_times fr)" and "decimals_ok qd"
  shows "\<exists>x. fee_observation sha fr (te_fields e) quote_mint qd fee = Inr x"
proof -
  obtain k type mode where fee: "fee = (k, type, mode)" by (cases fee)
  then have "k \<in> fst ` set FEE_FIELDS" using assms(3) by force
  then have k: "required_int (te_fields e) k = Inr (number_of_field (te_fields e) k)" "0 \<le> number_of_field (te_fields e) k"
    using trade_fields(1) [OF assms(2), of k] by (auto simp: TRADE_NUMBERS_def)
  show ?thesis using assms(4,5) k
    by (simp add: fee_observation_def fee observation_row_returned [OF assms(1)] amount_ok_def ustr_scalar)
qed

lemma trade_row_side:
  assumes "hash_ok sha" and e: "decode_trade_payload sha' (swap_plan_of h) payload = Inr e"
    and pool: "decode_pool_account sha'' (swap_plan_of h') account key owner = Inr pool"
  shows "(\<exists>x. trade_row sha fr e c (side_amounts e pool c) = Inr x) \<longleftrightarrow>
    decimals_ok (xc_base_decimals c) \<and> decimals_ok (xc_quote_decimals c) \<and> 0 \<le> xc_context_slot c
    \<and> tt_reliable (fr_times fr) \<le> tt_available (fr_times fr)"
proof -
  note row = trade_row_returned [OF assms(1) trade_fields(7) [OF e]]
  note n = trade_fields(1) [OF e] and m = pool_fields(4) [OF pool]
  show ?thesis
  proof (cases "te_side e")
    case BUY
    then show ?thesis using n [of "''user_quote_amount_in''"] n [of "''base_amount_out''"] m
      by (auto simp: side_amounts_def Let_def row TRADE_NUMBERS_def)
  next
    case SELL
    then show ?thesis using n [of "''base_amount_in''"] n [of "''user_quote_amount_out''"] m
      by (auto simp: side_amounts_def Let_def row TRADE_NUMBERS_def)
  qed
qed

lemma trade_rows_returned:
  assumes "hash_ok sha" and e: "decode_trade_payload sha' (swap_plan_of h) payload = Inr e"
    and pool: "decode_pool_account sha'' (swap_plan_of h') account key owner = Inr pool" and "0 \<le> effective"
    and times: "tt_reliable (fr_times fr) \<le> tt_available (fr_times fr)"
  shows "(\<exists>t. trade_rows sha fr e pool c (side_amounts e pool c) (number_of_field (te_fields e) ''pool_base_token_reserves'')
      (number_of_field (te_fields e) ''pool_quote_token_reserves'') v effective = Inr t) \<longleftrightarrow>
    decimals_ok (xc_base_decimals c) \<and> decimals_ok (xc_quote_decimals c) \<and> 0 \<le> xc_context_slot c" (is "?L \<longleftrightarrow> ?R")
proof -
  let ?n = "number_of_field (te_fields e)" and ?m = "text_of_field (pa_fields pool)"
  have n: "0 \<le> ?n ''pool_base_token_reserves''" "0 \<le> ?n ''pool_quote_token_reserves''"
    using trade_fields(1) [OF e] by (simp_all add: TRADE_NUMBERS_def)
  note m = pool_fields(3,4) [OF pool]
  have "?L \<longleftrightarrow> (\<exists>x. snapshot_row sha fr (?m ''base_mint'') (?m ''quote_mint'') (xc_base_decimals c) (xc_quote_decimals c)
        (?n ''pool_base_token_reserves'') (?n ''pool_quote_token_reserves'') (xc_context_slot c) = Inr x)
      \<and> (\<exists>x. trade_row sha fr e c (side_amounts e pool c) = Inr x)
      \<and> (\<exists>x. reserve_observations sha fr (?m ''quote_mint'') (xc_quote_decimals c) v effective = Inr x)
      \<and> (\<exists>x. mapR (fee_observation sha fr (te_fields e) (?m ''quote_mint'') (xc_quote_decimals c)) FEE_FIELDS = Inr x)"
    unfolding trade_rows_eq_Inr [OF pool] by blast
  also have "\<dots> \<longleftrightarrow> ?R"
    unfolding snapshot_row_returned [OF assms(1)] trade_row_side [OF assms(1) e pool] reserves_returned [OF assms(1) m(1)] mapR_returned
    using n m times assms(4) fee_returned [OF assms(1) e] by blast
  finally show ?thesis .
qed

lemma trade_touch_iff:
  fixes e :: trade_event and pool :: pool_account
  assumes "hash_ok sha" and e: "decode_trade_payload sha (swap_plan_of h) payload = Inr e"
    and pool: "decode_pool_account sha (swap_plan_of h) account key owner = Inr pool"
  defines "n \<equiv> number_of_field (te_fields e)"
  shows "(\<exists>t. project_trade_touch sha e pool c = Inr t) \<longleftrightarrow>
    text_of_field (te_fields e) ''pool'' = key \<and> list_all scalar (xc_signature c)
    \<and> 0 \<le> n ''pool_quote_token_reserves'' + n ''virtual_quote_reserves''
    \<and> n ''pool_quote_token_reserves'' + n ''virtual_quote_reserves'' \<le> U64_MAX
    \<and> decimals_ok (xc_base_decimals c) \<and> decimals_ok (xc_quote_decimals c) \<and> 0 \<le> xc_context_slot c
    \<and> (\<exists>obs rel av ing. xc_observed_at c = Aware obs \<and> xc_reliable_at c = Aware rel \<and> xc_available_at c = Aware av
        \<and> xc_ingested_at c = Aware ing \<and> sorted [n ''timestamp'' * 1000000, obs, rel, av, ing]
        \<and> list_all representable [n ''timestamp'' * 1000000, obs, rel, av, ing])" (is "?L \<longleftrightarrow> ?R")
proof -
  let ?q = "n ''pool_quote_token_reserves''" and ?v = "n ''virtual_quote_reserves''" and ?s = "n ''timestamp'' * 1000000"
  let ?order = "\<lambda>ts. validate_time_order (Aware ?s) (xc_observed_at c) (xc_reliable_at c) (xc_available_at c) (xc_ingested_at c) = Inr ts"
  let ?rows = "\<lambda>ts t. trade_rows sha (trade_frame sha e pool c ts) e pool c (side_amounts e pool c)
    (n ''pool_base_token_reserves'') ?q ?v (?q + ?v) = Inr t"
  let ?ok = "decimals_ok (xc_base_decimals c) \<and> decimals_ok (xc_quote_decimals c) \<and> 0 \<le> xc_context_slot c"
  have key: "pa_pubkey pool = key" using pool [unfolded pool_account_iff] by (metis pool_account.select_convs(1))
  have rows: "(\<exists>t. ?rows ts t) \<longleftrightarrow> ?ok" if "?order ts" "0 \<le> ?q + ?v" for ts
  proof -
    have "tt_reliable (fr_times (trade_frame sha e pool c ts)) \<le> tt_available (fr_times (trade_frame sha e pool c ts))"
      using that(1) by (simp add: time_order_eq_Inr trade_frame_def)
    then show ?thesis unfolding n_def by (rule trade_rows_returned [OF assms(1) e pool that(2) [unfolded n_def]])
  qed
  have order: "(\<exists>ts. ?order ts) \<longleftrightarrow> (\<exists>obs rel av ing. xc_observed_at c = Aware obs \<and> xc_reliable_at c = Aware rel \<and> xc_available_at c = Aware av
        \<and> xc_ingested_at c = Aware ing \<and> sorted [?s, obs, rel, av, ing] \<and> list_all representable [?s, obs, rel, av, ing])" (is "_ \<longleftrightarrow> ?T")
  proof
    assume ?T
    then obtain a b d f where "xc_observed_at c = Aware a" "xc_reliable_at c = Aware b" "xc_available_at c = Aware d"
      "xc_ingested_at c = Aware f" "sorted [?s, a, b, d, f]" "list_all representable [?s, a, b, d, f]" by blast
    then have "?order \<lparr>tt_event = ?s, tt_observed = a, tt_reliable = b, tt_available = d, tt_ingested = f\<rparr>"
      by (simp add: time_order_eq_Inr)
    then show "\<exists>ts. ?order ts" by blast
  next
    assume "\<exists>ts. ?order ts"
    then obtain ts where "?order ts" ..
    from this [unfolded time_order_eq_Inr] have "?s = tt_event ts" by simp
    then show ?T using \<open>?order ts\<close> [unfolded time_order_eq_Inr] by (metis py_datetime.inject(2))
  qed
  have "?L \<longleftrightarrow> text_of_field (te_fields e) ''pool'' = key \<and> list_all scalar (xc_signature c) \<and> 0 \<le> ?q + ?v \<and> ?q + ?v \<le> U64_MAX
      \<and> (\<exists>ts. ?order ts \<and> (\<exists>t. ?rows ts t))"
    unfolding project_trade_known [OF e pool] n_def [symmetric] key by blast
  also have "\<dots> \<longleftrightarrow> text_of_field (te_fields e) ''pool'' = key \<and> list_all scalar (xc_signature c) \<and> 0 \<le> ?q + ?v \<and> ?q + ?v \<le> U64_MAX
      \<and> ?ok \<and> (\<exists>ts. ?order ts)" using rows by blast
  finally show ?thesis unfolding order by blast
qed


subsection \<open>What the rows hold\<close>

lemma mapR_values:
  assumes "mapR f xs = Inr ys" and "\<And>x y. x \<in> set xs \<Longrightarrow> f x = Inr y \<Longrightarrow> g y = k x"
  shows "map g ys = map k xs"
  using assms by (induction xs arbitrary: ys) (auto simp: bindR_eq_Inr)

text \<open>The kind and the value of an observation.\<close>

definition observed :: "observation \<Rightarrow> string \<times> decimal option \<times> int option" where
  "observed x = (ob_type x, ob_value_decimal x, ob_value_atomic x)"

definition expected_observations :: "(string \<Rightarrow> int) \<Rightarrow> (string \<times> decimal option \<times> int option) list" where
  "expected_observations n =
     [(''virtual_quote_reserves_atomic'', Some (dec_of_int (n ''virtual_quote_reserves'')), None),
      (''effective_quote_reserves_atomic'', None, Some (n ''pool_quote_token_reserves'' + n ''virtual_quote_reserves''))]
     @ map (\<lambda>(k, type, mode). if mode = BPS then (type, Some (dec_of_int (n k)), None) else (type, None, Some (n k))) FEE_FIELDS"

lemma reserves_values:
  "reserve_observations sha fr quote_mint qd v effective = Inr xs \<Longrightarrow>
    map observed xs = [(''virtual_quote_reserves_atomic'', Some (dec_of_int v), None), (''effective_quote_reserves_atomic'', None, Some effective)]
    \<and> (\<forall>x\<in>set xs. ob_times x = fr_times fr)"
  by (auto simp: reserve_observations_def bindR_eq_Inr observed_def dest!: observation_row_values)

lemma fee_values:
  assumes "decode_trade_payload sha' (swap_plan_of h) payload = Inr e" and "(k, type, mode) \<in> set FEE_FIELDS"
    and "fee_observation sha fr (te_fields e) quote_mint qd (k, type, mode) = Inr x"
  shows "observed x = (if mode = BPS then (type, Some (dec_of_int (number_of_field (te_fields e) k)), None)
      else (type, None, Some (number_of_field (te_fields e) k))) \<and> ob_times x = fr_times fr"
proof -
  have "k \<in> fst ` set FEE_FIELDS" using assms(2) by force
  then have "required_int (te_fields e) k = Inr (number_of_field (te_fields e) k)"
    using trade_fields(1) [OF assms(1), of k] by (auto simp: TRADE_NUMBERS_def)
  then show ?thesis using assms(3)
    by (auto simp: fee_observation_def observed_def split: if_splits dest!: observation_row_values)
qed

lemma fees_times:
  assumes "decode_trade_payload sha' (swap_plan_of h) payload = Inr e"
    and "mapR (fee_observation sha fr (te_fields e) quote_mint qd) fees = Inr ys" and "set fees \<subseteq> set FEE_FIELDS"
  shows "\<forall>x\<in>set ys. ob_times x = fr_times fr"
  using assms(2,3)
proof (induction fees arbitrary: ys)
  case (Cons fee fees)
  then show ?case using fee_values [OF assms(1)] by (cases fee) (fastforce simp: bindR_eq_Inr)
qed simp

lemma trade_touch_holds:
  fixes e :: trade_event and pool :: pool_account
  assumes e: "decode_trade_payload sha (swap_plan_of h) payload = Inr e"
    and pool: "decode_pool_account sha (swap_plan_of h) account key owner = Inr pool"
    and t: "project_trade_touch sha e pool c = Inr t"
  defines "n \<equiv> number_of_field (te_fields e)" and "m \<equiv> text_of_field (pa_fields pool)"
  shows "(sn_base_mint (xt_snapshot t), sn_base_reserve_atomic (xt_snapshot t)) = (m ''base_mint'', n ''pool_base_token_reserves'')"
    and "(sn_quote_mint (xt_snapshot t), sn_quote_reserve_atomic (xt_snapshot t)) = (m ''quote_mint'', n ''pool_quote_token_reserves'')"
    and "(ti_input_mint (xt_trade t), ti_input_amount_atomic (xt_trade t)) =
      (if te_side e = BUY then (m ''quote_mint'', n ''user_quote_amount_in'') else (m ''base_mint'', n ''base_amount_in''))"
    and "(ti_output_mint (xt_trade t), ti_output_amount_atomic (xt_trade t)) =
      (if te_side e = BUY then (m ''base_mint'', n ''base_amount_out'') else (m ''quote_mint'', n ''user_quote_amount_out''))"
    and "map observed (xt_observations t) = expected_observations n"
    and "\<exists>ts. tt_event ts = n ''timestamp'' * 1000000 \<and> sorted [tt_event ts, tt_observed ts, tt_reliable ts, tt_available ts, tt_ingested ts]
      \<and> sn_times (xt_snapshot t) = ts \<and> ti_times (xt_trade t) = ts \<and> list_all (\<lambda>x. ob_times x = ts) (xt_observations t)"
proof -
  obtain ts where order: "validate_time_order (Aware (n ''timestamp'' * 1000000)) (xc_observed_at c) (xc_reliable_at c) (xc_available_at c)
      (xc_ingested_at c) = Inr ts"
    and rows: "trade_rows sha (trade_frame sha e pool c ts) e pool c (side_amounts e pool c) (n ''pool_base_token_reserves'')
      (n ''pool_quote_token_reserves'') (n ''virtual_quote_reserves'') (n ''pool_quote_token_reserves'' + n ''virtual_quote_reserves'') = Inr t"
    using t unfolding project_trade_known [OF e pool] n_def by blast
  let ?fr = "trade_frame sha e pool c ts"
  obtain snapshot trade reserves fees where s: "snapshot_row sha ?fr (m ''base_mint'') (m ''quote_mint'') (xc_base_decimals c) (xc_quote_decimals c)
      (n ''pool_base_token_reserves'') (n ''pool_quote_token_reserves'') (xc_context_slot c) = Inr snapshot"
    and tr: "trade_row sha ?fr e c (side_amounts e pool c) = Inr trade"
    and r: "reserve_observations sha ?fr (m ''quote_mint'') (xc_quote_decimals c) (n ''virtual_quote_reserves'')
      (n ''pool_quote_token_reserves'' + n ''virtual_quote_reserves'') = Inr reserves"
    and f: "mapR (fee_observation sha ?fr (te_fields e) (m ''quote_mint'') (xc_quote_decimals c)) FEE_FIELDS = Inr fees"
    and xt: "t = \<lparr>xt_snapshot = snapshot, xt_trade = trade, xt_observations = reserves @ fees, xt_labels = [''PUMPSWAP_OBSERVED'']\<rparr>"
    using rows unfolding trade_rows_eq_Inr [OF pool] m_def by blast
  have time: "fr_times ?fr = ts" by (simp add: trade_frame_def)
  note snap = snapshot_row_values [OF s]
  have amounts: "(ti_input_mint trade, ti_input_amount_atomic trade) =
      (if te_side e = BUY then (m ''quote_mint'', n ''user_quote_amount_in'') else (m ''base_mint'', n ''base_amount_in''))
    \<and> (ti_output_mint trade, ti_output_amount_atomic trade) =
      (if te_side e = BUY then (m ''base_mint'', n ''base_amount_out'') else (m ''quote_mint'', n ''user_quote_amount_out''))
    \<and> ti_times trade = ts"
    using tr by (auto simp: side_amounts_def Let_def time n_def m_def split: if_splits dest!: trade_row_values)
  have fees: "map observed fees = map (\<lambda>(k, type, mode). if mode = BPS then (type, Some (dec_of_int (n k)), None) else (type, None, Some (n k))) FEE_FIELDS"
    by (rule mapR_values [OF f]) (use fee_values [OF e] in \<open>auto simp: n_def\<close>)
  show "(sn_base_mint (xt_snapshot t), sn_base_reserve_atomic (xt_snapshot t)) = (m ''base_mint'', n ''pool_base_token_reserves'')"
    and "(sn_quote_mint (xt_snapshot t), sn_quote_reserve_atomic (xt_snapshot t)) = (m ''quote_mint'', n ''pool_quote_token_reserves'')"
    using snap by (simp_all add: xt)
  show "(ti_input_mint (xt_trade t), ti_input_amount_atomic (xt_trade t)) =
      (if te_side e = BUY then (m ''quote_mint'', n ''user_quote_amount_in'') else (m ''base_mint'', n ''base_amount_in''))"
    and "(ti_output_mint (xt_trade t), ti_output_amount_atomic (xt_trade t)) =
      (if te_side e = BUY then (m ''base_mint'', n ''base_amount_out'') else (m ''quote_mint'', n ''user_quote_amount_out''))"
    using amounts by (simp_all add: xt)
  show "map observed (xt_observations t) = expected_observations n"
    using reserves_values [OF r] fees by (simp add: xt expected_observations_def)
  have "\<forall>x\<in>set (reserves @ fees). ob_times x = ts" using reserves_values [OF r] fees_times [OF e f] time by auto
  then show "\<exists>ts. tt_event ts = n ''timestamp'' * 1000000 \<and> sorted [tt_event ts, tt_observed ts, tt_reliable ts, tt_available ts, tt_ingested ts]
      \<and> sn_times (xt_snapshot t) = ts \<and> ti_times (xt_trade t) = ts \<and> list_all (\<lambda>x. ob_times x = ts) (xt_observations t)"
    using order [unfolded time_order_eq_Inr] snap amounts time by (intro exI [of _ ts]) (auto simp: xt list_all_iff)
qed


text \<open>The projection of a pool account keeps the balances it was given in the same way.\<close>

lemma pool_touch_holds:
  assumes "decode_pool_account sha (swap_plan_of h) account key owner = Inr pool" and "project_pool_touch sha pool c = Inr t"
  shows "\<exists>v. required_int (pa_fields pool) ''virtual_quote_reserves'' = Inr v
    \<and> sn_base_reserve_atomic (pt_snapshot t) = pc_raw_base_reserve c \<and> sn_quote_reserve_atomic (pt_snapshot t) = pc_raw_quote_reserve c
    \<and> map observed (pt_observations t) = [(''virtual_quote_reserves_atomic'', Some (dec_of_int v), None),
        (''effective_quote_reserves_atomic'', None, Some (pc_raw_quote_reserve c + v))]
    \<and> 0 \<le> pc_raw_quote_reserve c + v \<and> pc_raw_quote_reserve c + v \<le> U64_MAX"
  using assms(2) pool_fields(1,2) [OF assms(1)]
  by (auto simp: project_pool_touch_def bindR_eq_Inr Let_def effective_eq_Inr dest!: snapshot_row_values reserves_values)

end
