(* ===== verification/TradeTouch.thy ===== *)
theory TradeTouch
  imports TouchClaims
begin

section \<open>Properties of the projection of a trade\<close>

text \<open>
  The key of a projected trade identifies the event it came from, an example on which the projection runs, and
  the properties. A collision of the hash is excluded only between the texts that the two projections hash.
\<close>

subsection \<open>Keys\<close>

definition digest_text :: "(bytes \<Rightarrow> string) \<Rightarrow> trade_event \<Rightarrow> trade_context \<Rightarrow> bytes" where
  "digest_text sha e c = utf8_encode (stable_text
     [text_part (sha (utf8_encode (stable_text (identity_parts e c)))), text_part ''trade_orderflow_input''])"

definition hashed_texts :: "(bytes \<Rightarrow> string) \<Rightarrow> bytes \<Rightarrow> trade_event \<Rightarrow> trade_context \<Rightarrow> bytes set" where
  "hashed_texts sha payload e c = {payload, utf8_encode (stable_text (identity_parts e c)), digest_text sha e c}"

lemma text_part_inject: "text_part s = text_part t \<longleftrightarrow> s = t"
  by (simp add: text_part_def)

lemma payload_digest:
  "decode_trade_payload sha (swap_plan_of h) payload = Inr e \<Longrightarrow> te_payload_sha256 e = sha payload"
  by (auto simp: trade_payload_iff trade_event_of_def)

lemma projected_key:
  assumes "decode_trade_payload sha (swap_plan_of h) payload = Inr e"
    and "decode_pool_account sha (swap_plan_of h) account key owner = Inr pool"
    and "project_trade_touch sha e pool c = Inr t"
  shows "ti_idempotency_key (xt_trade t) = sha (digest_text sha e c)" and "list_all scalar (xc_signature c)"
proof -
  obtain ts where rows: "\<exists>raw_base raw_quote v effective.
      trade_rows sha (trade_frame sha e pool c ts) e pool c (side_amounts e pool c) raw_base raw_quote v effective = Inr t"
    using assms(3) unfolding project_trade_known [OF assms(1,2)] by blast
  then obtain trade where "trade_row sha (trade_frame sha e pool c ts) e c (side_amounts e pool c) = Inr trade" "xt_trade t = trade"
    unfolding trade_rows_eq_Inr [OF assms(2)] by auto
  then show "ti_idempotency_key (xt_trade t) = sha (digest_text sha e c)"
    by (cases "side_amounts e pool c") (auto simp: digest_text_def trade_frame_def dest!: trade_row_values)
  show "list_all scalar (xc_signature c)" using assms(3) unfolding project_trade_known [OF assms(1,2)] by blast
qed

lemma key_iff:
  assumes e: "decode_trade_payload sha (swap_plan_of h) payload = Inr e"
      "decode_pool_account sha (swap_plan_of h) account key owner = Inr pool" "project_trade_touch sha e pool c = Inr t"
    and e': "decode_trade_payload sha (swap_plan_of h) payload' = Inr e'"
      "decode_pool_account sha (swap_plan_of h) account' key' owner' = Inr pool'" "project_trade_touch sha e' pool' c' = Inr t'"
    and inj: "inj_on sha (hashed_texts sha payload e c \<union> hashed_texts sha payload' e' c')"
  shows "ti_idempotency_key (xt_trade t) = ti_idempotency_key (xt_trade t') \<longleftrightarrow>
    payload = payload' \<and> xc_signature c = xc_signature c' \<and> xc_instruction_index c = xc_instruction_index c'
    \<and> xc_event_index c = xc_event_index c' \<and> xc_context_slot c = xc_context_slot c'"
proof -
  let ?id = "\<lambda>e c. utf8_encode (stable_text (identity_parts e c))"
  have free: "sha x = sha y \<longleftrightarrow> x = y"
    if "x \<in> hashed_texts sha payload e c \<union> hashed_texts sha payload' e' c'"
      "y \<in> hashed_texts sha payload e c \<union> hashed_texts sha payload' e' c'" for x y
    using inj that by (auto dest: inj_onD)
  have "sha (digest_text sha e c) = sha (digest_text sha e' c') \<longleftrightarrow> digest_text sha e c = digest_text sha e' c'"
    by (rule free) (simp_all add: hashed_texts_def)
  also have "\<dots> \<longleftrightarrow> sha (?id e c) = sha (?id e' c')"
    unfolding digest_text_def by (subst stable_bytes_inject) (simp_all add: stable_text_scalar text_part_inject)
  also have "\<dots> \<longleftrightarrow> ?id e c = ?id e' c'" by (rule free) (simp_all add: hashed_texts_def)
  also have "\<dots> \<longleftrightarrow> identity_parts e c = identity_parts e' c'"
    by (rule stable_bytes_inject) (simp_all add: stable_text_scalar identity_scalar projected_key(2) [OF e] projected_key(2) [OF e'])
  also have "\<dots> \<longleftrightarrow> sha payload = sha payload' \<and> xc_signature c = xc_signature c'
    \<and> xc_instruction_index c = xc_instruction_index c' \<and> xc_event_index c = xc_event_index c' \<and> xc_context_slot c = xc_context_slot c'"
    by (simp add: identity_parts_def text_part_inject payload_digest [OF e(1)] payload_digest [OF e'(1)])
  also have "sha payload = sha payload' \<longleftrightarrow> payload = payload'" by (rule free) (simp_all add: hashed_texts_def)
  finally show ?thesis by (simp only: projected_key(1) [OF e] projected_key(1) [OF e'])
qed

subsection \<open>An example\<close>

text \<open>A hash with 64 digits that keeps the texts of the example apart: the first digits show the length, the last
  one the parity of two places.\<close>

definition demo_hash :: "bytes \<Rightarrow> string" where
  "demo_hash x = replicate 63 (if length x < 120 then CHR ''a'' else if length x < 250 then CHR ''b'' else CHR ''c'')
     @ [if even (unat (rev x ! 4) + unat (rev x ! 26)) then CHR ''0'' else CHR ''1'']"

definition demo_key_text :: "8 word \<Rightarrow> ustr" where
  "demo_key_text b = ustr (base58_encode (replicate 32 b))"

definition demo_swap_value :: "string \<Rightarrow> swap_type \<Rightarrow> borsh_value" where
  "demo_swap_value k t =
     (case t of SBool \<Rightarrow> VBool True | SString \<Rightarrow> VText (ustr ''sell'')
      | SPubkey \<Rightarrow> VText (demo_key_text (if k \<in> {''base_mint'', ''pool_base_token_account''} then 1 else 2))
      | SI64 \<Rightarrow> VInt 1753574400
      | SI128 \<Rightarrow> VInt (- 5)
      | _ \<Rightarrow> VInt (if k = ''pool_quote_token_reserves'' then 90 else 7))"

definition demo_row_of :: "string \<Rightarrow> row" where
  "demo_row_of n = map (\<lambda>(k, t). (k, demo_swap_value k t)) (the (map_of SWAP_FIELDS n))"

definition demo_pool_touch :: pool_account where
  "demo_pool_touch = \<lparr>pa_pubkey = demo_key_text 2, pa_fields = demo_row_of ''Pool'',
     pa_payload_sha256 = demo_hash (layout_bytes ''Pool'' (demo_row_of ''Pool''))\<rparr>"

definition demo_instant :: int where
  "demo_instant = 1753574400000000"

definition demo_context :: "int \<Rightarrow> trade_context" where
  "demo_context index = \<lparr>xc_base_decimals = 6, xc_quote_decimals = 9, xc_signature = ustr (replicate 88 (CHR ''5'')),
     xc_instruction_index = 2, xc_event_index = index, xc_context_slot = 35, xc_observed_at = Aware (demo_instant + 400000),
     xc_reliable_at = Aware (demo_instant + 500000), xc_available_at = Aware (demo_instant + 500000),
     xc_ingested_at = Aware (demo_instant + 900000), xc_raw_event_id = ustr ''raw-1'', xc_source = ustr ''SOLANA_LOGS_SUBSCRIBE'',
     xc_source_version = ustr PUMPSWAP_IDL_COMMIT\<rparr>"

lemma demo_hash_ok: "hash_ok demo_hash"
  by (auto simp: hash_ok_def hash64_def demo_hash_def list_all_iff)

lemma demo_key_ok: "ok_pubkey (VText (demo_key_text b))"
  using base58_bytes_encode [of "replicate 32 b"] by (simp add: ok_pubkey_def demo_key_text_def)

lemma demo_value_ok: "ok_swap t (demo_swap_value k t)"
  by (cases t) (simp_all add: demo_swap_value_def demo_key_ok ok_signed_def ok_unsigned_def ok_bool_def ok_string_def
      utf8_point_def MAX_STRING_BYTES_def)

lemma demo_row_ok: "n \<in> set swap_names \<Longrightarrow> layout_row_ok n (demo_row_of n)"
  unfolding layout_row_ok_def ok_fields_def demo_row_of_def pinned_layout_fields
  by (simp add: list_all2_conv_all_nth demo_value_ok case_prod_beta)


subsection \<open>The texts of the example\<close>

definition demo_payload :: bytes where
  "demo_payload = layout_bytes ''SellEvent'' (demo_row_of ''SellEvent'')"

definition demo_trade :: trade_event where
  "demo_trade = trade_event_of demo_hash ''SellEvent'' (demo_row_of ''SellEvent'')"

lemma demo_decoded:
  "decode_trade_payload demo_hash (swap_plan_of h) demo_payload = Inr demo_trade"
  "decode_pool_account demo_hash (swap_plan_of h) (layout_bytes ''Pool'' (demo_row_of ''Pool'')) (demo_key_text 2) PUMPSWAP_PROGRAM_ID
     = Inr demo_pool_touch"
proof -
  show "decode_trade_payload demo_hash (swap_plan_of h) demo_payload = Inr demo_trade"
    unfolding trade_payload_iff demo_payload_def demo_trade_def using demo_row_ok swap_names_simps by blast
  have differ: "demo_key_text 1 \<noteq> demo_key_text 2"
    using base58_inject [of "replicate 32 1" "replicate 32 2"] by (simp add: demo_key_text_def)
  have "demo_key_text 2 \<noteq> []" using ok_pubkey_text demo_key_ok by blast
  then show "decode_pool_account demo_hash (swap_plan_of h) (layout_bytes ''Pool'' (demo_row_of ''Pool'')) (demo_key_text 2) PUMPSWAP_PROGRAM_ID
     = Inr demo_pool_touch"
    unfolding pool_account_iff using demo_row_ok [of "''Pool''"] differ
    by (simp add: demo_pool_touch_def swap_names_simps demo_row_of_def SWAP_FIELDS_def demo_swap_value_def)
qed

lemma demo_touch: "\<exists>t. project_trade_touch demo_hash demo_trade demo_pool_touch (demo_context index) = Inr t"
proof -
  have d: "te_fields demo_trade = demo_row_of ''SellEvent''" by (simp add: demo_trade_def trade_event_of_def)
  show ?thesis
    unfolding trade_touch_iff [OF demo_hash_ok demo_decoded] d demo_row_of_def
    by (simp add: SWAP_FIELDS_def demo_swap_value_def number_of_field_def text_of_field_def demo_context_def demo_instant_def
        U64_MAX_def decimals_ok_def representable_def MIN_SECOND_def MAX_SECOND_def ustr_scalar)
qed


lemma utf8_ascii: "list_all (\<lambda>p. p < 128) t \<Longrightarrow> utf8_encode t = map byte t"
  by (induction t) (simp_all add: utf8_point_def)

lemma plain_escape: "32 \<le> p \<Longrightarrow> p \<noteq> 34 \<Longrightarrow> p \<noteq> 92 \<Longrightarrow> json_escape p = [p]"
  by (simp add: json_escape_def)

lemma concat_single: "concat (replicate n [x]) = replicate n x"
  by (induction n) auto

lemma ustr_replicate: "ustr (replicate n c) = replicate n (of_char c)"
  by (simp add: ustr_def)

lemma demo_payload_digest: "\<exists>d\<in>{CHR ''0'', CHR ''1''}. demo_hash demo_payload = replicate 63 (CHR ''c'') @ [d]"
proof -
  have "length (write_pubkey (VText (demo_key_text b))) = 32" for b
    using base58_bytes_encode [of "replicate 32 b"] by (simp add: write_pubkey_def demo_key_text_def)
  moreover have "length (write_unsigned 8 (VInt i)) = 8" for i by (simp add: write_unsigned_def)
  ultimately have "250 \<le> length demo_payload"
    by (simp add: demo_payload_def layout_bytes_def write_fields_def pinned_layout_fields SWAP_FIELDS_def demo_row_of_def demo_swap_value_def)
  then show ?thesis by (simp add: demo_hash_def)
qed

lemma demo_identity:
  assumes "index \<in> {0, 1}"
  shows "demo_hash (utf8_encode (stable_text (identity_parts demo_trade (demo_context index))))
    = replicate 63 (CHR ''b'') @ [if index = 0 then CHR ''1'' else CHR ''0'']"
proof -
  obtain d where d: "d \<in> {CHR ''0'', CHR ''1''}" "te_payload_sha256 demo_trade = replicate 63 (CHR ''c'') @ [d]"
    using demo_payload_digest by (auto simp: demo_trade_def trade_event_of_def demo_payload_def)
  let ?i = "if index = 0 then 48 else 49 :: nat"
  have i: "int_chars index = [?i]" "int_chars 2 = [50]" "int_chars 35 = [51, 53]"
    using assms by (auto simp: int_chars_def dec_text_int sign_text_def digits_of.simps digit_char_def)
  have c: "32 \<le> (of_char d :: nat)" "(of_char d :: nat) < 128" "(of_char d :: nat) \<noteq> 34" "(of_char d :: nat) \<noteq> 92" using d(1) by auto
  have "stable_text (identity_parts demo_trade (demo_context index)) =
    [91, 34] @ replicate 63 99 @ [of_char d, 34, 44, 34] @ replicate 88 53 @ [34, 44, 50, 44, ?i, 44, 51, 53, 93]" (is "?t = ?u")
    unfolding stable_text_def identity_parts_def demo_context_def d(2)
    using c by (simp add: text_part_def i ustr_replicate plain_escape concat_single)
  then have "utf8_encode ?t = map byte ?u"
    using utf8_ascii [of ?u] c by (simp add: list_all_iff del: utf8_encode_simps)
  then show ?thesis
    by (simp add: demo_hash_def rev_map nth_append unat_byte)
qed

lemma demo_digest:
  assumes "index \<in> {0, 1}"
  shows "demo_hash (digest_text demo_hash demo_trade (demo_context index))
    = replicate 63 (CHR ''a'') @ [if index = 0 then CHR ''1'' else CHR ''0'']"
proof -
  let ?d = "if index = 0 then CHR ''1'' else CHR ''0''"
  have "stable_text [text_part (replicate 63 (CHR ''b'') @ [?d]), text_part ''trade_orderflow_input''] =
    [91, 34] @ replicate 63 98 @ [of_char ?d, 34, 44, 34] @ ustr ''trade_orderflow_input'' @ [34, 93]" (is "?t = ?u")
    by (simp add: stable_text_def text_part_def ustr_replicate plain_escape concat_single)
  then have "utf8_encode ?t = map byte ?u"
    using utf8_ascii [of ?u] by (simp add: list_all_iff del: utf8_encode_simps)
  then show ?thesis unfolding digest_text_def demo_identity [OF assms]
    by (simp add: demo_hash_def rev_map nth_append unat_byte)
qed

lemma demo_apart:
  "inj_on demo_hash (hashed_texts demo_hash demo_payload demo_trade (demo_context 0)
     \<union> hashed_texts demo_hash demo_payload demo_trade (demo_context 1))"
proof -
  obtain d where "demo_hash demo_payload = replicate 63 (CHR ''c'') @ [d]" using demo_payload_digest by blast
  then show ?thesis
    using demo_identity [of 0] demo_identity [of 1] demo_digest [of 0] demo_digest [of 1]
    by (simp add: hashed_texts_def inj_on_def)
qed


subsection \<open>Properties\<close>

text \<open>C38: when a decoded trade is projected. For a trade and a pool account that the decoders returned, the projection
  returns exactly when the pool is the one of the trade, the signature can be encoded, the effective quote reserve
  raw + virtual fits an unsigned 64-bit number, decimals and slot are in range, and event, observation, reliability,
  availability and ingestion are aware, representable and in this order. Nothing else in the rows can make it raise.\<close>

theorem trade_touch_exact:
  assumes "hash_ok sha" and "decode_trade_payload sha (swap_plan_of h) payload = Inr e"
    and "decode_pool_account sha (swap_plan_of h) account key owner = Inr pool"
  shows "(\<exists>t. project_trade_touch sha e pool c = Inr t) \<longleftrightarrow>
    text_of_field (te_fields e) ''pool'' = key \<and> list_all scalar (xc_signature c)
    \<and> 0 \<le> number_of_field (te_fields e) ''pool_quote_token_reserves'' + number_of_field (te_fields e) ''virtual_quote_reserves''
    \<and> number_of_field (te_fields e) ''pool_quote_token_reserves'' + number_of_field (te_fields e) ''virtual_quote_reserves'' \<le> U64_MAX
    \<and> decimals_ok (xc_base_decimals c) \<and> decimals_ok (xc_quote_decimals c) \<and> 0 \<le> xc_context_slot c
    \<and> (\<exists>obs rel av ing. xc_observed_at c = Aware obs \<and> xc_reliable_at c = Aware rel \<and> xc_available_at c = Aware av
        \<and> xc_ingested_at c = Aware ing \<and> sorted [number_of_field (te_fields e) ''timestamp'' * 1000000, obs, rel, av, ing]
        \<and> list_all representable [number_of_field (te_fields e) ''timestamp'' * 1000000, obs, rel, av, ing])"
  by (rule trade_touch_iff [OF assms])

lemma trade_touch_exact_witness:
  "(\<exists>t. project_trade_touch demo_hash demo_trade demo_pool_touch (demo_context 0) = Inr t)
   \<and> sorted [number_of_field (te_fields demo_trade) ''timestamp'' * 1000000, demo_instant + 400000, demo_instant + 500000,
       demo_instant + 500000, demo_instant + 900000]"
  using trade_touch_exact [OF demo_hash_ok demo_decoded, of "demo_context 0"] demo_touch [of 0]
  by (auto simp: demo_context_def)

text \<open>C39: a projected trade keeps what was decoded. The snapshot carries the raw reserves of the event, never the
  effective ones; a buy pays quote for base and a sell base for quote, with the amounts of the event; the observations are
  the virtual reserve, raw + virtual as the effective one, and the ten fees, each once and unrounded; every row has the same
  times, which start with the event and are in order.\<close>

theorem trade_touch_lossless:
  assumes "decode_trade_payload sha (swap_plan_of h) payload = Inr e"
    and "decode_pool_account sha (swap_plan_of h) account key owner = Inr pool" and "project_trade_touch sha e pool c = Inr t"
    and "n = number_of_field (te_fields e)" and "m = text_of_field (pa_fields pool)"
  shows "(sn_base_mint (xt_snapshot t), sn_base_reserve_atomic (xt_snapshot t)) = (m ''base_mint'', n ''pool_base_token_reserves'')
    \<and> (sn_quote_mint (xt_snapshot t), sn_quote_reserve_atomic (xt_snapshot t)) = (m ''quote_mint'', n ''pool_quote_token_reserves'')
    \<and> (ti_input_mint (xt_trade t), ti_input_amount_atomic (xt_trade t)) =
      (if te_side e = BUY then (m ''quote_mint'', n ''user_quote_amount_in'') else (m ''base_mint'', n ''base_amount_in''))
    \<and> (ti_output_mint (xt_trade t), ti_output_amount_atomic (xt_trade t)) =
      (if te_side e = BUY then (m ''base_mint'', n ''base_amount_out'') else (m ''quote_mint'', n ''user_quote_amount_out''))
    \<and> map observed (xt_observations t) = expected_observations n
    \<and> (\<exists>ts. tt_event ts = n ''timestamp'' * 1000000
        \<and> sorted [tt_event ts, tt_observed ts, tt_reliable ts, tt_available ts, tt_ingested ts]
        \<and> sn_times (xt_snapshot t) = ts \<and> ti_times (xt_trade t) = ts \<and> list_all (\<lambda>x. ob_times x = ts) (xt_observations t))"
  using trade_touch_holds [OF assms(1-3)] unfolding assms(4,5) by blast

lemma trade_touch_lossless_witness:
  "\<exists>t. project_trade_touch demo_hash demo_trade demo_pool_touch (demo_context 0) = Inr t
    \<and> map observed (xt_observations t) = expected_observations (number_of_field (te_fields demo_trade))"
proof -
  obtain t where t: "project_trade_touch demo_hash demo_trade demo_pool_touch (demo_context 0) = Inr t" using demo_touch by blast
  from trade_touch_lossless [OF demo_decoded t refl refl] t show ?thesis by blast
qed

text \<open>C40: the idempotency key of a projected trade identifies the event. Unless the hash collides on one of the texts
  the two projections hash, two projections have the same key exactly when they come from the same payload at the same
  place: signature, instruction, event and slot.\<close>

theorem trade_key_identifies:
  assumes "decode_trade_payload sha (swap_plan_of h) payload = Inr e"
    and "decode_pool_account sha (swap_plan_of h) account key owner = Inr pool" and "project_trade_touch sha e pool c = Inr t"
    and "decode_trade_payload sha (swap_plan_of h) payload' = Inr e'"
    and "decode_pool_account sha (swap_plan_of h) account' key' owner' = Inr pool'" and "project_trade_touch sha e' pool' c' = Inr t'"
    and "inj_on sha (hashed_texts sha payload e c \<union> hashed_texts sha payload' e' c')"
  shows "ti_idempotency_key (xt_trade t) = ti_idempotency_key (xt_trade t') \<longleftrightarrow>
    payload = payload' \<and> xc_signature c = xc_signature c' \<and> xc_instruction_index c = xc_instruction_index c'
    \<and> xc_event_index c = xc_event_index c' \<and> xc_context_slot c = xc_context_slot c'"
  by (rule key_iff [OF assms])

lemma trade_key_identifies_witness:
  "\<exists>t t'. project_trade_touch demo_hash demo_trade demo_pool_touch (demo_context 0) = Inr t
    \<and> project_trade_touch demo_hash demo_trade demo_pool_touch (demo_context 1) = Inr t'
    \<and> ti_idempotency_key (xt_trade t) \<noteq> ti_idempotency_key (xt_trade t')"
proof -
  obtain t t' where t: "project_trade_touch demo_hash demo_trade demo_pool_touch (demo_context 0) = Inr t"
    and t': "project_trade_touch demo_hash demo_trade demo_pool_touch (demo_context 1) = Inr t'" using demo_touch by blast
  from trade_key_identifies [OF demo_decoded t demo_decoded t' demo_apart] t t' show ?thesis
    by (auto simp: demo_context_def)
qed

end
