(* ===== verification/Spec2Isabelle.thy ===== *)
theory Spec2Isabelle
  imports PaperAdmission PaperEntry PaperLegClaims RiskHeadline PolicyClaims AdmissionClaims EnvelopeClaims
    BudgetRuns PacingClaims ModeledWitness SignalDemo PumpClaims TradeTouch
begin

text \<open>
  A verification library for four parts of solana-alpha-lab: three that keep money and budgets, the paper
  trading plane with its risk economics, the runtime policy in front of it, and the accounting of the
  observation scheduler; and the decoders through which events of the chain enter. Paths are under \<open>src/src/solana_alpha_lab/\<close>.

  \<^bold>\<open>Paper trading plane\<close> (\<open>factory/paper_plane.py\<close>, class \<open>PaperPlaneStore\<close>). A bot opens a position, an
  entry is admitted, attempted and filled, the position is marked and leaves by one exit or by quantity
  legs, and every fill is written once to an append-only log of execution events.
  \<^item> \<open>PaperStore\<close>: the tables as records (\<open>position\<close>, \<open>bot\<close>, event and mark rows), the state machine
    \<open>TRANSITIONS\<close>, \<open>transition\<close>, the event log with its idempotency keys. A transaction that raises leaves
    the store as it was, so an operation is a function to an error or a new store.
  \<^item> \<open>PaperControl\<close>: opening, freezing the admission, cancelling, suspension, operator commands, exit
    decisions. \<open>PaperFills\<close>: marks and entry fills. \<open>PaperExits\<close>: the exit fill and the quantity legs,
    with the decimal arithmetic of the code in its order.
  \<^item> \<open>PaperWitness\<close> and \<open>PaperInventory\<close>: the validators that read modelled results and quantities back
    from the original events. \<open>OperatingScope\<close>: the operating scope of a mode, its bindings and the lineage
    of its switches. \<open>PaperModeled\<close> and \<open>PaperAttempt\<close>: \<open>begin_modeled_attempt\<close> and
    \<open>accept_modeled_result\<close>. \<open>Obligations\<close>: what a mode still owes (\<open>obligation_positions\<close>,
    \<open>obligation_summary\<close>, \<open>enforce_operating_envelope\<close>).
  \<^item> \<open>PaperSignal\<close>: starting a bot, and \<open>accept_signal_decision_outcome\<close>, which ties bot, policy, admission,
    envelope, opening and filling together; \<open>accept_exit_decision\<close>.
  \<^item> \<open>PaperAdvance\<close>, \<open>PaperPlane\<close> and \<open>SignalPlane\<close> prove that every operation moves the store forward
    (\<open>store_advance\<close>). \<open>ModeledPlane\<close> makes all of them, with the policy and envelope commands, calls of one
    state machine (\<open>desk_call\<close>, \<open>run_desk\<close>), and \<open>DeskClaims\<close> states what no sequence of calls can undo.
  \<^item> \<open>ObligationClaims\<close>, \<open>ModeledClaims\<close> and \<open>ModeledWitness\<close>: an attempt is sent once and only when nothing
    is unknown, a result is recorded once, and what is recorded passes the independent validator.
    \<open>SignalFacts\<close>, \<open>SignalClaims\<close> and \<open>SignalDemo\<close>: a new entry was admitted, on record, and keeps the limits, a refusal
    fills nothing and leaves one denial, no fill passes a stop, a repeated decision changes nothing; the last is a desk on which
    these are evaluated.
  \<^item> \<open>PaperLedger\<close>, \<open>PaperEntry\<close>, \<open>PaperLegs\<close>, \<open>PaperLegClaims\<close> and
    \<open>PaperAdmission\<close> state what the fills book, that a leg takes its share of cost and fee, that a repeated fill
    changes nothing, that quantities are conserved, that a fill stays within its admission and that limits hold
    after an open.

  \<^bold>\<open>Risk economics\<close> (\<open>factory/risk_economics.py\<close>). \<open>RiskRows\<close> classifies the rows of the plane, \<open>RiskScopes\<close>
  groups them and computes drawdown, loss streak, limits and exposure, \<open>RiskCompose\<close> is
  \<open>compose_risk_economics\<close>. \<open>RiskClaims\<close> shows that what the plane books is read as trusted with the same
  amounts; \<open>RiskPaths\<close> compares the loops with reference definitions; \<open>RiskHeadline\<close> shows that scopes
  partition the reconciled rows and that a headline never mixes evidence.

  \<^bold>\<open>Runtime policy\<close> (\<open>factory/trading_runtime_policy.py\<close>). \<open>RuntimePolicy\<close> reads the policy in force,
  normalizes bodies and classifies changes, \<open>PolicyWrite\<close> applies and rolls back, \<open>RuntimeAdmission\<close> is
  \<open>evaluate_admission\<close>. \<open>RuntimePolicyFacts\<close>, \<open>PolicyChain\<close>, \<open>PolicyClaims\<close>, \<open>PolicyDiff\<close> and
  \<open>AdmissionClaims\<close> hold the proofs: the log of revisions is a chain that is only extended, what is applied
  is in force, a rollback restores, a replay changes nothing, an unrelaxed change loosens no limit of the body and
  none in force for a strategy without a new override of it, and admission is exact. \<open>OperatingEnvelope\<close> and \<open>EnvelopeClaims\<close> do the same for the owner's operating
  envelope of \<open>factory/paper_plane.py\<close>.

  \<^bold>\<open>Observation scheduling\<close>. \<open>ScheduleStore\<close> models the writer lease, the provider counters and the shared
  account budget of \<open>factory/observation_schedule_store.py\<close>; \<open>ScheduleAccounting\<close> the class \<open>_Accounting\<close> of
  \<open>factory/observation_scheduler.py\<close>; \<open>ProviderPacing\<close> all of
  \<open>factory/observation_provider_pacing.py\<close>. \<open>ScheduleLease\<close> interleaves processes as a step relation and
  shows that the lease fences writers; \<open>BudgetClaims\<close> gives the answer of the gate in numbers over the stored
  counters; \<open>BudgetRuns\<close> shows that no
  interleaving of reservations overspends an activation or the account; \<open>PacingClaims\<close> shows that waiting
  ends within the wall budget and that a paced slot opens, for the wall clock as for the clocks of the tests, and
  how many calls a tick holds.

  \<^bold>\<open>Decoders\<close> (\<open>pump_event_decoder.py\<close>, \<open>pumpswap_touch_decoder.py\<close>). A decoder compiles a pinned document
  into a plan and reads log lines and accounts by that plan. What both hold in the same words is modelled once:
  \<open>Base58\<close> (keys as text), \<open>Borsh\<close> (the reader with its offset and the reading of each type) and
  \<open>PinnedDocument\<close> (the checks on the document). \<open>PumpEvent\<close> and \<open>PumpSwap\<close> are the two decoders.
  \<open>PumpCodec\<close> bounds the nesting of types and gives the reference writer, \<open>PumpSubset\<close> shows that exactly one
  document compiles, \<open>PumpClaims\<close> that written events are read back and that decoded ones are well typed, and
  \<open>SwapClaims\<close> that pool accounts and trades are accepted exactly when they are written by the layout.
  \<open>PumpTouch\<close> projects what PumpSwap decoded onto rows of the canonical schema, with the validators of
  \<open>contracts/schema_v1.py\<close> for these rows; \<open>HashText\<close> is the text behind \<open>_stable_hash\<close> and the proof that no two
  tuples share it. \<open>TouchClaims\<close> and \<open>TradeTouch\<close> show when a decoded trade is projected, that nothing of it is
  lost or substituted, and that the key of the row identifies the event.

  \<^bold>\<open>Prelude\<close>. \<open>PyResult\<close>: raised errors as values, sequencing, and the locale \<open>row_table\<close> of keyed rows, which
  every table of the model interprets. \<open>PyDecimal\<close> and \<open>PyDecimalText\<close>: the decimal arithmetic of the
  standard library and its texts; \<open>DecimalRounding\<close>: how far sums, products and quotients are from the exact
  ones. \<open>PyJson\<close>: JSON values. \<open>PyTime\<close>: ISO timestamps. \<open>PyBytes\<close>: bytes, integers
  in bytes, UTF-8 and base64, each with the proof that it inverts its encoder.

  \<^bold>\<open>Interfaces\<close>. \<open>row_table\<close> (tables), \<open>policy_writer\<close> (the two policy commands), \<open>fence\<close> (the lease operations),
  \<open>pacing_gate\<close> (a gate that opens after its pace) and \<open>plane_operation\<close> (what every operation of the plane
  keeps, interpreted on the plane's calls and on those of the desk) are interpreted on the model's own
  operations, and the properties rest on the interpretations. \<open>codec\<close> is the contract of a reader with its
  writer: what is written is read back and nothing else is read; it is interpreted on the readers of single
  types, and \<open>codec_family\<close>, which lifts it to rows and vectors, on the types of both decoders.

  \<^bold>\<open>Bounds\<close>.
  \<^item> Decimals have the default context of 28 digits, rounding half to even, without the limits of the
    exponent: properties on exact sums carry ranges (\<open>exit_inputs\<close>, \<open>leg_inputs\<close>, \<open>readable_exposures\<close>)
    in which sums are not rounded, and their witnesses lie in them; the shares of a leg are rounded, and its
    property states the error.
  \<^item> What the wall clock reads depends on the history of readings and sleeps and is a parameter. Two laws are
    relied on where a property names them: \<open>steady\<close> (it does not go back and a sleep lasts its length) and
    \<open>prompt\<close> (at most a given delay passes between two steps).
  \<^item> The fence of a write (\<open>require_write_lease\<close>) is one step; the code reads the lease and then updates it under
    the guard of the token. A refused reservation of \<open>fleet_do\<close> reads its accounting object from the store again,
    where the code keeps the object; the limits of the account, the day and the lifetime are unaffected.
  \<^item> Timestamps are read in the extended ISO form. Instants of the scheduler are microseconds, and their
    comparison as text is written out (\<open>stamp_before\<close>).
  \<^item> No fuel is used: loops over rows are structural, \<open>digits_of\<close>, \<open>wait_for_provider_slot\<close> and
    \<open>legacy_loop\<close> have termination proofs.
  \<^item> \<open>decode_type\<close> carries a bound on its nesting, one more than the bytes of the payload; lemma
    \<open>decode_type_depth\<close> shows that a larger bound reads the same, since every vector takes four bytes for its
    length; the pinned types need two levels. The rule of \<open>b64decode\<close> on excess padding differs between interpreters and is the argument
    \<open>refuse\<close>; the properties hold for both. Decoded texts are lists of code points.
  \<^item> A JSON number with a fraction keeps its text, and \<open>Decimal(str(x))\<close> reads that text.
  \<^item> The second transaction of \<open>accept_signal_decision_outcome\<close> gives no store when it raises, which is what
    remains when the caller's own transaction, in which both nest, is rolled back.
  \<^item> SHA-256 of a canonical document is a parameter; where its form matters the hypothesis \<open>sha_ok\<close> says
    that a digest has 64 characters, \<open>hash_ok\<close> that they are hexadecimal digits. A collision is excluded only
    between the texts that the calls of one property hash.
  \<^item> A lookup over a table without ORDER BY reads rows in the order of insertion; a stored policy body that
    is not JSON is \<open>None\<close>; an error returns no store, so the renewal of a lease that the code commits
    before a later check of the same call fails is not kept.

  \<^bold>\<open>Not modelled\<close>.
  \<^item> SQLite itself: schema migrations, \<open>read_snapshot\<close>, busy timeouts and \<open>OperationalError\<close>, the identity of
    the database file and the reclaim guard. The wall clock, \<open>uuid4\<close>, the files of strategies and the row
    of \<open>ordinary_state\<close>, a table of the trading coordinator, are parameters.
  \<^item> Of \<open>paper_plane.py\<close>: the legacy commissioning run and the shadow observation (\<open>run_commissioning\<close>,
    \<open>observe_shadow\<close>, \<open>run_shadow_tick\<close>); of \<open>trading_runtime_policy.py\<close>: restoring an operating
    configuration. No modelled operation calls them.
  \<^item> Of the observation store and scheduler: activations, members, intents, publication jobs, managed
    profiles, and the tick that ties them together.
  \<^item> Of the decoders: reading the fixture file and comparing its digest (\<open>load_pinned_pump_event_plan\<close>,
    \<open>load_pinned_pumpswap_plan\<close>), which is file access and \<open>json.loads\<close>; the digest of a payload is a parameter.
  \<^item> The rows of \<open>contracts/schema_v1.py\<close> that no modelled operation builds.
  \<^item> The rest of the repository: research sessions (\<open>hfic_\<close> modules), release and publication of
    corpora, transports of providers, remote operation, and the scripts around them.
\<close>

end
